(* ===== verification/Prelude.thy ===== *)
theory Prelude
  imports Complex_Main "HOL-Library.Word"
begin

text \<open>
  The development's shared vocabulary: errors of the Python runtime, the result
  type of fallible code, tables as lists of rows with the SQL operations the code uses on them, and
  the generic lemmas (on results, lists and tables) that the component theories rest on.
  Instants and durations are whole microseconds, the resolution of \<open>datetime\<close> and
  \<open>timedelta\<close>; instants count from the Unix epoch, in UTC.
\<close>

named_theorems table_simps \<open>rewriting of table operations\<close>
named_theorems store_inv \<open>preservation of the stores' invariants by the operations on them\<close>

section \<open>Fallible code\<close>

datatype py_error =
    ValueError
  | KeyError
  | OverflowError
  | ZeroDivisionError
  | TypeError
  | AttributeError
  | IndexError
  | IntegrityError
  | CardinalityViolation

type_synonym 'a result = "py_error + 'a"

fun try_bind :: "'e + 'a \<Rightarrow> ('a \<Rightarrow> 'e + 'b) \<Rightarrow> 'e + 'b" where
  "try_bind (Inl e) f = Inl e"
| "try_bind (Inr x) f = f x"

fun is_ok :: "'e + 'a \<Rightarrow> bool" where
  "is_ok (Inl e) = False"
| "is_ok (Inr x) = True"

lemma try_bind_eq_Inr [simp]:
  "(try_bind m f = Inr y) = (\<exists>x. m = Inr x \<and> f x = Inr y)"
  by (cases m) auto

lemma try_bind_eq_Inl:
  "(try_bind m f = Inl e) = (m = Inl e \<or> (\<exists>x. m = Inr x \<and> f x = Inl e))"
  by (cases m) auto

lemma is_ok_iff: "is_ok r = (\<exists>x. r = Inr x)"
  by (cases r) auto

lemma is_ok_bind: "is_ok m \<Longrightarrow> (\<And>x. m = Inr x \<Longrightarrow> is_ok (f x)) \<Longrightarrow> is_ok (try_bind m f)"
  by (cases m) auto

text \<open>Looking a key up in a dictionary literal, with Python's \<open>KeyError\<close>.\<close>

definition dict_get :: "('k \<times> 'v) list \<Rightarrow> 'k \<Rightarrow> 'v result" where
  "dict_get d k = (case map_of d k of None \<Rightarrow> Inl KeyError | Some v \<Rightarrow> Inr v)"

lemma dict_get_Inr: "(dict_get d k = Inr v) = (map_of d k = Some v)"
  by (simp add: dict_get_def split: option.splits)

section \<open>Instants and durations\<close>

type_synonym datetime = int
type_synonym timedelta = int

definition microseconds :: "int \<Rightarrow> timedelta" where "microseconds n = n"
definition seconds :: "int \<Rightarrow> timedelta" where "seconds n = 1000000 * n"
definition minutes :: "int \<Rightarrow> timedelta" where "minutes n = 60000000 * n"
definition hours :: "int \<Rightarrow> timedelta" where "hours n = 3600000000 * n"
definition days :: "int \<Rightarrow> timedelta" where "days n = 86400000000 * n"

lemmas duration_defs = microseconds_def seconds_def minutes_def hours_def days_def

section \<open>Identifiers\<close>

type_synonym uuid = "128 word"

section \<open>Tables\<close>

text \<open>
  A table is the list of its rows in insertion order. A \<open>UNIQUE\<close> constraint over a
  key of the row is \<open>uniq_by\<close>, an invariant that the operations of the stores keep.
\<close>

definition uniq_by :: "('r \<Rightarrow> 'k) \<Rightarrow> 'r list \<Rightarrow> bool" where
  "uniq_by key rows = distinct (map key rows)"

definition find_row :: "('r \<Rightarrow> bool) \<Rightarrow> 'r list \<Rightarrow> 'r option" where
  "find_row P rows = List.find P rows"

definition count_rows :: "('r \<Rightarrow> bool) \<Rightarrow> 'r list \<Rightarrow> nat" where
  "count_rows P rows = length (filter P rows)"

definition update_rows :: "('r \<Rightarrow> bool) \<Rightarrow> ('r \<Rightarrow> 'r) \<Rightarrow> 'r list \<Rightarrow> 'r list" where
  "update_rows P f rows = map (\<lambda>r. if P r then f r else r) rows"

definition delete_rows :: "('r \<Rightarrow> bool) \<Rightarrow> 'r list \<Rightarrow> 'r list" where
  "delete_rows P rows = filter (\<lambda>r. \<not> P r) rows"

text \<open>\<open>INSERT ... ON CONFLICT (key) DO NOTHING\<close>.\<close>

definition insert_new :: "('r \<Rightarrow> 'k) \<Rightarrow> 'r \<Rightarrow> 'r list \<Rightarrow> 'r list" where
  "insert_new key r rows = (if key r \<in> key ` set rows then rows else rows @ [r])"

subsection \<open>Rows found and counted\<close>

lemma find_row_SomeD: "find_row P rows = Some r \<Longrightarrow> r \<in> set rows \<and> P r"
  by (auto simp: find_row_def find_Some_iff)

lemma find_row_None: "(find_row P rows = None) = (\<forall>r \<in> set rows. \<not> P r)"
  by (auto simp: find_row_def find_None_iff)

lemma uniq_by_inj: "uniq_by key rows \<Longrightarrow> r \<in> set rows \<Longrightarrow> s \<in> set rows \<Longrightarrow>
    key r = key s \<Longrightarrow> r = s"
  by (auto simp: uniq_by_def distinct_map dest: inj_onD)

lemma find_row_key:
  assumes "uniq_by key rows" "r \<in> set rows" "key r = k"
  shows "find_row (\<lambda>x. key x = k) rows = Some r"
proof (cases "find_row (\<lambda>x. key x = k) rows")
  case None
  with assms show ?thesis by (auto simp: find_row_None)
next
  case (Some s)
  then have "s \<in> set rows" "key s = k" by (auto dest: find_row_SomeD)
  with assms Some show ?thesis using uniq_by_inj [of key rows r s] by auto
qed

lemma count_rows_0 [table_simps]: "(count_rows P rows = 0) = (\<forall>r \<in> set rows. \<not> P r)"
  by (auto simp: count_rows_def filter_empty_conv)

lemma count_rows_append [table_simps]:
  "count_rows P (xs @ ys) = count_rows P xs + count_rows P ys"
  by (simp add: count_rows_def)

lemma count_rows_Nil [table_simps]: "count_rows P [] = 0"
  by (simp add: count_rows_def)

lemma count_rows_Cons [table_simps]:
  "count_rows P (r # rows) = (if P r then 1 else 0) + count_rows P rows"
  by (simp add: count_rows_def)

lemma count_rows_mono: "(\<And>r. r \<in> set rows \<Longrightarrow> P r \<Longrightarrow> Q r) \<Longrightarrow> count_rows P rows \<le> count_rows Q rows"
  by (induction rows) (auto simp: table_simps)

lemma count_rows_cong: "(\<And>r. r \<in> set rows \<Longrightarrow> P r = Q r) \<Longrightarrow> count_rows P rows = count_rows Q rows"
  by (induction rows) (auto simp: table_simps)

lemma count_rows_update_le:
  "(\<And>r. r \<in> set rows \<Longrightarrow> P r \<Longrightarrow> Q (f r) \<Longrightarrow> Q r) \<Longrightarrow>
    count_rows Q (update_rows P f rows) \<le> count_rows Q rows"
  by (induction rows) (auto simp: table_simps update_rows_def)

subsection \<open>Updates, deletions, insertions\<close>

lemma set_update_rows [table_simps]:
  "set (update_rows P f rows) = (\<lambda>r. if P r then f r else r) ` set rows"
  by (simp add: update_rows_def)

lemma length_update_rows [table_simps]: "length (update_rows P f rows) = length rows"
  by (simp add: update_rows_def)

lemma in_update_rowsE:
  assumes "r \<in> set (update_rows P f rows)"
  obtains (same) "r \<in> set rows" "\<not> P r"
    | (changed) s where "s \<in> set rows" "P s" "r = f s"
  using assms by (auto simp: table_simps split: if_splits)

lemma update_rows_none: "(\<And>r. r \<in> set rows \<Longrightarrow> \<not> P r) \<Longrightarrow> update_rows P f rows = rows"
  by (simp add: update_rows_def map_idI)

lemma map_update_rows [table_simps]:
  "(\<And>r. key (f r) = key r) \<Longrightarrow> map key (update_rows P f rows) = map key rows"
  by (simp add: update_rows_def)

lemma uniq_by_update_rows [store_inv]:
  "uniq_by key rows \<Longrightarrow> (\<And>r. key (f r) = key r) \<Longrightarrow> uniq_by key (update_rows P f rows)"
  by (simp add: uniq_by_def map_update_rows)

lemma uniq_by_delete_rows [store_inv]: "uniq_by key rows \<Longrightarrow> uniq_by key (delete_rows P rows)"
  by (simp add: uniq_by_def delete_rows_def distinct_map_filter)

lemma uniq_by_insert_new [store_inv]: "uniq_by key rows \<Longrightarrow> uniq_by key (insert_new key r rows)"
  by (auto simp: uniq_by_def insert_new_def)

lemma uniq_by_snoc: "uniq_by key (rows @ [r]) = (uniq_by key rows \<and> key r \<notin> key ` set rows)"
  by (auto simp: uniq_by_def)

lemma set_delete_rows [table_simps]: "set (delete_rows P rows) = {r \<in> set rows. \<not> P r}"
  by (simp add: delete_rows_def)

lemma set_insert_new: "set (insert_new key r rows) = (if key r \<in> key ` set rows then set rows else insert r (set rows))"
  by (auto simp: insert_new_def)

lemma insert_new_idem [simp]: "insert_new key r (insert_new key r rows) = insert_new key r rows"
  by (auto simp: insert_new_def)

lemma find_row_insert_new:
  assumes "uniq_by key rows"
  shows "\<exists>s. find_row (\<lambda>x. key x = key r) (insert_new key r rows) = Some s \<and> key s = key r"
proof -
  have "key r \<in> key ` set (insert_new key r rows)"
    by (auto simp: insert_new_def)
  then obtain s where "s \<in> set (insert_new key r rows)" "key s = key r" by auto
  with find_row_key [OF uniq_by_insert_new [OF assms, of r]] show ?thesis by blast
qed

text \<open>
  An update of the one row that carries a key, seen from a reader of another key and of the same
  key. These two facts are what every operation on a single row rests on.
\<close>

lemma find_row_update_other:
  assumes "\<And>r. key (f r) = key r" "k' \<noteq> k"
  shows "find_row (\<lambda>x. key x = k') (update_rows (\<lambda>x. key x = k) f rows) =
    find_row (\<lambda>x. key x = k') rows"
  using assms by (induction rows) (auto simp: find_row_def update_rows_def)

lemma find_row_update_same:
  assumes "\<And>r. key (f r) = key r"
  shows "find_row (\<lambda>x. key x = k) (update_rows (\<lambda>x. key x = k) f rows) =
    map_option f (find_row (\<lambda>x. key x = k) rows)"
  using assms by (induction rows) (auto simp: find_row_def update_rows_def)

lemma count_rows_update_key:
  assumes "uniq_by key rows" "r \<in> set rows" "\<And>x. key (f x) = key x"
  shows "count_rows Q (update_rows (\<lambda>x. key x = key r) f rows) =
    count_rows (\<lambda>x. Q x \<and> key x \<noteq> key r) rows + (if Q (f r) then 1 else 0)"
  using assms
proof (induction rows)
  case Nil
  then show ?case by simp
next
  case (Cons s rows)
  show ?case
  proof (cases "key s = key r")
    case True
    with Cons.prems have "s = r" by (auto simp: uniq_by_def)
    moreover have "\<forall>x \<in> set rows. key x \<noteq> key r"
      using Cons.prems(1) True by (simp add: uniq_by_def image_iff) metis
    then have "update_rows (\<lambda>x. key x = key r) f rows = rows"
      and "count_rows (\<lambda>x. Q x \<and> key x \<noteq> key r) rows = count_rows Q rows"
      by (auto intro!: update_rows_none count_rows_cong)
    ultimately show ?thesis
      by (simp add: table_simps update_rows_def)
  next
    case False
    with Cons.prems have "r \<in> set rows" "uniq_by key rows" by (auto simp: uniq_by_def)
    with Cons.IH Cons.prems(3) False show ?thesis
      by (simp add: table_simps update_rows_def)
  qed
qed

section \<open>Lists\<close>

lemma set_map_filter: "set (List.map_filter f xs) = {y. \<exists>x \<in> set xs. f x = Some y}"
  by (induction xs) (auto split: option.splits)

lemma sum_list_map_le: "(\<And>x. x \<in> set xs \<Longrightarrow> f x \<le> (g x :: nat)) \<Longrightarrow> sum_list (map f xs) \<le> sum_list (map g xs)"
  by (induction xs) (auto intro: add_mono)

lemma length_concat_le: "(\<And>xs. xs \<in> set xss \<Longrightarrow> length xs \<le> n) \<Longrightarrow> length (concat xss) \<le> n * length xss"
  by (induction xss) (auto intro: add_mono)

end
