(* ===== verification/Calendar.thy ===== *)
theory Calendar
  imports Prelude
begin

text \<open>
  The dates of Python's \<open>datetime\<close> module as the program uses them: a date is its
  proleptic Gregorian ordinal (1 January of year 1 is day 1), with the bounds that make date
  arithmetic raise \<open>OverflowError\<close> and constructors raise \<open>ValueError\<close>. The lemmas
  show that year, month and day determine the ordinal and back, and that months tile the
  day line: the month containing a day is the unique month between whose first day and the next
  month's first day it lies.
\<close>

section \<open>Dates\<close>

type_synonym date = int

definition max_year :: int where "max_year = 9999"
definition min_ordinal :: int where "min_ordinal = 1"
definition max_ordinal :: int where "max_ordinal = 3652059"

definition valid_date :: "date \<Rightarrow> bool" where
  "valid_date d = (min_ordinal \<le> d \<and> d \<le> max_ordinal)"

definition is_leap :: "int \<Rightarrow> bool" where
  "is_leap y = (y mod 4 = 0 \<and> (y mod 100 \<noteq> 0 \<or> y mod 400 = 0))"

definition days_before_year :: "int \<Rightarrow> int" where
  "days_before_year y = (let z = y - 1 in z * 365 + z div 4 - z div 100 + z div 400)"

definition days_before_month :: "int \<Rightarrow> int \<Rightarrow> int" where
  "days_before_month y m = (let l = (if is_leap y then 1 else 0) in
    if m \<le> 1 then 0 else if m = 2 then 31 else if m = 3 then 59 + l else if m = 4 then 90 + l
    else if m = 5 then 120 + l else if m = 6 then 151 + l else if m = 7 then 181 + l
    else if m = 8 then 212 + l else if m = 9 then 243 + l else if m = 10 then 273 + l
    else if m = 11 then 304 + l else if m = 12 then 334 + l else 365 + l)"

definition days_in_month :: "int \<Rightarrow> int \<Rightarrow> int" where
  "days_in_month y m = days_before_month y (m + 1) - days_before_month y m"

definition ymd2ord :: "int \<Rightarrow> int \<Rightarrow> int \<Rightarrow> date" where
  "ymd2ord y m d = days_before_year y + days_before_month y m + d"

definition year_of :: "date \<Rightarrow> int" where
  "year_of n = (let y = (400 * (n - 1)) div 146097 + 1 in
    if days_before_year (y + 1) < n then y + 1 else y)"

definition month_of :: "date \<Rightarrow> int" where
  "month_of n = (let y = year_of n; r = n - days_before_year y; b = days_before_month y in
    if r \<le> b 2 then 1 else if r \<le> b 3 then 2 else if r \<le> b 4 then 3 else if r \<le> b 5 then 4
    else if r \<le> b 6 then 5 else if r \<le> b 7 then 6 else if r \<le> b 8 then 7 else if r \<le> b 9 then 8
    else if r \<le> b 10 then 9 else if r \<le> b 11 then 10 else if r \<le> b 12 then 11 else 12)"

definition day_of :: "date \<Rightarrow> int" where
  "day_of n = n - days_before_year (year_of n) - days_before_month (year_of n) (month_of n)"

text \<open>The constructor \<open>date(y, m, d)\<close> and \<open>date + timedelta(days=n)\<close>.\<close>

definition mk_date :: "int \<Rightarrow> int \<Rightarrow> int \<Rightarrow> date result" where
  "mk_date y m d = (if 1 \<le> y \<and> y \<le> max_year \<and> 1 \<le> m \<and> m \<le> 12 \<and> 1 \<le> d \<and> d \<le> days_in_month y m
     then Inr (ymd2ord y m d) else Inl ValueError)"

definition date_add :: "date \<Rightarrow> int \<Rightarrow> date result" where
  "date_add d n = (if valid_date (d + n) then Inr (d + n) else Inl OverflowError)"

definition weekday :: "date \<Rightarrow> int" where
  "weekday d = (d + 6) mod 7"

section \<open>Division\<close>

lemma div_bounds:
  assumes "0 < (k::int)"
  shows "k * (x div k) \<le> x \<and> x < k * (x div k) + k"
proof -
  define r q where "r = x mod k" and "q = x div k"
  have "0 \<le> r" "r < k" using assms by (simp_all add: r_def)
  moreover have "k * q + r = x" by (simp add: q_def r_def)
  ultimately show ?thesis unfolding q_def [symmetric] by linarith
qed

lemma div_less_bound:
  assumes "0 < (k::int)" "x < m * k"
  shows "x div k < m"
proof -
  have "k * (x div k) \<le> x" using div_bounds [OF assms(1), of x] by blast
  also have "x < k * m" using assms(2) by (simp only: mult.commute)
  finally show ?thesis using assms(1) by simp
qed

section \<open>The parts of an instant\<close>

definition epoch_ordinal :: date where "epoch_ordinal = 719163"

definition date_of :: "datetime \<Rightarrow> date" where
  "date_of t = epoch_ordinal + t div days 1"

definition midnight :: "date \<Rightarrow> datetime" where
  "midnight d = (d - epoch_ordinal) * days 1"

definition hour_of :: "datetime \<Rightarrow> int" where
  "hour_of t = (t mod days 1) div hours 1"

definition minute_of :: "datetime \<Rightarrow> int" where
  "minute_of t = (t mod hours 1) div minutes 1"

lemma midnight_date_of_le: "midnight (date_of t) \<le> t"
  by (simp add: midnight_def date_of_def days_def)

lemma date_of_midnight [simp]: "date_of (midnight d) = d"
  by (simp add: midnight_def date_of_def days_def)

lemma less_next_midnight: "t < midnight (date_of t + 1)"
proof -
  have "t div 86400000000 * 86400000000 + t mod 86400000000 = t" by (rule div_mult_mod_eq)
  moreover have "t mod 86400000000 < 86400000000" by simp
  ultimately show ?thesis
    by (simp add: midnight_def date_of_def days_def algebra_simps)
qed

lemma date_of_mono: "s \<le> t \<Longrightarrow> date_of s \<le> date_of t"
  by (simp add: date_of_def days_def zdiv_mono1)

lemma midnight_mono: "(midnight d \<le> midnight e) = (d \<le> e)"
  by (simp add: midnight_def days_def)

lemma midnight_le_iff: "(midnight d \<le> t) = (d \<le> date_of t)"
proof
  assume "midnight d \<le> t"
  from date_of_mono [OF this] show "d \<le> date_of t" by simp
next
  assume "d \<le> date_of t"
  then have "midnight d \<le> midnight (date_of t)" by (simp add: midnight_mono)
  with midnight_date_of_le show "midnight d \<le> t" by (rule order_trans [rotated])
qed

text \<open>An instant to the minute is its date, hour and minute.\<close>

lemma minute_parts:
  "t div minutes 1 = (date_of t - epoch_ordinal) * 1440 + hour_of t * 60 + minute_of t"
proof -
  have day: "t div 60000000 div 1440 = t div 86400000000" for t :: int
    by (simp add: zdiv_zmult2_eq [symmetric])
  have hr: "t div 60000000 div 60 = t div 3600000000" for t :: int
    by (simp add: zdiv_zmult2_eq [symmetric])
  have h: "hour_of t = (t div 3600000000) mod 24"
    using zmod_zmult2_eq [of 24 t 3600000000]
    by (simp add: hour_of_def duration_defs)
  have m: "minute_of t = (t div 60000000) mod 60"
    using zmod_zmult2_eq [of 60 t 60000000]
    by (simp add: minute_of_def duration_defs)
  have "t div 3600000000 div 24 = t div 86400000000"
    by (simp add: zdiv_zmult2_eq [symmetric])
  with h m hr [of t] show ?thesis
    unfolding date_of_def duration_defs by presburger
qed

lemma hour_of_range: "0 \<le> hour_of t \<and> hour_of t < 24"
proof -
  have "t mod 86400000000 < 86400000000" "0 \<le> t mod 86400000000" by simp_all
  then show ?thesis by (simp add: hour_of_def duration_defs div_less_bound pos_imp_zdiv_nonneg_iff)
qed

lemma minute_of_range: "0 \<le> minute_of t \<and> minute_of t < 60"
proof -
  have "t mod 3600000000 < 3600000000" "0 \<le> t mod 3600000000" by simp_all
  then show ?thesis by (simp add: minute_of_def duration_defs div_less_bound pos_imp_zdiv_nonneg_iff)
qed

section \<open>Years\<close>

lemma leap_sum_bounds:
  assumes "4 * a \<le> z \<and> z < 4 * a + 4" "100 * b \<le> z \<and> z < 100 * b + 100"
    "400 * c \<le> z \<and> z < 400 * c + (400::int)"
  shows "146097 * z - 699 \<le> 400 * (z * 365 + a - b + c) \<and> 400 * (z * 365 + a - b + c) \<le> 146097 * z + 396"
proof -
  have e: "400 * (z * 365 + a - b + c) - 146097 * z = 100 * (4 * a - z) + 4 * (z - 100 * b) + (400 * c - z)"
    by (simp add: algebra_simps)
  have "-3 \<le> 4 * a - z" "4 * a - z \<le> 0" "0 \<le> z - 100 * b" "z - 100 * b \<le> 99"
    "-399 \<le> 400 * c - z" "400 * c - z \<le> 0"
    using assms by linarith+
  then have "- 699 \<le> 100 * (4 * a - z) + 4 * (z - 100 * b) + (400 * c - z)"
    "100 * (4 * a - z) + 4 * (z - 100 * b) + (400 * c - z) \<le> 396"
    by (auto simp: algebra_simps)
  with e show ?thesis by linarith
qed

lemma days_before_year_bounds:
  "146097 * (y - 1) - 699 \<le> 400 * days_before_year y \<and>
   400 * days_before_year y \<le> 146097 * (y - 1) + 396"
  unfolding days_before_year_def Let_def by (rule leap_sum_bounds; rule div_bounds; simp)

lemma div_mod_wrap:
  assumes "0 < (k::int)" "z mod k = k - 1"
  shows "(z + 1) div k = z div k + 1" "(z + 1) mod k = 0"
proof -
  have "z + 1 = k * (z div k) + k" using mult_div_mod_eq [of k z] assms(2) by linarith
  then have e: "z + 1 = k * (z div k + 1)" by (simp add: algebra_simps)
  from assms(1) show "(z + 1) div k = z div k + 1" unfolding e by simp
  show "(z + 1) mod k = 0" unfolding e by simp
qed

lemma div_mod_step:
  assumes "0 < (k::int)" "z mod k \<noteq> k - 1"
  shows "(z + 1) div k = z div k" "(z + 1) mod k = z mod k + 1"
proof -
  have "z mod k < k" "0 \<le> z mod k" using assms by simp_all
  with assms(2) have r: "0 \<le> z mod k + 1" "z mod k + 1 < k" by linarith+
  have e: "z + 1 = k * (z div k) + (z mod k + 1)" by simp
  from int_div_pos_eq [OF e r] show d: "(z + 1) div k = z div k" .
  show "(z + 1) mod k = z mod k + 1"
    unfolding minus_mult_div_eq_mod [symmetric] d by simp
qed

lemma div_incr:
  assumes "0 < (k::int)"
  shows "(z + 1) div k = z div k + (if k dvd z + 1 then 1 else 0)"
proof (cases "z mod k = k - 1")
  case True
  with div_mod_wrap [OF assms True] show ?thesis by (simp add: dvd_eq_mod_eq_0)
next
  case False
  have "0 \<le> z mod k" using assms by simp
  with div_mod_step [OF assms False] show ?thesis by (simp add: dvd_eq_mod_eq_0)
qed

lemma leap_sum_step:
  "a' = a + p \<Longrightarrow> b' = b + q \<Longrightarrow> c' = c + r \<Longrightarrow> p - q + r = l \<Longrightarrow>
    y * 365 + a' - b' + c' = ((y - 1) * 365 + a - b + c) + 365 + (l::int)"
  by (simp add: algebra_simps)

lemma leap_flags:
  "(c4 \<Longrightarrow> c1) \<Longrightarrow> (c16 \<Longrightarrow> c4) \<Longrightarrow>
    (if c1 then 1 else 0) - (if c4 then 1 else 0) + (if c16 then 1 else 0) =
    (if c1 \<and> (\<not> c4 \<or> c16) then 1 else (0::int))"
  by auto

lemma is_leap_dvd: "is_leap y = (4 dvd y \<and> (\<not> 100 dvd y \<or> 400 dvd y))"
  by (simp add: is_leap_def dvd_eq_mod_eq_0)

lemma days_before_year_Suc:
  "days_before_year (y + 1) = days_before_year y + 365 + (if is_leap y then 1 else 0)"
proof -
  have d: "y div k = (y - 1) div k + (if k dvd y then 1 else 0)" if "0 < k" for k :: int
    using div_incr [OF that, of "y - 1"] by simp
  have "100 dvd y \<Longrightarrow> 4 dvd y" by (rule dvd_trans [of 4 100 y]) simp_all
  moreover have "400 dvd y \<Longrightarrow> 100 dvd y" by (rule dvd_trans [of 100 400 y]) simp_all
  ultimately have "(if 4 dvd y then 1 else 0) - (if 100 dvd y then 1 else 0) + (if 400 dvd y then 1 else 0) =
      (if is_leap y then 1 else (0::int))"
    unfolding is_leap_dvd by (rule leap_flags)
  from leap_sum_step [OF d [of 4] d [of 100] d [of 400] this] show ?thesis
    by (simp only: days_before_year_def Let_def add_diff_cancel_right' zero_less_numeral simp_thms)
qed

lemma days_before_year_mono_Suc: "days_before_year y < days_before_year (y + 1)"
  by (simp add: days_before_year_Suc)

lemma days_before_year_mono:
  assumes "y \<le> z"
  shows "days_before_year y \<le> days_before_year z"
  using assms
proof (induction rule: int_ge_induct)
  case base
  then show ?case by simp
next
  case (step i)
  with days_before_year_mono_Suc [of i] show ?case by simp
qed

lemma year_of_bounds:
  "days_before_year (year_of n) < n \<and> n \<le> days_before_year (year_of n + 1)"
proof -
  define q where "q = (400 * (n - 1)) div 146097"
  have q: "146097 * q \<le> 400 * n - 400" "400 * n - 400 < 146097 * q + 146097"
    using div_bounds [of 146097 "400 * (n - 1)"] unfolding q_def by (simp_all add: algebra_simps)
  have "400 * days_before_year (q + 1) \<le> 146097 * q + 396"
    using days_before_year_bounds [of "q + 1"] by simp
  with q have lo: "days_before_year (q + 1) < n" by linarith
  have "146097 * q + 291495 \<le> 400 * days_before_year (q + 3)"
    using days_before_year_bounds [of "q + 3"] by (simp add: algebra_simps)
  with q have hi: "n \<le> days_before_year (q + 3)" by linarith
  have "year_of n = (if days_before_year (q + 2) < n then q + 2 else q + 1)"
    by (simp add: year_of_def q_def Let_def add.assoc)
  with lo hi show ?thesis by (simp add: add.assoc)
qed

lemma year_of_unique:
  assumes "days_before_year y < n" "n \<le> days_before_year (y + 1)"
  shows "year_of n = y"
proof (rule ccontr)
  assume "year_of n \<noteq> y"
  then consider "year_of n + 1 \<le> y" | "y + 1 \<le> year_of n" by linarith
  then show False
  proof cases
    case 1
    from days_before_year_mono [OF this] year_of_bounds [of n] assms show False by linarith
  next
    case 2
    from days_before_year_mono [OF this] year_of_bounds [of n] assms show False by linarith
  qed
qed

section \<open>Months\<close>

lemma days_before_month_12: "days_before_month y 13 = 365 + (if is_leap y then 1 else 0)"
  by (simp add: days_before_month_def Let_def)

lemma month_cases:
  assumes "1 \<le> m" "m \<le> (12::int)"
  obtains "m = 1" | "m = 2" | "m = 3" | "m = 4" | "m = 5" | "m = 6"
    | "m = 7" | "m = 8" | "m = 9" | "m = 10" | "m = 11" | "m = 12"
proof -
  have "m \<in> set [1..12]" using assms by simp
  then have "m = 1 \<or> m = 2 \<or> m = 3 \<or> m = 4 \<or> m = 5 \<or> m = 6 \<or> m = 7 \<or> m = 8 \<or> m = 9 \<or> m = 10 \<or> m = 11 \<or> m = 12"
    by (simp add: upto_rec1 del: set_upto)
  with that show thesis by metis
qed

lemma days_in_month_range: "1 \<le> m \<Longrightarrow> m \<le> 12 \<Longrightarrow> 28 \<le> days_in_month y m \<and> days_in_month y m \<le> 31"
  by (erule (1) month_cases) (simp_all add: days_in_month_def days_before_month_def Let_def)

lemma days_before_month_le_year:
  "1 \<le> m \<Longrightarrow> m \<le> 12 \<Longrightarrow> 0 \<le> days_before_month y m \<and>
    days_before_month y (m + 1) \<le> 365 + (if is_leap y then 1 else 0)"
  by (erule (1) month_cases) (simp_all add: days_before_month_def Let_def)

lemma month_of_bounds:
  "1 \<le> month_of n \<and> month_of n \<le> 12 \<and>
   days_before_month (year_of n) (month_of n) < n - days_before_year (year_of n) \<and>
   n - days_before_year (year_of n) \<le> days_before_month (year_of n) (month_of n + 1)"
proof -
  define y r where "y = year_of n" and "r = n - days_before_year y"
  have r: "0 < r" "r \<le> 365 + (if is_leap y then 1 else 0)"
    using year_of_bounds [of n] days_before_year_Suc [of y] by (simp_all add: r_def y_def)
  show ?thesis
    using r unfolding month_of_def Let_def y_def [symmetric] r_def [symmetric]
    by (simp add: days_before_month_def Let_def del: One_nat_def)
qed

lemma days_before_month_mono:
  assumes "1 \<le> m" "m \<le> m'" "m' \<le> 13"
  shows "days_before_month y m \<le> days_before_month y m'"
  using assms(2,3)
proof (induction rule: int_ge_induct)
  case base
  then show ?case by simp
next
  case (step i)
  with assms(1) have "days_before_month y i \<le> days_before_month y (i + 1)"
    using days_in_month_range [of i y] by (simp add: days_in_month_def)
  with step show ?case by simp
qed

text \<open>The day line is tiled by years and months: these facts determine year, month and day.\<close>

lemma month_of_unique:
  assumes "1 \<le> m" "m \<le> 12" "days_before_month y m < n - days_before_year y"
    "n - days_before_year y \<le> days_before_month y (m + 1)"
  shows "year_of n = y \<and> month_of n = m"
proof -
  have "days_before_year y < n" "n \<le> days_before_year (y + 1)"
    using assms days_before_month_le_year [OF assms(1,2), of y] days_before_year_Suc [of y] by simp_all
  then have y: "year_of n = y" by (rule year_of_unique)
  have "month_of n = m"
  proof (rule ccontr)
    assume "month_of n \<noteq> m"
    then consider "month_of n + 1 \<le> m" | "m + 1 \<le> month_of n" by linarith
    then show False
    proof cases
      case 1
      with month_of_bounds [of n] days_before_month_mono [of "month_of n + 1" m y] assms y
      show False by simp
    next
      case 2
      with month_of_bounds [of n] days_before_month_mono [of "m + 1" "month_of n" y] assms y
      show False by simp
    qed
  qed
  with y show ?thesis by simp
qed

lemma ymd_ord_ymd:
  assumes "1 \<le> m" "m \<le> 12" "1 \<le> d" "d \<le> days_in_month y m"
  shows "year_of (ymd2ord y m d) = y \<and> month_of (ymd2ord y m d) = m \<and> day_of (ymd2ord y m d) = d"
proof -
  have "year_of (ymd2ord y m d) = y \<and> month_of (ymd2ord y m d) = m"
    using assms by (intro month_of_unique) (simp_all add: ymd2ord_def days_in_month_def)
  then show ?thesis by (simp add: day_of_def) (simp add: ymd2ord_def)
qed

lemma ord_ymd_ord: "ymd2ord (year_of n) (month_of n) (day_of n) = n"
  by (simp add: ymd2ord_def day_of_def)

lemma day_of_range: "1 \<le> day_of n \<and> day_of n \<le> days_in_month (year_of n) (month_of n)"
  using month_of_bounds [of n] by (simp add: day_of_def days_in_month_def)

lemma ymd_inj:
  "year_of n = year_of k \<Longrightarrow> month_of n = month_of k \<Longrightarrow> day_of n = day_of k \<Longrightarrow> n = k"
  by (metis ord_ymd_ord)

section \<open>Months in a row\<close>

text \<open>
  The first day of the month with index \<open>i\<close>, months being numbered through the years. Months
  tile the days: \<open>month_index d = i\<close> exactly when \<open>d\<close> lies from the first day of month
  \<open>i\<close> to the day before the first of month \<open>i + 1\<close>.
\<close>

definition month_index :: "date \<Rightarrow> int" where
  "month_index d = year_of d * 12 + (month_of d - 1)"

definition month_first :: "int \<Rightarrow> date" where
  "month_first i = ymd2ord (i div 12) (i mod 12 + 1) 1"

lemma month_range: "1 \<le> i mod 12 + 1" "i mod 12 + 1 \<le> (12::int)"
  using pos_mod_bound [of 12 i] by simp_all

lemma index_split: "i = i div 12 * 12 + (i mod 12 + 1 - 1 :: int)"
  by simp

lemma month_index_month_first [simp]: "month_index (month_first i) = i"
proof -
  have "28 \<le> days_in_month (i div 12) (i mod 12 + 1)"
    using days_in_month_range [OF month_range] by blast
  then have "year_of (month_first i) = i div 12 \<and> month_of (month_first i) = i mod 12 + 1"
    using ymd_ord_ymd [where m = "i mod 12 + 1" and d = 1 and y = "i div 12", OF month_range] by (simp add: month_first_def)
  then show ?thesis by (simp add: month_index_def)
qed

lemma day_of_month_first [simp]: "day_of (month_first i) = 1"
proof -
  have "28 \<le> days_in_month (i div 12) (i mod 12 + 1)"
    using days_in_month_range [OF month_range] by blast
  then show ?thesis
    using ymd_ord_ymd [where m = "i mod 12 + 1" and d = 1 and y = "i div 12", OF month_range] by (simp add: month_first_def)
qed

lemma month_index_parts:
  "month_index d div 12 = year_of d" "month_index d mod 12 + 1 = month_of d"
proof -
  have m: "0 \<le> month_of d - 1" "month_of d - 1 < 12" using month_of_bounds [of d] by simp_all
  show "month_index d div 12 = year_of d"
    using m by (simp add: month_index_def div_pos_pos_trivial)
  show "month_index d mod 12 + 1 = month_of d"
    using m by (simp add: month_index_def mod_pos_pos_trivial)
qed

lemma month_first_index: "month_first (month_index d) = d - day_of d + 1"
  using ord_ymd_ord [of d]
  by (simp add: month_first_def month_index_parts ymd2ord_def)

lemma ymd2ord_next: "ymd2ord y (m + 1) d = ymd2ord y m d + days_in_month y m"
  by (simp add: ymd2ord_def days_in_month_def)

lemma month_first_Suc:
  "month_first (i + 1) = month_first i + days_in_month (i div 12) (i mod 12 + 1)"
proof (cases "i mod 12 = 11")
  case True
  then have n: "(i + 1) mod 12 = 0" "(i + 1) div 12 = i div 12 + 1"
    using div_mod_wrap [of 12 i] by simp_all
  have e: "(11::int) + 1 = 12" "(0::int) + 1 = 1" "(12::int) + 1 = 13" by simp_all
  have z: "days_before_month y 1 = 0" for y by (simp add: days_before_month_def Let_def)
  have "month_first (i + 1) = days_before_year (i div 12 + 1) + 1"
    by (simp only: month_first_def n e ymd2ord_def z)
  moreover have "month_first i = days_before_year (i div 12) + days_before_month (i div 12) 12 + 1"
    by (simp only: month_first_def True e ymd2ord_def)
  ultimately show ?thesis
    by (simp only: True e days_in_month_def days_before_month_12 days_before_year_Suc)
next
  case False
  then have "i mod 12 \<noteq> 12 - 1" by simp
  from div_mod_step [OF _ this] show ?thesis by (simp only: month_first_def ymd2ord_next zero_less_numeral simp_thms)
qed

lemma month_first_step: "month_first i < month_first (i + 1)"
  using month_first_Suc [of i] days_in_month_range [where y = "i div 12", OF month_range [of i]] by simp

lemma month_first_mono: "i \<le> j \<Longrightarrow> month_first i \<le> month_first j"
proof (induction rule: int_ge_induct)
  case base
  then show ?case by simp
next
  case (step k)
  with month_first_step [of k] show ?case by simp
qed

lemma month_first_less_iff: "(month_first i < month_first j) = (i < j)"
proof
  assume "i < j"
  then have "month_first (i + 1) \<le> month_first j" by (intro month_first_mono) simp
  with month_first_step [of i] show "month_first i < month_first j" by simp
next
  assume "month_first i < month_first j"
  then show "i < j" using month_first_mono [of j i] by linarith
qed

lemma month_first_le_iff: "(month_first i \<le> month_first j) = (i \<le> j)"
  using month_first_less_iff [of j i] by linarith

lemma month_bounds: "month_first (month_index d) \<le> d \<and> d < month_first (month_index d + 1)"
  using day_of_range [of d]
  by (simp add: month_first_Suc month_index_parts) (simp add: month_first_index)

lemma month_index_eq_iff: "(month_index d = i) = (month_first i \<le> d \<and> d < month_first (i + 1))"
proof
  assume "month_index d = i"
  with month_bounds [of d] show "month_first i \<le> d \<and> d < month_first (i + 1)" by blast
next
  assume a: "month_first i \<le> d \<and> d < month_first (i + 1)"
  then have "month_first i < month_first (month_index d + 1)"
    "month_first (month_index d) < month_first (i + 1)"
    using month_bounds [of d] by linarith+
  then show "month_index d = i" by (simp add: month_first_less_iff)
qed

lemma month_index_mono: "d \<le> e \<Longrightarrow> month_index d \<le> month_index e"
proof (rule ccontr)
  assume "d \<le> e" "\<not> month_index d \<le> month_index e"
  then have "month_first (month_index e + 1) \<le> month_first (month_index d)"
    by (intro month_first_mono) simp
  with month_bounds [of d] month_bounds [of e] \<open>d \<le> e\<close> show False by linarith
qed

lemma month_first_le_index: "(month_first i \<le> d) = (i \<le> month_index d)"
proof
  assume "month_first i \<le> d"
  from month_index_mono [OF this] show "i \<le> month_index d" by simp
next
  assume "i \<le> month_index d"
  from month_first_mono [OF this] month_bounds [of d] show "month_first i \<le> d" by linarith
qed

end
