(* ===== verification/Text_Format.thy ===== *)
theory Text_Format
  imports Calendar
begin

text \<open>
  The text the program derives its keys from: fixed-width decimal and hexadecimal digits,
  the \<open>strftime\<close> patterns of labels and names, \<open>isoformat\<close> of a date and
  \<open>str\<close> of a \<open>UUID\<close>. The lemmas say that each of these is injective on the values it
  prints, and which characters occur in it.
\<close>

section \<open>Fixed-width numbers\<close>

definition digit_char :: "nat \<Rightarrow> char" where
  "digit_char d = ''0123456789abcdef'' ! d"

fun to_base :: "nat \<Rightarrow> nat \<Rightarrow> nat \<Rightarrow> string" where
  "to_base b 0 n = []"
| "to_base b (Suc w) n = to_base b w (n div b) @ [digit_char (n mod b)]"

definition dec :: "nat \<Rightarrow> int \<Rightarrow> string" where
  "dec w n = to_base 10 w (nat n)"

definition hex :: "nat \<Rightarrow> nat \<Rightarrow> string" where
  "hex w n = to_base 16 w n"

text \<open>\<open>str(n)\<close> of an integer.\<close>

fun str_nat :: "nat \<Rightarrow> string" where
  "str_nat n = (if n < 10 then [digit_char n] else str_nat (n div 10) @ [digit_char (n mod 10)])"

declare str_nat.simps [simp del]

definition str_int :: "int \<Rightarrow> string" where
  "str_int n = (if n < 0 then ''-'' @ str_nat (nat (- n)) else str_nat (nat n))"

lemma length_to_base [simp]: "length (to_base b w n) = w"
  by (induction b w n rule: to_base.induct) auto

lemma length_dec [simp]: "length (dec w n) = w"
  by (simp add: dec_def)

lemma length_hex [simp]: "length (hex w n) = w"
  by (simp add: hex_def)

lemma digit_char_inj: "i < 16 \<Longrightarrow> j < 16 \<Longrightarrow> (digit_char i = digit_char j) = (i = j)"
  by (simp add: digit_char_def nth_eq_iff_index_eq)

lemma digit_char_in: "d < 16 \<Longrightarrow> digit_char d \<in> set ''0123456789abcdef''"
  unfolding digit_char_def by (rule nth_mem) simp

lemma to_base_inj:
  assumes "0 < b" "b \<le> 16" "n < b ^ w" "m < b ^ w" "to_base b w n = to_base b w m"
  shows "n = m"
  using assms(3-5)
proof (induction w arbitrary: n m)
  case 0
  then show ?case by simp
next
  case (Suc w)
  have lt: "n mod b < 16" "m mod b < 16"
    using assms(1,2) by (auto intro: less_le_trans [OF mod_less_divisor])
  from Suc.prems lt have r: "n mod b = m mod b" by (simp add: digit_char_inj)
  have "n div b < b ^ w" "m div b < b ^ w"
    using Suc.prems(1,2) assms(1) by (simp_all add: div_less_iff_less_mult mult.commute)
  with Suc have "n div b = m div b" by simp
  with r show ?case by (metis div_mult_mod_eq)
qed

lemma to_base_chars: "0 < b \<Longrightarrow> b \<le> 16 \<Longrightarrow> set (to_base b w n) \<subseteq> set ''0123456789abcdef''"
proof (induction b w n rule: to_base.induct)
  case (2 b w n)
  then have "n mod b < 16" by (auto intro: less_le_trans [OF mod_less_divisor])
  from digit_char_in [OF this] 2 show ?case by auto
qed simp

lemma dec_inj: "0 \<le> n \<Longrightarrow> n < 10 ^ w \<Longrightarrow> 0 \<le> m \<Longrightarrow> m < 10 ^ w \<Longrightarrow> dec w n = dec w m \<Longrightarrow> n = m"
  unfolding dec_def
  by (drule to_base_inj [rotated 4]) (auto simp: nat_less_iff)

lemma hex_inj: "(n::nat) < 16 ^ w \<Longrightarrow> m < 16 ^ w \<Longrightarrow> hex w n = hex w m \<Longrightarrow> n = m"
  unfolding hex_def by (drule to_base_inj [rotated 4]) auto

lemma dec_chars: "set (dec w n) \<subseteq> set ''0123456789abcdef''"
  unfolding dec_def by (rule to_base_chars) simp_all

lemma hex_chars: "set (hex w n) \<subseteq> set ''0123456789abcdef''"
  unfolding hex_def by (rule to_base_chars) simp_all

lemma no_colon_digit: "CHR '':'' \<notin> set (dec w n)" "CHR '':'' \<notin> set (hex w k)"
  using dec_chars [of w n] hex_chars [of w k] by auto

section \<open>Identifiers\<close>

text \<open>\<open>str(uuid)\<close>: 8-4-4-4-12 hexadecimal digits.\<close>

definition str_uuid :: "uuid \<Rightarrow> string" where
  "str_uuid u = (let h = hex 32 (unat u) in
    take 8 h @ ''-'' @ take 4 (drop 8 h) @ ''-'' @ take 4 (drop 12 h) @ ''-'' @
    take 4 (drop 16 h) @ ''-'' @ drop 20 h)"

lemma split_32:
  "h = take 8 h @ take 4 (drop 8 h) @ take 4 (drop 12 h) @ take 4 (drop 16 h) @ drop 20 h"
proof -
  have "h = take 8 h @ drop 8 h" by simp
  also have "drop 8 h = take 4 (drop 8 h) @ drop 12 h"
    using append_take_drop_id [of 4 "drop 8 h"] by simp
  also have "drop 12 h = take 4 (drop 12 h) @ drop 16 h"
    using append_take_drop_id [of 4 "drop 12 h"] by simp
  also have "drop 16 h = take 4 (drop 16 h) @ drop 20 h"
    using append_take_drop_id [of 4 "drop 16 h"] by simp
  finally show ?thesis .
qed

lemma str_uuid_inj: "str_uuid u = str_uuid v \<Longrightarrow> u = v"
proof -
  assume eq: "str_uuid u = str_uuid v"
  define h k where "h = hex 32 (unat u)" and "k = hex 32 (unat v)"
  have len: "length h = 32" "length k = 32" by (simp_all add: h_def k_def)
  from eq len have "take 8 h = take 8 k \<and> take 4 (drop 8 h) = take 4 (drop 8 k) \<and>
      take 4 (drop 12 h) = take 4 (drop 12 k) \<and> take 4 (drop 16 h) = take 4 (drop 16 k) \<and>
      drop 20 h = drop 20 k"
    by (simp add: str_uuid_def Let_def h_def k_def)
  then have "h = k" using split_32 [of h] split_32 [of k] by simp
  moreover have "unat u < 16 ^ 32" "unat v < 16 ^ 32"
    using unsigned_less [of u] unsigned_less [of v] by simp_all
  ultimately have "unat u = unat v" unfolding h_def k_def by (intro hex_inj [of _ 32])
  then show ?thesis by (simp add: word_unat_eq_iff)
qed

lemma str_uuid_no_colon: "CHR '':'' \<notin> set (str_uuid u)"
  unfolding str_uuid_def Let_def
  using no_colon_digit(2) [of 32 "unat u"] by (auto dest!: in_set_takeD in_set_dropD)

lemma length_str_uuid [simp]: "length (str_uuid u) = 36"
  by (simp add: str_uuid_def Let_def)

section \<open>Dates and instants\<close>

definition iso_date :: "date \<Rightarrow> string" where
  "iso_date d = dec 4 (year_of d) @ ''-'' @ dec 2 (month_of d) @ ''-'' @ dec 2 (day_of d)"

text \<open>\<open>strftime("%Y%m%d")\<close> and \<open>strftime("%Y%m%dT%H%M")\<close>.\<close>

definition compact_date :: "date \<Rightarrow> string" where
  "compact_date d = dec 4 (year_of d) @ dec 2 (month_of d) @ dec 2 (day_of d)"

definition compact_minute :: "datetime \<Rightarrow> string" where
  "compact_minute t = compact_date (date_of t) @ ''T'' @ dec 2 (hour_of t) @ dec 2 (minute_of t)"

text \<open>\<open>isoformat()\<close> of an instant in UTC: the microseconds are printed when there are some.\<close>

definition iso_datetime :: "datetime \<Rightarrow> string" where
  "iso_datetime t = iso_date (date_of t) @ ''T'' @ dec 2 (hour_of t) @ '':'' @ dec 2 (minute_of t) @ '':'' @
     dec 2 ((t mod minutes 1) div seconds 1) @
     (if t mod seconds 1 = 0 then [] else ''.'' @ dec 6 (t mod seconds 1)) @ ''+00:00''"

text \<open>The years that four digits can print.\<close>

definition printable_date :: "date \<Rightarrow> bool" where
  "printable_date d = (0 \<le> year_of d \<and> year_of d \<le> max_year)"

lemma month_of_2: "0 \<le> month_of d \<and> month_of d < 10 ^ 2"
  using month_of_bounds [of d] by simp

lemma day_of_2: "0 \<le> day_of d \<and> day_of d < 10 ^ 2"
  using day_of_range [of d] days_in_month_range [of "month_of d" "year_of d"] month_of_bounds [of d]
  by simp

lemma compact_date_inj:
  assumes "printable_date d" "printable_date e" "compact_date d = compact_date e"
  shows "d = e"
proof (rule ymd_inj)
  from assms(3) have "dec 4 (year_of d) = dec 4 (year_of e)" "dec 2 (month_of d) = dec 2 (month_of e)"
    "dec 2 (day_of d) = dec 2 (day_of e)"
    by (simp_all add: compact_date_def)
  note eqs = this
  show "year_of d = year_of e"
    by (rule dec_inj [OF _ _ _ _ eqs(1)]) (use assms(1,2) in \<open>simp_all add: printable_date_def max_year_def\<close>)
  show "month_of d = month_of e"
    by (rule dec_inj [OF _ _ _ _ eqs(2)]) (use month_of_2 in blast)+
  show "day_of d = day_of e"
    by (rule dec_inj [OF _ _ _ _ eqs(3)]) (use day_of_2 in blast)+
qed

lemma compact_minute_inj:
  assumes "printable_date (date_of s)" "printable_date (date_of t)" "compact_minute s = compact_minute t"
  shows "s div minutes 1 = t div minutes 1"
proof -
  from assms(3) have c: "compact_date (date_of s) = compact_date (date_of t)"
    and h: "dec 2 (hour_of s) = dec 2 (hour_of t)" and m: "dec 2 (minute_of s) = dec 2 (minute_of t)"
    by (simp_all add: compact_minute_def compact_date_def)
  have "date_of s = date_of t" using compact_date_inj [OF assms(1,2) c] .
  moreover have "hour_of s = hour_of t"
    by (rule dec_inj [OF _ _ _ _ h]) (use hour_of_range [of s] hour_of_range [of t] in simp_all)
  moreover have "minute_of s = minute_of t"
    by (rule dec_inj [OF _ _ _ _ m]) (use minute_of_range [of s] minute_of_range [of t] in simp_all)
  ultimately show ?thesis by (simp add: minute_parts)
qed

lemma compact_no_colon: "CHR '':'' \<notin> set (compact_date d)" "CHR '':'' \<notin> set (compact_minute t)"
  by (auto simp: compact_date_def compact_minute_def no_colon_digit)

section \<open>Lower case\<close>

text \<open>\<open>str.lower\<close> on ASCII text (e-mail addresses, host names, header values).\<close>

definition lower_char :: "char \<Rightarrow> char" where
  "lower_char c = (let n = (of_char c :: nat) in if 65 \<le> n \<and> n \<le> 90 then char_of (n + 32) else c)"

definition lower :: "string \<Rightarrow> string" where
  "lower s = map lower_char s"

definition is_space :: "char \<Rightarrow> bool" where
  "is_space c = (of_char c \<in> set [9, 10, 11, 12, 13, 28, 29, 30, 31, 32 :: nat])"

definition strip :: "string \<Rightarrow> string" where
  "strip s = rev (dropWhile is_space (rev (dropWhile is_space s)))"

definition starts_with :: "string \<Rightarrow> string \<Rightarrow> bool" where
  "starts_with p s = (take (length p) s = p)"

lemma lower_char_idem [simp]: "lower_char (lower_char c) = lower_char c"
  by (auto simp: lower_char_def Let_def)

lemma lower_idem [simp]: "lower (lower s) = lower s"
  by (simp add: lower_def)

end
