(* ===== verification/Metric_Types.thy ===== *)
theory Metric_Types
  imports Text_Format
begin

text \<open>
  \<open>app/services/metrics/types.py\<close>: day windows and their splitting into request-sized
  chunks, observations, the typed failure of a source, and the table of the four sources. The lemmas
  show that the chunks of a window are its days in order, each day once and none outside, with no
  chunk longer than asked.
\<close>

section \<open>Day windows\<close>

record day_range =
  dr_start :: date
  dr_end :: date

definition mk_day_range :: "date \<Rightarrow> date \<Rightarrow> day_range result" where
  "mk_day_range s e = (if e < s then Inl ValueError else Inr \<lparr>dr_start = s, dr_end = e\<rparr>)"

definition dr_length :: "day_range \<Rightarrow> int" where
  "dr_length r = dr_end r - dr_start r + 1"

definition dr_days :: "day_range \<Rightarrow> date list" where
  "dr_days r = map (\<lambda>offset. dr_start r + offset) [0..dr_length r - 1]"

definition dr_contains :: "day_range \<Rightarrow> date \<Rightarrow> bool" where
  "dr_contains r d = (dr_start r \<le> d \<and> d \<le> dr_end r)"

text \<open>
  The loop of \<open>DayRange.chunks\<close>, from the cursor. Both additions can leave the calendar, where
  Python raises \<open>OverflowError\<close>; the loop is entered with a positive step only.
\<close>

function chunks_from :: "date \<Rightarrow> date \<Rightarrow> int \<Rightarrow> day_range list result" where
  "chunks_from cursor end sz =
    (if cursor \<le> end \<and> 1 \<le> sz
     then (case date_add cursor (sz - 1) of
             Inl e \<Rightarrow> Inl e
           | Inr x \<Rightarrow>
               (case mk_day_range cursor (min x end) of
                  Inl e \<Rightarrow> Inl e
                | Inr part \<Rightarrow>
                    (case date_add (min x end) 1 of
                       Inl e \<Rightarrow> Inl e
                     | Inr cursor' \<Rightarrow>
                         try_bind (chunks_from cursor' end sz) (\<lambda>parts. Inr (part # parts)))))
     else Inr [])"
  by pat_completeness auto
termination
  by (relation "measure (\<lambda>(cursor, end, sz). nat (end + 1 - cursor))")
    (auto simp: date_add_def split: if_splits)

declare chunks_from.simps [simp del]

definition dr_chunks :: "day_range \<Rightarrow> int \<Rightarrow> day_range list result" where
  "dr_chunks r sz =
    (if sz < 1 then Inl ValueError else chunks_from (dr_start r) (dr_end r) sz)"

subsection \<open>The chunks of a window\<close>

lemma set_dr_days: "set (dr_days r) = {d. dr_contains r d}"
proof -
  have "d \<in> set (dr_days r)" if "dr_contains r d" for d
  proof -
    have "d = dr_start r + (d - dr_start r)" by simp
    moreover have "d - dr_start r \<in> {0..dr_length r - 1}"
      using that by (simp add: dr_contains_def dr_length_def)
    ultimately show ?thesis unfolding dr_days_def set_map set_upto by (rule image_eqI)
  qed
  then show ?thesis by (auto simp: dr_days_def dr_contains_def dr_length_def)
qed

lemma shift_upto: "map (\<lambda>k. a + k) [i..j] = [a + i..a + j :: int]"
proof (induction i j rule: upto.induct)
  case (1 i j)
  then show ?case by (cases "i \<le> j") (simp_all add: upto_rec1 add.assoc)
qed

lemma dr_days_interval: "dr_days r = [dr_start r..dr_end r]"
  using shift_upto [of "dr_start r" 0 "dr_length r - 1"] by (simp add: dr_days_def dr_length_def)

lemma chunks_from_cover:
  assumes "1 \<le> sz" "min_ordinal \<le> cursor" "end + sz \<le> max_ordinal"
  shows "\<exists>parts. chunks_from cursor end sz = Inr parts \<and>
    concat (map dr_days parts) = [cursor..end] \<and>
    (\<forall>p \<in> set parts. 1 \<le> dr_length p \<and> dr_length p \<le> sz)"
  using assms
proof (induction cursor "end" sz rule: chunks_from.induct)
  case (1 cursor e sz)
  show ?case
  proof (cases "cursor \<le> e")
    case False
    with "1.prems" show ?thesis by (simp add: chunks_from.simps)
  next
    case True
    define last where "last = min (cursor + (sz - 1)) e"
    have last: "cursor \<le> last" "last \<le> e" "last - cursor + 1 \<le> sz"
      using True "1.prems"(1) by (auto simp: last_def)
    have x: "date_add cursor (sz - 1) = Inr (cursor + (sz - 1))"
      using True "1.prems" by (simp add: date_add_def valid_date_def)
    have next_day: "date_add last 1 = Inr (last + 1)"
      using last "1.prems" by (simp add: date_add_def valid_date_def)
    have part: "mk_day_range cursor last = Inr \<lparr>dr_start = cursor, dr_end = last\<rparr>"
      using last by (simp add: mk_day_range_def)
    have "\<exists>parts. chunks_from (last + 1) e sz = Inr parts \<and>
        concat (map dr_days parts) = [last + 1..e] \<and>
        (\<forall>p \<in> set parts. 1 \<le> dr_length p \<and> dr_length p \<le> sz)"
      using "1.IH" [OF _ x part [unfolded last_def] next_day [unfolded last_def]] True "1.prems" last
      by (simp add: last_def [symmetric])
    then obtain parts where parts: "chunks_from (last + 1) e sz = Inr parts"
      "concat (map dr_days parts) = [last + 1..e]"
      "\<forall>p \<in> set parts. 1 \<le> dr_length p \<and> dr_length p \<le> sz" by blast
    have "chunks_from cursor e sz = Inr (\<lparr>dr_start = cursor, dr_end = last\<rparr> # parts)"
      using True "1.prems"(1) x next_day part parts(1)
      by (subst chunks_from.simps) (simp add: last_def)
    moreover have "[cursor..last] @ [last + 1..e] = [cursor..e]"
      using last by (simp add: upto_split2 [symmetric])
    moreover have "dr_days \<lparr>dr_start = cursor, dr_end = last\<rparr> = [cursor..last]"
      by (simp add: dr_days_interval)
    ultimately show ?thesis
      using parts last by (simp add: dr_length_def)
  qed
qed

section \<open>Values and observations\<close>

text \<open>
  The numbers a source may hand over. Finite floats are exact rationals: rounding is not
  modelled, the non-finite values are.
\<close>

datatype py_number =
    PyBool bool
  | PyInt int
  | PyFloat rat
  | PyInf
  | PyNegInf
  | PyNaN

fun is_finite :: "py_number \<Rightarrow> bool" where
  "is_finite PyInf = False"
| "is_finite PyNegInf = False"
| "is_finite PyNaN = False"
| "is_finite _ = True"

type_synonym dims = "(string \<times> string) list"

record observation =
  ob_metric :: string
  ob_day :: date
  ob_value :: py_number
  ob_dims :: dims

definition mk_observation :: "string \<Rightarrow> date \<Rightarrow> py_number \<Rightarrow> dims \<Rightarrow> observation result" where
  "mk_observation m d v dm = (if \<not> is_finite v then Inl ValueError
     else Inr \<lparr>ob_metric = m, ob_day = d, ob_value = v, ob_dims = dm\<rparr>)"

section \<open>Typed failures\<close>

record source_error =
  se_reason :: string
  se_recoverable :: bool
  se_not_applicable :: bool

definition mk_source_error :: "string \<Rightarrow> bool \<Rightarrow> bool \<Rightarrow> source_error" where
  "mk_source_error reason rec na =
    \<lparr>se_reason = reason, se_recoverable = (rec \<and> \<not> na), se_not_applicable = na\<rparr>"

text \<open>What \<open>copy\<close> and \<open>pickle\<close> rebuild from \<open>__reduce__\<close>.\<close>

definition rebuild_source_error :: "source_error \<Rightarrow> source_error" where
  "rebuild_source_error e = mk_source_error (se_reason e) (se_recoverable e) (se_not_applicable e)"

lemma rebuild_mk_source_error [simp]:
  "rebuild_source_error (mk_source_error r c n) = mk_source_error r c n"
  by (simp add: rebuild_source_error_def mk_source_error_def)

section \<open>Source specifications\<close>

record source_spec =
  ss_name :: string
  quota_limited :: bool
  min_interval :: timedelta
  freshness_days :: int
  refresh_days :: int
  max_days_per_call :: int
  backfill_days :: int
  ss_dimensions :: "string list"

definition last_day :: "source_spec \<Rightarrow> date \<Rightarrow> date result" where
  "last_day s today = date_add today (- freshness_days s)"

definition regular_window :: "source_spec \<Rightarrow> date \<Rightarrow> day_range result" where
  "regular_window s today =
    try_bind (last_day s today) (\<lambda>end.
    try_bind (date_add end (- (refresh_days s - 1))) (\<lambda>start.
    mk_day_range start end))"

definition backfill_window :: "source_spec \<Rightarrow> date \<Rightarrow> day_range option result" where
  "backfill_window s today =
    (if backfill_days s \<le> 0 then Inr None
     else try_bind (last_day s today) (\<lambda>end.
          try_bind (date_add end (- (backfill_days s - 1))) (\<lambda>start.
          try_bind (mk_day_range start end) (\<lambda>w. Inr (Some w)))))"

definition SOURCE_SPECS :: "(string \<times> source_spec) list" where
  "SOURCE_SPECS = [
    (''ga4'', \<lparr>ss_name = ''ga4'', quota_limited = True, min_interval = hours 8,
       freshness_days = 1, refresh_days = 3, max_days_per_call = 31, backfill_days = 90,
       ss_dimensions = [''event_name'']\<rparr>),
    (''gsc'', \<lparr>ss_name = ''gsc'', quota_limited = True, min_interval = hours 8,
       freshness_days = 3, refresh_days = 3, max_days_per_call = 31, backfill_days = 90,
       ss_dimensions = [''page'', ''query'']\<rparr>),
    (''cwv'', \<lparr>ss_name = ''cwv'', quota_limited = True, min_interval = hours 8,
       freshness_days = 0, refresh_days = 1, max_days_per_call = 1, backfill_days = 0,
       ss_dimensions = []\<rparr>),
    (''probe'', \<lparr>ss_name = ''probe'', quota_limited = False, min_interval = hours 1,
       freshness_days = 0, refresh_days = 1, max_days_per_call = 1, backfill_days = 0,
       ss_dimensions = []\<rparr>)]"

definition source_spec_of :: "string \<Rightarrow> source_spec result" where
  "source_spec_of name = dict_get SOURCE_SPECS name"

end
