(* ===== verification/Sha256.thy ===== *)
theory Sha256
  imports Prelude
begin

unbundle bit_operations_syntax

text \<open>
  \<open>hashlib.sha256\<close>, the digest the program derives its stable offsets, dimension keys and
  stored tokens from, as FIPS 180-4 defines it: bytes are 8-bit words, the state eight
  32-bit words. The lemmas give the length of the digest and the range of the integers read from it.
\<close>

type_synonym byte = "8 word"
type_synonym u32 = "32 word"

definition rotr32 :: "nat \<Rightarrow> u32 \<Rightarrow> u32" where
  "rotr32 n x = drop_bit n x OR push_bit (32 - n) x"

definition sha_k :: "u32 list" where
  "sha_k = [
   1116352408, 1899447441, 3049323471, 3921009573,
   961987163, 1508970993, 2453635748, 2870763221,
   3624381080, 310598401, 607225278, 1426881987,
   1925078388, 2162078206, 2614888103, 3248222580,
   3835390401, 4022224774, 264347078, 604807628,
   770255983, 1249150122, 1555081692, 1996064986,
   2554220882, 2821834349, 2952996808, 3210313671,
   3336571891, 3584528711, 113926993, 338241895,
   666307205, 773529912, 1294757372, 1396182291,
   1695183700, 1986661051, 2177026350, 2456956037,
   2730485921, 2820302411, 3259730800, 3345764771,
   3516065817, 3600352804, 4094571909, 275423344,
   430227734, 506948616, 659060556, 883997877,
   958139571, 1322822218, 1537002063, 1747873779,
   1955562222, 2024104815, 2227730452, 2361852424,
   2428436474, 2756734187, 3204031479, 3329325298]"

definition sha_init :: "u32 list" where
  "sha_init = [
   1779033703, 3144134277, 1013904242, 2773480762,
   1359893119, 2600822924, 528734635, 1541459225]"

definition be_word :: "byte list \<Rightarrow> u32" where
  "be_word bs = fold (\<lambda>b acc. push_bit 8 acc OR ucast b) bs 0"

definition word_bytes :: "u32 \<Rightarrow> byte list" where
  "word_bytes w = [ucast (drop_bit 24 w), ucast (drop_bit 16 w), ucast (drop_bit 8 w), ucast w]"

definition length_bytes :: "nat \<Rightarrow> byte list" where
  "length_bytes n = map (\<lambda>i. word_of_nat (n div 256 ^ (7 - i))) [0..<8]"

definition sha_pad :: "byte list \<Rightarrow> byte list" where
  "sha_pad m = m @ [0x80] @ replicate ((119 - length m mod 64) mod 64) 0 @ length_bytes (8 * length m)"

function chunks_of :: "nat \<Rightarrow> 'a list \<Rightarrow> 'a list list" where
  "chunks_of n xs = (if n = 0 \<or> xs = [] then [] else take n xs # chunks_of n (drop n xs))"
  by pat_completeness auto
termination
  by (relation "measure (\<lambda>(n, xs). length xs)") auto

declare chunks_of.simps [simp del]

text \<open>The message schedule, latest word first.\<close>

primrec sha_expand :: "nat \<Rightarrow> u32 list \<Rightarrow> u32 list" where
  "sha_expand 0 ws = ws"
| "sha_expand (Suc n) ws = (let
     a = ws ! 14; s0 = rotr32 7 a XOR rotr32 18 a XOR drop_bit 3 a;
     b = ws ! 1; s1 = rotr32 17 b XOR rotr32 19 b XOR drop_bit 10 b
   in sha_expand n ((ws ! 15 + s0 + ws ! 6 + s1) # ws))"

fun sha_round :: "u32 \<times> u32 \<Rightarrow> u32 list \<Rightarrow> u32 list" where
  "sha_round (k, w) [a, b, c, d, e, f, g, h] = (let
     s1 = rotr32 6 e XOR rotr32 11 e XOR rotr32 25 e;
     ch = (e AND f) XOR (NOT e AND g);
     t1 = h + s1 + ch + k + w;
     s0 = rotr32 2 a XOR rotr32 13 a XOR rotr32 22 a;
     maj = (a AND b) XOR (a AND c) XOR (b AND c)
   in [t1 + (s0 + maj), a, b, c, d + t1, e, f, g])"
| "sha_round _ st = st"

definition sha_block :: "byte list \<Rightarrow> u32 list \<Rightarrow> u32 list" where
  "sha_block blk st = (let ws = rev (sha_expand 48 (rev (map be_word (chunks_of 4 blk))))
     in map2 (+) st (fold sha_round (zip sha_k ws) st))"

definition sha256 :: "byte list \<Rightarrow> byte list" where
  "sha256 m = concat (map word_bytes (fold sha_block (chunks_of 64 (sha_pad m)) sha_init))"

text \<open>\<open>int.from_bytes(bs, "big")\<close>.\<close>

definition be_nat :: "byte list \<Rightarrow> nat" where
  "be_nat bs = fold (\<lambda>b acc. acc * 256 + unat b) bs 0"

section \<open>Lengths and ranges\<close>

lemma length_sha_round [simp]: "length (sha_round kw st) = length st"
  by (induction kw st rule: sha_round.induct) (simp_all add: Let_def)

lemma length_fold_sha_round [simp]: "length (fold sha_round kws st) = length st"
  by (induction kws arbitrary: st) simp_all

lemma length_sha_block [simp]: "length (sha_block blk st) = length st"
  by (simp add: sha_block_def Let_def)

lemma length_fold_sha_block [simp]: "length (fold sha_block blks st) = length st"
  by (induction blks arbitrary: st) simp_all

lemma length_sha256 [simp]: "length (sha256 m) = 32"
proof -
  define ws where "ws = fold sha_block (chunks_of 64 (sha_pad m)) sha_init"
  have "length (concat (map word_bytes xs)) = 4 * length xs" for xs
    by (induction xs) (simp_all add: word_bytes_def)
  moreover have "length ws = 8" by (simp add: ws_def sha_init_def)
  ultimately show ?thesis by (simp add: sha256_def ws_def [symmetric])
qed

lemma be_nat_acc: "fold (\<lambda>b acc. acc * 256 + unat b) bs n = n * 256 ^ length bs + be_nat bs"
proof (induction bs arbitrary: n)
  case Nil
  then show ?case by (simp add: be_nat_def)
next
  case (Cons b bs)
  from Cons.IH [of "n * 256 + unat b"] Cons.IH [of "unat b"] show ?case
    by (simp add: be_nat_def algebra_simps)
qed

lemma be_nat_less: "be_nat (bs :: byte list) < 256 ^ length bs"
proof (induction bs)
  case Nil
  then show ?case by (simp add: be_nat_def)
next
  case (Cons b bs)
  have "unat b < 2 ^ LENGTH(8)" by (rule unsigned_less)
  then have "unat b + 1 \<le> 256" by simp
  then have "(unat b + 1) * 256 ^ length bs \<le> 256 * 256 ^ length bs" by (rule mult_le_mono1)
  also have "256 * 256 ^ length bs = (256 :: nat) ^ length (b # bs)" by simp
  finally have "unat b * 256 ^ length bs + 256 ^ length bs \<le> (256 :: nat) ^ length (b # bs)" by simp
  with Cons have "unat b * 256 ^ length bs + be_nat bs < 256 ^ length (b # bs)" by linarith
  moreover have "be_nat (b # bs) = unat b * 256 ^ length bs + be_nat bs"
    using be_nat_acc [of bs "unat b"] by (simp add: be_nat_def)
  ultimately show ?case by simp
qed

end
