(* ===== verification/Job_Kinds.thy ===== *)
theory Job_Kinds
  imports Metric_Types Sha256
begin

text \<open>
  \<open>app/services/jobs/kinds.py\<close>: the kinds of background task, their frequencies, the grid of
  time slots, and the identity of a run (\<open>RunSpec\<close>), whose key makes deliveries idempotent.
  The lemmas say that a slot contains its instant and is shared exactly by the instants of that slot,
  that a schedule's offset stays inside its interval, and that keys of runs are injective.
\<close>

section \<open>Queues, frequencies, kinds\<close>

datatype queue_name = Q_ga4 | Q_gsc | Q_cwv | Q_light | Q_heavy

definition FREQUENCY_INTERVALS :: "(string \<times> timedelta) list" where
  "FREQUENCY_INTERVALS = [
    (''hourly'', hours 1),
    (''three_daily'', hours 8),
    (''daily'', days 1),
    (''every_3_days'', days 3),
    (''weekly'', days 7)]"

text \<open>A task kind; its label is UTF-8 text, written as bytes.\<close>

record task_kind =
  tk_name :: string
  tk_label :: string
  tk_queue :: queue_name
  schedulable :: bool
  tk_source :: "string option"
  tk_floor :: timedelta
  default_frequency :: "string option"
  per_site :: bool

definition allowed_frequencies :: "task_kind \<Rightarrow> string list" where
  "allowed_frequencies k = map fst (filter (\<lambda>(name, interval). tk_floor k \<le> interval) FREQUENCY_INTERVALS)"

definition source_floor :: "string \<Rightarrow> timedelta" where
  "source_floor s = (case map_of SOURCE_SPECS s of Some spec \<Rightarrow> min_interval spec | None \<Rightarrow> 0)"

definition e_acute :: string where "e_acute = [CHR 0xC3, CHR 0xA9]"

definition KINDS :: "(string \<times> task_kind) list" where
  "KINDS = map (\<lambda>k. (tk_name k, k)) [
    \<lparr>tk_name = ''collect_ga4'', tk_label = ''Donn'' @ e_acute @ ''es Google Analytics 4'',
      tk_queue = Q_ga4, schedulable = True, tk_source = Some ''ga4'',
      tk_floor = source_floor ''ga4'', default_frequency = Some ''daily'', per_site = True\<rparr>,
    \<lparr>tk_name = ''collect_gsc'', tk_label = ''Donn'' @ e_acute @ ''es Search Console'',
      tk_queue = Q_gsc, schedulable = True, tk_source = Some ''gsc'',
      tk_floor = source_floor ''gsc'', default_frequency = Some ''daily'', per_site = True\<rparr>,
    \<lparr>tk_name = ''collect_cwv'', tk_label = ''Core Web Vitals des visiteurs r'' @ e_acute @ ''els'',
      tk_queue = Q_cwv, schedulable = True, tk_source = Some ''cwv'',
      tk_floor = source_floor ''cwv'', default_frequency = Some ''daily'', per_site = True\<rparr>,
    \<lparr>tk_name = ''collect_probes'', tk_label = ''Certificat HTTPS et disponibilit'' @ e_acute @ '' du site'',
      tk_queue = Q_light, schedulable = True, tk_source = Some ''probe'',
      tk_floor = source_floor ''probe'', default_frequency = Some ''three_daily'', per_site = True\<rparr>,
    \<lparr>tk_name = ''measurement_check'', tk_label = ''V'' @ e_acute @ ''rification du plan de mesure'',
      tk_queue = Q_light, schedulable = True, tk_source = None,
      tk_floor = hours 8, default_frequency = Some ''daily'', per_site = True\<rparr>,
    \<lparr>tk_name = ''backfill'', tk_label = ''Historique initial (90 jours)'',
      tk_queue = Q_light, schedulable = False, tk_source = None,
      tk_floor = hours 1, default_frequency = None, per_site = True\<rparr>,
    \<lparr>tk_name = ''partition_maintenance'', tk_label = ''Maintenance du stockage des mesures'',
      tk_queue = Q_light, schedulable = False, tk_source = None,
      tk_floor = hours 1, default_frequency = None, per_site = False\<rparr>]"

definition SCHEDULABLE_KINDS :: "task_kind list" where
  "SCHEDULABLE_KINDS = filter schedulable (map snd KINDS)"

definition BACKFILL_SOURCES :: "string list" where
  "BACKFILL_SOURCES = [''ga4'', ''gsc'']"

definition COLLECT_KIND_BY_SOURCE :: "(string \<times> string) list" where
  "COLLECT_KIND_BY_SOURCE =
    List.map_filter (\<lambda>k. map_option (\<lambda>s. (s, tk_name k)) (tk_source k)) SCHEDULABLE_KINDS"

definition effective_interval :: "task_kind \<Rightarrow> string \<Rightarrow> timedelta result" where
  "effective_interval k frequency =
    try_bind (dict_get FREQUENCY_INTERVALS frequency) (\<lambda>i. Inr (max i (tk_floor k)))"

section \<open>The slot grid\<close>

definition uuid_bytes :: "uuid \<Rightarrow> byte list" where
  "uuid_bytes u = map (\<lambda>i. ucast (drop_bit (8 * (15 - i)) u)) [0..<16]"

definition schedule_offset :: "uuid \<Rightarrow> timedelta \<Rightarrow> timedelta" where
  "schedule_offset schedule_id interval = (let
     digest = sha256 (uuid_bytes schedule_id);
     n = be_nat (take 8 digest)
   in microseconds (drop_bit 64 ((interval div microseconds 1) * int n)))"

definition slot_start :: "datetime \<Rightarrow> timedelta \<Rightarrow> timedelta \<Rightarrow> datetime" where
  "slot_start now interval offset = (let anchor = 0 + offset
     in anchor + ((now - anchor) div interval) * interval)"

definition slot_label :: "datetime \<Rightarrow> string" where
  "slot_label slot = compact_minute slot"

section \<open>Runs\<close>

record run_spec =
  rs_kind :: string
  rs_website_id :: "uuid option"
  rs_workspace_id :: "uuid option"
  rs_window :: string
  rs_params :: "(string \<times> string) list"

definition rs_key :: "run_spec \<Rightarrow> string" where
  "rs_key s = rs_kind s @ '':'' @
    (case rs_website_id s of Some u \<Rightarrow> str_uuid u | None \<Rightarrow> ''global'') @ '':'' @ rs_window s"

definition rs_queue :: "run_spec \<Rightarrow> queue_name result" where
  "rs_queue s =
    (if rs_kind s = ''backfill''
     then (let source = map_of (rs_params s) ''source'' in
       Inr (if source = Some ''gsc'' then Q_gsc else if source = Some ''ga4'' then Q_ga4 else Q_light))
     else try_bind (dict_get KINDS (rs_kind s)) (\<lambda>k. Inr (tk_queue k)))"

text \<open>The JSON body of a task: absent identifiers are null, the others are printed.\<close>

record run_payload =
  pl_kind :: string
  pl_website_id :: "string option"
  pl_workspace_id :: "string option"
  pl_window :: string
  pl_params :: "(string \<times> string) list"

definition to_payload :: "run_spec \<Rightarrow> run_payload" where
  "to_payload s = \<lparr>
     pl_kind = rs_kind s,
     pl_website_id = map_option str_uuid (rs_website_id s),
     pl_workspace_id = map_option str_uuid (rs_workspace_id s),
     pl_window = rs_window s,
     pl_params = rs_params s\<rparr>"

section \<open>Slots\<close>

lemma slot_start_bounds:
  assumes "0 < interval"
  shows "slot_start now interval offset \<le> now \<and> now < slot_start now interval offset + interval"
  using div_bounds [OF assms, of "now - offset"]
  by (simp add: slot_start_def mult.commute)

lemma slot_start_unique:
  assumes "0 < interval" "offset + q * interval \<le> now" "now < offset + q * interval + interval"
  shows "slot_start now interval offset = offset + q * interval"
proof -
  have "(now - offset) div interval = q"
    using assms by (intro int_div_pos_eq [of _ _ _ "now - offset - interval * q"]) (simp_all add: mult.commute)
  then show ?thesis by (simp add: slot_start_def)
qed

text \<open>The grid: instants share a slot exactly when no slot boundary separates them.\<close>

lemma slot_start_form: "slot_start now interval offset = offset + ((now - offset) div interval) * interval"
  by (simp add: slot_start_def)

lemma slot_start_eq_iff:
  assumes "0 < interval"
  shows "(slot_start t interval offset = slot_start now interval offset) =
    (slot_start now interval offset \<le> t \<and> t < slot_start now interval offset + interval)"
proof
  assume "slot_start t interval offset = slot_start now interval offset"
  with slot_start_bounds [OF assms, of t offset]
  show "slot_start now interval offset \<le> t \<and> t < slot_start now interval offset + interval" by simp
next
  assume "slot_start now interval offset \<le> t \<and> t < slot_start now interval offset + interval"
  with slot_start_unique [OF assms, of offset "(now - offset) div interval" t]
  show "slot_start t interval offset = slot_start now interval offset"
    by (simp add: slot_start_form)
qed

lemma slot_start_idem: "0 < interval \<Longrightarrow>
    slot_start (slot_start now interval offset) interval offset = slot_start now interval offset"
  by (simp add: slot_start_eq_iff)

lemma slot_start_mono: "0 < interval \<Longrightarrow> s \<le> t \<Longrightarrow> slot_start s interval offset \<le> slot_start t interval offset"
  by (simp add: slot_start_form mult_right_mono zdiv_mono1)

lemma drop_bit_scale:
  assumes "0 < k" "n < 2 ^ 64"
  shows "0 \<le> drop_bit 64 (k * int n) \<and> drop_bit 64 (k * int n) < k"
proof -
  have "int n < 2 ^ 64" using assms(2) by (metis of_nat_less_iff of_nat_numeral of_nat_power)
  then have "k * int n < k * 2 ^ 64" using assms(1) by simp
  then have "k * int n div 2 ^ 64 < k" by (intro div_less_bound) simp_all
  with assms(1) show ?thesis by (simp add: drop_bit_eq_div pos_imp_zdiv_nonneg_iff)
qed

lemma schedule_offset_range:
  assumes "0 < interval"
  shows "0 \<le> schedule_offset u interval \<and> schedule_offset u interval < interval"
proof -
  have "be_nat (take 8 (sha256 (uuid_bytes u))) < 2 ^ 64"
    using be_nat_less [of "take 8 (sha256 (uuid_bytes u))"] by simp
  from drop_bit_scale [OF assms this] show ?thesis
    by (simp add: schedule_offset_def microseconds_def Let_def)
qed

section \<open>Intervals\<close>

lemma frequency_interval_pos:
  "map_of FREQUENCY_INTERVALS f = Some i \<Longrightarrow> hours 1 \<le> i"
  by (auto simp: FREQUENCY_INTERVALS_def duration_defs split: if_splits)

lemma effective_interval_ge:
  assumes "effective_interval k f = Inr i"
  shows "tk_floor k \<le> i \<and> hours 1 \<le> i"
  using assms by (auto simp: effective_interval_def dict_get_Inr le_max_iff_disj dest: frequency_interval_pos)

lemma effective_interval_pos: "effective_interval k f = Inr i \<Longrightarrow> 0 < i"
  using effective_interval_ge [of k f i] by (simp add: duration_defs)

section \<open>Keys\<close>

lemma split_at_colon:
  assumes "xs @ '':'' @ ys = xs' @ '':'' @ ys'" "CHR '':'' \<notin> set xs" "CHR '':'' \<notin> set xs'"
  shows "xs = xs' \<and> ys = ys'"
  using assms
proof (induction xs arbitrary: xs')
  case Nil
  then show ?case by (cases xs') auto
next
  case (Cons x xs)
  then show ?case by (cases xs') auto
qed

definition site_text :: "uuid option \<Rightarrow> string" where
  "site_text w = (case w of Some u \<Rightarrow> str_uuid u | None \<Rightarrow> ''global'')"

lemma site_text_inj: "site_text w = site_text w' \<Longrightarrow> w = w'"
proof -
  assume eq: "site_text w = site_text w'"
  have "str_uuid u \<noteq> ''global''" for u
  proof
    assume "str_uuid u = ''global''"
    then have "length (str_uuid u) = 6" by simp
    then show False by simp
  qed
  with eq show ?thesis
    by (auto simp: site_text_def dest: str_uuid_inj sym split: option.splits)
qed

lemma site_text_no_colon: "CHR '':'' \<notin> set (site_text w)"
  by (auto simp: site_text_def str_uuid_no_colon split: option.splits)

lemma rs_key_parts: "rs_key s = rs_kind s @ '':'' @ (site_text (rs_website_id s) @ '':'' @ rs_window s)"
  by (simp add: rs_key_def site_text_def)

lemma rs_key_inj:
  assumes "rs_key s = rs_key t" "CHR '':'' \<notin> set (rs_kind s)" "CHR '':'' \<notin> set (rs_kind t)"
  shows "rs_kind s = rs_kind t \<and> rs_website_id s = rs_website_id t \<and> rs_window s = rs_window t"
proof -
  from split_at_colon [OF assms(1) [unfolded rs_key_parts] assms(2,3)]
  have k: "rs_kind s = rs_kind t" and
    r: "site_text (rs_website_id s) @ '':'' @ rs_window s = site_text (rs_website_id t) @ '':'' @ rs_window t"
    by blast+
  from split_at_colon [OF r site_text_no_colon site_text_no_colon] k site_text_inj
  show ?thesis by blast
qed

end
