(* ===== verification/Job_Store.thy ===== *)
theory Job_Store
  imports Job_Kinds
begin

text \<open>
  The rows the background jobs live in (\<open>app/models/job_run.py\<close>,
  \<open>app/models/schedule.py\<close>, \<open>source_quota_event.py\<close>, the columns of \<open>website.py\<close> the
  jobs read) and the part of the database that holds them. The record \<open>jobs_db\<close> is extended by
  the stores of other components. The unique constraints of the tables are \<open>jobs_wf\<close>.
\<close>

datatype run_status = Queued | Running | Succeeded | Failed | Skipped

record job_run =
  jr_id :: uuid
  jr_key :: string
  jr_kind :: string
  jr_website_id :: "uuid option"
  jr_workspace_id :: "uuid option"
  jr_window :: string
  jr_params :: "(string \<times> string) list"
  jr_status :: run_status
  jr_attempt :: int
  jr_max_attempts :: int
  jr_lease_expires_at :: "datetime option"
  jr_enqueued_at :: datetime
  jr_started_at :: "datetime option"
  jr_finished_at :: "datetime option"
  jr_duration_ms :: "int option"
  jr_error_code :: "string option"
  jr_error_detail :: "string option"
  jr_recoverable :: "bool option"
  jr_observations :: int

record schedule =
  sc_id :: uuid
  sc_website_id :: uuid
  sc_kind :: string
  sc_frequency :: string
  sc_enabled :: bool
  sc_next_due_at :: datetime
  sc_last_run_at :: "datetime option"
  sc_last_status :: "run_status option"
  sc_last_success_at :: "datetime option"
  sc_failing_since :: "datetime option"
  sc_last_error_code :: "string option"
  sc_backfill_done_at :: "datetime option"

datatype stack_kind =
    Nextjs | Wordpress | Woocommerce | Nuxt | Vue | Angular | React | Vite | Php | Generic | Unknown

record website =
  ws_id :: uuid
  ws_workspace_id :: uuid
  ws_domain :: string
  ws_display_name :: string
  ws_detected_stack :: "stack_kind option"
  ws_stack_label :: "string option"
  ws_allow_insecure_probe :: bool
  ws_ssl_status :: "string option"
  ws_ssl_expires_at :: "datetime option"
  ws_ssl_checked_at :: "datetime option"
  ws_archived_at :: "datetime option"

record quota_event =
  qe_workspace_id :: uuid
  qe_source :: string
  qe_at :: datetime

record jobs_db =
  job_runs :: "job_run list"
  schedules :: "schedule list"
  websites :: "website list"
  quota_events :: "quota_event list"

section \<open>Queries\<close>

definition run_by_key :: "'a jobs_db_scheme \<Rightarrow> string \<Rightarrow> job_run option" where
  "run_by_key db k = find_row (\<lambda>r. jr_key r = k) (job_runs db)"

definition run_by_id :: "'a jobs_db_scheme \<Rightarrow> uuid \<Rightarrow> job_run option" where
  "run_by_id db i = find_row (\<lambda>r. jr_id r = i) (job_runs db)"

definition website_by_id :: "'a jobs_db_scheme \<Rightarrow> uuid \<Rightarrow> website option" where
  "website_by_id db i = find_row (\<lambda>w. ws_id w = i) (websites db)"

definition sc_site_kind :: "schedule \<Rightarrow> uuid \<times> string" where
  "sc_site_kind s = (sc_website_id s, sc_kind s)"

definition schedule_of :: "'a jobs_db_scheme \<Rightarrow> uuid \<Rightarrow> string \<Rightarrow> schedule option" where
  "schedule_of db w k = find_row (\<lambda>s. sc_site_kind s = (w, k)) (schedules db)"

section \<open>Writes\<close>

text \<open>Writing back a loaded row: the row with its identifier takes the new columns.\<close>

definition save_run :: "job_run \<Rightarrow> 'a jobs_db_scheme \<Rightarrow> 'a jobs_db_scheme" where
  "save_run r db = db\<lparr>job_runs := update_rows (\<lambda>x. jr_id x = jr_id r) (\<lambda>_. r) (job_runs db)\<rparr>"

definition save_schedule :: "schedule \<Rightarrow> 'a jobs_db_scheme \<Rightarrow> 'a jobs_db_scheme" where
  "save_schedule s db = db\<lparr>schedules := update_rows (\<lambda>x. sc_id x = sc_id s) (\<lambda>_. s) (schedules db)\<rparr>"

text \<open>
  The columns a new \<open>job_runs\<close> row gets from \<open>INSERT ... VALUES\<close>, shared by the scheduler
  and the runner: in the queue, never attempted.
\<close>

definition queued_row :: "uuid \<Rightarrow> run_spec \<Rightarrow> datetime \<Rightarrow> int \<Rightarrow> job_run" where
  "queued_row new_id spec now max_att = \<lparr>
     jr_id = new_id,
     jr_key = rs_key spec,
     jr_kind = rs_kind spec,
     jr_website_id = rs_website_id spec,
     jr_workspace_id = rs_workspace_id spec,
     jr_window = rs_window spec,
     jr_params = rs_params spec,
     jr_status = Queued,
     jr_attempt = 0,
     jr_max_attempts = max_att,
     jr_lease_expires_at = None,
     jr_enqueued_at = now,
     jr_started_at = None,
     jr_finished_at = None,
     jr_duration_ms = None,
     jr_error_code = None,
     jr_error_detail = None,
     jr_recoverable = None,
     jr_observations = 0\<rparr>"

section \<open>Constraints\<close>

definition jobs_wf :: "'a jobs_db_scheme \<Rightarrow> bool" where
  "jobs_wf db = (uniq_by jr_id (job_runs db) \<and> uniq_by jr_key (job_runs db) \<and>
     uniq_by sc_id (schedules db) \<and> uniq_by sc_site_kind (schedules db) \<and>
     uniq_by ws_id (websites db))"

lemma jobs_wfD:
  assumes "jobs_wf db"
  shows "uniq_by jr_id (job_runs db)" "uniq_by jr_key (job_runs db)" "uniq_by sc_id (schedules db)"
    "uniq_by sc_site_kind (schedules db)" "uniq_by ws_id (websites db)"
  using assms by (simp_all add: jobs_wf_def)

lemma run_by_keyD: "run_by_key db k = Some r \<Longrightarrow> r \<in> set (job_runs db) \<and> jr_key r = k"
  by (auto simp: run_by_key_def dest: find_row_SomeD)

lemma run_by_idD: "run_by_id db i = Some r \<Longrightarrow> r \<in> set (job_runs db) \<and> jr_id r = i"
  by (auto simp: run_by_id_def dest: find_row_SomeD)

lemma schedule_ofD: "schedule_of db w k = Some s \<Longrightarrow> s \<in> set (schedules db) \<and> sc_site_kind s = (w, k)"
  by (auto simp: schedule_of_def dest: find_row_SomeD)

lemma run_by_key_in: "jobs_wf db \<Longrightarrow> r \<in> set (job_runs db) \<Longrightarrow> run_by_key db (jr_key r) = Some r"
  unfolding run_by_key_def by (rule find_row_key) (auto dest: jobs_wfD)

lemma run_by_id_in: "jobs_wf db \<Longrightarrow> r \<in> set (job_runs db) \<Longrightarrow> run_by_id db (jr_id r) = Some r"
  unfolding run_by_id_def by (rule find_row_key) (auto dest: jobs_wfD)

lemma job_runs_save_run: "job_runs (save_run r db) = update_rows (\<lambda>x. jr_id x = jr_id r) (\<lambda>_. r) (job_runs db)"
  by (simp add: save_run_def)

lemma save_run_frame [simp]:
  "schedules (save_run r db) = schedules db" "websites (save_run r db) = websites db"
  "quota_events (save_run r db) = quota_events db"
  by (simp_all add: save_run_def)

lemma save_schedule_frame [simp]:
  "job_runs (save_schedule s db) = job_runs db" "websites (save_schedule s db) = websites db"
  "quota_events (save_schedule s db) = quota_events db"
  by (simp_all add: save_schedule_def)

text \<open>
  Replacing the row of an identifier by a row with the same identifier and key: what a reader by
  key sees, and the constraints.
\<close>

lemma replace_row_map:
  assumes "uniq_by idf rows" "r \<in> set rows" "idf r' = idf r" "key r' = key r"
  shows "map key (update_rows (\<lambda>x. idf x = idf r') (\<lambda>_. r') rows) = map key rows"
proof -
  have "x = r" if "x \<in> set rows" "idf x = idf r" for x
    using uniq_by_inj [OF assms(1) that(1) assms(2) that(2)] .
  with assms(3,4) show ?thesis by (auto simp: update_rows_def)
qed

lemma uniq_by_replace:
  assumes "uniq_by idf rows" "r \<in> set rows" "idf r' = idf r" "key r' = key r" "uniq_by key rows"
  shows "uniq_by key (update_rows (\<lambda>x. idf x = idf r') (\<lambda>_. r') rows)"
  using replace_row_map [OF assms(1-4)] assms(5) by (simp add: uniq_by_def)

lemma set_replace:
  assumes "r \<in> set rows" "idf r' = idf r" "uniq_by idf rows"
  shows "set (update_rows (\<lambda>x. idf x = idf r') (\<lambda>_. r') rows) = insert r' (set rows - {r})"
  using assms by (auto simp: table_simps dest: uniq_by_inj split: if_splits)

lemma jobs_wf_save_run [store_inv]:
  assumes "jobs_wf db" "r \<in> set (job_runs db)" "jr_id r' = jr_id r" "jr_key r' = jr_key r"
  shows "jobs_wf (save_run r' db)"
  using assms uniq_by_replace [of jr_id "job_runs db" r r' jr_id]
    uniq_by_replace [of jr_id "job_runs db" r r' jr_key]
  by (simp add: jobs_wf_def job_runs_save_run)

lemma jobs_wf_save_schedule [store_inv]:
  assumes "jobs_wf db" "s \<in> set (schedules db)" "sc_id s' = sc_id s" "sc_site_kind s' = sc_site_kind s"
  shows "jobs_wf (save_schedule s' db)"
  using assms uniq_by_replace [of sc_id "schedules db" s s' sc_id]
    uniq_by_replace [of sc_id "schedules db" s s' sc_site_kind]
  by (simp add: jobs_wf_def save_schedule_def)

lemma set_job_runs_save_run:
  "jobs_wf db \<Longrightarrow> r \<in> set (job_runs db) \<Longrightarrow> jr_id r' = jr_id r \<Longrightarrow>
    set (job_runs (save_run r' db)) = insert r' (set (job_runs db) - {r})"
  unfolding job_runs_save_run by (rule set_replace) (auto dest: jobs_wfD)

lemma run_by_key_None: "(run_by_key db k = None) = (\<forall>r \<in> set (job_runs db). jr_key r \<noteq> k)"
  by (simp add: run_by_key_def find_row_None)

lemma run_by_key_save_run:
  assumes "jobs_wf db" "r \<in> set (job_runs db)" "jr_id r' = jr_id r" "jr_key r' = jr_key r"
  shows "run_by_key (save_run r' db) k = (if k = jr_key r then Some r' else run_by_key db k)"
proof (cases "k = jr_key r")
  case True
  with assms jobs_wf_save_run [OF assms] run_by_key_in [of "save_run r' db" r'] show ?thesis
    by (simp add: set_job_runs_save_run)
next
  case False
  note new = set_job_runs_save_run [OF assms(1-3)]
  show ?thesis
  proof (cases "run_by_key db k")
    case None
    with False assms(4) have "run_by_key (save_run r' db) k = None"
      by (auto simp: run_by_key_None new)
    with None False show ?thesis by simp
  next
    case (Some s)
    then have "s \<in> set (job_runs db)" "jr_key s = k" by (auto dest: run_by_keyD)
    with False have "s \<in> set (job_runs (save_run r' db))" by (auto simp: new)
    from run_by_key_in [OF jobs_wf_save_run [OF assms] this] \<open>jr_key s = k\<close> Some False
    show ?thesis by simp
  qed
qed

end
