(* ===== verification/Job_Runner.thy ===== *)
theory Job_Runner
  imports Job_Store
begin

text \<open>
  \<open>app/services/jobs/runner.py\<close>: claiming a run under its lease, closing it, reflecting the
  outcome on the schedule, and \<open>execute_run\<close>, which classifies what the handler returned or
  raised. A transaction is one function on the database: the advisory lock on the key (then on the
  workspace) is held from the first read to the commit, so a claim is atomic, and the closing
  transaction holds the row lock.
\<close>

section \<open>Limits, claims, outcomes\<close>

record job_settings =
  jobs_lease_seconds :: int
  jobs_max_attempts :: int
  jobs_workspace_concurrency :: int

record job_limits =
  lim_lease :: timedelta
  lim_max_attempts :: int
  lim_workspace_concurrency :: int

definition limits_from_settings :: "job_settings \<Rightarrow> job_limits" where
  "limits_from_settings s = \<lparr>
     lim_lease = seconds (jobs_lease_seconds s),
     lim_max_attempts = jobs_max_attempts s,
     lim_workspace_concurrency = jobs_workspace_concurrency s\<rparr>"

datatype claim_status = Claimed | Duplicate | Busy | Exhausted | Throttled

record claim =
  cl_status :: claim_status
  cl_run :: job_run

record handler_outcome =
  ho_status :: run_status
  ho_observations :: int
  ho_note :: "string option"

record run_result =
  rr_claim :: claim_status
  rr_status :: "run_status option"
  rr_retry :: bool

section \<open>Exceptions\<close>

text \<open>What the runner inspects of an exception other than \<open>SourceError\<close>.\<close>

record py_exception =
  ex_type :: string
  ex_dbapi :: bool
  ex_sqlstate :: "string option"
  ex_message :: string

datatype raised = RaisedSource source_error | RaisedOther py_exception

definition text_in :: "string \<Rightarrow> string \<Rightarrow> bool" where
  "text_in pat s = list_ex (\<lambda>i. take (length pat) (drop i s) = pat) [0..<Suc (length s)]"

definition TRANSIENT_SQLSTATES :: "string list" where
  "TRANSIENT_SQLSTATES = [''55P03'', ''40P01'', ''40001'']"

definition is_transient_db_error :: "py_exception \<Rightarrow> bool" where
  "is_transient_db_error e =
    (if \<not> ex_dbapi e then False
     else if (case ex_sqlstate e of Some c \<Rightarrow> c \<in> set TRANSIENT_SQLSTATES | None \<Rightarrow> False) then True
     else text_in ''partition constraint'' (ex_message e) \<or>
          text_in ''no partition of relation'' (ex_message e))"

section \<open>Closing a run\<close>

definition close_run :: "run_status \<Rightarrow> string option \<Rightarrow> bool option \<Rightarrow> datetime \<Rightarrow> int \<Rightarrow>
    string option \<Rightarrow> job_run \<Rightarrow> job_run" where
  "close_run status error_code recoverable now observations detail run = run\<lparr>
     jr_status := status,
     jr_error_code := error_code,
     jr_error_detail := detail,
     jr_recoverable := recoverable,
     jr_observations := observations,
     jr_finished_at := Some now,
     jr_lease_expires_at := None,
     jr_duration_ms := (case jr_started_at run of
        Some started \<Rightarrow> Some (max 0 ((now - started) div 1000))
      | None \<Rightarrow> jr_duration_ms run)\<rparr>"

text \<open>The schedule a run reports to: a backfill reports to its source's collection.\<close>

definition reported_kind :: "job_run \<Rightarrow> string option" where
  "reported_kind run = (if jr_kind run = ''backfill''
     then map_of COLLECT_KIND_BY_SOURCE (case map_of (jr_params run) ''source'' of Some s \<Rightarrow> s | None \<Rightarrow> [])
     else Some (jr_kind run))"

definition schedule_outcome :: "job_run \<Rightarrow> datetime \<Rightarrow> schedule \<Rightarrow> schedule" where
  "schedule_outcome run now s0 =
    (let s = s0\<lparr>sc_last_run_at := Some now, sc_last_status := Some (jr_status run)\<rparr> in
     if jr_status run = Succeeded then
       (let s = s\<lparr>sc_last_success_at := Some now, sc_failing_since := None, sc_last_error_code := None\<rparr>
        in if jr_kind run = ''backfill'' then s\<lparr>sc_backfill_done_at := Some now\<rparr> else s)
     else if jr_status run = Failed then
       (let s = s\<lparr>sc_last_error_code := jr_error_code run\<rparr>
        in if sc_failing_since s = None then s\<lparr>sc_failing_since := Some now\<rparr> else s)
     else s\<lparr>sc_last_error_code := jr_error_code run, sc_failing_since := None\<rparr>)"

definition record_schedule_outcome :: "job_run \<Rightarrow> datetime \<Rightarrow> 'a jobs_db_scheme \<Rightarrow> 'a jobs_db_scheme" where
  "record_schedule_outcome run now db =
    (case jr_website_id run of
       None \<Rightarrow> db
     | Some w \<Rightarrow>
         (case reported_kind run of
            None \<Rightarrow> db
          | Some kind \<Rightarrow>
              (case schedule_of db w kind of
                 None \<Rightarrow> db
               | Some s \<Rightarrow> save_schedule (schedule_outcome run now s) db)))"

section \<open>Claiming\<close>

definition lease_valid :: "datetime \<Rightarrow> job_run \<Rightarrow> bool" where
  "lease_valid now run = (case jr_lease_expires_at run of Some e \<Rightarrow> now < e | None \<Rightarrow> False)"

definition live :: "datetime \<Rightarrow> job_run \<Rightarrow> bool" where
  "live now r = (jr_status r = Running \<and> lease_valid now r)"

definition running_in :: "uuid \<Rightarrow> datetime \<Rightarrow> job_run \<Rightarrow> bool" where
  "running_in ws now r = (jr_workspace_id r = Some ws \<and> live now r)"

definition insert_run :: "job_run \<Rightarrow> 'a jobs_db_scheme \<Rightarrow> 'a jobs_db_scheme" where
  "insert_run row db = db\<lparr>job_runs := insert_new jr_key row (job_runs db)\<rparr>"

definition start_run :: "job_limits \<Rightarrow> datetime \<Rightarrow> job_run \<Rightarrow> job_run" where
  "start_run limits now run = run\<lparr>
     jr_status := Running,
     jr_attempt := jr_attempt run + 1,
     jr_started_at := Some now,
     jr_finished_at := None,
     jr_lease_expires_at := Some (now + lim_lease limits)\<rparr>"

text \<open>The decision on the row that the insertion made or found, under its lock.\<close>

definition claim_row :: "job_limits \<Rightarrow> datetime \<Rightarrow> job_run \<Rightarrow> 'a jobs_db_scheme \<Rightarrow> 'a jobs_db_scheme \<times> claim" where
  "claim_row limits now run db =
    (if jr_status run \<in> {Succeeded, Skipped} then (db, \<lparr>cl_status = Duplicate, cl_run = run\<rparr>)
     else if jr_status run = Running \<and> lease_valid now run then (db, \<lparr>cl_status = Busy, cl_run = run\<rparr>)
     else if jr_status run = Failed \<and> jr_recoverable run = Some False
     then (db, \<lparr>cl_status = Exhausted, cl_run = run\<rparr>)
     else if jr_max_attempts run \<le> jr_attempt run then
       (if jr_status run = Running
        then (let closed = close_run Failed (Some ''lease_expired'') (Some True) now 0 None run
              in (record_schedule_outcome closed now (save_run closed db),
                  \<lparr>cl_status = Exhausted, cl_run = closed\<rparr>))
        else (db, \<lparr>cl_status = Exhausted, cl_run = run\<rparr>))
     else if (case jr_workspace_id run of
                Some ws \<Rightarrow> lim_workspace_concurrency limits
                  \<le> int (count_rows (\<lambda>r. running_in ws now r \<and> jr_id r \<noteq> jr_id run) (job_runs db))
              | None \<Rightarrow> False)
     then (db, \<lparr>cl_status = Throttled, cl_run = run\<rparr>)
     else (let started = start_run limits now run
           in (save_run started db, \<lparr>cl_status = Claimed, cl_run = started\<rparr>)))"

text \<open>
  \<open>INSERT ... ON CONFLICT DO NOTHING\<close>, then the row of the key. The select always finds a row
  (\<open>claim_finds_row\<close> below); the second branch only makes the definition total.
\<close>

definition claim_run :: "uuid \<Rightarrow> run_spec \<Rightarrow> datetime \<Rightarrow> job_limits \<Rightarrow> 'a jobs_db_scheme \<Rightarrow>
    'a jobs_db_scheme \<times> claim" where
  "claim_run new_id spec now limits db =
    (let row = queued_row new_id spec now (lim_max_attempts limits);
         db1 = insert_run row db
     in case run_by_key db1 (rs_key spec) of
          Some run \<Rightarrow> claim_row limits now run db1
        | None \<Rightarrow> (db1, \<lparr>cl_status = Exhausted, cl_run = row\<rparr>))"

section \<open>Closing transaction\<close>

text \<open>
  \<open>committed\<close> is the database as last committed, \<open>db\<close> what the session sees (the handler's
  pending writes included). A claim whose lease was lost rolls back to \<open>committed\<close>.
\<close>

definition finish :: "uuid \<Rightarrow> run_status \<Rightarrow> string option \<Rightarrow> bool option \<Rightarrow> datetime \<Rightarrow> int \<Rightarrow> int \<Rightarrow>
    string option \<Rightarrow> 'a jobs_db_scheme \<Rightarrow> 'a jobs_db_scheme \<Rightarrow> 'a jobs_db_scheme \<times> run_result" where
  "finish run_id status error_code recoverable now claimed_attempt observations detail committed db =
    (case run_by_id db run_id of
       None \<Rightarrow> (db, \<lparr>rr_claim = Claimed, rr_status = None, rr_retry = False\<rparr>)
     | Some run \<Rightarrow>
         if jr_status run \<noteq> Running \<or> jr_attempt run \<noteq> claimed_attempt
         then (committed, \<lparr>rr_claim = Claimed, rr_status = Some (jr_status run), rr_retry = False\<rparr>)
         else (let closed = close_run status error_code recoverable now observations detail run
               in (record_schedule_outcome closed now (save_run closed db),
                   \<lparr>rr_claim = Claimed, rr_status = Some status,
                    rr_retry = (status = Failed \<and> recoverable = Some True \<and>
                                jr_attempt closed < jr_max_attempts closed)\<rparr>)))"

section \<open>Executing a run\<close>

text \<open>
  What a handler leaves behind: the database as it committed it, the database with its pending
  writes on top, and what it returned or raised (a failed flush of the pending writes is a raise).
\<close>

record 'db handler_run =
  hr_committed :: 'db
  hr_pending :: 'db
  hr_result :: "raised + handler_outcome"

type_synonym 'db handler = "job_run \<Rightarrow> 'db \<Rightarrow> 'db handler_run"

definition unknown_kind_run :: "'db handler" where
  "unknown_kind_run run db = \<lparr>hr_committed = db, hr_pending = db,
     hr_result = Inl (RaisedSource (mk_source_error ''unknown_kind'' False False))\<rparr>"

definition close_execution :: "uuid \<Rightarrow> int \<Rightarrow> datetime \<Rightarrow> 'a jobs_db_scheme handler_run \<Rightarrow>
    'a jobs_db_scheme \<times> run_result" where
  "close_execution run_id claimed_attempt t h =
    (case hr_result h of
       Inr outcome \<Rightarrow>
         finish run_id (ho_status outcome) (ho_note outcome) None t claimed_attempt
           (ho_observations outcome) None (hr_committed h) (hr_pending h)
     | Inl (RaisedSource e) \<Rightarrow>
         if se_not_applicable e
         then finish run_id Skipped (Some (se_reason e)) None t claimed_attempt 0 None
           (hr_committed h) (hr_committed h)
         else finish run_id Failed (Some (se_reason e)) (Some (se_recoverable e)) t claimed_attempt 0 None
           (hr_committed h) (hr_committed h)
     | Inl (RaisedOther e) \<Rightarrow>
         if is_transient_db_error e
         then finish run_id Failed (Some ''db_transient'') (Some True) t claimed_attempt 0
           (Some (ex_type e)) (hr_committed h) (hr_committed h)
         else finish run_id Failed (Some ''internal_error'') (Some True) t claimed_attempt 0
           (Some (ex_type e)) (hr_committed h) (hr_committed h))"

definition execute_run :: "uuid \<Rightarrow> run_spec \<Rightarrow> (string \<times> 'a jobs_db_scheme handler) list \<Rightarrow> job_limits \<Rightarrow>
    datetime \<Rightarrow> datetime \<Rightarrow> 'a jobs_db_scheme \<Rightarrow> 'a jobs_db_scheme \<times> run_result" where
  "execute_run new_id spec handlers limits t0 t1 db =
    (let (db1, cl) = claim_run new_id spec t0 limits db in
     if cl_status cl \<noteq> Claimed
     then (db1, \<lparr>rr_claim = cl_status cl, rr_status = Some (jr_status (cl_run cl)),
                 rr_retry = (cl_status cl \<in> {Busy, Throttled})\<rparr>)
     else (let handler = (case map_of handlers (rs_kind spec) of Some h \<Rightarrow> h | None \<Rightarrow> unknown_kind_run)
           in close_execution (jr_id (cl_run cl)) (jr_attempt (cl_run cl)) t1 (handler (cl_run cl) db1)))"

end
