(* ===== verification/Job_Queue.thy ===== *)
theory Job_Queue
  imports Job_Runner
begin

text \<open>
  \<open>app/services/jobs/queue.py\<close> and \<open>cloud_tasks.py\<close>: the queue a task is deposited in. An
  enqueue runs outside any transaction; it takes the queue's own state and the database (which an
  inline execution, or other workers meanwhile, may change) and returns both with what it raised.
  The locale \<open>task_queue\<close> is the contract the scheduler relies on.
\<close>

record task_message =
  tm_spec :: run_spec
  tm_queue :: queue_name

datatype enqueue_outcome = Enqueued | EnqueueError string | EnqueueRaised string

definition message_of :: "run_spec \<Rightarrow> task_message result" where
  "message_of s = try_bind (rs_queue s) (\<lambda>q. Inr \<lparr>tm_spec = s, tm_queue = q\<rparr>)"

section \<open>Inline queue\<close>

record inline_queue =
  iq_executed :: "string list"
  iq_failed :: "string list"

text \<open>
  \<open>execute\<close> runs the task on the database; it returns the type name of the exception it raised,
  if any. The queue records it and never raises.
\<close>

definition inline_enqueue :: "(run_spec \<Rightarrow> 'db \<Rightarrow> 'db \<times> string option) \<Rightarrow> task_message \<Rightarrow>
    inline_queue \<Rightarrow> 'db \<Rightarrow> inline_queue \<times> 'db \<times> enqueue_outcome" where
  "inline_enqueue execute message q db =
    (let q1 = q\<lparr>iq_executed := iq_executed q @ [rs_key (tm_spec message)]\<rparr>;
         (db1, exc) = execute (tm_spec message) db
     in case exc of
          None \<Rightarrow> (q1, db1, Enqueued)
        | Some ty \<Rightarrow> (q1\<lparr>iq_failed := iq_failed q1 @ [ty]\<rparr>, db1, Enqueued))"

section \<open>Cloud Tasks\<close>

definition ascii_bytes :: "string \<Rightarrow> byte list" where
  "ascii_bytes s = map (\<lambda>c. word_of_nat (of_char c)) s"

definition hexdigest :: "byte list \<Rightarrow> string" where
  "hexdigest bs = concat (map (\<lambda>b. hex 2 (unat b)) (sha256 bs))"

definition task_id_for :: "string \<Rightarrow> string" where
  "task_id_for key = ''t-'' @ hexdigest (ascii_bytes key)"

text \<open>
  The service behind the REST call is not part of the repository: \<open>post\<close> stands for it. It
  receives the task's name, which derives from the run's key, and the payload, and answers with the
  status code and whether the body says \<open>ALREADY_EXISTS\<close>, or with a transport failure.
\<close>

datatype http_reply = Reply int bool | TransportFailure

record cloud_task =
  ct_name :: string
  ct_body :: run_payload

definition queue_text :: "queue_name \<Rightarrow> string" where
  "queue_text q = (case q of Q_ga4 \<Rightarrow> ''ga4'' | Q_gsc \<Rightarrow> ''gsc'' | Q_cwv \<Rightarrow> ''cwv''
     | Q_light \<Rightarrow> ''light'' | Q_heavy \<Rightarrow> ''heavy'')"

record cloud_config =
  cc_project :: string
  cc_location :: string
  cc_prefix :: string

definition queue_parent :: "cloud_config \<Rightarrow> queue_name \<Rightarrow> string" where
  "queue_parent c q = ''projects/'' @ cc_project c @ ''/locations/'' @ cc_location c @
     ''/queues/'' @ cc_prefix c @ ''-'' @ queue_text q"

definition cloud_task_of :: "cloud_config \<Rightarrow> task_message \<Rightarrow> cloud_task" where
  "cloud_task_of c m = \<lparr>
     ct_name = queue_parent c (tm_queue m) @ ''/tasks/'' @ task_id_for (rs_key (tm_spec m)),
     ct_body = to_payload (tm_spec m)\<rparr>"

definition classify_reply :: "http_reply \<Rightarrow> enqueue_outcome" where
  "classify_reply r = (case r of
      TransportFailure \<Rightarrow> EnqueueError ''network''
    | Reply status exists \<Rightarrow>
        if status = 409 then (if exists then Enqueued else EnqueueError ''http_409'')
        else if 400 \<le> status then EnqueueError (''http_'' @ str_int status)
        else Enqueued)"

text \<open>\<open>token\<close> is whether the metadata server gave an access token.\<close>

definition cloud_enqueue :: "cloud_config \<Rightarrow> (cloud_task \<Rightarrow> 'q \<Rightarrow> 'q \<times> http_reply) \<Rightarrow> bool \<Rightarrow> task_message \<Rightarrow>
    'q \<Rightarrow> 'db \<Rightarrow> 'q \<times> 'db \<times> enqueue_outcome" where
  "cloud_enqueue c post token message q db =
    (if \<not> token then (q, db, EnqueueError ''credentials'')
     else (let (q1, reply) = post (cloud_task_of c message) q in (q1, db, classify_reply reply)))"

section \<open>The contract of a queue\<close>

text \<open>
  What the scheduler relies on: an enqueue keeps the invariant \<open>keeps\<close> of the database, whatever it
  executes meanwhile.
\<close>

locale task_queue =
  fixes enqueue :: "task_message \<Rightarrow> 'q \<Rightarrow> 'db \<Rightarrow> 'q \<times> 'db \<times> enqueue_outcome"
    and keeps :: "'db \<Rightarrow> bool"
  assumes enqueue_keeps: "keeps db \<Longrightarrow> enqueue m q db = (q', db', out) \<Longrightarrow> keeps db'"

lemma inline_enqueue_never_raises: "inline_enqueue ex m q db = (q', db', out) \<Longrightarrow> out = Enqueued"
  by (auto simp: inline_enqueue_def Let_def split: prod.splits option.splits)

lemma inline_enqueue_db: "inline_enqueue ex m q db = (q', db', out) \<Longrightarrow> db' = fst (ex (tm_spec m) db)"
  by (auto simp: inline_enqueue_def Let_def split: prod.splits option.splits)

lemma cloud_enqueue_db: "cloud_enqueue c post token m q db = (q', db', out) \<Longrightarrow> db' = db"
  by (auto simp: cloud_enqueue_def Let_def split: prod.splits if_splits)

interpretation cloud_queue: task_queue "cloud_enqueue c post token" keeps for c post token keeps
  by unfold_locales (auto dest: cloud_enqueue_db)

lemma length_hexdigest [simp]: "length (hexdigest bs) = 64"
proof -
  have "length (concat (map (\<lambda>b. hex 2 (unat b)) xs)) = 2 * length xs" for xs :: "byte list"
    by (induction xs) simp_all
  then show ?thesis by (simp add: hexdigest_def)
qed

end
