(* ===== verification/Job_Scheduler.thy ===== *)
theory Job_Scheduler
  imports Job_Queue
begin

text \<open>
  \<open>app/services/jobs/scheduler.py\<close>: one pass of the scheduler. Its phases are separate
  transactions: expiry and default schedules; reservation of the due schedules under the daily
  cap; deposits in the queue with no transaction open; restoration of what could not be
  deposited. \<open>schedules.py\<close>'s \<open>upsert_schedule\<close> is here too, as the other writer of due dates.
  Random identifiers (\<open>uuid4\<close>, \<open>gen_random_uuid\<close>) are drawn by functions given as arguments.
\<close>

definition STALE_QUEUED_AFTER :: timedelta where "STALE_QUEUED_AFTER = hours 2"
definition STUCK_RUNNING_GRACE :: timedelta where "STUCK_RUNNING_GRACE = minutes 5"
definition STUCK_RUNNING_SWEEP_AFTER :: timedelta where
  "STUCK_RUNNING_SWEEP_AFTER = STUCK_RUNNING_GRACE + hours 1"

record tick_result =
  tr_materialized :: nat
  tr_enqueued :: nat
  tr_capped :: nat
  tr_failed_enqueue :: nat
  tr_expired_queued :: nat

section \<open>Default schedules\<close>

definition default_schedule :: "uuid \<Rightarrow> website \<Rightarrow> task_kind \<Rightarrow> datetime \<Rightarrow> schedule" where
  "default_schedule new_id w k now = \<lparr>
     sc_id = new_id,
     sc_website_id = ws_id w,
     sc_kind = tk_name k,
     sc_frequency = (case default_frequency k of Some f \<Rightarrow> f | None \<Rightarrow> []),
     sc_enabled = True,
     sc_next_due_at = now,
     sc_last_run_at = None,
     sc_last_status = None,
     sc_last_success_at = None,
     sc_failing_since = None,
     sc_last_error_code = None,
     sc_backfill_done_at = None\<rparr>"

definition insert_schedule :: "schedule \<Rightarrow> 'a jobs_db_scheme \<Rightarrow> 'a jobs_db_scheme" where
  "insert_schedule s db = db\<lparr>schedules := insert_new sc_site_kind s (schedules db)\<rparr>"

definition active_websites :: "'a jobs_db_scheme \<Rightarrow> website list" where
  "active_websites db = filter (\<lambda>w. ws_archived_at w = None) (websites db)"

definition materialize_kind :: "(string \<Rightarrow> uuid \<Rightarrow> uuid) \<Rightarrow> datetime \<Rightarrow> task_kind \<Rightarrow>
    'a jobs_db_scheme \<Rightarrow> 'a jobs_db_scheme" where
  "materialize_kind gen now k db =
    fold (\<lambda>w. insert_schedule (default_schedule (gen (tk_name k) (ws_id w)) w k now)) (active_websites db) db"

definition materialize_default_schedules :: "(string \<Rightarrow> uuid \<Rightarrow> uuid) \<Rightarrow> datetime \<Rightarrow>
    'a jobs_db_scheme \<Rightarrow> 'a jobs_db_scheme \<times> nat" where
  "materialize_default_schedules gen now db =
    (let db' = fold (materialize_kind gen now) SCHEDULABLE_KINDS db
     in (db', length (schedules db') - length (schedules db)))"

section \<open>Expiry\<close>

definition stale_queued :: "datetime \<Rightarrow> timedelta \<Rightarrow> job_run \<Rightarrow> bool" where
  "stale_queued now older r = (jr_status r = Queued \<and> jr_enqueued_at r < now - older)"

definition expire_stale_queued :: "datetime \<Rightarrow> timedelta \<Rightarrow> 'a jobs_db_scheme \<Rightarrow> 'a jobs_db_scheme \<times> nat" where
  "expire_stale_queued now older db =
    (db\<lparr>job_runs := update_rows (stale_queued now older)
        (\<lambda>r. r\<lparr>jr_status := Failed, jr_error_code := Some ''not_dispatched'',
               jr_recoverable := Some True, jr_finished_at := Some now\<rparr>) (job_runs db)\<rparr>,
     count_rows (stale_queued now older) (job_runs db))"

definition stuck_running :: "datetime \<Rightarrow> timedelta \<Rightarrow> job_run \<Rightarrow> bool" where
  "stuck_running now older r = (jr_status r = Running \<and>
     (case jr_lease_expires_at r of Some e \<Rightarrow> e < now - older | None \<Rightarrow> False))"

definition expire_one :: "datetime \<Rightarrow> job_run \<Rightarrow> job_run" where
  "expire_one now run = run\<lparr>
     jr_status := Failed,
     jr_error_code := Some ''lease_expired'',
     jr_recoverable := Some True,
     jr_finished_at := Some now,
     jr_lease_expires_at := None,
     jr_duration_ms := (case jr_started_at run of
        Some started \<Rightarrow> Some (max 0 ((now - started) div 1000))
      | None \<Rightarrow> jr_duration_ms run)\<rparr>"

definition expire_stuck_running :: "datetime \<Rightarrow> timedelta \<Rightarrow> 'a jobs_db_scheme \<Rightarrow> 'a jobs_db_scheme \<times> nat" where
  "expire_stuck_running now older db =
    (let runs = filter (stuck_running now older) (job_runs db)
     in (fold (\<lambda>run d. record_schedule_outcome (expire_one now run) now (save_run (expire_one now run) d)) runs db,
         length runs))"

section \<open>Due schedules and their runs\<close>

definition is_due :: "datetime \<Rightarrow> (uuid \<Rightarrow> bool) \<Rightarrow> schedule \<Rightarrow> bool" where
  "is_due now locked s = (sc_enabled s \<and> sc_next_due_at s \<le> now \<and> \<not> locked (sc_id s))"

text \<open>
  \<open>ORDER BY next_due_at, id LIMIT n FOR UPDATE SKIP LOCKED\<close>; \<open>locked\<close> are the rows another
  transaction holds. The two stable sorts are the lexicographic order.
\<close>

definition due_schedules :: "datetime \<Rightarrow> nat \<Rightarrow> (uuid \<Rightarrow> bool) \<Rightarrow> 'a jobs_db_scheme \<Rightarrow> (schedule \<times> website) list" where
  "due_schedules now limit locked db =
    take limit
      (sort_key (\<lambda>p. sc_next_due_at (fst p)) (sort_key (\<lambda>p. unat (sc_id (fst p)))
        (List.map_filter (\<lambda>s. case website_by_id db (sc_website_id s) of
            Some w \<Rightarrow> if is_due now locked s \<and> ws_archived_at w = None then Some (s, w) else None
          | None \<Rightarrow> None) (schedules db))))"

definition plan_run :: "schedule \<Rightarrow> website \<Rightarrow> datetime \<Rightarrow> run_spec result" where
  "plan_run s w now =
    try_bind (dict_get KINDS (sc_kind s)) (\<lambda>kind.
    try_bind (effective_interval kind (sc_frequency s)) (\<lambda>interval.
    (let label = slot_label (slot_start now interval 0) in
     Inr (case tk_source kind of
        Some source \<Rightarrow>
          if source \<in> set BACKFILL_SOURCES \<and> sc_backfill_done_at s = None
          then \<lparr>rs_kind = ''backfill'', rs_website_id = Some (ws_id w),
                rs_workspace_id = Some (ws_workspace_id w), rs_window = source @ ''-'' @ label,
                rs_params = [(''source'', source)]\<rparr>
          else \<lparr>rs_kind = tk_name kind, rs_website_id = Some (ws_id w),
                rs_workspace_id = Some (ws_workspace_id w), rs_window = label, rs_params = []\<rparr>
      | None \<Rightarrow> \<lparr>rs_kind = tk_name kind, rs_website_id = Some (ws_id w),
                rs_workspace_id = Some (ws_workspace_id w), rs_window = label, rs_params = []\<rparr>))))"

definition enqueue_failed_run :: "job_run \<Rightarrow> bool" where
  "enqueue_failed_run r = (jr_status r = Failed \<and> jr_error_code r = Some ''enqueue_failed'')"

definition requeue :: "datetime \<Rightarrow> job_run \<Rightarrow> job_run" where
  "requeue now r = r\<lparr>jr_status := Queued, jr_error_code := None, jr_recoverable := None,
     jr_finished_at := None, jr_enqueued_at := now\<rparr>"

definition insert_queued :: "uuid \<Rightarrow> run_spec \<Rightarrow> datetime \<Rightarrow> int \<Rightarrow> 'a jobs_db_scheme \<Rightarrow>
    'a jobs_db_scheme \<times> bool" where
  "insert_queued new_id spec now max_att db =
    (if rs_key spec \<notin> jr_key ` set (job_runs db)
     then (db\<lparr>job_runs := job_runs db @ [queued_row new_id spec now max_att]\<rparr>, True)
     else (let failed = (\<lambda>r. jr_key r = rs_key spec \<and> enqueue_failed_run r)
           in (db\<lparr>job_runs := update_rows failed (requeue now) (job_runs db)\<rparr>,
               0 < count_rows failed (job_runs db))))"

definition runs_today :: "uuid \<Rightarrow> datetime \<Rightarrow> 'a jobs_db_scheme \<Rightarrow> nat" where
  "runs_today ws now db =
    count_rows (\<lambda>r. jr_workspace_id r = Some ws \<and> midnight (date_of now) \<le> jr_enqueued_at r) (job_runs db)"

definition next_midnight :: "datetime \<Rightarrow> datetime" where
  "next_midnight now = midnight (date_of now + 1)"

section \<open>Reservation\<close>

record planned =
  pl_spec :: run_spec
  pl_schedule_id :: "uuid option"
  pl_previous_due :: "datetime option"
  pl_posed_due :: "datetime option"

record 'db reservation =
  rsv_db :: 'db
  rsv_counts :: "uuid \<rightharpoonup> nat"
  rsv_held :: "uuid \<rightharpoonup> nat"
  rsv_capped :: nat
  rsv_planned :: "planned list"

definition next_slot_of :: "schedule \<Rightarrow> datetime \<Rightarrow> datetime result" where
  "next_slot_of s now =
    try_bind (dict_get KINDS (sc_kind s)) (\<lambda>kind.
    try_bind (effective_interval kind (sc_frequency s)) (\<lambda>interval.
    Inr (slot_start now interval (schedule_offset (sc_id s) interval) + interval)))"

definition set_due :: "schedule \<Rightarrow> datetime \<Rightarrow> 'a jobs_db_scheme \<Rightarrow> 'a jobs_db_scheme" where
  "set_due s due db = save_schedule (s\<lparr>sc_next_due_at := due\<rparr>) db"

definition count_of :: "datetime \<Rightarrow> uuid \<Rightarrow> 'a jobs_db_scheme reservation \<Rightarrow> nat" where
  "count_of now ws st = (case rsv_counts st ws of Some n \<Rightarrow> n | None \<Rightarrow> runs_today ws now (rsv_db st))"

definition reserve_one :: "(string \<Rightarrow> uuid) \<Rightarrow> datetime \<Rightarrow> int \<Rightarrow> int \<Rightarrow> schedule \<times> website \<Rightarrow>
    'a jobs_db_scheme reservation \<Rightarrow> 'a jobs_db_scheme reservation result" where
  "reserve_one uuid4 now daily_cap max_att sw st =
    (let (s, w) = sw; ws = ws_workspace_id w; n = count_of now ws st;
         st = st\<lparr>rsv_counts := (rsv_counts st)(ws \<mapsto> n)\<rparr> in
     try_bind (next_slot_of s now) (\<lambda>next_slot.
       if daily_cap \<le> int n
       then Inr (st\<lparr>rsv_db := set_due s (min next_slot (next_midnight now)) (rsv_db st),
                    rsv_held := (rsv_held st)(ws \<mapsto> Suc (case rsv_held st ws of Some h \<Rightarrow> h | None \<Rightarrow> 0)),
                    rsv_capped := Suc (rsv_capped st)\<rparr>)
       else try_bind (plan_run s w now) (\<lambda>spec.
         (let (db', fresh) = insert_queued (uuid4 (rs_key spec)) spec now max_att
                (set_due s next_slot (rsv_db st)) in
          if fresh
          then Inr (st\<lparr>rsv_db := db', rsv_counts := (rsv_counts st)(ws \<mapsto> Suc n),
                       rsv_planned := rsv_planned st @ [\<lparr>pl_spec = spec, pl_schedule_id = Some (sc_id s),
                          pl_previous_due = Some (sc_next_due_at s), pl_posed_due = Some next_slot\<rparr>]\<rparr>)
          else Inr (st\<lparr>rsv_db := db'\<rparr>)))))"

fun reserve_all :: "(string \<Rightarrow> uuid) \<Rightarrow> datetime \<Rightarrow> int \<Rightarrow> int \<Rightarrow> (schedule \<times> website) list \<Rightarrow>
    'a jobs_db_scheme reservation \<Rightarrow> 'a jobs_db_scheme reservation result" where
  "reserve_all uuid4 now daily_cap max_att [] st = Inr st"
| "reserve_all uuid4 now daily_cap max_att (sw # rest) st =
    try_bind (reserve_one uuid4 now daily_cap max_att sw st) (reserve_all uuid4 now daily_cap max_att rest)"

definition maintenance_spec :: "datetime \<Rightarrow> run_spec" where
  "maintenance_spec now = \<lparr>rs_kind = ''partition_maintenance'', rs_website_id = None,
     rs_workspace_id = None, rs_window = compact_date (date_of now), rs_params = []\<rparr>"

definition start_reservation :: "'db \<Rightarrow> 'db reservation" where
  "start_reservation db = \<lparr>rsv_db = db, rsv_counts = Map.empty, rsv_held = Map.empty,
     rsv_capped = 0, rsv_planned = []\<rparr>"

text \<open>The second transaction; \<open>got_lock\<close> is the outcome of \<open>pg_try_advisory_xact_lock\<close>.\<close>

definition tick_reserve :: "(string \<Rightarrow> uuid) \<Rightarrow> datetime \<Rightarrow> nat \<Rightarrow> int \<Rightarrow> int \<Rightarrow> bool \<Rightarrow> (uuid \<Rightarrow> bool) \<Rightarrow>
    'a jobs_db_scheme \<Rightarrow> 'a jobs_db_scheme reservation result" where
  "tick_reserve uuid4 now batch daily_cap max_att got_lock locked db =
    (if \<not> got_lock then Inr (start_reservation db)
     else try_bind (reserve_all uuid4 now daily_cap max_att (due_schedules now batch locked db)
            (start_reservation db)) (\<lambda>st.
       (let m = maintenance_spec now;
            (db', fresh) = insert_queued (uuid4 (rs_key m)) m now max_att (rsv_db st) in
        Inr (if fresh
          then st\<lparr>rsv_db := db', rsv_planned := rsv_planned st @ [\<lparr>pl_spec = m, pl_schedule_id = None,
                    pl_previous_due = None, pl_posed_due = None\<rparr>]\<rparr>
          else st\<lparr>rsv_db := db'\<rparr>))))"

section \<open>Deposits\<close>

type_synonym ('q, 'db) enqueue_fun = "task_message \<Rightarrow> 'q \<Rightarrow> 'db \<Rightarrow> 'q \<times> 'db \<times> enqueue_outcome"

definition deposit :: "('q, 'db) enqueue_fun \<Rightarrow> planned \<Rightarrow> 'q \<Rightarrow> 'db \<Rightarrow> 'q \<times> 'db \<times> bool" where
  "deposit enqueue item q db =
    (case message_of (pl_spec item) of
       Inl e \<Rightarrow> (q, db, False)
     | Inr m \<Rightarrow> (let (q', db', out) = enqueue m q db in (q', db', out = Enqueued)))"

fun dispatch :: "('q, 'db) enqueue_fun \<Rightarrow> planned list \<Rightarrow> 'q \<Rightarrow> 'db \<Rightarrow> 'q \<times> 'db \<times> nat \<times> planned list" where
  "dispatch enqueue [] q db = (q, db, 0, [])"
| "dispatch enqueue (item # rest) q db =
    (let (q1, db1, ok) = deposit enqueue item q db;
         (q2, db2, n, failed) = dispatch enqueue rest q1 db1
     in (q2, db2, (if ok then Suc n else n), (if ok then failed else item # failed)))"

section \<open>Restoration\<close>

definition restore_due :: "planned \<Rightarrow> 'a jobs_db_scheme \<Rightarrow> 'a jobs_db_scheme" where
  "restore_due item db =
    (case (pl_schedule_id item, pl_previous_due item) of
       (Some sid, Some prev) \<Rightarrow>
         db\<lparr>schedules := update_rows (\<lambda>s. sc_id s = sid \<and> Some (sc_next_due_at s) = pl_posed_due item)
              (\<lambda>s. s\<lparr>sc_next_due_at := prev\<rparr>) (schedules db)\<rparr>
     | _ \<Rightarrow> db)"

definition mark_enqueue_failed :: "datetime \<Rightarrow> string \<Rightarrow> 'a jobs_db_scheme \<Rightarrow> 'a jobs_db_scheme" where
  "mark_enqueue_failed now key db =
    db\<lparr>job_runs := update_rows (\<lambda>r. jr_key r = key \<and> jr_status r = Queued)
      (\<lambda>r. r\<lparr>jr_status := Failed, jr_error_code := Some ''enqueue_failed'',
             jr_recoverable := Some True, jr_finished_at := Some now\<rparr>) (job_runs db)\<rparr>"

definition restore_one :: "datetime \<Rightarrow> planned \<Rightarrow> 'a jobs_db_scheme \<Rightarrow> 'a jobs_db_scheme" where
  "restore_one now item db = mark_enqueue_failed now (rs_key (pl_spec item)) (restore_due item db)"

definition tick_restore :: "datetime \<Rightarrow> planned list \<Rightarrow> 'a jobs_db_scheme \<Rightarrow> 'a jobs_db_scheme" where
  "tick_restore now failed db = fold (restore_one now) failed db"

section \<open>One pass\<close>

text \<open>
  An unknown kind or frequency in a reserved schedule raises \<open>KeyError\<close> out of the pass: the
  caller rolls the second transaction back, the first one stays committed.
\<close>

definition tick :: "(string \<Rightarrow> uuid \<Rightarrow> uuid) \<Rightarrow> (string \<Rightarrow> uuid) \<Rightarrow> ('q, 'a jobs_db_scheme) enqueue_fun \<Rightarrow>
    datetime \<Rightarrow> nat \<Rightarrow> int \<Rightarrow> int \<Rightarrow> bool \<Rightarrow> (uuid \<Rightarrow> bool) \<Rightarrow> 'q \<Rightarrow> 'a jobs_db_scheme \<Rightarrow>
    'q \<times> 'a jobs_db_scheme \<times> tick_result result" where
  "tick gen uuid4 enqueue now batch daily_cap max_att got_lock locked q db =
    (let (db1, materialized) = materialize_default_schedules gen now db;
         (db2, expired) = expire_stale_queued now STALE_QUEUED_AFTER db1;
         (db3, _) = expire_stuck_running now STUCK_RUNNING_SWEEP_AFTER db2 in
     case tick_reserve uuid4 now batch daily_cap max_att got_lock locked db3 of
       Inl e \<Rightarrow> (q, db3, Inl e)
     | Inr st \<Rightarrow>
         (let (q', db4, enqueued, failed) = dispatch enqueue (rsv_planned st) q (rsv_db st)
          in (q', tick_restore now failed db4,
              Inr \<lparr>tr_materialized = materialized, tr_enqueued = enqueued, tr_capped = rsv_capped st,
                   tr_failed_enqueue = length failed, tr_expired_queued = expired\<rparr>)))"

section \<open>The owner's change of a schedule\<close>

definition upsert_schedule :: "uuid \<Rightarrow> uuid \<Rightarrow> task_kind \<Rightarrow> string \<Rightarrow> bool \<Rightarrow> datetime \<Rightarrow>
    'a jobs_db_scheme \<Rightarrow> ('a jobs_db_scheme \<times> schedule) result" where
  "upsert_schedule new_id website_id kind frequency enabled now db =
    (let fresh = \<lparr>sc_id = new_id, sc_website_id = website_id, sc_kind = tk_name kind,
           sc_frequency = frequency, sc_enabled = enabled, sc_next_due_at = now,
           sc_last_run_at = None, sc_last_status = None, sc_last_success_at = None,
           sc_failing_since = None, sc_last_error_code = None, sc_backfill_done_at = None\<rparr>;
         db1 = (case schedule_of db website_id (tk_name kind) of
             None \<Rightarrow> insert_schedule fresh db
           | Some old \<Rightarrow> save_schedule (old\<lparr>sc_frequency := frequency, sc_enabled := enabled\<rparr>) db)
     in case schedule_of db1 website_id (tk_name kind) of
          None \<Rightarrow> Inr (db1, fresh)
        | Some s \<Rightarrow>
            (case sc_last_run_at s of
               None \<Rightarrow> Inr (db1, s)
             | Some last_run \<Rightarrow>
                 try_bind (effective_interval kind frequency) (\<lambda>interval.
                   let s' = s\<lparr>sc_next_due_at := min (sc_next_due_at s) (max (last_run + interval) now)\<rparr>
                   in Inr (save_schedule s' db1, s'))))"

end
