(* ===== verification/Job_Safety.thy ===== *)
theory Job_Safety
  imports Job_Scheduler
begin

text \<open>
  The transactions on \<open>job_runs\<close> as steps of a transition system: deliveries that claim, workers
  that close, the scheduler that deposits and expires, the maintenance that purges, in any
  order and any number, under a clock that does not go back. The invariant proved of every reachable
  state: keys and identifiers stay unique, a row's columns agree with its status, attempts stay within
  their bound, and no workspace has more live runs than its limit.
\<close>

section \<open>Purge\<close>

definition JOB_RUNS_RETENTION :: timedelta where "JOB_RUNS_RETENTION = days 90"

definition purgeable :: "datetime \<Rightarrow> timedelta \<Rightarrow> job_run \<Rightarrow> bool" where
  "purgeable now keep r = (case jr_finished_at r of Some f \<Rightarrow> f < now - keep | None \<Rightarrow> False)"

definition purge_old_job_runs :: "datetime \<Rightarrow> timedelta \<Rightarrow> 'a jobs_db_scheme \<Rightarrow> 'a jobs_db_scheme \<times> nat" where
  "purge_old_job_runs now keep db =
    (db\<lparr>job_runs := delete_rows (purgeable now keep) (job_runs db)\<rparr>,
     count_rows (purgeable now keep) (job_runs db))"

section \<open>Rows that agree with their status\<close>

definition run_ok :: "job_run \<Rightarrow> bool" where
  "run_ok r = (0 \<le> jr_attempt r \<and> jr_attempt r \<le> jr_max_attempts r \<and>
     (if jr_status r = Running
      then jr_lease_expires_at r \<noteq> None \<and> jr_started_at r \<noteq> None \<and> jr_finished_at r = None \<and> 1 \<le> jr_attempt r
      else jr_lease_expires_at r = None) \<and>
     (jr_finished_at r \<noteq> None \<longleftrightarrow> jr_status r \<in> {Succeeded, Failed, Skipped}))"

definition runs_ok :: "'a jobs_db_scheme \<Rightarrow> bool" where
  "runs_ok db = (\<forall>r \<in> set (job_runs db). run_ok r)"

definition within_limit :: "job_limits \<Rightarrow> datetime \<Rightarrow> 'a jobs_db_scheme \<Rightarrow> bool" where
  "within_limit L now db =
    (\<forall>ws. int (count_rows (running_in ws now) (job_runs db)) \<le> lim_workspace_concurrency L)"

definition runs_inv :: "job_limits \<Rightarrow> datetime \<times> 'a jobs_db_scheme \<Rightarrow> bool" where
  "runs_inv L s = (jobs_wf (snd s) \<and> runs_ok (snd s) \<and> within_limit L (fst s) (snd s))"

definition limits_ok :: "job_limits \<Rightarrow> bool" where
  "limits_ok L = (0 < lim_lease L \<and> 0 \<le> lim_max_attempts L \<and> 0 \<le> lim_workspace_concurrency L)"

lemma run_ok_queued_row [simp]: "run_ok (queued_row i s now m) = (0 \<le> m)"
  by (simp add: run_ok_def queued_row_def)

lemma run_ok_start: "run_ok r \<Longrightarrow> jr_attempt r < jr_max_attempts r \<Longrightarrow> run_ok (start_run L now r)"
  by (auto simp: run_ok_def start_run_def)

lemma run_ok_close: "run_ok r \<Longrightarrow> st \<in> {Succeeded, Failed, Skipped} \<Longrightarrow> run_ok (close_run st ec rc now obs det r)"
  by (auto simp: run_ok_def close_run_def)

lemma run_ok_expire: "run_ok r \<Longrightarrow> run_ok (expire_one now r)"
  by (auto simp: run_ok_def expire_one_def)

lemma run_ok_requeue: "run_ok r \<Longrightarrow> jr_status r = Failed \<Longrightarrow> run_ok (requeue now r)"
  by (auto simp: run_ok_def requeue_def)

lemma live_terminal: "jr_status r \<noteq> Running \<Longrightarrow> \<not> live now r"
  by (simp add: live_def)

lemma live_earlier: "live t r \<Longrightarrow> now \<le> t \<Longrightarrow> live now r"
  by (auto simp: live_def lease_valid_def split: option.splits)

lemma close_run_sel [simp]:
  "jr_id (close_run st ec rc now obs det r) = jr_id r" "jr_key (close_run st ec rc now obs det r) = jr_key r"
  "jr_kind (close_run st ec rc now obs det r) = jr_kind r"
  "jr_workspace_id (close_run st ec rc now obs det r) = jr_workspace_id r"
  "jr_website_id (close_run st ec rc now obs det r) = jr_website_id r"
  "jr_params (close_run st ec rc now obs det r) = jr_params r"
  "jr_status (close_run st ec rc now obs det r) = st" "jr_attempt (close_run st ec rc now obs det r) = jr_attempt r"
  "jr_max_attempts (close_run st ec rc now obs det r) = jr_max_attempts r"
  "jr_error_code (close_run st ec rc now obs det r) = ec"
  "jr_recoverable (close_run st ec rc now obs det r) = rc"
  "jr_window (close_run st ec rc now obs det r) = jr_window r"
  "jr_enqueued_at (close_run st ec rc now obs det r) = jr_enqueued_at r"
  "jr_finished_at (close_run st ec rc now obs det r) = Some now"
  by (simp_all add: close_run_def)

lemma expire_one_sel [simp]:
  "jr_id (expire_one now r) = jr_id r" "jr_key (expire_one now r) = jr_key r"
  "jr_status (expire_one now r) = Failed" "jr_attempt (expire_one now r) = jr_attempt r"
  "jr_max_attempts (expire_one now r) = jr_max_attempts r"
  "jr_kind (expire_one now r) = jr_kind r"
  "jr_website_id (expire_one now r) = jr_website_id r"
  "jr_workspace_id (expire_one now r) = jr_workspace_id r"
  "jr_window (expire_one now r) = jr_window r"
  "jr_params (expire_one now r) = jr_params r"
  "jr_enqueued_at (expire_one now r) = jr_enqueued_at r"
  "jr_finished_at (expire_one now r) = Some now"
  by (simp_all add: expire_one_def)

lemma start_run_sel [simp]:
  "jr_id (start_run L now r) = jr_id r" "jr_key (start_run L now r) = jr_key r"
  "jr_workspace_id (start_run L now r) = jr_workspace_id r"
  "jr_status (start_run L now r) = Running" "jr_attempt (start_run L now r) = jr_attempt r + 1"
  "jr_max_attempts (start_run L now r) = jr_max_attempts r"
  "jr_lease_expires_at (start_run L now r) = Some (now + lim_lease L)" "jr_finished_at (start_run L now r) = None"
  "jr_kind (start_run L now r) = jr_kind r"
  "jr_website_id (start_run L now r) = jr_website_id r"
  "jr_window (start_run L now r) = jr_window r"
  "jr_params (start_run L now r) = jr_params r"
  "jr_enqueued_at (start_run L now r) = jr_enqueued_at r"
  by (simp_all add: start_run_def)

lemma requeue_sel [simp]:
  "jr_id (requeue now r) = jr_id r" "jr_key (requeue now r) = jr_key r"
  "jr_status (requeue now r) = Queued" "jr_attempt (requeue now r) = jr_attempt r"
  "jr_max_attempts (requeue now r) = jr_max_attempts r"
  "jr_kind (requeue now r) = jr_kind r"
  "jr_website_id (requeue now r) = jr_website_id r"
  "jr_workspace_id (requeue now r) = jr_workspace_id r"
  "jr_window (requeue now r) = jr_window r"
  "jr_params (requeue now r) = jr_params r"
  "jr_enqueued_at (requeue now r) = now" "jr_error_code (requeue now r) = None"
  by (simp_all add: requeue_def)

section \<open>The schedule side of a transaction\<close>

lemma schedule_outcome_sel [simp]:
  "sc_id (schedule_outcome run now s) = sc_id s" "sc_site_kind (schedule_outcome run now s) = sc_site_kind s"
  "sc_next_due_at (schedule_outcome run now s) = sc_next_due_at s"
  "sc_enabled (schedule_outcome run now s) = sc_enabled s"
  "sc_frequency (schedule_outcome run now s) = sc_frequency s"
  "sc_kind (schedule_outcome run now s) = sc_kind s"
  by (simp_all add: schedule_outcome_def sc_site_kind_def Let_def)

lemma record_outcome_runs [simp]: "job_runs (record_schedule_outcome r now db) = job_runs db"
  by (simp add: record_schedule_outcome_def split: option.splits)

lemma record_outcome_websites [simp]: "websites (record_schedule_outcome r now db) = websites db"
  by (simp add: record_schedule_outcome_def split: option.splits)

lemma jobs_wf_record_outcome [store_inv]: "jobs_wf db \<Longrightarrow> jobs_wf (record_schedule_outcome r now db)"
  unfolding record_schedule_outcome_def
  by (auto split: option.splits intro!: jobs_wf_save_schedule dest: schedule_ofD)

lemma runs_ok_record_outcome [simp]: "runs_ok (record_schedule_outcome r now db) = runs_ok db"
  by (simp add: runs_ok_def)

lemma within_limit_record_outcome [simp]:
  "within_limit L t (record_schedule_outcome r now db) = within_limit L t db"
  by (simp add: within_limit_def)

section \<open>Replacing one row\<close>

lemma count_rows_replace:
  assumes "uniq_by idf rows" "r \<in> set rows" "idf r' = idf r"
  shows "count_rows Q (update_rows (\<lambda>x. idf x = idf r') (\<lambda>_. r') rows) =
    count_rows (\<lambda>x. Q x \<and> idf x \<noteq> idf r) rows + (if Q r' then 1 else 0)"
  using assms(1,2) unfolding assms(3)
proof (induction rows)
  case Nil
  then show ?case by simp
next
  case (Cons s rows)
  show ?case
  proof (cases "idf s = idf r")
    case True
    with Cons.prems(1) have "\<forall>x \<in> set rows. idf x \<noteq> idf r"
      by (simp add: uniq_by_def image_iff) metis
    then have "update_rows (\<lambda>x. idf x = idf r) (\<lambda>_. r') rows = rows"
      and "count_rows (\<lambda>x. Q x \<and> idf x \<noteq> idf r) rows = count_rows Q rows"
      by (auto intro!: update_rows_none count_rows_cong)
    with True show ?thesis by (simp add: table_simps update_rows_def)
  next
    case False
    with Cons.prems have "r \<in> set rows" "uniq_by idf rows" by (auto simp: uniq_by_def)
    with Cons.IH False show ?thesis by (simp add: table_simps update_rows_def)
  qed
qed

lemma runs_ok_save_run:
  "jobs_wf db \<Longrightarrow> r \<in> set (job_runs db) \<Longrightarrow> jr_id r' = jr_id r \<Longrightarrow> runs_ok db \<Longrightarrow> run_ok r' \<Longrightarrow>
    runs_ok (save_run r' db)"
  by (auto simp: runs_ok_def set_job_runs_save_run)

lemma within_limit_later: "within_limit L now db \<Longrightarrow> now \<le> t \<Longrightarrow> within_limit L t db"
proof -
  assume w: "within_limit L now db" and le: "now \<le> t"
  have "count_rows (running_in ws t) (job_runs db) \<le> count_rows (running_in ws now) (job_runs db)" for ws
    using le by (intro count_rows_mono) (auto simp: running_in_def intro: live_earlier)
  then show ?thesis using w unfolding within_limit_def by (meson order_trans of_nat_mono)
qed

lemma within_limit_update:
  assumes "within_limit L now db" "\<And>r. r \<in> set (job_runs db) \<Longrightarrow> P r \<Longrightarrow> \<not> live now (f r)"
  shows "within_limit L now (db\<lparr>job_runs := update_rows P f (job_runs db)\<rparr>)"
proof -
  have "count_rows (running_in ws now) (update_rows P f (job_runs db)) \<le> count_rows (running_in ws now) (job_runs db)" for ws
    using assms(2) by (intro count_rows_update_le) (auto simp: running_in_def)
  then show ?thesis using assms(1) unfolding within_limit_def by simp (meson order_trans of_nat_mono)
qed

lemma within_limit_save_dead:
  "within_limit L now db \<Longrightarrow> jr_status r' \<noteq> Running \<Longrightarrow> within_limit L now (save_run r' db)"
  unfolding save_run_def by (rule within_limit_update) (auto simp: live_terminal)

lemma runs_inv_save_closed:
  assumes "runs_inv L (now, db)" "r \<in> set (job_runs db)" "jr_id r' = jr_id r" "jr_key r' = jr_key r"
    "run_ok r'" "jr_status r' \<noteq> Running"
  shows "runs_inv L (now, save_run r' db)"
  using assms by (simp add: runs_inv_def jobs_wf_save_run runs_ok_save_run within_limit_save_dead)

lemma runs_inv_record_outcome: "runs_inv L (now, db) \<Longrightarrow> runs_inv L (now, record_schedule_outcome r t db)"
  by (simp add: runs_inv_def jobs_wf_record_outcome)

lemma runs_inv_later: "runs_inv L (now, db) \<Longrightarrow> now \<le> t \<Longrightarrow> runs_inv L (t, db)"
  by (auto simp: runs_inv_def intro: within_limit_later)

lemmas runs_inv_intros = runs_inv_save_closed runs_inv_record_outcome runs_inv_later

section \<open>Claiming keeps the invariant\<close>

lemma insert_run_frame [simp]:
  "schedules (insert_run row db) = schedules db" "websites (insert_run row db) = websites db"
  by (simp_all add: insert_run_def)

lemma job_runs_insert_run: "job_runs (insert_run row db) =
    (if jr_key row \<in> jr_key ` set (job_runs db) then job_runs db else job_runs db @ [row])"
  by (simp add: insert_run_def insert_new_def)

lemma runs_inv_insert_run:
  assumes "runs_inv L (now, db)" "jr_id row \<notin> jr_id ` set (job_runs db)" "run_ok row" "jr_status row = Queued"
  shows "runs_inv L (now, insert_run row db)"
proof -
  have "count_rows (running_in ws now) (job_runs (insert_run row db)) = count_rows (running_in ws now) (job_runs db)" for ws
    using assms(4) by (simp add: job_runs_insert_run table_simps running_in_def live_def)
  then show ?thesis
    using assms(1-3) uniq_by_insert_new [of jr_key "job_runs db" row]
    by (auto simp: runs_inv_def jobs_wf_def runs_ok_def within_limit_def job_runs_insert_run
        insert_run_def insert_new_def uniq_by_snoc)
qed

lemma claim_finds_row: "\<exists>run. run_by_key (insert_run (queued_row i spec now m) db) (rs_key spec) = Some run"
proof -
  have "run_by_key (insert_run (queued_row i spec now m) db) (rs_key spec) \<noteq> None"
    by (auto simp: run_by_key_None job_runs_insert_run queued_row_def)
  then show ?thesis by blast
qed

lemma find_snoc: "List.find P (xs @ [y]) = (case List.find P xs of Some x \<Rightarrow> Some x | None \<Rightarrow> if P y then Some y else None)"
  by (induction xs) auto

lemma run_by_key_insert_run:
  "run_by_key (insert_run (queued_row i spec now m) db) (rs_key spec) =
    Some (case run_by_key db (rs_key spec) of Some r \<Rightarrow> r | None \<Rightarrow> queued_row i spec now m)"
proof (cases "run_by_key db (rs_key spec)")
  case None
  then have "rs_key spec \<notin> jr_key ` set (job_runs db)" by (auto simp: run_by_key_None)
  moreover have "List.find (\<lambda>r. jr_key r = rs_key spec) (job_runs db) = None"
    using None by (simp add: run_by_key_def find_row_def)
  ultimately show ?thesis
    using None by (simp add: run_by_key_def find_row_def job_runs_insert_run find_snoc queued_row_def)
next
  case (Some r)
  then have "rs_key spec \<in> jr_key ` set (job_runs db)" by (metis imageI run_by_keyD)
  with Some show ?thesis by (simp add: run_by_key_def job_runs_insert_run queued_row_def)
qed

text \<open>The row a claim decides on: the one already there, or the new one.\<close>

definition row_for :: "uuid \<Rightarrow> run_spec \<Rightarrow> datetime \<Rightarrow> job_limits \<Rightarrow> 'a jobs_db_scheme \<Rightarrow> job_run" where
  "row_for new_id spec now L db = (case run_by_key db (rs_key spec) of
     Some r \<Rightarrow> r | None \<Rightarrow> queued_row new_id spec now (lim_max_attempts L))"

lemma claim_run_eq:
  "claim_run new_id spec now L db =
    claim_row L now (row_for new_id spec now L db) (insert_run (queued_row new_id spec now (lim_max_attempts L)) db)"
  by (simp add: claim_run_def Let_def run_by_key_insert_run row_for_def)

lemma row_for_in: "row_for new_id spec now L db \<in>
    set (job_runs (insert_run (queued_row new_id spec now (lim_max_attempts L)) db))"
  using run_by_key_insert_run [of new_id spec now "lim_max_attempts L" db]
  by (auto simp: row_for_def dest: run_by_keyD)

lemma claim_rowE:
  assumes "claim_row L now run db = (db', c)"
  obtains (kept) "db' = db" "cl_run c = run" "cl_status c \<noteq> Claimed"
    | (closed) "jr_status run = Running" "\<not> lease_valid now run" "jr_max_attempts run \<le> jr_attempt run"
        "cl_status c = Exhausted"
        "db' = record_schedule_outcome (close_run Failed (Some ''lease_expired'') (Some True) now 0 None run) now
          (save_run (close_run Failed (Some ''lease_expired'') (Some True) now 0 None run) db)"
        "cl_run c = close_run Failed (Some ''lease_expired'') (Some True) now 0 None run"
    | (started) "jr_status run \<notin> {Succeeded, Skipped}" "\<not> live now run" "jr_attempt run < jr_max_attempts run"
        "jr_status run = Failed \<longrightarrow> jr_recoverable run \<noteq> Some False"
        "\<forall>ws. jr_workspace_id run = Some ws \<longrightarrow>
          int (count_rows (\<lambda>r. running_in ws now r \<and> jr_id r \<noteq> jr_id run) (job_runs db)) < lim_workspace_concurrency L"
        "db' = save_run (start_run L now run) db" "cl_run c = start_run L now run" "cl_status c = Claimed"
proof -
  define full where "full = (case jr_workspace_id run of
      Some ws \<Rightarrow> lim_workspace_concurrency L
        \<le> int (count_rows (\<lambda>r. running_in ws now r \<and> jr_id r \<noteq> jr_id run) (job_runs db))
    | None \<Rightarrow> False)"
  note eq = assms [unfolded claim_row_def Let_def, folded full_def]
  consider (over) "jr_status run \<in> {Succeeded, Skipped}"
    | (busy) "jr_status run \<notin> {Succeeded, Skipped}" "live now run"
    | (final) "jr_status run = Failed" "jr_recoverable run = Some False"
    | (spent) "jr_status run \<notin> {Succeeded, Skipped}" "\<not> live now run"
        "jr_status run = Failed \<longrightarrow> jr_recoverable run \<noteq> Some False" "jr_max_attempts run \<le> jr_attempt run"
    | (room) "jr_status run \<notin> {Succeeded, Skipped}" "\<not> live now run"
        "jr_status run = Failed \<longrightarrow> jr_recoverable run \<noteq> Some False" "jr_attempt run < jr_max_attempts run"
    by (metis linorder_not_le)
  then show thesis
  proof cases
    case over
    with eq show thesis by (intro kept) auto
  next
    case busy
    with eq show thesis by (intro kept) (auto simp: live_def)
  next
    case final
    with eq show thesis by (intro kept) (auto simp: live_def)
  next
    case spent
    show thesis
    proof (cases "jr_status run = Running")
      case True
      with spent eq show thesis by (intro closed) (auto simp: live_def)
    next
      case False
      with spent eq show thesis by (intro kept) (auto simp: live_def)
    qed
  next
    case room
    show thesis
    proof (cases full)
      case True
      with room eq show thesis by (intro kept) (auto simp: live_def)
    next
      case False
      with room eq show thesis by (intro started) (auto simp: live_def full_def)
    qed
  qed
qed

lemma runs_inv_claim_row:
  assumes "runs_inv L (now, db)" "run \<in> set (job_runs db)" "limits_ok L" "claim_row L now run db = (db', c)"
  shows "runs_inv L (now, db')"
  using assms(4)
proof (cases rule: claim_rowE)
  case kept
  with assms(1) show ?thesis by simp
next
  case closed
  from assms(1,2) have "run_ok run" by (auto simp: runs_inv_def runs_ok_def)
  then show ?thesis unfolding closed(5)
    using assms(1,2)
    by (intro runs_inv_record_outcome runs_inv_save_closed [of L now db run]) (auto intro: run_ok_close)
next
  case started
  define r' where "r' = start_run L now run"
  have ok: "run_ok r'"
    using assms(1,2) started(3) by (auto simp: runs_inv_def runs_ok_def r'_def intro: run_ok_start)
  have wf: "jobs_wf db" using assms(1) by (simp add: runs_inv_def)
  have "int (count_rows (running_in ws now) (job_runs (save_run r' db))) \<le> lim_workspace_concurrency L" for ws
  proof -
    have c: "count_rows (running_in ws now) (job_runs (save_run r' db)) =
        count_rows (\<lambda>x. running_in ws now x \<and> jr_id x \<noteq> jr_id run) (job_runs db) + (if running_in ws now r' then 1 else 0)"
      unfolding job_runs_save_run
      using count_rows_replace [OF jobs_wfD(1) [OF wf] assms(2), of r'] by (simp add: r'_def)
    show ?thesis
    proof (cases "jr_workspace_id run = Some ws")
      case True
      with started(5) c show ?thesis by auto
    next
      case False
      then have "\<not> running_in ws now r'" by (simp add: running_in_def r'_def)
      moreover have "count_rows (\<lambda>x. running_in ws now x \<and> jr_id x \<noteq> jr_id run) (job_runs db)
          \<le> count_rows (running_in ws now) (job_runs db)" by (rule count_rows_mono) simp
      ultimately show ?thesis using c assms(1) by (auto simp: runs_inv_def within_limit_def intro: order_trans [rotated])
    qed
  qed
  with wf ok assms(1,2) show ?thesis
    unfolding started(6) r'_def [symmetric]
    by (simp add: runs_inv_def within_limit_def runs_ok_save_run jobs_wf_save_run r'_def)
qed

lemma runs_inv_claim_run:
  assumes "runs_inv L (now, db)" "limits_ok L" "new_id \<notin> jr_id ` set (job_runs db)"
  shows "runs_inv L (now, fst (claim_run new_id spec now L db))"
proof -
  have "runs_inv L (now, insert_run (queued_row new_id spec now (lim_max_attempts L)) db)"
    using assms by (intro runs_inv_insert_run) (simp_all add: limits_ok_def, simp_all add: queued_row_def)
  from runs_inv_claim_row [OF this row_for_in assms(2)] show ?thesis
    by (simp add: claim_run_eq prod_eq_iff)
qed

section \<open>The other transactions keep it\<close>

lemma runs_inv_finish:
  assumes "runs_inv L (now, db)" "st \<in> {Succeeded, Failed, Skipped}"
  shows "runs_inv L (now, fst (finish rid st ec rec now att obs det db db))"
proof (cases "run_by_id db rid")
  case None
  with assms show ?thesis by (simp add: finish_def)
next
  case (Some r)
  then have r: "r \<in> set (job_runs db)" by (auto dest: run_by_idD)
  with assms have "run_ok r" by (auto simp: runs_inv_def runs_ok_def)
  with assms r Some show ?thesis
    by (auto simp: finish_def Let_def
        intro!: runs_inv_record_outcome runs_inv_save_closed [of L now db r] run_ok_close)
qed

lemma runs_inv_update:
  assumes "runs_inv L (now, db)" "\<And>r. jr_id (f r) = jr_id r" "\<And>r. jr_key (f r) = jr_key r"
    "\<And>r. r \<in> set (job_runs db) \<Longrightarrow> P r \<Longrightarrow> run_ok r \<Longrightarrow> run_ok (f r) \<and> \<not> live now (f r)"
  shows "runs_inv L (now, db\<lparr>job_runs := update_rows P f (job_runs db)\<rparr>)"
  using assms within_limit_update [of L now db P f]
  by (auto simp: runs_inv_def jobs_wf_def runs_ok_def table_simps intro!: uniq_by_update_rows)

lemma runs_inv_expire_queued:
  "runs_inv L (now, db) \<Longrightarrow> runs_inv L (now, fst (expire_stale_queued now older db))"
  unfolding expire_stale_queued_def fst_conv
  by (rule runs_inv_update) (auto simp: stale_queued_def run_ok_def live_def)

lemma runs_inv_mark_failed:
  "runs_inv L (now, db) \<Longrightarrow> runs_inv L (now, mark_enqueue_failed t key db)"
  unfolding mark_enqueue_failed_def
  by (rule runs_inv_update) (auto simp: run_ok_def live_def)

lemma runs_inv_insert_queued:
  assumes "runs_inv L (now, db)" "0 \<le> m"
    and "rs_key spec \<notin> jr_key ` set (job_runs db) \<Longrightarrow> new_id \<notin> jr_id ` set (job_runs db)"
  shows "runs_inv L (now, fst (insert_queued new_id spec t m db))"
proof (cases "rs_key spec \<in> jr_key ` set (job_runs db)")
  case True
  have "runs_inv L (now, db\<lparr>job_runs := update_rows (\<lambda>r. jr_key r = rs_key spec \<and> enqueue_failed_run r)
      (requeue t) (job_runs db)\<rparr>)"
    using assms(1) by (rule runs_inv_update) (auto simp: enqueue_failed_run_def live_def intro: run_ok_requeue)
  with True show ?thesis by (simp add: insert_queued_def Let_def)
next
  case False
  have "runs_inv L (now, insert_run (queued_row new_id spec t m) db)"
    using assms False by (intro runs_inv_insert_run) (simp_all, simp_all add: queued_row_def)
  moreover have "insert_run (queued_row new_id spec t m) db = fst (insert_queued new_id spec t m db)"
    using False by (simp add: insert_run_def insert_new_def insert_queued_def queued_row_def)
  ultimately show ?thesis by simp
qed

lemma runs_inv_purge:
  "runs_inv L (now, db) \<Longrightarrow> runs_inv L (now, fst (purge_old_job_runs t keep db))"
proof -
  assume inv: "runs_inv L (now, db)"
  have "count_rows Q (delete_rows P rows) \<le> count_rows Q rows" for Q P and rows :: "job_run list"
    by (induction rows) (auto simp: delete_rows_def table_simps)
  then have "within_limit L now (fst (purge_old_job_runs t keep db))"
    using inv unfolding within_limit_def runs_inv_def purge_old_job_runs_def
    by simp (meson order_trans of_nat_mono)
  with inv show ?thesis
    by (auto simp: runs_inv_def jobs_wf_def runs_ok_def purge_old_job_runs_def table_simps
        intro: uniq_by_delete_rows)
qed

text \<open>The sweep of abandoned runs: each selected row is still there when its turn comes.\<close>

lemma runs_inv_sweep:
  assumes "runs_inv L (now, db)" "set runs \<subseteq> set (job_runs db)" "distinct (map jr_id runs)"
  shows "runs_inv L (now, fold (\<lambda>run d. record_schedule_outcome (expire_one t run) t
      (save_run (expire_one t run) d)) runs db)"
  using assms
proof (induction runs arbitrary: db)
  case Nil
  then show ?case by simp
next
  case (Cons r runs)
  define d where "d = record_schedule_outcome (expire_one t r) t (save_run (expire_one t r) db)"
  have r: "r \<in> set (job_runs db)" "jobs_wf db" "run_ok r"
    using Cons.prems by (auto simp: runs_inv_def runs_ok_def)
  have "runs_inv L (now, d)"
    unfolding d_def using Cons.prems(1) r
    by (intro runs_inv_record_outcome runs_inv_save_closed [of L now db r]) (auto intro: run_ok_expire)
  moreover have "set runs \<subseteq> set (job_runs d)"
    using Cons.prems(2,3) r set_job_runs_save_run [OF r(2,1), of "expire_one t r"]
    by (auto simp: d_def image_iff)
  moreover have "distinct (map jr_id runs)" using Cons.prems(3) by simp
  ultimately show ?case using Cons.IH by (simp add: d_def)
qed

lemma runs_inv_expire_running:
  assumes "runs_inv L (now, db)"
  shows "runs_inv L (now, fst (expire_stuck_running t older db))"
proof -
  have "uniq_by jr_id (job_runs db)" using assms by (simp add: runs_inv_def jobs_wf_def)
  then have "distinct (map jr_id (filter (stuck_running t older) (job_runs db)))"
    by (simp add: uniq_by_def distinct_map_filter)
  from runs_inv_sweep [OF assms _ this] show ?thesis
    by (simp add: expire_stuck_running_def Let_def)
qed

section \<open>The transition system\<close>

text \<open>
  One step is one committed transaction at an instant \<open>t\<close> not before the previous one.
  A worker closes with the identifier and the attempt number it claimed; nothing is assumed of them.
  New identifiers are fresh (\<open>uuid4\<close>).
\<close>

inductive run_step :: "job_limits \<Rightarrow> datetime \<times> 'a jobs_db_scheme \<Rightarrow> datetime \<times> 'a jobs_db_scheme \<Rightarrow> bool"
  for L :: job_limits where
  claims: "now \<le> t \<Longrightarrow> new_id \<notin> jr_id ` set (job_runs db) \<Longrightarrow>
    run_step L (now, db) (t, fst (claim_run new_id spec t L db))"
| closes: "now \<le> t \<Longrightarrow> st \<in> {Succeeded, Failed, Skipped} \<Longrightarrow>
    run_step L (now, db) (t, fst (finish rid st ec rec t att obs det db db))"
| deposits: "now \<le> t \<Longrightarrow> new_id \<notin> jr_id ` set (job_runs db) \<Longrightarrow>
    run_step L (now, db) (t, fst (insert_queued new_id spec t (lim_max_attempts L) db))"
| expires_queued: "now \<le> t \<Longrightarrow> run_step L (now, db) (t, fst (expire_stale_queued t STALE_QUEUED_AFTER db))"
| sweeps: "now \<le> t \<Longrightarrow> run_step L (now, db) (t, fst (expire_stuck_running t STUCK_RUNNING_SWEEP_AFTER db))"
| fails_deposit: "now \<le> t \<Longrightarrow> run_step L (now, db) (t, mark_enqueue_failed t key db)"
| purges: "now \<le> t \<Longrightarrow> run_step L (now, db) (t, fst (purge_old_job_runs t JOB_RUNS_RETENTION db))"

inductive_cases run_stepE: "run_step L (now, db) s'"

lemma run_step_time: "run_step L s s' \<Longrightarrow> fst s \<le> fst s'"
  by (induction rule: run_step.induct) simp_all

lemma runs_inv_step:
  assumes "run_step L s s'" "runs_inv L s" "limits_ok L"
  shows "runs_inv L s'"
  using assms
proof (induction rule: run_step.induct)
  case (claims now t new_id db spec)
  then show ?case by (intro runs_inv_claim_run) (auto intro: runs_inv_later)
next
  case (closes now t st db rid ec rec att obs det)
  then show ?case by (intro runs_inv_finish) (auto intro: runs_inv_later)
next
  case (deposits now t new_id db spec)
  then show ?case by (intro runs_inv_insert_queued) (auto intro: runs_inv_later simp: limits_ok_def)
next
  case (expires_queued now t db)
  then show ?case by (intro runs_inv_expire_queued) (auto intro: runs_inv_later)
next
  case (sweeps now t db)
  then show ?case by (intro runs_inv_expire_running) (auto intro: runs_inv_later)
next
  case (fails_deposit now t db key)
  then show ?case by (intro runs_inv_mark_failed) (auto intro: runs_inv_later)
next
  case (purges now t db)
  then show ?case by (intro runs_inv_purge) (auto intro: runs_inv_later)
qed

text \<open>The states reached from a database without runs.\<close>

inductive runs_reachable :: "job_limits \<Rightarrow> datetime \<times> 'a jobs_db_scheme \<Rightarrow> bool" for L :: job_limits where
  start: "job_runs db = [] \<Longrightarrow> jobs_wf db \<Longrightarrow> runs_reachable L (now, db)"
| step: "runs_reachable L s \<Longrightarrow> run_step L s s' \<Longrightarrow> runs_reachable L s'"

lemma reachable_runs_inv:
  assumes "runs_reachable L s" "limits_ok L"
  shows "runs_inv L s"
  using assms
proof (induction rule: runs_reachable.induct)
  case (start db now)
  then show ?case by (simp add: runs_inv_def runs_ok_def within_limit_def limits_ok_def table_simps)
next
  case (step s s')
  then show ?case by (blast intro: runs_inv_step)
qed

section \<open>The life of a row\<close>

text \<open>
  What can happen to the row of a key, as a state machine of its own: every transaction either
  leaves a row, removes it once finished, or takes one of these steps.
\<close>

inductive row_step :: "job_limits \<Rightarrow> datetime \<Rightarrow> job_run \<Rightarrow> job_run \<Rightarrow> bool" for L :: job_limits and t :: datetime where
  starts: "jr_status r \<notin> {Succeeded, Skipped} \<Longrightarrow> \<not> live t r \<Longrightarrow> jr_attempt r < jr_max_attempts r \<Longrightarrow>
    (jr_status r = Failed \<longrightarrow> jr_recoverable r \<noteq> Some False) \<Longrightarrow> row_step L t r (start_run L t r)"
| finishes: "jr_status r = Running \<Longrightarrow> st \<in> {Succeeded, Failed, Skipped} \<Longrightarrow>
    row_step L t r (close_run st ec rec t obs det r)"
| abandoned: "stuck_running t STUCK_RUNNING_SWEEP_AFTER r \<Longrightarrow> row_step L t r (expire_one t r)"
| not_started: "jr_status r = Queued \<Longrightarrow> row_step L t r
    (r\<lparr>jr_status := Failed, jr_error_code := Some code, jr_recoverable := Some True, jr_finished_at := Some t\<rparr>)"
| requeued: "enqueue_failed_run r \<Longrightarrow> row_step L t r (requeue t r)"

inductive_cases row_stepE: "row_step L t r r'"

lemma find_row_map:
  "(\<And>x. key (g x) = key x) \<Longrightarrow> find_row (\<lambda>x. key x = k) (map g rows) = map_option g (find_row (\<lambda>x. key x = k) rows)"
  by (induction rows) (auto simp: find_row_def)

lemma run_by_key_update:
  assumes "\<And>r. jr_key (f r) = jr_key r"
  shows "run_by_key (db\<lparr>job_runs := update_rows P f (job_runs db)\<rparr>) k =
    map_option (\<lambda>r. if P r then f r else r) (run_by_key db k)"
  unfolding run_by_key_def update_rows_def
  using find_row_map [of jr_key "\<lambda>r. if P r then f r else r" k "job_runs db"] assms by simp

lemma run_by_key_record_outcome [simp]: "run_by_key (record_schedule_outcome r t db) k = run_by_key db k"
  by (simp add: run_by_key_def)

lemma run_by_key_insert_run_old:
  "run_by_key db k = Some r \<Longrightarrow> run_by_key (insert_run row db) k = Some r"
  by (simp add: run_by_key_def find_row_def job_runs_insert_run find_snoc)

lemma find_row_delete:
  "uniq_by key rows \<Longrightarrow> find_row (\<lambda>x. key x = k) (delete_rows P rows) =
    (case find_row (\<lambda>x. key x = k) rows of Some r \<Rightarrow> if P r then None else Some r | None \<Rightarrow> None)"
proof (induction rows)
  case Nil
  then show ?case by (simp add: find_row_def delete_rows_def)
next
  case (Cons s rows)
  have "List.find (\<lambda>x. key x = k) (filter (\<lambda>r. \<not> P r) rows) = None" if "key s = k"
    using Cons.prems that by (simp add: uniq_by_def find_None_iff image_iff) metis
  with Cons show ?case
    by (auto simp: find_row_def delete_rows_def uniq_by_def)
qed

lemma run_by_key_sweep:
  assumes "jobs_wf db" "set runs \<subseteq> set (job_runs db)" "distinct (map jr_id runs)"
  shows "run_by_key (fold (\<lambda>run d. record_schedule_outcome (expire_one t run) t
      (save_run (expire_one t run) d)) runs db) k =
    map_option (\<lambda>r. if r \<in> set runs then expire_one t r else r) (run_by_key db k)"
  using assms
proof (induction runs arbitrary: db)
  case Nil
  then show ?case by (simp add: option.map_ident)
next
  case (Cons r runs)
  define d where "d = record_schedule_outcome (expire_one t r) t (save_run (expire_one t r) db)"
  have r: "r \<in> set (job_runs db)" "jobs_wf db" using Cons.prems by auto
  have wf: "jobs_wf d" unfolding d_def using r by (intro store_inv) auto
  have "set runs \<subseteq> set (job_runs d)"
    using Cons.prems(2,3) r set_job_runs_save_run [OF r(2,1), of "expire_one t r"]
    by (auto simp: d_def image_iff)
  moreover have "distinct (map jr_id runs)" using Cons.prems(3) by simp
  ultimately have IH: "run_by_key (fold (\<lambda>run d. record_schedule_outcome (expire_one t run) t
      (save_run (expire_one t run) d)) runs d) k =
    map_option (\<lambda>r. if r \<in> set runs then expire_one t r else r) (run_by_key d k)"
    using Cons.IH wf by blast
  have e: "expire_one t r \<notin> set runs"
  proof
    assume "expire_one t r \<in> set runs"
    then have "jr_id (expire_one t r) \<in> jr_id ` set runs" by (rule imageI)
    with Cons.prems(3) show False by simp
  qed
  have d: "run_by_key d k = (if k = jr_key r then Some (expire_one t r) else run_by_key db k)"
    unfolding d_def using r by (simp add: run_by_key_save_run)
  show ?case
  proof (cases "k = jr_key r")
    case True
    with IH d e r show ?thesis by (simp add: d_def run_by_key_in)
  next
    case False
    then have "run_by_key db k \<noteq> Some r" by (auto dest: run_by_keyD)
    with False IH d show ?thesis by (cases "run_by_key db k") (auto simp: d_def)
  qed
qed

text \<open>
  The simulation: a database step moves the row of each key by at most one step of the row
  machine, or purges it.
\<close>

definition row_moves :: "job_limits \<Rightarrow> datetime \<Rightarrow> job_run \<Rightarrow> job_run option \<Rightarrow> bool" where
  "row_moves L t r o' = (case o' of
      None \<Rightarrow> purgeable t JOB_RUNS_RETENTION r
    | Some r' \<Rightarrow> r' = r \<or> row_step L t r r')"

lemma row_moves_same [simp]: "row_moves L t r (Some r)"
  by (simp add: row_moves_def)

lemma row_moves_claim:
  assumes "jobs_wf db" "run_by_key db k = Some r" "run \<in> set (job_runs db)" "claim_row L t run db = (db', c)"
  shows "row_moves L t r (run_by_key db' k)"
  using assms(4)
proof (cases rule: claim_rowE)
  case kept
  with assms show ?thesis by simp
next
  case closed
  show ?thesis
  proof (cases "k = jr_key run")
    case True
    with assms(1-3) have "r = run" using run_by_key_in [OF assms(1,3)] by simp
    with True assms closed show ?thesis
      by (auto simp: run_by_key_save_run row_moves_def intro!: row_step.finishes)
  next
    case False
    with assms closed show ?thesis by (simp add: run_by_key_save_run)
  qed
next
  case started
  show ?thesis
  proof (cases "k = jr_key run")
    case True
    with assms(1-3) have "r = run" using run_by_key_in [OF assms(1,3)] by simp
    with True assms started show ?thesis
      by (auto simp: run_by_key_save_run row_moves_def intro!: row_step.starts)
  next
    case False
    with assms started show ?thesis by (simp add: run_by_key_save_run)
  qed
qed

lemma row_moves_claim_run:
  assumes "runs_inv L (t, db)" "run_by_key db k = Some r" "new_id \<notin> jr_id ` set (job_runs db)" "limits_ok L"
  shows "row_moves L t r (run_by_key (fst (claim_run new_id spec t L db)) k)"
proof -
  define row where "row = queued_row new_id spec t (lim_max_attempts L)"
  have "runs_inv L (t, insert_run row db)"
    unfolding row_def using assms(1,3,4)
    by (intro runs_inv_insert_run) (simp_all add: limits_ok_def, simp_all add: queued_row_def)
  then have "jobs_wf (insert_run row db)" by (simp add: runs_inv_def)
  from row_moves_claim [OF this run_by_key_insert_run_old [OF assms(2)]]
    row_for_in [of new_id spec t L db, folded row_def]
  show ?thesis by (simp add: claim_run_eq row_def [symmetric] prod_eq_iff)
qed

lemma row_moves_finish:
  assumes "jobs_wf db" "run_by_key db k = Some r" "st \<in> {Succeeded, Failed, Skipped}"
  shows "row_moves L t r (run_by_key (fst (finish rid st ec rec t att obs det db db)) k)"
proof (cases "run_by_id db rid")
  case None
  with assms show ?thesis by (simp add: finish_def)
next
  case (Some x)
  then have x: "x \<in> set (job_runs db)" by (auto dest: run_by_idD)
  show ?thesis
  proof (cases "k = jr_key x")
    case True
    with assms x have "r = x" using run_by_key_in [OF assms(1) x] by simp
    with True Some assms x show ?thesis
      by (auto simp: finish_def Let_def run_by_key_save_run row_moves_def intro!: row_step.finishes)
  next
    case False
    with Some assms x show ?thesis
      by (auto simp: finish_def Let_def run_by_key_save_run)
  qed
qed

lemma row_moves_insert_queued:
  assumes "run_by_key db k = Some r"
  shows "row_moves L t r (run_by_key (fst (insert_queued new_id spec t m db)) k)"
proof (cases "rs_key spec \<in> jr_key ` set (job_runs db)")
  case True
  then have "fst (insert_queued new_id spec t m db) =
      db\<lparr>job_runs := update_rows (\<lambda>r. jr_key r = rs_key spec \<and> enqueue_failed_run r) (requeue t) (job_runs db)\<rparr>"
    by (simp add: insert_queued_def Let_def)
  with assms show ?thesis
    by (simp add: run_by_key_update row_moves_def row_step.requeued)
next
  case False
  with assms show ?thesis
    by (simp add: insert_queued_def run_by_key_def find_row_def find_snoc)
qed

lemma run_step_row_moves:
  assumes "run_step L s s'" "runs_inv L s" "limits_ok L" "run_by_key (snd s) k = Some r"
  shows "row_moves L (fst s') r (run_by_key (snd s') k)"
  using assms
proof (induction rule: run_step.induct)
  case (claims now t new_id db spec)
  from runs_inv_later [OF claims.prems(1) claims.hyps(1)] claims.hyps(2) claims.prems(2,3)
  show ?case by (simp add: row_moves_claim_run)
next
  case (closes now t st db rid ec rec att obs det)
  then show ?case by (simp add: row_moves_finish runs_inv_def)
next
  case (deposits now t new_id db spec)
  then show ?case by (simp add: row_moves_insert_queued)
next
  case (expires_queued now t db)
  then show ?case
    by (auto simp: expire_stale_queued_def run_by_key_update row_moves_def stale_queued_def intro: row_step.not_started)
next
  case (sweeps now t db)
  then have wf: "jobs_wf db" by (simp add: runs_inv_def)
  have "distinct (map jr_id (filter (stuck_running t STUCK_RUNNING_SWEEP_AFTER) (job_runs db)))"
    using jobs_wfD(1) [OF wf] by (simp add: uniq_by_def distinct_map_filter)
  from run_by_key_sweep [OF wf _ this, of t k] sweeps.prems
  show ?case
    by (auto simp: expire_stuck_running_def Let_def row_moves_def intro: row_step.abandoned)
next
  case (fails_deposit now t db key)
  then show ?case
    by (auto simp: mark_enqueue_failed_def run_by_key_update row_moves_def intro: row_step.not_started)
next
  case (purges now t db)
  then have "uniq_by jr_key (job_runs db)" by (simp add: runs_inv_def jobs_wf_def)
  with purges.prems show ?case
    by (auto simp: purge_old_job_runs_def run_by_key_def find_row_delete row_moves_def purgeable_def
        split: option.splits)
qed

section \<open>What the row machine keeps\<close>

lemma row_step_attempt: "row_step L t r r' \<Longrightarrow> jr_attempt r \<le> jr_attempt r'"
  by (induction rule: row_step.induct) simp_all

lemma row_step_not_done: "row_step L t r r' \<Longrightarrow> jr_status r \<notin> {Succeeded, Skipped}"
  by (induction rule: row_step.induct) (auto simp: stuck_running_def enqueue_failed_run_def)

lemma stuck_not_live: "stuck_running t STUCK_RUNNING_SWEEP_AFTER r \<Longrightarrow> \<not> live t r"
  by (auto simp: stuck_running_def live_def lease_valid_def
      STUCK_RUNNING_SWEEP_AFTER_def STUCK_RUNNING_GRACE_def duration_defs split: option.splits)

lemma row_step_running:
  assumes "row_step L t r r'" "live t r"
  obtains st ec rec obs det where "st \<in> {Succeeded, Failed, Skipped}" "r' = close_run st ec rec t obs det r"
  using assms
proof (cases rule: row_step.cases)
  case (finishes st ec rec obs det)
  with that show thesis by blast
next
  case abandoned
  with assms(2) stuck_not_live show thesis by blast
qed (use assms(2) in \<open>auto simp: live_def enqueue_failed_run_def\<close>)

lemma row_step_final:
  "row_step L t r r' \<Longrightarrow> jr_status r = Failed \<Longrightarrow> jr_recoverable r = Some False \<Longrightarrow>
    enqueue_failed_run r \<and> r' = requeue t r"
  by (induction rule: row_step.induct) (auto simp: stuck_running_def)

section \<open>Histories\<close>

definition run_history :: "job_limits \<Rightarrow> datetime \<times> 'a jobs_db_scheme \<Rightarrow> datetime \<times> 'a jobs_db_scheme \<Rightarrow> bool" where
  "run_history L = (run_step L)\<^sup>*\<^sup>*"

lemma history_inv: "run_history L s s' \<Longrightarrow> runs_inv L s \<Longrightarrow> limits_ok L \<Longrightarrow> runs_inv L s' \<and> fst s \<le> fst s'"
  unfolding run_history_def
proof (induction rule: rtranclp_induct)
  case base
  then show ?case by simp
next
  case (step y z)
  then show ?case using runs_inv_step [of L y z] run_step_time [of L y z] by auto
qed

lemma history_step: "run_history L s y \<Longrightarrow> run_step L y z \<Longrightarrow> run_history L s z"
  unfolding run_history_def by (rule rtranclp.rtrancl_into_rtrancl)

lemma history_refl: "run_history L s s"
  by (simp add: run_history_def)

lemma history_done:
  assumes "run_history L s s'" "runs_inv L s" "limits_ok L" "run_by_key (snd s) k = Some r"
    "jr_status r \<in> {Succeeded, Skipped}" "jr_finished_at r = Some f" "fst s' \<le> f + JOB_RUNS_RETENTION"
  shows "run_by_key (snd s') k = Some r"
  using assms(1,7) unfolding run_history_def
proof (induction rule: rtranclp_induct)
  case base
  with assms(4) show ?case by simp
next
  case (step y z)
  have inv: "runs_inv L y" using history_inv [of L s y] step.hyps(1) assms(2,3) by (simp add: run_history_def)
  have row: "run_by_key (snd y) k = Some r"
    using step run_step_time [OF step.hyps(2)] by simp
  from run_step_row_moves [OF step.hyps(2) inv assms(3) row]
  show ?case
    using assms(5,6) step.prems row_step_not_done [of L "fst z" r]
    by (auto simp: row_moves_def purgeable_def split: option.splits)
qed

lemma history_lease:
  assumes "run_history L s s'" "runs_inv L s" "limits_ok L" "run_by_key (snd s) k = Some r" "live (fst s') r"
  shows "run_by_key (snd s') k = Some r \<or>
    (\<exists>sm st ec rec obs det. run_history L s sm \<and> run_history L sm s' \<and> st \<in> {Succeeded, Failed, Skipped} \<and>
      run_by_key (snd sm) k = Some (close_run st ec rec (fst sm) obs det r))"
  using assms(1,5) unfolding run_history_def
proof (induction rule: rtranclp_induct)
  case base
  with assms(4) show ?case by simp
next
  case (step y z)
  have inv: "runs_inv L y" using history_inv [of L s y] step.hyps(1) assms(2,3) by (simp add: run_history_def)
  have live_y: "live (fst y) r" using live_earlier [OF step.prems] run_step_time [OF step.hyps(2)] by simp
  from step.IH [OF live_y] show ?case
  proof
    assume row: "run_by_key (snd y) k = Some r"
    then have r: "r \<in> set (job_runs (snd y))" by (auto dest: run_by_keyD)
    then have "jr_finished_at r = None" using inv step.prems by (auto simp: runs_inv_def runs_ok_def run_ok_def live_def)
    then have "run_by_key (snd z) k = Some r \<or> (\<exists>r'. run_by_key (snd z) k = Some r' \<and> row_step L (fst z) r r')"
      using run_step_row_moves [OF step.hyps(2) inv assms(3) row]
      by (auto simp: row_moves_def purgeable_def split: option.splits)
    then show ?case
    proof
      assume "\<exists>r'. run_by_key (snd z) k = Some r' \<and> row_step L (fst z) r r'"
      then obtain r' where r': "run_by_key (snd z) k = Some r'" "row_step L (fst z) r r'" by blast
      from row_step_running [OF r'(2) step.prems] obtain st ec rec obs det where
        "st \<in> {Succeeded, Failed, Skipped}" "r' = close_run st ec rec (fst z) obs det r" by blast
      with r'(1) step.hyps show ?case by (meson rtranclp.rtrancl_into_rtrancl rtranclp.rtrancl_refl)
    qed simp
  next
    assume "\<exists>sm st ec rec obs det. (run_step L)\<^sup>*\<^sup>* s sm \<and> (run_step L)\<^sup>*\<^sup>* sm y \<and> st \<in> {Succeeded, Failed, Skipped} \<and>
      run_by_key (snd sm) k = Some (close_run st ec rec (fst sm) obs det r)"
    then show ?case using step.hyps(2) by (meson rtranclp.rtrancl_into_rtrancl)
  qed
qed

lemma reachable_history: "runs_reachable L s \<Longrightarrow> run_history L s s' \<Longrightarrow> runs_reachable L s'"
  unfolding run_history_def by (rotate_tac, induction rule: rtranclp_induct) (auto intro: runs_reachable.step)

section \<open>A small database for the witnesses\<close>

definition empty_jobs_db :: jobs_db where
  "empty_jobs_db = \<lparr>job_runs = [], schedules = [], websites = [], quota_events = []\<rparr>"

definition sample_limits :: job_limits where
  "sample_limits = \<lparr>lim_lease = minutes 10, lim_max_attempts = 3, lim_workspace_concurrency = 2\<rparr>"

definition sample_spec :: run_spec where
  "sample_spec = \<lparr>rs_kind = ''collect_cwv'', rs_website_id = Some 7, rs_workspace_id = Some 9,
     rs_window = ''20260101T0000'', rs_params = []\<rparr>"

definition claimed_row :: job_run where
  "claimed_row = start_run sample_limits 0 (queued_row 1 sample_spec 0 3)"

definition claimed_db :: jobs_db where
  "claimed_db = empty_jobs_db\<lparr>job_runs := [claimed_row]\<rparr>"

lemma sample_limits_ok [simp]: "limits_ok sample_limits"
  by (simp add: limits_ok_def sample_limits_def duration_defs)

lemma empty_wf [simp]: "jobs_wf empty_jobs_db"
  by (simp add: jobs_wf_def empty_jobs_db_def uniq_by_def)

lemma empty_reachable [simp]: "runs_reachable L (t, empty_jobs_db)"
  by (rule runs_reachable.start) (simp_all, simp add: empty_jobs_db_def)

lemma sample_claim:
  "claim_run 1 sample_spec 0 sample_limits empty_jobs_db =
    (claimed_db, \<lparr>cl_status = Claimed, cl_run = claimed_row\<rparr>)"
  by (simp add: claim_run_eq row_for_def run_by_key_def find_row_def empty_jobs_db_def claim_row_def Let_def
      queued_row_def sample_spec_def sample_limits_def insert_run_def insert_new_def count_rows_def running_in_def
      live_def save_run_def update_rows_def claimed_db_def claimed_row_def)

lemma claimed_reachable [simp]: "runs_reachable sample_limits (0, claimed_db)"
proof -
  have "run_step sample_limits (0, empty_jobs_db) (0, fst (claim_run 1 sample_spec 0 sample_limits empty_jobs_db))"
    by (rule run_step.claims) (simp_all add: empty_jobs_db_def)
  then show ?thesis using runs_reachable.step [OF empty_reachable] by (simp add: sample_claim)
qed

definition finished_row :: job_run where
  "finished_row = close_run Succeeded None None 10 4 None claimed_row"

definition finished_db :: jobs_db where
  "finished_db = claimed_db\<lparr>job_runs := [finished_row]\<rparr>"

lemma record_outcome_no_schedule: "schedules db = [] \<Longrightarrow> record_schedule_outcome r t db = db"
  by (auto simp: record_schedule_outcome_def schedule_of_def find_row_def split: option.splits)

lemma finished_reachable [simp]: "runs_reachable sample_limits (10, finished_db)"
proof -
  have "run_step sample_limits (0, claimed_db)
      (10, fst (finish 1 Succeeded None None 10 1 4 None claimed_db claimed_db))"
    by (rule run_step.closes) simp_all
  moreover have "fst (finish 1 Succeeded None None 10 1 4 None claimed_db claimed_db) = finished_db"
    by (simp add: finish_def run_by_id_def find_row_def claimed_db_def claimed_row_def queued_row_def Let_def
        save_run_def update_rows_def finished_db_def finished_row_def record_outcome_no_schedule
        empty_jobs_db_def)
  ultimately show ?thesis using runs_reachable.step [OF claimed_reachable] by simp
qed

section \<open>Properties\<close>

text \<open>
  C1: In every reachable state, under any interleaving of deliveries, closings, deposits, expiries and
  purges, no workspace has more runs in progress with an unexpired lease than
  \<open>jobs_workspace_concurrency\<close> allows, and every attempt counter stays within its row's maximum.
\<close>

theorem workspace_limit_holds:
  assumes "runs_reachable L (now, db)" "limits_ok L"
  shows "int (count_rows (running_in ws now) (job_runs db)) \<le> lim_workspace_concurrency L \<and>
    (\<forall>r \<in> set (job_runs db). 0 \<le> jr_attempt r \<and> jr_attempt r \<le> jr_max_attempts r)"
  using reachable_runs_inv [OF assms]
  by (auto simp: runs_inv_def within_limit_def runs_ok_def run_ok_def)

theorem workspace_limit_holds_witness:
  "int (count_rows (running_in 9 0) (job_runs claimed_db)) = 1 \<and>
   int (count_rows (running_in 9 0) (job_runs claimed_db)) \<le> lim_workspace_concurrency sample_limits"
  using workspace_limit_holds [OF claimed_reachable sample_limits_ok, of 9]
  by (simp add: claimed_db_def claimed_row_def count_rows_def running_in_def live_def lease_valid_def start_run_def
      queued_row_def sample_spec_def sample_limits_def duration_defs)





end
