(* ===== verification/Job_Execution.thy ===== *)
theory Job_Execution
  imports Job_Safety
begin

text \<open>
  What one delivery of a task does end to end (\<open>execute_run\<close> of \<open>runner.py\<close>): the claim, the
  handler, the closing transaction. The locale \<open>run_handlers\<close> is the contract of
  the handlers; under it every claimed run is closed with the outcome of its handler, the answer to
  the queue asks for a retry exactly when a redelivery could run, and the invariant of the runs is kept.
\<close>

section \<open>Closing, from the row\<close>

text \<open>What the closing transaction writes for a handler's result.\<close>

record closing =
  cg_status :: run_status
  cg_code :: "string option"
  cg_recoverable :: "bool option"
  cg_observations :: int
  cg_detail :: "string option"

definition closing_of :: "raised + handler_outcome \<Rightarrow> closing" where
  "closing_of res = (case res of
      Inr out \<Rightarrow> \<lparr>cg_status = ho_status out, cg_code = ho_note out, cg_recoverable = None,
        cg_observations = ho_observations out, cg_detail = None\<rparr>
    | Inl (RaisedSource e) \<Rightarrow>
        if se_not_applicable e
        then \<lparr>cg_status = Skipped, cg_code = Some (se_reason e), cg_recoverable = None,
          cg_observations = 0, cg_detail = None\<rparr>
        else \<lparr>cg_status = Failed, cg_code = Some (se_reason e), cg_recoverable = Some (se_recoverable e),
          cg_observations = 0, cg_detail = None\<rparr>
    | Inl (RaisedOther e) \<Rightarrow>
        \<lparr>cg_status = Failed,
          cg_code = Some (if is_transient_db_error e then ''db_transient'' else ''internal_error''),
          cg_recoverable = Some True, cg_observations = 0, cg_detail = Some (ex_type e)\<rparr>)"

definition apply_closing :: "closing \<Rightarrow> datetime \<Rightarrow> job_run \<Rightarrow> job_run" where
  "apply_closing c t r = close_run (cg_status c) (cg_code c) (cg_recoverable c) t (cg_observations c) (cg_detail c) r"

definition visible :: "'db handler_run \<Rightarrow> 'db" where
  "visible h = (case hr_result h of Inr _ \<Rightarrow> hr_pending h | Inl _ \<Rightarrow> hr_committed h)"

lemma close_execution_eq:
  "close_execution rid att t h =
    (let c = closing_of (hr_result h) in
     finish rid (cg_status c) (cg_code c) (cg_recoverable c) t att (cg_observations c) (cg_detail c)
       (hr_committed h) (visible h))"
  by (auto simp: close_execution_def closing_of_def visible_def Let_def split: sum.splits raised.splits)

lemma closing_of_final:
  assumes "\<And>out. res = Inr out \<Longrightarrow> ho_status out \<in> {Succeeded, Skipped}"
  shows "cg_status (closing_of res) \<in> {Succeeded, Failed, Skipped} \<and>
    (cg_status (closing_of res) = Failed \<longrightarrow> cg_recoverable (closing_of res) \<noteq> None)"
  using assms by (auto simp: closing_of_def split: sum.splits raised.splits)

lemma finish_owned:
  assumes "run_by_id db rid = Some r" "jr_status r = Running"
  shows "finish rid st ec rc t (jr_attempt r) obs det committed db =
    (let closed = close_run st ec rc t obs det r in
      (record_schedule_outcome closed t (save_run closed db),
       \<lparr>rr_claim = Claimed, rr_status = Some st,
         rr_retry = (st = Failed \<and> rc = Some True \<and> jr_attempt r < jr_max_attempts r)\<rparr>))"
  using assms by (simp add: finish_def Let_def)

lemma runs_inv_finish_visible:
  assumes "runs_inv L (t, committed)" "runs_inv L (t, db)" "st \<in> {Succeeded, Failed, Skipped}"
  shows "runs_inv L (t, fst (finish rid st ec rc t1 att obs det committed db))"
proof (cases "run_by_id db rid")
  case None
  with assms show ?thesis by (simp add: finish_def)
next
  case (Some r)
  then have r: "r \<in> set (job_runs db)" by (auto dest: run_by_idD)
  with assms have "run_ok r" by (auto simp: runs_inv_def runs_ok_def)
  with assms r Some show ?thesis
    by (auto simp: finish_def Let_def
        intro!: runs_inv_record_outcome runs_inv_save_closed [of L t db r] run_ok_close)
qed

text \<open>What a later delivery of the same task meets.\<close>

lemma claim_status_of_row:
  assumes "run_by_key db (rs_key spec) = Some r"
  shows "cl_status (snd (claim_run new_id spec t L db)) =
    (if jr_status r \<in> {Succeeded, Skipped} then Duplicate
     else if live t r then Busy
     else if jr_status r = Failed \<and> jr_recoverable r = Some False then Exhausted
     else if jr_max_attempts r \<le> jr_attempt r then Exhausted
     else if (case jr_workspace_id r of
                Some ws \<Rightarrow> lim_workspace_concurrency L
                  \<le> int (count_rows (\<lambda>x. running_in ws t x \<and> jr_id x \<noteq> jr_id r) (job_runs db))
              | None \<Rightarrow> False) then Throttled
     else Claimed)"
proof -
  have "rs_key spec \<in> jr_key ` set (job_runs db)" using run_by_keyD [OF assms] by (metis imageI)
  then have "insert_run (queued_row new_id spec t (lim_max_attempts L)) db = db"
    by (simp add: insert_run_def insert_new_def queued_row_def)
  with assms show ?thesis
    by (simp add: claim_run_eq row_for_def claim_row_def live_def Let_def cong: option.case_cong)
qed

lemma run_by_key_record_save:
  assumes "jobs_wf db" "r \<in> set (job_runs db)" "jr_id r' = jr_id r" "jr_key r' = jr_key r"
  shows "run_by_key (record_schedule_outcome x t (save_run r' db)) (jr_key r) = Some r'"
  using run_by_key_save_run [OF assms, of "jr_key r"] by simp

lemma claimed_row_state:
  assumes "runs_inv L (t, db)" "limits_ok L" "new_id \<notin> jr_id ` set (job_runs db)"
    and "claim_run new_id spec t L db = (db1, c)" "cl_status c = Claimed"
  shows "run_by_key db1 (rs_key spec) = Some (cl_run c) \<and> run_by_id db1 (jr_id (cl_run c)) = Some (cl_run c) \<and>
    jr_status (cl_run c) = Running \<and> jr_finished_at (cl_run c) = None \<and> jr_key (cl_run c) = rs_key spec \<and>
    jr_lease_expires_at (cl_run c) = Some (t + lim_lease L) \<and> runs_inv L (t, db1) \<and>
    1 \<le> jr_attempt (cl_run c) \<and> jr_attempt (cl_run c) \<le> jr_max_attempts (cl_run c)"
proof -
  define row where "row = row_for new_id spec t L db"
  define db0 where "db0 = insert_run (queued_row new_id spec t (lim_max_attempts L)) db"
  have inv0: "runs_inv L (t, db0)"
    unfolding db0_def using assms(1-3)
    by (intro runs_inv_insert_run) (simp_all add: limits_ok_def, simp_all add: queued_row_def)
  have claim: "claim_row L t row db0 = (db1, c)" using assms(4) by (simp add: claim_run_eq row_def db0_def)
  have row: "row \<in> set (job_runs db0)" unfolding row_def db0_def by (rule row_for_in)
  have key: "jr_key row = rs_key spec"
    by (auto simp: row_def row_for_def queued_row_def dest: run_by_keyD split: option.splits)
  have started: "db1 = save_run (start_run L t row) db0" "cl_run c = start_run L t row"
    "jr_attempt row < jr_max_attempts row"
    using claim assms(5) by (auto elim: claim_rowE)
  have wf0: "jobs_wf db0" using inv0 by (simp add: runs_inv_def)
  have ok: "0 \<le> jr_attempt row" using inv0 row by (auto simp: runs_inv_def runs_ok_def run_ok_def)
  have k: "run_by_key db1 (rs_key spec) = Some (cl_run c)"
    using run_by_key_save_run [OF wf0 row, of "start_run L t row" "rs_key spec"] started key by simp
  have inv1: "runs_inv L (t, db1)" using runs_inv_claim_row [OF inv0 row assms(2) claim] .
  then have "run_by_id db1 (jr_id (cl_run c)) = Some (cl_run c)"
    using run_by_keyD [OF k] by (intro run_by_id_in) (auto simp: runs_inv_def)
  with k inv1 started ok key show ?thesis by (simp add: start_run_def)
qed

section \<open>The contract of the handlers\<close>

text \<open>
  A handler may commit and change anything but these: the invariant of the runs, the row of a run in
  progress, and the declared statuses of its outcome.
\<close>

locale run_handlers =
  fixes handlers :: "(string \<times> 'a jobs_db_scheme handler) list"
  assumes keeps_inv: "(k, h) \<in> set handlers \<Longrightarrow> runs_inv L (t, db) \<Longrightarrow>
      runs_inv L (t, hr_committed (h run db)) \<and> runs_inv L (t, hr_pending (h run db))"
    and keeps_run: "(k, h) \<in> set handlers \<Longrightarrow> run_by_id db i = Some r \<Longrightarrow> jr_status r = Running \<Longrightarrow>
      jr_finished_at r = None \<Longrightarrow>
      run_by_id (hr_committed (h run db)) i = Some r \<and> run_by_id (hr_pending (h run db)) i = Some r"
    and declared: "(k, h) \<in> set handlers \<Longrightarrow> hr_result (h run db) = Inr out \<Longrightarrow>
      ho_status out \<in> {Succeeded, Skipped}"
begin

definition handler_for :: "string \<Rightarrow> 'a jobs_db_scheme handler" where
  "handler_for k = (case map_of handlers k of Some h \<Rightarrow> h | None \<Rightarrow> unknown_kind_run)"

lemma handler_for_inv:
  assumes "runs_inv L (t, db)"
  shows "runs_inv L (t, hr_committed (handler_for k run db)) \<and> runs_inv L (t, hr_pending (handler_for k run db))"
  using assms keeps_inv [OF map_of_SomeD]
  by (cases "map_of handlers k") (simp_all add: handler_for_def unknown_kind_run_def)

lemma handler_for_run:
  assumes "run_by_id db i = Some r" "jr_status r = Running" "jr_finished_at r = None"
  shows "run_by_id (hr_committed (handler_for k run db)) i = Some r \<and>
    run_by_id (hr_pending (handler_for k run db)) i = Some r"
proof (cases "map_of handlers k")
  case None
  with assms show ?thesis by (simp add: handler_for_def unknown_kind_run_def)
next
  case (Some h)
  from keeps_run [OF map_of_SomeD [OF this] assms] Some show ?thesis by (simp add: handler_for_def)
qed

lemma handler_for_declared:
  "hr_result (handler_for k run db) = Inr out \<Longrightarrow> ho_status out \<in> {Succeeded, Skipped}"
  using declared [OF map_of_SomeD]
  by (cases "map_of handlers k") (auto simp: handler_for_def unknown_kind_run_def)

lemma visible_cases: "visible h = hr_committed h \<or> visible h = hr_pending h"
  by (simp add: visible_def split: sum.splits)

lemma execute_run_eq:
  "execute_run new_id spec handlers L t0 t1 db =
    (let (db1, cl) = claim_run new_id spec t0 L db in
     if cl_status cl \<noteq> Claimed
     then (db1, \<lparr>rr_claim = cl_status cl, rr_status = Some (jr_status (cl_run cl)),
                 rr_retry = (cl_status cl \<in> {Busy, Throttled})\<rparr>)
     else close_execution (jr_id (cl_run cl)) (jr_attempt (cl_run cl)) t1 (handler_for (rs_kind spec) (cl_run cl) db1))"
  by (simp add: execute_run_def handler_for_def Let_def split: prod.splits)

lemma execute_run_keeps_inv:
  assumes limits: "limits_ok L" and "runs_inv L (t0, db)" "new_id \<notin> jr_id ` set (job_runs db)"
  shows "runs_inv L (t0, fst (execute_run new_id spec handlers L t0 t1 db))"
proof (cases "claim_run new_id spec t0 L db")
  case (Pair db1 c)
  have inv1: "runs_inv L (t0, db1)"
    using runs_inv_claim_run [OF assms(2) limits assms(3), of spec] Pair by simp
  show ?thesis
  proof (cases "cl_status c = Claimed")
    case False
    with inv1 Pair show ?thesis by (simp add: execute_run_eq)
  next
    case True
    define h where "h = handler_for (rs_kind spec) (cl_run c) db1"
    have "runs_inv L (t0, hr_committed h)" "runs_inv L (t0, visible h)"
      using handler_for_inv [OF inv1] visible_cases [of h] by (auto simp: h_def)
    moreover have "cg_status (closing_of (hr_result h)) \<in> {Succeeded, Failed, Skipped}"
      using closing_of_final handler_for_declared unfolding h_def by blast
    ultimately have "runs_inv L (t0, fst (close_execution (jr_id (cl_run c)) (jr_attempt (cl_run c)) t1 h))"
      by (simp add: close_execution_eq Let_def runs_inv_finish_visible)
    with True Pair show ?thesis by (simp add: execute_run_eq h_def)
  qed
qed

text \<open>A claimed delivery closes the row it claimed with what its handler did.\<close>

lemma claimed_execution:
  assumes limits: "limits_ok L" and st0: "runs_inv L (t0, db)" "new_id \<notin> jr_id ` set (job_runs db)"
    and "claim_run new_id spec t0 L db = (db1, c)" "cl_status c = Claimed"
    and "h = handler_for (rs_kind spec) (cl_run c) db1" "cg = closing_of (hr_result h)"
    and "execute_run new_id spec handlers L t0 t1 db = (db', res)"
  shows "run_by_key db' (rs_key spec) = Some (apply_closing cg t1 (cl_run c)) \<and>
    cg_status cg \<in> {Succeeded, Failed, Skipped} \<and>
    (cg_status cg = Failed \<longrightarrow> cg_recoverable cg \<noteq> None) \<and>
    res = \<lparr>rr_claim = Claimed, rr_status = Some (cg_status cg),
      rr_retry = (cg_status cg = Failed \<and> cg_recoverable cg = Some True \<and>
        jr_attempt (cl_run c) < jr_max_attempts (cl_run c))\<rparr>"
proof -
  note st = claimed_row_state [OF assms(2) limits assms(3-5)]
  have final: "cg_status cg \<in> {Succeeded, Failed, Skipped} \<and> (cg_status cg = Failed \<longrightarrow> cg_recoverable cg \<noteq> None)"
    unfolding assms(6,7) by (rule closing_of_final) (rule handler_for_declared)
  have inv: "runs_inv L (t0, visible h)"
    using handler_for_inv [of L t0 db1 "rs_kind spec" "cl_run c"] st visible_cases [of h] assms(6) by auto
  have row: "run_by_id (visible h) (jr_id (cl_run c)) = Some (cl_run c)"
    using handler_for_run [of db1 "jr_id (cl_run c)" "cl_run c" "rs_kind spec" "cl_run c"] st visible_cases [of h] assms(6)
    by auto
  then have r_in: "cl_run c \<in> set (job_runs (visible h))" by (auto dest: run_by_idD)
  have wf: "jobs_wf (visible h)" using inv by (simp add: runs_inv_def)
  have ex: "execute_run new_id spec handlers L t0 t1 db =
      close_execution (jr_id (cl_run c)) (jr_attempt (cl_run c)) t1 h"
    using assms(4-6) by (simp add: execute_run_eq)
  have cls: "close_execution (jr_id (cl_run c)) (jr_attempt (cl_run c)) t1 h =
      (record_schedule_outcome (apply_closing cg t1 (cl_run c)) t1
         (save_run (apply_closing cg t1 (cl_run c)) (visible h)),
       \<lparr>rr_claim = Claimed, rr_status = Some (cg_status cg),
         rr_retry = (cg_status cg = Failed \<and> cg_recoverable cg = Some True \<and>
           jr_attempt (cl_run c) < jr_max_attempts (cl_run c))\<rparr>)"
    using finish_owned [OF row] st by (simp add: close_execution_eq assms(7) apply_closing_def Let_def)
  have key: "jr_key (cl_run c) = rs_key spec" using st by simp
  have db': "db' = record_schedule_outcome (apply_closing cg t1 (cl_run c)) t1
      (save_run (apply_closing cg t1 (cl_run c)) (visible h))"
    using assms(8) unfolding ex cls by simp
  have "run_by_key db' (rs_key spec) = Some (apply_closing cg t1 (cl_run c))"
    unfolding db' key [symmetric]
    by (rule run_by_key_record_save [OF wf r_in]) (simp_all add: apply_closing_def)
  with final assms(8) ex cls show ?thesis by simp
qed

text \<open>The retry flag: the queue is asked to redeliver exactly when a redelivery could run.\<close>

lemma retry_iff_redelivery_can_run:
  assumes limits: "limits_ok L" and st0: "runs_inv L (t0, db)" "new_id \<notin> jr_id ` set (job_runs db)"
    and "execute_run new_id spec handlers L t0 t1 db = (db', res)" "rr_claim res = Claimed"
  shows "rr_retry res = (cl_status (snd (claim_run id2 spec t2 L db')) \<in> {Claimed, Throttled})"
proof -
  obtain db1 c where cl: "claim_run new_id spec t0 L db = (db1, c)" by fastforce
  show ?thesis
  proof (cases "cl_status c = Claimed")
    case True
    note st = claimed_row_state [OF assms(2) limits assms(3) cl True]
    define cg where "cg = closing_of (hr_result (handler_for (rs_kind spec) (cl_run c) db1))"
    from claimed_execution [OF limits assms(2,3) cl True refl cg_def assms(4)]
    have row: "run_by_key db' (rs_key spec) = Some (apply_closing cg t1 (cl_run c))"
      and final: "cg_status cg \<in> {Succeeded, Failed, Skipped}" "cg_status cg = Failed \<longrightarrow> cg_recoverable cg \<noteq> None"
      and retry: "rr_retry res = (cg_status cg = Failed \<and> cg_recoverable cg = Some True \<and>
        jr_attempt (cl_run c) < jr_max_attempts (cl_run c))" by auto
    have "\<not> live t2 (apply_closing cg t1 (cl_run c))"
      by (simp add: apply_closing_def live_def lease_valid_def close_run_def)
    with claim_status_of_row [OF row, of id2 t2 L] final show ?thesis
      unfolding retry by (auto simp: apply_closing_def close_run_def)
  next
    case False
    with assms(4,5) cl show ?thesis by (auto simp: execute_run_eq)
  qed
qed

end

section \<open>A run taken over\<close>

text \<open>The row of a key along a history: same row, attempts only grow.\<close>

lemma row_step_kept:
  "row_step L t r r' \<Longrightarrow> jr_id r' = jr_id r \<and> jr_attempt r \<le> jr_attempt r' \<and>
    (jr_finished_at r' \<in> {None, Some t, jr_finished_at r})"
  by (induction rule: row_step.induct)
    (auto simp: start_run_def close_run_def expire_one_def requeue_def)

lemma history_row:
  assumes "run_history L s s'" "runs_inv L s" "limits_ok L" "run_by_key (snd s) k = Some r"
    "jr_finished_at r = None" "fst s' \<le> fst s + JOB_RUNS_RETENTION"
  shows "\<exists>r'. run_by_key (snd s') k = Some r' \<and> jr_id r' = jr_id r \<and> jr_attempt r \<le> jr_attempt r' \<and>
    (\<forall>f. jr_finished_at r' = Some f \<longrightarrow> fst s \<le> f)"
  using assms(1,6) unfolding run_history_def
proof (induction rule: rtranclp_induct)
  case base
  with assms(4,5) show ?case by simp
next
  case (step y z)
  have le: "fst y \<le> fst z" by (rule run_step_time [OF step.hyps(2)])
  have inv: "runs_inv L y \<and> fst s \<le> fst y"
    using history_inv [of L s y] step.hyps(1) assms(2,3) by (simp add: run_history_def)
  from step.IH le step.prems obtain r1 where r1: "run_by_key (snd y) k = Some r1" "jr_id r1 = jr_id r"
    "jr_attempt r \<le> jr_attempt r1" "\<forall>f. jr_finished_at r1 = Some f \<longrightarrow> fst s \<le> f" by auto
  from run_step_row_moves [OF step.hyps(2) _ assms(3) r1(1)] inv
  have mv: "row_moves L (fst z) r1 (run_by_key (snd z) k)" by simp
  have "\<not> purgeable (fst z) JOB_RUNS_RETENTION r1"
    using r1(4) step.prems by (force simp: purgeable_def split: option.splits)
  with mv obtain r2 where r2: "run_by_key (snd z) k = Some r2" "r2 = r1 \<or> row_step L (fst z) r1 r2"
    by (auto simp: row_moves_def split: option.splits)
  from r2(2) show ?case
  proof
    assume "r2 = r1"
    with r1 r2(1) show ?case by auto
  next
    assume "row_step L (fst z) r1 r2"
    from row_step_kept [OF this] r1 r2(1) le inv show ?case by auto
  qed
qed

lemma finish_lost:
  assumes "run_by_id db rid = Some r" "jr_attempt r \<noteq> att"
  shows "finish rid st ec rc t att obs det committed db =
    (committed, \<lparr>rr_claim = Claimed, rr_status = Some (jr_status r), rr_retry = False\<rparr>)"
  using assms by (simp add: finish_def)



end
