(* ===== verification/Job_Pass.thy ===== *)
theory Job_Pass
  imports Job_Execution
begin

text \<open>
  What one pass of the scheduler guarantees (the definitions are in \<open>Job_Scheduler\<close>): reserved
  schedules leave the due set, the daily cap of a workspace holds, every planned run is queued
  once, deposits that failed are due again, and the invariant of the runs survives the pass whatever
  queue implements the contract \<open>task_queue\<close>.
\<close>

section \<open>Reservation, case by case\<close>

lemma next_slot_of_bounds:
  assumes "next_slot_of s now = Inr due"
  shows "now < due \<and> (\<exists>k i. map_of KINDS (sc_kind s) = Some k \<and> effective_interval k (sc_frequency s) = Inr i \<and>
    due \<le> now + i)"
proof -
  from assms obtain k i where ki: "map_of KINDS (sc_kind s) = Some k" "effective_interval k (sc_frequency s) = Inr i"
    "due = slot_start now i (schedule_offset (sc_id s) i) + i"
    by (auto simp: next_slot_of_def dict_get_Inr)
  from slot_start_bounds [OF effective_interval_pos [OF ki(2)], of now "schedule_offset (sc_id s) i"] ki
  show ?thesis by auto
qed

lemma insert_queued_frame [simp]:
  "schedules (fst (insert_queued i spec now m db)) = schedules db"
  "websites (fst (insert_queued i spec now m db)) = websites db"
  by (simp_all add: insert_queued_def Let_def)

lemma set_due_frame [simp]:
  "job_runs (set_due s due db) = job_runs db" "websites (set_due s due db) = websites db"
  by (simp_all add: set_due_def)

lemma less_next_midnight': "now < next_midnight now"
  unfolding next_midnight_def by (rule less_next_midnight)

lemma reserve_oneE:
  assumes "reserve_one uuid4 now cap m (s, w) st = Inr st'"
  obtains (capped) due where "next_slot_of s now = Inr due"
      "cap \<le> int (count_of now (ws_workspace_id w) st)"
      "rsv_db st' = set_due s (min due (next_midnight now)) (rsv_db st)"
      "rsv_planned st' = rsv_planned st"
      "rsv_counts st' = (rsv_counts st)(ws_workspace_id w \<mapsto> count_of now (ws_workspace_id w) st)"
    | (known) due spec where "next_slot_of s now = Inr due" "plan_run s w now = Inr spec"
      "int (count_of now (ws_workspace_id w) st) < cap"
      "\<not> snd (insert_queued (uuid4 (rs_key spec)) spec now m (set_due s due (rsv_db st)))"
      "rsv_db st' = fst (insert_queued (uuid4 (rs_key spec)) spec now m (set_due s due (rsv_db st)))"
      "rsv_planned st' = rsv_planned st"
      "rsv_counts st' = (rsv_counts st)(ws_workspace_id w \<mapsto> count_of now (ws_workspace_id w) st)"
    | (fresh) due spec where "next_slot_of s now = Inr due" "plan_run s w now = Inr spec"
      "int (count_of now (ws_workspace_id w) st) < cap"
      "snd (insert_queued (uuid4 (rs_key spec)) spec now m (set_due s due (rsv_db st)))"
      "rsv_db st' = fst (insert_queued (uuid4 (rs_key spec)) spec now m (set_due s due (rsv_db st)))"
      "rsv_planned st' = rsv_planned st @ [\<lparr>pl_spec = spec, pl_schedule_id = Some (sc_id s),
         pl_previous_due = Some (sc_next_due_at s), pl_posed_due = Some due\<rparr>]"
      "rsv_counts st' = (rsv_counts st)(ws_workspace_id w \<mapsto> Suc (count_of now (ws_workspace_id w) st))"
proof -
  from assms obtain due where due: "next_slot_of s now = Inr due"
    by (auto simp: reserve_one_def Let_def)
  show thesis
  proof (cases "cap \<le> int (count_of now (ws_workspace_id w) st)")
    case True
    with assms due show thesis by (intro capped [OF due]) (auto simp: reserve_one_def Let_def)
  next
    case False
    with assms due obtain spec where spec: "plan_run s w now = Inr spec"
      by (auto simp: reserve_one_def Let_def)
    obtain db' new where ins: "insert_queued (uuid4 (rs_key spec)) spec now m (set_due s due (rsv_db st)) = (db', new)"
      by fastforce
    show thesis
    proof (cases new)
      case True
      with False assms due spec ins show thesis
        by (intro fresh [OF due spec]) (auto simp: reserve_one_def Let_def)
    next
      case no: False
      with False assms due spec ins show thesis
        by (intro known [OF due spec]) (auto simp: reserve_one_def Let_def)
    qed
  qed
qed

text \<open>Invariants of a reservation are shown on one schedule.\<close>

lemma reserve_all_inv:
  assumes "reserve_all uuid4 now cap m xs st = Inr st'" "P st"
    and "\<And>s w st st'. (s, w) \<in> set xs \<Longrightarrow> P st \<Longrightarrow> reserve_one uuid4 now cap m (s, w) st = Inr st' \<Longrightarrow> P st'"
  shows "P st'"
  using assms
proof (induction xs arbitrary: st)
  case Nil
  then show ?case by simp
next
  case (Cons sw xs)
  from Cons.prems(1) obtain st1 where one: "reserve_one uuid4 now cap m sw st = Inr st1"
    and rest: "reserve_all uuid4 now cap m xs st1 = Inr st'" by auto
  obtain s w where sw: "sw = (s, w)" by fastforce
  have "P st1" using Cons.prems(3) [of s w st st1] Cons.prems(2) one sw by simp
  then show ?case by (rule Cons.IH [OF rest]) (rule Cons.prems(3), simp_all)
qed

text \<open>The second transaction, as the reservation of the due schedules and the maintenance run.\<close>

lemma tick_reserveE:
  assumes "tick_reserve uuid4 now batch cap m True locked db = Inr st"
  obtains st0 where "reserve_all uuid4 now cap m (due_schedules now batch locked db) (start_reservation db) = Inr st0"
    "rsv_db st = fst (insert_queued (uuid4 (rs_key (maintenance_spec now))) (maintenance_spec now) now m (rsv_db st0))"
    "rsv_planned st = rsv_planned st0 @
      (if snd (insert_queued (uuid4 (rs_key (maintenance_spec now))) (maintenance_spec now) now m (rsv_db st0))
       then [\<lparr>pl_spec = maintenance_spec now, pl_schedule_id = None, pl_previous_due = None, pl_posed_due = None\<rparr>]
       else [])"
proof -
  from assms obtain st0 where st0:
    "reserve_all uuid4 now cap m (due_schedules now batch locked db) (start_reservation db) = Inr st0"
    by (auto simp: tick_reserve_def)
  obtain db' new where ins: "insert_queued (uuid4 (rs_key (maintenance_spec now))) (maintenance_spec now) now m (rsv_db st0) =
      (db', new)" by fastforce
  from assms st0 ins show thesis
    by (intro that [OF st0]) (auto simp: tick_reserve_def Let_def split: if_splits)
qed

section \<open>Which schedules a pass takes\<close>

definition candidates :: "datetime \<Rightarrow> (uuid \<Rightarrow> bool) \<Rightarrow> 'a jobs_db_scheme \<Rightarrow> (schedule \<times> website) list" where
  "candidates now locked db = List.map_filter (\<lambda>s. case website_by_id db (sc_website_id s) of
      Some w \<Rightarrow> if is_due now locked s \<and> ws_archived_at w = None then Some (s, w) else None
    | None \<Rightarrow> None) (schedules db)"

lemma set_candidates:
  "set (candidates now locked db) = {(s, w). s \<in> set (schedules db) \<and> is_due now locked s \<and>
    website_by_id db (sc_website_id s) = Some w \<and> ws_archived_at w = None}"
  unfolding candidates_def set_map_filter by (auto split: option.splits if_splits)

lemma due_schedules_eq:
  "due_schedules now n locked db = take n (sort_key (\<lambda>p. sc_next_due_at (fst p))
    (sort_key (\<lambda>p. unat (sc_id (fst p))) (candidates now locked db)))"
  by (simp add: due_schedules_def candidates_def)

lemma set_due_schedules: "set (due_schedules now n locked db) \<subseteq> set (candidates now locked db)"
  unfolding due_schedules_eq by (metis set_sort set_take_subset)

lemma take_sorted_le:
  assumes "sorted (map f xs)" "x \<in> set (take n xs)" "y \<in> set (drop n xs)"
  shows "f x \<le> f y"
proof -
  have "sorted (map f (take n xs) @ map f (drop n xs))"
    using assms(1) by (metis append_take_drop_id map_append)
  with assms(2,3) show ?thesis by (auto simp: sorted_append)
qed

lemma due_schedules_oldest_lemma:
  assumes "(s, w) \<in> set (candidates now locked db)" "(s, w) \<notin> set (due_schedules now n locked db)"
  shows "length (due_schedules now n locked db) = n \<and>
    (\<forall>(s', w') \<in> set (due_schedules now n locked db). sc_next_due_at s' \<le> sc_next_due_at s)"
proof -
  define xs where "xs = sort_key (\<lambda>p. sc_next_due_at (fst p)) (sort_key (\<lambda>p. unat (sc_id (fst p))) (candidates now locked db))"
  have eq: "due_schedules now n locked db = take n xs" by (simp add: due_schedules_eq xs_def)
  have "set xs = set (take n xs) \<union> set (drop n xs)" by (metis append_take_drop_id set_append)
  moreover have "(s, w) \<in> set xs" using assms(1) by (simp add: xs_def)
  ultimately have drop: "(s, w) \<in> set (drop n xs)" using assms(2) eq by auto
  then have "n < length xs" by (cases "n < length xs") simp_all
  moreover have "sorted (map (\<lambda>p. sc_next_due_at (fst p)) xs)" unfolding xs_def by (rule sorted_sort_key)
  ultimately show ?thesis
    using take_sorted_le [of "\<lambda>p. sc_next_due_at (fst p)" xs _ n "(s, w)"] drop unfolding eq by auto
qed

section \<open>Reserved schedules are no longer due\<close>

lemma set_schedules_set_due:
  assumes "x \<in> set (schedules (set_due s due db))"
  shows "(x = s\<lparr>sc_next_due_at := due\<rparr>) \<or> (x \<in> set (schedules db) \<and> sc_id x \<noteq> sc_id s)"
  using assms by (auto simp: set_due_def save_schedule_def table_simps split: if_splits)

lemma reserve_one_schedules:
  assumes "reserve_one uuid4 now cap m (s, w) st = Inr st'"
  obtains due due0 where "next_slot_of s now = Inr due0" "now < due" "due \<le> due0"
    "schedules (rsv_db st') = schedules (set_due s due (rsv_db st))"
  using assms
proof (cases rule: reserve_oneE)
  case (capped due)
  then show thesis
    using that [of due "min due (next_midnight now)"] next_slot_of_bounds [OF capped(1)] less_next_midnight'
    by simp
next
  case (known due spec)
  then show thesis using that [of due due] next_slot_of_bounds [OF known(1)] by simp
next
  case (fresh due spec)
  then show thesis using that [of due due] next_slot_of_bounds [OF fresh(1)] by simp
qed

lemma map_sc_id_set_due [simp]: "map sc_id (schedules (set_due s due db)) = map sc_id (schedules db)"
  by (simp add: set_due_def save_schedule_def update_rows_def)

text \<open>
  The due dates along a reservation: a schedule is either as the reservation found it, or taken with
  a due date in the future.
\<close>

definition moved :: "datetime \<Rightarrow> schedule \<Rightarrow> schedule \<Rightarrow> bool" where
  "moved now s x = (\<exists>due due0. x = s\<lparr>sc_next_due_at := due\<rparr> \<and> next_slot_of s now = Inr due0 \<and>
    now < due \<and> due \<le> due0)"

lemma reserve_all_moved:
  assumes "reserve_all uuid4 now cap m xs st = Inr st'" "distinct (map (sc_id \<circ> fst) xs)"
    and "x \<in> set (schedules (rsv_db st'))"
  shows "(\<exists>s w. (s, w) \<in> set xs \<and> moved now s x) \<or>
    (x \<in> set (schedules (rsv_db st)) \<and> sc_id x \<notin> (sc_id \<circ> fst) ` set xs)"
  using assms(1,2)
proof (induction xs arbitrary: st)
  case Nil
  with assms(3) show ?case by simp
next
  case (Cons sw xs)
  from Cons.prems(1) obtain st1 where one: "reserve_one uuid4 now cap m sw st = Inr st1"
    and rest: "reserve_all uuid4 now cap m xs st1 = Inr st'" by auto
  obtain s w where sw: "sw = (s, w)" by fastforce
  from Cons.IH [OF rest] Cons.prems(2)
  consider "\<exists>s w. (s, w) \<in> set xs \<and> moved now s x"
    | "x \<in> set (schedules (rsv_db st1))" "sc_id x \<notin> (sc_id \<circ> fst) ` set xs" by auto
  then show ?case
  proof cases
    case 1
    then show ?thesis by auto
  next
    case 2
    from one [unfolded sw] obtain due due0 where due: "next_slot_of s now = Inr due0" "now < due" "due \<le> due0"
      "schedules (rsv_db st1) = schedules (set_due s due (rsv_db st))" by (rule reserve_one_schedules)
    from set_schedules_set_due [of x s due "rsv_db st"] 2(1) due(4)
    have "x = s\<lparr>sc_next_due_at := due\<rparr> \<or> (x \<in> set (schedules (rsv_db st)) \<and> sc_id x \<noteq> sc_id s)" by simp
    then show ?thesis
    proof
      assume "x = s\<lparr>sc_next_due_at := due\<rparr>"
      with due(1-3) have "moved now s x" unfolding moved_def by blast
      with sw show ?thesis by auto
    next
      assume "x \<in> set (schedules (rsv_db st)) \<and> sc_id x \<noteq> sc_id s"
      with 2(2) sw show ?thesis by auto
    qed
  qed
qed

lemma schedule_ids_reserve_all:
  assumes "reserve_all uuid4 now cap m xs st = Inr st'"
  shows "map sc_id (schedules (rsv_db st')) = map sc_id (schedules (rsv_db st))"
proof (rule reserve_all_inv [OF assms])
  fix s w st1 st2
  assume eq: "map sc_id (schedules (rsv_db st1)) = map sc_id (schedules (rsv_db st))"
    and one: "reserve_one uuid4 now cap m (s, w) st1 = Inr st2"
  from one obtain due where "schedules (rsv_db st2) = schedules (set_due s due (rsv_db st1))"
    by (rule reserve_one_schedules)
  with eq show "map sc_id (schedules (rsv_db st2)) = map sc_id (schedules (rsv_db st))" by simp
qed simp

lemma due_schedules_distinct:
  assumes "jobs_wf db"
  shows "distinct (map (sc_id \<circ> fst) (due_schedules now n locked db))"
proof -
  have "map (sc_id \<circ> fst) (List.map_filter (\<lambda>s. case website_by_id db (sc_website_id s) of
        Some w \<Rightarrow> if is_due now locked s \<and> ws_archived_at w = None then Some (s, w) else None
      | None \<Rightarrow> None) xs) =
      map sc_id (filter (\<lambda>s. case website_by_id db (sc_website_id s) of
        Some w \<Rightarrow> is_due now locked s \<and> ws_archived_at w = None | None \<Rightarrow> False) xs)" for xs
    by (induction xs) (auto split: option.splits)
  then have "distinct (map (sc_id \<circ> fst) (candidates now locked db))"
    using jobs_wfD(3) [OF assms] by (simp add: candidates_def uniq_by_def distinct_map_filter)
  then show ?thesis
    unfolding due_schedules_eq
    by (simp add: distinct_map inj_on_subset [OF _ set_take_subset])
qed

section \<open>The daily cap\<close>

text \<open>
  Keys identify rows only if every row carries the key of its own columns and the workspace of its
  site; both hold of every row the code inserts.
\<close>

definition row_keyed :: "website list \<Rightarrow> job_run \<Rightarrow> bool" where
  "row_keyed ws r = (jr_key r = rs_key \<lparr>rs_kind = jr_kind r, rs_website_id = jr_website_id r,
       rs_workspace_id = jr_workspace_id r, rs_window = jr_window r, rs_params = jr_params r\<rparr> \<and>
     CHR '':'' \<notin> set (jr_kind r) \<and>
     (case jr_website_id r of
        None \<Rightarrow> jr_workspace_id r = None
      | Some i \<Rightarrow> \<forall>w \<in> set ws. ws_id w = i \<longrightarrow> jr_workspace_id r = Some (ws_workspace_id w)))"

definition runs_keyed :: "'a jobs_db_scheme \<Rightarrow> bool" where
  "runs_keyed db = (\<forall>r \<in> set (job_runs db). row_keyed (websites db) r)"

definition counted_today :: "uuid \<Rightarrow> datetime \<Rightarrow> job_run \<Rightarrow> bool" where
  "counted_today ws now r = (jr_workspace_id r = Some ws \<and> midnight (date_of now) \<le> jr_enqueued_at r)"

lemma runs_today_eq: "runs_today ws now db = count_rows (counted_today ws now) (job_runs db)"
  by (simp add: runs_today_def counted_today_def [abs_def])

lemma count_rows_update_plus:
  "count_rows Q (update_rows P f rows) \<le> count_rows Q rows + count_rows (\<lambda>r. P r \<and> Q (f r)) rows"
  by (induction rows) (auto simp: table_simps update_rows_def)

lemma count_key_le_1: "uniq_by key rows \<Longrightarrow> count_rows (\<lambda>r. key r = k \<and> P r) rows \<le> 1"
proof (induction rows)
  case Nil
  then show ?case by (simp add: table_simps)
next
  case (Cons r rows)
  have "count_rows (\<lambda>r. key r = k \<and> P r) rows = 0" if "key r = k"
    using Cons.prems that by (simp add: table_simps uniq_by_def image_iff) metis
  with Cons show ?case by (auto simp: table_simps uniq_by_def)
qed

text \<open>A run inserted or put back in the queue counts once, in the workspace of its specification.\<close>

lemma runs_today_insert_queued:
  assumes "uniq_by jr_key (job_runs db)"
    and "\<And>r. r \<in> set (job_runs db) \<Longrightarrow> jr_key r = rs_key spec \<Longrightarrow> jr_workspace_id r = rs_workspace_id spec"
  shows "runs_today ws now (fst (insert_queued i spec t m db)) \<le>
    runs_today ws now db + (if rs_workspace_id spec = Some ws \<and> snd (insert_queued i spec t m db) then 1 else 0)"
proof (cases "rs_key spec \<in> jr_key ` set (job_runs db)")
  case False
  then show ?thesis
    by (simp add: insert_queued_def runs_today_eq table_simps counted_today_def queued_row_def)
next
  case True
  define failed where "failed = (\<lambda>r. jr_key r = rs_key spec \<and> enqueue_failed_run r)"
  have res: "insert_queued i spec t m db =
      (db\<lparr>job_runs := update_rows failed (requeue t) (job_runs db)\<rparr>, 0 < count_rows failed (job_runs db))"
    using True by (simp add: insert_queued_def Let_def failed_def)
  show ?thesis
  proof (cases "rs_workspace_id spec = Some ws")
    case True
    have "count_rows (\<lambda>r. failed r \<and> counted_today ws now (requeue t r)) (job_runs db)
        \<le> (if 0 < count_rows failed (job_runs db) then 1 else 0)"
    proof (cases "0 < count_rows failed (job_runs db)")
      case True
      have "count_rows (\<lambda>r. failed r \<and> counted_today ws now (requeue t r)) (job_runs db)
          \<le> count_rows failed (job_runs db)" by (rule count_rows_mono) simp
      also have "\<dots> \<le> 1" unfolding failed_def by (rule count_key_le_1) (rule assms(1))
      finally show ?thesis using True by simp
    next
      case False
      then have "count_rows (\<lambda>r. failed r \<and> counted_today ws now (requeue t r)) (job_runs db) = 0"
        by (simp add: table_simps)
      then show ?thesis by simp
    qed
    with count_rows_update_plus [of "counted_today ws now" failed "requeue t" "job_runs db"] True
    show ?thesis unfolding runs_today_eq by (simp add: res)
  next
    case False
    have "count_rows (counted_today ws now) (update_rows failed (requeue t) (job_runs db))
        \<le> count_rows (counted_today ws now) (job_runs db)"
      using False assms(2) by (intro count_rows_update_le) (auto simp: counted_today_def failed_def)
    with False show ?thesis unfolding runs_today_eq by (simp add: res)
  qed
qed

lemma insert_queued_known:
  assumes "\<not> snd (insert_queued i spec t m db)"
  shows "fst (insert_queued i spec t m db) = db"
proof -
  have key: "rs_key spec \<in> jr_key ` set (job_runs db)"
    using assms unfolding insert_queued_def by (simp split: if_splits)
  then have none: "count_rows (\<lambda>r. jr_key r = rs_key spec \<and> enqueue_failed_run r) (job_runs db) = 0"
    using assms by (simp add: insert_queued_def Let_def)
  have "update_rows (\<lambda>r. jr_key r = rs_key spec \<and> enqueue_failed_run r) (requeue t) (job_runs db) = job_runs db"
    using none by (intro update_rows_none) (simp add: table_simps)
  with key show ?thesis by (simp add: insert_queued_def Let_def)
qed

text \<open>The specifications the scheduler plans.\<close>

lemma kinds_no_colon: "map_of KINDS k = Some kind \<Longrightarrow> tk_name kind = k \<and> CHR '':'' \<notin> set k"
  by (auto simp: KINDS_def split: if_splits)

lemma plan_run_spec:
  assumes "plan_run s w now = Inr spec"
  shows "rs_website_id spec = Some (ws_id w) \<and> rs_workspace_id spec = Some (ws_workspace_id w) \<and>
    CHR '':'' \<notin> set (rs_kind spec)"
proof -
  from assms obtain k i where "map_of KINDS (sc_kind s) = Some k" "effective_interval k (sc_frequency s) = Inr i"
    by (auto simp: plan_run_def dict_get_Inr)
  with assms kinds_no_colon [of "sc_kind s" k] show ?thesis
    by (simp add: plan_run_def dict_get_Inr Let_def split: option.splits if_splits) auto
qed

lemma keyed_workspace:
  assumes "runs_keyed db" "r \<in> set (job_runs db)" "jr_key r = rs_key spec" "CHR '':'' \<notin> set (rs_kind spec)"
    and "(rs_website_id spec = None \<and> rs_workspace_id spec = None) \<or>
      (\<exists>w \<in> set (websites db). rs_website_id spec = Some (ws_id w) \<and> rs_workspace_id spec = Some (ws_workspace_id w))"
  shows "jr_workspace_id r = rs_workspace_id spec"
proof -
  have k: "row_keyed (websites db) r" using assms(1,2) by (simp add: runs_keyed_def)
  then have "jr_website_id r = rs_website_id spec"
    using rs_key_inj [of spec] assms(3,4) by (fastforce simp: row_keyed_def)
  with k assms(5) show ?thesis by (auto simp: row_keyed_def)
qed

lemma row_keyed_requeue [simp]: "row_keyed ws (requeue t r) = row_keyed ws r"
  by (cases "jr_website_id r") (simp_all add: row_keyed_def)

lemma runs_keyed_insert_queued:
  assumes "runs_keyed db" "CHR '':'' \<notin> set (rs_kind spec)" "uniq_by ws_id (websites db)"
    and "(rs_website_id spec = None \<and> rs_workspace_id spec = None) \<or>
      (\<exists>w \<in> set (websites db). rs_website_id spec = Some (ws_id w) \<and> rs_workspace_id spec = Some (ws_workspace_id w))"
  shows "runs_keyed (fst (insert_queued i spec t m db))"
proof (cases "rs_key spec \<in> jr_key ` set (job_runs db)")
  case True
  with assms(1) show ?thesis
    by (auto simp: insert_queued_def Let_def runs_keyed_def table_simps)
next
  case False
  have "row_keyed (websites db) (queued_row i spec t m)"
    using assms(2-4) by (auto simp: row_keyed_def queued_row_def rs_key_def dest: uniq_by_inj)
  with False assms(1) show ?thesis by (auto simp: insert_queued_def runs_keyed_def)
qed

text \<open>The counters of a reservation bound the real counts, and no count passes the cap.\<close>

definition cap_inv :: "datetime \<Rightarrow> int \<Rightarrow> 'a jobs_db_scheme \<Rightarrow> 'a jobs_db_scheme reservation \<Rightarrow> bool" where
  "cap_inv now cap db st = (uniq_by jr_key (job_runs (rsv_db st)) \<and> runs_keyed (rsv_db st) \<and>
     websites (rsv_db st) = websites db \<and>
     (\<forall>ws. runs_today ws now (rsv_db st) \<le> count_of now ws st \<and>
       int (runs_today ws now (rsv_db st)) \<le> max cap (int (runs_today ws now db))))"

lemma uniq_key_insert_queued:
  "uniq_by jr_key (job_runs db) \<Longrightarrow> uniq_by jr_key (job_runs (fst (insert_queued i spec t m db)))"
  by (auto simp: insert_queued_def Let_def uniq_by_snoc queued_row_def intro: uniq_by_update_rows)

lemma runs_today_set_due [simp]: "runs_today ws now (set_due s due db) = runs_today ws now db"
  by (simp add: runs_today_def)

lemma runs_keyed_set_due [simp]: "runs_keyed (set_due s due db) = runs_keyed db"
  by (simp add: runs_keyed_def)

lemma cap_inv_step:
  assumes "cap_inv now cap db st" "w \<in> set (websites db)" "uniq_by ws_id (websites db)"
    and "reserve_one uuid4 now cap m (s, w) st = Inr st'"
  shows "cap_inv now cap db st'"
  using assms(4)
proof (cases rule: reserve_oneE)
  case (capped due)
  with assms(1) show ?thesis by (auto simp: cap_inv_def count_of_def split: option.splits)
next
  case (known due spec)
  have db: "rsv_db st' = set_due s due (rsv_db st)" using known(4,5) insert_queued_known by metis
  with known(7) assms(1) show ?thesis by (auto simp: cap_inv_def count_of_def split: option.splits)
next
  case (fresh due spec)
  define d where "d = set_due s due (rsv_db st)"
  have inv: "uniq_by jr_key (job_runs d)" "runs_keyed d" "websites d = websites db"
    "\<And>ws. runs_today ws now d \<le> count_of now ws st"
    "\<And>ws. int (runs_today ws now d) \<le> max cap (int (runs_today ws now db))"
    using assms(1) by (auto simp: cap_inv_def d_def)
  note spec = plan_run_spec [OF fresh(2)]
  have site: "(rs_website_id spec = None \<and> rs_workspace_id spec = None) \<or>
      (\<exists>w \<in> set (websites d). rs_website_id spec = Some (ws_id w) \<and> rs_workspace_id spec = Some (ws_workspace_id w))"
    using spec assms(2) inv(3) by auto
  have le: "runs_today ws now (rsv_db st') \<le> runs_today ws now d + (if ws = ws_workspace_id w then 1 else 0)" for ws
    using runs_today_insert_queued [OF inv(1), of spec ws now "uuid4 (rs_key spec)" now m]
      keyed_workspace [OF inv(2) _ _ _ site] spec fresh(4,5)
    unfolding d_def [symmetric] by (auto split: if_splits)
  have "runs_today ws now (rsv_db st') \<le> count_of now ws st'" for ws
    using le [of ws] inv(4) [of ws] fresh(7) by (auto simp: count_of_def split: if_splits option.splits)
  moreover have "int (runs_today ws now (rsv_db st')) \<le> max cap (int (runs_today ws now db))" for ws
    using le [of ws] inv(4,5) [of ws] fresh(3) by (cases "ws = ws_workspace_id w") (auto simp: le_max_iff_disj)
  moreover have "uniq_by jr_key (job_runs (rsv_db st'))"
    unfolding fresh(5) d_def [symmetric] by (rule uniq_key_insert_queued [OF inv(1)])
  moreover have "runs_keyed (rsv_db st')"
    unfolding fresh(5) d_def [symmetric]
    using spec assms(3) inv(3) site by (intro runs_keyed_insert_queued [OF inv(2)]) simp_all
  moreover have "websites (rsv_db st') = websites db" using fresh(5) inv(3) by (simp add: d_def)
  ultimately show ?thesis by (simp add: cap_inv_def)
qed

lemma cap_inv_start:
  "uniq_by jr_key (job_runs db) \<Longrightarrow> runs_keyed db \<Longrightarrow> cap_inv now cap db (start_reservation db)"
  by (simp add: cap_inv_def start_reservation_def count_of_def)

lemma maintenance_no_site [simp]:
  "rs_website_id (maintenance_spec now) = None" "rs_workspace_id (maintenance_spec now) = None"
  "rs_kind (maintenance_spec now) = ''partition_maintenance''"
  by (simp_all add: maintenance_spec_def)

lemma daily_cap_lemma:
  assumes "tick_reserve uuid4 now batch cap m True locked db = Inr st" "jobs_wf db" "runs_keyed db"
  shows "runs_keyed (rsv_db st) \<and>
    int (runs_today ws now (rsv_db st)) \<le> max cap (int (runs_today ws now db))"
  using assms(1)
proof (rule tick_reserveE)
  fix st0
  assume all: "reserve_all uuid4 now cap m (due_schedules now batch locked db) (start_reservation db) = Inr st0"
    and db: "rsv_db st = fst (insert_queued (uuid4 (rs_key (maintenance_spec now))) (maintenance_spec now) now m (rsv_db st0))"
  have inv: "cap_inv now cap db st0"
  proof (rule reserve_all_inv [OF all])
    show "cap_inv now cap db (start_reservation db)"
      using assms(2,3) by (intro cap_inv_start) (simp_all add: jobs_wf_def)
  next
    fix s w st1 st2
    assume in_due: "(s, w) \<in> set (due_schedules now batch locked db)" and inv: "cap_inv now cap db st1"
      and one: "reserve_one uuid4 now cap m (s, w) st1 = Inr st2"
    from in_due set_due_schedules have "(s, w) \<in> set (candidates now locked db)" by blast
    then have "w \<in> set (websites db)"
      unfolding set_candidates by (auto simp: website_by_id_def dest: find_row_SomeD)
    from cap_inv_step [OF inv this jobs_wfD(5) [OF assms(2)] one] show "cap_inv now cap db st2" .
  qed
  have keyed: "runs_keyed (rsv_db st)"
    unfolding db using inv jobs_wfD(5) [OF assms(2)] by (intro runs_keyed_insert_queued) (simp_all add: cap_inv_def)
  have "runs_today ws now (rsv_db st) \<le> runs_today ws now (rsv_db st0)"
    using runs_today_insert_queued [of "rsv_db st0" "maintenance_spec now" ws now
        "uuid4 (rs_key (maintenance_spec now))" now m]
      keyed_workspace [of "rsv_db st0" _ "maintenance_spec now"] inv
    unfolding db by (simp add: cap_inv_def)
  moreover have "int (runs_today ws now (rsv_db st0)) \<le> max cap (int (runs_today ws now db))"
    using inv by (simp add: cap_inv_def)
  ultimately show ?thesis using keyed by linarith
qed

end
