(* ===== verification/Job_Tick.thy ===== *)
theory Job_Tick
  imports Job_Pass "HOL-Library.Sublist"
begin

text \<open>
  The pass as a whole: what the deposits and the restoration leave behind, and
  the invariant of the runs through all four transactions, for every queue that meets the contract
  \<open>task_queue\<close>. The two queues of the code are the instances: Cloud Tasks, and the inline queue
  executing with handlers that meet \<open>run_handlers\<close>.
\<close>

section \<open>Planned runs\<close>

lemma insert_queued_kept:
  assumes "r \<in> set (job_runs db)" "\<not> enqueue_failed_run r"
  shows "r \<in> set (job_runs (fst (insert_queued i spec t m db)))"
  using assms by (auto simp: insert_queued_def Let_def update_rows_def intro!: image_eqI [of r _ r])

lemma insert_queued_new:
  assumes "snd (insert_queued i spec t m db)"
  obtains r where "r \<in> set (job_runs (fst (insert_queued i spec t m db)))" "jr_key r = rs_key spec"
    "jr_status r = Queued" "jr_enqueued_at r = t"
proof (cases "rs_key spec \<in> jr_key ` set (job_runs db)")
  case False
  then show thesis
    using that [of "queued_row i spec t m"] by (simp add: insert_queued_def) (simp add: queued_row_def)
next
  case True
  define failed where "failed = (\<lambda>r. jr_key r = rs_key spec \<and> enqueue_failed_run r)"
  have res: "insert_queued i spec t m db =
      (db\<lparr>job_runs := update_rows failed (requeue t) (job_runs db)\<rparr>, 0 < count_rows failed (job_runs db))"
    using True by (simp add: insert_queued_def Let_def failed_def)
  with assms have "count_rows failed (job_runs db) \<noteq> 0" by simp
  then obtain r where r: "r \<in> set (job_runs db)" "failed r" by (auto simp: table_simps)
  then have "requeue t r \<in> set (job_runs (fst (insert_queued i spec t m db)))"
    by (auto simp: res table_simps intro!: image_eqI [of _ _ r])
  then show thesis using that [of "requeue t r"] r(2) by (simp add: failed_def)
qed

text \<open>A run just queued is not queued twice.\<close>

lemma insert_queued_fresh_key:
  assumes "snd (insert_queued i spec t m db)" "uniq_by jr_key (job_runs db)"
  shows "\<forall>r \<in> set (job_runs db). jr_key r = rs_key spec \<longrightarrow> enqueue_failed_run r"
proof
  fix r
  assume r: "r \<in> set (job_runs db)"
  show "jr_key r = rs_key spec \<longrightarrow> enqueue_failed_run r"
  proof
    assume k: "jr_key r = rs_key spec"
    with r have "rs_key spec \<in> jr_key ` set (job_runs db)" by (metis imageI)
    with assms(1) have "count_rows (\<lambda>r. jr_key r = rs_key spec \<and> enqueue_failed_run r) (job_runs db) \<noteq> 0"
      by (simp add: insert_queued_def Let_def)
    then obtain r' where "r' \<in> set (job_runs db)" "jr_key r' = rs_key spec" "enqueue_failed_run r'"
      by (auto simp: table_simps)
    with assms(2) r k show "enqueue_failed_run r" by (metis uniq_by_inj)
  qed
qed

definition queued_for :: "datetime \<Rightarrow> 'a jobs_db_scheme \<Rightarrow> planned \<Rightarrow> bool" where
  "queued_for now db item = (\<exists>r \<in> set (job_runs db). jr_key r = rs_key (pl_spec item) \<and>
     jr_status r = Queued \<and> jr_enqueued_at r = now)"

text \<open>The planned runs of a reservation are distinct, and each is queued.\<close>

definition planned_inv :: "datetime \<Rightarrow> 'a jobs_db_scheme reservation \<Rightarrow> bool" where
  "planned_inv now st = (uniq_by jr_key (job_runs (rsv_db st)) \<and>
     distinct (map (\<lambda>p. rs_key (pl_spec p)) (rsv_planned st)) \<and>
     (\<forall>item \<in> set (rsv_planned st). queued_for now (rsv_db st) item))"

lemma queued_for_insert:
  assumes "queued_for now db item"
  shows "queued_for now (fst (insert_queued i spec t m db)) item"
proof -
  from assms obtain r where r: "r \<in> set (job_runs db)" "jr_key r = rs_key (pl_spec item)" "jr_status r = Queued"
    "jr_enqueued_at r = now" by (auto simp: queued_for_def)
  with insert_queued_kept [of r db i spec t m] show ?thesis
    by (auto simp: queued_for_def enqueue_failed_run_def)
qed

lemma planned_inv_insert:
  assumes "uniq_by jr_key (job_runs db)" "distinct (map (\<lambda>p. rs_key (pl_spec p)) items)"
    "\<forall>item \<in> set items. queued_for now db item" "snd (insert_queued i spec now m db)" "pl_spec p = spec"
  shows "distinct (map (\<lambda>p. rs_key (pl_spec p)) (items @ [p]))"
    and "\<forall>item \<in> set (items @ [p]). queued_for now (fst (insert_queued i spec now m db)) item"
proof -
  have "rs_key spec \<notin> (\<lambda>p. rs_key (pl_spec p)) ` set items"
    using assms(3) insert_queued_fresh_key [OF assms(4,1)]
    by (fastforce simp: queued_for_def enqueue_failed_run_def)
  with assms(2,5) show "distinct (map (\<lambda>p. rs_key (pl_spec p)) (items @ [p]))" by auto
  have "queued_for now (fst (insert_queued i spec now m db)) p"
    using assms(4,5) by (auto simp: queued_for_def elim!: insert_queued_new)
  with assms(3) show "\<forall>item \<in> set (items @ [p]). queued_for now (fst (insert_queued i spec now m db)) item"
    by (auto intro: queued_for_insert)
qed

lemma queued_for_set_due [simp]: "queued_for now (set_due s due db) item = queued_for now db item"
  by (simp add: queued_for_def)

lemma planned_inv_step:
  assumes "planned_inv now st" "reserve_one uuid4 now cap m (s, w) st = Inr st'"
  shows "planned_inv now st'"
  using assms(2)
proof (cases rule: reserve_oneE)
  case (capped due)
  with assms(1) show ?thesis by (simp add: planned_inv_def)
next
  case (known due spec)
  have "rsv_db st' = set_due s due (rsv_db st)" using known(4,5) insert_queued_known by metis
  with known assms(1) show ?thesis by (simp add: planned_inv_def)
next
  case (fresh due spec)
  have inv: "uniq_by jr_key (job_runs (set_due s due (rsv_db st)))"
    "distinct (map (\<lambda>p. rs_key (pl_spec p)) (rsv_planned st))"
    "\<forall>item \<in> set (rsv_planned st). queued_for now (set_due s due (rsv_db st)) item"
    using assms(1) by (simp_all add: planned_inv_def)
  have spec: "pl_spec \<lparr>pl_spec = spec, pl_schedule_id = Some (sc_id s),
         pl_previous_due = Some (sc_next_due_at s), pl_posed_due = Some due\<rparr> = spec" by simp
  from planned_inv_insert [OF inv fresh(4) spec] fresh(5,6) uniq_key_insert_queued [OF inv(1)]
  show ?thesis unfolding planned_inv_def by simp
qed

lemma planned_are_queued:
  assumes "tick_reserve uuid4 now batch cap m got_lock locked db = Inr st" "jobs_wf db"
  shows "planned_inv now st"
proof (cases got_lock)
  case False
  with assms show ?thesis
    by (auto simp: tick_reserve_def start_reservation_def planned_inv_def jobs_wf_def)
next
  case True
  then have "tick_reserve uuid4 now batch cap m True locked db = Inr st" using assms(1) by simp
  then show ?thesis
  proof (rule tick_reserveE)
    fix st0
    assume all: "reserve_all uuid4 now cap m (due_schedules now batch locked db) (start_reservation db) = Inr st0"
      and db: "rsv_db st = fst (insert_queued (uuid4 (rs_key (maintenance_spec now))) (maintenance_spec now) now m (rsv_db st0))"
      and pl: "rsv_planned st = rsv_planned st0 @
        (if snd (insert_queued (uuid4 (rs_key (maintenance_spec now))) (maintenance_spec now) now m (rsv_db st0))
         then [\<lparr>pl_spec = maintenance_spec now, pl_schedule_id = None, pl_previous_due = None, pl_posed_due = None\<rparr>]
         else [])"
    have "planned_inv now st0"
    proof (rule reserve_all_inv [OF all])
      show "planned_inv now (start_reservation db)"
        using assms(2) by (simp add: planned_inv_def start_reservation_def jobs_wf_def)
    qed (rule planned_inv_step)
    then show ?thesis
      using planned_inv_insert [of "rsv_db st0" "rsv_planned st0" now "uuid4 (rs_key (maintenance_spec now))"
          "maintenance_spec now" m "\<lparr>pl_spec = maintenance_spec now, pl_schedule_id = None, pl_previous_due = None, pl_posed_due = None\<rparr>"]
      by (auto simp: planned_inv_def db pl uniq_key_insert_queued intro: queued_for_insert)
  qed
qed

text \<open>Which schedule a planned run belongs to, and where its due date went.\<close>

definition planned_from :: "datetime \<Rightarrow> (schedule \<times> website) list \<Rightarrow> schedule list \<Rightarrow> planned \<Rightarrow> bool" where
  "planned_from now xs rows item = (\<exists>s w due spec. (s, w) \<in> set xs \<and> plan_run s w now = Inr spec \<and> now < due \<and>
     item = \<lparr>pl_spec = spec, pl_schedule_id = Some (sc_id s), pl_previous_due = Some (sc_next_due_at s),
       pl_posed_due = Some due\<rparr> \<and> s\<lparr>sc_next_due_at := due\<rparr> \<in> set rows)"

lemma set_due_other: "x \<in> set (schedules db) \<Longrightarrow> sc_id x \<noteq> sc_id s \<Longrightarrow> x \<in> set (schedules (set_due s due db))"
  by (auto simp: set_due_def save_schedule_def update_rows_def intro!: image_eqI [of x _ x])

lemma set_due_same: "sc_id s \<in> sc_id ` set (schedules db) \<Longrightarrow>
    s\<lparr>sc_next_due_at := due\<rparr> \<in> set (schedules (set_due s due db))"
  by (auto simp: set_due_def save_schedule_def update_rows_def image_iff)

lemma reserve_all_other:
  assumes "reserve_all uuid4 now cap m xs st = Inr st'" "x \<in> set (schedules (rsv_db st))"
    "sc_id x \<notin> (sc_id \<circ> fst) ` set xs"
  shows "x \<in> set (schedules (rsv_db st'))"
proof (rule reserve_all_inv [OF assms(1)])
  show "x \<in> set (schedules (rsv_db st))" by (rule assms(2))
next
  fix s w st1 st2
  assume in_xs: "(s, w) \<in> set xs" and x: "x \<in> set (schedules (rsv_db st1))"
    and one: "reserve_one uuid4 now cap m (s, w) st1 = Inr st2"
  from one obtain due where "schedules (rsv_db st2) = schedules (set_due s due (rsv_db st1))"
    by (rule reserve_one_schedules)
  moreover have "sc_id x \<noteq> sc_id s" using assms(3) in_xs by force
  ultimately show "x \<in> set (schedules (rsv_db st2))" using set_due_other [OF x] by simp
qed

lemma planned_from_mono: "planned_from now xs rows item \<Longrightarrow> set xs \<subseteq> set ys \<Longrightarrow> planned_from now ys rows item"
  unfolding planned_from_def by blast

lemma reserve_all_planned:
  assumes "reserve_all uuid4 now cap m xs st = Inr st'" "distinct (map (sc_id \<circ> fst) xs)"
    and "(sc_id \<circ> fst) ` set xs \<subseteq> sc_id ` set (schedules (rsv_db st))"
  shows "\<exists>ps. rsv_planned st' = rsv_planned st @ ps \<and>
    (\<forall>item \<in> set ps. planned_from now xs (schedules (rsv_db st')) item) \<and> distinct (map pl_schedule_id ps)"
  using assms
proof (induction xs arbitrary: st)
  case Nil
  then show ?case by simp
next
  case (Cons sw xs)
  from Cons.prems(1) obtain st1 where one: "reserve_one uuid4 now cap m sw st = Inr st1"
    and rest: "reserve_all uuid4 now cap m xs st1 = Inr st'" by auto
  obtain s w where sw: "sw = (s, w)" by fastforce
  have s_id: "sc_id s \<in> sc_id ` set (schedules (rsv_db st))" using Cons.prems(3) sw by auto
  from one [unfolded sw] obtain d where d: "schedules (rsv_db st1) = schedules (set_due s d (rsv_db st))"
    by (rule reserve_one_schedules)
  have "sc_id ` set (schedules (rsv_db st1)) = sc_id ` set (schedules (rsv_db st))"
    unfolding d by (metis list.set_map map_sc_id_set_due)
  then have "\<exists>ps. rsv_planned st' = rsv_planned st1 @ ps \<and>
    (\<forall>item \<in> set ps. planned_from now xs (schedules (rsv_db st')) item) \<and> distinct (map pl_schedule_id ps)"
    using Cons.IH [OF rest] Cons.prems(2,3) by simp
  then obtain ps where ps: "rsv_planned st' = rsv_planned st1 @ ps"
    "\<forall>item \<in> set ps. planned_from now xs (schedules (rsv_db st')) item" "distinct (map pl_schedule_id ps)" by blast
  have ps': "\<forall>item \<in> set ps. planned_from now (sw # xs) (schedules (rsv_db st')) item"
    using ps(2) by (auto intro: planned_from_mono)
  from one [unfolded sw] show ?case
  proof (cases rule: reserve_oneE)
    case (capped due)
    with ps ps' show ?thesis by auto
  next
    case (known due spec)
    with ps ps' show ?thesis by auto
  next
    case (fresh due spec)
    define item where "item = \<lparr>pl_spec = spec, pl_schedule_id = Some (sc_id s),
         pl_previous_due = Some (sc_next_due_at s), pl_posed_due = Some due\<rparr>"
    have "s\<lparr>sc_next_due_at := due\<rparr> \<in> set (schedules (rsv_db st1))"
      using set_due_same [OF s_id, of due] fresh(5) by simp
    then have "s\<lparr>sc_next_due_at := due\<rparr> \<in> set (schedules (rsv_db st'))"
      using reserve_all_other [OF rest] Cons.prems(2) sw by auto
    with fresh(1,2) next_slot_of_bounds [OF fresh(1)] have "planned_from now (sw # xs) (schedules (rsv_db st')) item"
      unfolding planned_from_def item_def sw by auto
    moreover have "Some (sc_id s) \<notin> pl_schedule_id ` set ps"
    proof
      assume "Some (sc_id s) \<in> pl_schedule_id ` set ps"
      then obtain p where p: "p \<in> set ps" "pl_schedule_id p = Some (sc_id s)" by auto
      with ps(2) obtain s' w' where "(s', w') \<in> set xs" "pl_schedule_id p = Some (sc_id s')"
        by (auto simp: planned_from_def)
      with p(2) have "sc_id s \<in> (sc_id \<circ> fst) ` set xs" by force
      with Cons.prems(2) sw show False by simp
    qed
    moreover have "rsv_planned st' = rsv_planned st @ (item # ps)" using fresh(6) ps(1) by (simp add: item_def)
    moreover have "pl_schedule_id item = Some (sc_id s)" by (simp add: item_def)
    ultimately show ?thesis using ps(3) ps' by (intro exI [of _ "item # ps"]) simp
  qed
qed

section \<open>Deposits\<close>

lemma dispatch_accounts:
  assumes "dispatch enqueue items q db = (q', db', n, failed)"
  shows "n + length failed = length items \<and> subseq failed items"
  using assms
proof (induction items arbitrary: q db q' db' n failed)
  case Nil
  then show ?case by simp
next
  case (Cons item items)
  obtain q1 db1 ok where one: "deposit enqueue item q db = (q1, db1, ok)" by (metis prod_cases3)
  obtain q2 db2 n2 f2 where rest: "dispatch enqueue items q1 db1 = (q2, db2, n2, f2)" by (metis prod_cases4)
  from Cons.IH [OF rest] Cons.prems one rest show ?case by (auto split: if_splits)
qed

context task_queue
begin

lemma deposit_keeps: "keeps db \<Longrightarrow> deposit enqueue item q db = (q', db', ok) \<Longrightarrow> keeps db'"
  by (auto simp: deposit_def Let_def split: sum.splits prod.splits dest: enqueue_keeps)

lemma dispatch_keeps:
  assumes "keeps db" "dispatch enqueue items q db = (q', db', n, failed)"
  shows "keeps db'"
  using assms
proof (induction items arbitrary: q db q' db' n failed)
  case Nil
  then show ?case by simp
next
  case (Cons item items)
  obtain q1 db1 ok where one: "deposit enqueue item q db = (q1, db1, ok)" by (metis prod_cases3)
  obtain q2 db2 n2 f2 where rest: "dispatch enqueue items q1 db1 = (q2, db2, n2, f2)" by (metis prod_cases4)
  from Cons.IH [OF deposit_keeps [OF Cons.prems(1) one] rest] Cons.prems(2) one rest show ?case by simp
qed

end

lemma cloud_dispatch_db: "dispatch (cloud_enqueue c post token) items q db = (q', db', n, failed) \<Longrightarrow> db' = db"
  by (rule cloud_queue.dispatch_keeps [where keeps = "\<lambda>d. d = db", OF refl])

section \<open>Restoration\<close>

lemma restore_due_frame [simp]:
  "job_runs (restore_due item db) = job_runs db" "websites (restore_due item db) = websites db"
  by (simp_all add: restore_due_def split: option.splits)

lemma mark_frame [simp]:
  "schedules (mark_enqueue_failed now k db) = schedules db" "websites (mark_enqueue_failed now k db) = websites db"
  by (simp_all add: mark_enqueue_failed_def)

definition failed_deposit :: "datetime \<Rightarrow> job_run \<Rightarrow> job_run" where
  "failed_deposit now r = r\<lparr>jr_status := Failed, jr_error_code := Some ''enqueue_failed'',
     jr_recoverable := Some True, jr_finished_at := Some now\<rparr>"

lemma mark_runs: "job_runs (mark_enqueue_failed now k db) =
    update_rows (\<lambda>r. jr_key r = k \<and> jr_status r = Queued) (failed_deposit now) (job_runs db)"
  by (simp add: mark_enqueue_failed_def failed_deposit_def [abs_def])

lemma failed_deposit_sel [simp]:
  "jr_key (failed_deposit now r) = jr_key r" "jr_id (failed_deposit now r) = jr_id r"
  "jr_status (failed_deposit now r) = Failed" "jr_error_code (failed_deposit now r) = Some ''enqueue_failed''"
  by (simp_all add: failed_deposit_def)

lemma tick_restore_runs:
  "job_runs (tick_restore now items db) =
    update_rows (\<lambda>r. jr_key r \<in> (\<lambda>p. rs_key (pl_spec p)) ` set items \<and> jr_status r = Queued) (failed_deposit now) (job_runs db)"
proof (induction items arbitrary: db)
  case Nil
  then show ?case by (simp add: tick_restore_def update_rows_def)
next
  case (Cons item items)
  then have "job_runs (tick_restore now (item # items) db) =
      update_rows (\<lambda>r. jr_key r \<in> (\<lambda>p. rs_key (pl_spec p)) ` set items \<and> jr_status r = Queued) (failed_deposit now)
        (update_rows (\<lambda>r. jr_key r = rs_key (pl_spec item) \<and> jr_status r = Queued) (failed_deposit now) (job_runs db))"
    by (simp add: tick_restore_def restore_one_def mark_runs)
  then show ?case by (auto simp: update_rows_def)
qed

text \<open>A due date is restored by its own item, and left alone by the others.\<close>

lemma restore_due_other:
  assumes "x \<in> set (schedules db)" "pl_schedule_id item \<noteq> Some (sc_id x) \<or> pl_posed_due item \<noteq> Some (sc_next_due_at x)"
  shows "x \<in> set (schedules (restore_due item db))"
  using assms by (auto simp: restore_due_def update_rows_def intro!: image_eqI [of x _ x] split: option.splits)

lemma restore_due_own:
  assumes "s\<lparr>sc_next_due_at := due\<rparr> \<in> set (schedules db)"
    "pl_schedule_id item = Some (sc_id s)" "pl_posed_due item = Some due" "pl_previous_due item = Some prev"
  shows "s\<lparr>sc_next_due_at := prev\<rparr> \<in> set (schedules (restore_due item db))"
  using assms
  by (auto simp: restore_due_def update_rows_def intro!: image_eqI [of _ _ "s\<lparr>sc_next_due_at := due\<rparr>"])

lemma tick_restore_other:
  assumes "x \<in> set (schedules db)" "Some (sc_id x) \<notin> pl_schedule_id ` set items"
  shows "x \<in> set (schedules (tick_restore now items db))"
  using assms
proof (induction items arbitrary: db)
  case Nil
  then show ?case by (simp add: tick_restore_def)
next
  case (Cons item items)
  then have "pl_schedule_id item \<noteq> Some (sc_id x)" by force
  with Cons.prems(1) have "x \<in> set (schedules (restore_one now item db))"
    by (simp add: restore_one_def restore_due_other)
  from Cons.IH [OF this] Cons.prems(2) show ?case by (simp add: tick_restore_def)
qed

lemma tick_restore_own:
  assumes "s\<lparr>sc_next_due_at := due\<rparr> \<in> set (schedules db)" "item \<in> set items"
    "pl_schedule_id item = Some (sc_id s)" "pl_posed_due item = Some due" "pl_previous_due item = Some prev"
    "distinct (map pl_schedule_id items)"
  shows "s\<lparr>sc_next_due_at := prev\<rparr> \<in> set (schedules (tick_restore now items db))"
  using assms
proof (induction items arbitrary: db)
  case Nil
  then show ?case by simp
next
  case (Cons i items)
  show ?case
  proof (cases "i = item")
    case True
    have "s\<lparr>sc_next_due_at := prev\<rparr> \<in> set (schedules (restore_one now i db))"
      using restore_due_own [OF Cons.prems(1)] Cons.prems(3-5) True by (simp add: restore_one_def)
    moreover have "Some (sc_id (s\<lparr>sc_next_due_at := prev\<rparr>)) \<notin> pl_schedule_id ` set items"
      using Cons.prems(3,6) True by auto
    ultimately have "s\<lparr>sc_next_due_at := prev\<rparr> \<in> set (schedules (tick_restore now items (restore_one now i db)))"
      by (rule tick_restore_other)
    then show ?thesis by (simp add: tick_restore_def)
  next
    case False
    then have item: "item \<in> set items" using Cons.prems(2) by simp
    with Cons.prems(3,6) have "pl_schedule_id i \<noteq> Some (sc_id s)" by force
    then have "s\<lparr>sc_next_due_at := due\<rparr> \<in> set (schedules (restore_one now i db))"
      using restore_due_other [OF Cons.prems(1)] by (simp add: restore_one_def)
    from Cons.IH [OF this item] Cons.prems(3-6) show ?thesis by (simp add: tick_restore_def)
  qed
qed

section \<open>Default schedules\<close>

lemma insert_schedule_frame [simp]:
  "job_runs (insert_schedule s db) = job_runs db" "websites (insert_schedule s db) = websites db"
  by (simp_all add: insert_schedule_def)

lemma schedule_of_insert: "schedule_of (insert_schedule s db) site kind =
    (case schedule_of db site kind of Some x \<Rightarrow> Some x
     | None \<Rightarrow> if sc_site_kind s = (site, kind) then Some s else None)"
proof -
  have "List.find (\<lambda>x. sc_site_kind x = (site, kind)) (schedules db) \<noteq> None"
    if "sc_site_kind s \<in> sc_site_kind ` set (schedules db)" "sc_site_kind s = (site, kind)"
    using that by (auto simp: find_None_iff)
  then show ?thesis
    by (auto simp: schedule_of_def insert_schedule_def insert_new_def find_row_def find_snoc split: option.splits)
qed

lemma default_schedule_key [simp]:
  "sc_site_kind (default_schedule i w k now) = (ws_id w, tk_name k)" "sc_id (default_schedule i w k now) = i"
  by (simp_all add: default_schedule_def sc_site_kind_def)

lemma fold_insert_schedule:
  "schedule_of (fold (\<lambda>w. insert_schedule (default_schedule (g (ws_id w)) w k now)) ws db) site kind =
    (case schedule_of db site kind of Some x \<Rightarrow> Some x
     | None \<Rightarrow> if kind = tk_name k
         then map_option (\<lambda>w. default_schedule (g site) w k now) (List.find (\<lambda>w. ws_id w = site) ws) else None)"
  by (induction ws arbitrary: db) (auto simp: schedule_of_insert split: option.splits)

lemma fold_insert_frame [simp]:
  "job_runs (fold (\<lambda>w. insert_schedule (f w)) ws db) = job_runs db"
  "websites (fold (\<lambda>w. insert_schedule (f w)) ws db) = websites db"
  by (induction ws arbitrary: db) simp_all

lemma materialize_kind_frame [simp]:
  "job_runs (materialize_kind gen now k db) = job_runs db" "websites (materialize_kind gen now k db) = websites db"
  by (simp_all add: materialize_kind_def)

lemma fold_materialize_frame [simp]:
  "job_runs (fold (materialize_kind gen now) ks db) = job_runs db"
  "websites (fold (materialize_kind gen now) ks db) = websites db"
  by (induction ks arbitrary: db) simp_all

lemma materialize_frame [simp]:
  "job_runs (fst (materialize_default_schedules gen now db)) = job_runs db"
  "websites (fst (materialize_default_schedules gen now db)) = websites db"
  by (simp_all add: materialize_default_schedules_def Let_def)

lemma active_websites_cong: "websites d = websites d' \<Longrightarrow> active_websites d = active_websites d'"
  by (simp add: active_websites_def)

lemma fold_materialize:
  "schedule_of (fold (materialize_kind gen now) ks db) site kind =
    (case schedule_of db site kind of Some x \<Rightarrow> Some x
     | None \<Rightarrow> (case (List.find (\<lambda>w. ws_id w = site) (active_websites db), List.find (\<lambda>k. tk_name k = kind) ks) of
          (Some w, Some k) \<Rightarrow> Some (default_schedule (gen kind site) w k now)
        | _ \<Rightarrow> None))"
proof (induction ks arbitrary: db)
  case Nil
  then show ?case by (simp split: option.splits)
next
  case (Cons k ks)
  have act: "active_websites (materialize_kind gen now k db) = active_websites db"
    by (rule active_websites_cong) simp
  have one: "schedule_of (materialize_kind gen now k db) site kind =
    (case schedule_of db site kind of Some x \<Rightarrow> Some x
     | None \<Rightarrow> if kind = tk_name k
         then map_option (\<lambda>w. default_schedule (gen kind site) w k now) (List.find (\<lambda>w. ws_id w = site) (active_websites db)) else None)"
    using fold_insert_schedule [of "gen (tk_name k)" k now "active_websites db" db site kind]
    by (auto simp: materialize_kind_def split: option.splits)
  show ?case
    by (simp add: Cons.IH act one split: option.splits)
qed

text \<open>Identifiers drawn for new schedules: distinct, and not in use.\<close>

definition schedule_draws :: "website list \<Rightarrow> (string \<times> uuid) set" where
  "schedule_draws ws = (tk_name ` set SCHEDULABLE_KINDS) \<times> (ws_id ` set ws)"

definition fresh_schedule_ids :: "(string \<Rightarrow> uuid \<Rightarrow> uuid) \<Rightarrow> 'a jobs_db_scheme \<Rightarrow> bool" where
  "fresh_schedule_ids gen db = (inj_on (\<lambda>(k, w). gen k w) (schedule_draws (websites db)) \<and>
     (\<forall>(k, w) \<in> schedule_draws (websites db). gen k w \<notin> sc_id ` set (schedules db)))"

definition draws_inv :: "(string \<Rightarrow> uuid \<Rightarrow> uuid) \<Rightarrow> (string \<times> uuid) set \<Rightarrow> 'a jobs_db_scheme \<Rightarrow> bool" where
  "draws_inv gen D db = (jobs_wf db \<and> (\<forall>k w. (k, w) \<in> D \<longrightarrow> gen k w \<in> sc_id ` set (schedules db) \<longrightarrow>
     (w, k) \<in> sc_site_kind ` set (schedules db)))"

lemma draws_inv_insert:
  assumes "draws_inv gen D db" "inj_on (\<lambda>(k, w). gen k w) D" "(tk_name k, ws_id w) \<in> D"
  shows "draws_inv gen D (insert_schedule (default_schedule (gen (tk_name k) (ws_id w)) w k now) db)"
proof (cases "(ws_id w, tk_name k) \<in> sc_site_kind ` set (schedules db)")
  case True
  then have "insert_schedule (default_schedule (gen (tk_name k) (ws_id w)) w k now) db = db"
    by (simp add: insert_schedule_def insert_new_def)
  with assms(1) show ?thesis by simp
next
  case False
  define s where "s = default_schedule (gen (tk_name k) (ws_id w)) w k now"
  have rows: "schedules (insert_schedule s db) = schedules db @ [s]"
    using False by (simp add: insert_schedule_def insert_new_def s_def)
  have new: "sc_id s \<notin> sc_id ` set (schedules db)"
    using assms(1,3) False by (auto simp: draws_inv_def s_def)
  have wf: "jobs_wf (insert_schedule s db)"
    using assms(1) new False by (simp add: jobs_wf_def draws_inv_def rows uniq_by_snoc) (simp add: s_def)
  have "(w', k') \<in> sc_site_kind ` set (schedules (insert_schedule s db))"
    if "(k', w') \<in> D" "gen k' w' \<in> sc_id ` set (schedules (insert_schedule s db))" for k' w'
  proof (cases "gen k' w' = gen (tk_name k) (ws_id w)")
    case True
    with inj_onD [OF assms(2) _ that(1) assms(3)] have "(k', w') = (tk_name k, ws_id w)" by simp
    then show ?thesis by (simp add: rows) (simp add: s_def)
  next
    case other: False
    moreover have "sc_id s = gen (tk_name k) (ws_id w)" by (simp add: s_def)
    ultimately show ?thesis using that assms(1) by (auto simp: rows draws_inv_def)
  qed
  with wf show ?thesis unfolding s_def [symmetric] draws_inv_def by blast
qed

lemma fold_inv: "P d \<Longrightarrow> (\<And>x d. x \<in> set xs \<Longrightarrow> P d \<Longrightarrow> P (f x d)) \<Longrightarrow> P (fold f xs d)"
  by (induction xs arbitrary: d) auto

lemma jobs_wf_materialize:
  assumes "jobs_wf db" "fresh_schedule_ids gen db"
  shows "jobs_wf (fst (materialize_default_schedules gen now db))"
proof -
  define D where "D = schedule_draws (websites db)"
  have inj: "inj_on (\<lambda>(k, w). gen k w) D" using assms(2) by (simp add: fresh_schedule_ids_def D_def)
  have "draws_inv gen D (fold (materialize_kind gen now) SCHEDULABLE_KINDS db) \<and>
      websites (fold (materialize_kind gen now) SCHEDULABLE_KINDS db) = websites db"
  proof (rule fold_inv [where P = "\<lambda>d. draws_inv gen D d \<and> websites d = websites db"])
    show "draws_inv gen D db \<and> websites db = websites db"
      using assms by (auto simp: draws_inv_def fresh_schedule_ids_def D_def)
  next
    fix k d
    assume k: "k \<in> set SCHEDULABLE_KINDS" and d: "draws_inv gen D d \<and> websites d = websites db"
    have "draws_inv gen D (fold (\<lambda>w. insert_schedule (default_schedule (gen (tk_name k) (ws_id w)) w k now)) (active_websites d) d)"
    proof (rule fold_inv)
      fix w d'
      assume "w \<in> set (active_websites d)" "draws_inv gen D d'"
      moreover from this d k have "(tk_name k, ws_id w) \<in> D"
        by (auto simp: D_def schedule_draws_def active_websites_def)
      ultimately show "draws_inv gen D (insert_schedule (default_schedule (gen (tk_name k) (ws_id w)) w k now) d')"
        using inj by (intro draws_inv_insert) auto
    qed (use d in blast)
    with d show "draws_inv gen D (materialize_kind gen now k d) \<and> websites (materialize_kind gen now k d) = websites db"
      by (simp add: materialize_kind_def [symmetric])
  qed
  then show ?thesis by (simp add: materialize_default_schedules_def Let_def draws_inv_def)
qed

section \<open>The invariant of the runs through a pass\<close>

text \<open>Identifiers drawn for new runs: distinct, and not in use, on the keys the pass may insert.\<close>

definition pass_keys :: "datetime \<Rightarrow> (schedule \<times> website) list \<Rightarrow> string set" where
  "pass_keys now xs = insert (rs_key (maintenance_spec now))
     {rs_key spec | spec s w. (s, w) \<in> set xs \<and> plan_run s w now = Inr spec}"

definition fresh_run_ids :: "(string \<Rightarrow> uuid) \<Rightarrow> string set \<Rightarrow> 'a jobs_db_scheme \<Rightarrow> bool" where
  "fresh_run_ids uuid4 K db = (inj_on uuid4 K \<and> (\<forall>k \<in> K. uuid4 k \<notin> jr_id ` set (job_runs db)))"

definition keyed_draws :: "(string \<Rightarrow> uuid) \<Rightarrow> string set \<Rightarrow> 'a jobs_db_scheme \<Rightarrow> bool" where
  "keyed_draws uuid4 K db = (\<forall>k \<in> K. uuid4 k \<in> jr_id ` set (job_runs db) \<longrightarrow> k \<in> jr_key ` set (job_runs db))"

lemma image_update_rows: "(\<And>r. key (f r) = key r) \<Longrightarrow> key ` set (update_rows P f rows) = key ` set rows"
  by (metis list.set_map map_update_rows)

lemma insert_queued_ids:
  "jr_id ` set (job_runs (fst (insert_queued i spec t m db))) =
    (if rs_key spec \<in> jr_key ` set (job_runs db) then jr_id ` set (job_runs db) else insert i (jr_id ` set (job_runs db)))"
  "jr_key ` set (job_runs (fst (insert_queued i spec t m db))) = insert (rs_key spec) (jr_key ` set (job_runs db))"
proof -
  show "jr_id ` set (job_runs (fst (insert_queued i spec t m db))) =
    (if rs_key spec \<in> jr_key ` set (job_runs db) then jr_id ` set (job_runs db) else insert i (jr_id ` set (job_runs db)))"
    by (simp add: insert_queued_def Let_def image_update_rows) (simp add: queued_row_def)
  show "jr_key ` set (job_runs (fst (insert_queued i spec t m db))) = insert (rs_key spec) (jr_key ` set (job_runs db))"
    by (simp add: insert_queued_def Let_def image_update_rows insert_absorb) (simp add: queued_row_def)
qed

lemma insert_queued_step:
  assumes "runs_inv L (now, db)" "keyed_draws uuid4 K db" "inj_on uuid4 K" "rs_key spec \<in> K" "0 \<le> m"
  shows "runs_inv L (now, fst (insert_queued (uuid4 (rs_key spec)) spec t m db)) \<and>
    keyed_draws uuid4 K (fst (insert_queued (uuid4 (rs_key spec)) spec t m db))"
proof
  show "runs_inv L (now, fst (insert_queued (uuid4 (rs_key spec)) spec t m db))"
    using assms by (intro runs_inv_insert_queued) (auto simp: keyed_draws_def)
  show "keyed_draws uuid4 K (fst (insert_queued (uuid4 (rs_key spec)) spec t m db))"
    unfolding keyed_draws_def insert_queued_ids
    using assms(2,3,4) by (auto simp: keyed_draws_def dest: inj_onD)
qed

lemma set_due_keeps:
  assumes "runs_inv L (now, db)" "s \<in> set (schedules db0)" "map sc_id (schedules db) = map sc_id (schedules db0)"
    "map sc_site_kind (schedules db) = map sc_site_kind (schedules db0)" "uniq_by sc_id (schedules db0)"
  shows "runs_inv L (now, set_due s due db) \<and>
    map sc_site_kind (schedules (set_due s due db)) = map sc_site_kind (schedules db0)"
proof -
  have len: "length (schedules db) = length (schedules db0)" using assms(3) by (metis length_map)
  have "map sc_site_kind (schedules (set_due s due db)) = map sc_site_kind (schedules db0)"
  proof (rule nth_equalityI)
    fix i
    assume "i < length (map sc_site_kind (schedules (set_due s due db)))"
    then have i: "i < length (schedules db)" by (simp add: set_due_def save_schedule_def update_rows_def)
    have id: "sc_id (schedules db ! i) = sc_id (schedules db0 ! i)"
      using assms(3) i len by (metis nth_map)
    have sk: "sc_site_kind (schedules db ! i) = sc_site_kind (schedules db0 ! i)"
      using assms(4) i len by (metis nth_map)
    have "schedules db0 ! i = s" if "sc_id (schedules db0 ! i) = sc_id s"
      using uniq_by_inj [OF assms(5) _ assms(2) that] i len by simp
    with i id sk len show "map sc_site_kind (schedules (set_due s due db)) ! i = map sc_site_kind (schedules db0) ! i"
      by (auto simp: set_due_def save_schedule_def update_rows_def sc_site_kind_def)
  qed (simp add: set_due_def save_schedule_def update_rows_def len)
  moreover have "uniq_by sc_site_kind (schedules db0)" using assms(1,4) by (simp add: runs_inv_def jobs_wf_def uniq_by_def)
  ultimately show ?thesis
    using assms(1) by (simp add: runs_inv_def jobs_wf_def runs_ok_def within_limit_def uniq_by_def)
qed

lemma tick_reserve_keeps:
  assumes "tick_reserve uuid4 now batch cap m got_lock locked db = Inr st" "runs_inv L (now, db)" "0 \<le> m"
    "fresh_run_ids uuid4 (pass_keys now (due_schedules now batch locked db)) db"
  shows "runs_inv L (now, rsv_db st)"
proof (cases got_lock)
  case False
  with assms show ?thesis by (auto simp: tick_reserve_def start_reservation_def)
next
  case True
  define xs where "xs = due_schedules now batch locked db"
  define K where "K = pass_keys now xs"
  have inj: "inj_on uuid4 K" using assms(4) by (simp add: fresh_run_ids_def K_def xs_def)
  define P where "P = (\<lambda>st :: 'a jobs_db_scheme reservation. runs_inv L (now, rsv_db st) \<and>
    keyed_draws uuid4 K (rsv_db st) \<and> map sc_id (schedules (rsv_db st)) = map sc_id (schedules db) \<and>
    map sc_site_kind (schedules (rsv_db st)) = map sc_site_kind (schedules db))"
  have uniq: "uniq_by sc_id (schedules db)" using assms(2) by (simp add: runs_inv_def jobs_wf_def)
  have "tick_reserve uuid4 now batch cap m True locked db = Inr st" using assms(1) True by simp
  then show ?thesis
  proof (rule tick_reserveE)
    fix st0
    assume all: "reserve_all uuid4 now cap m (due_schedules now batch locked db) (start_reservation db) = Inr st0"
      and db: "rsv_db st = fst (insert_queued (uuid4 (rs_key (maintenance_spec now))) (maintenance_spec now) now m (rsv_db st0))"
    have "P st0"
    proof (rule reserve_all_inv [OF all])
      show "P (start_reservation db)"
        using assms(2,4) by (auto simp: P_def start_reservation_def fresh_run_ids_def keyed_draws_def K_def xs_def)
    next
      fix s w st1 st2
      assume sw: "(s, w) \<in> set (due_schedules now batch locked db)" and inv: "P st1"
        and one: "reserve_one uuid4 now cap m (s, w) st1 = Inr st2"
      from sw set_due_schedules have s: "s \<in> set (schedules db)" unfolding set_candidates by blast
      have due: "runs_inv L (now, set_due s d (rsv_db st1)) \<and>
          map sc_site_kind (schedules (set_due s d (rsv_db st1))) = map sc_site_kind (schedules db)" for d
        using inv s uniq by (intro set_due_keeps) (simp_all add: P_def)
      have draws: "keyed_draws uuid4 K (set_due s d (rsv_db st1))" for d
        using inv by (simp add: P_def keyed_draws_def)
      from one show "P st2"
      proof (cases rule: reserve_oneE)
        case (capped d)
        with due draws inv show ?thesis by (simp add: P_def)
      next
        case (known d spec)
        have "rsv_db st2 = set_due s d (rsv_db st1)" using known(4,5) insert_queued_known by metis
        with due draws inv show ?thesis by (simp add: P_def)
      next
        case (fresh d spec)
        have "rs_key spec \<in> K" using sw fresh(2) by (auto simp: K_def xs_def pass_keys_def)
        from insert_queued_step [OF conjunct1 [OF due] draws inj this assms(3)] fresh(5) due inv
        show ?thesis by (simp add: P_def)
      qed
    qed
    then have "runs_inv L (now, rsv_db st0)" "keyed_draws uuid4 K (rsv_db st0)" by (simp_all add: P_def)
    moreover have "rs_key (maintenance_spec now) \<in> K" by (simp add: K_def pass_keys_def)
    ultimately show ?thesis using insert_queued_step inj assms(3) db by metis
  qed
qed

lemma restore_due_wf: "jobs_wf db \<Longrightarrow> jobs_wf (restore_due item db)"
  by (auto simp: restore_due_def jobs_wf_def sc_site_kind_def split: option.splits intro!: uniq_by_update_rows)

lemma runs_inv_restore:
  assumes "runs_inv L (t, db)"
  shows "runs_inv L (t, tick_restore now items db)"
  unfolding tick_restore_def
proof (rule fold_inv [where P = "\<lambda>d. runs_inv L (t, d)"])
  fix item d
  assume "runs_inv L (t, d)"
  then have "runs_inv L (t, restore_due item d)"
    by (simp add: runs_inv_def restore_due_wf runs_ok_def within_limit_def)
  then show "runs_inv L (t, restore_one now item d)"
    unfolding restore_one_def by (rule runs_inv_mark_failed)
qed (rule assms)

section \<open>The queue of a pass\<close>

text \<open>The first transaction of a pass.\<close>

definition phase_one :: "(string \<Rightarrow> uuid \<Rightarrow> uuid) \<Rightarrow> datetime \<Rightarrow> 'a jobs_db_scheme \<Rightarrow> 'a jobs_db_scheme" where
  "phase_one gen now db = fst (expire_stuck_running now STUCK_RUNNING_SWEEP_AFTER
     (fst (expire_stale_queued now STALE_QUEUED_AFTER (fst (materialize_default_schedules gen now db)))))"

lemma tick_phases:
  "tick gen uuid4 enqueue now batch cap m got_lock locked q db =
    (case tick_reserve uuid4 now batch cap m got_lock locked (phase_one gen now db) of
       Inl e \<Rightarrow> (q, phase_one gen now db, Inl e)
     | Inr st \<Rightarrow> (let (q', db4, enqueued, failed) = dispatch enqueue (rsv_planned st) q (rsv_db st) in
         (q', tick_restore now failed db4,
          Inr \<lparr>tr_materialized = snd (materialize_default_schedules gen now db), tr_enqueued = enqueued,
            tr_capped = rsv_capped st, tr_failed_enqueue = length failed,
            tr_expired_queued = snd (expire_stale_queued now STALE_QUEUED_AFTER
              (fst (materialize_default_schedules gen now db)))\<rparr>)))"
  unfolding tick_def phase_one_def Let_def case_prod_beta by simp

lemma phase_one_keeps:
  assumes "runs_inv L (now, db)" "fresh_schedule_ids gen db"
  shows "runs_inv L (now, phase_one gen now db)"
proof -
  have "runs_inv L (now, fst (materialize_default_schedules gen now db))"
    using assms jobs_wf_materialize [of db gen now] by (simp add: runs_inv_def runs_ok_def within_limit_def)
  then show ?thesis unfolding phase_one_def
    by (intro runs_inv_expire_running runs_inv_expire_queued)
qed

text \<open>
  A queue that keeps the invariant of the runs at an instant \<open>t\<close> not before the pass: the contract
  \<open>task_queue\<close> on the invariant the pass needs.
\<close>

locale pass_queue = task_queue enqueue "\<lambda>db. limits_ok L \<and> runs_inv L (t, db)"
  for enqueue :: "task_message \<Rightarrow> 'q \<Rightarrow> 'a jobs_db_scheme \<Rightarrow> 'q \<times> 'a jobs_db_scheme \<times> enqueue_outcome"
    and L :: job_limits and t :: datetime
begin

lemma tick_keeps_runs:
  assumes "tick gen uuid4 enqueue now batch cap (lim_max_attempts L) got_lock locked q db = (q', db', res)"
    "runs_inv L (now, db)" "now \<le> t" "fresh_schedule_ids gen db" "limits_ok L"
    "fresh_run_ids uuid4 (pass_keys now (due_schedules now batch locked (phase_one gen now db))) (phase_one gen now db)"
  shows "runs_inv L (t, db')"
proof -
  have inv3: "runs_inv L (now, phase_one gen now db)" by (rule phase_one_keeps [OF assms(2,4)])
  have m: "0 \<le> lim_max_attempts L" using assms(5) by (simp add: limits_ok_def)
  show ?thesis
  proof (cases "tick_reserve uuid4 now batch cap (lim_max_attempts L) got_lock locked (phase_one gen now db)")
    case (Inl e)
    with assms(1) inv3 assms(3) show ?thesis by (simp add: tick_phases runs_inv_later)
  next
    case (Inr st)
    have "runs_inv L (now, rsv_db st)" by (rule tick_reserve_keeps [OF Inr inv3 m assms(6)])
    then have inv: "limits_ok L \<and> runs_inv L (t, rsv_db st)" using assms(3,5) by (simp add: runs_inv_later)
    obtain q4 db4 n failed where d: "dispatch enqueue (rsv_planned st) q (rsv_db st) = (q4, db4, n, failed)"
      by (metis prod_cases4)
    from dispatch_keeps [OF inv d] have "runs_inv L (t, tick_restore now failed db4)" by (simp add: runs_inv_restore)
    with assms(1) Inr d show ?thesis by (simp add: tick_phases)
  qed
qed

end

text \<open>The inline queue, executing at the instants \<open>t0\<close> and \<open>t1\<close>; drawing an identifier in use raises.\<close>

definition execute_inline :: "('a jobs_db_scheme \<Rightarrow> uuid) \<Rightarrow> (string \<times> 'a jobs_db_scheme handler) list \<Rightarrow> job_limits \<Rightarrow>
    datetime \<Rightarrow> datetime \<Rightarrow> run_spec \<Rightarrow> 'a jobs_db_scheme \<Rightarrow> 'a jobs_db_scheme \<times> string option" where
  "execute_inline draw handlers L t0 t1 spec db =
    (if draw db \<in> jr_id ` set (job_runs db) then (db, Some ''IntegrityError'')
     else (fst (execute_run (draw db) spec handlers L t0 t1 db), None))"

context run_handlers
begin

lemma inline_keeps:
  assumes "limits_ok L \<and> runs_inv L (t0, db)"
    and "inline_enqueue (execute_inline draw handlers L t0 t1) m q db = (q', db', out)"
  shows "limits_ok L \<and> runs_inv L (t0, db')"
  using inline_enqueue_db [OF assms(2)] execute_run_keeps_inv [of L t0 db "draw db" "tm_spec m" t1] assms(1)
  by (auto simp: execute_inline_def)

sublocale inline_pass: pass_queue "inline_enqueue (execute_inline draw handlers L t0 t1)" L t0 for draw L t0 t1
  by unfold_locales (rule inline_keeps)

end

interpretation cloud_pass: pass_queue "cloud_enqueue c post token" L t for c post token L t
  by unfold_locales (auto dest: cloud_enqueue_db)

end
