(* ===== verification/Job_Pass_Props.thy ===== *)
theory Job_Pass_Props
  imports Job_Tick
begin

text \<open>
  The properties of a scheduler pass, and of the other writer of due dates (\<open>upsert_schedule\<close>),
  stated on the definitions of \<open>Job_Scheduler\<close>, with a one-site database on which each applies.
\<close>

section \<open>Reservations return\<close>

definition schedule_valid :: "schedule \<Rightarrow> bool" where
  "schedule_valid s = (case map_of KINDS (sc_kind s) of
      None \<Rightarrow> False
    | Some k \<Rightarrow> is_ok (effective_interval k (sc_frequency s)))"

lemma schedule_validE:
  assumes "schedule_valid s"
  obtains k i where "map_of KINDS (sc_kind s) = Some k" "effective_interval k (sc_frequency s) = Inr i"
  using assms by (auto simp: schedule_valid_def is_ok_iff split: option.splits)

lemma reserve_one_total:
  assumes "schedule_valid s"
  shows "\<exists>st'. reserve_one uuid4 now cap m (s, w) st = Inr st'"
proof -
  from assms obtain k i where ki: "map_of KINDS (sc_kind s) = Some k" "effective_interval k (sc_frequency s) = Inr i"
    by (rule schedule_validE)
  then show ?thesis
    by (auto simp: reserve_one_def Let_def next_slot_of_def plan_run_def dict_get_def split: prod.splits if_splits)
qed

lemma reserve_all_total:
  "(\<forall>(s, w) \<in> set xs. schedule_valid s) \<Longrightarrow> \<exists>st'. reserve_all uuid4 now cap m xs st = Inr st'"
proof (induction xs arbitrary: st)
  case Nil
  then show ?case by simp
next
  case (Cons sw xs)
  obtain s w where sw: "sw = (s, w)" by fastforce
  with Cons.prems obtain st1 where "reserve_one uuid4 now cap m sw st = Inr st1"
    using reserve_one_total [of s] by fastforce
  with Cons.IH [of st1] Cons.prems show ?case by simp
qed

lemma tick_reserve_total:
  assumes "\<forall>s \<in> set (schedules db). schedule_valid s"
  shows "\<exists>st. tick_reserve uuid4 now batch cap m got_lock locked db = Inr st"
proof -
  have "\<forall>(s, w) \<in> set (due_schedules now batch locked db). schedule_valid s"
    using assms set_due_schedules [of now batch locked db] set_candidates [of now locked db] by auto
  from reserve_all_total [OF this] obtain st0 where
    "reserve_all uuid4 now cap m (due_schedules now batch locked db) (start_reservation db) = Inr st0" by blast
  then show ?thesis by (auto simp: tick_reserve_def Let_def split: prod.splits)
qed

section \<open>A site with one due schedule\<close>

definition sample_site :: website where
  "sample_site = \<lparr>ws_id = 7, ws_workspace_id = 9, ws_domain = ''exemple.fr'',
     ws_display_name = [], ws_detected_stack = None, ws_stack_label = None, ws_allow_insecure_probe = False, ws_ssl_status = None, ws_ssl_expires_at = None,
     ws_ssl_checked_at = None, ws_archived_at = None\<rparr>"

definition sample_schedule :: schedule where
  "sample_schedule = \<lparr>sc_id = 3, sc_website_id = 7, sc_kind = ''collect_cwv'', sc_frequency = ''daily'',
     sc_enabled = True, sc_next_due_at = 0, sc_last_run_at = None, sc_last_status = None,
     sc_last_success_at = None, sc_failing_since = None, sc_last_error_code = None, sc_backfill_done_at = None\<rparr>"

definition due_db :: jobs_db where
  "due_db = \<lparr>job_runs = [], schedules = [sample_schedule], websites = [sample_site], quota_events = []\<rparr>"

definition nobody :: "uuid \<Rightarrow> bool" where "nobody i = False"

lemma due_db_wf [simp]: "jobs_wf due_db"
  by (simp add: jobs_wf_def due_db_def uniq_by_def)

lemma due_db_keyed [simp]: "runs_keyed due_db"
  by (simp add: runs_keyed_def due_db_def)

lemma sample_due: "(sample_schedule, sample_site) \<in> set (candidates 5 nobody due_db)"
  by (simp add: set_candidates due_db_def is_due_def sample_schedule_def sample_site_def nobody_def
      website_by_id_def find_row_def)

lemma sample_due_schedules: "due_schedules 5 10 nobody due_db = [(sample_schedule, sample_site)]"
  by (simp add: due_schedules_def due_db_def is_due_def sample_schedule_def sample_site_def nobody_def
      website_by_id_def find_row_def)

lemma sample_schedule_valid [simp]: "schedule_valid sample_schedule"
  by (simp add: schedule_valid_def sample_schedule_def KINDS_def effective_interval_def FREQUENCY_INTERVALS_def dict_get_def)

lemma sample_reserve: "\<exists>st. tick_reserve u 5 10 cap m True nobody due_db = Inr st"
  by (rule tick_reserve_total) (simp add: due_db_def)

lemma set_subseq: "subseq xs ys \<Longrightarrow> set xs \<subseteq> set ys"
  by (induction rule: list_emb.induct) auto

lemma distinct_subseq: "subseq xs ys \<Longrightarrow> distinct ys \<Longrightarrow> distinct xs"
proof (induction rule: list_emb.induct)
  case (list_emb_Cons2 x y xs ys)
  then show ?case using set_subseq [of xs ys] by auto
qed simp_all

section \<open>Properties\<close>

text \<open>
  The pass serves the oldest due dates first: a due schedule of an active site that is
  left out was left out because the batch is full, and every schedule taken is due no later.
\<close>

lemma due_schedules_oldest:
  assumes "s \<in> set (schedules db)" "is_due now locked s" "website_by_id db (sc_website_id s) = Some w"
    "ws_archived_at w = None" "(s, w) \<notin> set (due_schedules now n locked db)"
  shows "length (due_schedules now n locked db) = n \<and>
    (\<forall>(s', w') \<in> set (due_schedules now n locked db). is_due now locked s' \<and> sc_next_due_at s' \<le> sc_next_due_at s)"
proof -
  have "(s, w) \<in> set (candidates now locked db)" using assms(1-4) by (simp add: set_candidates)
  from due_schedules_oldest_lemma [OF this assms(5)] show ?thesis
    using set_due_schedules [of now n locked db] by (auto simp: set_candidates)
qed

lemma due_schedules_oldest_witness: "length (due_schedules 5 0 nobody due_db) = 0"
  using due_schedules_oldest [of sample_schedule due_db 5 nobody sample_site 0] sample_due
  by (simp add: set_candidates due_schedules_def)

text \<open>
  A schedule taken by a pass leaves the due set: afterwards its row has a due date after
  the pass and no later than its next slot, which is at most one effective interval away.
\<close>

lemma reserved_leave_due_set:
  assumes "tick_reserve uuid4 now batch cap m True locked db = Inr st" "jobs_wf db"
    "(s, w) \<in> set (due_schedules now batch locked db)"
  shows "\<exists>x \<in> set (schedules (rsv_db st)). sc_id x = sc_id s \<and> \<not> is_due now locked x \<and>
    (\<exists>k i. map_of KINDS (sc_kind s) = Some k \<and> effective_interval k (sc_frequency s) = Inr i \<and>
      sc_next_due_at x \<le> now + i)"
  using assms(1)
proof (rule tick_reserveE)
  fix st0
  assume all: "reserve_all uuid4 now cap m (due_schedules now batch locked db) (start_reservation db) = Inr st0"
    and db: "rsv_db st = fst (insert_queued (uuid4 (rs_key (maintenance_spec now))) (maintenance_spec now) now m (rsv_db st0))"
  note dist = due_schedules_distinct [OF assms(2), of now batch locked]
  have "s \<in> set (schedules db)" using assms(3) set_due_schedules [of now batch locked db] by (auto simp: set_candidates)
  then have "sc_id s \<in> set (map sc_id (schedules (rsv_db st0)))"
    unfolding schedule_ids_reserve_all [OF all] by (simp add: start_reservation_def)
  then obtain x where x: "x \<in> set (schedules (rsv_db st0))" "sc_id x = sc_id s" by auto
  have "sc_id x \<in> (sc_id \<circ> fst) ` set (due_schedules now batch locked db)" using assms(3) x(2) by force
  with reserve_all_moved [OF all dist x(1)] obtain s' w' where
    s': "(s', w') \<in> set (due_schedules now batch locked db)" "moved now s' x" by blast
  then have "sc_id s' = sc_id s" using x(2) by (auto simp: moved_def)
  with dist s'(1) assms(3) inj_onD [of "sc_id \<circ> fst" "set (due_schedules now batch locked db)" "(s', w')" "(s, w)"]
  have "s' = s" by (simp add: distinct_map)
  with s'(2) obtain due0 where "now < sc_next_due_at x" "sc_next_due_at x \<le> due0" "next_slot_of s now = Inr due0"
    by (auto simp: moved_def)
  with next_slot_of_bounds [of s now due0] x db show ?thesis
    by (force simp: is_due_def intro!: bexI [of _ x])
qed

lemma reserved_leave_due_set_witness:
  "\<exists>st. tick_reserve (\<lambda>_. 1) 5 10 300 3 True nobody due_db = Inr st \<and>
    (\<exists>x \<in> set (schedules (rsv_db st)). sc_id x = 3 \<and> \<not> is_due 5 nobody x)"
proof -
  obtain st where st: "tick_reserve (\<lambda>_. 1) 5 10 300 3 True nobody due_db = Inr st" using sample_reserve by blast
  have "(sample_schedule, sample_site) \<in> set (due_schedules 5 10 nobody due_db)" by (simp add: sample_due_schedules)
  from reserved_leave_due_set [OF st due_db_wf this] st show ?thesis
    by (auto simp: sample_schedule_def)
qed

text \<open>
  C6: The daily cap holds: after a pass no workspace has more runs of the day than
  the cap, unless it had them before the pass, in which case the pass added none.
\<close>

theorem daily_cap_holds:
  assumes "tick_reserve uuid4 now batch cap m True locked db = Inr st" "jobs_wf db" "runs_keyed db"
  shows "int (runs_today ws now (rsv_db st)) \<le> max cap (int (runs_today ws now db)) \<and> runs_keyed (rsv_db st)"
  using daily_cap_lemma [OF assms] by blast

theorem daily_cap_holds_witness:
  "\<exists>st. tick_reserve (\<lambda>_. 1) 5 10 0 3 True nobody due_db = Inr st \<and> runs_today 9 5 (rsv_db st) = 0"
proof -
  obtain st where st: "tick_reserve (\<lambda>_. 1) 5 10 0 3 True nobody due_db = Inr st" using sample_reserve by blast
  from daily_cap_holds [OF st due_db_wf due_db_keyed, of 9] st show ?thesis
    by (simp add: runs_today_def due_db_def table_simps)
qed

text \<open>
  C5: No planned run is lost between the reservation and the queue: with Cloud Tasks, whatever the service
  answers, each planned run is counted as deposited or as failed; a deposited one is queued, a failed
  one is closed with \<open>enqueue_failed\<close> and its schedule is due again.
\<close>

theorem deposits_settled:
  assumes "tick_reserve uuid4 now batch cap m True locked db = Inr st" "jobs_wf db"
    and "dispatch (cloud_enqueue c post token) (rsv_planned st) q (rsv_db st) = (q', db', n, failed)"
  shows "n + length failed = length (rsv_planned st) \<and>
    (\<forall>item \<in> set (rsv_planned st).
      if item \<in> set failed
      then (\<exists>r \<in> set (job_runs (tick_restore now failed db')). jr_key r = rs_key (pl_spec item) \<and> enqueue_failed_run r) \<and>
        (\<forall>sid. pl_schedule_id item = Some sid \<longrightarrow>
          (\<exists>x \<in> set (schedules (tick_restore now failed db')). sc_id x = sid \<and> is_due now locked x))
      else queued_for now (tick_restore now failed db') item)"
proof -
  note acc = dispatch_accounts [OF assms(3)]
  have db': "db' = rsv_db st" by (rule cloud_dispatch_db [OF assms(3)])
  have inv: "planned_inv now st" by (rule planned_are_queued [OF assms(1,2)])
  have sub: "set failed \<subseteq> set (rsv_planned st)" using acc by (simp add: set_subseq)
  from assms(1) obtain st0 where
    all: "reserve_all uuid4 now cap m (due_schedules now batch locked db) (start_reservation db) = Inr st0"
    and rdb: "rsv_db st = fst (insert_queued (uuid4 (rs_key (maintenance_spec now))) (maintenance_spec now) now m (rsv_db st0))"
    and pl: "rsv_planned st = rsv_planned st0 @
      (if snd (insert_queued (uuid4 (rs_key (maintenance_spec now))) (maintenance_spec now) now m (rsv_db st0))
       then [\<lparr>pl_spec = maintenance_spec now, pl_schedule_id = None, pl_previous_due = None, pl_posed_due = None\<rparr>]
       else [])" by (rule tick_reserveE)
  define xs where "xs = due_schedules now batch locked db"
  have dist: "distinct (map (sc_id \<circ> fst) xs)" unfolding xs_def by (rule due_schedules_distinct [OF assms(2)])
  have cand: "(s, w) \<in> set xs \<Longrightarrow> s \<in> set (schedules db) \<and> is_due now locked s" for s w
    using set_due_schedules [of now batch locked db] by (auto simp: set_candidates xs_def)
  then have "(sc_id \<circ> fst) ` set xs \<subseteq> sc_id ` set (schedules (rsv_db (start_reservation db)))"
    by (auto simp: start_reservation_def)
  from reserve_all_planned [OF all [folded xs_def] dist this]
  have from0: "\<forall>item \<in> set (rsv_planned st0). planned_from now xs (schedules (rsv_db st0)) item"
    "distinct (map pl_schedule_id (rsv_planned st0))" by (auto simp: start_reservation_def)
  have "None \<notin> pl_schedule_id ` set (rsv_planned st0)" using from0(1) by (fastforce simp: planned_from_def)
  with from0(2) have "distinct (map pl_schedule_id (rsv_planned st))" by (simp add: pl)
  moreover have "subseq (map pl_schedule_id failed) (map pl_schedule_id (rsv_planned st))" using acc by (simp add: subseq_map)
  ultimately have distf: "distinct (map pl_schedule_id failed)" using distinct_subseq by blast
  have settled: "if item \<in> set failed
      then (\<exists>r \<in> set (job_runs (tick_restore now failed db')). jr_key r = rs_key (pl_spec item) \<and> enqueue_failed_run r) \<and>
        (\<forall>sid. pl_schedule_id item = Some sid \<longrightarrow>
          (\<exists>x \<in> set (schedules (tick_restore now failed db')). sc_id x = sid \<and> is_due now locked x))
      else queued_for now (tick_restore now failed db') item" if item: "item \<in> set (rsv_planned st)" for item
  proof -
    from inv item obtain r where r: "r \<in> set (job_runs db')" "jr_key r = rs_key (pl_spec item)" "jr_status r = Queued"
      "jr_enqueued_at r = now" by (auto simp: planned_inv_def queued_for_def db')
    show ?thesis
    proof (cases "item \<in> set failed")
      case True
      have row: "failed_deposit now r \<in> set (job_runs (tick_restore now failed db'))"
        unfolding tick_restore_runs set_update_rows using r True by (intro image_eqI [of _ _ r]) auto
      have restored: "\<exists>x \<in> set (schedules (tick_restore now failed db')). sc_id x = sid \<and> is_due now locked x"
        if sid: "pl_schedule_id item = Some sid" for sid
      proof -
        have "item \<in> set (rsv_planned st0)" using item sid pl by (auto split: if_splits)
        with from0(1) sid obtain s w due where s: "(s, w) \<in> set xs" "sid = sc_id s"
          "pl_previous_due item = Some (sc_next_due_at s)" "pl_posed_due item = Some due"
          "s\<lparr>sc_next_due_at := due\<rparr> \<in> set (schedules db')"
          by (auto simp: planned_from_def db' rdb)
        from tick_restore_own [OF s(5) True _ s(4,3) distf] sid s(2)
        have "s\<lparr>sc_next_due_at := sc_next_due_at s\<rparr> \<in> set (schedules (tick_restore now failed db'))" by simp
        with cand [OF s(1)] s(2) show ?thesis by force
      qed
      have "jr_key (failed_deposit now r) = rs_key (pl_spec item) \<and> enqueue_failed_run (failed_deposit now r)"
        using r(2) by (simp add: enqueue_failed_run_def)
      with row have "\<exists>r \<in> set (job_runs (tick_restore now failed db')). jr_key r = rs_key (pl_spec item) \<and> enqueue_failed_run r"
        by blast
      with True restored show ?thesis by simp
    next
      case False
      have "rs_key (pl_spec item) \<notin> (\<lambda>p. rs_key (pl_spec p)) ` set failed"
      proof
        assume "rs_key (pl_spec item) \<in> (\<lambda>p. rs_key (pl_spec p)) ` set failed"
        then obtain p where "p \<in> set failed" "rs_key (pl_spec p) = rs_key (pl_spec item)" by auto
        with inv sub item have "p = item" by (auto simp: planned_inv_def distinct_map dest: inj_onD)
        with \<open>p \<in> set failed\<close> False show False by simp
      qed
      then have "r \<in> set (job_runs (tick_restore now failed db'))"
        unfolding tick_restore_runs set_update_rows using r by (intro image_eqI [of _ _ r]) auto
      with r False show ?thesis by (auto simp: queued_for_def)
    qed
  qed
  with acc show ?thesis by blast
qed

theorem deposits_settled_witness:
  "\<exists>st q' db' n failed. tick_reserve (\<lambda>_. 1) 5 10 300 3 True nobody due_db = Inr st \<and>
    dispatch (cloud_enqueue \<lparr>cc_project = ''p'', cc_location = ''l'', cc_prefix = ''x''\<rparr> (\<lambda>_ q. (q, Reply 200 False)) False)
      (rsv_planned st) () (rsv_db st) = (q', db', n, failed) \<and>
    n + length failed = length (rsv_planned st)"
proof -
  obtain st where st: "tick_reserve (\<lambda>_. 1) 5 10 300 3 True nobody due_db = Inr st" using sample_reserve by blast
  obtain q' db' n failed where
    d: "dispatch (cloud_enqueue \<lparr>cc_project = ''p'', cc_location = ''l'', cc_prefix = ''x''\<rparr> (\<lambda>_ q. (q, Reply 200 False)) False)
      (rsv_planned st) () (rsv_db st) = (q', db', n, failed)" by (metis prod_cases4)
  from deposits_settled [OF st due_db_wf d] st d show ?thesis by blast
qed

text \<open>
  C7: A pass of the scheduler on Cloud Tasks keeps the invariant of the runs (unique keys and
  identifiers, attempts within bounds, no workspace over its concurrency limit), whether it completes or
  raises on a schedule of unknown kind or frequency.
\<close>

theorem pass_keeps_runs:
  assumes "tick gen uuid4 (cloud_enqueue c post token) now batch cap (lim_max_attempts L) got_lock locked q db = (q', db', res)"
    "runs_inv L (now, db)" "now \<le> t" "fresh_schedule_ids gen db" "limits_ok L"
    "fresh_run_ids uuid4 (pass_keys now (due_schedules now batch locked (phase_one gen now db))) (phase_one gen now db)"
  shows "runs_inv L (t, db')"
  using assms by (rule cloud_pass.tick_keeps_runs)

lemma idle_phase_one: "phase_one gen now empty_jobs_db = empty_jobs_db"
  by (simp add: phase_one_def materialize_default_schedules_def Let_def expire_stale_queued_def expire_stuck_running_def
      empty_jobs_db_def update_rows_def fold_inv [where P = "\<lambda>d. d = empty_jobs_db", unfolded empty_jobs_db_def]
      materialize_kind_def active_websites_def)

theorem pass_keeps_runs_witness:
  "\<exists>q' db' res. tick (\<lambda>_ _. 1) (\<lambda>_. 1)
      (cloud_enqueue \<lparr>cc_project = ''p'', cc_location = ''l'', cc_prefix = ''x''\<rparr> (\<lambda>_ q. (q, Reply 200 False)) True)
      5 10 300 3 True nobody () empty_jobs_db = (q', db', res) \<and> runs_inv sample_limits (6, db')"
proof -
  obtain q' db' res where t: "tick (\<lambda>_ _. 1) (\<lambda>_. 1)
      (cloud_enqueue \<lparr>cc_project = ''p'', cc_location = ''l'', cc_prefix = ''x''\<rparr> (\<lambda>_ q. (q, Reply 200 False)) True)
      5 10 300 (lim_max_attempts sample_limits) True nobody () empty_jobs_db = (q', db', res)" by (metis prod_cases3)
  have inv: "runs_inv sample_limits (5, empty_jobs_db)"
    by (rule reachable_runs_inv) simp_all
  have s_ids: "fresh_schedule_ids (\<lambda>_ _. 1) empty_jobs_db"
    by (simp add: fresh_schedule_ids_def schedule_draws_def empty_jobs_db_def)
  have "due_schedules 5 10 nobody empty_jobs_db = []"
    by (simp add: due_schedules_def empty_jobs_db_def)
  then have r_ids: "fresh_run_ids (\<lambda>_. 1) (pass_keys 5 (due_schedules 5 10 nobody (phase_one (\<lambda>_ _. 1) 5 empty_jobs_db)))
      (phase_one (\<lambda>_ _. 1) 5 empty_jobs_db)"
    by (simp add: fresh_run_ids_def pass_keys_def idle_phase_one) (simp add: empty_jobs_db_def)
  from pass_keeps_runs [OF t inv _ s_ids sample_limits_ok r_ids, of 6] t
  show ?thesis by (simp add: sample_limits_def)
qed

text \<open>
  Default schedules: after the first step of a pass every active site has exactly the schedules
  it had, completed by a default one (due now) for each schedulable kind it lacked; archived sites get none.
\<close>

lemma materialize_exact:
  "schedule_of (fst (materialize_default_schedules gen now db)) site kind =
    (case schedule_of db site kind of
       Some s \<Rightarrow> Some s
     | None \<Rightarrow>
         (case (List.find (\<lambda>w. ws_id w = site) (active_websites db), List.find (\<lambda>k. tk_name k = kind) SCHEDULABLE_KINDS) of
            (Some w, Some k) \<Rightarrow> Some (default_schedule (gen kind site) w k now)
          | _ \<Rightarrow> None))"
  by (simp add: materialize_default_schedules_def Let_def fold_materialize)

section \<open>The owner's change\<close>

lemma schedule_of_save:
  assumes "jobs_wf db" "schedule_of db site kind = Some s" "sc_id s' = sc_id s" "sc_site_kind s' = sc_site_kind s"
  shows "schedule_of (save_schedule s' db) site kind = Some s'"
proof -
  have s: "s \<in> set (schedules db)" "sc_site_kind s = (site, kind)" using schedule_ofD [OF assms(2)] by auto
  have "s' \<in> set (schedules (save_schedule s' db))"
    using s(1) assms(3) by (auto simp: save_schedule_def table_simps intro!: image_eqI [of _ _ s])
  moreover have "uniq_by sc_site_kind (schedules (save_schedule s' db))"
    using jobs_wf_save_schedule [OF assms(1) s(1) assms(3,4)] by (simp add: jobs_wf_def)
  ultimately show ?thesis
    unfolding schedule_of_def by (intro find_row_key) (simp_all add: assms(4) s(2))
qed

lemma upsert_total:
  "effective_interval kind frequency = Inr i \<Longrightarrow>
    \<exists>db' s. upsert_schedule new_id site kind frequency enabled now db = Inr (db', s)"
  by (auto simp: upsert_schedule_def Let_def split: option.splits)

text \<open>
  Changing a schedule sets its frequency and its switch, never delays its next run, and brings it
  no closer than the new interval after the last run allows (never into the past): the next due date is the
  earlier of the current one and \<open>max (last run + interval) now\<close>. A new schedule is due at once.
\<close>

lemma upsert_schedule_due:
  assumes "jobs_wf db" "effective_interval kind frequency = Inr interval"
    and "upsert_schedule new_id site kind frequency enabled now db = Inr (db', s)"
  shows "schedule_of db' site (tk_name kind) = Some s \<and> sc_frequency s = frequency \<and> sc_enabled s = enabled \<and>
    sc_next_due_at s = (case schedule_of db site (tk_name kind) of
        None \<Rightarrow> now
      | Some old \<Rightarrow> (case sc_last_run_at old of
            None \<Rightarrow> sc_next_due_at old
          | Some last_run \<Rightarrow> min (sc_next_due_at old) (max (last_run + interval) now)))"
proof (cases "schedule_of db site (tk_name kind)")
  case None
  then show ?thesis
    using assms(3) by (auto simp: upsert_schedule_def Let_def schedule_of_insert sc_site_kind_def)
next
  case (Some old)
  define mid where "mid = old\<lparr>sc_frequency := frequency, sc_enabled := enabled\<rparr>"
  have old: "old \<in> set (schedules db)" using schedule_ofD [OF Some] by simp
  have mid_key: "sc_id mid = sc_id old" "sc_site_kind mid = sc_site_kind old"
    by (simp_all add: mid_def sc_site_kind_def)
  have mid_row: "schedule_of (save_schedule mid db) site (tk_name kind) = Some mid"
    by (rule schedule_of_save [OF assms(1) Some mid_key])
  have wf: "jobs_wf (save_schedule mid db)" by (rule jobs_wf_save_schedule [OF assms(1) old mid_key])
  show ?thesis
  proof (cases "sc_last_run_at old")
    case None
    have "db' = save_schedule mid db \<and> s = mid"
      using assms(3) Some None mid_row [unfolded mid_def] by (auto simp: upsert_schedule_def Let_def mid_def)
    with mid_row Some None show ?thesis by (simp add: mid_def)
  next
    case run: (Some last_run)
    define new where "new = mid\<lparr>sc_next_due_at := min (sc_next_due_at mid) (max (last_run + interval) now)\<rparr>"
    have "schedule_of (save_schedule new (save_schedule mid db)) site (tk_name kind) = Some new"
      by (rule schedule_of_save [OF wf mid_row]) (simp_all add: new_def sc_site_kind_def)
    moreover have "db' = save_schedule new (save_schedule mid db) \<and> s = new"
      using assms(2,3) Some run mid_row [unfolded mid_def]
      by (auto simp: upsert_schedule_def Let_def new_def mid_def)
    ultimately show ?thesis using Some run by (simp add: new_def mid_def)
  qed
qed

definition cwv_kind :: task_kind where
  "cwv_kind = the (map_of KINDS ''collect_cwv'')"

lemma upsert_schedule_due_witness:
  "\<exists>db' s. upsert_schedule 4 7 cwv_kind ''weekly'' False 60 due_db = Inr (db', s) \<and> sc_frequency s = ''weekly'' \<and>
    sc_next_due_at s = 0"
proof -
  have i: "effective_interval cwv_kind ''weekly'' = Inr (days 7)"
    by (simp add: effective_interval_def cwv_kind_def KINDS_def FREQUENCY_INTERVALS_def dict_get_def source_floor_def
        SOURCE_SPECS_def duration_defs)
  have row: "schedule_of due_db 7 (tk_name cwv_kind) = Some sample_schedule"
    by (simp add: schedule_of_def find_row_def due_db_def sample_schedule_def sc_site_kind_def cwv_kind_def KINDS_def)
  obtain db' s where u: "upsert_schedule 4 7 cwv_kind ''weekly'' False 60 due_db = Inr (db', s)"
    using upsert_total [OF i] by blast
  from upsert_schedule_due [OF due_db_wf i u] u show ?thesis
    by (simp add: row) (simp add: sample_schedule_def)
qed

end
