(* ===== verification/Job_Intake.thy ===== *)
theory Job_Intake
  imports Job_Pass_Props
begin

text \<open>
  \<open>app/api/internal.py\<close>: the routes of the worker service. A task body is validated before
  anything runs; the route refuses a task whose workspace is not the one of its site, and answers 503
  exactly when the queue should try again. The headless check shares one slot per instance.
\<close>

section \<open>The body of a task\<close>

text \<open>
  \<open>re.match\<close> with the pattern \<open>^[A-Za-z0-9_-]{1,40}$\<close>: the dollar sign also matches before one final
  line feed.
\<close>

definition window_char :: "char \<Rightarrow> bool" where
  "window_char c = (let n = (of_char c :: nat) in
     (65 \<le> n \<and> n \<le> 90) \<or> (97 \<le> n \<and> n \<le> 122) \<or> (48 \<le> n \<and> n \<le> 57) \<or> n = 95 \<or> n = 45)"

definition window_body :: "string \<Rightarrow> bool" where
  "window_body s = (1 \<le> length s \<and> length s \<le> 40 \<and> list_all window_char s)"

definition window_matches :: "string \<Rightarrow> bool" where
  "window_matches s = (window_body s \<or> (s \<noteq> [] \<and> last s = CHR 0x0A \<and> window_body (butlast s)))"

record run_task_in =
  ri_kind :: string
  ri_website_id :: "uuid option"
  ri_workspace_id :: "uuid option"
  ri_window :: string
  ri_params :: "(string \<times> string) list"

datatype task_refusal =
    UnknownKind
  | BadWindow
  | SiteRequired
  | GlobalTask
  | ParamsNotAllowed
  | BadBackfillSource

definition coherent :: "run_task_in \<Rightarrow> task_refusal + run_task_in" where
  "coherent body =
    (case map_of KINDS (ri_kind body) of
       None \<Rightarrow> Inl UnknownKind
     | Some kind \<Rightarrow>
         if \<not> window_matches (ri_window body) then Inl BadWindow
         else (let has_site = (ri_website_id body \<noteq> None \<and> ri_workspace_id body \<noteq> None);
                   allowed = (if ri_kind body = ''backfill'' then [''source''] else [])
               in if per_site kind \<and> \<not> has_site then Inl SiteRequired
                  else if \<not> per_site kind \<and> (ri_website_id body \<noteq> None \<or> ri_workspace_id body \<noteq> None)
                  then Inl GlobalTask
                  else if \<not> list_all (\<lambda>(k, v). k \<in> set allowed) (ri_params body) then Inl ParamsNotAllowed
                  else if ri_kind body = ''backfill'' \<and>
                    (case map_of (ri_params body) ''source'' of Some s \<Rightarrow> s \<notin> set BACKFILL_SOURCES | None \<Rightarrow> True)
                  then Inl BadBackfillSource
                  else Inr body))"

definition to_spec :: "run_task_in \<Rightarrow> run_spec" where
  "to_spec body = \<lparr>rs_kind = ri_kind body, rs_website_id = ri_website_id body,
     rs_workspace_id = ri_workspace_id body, rs_window = ri_window body, rs_params = ri_params body\<rparr>"

text \<open>
  Reading the JSON of a task: pydantic parses the identifiers (\<open>parse_uuid\<close> stands for that library
  code), then the validator runs.
\<close>

definition parse_id :: "(string \<Rightarrow> uuid option) \<Rightarrow> string option \<Rightarrow> uuid option option" where
  "parse_id parse_uuid t = (case t of None \<Rightarrow> Some None
     | Some s \<Rightarrow> (case parse_uuid s of Some u \<Rightarrow> Some (Some u) | None \<Rightarrow> None))"

definition read_task :: "(string \<Rightarrow> uuid option) \<Rightarrow> run_payload \<Rightarrow> run_spec option" where
  "read_task parse_uuid p =
    (case (parse_id parse_uuid (pl_website_id p), parse_id parse_uuid (pl_workspace_id p)) of
       (Some w, Some ws) \<Rightarrow>
         (case coherent \<lparr>ri_kind = pl_kind p, ri_website_id = w, ri_workspace_id = ws,
             ri_window = pl_window p, ri_params = pl_params p\<rparr> of
            Inr body \<Rightarrow> Some (to_spec body)
          | Inl _ \<Rightarrow> None)
     | _ \<Rightarrow> None)"

section \<open>Routes\<close>

definition claim_text :: "claim_status \<Rightarrow> string" where
  "claim_text c = (case c of Claimed \<Rightarrow> ''claimed'' | Duplicate \<Rightarrow> ''duplicate'' | Busy \<Rightarrow> ''busy''
     | Exhausted \<Rightarrow> ''exhausted'' | Throttled \<Rightarrow> ''throttled'')"

record task_reply =
  tp_code :: int
  tp_retry_after :: bool
  tp_claim :: "string option"
  tp_status :: "run_status option"

definition run_task :: "uuid \<Rightarrow> run_task_in \<Rightarrow> (string \<times> 'a jobs_db_scheme handler) list \<Rightarrow> job_limits \<Rightarrow>
    datetime \<Rightarrow> datetime \<Rightarrow> 'a jobs_db_scheme \<Rightarrow> 'a jobs_db_scheme \<times> task_reply" where
  "run_task new_id body handlers limits t0 t1 db =
    (let spec = to_spec body;
         site = (case rs_website_id spec of None \<Rightarrow> None | Some w \<Rightarrow> website_by_id db w)
     in if rs_website_id spec \<noteq> None \<and> site = None
        then (db, \<lparr>tp_code = 200, tp_retry_after = False, tp_claim = Some ''gone'', tp_status = None\<rparr>)
        else if (case site of Some w \<Rightarrow> Some (ws_workspace_id w) \<noteq> rs_workspace_id spec | None \<Rightarrow> False)
        then (db, \<lparr>tp_code = 422, tp_retry_after = False, tp_claim = None, tp_status = None\<rparr>)
        else (let (db', result) = execute_run new_id spec handlers limits t0 t1 db
              in (db', \<lparr>tp_code = (if rr_retry result then 503 else 200), tp_retry_after = rr_retry result,
                        tp_claim = Some (claim_text (rr_claim result)), tp_status = rr_status result\<rparr>)))"

record tick_settings =
  jobs_tick_batch :: nat
  jobs_workspace_daily_cap :: int

definition tick_endpoint :: "(string \<Rightarrow> uuid \<Rightarrow> uuid) \<Rightarrow> (string \<Rightarrow> uuid) \<Rightarrow> ('q, 'a jobs_db_scheme) enqueue_fun \<Rightarrow>
    tick_settings \<Rightarrow> job_limits \<Rightarrow> datetime \<Rightarrow> bool \<Rightarrow> (uuid \<Rightarrow> bool) \<Rightarrow> 'q \<Rightarrow> 'a jobs_db_scheme \<Rightarrow>
    'q \<times> 'a jobs_db_scheme \<times> (int + tick_result)" where
  "tick_endpoint gen uuid4 enqueue settings limits now got_lock locked q db =
    (let (q', db', res) = tick gen uuid4 enqueue now (jobs_tick_batch settings) (jobs_workspace_daily_cap settings)
           (lim_max_attempts limits) got_lock locked q db
     in (q', db', case res of Inl e \<Rightarrow> Inl 503 | Inr r \<Rightarrow> Inr r))"

section \<open>Headless verification\<close>

text \<open>The parts \<open>urlsplit\<close> finds; a port that is not a number is the \<open>ValueError\<close> of \<open>parts.port\<close>.\<close>

record url_parts =
  up_scheme :: string
  up_hostname :: "string option"
  up_username :: "string option"
  up_port :: "int option result"
  up_path :: string
  up_query :: string
  up_fragment :: string

definition given :: "string option \<Rightarrow> bool" where
  "given o' = (case o' of None \<Rightarrow> False | Some s \<Rightarrow> s \<noteq> [])"

definition https_site :: "url_parts \<Rightarrow> bool" where
  "https_site u = (case up_port u of
      Inl e \<Rightarrow> False
    | Inr port \<Rightarrow>
        \<not> (up_scheme u \<noteq> ''https'' \<or> \<not> given (up_hostname u) \<or> given (up_username u) \<or>
           port \<notin> {None, Some 443} \<or> up_path u \<notin> {'''', ''/''} \<or> up_query u \<noteq> [] \<or> up_fragment u \<noteq> []))"

datatype 'r headless_reply = Verified 'r | Refused int bool

text \<open>
  \<open>slots\<close> is the semaphore: the number of free slots. \<open>acquired\<close> is whether a slot was obtained within
  the waiting time, \<open>run\<close> what the verifier gave within its time, \<open>None\<close> on timeout.
\<close>

definition headless_verify :: "url_parts \<Rightarrow> bool \<Rightarrow> (url_parts \<Rightarrow> 'r option) \<Rightarrow> nat \<Rightarrow> 'a jobs_db_scheme \<Rightarrow>
    nat \<times> nat \<times> 'r headless_reply" where
  "headless_verify u acquired verifier slots db =
    (let host = lower (case up_hostname u of Some h \<Rightarrow> h | None \<Rightarrow> []);
         known = count_rows (\<lambda>w. lower (ws_domain w) = host) (websites db)
     in if known = 0 then (slots, 0, Refused 404 False)
        else if \<not> acquired \<or> slots = 0 then (slots, 0, Refused 503 True)
        else (let during = slots - 1
              in case verifier u of
                   None \<Rightarrow> (during + 1, 1, Refused 503 True)
                 | Some r \<Rightarrow> (during + 1, 1, Verified r)))"

section \<open>What the scheduler plans is accepted\<close>

lemma hex_window_char: "c \<in> set ''0123456789abcdef'' \<Longrightarrow> window_char c"
  by (auto simp: window_char_def Let_def)

lemma compact_date_window: "list_all window_char (compact_date d) \<and> length (compact_date d) = 8"
  using dec_chars hex_window_char by (auto simp: compact_date_def list_all_iff)

lemma compact_minute_window: "list_all window_char (compact_minute t) \<and> length (compact_minute t) = 13"
proof -
  have "window_char (CHR ''T'')" by (simp add: window_char_def)
  then show ?thesis
    using dec_chars hex_window_char compact_date_window by (auto simp: compact_minute_def list_all_iff)
qed

lemma slot_label_window: "window_matches (slot_label s)"
  using compact_minute_window [of s] by (simp add: window_matches_def window_body_def slot_label_def)

lemma backfill_window:
  assumes "source \<in> set BACKFILL_SOURCES"
  shows "window_matches (source @ ''-'' @ slot_label s)"
proof -
  have "list_all window_char (source @ ''-'')" "length source = 3"
    using assms by (auto simp: BACKFILL_SOURCES_def window_char_def)
  then show ?thesis
    using compact_minute_window [of s] by (simp add: window_matches_def window_body_def slot_label_def)
qed

lemma kind_sites: "map_of KINDS k = Some kind \<Longrightarrow> k \<noteq> ''partition_maintenance'' \<Longrightarrow> per_site kind"
  by (auto simp: KINDS_def split: if_splits)

lemma plan_run_coherent:
  assumes "plan_run s w now = Inr spec" "sc_kind s \<noteq> ''partition_maintenance''" "sc_kind s \<noteq> ''backfill''"
  shows "\<exists>kind. map_of KINDS (rs_kind spec) = Some kind \<and> per_site kind \<and> window_matches (rs_window spec) \<and>
    ((rs_kind spec = ''backfill'' \<and> (\<exists>source \<in> set BACKFILL_SOURCES. rs_params spec = [(''source'', source)])) \<or>
     (rs_kind spec \<noteq> ''backfill'' \<and> rs_params spec = []))"
proof -
  from assms(1) obtain k i where k: "map_of KINDS (sc_kind s) = Some k" "effective_interval k (sc_frequency s) = Inr i"
    by (auto simp: plan_run_def dict_get_Inr)
  define label where "label = slot_label (slot_start now i 0)"
  have name: "tk_name k = sc_kind s" using kinds_no_colon [OF k(1)] by simp
  have b: "\<exists>b. map_of KINDS ''backfill'' = Some b \<and> per_site b" by (simp add: KINDS_def)
  consider (backfill) source where "source \<in> set BACKFILL_SOURCES"
      "spec = \<lparr>rs_kind = ''backfill'', rs_website_id = Some (ws_id w), rs_workspace_id = Some (ws_workspace_id w),
         rs_window = source @ ''-'' @ label, rs_params = [(''source'', source)]\<rparr>"
    | (plain) "spec = \<lparr>rs_kind = tk_name k, rs_website_id = Some (ws_id w), rs_workspace_id = Some (ws_workspace_id w),
         rs_window = label, rs_params = []\<rparr>"
    using assms(1) k by (auto simp: plan_run_def dict_get_def Let_def label_def split: option.splits if_splits)
  then show ?thesis
  proof cases
    case backfill
    with b backfill_window show ?thesis by (auto simp: label_def)
  next
    case plain
    with k kind_sites [OF k(1) assms(2)] assms(3) slot_label_window name show ?thesis by (simp add: label_def)
  qed
qed

lemma read_task_payload:
  assumes "\<And>u. parse_uuid (str_uuid u) = Some u"
    and "coherent \<lparr>ri_kind = rs_kind spec, ri_website_id = rs_website_id spec, ri_workspace_id = rs_workspace_id spec,
      ri_window = rs_window spec, ri_params = rs_params spec\<rparr> =
      Inr \<lparr>ri_kind = rs_kind spec, ri_website_id = rs_website_id spec, ri_workspace_id = rs_workspace_id spec,
        ri_window = rs_window spec, ri_params = rs_params spec\<rparr>"
  shows "read_task parse_uuid (to_payload spec) = Some spec"
proof -
  have "parse_id parse_uuid (map_option str_uuid i) = Some i" for i
    using assms(1) by (cases i) (simp_all add: parse_id_def)
  with assms(2) show ?thesis by (simp add: read_task_def to_payload_def to_spec_def)
qed

section \<open>Properties\<close>

text \<open>
  C8: The worker accepts every task the scheduler deposits, and reads back the very run that was
  planned: for every schedulable kind and for the nightly maintenance, printing the payload, parsing and
  validating it gives the specification again. \<open>parse_uuid\<close> is the library's parser, of which only
  \<open>UUID(str(u)) = u\<close> is used.
\<close>

theorem planned_tasks_accepted:
  assumes "\<And>u. parse_uuid (str_uuid u) = Some u"
    and "(plan_run s w now = Inr spec \<and> sc_kind s \<notin> {''partition_maintenance'', ''backfill''}) \<or> spec = maintenance_spec now"
  shows "read_task parse_uuid (to_payload spec) = Some spec"
  using assms(2)
proof
  assume a: "plan_run s w now = Inr spec \<and> sc_kind s \<notin> {''partition_maintenance'', ''backfill''}"
  with plan_run_coherent [of s w now spec] plan_run_spec [of s w now spec] show ?thesis
    by (intro read_task_payload [OF assms(1)]) (auto simp: coherent_def Let_def)
next
  assume m: "spec = maintenance_spec now"
  have "window_matches (compact_date (date_of now))"
    using compact_date_window [of "date_of now"] by (simp add: window_matches_def window_body_def)
  with m show ?thesis
    by (intro read_task_payload [OF assms(1)]) (auto simp: coherent_def Let_def maintenance_spec_def KINDS_def)
qed

theorem planned_tasks_accepted_witness:
  "\<exists>parse_uuid. read_task parse_uuid (to_payload (maintenance_spec 5)) = Some (maintenance_spec 5)"
proof -
  define parse where "parse = (\<lambda>t. if \<exists>u. t = str_uuid u then Some (inv str_uuid t) else None)"
  have inj: "inj str_uuid" by (rule injI) (rule str_uuid_inj)
  have "parse (str_uuid u) = Some u" for u by (auto simp: parse_def inv_f_f [OF inj])
  from planned_tasks_accepted [OF this, of sample_schedule sample_site 5 "maintenance_spec 5"] show ?thesis by blast
qed

text \<open>
  C9: A delivery never crosses workspaces: when the body names a workspace other than the one of its
  site, or a site that no longer exists, the route changes nothing and asks for no retry; the first is
  refused with 422, the second acknowledged.
\<close>

theorem run_task_isolated:
  assumes "ri_website_id body = Some w"
    and "website_by_id db w = None \<or> (\<exists>site. website_by_id db w = Some site \<and> ri_workspace_id body \<noteq> Some (ws_workspace_id site))"
  shows "fst (run_task new_id body handlers L t0 t1 db) = db \<and>
    tp_code (snd (run_task new_id body handlers L t0 t1 db)) = (if website_by_id db w = None then 200 else 422) \<and>
    \<not> tp_retry_after (snd (run_task new_id body handlers L t0 t1 db))"
  using assms by (auto simp: run_task_def Let_def to_spec_def)

theorem run_task_isolated_witness:
  "fst (run_task 1 \<lparr>ri_kind = ''collect_cwv'', ri_website_id = Some 7, ri_workspace_id = Some 8, ri_window = ''w'',
      ri_params = []\<rparr> [] sample_limits 0 1 due_db) = due_db"
  using run_task_isolated [of "\<lparr>ri_kind = ''collect_cwv'', ri_website_id = Some 7, ri_workspace_id = Some 8,
      ri_window = ''w'', ri_params = []\<rparr>" 7 due_db 1 "[]" sample_limits 0 1]
  by (simp add: website_by_id_def find_row_def due_db_def sample_site_def)

text \<open>
  The window pattern lets one final line feed through: such a window is accepted,
  although it is not made of the characters the pattern lists, and its run has a key of its own, different from
  the key of the same window without the line feed.
\<close>

lemma window_newline_accepted:
  "window_matches (''20260101T0000'' @ [CHR 0x0A]) \<and> \<not> list_all window_char (''20260101T0000'' @ [CHR 0x0A]) \<and>
   rs_key (sample_spec\<lparr>rs_window := ''20260101T0000'' @ [CHR 0x0A]\<rparr>) \<noteq> rs_key sample_spec"
  by (simp add: window_matches_def window_body_def window_char_def rs_key_def sample_spec_def)

text \<open>Every headless verification gives its slot back, on success, on timeout and on refusal.\<close>

lemma headless_slot_released:
  "headless_verify u acquired verifier slots db = (slots', used, reply) \<Longrightarrow>
    slots' = slots \<and> used \<le> 1 \<and> (used = 0 \<longrightarrow> (\<exists>code retry. reply = Refused code retry))"
  by (auto simp: headless_verify_def Let_def split: if_splits option.splits)

lemma headless_slot_released_witness:
  "\<exists>used reply. headless_verify \<lparr>up_scheme = ''https'', up_hostname = Some ''exemple.fr'', up_username = None,
     up_port = Inr None, up_path = '''', up_query = '''', up_fragment = ''''\<rparr> True (\<lambda>_. Some ()) 1 due_db = (1, used, reply)"
proof -
  obtain slots used reply where h: "headless_verify \<lparr>up_scheme = ''https'', up_hostname = Some ''exemple.fr'', up_username = None,
     up_port = Inr None, up_path = '''', up_query = '''', up_fragment = ''''\<rparr> True (\<lambda>_. Some ()) 1 due_db = (slots, used, reply)"
    by (metis prod_cases3)
  from headless_slot_released [OF h] h show ?thesis by blast
qed

end
