(* ===== verification/Job_Health.thy ===== *)
theory Job_Health
  imports Job_Intake
begin

text \<open>
  \<open>app/services/jobs/health.py\<close> (what is failing, overdue or stuck, and how loudly it is
  reported), \<open>messages.py\<close> (the text of an error code) and the reading half of
  \<open>schedules.py\<close>. The texts are UTF-8, written as bytes.
\<close>

section \<open>Texts\<close>

definition UNKNOWN_TEXT :: string where
  "UNKNOWN_TEXT = ''Erreur inattendue : nous sommes pr'' @ [CHR 0xC3, CHR 0xA9] @ ''venus.''"

definition ERROR_MESSAGES :: "(string \<times> string) list" where
  "ERROR_MESSAGES = [
    (''ga4_not_connected'',
      ''Aucune propri'' @ [CHR 0xC3, CHR 0xA9] @ ''t'' @ [CHR 0xC3, CHR 0xA9] @ '' GA4 n'' @ [CHR 0x27] @ ''est reli'' @ [CHR 0xC3, CHR 0xA9] @ ''e '' @ [CHR 0xC3, CHR 0xA0] @ '' ce site.''),
    (''gsc_not_connected'',
      ''Aucun site Search Console n'' @ [CHR 0x27] @ ''est reli'' @ [CHR 0xC3, CHR 0xA9] @ '' '' @ [CHR 0xC3, CHR 0xA0] @ '' ce site.''),
    (''token_unavailable'',
      ''L'' @ [CHR 0x27] @ ''acc'' @ [CHR 0xC3, CHR 0xA8] @ ''s Google a expir'' @ [CHR 0xC3, CHR 0xA9] @ '' : reconnecte ton compte Google.''),
    (''permission_or_api_disabled'',
      ''Google refuse l'' @ [CHR 0x27] @ ''acc'' @ [CHR 0xC3, CHR 0xA8] @ ''s (droits insuffisants ou API d'' @ [CHR 0xC3, CHR 0xA9] @ ''sactiv'' @ [CHR 0xC3, CHR 0xA9] @ ''e).''),
    (''not_found'',
      ''La ressource Google reli'' @ [CHR 0xC3, CHR 0xA9] @ ''e est introuvable.''),
    (''quota'',
      ''Quota Google atteint : nouvel essai automatique.''),
    (''circuit_open'',
      ''Quota Google atteint pour ce compte : pause de 30 minutes puis nouvel essai.''),
    (''network'',
      ''Service momentan'' @ [CHR 0xC3, CHR 0xA9] @ ''ment injoignable : nouvel essai automatique.''),
    (''api_error'',
      ''R'' @ [CHR 0xC3, CHR 0xA9] @ ''ponse inattendue du service : nouvel essai automatique.''),
    (''site_unreachable'',
      ''Ton site n'' @ [CHR 0x27] @ ''a pas pu '' @ [CHR 0xC3, CHR 0xAA] @ ''tre analys'' @ [CHR 0xC3, CHR 0xA9] @ '' par Google (page injoignable).''),
    (''unreachable'',
      ''Ton site ne r'' @ [CHR 0xC3, CHR 0xA9] @ ''pond pas.''),
    (''no_observation'',
      ''Aucune donn'' @ [CHR 0xC3, CHR 0xA9] @ ''e de performance disponible pour ce site pour l'' @ [CHR 0x27] @ ''instant.''),
    (''website_inactive'',
      ''Site archiv'' @ [CHR 0xC3, CHR 0xA9] @ '' : suivi suspendu.''),
    (''not_dispatched'',
      ''La t'' @ [CHR 0xC3, CHR 0xA2] @ ''che n'' @ [CHR 0x27] @ ''a pas d'' @ [CHR 0xC3, CHR 0xA9] @ ''marr'' @ [CHR 0xC3, CHR 0xA9] @ '' : nouvel essai au prochain cr'' @ [CHR 0xC3, CHR 0xA9] @ ''neau.''),
    (''enqueue_failed'',
      ''La t'' @ [CHR 0xC3, CHR 0xA2] @ ''che n'' @ [CHR 0x27] @ ''a pas pu '' @ [CHR 0xC3, CHR 0xAA] @ ''tre programm'' @ [CHR 0xC3, CHR 0xA9] @ ''e : nouvel essai au prochain passage.''),
    (''lease_expired'',
      ''La t'' @ [CHR 0xC3, CHR 0xA2] @ ''che a '' @ [CHR 0xC3, CHR 0xA9] @ ''t'' @ [CHR 0xC3, CHR 0xA9] @ '' interrompue : nouvel essai automatique.''),
    (''job_lease_lost'',
      ''La t'' @ [CHR 0xC3, CHR 0xA2] @ ''che a '' @ [CHR 0xC3, CHR 0xA9] @ ''t'' @ [CHR 0xC3, CHR 0xA9] @ '' reprise par une autre ex'' @ [CHR 0xC3, CHR 0xA9] @ ''cution.''),
    (''db_transient'',
      ''Base de donn'' @ [CHR 0xC3, CHR 0xA9] @ ''es momentan'' @ [CHR 0xC3, CHR 0xA9] @ ''ment indisponible : nouvel essai automatique.''),
    (''api_key_rejected'',
      ''Notre acc'' @ [CHR 0xC3, CHR 0xA8] @ ''s au service de mesure est refus'' @ [CHR 0xC3, CHR 0xA9] @ '' : nous sommes pr'' @ [CHR 0xC3, CHR 0xA9] @ ''venus.''),
    (''token_refresh_failed'',
      ''Le renouvellement de l'' @ [CHR 0x27] @ ''acc'' @ [CHR 0xC3, CHR 0xA8] @ ''s Google a '' @ [CHR 0xC3, CHR 0xA9] @ ''chou'' @ [CHR 0xC3, CHR 0xA9] @ '' momentan'' @ [CHR 0xC3, CHR 0xA9] @ ''ment : nouvel essai automatique.''),
    (''truncated'',
      ''R'' @ [CHR 0xC3, CHR 0xA9] @ ''ponse Google trop volumineuse pour '' @ [CHR 0xC3, CHR 0xAA] @ ''tre collect'' @ [CHR 0xC3, CHR 0xA9] @ ''e en entier : nous sommes pr'' @ [CHR 0xC3, CHR 0xA9] @ ''venus.''),
    (''bad_request'',
      ''Requ'' @ [CHR 0xC3, CHR 0xAA] @ ''te refus'' @ [CHR 0xC3, CHR 0xA9] @ ''e par le service : nous sommes pr'' @ [CHR 0xC3, CHR 0xA9] @ ''venus.''),
    (''internal_error'',
      UNKNOWN_TEXT),
    (''unknown_kind'',
      UNKNOWN_TEXT),
    (''bad_params'',
      UNKNOWN_TEXT)]"

definition error_message :: "string option \<Rightarrow> string option" where
  "error_message code = (case code of None \<Rightarrow> None
     | Some c \<Rightarrow> Some (case map_of ERROR_MESSAGES c of Some m \<Rightarrow> m | None \<Rightarrow> UNKNOWN_TEXT))"

section \<open>Health\<close>

definition FAILING_AFTER :: timedelta where "FAILING_AFTER = hours 24"
definition OVERDUE_AFTER :: timedelta where "OVERDUE_AFTER = hours 2"
definition STUCK_QUEUED_AFTER :: timedelta where "STUCK_QUEUED_AFTER = hours 1"
definition MAINTENANCE_STALE_AFTER :: timedelta where "MAINTENANCE_STALE_AFTER = hours 48"

definition CLIENT_ACTION_CODES :: "string list" where
  "CLIENT_ACTION_CODES = [''token_unavailable'', ''permission_or_api_disabled'', ''not_found'',
     ''site_unreachable'', ''unreachable'']"

record failing_schedule =
  fs_website_id :: uuid
  fs_kind :: string
  fs_failing_since :: datetime
  fs_error_code :: "string option"
  fs_client_action :: bool

record jobs_health =
  jh_checked_at :: datetime
  jh_failing :: "failing_schedule list"
  jh_overdue :: nat
  jh_stuck_running :: nat
  jh_stuck_queued :: nat
  jh_maintenance_stale :: bool

definition internal_failures :: "jobs_health \<Rightarrow> failing_schedule list" where
  "internal_failures h = filter (\<lambda>item. \<not> fs_client_action item) (jh_failing h)"

definition health_ok :: "jobs_health \<Rightarrow> bool" where
  "health_ok h = (\<not> (jh_failing h \<noteq> [] \<or> jh_overdue h \<noteq> 0 \<or> jh_stuck_running h \<noteq> 0 \<or>
     jh_stuck_queued h \<noteq> 0 \<or> jh_maintenance_stale h))"

definition active_schedules :: "'a jobs_db_scheme \<Rightarrow> schedule list" where
  "active_schedules db = filter (\<lambda>s. sc_enabled s \<and>
     (case website_by_id db (sc_website_id s) of Some w \<Rightarrow> ws_archived_at w = None | None \<Rightarrow> False)) (schedules db)"

definition max_opt :: "int list \<Rightarrow> int option" where
  "max_opt xs = (if xs = [] then None else Some (foldr max xs (hd xs)))"

definition min_opt :: "int list \<Rightarrow> int option" where
  "min_opt xs = (if xs = [] then None else Some (foldr min xs (hd xs)))"

definition maintenance_stale :: "datetime \<Rightarrow> 'a jobs_db_scheme \<Rightarrow> bool" where
  "maintenance_stale now db =
    (case max_opt (List.map_filter jr_finished_at
        (filter (\<lambda>r. jr_kind r = ''partition_maintenance'' \<and> jr_status r = Succeeded) (job_runs db))) of
       Some last_success \<Rightarrow> last_success < now - MAINTENANCE_STALE_AFTER
     | None \<Rightarrow>
         (case min_opt (map jr_enqueued_at (job_runs db)) of
            Some first_activity \<Rightarrow> first_activity < now - MAINTENANCE_STALE_AFTER
          | None \<Rightarrow> False))"

definition failing_long :: "datetime \<Rightarrow> schedule \<Rightarrow> bool" where
  "failing_long now s = (case sc_failing_since s of Some t \<Rightarrow> t \<le> now - FAILING_AFTER | None \<Rightarrow> False)"

definition failing_view :: "schedule \<Rightarrow> failing_schedule" where
  "failing_view s = \<lparr>fs_website_id = sc_website_id s, fs_kind = sc_kind s,
     fs_failing_since = (case sc_failing_since s of Some t \<Rightarrow> t | None \<Rightarrow> 0),
     fs_error_code = sc_last_error_code s,
     fs_client_action = (case sc_last_error_code s of Some c \<Rightarrow> c \<in> set CLIENT_ACTION_CODES | None \<Rightarrow> False)\<rparr>"

definition compute_jobs_health :: "datetime \<Rightarrow> 'a jobs_db_scheme \<Rightarrow> jobs_health" where
  "compute_jobs_health now db = \<lparr>
     jh_checked_at = now,
     jh_failing = map failing_view
       (sort_key (\<lambda>s. case sc_failing_since s of Some t \<Rightarrow> t | None \<Rightarrow> 0)
         (filter (failing_long now) (active_schedules db))),
     jh_overdue = count_rows (\<lambda>s. sc_next_due_at s < now - OVERDUE_AFTER) (active_schedules db),
     jh_stuck_running = count_rows (\<lambda>r. jr_status r = Running \<and>
       (case jr_lease_expires_at r of None \<Rightarrow> True | Some e \<Rightarrow> e < now - STUCK_RUNNING_GRACE)) (job_runs db),
     jh_stuck_queued = count_rows (\<lambda>r. jr_status r = Queued \<and> jr_enqueued_at r < now - STUCK_QUEUED_AFTER) (job_runs db),
     jh_maintenance_stale = maintenance_stale now db\<rparr>"

datatype log_level = InfoLevel | WarningLevel | ErrorLevel

text \<open>The line logged, and whether the event is sent to Sentry; a failure of the sending changes nothing.\<close>

record health_report =
  hp_level :: log_level
  hp_failing_internal :: nat
  hp_failing_client_action :: nat
  hp_captured :: bool

definition report_jobs_health :: "jobs_health \<Rightarrow> health_report" where
  "report_jobs_health h =
    (if health_ok h
     then \<lparr>hp_level = InfoLevel, hp_failing_internal = 0, hp_failing_client_action = 0, hp_captured = False\<rparr>
     else (let internal = length (internal_failures h);
               ours = (internal \<noteq> 0 \<or> jh_overdue h \<noteq> 0 \<or> jh_stuck_running h \<noteq> 0 \<or> jh_stuck_queued h \<noteq> 0 \<or>
                 jh_maintenance_stale h)
           in \<lparr>hp_level = (if ours then ErrorLevel else WarningLevel), hp_failing_internal = internal,
                hp_failing_client_action = length (jh_failing h) - internal, hp_captured = ours\<rparr>))"

section \<open>The schedules shown to the owner\<close>

record schedule_view =
  sv_kind :: string
  sv_label :: string
  sv_frequency :: string
  sv_enabled :: bool
  sv_allowed_frequencies :: "string list"
  sv_floor_hours :: int
  sv_next_due_at :: "datetime option"
  sv_last_run_at :: "datetime option"
  sv_last_status :: "run_status option"
  sv_last_success_at :: "datetime option"
  sv_failing_since :: "datetime option"
  sv_last_error_code :: "string option"
  sv_last_error :: "string option"
  sv_backfill_done_at :: "datetime option"

definition view_of :: "task_kind \<Rightarrow> schedule option \<Rightarrow> schedule_view" where
  "view_of kind row = \<lparr>
     sv_kind = tk_name kind,
     sv_label = tk_label kind,
     sv_frequency = (case row of Some s \<Rightarrow> sc_frequency s
       | None \<Rightarrow> (case default_frequency kind of Some f \<Rightarrow> f | None \<Rightarrow> ''None'')),
     sv_enabled = (case row of Some s \<Rightarrow> sc_enabled s | None \<Rightarrow> True),
     sv_allowed_frequencies = allowed_frequencies kind,
     sv_floor_hours = tk_floor kind div hours 1,
     sv_next_due_at = map_option sc_next_due_at row,
     sv_last_run_at = Option.bind row sc_last_run_at,
     sv_last_status = Option.bind row sc_last_status,
     sv_last_success_at = Option.bind row sc_last_success_at,
     sv_failing_since = Option.bind row sc_failing_since,
     sv_last_error_code = Option.bind row sc_last_error_code,
     sv_last_error = Option.bind row (\<lambda>s. error_message (sc_last_error_code s)),
     sv_backfill_done_at = Option.bind row sc_backfill_done_at\<rparr>"

text \<open>The dictionary \<open>{row.kind: row}\<close> keeps the last row of a kind.\<close>

definition schedule_views :: "'a jobs_db_scheme \<Rightarrow> uuid \<Rightarrow> schedule_view list" where
  "schedule_views db site =
    (let rows = filter (\<lambda>s. sc_website_id s = site) (schedules db)
     in map (\<lambda>kind. view_of kind (find_row (\<lambda>s. sc_kind s = tk_name kind) (rev rows))) SCHEDULABLE_KINDS)"

section \<open>Properties\<close>

definition reports :: "(job_run \<times> datetime) list \<Rightarrow> schedule \<Rightarrow> schedule" where
  "reports outcomes s = fold (\<lambda>(run, t) x. schedule_outcome run t x) outcomes s"

lemma schedule_outcome_failing:
  "sc_failing_since (schedule_outcome run t s) =
    (if jr_status run = Failed then (case sc_failing_since s of None \<Rightarrow> Some t | Some f \<Rightarrow> Some f) else None)"
  by (simp add: schedule_outcome_def Let_def split: option.splits)

text \<open>
  The start of the current series of failures: over any sequence of closed runs reported to
  a schedule, \<open>failing_since\<close> is the instant of the earliest failure after the last run that did not
  fail, and is empty when the last run did not fail.
\<close>

lemma failing_since_exact:
  assumes "sc_failing_since s = None"
  shows "sc_failing_since (reports outcomes s) =
    (case rev (takeWhile (\<lambda>(run, t). jr_status run = Failed) (rev outcomes)) of
       [] \<Rightarrow> None
     | (run, t) # rest \<Rightarrow> Some t)"
proof (induction outcomes rule: rev_induct)
  case Nil
  with assms show ?case by (simp add: reports_def)
next
  case (snoc x xs)
  obtain run t where x: "x = (run, t)" by fastforce
  have step: "reports (xs @ [x]) s = schedule_outcome run t (reports xs s)" by (simp add: reports_def x)
  show ?case
  proof (cases "jr_status run = Failed")
    case False
    then show ?thesis by (simp add: step [unfolded x] schedule_outcome_failing x)
  next
    case True
    with snoc.IH show ?thesis
      by (cases "rev (takeWhile (\<lambda>(run, t). jr_status run = Failed) (rev xs))")
        (auto simp: step [unfolded x] schedule_outcome_failing x split: prod.splits)
  qed
qed

lemma failing_since_exact_witness:
  "sc_failing_since (reports [(finished_row, 10), (finished_row\<lparr>jr_status := Failed\<rparr>, 20),
     (finished_row\<lparr>jr_status := Failed\<rparr>, 30)] sample_schedule) = Some 20"
  by (subst failing_since_exact) (simp_all add: sample_schedule_def finished_row_def)

lemma set_sort_key_view: "set (map failing_view (sort_key f xs)) = failing_view ` set xs"
  by simp

text \<open>
  No client-side silence: the health report lists exactly the enabled schedules of active sites that
  have been failing for 24 hours, oldest first, and an error is logged and captured unless every listed
  failure is one the client must act on and nothing is overdue, stuck or stale.
\<close>

lemma health_lists_failures:
  "set (jh_failing (compute_jobs_health now db)) =
     failing_view ` {s \<in> set (schedules db). sc_enabled s \<and>
       (\<exists>w. website_by_id db (sc_website_id s) = Some w \<and> ws_archived_at w = None) \<and>
       (\<exists>t. sc_failing_since s = Some t \<and> t + hours 24 \<le> now)} \<and>
   sorted (map fs_failing_since (jh_failing (compute_jobs_health now db))) \<and>
   (hp_level (report_jobs_health (compute_jobs_health now db)) = ErrorLevel \<longleftrightarrow>
     (\<exists>f \<in> set (jh_failing (compute_jobs_health now db)). \<not> fs_client_action f) \<or>
     jh_overdue (compute_jobs_health now db) \<noteq> 0 \<or> jh_stuck_running (compute_jobs_health now db) \<noteq> 0 \<or>
     jh_stuck_queued (compute_jobs_health now db) \<noteq> 0 \<or> jh_maintenance_stale (compute_jobs_health now db))"
proof -
  define h where "h = compute_jobs_health now db"
  have "set (jh_failing h) = failing_view ` {s \<in> set (schedules db). sc_enabled s \<and>
       (\<exists>w. website_by_id db (sc_website_id s) = Some w \<and> ws_archived_at w = None) \<and>
       (\<exists>t. sc_failing_since s = Some t \<and> t + hours 24 \<le> now)}"
    unfolding h_def compute_jobs_health_def jobs_health.simps set_sort_key_view
    by (intro arg_cong [where f = "image failing_view"])
      (auto simp: active_schedules_def failing_long_def FAILING_AFTER_def split: option.splits)
  moreover have "sorted (map fs_failing_since (jh_failing h))"
    unfolding h_def compute_jobs_health_def jobs_health.simps map_map
    by (simp add: comp_def failing_view_def)
  moreover have "hp_level (report_jobs_health h) = ErrorLevel \<longleftrightarrow>
     (\<exists>f \<in> set (jh_failing h). \<not> fs_client_action f) \<or>
     jh_overdue h \<noteq> 0 \<or> jh_stuck_running h \<noteq> 0 \<or> jh_stuck_queued h \<noteq> 0 \<or> jh_maintenance_stale h"
  proof -
    have "(length (internal_failures h) \<noteq> 0) = (\<exists>f \<in> set (jh_failing h). \<not> fs_client_action f)"
      by (auto simp: internal_failures_def filter_empty_conv)
    then show ?thesis
      by (auto simp: report_jobs_health_def health_ok_def Let_def)
  qed
  ultimately show ?thesis by (simp add: h_def)
qed

lemma health_lists_failures_witness:
  "set (jh_failing (compute_jobs_health (hours 24) (due_db\<lparr>schedules := [sample_schedule\<lparr>sc_failing_since := Some 0\<rparr>]\<rparr>))) =
     {failing_view (sample_schedule\<lparr>sc_failing_since := Some 0\<rparr>)}"
  by (subst health_lists_failures [THEN conjunct1])
    (auto simp: due_db_def sample_schedule_def sample_site_def find_row_def website_by_id_def)

lemma sweep_rows:
  assumes "jobs_wf db" "set runs \<subseteq> set (job_runs db)" "distinct (map jr_id runs)"
    and "r \<in> set (job_runs (fold (\<lambda>run d. record_schedule_outcome (expire_one t run) t
      (save_run (expire_one t run) d)) runs db))"
  shows "(r \<in> set (job_runs db) \<and> r \<notin> set runs) \<or> (\<exists>x \<in> set runs. r = expire_one t x)"
  using assms
proof (induction runs arbitrary: db)
  case Nil
  then show ?case by simp
next
  case (Cons x runs)
  define d where "d = record_schedule_outcome (expire_one t x) t (save_run (expire_one t x) db)"
  have x: "x \<in> set (job_runs db)" "jobs_wf db" using Cons.prems by auto
  have wf: "jobs_wf d" unfolding d_def using x by (intro store_inv) auto
  have rows: "set (job_runs d) = insert (expire_one t x) (set (job_runs db) - {x})"
    using set_job_runs_save_run [OF x(2,1), of "expire_one t x"] by (simp add: d_def)
  have "set runs \<subseteq> set (job_runs d)" using Cons.prems(2,3) rows by (auto simp: image_iff)
  with Cons.IH [OF wf] Cons.prems(3,4)
  have "(r \<in> set (job_runs d) \<and> r \<notin> set runs) \<or> (\<exists>y \<in> set runs. r = expire_one t y)" by (simp add: d_def)
  with rows show ?case by auto
qed

text \<open>
  Nothing stays stuck behind a pass: after its first transaction no run has been waiting in the queue
  for more than two hours, and none is marked running although its lease ended over an hour and five
  minutes ago.
\<close>

lemma phase_one_sweeps:
  assumes "runs_inv L (now, db)" "fresh_schedule_ids gen db" "r \<in> set (job_runs (phase_one gen now db))"
  shows "(jr_status r = Queued \<longrightarrow> now - hours 2 \<le> jr_enqueued_at r) \<and>
    (jr_status r = Running \<longrightarrow> (\<exists>e. jr_lease_expires_at r = Some e \<and> now - minutes 65 \<le> e))"
proof -
  define db1 where "db1 = fst (materialize_default_schedules gen now db)"
  define db2 where "db2 = fst (expire_stale_queued now STALE_QUEUED_AFTER db1)"
  have inv1: "runs_inv L (now, db1)"
    using assms(1,2) jobs_wf_materialize [of db gen now]
    by (simp add: runs_inv_def db1_def runs_ok_def within_limit_def)
  then have inv2: "runs_inv L (now, db2)" unfolding db2_def by (rule runs_inv_expire_queued)
  have wf2: "jobs_wf db2" using inv2 by (simp add: runs_inv_def)
  define stuck where "stuck = filter (stuck_running now STUCK_RUNNING_SWEEP_AFTER) (job_runs db2)"
  have dist: "distinct (map jr_id stuck)"
    using wf2 by (simp add: jobs_wf_def uniq_by_def stuck_def distinct_map_filter)
  have "r \<in> set (job_runs (fold (\<lambda>run d. record_schedule_outcome (expire_one now run) now
      (save_run (expire_one now run) d)) stuck db2))"
    using assms(3) by (simp add: phase_one_def expire_stuck_running_def Let_def db2_def db1_def stuck_def)
  from sweep_rows [OF wf2 _ dist this]
  consider (kept) "r \<in> set (job_runs db2)" "\<not> stuck_running now STUCK_RUNNING_SWEEP_AFTER r"
    | (swept) x where "r = expire_one now x" by (auto simp: stuck_def)
  then show ?thesis
  proof cases
    case kept
    have queued: "now - hours 2 \<le> jr_enqueued_at r" if "jr_status r = Queued"
      using kept(1) that
      by (auto simp: db2_def expire_stale_queued_def stale_queued_def STALE_QUEUED_AFTER_def table_simps split: if_splits)
    have "run_ok r" using kept(1) inv2 by (auto simp: runs_inv_def runs_ok_def)
    then have "\<exists>e. jr_lease_expires_at r = Some e \<and> now - minutes 65 \<le> e" if "jr_status r = Running"
      using kept(2) that
      by (auto simp: run_ok_def stuck_running_def STUCK_RUNNING_SWEEP_AFTER_def STUCK_RUNNING_GRACE_def duration_defs
          split: option.splits)
    with queued show ?thesis by blast
  next
    case swept
    then show ?thesis by simp
  qed
qed

lemma phase_one_claimed: "job_runs (phase_one (\<lambda>_ _. 1) 10 claimed_db) = [claimed_row]"
proof -
  have "fold (materialize_kind (\<lambda>_ _. 1) 10) ks claimed_db = claimed_db" for ks
    by (induction ks) (simp_all add: materialize_kind_def active_websites_def claimed_db_def empty_jobs_db_def)
  moreover have "\<not> stale_queued 10 STALE_QUEUED_AFTER claimed_row"
    by (simp add: stale_queued_def claimed_row_def)
  moreover have "\<not> stuck_running 10 STUCK_RUNNING_SWEEP_AFTER claimed_row"
    by (simp add: stuck_running_def claimed_row_def sample_limits_def STUCK_RUNNING_SWEEP_AFTER_def
        STUCK_RUNNING_GRACE_def duration_defs)
  ultimately show ?thesis
    by (simp add: phase_one_def materialize_default_schedules_def Let_def expire_stale_queued_def
        expire_stuck_running_def update_rows_def) (simp add: claimed_db_def)
qed

lemma phase_one_sweeps_witness: "\<exists>e. jr_lease_expires_at claimed_row = Some e \<and> 10 - minutes 65 \<le> e"
proof -
  have inv: "runs_inv sample_limits (10, claimed_db)"
    by (rule runs_inv_later [OF reachable_runs_inv [OF claimed_reachable]]) simp_all
  have ids: "fresh_schedule_ids (\<lambda>_ _. 1) claimed_db"
    by (simp add: fresh_schedule_ids_def schedule_draws_def claimed_db_def empty_jobs_db_def)
  have "claimed_row \<in> set (job_runs (phase_one (\<lambda>_ _. 1) 10 claimed_db))" by (simp add: phase_one_claimed)
  from phase_one_sweeps [OF inv ids this] show ?thesis by (simp add: claimed_row_def)
qed

text \<open>
  The owner sees every schedulable kind exactly once, in the order of the code, with the columns of its
  row when there is one and the defaults otherwise; the floor shown is the one the scheduler enforces.
\<close>

lemma schedule_views_complete:
  assumes "jobs_wf db"
  shows "map sv_kind (schedule_views db site) = map tk_name SCHEDULABLE_KINDS \<and>
    (\<forall>kind \<in> set SCHEDULABLE_KINDS. view_of kind (schedule_of db site (tk_name kind)) \<in> set (schedule_views db site)) \<and>
    (\<forall>v \<in> set (schedule_views db site). \<forall>f \<in> set (sv_allowed_frequencies v).
      \<exists>i. map_of FREQUENCY_INTERVALS f = Some i \<and> hours (sv_floor_hours v) \<le> i)"
proof -
  define rows where "rows = filter (\<lambda>s. sc_website_id s = site) (schedules db)"
  have row: "find_row (\<lambda>s. sc_kind s = k) (rev rows) = schedule_of db site k" for k
  proof (cases "schedule_of db site k")
    case None
    then have "find_row (\<lambda>s. sc_kind s = k) (rev rows) = None"
      by (auto simp: schedule_of_def find_row_None rows_def sc_site_kind_def)
    with None show ?thesis by simp
  next
    case (Some s)
    then have s: "s \<in> set (rev rows)" "sc_kind s = k"
      using schedule_ofD [OF Some] by (auto simp: rows_def sc_site_kind_def)
    have "distinct (map sc_site_kind rows)" using assms by (simp add: jobs_wf_def uniq_by_def rows_def distinct_map_filter)
    moreover have "map sc_site_kind rows = map (\<lambda>s. (site, sc_kind s)) rows" by (simp add: rows_def sc_site_kind_def)
    ultimately have "distinct (map (Pair site) (map sc_kind rows))" by (simp only: map_map comp_def)
    then have "distinct (map sc_kind rows)" by (metis distinct_map)
    then have "uniq_by sc_kind (rev rows)" by (simp add: uniq_by_def rev_map [symmetric])
    from find_row_key [OF this s] Some show ?thesis by simp
  qed
  have views: "schedule_views db site = map (\<lambda>kind. view_of kind (schedule_of db site (tk_name kind))) SCHEDULABLE_KINDS"
    by (simp add: schedule_views_def Let_def rows_def [symmetric] row)
  have "\<exists>i. map_of FREQUENCY_INTERVALS f = Some i \<and> hours (sv_floor_hours v) \<le> i"
    if v: "v \<in> set (schedule_views db site)" and f: "f \<in> set (sv_allowed_frequencies v)" for v f
  proof -
    from v views obtain kind where v_eq: "v = view_of kind (schedule_of db site (tk_name kind))" by auto
    from f obtain i where i: "(f, i) \<in> set FREQUENCY_INTERVALS" "tk_floor kind \<le> i"
      by (auto simp: v_eq view_of_def allowed_frequencies_def)
    have "map_of FREQUENCY_INTERVALS f = Some i" using i(1) by (auto simp: FREQUENCY_INTERVALS_def)
    moreover have "hours (tk_floor kind div hours 1) \<le> tk_floor kind"
      using div_bounds [of "3600000000" "tk_floor kind"] by (simp add: duration_defs mult.commute)
    ultimately show ?thesis using i(2) by (auto simp: v_eq view_of_def)
  qed
  then show ?thesis by (auto simp: views) (simp add: view_of_def)
qed

lemma schedule_views_complete_witness:
  "map sv_kind (schedule_views due_db 7) = map tk_name SCHEDULABLE_KINDS"
  using schedule_views_complete [OF due_db_wf, of 7] by blast

end
