(* ===== verification/French_Text.thy ===== *)
theory French_Text
  imports Prelude
begin

text \<open>
  Names for the characters of the product's French texts that a HOL string literal does not hold, as their
  UTF-8 bytes, so that the texts of the model can be read against the source.
\<close>

abbreviation e_acute :: string where "e_acute \<equiv> [CHR 0xC3, CHR 0xA9]"
abbreviation e_grave :: string where "e_grave \<equiv> [CHR 0xC3, CHR 0xA8]"
abbreviation e_circ :: string where "e_circ \<equiv> [CHR 0xC3, CHR 0xAA]"
abbreviation a_grave :: string where "a_grave \<equiv> [CHR 0xC3, CHR 0xA0]"
abbreviation a_circ :: string where "a_circ \<equiv> [CHR 0xC3, CHR 0xA2]"
abbreviation c_cedil :: string where "c_cedil \<equiv> [CHR 0xC3, CHR 0xA7]"
abbreviation i_circ :: string where "i_circ \<equiv> [CHR 0xC3, CHR 0xAE]"
abbreviation i_trema :: string where "i_trema \<equiv> [CHR 0xC3, CHR 0xAF]"
abbreviation o_circ :: string where "o_circ \<equiv> [CHR 0xC3, CHR 0xB4]"
abbreviation u_grave :: string where "u_grave \<equiv> [CHR 0xC3, CHR 0xB9]"
abbreviation u_circ :: string where "u_circ \<equiv> [CHR 0xC3, CHR 0xBB]"
abbreviation o_e :: string where "o_e \<equiv> [CHR 0xC5, CHR 0x93]"
abbreviation guil_l :: string where "guil_l \<equiv> [CHR 0xC2, CHR 0xAB]"
abbreviation guil_r :: string where "guil_r \<equiv> [CHR 0xC2, CHR 0xBB]"
abbreviation apos :: string where "apos \<equiv> [CHR 0x27]"
abbreviation newline :: string where "newline \<equiv> [CHR 0x0A]"
abbreviation dquote :: string where "dquote \<equiv> [CHR 0x22]"
abbreviation euro :: string where "euro \<equiv> [CHR 0xE2, CHR 0x82, CHR 0xAC]"
abbreviation dots :: string where "dots \<equiv> [CHR 0xE2, CHR 0x80, CHR 0xA6]"
abbreviation E_acute :: string where "E_acute \<equiv> [CHR 0xC3, CHR 0x89]"
abbreviation A_grave :: string where "A_grave \<equiv> [CHR 0xC3, CHR 0x80]"
abbreviation backtick :: string where "backtick \<equiv> [CHR 0x60]"
abbreviation backslash :: string where "backslash \<equiv> [CHR 0x5C]"
abbreviation apos_curly :: string where "apos_curly \<equiv> [CHR 0xE2, CHR 0x80, CHR 0x99]"
abbreviation E_circ :: string where "E_circ \<equiv> [CHR 0xC3, CHR 0x8A]"
abbreviation em_dash :: string where "em_dash \<equiv> [CHR 0xE2, CHR 0x80, CHR 0x94]"
abbreviation en_dash :: string where "en_dash \<equiv> [CHR 0xE2, CHR 0x80, CHR 0x93]"
abbreviation nbsp :: string where "nbsp \<equiv> [CHR 0xC2, CHR 0xA0]"

end
