(* ===== verification/Py_Dict.thy ===== *)
theory Py_Dict
  imports Prelude
begin

text \<open>
  Python dictionaries as association lists in insertion order: assigning to a key keeps its place,
  a new key goes to the end. \<open>dict_update k f d\<close> is \<open>d[k] = f(d.get(k))\<close>. The lemmas read the dictionary a loop
  over rows has built: its keys are the keys of the rows, and the entry of a key depends on the rows of
  that key only.
\<close>

fun dict_update :: "'k \<Rightarrow> ('v option \<Rightarrow> 'v) \<Rightarrow> ('k \<times> 'v) list \<Rightarrow> ('k \<times> 'v) list" where
  "dict_update k f [] = [(k, f None)]"
| "dict_update k f ((k', v) # d) = (if k' = k then (k', f (Some v)) # d else (k', v) # dict_update k f d)"

definition dict_set :: "'k \<Rightarrow> 'v \<Rightarrow> ('k \<times> 'v) list \<Rightarrow> ('k \<times> 'v) list" where
  "dict_set k v d = dict_update k (\<lambda>_. v) d"

definition get_default :: "'v \<Rightarrow> ('k \<times> 'v) list \<Rightarrow> 'k \<Rightarrow> 'v" where
  "get_default x d k = (case map_of d k of Some v \<Rightarrow> v | None \<Rightarrow> x)"

lemma map_of_dict_update [simp]: "map_of (dict_update k f d) = (map_of d)(k \<mapsto> f (map_of d k))"
  by (induction k f d rule: dict_update.induct) auto

lemma keys_dict_update [simp]: "fst ` set (dict_update k f d) = insert k (fst ` set d)"
  by (induction k f d rule: dict_update.induct) auto

lemma distinct_dict_update [simp]: "distinct (map fst d) \<Longrightarrow> distinct (map fst (dict_update k f d))"
proof (induction k f d rule: dict_update.induct)
  case (2 k f k' v d)
  then show ?case using keys_dict_update [of k f d] by (auto simp flip: set_map)
qed simp

lemma map_of_dict_set [simp]: "map_of (dict_set k v d) = (map_of d)(k \<mapsto> v)"
  by (simp add: dict_set_def)

lemma keys_dict_set [simp]: "fst ` set (dict_set k v d) = insert k (fst ` set d)"
  by (simp add: dict_set_def)

lemma distinct_dict_set [simp]: "distinct (map fst d) \<Longrightarrow> distinct (map fst (dict_set k v d))"
  by (simp add: dict_set_def)

lemma dict_set_fresh: "k \<notin> fst ` set d \<Longrightarrow> dict_set k v d = d @ [(k, v)]"
  unfolding dict_set_def by (induction k "\<lambda>_ :: 'b option. v" d rule: dict_update.induct) auto

text \<open>\<open>list(dict.fromkeys(xs))\<close>: the elements without repetition, in the order of their first occurrence.\<close>

definition add_missing :: "'a \<Rightarrow> 'a list \<Rightarrow> 'a list" where
  "add_missing x xs = (if x \<in> set xs then xs else xs @ [x])"

definition from_keys :: "'a list \<Rightarrow> 'a list" where
  "from_keys xs = fold add_missing xs []"

lemma set_fold_add_missing [simp]: "set (fold add_missing xs ys) = set xs \<union> set ys"
  by (induction xs arbitrary: ys) (auto simp: add_missing_def)

lemma distinct_fold_add_missing [simp]: "distinct ys \<Longrightarrow> distinct (fold add_missing xs ys)"
  by (induction xs arbitrary: ys) (auto simp: add_missing_def)

lemma set_from_keys [simp]: "set (from_keys xs) = set xs"
  by (simp add: from_keys_def)

lemma distinct_from_keys [simp]: "distinct (from_keys xs)"
  by (simp add: from_keys_def)

lemma from_keys_Nil_iff [simp]: "(from_keys xs = []) = (xs = [])"
  using set_from_keys [of xs] by (metis set_empty)

section \<open>Dictionaries built by a loop\<close>

definition dict_of :: "('r \<Rightarrow> 'k) \<Rightarrow> ('r \<Rightarrow> 'v option \<Rightarrow> 'v) \<Rightarrow> 'r list \<Rightarrow> ('k \<times> 'v) list" where
  "dict_of key f rows = fold (\<lambda>r d. dict_update (key r) (f r) d) rows []"

lemma dict_of_snoc: "dict_of key f (rows @ [r]) = dict_update (key r) (f r) (dict_of key f rows)"
  by (simp add: dict_of_def)

lemma keys_dict_of [simp]: "fst ` set (dict_of key f rows) = key ` set rows"
  by (induction rows rule: rev_induct) (simp_all add: dict_of_snoc, simp add: dict_of_def)

lemma distinct_dict_of [simp]: "distinct (map fst (dict_of key f rows))"
  by (induction rows rule: rev_induct) (simp_all add: dict_of_snoc, simp add: dict_of_def)

lemma map_of_dict_of:
  "map_of (dict_of key f rows) k = fold (\<lambda>r v. Some (f r v)) (filter (\<lambda>r. key r = k) rows) None"
  by (induction rows rule: rev_induct) (auto simp: dict_of_snoc, simp add: dict_of_def)

lemma dict_of_entry:
  "(k, v) \<in> set (dict_of key f rows) \<longleftrightarrow>
    fold (\<lambda>r v. Some (f r v)) (filter (\<lambda>r. key r = k) rows) None = Some v"
  by (metis distinct_dict_of map_of_dict_of map_of_eq_Some_iff)

text \<open>Entries that collect values in order, and entries that are dictionaries themselves.\<close>

definition append_entry :: "('r \<Rightarrow> 'v) \<Rightarrow> 'r \<Rightarrow> 'v list option \<Rightarrow> 'v list" where
  "append_entry val r o' = (case o' of None \<Rightarrow> [] | Some vs \<Rightarrow> vs) @ [val r]"

lemma fold_append_entry:
  "fold (\<lambda>r v. Some (append_entry val r v)) rows None = (if rows = [] then None else Some (map val rows))"
  by (induction rows rule: rev_induct) (auto simp: append_entry_def)

definition set_entry :: "('r \<Rightarrow> 'd) \<Rightarrow> ('r \<Rightarrow> 'v) \<Rightarrow> 'r \<Rightarrow> ('d \<times> 'v) list option \<Rightarrow> ('d \<times> 'v) list" where
  "set_entry sub val r o' = dict_set (sub r) (val r) (case o' of None \<Rightarrow> [] | Some d \<Rightarrow> d)"

lemma fold_set_entry:
  "distinct (map sub rows) \<Longrightarrow>
    fold (\<lambda>r v. Some (set_entry sub val r v)) rows None = (if rows = [] then None else Some (map (\<lambda>r. (sub r, val r)) rows))"
proof (induction rows rule: rev_induct)
  case (snoc r rows)
  then have "sub r \<notin> sub ` set rows" "distinct (map sub rows)" by auto
  then have "dict_set (sub r) (val r) (map (\<lambda>r. (sub r, val r)) rows) = map (\<lambda>r. (sub r, val r)) (rows @ [r])"
    by (subst dict_set_fresh) (auto simp: image_image)
  with snoc \<open>distinct (map sub rows)\<close> show ?case by (auto simp: set_entry_def dict_set_def)
qed simp

end
