(* ===== verification/Measurement_Catalog.thy ===== *)
theory Measurement_Catalog
  imports French_Text Py_Dict
begin

text \<open>
  The catalogue of the measurement plan (\<open>app/services/measurement/types.py\<close> and \<open>catalog.py\<close>): what an item
  is, the items of the five layers with their texts, the starter packs and which items concern a site.
  Site types and checks are texts, as the code has them: the profile of a site holds whatever was stored. The lemmas are
  the facts of the table the other components rest on: identifiers are distinct, every check is a known one,
  the packs name items of the catalogue.
\<close>

section \<open>Types\<close>

datatype layer = Foundations | Events | Conversions | Ads | Seo

datatype item_state =
    S_unknown
  | S_missing
  | S_on_page
  | S_received
  | S_unverifiable
  | S_not_applicable
  | S_dismissed

datatype level = L_on_page | L_received

datatype action_kind = A_guide | A_snippet | A_gtm_container | A_advisor | A_pr

definition SITE_TYPES :: "string list" where
  "SITE_TYPES = [''ecommerce'', ''lead_gen'', ''saas'', ''content'', ''other'']"

definition CHECK_KINDS :: "string list" where
  "CHECK_KINDS = [''gtm_installed'', ''gtm_in_head'', ''ga4_tag'', ''no_double'', ''consent'', ''datalayer'',
     ''event'', ''purchase_params'', ''key_events'', ''key_events_value'', ''ads_link'', ''ads_conversion_tag'',
     ''manual'', ''gsc_linked'', ''gsc_sitemaps'', ''robots'', ''tls'']"

record measurement_item =
  mi_id :: string
  mi_layer :: layer
  mi_applies_to :: "string list option"
  mi_weight :: int
  mi_quick_win :: bool
  mi_title :: string
  mi_why :: string
  mi_check :: string
  mi_arg :: "string option"
  mi_max_level :: level
  mi_guide :: "string list"
  mi_actions :: "action_kind list"
  mi_snippet_event :: "string option"

section \<open>Building blocks of the table\<close>

definition LAYER_ORDER :: "layer list" where
  "LAYER_ORDER = [Foundations, Events, Conversions, Ads, Seo]"

text \<open>\<open>LAYER_ORDER.index(layer)\<close>.\<close>

fun layer_index :: "layer \<Rightarrow> int" where
  "layer_index Foundations = 0"
| "layer_index Events = 1"
| "layer_index Conversions = 2"
| "layer_index Ads = 3"
| "layer_index Seo = 4"

definition ECOM_TYPES :: "string list" where "ECOM_TYPES = [''ecommerce'']"
definition LEAD_TYPES :: "string list" where "LEAD_TYPES = [''lead_gen'']"
definition SAAS_TYPES :: "string list" where "SAAS_TYPES = [''saas'']"
definition CONTENT_TYPES :: "string list" where "CONTENT_TYPES = [''content'']"
definition LEAD_SAAS_TYPES :: "string list" where "LEAD_SAAS_TYPES = [''lead_gen'', ''saas'']"

definition EVENT_ACTIONS :: "action_kind list" where
  "EVENT_ACTIONS = [A_guide, A_snippet, A_gtm_container, A_advisor]"

definition AUTO_ACTIONS :: "action_kind list" where
  "AUTO_ACTIONS = [A_guide, A_advisor]"

definition event_guide :: "string \<Rightarrow> string list" where
  "event_guide place = [
      ''Rep'' @ e_grave @ ''re o'' @ u_grave @ '' l'' @ apos @ ''action se produit sur ton site : '' @ place @ ''.'',
      ''Ouvre l'' @ apos @ ''onglet '' @ guil_l @ '' Snippet '' @ guil_r
      @ '' de cette ligne et copie le code fourni '' @ a_grave @ '' cet endroit (ou transmets-le ''
      @ a_grave @ '' ton d'' @ e_acute @ ''veloppeur).'',
      ''V'' @ e_acute @ ''rifie dans GA4, rapport '' @ guil_l @ '' Temps r'' @ e_acute @ ''el '' @ guil_r
      @ '', que l'' @ apos @ e_acute @ ''v'' @ e_acute @ ''nement appara'' @ i_circ
      @ ''t quand tu fais l'' @ apos @ ''action toi-m'' @ e_circ @ ''me.'',
      ''Reviens ici et clique sur '' @ guil_l @ '' V'' @ e_acute @ ''rifier maintenant '' @ guil_r
      @ '' : la ligne passe '' @ a_grave @ '' '' @ guil_l @ '' Re'' @ c_cedil @ ''u par GA4 '' @ guil_r
      @ '' d'' @ e_grave @ ''s que GA4 a trait'' @ e_acute @ '' les donn'' @ e_acute @ ''es (jusqu''
      @ apos @ a_grave @ '' 24 h).'']"

definition event_item ::
  "string \<Rightarrow> string list \<Rightarrow> int \<Rightarrow> string \<Rightarrow> string \<Rightarrow> string \<Rightarrow> bool \<Rightarrow> measurement_item" where
  "event_item event applies_to weight title why place quick_win = \<lparr>mi_id = ''event_'' @ event, mi_layer = Events,
    mi_applies_to = Some applies_to, mi_weight = weight, mi_quick_win = quick_win, mi_title = title, mi_why = why,
    mi_check = ''event'', mi_arg = Some event, mi_max_level = L_received, mi_guide = event_guide place,
    mi_actions = EVENT_ACTIONS, mi_snippet_event = Some event\<rparr>"

definition auto_event ::
  "string \<Rightarrow> string \<Rightarrow> string list \<Rightarrow> int \<Rightarrow> string \<Rightarrow> string \<Rightarrow> string list \<Rightarrow> measurement_item" where
  "auto_event item_id event applies_to weight title why guide = \<lparr>mi_id = item_id, mi_layer = Events,
    mi_applies_to = Some applies_to, mi_weight = weight, mi_quick_win = True, mi_title = title, mi_why = why,
    mi_check = ''event'', mi_arg = Some event, mi_max_level = L_received, mi_guide = guide,
    mi_actions = AUTO_ACTIONS, mi_snippet_event = None\<rparr>"

section \<open>The items\<close>

definition item_gtm_installed :: measurement_item where
  "item_gtm_installed = \<lparr>mi_id = ''gtm_installed'', mi_layer = Foundations, mi_applies_to = None,
    mi_weight = 100, mi_quick_win = True,
    mi_title = ''Google Tag Manager install'' @ e_acute,
    mi_why =
      ''GTM est la bo'' @ i_circ @ ''te '' @ a_grave @ '' outils qui te permet d'' @ apos
      @ ''ajouter le suivi (GA4, publicit'' @ e_acute @ '', '' @ e_acute @ ''v'' @ e_acute
      @ ''nements) sans modifier le code du site '' @ a_grave @ '' chaque fois.'',
    mi_check = ''gtm_installed'', mi_arg = None, mi_max_level = L_on_page,
    mi_guide = [
      ''Cr'' @ e_acute @ ''e un compte et un conteneur de type '' @ guil_l @ '' Web '' @ guil_r
      @ '' sur tagmanager.google.com.'',
      ''Copie les deux extraits de code fournis : le premier dans le <head> de toutes les ''
      @ ''pages, le second juste apr'' @ e_grave @ ''s l'' @ apos @ ''ouverture de <body>.'',
      ''Publie le conteneur dans GTM.'',
      ''Reviens ici et clique sur '' @ guil_l @ '' V'' @ e_acute @ ''rifier maintenant '' @ guil_r
      @ ''.''],
    mi_actions = [A_guide, A_advisor], mi_snippet_event = None\<rparr>"

definition item_gtm_in_head :: measurement_item where
  "item_gtm_in_head = \<lparr>mi_id = ''gtm_in_head'', mi_layer = Foundations, mi_applies_to = None,
    mi_weight = 70, mi_quick_win = True,
    mi_title = ''Snippet GTM plac'' @ e_acute @ '' dans le <head>'',
    mi_why =
      ''Plac'' @ e_acute @ '' plus bas dans la page, le snippet se charge trop tard : les premi''
      @ e_grave @ ''res actions du visiteur ne sont pas mesur'' @ e_acute @ ''es.'',
    mi_check = ''gtm_in_head'', mi_arg = None, mi_max_level = L_on_page,
    mi_guide = [
      ''Rep'' @ e_grave @ ''re l'' @ apos @ ''extrait GTM (il contient '' @ guil_l
      @ '' googletagmanager.com/gtm.js '' @ guil_r @ '').'',
      ''D'' @ e_acute @ ''place-le le plus haut possible dans le <head>, avant les autres scripts.'',
      ''Reviens ici et clique sur '' @ guil_l @ '' V'' @ e_acute @ ''rifier maintenant '' @ guil_r
      @ ''.''],
    mi_actions = [A_guide, A_advisor], mi_snippet_event = None\<rparr>"

definition item_ga4_tag :: measurement_item where
  "item_ga4_tag = \<lparr>mi_id = ''ga4_tag'', mi_layer = Foundations, mi_applies_to = None,
    mi_weight = 100, mi_quick_win = True,
    mi_title = ''Balise Google Analytics 4 active'',
    mi_why =
      ''Sans elle, aucun visiteur n'' @ apos @ ''est compt'' @ e_acute @ ''. C'' @ apos
      @ ''est la base de toute mesure : trafic, sources, conversions.'',
    mi_check = ''ga4_tag'', mi_arg = None, mi_max_level = L_received,
    mi_guide = [
      ''Dans GA4, cr'' @ e_acute @ ''e une propri'' @ e_acute @ ''t'' @ e_acute
      @ '' puis un flux de donn'' @ e_acute @ ''es '' @ guil_l @ '' Web '' @ guil_r @ '' et note l''
      @ apos @ ''ID de mesure (il commence par G-).'',
      ''Clique sur '' @ guil_l @ '' G'' @ e_acute @ ''n'' @ e_acute @ ''rer mon pack de d'' @ e_acute
      @ ''marrage '' @ guil_r @ '' (en haut de cette page) : le fichier contient la balise GA4 et les ''
      @ e_acute @ ''v'' @ e_acute
      @ ''nements essentiels de ton type de site. Importe-le dans GTM (Administration > Importer ''
      @ ''un conteneur > '' @ guil_l @ '' Nouvel espace de travail '' @ guil_r @ '' > '' @ guil_l
      @ '' Fusionner '' @ guil_r @ '' > '' @ guil_l @ '' Renommer les conflits '' @ guil_r
      @ '') et publie.'',
      ''Dans '' @ guil_l @ '' Connexions Google '' @ guil_r
      @ '', connecte ton compte pour que la plateforme voie les donn'' @ e_acute @ ''es arriver.'',
      ''Clique sur '' @ guil_l @ '' V'' @ e_acute @ ''rifier maintenant '' @ guil_r @ ''.''],
    mi_actions = [A_guide, A_gtm_container, A_advisor], mi_snippet_event = None\<rparr>"

definition item_no_double_tracking :: measurement_item where
  "item_no_double_tracking = \<lparr>mi_id = ''no_double_tracking'', mi_layer = Foundations, mi_applies_to = None,
    mi_weight = 60, mi_quick_win = False,
    mi_title = ''Pas de double comptage GA4'',
    mi_why =
      ''Si GA4 est ajout'' @ e_acute @ '' dans le code du site ET dans GTM, chaque visite est compt''
      @ e_acute @ ''e deux fois et tes chiffres sont faux.'',
    mi_check = ''no_double'', mi_arg = None, mi_max_level = L_on_page,
    mi_guide = [
      ''Retire du code du site la balise GA4 cod'' @ e_acute @ ''e en dur (le script '' @ guil_l
      @ '' gtag/js '' @ guil_r @ '').'',
      ''Garde uniquement la balise GA4 g'' @ e_acute @ ''r'' @ e_acute @ ''e dans GTM.'',
      ''Reviens ici et clique sur '' @ guil_l @ '' V'' @ e_acute @ ''rifier maintenant '' @ guil_r
      @ ''.''],
    mi_actions = [A_guide, A_advisor], mi_snippet_event = None\<rparr>"

definition item_consent_mode :: measurement_item where
  "item_consent_mode = \<lparr>mi_id = ''consent_mode'', mi_layer = Foundations, mi_applies_to = None,
    mi_weight = 65, mi_quick_win = False,
    mi_title = ''Consentement aux cookies et Consent Mode v2'',
    mi_why =
      ''Pour les visiteurs europ'' @ e_acute
      @ ''ens, la loi impose de demander le consentement. Consent Mode permet de continuer '' @ a_grave
      @ '' mesurer sans cookies quand le visiteur refuse, et Google Ads l'' @ apos
      @ ''exige pour la publicit'' @ e_acute @ '' personnalis'' @ e_acute @ ''e.'',
    mi_check = ''consent'', mi_arg = None, mi_max_level = L_on_page,
    mi_guide = [
      ''Installe une banni'' @ e_grave
      @ ''re de consentement compatible Consent Mode v2 (Cookiebot, Axeptio, Didomi, etc.).'',
      ''V'' @ e_acute @ ''rifie qu'' @ apos @ ''elle envoie l'' @ apos @ e_acute @ ''tat '' @ guil_l
      @ '' par d'' @ e_acute @ ''faut : refus'' @ e_acute @ '' '' @ guil_r
      @ '' avant le chargement de GTM.'',
      ''Si ta banni'' @ e_grave @ ''re ne le fait pas, ajoute le snippet '' @ guil_l
      @ '' consent default '' @ guil_r @ '' fourni, plac'' @ e_acute @ '' avant le snippet GTM.'',
      ''Clique sur '' @ guil_l @ '' V'' @ e_acute @ ''rifier maintenant '' @ guil_r @ '' (avec ''
      @ guil_l @ '' en conditions r'' @ e_acute @ ''elles '' @ guil_r @ '' pour une preuve fiable).''],
    mi_actions = [A_guide, A_snippet, A_advisor], mi_snippet_event = Some ''consent_default''\<rparr>"

definition item_datalayer_standard :: measurement_item where
  "item_datalayer_standard = \<lparr>mi_id = ''datalayer_standard'', mi_layer = Foundations, mi_applies_to = None,
    mi_weight = 40, mi_quick_win = False,
    mi_title = ''dataLayer au nom standard'',
    mi_why =
      ''Les outils de test et de nombreux mod'' @ e_grave @ ''les de tags supposent le nom '' @ guil_l
      @ '' dataLayer '' @ guil_r @ ''. Un autre nom casse ces int'' @ e_acute @ ''grations sans pr''
      @ e_acute @ ''venir.'',
    mi_check = ''datalayer'', mi_arg = None, mi_max_level = L_on_page,
    mi_guide = [
      ''Dans le snippet GTM, rep'' @ e_grave @ ''re le dernier param'' @ e_grave @ ''tre (par d''
      @ e_acute @ ''faut '' @ guil_l @ '' dataLayer '' @ guil_r @ '').'',
      ''Remets-le '' @ a_grave @ '' '' @ guil_l @ '' dataLayer '' @ guil_r
      @ '' (et adapte le code du site qui poussait vers l'' @ apos @ ''ancien nom).'',
      ''Reviens ici et clique sur '' @ guil_l @ '' V'' @ e_acute @ ''rifier maintenant '' @ guil_r
      @ ''.''],
    mi_actions = [A_guide, A_advisor], mi_snippet_event = None\<rparr>"

definition FOUNDATIONS_ITEMS :: "measurement_item list" where
  "FOUNDATIONS_ITEMS = [item_gtm_installed, item_gtm_in_head, item_ga4_tag, item_no_double_tracking, item_consent_mode, item_datalayer_standard]"

definition item_event_view_item :: measurement_item where
  "item_event_view_item = event_item ''view_item'' ECOM_TYPES 60
    (''Vue d'' @ apos @ ''une fiche produit'')
    (''Sans cet '' @ e_acute @ ''v'' @ e_acute @ ''nement, tu ne sais pas quels produits attirent l''
     @ apos @ ''attention avant l'' @ apos @ ''achat.'')
    (''sur chaque fiche produit, au chargement de la page'') False"

definition item_event_add_to_cart :: measurement_item where
  "item_event_add_to_cart = event_item ''add_to_cart'' ECOM_TYPES 70
    (''Ajout au panier'')
    (''Il mesure l'' @ apos @ ''intention d'' @ apos @ ''achat : l'' @ apos @ e_acute
     @ ''cart avec les achats montre o'' @ u_grave @ '' tu perds des clients.'')
    (''au clic sur le bouton '' @ guil_l @ '' ajouter au panier '' @ guil_r) False"

definition item_event_begin_checkout :: measurement_item where
  "item_event_begin_checkout = event_item ''begin_checkout'' ECOM_TYPES 70
    (''D'' @ e_acute @ ''but du paiement'')
    (''Il isole les abandons au moment de payer, l'' @ apos @ ''endroit o'' @ u_grave @ '' une am''
     @ e_acute @ ''lioration rapporte le plus.'')
    (a_grave @ '' l'' @ apos @ ''ouverture de la page de paiement'') False"

definition item_event_purchase :: measurement_item where
  "item_event_purchase = event_item ''purchase'' ECOM_TYPES 95
    (''Achat'')
    (''C'' @ apos
     @ ''est ta conversion principale : sans elle, impossible de savoir combien te rapporte ''
     @ ''chaque source de trafic ni de piloter des campagnes.'')
    (''sur la page de confirmation de commande, une seule fois par commande'') True"

definition item_purchase_params :: measurement_item where
  "item_purchase_params = \<lparr>mi_id = ''purchase_params'', mi_layer = Events, mi_applies_to = Some ECOM_TYPES,
    mi_weight = 90, mi_quick_win = False,
    mi_title = ''Achat avec montant'',
    mi_why =
      ''Un achat sans montant ne dit pas combien tu gagnes : les revenus restent '' @ a_grave @ '' z''
      @ e_acute @ ''ro dans GA4 et dans tes campagnes.'',
    mi_check = ''purchase_params'', mi_arg = None, mi_max_level = L_received,
    mi_guide = [
      ''Dans le code de la confirmation de commande, renseigne '' @ guil_l @ '' value '' @ guil_r
      @ '' (montant), '' @ guil_l @ '' currency '' @ guil_r @ '' (EUR) et '' @ guil_l
      @ '' transaction_id '' @ guil_r @ '' (num'' @ e_acute @ ''ro de commande).'',
      ''Utilise le snippet de la ligne '' @ guil_l @ '' Achat '' @ guil_r @ '' comme mod'' @ e_grave
      @ ''le.'',
      ''Fais une commande test, puis clique sur '' @ guil_l @ '' V'' @ e_acute @ ''rifier maintenant ''
      @ guil_r @ '' le lendemain.''],
    mi_actions = [A_guide, A_snippet, A_advisor], mi_snippet_event = Some ''purchase''\<rparr>"

definition item_event_generate_lead :: measurement_item where
  "item_event_generate_lead = event_item ''generate_lead'' LEAD_TYPES 95
    (''Demande de contact envoy'' @ e_acute @ ''e'')
    (''C'' @ apos @ ''est ta conversion principale : chaque demande envoy'' @ e_acute
     @ ''e est un client potentiel qu'' @ apos @ ''il faut pouvoir rattacher '' @ a_grave
     @ '' sa source.'')
    (''apr'' @ e_grave @ ''s l'' @ apos @ ''envoi r'' @ e_acute
     @ ''ussi du formulaire de contact ou de devis'') True"

definition item_event_click_to_call :: measurement_item where
  "item_event_click_to_call = event_item ''click_to_call'' LEAD_TYPES 75
    (''Clic sur ton num'' @ e_acute @ ''ro de t'' @ e_acute @ ''l'' @ e_acute @ ''phone'')
    (''Beaucoup de clients appellent au lieu d'' @ apos @ e_acute
     @ ''crire ; sans ce suivi, ces contacts sont invisibles.'')
    (''au clic sur un lien t'' @ e_acute @ ''l'' @ e_acute @ ''phone (tel:)'') False"

definition item_event_click_email :: measurement_item where
  "item_event_click_email = event_item ''click_email'' LEAD_TYPES 55
    (''Clic sur ton adresse e-mail'')
    (''Il compte les visiteurs qui pr'' @ e_acute @ ''f'' @ e_grave @ ''rent t'' @ apos @ e_acute
     @ ''crire depuis leur messagerie.'')
    (''au clic sur un lien e-mail (mailto:)'') False"

definition item_event_click_whatsapp :: measurement_item where
  "item_event_click_whatsapp = event_item ''click_whatsapp'' LEAD_TYPES 55
    (''Clic sur WhatsApp'')
    (''Il compte les contacts qui passent par WhatsApp, souvent invisibles autrement.'')
    (''au clic sur le bouton ou le lien WhatsApp'') False"

definition item_event_file_download :: measurement_item where
  "item_event_file_download = auto_event ''event_file_download'' ''file_download'' LEAD_TYPES 40
    (''T'' @ e_acute @ ''l'' @ e_acute @ ''chargement de document'')
    (''Brochures et catalogues t'' @ e_acute @ ''l'' @ e_acute @ ''charg'' @ e_acute
     @ ''s signalent un visiteur s'' @ e_acute @ ''rieux.'')
    [
      ''Dans GA4 : Administration > Flux de donn'' @ e_acute @ ''es > ton flux web > '' @ guil_l
      @ '' Mesures am'' @ e_acute @ ''lior'' @ e_acute @ ''es '' @ guil_r @ ''.'',
      ''V'' @ e_acute @ ''rifie que l'' @ apos @ ''option '' @ guil_l @ '' T'' @ e_acute @ ''l''
      @ e_acute @ ''chargements de fichiers '' @ guil_r @ '' est activ'' @ e_acute @ ''e.'',
      ''T'' @ e_acute @ ''l'' @ e_acute @ ''charge un PDF sur ton site, puis clique sur '' @ guil_l
      @ '' V'' @ e_acute @ ''rifier maintenant '' @ guil_r @ '' le lendemain.'']"

definition item_event_sign_up :: measurement_item where
  "item_event_sign_up = event_item ''sign_up'' SAAS_TYPES 95
    (''Cr'' @ e_acute @ ''ation de compte'')
    (''C'' @ apos @ ''est ta conversion principale : elle te dit quelles sources de trafic am'' @ e_grave
     @ ''nent de vrais utilisateurs.'')
    (''apr'' @ e_grave @ ''s la cr'' @ e_acute @ ''ation r'' @ e_acute @ ''ussie du compte'') True"

definition item_event_login :: measurement_item where
  "item_event_login = event_item ''login'' SAAS_TYPES 60
    (''Connexion'')
    (''Elle montre combien d'' @ apos @ ''utilisateurs reviennent, un signal cl'' @ e_acute @ '' de r''
     @ e_acute @ ''tention.'')
    (''apr'' @ e_grave @ ''s une connexion r'' @ e_acute @ ''ussie'') False"

definition item_event_begin_trial :: measurement_item where
  "item_event_begin_trial = event_item ''begin_trial'' SAAS_TYPES 80
    (''D'' @ e_acute @ ''marrage d'' @ apos @ ''un essai'')
    (''Il mesure le passage de l'' @ apos @ ''inscription '' @ a_grave @ '' l'' @ apos @ ''essai r''
     @ e_acute @ ''el de ton produit.'')
    (''au d'' @ e_acute @ ''marrage effectif de l'' @ apos @ ''essai gratuit'') False"

definition item_event_subscribe :: measurement_item where
  "item_event_subscribe = event_item ''subscribe'' SAAS_TYPES 90
    (''Abonnement payant'')
    (''C'' @ apos @ ''est le moment o'' @ u_grave
     @ '' un utilisateur devient un client : sans lui, pas de rentabilit'' @ e_acute @ '' mesurable.'')
    (''apr'' @ e_grave @ ''s la souscription '' @ a_grave @ '' une offre payante'') False"

definition item_event_tutorial_complete :: measurement_item where
  "item_event_tutorial_complete = event_item ''tutorial_complete'' SAAS_TYPES 50
    (''Onboarding termin'' @ e_acute)
    (''Les utilisateurs qui terminent l'' @ apos @ ''onboarding restent plus longtemps : suis-le pour l''
     @ apos @ ''am'' @ e_acute @ ''liorer.'')
    (''quand l'' @ apos @ ''utilisateur termine les premi'' @ e_grave @ ''res '' @ e_acute
     @ ''tapes guid'' @ e_acute @ ''es'') False"

definition item_event_newsletter_signup :: measurement_item where
  "item_event_newsletter_signup = event_item ''newsletter_signup'' CONTENT_TYPES 80
    (''Inscription '' @ a_grave @ '' la newsletter'')
    (''C'' @ apos @ ''est la conversion principale d'' @ apos
     @ ''un site de contenu : elle transforme un lecteur en audience.'')
    (''apr'' @ e_grave @ ''s l'' @ apos @ ''inscription r'' @ e_acute @ ''ussie '' @ a_grave
     @ '' la newsletter'') True"

definition item_event_outbound_click :: measurement_item where
  "item_event_outbound_click = auto_event ''event_outbound_click'' ''click'' CONTENT_TYPES 40
    (''Clics vers d'' @ apos @ ''autres sites'')
    (''Il montre vers quels sites tes lecteurs partent, utile pour tes partenariats et ''
     @ ''affiliations.'')
    [
      ''Dans GA4 : Administration > Flux de donn'' @ e_acute @ ''es > ton flux web > '' @ guil_l
      @ '' Mesures am'' @ e_acute @ ''lior'' @ e_acute @ ''es '' @ guil_r @ ''.'',
      ''V'' @ e_acute @ ''rifie que l'' @ apos @ ''option '' @ guil_l @ '' Clics sortants '' @ guil_r
      @ '' est activ'' @ e_acute @ ''e.'',
      ''Clique sur un lien externe de ton site, puis '' @ guil_l @ '' V'' @ e_acute
      @ ''rifier maintenant '' @ guil_r @ '' le lendemain.'']"

definition item_event_site_search :: measurement_item where
  "item_event_site_search = auto_event ''event_site_search'' ''view_search_results'' CONTENT_TYPES 35
    (''Recherche interne'')
    (''Ce que tes visiteurs cherchent te dit quel contenu il te manque.'')
    [
      ''Dans GA4 : Administration > Flux de donn'' @ e_acute @ ''es > ton flux web > '' @ guil_l
      @ '' Mesures am'' @ e_acute @ ''lior'' @ e_acute @ ''es '' @ guil_r @ ''.'',
      ''Active '' @ guil_l @ '' Recherche sur le site '' @ guil_r @ '' et v'' @ e_acute
      @ ''rifie le param'' @ e_grave @ ''tre d'' @ apos @ ''URL de recherche (souvent '' @ guil_l
      @ '' q '' @ guil_r @ '' ou '' @ guil_l @ '' s '' @ guil_r @ '').'',
      ''Fais une recherche sur ton site, puis '' @ guil_l @ '' V'' @ e_acute @ ''rifier maintenant ''
      @ guil_r @ '' le lendemain.'']"

definition item_event_share :: measurement_item where
  "item_event_share = event_item ''share'' CONTENT_TYPES 30
    (''Partage d'' @ apos @ ''un contenu'')
    (''Le partage mesure les contenus qui se diffusent d'' @ apos @ ''eux-m'' @ e_circ @ ''mes.'')
    (''au clic sur un bouton de partage'') False"

definition EVENTS_ITEMS :: "measurement_item list" where
  "EVENTS_ITEMS = [item_event_view_item, item_event_add_to_cart, item_event_begin_checkout, item_event_purchase, item_purchase_params, item_event_generate_lead, item_event_click_to_call, item_event_click_email, item_event_click_whatsapp, item_event_file_download, item_event_sign_up, item_event_login, item_event_begin_trial, item_event_subscribe, item_event_tutorial_complete, item_event_newsletter_signup, item_event_outbound_click, item_event_site_search, item_event_share]"

definition item_key_events_marked :: measurement_item where
  "item_key_events_marked = \<lparr>mi_id = ''key_events_marked'', mi_layer = Conversions, mi_applies_to = None,
    mi_weight = 90, mi_quick_win = True,
    mi_title = E_acute @ ''v'' @ e_acute @ ''nements cl'' @ e_acute @ ''s (conversions) d'' @ e_acute @ ''clar''
      @ e_acute @ ''s dans GA4'',
    mi_why =
      ''Tant qu'' @ apos @ ''un '' @ e_acute @ ''v'' @ e_acute @ ''nement n'' @ apos @ ''est pas marqu''
      @ e_acute @ '' comme '' @ guil_l @ '' '' @ e_acute @ ''v'' @ e_acute @ ''nement cl'' @ e_acute
      @ '' '' @ guil_r
      @ '', GA4 ne le compte pas comme une conversion : les rapports et Google Ads ne s'' @ apos
      @ ''en servent pas.'',
    mi_check = ''key_events'', mi_arg = None, mi_max_level = L_received,
    mi_guide = [
      ''Dans GA4 : Administration > '' @ E_acute @ ''v'' @ e_acute @ ''nements (ou '' @ guil_l @ '' ''
      @ E_acute @ ''v'' @ e_acute @ ''nements cl'' @ e_acute @ ''s '' @ guil_r @ '').'',
      ''Rep'' @ e_grave @ ''re ton '' @ e_acute @ ''v'' @ e_acute
      @ ''nement principal (achat, demande de contact, inscription).'',
      ''Active '' @ guil_l @ '' Marquer comme '' @ e_acute @ ''v'' @ e_acute @ ''nement cl'' @ e_acute
      @ '' '' @ guil_r @ ''.'',
      ''Clique sur '' @ guil_l @ '' V'' @ e_acute @ ''rifier maintenant '' @ guil_r @ ''.''],
    mi_actions = [A_guide, A_advisor], mi_snippet_event = None\<rparr>"

definition item_conversion_value :: measurement_item where
  "item_conversion_value = \<lparr>mi_id = ''conversion_value'', mi_layer = Conversions, mi_applies_to = Some LEAD_SAAS_TYPES,
    mi_weight = 50, mi_quick_win = False,
    mi_title = ''Valeur attribu'' @ e_acute @ ''e '' @ a_grave @ '' tes conversions'',
    mi_why =
      ''Donner une valeur (m'' @ e_circ @ ''me estim'' @ e_acute @ ''e) '' @ a_grave
      @ '' un contact ou une inscription permet de comparer les sources de trafic par rentabilit''
      @ e_acute @ '' et d'' @ apos @ ''optimiser les campagnes.'',
    mi_check = ''key_events_value'', mi_arg = None, mi_max_level = L_received,
    mi_guide = [
      ''Estime la valeur moyenne d'' @ apos @ ''une conversion (par exemple 50 '' @ euro
      @ '' par contact).'',
      ''Dans GA4 > '' @ E_acute @ ''v'' @ e_acute @ ''nements cl'' @ e_acute @ ''s, ouvre ton ''
      @ e_acute @ ''v'' @ e_acute @ ''nement principal et renseigne la valeur par d'' @ e_acute
      @ ''faut.'',
      ''Clique sur '' @ guil_l @ '' V'' @ e_acute @ ''rifier maintenant '' @ guil_r @ ''.''],
    mi_actions = [A_guide, A_advisor], mi_snippet_event = None\<rparr>"

definition CONVERSIONS_ITEMS :: "measurement_item list" where
  "CONVERSIONS_ITEMS = [item_key_events_marked, item_conversion_value]"

definition item_ads_ga4_link :: measurement_item where
  "item_ads_ga4_link = \<lparr>mi_id = ''ads_ga4_link'', mi_layer = Ads, mi_applies_to = None,
    mi_weight = 70, mi_quick_win = True,
    mi_title = ''GA4 li'' @ e_acute @ '' '' @ a_grave @ '' Google Ads'',
    mi_why =
      ''Le lien permet '' @ a_grave @ '' Google Ads de voir les conversions GA4 et de cr'' @ e_acute
      @ ''er des audiences de remarketing '' @ a_grave @ '' partir de tes visiteurs.'',
    mi_check = ''ads_link'', mi_arg = None, mi_max_level = L_received,
    mi_guide = [
      ''Dans GA4 : Administration > Association de produits > Liens Google Ads.'',
      ''Clique sur '' @ guil_l @ '' Associer '' @ guil_r
      @ '', choisis ton compte Google Ads et active la personnalisation des annonces.'',
      ''Clique sur '' @ guil_l @ '' V'' @ e_acute @ ''rifier maintenant '' @ guil_r @ ''.''],
    mi_actions = [A_guide, A_advisor], mi_snippet_event = None\<rparr>"

definition item_ads_conversion_tag :: measurement_item where
  "item_ads_conversion_tag = \<lparr>mi_id = ''ads_conversion_tag'', mi_layer = Ads, mi_applies_to = None,
    mi_weight = 75, mi_quick_win = False,
    mi_title = ''Balise de conversion Google Ads'',
    mi_why =
      ''Elle indique '' @ a_grave @ '' Google Ads quelles annonces ont men'' @ e_acute @ '' '' @ a_grave
      @ '' une vente ou un contact ; sans elle, les campagnes ne peuvent pas s'' @ apos @ ''am''
      @ e_acute @ ''liorer.'',
    mi_check = ''ads_conversion_tag'', mi_arg = None, mi_max_level = L_on_page,
    mi_guide = [
      ''Dans Google Ads : Objectifs > Conversions > Nouvelle action de conversion, choisis '' @ guil_l
      @ '' Site web '' @ guil_r @ ''.'',
      ''Note l'' @ apos @ ''ID de conversion (AW-'' @ dots @ '') et le libell'' @ e_acute
      @ '' de conversion.'',
      ''Saisis-les dans '' @ guil_l @ '' R'' @ e_acute @ ''glages Ads '' @ guil_r @ '' (sous '' @ guil_l
      @ '' Pour aller plus loin '' @ guil_r @ ''), g'' @ e_acute @ ''n'' @ e_grave @ ''re un '' @ guil_l
      @ '' Conteneur GTM personnalis'' @ e_acute @ '' '' @ guil_r @ '' et importe-le dans GTM.'',
      ''Clique sur '' @ guil_l @ '' V'' @ e_acute @ ''rifier maintenant '' @ guil_r @ '' avec '' @ guil_l
      @ '' en conditions r'' @ e_acute @ ''elles '' @ guil_r @ ''.''],
    mi_actions = [A_guide, A_gtm_container, A_advisor], mi_snippet_event = None\<rparr>"

definition item_ads_conversion_linker :: measurement_item where
  "item_ads_conversion_linker = \<lparr>mi_id = ''ads_conversion_linker'', mi_layer = Ads, mi_applies_to = None,
    mi_weight = 55, mi_quick_win = False,
    mi_title = ''Conversion Linker'',
    mi_why =
      ''Il conserve l'' @ apos
      @ ''origine de la visite publicitaire (clic sur une annonce) pour que la conversion lui ''
      @ ''soit bien attribu'' @ e_acute @ ''e, malgr'' @ e_acute @ '' les restrictions des navigateurs.'',
    mi_check = ''manual'', mi_arg = None, mi_max_level = L_on_page,
    mi_guide = [
      ''Dans GTM, cr'' @ e_acute @ ''e une balise '' @ guil_l @ '' Conversion Linker '' @ guil_r @ '' d''
      @ e_acute @ ''clench'' @ e_acute @ ''e sur toutes les pages (elle est incluse dans un '' @ guil_l
      @ '' Conteneur GTM personnalis'' @ e_acute @ '' '' @ guil_r @ '' si tu coches cette ligne).'',
      ''Publie le conteneur.'',
      ''Marque cette ligne comme faite.''],
    mi_actions = [A_guide, A_gtm_container, A_advisor], mi_snippet_event = None\<rparr>"

definition item_ads_auto_tagging :: measurement_item where
  "item_ads_auto_tagging = \<lparr>mi_id = ''ads_auto_tagging'', mi_layer = Ads, mi_applies_to = None,
    mi_weight = 60, mi_quick_win = True,
    mi_title = ''Balisage automatique (gclid)'',
    mi_why =
      ''Il ajoute un identifiant '' @ a_grave
      @ '' chaque clic sur ton annonce ; sans lui, Google Ads ne peut pas relier les visites '' @ a_grave
      @ '' tes conversions.'',
    mi_check = ''manual'', mi_arg = None, mi_max_level = L_on_page,
    mi_guide = [
      ''Dans Google Ads : Administration > Param'' @ e_grave @ ''tres du compte > Suivi.'',
      ''Active '' @ guil_l @ '' Balisage automatique du r'' @ e_acute @ ''sultat des URL finales ''
      @ guil_r @ ''.'',
      ''Marque cette ligne comme faite.''],
    mi_actions = [A_guide, A_advisor], mi_snippet_event = None\<rparr>"

definition item_ads_remarketing :: measurement_item where
  "item_ads_remarketing = \<lparr>mi_id = ''ads_remarketing'', mi_layer = Ads, mi_applies_to = None,
    mi_weight = 45, mi_quick_win = False,
    mi_title = ''Audiences de remarketing'',
    mi_why =
      ''Elles permettent de re-cibler les visiteurs qui n'' @ apos
      @ ''ont pas converti, souvent le levier le moins cher pour ramener des clients.'',
    mi_check = ''manual'', mi_arg = None, mi_max_level = L_on_page,
    mi_guide = [
      ''Dans GA4 : Administration > Audiences > Nouvelle audience.'',
      ''Cr'' @ e_acute @ ''e par exemple '' @ guil_l @ '' Visiteurs ayant ajout'' @ e_acute
      @ '' au panier sans acheter '' @ guil_r @ ''.'',
      ''V'' @ e_acute @ ''rifie que l'' @ apos @ ''audience est partag'' @ e_acute
      @ ''e avec Google Ads (lien GA4 - Ads).'',
      ''Marque cette ligne comme faite.''],
    mi_actions = [A_guide, A_advisor], mi_snippet_event = None\<rparr>"

definition ADS_ITEMS :: "measurement_item list" where
  "ADS_ITEMS = [item_ads_ga4_link, item_ads_conversion_tag, item_ads_conversion_linker, item_ads_auto_tagging, item_ads_remarketing]"

definition item_gsc_property_linked :: measurement_item where
  "item_gsc_property_linked = \<lparr>mi_id = ''gsc_property_linked'', mi_layer = Seo, mi_applies_to = None,
    mi_weight = 80, mi_quick_win = True,
    mi_title = ''Search Console connect'' @ e_acute @ ''e'',
    mi_why =
      ''Search Console te dit quelles pages Google indexe et sur quelles recherches tu apparais ''
      @ '': sans elle, ton SEO est aveugle.'',
    mi_check = ''gsc_linked'', mi_arg = None, mi_max_level = L_received,
    mi_guide = [
      ''V'' @ e_acute @ ''rifie ton site sur search.google.com/search-console (propri'' @ e_acute @ ''t''
      @ e_acute @ '' de domaine).'',
      ''Dans '' @ guil_l @ '' Connexions Google '' @ guil_r
      @ '' de la plateforme, connecte ton compte puis choisis la propri'' @ e_acute @ ''t'' @ e_acute
      @ ''.'',
      ''Clique sur '' @ guil_l @ '' V'' @ e_acute @ ''rifier maintenant '' @ guil_r @ ''.''],
    mi_actions = [A_guide, A_advisor], mi_snippet_event = None\<rparr>"

definition item_gsc_sitemaps :: measurement_item where
  "item_gsc_sitemaps = \<lparr>mi_id = ''gsc_sitemaps'', mi_layer = Seo, mi_applies_to = None,
    mi_weight = 60, mi_quick_win = True,
    mi_title = ''Sitemap envoy'' @ e_acute @ '' '' @ a_grave @ '' Google'',
    mi_why =
      ''Le sitemap liste les pages '' @ a_grave @ '' indexer ; sans lui, Google peut mettre longtemps ''
      @ a_grave @ '' d'' @ e_acute @ ''couvrir tes nouvelles pages.'',
    mi_check = ''gsc_sitemaps'', mi_arg = None, mi_max_level = L_received,
    mi_guide = [
      ''G'' @ e_acute @ ''n'' @ e_grave @ ''re ou rep'' @ e_grave @ ''re l'' @ apos
      @ ''adresse de ton sitemap (souvent /sitemap.xml).'',
      ''Dans Search Console : Sitemaps > ajoute cette adresse.'',
      ''Clique sur '' @ guil_l @ '' V'' @ e_acute @ ''rifier maintenant '' @ guil_r @ ''.''],
    mi_actions = [A_guide, A_advisor], mi_snippet_event = None\<rparr>"

definition item_robots_txt :: measurement_item where
  "item_robots_txt = \<lparr>mi_id = ''robots_txt'', mi_layer = Seo, mi_applies_to = None,
    mi_weight = 40, mi_quick_win = True,
    mi_title = ''robots.txt accessible'',
    mi_why =
      ''Ce fichier dit aux robots ce qu'' @ apos @ ''ils peuvent explorer ; s'' @ apos
      @ ''il est absent ou en erreur, l'' @ apos @ ''exploration peut '' @ e_circ @ ''tre perturb''
      @ e_acute @ ''e.'',
    mi_check = ''robots'', mi_arg = None, mi_max_level = L_on_page,
    mi_guide = [
      ''Cr'' @ e_acute @ ''e un fichier robots.txt '' @ a_grave
      @ '' la racine du site (https://ton-site/robots.txt).'',
      ''Il doit r'' @ e_acute @ ''pondre normalement (code 200) et pointer vers ton sitemap.'',
      ''Clique sur '' @ guil_l @ '' V'' @ e_acute @ ''rifier maintenant '' @ guil_r @ ''.''],
    mi_actions = [A_guide, A_advisor], mi_snippet_event = None\<rparr>"

definition item_tls_valid :: measurement_item where
  "item_tls_valid = \<lparr>mi_id = ''tls_valid'', mi_layer = Seo, mi_applies_to = None,
    mi_weight = 85, mi_quick_win = True,
    mi_title = ''Certificat HTTPS valide'',
    mi_why =
      ''Sans certificat valide, les navigateurs affichent un avertissement qui fait fuir les ''
      @ ''visiteurs et p'' @ e_acute @ ''nalise ton r'' @ e_acute @ ''f'' @ e_acute @ ''rencement.'',
    mi_check = ''tls'', mi_arg = None, mi_max_level = L_on_page,
    mi_guide = [
      ''Renouvelle le certificat chez ton h'' @ e_acute @ ''bergeur.'',
      ''Active le renouvellement automatique (par exemple Let'' @ apos @ ''s Encrypt).'',
      ''Clique sur '' @ guil_l @ '' V'' @ e_acute @ ''rifier maintenant '' @ guil_r @ ''.''],
    mi_actions = [A_guide, A_advisor], mi_snippet_event = None\<rparr>"

definition SEO_ITEMS :: "measurement_item list" where
  "SEO_ITEMS = [item_gsc_property_linked, item_gsc_sitemaps, item_robots_txt, item_tls_valid]"

definition ITEMS :: "measurement_item list" where
  "ITEMS = FOUNDATIONS_ITEMS @ EVENTS_ITEMS @ CONVERSIONS_ITEMS @ ADS_ITEMS @ SEO_ITEMS"

definition ITEMS_BY_ID :: "(string \<times> measurement_item) list" where
  "ITEMS_BY_ID = dict_of mi_id (\<lambda>i _. i) ITEMS"

section \<open>Starter packs and the site's items\<close>

definition STARTER_PACKS :: "(string \<times> string list) list" where
  "STARTER_PACKS = [(''ecommerce'', [''event_view_item'', ''event_add_to_cart'', ''event_begin_checkout'', ''event_purchase'']),
     (''lead_gen'', [''event_generate_lead'', ''event_click_to_call'', ''event_click_email'', ''event_click_whatsapp'']),
     (''saas'', [''event_sign_up'', ''event_login'', ''event_begin_trial'', ''event_subscribe'']),
     (''content'', [''event_newsletter_signup'']),
     (''other'', [])]"

definition starter_pack :: "string list \<Rightarrow> string list" where
  "starter_pack types =
     fold (\<lambda>t ids. fold add_missing (get_default [] STARTER_PACKS t) ids) types [''ga4_tag'']"

definition is_applicable :: "measurement_item \<Rightarrow> string list \<Rightarrow> bool option \<Rightarrow> bool" where
  "is_applicable item types uses_google_ads =
    (if mi_layer item = Ads \<and> uses_google_ads \<noteq> Some True then False
     else case mi_applies_to item of None \<Rightarrow> True
       | Some concerned \<Rightarrow> list_ex (\<lambda>t. t \<in> set concerned) types)"

section \<open>Facts of the table\<close>

lemmas layer_items_defs = FOUNDATIONS_ITEMS_def EVENTS_ITEMS_def CONVERSIONS_ITEMS_def ADS_ITEMS_def SEO_ITEMS_def

lemmas item_defs = event_item_def auto_event_def
  item_gtm_installed_def item_gtm_in_head_def item_ga4_tag_def item_no_double_tracking_def
  item_consent_mode_def item_datalayer_standard_def item_event_view_item_def item_event_add_to_cart_def
  item_event_begin_checkout_def item_event_purchase_def item_purchase_params_def item_event_generate_lead_def
  item_event_click_to_call_def item_event_click_email_def item_event_click_whatsapp_def item_event_file_download_def
  item_event_sign_up_def item_event_login_def item_event_begin_trial_def item_event_subscribe_def
  item_event_tutorial_complete_def item_event_newsletter_signup_def item_event_outbound_click_def item_event_site_search_def
  item_event_share_def item_key_events_marked_def item_conversion_value_def item_ads_ga4_link_def
  item_ads_conversion_tag_def item_ads_conversion_linker_def item_ads_auto_tagging_def item_ads_remarketing_def
  item_gsc_property_linked_def item_gsc_sitemaps_def item_robots_txt_def item_tls_valid_def

lemmas items_list = ITEMS_def layer_items_defs append_Cons append_Nil list.map list.pred_inject

lemma item_ids: "map mi_id ITEMS = [
     ''gtm_installed'', ''gtm_in_head'', ''ga4_tag'', ''no_double_tracking'',
     ''consent_mode'', ''datalayer_standard'', ''event_view_item'', ''event_add_to_cart'',
     ''event_begin_checkout'', ''event_purchase'', ''purchase_params'', ''event_generate_lead'',
     ''event_click_to_call'', ''event_click_email'', ''event_click_whatsapp'', ''event_file_download'',
     ''event_sign_up'', ''event_login'', ''event_begin_trial'', ''event_subscribe'',
     ''event_tutorial_complete'', ''event_newsletter_signup'', ''event_outbound_click'', ''event_site_search'',
     ''event_share'', ''key_events_marked'', ''conversion_value'', ''ads_ga4_link'',
     ''ads_conversion_tag'', ''ads_conversion_linker'', ''ads_auto_tagging'', ''ads_remarketing'',
     ''gsc_property_linked'', ''gsc_sitemaps'', ''robots_txt'', ''tls_valid'']"
  by (simp only: items_list, simp only: item_defs measurement_item.select_convs, simp)

lemma distinct_item_ids: "distinct (map mi_id ITEMS)"
  unfolding item_ids by simp

lemma known_checks: "list_all (\<lambda>i. mi_check i \<in> set CHECK_KINDS) ITEMS"
  by (simp only: items_list, simp only: item_defs measurement_item.select_convs, simp add: CHECK_KINDS_def)

lemma item_weights: "list_all (\<lambda>i. 1 \<le> mi_weight i \<and> mi_weight i \<le> 100) ITEMS"
  by (simp only: items_list, simp only: item_defs measurement_item.select_convs, simp)

lemma event_args: "list_all (\<lambda>i. mi_check i = ''event'' \<longrightarrow> mi_arg i \<noteq> None) ITEMS"
  by (simp only: items_list, simp only: item_defs measurement_item.select_convs, simp)

end
