(* ===== verification/Regex.thy ===== *)
theory Regex
  imports Text_Format
begin

text \<open>
  The part of Python's \<open>re\<close> the program uses, on ASCII text: backtracking matching, greedy repetition,
  \<open>search\<close>, \<open>fullmatch\<close> and \<open>sub\<close>. \<open>ends r s\<close> lists what is left of \<open>s\<close> after each way \<open>r\<close> can match at its
  head, in the order the engine tries them. A character class is its predicate. The lemmas carry a match from
  a text to every text it is a prefix of.
\<close>

datatype re =
    Eps
  | Class "char \<Rightarrow> bool"
  | Cat re re
  | Alt re re
  | Star re

fun ends :: "re \<Rightarrow> string \<Rightarrow> string list" where
  "ends Eps s = [s]"
| "ends (Class P) s = (case s of [] \<Rightarrow> [] | c # cs \<Rightarrow> if P c then [cs] else [])"
| "ends (Cat a b) s = concat (map (ends b) (ends a s))"
| "ends (Alt a b) s = ends a s @ ends b s"
| "ends (Star a) s =
     concat (map (\<lambda>t. if length t < length s then ends (Star a) t else []) (ends a s)) @ [s]"

declare ends.simps(5) [simp del]

definition opt :: "re \<Rightarrow> re" where "opt r = Alt r Eps"
definition plus :: "re \<Rightarrow> re" where "plus r = Cat r (Star r)"

primrec times :: "nat \<Rightarrow> re \<Rightarrow> re" where
  "times 0 r = Eps"
| "times (Suc n) r = Cat r (times n r)"

text \<open>\<open>r{m,n}\<close> as \<open>m\<close> copies and \<open>n - m\<close> nested options, and \<open>r{m,}\<close>.\<close>

primrec up_to :: "nat \<Rightarrow> re \<Rightarrow> re" where
  "up_to 0 r = Eps"
| "up_to (Suc n) r = opt (Cat r (up_to n r))"

definition at_least :: "nat \<Rightarrow> re \<Rightarrow> re" where "at_least n r = Cat (times n r) (Star r)"

definition lit :: "string \<Rightarrow> re" where
  "lit s = foldr (\<lambda>c r. Cat (Class (\<lambda>x. x = c)) r) s Eps"

text \<open>A literal under \<open>IGNORECASE\<close>; the pattern is written in lower case.\<close>

definition lit_ci :: "string \<Rightarrow> re" where
  "lit_ci s = foldr (\<lambda>c r. Cat (Class (\<lambda>x. lower_char x = c)) r) s Eps"

text \<open>
  \<open>search\<close>, with the condition a lookbehind puts on the character before the start (none at the head of
  the text).
\<close>

fun search_from :: "(char option \<Rightarrow> bool) \<Rightarrow> re \<Rightarrow> char option \<Rightarrow> string \<Rightarrow> bool" where
  "search_from ok r prev s =
     ((ok prev \<and> ends r s \<noteq> []) \<or> (case s of [] \<Rightarrow> False | c # cs \<Rightarrow> search_from ok r (Some c) cs))"

declare search_from.simps [simp del]

definition search :: "(char option \<Rightarrow> bool) \<Rightarrow> re \<Rightarrow> string \<Rightarrow> bool" where
  "search ok r s = search_from ok r None s"

definition fullmatch :: "re \<Rightarrow> string \<Rightarrow> bool" where
  "fullmatch r s = ([] \<in> set (ends r s))"

text \<open>\<open>r.sub("", s)\<close> for a pattern that does not match the empty text.\<close>

fun sub_all :: "re \<Rightarrow> string \<Rightarrow> string" where
  "sub_all r s = (case s of [] \<Rightarrow> []
     | c # cs \<Rightarrow> (case ends r s of
         [] \<Rightarrow> c # sub_all r cs
       | t # ts \<Rightarrow> if length t < length s then sub_all r t else c # sub_all r cs))"

declare sub_all.simps [simp del]

text \<open>
  \<open>findall\<close> and \<open>finditer\<close> with the texts matched; \<open>search\<close> for a pattern \<open>pre(grp)post\<close> with the text of
  its group, the first one the engine finds.
\<close>

definition matched :: "string \<Rightarrow> string \<Rightarrow> string" where
  "matched s t = take (length s - length t) s"

fun findall :: "re \<Rightarrow> string \<Rightarrow> string list" where
  "findall r s = (case s of [] \<Rightarrow> []
     | c # cs \<Rightarrow> (case ends r s of
         [] \<Rightarrow> findall r cs
       | t # ts \<Rightarrow> if length t < length s then matched s t # findall r t else findall r cs))"

declare findall.simps [simp del]

definition groups_at :: "re \<Rightarrow> re \<Rightarrow> re \<Rightarrow> string \<Rightarrow> string list" where
  "groups_at pre grp post s =
     concat (map (\<lambda>t. concat (map (\<lambda>u. map (\<lambda>_. matched t u) (ends post u)) (ends grp t))) (ends pre s))"

fun search_group :: "re \<Rightarrow> re \<Rightarrow> re \<Rightarrow> string \<Rightarrow> string option" where
  "search_group pre grp post s = (case groups_at pre grp post s of g # _ \<Rightarrow> Some g
     | [] \<Rightarrow> (case s of [] \<Rightarrow> None | c # cs \<Rightarrow> search_group pre grp post cs))"

declare search_group.simps [simp del]

text \<open>\<open>findall\<close> of a pattern with one group: the groups of the matches.\<close>

definition group_matches :: "re \<Rightarrow> re \<Rightarrow> re \<Rightarrow> string \<Rightarrow> (string \<times> string) list" where
  "group_matches pre grp post s =
     concat (map (\<lambda>t. concat (map (\<lambda>u. map (\<lambda>r. (matched t u, r)) (ends post u)) (ends grp t))) (ends pre s))"

fun findall_group :: "re \<Rightarrow> re \<Rightarrow> re \<Rightarrow> string \<Rightarrow> string list" where
  "findall_group pre grp post s = (case s of [] \<Rightarrow> []
     | c # cs \<Rightarrow> (case group_matches pre grp post s of
         [] \<Rightarrow> findall_group pre grp post cs
       | (g, t) # _ \<Rightarrow> if length t < length s then g # findall_group pre grp post t
           else findall_group pre grp post cs))"

declare findall_group.simps [simp del]

text \<open>Patterns written as a sequence of parts; optional spaces, a quotation mark.\<close>

definition sequence :: "re list \<Rightarrow> re" where
  "sequence rs = foldr Cat rs Eps"

definition quote_char :: "char \<Rightarrow> bool" where
  "quote_char c = (c = CHR 0x22 \<or> c = CHR 0x27)"

definition spaces :: re where "spaces = Star (Class is_space)"
definition quote_mark :: re where "quote_mark = Class quote_char"
definition comma :: re where "comma = sequence [spaces, lit '','', spaces]"

section \<open>Other operations on texts\<close>

definition is_digit :: "char \<Rightarrow> bool" where
  "is_digit c = (48 \<le> (of_char c :: nat) \<and> (of_char c :: nat) \<le> 57)"

definition is_alpha :: "char \<Rightarrow> bool" where
  "is_alpha c = (let n = (of_char (lower_char c) :: nat) in 97 \<le> n \<and> n \<le> 122)"

text \<open>\<open>p in s\<close>, \<open>s.find(p)\<close> with \<open>None\<close> for -1, and \<open>sep.join(xs)\<close>.\<close>

fun contains :: "string \<Rightarrow> string \<Rightarrow> bool" where
  "contains p [] = (p = [])"
| "contains p (c # cs) = (starts_with p (c # cs) \<or> contains p cs)"

fun join :: "string \<Rightarrow> string list \<Rightarrow> string" where
  "join sep [] = []"
| "join sep [x] = x"
| "join sep (x # y # zs) = x @ sep @ join sep (y # zs)"

definition word_char :: "char \<Rightarrow> bool" where
  "word_char c = (is_alpha c \<or> is_digit c \<or> c = CHR ''_'')"

fun find_at :: "string \<Rightarrow> string \<Rightarrow> nat option" where
  "find_at p s = (if starts_with p s then Some 0
     else case s of [] \<Rightarrow> None | c # cs \<Rightarrow> map_option Suc (find_at p cs))"

declare find_at.simps [simp del]

text \<open>\<open>s.replace(old, new)\<close> for a non-empty \<open>old\<close>.\<close>

fun replace_all :: "string \<Rightarrow> string \<Rightarrow> string \<Rightarrow> string" where
  "replace_all old new [] = []"
| "replace_all old new (c # cs) =
     (if old \<noteq> [] \<and> starts_with old (c # cs) then new @ replace_all old new (drop (length old) (c # cs))
      else c # replace_all old new cs)"

section \<open>Matches and prefixes\<close>

lemma ends_StarE:
  assumes "t \<in> set (ends (Star a) s)"
  obtains "t = s" | x where "x \<in> set (ends a s)" "length x < length s" "t \<in> set (ends (Star a) x)"
  using assms by (subst (asm) ends.simps(5)) (auto split: if_splits)

lemma ends_StarI:
  "x \<in> set (ends a s) \<Longrightarrow> length x < length s \<Longrightarrow> t \<in> set (ends (Star a) x) \<Longrightarrow> t \<in> set (ends (Star a) s)"
  by (subst ends.simps(5)) (auto intro!: bexI [of _ x])

lemma ends_Star_self: "s \<in> set (ends (Star a) s)"
  by (subst ends.simps(5)) simp

lemma ends_append: "t \<in> set (ends r s) \<Longrightarrow> t @ u \<in> set (ends r (s @ u))"
proof (induction r s arbitrary: t rule: ends.induct)
  case (3 a b s)
  then show ?case by auto
next
  case (5 a s)
  from 5(3) show ?case
  proof (cases rule: ends_StarE)
    case 1
    then show ?thesis by (simp add: ends_Star_self)
  next
    case (2 x)
    have "x @ u \<in> set (ends a (s @ u))" by (rule 5(1) [OF 2(1)])
    moreover have "t @ u \<in> set (ends (Star a) (x @ u))" by (rule 5(2) [OF 2(1,2,3)])
    moreover have "length (x @ u) < length (s @ u)" using 2(2) by simp
    ultimately show ?thesis by (blast intro: ends_StarI [of "x @ u"])
  qed
qed (auto split: list.splits if_splits)

lemma search_from_append: "search_from ok r prev s \<Longrightarrow> search_from ok r prev (s @ u)"
proof (induction s arbitrary: prev)
  case Nil
  then have "ok prev" "ends r [] \<noteq> []" by (simp_all add: search_from.simps)
  then obtain t where "t \<in> set (ends r [])" by (cases "ends r []") auto
  from ends_append [OF this, of u] have "ends r u \<noteq> []" by auto
  with \<open>ok prev\<close> show ?case by (simp add: search_from.simps)
next
  case (Cons c cs)
  then consider "ok prev" "ends r (c # cs) \<noteq> []" | "search_from ok r (Some c) cs"
    by (auto simp: search_from.simps [of _ _ _ "c # cs"])
  then show ?case
  proof cases
    case 1
    then obtain t where "t \<in> set (ends r (c # cs))" by (cases "ends r (c # cs)") auto
    from ends_append [OF this, of u] have "ends r (c # cs @ u) \<noteq> []" by auto
    with 1 show ?thesis by (simp add: search_from.simps)
  next
    case 2
    with Cons.IH show ?thesis by (simp add: search_from.simps [of _ _ _ "c # cs @ u"])
  qed
qed

lemma search_prefix: "\<not> search ok r (s @ u) \<Longrightarrow> \<not> search ok r s"
  using search_from_append unfolding search_def by blast

lemma ends_suffix: "t \<in> set (ends r s) \<Longrightarrow> \<exists>u. s = u @ t"
proof (induction r s arbitrary: t rule: ends.induct)
  case (3 a b s)
  then obtain x where "x \<in> set (ends a s)" "t \<in> set (ends b x)" by auto
  with 3 obtain u v where "s = u @ x" "x = v @ t" by blast
  then show ?case by simp
next
  case (5 a s)
  from 5(3) show ?case
  proof (cases rule: ends_StarE)
    case 1
    then show ?thesis by simp
  next
    case (2 x)
    with 5(1) [OF 2(1)] 5(2) [OF 2(1,2,3)] obtain u v where "s = u @ x" "x = v @ t" by blast
    then show ?thesis by simp
  qed
qed (auto split: list.splits if_splits)

lemma ends_lit: "ends (lit w) s = (if starts_with w s then [drop (length w) s] else [])"
proof (induction w arbitrary: s)
  case Nil
  then show ?case by (simp add: lit_def starts_with_def)
next
  case (Cons c w)
  have l: "lit (c # w) = Cat (Class (\<lambda>x. x = c)) (lit w)" by (simp add: lit_def)
  show ?case unfolding l by (cases s) (auto simp: Cons.IH starts_with_def)
qed

lemma ends_lit_ci: "ends (lit_ci w) s = (if starts_with w (lower s) then [drop (length w) s] else [])"
proof (induction w arbitrary: s)
  case Nil
  then show ?case by (simp add: lit_ci_def starts_with_def)
next
  case (Cons c w)
  have l: "lit_ci (c # w) = Cat (Class (\<lambda>x. lower_char x = c)) (lit_ci w)" by (simp add: lit_ci_def)
  show ?case unfolding l by (cases s) (auto simp: Cons.IH starts_with_def lower_def)
qed

text \<open>The first match of a repeated class takes all it can.\<close>

lemma ends_Star_Class: "\<exists>ts. ends (Star (Class P)) s = dropWhile P s # ts"
proof (induction s)
  case Nil
  then show ?case by (simp add: ends.simps(5))
next
  case (Cons c cs)
  then obtain ts where "ends (Star (Class P)) cs = dropWhile P cs # ts" ..
  then show ?case by (subst ends.simps(5)) simp
qed

section \<open>What is found\<close>

lemma matched_append [simp]: "matched (u @ t) t = u"
  by (simp add: matched_def)

lemma ends_matched: "t \<in> set (ends r s) \<Longrightarrow> s = matched s t @ t"
  using ends_suffix [of t r s] by auto

lemma contains_infix: "contains p s \<longleftrightarrow> (\<exists>u v. s = u @ p @ v)"
proof (induction s)
  case (Cons c cs)
  have "starts_with p (c # cs) \<longleftrightarrow> (\<exists>v. c # cs = p @ v)"
    by (auto simp: starts_with_def) (metis append_take_drop_id)
  then show ?case
    using Cons.IH by (auto simp: Cons_eq_append_conv)
qed simp

lemma findall_found: "x \<in> set (findall r s) \<Longrightarrow> \<exists>u v. s = u @ x @ v \<and> v \<in> set (ends r (x @ v)) \<and> x \<noteq> []"
proof (induction r s rule: findall.induct)
  case (1 r s)
  show ?case
  proof (cases s)
    case Nil
    with 1(4) show ?thesis by (simp add: findall.simps)
  next
    case (Cons c cs)
    show ?thesis
    proof (cases "ends r s")
      case Nil
      with 1(4) Cons have "x \<in> set (findall r cs)" by (subst (asm) findall.simps) simp
      with 1(1) [OF Cons Nil] obtain u v where "cs = u @ x @ v" "v \<in> set (ends r (x @ v))" "x \<noteq> []" by blast
      with Cons show ?thesis by (intro exI [of _ "c # u"] exI [of _ v]) auto
    next
      case (Cons t ts)
      show ?thesis
      proof (cases "length t < length s")
        case True
        with 1(4) Cons \<open>s = c # cs\<close> consider "x = matched s t" | "x \<in> set (findall r t)"
          by (subst (asm) findall.simps) auto
        then show ?thesis
        proof cases
          case 1
          have "s = x @ t" using ends_matched [of t r s] Cons 1 by simp
          with Cons True show ?thesis by (intro exI [of _ "[]"] exI [of _ t]) auto
        next
          case 2
          with 1(2) [OF \<open>s = c # cs\<close> Cons True] obtain u v where "t = u @ x @ v" "v \<in> set (ends r (x @ v))" "x \<noteq> []" by blast
          with ends_matched [of t r s] Cons show ?thesis by (intro exI [of _ "matched s t @ u"] exI [of _ v]) auto
        qed
      next
        case False
        with 1(4) Cons \<open>s = c # cs\<close> have "x \<in> set (findall r cs)" by (subst (asm) findall.simps) simp
        with 1(3) [OF \<open>s = c # cs\<close> Cons False] obtain u v where "cs = u @ x @ v" "v \<in> set (ends r (x @ v))" "x \<noteq> []" by blast
        with \<open>s = c # cs\<close> show ?thesis by (intro exI [of _ "c # u"] exI [of _ v]) auto
      qed
    qed
  qed
qed

end
