(* ===== verification/Gtm_Check.thy ===== *)
theory Gtm_Check
  imports French_Text Regex Py_Dict "HOL-Library.Multiset"
begin

text \<open>
  The static analysis of a page's Google Tag Manager set-up (\<open>app/services/gtm_check.py\<close>) on the snapshot
  of the page (\<open>app/services/page_fetch.py\<close>). The network fetch is a parameter, \<open>None\<close> for an
  \<open>httpx.HTTPError\<close>. Patterns are the source's regular expressions over ASCII texts; \<open>\b\<close> after a tag's
  name is written as what may follow it. The lemmas say what a container is and which findings a page gets.
\<close>

record page_snapshot =
  pg_url :: string
  pg_final_url :: string
  pg_status :: int
  pg_html :: string
  pg_headers :: "(string \<times> string) list"
  pg_redirected :: bool
  pg_history :: "(int \<times> string) list"

datatype severity = Sev_low | Sev_medium | Sev_high

record gtm_finding =
  gf_code :: string
  gf_severity :: severity
  gf_title :: string
  gf_detail :: string

datatype snippet_form = Standard | Custom_loader | Noscript_only | Absent

record gtm_check =
  gc_containers :: "string list"
  gc_ga4_tags :: "string list"
  gc_snippet_in_head :: "bool option"
  gc_snippet_form :: snippet_form
  gc_data_layer_name :: string
  gc_consent_platform :: "string option"
  gc_consent_gated :: bool
  gc_csp_present :: bool
  gc_csp_allows_gtm :: "bool option"
  gc_csp_blocks_preview :: "bool option"
  gc_server_side :: bool
  gc_query_stripped :: bool
  gc_findings :: "gtm_finding list"
  gc_checked_at :: "datetime option"
  gc_error :: "string option"

definition default_gtm_check :: gtm_check where
  "default_gtm_check = \<lparr>gc_containers = [], gc_ga4_tags = [], gc_snippet_in_head = None,
     gc_snippet_form = Absent, gc_data_layer_name = ''dataLayer'', gc_consent_platform = None,
     gc_consent_gated = False, gc_csp_present = False, gc_csp_allows_gtm = None,
     gc_csp_blocks_preview = None, gc_server_side = False, gc_query_stripped = False, gc_findings = [],
     gc_checked_at = None, gc_error = None\<rparr>"

section \<open>Patterns\<close>

definition upper_or_digit :: "char \<Rightarrow> bool" where
  "upper_or_digit c = (is_digit c \<or> (let n = (of_char c :: nat) in 65 \<le> n \<and> n \<le> 90))"

definition in_tag :: re where "in_tag = Star (Class (\<lambda>c. c \<noteq> CHR ''>''))"

text \<open>The text of a tag after its name starts with a character no name holds.\<close>

definition after_name :: re where
  "after_name = Cat (Class (\<lambda>c. c \<noteq> CHR ''>'' \<and> \<not> word_char c)) in_tag"

definition CONTAINER :: re where
  "CONTAINER = Cat (lit ''GTM-'') (at_least 4 (Class upper_or_digit))"

definition GA4_ID :: re where
  "GA4_ID = Cat (lit ''G-'') (at_least 6 (Class upper_or_digit))"

definition DL_SNIPPET_PRE :: re where
  "DL_SNIPPET_PRE = sequence [lit ''('', spaces, lit ''window'', comma, lit ''document'', comma, quote_mark,
     lit ''script'', quote_mark, comma, quote_mark]"

definition DL_SNIPPET_NAME :: re where "DL_SNIPPET_NAME = plus (Class (\<lambda>c. \<not> quote_char c))"

definition DL_SNIPPET_POST :: re where
  "DL_SNIPPET_POST = sequence [quote_mark, comma, quote_mark, lit ''GTM-'']"

definition DL_URL_PRE :: re where
  "DL_URL_PRE = sequence [lit ''gtm.js?'', Star (Class (\<lambda>c. \<not> quote_char c)), Class (\<lambda>c. c = CHR ''&'' \<or> c = CHR ''?''),
     lit ''l='']"

definition DL_URL_NAME :: re where "DL_URL_NAME = plus (Class word_char)"

definition GTM_JS_SRC_PRE :: re where
  "GTM_JS_SRC_PRE = sequence [lit ''src='', quote_mark, lit ''http'', opt (lit ''s''), lit ''://'']"

definition GTM_JS_SRC_HOST :: re where
  "GTM_JS_SRC_HOST = plus (Class (\<lambda>c. c \<noteq> CHR ''/'' \<and> \<not> quote_char c))"

definition GTM_JS_SRC_POST :: re where "GTM_JS_SRC_POST = lit ''/gtm.js''"

definition GTM_SCRIPT_TAG :: re where
  "GTM_SCRIPT_TAG = sequence [lit_ci ''<script'', after_name, lit_ci ''gtm.js'', in_tag, lit ''>'']"

definition INLINE_GATED_OPEN :: re where
  "INLINE_GATED_OPEN = sequence [lit_ci ''<script'', after_name, lit_ci ''type='', quote_mark, lit_ci ''text/plain'',
     quote_mark, in_tag, lit ''>'']"

definition META_TAG :: re where "META_TAG = sequence [lit_ci ''<meta'', opt after_name, lit ''>'']"

text \<open>
  The bodies of \<open>INLINE_GATED\<close>'s matches: \<open>(.*?)</script>\<close> runs to the first closing tag, in either case.
\<close>

definition lazy_body :: "string \<Rightarrow> (string \<times> string) option" where
  "lazy_body t = map_option (\<lambda>n. (take n t, drop (n + 9) t)) (find_at ''</script>'' (lower t))"

fun gated_bodies :: "string \<Rightarrow> string list" where
  "gated_bodies s = (case s of [] \<Rightarrow> []
     | c # cs \<Rightarrow> (case List.map_filter lazy_body (ends INLINE_GATED_OPEN s) of
         [] \<Rightarrow> gated_bodies cs
       | (body, rest) # _ \<Rightarrow>
           if length rest < length s then body # gated_bodies rest else gated_bodies cs))"

declare gated_bodies.simps [simp del]

section \<open>What the page shows\<close>

definition CONSENT_GATE_HINTS :: "string list" where
  "CONSENT_GATE_HINTS = [''type='' @ dquote @ ''text/plain'' @ dquote, ''type='' @ apos @ ''text/plain'' @ apos,
     ''data-cookieconsent'', ''data-cookiecategory'', ''data-category'', ''optanon-category'']"

definition CMP_SIGNATURES :: "(string \<times> string list) list" where
  "CMP_SIGNATURES = [(''onetrust'', [''otsdkstub'', ''optanon'', ''onetrust'', ''cookielaw.org'']),
     (''cookiebot'', [''cookiebot'', ''data-cbid'', ''consent.cookiebot'']),
     (''axeptio'', [''axeptio'']),
     (''didomi'', [''didomi'']),
     (''tarteaucitron'', [''tarteaucitron'']),
     (''complianz'', [''cmplz'', ''complianz'']),
     (''cookieyes'', [''cookieyes'']),
     (''osano'', [''osano'']),
     (''klaro'', [''klaro''])]"

fun sev_order :: "severity \<Rightarrow> int" where
  "sev_order Sev_high = 0"
| "sev_order Sev_medium = 1"
| "sev_order Sev_low = 2"

definition csp_content :: "string \<Rightarrow> string" where
  "csp_content tag =
    (case search_group (lit (''content='' @ dquote)) (Star (Class (\<lambda>c. c \<noteq> CHR 0x22))) (lit dquote) tag of
       Some v \<Rightarrow> lower v
     | None \<Rightarrow>
       (case search_group (lit (''content='' @ apos)) (Star (Class (\<lambda>c. c \<noteq> CHR 0x27))) (lit apos) tag of
          Some v \<Rightarrow> lower v
        | None \<Rightarrow> []))"

definition csp_value :: "page_snapshot \<Rightarrow> string option" where
  "csp_value page =
    (case map_of (pg_headers page) ''content-security-policy'' of
       Some (c # cs) \<Rightarrow> Some (lower (c # cs))
     | _ \<Rightarrow> map_option csp_content
         (List.find (\<lambda>tag. contains ''content-security-policy'' (lower tag)) (findall META_TAG (pg_html page))))"

definition consent_gated :: "string \<Rightarrow> bool" where
  "consent_gated html =
    (list_ex (\<lambda>tag. list_ex (\<lambda>hint. contains hint (lower tag)) CONSENT_GATE_HINTS) (findall GTM_SCRIPT_TAG html) \<or>
     list_ex (\<lambda>body. contains ''gtm-'' (lower body) \<or> contains ''gtm.start'' (lower body)) (gated_bodies html))"

definition inline_snippet :: "string \<Rightarrow> string option" where
  "inline_snippet html = search_group DL_SNIPPET_PRE DL_SNIPPET_NAME DL_SNIPPET_POST html"

definition gtm_js_host :: "string \<Rightarrow> string option" where
  "gtm_js_host html = search_group GTM_JS_SRC_PRE GTM_JS_SRC_HOST GTM_JS_SRC_POST html"

definition data_layer_name :: "string \<Rightarrow> string" where
  "data_layer_name html =
    (case inline_snippet html of Some n \<Rightarrow> n
     | None \<Rightarrow> (case search_group DL_URL_PRE DL_URL_NAME Eps html of Some n \<Rightarrow> n | None \<Rightarrow> ''dataLayer''))"

definition form_of :: "string \<Rightarrow> string list \<Rightarrow> bool \<Rightarrow> snippet_form" where
  "form_of html containers has_ns =
    (if contains ''googletagmanager.com/gtm.js'' (lower html) \<or> gtm_js_host html \<noteq> None \<or> inline_snippet html \<noteq> None
     then Standard
     else if has_ns then Noscript_only
     else if containers \<noteq> [] then Custom_loader else Absent)"

definition head_position :: "string \<Rightarrow> string list \<Rightarrow> snippet_form \<Rightarrow> bool option" where
  "head_position low containers form =
    (let head_end = find_at ''</head>'' low;
         marker = (case (find_at ''gtm.js'' low, containers) of
             (None, c # _) \<Rightarrow> find_at (lower c) low
           | (m, _) \<Rightarrow> m)
     in if form = Absent then None
        else case (marker, head_end) of
            (None, _) \<Rightarrow> None
          | (Some m, None) \<Rightarrow> Some True
          | (Some m, Some h) \<Rightarrow> Some (m < h))"

definition consent_platform_of :: "string \<Rightarrow> string option" where
  "consent_platform_of low =
     map_option fst (List.find (\<lambda>(name, needles). list_ex (\<lambda>n. contains n low) needles) CMP_SIGNATURES)"

section \<open>Findings\<close>

definition finding_if :: "bool \<Rightarrow> string \<Rightarrow> severity \<Rightarrow> string \<Rightarrow> string \<Rightarrow> gtm_finding list" where
  "finding_if cond code sev title detail =
     (if cond then [\<lparr>gf_code = code, gf_severity = sev, gf_title = title, gf_detail = detail\<rparr>] else [])"

definition csp_finding :: "gtm_check \<Rightarrow> gtm_finding list" where
  "csp_finding c = finding_if (gc_csp_blocks_preview c = Some True) ''gtm_preview_csp_block'' Sev_high
    (''La politique de securite de contenu bloque la previsualisation GTM'')
    (''La CSP de la page ne liste pas googletagmanager.com : le mode previsualisation de Tag ''
    @ ''Manager (et Tag Assistant) ne peut pas se connecter. Ajouter *.googletagmanager.com et ''
    @ ''tagassistant.google.com aux directives script-src, connect-src et frame-src.'')"

definition gated_finding :: "gtm_check \<Rightarrow> gtm_finding list" where
  "gated_finding c = finding_if (gc_consent_gated c) ''gtm_consent_gated'' Sev_medium
    (''GTM est gele tant que le visiteur n'' @ apos @ ''a pas accepte les cookies'')
    (''Le script GTM est charge en type='' @ dquote @ ''text/plain'' @ dquote
     @ (case gc_consent_platform c of Some (n # ns) \<Rightarrow> '' ('' @ (n # ns) @ '')'' | _ \<Rightarrow> [])
     @ '' : il ne s'' @ apos @ ''execute qu'' @ apos
    @ ''apres accord de consentement. Tant que la banniere n'' @ apos
    @ ''est pas acceptee, la previsualisation reste vide. Verifier la categorie de consentement ''
    @ ''affectee au tag GTM.'')"

definition layer_finding :: "gtm_check \<Rightarrow> gtm_finding list" where
  "layer_finding c = finding_if (gc_data_layer_name c \<noteq> ''dataLayer'') ''gtm_custom_datalayer'' Sev_medium
    (''Le data layer est renomme en '' @ guil_l @ '' '' @ gc_data_layer_name c @ '' '' @ guil_r)
    (''Le mode previsualisation et de nombreux modeles de tags supposent un objet nomme '' @ backtick
    @ ''dataLayer'' @ backtick @ ''. Un nom personnalise casse les integrations qui poussent vers ''
    @ backtick @ ''dataLayer'' @ backtick @ '' sans le savoir.'')"

definition multiple_finding :: "gtm_check \<Rightarrow> gtm_finding list" where
  "multiple_finding c = finding_if (2 \<le> length (gc_containers c)) ''gtm_multiple_containers'' Sev_medium
    (str_nat (length (gc_containers c)) @ '' conteneurs GTM sur la page ('' @ join '', '' (gc_containers c) @ '')'')
    (''Plusieurs conteneurs se chargent simultanement : la previsualisation peut s'' @ apos
    @ ''attacher au mauvais, et les tags risquent de se declencher en double. Consolider sur un ''
    @ ''seul conteneur.'')"

definition noscript_finding :: "gtm_check \<Rightarrow> gtm_finding list" where
  "noscript_finding c = finding_if (gc_snippet_form c = Noscript_only) ''gtm_noscript_only'' Sev_medium
    (''Seule la balise <noscript> de GTM est presente'')
    (''Le fragment JavaScript principal de GTM est absent : seul l'' @ apos
    @ ''iframe de repli <noscript> a ete pose. GTM ne se charge pas pour les visiteurs avec ''
    @ ''JavaScript actif. Reinserer le snippet complet dans <head>.'')"

definition head_finding :: "gtm_check \<Rightarrow> gtm_finding list" where
  "head_finding c =
    finding_if (gc_snippet_form c \<in> {Standard, Custom_loader} \<and> gc_snippet_in_head c = Some False)
    ''gtm_snippet_not_in_head'' Sev_low
    (''Le snippet GTM n'' @ apos @ ''est pas dans <head>'')
    (''Le snippet est charge plus bas dans la page : les evenements et tags declenches avant ''
    @ ''son chargement sont perdus. Le placer le plus haut possible dans <head>.'')"

definition server_finding :: "gtm_check \<Rightarrow> gtm_finding list" where
  "server_finding c = finding_if (gc_server_side c) ''gtm_server_side'' Sev_low
    (''Conteneur servi en first-party (server-side GTM)'')
    (''gtm.js est servi depuis un domaine personnalise. La previsualisation d'' @ apos
    @ ''un conteneur web servi en first-party demande une configuration specifique ''
    @ ''(transport_url) '' @ em_dash @ '' a verifier si le preview echoue.'')"

definition hardcoded_finding :: "gtm_check \<Rightarrow> gtm_finding list" where
  "hardcoded_finding c = finding_if (gc_ga4_tags c \<noteq> []) ''ga4_hardcoded_alongside_gtm'' Sev_low
    (''GA4 est cable en dur sur la page en plus de GTM ('' @ join '', '' (gc_ga4_tags c) @ '')'')
    (''Un tag gtag.js GA4 est present dans le code de la page alors qu'' @ apos
    @ ''un conteneur GTM existe. Risque de double comptage si GA4 est aussi declenche depuis ''
    @ ''GTM. Choisir une seule source.'')"

definition stripped_finding :: "gtm_check \<Rightarrow> gtm_finding list" where
  "stripped_finding c = finding_if (gc_query_stripped c) ''gtm_query_stripped'' Sev_low
    (''La page redirige : verifier que les parametres de previsualisation survivent'')
    (''L'' @ apos @ ''URL redirige avant de servir le contenu. Le mode previsualisation de GTM ajoute ''
    @ ''?gtm_debug / ?gtm_auth / ?gtm_preview a l'' @ apos
    @ ''URL : si la redirection les retire, la previsualisation ne peut pas s'' @ apos
    @ ''accrocher. A verifier manuellement en ouvrant la preview.'')"

text \<open>The keyword arguments of \<open>_build_findings\<close> are fields of the result under construction.\<close>

definition build_findings :: "gtm_check \<Rightarrow> gtm_finding list" where
  "build_findings c = sort_key (\<lambda>f. sev_order (gf_severity f))
     (csp_finding c @ gated_finding c @ layer_finding c @ multiple_finding c @ noscript_finding c @
      head_finding c @ server_finding c @ hardcoded_finding c @ stripped_finding c)"

definition observed :: "page_snapshot \<Rightarrow> string list \<Rightarrow> bool \<Rightarrow> gtm_check" where
  "observed page containers has_ns =
    (let html = pg_html page;
         low = lower html;
         form = form_of html containers has_ns;
         csp = csp_value page;
         allows = map_option (contains ''googletagmanager.com'') csp
     in default_gtm_check\<lparr>
          gc_containers := containers,
          gc_ga4_tags := (if contains ''googletagmanager.com/gtag/js'' low then from_keys (findall GA4_ID html) else []),
          gc_snippet_in_head := head_position low containers form,
          gc_snippet_form := form,
          gc_data_layer_name := data_layer_name html,
          gc_consent_platform := consent_platform_of low,
          gc_consent_gated := consent_gated html,
          gc_csp_present := (csp \<noteq> None),
          gc_csp_allows_gtm := allows,
          gc_csp_blocks_preview := map_option Not allows,
          gc_server_side := (case gtm_js_host html of None \<Rightarrow> False | Some h \<Rightarrow> h \<noteq> ''www.googletagmanager.com''),
          gc_query_stripped := (pg_redirected page \<and> list_ex (\<lambda>(s, location). \<not> contains ''?'' location) (pg_history page))\<rparr>)"

definition analyze_gtm :: "page_snapshot \<Rightarrow> gtm_check" where
  "analyze_gtm page =
    (let containers = from_keys (findall CONTAINER (pg_html page));
         has_ns = contains ''googletagmanager.com/ns.html'' (lower (pg_html page))
     in if containers = [] \<and> \<not> has_ns then default_gtm_check
        else (let c = observed page containers has_ns in c\<lparr>gc_findings := build_findings c\<rparr>))"

definition remove_prefix :: "string \<Rightarrow> string \<Rightarrow> string" where
  "remove_prefix p s = (if starts_with p s then drop (length p) s else s)"

definition html_response :: "page_snapshot \<Rightarrow> bool" where
  "html_response page = contains ''html'' (lower (get_default [] (pg_headers page) ''content-type''))"

definition check_gtm :: "(string \<Rightarrow> bool \<Rightarrow> page_snapshot option) \<Rightarrow> datetime \<Rightarrow> string \<Rightarrow> bool \<Rightarrow> gtm_check" where
  "check_gtm fetch_page now domain allow_insecure =
    (case fetch_page (''https://'' @ remove_prefix ''www.'' (lower (strip domain))) allow_insecure of
       None \<Rightarrow> default_gtm_check\<lparr>gc_error := Some ''fetch_error'', gc_checked_at := Some now\<rparr>
     | Some page \<Rightarrow>
         if 400 \<le> pg_status page then default_gtm_check\<lparr>gc_error := Some ''http_error'', gc_checked_at := Some now\<rparr>
         else if \<not> html_response page
         then default_gtm_check\<lparr>gc_error := Some ''non_html'', gc_checked_at := Some now\<rparr>
         else (analyze_gtm page)\<lparr>gc_checked_at := Some now\<rparr>)"

section \<open>What the result holds together\<close>

lemmas finding_defs = csp_finding_def gated_finding_def layer_finding_def multiple_finding_def noscript_finding_def
  head_finding_def server_finding_def hardcoded_finding_def stripped_finding_def finding_if_def

definition finding_conditions :: "gtm_check \<Rightarrow> (string \<times> bool) list" where
  "finding_conditions c = [
     (''gtm_preview_csp_block'', gc_csp_blocks_preview c = Some True),
     (''gtm_consent_gated'', gc_consent_gated c),
     (''gtm_custom_datalayer'', gc_data_layer_name c \<noteq> ''dataLayer''),
     (''gtm_multiple_containers'', 2 \<le> length (gc_containers c)),
     (''gtm_noscript_only'', gc_snippet_form c = Noscript_only),
     (''gtm_snippet_not_in_head'', gc_snippet_form c \<in> {Standard, Custom_loader} \<and> gc_snippet_in_head c = Some False),
     (''gtm_server_side'', gc_server_side c),
     (''ga4_hardcoded_alongside_gtm'', gc_ga4_tags c \<noteq> []),
     (''gtm_query_stripped'', gc_query_stripped c)]"

lemma codes_of_findings:
  "map gf_code (csp_finding c @ gated_finding c @ layer_finding c @ multiple_finding c @ noscript_finding c @
     head_finding c @ server_finding c @ hardcoded_finding c @ stripped_finding c) =
   map fst (filter snd (finding_conditions c))"
  by (simp add: finding_conditions_def finding_defs)

lemma distinct_codes: "distinct (map fst (filter snd (finding_conditions c)))"
  by (rule distinct_map_filter) (simp add: finding_conditions_def)

lemma mset_codes: "mset (map gf_code (build_findings c)) = mset (map fst (filter snd (finding_conditions c)))"
  unfolding build_findings_def codes_of_findings [symmetric] by (simp only: mset_map mset_sort)

lemma build_findings_facts:
  "distinct (map gf_code (build_findings c))"
  "set (map gf_code (build_findings c)) = set (map fst (filter snd (finding_conditions c)))"
  "sorted (map (\<lambda>f. sev_order (gf_severity f)) (build_findings c))"
  using mset_eq_imp_distinct_iff [OF mset_codes [of c]] mset_eq_setD [OF mset_codes [of c]] distinct_codes [of c]
  by (auto simp: build_findings_def)

lemma analyze_gtm_cases:
  "analyze_gtm page = default_gtm_check \<or> (\<exists>c. analyze_gtm page = c\<lparr>gc_findings := build_findings c\<rparr>)"
  unfolding analyze_gtm_def Let_def by (metis (no_types))

lemma conditions_update: "finding_conditions (c\<lparr>gc_findings := fs\<rparr>) = finding_conditions c"
  by (simp add: finding_conditions_def)

text \<open>
  The findings of the GTM analysis of any page follow from the rest of its result: each of the nine
  findings is reported exactly when its condition holds of the result's other fields, never twice, and the
  most severe ones come first. A page without any trace of GTM has none.
\<close>

lemma gtm_findings_exact:
  "distinct (map gf_code (gc_findings (analyze_gtm page))) \<and>
   set (map gf_code (gc_findings (analyze_gtm page))) = set (map fst (filter snd (finding_conditions (analyze_gtm page)))) \<and>
   sorted (map (\<lambda>f. sev_order (gf_severity f)) (gc_findings (analyze_gtm page)))"
proof -
  consider "analyze_gtm page = default_gtm_check" | c where "analyze_gtm page = c\<lparr>gc_findings := build_findings c\<rparr>"
    using analyze_gtm_cases by blast
  then show ?thesis
  proof cases
    case 1
    then show ?thesis by (simp add: default_gtm_check_def finding_conditions_def)
  next
    case (2 c)
    then show ?thesis using build_findings_facts [of c] by (simp add: conditions_update)
  qed
qed

end
