(* ===== verification/Json.thy ===== *)
theory Json
  imports Metric_Types Py_Dict
begin

text \<open>
  The values Python reads from and writes to JSON, as the code inspects them: an object is the list of its
  entries in order, a number or a boolean is a \<open>py_number\<close>. Truth values, \<open>d.get(k, default)\<close>, and
  \<open>float(x)\<close> of such a value with the exceptions it raises. A float is the exact rational; what rounding
  can make of a numeral that matters to the code, zero or infinity, is kept.
\<close>

datatype json =
    JNull
  | JNum py_number
  | JStr string
  | JList "json list"
  | JDict "(string \<times> json) list"

type_synonym json_dict = "(string \<times> json) list"

abbreviation JBool :: "bool \<Rightarrow> json" where "JBool b \<equiv> JNum (PyBool b)"
abbreviation JInt :: "int \<Rightarrow> json" where "JInt n \<equiv> JNum (PyInt n)"

definition texts :: "string list \<Rightarrow> json" where
  "texts xs = JList (map JStr xs)"

fun number_true :: "py_number \<Rightarrow> bool" where
  "number_true (PyBool b) = b"
| "number_true (PyInt n) = (n \<noteq> 0)"
| "number_true (PyFloat q) = (q \<noteq> 0)"
| "number_true _ = True"

fun truthy :: "json \<Rightarrow> bool" where
  "truthy JNull = False"
| "truthy (JNum n) = number_true n"
| "truthy (JStr s) = (s \<noteq> [])"
| "truthy (JList xs) = (xs \<noteq> [])"
| "truthy (JDict d) = (d \<noteq> [])"

fun is_dict :: "json \<Rightarrow> bool" where
  "is_dict (JDict d) = True"
| "is_dict _ = False"

text \<open>\<open>d.get(k)\<close> and \<open>d.get(k, default)\<close>.\<close>

definition jget :: "json_dict \<Rightarrow> string \<Rightarrow> json" where
  "jget d k = get_default JNull d k"

text \<open>\<open>x > 0\<close> and \<open>int(x)\<close> of a number.\<close>

fun positive :: "py_number \<Rightarrow> bool" where
  "positive (PyBool b) = b"
| "positive (PyInt n) = (0 < n)"
| "positive (PyFloat q) = (0 < q)"
| "positive PyInf = True"
| "positive PyNegInf = False"
| "positive PyNaN = False"

definition truncate :: "rat \<Rightarrow> int" where
  "truncate q = (if 0 \<le> q then \<lfloor>q\<rfloor> else - \<lfloor>- q\<rfloor>)"

fun py_int :: "py_number \<Rightarrow> int result" where
  "py_int (PyBool b) = Inr (if b then 1 else 0)"
| "py_int (PyInt n) = Inr n"
| "py_int (PyFloat q) = Inr (truncate q)"
| "py_int PyInf = Inl OverflowError"
| "py_int PyNegInf = Inl OverflowError"
| "py_int PyNaN = Inl ValueError"

text \<open>\<open>round\<close> rounds half to even.\<close>

definition py_round :: "rat \<Rightarrow> int" where
  "py_round q =
    (let f = \<lfloor>q\<rfloor>
     in if q - of_int f < 1 / 2 then f else if 1 / 2 < q - of_int f then f + 1
        else if even f then f else f + 1)"

text \<open>\<open>round(x)\<close> of a number, and a number printed with so many decimals (\<open>f"{x:.2f}"\<close>).\<close>

fun round_number :: "py_number \<Rightarrow> int result" where
  "round_number (PyBool b) = Inr (if b then 1 else 0)"
| "round_number (PyInt n) = Inr n"
| "round_number (PyFloat q) = Inr (py_round q)"
| "round_number PyNaN = Inl ValueError"
| "round_number _ = Inl OverflowError"

definition fixed_rat :: "nat \<Rightarrow> rat \<Rightarrow> string" where
  "fixed_rat d q =
    (let n = nat (py_round (\<bar>q\<bar> * 10 ^ d))
     in (if q < 0 then ''-'' else []) @ str_nat (n div 10 ^ d) @ ''.'' @ dec d (n mod 10 ^ d))"

fun fixed_number :: "nat \<Rightarrow> py_number \<Rightarrow> string" where
  "fixed_number d (PyBool b) = fixed_rat d (if b then 1 else 0)"
| "fixed_number d (PyInt n) = fixed_rat d (of_int n)"
| "fixed_number d (PyFloat q) = fixed_rat d q"
| "fixed_number d PyInf = ''inf''"
| "fixed_number d PyNegInf = ''-inf''"
| "fixed_number d PyNaN = ''nan''"

lemma py_round_close: "of_int (py_round q) \<le> q + 1 / 2" "q - 1 / 2 \<le> of_int (py_round q)"
proof -
  have f: "of_int \<lfloor>q\<rfloor> \<le> q" "q < of_int \<lfloor>q\<rfloor> + 1" by linarith+
  then show "of_int (py_round q) \<le> q + 1 / 2" "q - 1 / 2 \<le> of_int (py_round q)"
    unfolding py_round_def Let_def by (simp_all split: if_splits) linarith+
qed

section \<open>float(x)\<close>

text \<open>
  The least magnitude that rounds to infinity and the greatest one that rounds to zero, in double
  precision. An integer too large for a float raises, a numeral does not.
\<close>

definition OVERFLOW :: int where "OVERFLOW = 2 ^ 1024 - 2 ^ 970"

definition rounded :: "rat \<Rightarrow> py_number" where
  "rounded q = (if of_int OVERFLOW \<le> q then PyInf else if q \<le> - of_int OVERFLOW then PyNegInf
     else if \<bar>q\<bar> * 2 ^ 1075 \<le> 1 then PyFloat 0 else PyFloat q)"

fun digit_of :: "char \<Rightarrow> nat option" where
  "digit_of c = (let n = (of_char c :: nat) in if 48 \<le> n \<and> n \<le> 57 then Some (n - 48) else None)"

definition numeral_digit :: "char \<Rightarrow> bool" where
  "numeral_digit c = (digit_of c \<noteq> None)"

definition digits_nat :: "string \<Rightarrow> nat" where
  "digits_nat s = fold (\<lambda>c n. 10 * n + (case digit_of c of None \<Rightarrow> 0 | Some d \<Rightarrow> d)) s 0"

text \<open>An underscore is read over where it stands between two digits, and is an error elsewhere.\<close>

fun drop_underscores :: "bool \<Rightarrow> string \<Rightarrow> string option" where
  "drop_underscores prev [] = Some []"
| "drop_underscores prev (c # cs) =
     (if c = CHR ''_''
      then (case cs of [] \<Rightarrow> None
        | d # _ \<Rightarrow> if prev \<and> numeral_digit d then drop_underscores False cs else None)
      else map_option ((#) c) (drop_underscores (numeral_digit c) cs))"

definition sign_of :: "string \<Rightarrow> bool \<times> string" where
  "sign_of s = (case s of [] \<Rightarrow> (False, [])
     | c # cs \<Rightarrow> if c = CHR ''-'' then (True, cs) else if c = CHR ''+'' then (False, cs) else (False, s))"

definition exponent_of :: "string \<Rightarrow> int option" where
  "exponent_of s = (case s of [] \<Rightarrow> Some 0
     | c # cs \<Rightarrow> if lower_char c \<noteq> CHR ''e'' then None
         else (case sign_of cs of (neg, ds) \<Rightarrow>
           if ds = [] \<or> \<not> list_all numeral_digit ds then None
           else Some (if neg then - int (digits_nat ds) else int (digits_nat ds))))"

definition scale :: "nat \<Rightarrow> int \<Rightarrow> rat" where
  "scale m e = (if 0 \<le> e then of_nat m * 10 ^ nat e else of_nat m / 10 ^ nat (- e))"

definition decimal :: "string \<Rightarrow> rat option" where
  "decimal s =
    (let whole = takeWhile numeral_digit s;
         r1 = dropWhile numeral_digit s;
         frac = (case r1 of [] \<Rightarrow> [] | c # cs \<Rightarrow> if c = CHR ''.'' then takeWhile numeral_digit cs else []);
         r2 = (case r1 of [] \<Rightarrow> [] | c # cs \<Rightarrow> if c = CHR ''.'' then dropWhile numeral_digit cs else r1)
     in if whole @ frac = [] then None
        else map_option (\<lambda>e. scale (digits_nat (whole @ frac)) (e - int (length frac))) (exponent_of r2))"

definition float_of_text :: "string \<Rightarrow> py_number result" where
  "float_of_text t =
    (case drop_underscores False (strip t) of
       None \<Rightarrow> Inl ValueError
     | Some s \<Rightarrow>
       (case sign_of s of (neg, body) \<Rightarrow>
         if lower body \<in> {''inf'', ''infinity''} then Inr (if neg then PyNegInf else PyInf)
         else if lower body = ''nan'' then Inr PyNaN
         else (case decimal body of
             None \<Rightarrow> Inl ValueError
           | Some q \<Rightarrow> Inr (rounded (if neg then - q else q)))))"

fun py_float :: "json \<Rightarrow> py_number result" where
  "py_float (JNum (PyBool b)) = Inr (PyFloat (if b then 1 else 0))"
| "py_float (JNum (PyInt n)) = (if OVERFLOW \<le> \<bar>n\<bar> then Inl OverflowError else Inr (PyFloat (of_int n)))"
| "py_float (JNum x) = Inr x"
| "py_float (JStr s) = float_of_text s"
| "py_float _ = Inl TypeError"

text \<open>A \<open>float\<close> call fails in three ways only, and what it returns is a float.\<close>

fun is_float :: "py_number \<Rightarrow> bool" where
  "is_float (PyBool b) = False"
| "is_float (PyInt n) = False"
| "is_float _ = True"

lemma is_float_rounded [simp]: "is_float (rounded q)"
  by (simp add: rounded_def)

lemma py_float_error: "py_float j = Inl e \<Longrightarrow> e \<in> {ValueError, TypeError, OverflowError}"
  by (cases j rule: py_float.cases)
    (auto simp: float_of_text_def split: if_splits option.splits prod.splits)

lemma py_float_float: "py_float j = Inr x \<Longrightarrow> is_float x"
  by (cases j rule: py_float.cases)
    (auto simp: float_of_text_def split: if_splits option.splits prod.splits)

lemma jget_Nil [simp]: "jget [] k = JNull"
  by (simp add: jget_def get_default_def)

lemma jget_Cons [simp]: "jget ((k', v) # d) k = (if k = k' then v else jget d k)"
  by (simp add: jget_def get_default_def)

end
