(* ===== verification/Google_Reader.thy ===== *)
theory Google_Reader
  imports Regex Json
begin

text \<open>
  Reading Google's APIs for the measurement plan (\<open>app/services/measurement/google_reader.py\<close>): every failure
  becomes a \<open>GoogleReadError\<close> with a stable reason, an answer of an unexpected shape is never read as an empty
  one. The HTTP client is a parameter: \<open>None\<close> for an \<open>httpx.HTTPError\<close>, otherwise the status and
  the body, \<open>None\<close> when it is no JSON. A reading is \<open>Inl (inl reason)\<close>, an exception of the runtime
  \<open>Inl (inr error)\<close>: \<open>float\<close> of an integer too large raises.
\<close>

datatype read_error = Read_reason string | Crash py_error

type_synonym 'a reading = "read_error + 'a"

record http_response =
  hr_status :: int
  hr_json :: "json option"

type_synonym http_client = "string \<Rightarrow> string \<Rightarrow> string \<Rightarrow> json \<Rightarrow> http_response option"

section \<open>Shapes\<close>

definition items_of :: "json \<Rightarrow> string \<Rightarrow> json list reading" where
  "items_of payload key =
    (case payload of
       JDict d \<Rightarrow> (case get_default (JList []) d key of JList xs \<Rightarrow> Inr xs | _ \<Rightarrow> Inl (Read_reason ''api_error''))
     | _ \<Rightarrow> Inl (Read_reason ''api_error''))"

text \<open>\<open>_metric\<close> of \<open>app/services/ga4.py\<close>: only an integer too large for a float escapes its handler.\<close>

definition metric_value :: "json list \<Rightarrow> nat \<Rightarrow> py_number result" where
  "metric_value values i =
    (if length values \<le> i then Inr (PyFloat 0)
     else case values ! i of
         JDict d \<Rightarrow> (case py_float (get_default (JInt 0) d ''value'') of
             Inl OverflowError \<Rightarrow> Inl OverflowError
           | Inl _ \<Rightarrow> Inr (PyFloat 0)
           | Inr x \<Rightarrow> Inr x)
       | _ \<Rightarrow> Inr (PyFloat 0))"

record event_stat =
  es_count :: py_number
  es_revenue :: py_number
  es_value :: py_number

type_synonym event_stats = "(string \<times> event_stat) list"

definition crash :: "'a result \<Rightarrow> 'a reading" where
  "crash r = (case r of Inl e \<Rightarrow> Inl (Crash e) | Inr x \<Rightarrow> Inr x)"

definition event_stat_of :: "json list \<Rightarrow> event_stat reading" where
  "event_stat_of ms =
     try_bind (crash (metric_value ms 0)) (\<lambda>n.
     try_bind (crash (metric_value ms 1)) (\<lambda>r.
     try_bind (crash (metric_value ms 2)) (\<lambda>v. Inr \<lparr>es_count = n, es_revenue = r, es_value = v\<rparr>)))"

definition first_value :: "json list \<Rightarrow> json option" where
  "first_value dims = (case dims of JDict d # _ \<Rightarrow> Some (jget d ''value'') | _ \<Rightarrow> None)"

definition event_row :: "json \<Rightarrow> event_stats \<Rightarrow> event_stats reading" where
  "event_row row stats =
    (if \<not> is_dict row then Inl (Read_reason ''api_error'')
     else try_bind (items_of row ''dimensionValues'') (\<lambda>dims.
       try_bind (items_of row ''metricValues'') (\<lambda>metrics.
         case first_value dims of
           Some (JStr (c # cs)) \<Rightarrow> try_bind (event_stat_of metrics) (\<lambda>s. Inr (dict_set (c # cs) s stats))
         | _ \<Rightarrow> Inr stats)))"

fun event_rows :: "json list \<Rightarrow> event_stats \<Rightarrow> event_stats reading" where
  "event_rows [] stats = Inr stats"
| "event_rows (row # rows) stats = try_bind (event_row row stats) (event_rows rows)"

definition parse_event_stats :: "json \<Rightarrow> event_stats reading" where
  "parse_event_stats payload = try_bind (items_of payload ''rows'') (\<lambda>rows. event_rows rows [])"

fun web_streams_from :: "json list \<Rightarrow> json_dict list reading" where
  "web_streams_from [] = Inr []"
| "web_streams_from (JDict d # rest) =
    (if jget d ''type'' \<noteq> JStr ''WEB_DATA_STREAM'' then web_streams_from rest
     else case jget d ''webStreamData'' of
         JNull \<Rightarrow> web_streams_from rest
       | JDict web \<Rightarrow> try_bind (web_streams_from rest) (\<lambda>ws. Inr (web # ws))
       | _ \<Rightarrow> Inl (Read_reason ''api_error''))"
| "web_streams_from (_ # rest) = Inl (Read_reason ''api_error'')"

definition web_streams_of :: "json \<Rightarrow> json_dict list reading" where
  "web_streams_of payload = try_bind (items_of payload ''dataStreams'') web_streams_from"

section \<open>Statuses\<close>

definition QUOTA_REASONS :: "string list" where
  "QUOTA_REASONS = [''RESOURCE_EXHAUSTED'', ''rateLimitExceeded'', ''userRateLimitExceeded'', ''dailyLimitExceeded'',
     ''quotaExceeded'']"

definition reasons_in :: "json \<Rightarrow> string list" where
  "reasons_in items = (case items of
       JList xs \<Rightarrow> List.map_filter (\<lambda>x. case x of
           JDict d \<Rightarrow> (case jget d ''reason'' of JStr r \<Rightarrow> Some r | _ \<Rightarrow> None) | _ \<Rightarrow> None) xs
     | _ \<Rightarrow> [])"

definition error_reasons :: "http_response \<Rightarrow> string list" where
  "error_reasons response =
    (case hr_json response of
       Some (JDict body) \<Rightarrow>
         (case jget body ''error'' of
            JDict error \<Rightarrow> (case jget error ''status'' of JStr s \<Rightarrow> [s] | _ \<Rightarrow> []) @
              reasons_in (jget error ''errors'') @ reasons_in (jget error ''details'')
          | _ \<Rightarrow> [])
     | _ \<Rightarrow> [])"

definition raise_for_status :: "http_response \<Rightarrow> unit reading" where
  "raise_for_status response =
    (let code = hr_status response
     in if code < 400 then Inr ()
        else if code = 401 then Inl (Read_reason ''token_unavailable'')
        else if code = 403 then
          (if list_ex (\<lambda>r. r \<in> set QUOTA_REASONS) (error_reasons response) then Inl (Read_reason ''quota'')
           else Inl (Read_reason ''permission_or_api_disabled''))
        else if code = 404 then Inl (Read_reason ''not_found'')
        else if code = 429 then Inl (Read_reason ''quota'')
        else Inl (Read_reason ''api_error''))"

section \<open>The reader\<close>

record http_reader =
  rd_ga4_token :: "string option"
  rd_ga4_property :: "string option"
  rd_gsc_token :: "string option"
  rd_gsc_site :: "string option"
  rd_gsc_state :: string

text \<open>\<open>property_id.rsplit("/", 1)[-1].strip()\<close>.\<close>

definition property_number :: "string \<Rightarrow> string" where
  "property_number p = strip (rev (takeWhile (\<lambda>c. c \<noteq> CHR ''/'') (rev p)))"

definition ga4_access :: "http_reader \<Rightarrow> (string \<times> string) reading" where
  "ga4_access rd =
    (case rd_ga4_property rd of
       Some (p # ps) \<Rightarrow> (case rd_ga4_token rd of
           Some (t # ts) \<Rightarrow> Inr (t # ts, property_number (p # ps))
         | _ \<Rightarrow> Inl (Read_reason ''token_unavailable''))
     | _ \<Rightarrow> Inl (Read_reason ''ga4_not_connected''))"

definition gsc_access :: "http_reader \<Rightarrow> (string \<times> string) reading" where
  "gsc_access rd =
    (case rd_gsc_site rd of
       Some (p # ps) \<Rightarrow> (case rd_gsc_token rd of
           Some (t # ts) \<Rightarrow> Inr (t # ts, p # ps)
         | _ \<Rightarrow> Inl (Read_reason ''token_unavailable''))
     | _ \<Rightarrow> Inl (Read_reason ''gsc_not_connected''))"

definition read_request :: "http_client \<Rightarrow> string \<Rightarrow> string \<Rightarrow> string \<Rightarrow> json \<Rightarrow> json reading" where
  "read_request http http_method url token body =
    (case http http_method url token body of
       None \<Rightarrow> Inl (Read_reason ''network'')
     | Some response \<Rightarrow> try_bind (raise_for_status response) (\<lambda>_.
         case hr_json response of None \<Rightarrow> Inl (Read_reason ''api_error'') | Some j \<Rightarrow> Inr j))"

definition admin_url :: "string \<Rightarrow> string" where
  "admin_url pid = ''https://analyticsadmin.googleapis.com/v1beta/properties/'' @ pid"

definition report_url :: "string \<Rightarrow> string" where
  "report_url pid = ''https://analyticsdata.googleapis.com/v1beta/properties/'' @ pid @ '':runReport''"

text \<open>\<open>quote(site, safe="")\<close>: letters, digits and \<open>_.-~\<close> are kept, any other byte is escaped.\<close>

definition upper_hex :: "nat \<Rightarrow> char" where "upper_hex n = ''0123456789ABCDEF'' ! n"

definition quote_byte :: "char \<Rightarrow> string" where
  "quote_byte c = (if is_alpha c \<or> is_digit c \<or> c \<in> set ''_.-~'' then [c]
     else (let n = of_char c in [CHR ''%'', upper_hex (n div 16), upper_hex (n mod 16)]))"

definition url_quote :: "string \<Rightarrow> string" where
  "url_quote s = concat (map quote_byte s)"

definition sitemaps_url :: "string \<Rightarrow> string" where
  "sitemaps_url site = ''https://searchconsole.googleapis.com/webmasters/v3/sites/'' @ url_quote site @ ''/sitemaps''"

definition event_stats_body :: json where
  "event_stats_body = JDict [
     (''dateRanges'', JList [JDict [(''startDate'', JStr ''30daysAgo''), (''endDate'', JStr ''today'')]]),
     (''dimensions'', JList [JDict [(''name'', JStr ''eventName'')]]),
     (''metrics'', JList [JDict [(''name'', JStr ''eventCount'')], JDict [(''name'', JStr ''totalRevenue'')],
        JDict [(''name'', JStr ''eventValue'')]])]"

definition read_event_stats :: "http_client \<Rightarrow> http_reader \<Rightarrow> event_stats reading" where
  "read_event_stats http rd =
     try_bind (ga4_access rd) (\<lambda>(token, pid).
     try_bind (read_request http ''POST'' (report_url pid) token event_stats_body) parse_event_stats)"

definition read_key_events :: "http_client \<Rightarrow> http_reader \<Rightarrow> json list reading" where
  "read_key_events http rd =
     try_bind (ga4_access rd) (\<lambda>(token, pid).
     try_bind (read_request http ''GET'' (admin_url pid @ ''/keyEvents'') token JNull) (\<lambda>payload.
     try_bind (items_of payload ''keyEvents'') (\<lambda>xs. Inr (filter is_dict xs))))"

definition read_ads_links_count :: "http_client \<Rightarrow> http_reader \<Rightarrow> int reading" where
  "read_ads_links_count http rd =
     try_bind (ga4_access rd) (\<lambda>(token, pid).
     try_bind (read_request http ''GET'' (admin_url pid @ ''/googleAdsLinks'') token JNull) (\<lambda>payload.
     try_bind (items_of payload ''googleAdsLinks'') (\<lambda>xs. Inr (int (length xs)))))"

definition read_web_streams :: "http_client \<Rightarrow> http_reader \<Rightarrow> json_dict list reading" where
  "read_web_streams http rd =
     try_bind (ga4_access rd) (\<lambda>(token, pid).
     try_bind (read_request http ''GET'' (admin_url pid @ ''/dataStreams'') token JNull) web_streams_of)"

definition measurement_id_in :: "json_dict \<Rightarrow> string option" where
  "measurement_id_in web = (case jget web ''measurementId'' of JStr (c # cs) \<Rightarrow> Some (c # cs) | _ \<Rightarrow> None)"

definition read_measurement_id :: "http_client \<Rightarrow> http_reader \<Rightarrow> string option reading" where
  "read_measurement_id http rd =
     try_bind (read_web_streams http rd) (\<lambda>ws.
       Inr (case List.map_filter measurement_id_in ws of [] \<Rightarrow> None | i # _ \<Rightarrow> Some i))"

definition read_sitemaps_count :: "http_client \<Rightarrow> http_reader \<Rightarrow> int reading" where
  "read_sitemaps_count http rd =
     try_bind (gsc_access rd) (\<lambda>(token, site).
     try_bind (read_request http ''GET'' (sitemaps_url site) token JNull) (\<lambda>payload.
     try_bind (items_of payload ''sitemap'') (\<lambda>xs. Inr (int (length xs)))))"

end
