(* ===== verification/Measurement_Checks.thy ===== *)
theory Measurement_Checks
  imports Measurement_Catalog Gtm_Check Google_Reader "HOL-Library.List_Lexorder" "HOL-Library.Char_ord"
begin

text \<open>
  The verification engine of the measurement plan (\<open>app/services/measurement/checks.py\<close>): the facts about a
  site, one function per check, and \<open>evaluate\<close>. An outcome is the highest level of proof reached; what could
  not be observed is unverifiable, with a reason. Unions of a result with an exception say where Python raises:
  \<open>int\<close> of an infinite count, \<open>float\<close> of an integer too large, an unhashable event name.
\<close>

section \<open>Facts and outcomes\<close>

record outcome =
  oc_state :: item_state
  oc_evidence :: json_dict
  oc_reason :: "string option"

definition Outcome :: "item_state \<Rightarrow> json_dict \<Rightarrow> string option \<Rightarrow> outcome" where
  "Outcome s e r = \<lparr>oc_state = s, oc_evidence = e, oc_reason = r\<rparr>"

text \<open>What \<open>verify_gtm\<close> returns, the columns the plan reads (\<open>app/services/gtm_headless.py\<close>).\<close>

record headless_result =
  hl_gtm_js_loaded :: bool
  hl_containers_initialised :: "string list"
  hl_gtm_events :: "string list"
  hl_ga4_measurement_ids :: "string list"
  hl_ads_requests :: int
  hl_consent_default_seen :: bool
  hl_checked_at :: datetime
  hl_error :: "string option"

record headless_facts =
  hf_gtm_js_loaded :: bool
  hf_containers :: "string list"
  hf_datalayer_events :: "string list"
  hf_ga4_ids :: "string list"
  hf_ads_requests :: int
  hf_consent_default_seen :: bool
  hf_checked_at :: string

definition facts_from_result :: "headless_result \<Rightarrow> headless_facts option" where
  "facts_from_result r =
    (case hl_error r of Some e \<Rightarrow> None
     | None \<Rightarrow> Some \<lparr>hf_gtm_js_loaded = hl_gtm_js_loaded r, hf_containers = hl_containers_initialised r,
         hf_datalayer_events = hl_gtm_events r, hf_ga4_ids = hl_ga4_measurement_ids r,
         hf_ads_requests = hl_ads_requests r, hf_consent_default_seen = hl_consent_default_seen r,
         hf_checked_at = iso_datetime (hl_checked_at r)\<rparr>)"

text \<open>
  The JSON object of the column \<open>headless_result\<close>, each key with the type \<open>to_dict\<close> writes and
  possibly absent; an object without any of the keys is the empty one.
\<close>

record headless_json =
  hj_gtm_js_loaded :: "bool option"
  hj_containers :: "string list option"
  hj_datalayer_events :: "string list option"
  hj_ga4_ids :: "string list option"
  hj_ads_requests :: "int option"
  hj_consent_default_seen :: "bool option"
  hj_checked_at :: "string option"

definition empty_headless_json :: headless_json where
  "empty_headless_json = \<lparr>hj_gtm_js_loaded = None, hj_containers = None, hj_datalayer_events = None,
     hj_ga4_ids = None, hj_ads_requests = None, hj_consent_default_seen = None, hj_checked_at = None\<rparr>"

definition facts_to_dict :: "headless_facts \<Rightarrow> headless_json" where
  "facts_to_dict f = \<lparr>hj_gtm_js_loaded = Some (hf_gtm_js_loaded f), hj_containers = Some (hf_containers f),
     hj_datalayer_events = Some (hf_datalayer_events f), hj_ga4_ids = Some (hf_ga4_ids f),
     hj_ads_requests = Some (hf_ads_requests f), hj_consent_default_seen = Some (hf_consent_default_seen f),
     hj_checked_at = Some (hf_checked_at f)\<rparr>"

definition or_default :: "'a \<Rightarrow> 'a option \<Rightarrow> 'a" where
  "or_default d x = (case x of Some v \<Rightarrow> v | None \<Rightarrow> d)"

definition facts_from_dict :: "headless_json option \<Rightarrow> headless_facts option" where
  "facts_from_dict data =
    (case data of None \<Rightarrow> None
     | Some d \<Rightarrow> if d = empty_headless_json then None
         else Some \<lparr>hf_gtm_js_loaded = or_default False (hj_gtm_js_loaded d),
           hf_containers = or_default [] (hj_containers d),
           hf_datalayer_events = or_default [] (hj_datalayer_events d),
           hf_ga4_ids = or_default [] (hj_ga4_ids d),
           hf_ads_requests = or_default 0 (hj_ads_requests d),
           hf_consent_default_seen = or_default False (hj_consent_default_seen d),
           hf_checked_at = or_default [] (hj_checked_at d)\<rparr>)"

record facts =
  fa_page_html :: "string option"
  fa_page_error :: "string option"
  fa_gtm :: "gtm_check option"
  fa_headless :: "headless_facts option"
  fa_ga4_stats :: "event_stats option"
  fa_ga4_reason :: "string option"
  fa_key_events :: "json list option"
  fa_key_events_reason :: "string option"
  fa_ads_links_count :: "int option"
  fa_ads_links_reason :: "string option"
  fa_gsc_state :: string
  fa_sitemaps_count :: "int option"
  fa_sitemaps_reason :: "string option"
  fa_robots_ok :: "bool option"
  fa_robots_reason :: "string option"
  fa_ssl_status :: "string option"
  fa_ssl_checked_at :: "string option"
  fa_effective_types :: "string list"
  fa_manual_done :: "string list"

section \<open>Reading a page\<close>

definition AW_ID :: re where
  "AW_ID = Cat (lit ''AW-'') (at_least 6 (Class is_digit))"

definition CONSENT_DEFAULT :: re where
  "CONSENT_DEFAULT = sequence [quote_mark, lit ''consent'', quote_mark, comma, quote_mark, lit ''default'', quote_mark]"

definition event_start :: "char option \<Rightarrow> bool" where
  "event_start prev = (case prev of None \<Rightarrow> True
     | Some c \<Rightarrow> \<not> word_char c \<and> c \<noteq> CHR ''$'' \<and> c \<noteq> CHR ''.'')"

definition event_pattern :: "string \<Rightarrow> re" where
  "event_pattern name =
     Alt (sequence [opt quote_mark, lit ''event'', opt quote_mark, spaces, lit '':'', spaces, quote_mark, lit name,
            quote_mark])
         (sequence [lit ''gtag('', spaces, quote_mark, lit ''event'', quote_mark, comma, quote_mark, lit name,
            quote_mark])"

definition html_has_event :: "string \<Rightarrow> string \<Rightarrow> bool" where
  "html_has_event html name = search event_start (event_pattern name) html"

definition or_text :: "string option \<Rightarrow> string \<Rightarrow> string" where
  "or_text x d = (case x of Some (c # cs) \<Rightarrow> c # cs | _ \<Rightarrow> d)"

definition unverifiable :: "string \<Rightarrow> outcome" where
  "unverifiable reason = Outcome S_unverifiable [] (Some reason)"

definition consent_default_in_html :: "facts \<Rightarrow> bool" where
  "consent_default_in_html f =
    (case fa_page_html f of None \<Rightarrow> False | Some h \<Rightarrow> h \<noteq> [] \<and> search (\<lambda>_. True) CONSENT_DEFAULT h)"

definition consent_default_in_browser :: "facts \<Rightarrow> bool" where
  "consent_default_in_browser f =
    (case fa_headless f of None \<Rightarrow> False | Some h \<Rightarrow> hf_consent_default_seen h)"

definition cmp_name_of :: "gtm_check \<Rightarrow> bool" where
  "cmp_name_of gtm = (case gc_consent_platform gtm of Some (c # cs) \<Rightarrow> True | _ \<Rightarrow> False)"

definition consent_may_block :: "facts \<Rightarrow> bool" where
  "consent_may_block f =
    ((case fa_gtm f of None \<Rightarrow> False | Some gtm \<Rightarrow> cmp_name_of gtm) \<or>
     consent_default_in_browser f \<or> consent_default_in_html f)"

fun form_text :: "snippet_form \<Rightarrow> string" where
  "form_text Standard = ''standard''"
| "form_text Custom_loader = ''custom_loader''"
| "form_text Noscript_only = ''noscript_only''"
| "form_text Absent = ''absent''"

definition on_page_or_missing :: "bool \<Rightarrow> item_state" where
  "on_page_or_missing b = (if b then S_on_page else S_missing)"

definition received_or_missing :: "bool \<Rightarrow> item_state" where
  "received_or_missing b = (if b then S_received else S_missing)"

section \<open>Foundations\<close>

definition no_page :: "facts \<Rightarrow> outcome" where
  "no_page f = unverifiable (or_text (fa_page_error f) ''page_unavailable'')"

definition check_gtm_installed :: "facts \<Rightarrow> outcome" where
  "check_gtm_installed f =
    (case fa_gtm f of None \<Rightarrow> no_page f
     | Some gtm \<Rightarrow>
       (let installed = (gc_snippet_form gtm \<in> {Standard, Custom_loader} \<and> gc_containers gtm \<noteq> []);
            evidence = [(''containers'', texts (gc_containers gtm)), (''snippet_form'', JStr (form_text (gc_snippet_form gtm)))]
        in case fa_headless f of
             None \<Rightarrow> Outcome (on_page_or_missing installed) evidence None
           | Some h \<Rightarrow>
             (let evidence' = evidence @ [(''headless_loaded'', JBool (hf_gtm_js_loaded h))]
              in if installed \<and> \<not> hf_gtm_js_loaded h
                 then Outcome S_missing evidence' (Some ''gtm_not_loaded_in_browser'')
                 else Outcome (on_page_or_missing installed) evidence' None)))"

definition check_gtm_in_head :: "facts \<Rightarrow> outcome" where
  "check_gtm_in_head f =
    (case fa_gtm f of None \<Rightarrow> no_page f
     | Some gtm \<Rightarrow>
       if gc_containers gtm = [] then Outcome S_missing [] (Some ''gtm_absent'')
       else case gc_snippet_in_head gtm of
           Some True \<Rightarrow> Outcome S_on_page [(''snippet_in_head'', JBool True)] None
         | Some False \<Rightarrow> Outcome S_missing [(''snippet_in_head'', JBool False)] None
         | None \<Rightarrow> unverifiable ''position_unknown'')"

definition stat_count :: "event_stats \<Rightarrow> string \<Rightarrow> py_number" where
  "stat_count stats name = (case map_of stats name of None \<Rightarrow> PyFloat 0 | Some s \<Rightarrow> es_count s)"

definition check_ga4_tag :: "facts \<Rightarrow> outcome result" where
  "check_ga4_tag f =
    (let hardcoded = (case fa_gtm f of None \<Rightarrow> [] | Some gtm \<Rightarrow> gc_ga4_tags gtm);
         seen = (case fa_headless f of None \<Rightarrow> [] | Some h \<Rightarrow> hf_ga4_ids h);
         evidence = (if hardcoded \<noteq> [] then [(''hardcoded_ids'', texts hardcoded)] else []) @
           (if seen \<noteq> [] then [(''seen_ids'', texts seen)] else []);
         on_page = (hardcoded \<noteq> [] \<or> seen \<noteq> [])
     in case fa_ga4_stats f of
          Some stats \<Rightarrow>
            (let page_views = stat_count stats ''page_view''
             in if positive page_views
                then try_bind (py_int page_views) (\<lambda>n. Inr (Outcome S_received (evidence @ [(''page_views_30d'', JInt n)]) None))
                else Inr (Outcome (on_page_or_missing on_page) (evidence @ [(''page_views_30d'', JInt 0)]) None))
        | None \<Rightarrow>
            Inr (if on_page then Outcome S_on_page evidence None
              else case fa_headless f of
                  None \<Rightarrow> unverifiable ''headless_not_run''
                | Some h \<Rightarrow> if consent_may_block f then unverifiable ''consent_may_block_tags''
                    else Outcome S_missing evidence None))"

definition check_no_double :: "facts \<Rightarrow> outcome" where
  "check_no_double f =
    (case fa_gtm f of None \<Rightarrow> no_page f
     | Some gtm \<Rightarrow>
       if gc_ga4_tags gtm \<noteq> [] \<and> gc_containers gtm \<noteq> []
       then Outcome S_missing [(''hardcoded_ids'', texts (gc_ga4_tags gtm)), (''containers'', texts (gc_containers gtm))] None
       else if gc_ga4_tags gtm = [] \<and> gc_containers gtm = [] then Outcome S_not_applicable [] (Some ''gtm_absent'')
       else Outcome S_on_page [] None)"

definition text_or_null :: "string option \<Rightarrow> json" where
  "text_or_null x = (case x of None \<Rightarrow> JNull | Some s \<Rightarrow> JStr s)"

definition check_consent :: "facts \<Rightarrow> outcome" where
  "check_consent f =
    (case fa_gtm f of None \<Rightarrow> no_page f
     | Some gtm \<Rightarrow>
       (let default_seen = (consent_default_in_html f \<or> consent_default_in_browser f);
            evidence = [(''cmp'', text_or_null (gc_consent_platform gtm)), (''consent_default'', JBool default_seen)]
        in if cmp_name_of gtm \<and> default_seen then Outcome S_on_page evidence None
           else if fa_headless f = None then Outcome S_unverifiable evidence (Some ''headless_not_run'')
           else if default_seen then Outcome S_unverifiable evidence (Some ''cmp_not_detected'')
           else if cmp_name_of gtm then Outcome S_unverifiable evidence (Some ''cmp_default_not_observed'')
           else Outcome S_missing evidence (Some ''consent_default_not_seen'')))"

definition check_datalayer :: "facts \<Rightarrow> outcome" where
  "check_datalayer f =
    (case fa_gtm f of None \<Rightarrow> no_page f
     | Some gtm \<Rightarrow>
       if gc_containers gtm = [] then Outcome S_not_applicable [] (Some ''gtm_absent'')
       else Outcome (on_page_or_missing (gc_data_layer_name gtm = ''dataLayer''))
         [(''data_layer_name'', JStr (gc_data_layer_name gtm))] None)"

section \<open>Events\<close>

definition on_page_event :: "string \<Rightarrow> facts \<Rightarrow> string option" where
  "on_page_event name f =
    (if (case fa_page_html f of None \<Rightarrow> False | Some h \<Rightarrow> h \<noteq> [] \<and> html_has_event h name) then Some ''html''
     else if (case fa_headless f of None \<Rightarrow> False | Some h \<Rightarrow> name \<in> set (hf_datalayer_events h))
     then Some ''headless_datalayer'' else None)"

definition check_event :: "measurement_item \<Rightarrow> facts \<Rightarrow> outcome result" where
  "check_event item f =
    (let name = or_text (mi_arg item) [];
         found_in = on_page_event name f;
         evidence = (case found_in of None \<Rightarrow> [] | Some p \<Rightarrow> [(''found_in'', JStr p)])
     in case fa_ga4_stats f of
          Some stats \<Rightarrow>
            (if positive (stat_count stats name)
             then try_bind (py_int (stat_count stats name)) (\<lambda>n.
               Inr (Outcome S_received (evidence @ [(''ga4_count_30d'', JInt n)]) None))
             else if found_in \<noteq> None then Inr (Outcome S_on_page (evidence @ [(''ga4_count_30d'', JInt 0)]) None)
             else Inr (Outcome S_missing [(''ga4_count_30d'', JInt 0)] None))
        | None \<Rightarrow>
            Inr (if found_in \<noteq> None then Outcome S_on_page evidence None
              else unverifiable (or_text (fa_ga4_reason f) ''ga4_not_connected'')))"

definition check_purchase_params :: "facts \<Rightarrow> outcome result" where
  "check_purchase_params f =
    (case fa_ga4_stats f of
       None \<Rightarrow> Inr (unverifiable (or_text (fa_ga4_reason f) ''ga4_not_connected''))
     | Some stats \<Rightarrow>
       (case map_of stats ''purchase'' of
          None \<Rightarrow> Inr (unverifiable ''purchase_not_received'')
        | Some p \<Rightarrow>
          if es_count p \<noteq> PyNaN \<and> \<not> positive (es_count p) then Inr (unverifiable ''purchase_not_received'')
          else try_bind (py_int (es_count p)) (\<lambda>n.
            Inr (Outcome (received_or_missing (positive (es_revenue p) \<or> positive (es_value p)))
              [(''purchases_30d'', JInt n), (''revenue_30d'', JNum (es_revenue p))] None))))"

section \<open>Conversions\<close>

definition KEY_EVENTS_BY_TYPE :: "(string \<times> string list) list" where
  "KEY_EVENTS_BY_TYPE = [(''ecommerce'', [''purchase'']), (''lead_gen'', [''generate_lead'']),
     (''saas'', [''sign_up'', ''begin_trial'', ''subscribe'']), (''content'', [''newsletter_signup''])]"

definition expected_key_events :: "string list \<Rightarrow> string list" where
  "expected_key_events types = concat (map (get_default [] KEY_EVENTS_BY_TYPE) types)"

text \<open>\<open>name in expected\<close>: a list or an object is unhashable.\<close>

fun name_expected :: "string list \<Rightarrow> json \<Rightarrow> bool result" where
  "name_expected expected (JStr s) = Inr (s \<in> set expected)"
| "name_expected expected (JList xs) = Inl TypeError"
| "name_expected expected (JDict d) = Inl TypeError"
| "name_expected expected _ = Inr False"

fun filter_expected :: "string list \<Rightarrow> json list \<Rightarrow> json list result" where
  "filter_expected expected [] = Inr []"
| "filter_expected expected (n # ns) =
     try_bind (name_expected expected n) (\<lambda>b.
     try_bind (filter_expected expected ns) (\<lambda>ms. Inr (if b then n # ms else ms)))"

definition dicts_of :: "json list \<Rightarrow> json_dict list" where
  "dicts_of xs = List.map_filter (\<lambda>x. case x of JDict d \<Rightarrow> Some d | _ \<Rightarrow> None) xs"

text \<open>\<open>_valued\<close>: \<open>None\<close> for an unexpected shape.\<close>

definition valued_entry :: "json_dict \<Rightarrow> bool option result" where
  "valued_entry entry =
    (case jget entry ''defaultValue'' of
       JNull \<Rightarrow> Inr (Some False)
     | JDict d \<Rightarrow>
       (case get_default (JInt 0) d ''numericValue'' of
          JNull \<Rightarrow> Inr (Some False)
        | n \<Rightarrow> (case py_float n of
            Inr x \<Rightarrow> Inr (Some (positive x))
          | Inl e \<Rightarrow> if e \<in> {TypeError, ValueError} then Inr None else Inl e))
     | _ \<Rightarrow> Inr None)"

definition check_key_events :: "facts \<Rightarrow> outcome result" where
  "check_key_events f =
    (case fa_key_events f of
       None \<Rightarrow> Inr (unverifiable (or_text (fa_key_events_reason f) ''ga4_not_connected''))
     | Some events \<Rightarrow>
       (let entries = dicts_of events;
            declared = filter truthy (map (\<lambda>e. jget e ''eventName'') entries);
            expected = expected_key_events (fa_effective_types f)
        in try_bind (if expected \<noteq> [] then filter_expected expected declared else Inr declared) (\<lambda>found.
             if found = [] \<and> length entries \<noteq> length events then Inr (unverifiable ''api_error'')
             else Inr (Outcome (received_or_missing (found \<noteq> [])) [(''key_events'', JList declared)] None))))"

text \<open>The loop of \<open>_key_events_value\<close>: the names with a value, and how many entries were malformed.\<close>

fun scan_values :: "string list \<Rightarrow> json_dict list \<Rightarrow> json list \<times> nat \<Rightarrow> (json list \<times> nat) result" where
  "scan_values expected [] acc = Inr acc"
| "scan_values expected (e # es) (valued, malformed) =
     try_bind (if expected = [] then Inr True else name_expected expected (jget e ''eventName'')) (\<lambda>wanted.
       if \<not> wanted then scan_values expected es (valued, malformed)
       else try_bind (valued_entry e) (\<lambda>r. scan_values expected es
         (case r of None \<Rightarrow> (valued, malformed + 1)
          | Some True \<Rightarrow> (valued @ [jget e ''eventName''], malformed)
          | Some False \<Rightarrow> (valued, malformed))))"

definition check_key_events_value :: "facts \<Rightarrow> outcome result" where
  "check_key_events_value f =
    (case fa_key_events f of
       None \<Rightarrow> Inr (unverifiable (or_text (fa_key_events_reason f) ''ga4_not_connected''))
     | Some events \<Rightarrow>
       try_bind (scan_values (expected_key_events (fa_effective_types f)) (dicts_of events)
           ([], length (filter (\<lambda>e. \<not> is_dict e) events))) (\<lambda>(valued, malformed).
         Inr (if valued \<noteq> [] then Outcome S_received [(''valued_events'', JList valued)] None
           else if malformed \<noteq> 0 then unverifiable ''api_error''
           else Outcome S_missing [(''valued_events'', JList valued)] None)))"

section \<open>Advertising\<close>

definition check_ads_link :: "facts \<Rightarrow> outcome" where
  "check_ads_link f =
    (case fa_ads_links_count f of
       None \<Rightarrow> unverifiable (or_text (fa_ads_links_reason f) ''ga4_not_connected'')
     | Some n \<Rightarrow> Outcome (received_or_missing (0 < n)) [(''ads_links'', JInt n)] None)"

definition check_ads_conversion_tag :: "facts \<Rightarrow> outcome" where
  "check_ads_conversion_tag f =
    (let ids = sort (remdups (findall AW_ID (or_text (fa_page_html f) [])));
         ads_requests = (case fa_headless f of None \<Rightarrow> 0 | Some h \<Rightarrow> hf_ads_requests h);
         evidence = (if ids \<noteq> [] then [(''ads_ids'', texts ids)] else []) @
           (if 0 < ads_requests then [(''ads_requests'', JInt ads_requests)] else [])
     in if ids \<noteq> [] \<or> 0 < ads_requests then Outcome S_on_page evidence None
        else if fa_headless f = None then unverifiable ''headless_not_run''
        else if consent_may_block f then unverifiable ''consent_may_block_tags''
        else unverifiable ''ads_conversion_needs_event'')"

definition check_manual :: "measurement_item \<Rightarrow> facts \<Rightarrow> outcome" where
  "check_manual item f =
    (if mi_id item \<in> set (fa_manual_done f) then Outcome S_on_page [(''manual_done'', JBool True)] None
     else unverifiable ''manual_check'')"

section \<open>Search\<close>

definition check_gsc_linked :: "facts \<Rightarrow> outcome" where
  "check_gsc_linked f =
    (if fa_gsc_state f = ''linked'' then Outcome S_received [] None
     else if fa_gsc_state f = ''needs_reauth'' then unverifiable ''connection_needs_reauth''
     else Outcome S_missing [] None)"

definition check_gsc_sitemaps :: "facts \<Rightarrow> outcome" where
  "check_gsc_sitemaps f =
    (case fa_sitemaps_count f of
       None \<Rightarrow> unverifiable (or_text (fa_sitemaps_reason f) ''gsc_not_connected'')
     | Some n \<Rightarrow> Outcome (received_or_missing (0 < n)) [(''sitemaps'', JInt n)] None)"

definition check_robots :: "facts \<Rightarrow> outcome" where
  "check_robots f =
    (case fa_robots_ok f of
       None \<Rightarrow> unverifiable (or_text (fa_robots_reason f) ''not_checked'')
     | Some ok \<Rightarrow> Outcome (on_page_or_missing ok) [(''robots_ok'', JBool ok)] None)"

definition TLS_OK :: "string list" where "TLS_OK = [''valid'', ''expiring_soon'']"
definition TLS_BAD :: "string list" where
  "TLS_BAD = [''expired'', ''self_signed'', ''hostname_mismatch'', ''untrusted'']"

definition check_tls :: "facts \<Rightarrow> outcome" where
  "check_tls f =
    (case fa_ssl_status f of
       None \<Rightarrow> unverifiable ''not_checked''
     | Some status \<Rightarrow>
       (let evidence = [(''ssl_status'', JStr status)] @
              (case fa_ssl_checked_at f of Some (c # cs) \<Rightarrow> [(''checked_at'', JStr (c # cs))] | _ \<Rightarrow> [])
        in if status \<in> set TLS_OK then Outcome S_on_page evidence None
           else if status \<in> set TLS_BAD then Outcome S_missing evidence None
           else Outcome S_unverifiable evidence (Some ''tls_unreachable'')))"

section \<open>Evaluation\<close>

definition CHECKS :: "(string \<times> (measurement_item \<Rightarrow> facts \<Rightarrow> outcome result)) list" where
  "CHECKS = [
     (''gtm_installed'', \<lambda>i f. Inr (check_gtm_installed f)),
     (''gtm_in_head'', \<lambda>i f. Inr (check_gtm_in_head f)),
     (''ga4_tag'', \<lambda>i f. check_ga4_tag f),
     (''no_double'', \<lambda>i f. Inr (check_no_double f)),
     (''consent'', \<lambda>i f. Inr (check_consent f)),
     (''datalayer'', \<lambda>i f. Inr (check_datalayer f)),
     (''event'', check_event),
     (''purchase_params'', \<lambda>i f. check_purchase_params f),
     (''key_events'', \<lambda>i f. check_key_events f),
     (''key_events_value'', \<lambda>i f. check_key_events_value f),
     (''ads_link'', \<lambda>i f. Inr (check_ads_link f)),
     (''ads_conversion_tag'', \<lambda>i f. Inr (check_ads_conversion_tag f)),
     (''manual'', \<lambda>i f. Inr (check_manual i f)),
     (''gsc_linked'', \<lambda>i f. Inr (check_gsc_linked f)),
     (''gsc_sitemaps'', \<lambda>i f. Inr (check_gsc_sitemaps f)),
     (''robots'', \<lambda>i f. Inr (check_robots f)),
     (''tls'', \<lambda>i f. Inr (check_tls f))]"

definition PAGE_KINDS :: "string list" where
  "PAGE_KINDS = [''gtm_installed'', ''gtm_in_head'', ''no_double'', ''datalayer'']"

definition usable_facts :: "facts \<Rightarrow> facts" where
  "usable_facts f =
    (case fa_gtm f of
       Some gtm \<Rightarrow> (case gc_error gtm of
           Some e \<Rightarrow> f\<lparr>fa_gtm := None, fa_page_error := Some (or_text (fa_page_error f) e)\<rparr>
         | None \<Rightarrow> f)
     | None \<Rightarrow> f)"

definition evaluate :: "measurement_item \<Rightarrow> facts \<Rightarrow> outcome result" where
  "evaluate item facts0 =
    (let f = usable_facts facts0
     in case (mi_check item \<in> set PAGE_KINDS, fa_page_error f, fa_gtm f) of
          (True, Some e, None) \<Rightarrow> Inr (unverifiable e)
        | _ \<Rightarrow> try_bind (dict_get CHECKS (mi_check item)) (\<lambda>check. check item f))"

section \<open>Observation and proof\<close>

lemmas check_defs = check_gtm_installed_def check_gtm_in_head_def check_ga4_tag_def check_no_double_def
  check_consent_def check_datalayer_def check_event_def check_purchase_params_def check_key_events_def
  check_key_events_value_def check_ads_link_def check_ads_conversion_tag_def check_manual_def check_gsc_linked_def
  check_gsc_sitemaps_def check_robots_def check_tls_def

lemma Outcome_sel [simp]:
  "oc_state (Outcome s e r) = s" "oc_evidence (Outcome s e r) = e" "oc_reason (Outcome s e r) = r"
  by (simp_all add: Outcome_def)

lemma unverifiable_sel [simp]:
  "oc_state (unverifiable r) = S_unverifiable" "oc_evidence (unverifiable r) = []" "oc_reason (unverifiable r) = Some r"
  by (simp_all add: unverifiable_def)

lemma no_page_sel [simp]: "oc_state (no_page f) = S_unverifiable"
  "oc_reason (no_page f) = Some (or_text (fa_page_error f) ''page_unavailable'')"
  by (simp_all add: no_page_def)

lemma state_choice [simp]:
  "(on_page_or_missing b = S_missing) = (\<not> b)" "(received_or_missing b = S_missing) = (\<not> b)"
  "on_page_or_missing b \<noteq> S_received" "(received_or_missing b = S_received) = b"
  "on_page_or_missing b \<noteq> S_unverifiable" "received_or_missing b \<noteq> S_unverifiable"
  "on_page_or_missing b \<noteq> S_dismissed" "received_or_missing b \<noteq> S_dismissed"
  "on_page_or_missing b \<noteq> S_unknown" "received_or_missing b \<noteq> S_unknown"
  by (simp_all add: on_page_or_missing_def received_or_missing_def)

lemma checks_known: "map fst CHECKS = CHECK_KINDS"
  by (simp add: CHECKS_def CHECK_KINDS_def)

text \<open>What \<open>evaluate\<close> does, once: an inaccessible page, or the item's check on the usable facts.\<close>

lemma evaluateE:
  assumes "evaluate item f = Inr o'"
  obtains e where "mi_check item \<in> set PAGE_KINDS" "o' = unverifiable e"
  | check where "(mi_check item, check) \<in> set CHECKS" "check item (usable_facts f) = Inr o'"
proof -
  consider e where "mi_check item \<in> set PAGE_KINDS" "o' = unverifiable e"
    | "try_bind (dict_get CHECKS (mi_check item)) (\<lambda>check. check item (usable_facts f)) = Inr o'"
    using assms unfolding evaluate_def Let_def by (auto split: bool.splits option.splits)
  then show ?thesis
  proof cases
    case 2
    then obtain check where "map_of CHECKS (mi_check item) = Some check" "check item (usable_facts f) = Inr o'"
      by (auto simp: dict_get_Inr)
    with that(2) show ?thesis by (blast dest: map_of_SomeD)
  qed (rule that(1))
qed

text \<open>The source a check must have read before it may answer \<open>missing\<close>.\<close>

definition observed_for :: "string \<Rightarrow> facts \<Rightarrow> bool" where
  "observed_for check f =
    (if check \<in> set PAGE_KINDS then fa_gtm f \<noteq> None
     else if check = ''ga4_tag'' then fa_ga4_stats f \<noteq> None \<or> (fa_headless f \<noteq> None \<and> \<not> consent_may_block f)
     else if check = ''consent'' then fa_gtm f \<noteq> None \<and> fa_headless f \<noteq> None
     else if check \<in> {''event'', ''purchase_params''} then fa_ga4_stats f \<noteq> None
     else if check \<in> {''key_events'', ''key_events_value''} then fa_key_events f \<noteq> None
     else if check = ''ads_link'' then fa_ads_links_count f \<noteq> None
     else if check = ''gsc_linked'' then fa_gsc_state f \<notin> {''linked'', ''needs_reauth''}
     else if check = ''gsc_sitemaps'' then fa_sitemaps_count f \<noteq> None
     else if check = ''robots'' then fa_robots_ok f = Some False
     else if check = ''tls'' then (\<exists>s \<in> set TLS_BAD. fa_ssl_status f = Some s)
     else False)"

lemma ga4_tag_missing: "check_ga4_tag f = Inr o' \<Longrightarrow> oc_state o' = S_missing \<Longrightarrow> observed_for ''ga4_tag'' f"
  by (auto simp: check_ga4_tag_def observed_for_def PAGE_KINDS_def Let_def split: if_splits option.splits)

lemma consent_missing: "oc_state (check_consent f) = S_missing \<Longrightarrow> observed_for ''consent'' f"
  by (auto simp: check_consent_def observed_for_def PAGE_KINDS_def Let_def split: if_splits option.splits)

lemma event_missing: "check_event item f = Inr o' \<Longrightarrow> oc_state o' = S_missing \<Longrightarrow> observed_for ''event'' f"
  by (auto simp: check_event_def observed_for_def PAGE_KINDS_def Let_def split: if_splits option.splits)

lemma purchase_missing:
  "check_purchase_params f = Inr o' \<Longrightarrow> oc_state o' = S_missing \<Longrightarrow> observed_for ''purchase_params'' f"
  by (auto simp: check_purchase_params_def observed_for_def PAGE_KINDS_def Let_def split: if_splits option.splits)

lemma key_events_missing:
  "check_key_events f = Inr o' \<Longrightarrow> oc_state o' = S_missing \<Longrightarrow> observed_for ''key_events'' f"
  by (auto simp: check_key_events_def observed_for_def PAGE_KINDS_def Let_def split: if_splits option.splits)

lemma key_values_missing:
  "check_key_events_value f = Inr o' \<Longrightarrow> oc_state o' = S_missing \<Longrightarrow> observed_for ''key_events_value'' f"
  by (auto simp: check_key_events_value_def observed_for_def PAGE_KINDS_def Let_def split: if_splits option.splits)

lemma conversion_tag_never_missing: "oc_state (check_ads_conversion_tag f) \<noteq> S_missing"
  by (simp add: check_ads_conversion_tag_def Let_def)

lemma page_missing:
  "oc_state (check_gtm_installed f) = S_missing \<Longrightarrow> fa_gtm f \<noteq> None"
  "oc_state (check_gtm_in_head f) = S_missing \<Longrightarrow> fa_gtm f \<noteq> None"
  "oc_state (check_no_double f) = S_missing \<Longrightarrow> fa_gtm f \<noteq> None"
  "oc_state (check_datalayer f) = S_missing \<Longrightarrow> fa_gtm f \<noteq> None"
  by (auto simp: check_defs split: option.splits)

lemma search_missing:
  "oc_state (check_ads_link f) = S_missing \<Longrightarrow> observed_for ''ads_link'' f"
  "oc_state (check_gsc_linked f) = S_missing \<Longrightarrow> observed_for ''gsc_linked'' f"
  "oc_state (check_gsc_sitemaps f) = S_missing \<Longrightarrow> observed_for ''gsc_sitemaps'' f"
  "oc_state (check_robots f) = S_missing \<Longrightarrow> observed_for ''robots'' f"
  "oc_state (check_tls f) = S_missing \<Longrightarrow> observed_for ''tls'' f"
  by (auto simp: check_defs observed_for_def PAGE_KINDS_def Let_def split: option.splits if_splits)

lemma manual_never_missing: "oc_state (check_manual item f) \<noteq> S_missing"
  by (simp add: check_manual_def)

lemma observed_page: "check \<in> set PAGE_KINDS \<Longrightarrow> observed_for check f = (fa_gtm f \<noteq> None)"
  by (simp add: observed_for_def)

lemma check_missing_observed:
  assumes "(name, check) \<in> set CHECKS" "check item f = Inr o'" "oc_state o' = S_missing"
  shows "observed_for name f"
  using assms unfolding CHECKS_def
  by (auto dest: ga4_tag_missing consent_missing event_missing purchase_missing key_events_missing key_values_missing
    page_missing search_missing simp: conversion_tag_never_missing manual_never_missing observed_page PAGE_KINDS_def)

text \<open>An unverifiable outcome gives its reason.\<close>

lemma page_unverifiable:
  "oc_state (check_gtm_installed f) = S_unverifiable \<Longrightarrow> oc_reason (check_gtm_installed f) \<noteq> None"
  "oc_state (check_gtm_in_head f) = S_unverifiable \<Longrightarrow> oc_reason (check_gtm_in_head f) \<noteq> None"
  "oc_state (check_no_double f) = S_unverifiable \<Longrightarrow> oc_reason (check_no_double f) \<noteq> None"
  "oc_state (check_datalayer f) = S_unverifiable \<Longrightarrow> oc_reason (check_datalayer f) \<noteq> None"
  "oc_state (check_consent f) = S_unverifiable \<Longrightarrow> oc_reason (check_consent f) \<noteq> None"
  by (auto simp: check_defs Let_def split: option.splits if_splits bool.splits)

lemma search_unverifiable:
  "oc_state (check_ads_link f) = S_unverifiable \<Longrightarrow> oc_reason (check_ads_link f) \<noteq> None"
  "oc_state (check_ads_conversion_tag f) = S_unverifiable \<Longrightarrow> oc_reason (check_ads_conversion_tag f) \<noteq> None"
  "oc_state (check_gsc_linked f) = S_unverifiable \<Longrightarrow> oc_reason (check_gsc_linked f) \<noteq> None"
  "oc_state (check_gsc_sitemaps f) = S_unverifiable \<Longrightarrow> oc_reason (check_gsc_sitemaps f) \<noteq> None"
  "oc_state (check_robots f) = S_unverifiable \<Longrightarrow> oc_reason (check_robots f) \<noteq> None"
  "oc_state (check_tls f) = S_unverifiable \<Longrightarrow> oc_reason (check_tls f) \<noteq> None"
  "oc_state (check_manual item f) = S_unverifiable \<Longrightarrow> oc_reason (check_manual item f) \<noteq> None"
  by (auto simp: check_defs Let_def split: option.splits if_splits)

lemma google_unverifiable:
  "check_ga4_tag f = Inr o' \<Longrightarrow> oc_state o' = S_unverifiable \<Longrightarrow> oc_reason o' \<noteq> None"
  "check_event item f = Inr o' \<Longrightarrow> oc_state o' = S_unverifiable \<Longrightarrow> oc_reason o' \<noteq> None"
  "check_purchase_params f = Inr o' \<Longrightarrow> oc_state o' = S_unverifiable \<Longrightarrow> oc_reason o' \<noteq> None"
  "check_key_events f = Inr o' \<Longrightarrow> oc_state o' = S_unverifiable \<Longrightarrow> oc_reason o' \<noteq> None"
  "check_key_events_value f = Inr o' \<Longrightarrow> oc_state o' = S_unverifiable \<Longrightarrow> oc_reason o' \<noteq> None"
  by (auto simp: check_defs Let_def split: option.splits if_splits)

lemma check_unverifiable_reason:
  assumes "(name, check) \<in> set CHECKS" "check item f = Inr o'" "oc_state o' = S_unverifiable"
  shows "oc_reason o' \<noteq> None"
  using assms unfolding CHECKS_def
  by (auto dest: page_unverifiable search_unverifiable google_unverifiable)


definition blank_facts :: facts where
  "blank_facts = \<lparr>fa_page_html = None, fa_page_error = None, fa_gtm = None, fa_headless = None, fa_ga4_stats = None,
     fa_ga4_reason = None, fa_key_events = None, fa_key_events_reason = None, fa_ads_links_count = None,
     fa_ads_links_reason = None, fa_gsc_state = ''not_linked'', fa_sitemaps_count = None, fa_sitemaps_reason = None,
     fa_robots_ok = None, fa_robots_reason = None, fa_ssl_status = None, fa_ssl_checked_at = None,
     fa_effective_types = [''other''], fa_manual_done = []\<rparr>"

lemma robots_missing:
  "evaluate item_robots_txt (blank_facts\<lparr>fa_robots_ok := Some False\<rparr>) =
     Inr (Outcome S_missing [(''robots_ok'', JBool False)] None)"
  by (simp add: evaluate_def usable_facts_def blank_facts_def item_robots_txt_def dict_get_def CHECKS_def PAGE_KINDS_def
    check_robots_def on_page_or_missing_def)


section \<open>Levels of proof\<close>

text \<open>A check that proves more than presence on the page, for the items of the catalogue.\<close>

definition RECEIVING :: "string list" where
  "RECEIVING = [''ga4_tag'', ''event'', ''purchase_params'', ''key_events'', ''key_events_value'', ''ads_link'',
     ''gsc_linked'', ''gsc_sitemaps'']"

lemma receiving_items: "list_all (\<lambda>i. mi_check i \<in> set RECEIVING \<longrightarrow> mi_max_level i = L_received) ITEMS"
  by (simp only: items_list, simp only: item_defs measurement_item.select_convs, simp add: RECEIVING_def)

definition above_page :: "item_state set" where
  "above_page = {S_unknown, S_dismissed, S_received}"

definition not_proofs :: "item_state set" where
  "not_proofs = {S_unknown, S_dismissed}"

lemma page_states:
  "oc_state (check_gtm_installed f) \<notin> above_page"
  "oc_state (check_gtm_in_head f) \<notin> above_page"
  "oc_state (check_no_double f) \<notin> above_page"
  "oc_state (check_datalayer f) \<notin> above_page"
  "oc_state (check_consent f) \<notin> above_page"
  "oc_state (check_ads_conversion_tag f) \<notin> above_page"
  "oc_state (check_manual item f) \<notin> above_page"
  "oc_state (check_robots f) \<notin> above_page"
  "oc_state (check_tls f) \<notin> above_page"
  by (simp_all add: check_defs Let_def above_page_def split: option.splits if_splits bool.splits)

lemma google_states:
  "check_ga4_tag f = Inr o' \<Longrightarrow> oc_state o' \<notin> not_proofs"
  "check_event item f = Inr o' \<Longrightarrow> oc_state o' \<notin> not_proofs"
  "check_purchase_params f = Inr o' \<Longrightarrow> oc_state o' \<notin> not_proofs"
  "check_key_events f = Inr o' \<Longrightarrow> oc_state o' \<notin> not_proofs"
  "check_key_events_value f = Inr o' \<Longrightarrow> oc_state o' \<notin> not_proofs"
  by (auto simp: check_defs Let_def not_proofs_def split: option.splits if_splits)

lemma search_states:
  "oc_state (check_ads_link f) \<notin> not_proofs"
  "oc_state (check_gsc_linked f) \<notin> not_proofs"
  "oc_state (check_gsc_sitemaps f) \<notin> not_proofs"
  by (simp_all add: check_defs Let_def not_proofs_def split: option.splits)

lemma below_proofs: "s \<notin> above_page \<Longrightarrow> s \<notin> not_proofs" "s \<notin> above_page \<Longrightarrow> s \<noteq> S_received"
  by (simp_all add: above_page_def not_proofs_def)

lemma check_states:
  assumes "(name, check) \<in> set CHECKS" "check item f = Inr o'"
  shows "oc_state o' \<notin> not_proofs \<and> (oc_state o' = S_received \<longrightarrow> name \<in> set RECEIVING)"
  using assms unfolding CHECKS_def RECEIVING_def
  by (simp, elim disjE conjE; clarsimp simp: google_states search_states
    page_states page_states [THEN below_proofs(1)] page_states [THEN below_proofs(2)])


lemma item_in_catalogue: "item_robots_txt \<in> set ITEMS"
  by (simp add: ITEMS_def layer_items_defs)


section \<open>Evaluation returns\<close>

text \<open>Answers of Google no conversion of the engine fails on: finite counts, texts as event names.\<close>

definition readable_name :: "json \<Rightarrow> bool" where
  "readable_name n = (case n of JList xs \<Rightarrow> False | JDict d \<Rightarrow> False | _ \<Rightarrow> True)"

definition readable_value :: "json_dict \<Rightarrow> bool" where
  "readable_value e = (case jget e ''defaultValue'' of
     JDict d \<Rightarrow> (case get_default (JInt 0) d ''numericValue'' of JNum (PyInt n) \<Rightarrow> \<bar>n\<bar> < OVERFLOW | _ \<Rightarrow> True)
   | _ \<Rightarrow> True)"

definition readable_facts :: "facts \<Rightarrow> bool" where
  "readable_facts f =
    ((case fa_ga4_stats f of None \<Rightarrow> True | Some stats \<Rightarrow> list_all (\<lambda>(n, s). is_finite (es_count s)) stats) \<and>
     (case fa_key_events f of None \<Rightarrow> True
      | Some es \<Rightarrow> list_all (\<lambda>e. readable_name (jget e ''eventName'') \<and> readable_value e) (dicts_of es)))"

lemma py_int_finite: "is_finite x \<Longrightarrow> is_ok (py_int x)"
  by (cases x) auto

lemma stat_count_finite:
  "list_all (\<lambda>(n, s). is_finite (es_count s)) stats \<Longrightarrow> is_finite (stat_count stats name)"
  by (auto simp: stat_count_def list_all_iff split: option.splits dest!: map_of_SomeD)

lemma name_expected_readable: "readable_name n \<Longrightarrow> is_ok (name_expected expected n)"
  by (cases n) (auto simp: readable_name_def)

lemma filter_expected_readable: "list_all readable_name ns \<Longrightarrow> is_ok (filter_expected expected ns)"
  by (induction ns) (auto intro!: is_ok_bind name_expected_readable)

lemma float_of_text_error: "float_of_text s = Inl e \<Longrightarrow> e = ValueError"
  by (auto simp: float_of_text_def split: if_splits option.splits prod.splits)

lemma valued_entry_readable: "readable_value e \<Longrightarrow> is_ok (valued_entry e)"
  unfolding readable_value_def valued_entry_def
  by (auto split: json.splits py_number.splits sum.splits dest: float_of_text_error)

lemma scan_values_readable:
  "list_all (\<lambda>e. readable_name (jget e ''eventName'') \<and> readable_value e) es \<Longrightarrow> is_ok (scan_values expected es acc)"
proof (induction es arbitrary: acc)
  case (Cons e es)
  have "is_ok (scan_values expected es acc')" for acc' using Cons by simp
  with Cons.prems show ?case
    by (cases acc) (auto intro!: is_ok_bind name_expected_readable valued_entry_readable split: option.splits bool.splits)
qed (cases acc, simp)

lemma google_checks_return:
  assumes "readable_facts f"
  shows "is_ok (check_ga4_tag f)" "is_ok (check_event item f)" "is_ok (check_purchase_params f)"
    "is_ok (check_key_events f)" "is_ok (check_key_events_value f)"
proof -
  have stats: "is_ok (py_int (stat_count stats name))" if "fa_ga4_stats f = Some stats" for stats name
    using assms that by (auto simp: readable_facts_def intro!: py_int_finite stat_count_finite)
  then show "is_ok (check_ga4_tag f)" "is_ok (check_event item f)"
    by (auto simp: check_ga4_tag_def check_event_def Let_def split: option.splits intro!: is_ok_bind)
  have "is_ok (py_int (es_count p))" if "fa_ga4_stats f = Some stats" "map_of stats ''purchase'' = Some p" for stats p
    using stats [OF that(1), of "''purchase''"] that(2) by (simp add: stat_count_def)
  then show "is_ok (check_purchase_params f)"
    by (fastforce simp: check_purchase_params_def split: option.splits intro!: is_ok_bind)
  have es: "list_all (\<lambda>e. readable_name (jget e ''eventName'') \<and> readable_value e) (dicts_of es)"
    if "fa_key_events f = Some es" for es
    using assms that by (simp add: readable_facts_def)
  then have "list_all readable_name (filter truthy (map (\<lambda>e. jget e ''eventName'') (dicts_of es)))"
    if "fa_key_events f = Some es" for es
    using that by (auto simp: list_all_iff)
  then show "is_ok (check_key_events f)"
    by (auto simp: check_key_events_def Let_def split: option.splits intro!: is_ok_bind filter_expected_readable)
  from es show "is_ok (check_key_events_value f)"
    by (auto simp: check_key_events_value_def split: option.splits intro!: is_ok_bind scan_values_readable)
qed

lemma readable_usable [simp]: "readable_facts (usable_facts f) = readable_facts f"
  by (simp add: usable_facts_def readable_facts_def split: option.splits)

lemma check_returns:
  assumes "(name, check) \<in> set CHECKS" "readable_facts f"
  shows "is_ok (check item f)"
  using assms(1) google_checks_return [OF assms(2)] unfolding CHECKS_def by (simp, elim disjE conjE; simp)

lemma evaluate_returns:
  assumes "item \<in> set ITEMS" "readable_facts f"
  shows "is_ok (evaluate item f)"
proof -
  have "mi_check item \<in> fst ` set CHECKS"
    using assms(1) known_checks checks_known by (metis list_all_iff list.set_map)
  then obtain check where c: "map_of CHECKS (mi_check item) = Some check"
    by (metis map_of_eq_None_iff not_None_eq)
  then have "(mi_check item, check) \<in> set CHECKS" by (rule map_of_SomeD)
  from check_returns [OF this, of "usable_facts f" item] assms(2)
  show ?thesis
    by (auto simp: evaluate_def Let_def dict_get_def c split: bool.splits option.splits)
qed

text \<open>
  An event's default value given as an integer no float can hold escapes the handler of \<open>_valued\<close>.
\<close>

definition huge_value_entry :: json_dict where
  "huge_value_entry = [(''eventName'', JStr ''purchase''),
     (''defaultValue'', JDict [(''numericValue'', JInt (2 ^ 1024))])]"

lemma huge_value_escapes: "valued_entry huge_value_entry = Inl OverflowError"
  by (simp add: valued_entry_def huge_value_entry_def get_default_def OVERFLOW_def)

end
