(* ===== verification/Site_Types.thy ===== *)
theory Site_Types
  imports Gtm_Check Job_Store
begin

text \<open>
  Guessing what kind of site a page belongs to (\<open>app/services/measurement/site_types.py\<close>). Scores are sums of
  hundredths: no rounding of the float sums moves one across a threshold, they are rationals here.
\<close>

record type_guess =
  tg_type :: string
  tg_confidence :: rat
  tg_signals :: "string list"

definition MIN_CONFIDENCE :: rat where "MIN_CONFIDENCE = 3 / 10"
definition PICK_CONFIDENCE :: rat where "PICK_CONFIDENCE = 5 / 10"

definition WORDS_CART :: "string list" where
  "WORDS_CART = [''add-to-cart'', ''add_to_cart'', ''ajouter au panier'', ''add to cart'']"

definition WORDS_LEAD :: "string list" where
  "WORDS_LEAD = [''demander un devis'', ''demandez un devis'', ''devis gratuit'', ''contactez-nous'',
     ''prendre rendez-vous'', ''prendre rdv'']"

definition WORDS_SAAS :: "string list" where
  "WORDS_SAAS = [''essai gratuit'', ''free trial'', ''cr'' @ e_acute @ ''er un compte'', ''creer un compte'', ''sign up free'',
     ''s'' @ apos @ ''inscrire'']"

definition SHOPIFY_MARKERS :: "string list" where
  "SHOPIFY_MARKERS = [''cdn.shopify.com'', ''myshopify.com'', ''shopify.theme'', ''window.shopify'']"

definition jsonld_types :: "string \<Rightarrow> string list" where
  "jsonld_types html = map lower (findall_group
     (sequence [lit (dquote @ ''@type'' @ dquote), spaces, lit '':'', spaces, lit dquote])
     (plus (Class is_alpha)) (lit dquote) html)"

definition has_href :: "string \<Rightarrow> string list \<Rightarrow> bool" where
  "has_href low needles = list_ex (\<lambda>n. search (\<lambda>_. True)
     (sequence [lit ''href='', quote_mark, lit n, Class (\<lambda>c. c \<in> set ''/?#'' \<or> quote_char c)]) low) needles"

definition any_in :: "string \<Rightarrow> string list \<Rightarrow> bool" where
  "any_in low ws = list_ex (\<lambda>w. contains w low) ws"

text \<open>The scoring rules of a kind, in order: does it apply, its points, why.\<close>

type_synonym scoring = "(bool \<times> rat \<times> string) list"

definition ecommerce_rules :: "string \<Rightarrow> string \<Rightarrow> stack_kind option \<Rightarrow> scoring" where
  "ecommerce_rules html low stack = [
     (stack = Some Woocommerce, 60 / 100, ''stack WooCommerce''),
     (any_in low SHOPIFY_MARKERS, 60 / 100, ''Shopify d'' @ e_acute @ ''tect'' @ e_acute),
     (''product'' \<in> set (jsonld_types html), 35 / 100, ''donn'' @ e_acute @ ''es structur'' @ e_acute @ ''es Product''),
     (any_in low WORDS_CART, 30 / 100, ''bouton '' @ guil_l @ '' ajouter au panier '' @ guil_r),
     (has_href low [''/cart'', ''/panier'', ''/checkout''], 20 / 100, ''lien vers panier ou paiement'')]"

definition lead_rules :: "string \<Rightarrow> scoring" where
  "lead_rules low = [
     (contains ''<form'' low, 20 / 100, ''formulaire pr'' @ e_acute @ ''sent''),
     (any_in low [''href='' @ dquote @ ''tel:'', ''href='' @ apos @ ''tel:''], 25 / 100, ''lien t'' @ e_acute @ ''l'' @ e_acute @ ''phone''),
     (any_in low [''href='' @ dquote @ ''mailto:'', ''href='' @ apos @ ''mailto:''], 10 / 100, ''lien e-mail''),
     (any_in low WORDS_LEAD, 30 / 100, ''vocabulaire de devis / contact'')]"

definition saas_rules :: "string \<Rightarrow> scoring" where
  "saas_rules low = [
     (any_in low WORDS_SAAS, 30 / 100, ''essai gratuit ou cr'' @ e_acute @ ''ation de compte''),
     (has_href low [''/pricing'', ''/tarifs''], 30 / 100, ''page de tarifs''),
     (has_href low [''/login'', ''/signin'', ''/connexion''], 20 / 100, ''page de connexion'')]"

definition content_rules :: "string \<Rightarrow> string \<Rightarrow> scoring" where
  "content_rules html low = [
     (list_ex (\<lambda>t. t \<in> set (jsonld_types html)) [''article'', ''blogposting'', ''newsarticle''], 40 / 100,
        ''donn'' @ e_acute @ ''es structur'' @ e_acute @ ''es Article''),
     (contains ''<article'' low, 20 / 100, ''balise article''),
     (has_href low [''/blog''], 30 / 100, ''section blog'')]"

definition score_of :: "scoring \<Rightarrow> rat" where
  "score_of rules = sum_list (map (\<lambda>(applies, points, why). if applies then points else 0) rules)"

definition signals_of :: "scoring \<Rightarrow> string list" where
  "signals_of rules = map (\<lambda>(applies, points, why). why) (filter fst rules)"

definition round2 :: "rat \<Rightarrow> rat" where
  "round2 q = of_int \<lfloor>100 * q + 1 / 2\<rfloor> / 100"

definition guess_of :: "string \<Rightarrow> scoring \<Rightarrow> type_guess option" where
  "guess_of kind rules =
    (if score_of rules < MIN_CONFIDENCE then None
     else Some \<lparr>tg_type = kind, tg_confidence = min 1 (round2 (score_of rules)), tg_signals = signals_of rules\<rparr>)"

definition detect_site_types :: "string \<Rightarrow> stack_kind option \<Rightarrow> type_guess list" where
  "detect_site_types html stack =
    (let low = lower html;
         guesses = List.map_filter (\<lambda>(kind, rules). guess_of kind rules)
           [(''ecommerce'', ecommerce_rules html low stack), (''lead_gen'', lead_rules low),
            (''saas'', saas_rules low), (''content'', content_rules html low)]
     in if guesses = [] then [\<lparr>tg_type = ''other'', tg_confidence = 1 / 2, tg_signals = []\<rparr>]
        else sort_key (\<lambda>g. - tg_confidence g) guesses)"

definition resolve_effective_types :: "type_guess list \<Rightarrow> string list option \<Rightarrow> string list" where
  "resolve_effective_types detected confirmed =
    (case confirmed of Some (c # cs) \<Rightarrow> c # cs
     | _ \<Rightarrow>
       (let picked = map tg_type (filter (\<lambda>g. PICK_CONFIDENCE \<le> tg_confidence g) detected)
        in if picked \<noteq> []
           then (let known = filter (\<lambda>t. t \<noteq> ''other'') picked in if known = [] then [''other''] else known)
           else case detected of
               g # _ \<Rightarrow> if MIN_CONFIDENCE \<le> tg_confidence g \<and> tg_type g \<noteq> ''other'' then [tg_type g] else [''other'']
             | [] \<Rightarrow> [''other'']))"

end
