(* ===== verification/Event_Snippets.thy ===== *)
theory Event_Snippets
  imports French_Text Regex Py_Dict Job_Store
begin

text \<open>
  The code the plan offers to paste (\<open>app/services/snippet_library.py\<close> and
  \<open>app/services/measurement/event_snippets.py\<close>): the library per framework, the generic templates with their
  placeholders, and which snippet an event gets.
\<close>

datatype snippet_event = Ev_purchase | Ev_lead | Ev_custom

record item_snippet =
  sn_language :: string
  sn_code :: string
  sn_target_path :: string
  sn_instructions :: string

definition snippet :: "string \<Rightarrow> string \<Rightarrow> string \<Rightarrow> string \<Rightarrow> item_snippet" where
  "snippet lang text target instructions = \<lparr>sn_language = lang, sn_code = text, sn_target_path = target,
     sn_instructions = instructions\<rparr>"

record snippet_entry = item_snippet +
  en_stack :: stack_kind
  en_event :: snippet_event

section \<open>Library per framework\<close>

definition family ::
  "item_snippet \<Rightarrow> item_snippet \<Rightarrow> item_snippet \<Rightarrow> (snippet_event \<times> item_snippet) list" where
  "family purchase lead custom = [(Ev_purchase, purchase), (Ev_lead, lead), (Ev_custom, custom)]"

definition NEXT_DECLARE :: string where
  "NEXT_DECLARE =
    ''declare global {'' @ newline
    @ ''  interface Window {'' @ newline
    @ ''    dataLayer: Record<string, unknown>[];'' @ newline
    @ ''  }'' @ newline
    @ ''}'' @ newline"

definition NEXT_PURCHASE :: string where
  "NEXT_PURCHASE =
    ''// lib/analytics.ts'' @ newline
    @ NEXT_DECLARE
    @ newline
    @ ''export function trackPurchase(order: {'' @ newline
    @ ''  id: string;'' @ newline
    @ ''  value: number;'' @ newline
    @ ''  currency: string;'' @ newline
    @ ''  items: { id: string; name: string; price: number; quantity: number }[];'' @ newline
    @ ''}) {'' @ newline
    @ ''  window.dataLayer = window.dataLayer ?? [];'' @ newline
    @ ''  window.dataLayer.push({ ecommerce: null });'' @ newline
    @ ''  window.dataLayer.push({'' @ newline
    @ ''    event: '' @ dquote @ ''purchase'' @ dquote @ '','' @ newline
    @ ''    ecommerce: {'' @ newline
    @ ''      transaction_id: order.id,'' @ newline
    @ ''      value: order.value,'' @ newline
    @ ''      currency: order.currency,'' @ newline
    @ ''      items: order.items.map((item) => ({'' @ newline
    @ ''        item_id: item.id,'' @ newline
    @ ''        item_name: item.name,'' @ newline
    @ ''        price: item.price,'' @ newline
    @ ''        quantity: item.quantity,'' @ newline
    @ ''      })),'' @ newline
    @ ''    },'' @ newline
    @ ''  });'' @ newline
    @ ''}'' @ newline"

definition NEXT_LEAD :: string where
  "NEXT_LEAD =
    ''// components/lead-form.tsx'' @ newline
    @ dquote @ ''use client'' @ dquote @ '';'' @ newline
    @ newline
    @ ''import { useState } from '' @ dquote @ ''react'' @ dquote @ '';'' @ newline
    @ newline
    @ ''export function LeadForm() {'' @ newline
    @ ''  const [done, setDone] = useState(false);'' @ newline
    @ newline
    @ ''  async function onSubmit(formData: FormData) {'' @ newline
    @ ''    const res = await fetch('' @ dquote @ ''/api/lead'' @ dquote @ '', { method: '' @ dquote
    @ ''POST'' @ dquote @ '', body: formData });'' @ newline
    @ ''    if (!res.ok) return;'' @ newline
    @ newline
    @ ''    window.dataLayer = window.dataLayer ?? [];'' @ newline
    @ ''    window.dataLayer.push({ event: '' @ dquote @ ''generate_lead'' @ dquote @ '', form_id: ''
    @ dquote @ ''contact'' @ dquote @ '' });'' @ newline
    @ ''    setDone(true);'' @ newline
    @ ''  }'' @ newline
    @ newline
    @ ''  return ('' @ newline
    @ ''    <form action={onSubmit}>'' @ newline
    @ ''      {/* ... champs ... */}'' @ newline
    @ ''      <button type='' @ dquote @ ''submit'' @ dquote @ '' disabled={done}>Envoyer</button>'' @ newline
    @ ''    </form>'' @ newline
    @ ''  );'' @ newline
    @ ''}'' @ newline"

definition NEXT_CUSTOM :: string where
  "NEXT_CUSTOM =
    ''// lib/analytics.ts'' @ newline
    @ ''type DataLayerEvent = { event: string } & Record<string, unknown>;'' @ newline
    @ newline
    @ ''export function trackEvent(payload: DataLayerEvent) {'' @ newline
    @ ''  window.dataLayer = window.dataLayer ?? [];'' @ newline
    @ ''  window.dataLayer.push(payload);'' @ newline
    @ ''}'' @ newline
    @ newline
    @ ''// exemple'' @ newline
    @ ''trackEvent({ event: '' @ dquote @ ''demo_requested'' @ dquote @ '', plan: '' @ dquote
    @ ''pro'' @ dquote @ '', source: '' @ dquote @ ''pricing'' @ dquote @ '' });'' @ newline"

definition WP_PURCHASE :: string where
  "WP_PURCHASE =
    ''<?php'' @ newline
    @ ''// functions.php - evenement purchase sur une page de confirmation generique'' @ newline
    @ newline
    @ ''add_action( '' @ apos @ ''wp_footer'' @ apos @ '', function () {'' @ newline
    @ ''    if ( ! is_page( '' @ apos @ ''merci'' @ apos @ '' ) ) {'' @ newline
    @ ''        return;'' @ newline
    @ ''    }'' @ newline
    @ ''    $order = cc_get_last_order(); // fourni par votre integration commande'' @ newline
    @ ''    ?>'' @ newline
    @ ''    <script>'' @ newline
    @ ''        window.dataLayer = window.dataLayer || [];'' @ newline
    @ ''        window.dataLayer.push({ ecommerce: null });'' @ newline
    @ ''        window.dataLayer.push(<?php echo wp_json_encode( array('' @ newline
    @ ''            '' @ apos @ ''event'' @ apos @ ''     => '' @ apos @ ''purchase'' @ apos @ '','' @ newline
    @ ''            '' @ apos @ ''ecommerce'' @ apos @ '' => array('' @ newline
    @ ''                '' @ apos @ ''transaction_id'' @ apos @ '' => $order['' @ apos @ ''id'' @ apos
    @ ''],'' @ newline
    @ ''                '' @ apos @ ''value'' @ apos @ ''          => (float) $order['' @ apos
    @ ''total'' @ apos @ ''],'' @ newline
    @ ''                '' @ apos @ ''currency'' @ apos @ ''       => $order['' @ apos @ ''currency''
    @ apos @ ''],'' @ newline
    @ ''            ),'' @ newline
    @ ''        ) ); ?>);'' @ newline
    @ ''    </script>'' @ newline
    @ ''    <?php'' @ newline
    @ ''} );'' @ newline"

definition WP_LEAD :: string where
  "WP_LEAD =
    ''<?php'' @ newline
    @ ''// functions.php - evenement generate_lead apres un envoi Contact Form 7'' @ newline
    @ newline
    @ ''add_action( '' @ apos @ ''wp_footer'' @ apos @ '', function () {'' @ newline
    @ ''    ?>'' @ newline
    @ ''    <script>'' @ newline
    @ ''        document.addEventListener( '' @ apos @ ''wpcf7mailsent'' @ apos
    @ '', function ( event ) {'' @ newline
    @ ''            window.dataLayer = window.dataLayer || [];'' @ newline
    @ ''            window.dataLayer.push({'' @ newline
    @ ''                event: '' @ apos @ ''generate_lead'' @ apos @ '','' @ newline
    @ ''                form_id: '' @ apos @ ''cf7-'' @ apos @ '' + event.detail.contactFormId,'' @ newline
    @ ''            });'' @ newline
    @ ''        } );'' @ newline
    @ ''    </script>'' @ newline
    @ ''    <?php'' @ newline
    @ ''} );'' @ newline"

definition WP_CUSTOM :: string where
  "WP_CUSTOM =
    ''<?php'' @ newline
    @ ''// functions.php - evenement personnalise via attribut data-track-event'' @ newline
    @ newline
    @ ''add_action( '' @ apos @ ''wp_footer'' @ apos @ '', function () {'' @ newline
    @ ''    ?>'' @ newline
    @ ''    <script>'' @ newline
    @ ''        document.querySelectorAll( '' @ apos @ ''[data-track-event]'' @ apos
    @ '' ).forEach( function ( el ) {'' @ newline
    @ ''            el.addEventListener( '' @ apos @ ''click'' @ apos @ '', function () {'' @ newline
    @ ''                window.dataLayer = window.dataLayer || [];'' @ newline
    @ ''                window.dataLayer.push({ event: el.dataset.trackEvent });'' @ newline
    @ ''            } );'' @ newline
    @ ''        } );'' @ newline
    @ ''    </script>'' @ newline
    @ ''    <?php'' @ newline
    @ ''} );'' @ newline"

definition WOO_PURCHASE :: string where
  "WOO_PURCHASE =
    ''<?php'' @ newline
    @ ''// functions.php - evenement purchase sur la page de confirmation WooCommerce'' @ newline
    @ newline
    @ ''add_action( '' @ apos @ ''woocommerce_thankyou'' @ apos @ '', function ( $order_id ) {'' @ newline
    @ ''    $order = wc_get_order( $order_id );'' @ newline
    @ ''    if ( ! $order || $order->get_meta( '' @ apos @ ''_cc_purchase_pushed'' @ apos @ '' ) ) {'' @ newline
    @ ''        return;'' @ newline
    @ ''    }'' @ newline
    @ newline
    @ ''    $items = array();'' @ newline
    @ ''    foreach ( $order->get_items() as $item ) {'' @ newline
    @ ''        $product = $item->get_product();'' @ newline
    @ ''        $items[] = array('' @ newline
    @ ''            '' @ apos @ ''item_id'' @ apos
    @ ''   => $product ? $product->get_sku() : (string) $item->get_product_id(),'' @ newline
    @ ''            '' @ apos @ ''item_name'' @ apos @ '' => $item->get_name(),'' @ newline
    @ ''            '' @ apos @ ''price'' @ apos
    @ ''     => (float) $order->get_item_total( $item, false, false ),'' @ newline
    @ ''            '' @ apos @ ''quantity'' @ apos @ ''  => (int) $item->get_quantity(),'' @ newline
    @ ''        );'' @ newline
    @ ''    }'' @ newline
    @ ''    ?>'' @ newline
    @ ''    <script>'' @ newline
    @ ''        window.dataLayer = window.dataLayer || [];'' @ newline
    @ ''        window.dataLayer.push({ ecommerce: null });'' @ newline
    @ ''        window.dataLayer.push(<?php echo wp_json_encode( array('' @ newline
    @ ''            '' @ apos @ ''event'' @ apos @ ''     => '' @ apos @ ''purchase'' @ apos @ '','' @ newline
    @ ''            '' @ apos @ ''ecommerce'' @ apos @ '' => array('' @ newline
    @ ''                '' @ apos @ ''transaction_id'' @ apos @ '' => $order->get_order_number(),'' @ newline
    @ ''                '' @ apos @ ''value'' @ apos @ ''          => (float) $order->get_total(),'' @ newline
    @ ''                '' @ apos @ ''currency'' @ apos @ ''       => $order->get_currency(),'' @ newline
    @ ''                '' @ apos @ ''items'' @ apos @ ''          => $items,'' @ newline
    @ ''            ),'' @ newline
    @ ''        ) ); ?>);'' @ newline
    @ ''    </script>'' @ newline
    @ ''    <?php'' @ newline
    @ ''    $order->update_meta_data( '' @ apos @ ''_cc_purchase_pushed'' @ apos @ '', 1 );'' @ newline
    @ ''    $order->save();'' @ newline
    @ ''}, 20 );'' @ newline"

definition NUXT_PURCHASE :: string where
  "NUXT_PURCHASE =
    ''// composables/useAnalytics.ts'' @ newline
    @ ''export function useAnalytics() {'' @ newline
    @ ''  function push(payload: Record<string, unknown>) {'' @ newline
    @ ''    if (import.meta.client) {'' @ newline
    @ ''      window.dataLayer = window.dataLayer ?? [];'' @ newline
    @ ''      window.dataLayer.push(payload);'' @ newline
    @ ''    }'' @ newline
    @ ''  }'' @ newline
    @ newline
    @ ''  function trackPurchase(order: {'' @ newline
    @ ''    id: string;'' @ newline
    @ ''    value: number;'' @ newline
    @ ''    currency: string;'' @ newline
    @ ''    items: { id: string; name: string; price: number; quantity: number }[];'' @ newline
    @ ''  }) {'' @ newline
    @ ''    push({ ecommerce: null });'' @ newline
    @ ''    push({'' @ newline
    @ ''      event: '' @ dquote @ ''purchase'' @ dquote @ '','' @ newline
    @ ''      ecommerce: {'' @ newline
    @ ''        transaction_id: order.id,'' @ newline
    @ ''        value: order.value,'' @ newline
    @ ''        currency: order.currency,'' @ newline
    @ ''        items: order.items.map((i) => ({'' @ newline
    @ ''          item_id: i.id,'' @ newline
    @ ''          item_name: i.name,'' @ newline
    @ ''          price: i.price,'' @ newline
    @ ''          quantity: i.quantity,'' @ newline
    @ ''        })),'' @ newline
    @ ''      },'' @ newline
    @ ''    });'' @ newline
    @ ''  }'' @ newline
    @ newline
    @ ''  return { push, trackPurchase };'' @ newline
    @ ''}'' @ newline"

definition NUXT_LEAD :: string where
  "NUXT_LEAD =
    ''// composables/useAnalytics.ts (extrait)'' @ newline
    @ ''export function useAnalytics() {'' @ newline
    @ ''  function push(payload: Record<string, unknown>) {'' @ newline
    @ ''    if (import.meta.client) {'' @ newline
    @ ''      window.dataLayer = window.dataLayer ?? [];'' @ newline
    @ ''      window.dataLayer.push(payload);'' @ newline
    @ ''    }'' @ newline
    @ ''  }'' @ newline
    @ newline
    @ ''  function trackLead(formId: string) {'' @ newline
    @ ''    push({ event: '' @ dquote @ ''generate_lead'' @ dquote @ '', form_id: formId });'' @ newline
    @ ''  }'' @ newline
    @ newline
    @ ''  return { push, trackLead };'' @ newline
    @ ''}'' @ newline"

definition NUXT_CUSTOM :: string where
  "NUXT_CUSTOM =
    ''// composables/useAnalytics.ts (extrait)'' @ newline
    @ ''export function useAnalytics() {'' @ newline
    @ ''  function trackEvent(name: string, params: Record<string, unknown> = {}) {'' @ newline
    @ ''    if (import.meta.client) {'' @ newline
    @ ''      window.dataLayer = window.dataLayer ?? [];'' @ newline
    @ ''      window.dataLayer.push({ event: name, ...params });'' @ newline
    @ ''    }'' @ newline
    @ ''  }'' @ newline
    @ newline
    @ ''  return { trackEvent };'' @ newline
    @ ''}'' @ newline"

definition JS_PURCHASE :: string where
  "JS_PURCHASE =
    ''// assets/analytics.js - a charger sur la page de confirmation'' @ newline
    @ newline
    @ ''(function () {'' @ newline
    @ ''  var order = window.__ORDER__; // injecte par le back-end'' @ newline
    @ ''  if (!order) return;'' @ newline
    @ newline
    @ ''  window.dataLayer = window.dataLayer || [];'' @ newline
    @ ''  window.dataLayer.push({ ecommerce: null });'' @ newline
    @ ''  window.dataLayer.push({'' @ newline
    @ ''    event: '' @ dquote @ ''purchase'' @ dquote @ '','' @ newline
    @ ''    ecommerce: {'' @ newline
    @ ''      transaction_id: order.reference,'' @ newline
    @ ''      value: order.total,'' @ newline
    @ ''      currency: order.currency,'' @ newline
    @ ''      items: (order.lines || []).map(function (line) {'' @ newline
    @ ''        return {'' @ newline
    @ ''          item_id: line.sku,'' @ newline
    @ ''          item_name: line.title,'' @ newline
    @ ''          price: line.unitPrice,'' @ newline
    @ ''          quantity: line.quantity,'' @ newline
    @ ''        };'' @ newline
    @ ''      }),'' @ newline
    @ ''    },'' @ newline
    @ ''  });'' @ newline
    @ ''})();'' @ newline"

definition JS_LEAD :: string where
  "JS_LEAD =
    ''// assets/analytics.js'' @ newline
    @ newline
    @ ''var form = document.querySelector('' @ dquote @ ''#lead-form'' @ dquote @ '');'' @ newline
    @ ''if (form) {'' @ newline
    @ ''  form.addEventListener('' @ dquote @ ''submit'' @ dquote @ '', function () {'' @ newline
    @ ''    window.dataLayer = window.dataLayer || [];'' @ newline
    @ ''    window.dataLayer.push({ event: '' @ dquote @ ''generate_lead'' @ dquote @ '', form_id: ''
    @ dquote @ ''lead-form'' @ dquote @ '' });'' @ newline
    @ ''  });'' @ newline
    @ ''}'' @ newline"

definition JS_CUSTOM :: string where
  "JS_CUSTOM =
    ''// assets/analytics.js'' @ newline
    @ newline
    @ ''function trackEvent(name, params) {'' @ newline
    @ ''  window.dataLayer = window.dataLayer || [];'' @ newline
    @ ''  window.dataLayer.push(Object.assign({ event: name }, params || {}));'' @ newline
    @ ''}'' @ newline
    @ newline
    @ ''trackEvent('' @ dquote @ ''cta_click'' @ dquote @ '', { cta_location: '' @ dquote @ ''hero''
    @ dquote @ '' });'' @ newline"

definition NEXT_FAMILY :: "(snippet_event \<times> item_snippet) list" where
  "NEXT_FAMILY = family
    (snippet (''ts'') NEXT_PURCHASE
      (''lib/analytics.ts'')
      (''Appelez trackPurchase() dans un effet client sur app/checkout/success/page.tsx, apres ''
       @ ''confirmation du paiement.''))
    (snippet (''tsx'') NEXT_LEAD
      (''components/lead-form.tsx'')
      (''Le push suit la reponse OK de l'' @ apos @ ''API, pas le clic.''))
    (snippet (''ts'') NEXT_CUSTOM
      (''lib/analytics.ts'')
      (''Declarez Window.dataLayer une fois, importez trackEvent partout.''))"

definition WP_FAMILY :: "(snippet_event \<times> item_snippet) list" where
  "WP_FAMILY = family
    (snippet (''php'') WP_PURCHASE
      (''wp-content/themes/<theme>/functions.php'')
      (''Adaptez cc_get_last_order() a votre systeme de commande, ou utilisez l'' @ apos
       @ ''extension Code Snippets.''))
    (snippet (''php'') WP_LEAD
      (''wp-content/themes/<theme>/functions.php'')
      (''Le hook wpcf7mailsent n'' @ apos @ ''est emis qu'' @ apos @ ''apres l'' @ apos @ ''envoi de l''
       @ apos @ ''e-mail.''))
    (snippet (''php'') WP_CUSTOM
      (''wp-content/themes/<theme>/functions.php'')
      (''Ajoutez data-track-event='' @ dquote @ ''nom_evenement'' @ dquote
       @ '' sur les elements a suivre.''))"

definition WOO_FAMILY :: "(snippet_event \<times> item_snippet) list" where
  "WOO_FAMILY = dict_set Ev_purchase
    (snippet (''php'') WOO_PURCHASE
      (''wp-content/themes/<theme>/functions.php'')
      (''Le hook woocommerce_thankyou ne se declenche qu'' @ apos
       @ ''une fois ; le garde-fou _cc_purchase_pushed evite le double comptage.'')) WP_FAMILY"

definition NUXT_FAMILY :: "(snippet_event \<times> item_snippet) list" where
  "NUXT_FAMILY = family
    (snippet (''ts'') NUXT_PURCHASE
      (''composables/useAnalytics.ts'')
      (''Appelez useAnalytics().trackPurchase() sur la page de confirmation.''))
    (snippet (''ts'') NUXT_LEAD
      (''composables/useAnalytics.ts'')
      (''Appelez trackLead() dans le callback de succes du formulaire.''))
    (snippet (''ts'') NUXT_CUSTOM
      (''composables/useAnalytics.ts'')
      (''import.meta.client garde le push cote navigateur uniquement.''))"

definition FALLBACK_FAMILY :: "(snippet_event \<times> item_snippet) list" where
  "FALLBACK_FAMILY = family
    (snippet (''js'') JS_PURCHASE
      (''assets/analytics.js'')
      (''A charger apres le conteneur GTM, uniquement sur l'' @ apos @ ''URL de confirmation.''))
    (snippet (''js'') JS_LEAD
      (''assets/analytics.js'')
      (''Si l'' @ apos @ ''envoi est asynchrone, deplacez le push dans le callback de succes.''))
    (snippet (''js'') JS_CUSTOM
      (''assets/analytics.js'')
      (''Exposez trackEvent sur window si d'' @ apos @ ''autres scripts doivent l'' @ apos @ ''appeler.''))"

definition REGISTRY :: "(stack_kind \<times> (snippet_event \<times> item_snippet) list) list" where
  "REGISTRY = [(Nextjs, NEXT_FAMILY),
     (Wordpress, WP_FAMILY),
     (Woocommerce, WOO_FAMILY),
     (Nuxt, NUXT_FAMILY),
     (Vue, FALLBACK_FAMILY),
     (Angular, FALLBACK_FAMILY),
     (Generic, FALLBACK_FAMILY),
     (Unknown, FALLBACK_FAMILY)]"

definition resolve_stack :: "stack_kind option \<Rightarrow> stack_kind \<times> (snippet_event \<times> item_snippet) list" where
  "resolve_stack stack =
    (let key = (case stack of None \<Rightarrow> Unknown | Some s \<Rightarrow> s) in (key, get_default FALLBACK_FAMILY REGISTRY key))"

fun snippet_entries ::
  "stack_kind \<Rightarrow> (snippet_event \<times> item_snippet) list \<Rightarrow> snippet_event list \<Rightarrow> snippet_entry list result" where
  "snippet_entries stack fam [] = Inr []"
| "snippet_entries stack fam (e # es) = try_bind (dict_get fam e) (\<lambda>s.
     try_bind (snippet_entries stack fam es) (\<lambda>rest.
       Inr (\<lparr>sn_language = sn_language s, sn_code = sn_code s, sn_target_path = sn_target_path s,
         sn_instructions = sn_instructions s, en_stack = stack, en_event = e\<rparr> # rest)))"

definition get_snippets :: "stack_kind option \<Rightarrow> snippet_event option \<Rightarrow> snippet_entry list result" where
  "get_snippets stack event =
    (case resolve_stack stack of (resolved, fam) \<Rightarrow>
       snippet_entries resolved fam (case event of None \<Rightarrow> [Ev_purchase, Ev_lead, Ev_custom] | Some e \<Rightarrow> [e]))"

section \<open>Templates\<close>

definition GENERIC_NOTE :: string where
  "GENERIC_NOTE =
    ''Snippet JavaScript g'' @ e_acute @ ''n'' @ e_acute @ ''rique : adapte-le '' @ a_grave
    @ '' ton framework (composant, hook, gestionnaire d'' @ apos @ e_acute @ ''v'' @ e_acute
    @ ''nement) ou transmets-le '' @ a_grave @ '' ton d'' @ e_acute @ ''veloppeur.''"

definition ECOM_CODE :: string where
  "ECOM_CODE =
    ''// '' @ A_grave @ '' d'' @ e_acute @ ''clencher __WHEN__'' @ newline
    @ ''window.dataLayer = window.dataLayer || [];'' @ newline
    @ ''window.dataLayer.push({ ecommerce: null });'' @ newline
    @ ''window.dataLayer.push({'' @ newline
    @ ''  event: '' @ dquote @ ''__EVENT__'' @ dquote @ '','' @ newline
    @ ''  ecommerce: {'' @ newline
    @ ''    currency: '' @ dquote @ ''EUR'' @ dquote @ '','' @ newline
    @ ''    value: 0, // montant total concern'' @ e_acute @ newline
    @ ''    items: ['' @ newline
    @ ''      { item_id: '' @ dquote @ ''SKU123'' @ dquote @ '', item_name: '' @ dquote
    @ ''Nom du produit'' @ dquote @ '', price: 0, quantity: 1 },'' @ newline
    @ ''    ],'' @ newline
    @ ''  },'' @ newline
    @ ''});'' @ newline"

definition SIMPLE_CODE :: string where
  "SIMPLE_CODE =
    ''// '' @ A_grave @ '' d'' @ e_acute @ ''clencher __WHEN__'' @ newline
    @ ''window.dataLayer = window.dataLayer || [];'' @ newline
    @ ''window.dataLayer.push({'' @ newline
    @ ''  event: '' @ dquote @ ''__EVENT__'' @ dquote @ '',__PARAMS__'' @ newline
    @ ''});'' @ newline"

definition LINK_CODE :: string where
  "LINK_CODE =
    ''// '' @ A_grave @ '' charger sur toutes les pages'' @ newline
    @ ''document.addEventListener('' @ dquote @ ''click'' @ dquote @ '', (e) => {'' @ newline
    @ ''  const link = e.target.closest('' @ apos @ ''__SELECTOR__'' @ apos @ '');'' @ newline
    @ ''  if (!link) return;'' @ newline
    @ ''  window.dataLayer = window.dataLayer || [];'' @ newline
    @ ''  window.dataLayer.push({ event: '' @ dquote @ ''__EVENT__'' @ dquote @ ''__PARAMS__ });'' @ newline
    @ ''});'' @ newline"

definition CONSENT_CODE :: string where
  "CONSENT_CODE =
    ''<!-- '' @ A_grave @ '' placer AVANT le snippet Google Tag Manager, dans le <head> -->'' @ newline
    @ ''<script>'' @ newline
    @ ''  window.dataLayer = window.dataLayer || [];'' @ newline
    @ ''  function gtag() { dataLayer.push(arguments); }'' @ newline
    @ ''  gtag('' @ apos @ ''consent'' @ apos @ '', '' @ apos @ ''default'' @ apos @ '', {'' @ newline
    @ ''    ad_storage: '' @ apos @ ''denied'' @ apos @ '','' @ newline
    @ ''    ad_user_data: '' @ apos @ ''denied'' @ apos @ '','' @ newline
    @ ''    ad_personalization: '' @ apos @ ''denied'' @ apos @ '','' @ newline
    @ ''    analytics_storage: '' @ apos @ ''denied'' @ apos @ '','' @ newline
    @ ''    wait_for_update: 500,'' @ newline
    @ ''  });'' @ newline
    @ ''  // Ta banni'' @ e_grave @ ''re de consentement doit ensuite appeler gtag('' @ apos
    @ ''consent'' @ apos @ '', '' @ apos @ ''update'' @ apos @ '', {...})'' @ newline
    @ ''  // quand le visiteur accepte.'' @ newline
    @ ''</script>'' @ newline"

definition ECOM_WHEN :: "(string \<times> string) list" where
  "ECOM_WHEN = [
     (''view_item'', ''au chargement d'' @ apos @ ''une fiche produit''),
     (''add_to_cart'', ''au clic sur '' @ guil_l @ '' ajouter au panier '' @ guil_r),
     (''begin_checkout'', a_grave @ '' l'' @ apos @ ''ouverture de la page de paiement'')]"

definition SIMPLE_EVENTS :: "(string \<times> string \<times> string) list" where
  "SIMPLE_EVENTS = [
     (''sign_up'',
       ''apr'' @ e_grave @ ''s la cr'' @ e_acute @ ''ation r'' @ e_acute @ ''ussie du compte'',
       newline @ ''  method: '' @ dquote @ ''email'' @ dquote @ '', // ou '' @ dquote @ ''google''
        @ dquote @ '', '' @ dots),
     (''login'',
       ''apr'' @ e_grave @ ''s une connexion r'' @ e_acute @ ''ussie'',
       newline @ ''  method: '' @ dquote @ ''email'' @ dquote @ '',''),
     (''begin_trial'',
       ''au d'' @ e_acute @ ''marrage effectif de l'' @ apos @ ''essai'',
       newline @ ''  plan: '' @ dquote @ ''pro'' @ dquote @ '', // nom de l'' @ apos @ ''offre''),
     (''subscribe'',
       ''apr'' @ e_grave @ ''s la souscription '' @ a_grave @ '' une offre payante'',
       newline @ ''  value: 0, // montant de l'' @ apos @ ''abonnement'' @ newline @ ''  currency: ''
        @ dquote @ ''EUR'' @ dquote @ '',''),
     (''tutorial_complete'',
       ''quand l'' @ apos @ ''utilisateur termine l'' @ apos @ ''onboarding'',
       ''''),
     (''newsletter_signup'',
       ''apr'' @ e_grave @ ''s l'' @ apos @ ''inscription r'' @ e_acute @ ''ussie '' @ a_grave
        @ '' la newsletter'',
       ''''),
     (''share'',
       ''au clic sur un bouton de partage'',
       newline @ ''  method: '' @ dquote @ ''twitter'' @ dquote @ '', // r'' @ e_acute @ ''seau utilis''
        @ e_acute @ newline @ ''  content_type: '' @ dquote @ ''article'' @ dquote @ '','')]"

definition LINK_EVENTS :: "(string \<times> string \<times> string) list" where
  "LINK_EVENTS = [
     (''click_to_call'',
       ''a[href^='' @ dquote @ ''tel:'' @ dquote @ '']'',
       ''''),
     (''click_email'',
       ''a[href^='' @ dquote @ ''mailto:'' @ dquote @ '']'',
       ''''),
     (''click_whatsapp'',
       ''a[href*='' @ dquote @ ''wa.me'' @ dquote @ ''], a[href*='' @ dquote @ ''whatsapp.com'' @ dquote
        @ '']'',
       '', link_url: link.href.split('' @ dquote @ ''?'' @ dquote @ '')[0]'')]"

section \<open>The snippet of an event\<close>

definition from_library :: "snippet_event \<Rightarrow> stack_kind option \<Rightarrow> item_snippet option result" where
  "from_library event stack = try_bind (get_snippets stack (Some event)) (\<lambda>entries.
     Inr (case entries of [] \<Rightarrow> None
       | first # _ \<Rightarrow> Some (snippet (sn_language first) (sn_code first) (sn_target_path first) (sn_instructions first))))"

definition js_snippet :: "string \<Rightarrow> string \<Rightarrow> item_snippet" where
  "js_snippet text note = snippet ''js'' text ''assets/analytics.js'' note"

definition snippet_for_event :: "string \<Rightarrow> stack_kind option \<Rightarrow> item_snippet option result" where
  "snippet_for_event event stack =
    (if event = ''purchase'' then from_library Ev_purchase stack
     else if event = ''generate_lead'' then from_library Ev_lead stack
     else Inr
       (case map_of ECOM_WHEN event of
          Some moment \<Rightarrow> Some (js_snippet
            (replace_all ''__EVENT__'' event (replace_all ''__WHEN__'' moment ECOM_CODE)) GENERIC_NOTE)
        | None \<Rightarrow>
       (case map_of SIMPLE_EVENTS event of
          Some (moment, params) \<Rightarrow> Some (js_snippet
            (replace_all ''__PARAMS__'' params (replace_all ''__EVENT__'' event
              (replace_all ''__WHEN__'' moment SIMPLE_CODE))) GENERIC_NOTE)
        | None \<Rightarrow>
       (case map_of LINK_EVENTS event of
          Some (selector, params) \<Rightarrow> Some (js_snippet
            (replace_all ''__PARAMS__'' params (replace_all ''__EVENT__'' event
              (replace_all ''__SELECTOR__'' selector LINK_CODE)))
            (A_grave @ '' charger une seule fois sur toutes les pages du site. '' @ GENERIC_NOTE))
        | None \<Rightarrow>
          if event = ''consent_default''
          then Some (snippet ''html'' CONSENT_CODE ''<head> (avant le snippet GTM)''
            (''Bloc HTML complet (balise <script> incluse) '' @ a_grave
      @ '' coller tel quel dans le <head>, avant le snippet Google Tag Manager. Si ta banni'' @ e_grave
      @ ''re de consentement envoie d'' @ e_acute @ ''j'' @ a_grave @ '' cet '' @ e_acute @ ''tat par d''
      @ e_acute @ ''faut, ne l'' @ apos @ ''ajoute pas en double.''))
          else None))))"

section \<open>Every offered snippet exists\<close>

lemma registry_families: "\<exists>s. map_of (get_default FALLBACK_FAMILY REGISTRY key) e = Some s"
proof -
  have "get_default FALLBACK_FAMILY REGISTRY key \<in> {NEXT_FAMILY, WP_FAMILY, WOO_FAMILY, NUXT_FAMILY, FALLBACK_FAMILY}"
    by (simp add: get_default_def REGISTRY_def)
  moreover have "\<exists>s. map_of (family a b c) e = Some s" for a b c
    by (cases e) (simp_all add: family_def)
  ultimately show ?thesis
    by (auto simp: NEXT_FAMILY_def WP_FAMILY_def NUXT_FAMILY_def FALLBACK_FAMILY_def WOO_FAMILY_def)
qed

lemma get_snippets_one: "\<exists>s. get_snippets stack (Some e) = Inr [s]"
  using registry_families [of "case stack of None \<Rightarrow> Unknown | Some s \<Rightarrow> s" e]
  by (auto simp: get_snippets_def resolve_stack_def Let_def dict_get_def)

lemma from_library_some: "\<exists>s. from_library e stack = Inr (Some s)"
  using get_snippets_one [of stack e] by (auto simp: from_library_def)

lemma snippet_for_event_ok: "is_ok (snippet_for_event event stack)"
  using from_library_some [of Ev_purchase stack] from_library_some [of Ev_lead stack]
  by (auto simp: snippet_for_event_def)

end
