(* ===== verification/Metric_Registry.thy ===== *)
theory Metric_Registry
  imports Metric_Types
begin

text \<open>
  \<open>app/services/metrics/registry.py\<close>: the stored metrics, with their unit, the direction of
  improvement, the permitted dimensions, the aggregation and the thresholds. Labels are UTF-8 text,
  written as bytes; thresholds are exact rationals.
\<close>

datatype metric_unit = U_count | U_currency | U_ratio | U_position | U_ms | U_score | U_days | U_unitless
datatype direction = Higher_is_better | Lower_is_better | Neutral
datatype aggregation = A_sum | A_mean | A_last | A_ratio | A_weighted_mean

definition TOP_N :: nat where "TOP_N = 25"

record thresholds =
  th_good :: "rat option"
  th_poor :: "rat option"
  th_drop_alert_pct :: "rat option"

definition no_thresholds :: thresholds where
  "no_thresholds = \<lparr>th_good = None, th_poor = None, th_drop_alert_pct = None\<rparr>"

record metric_def =
  md_key :: string
  md_source :: string
  md_name :: string
  md_label :: string
  md_unit :: metric_unit
  md_direction :: direction
  md_aggregation :: aggregation
  md_dimensions :: "string list"
  md_top_n :: nat
  md_ratio_of :: "(string \<times> string) option"
  md_weight_by :: "string option"
  md_thresholds :: thresholds

definition mk_metric :: "string \<Rightarrow> string \<Rightarrow> string \<Rightarrow> metric_unit \<Rightarrow> direction \<Rightarrow> aggregation \<Rightarrow>
    string list \<Rightarrow> nat \<Rightarrow> (string \<times> string) option \<Rightarrow> string option \<Rightarrow> thresholds \<Rightarrow> metric_def" where
  "mk_metric source name label u d agg dimensions top_n ratio_of weight_by th = \<lparr>
     md_key = source @ ''.'' @ name, md_source = source, md_name = name, md_label = label, md_unit = u,
     md_direction = d, md_aggregation = agg, md_dimensions = dimensions, md_top_n = top_n,
     md_ratio_of = ratio_of, md_weight_by = weight_by, md_thresholds = th\<rparr>"

definition METRICS :: "metric_def list" where
  "METRICS = [
    mk_metric ''ga4'' ''sessions'' (''Sessions'')
      U_count Higher_is_better A_sum [] 0 (None) (None)
      (no_thresholds\<lparr>th_drop_alert_pct := Some 40\<rparr>),
    mk_metric ''ga4'' ''screen_page_views'' (''Pages vues'')
      U_count Higher_is_better A_sum [] 0 (None) (None)
      (no_thresholds),
    mk_metric ''ga4'' ''engaged_sessions'' (''Sessions avec engagement'')
      U_count Higher_is_better A_sum [] 0 (None) (None)
      (no_thresholds),
    mk_metric ''ga4'' ''key_events'' ([CHR 0xC3, CHR 0x89] @ ''v'' @ [CHR 0xC3, CHR 0xA9] @ ''nements cl'' @ [CHR 0xC3, CHR 0xA9] @ ''s (conversions)'')
      U_count Higher_is_better A_sum [] 0 (None) (None)
      (no_thresholds\<lparr>th_drop_alert_pct := Some 50\<rparr>),
    mk_metric ''ga4'' ''total_revenue'' (''Revenu total'')
      U_currency Higher_is_better A_sum [] 0 (None) (None)
      (no_thresholds),
    mk_metric ''ga4'' ''event_count'' (''Nombre d'' @ [CHR 0x27, CHR 0xC3, CHR 0xA9] @ ''v'' @ [CHR 0xC3, CHR 0xA9] @ ''nements'')
      U_count Neutral A_sum [''event_name''] TOP_N (None) (None)
      (no_thresholds),
    mk_metric ''gsc'' ''clicks'' (''Clics depuis la recherche Google'')
      U_count Higher_is_better A_sum [''page'', ''query''] TOP_N (None) (None)
      (no_thresholds\<lparr>th_drop_alert_pct := Some 40\<rparr>),
    mk_metric ''gsc'' ''impressions'' (''Impressions dans la recherche Google'')
      U_count Higher_is_better A_sum [''page'', ''query''] TOP_N (None) (None)
      (no_thresholds),
    mk_metric ''gsc'' ''ctr'' (''Taux de clic'')
      U_ratio Higher_is_better A_ratio [] 0 (Some (''clicks'', ''impressions'')) (None)
      (no_thresholds),
    mk_metric ''gsc'' ''position'' (''Position moyenne'')
      U_position Lower_is_better A_weighted_mean [] 0 (None) (Some ''impressions'')
      (no_thresholds),
    mk_metric ''cwv'' ''lcp_p75_ms'' (''LCP des visiteurs r'' @ [CHR 0xC3, CHR 0xA9] @ ''els (75e centile)'')
      U_ms Lower_is_better A_last [] 0 (None) (None)
      (no_thresholds\<lparr>th_good := Some 2500, th_poor := Some 4000\<rparr>),
    mk_metric ''cwv'' ''inp_p75_ms'' (''INP des visiteurs r'' @ [CHR 0xC3, CHR 0xA9] @ ''els (75e centile)'')
      U_ms Lower_is_better A_last [] 0 (None) (None)
      (no_thresholds\<lparr>th_good := Some 200, th_poor := Some 500\<rparr>),
    mk_metric ''cwv'' ''cls_p75'' (''CLS des visiteurs r'' @ [CHR 0xC3, CHR 0xA9] @ ''els (75e centile)'')
      U_unitless Lower_is_better A_last [] 0 (None) (None)
      (no_thresholds\<lparr>th_good := Some (1 / 10), th_poor := Some (1 / 4)\<rparr>),
    mk_metric ''cwv'' ''performance_score'' (''Score de performance (laboratoire)'')
      U_score Higher_is_better A_last [] 0 (None) (None)
      (no_thresholds\<lparr>th_good := Some 90, th_poor := Some 50\<rparr>),
    mk_metric ''probe'' ''tls_days_remaining'' (''Jours avant expiration du certificat HTTPS'')
      U_days Higher_is_better A_last [] 0 (None) (None)
      (no_thresholds\<lparr>th_good := Some 30, th_poor := Some 7\<rparr>),
    mk_metric ''probe'' ''page_up'' (''Page d'' @ [CHR 0x27] @ ''accueil joignable (dernier contr'' @ [CHR 0xC3, CHR 0xB4] @ ''le du jour)'')
      U_ratio Higher_is_better A_mean [] 0 (None) (None)
      (no_thresholds\<lparr>th_good := Some 1, th_poor := Some (9 / 10)\<rparr>)]"

text \<open>The dictionaries keep the last entry of a key.\<close>

definition metric_def_of :: "string \<Rightarrow> string \<Rightarrow> metric_def option" where
  "metric_def_of source name = find_row (\<lambda>m. (md_source m, md_name m) = (source, name)) (rev METRICS)"

definition metric_by_key :: "string \<Rightarrow> metric_def option" where
  "metric_by_key key = find_row (\<lambda>m. md_key m = key) (rev METRICS)"

definition metrics_for_source :: "string \<Rightarrow> metric_def list" where
  "metrics_for_source source = filter (\<lambda>m. md_source m = source) METRICS"

lemma metric_def_ofD:
  "metric_def_of source name = Some m \<Longrightarrow> m \<in> set METRICS \<and> md_source m = source \<and> md_name m = name"
  by (auto simp: metric_def_of_def dest: find_row_SomeD)

lemma registry_shape:
  "m \<in> set METRICS \<Longrightarrow>
    (md_aggregation m = A_ratio \<longrightarrow> md_ratio_of m \<noteq> None) \<and>
    (md_aggregation m = A_weighted_mean \<longrightarrow> md_weight_by m \<noteq> None) \<and>
    (md_dimensions m \<noteq> [] \<longrightarrow> md_aggregation m = A_sum \<and> 0 < md_top_n m) \<and>
    md_key m = md_source m @ ''.'' @ md_name m"
  unfolding METRICS_def by (auto simp: mk_metric_def TOP_N_def)

end
