(* ===== verification/Metric_Aggregate.thy ===== *)
theory Metric_Aggregate
  imports Metric_Registry
begin

text \<open>
  \<open>app/services/metrics/aggregate.py\<close>: the weeks and months of a window and the aggregation of
  a daily series. The locale \<open>period_grid\<close> is what the readers and writers of rollups rely on: periods
  partition the calendar and the loop of \<open>periods_between\<close> walks them. Weeks and months are its two
  instances. A series is the list of its \<open>(day, value)\<close> entries, each day once; values are exact
  rationals, so rounding and overflow of floats are not modelled.
\<close>

datatype grain = Week | Month

definition GRAINS :: "grain list" where "GRAINS = [Week, Month]"

definition week_start :: "date \<Rightarrow> date" where "week_start d = d - weekday d"

definition month_start :: "date \<Rightarrow> date" where "month_start d = ymd2ord (year_of d) (month_of d) 1"

definition period_start :: "date \<Rightarrow> grain \<Rightarrow> date" where
  "period_start d g = (if g = Week then week_start d else month_start d)"

definition period_end :: "date \<Rightarrow> grain \<Rightarrow> date result" where
  "period_end s g = (if g = Week then date_add s 6
     else Inr (ymd2ord (year_of s) (month_of s) (days_in_month (year_of s) (month_of s))))"

section \<open>Periods partition the calendar\<close>

definition period_last :: "grain \<Rightarrow> date \<Rightarrow> date" where
  "period_last g s = (if g = Week then s + 6 else month_first (month_index s + 1) - 1)"

locale period_grid =
  fixes pstart :: "date \<Rightarrow> date" and plast :: "date \<Rightarrow> date"
  assumes start_le: "pstart d \<le> d"
    and le_last: "d \<le> plast (pstart d)"
    and same_period: "pstart d \<le> e \<Longrightarrow> e \<le> plast (pstart d) \<Longrightarrow> pstart e = pstart d"
begin

lemma start_start [simp]: "pstart (pstart d) = pstart d"
  by (rule same_period) (use start_le [of d] le_last [of d] in linarith)+

lemma period_iff: "(pstart e = pstart d) = (pstart d \<le> e \<and> e \<le> plast (pstart d))"
  using same_period start_le le_last by metis

lemma start_mono: "d \<le> e \<Longrightarrow> pstart d \<le> pstart e"
proof (rule ccontr)
  assume le: "d \<le> e" and "\<not> pstart d \<le> pstart e"
  then have lt: "pstart e < pstart d" by simp
  have "pstart d = pstart e"
    by (rule same_period) (use lt le start_le [of d] le_last [of e] in linarith)+
  with lt show False by simp
qed

lemma next_start: "pstart (plast (pstart d) + 1) = plast (pstart d) + 1"
proof (rule ccontr)
  define l where "l = plast (pstart d)"
  assume "pstart (plast (pstart d) + 1) \<noteq> plast (pstart d) + 1"
  then have "pstart (l + 1) \<le> l" using start_le [of "l + 1"] by (simp add: l_def)
  then have "pstart l = pstart (l + 1)"
    by (intro same_period) (use le_last [of "l + 1"] in linarith)+
  moreover have "pstart l = pstart d"
    unfolding l_def by (rule same_period) (use start_le [of d] le_last [of d] in linarith)+
  ultimately have "l + 1 \<le> l" using le_last [of "l + 1"] by (simp add: l_def)
  then show False by simp
qed

lemma starts_disjoint: "pstart d \<noteq> pstart e \<Longrightarrow> d \<le> e \<Longrightarrow> plast (pstart d) < pstart e"
proof (rule ccontr)
  assume ne: "pstart d \<noteq> pstart e" and le: "d \<le> e" and "\<not> plast (pstart d) < pstart e"
  then have "pstart (pstart e) = pstart d" by (intro same_period) (simp_all add: start_mono)
  with ne show False by simp
qed

end

lemma weekday_range: "0 \<le> weekday d \<and> weekday d < 7"
  by (simp add: weekday_def)

lemma week_start_form: "week_start d = 7 * ((d + 6) div 7) - 6"
  unfolding week_start_def weekday_def using mult_div_mod_eq [of 7 "d + 6"] by linarith

lemma month_start_first: "month_start d = month_first (month_index d)"
  by (simp add: month_start_def month_first_def month_index_parts)

interpretation weeks: period_grid week_start "period_last Week"
proof
  fix d e
  show "week_start d \<le> d" using weekday_range [of d] by (simp add: week_start_def)
  show "d \<le> period_last Week (week_start d)"
    using weekday_range [of d] by (simp add: week_start_def period_last_def)
  assume "week_start d \<le> e" "e \<le> period_last Week (week_start d)"
  then have "7 * ((d + 6) div 7) \<le> e + 6 \<and> e + 6 < 7 * ((d + 6) div 7) + 7"
    by (simp add: week_start_form period_last_def)
  then have "(e + 6) div 7 = (d + 6) div 7" by (intro int_div_pos_eq [where r = "e + 6 - 7 * ((d + 6) div 7)"]) simp_all
  then show "week_start e = week_start d" by (simp add: week_start_form)
qed

interpretation months: period_grid month_start "period_last Month"
proof
  fix d e
  show "month_start d \<le> d" using month_bounds [of d] by (simp add: month_start_first)
  show "d \<le> period_last Month (month_start d)" using month_bounds [of d] by (simp add: month_start_first period_last_def)
  assume "month_start d \<le> e" "e \<le> period_last Month (month_start d)"
  then have "month_index e = month_index d" by (simp add: month_index_eq_iff month_start_first period_last_def)
  then show "month_start e = month_start d" by (simp add: month_start_first)
qed

interpretation periods: period_grid "\<lambda>d. period_start d g" "period_last g" for g
proof (cases g)
  case Week
  then show "period_grid (\<lambda>d. period_start d g) (period_last g)"
    using weeks.period_grid_axioms by (simp add: period_start_def [abs_def])
next
  case Month
  then show "period_grid (\<lambda>d. period_start d g) (period_last g)"
    using months.period_grid_axioms by (simp add: period_start_def [abs_def])
qed

text \<open>The end of a period is its last day, where the calendar has one.\<close>

lemma period_end_Inr: "period_end s g = Inr e \<Longrightarrow> e = period_last g s"
  using month_first_Suc [of "month_index s"]
  by (auto simp: period_end_def date_add_def period_last_def month_index_parts month_first_def ymd2ord_def
      month_first_index split: if_splits)

lemma period_last_ge: "s \<le> period_last g s"
  using month_bounds [of s] by (simp add: period_last_def)

lemma period_end_ok: "valid_date (s + 6) \<Longrightarrow> period_end s g = Inr (period_last g s)"
  using period_end_Inr [of s g] by (cases "period_end s g") (auto simp: period_end_def date_add_def split: if_splits)

section \<open>The periods of a window\<close>

text \<open>The loop of \<open>periods_between\<close> from the cursor; moving past the last day of the calendar raises.\<close>

function periods_from :: "date \<Rightarrow> date \<Rightarrow> grain \<Rightarrow> date list result" where
  "periods_from cursor end g =
    (if cursor \<le> end
     then (case period_end cursor g of
             Inl e \<Rightarrow> Inl e
           | Inr l \<Rightarrow>
               (case date_add l 1 of
                  Inl e \<Rightarrow> Inl e
                | Inr cursor' \<Rightarrow> try_bind (periods_from cursor' end g) (\<lambda>periods. Inr (cursor # periods))))
     else Inr [])"
  by pat_completeness auto
termination
proof (relation "measure (\<lambda>(cursor, end, g). nat (end + 1 - cursor))")
  fix cursor l cursor' "end" :: date and g
  assume "cursor \<le> end" "period_end cursor g = Inr l" "date_add l 1 = Inr cursor'"
  moreover then have "cursor < cursor'"
    using period_last_ge [of cursor g] by (auto dest!: period_end_Inr simp: date_add_def split: if_splits)
  ultimately show "((cursor', end, g), cursor, end, g) \<in> measure (\<lambda>(cursor, end, g). nat (end + 1 - cursor))"
    by simp
qed simp

declare periods_from.simps [simp del]

definition periods_between :: "date \<Rightarrow> date \<Rightarrow> grain \<Rightarrow> date list result" where
  "periods_between start end g = (if end < start then Inr [] else periods_from (period_start start g) end g)"

lemma periods_from_spec:
  "periods_from cursor end g = Inr ps \<Longrightarrow> period_start cursor g = cursor \<Longrightarrow>
    sorted_wrt (<) ps \<and> set ps = {p. cursor \<le> p \<and> p \<le> end \<and> period_start p g = p}"
proof (induction cursor "end" g arbitrary: ps rule: periods_from.induct)
  case (1 cursor "end" g)
  show ?case
  proof (cases "cursor \<le> end")
    case False
    with 1(2) show ?thesis by (auto simp: periods_from.simps [of cursor])
  next
    case True
    with 1(2) obtain l c qs where step: "period_end cursor g = Inr l" "date_add l 1 = Inr c"
      "periods_from c end g = Inr qs" "ps = cursor # qs"
      by (auto simp: periods_from.simps [of cursor] split: sum.splits)
    have c: "c = period_last g cursor + 1"
      using step by (auto dest!: period_end_Inr simp: date_add_def split: if_splits)
    have c_start: "period_start c g = c"
      using periods.next_start [of g cursor] 1(3) by (simp add: c)
    have IH: "sorted_wrt (<) qs \<and> set qs = {p. c \<le> p \<and> p \<le> end \<and> period_start p g = p}"
      using 1(1) [OF True step(1-3) c_start] .
    have lt: "cursor < c" using period_last_ge [of cursor g] c by linarith
    have skip: "c \<le> p" if "cursor < p" "period_start p g = p" for p
    proof (rule ccontr)
      assume "\<not> c \<le> p"
      then have "cursor \<le> p \<and> p \<le> period_last g cursor" using that(1) c by linarith
      with periods.same_period [of cursor g p] 1(3) have "period_start p g = cursor" by metis
      with that show False by simp
    qed
    have "set ps = insert cursor {p. c \<le> p \<and> p \<le> end \<and> period_start p g = p}"
      using IH by (simp add: step(4))
    also have "\<dots> = {p. cursor \<le> p \<and> p \<le> end \<and> period_start p g = p}"
    proof (intro set_eqI iffI)
      fix p
      assume "p \<in> insert cursor {p. c \<le> p \<and> p \<le> end \<and> period_start p g = p}"
      with lt True 1(3) show "p \<in> {p. cursor \<le> p \<and> p \<le> end \<and> period_start p g = p}" by force
    next
      fix p
      assume "p \<in> {p. cursor \<le> p \<and> p \<le> end \<and> period_start p g = p}"
      with skip [of p] show "p \<in> insert cursor {p. c \<le> p \<and> p \<le> end \<and> period_start p g = p}"
        by (cases "p = cursor") simp_all
    qed
    finally have "set ps = {p. cursor \<le> p \<and> p \<le> end \<and> period_start p g = p}" .
    moreover have "sorted_wrt (<) ps" using IH lt by (auto simp: step(4))
    ultimately show ?thesis by blast
  qed
qed

lemma period_last_le: "period_last g s \<le> s + 30"
proof -
  have "days_in_month (year_of s) (month_of s) \<le> 31"
    using month_of_bounds [of s] by (intro conjunct2 [OF days_in_month_range]) simp_all
  then show ?thesis
    using day_of_range [of s] by (simp add: period_last_def month_first_Suc month_index_parts) (simp add: month_first_index)
qed

lemma periods_from_total: "1 \<le> cursor \<Longrightarrow> end + 31 \<le> max_ordinal \<Longrightarrow> \<exists>ps. periods_from cursor end g = Inr ps"
proof (induction cursor "end" g rule: periods_from.induct)
  case (1 cursor "end" g)
  show ?case
  proof (cases "cursor \<le> end")
    case False
    then show ?thesis by (simp add: periods_from.simps)
  next
    case True
    have e: "period_end cursor g = Inr (period_last g cursor)"
      using 1(2,3) True by (intro period_end_ok) (simp add: valid_date_def min_ordinal_def)
    have a: "date_add (period_last g cursor) 1 = Inr (period_last g cursor + 1)"
      using 1(2,3) True period_last_le [of g cursor] period_last_ge [of cursor g]
      by (simp add: date_add_def valid_date_def min_ordinal_def)
    have "1 \<le> period_last g cursor + 1" using 1(2) period_last_ge [of cursor g] by linarith
    from 1(1) [OF True e a this 1(3)] obtain ps where "periods_from (period_last g cursor + 1) end g = Inr ps" ..
    with True e a show ?thesis by (subst periods_from.simps) simp
  qed
qed

lemma period_start_ge_1: "1 \<le> d \<Longrightarrow> 1 \<le> period_start d g"
proof (cases g)
  case Week
  assume "1 \<le> d"
  then have "1 \<le> (d + 6) div 7" by (simp add: pos_imp_zdiv_pos_iff)
  then show ?thesis by (simp add: Week period_start_def week_start_form)
next
  case Month
  assume "1 \<le> d"
  have "month_first 12 = 1" by (simp add: month_first_def ymd2ord_def days_before_year_def days_before_month_def)
  with month_first_le_index [of 12 d] \<open>1 \<le> d\<close> month_first_mono [of 12 "month_index d"]
  show ?thesis by (simp add: Month period_start_def month_start_first)
qed

text \<open>
  The periods of a window are exactly the periods its days fall in, in order and without repetition;
  for a window that ends a month before the end of the calendar the loop returns.
\<close>

lemma periods_cover_window:
  assumes "1 \<le> start" "end + 31 \<le> max_ordinal"
  shows "\<exists>ps. periods_between start end g = Inr ps \<and> sorted_wrt (<) ps \<and>
    set ps = (\<lambda>d. period_start d g) ` {start..end}"
proof (cases "end < start")
  case True
  then show ?thesis by (simp add: periods_between_def)
next
  case False
  obtain ps where ps: "periods_from (period_start start g) end g = Inr ps"
    using periods_from_total [OF period_start_ge_1 [OF assms(1)] assms(2)] by blast
  note spec = periods_from_spec [OF ps periods.start_start]
  have "set ps = (\<lambda>d. period_start d g) ` {start..end}"
  proof (rule set_eqI, rule iffI)
    fix p
    assume "p \<in> set ps"
    with spec have p: "period_start start g \<le> p" "p \<le> end" "period_start p g = p" by auto
    show "p \<in> (\<lambda>d. period_start d g) ` {start..end}"
    proof (cases "start \<le> p")
      case True
      with p show ?thesis by (intro image_eqI [where x = p]) simp_all
    next
      case outside: False
      then have "p \<le> period_last g (period_start start g)" using periods.le_last [of start g] by linarith
      with p(1) have "period_start p g = period_start start g" by (rule periods.same_period)
      with p False show ?thesis by (intro image_eqI [where x = start]) simp_all
    qed
  next
    fix p
    assume "p \<in> (\<lambda>d. period_start d g) ` {start..end}"
    then obtain d where "p = period_start d g" "start \<le> d" "d \<le> end" by auto
    moreover from this have "period_start start g \<le> p" by (simp add: periods.start_mono)
    ultimately show "p \<in> set ps" using spec periods.start_le [of d g] by auto
  qed
  with False ps spec show ?thesis by (simp add: periods_between_def)
qed

lemma periods_cover_window_witness:
  "\<exists>ps. periods_between 739000 739010 Week = Inr ps \<and> sorted_wrt (<) ps \<and>
    set ps = (\<lambda>d. period_start d Week) ` {739000..739010}"
  by (rule periods_cover_window) (simp_all add: max_ordinal_def)

section \<open>Aggregation\<close>

type_synonym series = "(date \<times> rat) list"

definition siblings_needed :: "metric_def \<Rightarrow> string list" where
  "siblings_needed defn =
    (case (md_aggregation defn, md_ratio_of defn, md_weight_by defn) of
       (A_ratio, Some (numerator, denominator), _) \<Rightarrow> [numerator, denominator]
     | (A_weighted_mean, _, Some weight) \<Rightarrow> [weight]
     | _ \<Rightarrow> [])"

definition total :: "series \<Rightarrow> rat" where "total xs = sum_list (map snd xs)"

text \<open>\<open>xs.keys() & ys.keys()\<close>, and the entry of a key that is there.\<close>

definition common_days :: "series \<Rightarrow> series \<Rightarrow> date list" where
  "common_days xs ys = filter (\<lambda>day. day \<in> fst ` set ys) (map fst xs)"

definition at_day :: "series \<Rightarrow> date \<Rightarrow> rat" where
  "at_day xs day = (case map_of xs day of Some v \<Rightarrow> v | None \<Rightarrow> 0)"

definition sibling_series :: "(string \<times> series) list \<Rightarrow> string \<Rightarrow> series" where
  "sibling_series siblings name = (case map_of siblings name of Some xs \<Rightarrow> xs | None \<Rightarrow> [])"

definition ratio_value :: "series \<Rightarrow> series \<Rightarrow> rat option" where
  "ratio_value numerator denominator =
    (let dates = common_days numerator denominator; t = sum_list (map (at_day denominator) dates)
     in if dates = [] \<or> t = 0 then None else Some (sum_list (map (at_day numerator) dates) / t))"

definition weighted_mean_value :: "series \<Rightarrow> series \<Rightarrow> rat option" where
  "weighted_mean_value values weights =
    (let dates = common_days values weights; t = sum_list (map (at_day weights) dates)
     in if dates = [] \<or> t = 0 then None
        else Some (sum_list (map (\<lambda>day. at_day values day * at_day weights day) dates) / t))"

definition aggregate :: "metric_def \<Rightarrow> series \<Rightarrow> (string \<times> series) list \<Rightarrow> rat option" where
  "aggregate defn values siblings =
    (case md_aggregation defn of
       A_sum \<Rightarrow> if values = [] then None else Some (total values)
     | A_mean \<Rightarrow> if values = [] then None else Some (total values / of_nat (length values))
     | A_last \<Rightarrow> if values = [] then None
         else Some (at_day values (fold max (map fst (tl values)) (fst (hd values))))
     | A_ratio \<Rightarrow>
         (case md_ratio_of defn of
            None \<Rightarrow> None
          | Some (numerator, denominator) \<Rightarrow>
              ratio_value (sibling_series siblings numerator) (sibling_series siblings denominator))
     | A_weighted_mean \<Rightarrow>
         (case md_weight_by defn of
            None \<Rightarrow> None
          | Some weight \<Rightarrow> weighted_mean_value values (sibling_series siblings weight)))"

lemma set_common_days: "set (common_days xs ys) = fst ` set xs \<inter> fst ` set ys"
  by (auto simp: common_days_def)

lemma at_day_in: "distinct (map fst xs) \<Longrightarrow> (d, v) \<in> set xs \<Longrightarrow> at_day xs d = v"
  by (simp add: at_day_def)

lemma weighted_sum_le:
  fixes f w :: "'a \<Rightarrow> rat"
  assumes "\<And>d. d \<in> set dates \<Longrightarrow> 0 \<le> w d \<and> f d \<le> hi"
  shows "sum_list (map (\<lambda>d. f d * w d) dates) \<le> hi * sum_list (map w dates)"
  using assms
proof (induction dates)
  case (Cons d ds)
  have "f d * w d \<le> hi * w d" using Cons.prems [of d] by (intro mult_right_mono) simp_all
  with Cons show ?case by (simp add: distrib_left)
qed simp

lemma weighted_sum_ge:
  fixes f w :: "'a \<Rightarrow> rat"
  assumes "\<And>d. d \<in> set dates \<Longrightarrow> 0 \<le> w d \<and> lo \<le> f d"
  shows "lo * sum_list (map w dates) \<le> sum_list (map (\<lambda>d. f d * w d) dates)"
  using assms
proof (induction dates)
  case (Cons d ds)
  have "lo * w d \<le> f d * w d" using Cons.prems [of d] by (intro mult_right_mono) simp_all
  with Cons show ?case by (simp add: distrib_left)
qed simp

text \<open>
  A weighted mean (the average position, the engagement rate) lies between the smallest and the largest
  of the daily values, whatever the non-negative weights.
\<close>

lemma weighted_mean_between:
  assumes "md_aggregation defn = A_weighted_mean" "distinct (map fst values)"
    and "\<And>name d v. (d, v) \<in> set (sibling_series siblings name) \<Longrightarrow> 0 \<le> v"
    and "\<And>d v. (d, v) \<in> set values \<Longrightarrow> lo \<le> v \<and> v \<le> hi"
    and "aggregate defn values siblings = Some a"
  shows "lo \<le> a \<and> a \<le> hi"
proof -
  from assms(1,5) obtain weight where w: "md_weight_by defn = Some weight"
    and m: "weighted_mean_value values (sibling_series siblings weight) = Some a"
    by (auto simp: aggregate_def split: option.splits)
  define ws where "ws = sibling_series siblings weight"
  define dates where "dates = common_days values ws"
  define t where "t = sum_list (map (at_day ws) dates)"
  have nonneg: "0 \<le> at_day ws d" for d
    using assms(3) [of d _ weight] map_of_SomeD by (fastforce simp: at_day_def ws_def split: option.splits)
  have bounds: "lo \<le> at_day values d \<and> at_day values d \<le> hi" if "d \<in> set dates" for d
  proof -
    from that obtain v where "(d, v) \<in> set values" by (auto simp: dates_def set_common_days)
    with assms(4) [of d v] at_day_in [OF assms(2), of d v] show ?thesis by simp
  qed
  have t: "0 < t" and a: "a = sum_list (map (\<lambda>d. at_day values d * at_day ws d) dates) / t"
    using m nonneg sum_list_nonneg [of "map (at_day ws) dates"]
    by (auto simp: weighted_mean_value_def Let_def ws_def [symmetric] dates_def [symmetric] t_def [symmetric]
        less_le split: if_splits)
  have "lo * t \<le> a * t" "a * t \<le> hi * t"
    using weighted_sum_ge [of dates "at_day ws" lo "at_day values"] weighted_sum_le [of dates "at_day ws" "at_day values" hi]
      nonneg bounds t by (simp_all add: a t_def [symmetric])
  with t show ?thesis by (simp add: mult_le_cancel_right)
qed

definition position_metric :: metric_def where
  "position_metric = the (metric_def_of ''gsc'' ''position'')"

lemma weighted_mean_between_witness:
  "\<exists>a. aggregate position_metric [(1, 4), (2, 10)] [(''impressions'', [(1, 2), (2, 1)])] = Some a \<and> 4 \<le> a \<and> a \<le> 10"
proof -
  have d: "md_aggregation position_metric = A_weighted_mean" "md_weight_by position_metric = Some ''impressions''"
    by (simp_all add: position_metric_def metric_def_of_def METRICS_def find_row_def mk_metric_def)
  have a: "aggregate position_metric [(1, 4), (2, 10)] [(''impressions'', [(1, 2), (2, 1)])] = Some 6"
    by (simp add: aggregate_def d weighted_mean_value_def sibling_series_def common_days_def at_day_def)
  have "4 \<le> (6::rat) \<and> (6::rat) \<le> 10"
    by (rule weighted_mean_between [OF d(1) _ _ _ a]) (auto simp: sibling_series_def split: if_splits)
  with a show ?thesis by blast
qed

lemma total_append [simp]: "total (xs @ ys) = total xs + total ys"
  by (simp add: total_def)

lemma total_partition:
  assumes "distinct ps" "\<And>x. x \<in> set xs \<Longrightarrow> f (fst x) \<in> set ps"
  shows "sum_list (map (\<lambda>p. total (filter (\<lambda>x. f (fst x) = p) xs)) ps) = total xs"
  using assms(2)
proof (induction xs)
  case Nil
  have "map (\<lambda>p. total (filter (\<lambda>x. f (fst x) = p) [])) ps = map (\<lambda>_. 0) ps" by (simp add: total_def)
  then show ?case by (simp add: total_def)
next
  case (Cons x xs)
  have "sum_list (map (\<lambda>p. total (filter (\<lambda>y. f (fst y) = p) (x # xs))) ps) =
    sum_list (map (\<lambda>p. (if p = f (fst x) then snd x else 0) + total (filter (\<lambda>y. f (fst y) = p) xs)) ps)"
    by (intro arg_cong [where f = sum_list] map_cong) (auto simp: total_def)
  also have "\<dots> = sum_list (map (\<lambda>p. if p = f (fst x) then snd x else 0) ps) +
    sum_list (map (\<lambda>p. total (filter (\<lambda>y. f (fst y) = p) xs)) ps)"
    by (rule sum_list_addf)
  also have "sum_list (map (\<lambda>p. if p = f (fst x) then snd x else 0) ps) = snd x"
    using assms(1) Cons.prems [of x] by (simp add: sum_list_map_eq_sum_count2 sum_list_distinct_conv_sum_set sum.delta')
  finally show ?case using Cons by (simp add: total_def)
qed

text \<open>
  The periods of a window lose nothing and count nothing twice: for an additive metric, the aggregates of
  the weeks (or months) of a window add up to the aggregate of the whole window.
\<close>

lemma period_sums_add_up:
  assumes "md_aggregation defn = A_sum" "values \<noteq> []" "\<And>x. x \<in> set values \<Longrightarrow> start \<le> fst x \<and> fst x \<le> end"
    and "1 \<le> start" "periods_between start end g = Inr ps"
  shows "Some (sum_list (map (\<lambda>p. case aggregate defn (filter (\<lambda>x. period_start (fst x) g = p) values) siblings of
      Some v \<Rightarrow> v | None \<Rightarrow> 0) ps)) = aggregate defn values siblings"
proof -
  obtain d v where "(d, v) \<in> set values" using assms(2) by (cases "values") auto
  with assms(3) [of "(d, v)"] have le: "start \<le> end" by simp
  with assms(5) have "periods_from (period_start start g) end g = Inr ps" by (simp add: periods_between_def)
  note spec = periods_from_spec [OF this periods.start_start]
  then have "distinct ps" using strict_sorted_iff by blast
  moreover have "period_start (fst x) g \<in> set ps" if "x \<in> set values" for x
    using spec assms(3) [OF that] periods.start_mono [of start "fst x" g] periods.start_le [of "fst x" g] by auto
  ultimately have t: "sum_list (map (\<lambda>p. total (filter (\<lambda>x. period_start (fst x) g = p) values)) ps) = total values"
    using total_partition [where f = "\<lambda>d. period_start d g"] by blast
  have "(case aggregate defn xs siblings of Some v \<Rightarrow> v | None \<Rightarrow> 0) = total xs" for xs
    using assms(1) by (simp add: aggregate_def total_def)
  with t assms(1,2) show ?thesis by (simp add: aggregate_def)
qed

lemma period_sums_add_up_witness:
  "\<exists>ps. periods_between 739000 739010 Week = Inr ps \<and>
    Some (sum_list (map (\<lambda>p. case aggregate (hd METRICS) (filter (\<lambda>x. period_start (fst x) Week = p)
      [(739000, 3), (739009, 4)]) [] of Some v \<Rightarrow> v | None \<Rightarrow> 0) ps)) = Some 7"
proof -
  obtain ps where ps: "periods_between 739000 739010 Week = Inr ps"
    using periods_from_total [of "period_start 739000 Week" 739010 Week] period_start_ge_1 [of 739000 Week]
    by (auto simp: periods_between_def max_ordinal_def)
  have "md_aggregation (hd METRICS) = A_sum" by (simp add: METRICS_def mk_metric_def)
  then have "aggregate (hd METRICS) [(739000, 3), (739009, 4)] [] = Some 7" by (simp add: aggregate_def total_def)
  moreover have "739000 \<le> fst x \<and> fst x \<le> 739010" if "x \<in> set [(739000::date, 3::rat), (739009, 4)]" for x
    using that by auto
  ultimately show ?thesis
    using period_sums_add_up [OF \<open>md_aggregation (hd METRICS) = A_sum\<close> _ _ _ ps, of "[(739000, 3), (739009, 4)]" "[]"] ps
    by (metis list.distinct(1) order_refl one_le_numeral)
qed

end
