(* ===== verification/Metric_Dimensions.thy ===== *)
theory Metric_Dimensions
  imports Regex Sha256 "HOL-Library.List_Lexorder" "HOL-Library.Product_Lexorder"
begin

text \<open>
  \<open>app/services/metrics/dimensions.py\<close>: the cleaning of dimension values before they are stored, and
  the key of a set of dimensions. Text is ASCII, where normalisation to NFC is the identity and every value
  can be encoded; a byte above 127 that \<open>unquote\<close> produces counts as an ordinary character. The validity of
  a bracketed host (\<open>ipaddress\<close>) is the parameter \<open>host_ok\<close>. The lemmas show that each cleaner is
  idempotent and that no e-mail address and no telephone number survives it.
\<close>

definition MAX_INPUT :: nat where "MAX_INPUT = 2048"
definition MAX_PAGE :: nat where "MAX_PAGE = 200"
definition MAX_QUERY :: nat where "MAX_QUERY = 100"

section \<open>Patterns\<close>

definition mail_char :: "char \<Rightarrow> bool" where
  "mail_char c = (\<not> is_space c \<and> c \<noteq> CHR ''@'' \<and> c \<noteq> CHR ''/'')"

definition EMAIL :: re where
  "EMAIL = Cat (plus (Class mail_char)) (Cat (Class (\<lambda>c. c = CHR ''@''))
     (Cat (plus (Class mail_char)) (Cat (Class (\<lambda>c. c = CHR ''.'')) (at_least 2 (Class is_alpha)))))"

definition mail_start :: "char option \<Rightarrow> bool" where
  "mail_start prev = (case prev of None \<Rightarrow> True | Some c \<Rightarrow> \<not> mail_char c)"

definition LONG_DIGITS :: re where
  "LONG_DIGITS = Cat (Class is_digit)
     (at_least 6 (Cat (opt (Class (\<lambda>c. is_space c \<or> c = CHR ''.'' \<or> c = CHR ''-''))) (Class is_digit)))"

definition GA4_EVENT :: re where
  "GA4_EVENT = Cat (Class is_alpha) (up_to 63 (Class (\<lambda>c. is_alpha c \<or> is_digit c \<or> c = CHR ''_'')))"

definition session_char :: "char \<Rightarrow> bool" where
  "session_char c = (c \<notin> set ''/;?#'')"

definition SESSION_ID :: re where
  "SESSION_ID = Cat (lit_ci '';jsessionid='') (Star (Class session_char))"

definition has_email :: "string \<Rightarrow> bool" where "has_email s = search mail_start EMAIL s"
definition has_long_digits :: "string \<Rightarrow> bool" where "has_long_digits s = search (\<lambda>_. True) LONG_DIGITS s"

section \<open>Preparation\<close>

definition is_control :: "char \<Rightarrow> bool" where
  "is_control c = ((of_char c :: nat) < 32 \<or> (of_char c :: nat) = 127)"

definition has_control :: "bool \<Rightarrow> string \<Rightarrow> bool" where
  "has_control keep_whitespace s = list_ex (\<lambda>c. is_control c \<and> \<not> (keep_whitespace \<and> is_space c)) s"

definition prepare :: "bool \<Rightarrow> string \<Rightarrow> string option" where
  "prepare keep_whitespace raw =
    (let v = strip (take MAX_INPUT raw)
     in if has_control keep_whitespace v then None else if v = [] then None else Some v)"

definition rstrip :: "string \<Rightarrow> string" where
  "rstrip s = rev (dropWhile is_space (rev s))"

text \<open>\<open>s.rfind(c, lo)\<close>; \<open>-1\<close> is \<open>None\<close>.\<close>

definition rfind :: "char \<Rightarrow> nat \<Rightarrow> string \<Rightarrow> nat option" where
  "rfind c lo s = (case rev (filter (\<lambda>i. s ! i = c) [lo..<length s]) of [] \<Rightarrow> None | i # _ \<Rightarrow> Some i)"

definition cut_path :: "string \<Rightarrow> string" where
  "cut_path path = rstrip
    (if MAX_PAGE < length path
     then (let p = take MAX_PAGE path
           in case rfind (CHR ''%'') (MAX_PAGE - 2) p of None \<Rightarrow> p | Some i \<Rightarrow> take i p)
     else path)"

section \<open>URLs\<close>

definition hex_value :: "char \<Rightarrow> nat option" where
  "hex_value c = (let n = (of_char (lower_char c) :: nat)
     in if is_digit c then Some (n - 48) else if 97 \<le> n \<and> n \<le> 102 then Some (n - 87) else None)"

fun unquote :: "string \<Rightarrow> string" where
  "unquote (a # b # c # s) =
    (case (if a = CHR ''%'' then hex_value b else None, hex_value c) of
       (Some i, Some j) \<Rightarrow> char_of (16 * i + j) # unquote s
     | _ \<Rightarrow> a # unquote (b # c # s))"
| "unquote s = s"

definition scheme_char :: "char \<Rightarrow> bool" where
  "scheme_char c = (is_alpha c \<or> is_digit c \<or> c \<in> set ''+-.'')"

text \<open>
  \<open>urlsplit(value).path\<close>: the scheme is cut off when the text before the first colon is one, then the
  host; a fragment is cut before a query. A host with unbalanced or invalid brackets raises.
\<close>

definition after_scheme :: "string \<Rightarrow> string" where
  "after_scheme url =
    (let s = takeWhile (\<lambda>c. c \<noteq> CHR '':'') url
     in if s \<noteq> url \<and> s \<noteq> [] \<and> is_alpha (hd s) \<and> list_all scheme_char s then drop (length s + 1) url else url)"

definition bad_brackets :: "(string \<Rightarrow> bool) \<Rightarrow> string \<Rightarrow> bool" where
  "bad_brackets host_ok netloc =
    (let l = CHR ''['' \<in> set netloc; r = CHR '']'' \<in> set netloc
     in l \<noteq> r \<or> (l \<and> r \<and> \<not> host_ok netloc))"

definition split_path :: "(string \<Rightarrow> bool) \<Rightarrow> string \<Rightarrow> string option" where
  "split_path host_ok url0 =
    (let url = after_scheme (dropWhile (\<lambda>c. (of_char c :: nat) \<le> 32) url0);
         netloc = takeWhile (\<lambda>c. c \<notin> set ''/?#'') (drop 2 url);
         rest = (if take 2 url = ''//'' then drop (length netloc) (drop 2 url) else url)
     in if take 2 url = ''//'' \<and> bad_brackets host_ok netloc then None
        else Some (takeWhile (\<lambda>c. c \<noteq> CHR ''?'') (takeWhile (\<lambda>c. c \<noteq> CHR ''#'') rest)))"

section \<open>Cleaners\<close>

definition raw_path :: "(string \<Rightarrow> bool) \<Rightarrow> string \<Rightarrow> string option" where
  "raw_path host_ok v =
    (if contains ''://'' v then split_path host_ok v else Some (takeWhile (\<lambda>c. c \<notin> set ''?#'') v))"

definition clean_page :: "(string \<Rightarrow> bool) \<Rightarrow> string \<Rightarrow> string option" where
  "clean_page host_ok raw =
    (case prepare False raw of
       None \<Rightarrow> None
     | Some v \<Rightarrow>
         if starts_with ''//'' v then None
         else (case raw_path host_ok v of
             None \<Rightarrow> None
           | Some path0 \<Rightarrow>
               (let path1 = sub_all SESSION_ID path0;
                    path2 = (if path1 = [] then ''/'' else path1);
                    path = (if starts_with ''/'' path2 then path2 else ''/'' @ path2)
                in if starts_with ''//'' path then None
                   else if has_email (unquote path) \<or> has_control False (unquote path) then None
                   else Some (cut_path path))))"

text \<open>\<open>s.split()\<close> on white space, and \<open>" ".join\<close>.\<close>

function words :: "string \<Rightarrow> string list" where
  "words s = (let t = dropWhile is_space s
    in if t = [] then [] else takeWhile (\<lambda>c. \<not> is_space c) t # words (dropWhile (\<lambda>c. \<not> is_space c) t))"
  by pat_completeness auto
termination
proof (relation "measure length")
  fix s t :: string
  assume "t = dropWhile is_space s" "t \<noteq> []"
  then have "\<not> is_space (hd t)" by (metis hd_dropWhile)
  with \<open>t \<noteq> []\<close> have "length (dropWhile (\<lambda>c. \<not> is_space c) t) < length t"
    by (cases t) (simp_all add: le_imp_less_Suc length_dropWhile_le)
  also have "length t \<le> length s" by (simp add: \<open>t = dropWhile is_space s\<close> length_dropWhile_le)
  finally show "(dropWhile (\<lambda>c. \<not> is_space c) t, s) \<in> measure length" by simp
qed simp

declare words.simps [simp del]

definition clean_query :: "string \<Rightarrow> string option" where
  "clean_query raw =
    (case prepare True raw of
       None \<Rightarrow> None
     | Some v0 \<Rightarrow>
         (let v = join '' '' (words (lower v0))
          in if v = [] \<or> has_email v \<or> has_long_digits v then None
             else Some (rstrip (take MAX_QUERY v))))"

definition clean_event :: "string \<Rightarrow> string option" where
  "clean_event raw = (let v = strip (take MAX_INPUT raw) in if fullmatch GA4_EVENT v then Some v else None)"

definition CLEANERS :: "(string \<Rightarrow> bool) \<Rightarrow> (string \<times> (string \<Rightarrow> string option)) list" where
  "CLEANERS host_ok = [(''page'', clean_page host_ok), (''query'', clean_query), (''event_name'', clean_event)]"

section \<open>The key of dimensions\<close>

text \<open>\<open>json.dumps\<close> of a string, and of the sorted items with the compact separators.\<close>

definition json_char :: "char \<Rightarrow> string" where
  "json_char c =
    (if c = CHR 0x22 then [CHR 0x5C, CHR 0x22]
     else if c = CHR 0x5C then [CHR 0x5C, CHR 0x5C]
     else if c = CHR 0x0A then [CHR 0x5C, CHR ''n'']
     else if c = CHR 0x0D then [CHR 0x5C, CHR ''r'']
     else if c = CHR 0x09 then [CHR 0x5C, CHR ''t'']
     else if c = CHR 0x08 then [CHR 0x5C, CHR ''b'']
     else if c = CHR 0x0C then [CHR 0x5C, CHR ''f'']
     else if (of_char c :: nat) < 32 then [CHR 0x5C, CHR ''u''] @ hex 4 (of_char c)
     else [c])"

definition json_string :: "string \<Rightarrow> string" where
  "json_string s = [CHR 0x22] @ concat (map json_char s) @ [CHR 0x22]"

definition canonical_dims :: "(string \<times> string) list \<Rightarrow> string" where
  "canonical_dims items = ''['' @ join '','' (map (\<lambda>(k, v). ''['' @ json_string k @ '','' @ json_string v @ '']'') items) @ '']''"

text \<open>Text to bytes, and the lower-case hexadecimal digest.\<close>

definition ascii_bytes :: "string \<Rightarrow> byte list" where
  "ascii_bytes s = map (\<lambda>c. word_of_nat (of_char c)) s"

definition hexdigest :: "byte list \<Rightarrow> string" where
  "hexdigest bs = concat (map (\<lambda>b. hex 2 (unat b)) bs)"

definition code_points :: "string \<Rightarrow> nat list" where
  "code_points s = map of_char s"

definition sorted_items :: "(string \<times> string) list \<Rightarrow> (string \<times> string) list" where
  "sorted_items d = sort_key (\<lambda>(k, v). (code_points k, code_points v)) d"

definition dim_key :: "(string \<times> string) list \<Rightarrow> string" where
  "dim_key dms = (if dms = [] then [] else take 32 (hexdigest (sha256 (ascii_bytes (canonical_dims (sorted_items dms))))))"

section \<open>Trimming\<close>

lemma rstrip_prefix: "\<exists>u. s = rstrip s @ u \<and> list_all is_space u"
proof -
  have "s = rstrip s @ rev (takeWhile is_space (rev s))"
    by (metis rstrip_def rev_append rev_rev_ident takeWhile_dropWhile_id)
  moreover have "list_all is_space (rev (takeWhile is_space (rev s)))"
    by (auto simp: list_all_iff dest: set_takeWhileD)
  ultimately show ?thesis by blast
qed

lemma rstrip_fix: "(rstrip s = s) = (s = [] \<or> \<not> is_space (last s))"
proof (cases s rule: rev_cases)
  case (snoc xs x)
  have "length (dropWhile is_space (rev xs)) < length (rev (xs @ [x]))"
    by (simp add: le_imp_less_Suc length_dropWhile_le [of _ "rev xs", simplified])
  then have "rev (dropWhile is_space (rev xs)) \<noteq> xs @ [x]" by (metis length_rev less_irrefl)
  then show ?thesis by (simp add: rstrip_def snoc)
qed (simp add: rstrip_def)

lemma rstrip_last: "rstrip s = [] \<or> \<not> is_space (last (rstrip s))"
  unfolding rstrip_def using hd_dropWhile [of is_space "rev s"] by (auto simp: last_rev)

lemma rstrip_idem [simp]: "rstrip (rstrip s) = rstrip s"
  using rstrip_last [of s] by (simp add: rstrip_fix)

lemma rstrip_Cons: "\<not> is_space c \<Longrightarrow> \<exists>t. rstrip (c # s) = c # t"
  using dropWhile_append3 [of is_space c "rev s"] by (cases "dropWhile is_space (rev s)")
    (auto simp: rstrip_def dropWhile_append)

lemma strip_rstrip: "strip s = rstrip (dropWhile is_space s)"
  by (simp add: strip_def rstrip_def)

lemma strip_fix: "s \<noteq> [] \<Longrightarrow> \<not> is_space (hd s) \<Longrightarrow> \<not> is_space (last s) \<Longrightarrow> strip s = s"
  by (cases s) (simp_all add: strip_rstrip rstrip_fix)

lemma has_control_append [simp]: "has_control k (a @ b) = (has_control k a \<or> has_control k b)"
  by (simp add: has_control_def)

lemma has_control_subset: "has_control k s \<Longrightarrow> set s \<subseteq> set t \<Longrightarrow> has_control k t"
  by (auto simp: has_control_def list_ex_iff)

lemma prepare_fix:
  assumes "s \<noteq> []" "\<not> is_space (hd s)" "\<not> is_space (last s)" "length s \<le> MAX_INPUT" "\<not> has_control k s"
  shows "prepare k s = Some s"
  using assms by (simp add: prepare_def Let_def strip_fix)

lemma prepareD: "prepare k raw = Some v \<Longrightarrow> v \<noteq> [] \<and> \<not> has_control k v"
  by (auto simp: prepare_def Let_def split: if_splits)

lemma starts_with_iff: "starts_with p s = (\<exists>u. s = p @ u)"
  unfolding starts_with_def by (metis append_eq_conv_conj append_take_drop_id)

lemma starts_with_append: "starts_with p s \<Longrightarrow> starts_with p (s @ u)"
  by (auto simp: starts_with_iff)

lemma contains_Nil [simp]: "contains [] s"
  by (cases s) (simp_all add: starts_with_def)

lemma contains_append: "contains p s \<Longrightarrow> contains p (s @ u)"
  using starts_with_append by (induction s) fastforce+

section \<open>Session identifiers\<close>

definition session_key :: string where "session_key = '';jsessionid=''"

lemma session_key_Cons: "session_key = CHR '';'' # ''jsessionid=''"
  by (simp add: session_key_def)

lemma ends_session_key: "ends (lit_ci '';jsessionid='') s = (if starts_with session_key (lower s) then [drop 12 s] else [])"
proof -
  have "length session_key = 12" by (simp add: session_key_def)
  then show ?thesis by (simp only: session_key_def [symmetric] ends_lit_ci)
qed

lemma ends_session:
  "\<exists>ts. ends SESSION_ID s = (if starts_with session_key (lower s) then dropWhile session_char (drop 12 s) # ts else [])"
  using ends_Star_Class [of session_char "drop 12 s"] by (auto simp: SESSION_ID_def ends_session_key)

lemma sub_session_Cons:
  "sub_all SESSION_ID (c # cs) = (if starts_with session_key (lower (c # cs))
     then sub_all SESSION_ID (dropWhile session_char (drop 12 (c # cs))) else c # sub_all SESSION_ID cs)"
proof -
  obtain ts where e: "ends SESSION_ID (c # cs) = (if starts_with session_key (lower (c # cs))
      then dropWhile session_char (drop 12 (c # cs)) # ts else [])"
    using ends_session by blast
  have "length (dropWhile session_char (drop 12 (c # cs))) < length (c # cs)"
    by (rule le_less_trans [OF length_dropWhile_le]) simp
  then show ?thesis by (subst sub_all.simps) (simp add: e)
qed

lemma sub_session_Nil [simp]: "sub_all SESSION_ID [] = []"
  by (simp add: sub_all.simps)

lemma session_rest_shorter: "length (dropWhile session_char (drop 12 (c # cs))) < length (c # cs)"
  by (rule le_less_trans [OF length_dropWhile_le]) simp

lemma lower_Cons [simp]: "lower (c # s) = lower_char c # lower s"
  by (simp add: lower_def)

lemma lower_Nil [simp]: "lower [] = []"
  by (simp add: lower_def)

lemma starts_with_Cons [simp]: "starts_with (x # xs) (y # ys) = (x = y \<and> starts_with xs ys)"
  by (auto simp: starts_with_def)

lemma starts_with_Nil [simp]: "starts_with [] s" "starts_with (x # xs) [] = False"
  by (simp_all add: starts_with_def)

lemma stop_lower: "\<not> session_char c \<Longrightarrow> lower_char c = c"
  by (auto simp: session_char_def lower_char_def)

lemma starts_sub_session:
  "set w \<inter> set ''/;?#'' = {} \<Longrightarrow> starts_with w (lower (sub_all SESSION_ID s)) \<Longrightarrow> starts_with w (lower s)"
proof (induction "length s" arbitrary: s w rule: less_induct)
  case less
  show ?case
  proof (cases s)
    case Nil
    with less.prems show ?thesis by simp
  next
    case (Cons c cs)
    show ?thesis
    proof (cases w)
      case Nil
      then show ?thesis by simp
    next
      case w: (Cons x w')
      show ?thesis
      proof (cases "starts_with session_key (lower s)")
        case True
        define t where "t = dropWhile session_char (drop 12 s)"
        have "starts_with w (lower t)"
          using less.hyps [of t w] less.prems True session_rest_shorter [of c cs]
          by (simp add: Cons t_def sub_session_Cons)
        then obtain y t' where t: "t = y # t'" "lower_char y = x" by (cases t) (auto simp: w)
        then have "\<not> session_char y" using hd_dropWhile [of session_char "drop 12 s"] by (simp add: t_def)
        with t have "x \<in> set ''/;?#''" by (simp add: stop_lower) (simp add: session_char_def)
        with less.prems(1) w show ?thesis by auto
      next
        case False
        then have "starts_with w (lower (c # sub_all SESSION_ID cs))"
          using less.prems(2) Cons by (simp add: sub_session_Cons)
        with less.hyps [of cs w'] less.prems(1) show ?thesis by (simp add: Cons w)
      qed
    qed
  qed
qed

lemma sub_session_clean: "\<not> contains session_key (lower (sub_all SESSION_ID s))"
proof (induction "length s" arbitrary: s rule: less_induct)
  case less
  show ?case
  proof (cases s)
    case (Cons c cs)
    show ?thesis
    proof (cases "starts_with session_key (lower s)")
      case True
      with less [of "dropWhile session_char (drop 12 s)"] session_rest_shorter [of c cs] show ?thesis
        by (simp add: Cons sub_session_Cons)
    next
      case False
      then have "\<not> starts_with session_key (lower (c # sub_all SESSION_ID cs))"
        using starts_sub_session [of "''jsessionid=''" cs] by (auto simp: Cons session_key_Cons)
      with False less [of cs] show ?thesis by (simp add: Cons sub_session_Cons)
    qed
  qed (simp add: session_key_def)
qed

lemma sub_session_fix: "\<not> contains session_key (lower s) \<Longrightarrow> sub_all SESSION_ID s = s"
  by (induction s) (auto simp: sub_session_Cons)

section \<open>Decoding of a prefix\<close>

lemma hex_value_percent [simp]: "hex_value (CHR ''%'') = None"
  by (simp add: hex_value_def is_digit_def lower_char_def)

lemma hex_value_space: "is_space c \<Longrightarrow> hex_value c = None"
  by (auto simp: hex_value_def is_digit_def lower_char_def is_space_def Let_def)

lemma unquote_Cons: "unquote (a # s) =
  (case s of b # c # t \<Rightarrow>
     (case (if a = CHR ''%'' then hex_value b else None, hex_value c) of
       (Some i, Some j) \<Rightarrow> char_of (16 * i + j) # unquote t
     | _ \<Rightarrow> a # unquote s)
   | _ \<Rightarrow> a # unquote s)"
  by (cases s rule: remdups_adj.cases) (auto split: option.splits)

lemma unquote_literal: "a \<noteq> CHR ''%'' \<Longrightarrow> unquote (a # s) = a # unquote s"
  by (auto simp: unquote_Cons split: list.splits)

text \<open>An escape does not reach over the end of \<open>a\<close>.\<close>

definition boundary :: "string \<Rightarrow> string \<Rightarrow> bool" where
  "boundary a b = (b = [] \<or> hex_value (hd b) = None \<or> CHR ''%'' \<notin> set (drop (length a - 2) a))"

lemma boundary_Cons: "boundary (x # y # z # a) b \<Longrightarrow> boundary (y # z # a) b"
  by (cases a) (auto simp: boundary_def)

lemma boundary_drop3: "boundary (x # y # z # a) b \<Longrightarrow> boundary a b"
  by (cases a rule: remdups_adj.cases) (auto simp: boundary_def)

definition escape :: "char \<Rightarrow> char \<Rightarrow> char \<Rightarrow> bool" where
  "escape x y z = (x = CHR ''%'' \<and> hex_value y \<noteq> None \<and> hex_value z \<noteq> None)"

lemma unquote_escape:
  "escape x y z \<Longrightarrow> unquote (x # y # z # s) = char_of (16 * the (hex_value y) + the (hex_value z)) # unquote s"
  by (auto simp: escape_def)

lemma unquote_no_escape: "\<not> escape x y z \<Longrightarrow> unquote (x # y # z # s) = x # unquote (y # z # s)"
  by (cases "hex_value y"; cases "hex_value z") (simp_all add: escape_def)

declare unquote.simps(1) [simp del]

lemma unquote_append: "boundary a b \<Longrightarrow> unquote (a @ b) = unquote a @ unquote b"
proof (induction "length a" arbitrary: a rule: less_induct)
  case less
  consider "a = []" | x where "a = [x]" | x y where "a = [x, y]" | x y z s where "a = x # y # z # s"
    by (metis neq_Nil_conv)
  then show ?case
  proof cases
    case 1
    then show ?thesis by simp
  next
    case (2 x)
    then have "b = [] \<or> (case b of [y] \<Rightarrow> True | y # z # s \<Rightarrow> \<not> escape x y z)"
      using less.prems by (cases b rule: remdups_adj.cases) (auto simp: boundary_def escape_def)
    then show ?thesis
      by (cases b rule: remdups_adj.cases) (simp_all add: 2 unquote_no_escape)
  next
    case (3 x y)
    then have "b = [] \<or> (case b of z # s \<Rightarrow> \<not> escape x y z \<and> boundary [y] b)"
      using less.prems by (cases b) (auto simp: boundary_def escape_def)
    then show ?thesis
      using less.hyps [of "[y]"] by (cases b) (simp_all add: 3 unquote_no_escape)
  next
    case (4 x y z s)
    show ?thesis
    proof (cases "escape x y z")
      case True
      with less.hyps [of s] boundary_drop3 less.prems show ?thesis by (simp add: 4 unquote_escape)
    next
      case False
      with less.hyps [of "y # z # s"] boundary_Cons less.prems show ?thesis by (simp add: 4 unquote_no_escape)
    qed
  qed
qed

section \<open>Pages\<close>

lemma rfind_None: "rfind c lo s = None \<Longrightarrow> c \<notin> set (drop lo s)"
  by (auto simp: rfind_def in_set_conv_nth filter_empty_conv split: list.splits)

lemma rfind_Some: "rfind c lo s = Some i \<Longrightarrow> lo \<le> i \<and> i < length s \<and> s ! i = c"
proof -
  assume "rfind c lo s = Some i"
  then have "i \<in> set (rev (filter (\<lambda>i. s ! i = c) [lo..<length s]))"
    by (auto simp: rfind_def simp del: set_rev split: list.splits)
  then show ?thesis by simp
qed

lemma rstrip_boundary:
  assumes "boundary q r"
  shows "\<exists>b. q @ r = rstrip q @ b \<and> boundary (rstrip q) b"
proof -
  obtain u where u: "q = rstrip q @ u" "list_all is_space u" using rstrip_prefix by blast
  show ?thesis
  proof (cases u)
    case Nil
    with u have "rstrip q = q" by simp
    with assms show ?thesis by auto
  next
    case (Cons c cs)
    with u(2) have "boundary (rstrip q) (u @ r)" by (simp add: boundary_def hex_value_space)
    moreover have "q @ r = rstrip q @ (u @ r)" using u(1) by simp
    ultimately show ?thesis by blast
  qed
qed

lemma cut_path_prefix: "\<exists>b. path = cut_path path @ b \<and> boundary (cut_path path) b"
proof (cases "MAX_PAGE < length path")
  case False
  have "boundary path []" by (simp add: boundary_def)
  from rstrip_boundary [OF this] False show ?thesis by (simp add: cut_path_def)
next
  case True
  define p where "p = take MAX_PAGE path"
  have len: "length p = MAX_PAGE" using True by (simp add: p_def)
  show ?thesis
  proof (cases "rfind (CHR ''%'') (MAX_PAGE - 2) p")
    case None
    with len have "boundary p (drop MAX_PAGE path)" by (simp add: boundary_def rfind_None)
    from rstrip_boundary [OF this] True None show ?thesis by (simp add: cut_path_def p_def)
  next
    case (Some i)
    then have i: "i < MAX_PAGE" "p ! i = CHR ''%''" using rfind_Some [OF Some] len by simp_all
    have "hd (drop i path) = CHR ''%''" using i True by (simp add: p_def hd_drop_conv_nth)
    then have "boundary (take i p) (drop i path)" by (simp add: boundary_def)
    moreover have "take i p @ drop i path = path" using i(1) by (simp add: p_def min_def)
    ultimately show ?thesis using rstrip_boundary [of "take i p" "drop i path"] True Some
      by (simp add: cut_path_def p_def Let_def)
  qed
qed

lemma cut_path_length: "length (cut_path path) \<le> MAX_PAGE"
proof -
  have r: "length (rstrip s) \<le> length s" for s
    using rstrip_prefix [of s] by (metis le_add1 length_append)
  show ?thesis
    unfolding cut_path_def
    by (rule le_trans [OF r]) (auto simp: Let_def split: option.splits)
qed

lemma cut_path_last: "cut_path path = [] \<or> \<not> is_space (last (cut_path path))"
  unfolding cut_path_def by (rule rstrip_last)

lemma slash_facts [simp]: "\<not> is_space (CHR ''/'')" "\<not> is_alpha (CHR ''/'')" "\<not> is_control (CHR ''/'')"
  by (simp_all add: is_space_def is_alpha_def lower_char_def is_control_def)

lemma cut_path_slash: "\<exists>t. cut_path (CHR ''/'' # s) = CHR ''/'' # t"
proof -
  have r: "\<exists>t. rstrip (CHR ''/'' # s) = CHR ''/'' # t" for s by (rule rstrip_Cons) simp
  have t: "\<exists>t. rstrip (take i (CHR ''/'' # s)) = CHR ''/'' # t" if "0 < i" for i s
    using that r by (cases i) auto
  have i: "0 < i" if "rfind c 198 q = Some i" for c q i
    using rfind_Some [OF that] by simp
  show ?thesis
  proof (cases "MAX_PAGE < length (CHR ''/'' # s)")
    case False
    then show ?thesis using r [of s] by (simp add: cut_path_def)
  next
    case True
    have page: "take MAX_PAGE (CHR ''/'' # s) = CHR ''/'' # take 199 s" by (simp add: MAX_PAGE_def)
    show ?thesis
    proof (cases "rfind (CHR ''%'') 198 (CHR ''/'' # take 199 s)")
      case None
      with True page r [of "take 199 s"] show ?thesis by (simp add: cut_path_def Let_def MAX_PAGE_def)
    next
      case (Some x)
      with True page t [OF i [OF Some], of "take 199 s"] show ?thesis
        by (simp add: cut_path_def Let_def MAX_PAGE_def)
    qed
  qed
qed

lemma takeWhile_id: "(\<And>c. c \<in> set s \<Longrightarrow> P c) \<Longrightarrow> takeWhile P s = s"
  by (simp add: takeWhile_eq_all_conv)

text \<open>What \<open>clean_page\<close> returns is its own raw path.\<close>

lemma raw_path_fix:
  assumes "s = CHR ''/'' # t" "\<not> starts_with ''//'' s" "CHR ''?'' \<notin> set s" "CHR ''#'' \<notin> set s"
  shows "raw_path host_ok s = Some s"
proof -
  have whole: "takeWhile (\<lambda>c. c \<notin> set ''?#'') s = s" "takeWhile (\<lambda>c. c \<noteq> CHR ''#'') s = s" "takeWhile (\<lambda>c. c \<noteq> CHR ''?'') s = s"
    using assms(3,4) by (auto intro!: takeWhile_id)
  have d: "dropWhile (\<lambda>c. (of_char c :: nat) \<le> 32) s = s" by (simp add: assms(1))
  have a: "after_scheme s = s" by (simp add: after_scheme_def assms(1) Let_def)
  have "length ''//'' = 2" by simp
  then have "take 2 s \<noteq> ''//''" using assms(2) unfolding starts_with_def by metis
  moreover have "takeWhile (\<lambda>c. c \<noteq> CHR ''?'') (takeWhile (\<lambda>c. c \<noteq> CHR ''#'') s) = s" by (simp only: whole)
  ultimately show ?thesis using whole(1) d a by (simp add: raw_path_def split_path_def Let_def)
qed

lemma split_path_chars:
  "split_path host_ok v = Some p \<Longrightarrow> set p \<subseteq> set v \<and> CHR ''?'' \<notin> set p \<and> CHR ''#'' \<notin> set p"
proof -
  assume a: "split_path host_ok v = Some p"
  define url where "url = after_scheme (dropWhile (\<lambda>c. (of_char c :: nat) \<le> 32) v)"
  have u: "set url \<subseteq> set v"
    unfolding url_def after_scheme_def Let_def using set_dropWhileD set_drop_subset by (fastforce split: if_splits)
  obtain rest where rest: "set rest \<subseteq> set url" "p = takeWhile (\<lambda>c. c \<noteq> CHR ''?'') (takeWhile (\<lambda>c. c \<noteq> CHR ''#'') rest)"
    using a unfolding split_path_def Let_def url_def [symmetric]
    by (auto split: if_splits dest: in_set_dropD)
  with u show ?thesis by (auto dest!: set_takeWhileD)
qed

lemma raw_path_chars:
  "raw_path host_ok v = Some p \<Longrightarrow> set p \<subseteq> set v \<and> CHR ''?'' \<notin> set p \<and> CHR ''#'' \<notin> set p"
  using split_path_chars by (auto simp: raw_path_def split: if_splits dest!: set_takeWhileD)

lemma sub_session_chars: "set (sub_all SESSION_ID s) \<subseteq> set s"
proof (induction "length s" arbitrary: s rule: less_induct)
  case less
  show ?case
  proof (cases s)
    case (Cons c cs)
    have "set (dropWhile session_char (drop 12 s)) \<subseteq> set s" using set_dropWhileD in_set_dropD by fastforce
    with less [of "dropWhile session_char (drop 12 s)"] less [of cs] session_rest_shorter [of c cs]
    show ?thesis by (auto simp: Cons sub_session_Cons)
  qed simp
qed

lemma contains_lower_prefix: "\<not> contains k (lower (a @ b)) \<Longrightarrow> \<not> contains k (lower a)"
  using contains_append by (auto simp: lower_def)

text \<open>The path \<open>clean_page\<close> cuts.\<close>

lemma clean_pageD:
  assumes "clean_page host_ok raw = Some p"
  obtains path b where "p = cut_path path" "path = p @ b" "boundary p b" "\<exists>t. path = CHR ''/'' # t"
    "\<not> starts_with ''//'' path" "CHR ''?'' \<notin> set path" "CHR ''#'' \<notin> set path"
    "\<not> contains session_key (lower path)" "\<not> has_control False path"
    "\<not> has_email (unquote path)" "\<not> has_control False (unquote path)"
proof -
  obtain v path0 where v: "prepare False raw = Some v" and path0: "raw_path host_ok v = Some path0"
    using assms by (auto simp: clean_page_def split: option.splits if_splits)
  define path1 where "path1 = sub_all SESSION_ID path0"
  define path2 where "path2 = (if path1 = [] then ''/'' else path1)"
  define path where "path = (if starts_with ''/'' path2 then path2 else ''/'' @ path2)"
  have "clean_page host_ok raw = (if starts_with ''//'' v then None else if starts_with ''//'' path then None
      else if has_email (unquote path) \<or> has_control False (unquote path) then None else Some (cut_path path))"
    by (simp only: clean_page_def v path0 option.case Let_def path1_def path2_def path_def)
  with assms have result: "\<not> starts_with ''//'' path" "\<not> has_email (unquote path)" "\<not> has_control False (unquote path)"
    "p = cut_path path"
    by (simp_all split: if_splits)
  have chars: "set path1 \<subseteq> set v" "CHR ''?'' \<notin> set path1" "CHR ''#'' \<notin> set path1"
    using raw_path_chars [OF path0] sub_session_chars [of path0] by (auto simp: path1_def)
  have path_set: "set path \<subseteq> insert (CHR ''/'') (set path1)" by (auto simp: path_def path2_def)
  have slash: "\<exists>t. path = CHR ''/'' # t" by (auto simp: path_def starts_with_iff)
  have control: "\<not> has_control False path"
  proof -
    have "\<forall>c \<in> set v. \<not> is_control c" using prepareD [OF v] by (auto simp: has_control_def list_ex_iff)
    with path_set chars(1) have "\<forall>c \<in> set path. \<not> is_control c" using slash_facts(3) by blast
    then show ?thesis by (auto simp: has_control_def list_ex_iff)
  qed
  have key: "\<not> contains session_key (lower path)"
  proof -
    have "\<not> contains session_key (lower path1)" unfolding path1_def by (rule sub_session_clean)
    then show ?thesis
      by (auto simp: path_def path2_def session_key_Cons lower_char_def)
  qed
  obtain b where b: "path = p @ b" "boundary p b" using cut_path_prefix [of path] result(4) by auto
  show ?thesis
    by (rule that [OF result(4) b slash result(1) _ _ key control result(2,3)]) (use path_set chars in auto)
qed

lemma has_email_prefix: "\<not> has_email (a @ b) \<Longrightarrow> \<not> has_email a"
  unfolding has_email_def by (rule search_prefix)

text \<open>
  Cleaning a page is idempotent (one stored value, one \<open>dim_key\<close>): a cleaned page is its own cleaned
  page. The cut to 200 characters revives no session identifier, no query and no escape sequence.
\<close>

lemma clean_page_idempotent:
  assumes "clean_page host_ok raw = Some p"
  shows "clean_page host_ok p = Some p"
proof -
  obtain path b where p: "p = cut_path path" "path = p @ b" "boundary p b" "\<exists>t. path = CHR ''/'' # t"
    "\<not> starts_with ''//'' path" "CHR ''?'' \<notin> set path" "CHR ''#'' \<notin> set path"
    "\<not> contains session_key (lower path)" "\<not> has_control False path"
    "\<not> has_email (unquote path)" "\<not> has_control False (unquote path)"
    by (rule clean_pageD [OF assms])
  obtain t where t: "p = CHR ''/'' # t" using p(1,4) cut_path_slash by auto
  have "\<not> has_control False p" using p(9) unfolding p(2) has_control_append by simp
  then have "prepare False p = Some p"
    using cut_path_last [of path] cut_path_length [of path] t p(1)
    by (intro prepare_fix) (auto simp: MAX_PAGE_def MAX_INPUT_def)
  moreover have slashes: "\<not> starts_with ''//'' p" using p(2,5) starts_with_append by metis
  moreover have "raw_path host_ok p = Some p"
    by (rule raw_path_fix [OF t slashes]) (use p(2,6,7) in auto)
  moreover have "sub_all SESSION_ID p = p"
    by (rule sub_session_fix) (use p(2,8) contains_lower_prefix in auto)
  moreover have "unquote path = unquote p @ unquote b" using unquote_append [OF p(3)] p(2) by simp
  then have "\<not> has_email (unquote p)" "\<not> has_control False (unquote p)"
    using p(10,11) has_email_prefix by auto
  moreover have "cut_path p = p"
    using cut_path_last [of path] cut_path_length [of path] p(1) by (simp add: cut_path_def rstrip_fix)
  ultimately show ?thesis using t by (simp add: clean_page_def Let_def)
qed

lemma clean_page_idempotent_witness:
  "clean_page (\<lambda>_. True) ''https://x.fr/a?b'' = Some ''/a'' \<and> clean_page (\<lambda>_. True) ''/a'' = Some ''/a''"
proof -
  have "clean_page (\<lambda>_. True) ''https://x.fr/a?b'' = Some ''/a''" by code_simp
  then show ?thesis using clean_page_idempotent by blast
qed

section \<open>Queries\<close>

definition good_words :: "string list \<Rightarrow> bool" where
  "good_words ws = (\<forall>w \<in> set ws. w \<noteq> [] \<and> (\<forall>c \<in> set w. \<not> is_space c))"

lemma space_facts [simp]: "is_space (CHR '' '')" "\<not> is_control (CHR '' '')" "lower_char (CHR '' '') = CHR '' ''"
  by (simp_all add: is_space_def is_control_def lower_char_def)

lemma good_words_ConsI: "good_words [w] \<Longrightarrow> good_words ws \<Longrightarrow> good_words (w # ws)"
  by (simp add: good_words_def)

lemma good_words_words: "good_words (words s)"
proof (induction s rule: words.induct)
  case (1 s)
  define t where "t = dropWhile is_space s"
  show ?case
  proof (cases "t = []")
    case True
    then show ?thesis by (simp add: words.simps [of s] t_def [symmetric] good_words_def Let_def)
  next
    case False
    then have "\<not> is_space (hd t)" unfolding t_def by (rule hd_dropWhile)
    with False have "takeWhile (\<lambda>c. \<not> is_space c) t \<noteq> []" by (cases t) auto
    moreover have "good_words (words (dropWhile (\<lambda>c. \<not> is_space c) t))" using 1 [OF t_def] False by (simp add: t_def)
    moreover have "words s = takeWhile (\<lambda>c. \<not> is_space c) t # words (dropWhile (\<lambda>c. \<not> is_space c) t)"
      using False by (subst words.simps) (simp add: t_def Let_def)
    moreover have "good_words [takeWhile (\<lambda>c. \<not> is_space c) t]"
      using calculation(1) set_takeWhileD unfolding good_words_def by fastforce
    ultimately show ?thesis by (simp only: good_words_ConsI)
  qed
qed

lemma words_chars: "w \<in> set (words s) \<Longrightarrow> set w \<subseteq> set s"
proof (induction s rule: words.induct)
  case (1 s)
  define t where "t = dropWhile is_space s"
  have sub: "set t \<subseteq> set s" unfolding t_def by (auto dest: set_dropWhileD)
  from 1(2) have "t \<noteq> []" and w: "w = takeWhile (\<lambda>c. \<not> is_space c) t \<or> w \<in> set (words (dropWhile (\<lambda>c. \<not> is_space c) t))"
    by (auto simp: words.simps [of s] t_def [symmetric] Let_def split: if_splits)
  from w show ?case
  proof
    assume "w = takeWhile (\<lambda>c. \<not> is_space c) t"
    with sub show ?thesis by (auto dest: set_takeWhileD)
  next
    assume "w \<in> set (words (dropWhile (\<lambda>c. \<not> is_space c) t))"
    with 1(1) [OF t_def] \<open>t \<noteq> []\<close> have "set w \<subseteq> set (dropWhile (\<lambda>c. \<not> is_space c) t)" by (simp add: t_def)
    with sub show ?thesis by (auto dest: set_dropWhileD)
  qed
qed

lemma words_word:
  assumes "w \<noteq> []" "\<forall>c \<in> set w. \<not> is_space c"
  shows "words w = [w]" "words (w @ CHR '' '' # s) = w # words s"
proof -
  have hd: "\<not> is_space (hd w)" using assms by (cases w) auto
  have n: "words [] = []" by (simp add: words.simps)
  have d: "dropWhile is_space w = w" "dropWhile is_space (w @ s') = w @ s'" for s'
    using assms(1) hd by (cases w; simp)+
  have t: "takeWhile (\<lambda>c. \<not> is_space c) (w @ CHR '' '' # s') = w" "dropWhile (\<lambda>c. \<not> is_space c) (w @ CHR '' '' # s') = CHR '' '' # s'"
    "takeWhile (\<lambda>c. \<not> is_space c) w = w" "dropWhile (\<lambda>c. \<not> is_space c) w = []" for s'
    using assms(2) by simp_all
  show "words w = [w]" using assms(1) by (simp add: words.simps [of w] d t n)
  have "words (CHR '' '' # s) = words s" by (simp add: words.simps [of "CHR '' '' # s"] words.simps [of s])
  then show "words (w @ CHR '' '' # s) = w # words s"
    using assms(1) by (simp add: words.simps [of "w @ CHR '' '' # s"] d t Let_def)
qed

lemma words_join: "good_words ws \<Longrightarrow> words (join '' '' ws) = ws"
  by (induction "'' ''" ws rule: join.induct) (simp_all add: words.simps [of "[]"] good_words_def words_word)

lemma join_Cons: "ws \<noteq> [] \<Longrightarrow> join sep (w # ws) = w @ sep @ join sep ws"
  by (cases ws) simp_all

lemma rstrip_word_append: "rstrip s \<noteq> [] \<Longrightarrow> rstrip (a @ s) = a @ rstrip s"
  by (auto simp: rstrip_def dropWhile_append)

lemma rstrip_spaces: "rstrip s = [] \<Longrightarrow> rstrip (w @ CHR '' '' # s) = rstrip w"
  by (simp add: rstrip_def dropWhile_append)

lemma rstrip_good: "good_words [w] \<Longrightarrow> rstrip w = w"
  by (cases w rule: rev_cases) (auto simp: good_words_def rstrip_fix)

lemma good_prefix: "good_words ws \<Longrightarrow> \<exists>vs. good_words vs \<and> rstrip (take n (join '' '' ws)) = join '' '' vs"
proof (induction ws arbitrary: n)
  case Nil
  then show ?case by (intro exI [of _ "[]"]) (simp add: good_words_def rstrip_def)
next
  case (Cons w ws)
  have part: "\<exists>vs. good_words vs \<and> rstrip (take n w) = join '' '' vs" for n
  proof (cases "take n w = []")
    case True
    then show ?thesis unfolding True by (intro exI [of _ "[]"]) (simp add: good_words_def rstrip_def)
  next
    case False
    then have "good_words [take n w]" using Cons.prems by (auto simp: good_words_def dest: in_set_takeD)
    then show ?thesis by (intro exI [of _ "[take n w]"]) (simp add: rstrip_good)
  qed
  show ?case
  proof (cases "ws = [] \<or> n \<le> length w")
    case True
    then show ?thesis using part [of n] by (cases ws) auto
  next
    case False
    then obtain m where m: "n - length w = Suc m" "take n w = w" by (cases "n - length w") auto
    have t: "take n (join '' '' (w # ws)) = w @ CHR '' '' # take m (join '' '' ws)"
      using False m by (simp add: join_Cons)
    obtain vs where vs: "good_words vs" "rstrip (take m (join '' '' ws)) = join '' '' vs"
      using Cons.IH [of m] Cons.prems by (auto simp: good_words_def)
    have w: "good_words [w]" using Cons.prems by (simp add: good_words_def)
    show ?thesis
    proof (cases "vs = []")
      case True
      with vs have "rstrip (take n (join '' '' (w # ws))) = w" by (simp add: t rstrip_spaces rstrip_good [OF w])
      with w show ?thesis by (intro exI [of _ "[w]"]) simp
    next
      case False
      then have "join '' '' vs \<noteq> []"
        using vs(1) by (cases vs rule: remdups_adj.cases) (auto simp: good_words_def)
      with vs have "rstrip (take n (join '' '' (w # ws))) = w @ CHR '' '' # join '' '' vs"
        unfolding t using rstrip_word_append [of "take m (join '' '' ws)" "w @ '' ''"] by simp
      moreover have "good_words (w # vs)" using vs(1) w by (simp add: good_words_def)
      ultimately show ?thesis using False by (intro exI [of _ "w # vs"]) (simp add: join_Cons)
    qed
  qed
qed

text \<open>The text \<open>clean_query\<close> cuts.\<close>

lemma clean_queryD:
  assumes "clean_query raw = Some q"
  obtains ws where "q = rstrip (take MAX_QUERY (join '' '' ws))" "good_words ws" "join '' '' ws \<noteq> []"
    "\<not> has_email (join '' '' ws)" "\<not> has_long_digits (join '' '' ws)"
    "\<forall>c \<in> set (join '' '' ws). lower_char c = c \<and> \<not> is_control c"
proof -
  obtain v0 where v0: "prepare True raw = Some v0" using assms by (auto simp: clean_query_def split: option.splits)
  define ws where "ws = words (lower v0)"
  have q: "join '' '' ws \<noteq> []" "\<not> has_email (join '' '' ws)" "\<not> has_long_digits (join '' '' ws)"
    "q = rstrip (take MAX_QUERY (join '' '' ws))"
    using assms v0 by (simp_all add: clean_query_def Let_def ws_def split: if_splits)
  have good: "good_words ws" by (simp add: ws_def good_words_words)
  have clean0: "\<forall>c \<in> set v0. is_control c \<longrightarrow> is_space c"
    using prepareD [OF v0] by (auto simp: has_control_def list_ex_iff)
  have low_control: "is_control (lower_char c) = is_control c" "is_space (lower_char c) = is_space c" for c
    by (auto simp: is_control_def is_space_def lower_char_def Let_def)
  have "\<forall>c \<in> set (lower v0). lower_char c = c \<and> (is_control c \<longrightarrow> is_space c)"
    using clean0 by (auto simp: lower_def low_control)
  then have w: "lower_char c = c \<and> \<not> is_control c" if "w \<in> set ws" "c \<in> set w" for w c
    using good words_chars [of w "lower v0"] that by (auto simp: good_words_def ws_def)
  have join_set: "set (join '' '' xs) \<subseteq> insert (CHR '' '') (\<Union>w \<in> set xs. set w)" for xs
    by (induction "'' ''" xs rule: join.induct) auto
  have "\<forall>c \<in> set (join '' '' ws). lower_char c = c \<and> \<not> is_control c"
    using w join_set [of ws] space_facts(2,3) by blast
  from that [OF q(4) good q(1,2,3) this] show ?thesis .
qed

lemma has_long_digits_prefix: "\<not> has_long_digits (a @ b) \<Longrightarrow> \<not> has_long_digits a"
  unfolding has_long_digits_def by (rule search_prefix)

lemma join_good_ends:
  "good_words ws \<Longrightarrow> join '' '' ws \<noteq> [] \<Longrightarrow> \<not> is_space (hd (join '' '' ws)) \<and> \<not> is_space (last (join '' '' ws))"
proof (induction "'' ''" ws rule: join.induct)
  case (3 x y zs)
  then have "join '' '' (y # zs) \<noteq> []" by (cases zs) (auto simp: good_words_def)
  with 3 show ?case by (auto simp: good_words_def)
qed (auto simp: good_words_def)

lemma rstrip_take_prefix: "\<exists>u. s = rstrip (take n s) @ u"
  using rstrip_prefix [of "take n s"] by (metis append.assoc append_take_drop_id)

lemma length_rstrip_take: "length (rstrip (take n s)) \<le> n"
  using rstrip_prefix [of "take n s"] by (metis le_add1 le_trans length_append length_take min.cobounded2)

text \<open>
  Cleaning a search query is idempotent: the cleaned text is in lower case, its words are separated by
  single spaces, and neither the cut to 100 characters nor a second cleaning changes it.
\<close>

lemma clean_query_idempotent:
  assumes "clean_query raw = Some q"
  shows "clean_query q = Some q"
proof -
  obtain ws where ws: "q = rstrip (take MAX_QUERY (join '' '' ws))" "good_words ws" "join '' '' ws \<noteq> []"
    "\<not> has_email (join '' '' ws)" "\<not> has_long_digits (join '' '' ws)"
    "\<forall>c \<in> set (join '' '' ws). lower_char c = c \<and> \<not> is_control c"
    by (rule clean_queryD [OF assms])
  obtain u where u: "join '' '' ws = q @ u" using rstrip_take_prefix ws(1) by metis
  obtain vs where vs: "good_words vs" "q = join '' '' vs" using good_prefix [OF ws(2), of MAX_QUERY] ws(1) by auto
  obtain c s where head: "join '' '' ws = c # s" "\<not> is_space c"
    using join_good_ends [OF ws(2,3)] ws(3) by (cases "join '' '' ws") auto
  have "take MAX_QUERY (c # s) = c # take 99 s" by (simp add: MAX_QUERY_def)
  with head rstrip_Cons [OF head(2), of "take 99 s"] have ne: "q \<noteq> []" by (auto simp: ws(1))
  have len: "length q \<le> MAX_QUERY" unfolding ws(1) by (rule length_rstrip_take)
  have "\<forall>c \<in> set q. lower_char c = c \<and> \<not> is_control c" using ws(6) u by auto
  then have low: "lower q = q" and control: "\<not> has_control True q"
    by (simp_all add: lower_def map_idI has_control_def list_ex_iff)
  have "prepare True q = Some q"
    using ne control len join_good_ends [OF vs(1)] vs(2)
    by (intro prepare_fix) (auto simp: MAX_QUERY_def MAX_INPUT_def)
  moreover have "join '' '' (words q) = q" using words_join [OF vs(1)] vs(2) by simp
  moreover have "\<not> has_email q" "\<not> has_long_digits q"
    using ws(4,5) has_email_prefix has_long_digits_prefix unfolding u by blast+
  moreover have "rstrip (take MAX_QUERY q) = q" using len by (simp add: ws(1))
  ultimately show ?thesis using ne low by (simp add: clean_query_def Let_def)
qed

lemma clean_query_idempotent_witness:
  "clean_query ''  Chaise  LONGUE '' = Some ''chaise longue'' \<and> clean_query ''chaise longue'' = Some ''chaise longue''"
proof -
  have "clean_query ''  Chaise  LONGUE '' = Some ''chaise longue''" by code_simp
  then show ?thesis using clean_query_idempotent by blast
qed

text \<open>
  C13: No personal data is stored in a dimension: a cleaned page starts with one slash, has at most 200
  characters and holds no e-mail address once decoded; a cleaned query has at most 100 characters and
  holds neither an e-mail address nor a long run of digits.
\<close>

theorem cleaned_values_are_anonymous:
  "(clean_page host_ok raw = Some p \<longrightarrow>
     starts_with ''/'' p \<and> \<not> starts_with ''//'' p \<and> length p \<le> 200 \<and> \<not> has_email (unquote p)) \<and>
   (clean_query raw = Some q \<longrightarrow> length q \<le> 100 \<and> \<not> has_email q \<and> \<not> has_long_digits q)"
proof (intro conjI impI)
  assume page: "clean_page host_ok raw = Some p"
  obtain path b where p: "p = cut_path path" "path = p @ b" "boundary p b" "\<exists>t. path = CHR ''/'' # t"
    "\<not> starts_with ''//'' path" "\<not> has_email (unquote path)"
    by (rule clean_pageD [OF page])
  obtain t where "path = CHR ''/'' # t" using p(4) by blast
  then show "starts_with ''/'' p" using cut_path_slash [of t] p(1) by auto
  show "\<not> starts_with ''//'' p" using p(2,5) starts_with_append by metis
  show "length p \<le> 200" using cut_path_length [of path] p(1) by (simp add: MAX_PAGE_def)
  have "unquote path = unquote p @ unquote b" using unquote_append [OF p(3)] p(2) by simp
  with p(6) show "\<not> has_email (unquote p)" using has_email_prefix by metis
next
  assume query: "clean_query raw = Some q"
  obtain ws where ws: "q = rstrip (take MAX_QUERY (join '' '' ws))" "\<not> has_email (join '' '' ws)" "\<not> has_long_digits (join '' '' ws)"
    by (rule clean_queryD [OF query])
  obtain u where u: "join '' '' ws = q @ u" using rstrip_take_prefix ws(1) by metis
  show "length q \<le> 100" unfolding ws(1) using length_rstrip_take [of MAX_QUERY] by (simp add: MAX_QUERY_def)
  show "\<not> has_email q" "\<not> has_long_digits q"
    using ws(2,3) has_email_prefix has_long_digits_prefix unfolding u by blast+
qed

theorem cleaned_values_are_anonymous_witness:
  "clean_page (\<lambda>_. True) ''/a%40b.fr'' = None \<and> clean_query ''appeler 06 12 34 56 78'' = None \<and>
    \<not> has_email (unquote ''/a%40'')"
proof -
  have "clean_page (\<lambda>_. True) ''/a%40'' = Some ''/a%40''" by code_simp
  then have "\<not> has_email (unquote ''/a%40'')" using cleaned_values_are_anonymous by blast
  moreover have "clean_page (\<lambda>_. True) ''/a%40b.fr'' = None" by code_simp
  moreover have "clean_query ''appeler 06 12 34 56 78'' = None" by code_simp
  ultimately show ?thesis by blast
qed

end
