(* ===== verification/Metric_Store.thy ===== *)
theory Metric_Store
  imports Metric_Aggregate Metric_Dimensions Py_Dict Job_Store "HOL-Library.Multiset"
begin

text \<open>
  \<open>app/services/metrics/store.py\<close> with \<open>app/models/metric_point.py\<close> and \<open>metric_rollup.py\<close>: what a
  collection writes. The tables are added to the jobs' database; a statement that meets a key twice
  raises, as PostgreSQL does. Values are exact rationals, so \<open>isfinite\<close> of a sum always holds. The advisory
  lock serialises the writers of a site's source: each call runs alone, in the caller's transaction.
\<close>

record metric_point =
  mp_website_id :: uuid
  mp_source :: string
  mp_metric :: string
  mp_dim_key :: string
  mp_day :: date
  mp_value :: rat
  mp_dims :: dims
  mp_collected_at :: datetime
  mp_run_id :: "uuid option"

record metric_rollup =
  mr_website_id :: uuid
  mr_source :: string
  mr_metric :: string
  mr_dim_key :: string
  mr_grain :: grain
  mr_period_start :: date
  mr_value :: rat
  mr_days_covered :: nat
  mr_dims :: dims
  mr_updated_at :: datetime

record metrics_db = jobs_db +
  metric_points :: "metric_point list"
  metric_rollups :: "metric_rollup list"

definition mp_key :: "metric_point \<Rightarrow> uuid \<times> string \<times> string \<times> string \<times> date" where
  "mp_key p = (mp_website_id p, mp_source p, mp_metric p, mp_dim_key p, mp_day p)"

definition mr_key :: "metric_rollup \<Rightarrow> uuid \<times> string \<times> string \<times> string \<times> grain \<times> date" where
  "mr_key r = (mr_website_id r, mr_source r, mr_metric r, mr_dim_key r, mr_grain r, mr_period_start r)"

definition metrics_wf :: "'a metrics_db_scheme \<Rightarrow> bool" where
  "metrics_wf db = (uniq_by mp_key (metric_points db) \<and> uniq_by mr_key (metric_rollups db))"

definition BATCH :: nat where "BATCH = 1000"

record store_result =
  st_written :: nat
  st_dropped :: nat
  st_days :: "date list"

section \<open>Rows of a collection\<close>

definition point_rank :: "metric_point \<Rightarrow> rat \<times> nat list" where
  "point_rank row = (- mp_value row, code_points (snd (hd (mp_dims row))))"

definition clean_dims :: "(string \<Rightarrow> bool) \<Rightarrow> metric_def \<Rightarrow> dims \<Rightarrow> dims option" where
  "clean_dims host_ok defn dms =
    (case dms of
       [] \<Rightarrow> Some []
     | [(name, raw)] \<Rightarrow>
         if name \<notin> set (md_dimensions defn) then None
         else (case map_of (CLEANERS host_ok) name of
             None \<Rightarrow> None
           | Some cleaner \<Rightarrow> map_option (\<lambda>cleaned. [(name, cleaned)]) (cleaner raw))
     | _ \<Rightarrow> None)"

definition merge_values :: "metric_def \<Rightarrow> rat list \<Rightarrow> rat" where
  "merge_values defn values =
    (if md_aggregation defn = A_sum then sum_list values
     else if md_aggregation defn = A_mean then sum_list values / of_nat (length values)
     else last values)"

text \<open>The test on the value of an observation, and \<open>float(value)\<close>.\<close>

fun number_of :: "py_number \<Rightarrow> rat option" where
  "number_of (PyInt i) = Some (of_int i)"
| "number_of (PyFloat r) = Some r"
| "number_of _ = None"

record accepted =
  ac_metric :: string
  ac_day :: date
  ac_defn :: metric_def
  ac_dims :: dims
  ac_value :: rat

definition accept :: "(string \<Rightarrow> bool) \<Rightarrow> string \<Rightarrow> observation \<Rightarrow> accepted option" where
  "accept host_ok source obs =
    (case (metric_def_of source (ob_metric obs), number_of (ob_value obs)) of
       (Some defn, Some v) \<Rightarrow>
         (case clean_dims host_ok defn (ob_dims obs) of
            None \<Rightarrow> None
          | Some dms \<Rightarrow> Some \<lparr>ac_metric = ob_metric obs, ac_day = ob_day obs, ac_defn = defn, ac_dims = dms, ac_value = v\<rparr>)
     | _ \<Rightarrow> None)"

definition ac_key :: "accepted \<Rightarrow> string \<times> string \<times> date" where
  "ac_key a = (ac_metric a, dim_key (ac_dims a), ac_day a)"

type_synonym collected = "((string \<times> string \<times> date) \<times> metric_def \<times> dims \<times> rat list) list"

definition collect_step :: "accepted \<Rightarrow> (metric_def \<times> dims \<times> rat list) option \<Rightarrow> metric_def \<times> dims \<times> rat list" where
  "collect_step a entry =
    (case entry of
       None \<Rightarrow> (ac_defn a, ac_dims a, [ac_value a])
     | Some (defn, dms, values) \<Rightarrow> (defn, dms, values @ [ac_value a]))"

definition collected_of :: "accepted list \<Rightarrow> collected" where
  "collected_of as = dict_of ac_key collect_step as"

definition point_row :: "uuid \<Rightarrow> string \<Rightarrow> uuid option \<Rightarrow> datetime \<Rightarrow>
    (string \<times> string \<times> date) \<times> metric_def \<times> dims \<times> rat list \<Rightarrow> metric_def \<times> metric_point" where
  "point_row site source run_id now = (\<lambda>((metric, key, day), defn, dms, values).
     (defn, \<lparr>mp_website_id = site, mp_source = source, mp_metric = metric, mp_dim_key = key, mp_day = day,
       mp_value = merge_values defn values, mp_dims = dms, mp_collected_at = now, mp_run_id = run_id\<rparr>))"

text \<open>The rows of one metric, dimension and day, with the definition of the first.\<close>

definition group_key :: "metric_def \<times> metric_point \<Rightarrow> string \<times> string \<times> date" where
  "group_key x = (mp_metric (snd x), fst (hd (mp_dims (snd x))), mp_day (snd x))"

definition group_step :: "metric_def \<times> metric_point \<Rightarrow> (metric_def \<times> metric_point list) option \<Rightarrow> metric_def \<times> metric_point list" where
  "group_step x entry =
    (case entry of None \<Rightarrow> (fst x, [snd x]) | Some (defn, members) \<Rightarrow> (defn, members @ [snd x]))"

definition ranked_groups :: "(metric_def \<times> metric_point) list \<Rightarrow> (metric_def \<times> metric_point list) list" where
  "ranked_groups rows = map (\<lambda>(_, defn, members). (defn, sort_key point_rank members)) (dict_of group_key group_step rows)"

definition prepare_rows :: "(string \<Rightarrow> bool) \<Rightarrow> uuid \<Rightarrow> string \<Rightarrow> observation list \<Rightarrow> uuid option \<Rightarrow> datetime \<Rightarrow>
    metric_point list \<times> nat" where
  "prepare_rows host_ok site source observations run_id now =
    (let acc = List.map_filter (accept host_ok source) observations;
         rows = map (point_row site source run_id now) (collected_of acc);
         totals = filter (\<lambda>(_, row). mp_dims row = []) rows;
         groups = ranked_groups (filter (\<lambda>(_, row). mp_dims row \<noteq> []) rows);
         kept = concat (map (\<lambda>(defn, members). take (md_top_n defn) members) groups)
     in (sort_key (\<lambda>r. (code_points (mp_metric r), mp_day r, code_points (mp_dim_key r))) (map snd totals @ kept),
         (length observations - length acc) +
           sum_list (map (\<lambda>(defn, members). length members - md_top_n defn) groups)))"

section \<open>Statements\<close>

definition batches :: "'r list \<Rightarrow> 'r list list" where "batches rows = chunks_of BATCH rows"

text \<open>
  \<open>INSERT ... ON CONFLICT (key) DO UPDATE\<close>: value, dimensions, instant and run of the row with the key are
  replaced. A statement that names a key twice raises.
\<close>

definition upsert_point :: "metric_point \<Rightarrow> metric_point list \<Rightarrow> metric_point list" where
  "upsert_point p rows =
    (if mp_key p \<in> mp_key ` set rows
     then update_rows (\<lambda>q. mp_key q = mp_key p)
       (\<lambda>q. q\<lparr>mp_value := mp_value p, mp_dims := mp_dims p, mp_collected_at := mp_collected_at p, mp_run_id := mp_run_id p\<rparr>) rows
     else rows @ [p])"

definition upsert_points :: "metric_point list \<Rightarrow> metric_point list \<Rightarrow> metric_point list result" where
  "upsert_points chunk rows =
    (if distinct (map mp_key chunk) then Inr (fold upsert_point chunk rows) else Inl CardinalityViolation)"

definition insert_rollups :: "metric_rollup list \<Rightarrow> metric_rollup list \<Rightarrow> metric_rollup list result" where
  "insert_rollups chunk rows =
    (if distinct (map mr_key (rows @ chunk)) then Inr (rows @ chunk) else Inl IntegrityError)"

fun in_batches :: "('r list \<Rightarrow> 't \<Rightarrow> 't result) \<Rightarrow> 'r list list \<Rightarrow> 't \<Rightarrow> 't result" where
  "in_batches stmt [] tbl = Inr tbl"
| "in_batches stmt (chunk # chunks) tbl = try_bind (stmt chunk tbl) (in_batches stmt chunks)"

section \<open>Rollups\<close>

definition series_key :: "grain \<Rightarrow> metric_point \<Rightarrow> string \<times> string \<times> date" where
  "series_key g p = (mp_metric p, mp_dim_key p, period_start (mp_day p) g)"

type_synonym period_series = "((string \<times> string \<times> date) \<times> series) list"

definition period_series_of :: "grain \<Rightarrow> metric_point list \<Rightarrow> period_series" where
  "period_series_of g rows = dict_of (series_key g) (set_entry mp_day mp_value) rows"

definition period_labels :: "grain \<Rightarrow> metric_point list \<Rightarrow> ((string \<times> date) \<times> dims) list" where
  "period_labels g rows = dict_of (\<lambda>p. (mp_dim_key p, period_start (mp_day p) g)) (\<lambda>p _. mp_dims p) rows"

definition rollup_row :: "uuid \<Rightarrow> string \<Rightarrow> grain \<Rightarrow> datetime \<Rightarrow> period_series \<Rightarrow> ((string \<times> date) \<times> dims) list \<Rightarrow>
    (string \<times> string \<times> date) \<times> series \<Rightarrow> metric_rollup option" where
  "rollup_row site source g now all labels = (\<lambda>((metric, key, start), values).
    (case metric_def_of source metric of
       None \<Rightarrow> None
     | Some defn \<Rightarrow>
         (case aggregate defn values
             (map (\<lambda>name. (name, get_default [] all (name, [], start))) (siblings_needed defn)) of
            None \<Rightarrow> None
          | Some v \<Rightarrow> Some \<lparr>mr_website_id = site, mr_source = source, mr_metric = metric, mr_dim_key = key,
              mr_grain = g, mr_period_start = start, mr_value = v, mr_days_covered = length values,
              mr_dims = get_default [] labels (key, start), mr_updated_at = now\<rparr>)))"

definition source_points :: "uuid \<Rightarrow> string \<Rightarrow> 'a metrics_db_scheme \<Rightarrow> metric_point list" where
  "source_points site source db =
    filter (\<lambda>p. mp_website_id p = site \<and> mp_source p = source) (metric_points db)"

definition sorted_set :: "('a :: linorder) list \<Rightarrow> 'a list" where "sorted_set xs = sort (remdups xs)"

text \<open>One grain of \<open>refresh_rollups\<close>: the periods touched are deleted, then written again from all their points.\<close>

definition refresh_grain :: "uuid \<Rightarrow> string \<Rightarrow> date list \<Rightarrow> datetime \<Rightarrow> grain \<Rightarrow>
    'a metrics_db_scheme \<times> nat \<Rightarrow> ('a metrics_db_scheme \<times> nat) result" where
  "refresh_grain site source wanted now g st =
    (let (db, written) = st;
         starts = sorted_set (map (\<lambda>day. period_start day g) wanted); low = hd starts
     in try_bind (period_end (last starts) g) (\<lambda>high.
       (let result = filter (\<lambda>p. low \<le> mp_day p \<and> mp_day p \<le> high) (source_points site source db);
            touched = filter (\<lambda>p. period_start (mp_day p) g \<in> set starts) result;
            all = period_series_of g touched;
            kept = delete_rows (\<lambda>r. mr_website_id r = site \<and> mr_source r = source \<and> mr_grain r = g \<and>
              mr_period_start r \<in> set starts) (metric_rollups db);
            rows = List.map_filter (rollup_row site source g now all (period_labels g touched)) all
        in try_bind (in_batches insert_rollups (batches rows) kept) (\<lambda>tbl.
             Inr (db\<lparr>metric_rollups := tbl\<rparr>, written + length rows)))))"

definition refresh_rollups :: "uuid \<Rightarrow> string \<Rightarrow> date list \<Rightarrow> datetime \<Rightarrow> 'a metrics_db_scheme \<Rightarrow>
    ('a metrics_db_scheme \<times> nat) result" where
  "refresh_rollups site source wanted now db =
    (if wanted = [] then Inr (db, 0)
     else try_bind (refresh_grain site source wanted now Week (db, 0)) (refresh_grain site source wanted now Month))"

definition metric_day :: "metric_point \<Rightarrow> string \<times> date" where "metric_day p = (mp_metric p, mp_day p)"

definition store_observations :: "(string \<Rightarrow> bool) \<Rightarrow> uuid \<Rightarrow> string \<Rightarrow> observation list \<Rightarrow> uuid option \<Rightarrow> datetime \<Rightarrow>
    'a metrics_db_scheme \<Rightarrow> ('a metrics_db_scheme \<times> store_result) result" where
  "store_observations host_ok site source observations run_id now db =
    (let (rows, dropped) = prepare_rows host_ok site source observations run_id now
     in if rows = [] then Inr (db, \<lparr>st_written = 0, st_dropped = dropped, st_days = []\<rparr>)
        else
          (let pairs = remdups (map metric_day rows);
               kept = delete_rows (\<lambda>p. mp_website_id p = site \<and> mp_source p = source \<and> metric_day p \<in> set pairs) (metric_points db);
               dates = remdups (map snd pairs)
           in try_bind (in_batches upsert_points (batches rows) kept) (\<lambda>tbl.
              try_bind (refresh_rollups site source dates now (db\<lparr>metric_points := tbl\<rparr>)) (\<lambda>(db', _).
                Inr (db', \<lparr>st_written = length rows, st_dropped = dropped, st_days = dates\<rparr>)))))"

section \<open>Batches\<close>

lemma concat_chunks_of: "0 < n \<Longrightarrow> concat (chunks_of n xs) = xs"
  by (induction n xs rule: chunks_of.induct) (subst chunks_of.simps, simp)

lemma concat_batches [simp]: "concat (batches rows) = rows"
  by (simp add: batches_def BATCH_def concat_chunks_of)

lemma in_batches_append:
  assumes "\<And>chunk tbl. distinct (map key (tbl @ chunk)) \<Longrightarrow> stmt chunk tbl = Inr (tbl @ chunk)"
  shows "distinct (map key (tbl @ concat chunks)) \<Longrightarrow> in_batches stmt chunks tbl = Inr (tbl @ concat chunks)"
proof (induction chunks arbitrary: tbl)
  case (Cons chunk chunks)
  have "stmt chunk tbl = Inr (tbl @ chunk)" using Cons.prems by (intro assms) auto
  with Cons.IH [of "tbl @ chunk"] Cons.prems show ?case by simp
qed simp

lemma upsert_fresh: "distinct (map mp_key (tbl @ chunk)) \<Longrightarrow> fold upsert_point chunk tbl = tbl @ chunk"
proof (induction chunk arbitrary: tbl)
  case (Cons p chunk)
  then have "upsert_point p tbl = tbl @ [p]" by (simp add: upsert_point_def)
  with Cons.IH [of "tbl @ [p]"] Cons.prems show ?case by simp
qed simp

lemma upsert_batches:
  "distinct (map mp_key (tbl @ rows)) \<Longrightarrow> in_batches upsert_points (batches rows) tbl = Inr (tbl @ rows)"
proof -
  assume d: "distinct (map mp_key (tbl @ rows))"
  have "upsert_points chunk t = Inr (t @ chunk)" if "distinct (map mp_key (t @ chunk))" for chunk t
    using that upsert_fresh [OF that] by (simp add: upsert_points_def)
  from in_batches_append [where key = mp_key and stmt = upsert_points, OF this, of tbl "batches rows"] d show ?thesis by simp
qed

lemma insert_batches:
  "distinct (map mr_key (tbl @ rows)) \<Longrightarrow> in_batches insert_rollups (batches rows) tbl = Inr (tbl @ rows)"
  using in_batches_append [where key = mr_key and stmt = insert_rollups, of tbl "batches rows"]
  by (simp add: insert_rollups_def)

section \<open>The rows of a collection\<close>

definition candidate_rows :: "(string \<Rightarrow> bool) \<Rightarrow> uuid \<Rightarrow> string \<Rightarrow> observation list \<Rightarrow> uuid option \<Rightarrow> datetime \<Rightarrow>
    (metric_def \<times> metric_point) list" where
  "candidate_rows host_ok site source observations run_id now =
    map (point_row site source run_id now) (collected_of (List.map_filter (accept host_ok source) observations))"

lemma candidate_keys: "distinct (map (mp_key \<circ> snd) (candidate_rows host_ok site source obs run_id now))"
proof -
  define d where "d = collected_of (List.map_filter (accept host_ok source) obs)"
  have "distinct (map fst d)" by (simp add: d_def collected_of_def)
  then have "distinct (map (\<lambda>(metric, key, day). (site, source, metric, key, day)) (map fst d))"
    by (subst distinct_map) (auto simp: inj_on_def)
  moreover have "map (mp_key \<circ> snd) (map (point_row site source run_id now) d) =
      map (\<lambda>(metric, key, day). (site, source, metric, key, day)) (map fst d)"
    by (auto simp: point_row_def mp_key_def split: prod.splits)
  ultimately have "distinct (map (mp_key \<circ> snd) (map (point_row site source run_id now) d))" by metis
  then show ?thesis unfolding candidate_rows_def d_def .
qed

lemma fold_group_step:
  "fold (\<lambda>x v. Some (group_step x v)) xs None =
    (case xs of [] \<Rightarrow> None | x # _ \<Rightarrow> Some (fst x, map snd xs))"
  by (induction xs rule: rev_induct) (auto simp: group_step_def split: list.splits)

lemma ranked_groupsE:
  assumes "(defn, members) \<in> set (ranked_groups rows)"
  obtains k where "members = sort_key point_rank (map snd (filter (\<lambda>x. group_key x = k) rows))" "k \<in> group_key ` set rows"
    "\<exists>x \<in> set rows. group_key x = k \<and> fst x = defn"
proof -
  from assms obtain k ms where e: "(k, defn, ms) \<in> set (dict_of group_key group_step rows)" "members = sort_key point_rank ms"
    by (auto simp: ranked_groups_def)
  then have f: "fold (\<lambda>x v. Some (group_step x v)) (filter (\<lambda>x. group_key x = k) rows) None = Some (defn, ms)"
    by (simp add: dict_of_entry)
  have m: "ms = map snd (filter (\<lambda>x. group_key x = k) rows)" and
    x: "filter (\<lambda>x. group_key x = k) rows \<noteq> []" "defn = fst (hd (filter (\<lambda>x. group_key x = k) rows))"
    using f by (auto simp: fold_group_step split: list.splits)
  have "hd (filter (\<lambda>x. group_key x = k) rows) \<in> set (filter (\<lambda>x. group_key x = k) rows)" using x(1) by (rule hd_in_set)
  then have h: "hd (filter (\<lambda>x. group_key x = k) rows) \<in> set rows" "group_key (hd (filter (\<lambda>x. group_key x = k) rows)) = k"
    by auto
  then have "k \<in> group_key ` set rows" by (metis imageI)
  with m x(2) e(2) h show ?thesis by (intro that [of k]) auto
qed

lemma distinct_concat_groups:
  assumes "distinct (map fst d)" "\<And>e. e \<in> set d \<Longrightarrow> distinct (map key (g e))"
    and "\<And>e x. e \<in> set d \<Longrightarrow> x \<in> set (g e) \<Longrightarrow> gk x = fst e"
    and "\<And>e e' x y. e \<in> set d \<Longrightarrow> e' \<in> set d \<Longrightarrow> x \<in> set (g e) \<Longrightarrow> y \<in> set (g e') \<Longrightarrow> key x = key y \<Longrightarrow> gk x = gk y"
  shows "distinct (map key (concat (map g d)))"
  using assms
proof (induction d)
  case Nil
  show ?case by simp
next
  case (Cons e d)
  have "distinct (map key (concat (map g d)))"
  proof (rule Cons.IH)
    show "distinct (map fst d)" using Cons.prems(1) by simp
    show "distinct (map key (g e'))" if "e' \<in> set d" for e' using Cons.prems(2) [of e'] that by simp
    show "gk x = fst e'" if "e' \<in> set d" "x \<in> set (g e')" for e' x using Cons.prems(3) [of e' x] that by simp
    show "gk x = gk y" if "e1 \<in> set d" "e2 \<in> set d" "x \<in> set (g e1)" "y \<in> set (g e2)" "key x = key y" for e1 e2 x y
      using Cons.prems(4) [of e1 e2 x y] that by simp
  qed
  moreover have "key x \<noteq> key y" if "x \<in> set (g e)" "e' \<in> set d" "y \<in> set (g e')" for x y e'
  proof
    assume "key x = key y"
    then have "gk x = gk y" using Cons.prems(4) [of e e' x y] that by simp
    moreover have "gk x = fst e" "gk y = fst e'" using Cons.prems(3) that by simp_all
    ultimately show False using Cons.prems(1) that(2) by (metis distinct.simps(2) image_eqI list.simps(9) set_map)
  qed
  ultimately show ?case using Cons.prems(2) [of e] by fastforce
qed

lemma distinct_map_sort_key [simp]: "distinct (map f (sort_key g xs)) = distinct (map f xs)"
  by (simp add: distinct_map)

definition point_group :: "metric_point \<Rightarrow> string \<times> string \<times> date" where
  "point_group p = (mp_metric p, fst (hd (mp_dims p)), mp_day p)"

definition kept_rows :: "(metric_def \<times> metric_point) list \<Rightarrow> metric_point list" where
  "kept_rows rows = concat (map (\<lambda>(defn, members). take (md_top_n defn) members) (ranked_groups rows))"

lemma set_kept_rows: "set (kept_rows rows) \<subseteq> snd ` set rows"
proof
  fix p
  assume "p \<in> set (kept_rows rows)"
  then obtain defn members where g: "(defn, members) \<in> set (ranked_groups rows)" "p \<in> set members"
    by (auto simp: kept_rows_def dest: in_set_takeD)
  from g(1) obtain k where "members = sort_key point_rank (map snd (filter (\<lambda>x. group_key x = k) rows))"
    by (rule ranked_groupsE)
  with g(2) show "p \<in> snd ` set rows" by auto
qed

lemma fst_rows_prepare:
  "fst (prepare_rows host_ok site source obs run_id now) =
    sort_key (\<lambda>r. (code_points (mp_metric r), mp_day r, code_points (mp_dim_key r)))
      (map snd (filter (\<lambda>(_, row). mp_dims row = []) (candidate_rows host_ok site source obs run_id now)) @
       kept_rows (filter (\<lambda>(_, row). mp_dims row \<noteq> []) (candidate_rows host_ok site source obs run_id now)))"
  by (simp add: prepare_rows_def Let_def candidate_rows_def kept_rows_def)

lemma distinct_kept_rows:
  assumes "distinct (map (mp_key \<circ> snd) rows)"
  shows "distinct (map mp_key (kept_rows rows))"
proof -
  define g where "g = (\<lambda>e :: (string \<times> string \<times> date) \<times> metric_def \<times> metric_point list.
    take (md_top_n (fst (snd e))) (sort_key point_rank (snd (snd e))))"
  define d where "d = dict_of group_key group_step rows"
  have k: "kept_rows rows = concat (map g d)"
    unfolding kept_rows_def ranked_groups_def d_def g_def map_map by (rule arg_cong [where f = concat]) (auto split: prod.splits)
  have members: "snd (snd e) = map snd (filter (\<lambda>x. group_key x = fst e) rows)" if "e \<in> set d" for e
  proof -
    obtain k defn ms where e: "e = (k, defn, ms)" by (cases e) auto
    with that have "fold (\<lambda>x v. Some (group_step x v)) (filter (\<lambda>x. group_key x = k) rows) None = Some (defn, ms)"
      by (simp add: d_def dict_of_entry)
    then show ?thesis by (auto simp: e fold_group_step split: list.splits)
  qed
  have "distinct (map mp_key (concat (map g d)))"
  proof (rule distinct_concat_groups [where gk = point_group])
    show "distinct (map fst d)" by (simp add: d_def)
  next
    fix e
    assume "e \<in> set d"
    have "distinct (map mp_key (map snd (filter (\<lambda>x. group_key x = fst e) rows)))"
      using distinct_map_filter [OF assms] by (simp add: comp_def)
    then have "distinct (map mp_key (sort_key point_rank (snd (snd e))))" using members [OF \<open>e \<in> set d\<close>] by simp
    then show "distinct (map mp_key (g e))" by (metis distinct_take g_def take_map)
  next
    fix e x
    assume e: "e \<in> set d" "x \<in> set (g e)"
    then have "x \<in> set (snd (snd e))" by (auto simp: g_def dest: in_set_takeD)
    with members [OF e(1)] show "point_group x = fst e" by (auto simp: point_group_def group_key_def)
  next
    fix e e' x y
    assume a: "e \<in> set d" "e' \<in> set d" "x \<in> set (g e)" "y \<in> set (g e')" "mp_key x = mp_key y"
    have "x \<in> snd ` set rows" "y \<in> snd ` set rows"
      using set_kept_rows [of rows] a(1-4) unfolding k by auto
    moreover have "inj_on mp_key (snd ` set rows)" using assms by (auto simp: distinct_map inj_on_def)
    ultimately show "point_group x = point_group y" using a(5) by (metis inj_onD)
  qed
  then show ?thesis by (simp add: k)
qed

lemma candidate_row:
  "x \<in> set (candidate_rows host_ok site source obs run_id now) \<Longrightarrow>
    mp_website_id (snd x) = site \<and> mp_source (snd x) = source"
  by (auto simp: candidate_rows_def point_row_def)

lemma set_prepared: "set (fst (prepare_rows host_ok site source obs run_id now)) \<subseteq>
    snd ` set (candidate_rows host_ok site source obs run_id now)"
proof -
  have "set (kept_rows (filter P rows)) \<subseteq> snd ` set rows" "set (map snd (filter P rows)) \<subseteq> snd ` set rows"
    for P and rows :: "(metric_def \<times> metric_point) list"
    using set_kept_rows [of "filter P rows"] by auto
  then show ?thesis unfolding fst_rows_prepare set_sort set_append by (intro Un_least)
qed

lemma prepared_site:
  "p \<in> set (fst (prepare_rows host_ok site source obs run_id now)) \<Longrightarrow> mp_website_id p = site \<and> mp_source p = source"
proof -
  assume "p \<in> set (fst (prepare_rows host_ok site source obs run_id now))"
  with set_prepared obtain x where "x \<in> set (candidate_rows host_ok site source obs run_id now)" "p = snd x" by blast
  with candidate_row [OF this(1)] show ?thesis by simp
qed

lemma distinct_prepared: "distinct (map mp_key (fst (prepare_rows host_ok site source obs run_id now)))"
proof -
  define R where "R = candidate_rows host_ok site source obs run_id now"
  have R: "distinct (map (mp_key \<circ> snd) R)" by (simp add: R_def candidate_keys)
  define totals where "totals = filter (\<lambda>(_, row). mp_dims row = []) R"
  define dimmed where "dimmed = filter (\<lambda>(_, row). mp_dims row \<noteq> []) R"
  have t: "distinct (map mp_key (map snd totals))" using distinct_map_filter [OF R] by (simp add: totals_def comp_def)
  have k: "distinct (map mp_key (kept_rows dimmed))"
    by (rule distinct_kept_rows) (simp add: dimmed_def distinct_map_filter [OF R])
  have "mp_key p \<noteq> mp_key q" if p: "p \<in> set (map snd totals)" and q: "q \<in> set (kept_rows dimmed)" for p q
  proof
    assume e: "mp_key p = mp_key q"
    have q': "q \<in> snd ` set dimmed" using q set_kept_rows by blast
    have "inj_on mp_key (snd ` set R)" using R by (auto simp: distinct_map inj_on_def)
    moreover have "p \<in> snd ` set R" "q \<in> snd ` set R" using p q' by (auto simp: totals_def dimmed_def)
    ultimately have "p = q" using e by (metis inj_onD)
    with p q' show False by (auto simp: totals_def dimmed_def)
  qed
  then have "distinct (map mp_key (map snd totals @ kept_rows dimmed))" using t k by fastforce
  then show ?thesis by (simp add: fst_rows_prepare R_def [symmetric] totals_def [symmetric] dimmed_def [symmetric] del: map_map)
qed

section \<open>What a store replaces\<close>

definition replaced :: "uuid \<Rightarrow> string \<Rightarrow> metric_point list \<Rightarrow> metric_point \<Rightarrow> bool" where
  "replaced site source rows p = (mp_website_id p = site \<and> mp_source p = source \<and> metric_day p \<in> metric_day ` set rows)"

definition stored_points :: "uuid \<Rightarrow> string \<Rightarrow> metric_point list \<Rightarrow> metric_point list \<Rightarrow> metric_point list" where
  "stored_points site source rows tbl = delete_rows (replaced site source rows) tbl @ rows"

lemma stored_points_keys:
  assumes "uniq_by mp_key tbl" "distinct (map mp_key rows)" "\<And>p. p \<in> set rows \<Longrightarrow> mp_website_id p = site \<and> mp_source p = source"
  shows "distinct (map mp_key (stored_points site source rows tbl))"
proof -
  have "distinct (map mp_key (delete_rows (replaced site source rows) tbl))"
    using uniq_by_delete_rows [OF assms(1)] by (simp add: uniq_by_def)
  moreover have "mp_key p \<noteq> mp_key q" if "p \<in> set tbl" "\<not> replaced site source rows p" "q \<in> set rows" for p q
  proof
    assume "mp_key p = mp_key q"
    with assms(3) [OF that(3)] have "replaced site source rows p"
      using that(3) by (force simp: mp_key_def replaced_def metric_day_def)
    with that(2) show False by simp
  qed
  then have "mp_key ` set (delete_rows (replaced site source rows) tbl) \<inter> mp_key ` set rows = {}"
    unfolding set_delete_rows by blast
  ultimately show ?thesis using assms(2) by (simp add: stored_points_def)
qed

lemma stored_points_again:
  assumes "\<And>p. p \<in> set rows \<Longrightarrow> mp_website_id p = site \<and> mp_source p = source"
  shows "stored_points site source rows (stored_points site source rows tbl) = stored_points site source rows tbl"
proof -
  have "filter (\<lambda>p. \<not> replaced site source rows p) rows = []"
    using assms by (simp add: filter_empty_conv replaced_def)
  then show ?thesis by (simp add: stored_points_def delete_rows_def)
qed

definition touched_days :: "metric_point list \<Rightarrow> date list" where
  "touched_days rows = remdups (map snd (remdups (map metric_day rows)))"

lemma set_touched_days [simp]: "set (touched_days rows) = mp_day ` set rows"
  by (auto simp: touched_days_def metric_day_def image_image)

text \<open>With the keys in order no statement raises, and a store is one replacement and one refresh.\<close>

lemma store_observations_eq:
  assumes "metrics_wf db" "fst (prepare_rows host_ok site source obs run_id now) = rows" "rows \<noteq> []"
  shows "store_observations host_ok site source obs run_id now db =
    try_bind (refresh_rollups site source (touched_days rows) now
        (db\<lparr>metric_points := stored_points site source rows (metric_points db)\<rparr>))
      (\<lambda>(db', _). Inr (db', \<lparr>st_written = length rows,
        st_dropped = snd (prepare_rows host_ok site source obs run_id now), st_days = touched_days rows\<rparr>))"
proof -
  obtain n where pr: "prepare_rows host_ok site source obs run_id now = (rows, n)" using assms(2) by (metis prod.collapse)
  have d: "distinct (map mp_key (stored_points site source rows (metric_points db)))"
    using assms(1) distinct_prepared [of host_ok site source obs run_id now] prepared_site [of _ host_ok site source obs run_id now]
    by (intro stored_points_keys) (auto simp: metrics_wf_def pr)
  have r: "replaced site source rows = (\<lambda>p. mp_website_id p = site \<and> mp_source p = source \<and>
      metric_day p \<in> set (remdups (map metric_day rows)))"
    by (simp add: fun_eq_iff replaced_def)
  have "in_batches upsert_points (batches rows) (delete_rows (replaced site source rows) (metric_points db)) =
      Inr (stored_points site source rows (metric_points db))"
    using upsert_batches d unfolding stored_points_def by metis
  then show ?thesis
    using assms(3) by (simp add: store_observations_def pr r Let_def touched_days_def)
qed

section \<open>Rollups as a view of the points\<close>

definition period_values :: "uuid \<Rightarrow> string \<Rightarrow> grain \<Rightarrow> metric_point list \<Rightarrow> string \<times> string \<times> date \<Rightarrow> series" where
  "period_values site source g tbl k = map (\<lambda>p. (mp_day p, mp_value p))
     (filter (\<lambda>p. mp_website_id p = site \<and> mp_source p = source \<and> series_key g p = k) tbl)"

definition rollup_view :: "uuid \<Rightarrow> string \<Rightarrow> grain \<Rightarrow> metric_point list \<Rightarrow> string \<times> string \<times> date \<Rightarrow> (rat \<times> nat) option" where
  "rollup_view site source g tbl = (\<lambda>(metric, key, start).
    (let values = period_values site source g tbl (metric, key, start)
     in if values = [] then None
        else (case metric_def_of source metric of
            None \<Rightarrow> None
          | Some defn \<Rightarrow> map_option (\<lambda>v. (v, length values))
              (aggregate defn values
                (map (\<lambda>name. (name, period_values site source g tbl (name, [], start))) (siblings_needed defn))))))"

definition rollup_at :: "'a metrics_db_scheme \<Rightarrow> uuid \<times> string \<times> string \<times> string \<times> grain \<times> date \<Rightarrow> metric_rollup option" where
  "rollup_at db k = find_row (\<lambda>r. mr_key r = k) (metric_rollups db)"

definition rollups_exact :: "'a metrics_db_scheme \<Rightarrow> bool" where
  "rollups_exact db = (\<forall>site source metric key g start.
     map_option (\<lambda>r. (mr_value r, mr_days_covered r)) (rollup_at db (site, source, metric, key, g, start)) =
     rollup_view site source g (metric_points db) (metric, key, start))"

definition grain_points :: "uuid \<Rightarrow> string \<Rightarrow> grain \<Rightarrow> date list \<Rightarrow> metric_point list \<Rightarrow> metric_point list" where
  "grain_points site source g starts tbl = filter (\<lambda>p. mp_website_id p = site \<and> mp_source p = source \<and>
     period_start (mp_day p) g \<in> set starts) tbl"

definition grain_rows :: "uuid \<Rightarrow> string \<Rightarrow> grain \<Rightarrow> date list \<Rightarrow> datetime \<Rightarrow> metric_point list \<Rightarrow> metric_rollup list" where
  "grain_rows site source g starts now tbl =
    (let touched = grain_points site source g starts tbl; all = period_series_of g touched
     in List.map_filter (rollup_row site source g now all (period_labels g touched)) all)"

definition in_grain :: "uuid \<Rightarrow> string \<Rightarrow> grain \<Rightarrow> date list \<Rightarrow> metric_rollup \<Rightarrow> bool" where
  "in_grain site source g starts r = (mr_website_id r = site \<and> mr_source r = source \<and> mr_grain r = g \<and>
     mr_period_start r \<in> set starts)"

definition grain_starts :: "grain \<Rightarrow> date list \<Rightarrow> date list" where
  "grain_starts g wanted = sorted_set (map (\<lambda>day. period_start day g) wanted)"

lemma set_sorted_set [simp]: "set (sorted_set xs) = set xs"
  by (simp add: sorted_set_def)

lemma sorted_set_bounds: "x \<in> set xs \<Longrightarrow> hd (sorted_set xs) \<le> x \<and> x \<le> last (sorted_set xs)"
proof -
  assume "x \<in> set xs"
  then obtain i where i: "i < length (sorted_set xs)" "sorted_set xs ! i = x"
    by (metis in_set_conv_nth set_sorted_set)
  have s: "sorted (sorted_set xs)" by (simp add: sorted_set_def)
  then have "sorted_set xs ! 0 \<le> x" using i by (metis bot_nat_0.extremum sorted_nth_mono)
  moreover have "x \<le> sorted_set xs ! (length (sorted_set xs) - 1)"
    using s i by (metis Suc_pred' diff_less less_Suc_eq_le less_nat_zero_code neq0_conv sorted_nth_mono zero_less_one)
  moreover have "sorted_set xs \<noteq> []" using i by auto
  ultimately show ?thesis by (simp add: hd_conv_nth last_conv_nth)
qed

lemma period_last_mono: "period_start d g \<le> period_start e g \<Longrightarrow>
  period_last g (period_start d g) \<le> period_last g (period_start e g)"
proof (cases "period_start d g = period_start e g")
  case False
  assume le: "period_start d g \<le> period_start e g"
  have "period_last g (period_start (period_start d g) g) < period_start (period_start e g) g"
    using False le by (intro periods.starts_disjoint) simp_all
  with period_last_ge [of "period_start e g" g] show ?thesis by simp
qed simp

lemma touched_points:
  assumes "wanted \<noteq> []" "period_end (last (grain_starts g wanted)) g = Inr high"
  shows "filter (\<lambda>p. period_start (mp_day p) g \<in> set (grain_starts g wanted))
      (filter (\<lambda>p. hd (grain_starts g wanted) \<le> mp_day p \<and> mp_day p \<le> high) (source_points site source db)) =
    grain_points site source g (grain_starts g wanted) (metric_points db)"
proof -
  define starts where "starts = grain_starts g wanted"
  have high: "high = period_last g (last starts)" using period_end_Inr [OF assms(2)] by (simp add: starts_def)
  have set_starts: "set starts = (\<lambda>day. period_start day g) ` set wanted" by (simp add: starts_def grain_starts_def)
  have "hd starts \<le> d \<and> d \<le> high" if "period_start d g \<in> set starts" for d
  proof -
    have b: "hd starts \<le> period_start d g" "period_start d g \<le> last starts"
      using that sorted_set_bounds [of "period_start d g" "map (\<lambda>day. period_start day g) wanted"]
      by (simp_all add: starts_def grain_starts_def)
    have "starts \<noteq> []" using that by auto
    then have "last starts \<in> set starts" by simp
    then obtain e where e: "last starts = period_start e g" using set_starts by auto
    have "period_last g (period_start d g) \<le> high" using b(2) period_last_mono unfolding high e by blast
    with b(1) periods.start_le [of d g] periods.le_last [of d g] show ?thesis by linarith
  qed
  then show ?thesis
    unfolding source_points_def grain_points_def starts_def [symmetric] filter_filter by (intro filter_cong) auto
qed

lemma refresh_grain_eq:
  "wanted \<noteq> [] \<Longrightarrow> refresh_grain site source wanted now g (db, n) =
    try_bind (period_end (last (grain_starts g wanted)) g) (\<lambda>_.
      (let rows = grain_rows site source g (grain_starts g wanted) now (metric_points db)
       in try_bind (in_batches insert_rollups (batches rows)
            (delete_rows (in_grain site source g (grain_starts g wanted)) (metric_rollups db))) (\<lambda>tbl.
              Inr (db\<lparr>metric_rollups := tbl\<rparr>, n + length rows))))"
proof (cases "period_end (last (grain_starts g wanted)) g")
  case (Inl e)
  then show ?thesis by (simp add: refresh_grain_def grain_starts_def)
next
  case (Inr high)
  assume w: "wanted \<noteq> []"
  note t = touched_points [OF w Inr, of site source db]
  have "in_grain site source g (grain_starts g wanted) = (\<lambda>r. mr_website_id r = site \<and> mr_source r = source \<and> mr_grain r = g \<and>
      mr_period_start r \<in> set (grain_starts g wanted))"
    by (simp add: fun_eq_iff in_grain_def)
  with Inr t show ?thesis
    by (simp add: refresh_grain_def grain_starts_def [symmetric] Let_def grain_rows_def)
qed

lemma points_days_distinct:
  assumes "uniq_by mp_key tbl"
  shows "distinct (map mp_day (filter (\<lambda>p. series_key g p = k) (grain_points site source g starts tbl)))"
proof -
  define xs where "xs = filter (\<lambda>p. series_key g p = k) (grain_points site source g starts tbl)"
  have "distinct (map mp_key xs)"
    using assms unfolding xs_def grain_points_def uniq_by_def by (intro distinct_map_filter)
  moreover have "mp_key p = mp_key q" if "p \<in> set xs" "q \<in> set xs" "mp_day p = mp_day q" for p q
    using that by (auto simp: xs_def grain_points_def mp_key_def series_key_def)
  ultimately have "distinct (map mp_day xs)" unfolding distinct_map inj_on_def by blast
  then show ?thesis by (simp add: xs_def)
qed

lemma period_series_map:
  assumes "uniq_by mp_key tbl" "snd (snd k) \<in> set starts"
  shows "map_of (period_series_of g (grain_points site source g starts tbl)) k =
    (if period_values site source g tbl k = [] then None else Some (period_values site source g tbl k))"
proof -
  have "filter (\<lambda>p. series_key g p = k) (grain_points site source g starts tbl) =
    filter (\<lambda>p. mp_website_id p = site \<and> mp_source p = source \<and> series_key g p = k) tbl"
    using assms(2) unfolding grain_points_def filter_filter by (intro filter_cong) (auto simp: series_key_def)
  with points_days_distinct [OF assms(1), of g k site source starts] show ?thesis
    by (simp add: period_series_of_def map_of_dict_of fold_set_entry period_values_def)
qed

lemma period_series_starts:
  "(k, s) \<in> set (period_series_of g (grain_points site source g starts tbl)) \<Longrightarrow> snd (snd k) \<in> set starts"
proof -
  assume "(k, s) \<in> set (period_series_of g (grain_points site source g starts tbl))"
  then have "k \<in> fst ` set (period_series_of g (grain_points site source g starts tbl))" by force
  then show ?thesis by (auto simp: period_series_of_def grain_points_def series_key_def)
qed

lemma period_series_entry:
  assumes "uniq_by mp_key tbl"
  shows "(k, s) \<in> set (period_series_of g (grain_points site source g starts tbl)) \<longleftrightarrow>
    snd (snd k) \<in> set starts \<and> s \<noteq> [] \<and> s = period_values site source g tbl k"
proof -
  have d: "distinct (map fst (period_series_of g (grain_points site source g starts tbl)))" by (simp add: period_series_of_def)
  show ?thesis
  proof (cases "snd (snd k) \<in> set starts")
    case True
    have "(k, s) \<in> set (period_series_of g (grain_points site source g starts tbl)) \<longleftrightarrow>
        map_of (period_series_of g (grain_points site source g starts tbl)) k = Some s"
      by (rule map_of_eq_Some_iff [OF d, symmetric])
    then show ?thesis using True by (simp add: period_series_map [OF assms True]) blast
  next
    case False
    then show ?thesis using period_series_starts by blast
  qed
qed

lemma get_default_series:
  assumes "uniq_by mp_key tbl" "start \<in> set starts"
  shows "get_default [] (period_series_of g (grain_points site source g starts tbl)) (name, key, start) =
    period_values site source g tbl (name, key, start)"
  using period_series_map [OF assms(1), of "(name, key, start)" starts g site source] assms(2)
  by (simp add: get_default_def)

lemma rollup_row_key:
  "rollup_row site source g now all labels (k, s) = Some r \<Longrightarrow> mr_key r = (site, source, fst k, fst (snd k), g, snd (snd k))"
  by (auto simp: rollup_row_def mr_key_def split: prod.splits option.splits)

lemma rollup_row_view:
  assumes "uniq_by mp_key tbl" "start \<in> set starts" "s = period_values site source g tbl (metric, key, start)" "s \<noteq> []"
  shows "map_option (\<lambda>r. (mr_value r, mr_days_covered r))
      (rollup_row site source g now (period_series_of g (grain_points site source g starts tbl)) labels ((metric, key, start), s)) =
    rollup_view site source g tbl (metric, key, start)"
  using assms(2-4)
  by (auto simp: rollup_row_def rollup_view_def get_default_series [OF assms(1,2)] Let_def option.map_comp comp_def
      split: option.splits)

lemma in_grain_rows:
  assumes "uniq_by mp_key tbl"
  shows "r \<in> set (grain_rows site source g starts now tbl) \<longleftrightarrow>
    (\<exists>k s. snd (snd k) \<in> set starts \<and> s \<noteq> [] \<and> s = period_values site source g tbl k \<and>
      rollup_row site source g now (period_series_of g (grain_points site source g starts tbl))
        (period_labels g (grain_points site source g starts tbl)) (k, s) = Some r)"
proof -
  define D where "D = period_series_of g (grain_points site source g starts tbl)"
  define f where "f = rollup_row site source g now D (period_labels g (grain_points site source g starts tbl))"
  have "r \<in> set (grain_rows site source g starts now tbl) \<longleftrightarrow> (\<exists>x \<in> set D. f x = Some r)"
    by (simp add: grain_rows_def Let_def set_map_filter D_def f_def)
  also have "\<dots> \<longleftrightarrow> (\<exists>k s. (k, s) \<in> set D \<and> f (k, s) = Some r)" by (metis surj_pair)
  finally show ?thesis unfolding D_def f_def period_series_entry [OF assms] by (simp only: conj_assoc)
qed

lemma distinct_map_filter_keys:
  assumes "distinct (map fst d)" "\<And>k s r. f (k, s) = Some r \<Longrightarrow> key r = h k" "inj h"
  shows "distinct (map key (List.map_filter f d))"
  using assms(1)
proof (induction d)
  case Nil
  show ?case by (simp add: List.map_filter_simps)
next
  case (Cons e d)
  obtain k s where e: "e = (k, s)" by fastforce
  have "key r \<notin> key ` set (List.map_filter f d)" if "f (k, s) = Some r" for r
  proof
    assume "key r \<in> key ` set (List.map_filter f d)"
    then obtain k' s' r' where "(k', s') \<in> set d" "f (k', s') = Some r'" "key r = key r'" by (auto simp: set_map_filter)
    with assms(2,3) that have "k = k'" by (metis injD)
    with \<open>(k', s') \<in> set d\<close> Cons.prems e show False by (force)
  qed
  with Cons e show ?case by (auto simp: List.map_filter_simps split: option.splits)
qed

lemma distinct_grain_rows: "distinct (map mr_key (grain_rows site source g starts now tbl))"
  unfolding grain_rows_def Let_def
  by (rule distinct_map_filter_keys [where h = "\<lambda>k. (site, source, fst k, fst (snd k), g, snd (snd k))"])
    (auto simp: period_series_of_def inj_def dest: rollup_row_key)

lemma grain_row_in_grain:
  assumes "uniq_by mp_key tbl" "r \<in> set (grain_rows site source g starts now tbl)"
  shows "in_grain site source g starts r"
proof -
  from assms(2) obtain k s where k: "snd (snd k) \<in> set starts"
    "rollup_row site source g now (period_series_of g (grain_points site source g starts tbl))
        (period_labels g (grain_points site source g starts tbl)) (k, s) = Some r"
    unfolding in_grain_rows [OF assms(1)] by blast
  from rollup_row_key [OF k(2)] k(1) show ?thesis by (simp add: mr_key_def in_grain_def)
qed

lemma in_grain_key: "mr_key r = mr_key r' \<Longrightarrow> in_grain site source g starts r = in_grain site source g starts r'"
  by (simp add: mr_key_def in_grain_def)

definition refreshed :: "uuid \<Rightarrow> string \<Rightarrow> grain \<Rightarrow> date list \<Rightarrow> datetime \<Rightarrow> 'a metrics_db_scheme \<Rightarrow> metric_rollup list" where
  "refreshed site source g wanted now db =
    delete_rows (in_grain site source g (grain_starts g wanted)) (metric_rollups db) @
    grain_rows site source g (grain_starts g wanted) now (metric_points db)"

lemma refreshed_keys: "metrics_wf db \<Longrightarrow> distinct (map mr_key (refreshed site source g wanted now db))"
proof -
  assume wf: "metrics_wf db"
  define starts where "starts = grain_starts g wanted"
  define kept where "kept = delete_rows (in_grain site source g starts) (metric_rollups db)"
  define rows where "rows = grain_rows site source g starts now (metric_points db)"
  have k: "distinct (map mr_key kept)"
    using wf uniq_by_delete_rows unfolding kept_def metrics_wf_def uniq_by_def by blast
  have r: "distinct (map mr_key rows)" by (simp add: rows_def distinct_grain_rows)
  have "uniq_by mp_key (metric_points db)" using wf by (simp add: metrics_wf_def)
  then have "in_grain site source g starts y" if "y \<in> set rows" for y
    using that grain_row_in_grain unfolding rows_def by blast
  then have "mr_key x \<noteq> mr_key y" if "x \<in> set kept" "y \<in> set rows" for x y
    using that in_grain_key [of x y] by (auto simp: kept_def set_delete_rows)
  then have "mr_key ` set kept \<inter> mr_key ` set rows = {}" by blast
  with k r show ?thesis by (simp add: refreshed_def starts_def [symmetric] kept_def [symmetric] rows_def [symmetric])
qed

lemma refresh_grain_Inr:
  assumes "metrics_wf db" "wanted \<noteq> []"
  shows "refresh_grain site source wanted now g (db, n) =
    (case period_end (last (grain_starts g wanted)) g of
       Inl e \<Rightarrow> Inl e
     | Inr _ \<Rightarrow> Inr (db\<lparr>metric_rollups := refreshed site source g wanted now db\<rparr>,
         n + length (grain_rows site source g (grain_starts g wanted) now (metric_points db))))"
  using insert_batches [OF refreshed_keys [OF assms(1), of site source g wanted now, unfolded refreshed_def]]
  by (simp add: refresh_grain_eq [OF assms(2)] refreshed_def Let_def split: sum.splits)

lemma metrics_wf_refreshed:
  "metrics_wf db \<Longrightarrow> metrics_wf (db\<lparr>metric_rollups := refreshed site source g wanted now db\<rparr>)"
  using refreshed_keys [of db site source g wanted now] by (simp add: metrics_wf_def uniq_by_def)

lemma find_row_append:
  "find_row P (xs @ ys) = (case find_row P xs of Some r \<Rightarrow> Some r | None \<Rightarrow> find_row P ys)"
  by (induction xs) (simp_all add: find_row_def)

lemma find_view_delete:
  "(\<And>r. r \<in> set rows \<Longrightarrow> P r \<Longrightarrow> \<not> Q r) \<Longrightarrow> find_row P (delete_rows Q rows) = find_row P rows"
  by (induction rows) (auto simp: find_row_def delete_rows_def)

definition exact_at :: "'a metrics_db_scheme \<Rightarrow> uuid \<Rightarrow> string \<Rightarrow> grain \<Rightarrow> string \<times> string \<times> date \<Rightarrow> bool" where
  "exact_at db site source g = (\<lambda>(metric, key, start).
     map_option (\<lambda>r. (mr_value r, mr_days_covered r)) (rollup_at db (site, source, metric, key, g, start)) =
     rollup_view site source g (metric_points db) (metric, key, start))"

lemma rollups_exact_iff: "rollups_exact db = (\<forall>site source g k. exact_at db site source g k)"
  by (auto simp: rollups_exact_def exact_at_def)

lemma refreshed_elsewhere:
  assumes "metrics_wf db" "\<not> (site' = site \<and> source' = source \<and> g' = g \<and> start \<in> set (grain_starts g wanted))"
  shows "rollup_at (db\<lparr>metric_rollups := refreshed site source g wanted now db\<rparr>) (site', source', metric, key, g', start) =
    rollup_at db (site', source', metric, key, g', start)"
proof -
  have "uniq_by mp_key (metric_points db)" using assms(1) by (simp add: metrics_wf_def)
  then have "in_grain site source g (grain_starts g wanted) r"
    if "r \<in> set (grain_rows site source g (grain_starts g wanted) now (metric_points db))" for r
    using that by (rule grain_row_in_grain)
  then have "find_row (\<lambda>r. mr_key r = (site', source', metric, key, g', start))
      (grain_rows site source g (grain_starts g wanted) now (metric_points db)) = None"
    using assms(2) unfolding find_row_None in_grain_def mr_key_def by fast
  moreover have "find_row (\<lambda>r. mr_key r = (site', source', metric, key, g', start))
      (delete_rows (in_grain site source g (grain_starts g wanted)) (metric_rollups db)) =
      find_row (\<lambda>r. mr_key r = (site', source', metric, key, g', start)) (metric_rollups db)"
    using assms(2) by (intro find_view_delete) (auto simp: in_grain_def mr_key_def)
  ultimately show ?thesis by (simp add: rollup_at_def refreshed_def find_row_append split: option.splits)
qed

lemma refreshed_exact:
  assumes "metrics_wf db" "start \<in> set (grain_starts g wanted)"
  shows "exact_at (db\<lparr>metric_rollups := refreshed site source g wanted now db\<rparr>) site source g (metric, key, start)"
proof -
  define starts where "starts = grain_starts g wanted"
  define tbl where "tbl = metric_points db"
  define rows where "rows = grain_rows site source g starts now tbl"
  define K where "K = (site, source, metric, key, g, start)"
  define s where "s = period_values site source g tbl (metric, key, start)"
  define o' where "o' = rollup_row site source g now (period_series_of g (grain_points site source g starts tbl))
        (period_labels g (grain_points site source g starts tbl)) ((metric, key, start), s)"
  have uniq: "uniq_by mp_key tbl" using assms(1) by (simp add: metrics_wf_def tbl_def)
  have start: "start \<in> set starts" using assms(2) by (simp add: starts_def)
  have "find_row (\<lambda>r. mr_key r = K) (delete_rows (in_grain site source g starts) (metric_rollups db)) = None"
    using start by (auto simp: find_row_None set_delete_rows in_grain_def mr_key_def K_def)
  then have at: "rollup_at (db\<lparr>metric_rollups := refreshed site source g wanted now db\<rparr>) K = find_row (\<lambda>r. mr_key r = K) rows"
    by (simp add: rollup_at_def refreshed_def find_row_append starts_def rows_def tbl_def)
  have mem: "(\<exists>r \<in> set rows. mr_key r = K \<and> P r) \<longleftrightarrow> s \<noteq> [] \<and> (\<exists>r. o' = Some r \<and> P r)" for P
  proof
    assume "\<exists>r \<in> set rows. mr_key r = K \<and> P r"
    then obtain r where "r \<in> set rows" and rK: "mr_key r = K" "P r" by blast
    from this(1) obtain k s' where r: "s' \<noteq> []" "s' = period_values site source g tbl k"
      "rollup_row site source g now (period_series_of g (grain_points site source g starts tbl))
        (period_labels g (grain_points site source g starts tbl)) (k, s') = Some r"
      unfolding rows_def in_grain_rows [OF uniq] by (elim exE conjE)
    from rollup_row_key [OF r(3)] rK(1) have "k = (metric, key, start)" by (simp add: K_def prod_eq_iff)
    with r rK(2) show "s \<noteq> [] \<and> (\<exists>r. o' = Some r \<and> P r)" by (simp add: s_def o'_def)
  next
    assume a: "s \<noteq> [] \<and> (\<exists>r. o' = Some r \<and> P r)"
    then obtain r where r: "o' = Some r" "P r" by blast
    have "r \<in> set rows"
      unfolding rows_def in_grain_rows [OF uniq]
      using a r(1) start by (intro exI [of _ "(metric, key, start)"] exI [of _ s]) (simp add: s_def o'_def)
    moreover have "mr_key r = K" using rollup_row_key [OF r(1) [unfolded o'_def]] by (simp add: K_def)
    ultimately show "\<exists>r \<in> set rows. mr_key r = K \<and> P r" using r(2) by blast
  qed
  have found: "find_row (\<lambda>r. mr_key r = K) rows = (if s = [] then None else o')"
  proof (cases "\<exists>r \<in> set rows. mr_key r = K")
    case True
    then obtain r where r: "r \<in> set rows" "mr_key r = K" by blast
    have "uniq_by mr_key rows" by (simp add: uniq_by_def rows_def distinct_grain_rows)
    from find_row_key [OF this r] mem [of "\<lambda>x. x = r"] r show ?thesis by auto
  next
    case False
    with mem [of "\<lambda>_. True"] show ?thesis by (cases o') (auto simp: find_row_None)
  qed
  have "map_option (\<lambda>r. (mr_value r, mr_days_covered r)) (if s = [] then None else o') = rollup_view site source g tbl (metric, key, start)"
  proof (cases "s = []")
    case True
    then show ?thesis by (simp add: rollup_view_def s_def Let_def)
  next
    case False
    from rollup_row_view [OF uniq start s_def False] False show ?thesis by (simp add: o'_def)
  qed
  then show ?thesis by (simp add: exact_at_def at [unfolded K_def] found [unfolded K_def] tbl_def)
qed

lemma period_values_elsewhere:
  assumes "\<And>p. p \<in> set rows \<Longrightarrow> mp_website_id p = site \<and> mp_source p = source"
    and "\<not> (site' = site \<and> source' = source \<and> snd (snd k) \<in> set (grain_starts g (touched_days rows)))"
  shows "period_values site' source' g (stored_points site source rows tbl) k = period_values site' source' g tbl k"
proof -
  define Q where "Q = (\<lambda>p. mp_website_id p = site' \<and> mp_source p = source' \<and> series_key g p = k)"
  have start: "period_start (mp_day p) g \<in> set (grain_starts g (touched_days rows))" if "p \<in> set rows" for p
    using that by (simp add: grain_starts_def)
  have "filter Q rows = []"
  proof -
    have "\<not> Q p" if "p \<in> set rows" for p
      using assms(1) [OF that] assms(2) start [OF that] by (auto simp: Q_def series_key_def)
    then show ?thesis by (simp add: filter_empty_conv)
  qed
  moreover have "\<not> replaced site source rows p" if "Q p" for p
  proof
    assume "replaced site source rows p"
    then obtain q where q: "q \<in> set rows" "mp_day p = mp_day q" "mp_website_id p = site" "mp_source p = source"
      by (auto simp: replaced_def metric_day_def)
    with that assms(2) start [OF q(1)] show False by (auto simp: Q_def series_key_def)
  qed
  then have "filter Q (delete_rows (replaced site source rows) tbl) = filter Q tbl"
    unfolding delete_rows_def filter_filter by (intro filter_cong) auto
  ultimately show ?thesis by (simp add: period_values_def stored_points_def Q_def [symmetric])
qed

lemma rollup_view_cong:
  assumes "\<And>name key. period_values site source g tbl (name, key, start) = period_values site source g tbl' (name, key, start)"
  shows "rollup_view site source g tbl (metric, key, start) = rollup_view site source g tbl' (metric, key, start)"
  unfolding rollup_view_def prod.case assms ..

lemma refresh_rollupsE:
  assumes "refresh_rollups site source wanted now db = Inr (db', n)" "wanted \<noteq> []" "metrics_wf db"
  obtains db1 where "db1 = db\<lparr>metric_rollups := refreshed site source Week wanted now db\<rparr>"
    "db' = db1\<lparr>metric_rollups := refreshed site source Month wanted now db1\<rparr>" "metrics_wf db1" "metrics_wf db'"
proof -
  define db1 where "db1 = db\<lparr>metric_rollups := refreshed site source Week wanted now db\<rparr>"
  have wf1: "metrics_wf db1" using metrics_wf_refreshed [OF assms(3)] by (simp add: db1_def)
  have "db' = db1\<lparr>metric_rollups := refreshed site source Month wanted now db1\<rparr>"
    using assms(1,2) refresh_grain_Inr [OF assms(3,2), of site source now Week 0]
      refresh_grain_Inr [OF wf1 assms(2), of site source now Month]
    by (auto simp: refresh_rollups_def db1_def split: sum.splits)
  with that [OF db1_def] wf1 metrics_wf_refreshed [OF wf1] show ?thesis by simp
qed

lemma store_observationsE:
  assumes "store_observations host_ok site source obs run_id now db = Inr (db', res)" "metrics_wf db"
  obtains (no_rows) "fst (prepare_rows host_ok site source obs run_id now) = []" "db' = db"
  | (stored) rows db1 db2 where "fst (prepare_rows host_ok site source obs run_id now) = rows" "rows \<noteq> []"
      "db1 = db\<lparr>metric_points := stored_points site source rows (metric_points db)\<rparr>" "metrics_wf db1"
      "db2 = db1\<lparr>metric_rollups := refreshed site source Week (touched_days rows) now db1\<rparr>" "metrics_wf db2"
      "db' = db2\<lparr>metric_rollups := refreshed site source Month (touched_days rows) now db2\<rparr>" "metrics_wf db'"
proof (cases "fst (prepare_rows host_ok site source obs run_id now) = []")
  case True
  with assms(1) have "db' = db"
    by (cases "prepare_rows host_ok site source obs run_id now") (simp add: store_observations_def)
  from no_rows [OF True this] show ?thesis .
next
  case False
  define rows where "rows = fst (prepare_rows host_ok site source obs run_id now)"
  define db1 where "db1 = db\<lparr>metric_points := stored_points site source rows (metric_points db)\<rparr>"
  have ne: "rows \<noteq> []" using False by (simp add: rows_def)
  have "touched_days rows \<noteq> []" using ne by (metis image_is_empty set_empty set_touched_days)
  have "distinct (map mp_key (stored_points site source rows (metric_points db)))"
    using assms(2) distinct_prepared prepared_site unfolding rows_def metrics_wf_def by (intro stored_points_keys) blast+
  then have wf1: "metrics_wf db1" using assms(2) by (simp add: db1_def metrics_wf_def uniq_by_def)
  obtain n where "refresh_rollups site source (touched_days rows) now db1 = Inr (db', n)"
    using assms(1) store_observations_eq [OF assms(2) rows_def [symmetric] ne] by (auto simp: db1_def split: prod.splits)
  from refresh_rollupsE [OF this \<open>touched_days rows \<noteq> []\<close> wf1] stored [OF rows_def [symmetric] ne db1_def wf1]
  show ?thesis by metis
qed

lemma store_exact:
  assumes "metrics_wf db" "rollups_exact db"
    and "store_observations host_ok site source obs run_id now db = Inr (db', res)"
  shows "metrics_wf db' \<and> rollups_exact db'"
  using assms(3,1)
proof (cases rule: store_observationsE)
  case no_rows
  with assms(1,2) show ?thesis by simp
next
  case (stored rows db1 db2)
  have site: "mp_website_id p = site \<and> mp_source p = source" if "p \<in> set rows" for p
    using prepared_site that stored(1) by blast
  have "exact_at db' site' source' g (metric, key, start)" for site' source' g metric key start
  proof (cases "site' = site \<and> source' = source \<and> start \<in> set (grain_starts g (touched_days rows))")
    case True
    show ?thesis
    proof (cases g)
      case Month
      with refreshed_exact [OF stored(6), of start Month "touched_days rows" site source now metric key] True stored(7)
      show ?thesis by simp
    next
      case Week
      have "exact_at db2 site source Week (metric, key, start)"
        using refreshed_exact [OF stored(4), of start Week "touched_days rows" site source now metric key] True stored(5) Week by simp
      moreover have "rollup_at db' (site, source, metric, key, Week, start) = rollup_at db2 (site, source, metric, key, Week, start)"
        unfolding stored(7) by (rule refreshed_elsewhere [OF stored(6)]) simp
      ultimately show ?thesis using True Week stored(7) by (simp add: exact_at_def)
    qed
  next
    case False
    have "rollup_at db' (site', source', metric, key, g, start) = rollup_at db2 (site', source', metric, key, g, start)"
      unfolding stored(7) by (rule refreshed_elsewhere [OF stored(6)]) (use False in auto)
    also have "\<dots> = rollup_at db1 (site', source', metric, key, g, start)"
      unfolding stored(5) by (rule refreshed_elsewhere [OF stored(4)]) (use False in auto)
    also have "\<dots> = rollup_at db (site', source', metric, key, g, start)" by (simp add: stored(3) rollup_at_def)
    finally have r: "rollup_at db' (site', source', metric, key, g, start) = rollup_at db (site', source', metric, key, g, start)" .
    have "rollup_view site' source' g (metric_points db') (metric, key, start) =
        rollup_view site' source' g (metric_points db) (metric, key, start)"
      using False site by (intro rollup_view_cong) (auto simp: stored(3,5,7) period_values_elsewhere)
    with r assms(2) show ?thesis by (simp add: rollups_exact_iff exact_at_def)
  qed
  then have "rollups_exact db'" by (auto simp: rollups_exact_iff)
  with stored(8) show ?thesis by blast
qed


section \<open>Replays\<close>

lemma delete_rows_append: "delete_rows P (xs @ ys) = delete_rows P xs @ delete_rows P ys"
  by (simp add: delete_rows_def)

lemma delete_rows_all: "(\<And>r. r \<in> set rows \<Longrightarrow> P r) \<Longrightarrow> delete_rows P rows = []"
  by (simp add: delete_rows_def filter_empty_conv)

lemma delete_rows_none: "(\<And>r. r \<in> set rows \<Longrightarrow> \<not> P r) \<Longrightarrow> delete_rows P rows = rows"
  by (simp add: delete_rows_def filter_id_conv)

lemma delete_rows_idem: "delete_rows P (delete_rows P rows) = delete_rows P rows"
  by (simp add: delete_rows_def)

lemma delete_rows_commute: "delete_rows P (delete_rows Q rows) = delete_rows Q (delete_rows P rows)"
  by (simp add: delete_rows_def conj_commute)

lemma refreshed_twice:
  assumes "metrics_wf db" "db2 = db\<lparr>metric_rollups := refreshed site source Week wanted now db\<rparr>"
    and "db3 = db2\<lparr>metric_rollups := refreshed site source Month wanted now db2\<rparr>"
    and "db4 = db3\<lparr>metric_rollups := refreshed site source Week wanted now db3\<rparr>"
  shows "db4\<lparr>metric_rollups := refreshed site source Month wanted now db4\<rparr> = db3"
proof -
  define tbl where "tbl = metric_points db"
  define W where "W = grain_rows site source Week (grain_starts Week wanted) now tbl"
  define M where "M = grain_rows site source Month (grain_starts Month wanted) now tbl"
  define dW where "dW = delete_rows (in_grain site source Week (grain_starts Week wanted))"
  define dM where "dM = delete_rows (in_grain site source Month (grain_starts Month wanted))"
  have uniq: "uniq_by mp_key tbl" using assms(1) by (simp add: tbl_def metrics_wf_def)
  have W: "in_grain site source Week (grain_starts Week wanted) r" if "r \<in> set W" for r
    using that grain_row_in_grain [OF uniq] by (simp add: W_def)
  have M: "in_grain site source Month (grain_starts Month wanted) r" if "r \<in> set M" for r
    using that grain_row_in_grain [OF uniq] by (simp add: M_def)
  have "\<not> in_grain site source Month (grain_starts Month wanted) r" if "r \<in> set W" for r
    using W [OF that] by (simp add: in_grain_def)
  then have dMW: "dM W = W" unfolding dM_def by (intro delete_rows_none)
  have "\<not> in_grain site source Week (grain_starts Week wanted) r" if "r \<in> set M" for r
    using M [OF that] by (simp add: in_grain_def)
  then have dWM: "dW M = M" unfolding dW_def by (intro delete_rows_none)
  have dWW: "dW W = []" and dMM: "dM M = []" unfolding dW_def dM_def using W M by (simp_all add: delete_rows_all)
  have c: "dW (dM xs) = dM (dW xs)" "dW (dW xs) = dW xs" "dM (dM xs) = dM xs"
    "dW (xs @ ys) = dW xs @ dW ys" "dM (xs @ ys) = dM xs @ dM ys" for xs ys
    by (simp_all add: dW_def dM_def delete_rows_commute delete_rows_idem delete_rows_append)
  have pts: "metric_points db2 = tbl" "metric_points db3 = tbl" "metric_points db4 = tbl"
    by (simp_all add: assms(2-4) tbl_def)
  have r2: "metric_rollups db2 = dW (metric_rollups db) @ W" by (simp add: assms(2) refreshed_def W_def dW_def tbl_def)
  have r3: "metric_rollups db3 = dM (dW (metric_rollups db)) @ W @ M"
    using r2 pts by (simp add: assms(3) refreshed_def M_def [symmetric] dM_def [symmetric] c dMW)
  have r4: "metric_rollups db4 = dM (dW (metric_rollups db)) @ M @ W"
    using r3 pts by (simp add: assms(4) refreshed_def W_def [symmetric] dW_def [symmetric] c dWW dWM)
  have "refreshed site source Month wanted now db4 = metric_rollups db3"
    using r3 r4 pts by (simp add: refreshed_def M_def [symmetric] dM_def [symmetric] c dMW dMM)
  then show ?thesis by (simp add: assms(4))
qed

text \<open>
  Storing is idempotent: running the same collection again (same observations, run and instant) changes
  neither a point nor a rollup, and reports the same counts.
\<close>

lemma store_again:
  assumes "metrics_wf db" "store_observations host_ok site source obs run_id now db = Inr (db', res)"
  shows "store_observations host_ok site source obs run_id now db' = Inr (db', res)"
  using assms(2,1)
proof (cases rule: store_observationsE)
  case no_rows
  with assms(2) show ?thesis by simp
next
  case (stored rows db1 db2)
  have site: "mp_website_id p = site \<and> mp_source p = source" if "p \<in> set rows" for p
    using prepared_site that stored(1) by blast
  have ne: "touched_days rows \<noteq> []" using stored(2) by (metis image_is_empty set_empty set_touched_days)
  have ends: "\<exists>x. period_end (last (grain_starts Week (touched_days rows))) Week = Inr x"
    "\<exists>x. period_end (last (grain_starts Month (touched_days rows))) Month = Inr x"
    using assms(2) refresh_grain_Inr [OF stored(4) ne, of site source now Week 0]
      refresh_grain_Inr [OF stored(6) ne, of site source now Month]
    unfolding store_observations_eq [OF assms(1) stored(1,2)] stored(3) [symmetric] refresh_rollups_def
    by (auto simp: ne stored(5) split: sum.splits)
  have same: "db'\<lparr>metric_points := stored_points site source rows (metric_points db')\<rparr> = db'"
    using stored_points_again [of rows site source "metric_points db"] site by (simp add: stored(3,5,7))
  define db4 where "db4 = db'\<lparr>metric_rollups := refreshed site source Week (touched_days rows) now db'\<rparr>"
  have wf4: "metrics_wf db4" using metrics_wf_refreshed [OF stored(8)] by (simp add: db4_def)
  have restored: "db4\<lparr>metric_rollups := refreshed site source Month (touched_days rows) now db4\<rparr> = db'"
    by (rule refreshed_twice [OF stored(4,5,7) db4_def])
  obtain k where "refresh_grain site source (touched_days rows) now Week (db', 0) = Inr (db4, k)"
    using ends(1) refresh_grain_Inr [OF stored(8) ne, of site source now Week 0] unfolding db4_def [symmetric] by auto
  moreover have "\<exists>n. refresh_grain site source (touched_days rows) now Month (db4, k) = Inr (db', n)"
    using ends(2) refresh_grain_Inr [OF wf4 ne, of site source now Month k] unfolding restored by auto
  ultimately have "\<exists>n. refresh_rollups site source (touched_days rows) now db' = Inr (db', n)"
    by (simp add: refresh_rollups_def ne)
  moreover have "res = \<lparr>st_written = length rows, st_dropped = snd (prepare_rows host_ok site source obs run_id now),
      st_days = touched_days rows\<rparr>"
    using assms(2) unfolding store_observations_eq [OF assms(1) stored(1,2)] by (auto split: prod.splits)
  ultimately show ?thesis
    unfolding store_observations_eq [OF stored(8,1,2)] same by auto
qed

section \<open>Rows and observations\<close>

lemma fold_collect_step:
  "fold (\<lambda>a v. Some (collect_step a v)) as None =
    (case as of [] \<Rightarrow> None | a # _ \<Rightarrow> Some (ac_defn a, ac_dims a, map ac_value as))"
  by (induction as rule: rev_induct) (auto simp: collect_step_def split: list.splits)

lemma candidate_source:
  assumes "x \<in> set (candidate_rows host_ok site source obs run_id now)"
  obtains a rest o' where "o' \<in> set obs" "accept host_ok source o' = Some a"
    "filter (\<lambda>b. ac_key b = ac_key a) (List.map_filter (accept host_ok source) obs) = a # rest"
    "fst x = ac_defn a" "mp_dims (snd x) = ac_dims a" "mp_metric (snd x) = ac_metric a" "mp_day (snd x) = ac_day a"
    "mp_value (snd x) = merge_values (ac_defn a) (map ac_value (a # rest))"
proof -
  define acc where "acc = List.map_filter (accept host_ok source) obs"
  from assms obtain k defn dms vs where e: "(k, defn, dms, vs) \<in> set (collected_of acc)"
    and x: "x = point_row site source run_id now (k, defn, dms, vs)"
    by (auto simp: candidate_rows_def acc_def)
  then have "fold (\<lambda>a v. Some (collect_step a v)) (filter (\<lambda>a. ac_key a = k) acc) None = Some (defn, dms, vs)"
    by (simp add: collected_of_def dict_of_entry)
  then obtain a rest where f: "filter (\<lambda>a. ac_key a = k) acc = a # rest" "defn = ac_defn a" "dms = ac_dims a"
    "vs = map ac_value (a # rest)"
    by (auto simp: fold_collect_step split: list.splits)
  have "a \<in> set (filter (\<lambda>a. ac_key a = k) acc)" by (simp add: f(1))
  then have a: "a \<in> set acc" "ac_key a = k" by auto
  then obtain o' where "o' \<in> set obs" "accept host_ok source o' = Some a" by (auto simp: acc_def set_map_filter)
  then show ?thesis
    by (rule that [of o' a rest]) (use f a(2) x in \<open>auto simp: acc_def ac_key_def point_row_def\<close>)
qed

lemma acceptD: "accept host_ok source o' = Some a \<Longrightarrow> ac_metric a = ob_metric o' \<and> ac_day a = ob_day o' \<and>
    metric_def_of source (ob_metric o') = Some (ac_defn a) \<and> clean_dims host_ok (ac_defn a) (ob_dims o') = Some (ac_dims a)"
  by (auto simp: accept_def split: option.splits)

lemma prepared_day:
  assumes "p \<in> set (fst (prepare_rows host_ok site source obs run_id now))"
  shows "mp_day p \<in> ob_day ` set obs"
proof -
  from assms set_prepared obtain x where x: "x \<in> set (candidate_rows host_ok site source obs run_id now)" "p = snd x" by blast
  from x(1) show ?thesis by (rule candidate_source) (use x(2) acceptD in force)
qed

lemma grain_last_ok:
  assumes "wanted \<noteq> []" "\<And>d. d \<in> set wanted \<Longrightarrow> 1 \<le> d \<and> d + 6 \<le> max_ordinal"
  shows "\<exists>x. period_end (last (grain_starts g wanted)) g = Inr x"
proof -
  have "set (grain_starts g wanted) = (\<lambda>d. period_start d g) ` set wanted" by (simp add: grain_starts_def)
  moreover from this have "grain_starts g wanted \<noteq> []" using assms(1) by (metis image_is_empty set_empty)
  ultimately obtain d where d: "d \<in> set wanted" "last (grain_starts g wanted) = period_start d g"
    by (metis imageE last_in_set)
  have "valid_date (period_start d g + 6)"
    using assms(2) [OF d(1)] period_start_ge_1 [of d g] periods.start_le [of d g]
    by (simp add: valid_date_def min_ordinal_def)
  then show ?thesis using period_end_ok unfolding d(2) by blast
qed

lemma refresh_rollups_total:
  assumes "metrics_wf db" "rows = fst (prepare_rows host_ok site source obs run_id now)"
    and "\<And>o'. o' \<in> set obs \<Longrightarrow> 1 \<le> ob_day o' \<and> ob_day o' + 6 \<le> max_ordinal"
    and "db1 = db\<lparr>metric_points := stored_points site source rows (metric_points db)\<rparr>"
  shows "\<exists>db2 n. refresh_rollups site source (touched_days rows) now db1 = Inr (db2, n) \<and>
    metric_points db2 = metric_points db1"
proof (cases "rows = []")
  case True
  then show ?thesis by (simp add: refresh_rollups_def touched_days_def)
next
  case False
  have ne: "touched_days rows \<noteq> []" using False by (metis image_is_empty set_empty set_touched_days)
  have days: "1 \<le> d \<and> d + 6 \<le> max_ordinal" if "d \<in> set (touched_days rows)" for d
    using that prepared_day [of _ host_ok site source obs run_id now] assms(3) by (fastforce simp: assms(2))
  have "distinct (map mp_key (stored_points site source rows (metric_points db)))"
    using assms(1) distinct_prepared prepared_site unfolding assms(2) metrics_wf_def by (intro stored_points_keys) blast+
  then have wf1: "metrics_wf db1" using assms(1) by (simp add: assms(4) metrics_wf_def uniq_by_def)
  obtain x where x: "period_end (last (grain_starts Week (touched_days rows))) Week = Inr x"
    using grain_last_ok [OF ne days] by blast
  obtain y where y: "period_end (last (grain_starts Month (touched_days rows))) Month = Inr y"
    using grain_last_ok [OF ne days] by blast
  define db2 where "db2 = db1\<lparr>metric_rollups := refreshed site source Week (touched_days rows) now db1\<rparr>"
  have wf2: "metrics_wf db2" using metrics_wf_refreshed [OF wf1] by (simp add: db2_def)
  define db3 where "db3 = db2\<lparr>metric_rollups := refreshed site source Month (touched_days rows) now db2\<rparr>"
  obtain k where "refresh_grain site source (touched_days rows) now Week (db1, 0) = Inr (db2, k)"
    using x refresh_grain_Inr [OF wf1 ne, of site source now Week 0] unfolding db2_def [symmetric] by auto
  moreover obtain n where "refresh_grain site source (touched_days rows) now Month (db2, k) = Inr (db3, n)"
    using y refresh_grain_Inr [OF wf2 ne, of site source now Month k] unfolding db3_def [symmetric] by auto
  ultimately have "refresh_rollups site source (touched_days rows) now db1 = Inr (db3, n)"
    by (simp add: refresh_rollups_def ne)
  moreover have "metric_points db3 = metric_points db1" by (simp add: db3_def db2_def)
  ultimately show ?thesis by blast
qed


section \<open>The strongest values of a dimension\<close>

lemma filter_concat_groups:
  assumes "distinct (map fst d)" "\<And>e x. e \<in> set d \<Longrightarrow> x \<in> set (g e) \<Longrightarrow> gk x = fst e"
  shows "filter (\<lambda>x. gk x = k) (concat (map g d)) = (case map_of d k of None \<Rightarrow> [] | Some v \<Rightarrow> g (k, v))"
  using assms
proof (induction d)
  case Nil
  show ?case by simp
next
  case (Cons e d)
  have IH: "filter (\<lambda>x. gk x = k) (concat (map g d)) = (case map_of d k of None \<Rightarrow> [] | Some v \<Rightarrow> g (k, v))"
  proof (rule Cons.IH)
    show "distinct (map fst d)" using Cons.prems(1) by simp
    show "gk x = fst e'" if "e' \<in> set d" "x \<in> set (g e')" for e' x using Cons.prems(2) [of e' x] that by simp
  qed
  show ?case
  proof (cases "fst e = k")
    case True
    then have "k \<notin> fst ` set d" using Cons.prems(1) by auto
    then have "map_of d k = None" by (simp add: map_of_eq_None_iff)
    moreover have "filter (\<lambda>x. gk x = k) (g e) = g e" using Cons.prems(2) [of e] True by (simp add: filter_id_conv)
    moreover have "e = (k, snd e)" using True by auto
    ultimately show ?thesis using IH by (cases e) simp
  next
    case False
    then have "filter (\<lambda>x. gk x = k) (g e) = []" using Cons.prems(2) [of e] by (auto simp: filter_empty_conv)
    with IH False show ?thesis by (cases e) simp
  qed
qed

lemma kept_group:
  assumes "\<And>x. x \<in> set rows \<Longrightarrow> metric_def_of source (mp_metric (snd x)) = Some (fst x)"
    and "metric_def_of source (fst k) = Some defn"
  shows "filter (\<lambda>p. point_group p = k) (kept_rows rows) =
    take (md_top_n defn) (sort_key point_rank (map snd (filter (\<lambda>x. group_key x = k) rows)))"
proof -
  define g where "g = (\<lambda>e :: (string \<times> string \<times> date) \<times> metric_def \<times> metric_point list.
    take (md_top_n (fst (snd e))) (sort_key point_rank (snd (snd e))))"
  define d where "d = dict_of group_key group_step rows"
  have kept: "kept_rows rows = concat (map g d)"
    unfolding kept_rows_def ranked_groups_def d_def g_def map_map by (rule arg_cong [where f = concat]) (auto split: prod.splits)
  have lookup: "map_of d k' = (case filter (\<lambda>x. group_key x = k') rows of [] \<Rightarrow> None
      | x # xs \<Rightarrow> Some (fst x, map snd (x # xs)))" for k'
    by (simp add: d_def map_of_dict_of fold_group_step split: list.splits)
  have gk: "point_group p = fst e" if "e \<in> set d" "p \<in> set (g e)" for e p
  proof -
    have "map_of d (fst e) = Some (snd e)" using that(1) by (simp add: d_def)
    then have "snd (snd e) = map snd (filter (\<lambda>x. group_key x = fst e) rows)"
      using lookup [of "fst e"] by (cases "filter (\<lambda>x. group_key x = fst e) rows") (auto dest!: sym [where s = "(_, _)"])
    moreover have "p \<in> set (snd (snd e))" using that(2) by (auto simp: g_def dest: in_set_takeD)
    ultimately have "p \<in> set (map snd (filter (\<lambda>x. group_key x = fst e) rows))" by simp
    then show ?thesis by (auto simp: point_group_def group_key_def)
  qed
  have f: "filter (\<lambda>p. point_group p = k) (kept_rows rows) = (case map_of d k of None \<Rightarrow> [] | Some v \<Rightarrow> g (k, v))"
    unfolding kept by (rule filter_concat_groups [OF _ gk]) (simp_all add: d_def)
  show ?thesis
  proof (cases "filter (\<lambda>x. group_key x = k) rows")
    case Nil
    then show ?thesis by (simp add: f lookup)
  next
    case (Cons x xs)
    then have "x \<in> set (filter (\<lambda>x. group_key x = k) rows)" by simp
    then have "x \<in> set rows" "group_key x = k" by simp_all
    then have "fst x = defn" using assms(1) [of x] assms(2) by (auto simp: group_key_def)
    then show ?thesis using Cons by (simp add: f lookup g_def)
  qed
qed

lemma take_sort_key_best:
  assumes "x \<in> set xs" "x \<notin> set (take n (sort_key f xs))" "y \<in> set (take n (sort_key f xs))"
  shows "f y \<le> f x"
proof -
  define s where "s = sort_key f xs"
  have "x \<in> set s" using assms(1) by (simp add: s_def)
  then have "x \<in> set (drop n s)" using assms(2) by (metis Un_iff append_take_drop_id s_def set_append)
  moreover have "sorted (map f (take n s @ drop n s))" by (simp add: s_def)
  ultimately show ?thesis using assms(3) by (simp add: sorted_append s_def [symmetric] del: append_take_drop_id)
qed

lemma candidate_defn:
  "x \<in> set (candidate_rows host_ok site source obs run_id now) \<Longrightarrow> metric_def_of source (mp_metric (snd x)) = Some (fst x)"
  by (erule candidate_source) (use acceptD in fastforce)

text \<open>
  Each dimension keeps at most the top values of its metric and day, and they are the strongest: no value that
  was left out exceeds one that was kept.
\<close>

lemma strongest_values_kept:
  assumes "metric_def_of source m = Some defn"
    and "rows = fst (prepare_rows host_ok site source obs run_id now)"
    and "kept = filter (\<lambda>p. mp_dims p \<noteq> [] \<and> point_group p = (m, name, d)) rows"
  shows "length kept \<le> md_top_n defn \<and>
    (\<forall>p \<in> set kept. \<forall>x \<in> set (candidate_rows host_ok site source obs run_id now).
       mp_dims (snd x) \<noteq> [] \<and> point_group (snd x) = (m, name, d) \<and> snd x \<notin> set rows \<longrightarrow> mp_value (snd x) \<le> mp_value p)"
proof -
  define R where "R = candidate_rows host_ok site source obs run_id now"
  define dimmed where "dimmed = filter (\<lambda>(_, row). mp_dims row \<noteq> []) R"
  define totals where "totals = map snd (filter (\<lambda>(_, row). mp_dims row = []) R)"
  define key where "key = (\<lambda>r :: metric_point. (code_points (mp_metric r), mp_day r, code_points (mp_dim_key r)))"
  define members where "members = map snd (filter (\<lambda>x. group_key x = (m, name, d)) dimmed)"
  have rows: "rows = sort_key key (totals @ kept_rows dimmed)"
    by (simp add: assms(2) fst_rows_prepare R_def [symmetric] totals_def dimmed_def key_def)
  have kept_dims: "mp_dims p \<noteq> []" if "p \<in> set (kept_rows dimmed)" for p
  proof -
    have "p \<in> snd ` set dimmed" using that set_kept_rows by blast
    then show ?thesis by (auto simp: dimmed_def)
  qed
  have group: "filter (\<lambda>p. point_group p = (m, name, d)) (kept_rows dimmed) = take (md_top_n defn) (sort_key point_rank members)"
    unfolding members_def
    by (rule kept_group [where source = source]) (use candidate_defn in \<open>fastforce simp: dimmed_def R_def\<close>, simp add: assms(1))
  have "mset kept = mset (filter (\<lambda>p. mp_dims p \<noteq> [] \<and> point_group p = (m, name, d)) (totals @ kept_rows dimmed))"
    by (simp only: assms(3) rows mset_filter mset_sort)
  also have "filter (\<lambda>p. mp_dims p \<noteq> [] \<and> point_group p = (m, name, d)) (totals @ kept_rows dimmed) =
      filter (\<lambda>p. point_group p = (m, name, d)) (kept_rows dimmed)"
    using kept_dims by (auto simp: totals_def filter_empty_conv intro!: filter_cong)
  finally have perm: "mset kept = mset (take (md_top_n defn) (sort_key point_rank members))" by (simp only: group)
  then have len: "length kept \<le> md_top_n defn" and set: "set kept = set (take (md_top_n defn) (sort_key point_rank members))"
    by (metis length_take min.cobounded2 size_mset, metis set_mset_mset)
  have "mp_value (snd x) \<le> mp_value p"
    if p: "p \<in> set kept" and x: "x \<in> set R" "mp_dims (snd x) \<noteq> []" "point_group (snd x) = (m, name, d)" "snd x \<notin> set rows" for p x
  proof -
    have "x \<in> set dimmed" using x(1,2) by (auto simp: dimmed_def)
    with x(3) have mem: "snd x \<in> set members" by (auto simp: members_def group_key_def point_group_def)
    have "snd x \<notin> set (take (md_top_n defn) (sort_key point_rank members))"
      using x(4) group by (metis UnCI filter_is_subset rows set_append set_sort subsetD)
    from take_sort_key_best [OF mem this] p set have "point_rank p \<le> point_rank (snd x)" by simp
    then show ?thesis by (auto simp: point_rank_def less_eq_prod_def)
  qed
  with len show ?thesis by (simp add: R_def)
qed

definition empty_metrics_db :: metrics_db where
  "empty_metrics_db = \<lparr>job_runs = [], schedules = [], websites = [], quota_events = [],
     metric_points = [], metric_rollups = []\<rparr>"

definition clicks :: "observation list" where
  "clicks = [\<lparr>ob_metric = ''clicks'', ob_day = 739000, ob_value = PyInt 12, ob_dims = []\<rparr>]"

lemma empty_metrics_wf: "metrics_wf empty_metrics_db"
  by (simp add: metrics_wf_def empty_metrics_db_def uniq_by_def)

lemma empty_metrics_exact: "rollups_exact empty_metrics_db"
  by (simp add: rollups_exact_def rollup_at_def rollup_view_def empty_metrics_db_def period_values_def find_row_def)

lemma clicks_day: "o' \<in> set clicks \<Longrightarrow> 1 \<le> ob_day o' \<and> ob_day o' + 6 \<le> max_ordinal"
  by (simp add: clicks_def max_ordinal_def)


lemma clicks_stored:
  obtains db' res where "store_observations (\<lambda>_. True) 7 ''gsc'' clicks None 0 empty_metrics_db = Inr (db', res)"
proof -
  define rows where "rows = fst (prepare_rows (\<lambda>_. True) 7 ''gsc'' clicks None 0)"
  show ?thesis
  proof (cases "rows = []")
    case True
    then show ?thesis
      by (cases "prepare_rows (\<lambda>_. True) 7 ''gsc'' clicks None 0") (simp add: rows_def that store_observations_def)
  next
    case False
    define db1 where "db1 = empty_metrics_db\<lparr>metric_points := stored_points 7 ''gsc'' rows (metric_points empty_metrics_db)\<rparr>"
    obtain db2 n where "refresh_rollups 7 ''gsc'' (touched_days rows) 0 db1 = Inr (db2, n)"
      using refresh_rollups_total [OF empty_metrics_wf rows_def clicks_day db1_def] by blast
    with that store_observations_eq [OF empty_metrics_wf rows_def [symmetric] False] show ?thesis by (simp add: db1_def)
  qed
qed


lemma store_again_witness:
  "\<exists>db' res. store_observations (\<lambda>_. True) 7 ''gsc'' clicks None 0 empty_metrics_db = Inr (db', res) \<and>
    store_observations (\<lambda>_. True) 7 ''gsc'' clicks None 0 db' = Inr (db', res)"
proof -
  obtain db' res where s: "store_observations (\<lambda>_. True) 7 ''gsc'' clicks None 0 empty_metrics_db = Inr (db', res)"
    by (rule clicks_stored)
  from store_again [OF empty_metrics_wf s] s show ?thesis by blast
qed

lemma strongest_values_kept_witness:
  "length (filter (\<lambda>p. mp_dims p \<noteq> [] \<and> point_group p = (''clicks'', ''page'', 739000))
     (fst (prepare_rows (\<lambda>_. True) 7 ''gsc'' clicks None 0))) \<le> 25"
proof -
  obtain defn where d: "metric_def_of ''gsc'' ''clicks'' = Some defn" "md_top_n defn = 25"
    by (simp add: metric_def_of_def METRICS_def find_row_def mk_metric_def TOP_N_def)
  from strongest_values_kept [OF d(1) refl refl, where host_ok = "\<lambda>_. True" and site = 7 and obs = clicks and run_id = None
    and now = 0 and name = "''page''" and d = 739000] d(2) show ?thesis by simp
qed

end
