(* ===== verification/Metric_Series.thy ===== *)
theory Metric_Series
  imports Metric_Store
begin

text \<open>
  \<open>app/services/metrics/series.py\<close>: the series a dashboard reads. Periods inside the window are read from the
  rollups, the cut ones are aggregated from the points. The lemmas show that the two readings agree: with
  exact rollups every point of a series is the aggregate of the stored points of its days.
\<close>

definition MAX_RANGE_DAYS :: int where "MAX_RANGE_DAYS = 800"
definition DEFAULT_RANGE_DAYS :: int where "DEFAULT_RANGE_DAYS = 28"
definition RETENTION_MONTHS :: int where "RETENTION_MONTHS = 25"

text \<open>\<open>add_months\<close> of \<open>partitions.py\<close>: the first day of the month \<open>n\<close> months later.\<close>

definition add_months :: "date \<Rightarrow> int \<Rightarrow> date result" where
  "add_months month n =
    (let index = year_of month * 12 + (month_of month - 1) + n
     in mk_date (index div 12) (index mod 12 + 1) 1)"

definition retention_floor :: "date \<Rightarrow> date result" where
  "retention_floor today = add_months (month_start today) (- RETENTION_MONTHS)"

record series_point =
  se_start :: date
  se_end :: date
  se_value :: "rat option"
  se_covered :: nat
  se_expected :: int

record series_view =
  sv_first :: date
  sv_last :: date
  sv_points :: "series_point list"
  sv_total :: "rat option"
  sv_covered :: nat
  sv_expected :: int

definition shift_year :: "date \<Rightarrow> date result" where
  "shift_year day =
    (case mk_date (year_of day - 1) (month_of day) (day_of day) of
       Inr d \<Rightarrow> Inr d
     | Inl e \<Rightarrow>
         if month_of day = 2 \<and> day_of day = 29 \<and> 1 < year_of day then mk_date (year_of day - 1) (month_of day) 28
         else Inl e)"

datatype comparison = C_none | C_previous_period | C_previous_year

definition comparison_range :: "date \<Rightarrow> date \<Rightarrow> comparison \<Rightarrow> (date \<times> date) option" where
  "comparison_range start end compare =
    (case compare of
       C_none \<Rightarrow> None
     | C_previous_period \<Rightarrow>
         (case (date_add start (- (end - start + 1)), date_add start (- 1)) of
            (Inr a, Inr b) \<Rightarrow> Some (a, b)
          | _ \<Rightarrow> None)
     | C_previous_year \<Rightarrow>
         (case (shift_year start, shift_year end) of (Inr a, Inr b) \<Rightarrow> Some (a, b) | _ \<Rightarrow> None))"

section \<open>Reading\<close>

definition load_daily :: "uuid \<Rightarrow> metric_def \<Rightarrow> date \<Rightarrow> date \<Rightarrow> 'a metrics_db_scheme \<Rightarrow> (string \<times> series) list" where
  "load_daily site defn start end db =
    (let names = md_name defn # siblings_needed defn;
         rows = filter (\<lambda>p. mp_website_id p = site \<and> mp_source p = md_source defn \<and> mp_metric p \<in> set names \<and>
           mp_dim_key p = [] \<and> start \<le> mp_day p \<and> mp_day p \<le> end) (metric_points db)
     in fold (\<lambda>p d. dict_update (mp_metric p) (set_entry mp_day mp_value p) d) rows
          (map (\<lambda>name. (name, [])) (remdups names)))"

definition load_rollups :: "uuid \<Rightarrow> metric_def \<Rightarrow> grain \<Rightarrow> date list \<Rightarrow> 'a metrics_db_scheme \<Rightarrow> (date \<times> rat \<times> nat) list" where
  "load_rollups site defn g starts db =
    dict_of mr_period_start (\<lambda>r _. (mr_value r, mr_days_covered r))
      (filter (\<lambda>r. mr_website_id r = site \<and> mr_source r = md_source defn \<and> mr_metric r = md_name defn \<and>
        mr_dim_key r = [] \<and> mr_grain r = g \<and> mr_period_start r \<in> set starts) (metric_rollups db))"

definition clip :: "series \<Rightarrow> date \<Rightarrow> date \<Rightarrow> series" where
  "clip xs low high = filter (\<lambda>(day, _). low \<le> day \<and> day \<le> high) xs"

definition day_point :: "series \<Rightarrow> date \<Rightarrow> series_point" where
  "day_point values day = \<lparr>se_start = day, se_end = day, se_value = map_of values day,
     se_covered = (if day \<in> fst ` set values then 1 else 0), se_expected = 1\<rparr>"

definition period_point :: "metric_def \<Rightarrow> series \<Rightarrow> (string \<times> series) list \<Rightarrow> (date \<times> rat \<times> nat) list \<Rightarrow>
    date \<Rightarrow> date \<Rightarrow> date \<Rightarrow> date \<Rightarrow> series_point" where
  "period_point defn values siblings stored start end period period_end_day =
    (let low = max period start; high = min period_end_day end;
         (v, covered) =
           (case map_of stored period of
              Some (v, covered) \<Rightarrow> (Some v, covered)
            | None \<Rightarrow>
                (let window = clip values low high
                 in (aggregate defn window (map (\<lambda>(name, xs). (name, clip xs low high)) siblings), length window)))
     in \<lparr>se_start = period, se_end = period_end_day, se_value = v, se_covered = covered, se_expected = high - low + 1\<rparr>)"

text \<open>A list comprehension over a function that may raise.\<close>

fun try_map :: "('a \<Rightarrow> 'b result) \<Rightarrow> 'a list \<Rightarrow> 'b list result" where
  "try_map f [] = Inr []"
| "try_map f (x # xs) = try_bind (f x) (\<lambda>y. try_bind (try_map f xs) (\<lambda>ys. Inr (y # ys)))"

definition build_series :: "uuid \<Rightarrow> metric_def \<Rightarrow> date \<Rightarrow> date \<Rightarrow> grain option \<Rightarrow> 'a metrics_db_scheme \<Rightarrow> series_view result" where
  "build_series site defn start end granularity db =
    (let daily = load_daily site defn start end db;
         values = get_default [] daily (md_name defn);
         siblings = map (\<lambda>name. (name, get_default [] daily name)) (siblings_needed defn);
         total = aggregate defn values siblings;
         view = (\<lambda>points. \<lparr>sv_first = start, sv_last = end, sv_points = points, sv_total = total,
           sv_covered = length values, sv_expected = end - start + 1\<rparr>)
     in case granularity of
          None \<Rightarrow> try_bind (mk_day_range start end) (\<lambda>r. Inr (view (map (day_point values) (dr_days r))))
        | Some g \<Rightarrow>
            try_bind (periods_between start end g) (\<lambda>starts.
            try_bind (try_map (\<lambda>s. try_bind (period_end s g) (\<lambda>l. Inr (s, l))) starts) (\<lambda>spans.
              (let full = map fst (filter (\<lambda>(s, l). start \<le> s \<and> l \<le> end) spans);
                   stored = load_rollups site defn g full db
               in Inr (view (map (\<lambda>(s, l). period_point defn values siblings stored start end s l) spans))))))"

text \<open>\<open>max(collected_at)\<close> and \<open>max(day)\<close>; both are null without rows.\<close>

definition freshness :: "uuid \<Rightarrow> string \<Rightarrow> 'a metrics_db_scheme \<Rightarrow> datetime option \<times> date option" where
  "freshness site source db =
    (case source_points site source db of
       [] \<Rightarrow> (None, None)
     | p # ps \<Rightarrow> (Some (fold max (map mp_collected_at ps) (mp_collected_at p)), Some (fold max (map mp_day ps) (mp_day p))))"

section \<open>The two readings agree\<close>

lemma map_of_fold_dict_update:
  "map_of (fold (\<lambda>r d. dict_update (key r) (f r) d) rows d0) k =
    fold (\<lambda>r v. Some (f r v)) (filter (\<lambda>r. key r = k) rows) (map_of d0 k)"
  by (induction rows rule: rev_induct) auto

lemma fold_set_entry_Some:
  "distinct (map sub rows) \<Longrightarrow>
    fold (\<lambda>r v. Some (set_entry sub val r v)) rows (Some []) = Some (map (\<lambda>r. (sub r, val r)) rows)"
proof (induction rows rule: rev_induct)
  case (snoc r rows)
  then have "sub r \<notin> sub ` set rows" "distinct (map sub rows)" by auto
  then have "dict_set (sub r) (val r) (map (\<lambda>r. (sub r, val r)) rows) = map (\<lambda>r. (sub r, val r)) (rows @ [r])"
    by (subst dict_set_fresh) (auto simp: image_image)
  with snoc \<open>distinct (map sub rows)\<close> show ?case by (auto simp: set_entry_def dict_set_def)
qed simp

definition total_points :: "uuid \<Rightarrow> string \<Rightarrow> string \<Rightarrow> date \<Rightarrow> date \<Rightarrow> metric_point list \<Rightarrow> series" where
  "total_points site source name low high tbl = map (\<lambda>p. (mp_day p, mp_value p))
     (filter (\<lambda>p. mp_website_id p = site \<and> mp_source p = source \<and> mp_metric p = name \<and> mp_dim_key p = [] \<and>
       low \<le> mp_day p \<and> mp_day p \<le> high) tbl)"

lemma load_daily_entry:
  assumes "uniq_by mp_key (metric_points db)" "name \<in> set (md_name defn # siblings_needed defn)"
  shows "get_default [] (load_daily site defn start end db) name =
    total_points site (md_source defn) name start end (metric_points db)"
proof -
  define names where "names = md_name defn # siblings_needed defn"
  define rows where "rows = filter (\<lambda>p. mp_website_id p = site \<and> mp_source p = md_source defn \<and> mp_metric p \<in> set names \<and>
      mp_dim_key p = [] \<and> start \<le> mp_day p \<and> mp_day p \<le> end) (metric_points db)"
  define xs where "xs = filter (\<lambda>p. mp_metric p = name) rows"
  have "distinct (map mp_key xs)"
    using assms(1) unfolding xs_def rows_def uniq_by_def by (intro distinct_map_filter)
  moreover have "mp_key p = mp_key q" if "p \<in> set xs" "q \<in> set xs" "mp_day p = mp_day q" for p q
    using that by (auto simp: xs_def rows_def mp_key_def)
  ultimately have days: "distinct (map mp_day xs)" unfolding distinct_map inj_on_def by blast
  have "map_of (map (\<lambda>name. (name, [] :: series)) (remdups names)) name = Some []"
    using assms(2) by (auto simp: map_of_map_restrict names_def restrict_map_def)
  then have "map_of (load_daily site defn start end db) name = Some (map (\<lambda>p. (mp_day p, mp_value p)) xs)"
    using fold_set_entry_Some [OF days, of mp_value]
    by (simp add: load_daily_def Let_def names_def [symmetric] rows_def [symmetric] map_of_fold_dict_update xs_def [symmetric])
  moreover have "xs = filter (\<lambda>p. mp_website_id p = site \<and> mp_source p = md_source defn \<and> mp_metric p = name \<and>
      mp_dim_key p = [] \<and> start \<le> mp_day p \<and> mp_day p \<le> end) (metric_points db)"
    using assms(2) unfolding xs_def rows_def filter_filter names_def by (intro filter_cong) auto
  ultimately show ?thesis by (simp add: get_default_def total_points_def)
qed

lemma clip_total_points:
  assumes "start \<le> low" "high \<le> end"
  shows "clip (total_points site source name start end tbl) low high = total_points site source name low high tbl"
proof -
  have "filter (\<lambda>p. low \<le> mp_day p \<and> mp_day p \<le> high) (filter (\<lambda>p. mp_website_id p = site \<and> mp_source p = source \<and>
      mp_metric p = name \<and> mp_dim_key p = [] \<and> start \<le> mp_day p \<and> mp_day p \<le> end) tbl) =
    filter (\<lambda>p. mp_website_id p = site \<and> mp_source p = source \<and> mp_metric p = name \<and> mp_dim_key p = [] \<and>
      low \<le> mp_day p \<and> mp_day p \<le> high) tbl"
    using assms unfolding filter_filter by (intro filter_cong) auto
  then show ?thesis by (simp add: clip_def total_points_def filter_map comp_def case_prod_unfold)
qed

lemma period_values_total:
  "period_values site source g tbl (name, [], period_start d g) =
    total_points site source name (period_start d g) (period_last g (period_start d g)) tbl"
  unfolding period_values_def total_points_def
  by (intro arg_cong [where f = "map _"] filter_cong) (auto simp: series_key_def periods.period_iff)

lemma find_row_filter: "find_row P rows = (case filter P rows of [] \<Rightarrow> None | r # _ \<Rightarrow> Some r)"
  by (induction rows) (simp_all add: find_row_def)

lemma load_rollups_entry:
  assumes "metrics_wf db" "s \<in> set starts"
  shows "map_of (load_rollups site defn g starts db) s =
    map_option (\<lambda>r. (mr_value r, mr_days_covered r)) (rollup_at db (site, md_source defn, md_name defn, [], g, s))"
proof -
  define rows where "rows = filter (\<lambda>r. mr_website_id r = site \<and> mr_source r = md_source defn \<and> mr_metric r = md_name defn \<and>
      mr_dim_key r = [] \<and> mr_grain r = g \<and> mr_period_start r \<in> set starts) (metric_rollups db)"
  define K where "K = (site, md_source defn, md_name defn, [] :: char list, g, s)"
  have f: "filter (\<lambda>r. mr_period_start r = s) rows = filter (\<lambda>r. mr_key r = K) (metric_rollups db)"
    using assms(2) unfolding rows_def filter_filter by (intro filter_cong) (auto simp: mr_key_def K_def)
  have "distinct (map mr_key (filter (\<lambda>r. mr_key r = K) (metric_rollups db)))"
    using assms(1) unfolding metrics_wf_def uniq_by_def by (intro distinct_map_filter) simp
  then have "filter (\<lambda>r. mr_key r = K) (metric_rollups db) = [] \<or>
      (\<exists>r. filter (\<lambda>r. mr_key r = K) (metric_rollups db) = [r])"
  proof (cases "filter (\<lambda>r. mr_key r = K) (metric_rollups db)" rule: remdups_adj.cases)
    case (3 a b xs)
    then have "a \<in> set (filter (\<lambda>r. mr_key r = K) (metric_rollups db))" "b \<in> set (filter (\<lambda>r. mr_key r = K) (metric_rollups db))"
      by simp_all
    then have "mr_key a = mr_key b" by simp
    with \<open>distinct _\<close> 3 show ?thesis by simp
  qed auto
  moreover have "map_of (load_rollups site defn g starts db) s =
      fold (\<lambda>r v. Some (mr_value r, mr_days_covered r)) (filter (\<lambda>r. mr_key r = K) (metric_rollups db)) None"
    by (simp add: load_rollups_def rows_def [symmetric] map_of_dict_of f)
  moreover have "rollup_at db K = (case filter (\<lambda>r. mr_key r = K) (metric_rollups db) of [] \<Rightarrow> None | r # _ \<Rightarrow> Some r)"
    by (simp add: rollup_at_def find_row_filter)
  ultimately show ?thesis by (auto simp: K_def)
qed

lemma aggregate_clipped:
  assumes "uniq_by mp_key (metric_points db)" "start \<le> low" "high \<le> end"
  shows "aggregate defn (clip (get_default [] (load_daily site defn start end db) (md_name defn)) low high)
      (map (\<lambda>(name, xs). (name, clip xs low high))
        (map (\<lambda>name. (name, get_default [] (load_daily site defn start end db) name)) (siblings_needed defn))) =
    aggregate defn (total_points site (md_source defn) (md_name defn) low high (metric_points db))
      (map (\<lambda>name. (name, total_points site (md_source defn) name low high (metric_points db))) (siblings_needed defn))"
  using load_daily_entry [OF assms(1), of _ defn site start "end"] clip_total_points [OF assms(2,3)]
  by (simp add: comp_def cong: map_cong)

lemma period_point_exact:
  assumes "metrics_wf db" "rollups_exact db" "metric_def_of (md_source defn) (md_name defn) = Some defn"
    and "s = period_start d g" "l = period_last g s" "start \<le> s" "l \<le> end" "s \<in> set full"
    and "values = get_default [] (load_daily site defn start end db) (md_name defn)"
    and "siblings = map (\<lambda>name. (name, get_default [] (load_daily site defn start end db) name)) (siblings_needed defn)"
  shows "period_point defn values siblings (load_rollups site defn g full db) start end s l =
    period_point defn values siblings [] start end s l"
proof -
  have uniq: "uniq_by mp_key (metric_points db)" using assms(1) by (simp add: metrics_wf_def)
  define tbl where "tbl = metric_points db"
  define xs where "xs = total_points site (md_source defn) (md_name defn) s l tbl"
  define sibs where "sibs = map (\<lambda>name. (name, total_points site (md_source defn) name s l tbl)) (siblings_needed defn)"
  have low: "max s start = s" "min l end = l" using assms(6,7) by simp_all
  have win: "clip values s l = xs"
    using load_daily_entry [OF uniq, of "md_name defn" defn site start "end"] clip_total_points [OF assms(6,7)]
    by (simp add: assms(9) xs_def tbl_def)
  have "aggregate defn (clip values s l) (map (\<lambda>(name, xs). (name, clip xs s l)) siblings) = aggregate defn xs sibs"
    unfolding assms(9,10) xs_def sibs_def tbl_def by (rule aggregate_clipped [OF uniq assms(6,7)])
  then have direct: "aggregate defn xs (map (\<lambda>(name, xs). (name, clip xs s l)) siblings) = aggregate defn xs sibs"
    by (simp only: win)
  have pv: "period_values site source g tbl (name, [], s) = total_points site source name s l tbl" for source name
    using period_values_total [of site source g tbl name d] by (simp add: assms(4,5))
  have view: "rollup_view site (md_source defn) g tbl (md_name defn, [], s) =
      (if xs = [] then None else map_option (\<lambda>v. (v, length xs)) (aggregate defn xs sibs))"
    unfolding rollup_view_def prod.case pv by (simp add: assms(3) xs_def sibs_def Let_def)
  have "map_of (load_rollups site defn g full db) s = rollup_view site (md_source defn) g tbl (md_name defn, [], s)"
    unfolding load_rollups_entry [OF assms(1,8)] using assms(2) by (simp add: rollups_exact_def tbl_def)
  with view have stored: "map_of (load_rollups site defn g full db) s =
      (if xs = [] then None else map_option (\<lambda>v. (v, length xs)) (aggregate defn xs sibs))" by simp
  show ?thesis
    unfolding period_point_def low Let_def direct win stored
    by (cases "aggregate defn xs sibs"; cases "xs = []") simp_all
qed

lemma try_map_cong: "(\<And>x. x \<in> set xs \<Longrightarrow> f x = g x) \<Longrightarrow> try_map f xs = try_map g xs"
  by (induction xs) simp_all

lemma try_map_Inr: "try_map f xs = Inr ys \<Longrightarrow> list_all2 (\<lambda>x y. f x = Inr y) xs ys"
  by (induction xs arbitrary: ys) auto



section \<open>Comparison windows\<close>

lemma shift_yearD:
  assumes "shift_year day = Inr d" "1 \<le> day"
  shows "year_of d = year_of day - 1 \<and> month_of d = month_of day \<and>
    (day_of d = day_of day \<or> month_of day = 2 \<and> day_of day = 29 \<and> day_of d = 28)"
proof -
  have m: "1 \<le> month_of day" "month_of day \<le> 12" using month_of_bounds [of day] by simp_all
  have ok: "mk_date (year_of day - 1) (month_of day) n = Inr d \<Longrightarrow>
      year_of d = year_of day - 1 \<and> month_of d = month_of day \<and> day_of d = n" for n
    using ymd_ord_ymd [OF m, of n "year_of day - 1"] by (auto simp: mk_date_def split: if_splits)
  show ?thesis
  proof (cases "mk_date (year_of day - 1) (month_of day) (day_of day)")
    case (Inr x)
    with assms(1) ok [of "day_of day"] show ?thesis by (simp add: shift_year_def)
  next
    case (Inl e)
    then have "month_of day = 2 \<and> day_of day = 29 \<and> mk_date (year_of day - 1) (month_of day) 28 = Inr d"
      using assms(1) by (auto simp: shift_year_def split: if_splits)
    with ok [of 28] show ?thesis by auto
  qed
qed

text \<open>
  The comparison window is the period just before, of the same length, or the same days one year earlier
  (February 29 becomes February 28); outside the calendar there is none and nothing is raised.
\<close>

lemma comparison_range_exact:
  assumes "1 \<le> start" "1 \<le> end" "comparison_range start end compare = Some (a, b)"
  shows "(compare = C_previous_period \<longrightarrow> b + 1 = start \<and> b - a = end - start) \<and>
    (compare = C_previous_year \<longrightarrow>
      (year_of a, month_of a) = (year_of start - 1, month_of start) \<and> day_of a = min (day_of start) (if month_of a = 2 \<and> \<not> is_leap (year_of a) then 28 else day_of start) \<and>
      (year_of b, month_of b) = (year_of end - 1, month_of end) \<and> day_of b = min (day_of end) (if month_of b = 2 \<and> \<not> is_leap (year_of b) then 28 else day_of end)) \<and>
    compare \<noteq> C_none"
proof -
  have february: "days_in_month y 2 = (if is_leap y then 29 else 28)" for y
    by (simp add: days_in_month_def days_before_month_def)
  have day: "day_of d = min (day_of x) (if month_of d = 2 \<and> \<not> is_leap (year_of d) then 28 else day_of x)"
    if "shift_year x = Inr d" "1 \<le> x" for x d
  proof -
    note d = shift_yearD [OF that]
    have le: "day_of d \<le> days_in_month (year_of d) (month_of d)" using day_of_range [of d] by simp
    have feb: "days_in_month (year_of d) 2 = (if is_leap (year_of d) then 29 else 28)" by (rule february)
    have x: "day_of x \<le> days_in_month (year_of x) (month_of x)" "days_in_month (year_of x) 2 \<le> 29"
      using day_of_range [of x] by (simp_all add: february)
    show ?thesis
    proof (cases "day_of d = day_of x")
      case True
      with le feb show ?thesis by (auto simp: min_def)
    next
      case False
      then have e: "month_of x = 2" "day_of x = 29" "day_of d = 28" using d by auto
      have "mk_date (year_of x - 1) 2 29 \<noteq> Inr d"
        using e ymd_ord_ymd [where m = 2 and d = 29 and y = "year_of x - 1"] by (auto simp: mk_date_def split: if_splits)
      then have "\<not> is_leap (year_of d)"
        using that(1) e d by (auto simp: shift_year_def mk_date_def february split: if_splits)
      with e d show ?thesis by simp
    qed
  qed
  show ?thesis
  proof (cases compare)
    case C_none
    with assms(3) show ?thesis by (simp add: comparison_range_def)
  next
    case C_previous_period
    with assms(3) show ?thesis by (auto simp: comparison_range_def date_add_def split: if_splits)
  next
    case C_previous_year
    with assms(3) have "shift_year start = Inr a" "shift_year end = Inr b"
      by (auto simp: comparison_range_def split: sum.splits)
    with C_previous_year day shift_yearD assms(1,2) show ?thesis by auto
  qed
qed

lemma comparison_range_exact_witness:
  "comparison_range 739000 739010 C_previous_period = Some (738989, 738999) \<and> (738999::date) + 1 = 739000"
proof -
  have e: "comparison_range 739000 739010 C_previous_period = Some (738989, 738999)"
    by (simp add: comparison_range_def date_add_def valid_date_def min_ordinal_def max_ordinal_def)
  from comparison_range_exact [OF _ _ e] show ?thesis using e by simp
qed

end
