(* ===== verification/Metric_Partitions.thy ===== *)
theory Metric_Partitions
  imports Metric_Series
begin

text \<open>
  \<open>app/services/metrics/partitions.py\<close>: the monthly partitions of \<open>metric_points\<close>. The catalogue lists the
  partitions with the text of their bound; a row is stored in the partition whose bound covers its day, in the
  default partition when none does. What a bound expression covers is PostgreSQL's: the parameter
  \<open>covers\<close>, with the hypothesis \<open>covers_ranges\<close> for the bounds this module writes. Creating a partition moves the rows
  of its month out of the default one, so the table keeps its rows; dropping one deletes the rows it
  holds. Locks and the lock time-out are not modelled.
\<close>

definition DEFAULT_PARTITION :: string where "DEFAULT_PARTITION = ''metric_points_default''"

datatype partition_kind = PK_default | PK_range | PK_unknown

record partition =
  pa_name :: string
  pa_start :: "date option"
  pa_end :: "date option"
  pa_kind :: partition_kind

record purge_result =
  pr_dropped :: "string list"
  pr_deleted_default_rows :: nat
  pr_unexpected :: "string list"

text \<open>The catalogue: name and bound of each partition, as \<open>pg_class\<close> and \<open>pg_get_expr\<close> give them.\<close>

record storage_db = metrics_db +
  catalogue :: "(string \<times> string) list"

definition partition_name :: "date \<Rightarrow> string" where
  "partition_name month = ''metric_points_p'' @ dec 4 (year_of month) @ ''_'' @ dec 2 (month_of month)"

text \<open>\<open>re.match\<close> with a dollar sign also accepts one trailing line feed.\<close>

definition NAME :: re where
  "NAME = Cat (lit ''metric_points_p'') (Cat (times 4 (Class is_digit)) (Cat (lit ''_'') (times 2 (Class is_digit))))"

definition name_matches :: "string \<Rightarrow> bool" where
  "name_matches name = list_ex (\<lambda>rest. rest = [] \<or> rest = [CHR 0x0A]) (ends NAME name)"

definition checked :: "string \<Rightarrow> string result" where
  "checked name = (if \<not> name_matches name then Inl ValueError else Inr name)"

section \<open>Bounds\<close>

definition digits_value :: "string \<Rightarrow> int" where
  "digits_value s = fold (\<lambda>c n. 10 * n + int (of_char c - 48)) s 0"

text \<open>\<open>\d{4}-\d{2}-\d{2}\<close>, and \<open>date.fromisoformat\<close> of such a text.\<close>

definition iso_shape :: "string \<Rightarrow> bool" where
  "iso_shape s = (length s = 10 \<and> s ! 4 = CHR ''-'' \<and> s ! 7 = CHR ''-'' \<and>
     list_all is_digit (take 4 s @ take 2 (drop 5 s) @ drop 8 s))"

definition from_iso :: "string \<Rightarrow> date result" where
  "from_iso s = mk_date (digits_value (take 4 s)) (digits_value (take 2 (drop 5 s))) (digits_value (drop 8 s))"

definition bounds_head :: string where "bounds_head = ''FOR VALUES FROM ('' @ [CHR 0x27]"
definition bounds_middle :: string where "bounds_middle = [CHR 0x27] @ '') TO ('' @ [CHR 0x27]"
definition bounds_tail :: string where "bounds_tail = [CHR 0x27] @ '')''"

text \<open>\<open>_BOUNDS.fullmatch\<close>: the two groups, at fixed places.\<close>

definition bounds_match :: "string \<Rightarrow> (string \<times> string) option" where
  "bounds_match s =
    (let a = take 10 (drop 18 s); b = take 10 (drop 36 s)
     in if s = bounds_head @ a @ bounds_middle @ b @ bounds_tail \<and> iso_shape a \<and> iso_shape b then Some (a, b) else None)"

definition range_text :: "date \<Rightarrow> date \<Rightarrow> string" where
  "range_text start end = bounds_head @ iso_date start @ bounds_middle @ iso_date end @ bounds_tail"

section \<open>The catalogue read\<close>

definition partition_of :: "string \<times> string \<Rightarrow> partition result" where
  "partition_of = (\<lambda>(name, bound).
    (let expression = strip bound
     in if expression = ''DEFAULT'' then Inr \<lparr>pa_name = name, pa_start = None, pa_end = None, pa_kind = PK_default\<rparr>
        else (case bounds_match expression of
            None \<Rightarrow> Inr \<lparr>pa_name = name, pa_start = None, pa_end = None, pa_kind = PK_unknown\<rparr>
          | Some (a, b) \<Rightarrow>
              try_bind (from_iso a) (\<lambda>start. try_bind (from_iso b) (\<lambda>end.
                Inr \<lparr>pa_name = name, pa_start = Some start, pa_end = Some end, pa_kind = PK_range\<rparr>)))))"

definition list_partitions :: "'a storage_db_scheme \<Rightarrow> partition list result" where
  "list_partitions db = try_map partition_of (sort_key (\<lambda>(name, _). code_points name) (catalogue db))"

section \<open>Creation\<close>

type_synonym coverage = "string \<Rightarrow> date \<Rightarrow> bool"

definition in_default :: "coverage \<Rightarrow> 'a storage_db_scheme \<Rightarrow> date \<Rightarrow> bool" where
  "in_default covers db day = list_all (\<lambda>(_, bound). strip bound = ''DEFAULT'' \<or> \<not> covers bound day) (catalogue db)"

text \<open>
  \<open>CREATE TABLE\<close> fails on a name in use, \<open>ATTACH PARTITION\<close> on a range that meets another partition. The rows of
  the month are moved from the default partition before.
\<close>

definition create_partition :: "coverage \<Rightarrow> date \<Rightarrow> 'a storage_db_scheme \<Rightarrow> ('a storage_db_scheme \<times> string) result" where
  "create_partition covers start db =
    try_bind (add_months start 1) (\<lambda>end.
    try_bind (checked (partition_name start)) (\<lambda>name.
      if name \<in> fst ` set (catalogue db) then Inl IntegrityError
      else if list_ex (\<lambda>day. \<not> in_default covers db day) [start..end - 1] then Inl IntegrityError
      else Inr (db\<lparr>catalogue := catalogue db @ [(name, range_text start end)]\<rparr>, name)))"

text \<open>The loop over the offsets, with the starts that existed when the loop began.\<close>

fun ensure_loop :: "coverage \<Rightarrow> date \<Rightarrow> date option set \<Rightarrow> int list \<Rightarrow> 'a storage_db_scheme \<times> string list \<Rightarrow>
    ('a storage_db_scheme \<times> string list) result" where
  "ensure_loop covers current existing [] st = Inr st"
| "ensure_loop covers current existing (offset # offsets) (db, created) =
    try_bind (add_months current offset) (\<lambda>start.
      if Some start \<in> existing then ensure_loop covers current existing offsets (db, created)
      else try_bind (create_partition covers start db) (\<lambda>(db', name).
        ensure_loop covers current existing offsets (db', created @ [name])))"

definition ensure_partitions :: "coverage \<Rightarrow> date \<Rightarrow> int \<Rightarrow> int \<Rightarrow> 'a storage_db_scheme \<Rightarrow> ('a storage_db_scheme \<times> string list) result" where
  "ensure_partitions covers today months_back months_ahead db =
    (if months_back < 0 \<or> months_ahead < 0 then Inl ValueError
     else try_bind (list_partitions db) (\<lambda>parts.
       (let existing = pa_start ` set (filter (\<lambda>p. pa_kind p = PK_range) parts)
        in ensure_loop covers (month_start today) existing [- months_back..months_ahead] (db, []))))"

section \<open>Purge\<close>

text \<open>\<open>DETACH\<close> and \<open>DROP\<close>: the partition leaves the catalogue with the rows it covers.\<close>

definition drop_partition :: "coverage \<Rightarrow> string \<Rightarrow> 'a storage_db_scheme \<Rightarrow> 'a storage_db_scheme" where
  "drop_partition covers name db =
    db\<lparr>metric_points := delete_rows (\<lambda>p. list_ex (\<lambda>(n, bound). n = name \<and> covers bound (mp_day p)) (catalogue db)) (metric_points db),
       catalogue := filter (\<lambda>(n, _). n \<noteq> name) (catalogue db)\<rparr>"

fun purge_step :: "coverage \<Rightarrow> date \<Rightarrow> partition \<Rightarrow> 'a storage_db_scheme \<times> string list \<times> string list \<Rightarrow>
    'a storage_db_scheme \<times> string list \<times> string list" where
  "purge_step covers cutoff part (db, dropped, unexpected) =
    (if pa_kind part = PK_default then (db, dropped, unexpected)
     else if pa_kind part = PK_unknown then (db, dropped, unexpected @ [pa_name part])
     else (case pa_end part of
         None \<Rightarrow> (db, dropped, unexpected)
       | Some end \<Rightarrow>
           if cutoff < end then (db, dropped, unexpected)
           else if \<not> name_matches (pa_name part) then (db, dropped, unexpected @ [pa_name part])
           else (drop_partition covers (pa_name part) db, dropped @ [pa_name part], unexpected)))"

definition purge_expired :: "coverage \<Rightarrow> date \<Rightarrow> int \<Rightarrow> 'a storage_db_scheme \<Rightarrow> ('a storage_db_scheme \<times> purge_result) result" where
  "purge_expired covers today retention_months db =
    (if retention_months < 1 then Inl ValueError
     else try_bind (add_months (month_start today) (- retention_months)) (\<lambda>cutoff.
       try_bind (list_partitions db) (\<lambda>parts.
         (let (db1, dropped, unexpected) = fold (purge_step covers cutoff) parts (db, [], []);
              old = (\<lambda>p. in_default covers db1 (mp_day p) \<and> mp_day p < cutoff)
          in Inr (db1\<lparr>metric_points := delete_rows old (metric_points db1)\<rparr>,
               \<lparr>pr_dropped = dropped, pr_deleted_default_rows = count_rows old (metric_points db1),
                 pr_unexpected = unexpected\<rparr>)))))"

section \<open>Dates read back\<close>

lemma digit_char_digit: "d < 10 \<Longrightarrow> is_digit (digit_char d) \<and> of_char (digit_char d) = 48 + d"
proof -
  assume "d < 10"
  then have "d = 0 \<or> d = 1 \<or> d = 2 \<or> d = 3 \<or> d = 4 \<or> d = 5 \<or> d = 6 \<or> d = 7 \<or> d = 8 \<or> d = 9" by arith
  then show ?thesis by (elim disjE) (simp_all add: digit_char_def is_digit_def)
qed

lemma digits_value_snoc: "digits_value (s @ [c]) = 10 * digits_value s + int (of_char c - 48)"
  by (simp add: digits_value_def)

lemma to_base_10: "n < 10 ^ w \<Longrightarrow> digits_value (to_base 10 w n) = int n \<and> list_all is_digit (to_base 10 w n)"
proof (induction w arbitrary: n)
  case 0
  then show ?case by (simp add: digits_value_def)
next
  case (Suc w)
  have "n div 10 < 10 ^ w" using Suc.prems by (simp add: less_mult_imp_div_less mult.commute)
  with Suc.IH have IH: "digits_value (to_base 10 w (n div 10)) = int (n div 10)" "list_all is_digit (to_base 10 w (n div 10))"
    by simp_all
  have "10 * int (n div 10) + int (n mod 10) = int n" by (metis mult_div_mod_eq of_nat_add of_nat_mult of_nat_numeral)
  with IH digit_char_digit [of "n mod 10"] show ?case by (simp add: digits_value_snoc)
qed

lemma dec_value: "0 \<le> n \<Longrightarrow> n < 10 ^ w \<Longrightarrow> digits_value (dec w n) = n \<and> list_all is_digit (dec w n)"
  using to_base_10 [of "nat n" w] by (simp add: dec_def nat_less_iff)

lemma valid_date_year: "1 \<le> year_of d \<Longrightarrow> year_of d \<le> max_year \<Longrightarrow> mk_date (year_of d) (month_of d) (day_of d) = Inr d"
  using month_of_bounds [of d] day_of_range [of d] by (simp add: mk_date_def ord_ymd_ord)

lemma iso_date_parts:
  "length (iso_date d) = 10" "take 4 (iso_date d) = dec 4 (year_of d)" "take 2 (drop 5 (iso_date d)) = dec 2 (month_of d)"
  "drop 8 (iso_date d) = dec 2 (day_of d)" "iso_date d ! 4 = CHR ''-''" "iso_date d ! 7 = CHR ''-''"
proof -
  obtain y1 y2 y3 y4 where y: "dec 4 (year_of d) = [y1, y2, y3, y4]"
    using length_dec [of 4 "year_of d"] by (auto simp: numeral_eq_Suc length_Suc_conv simp del: length_dec)
  obtain m1 m2 where m: "dec 2 (month_of d) = [m1, m2]"
    using length_dec [of 2 "month_of d"] by (auto simp: numeral_eq_Suc length_Suc_conv simp del: length_dec)
  obtain d1 d2 where dd: "dec 2 (day_of d) = [d1, d2]"
    using length_dec [of 2 "day_of d"] by (auto simp: numeral_eq_Suc length_Suc_conv simp del: length_dec)
  show "length (iso_date d) = 10" "take 4 (iso_date d) = dec 4 (year_of d)" "take 2 (drop 5 (iso_date d)) = dec 2 (month_of d)"
    "drop 8 (iso_date d) = dec 2 (day_of d)" "iso_date d ! 4 = CHR ''-''" "iso_date d ! 7 = CHR ''-''"
    by (simp_all add: iso_date_def y m dd)
qed

lemma iso_date_read:
  assumes "1 \<le> year_of d" "year_of d \<le> max_year"
  shows "from_iso (iso_date d) = Inr d" "iso_shape (iso_date d)"
proof -
  have "year_of d < 10 ^ 4" using assms(2) by (simp add: max_year_def)
  then have v: "digits_value (dec 4 (year_of d)) = year_of d \<and> list_all is_digit (dec 4 (year_of d))"
    "digits_value (dec 2 (month_of d)) = month_of d \<and> list_all is_digit (dec 2 (month_of d))"
    "digits_value (dec 2 (day_of d)) = day_of d \<and> list_all is_digit (dec 2 (day_of d))"
    using dec_value assms(1) month_of_2 day_of_2 by simp_all
  show "from_iso (iso_date d) = Inr d" by (simp add: from_iso_def iso_date_parts v valid_date_year assms)
  show "iso_shape (iso_date d)" by (simp add: iso_shape_def iso_date_parts v)
qed

lemma bounds_lengths: "length bounds_head = 18" "length bounds_middle = 8" "length bounds_tail = 3 - 1"
  by (simp_all add: bounds_head_def bounds_middle_def bounds_tail_def)

lemma bounds_match_range:
  assumes "length a = 10" "length b = 10" "iso_shape a" "iso_shape b"
  shows "bounds_match (bounds_head @ a @ bounds_middle @ b @ bounds_tail) = Some (a, b)"
proof -
  have "take 10 (drop 18 (bounds_head @ a @ bounds_middle @ b @ bounds_tail)) = a"
    using assms by (simp add: bounds_lengths)
  moreover have "take 10 (drop 36 (bounds_head @ a @ bounds_middle @ b @ bounds_tail)) = b"
    using assms by (simp add: bounds_lengths)
  ultimately show ?thesis using assms by (simp add: bounds_match_def)
qed

lemma strip_range_text: "strip (range_text a b) = range_text a b"
proof (rule strip_fix)
  show "range_text a b \<noteq> []" by (simp add: range_text_def bounds_head_def)
  show "\<not> is_space (hd (range_text a b))" by (simp add: range_text_def bounds_head_def is_space_def)
  show "\<not> is_space (last (range_text a b))" by (simp add: range_text_def bounds_tail_def is_space_def)
qed

lemma partition_of_range:
  assumes "1 \<le> year_of a" "year_of a \<le> max_year" "1 \<le> year_of b" "year_of b \<le> max_year"
  shows "partition_of (name, range_text a b) = Inr \<lparr>pa_name = name, pa_start = Some a, pa_end = Some b, pa_kind = PK_range\<rparr>"
proof -
  have "bounds_match (range_text a b) = Some (iso_date a, iso_date b)"
    unfolding range_text_def by (rule bounds_match_range) (simp_all add: iso_date_parts iso_date_read assms)
  moreover have "range_text a b \<noteq> ''DEFAULT''" by (simp add: range_text_def bounds_head_def)
  ultimately show ?thesis by (simp add: partition_of_def strip_range_text iso_date_read assms)
qed

lemma add_months_start:
  "add_months (month_start d) n = mk_date ((month_index d + n) div 12) ((month_index d + n) mod 12 + 1) 1"
proof -
  have "month_index (month_start d) = month_index d" by (simp add: month_start_first)
  then show ?thesis unfolding add_months_def Let_def month_index_def [symmetric] by simp
qed

lemma add_months_Inr: "add_months (month_start d) n = Inr m \<Longrightarrow>
    m = month_first (month_index d + n) \<and> 1 \<le> year_of m \<and> year_of m \<le> max_year \<and> month_index m = month_index d + n"
proof -
  assume "add_months (month_start d) n = Inr m"
  then have m: "m = month_first (month_index d + n)" "1 \<le> (month_index d + n) div 12" "(month_index d + n) div 12 \<le> max_year"
    by (auto simp: add_months_start mk_date_def month_first_def split: if_splits)
  with month_index_parts(1) [of m] show ?thesis by simp
qed

lemma month_start_month_first [simp]: "month_start (month_first i) = month_first i"
  by (simp add: month_start_first)

section \<open>What a purge removes\<close>

text \<open>A range partition holds the days from its start to its end, end excluded.\<close>

definition covers_ranges :: "coverage \<Rightarrow> bool" where
  "covers_ranges covers = (\<forall>name bound part start end day. partition_of (name, bound) = Inr part \<longrightarrow>
     pa_start part = Some start \<longrightarrow> pa_end part = Some end \<longrightarrow> covers bound day = (start \<le> day \<and> day < end))"

definition range_covers :: coverage where
  "range_covers bound day = (case partition_of ([], bound) of
     Inr part \<Rightarrow> (case (pa_start part, pa_end part) of (Some start, Some end) \<Rightarrow> start \<le> day \<and> day < end | _ \<Rightarrow> False)
   | Inl _ \<Rightarrow> False)"

lemma partition_of_name: "partition_of (name, bound) = Inr part \<Longrightarrow>
  partition_of (name', bound) = Inr (part\<lparr>pa_name := name'\<rparr>) \<and> pa_name part = name"
  by (auto simp: partition_of_def Let_def split: if_splits option.splits)

lemma covers_ranges_witness: "covers_ranges range_covers"
proof -
  have "range_covers bound day = (start \<le> day \<and> day < end)"
    if "partition_of (name, bound) = Inr part" "pa_start part = Some start" "pa_end part = Some end"
    for name bound part start "end" day
    using partition_of_name [OF that(1), of "[]"] that(2,3) by (simp add: range_covers_def)
  then show ?thesis unfolding covers_ranges_def by blast
qed

definition goes :: "date \<Rightarrow> partition \<Rightarrow> bool" where
  "goes cutoff part = (pa_kind part = PK_range \<and> name_matches (pa_name part) \<and>
     (\<exists>end. pa_end part = Some end \<and> end \<le> cutoff))"

definition reported :: "date \<Rightarrow> partition \<Rightarrow> bool" where
  "reported cutoff part = (pa_kind part = PK_unknown \<or>
     (pa_kind part = PK_range \<and> \<not> name_matches (pa_name part) \<and> (\<exists>end. pa_end part = Some end \<and> end \<le> cutoff)))"

lemma purge_step_cases:
  "purge_step covers cutoff part (db, dropped, unexpected) =
    (if goes cutoff part then (drop_partition covers (pa_name part) db, dropped @ [pa_name part], unexpected)
     else if reported cutoff part then (db, dropped, unexpected @ [pa_name part])
     else (db, dropped, unexpected))"
  by (cases "pa_kind part"; cases "pa_end part") (auto simp: goes_def reported_def)

definition held_by :: "coverage \<Rightarrow> (string \<times> string) list \<Rightarrow> string list \<Rightarrow> date \<Rightarrow> bool" where
  "held_by covers cat names day = (\<exists>(n, bound) \<in> set cat. n \<in> set names \<and> covers bound day)"

lemma drop_partition_after:
  assumes "catalogue db1 = filter (\<lambda>(n, _). n \<notin> set names) (catalogue db)"
    and "metric_points db1 = filter (\<lambda>p. \<not> held_by covers (catalogue db) names (mp_day p)) (metric_points db)" "name \<notin> set names"
  shows "catalogue (drop_partition covers name db1) = filter (\<lambda>(n, _). n \<notin> set (names @ [name])) (catalogue db)"
    "metric_points (drop_partition covers name db1) =
      filter (\<lambda>p. \<not> held_by covers (catalogue db) (names @ [name]) (mp_day p)) (metric_points db)"
proof -
  show "catalogue (drop_partition covers name db1) = filter (\<lambda>(n, _). n \<notin> set (names @ [name])) (catalogue db)"
    by (simp add: drop_partition_def assms(1) case_prod_unfold) (meson)
  have "list_ex (\<lambda>(n, bound). n = name \<and> covers bound d) (catalogue db1) = held_by covers (catalogue db) [name] d" for d
    using assms(3) by (auto simp: assms(1) list_ex_iff held_by_def)
  moreover have "held_by covers (catalogue db) (names @ [name]) d =
      (held_by covers (catalogue db) names d \<or> held_by covers (catalogue db) [name] d)" for d
    by (auto simp: held_by_def)
  ultimately show "metric_points (drop_partition covers name db1) =
      filter (\<lambda>p. \<not> held_by covers (catalogue db) (names @ [name]) (mp_day p)) (metric_points db)"
    by (simp add: drop_partition_def assms(2) delete_rows_def)
qed

lemma purge_fold:
  assumes "distinct (map pa_name parts)" "fold (purge_step covers cutoff) parts (db, [], []) = (db1, dropped, unexpected)"
  shows "catalogue db1 = filter (\<lambda>(n, _). n \<notin> set dropped) (catalogue db) \<and>
    metric_points db1 = filter (\<lambda>p. \<not> held_by covers (catalogue db) dropped (mp_day p)) (metric_points db) \<and>
    dropped = map pa_name (filter (goes cutoff) parts) \<and>
    unexpected = map pa_name (filter (reported cutoff) parts)"
  using assms
proof (induction parts arbitrary: db1 dropped unexpected rule: rev_induct)
  case Nil
  then show ?case by (simp add: held_by_def case_prod_unfold)
next
  case (snoc part parts)
  obtain db0 dropped0 unexpected0 where before: "fold (purge_step covers cutoff) parts (db, [], []) = (db0, dropped0, unexpected0)"
    by (metis prod_cases3)
  from snoc.prems(1) have dist: "distinct (map pa_name parts)" by simp
  note IH = snoc.IH [OF dist before]
  have now: "purge_step covers cutoff part (db0, dropped0, unexpected0) = (db1, dropped, unexpected)"
    using snoc.prems(2) before by simp
  show ?case
  proof (cases "goes cutoff part")
    case True
    then have step: "db1 = drop_partition covers (pa_name part) db0" "dropped = dropped0 @ [pa_name part]" "unexpected = unexpected0"
      using now by (simp_all add: purge_step_cases del: purge_step.simps)
    have "pa_name part \<notin> set dropped0" using IH snoc.prems(1) by auto
    note drop = drop_partition_after [OF conjunct1 [OF IH] conjunct1 [OF conjunct2 [OF IH]] this]
    have "\<not> reported cutoff part" using True by (auto simp: goes_def reported_def)
    with drop IH True step show ?thesis by simp
  next
    case False
    then show ?thesis using IH now by (auto simp: purge_step_cases simp del: purge_step.simps split: if_splits)
  qed
qed

lemma try_map_in: "try_map f xs = Inr ys \<Longrightarrow> x \<in> set xs \<Longrightarrow> \<exists>y. f x = Inr y"
  by (induction xs arbitrary: ys) auto

lemma try_map_total: "(\<And>x. x \<in> set xs \<Longrightarrow> \<exists>y. f x = Inr y) \<Longrightarrow> \<exists>ys. try_map f xs = Inr ys"
proof (induction xs)
  case (Cons x xs)
  obtain y ys where "f x = Inr y" "try_map f xs = Inr ys" using Cons by (metis list.set_intros)
  then show ?case by simp
qed simp

lemma try_map_source: "try_map f xs = Inr ys \<Longrightarrow> y \<in> set ys \<Longrightarrow> \<exists>x \<in> set xs. f x = Inr y"
  by (induction xs arbitrary: ys) auto

lemma list_partitions_names:
  assumes "list_partitions db = Inr parts" "distinct (map fst (catalogue db))"
  shows "distinct (map pa_name parts)"
    "\<And>part. part \<in> set parts \<longleftrightarrow> (\<exists>name bound. (name, bound) \<in> set (catalogue db) \<and> partition_of (name, bound) = Inr part)"
proof -
  define cat where "cat = sort_key (\<lambda>(name, _). code_points name) (catalogue db)"
  have all2: "list_all2 (\<lambda>x y. partition_of x = Inr y) cat parts"
    using assms(1) try_map_Inr unfolding list_partitions_def cat_def by blast
  have "map pa_name parts = map fst cat"
    using all2
  proof (induction rule: list_all2_induct)
    case (Cons x xs y ys)
    obtain name bound where "x = (name, bound)" by fastforce
    with Cons partition_of_name show ?case by auto
  qed simp
  moreover have "distinct (map fst cat)" using assms(2) unfolding cat_def by (simp add: distinct_map)
  ultimately show "distinct (map pa_name parts)" by simp
  fix part
  have "set cat = set (catalogue db)" by (simp add: cat_def)
  moreover have "part \<in> set parts \<longleftrightarrow> (\<exists>x \<in> set cat. partition_of x = Inr part)"
    using all2 by (induction rule: list_all2_induct) auto
  ultimately show "part \<in> set parts \<longleftrightarrow> (\<exists>name bound. (name, bound) \<in> set (catalogue db) \<and> partition_of (name, bound) = Inr part)"
    by auto
qed


definition recent_db :: storage_db where
  "recent_db = \<lparr>job_runs = [], schedules = [], websites = [], quota_events = [],
     metric_points = [], metric_rollups = [],
     catalogue = [(''metric_points_default'', ''DEFAULT''), (''metric_points_p2020_01'', range_text 737425 737456)]\<rparr>"

lemma recent_partitions: "\<exists>parts. list_partitions recent_db = Inr parts"
proof -
  have "year_of 737425 = 2020" "year_of 737456 = 2020" by code_simp+
  then have "partition_of (''metric_points_p2020_01'', range_text 737425 737456) =
      Inr \<lparr>pa_name = ''metric_points_p2020_01'', pa_start = Some 737425, pa_end = Some 737456, pa_kind = PK_range\<rparr>"
    by (intro partition_of_range) (simp_all add: max_year_def)
  moreover have "strip ''DEFAULT'' = ''DEFAULT''" by code_simp
  then have "partition_of (''metric_points_default'', ''DEFAULT'') =
      Inr \<lparr>pa_name = ''metric_points_default'', pa_start = None, pa_end = None, pa_kind = PK_default\<rparr>"
    by (simp add: partition_of_def)
  ultimately have "\<exists>y. partition_of x = Inr y" if "x \<in> set (catalogue recent_db)" for x
    using that by (auto simp: recent_db_def)
  then show ?thesis unfolding list_partitions_def by (intro try_map_total) simp
qed


section \<open>What a creation leaves\<close>

definition month_entry :: "date \<Rightarrow> string \<times> string \<Rightarrow> bool" where
  "month_entry m e = (\<exists>m'. e = (partition_name m, range_text m m') \<and> 1 \<le> year_of m \<and> year_of m \<le> max_year \<and>
     1 \<le> year_of m' \<and> year_of m' \<le> max_year)"

lemma create_partitionD:
  assumes "create_partition covers (month_first i) db = Inr (db', name)" "1 \<le> year_of (month_first i)" "year_of (month_first i) \<le> max_year"
  shows "\<exists>e. db' = db\<lparr>catalogue := catalogue db @ [e]\<rparr> \<and> fst e = name \<and> month_entry (month_first i) e"
proof -
  obtain m' where m': "add_months (month_first i) 1 = Inr m'" "name = partition_name (month_first i)"
    "db' = db\<lparr>catalogue := catalogue db @ [(name, range_text (month_first i) m')]\<rparr>"
    using assms(1) by (auto simp: create_partition_def checked_def split: if_splits)
  then have "add_months (month_start (month_first i)) 1 = Inr m'" by simp
  from add_months_Inr [OF this] have "1 \<le> year_of m' \<and> year_of m' \<le> max_year" by blast
  with m'(2,3) assms(2,3) show ?thesis by (auto simp: month_entry_def)
qed

lemma ensure_loopD:
  "ensure_loop covers (month_start today) existing offsets (db, created) = Inr (db', created') \<Longrightarrow>
    \<exists>new. db' = db\<lparr>catalogue := catalogue db @ new\<rparr> \<and> created' = created @ map fst new \<and>
      (\<forall>e \<in> set new. \<exists>m. month_entry m e) \<and>
      (\<forall>k \<in> set offsets. Some (month_first (month_index today + k)) \<in> existing \<or>
        (\<exists>e \<in> set new. month_entry (month_first (month_index today + k)) e))"
proof (induction offsets arbitrary: db created)
  case Nil
  then show ?case by (intro exI [of _ "[]"]) simp
next
  case (Cons k offsets)
  define m where "m = month_first (month_index today + k)"
  have start: "add_months (month_start today) k = Inr m" "1 \<le> year_of m" "year_of m \<le> max_year"
    using Cons.prems add_months_Inr [of today k] by (auto simp: m_def)
  show ?case
  proof (cases "Some m \<in> existing")
    case True
    with Cons.prems start have "ensure_loop covers (month_start today) existing offsets (db, created) = Inr (db', created')"
      by simp
    from Cons.IH [OF this] True show ?thesis by (auto simp: m_def)
  next
    case False
    then obtain db1 name where step: "create_partition covers m db = Inr (db1, name)"
      "ensure_loop covers (month_start today) existing offsets (db1, created @ [name]) = Inr (db', created')"
      using Cons.prems start(1) by (auto split: prod.splits)
    obtain e where e: "db1 = db\<lparr>catalogue := catalogue db @ [e]\<rparr>" "fst e = name" "month_entry m e"
      using create_partitionD [OF step(1) [unfolded m_def]] start(2,3) by (auto simp: m_def)
    from Cons.IH [OF step(2)] obtain new where new: "db' = db1\<lparr>catalogue := catalogue db1 @ new\<rparr>"
      "created' = (created @ [name]) @ map fst new" "\<forall>e \<in> set new. \<exists>m. month_entry m e"
      "\<forall>k \<in> set offsets. Some (month_first (month_index today + k)) \<in> existing \<or>
        (\<exists>e \<in> set new. month_entry (month_first (month_index today + k)) e)" by blast
    show ?thesis
      using new e by (intro exI [of _ "e # new"]) (auto simp: m_def)
  qed
qed

lemma month_entry_partition: "month_entry m (name, bound) \<Longrightarrow>
  \<exists>part. partition_of (name, bound) = Inr part \<and> pa_kind part = PK_range \<and> pa_start part = Some m"
  unfolding month_entry_def using partition_of_range by fastforce

lemma try_map_member: "try_map f xs = Inr ys \<Longrightarrow> x \<in> set xs \<Longrightarrow> f x = Inr y \<Longrightarrow> y \<in> set ys"
  by (induction xs arbitrary: ys) auto

lemma ensure_nothing:
  "(\<And>k. k \<in> set offsets \<Longrightarrow> \<exists>m. add_months current k = Inr m \<and> Some m \<in> existing) \<Longrightarrow>
    ensure_loop covers current existing offsets (db, created) = Inr (db, created)"
  by (induction offsets) fastforce+

lemma ensure_loop_starts:
  "ensure_loop covers current existing offsets st = Inr st' \<Longrightarrow> k \<in> set offsets \<Longrightarrow> \<exists>m. add_months current k = Inr m"
proof (induction offsets arbitrary: st)
  case (Cons o' offsets)
  obtain db created where st: "st = (db, created)" by fastforce
  obtain m where m: "add_months current o' = Inr m" using Cons.prems(1) by (auto simp: st)
  obtain st1 where "ensure_loop covers current existing offsets st1 = Inr st'"
    using Cons.prems(1) m by (auto simp: st split: if_splits prod.splits)
  with Cons.IH [OF this] Cons.prems(2) m show ?case by auto
qed simp

text \<open>
  After \<open>ensure_partitions\<close> every month of the window has its partition, no point has been lost or changed, the
  partitions that existed are still there, and a second run creates nothing.
\<close>

lemma ensure_partitions_complete:
  assumes "ensure_partitions covers today back ahead db = Inr (db', created)"
  shows "metric_points db' = metric_points db \<and>
    (\<exists>new. catalogue db' = catalogue db @ new \<and> map fst new = created) \<and>
    (\<exists>parts. list_partitions db' = Inr parts \<and> (\<forall>k \<in> {- back..ahead}. \<exists>part \<in> set parts.
       pa_kind part = PK_range \<and> pa_start part = Some (month_first (month_index today + k)))) \<and>
    ensure_partitions covers today back ahead db' = Inr (db', [])"
proof -
  obtain parts where parts: "list_partitions db = Inr parts" and pos: "0 \<le> back" "0 \<le> ahead"
    using assms by (auto simp: ensure_partitions_def split: if_splits)
  define existing where "existing = pa_start ` set (filter (\<lambda>p. pa_kind p = PK_range) parts)"
  have loop: "ensure_loop covers (month_start today) existing [- back..ahead] (db, []) = Inr (db', created)"
    using assms parts pos by (simp add: ensure_partitions_def existing_def)
  from ensure_loopD [OF loop] obtain new where new: "db' = db\<lparr>catalogue := catalogue db @ new\<rparr>" "created = map fst new"
    "\<forall>e \<in> set new. \<exists>m. month_entry m e"
    "\<forall>k \<in> {- back..ahead}. Some (month_first (month_index today + k)) \<in> existing \<or>
        (\<exists>e \<in> set new. month_entry (month_first (month_index today + k)) e)" by auto
  have readable: "\<exists>part. partition_of e = Inr part" if "e \<in> set (catalogue db @ new)" for e
  proof (cases "e \<in> set new")
    case True
    with new(3) month_entry_partition show ?thesis by (metis surj_pair)
  next
    case False
    with that try_map_in [OF parts [unfolded list_partitions_def], of e] show ?thesis by simp
  qed
  obtain parts' where parts': "list_partitions db' = Inr parts'"
    unfolding list_partitions_def using try_map_total [of "sort_key (\<lambda>(name, _). code_points name) (catalogue db')" partition_of] readable
    by (auto simp: new(1))
  have read: "part \<in> set parts'" if "partition_of e = Inr part" "e \<in> set (catalogue db @ new)" for e part
    using try_map_member [OF parts' [unfolded list_partitions_def], of e part] that by (simp add: new(1))
  have cover: "\<exists>part \<in> set parts'. pa_kind part = PK_range \<and> pa_start part = Some (month_first (month_index today + k))"
    if "k \<in> {- back..ahead}" for k
  proof -
    from new(4) that consider (old) "Some (month_first (month_index today + k)) \<in> existing"
      | (made) e where "e \<in> set new" "month_entry (month_first (month_index today + k)) e" by blast
    then show ?thesis
    proof cases
      case old
      then obtain part where p: "part \<in> set parts" "pa_kind part = PK_range" "pa_start part = Some (month_first (month_index today + k))"
        by (auto simp: existing_def)
      have "\<exists>e \<in> set (catalogue db). partition_of e = Inr part"
        using try_map_source [OF parts [unfolded list_partitions_def] p(1)] by simp
      with read p show ?thesis by fastforce
    next
      case (made e)
      with month_entry_partition [of "month_first (month_index today + k)" "fst e" "snd e"] read [of e] show ?thesis by auto
    qed
  qed
  have "ensure_partitions covers today back ahead db' = Inr (db', [])"
  proof -
    have "ensure_loop covers (month_start today) (pa_start ` set (filter (\<lambda>p. pa_kind p = PK_range) parts')) [- back..ahead] (db', []) =
        Inr (db', [])"
    proof (rule ensure_nothing)
      fix k
      assume k: "k \<in> set [- back..ahead]"
      obtain m where m: "add_months (month_start today) k = Inr m" using ensure_loop_starts [OF loop k] by blast
      with cover [of k] k add_months_Inr [OF m]
      show "\<exists>m. add_months (month_start today) k = Inr m \<and> Some m \<in> pa_start ` set (filter (\<lambda>p. pa_kind p = PK_range) parts')"
        by (force simp: image_iff)
    qed
    with parts' pos show ?thesis by (simp add: ensure_partitions_def)
  qed
  with cover parts' new(1,2) show ?thesis by auto
qed

lemma ensure_partitions_complete_witness:
  "\<exists>db' created. ensure_partitions range_covers 739000 0 0 recent_db = Inr (db', created) \<and>
    ensure_partitions range_covers 739000 0 0 db' = Inr (db', [])"
proof -
  obtain parts where parts: "list_partitions recent_db = Inr parts" using recent_partitions by blast
  have a: "add_months (month_start 739000) 0 = Inr 738977" "add_months 738977 1 = Inr 739007" by code_simp+
  have n: "checked (partition_name 738977) = Inr ''metric_points_p2024_04''" by code_simp
  have y: "year_of 737425 = 2020" "year_of 737456 = 2020" by code_simp+
  have p: "partition_of (x, range_text 737425 737456) =
      Inr \<lparr>pa_name = x, pa_start = Some 737425, pa_end = Some 737456, pa_kind = PK_range\<rparr>" for x
    by (intro partition_of_range) (simp_all add: max_year_def y)
  then have free: "\<not> range_covers (range_text 737425 737456) day" if "738977 \<le> day" for day
    using that by (simp add: range_covers_def)
  have "\<exists>x. ensure_loop range_covers (month_start 739000) existing [0] (recent_db, []) = Inr x" for existing
  proof -
    have "strip ''DEFAULT'' = ''DEFAULT''" by code_simp
    then have "create_partition range_covers 738977 recent_db = Inr (recent_db\<lparr>catalogue := catalogue recent_db @
        [(''metric_points_p2024_04'', range_text 738977 739007)]\<rparr>, ''metric_points_p2024_04'')"
      using free by (auto simp: create_partition_def a(2) n in_default_def list_ex_iff) (simp_all add: recent_db_def)
    with a(1) show ?thesis by simp
  qed
  from this [of "pa_start ` set (filter (\<lambda>p. pa_kind p = PK_range) parts)"]
  obtain x where "ensure_partitions range_covers 739000 0 0 recent_db = Inr x"
    using parts by (auto simp: ensure_partitions_def)
  then obtain db' created where e: "ensure_partitions range_covers 739000 0 0 recent_db = Inr (db', created)"
    by (cases x) simp
  from ensure_partitions_complete [OF e] e show ?thesis by blast
qed

end
