(* ===== verification/Date_Text.thy ===== *)
theory Date_Text
  imports Regex
begin

text \<open>
  Dates read from texts, as the standard library reads them: \<open>strptime\<close> of a pattern without separators and of
  the dates OpenSSL prints, \<open>date.fromisoformat\<close> with its calendar and week forms. Texts are ASCII.
  A pattern is the list of its parts; a match is what each part took, the first way the engine finds.
\<close>

fun parts_at :: "re list \<Rightarrow> string \<Rightarrow> (string list \<times> string) list" where
  "parts_at [] s = [([], s)]"
| "parts_at (r # rs) s = concat (map (\<lambda>t. map (\<lambda>(gs, u). (matched s t # gs, u)) (parts_at rs t)) (ends r s))"

text \<open>\<open>strptime\<close> takes the first match and raises when it leaves a rest.\<close>

definition strptime_parts :: "re list \<Rightarrow> string \<Rightarrow> string list result" where
  "strptime_parts rs s = (case parts_at rs s of (gs, []) # _ \<Rightarrow> Inr gs | _ \<Rightarrow> Inl ValueError)"

definition digits_int :: "string \<Rightarrow> int" where
  "digits_int s = fold (\<lambda>c n. 10 * n + int (of_char c - 48)) (strip s) 0"

section \<open>Directives\<close>

definition between :: "char \<Rightarrow> char \<Rightarrow> re" where
  "between a b = Class (\<lambda>c. (of_char a :: nat) \<le> of_char c \<and> (of_char c :: nat) \<le> of_char b)"

definition digit :: re where "digit = Class is_digit"

definition year_part :: re where "year_part = times 4 digit"

definition month_part :: re where
  "month_part = Alt (Cat (lit ''1'') (between CHR ''0'' CHR ''2''))
     (Alt (Cat (lit ''0'') (between CHR ''1'' CHR ''9'')) (between CHR ''1'' CHR ''9''))"

definition day_part :: re where
  "day_part = Alt (Cat (lit ''3'') (between CHR ''0'' CHR ''1''))
     (Alt (Cat (between CHR ''1'' CHR ''2'') digit)
     (Alt (Cat (lit ''0'') (between CHR ''1'' CHR ''9''))
     (Alt (between CHR ''1'' CHR ''9'') (Cat (lit '' '') (between CHR ''1'' CHR ''9'')))))"

definition hour_part :: re where
  "hour_part = Alt (Cat (lit ''2'') (between CHR ''0'' CHR ''3'')) (Alt (Cat (between CHR ''0'' CHR ''1'') digit) digit)"

definition minute_part :: re where
  "minute_part = Alt (Cat (between CHR ''0'' CHR ''5'') digit) digit"

definition second_part :: re where
  "second_part = Alt (Cat (lit ''6'') (between CHR ''0'' CHR ''1'')) (Alt (Cat (between CHR ''0'' CHR ''5'') digit) digit)"

definition MONTH_NAMES :: "string list" where
  "MONTH_NAMES = [''jan'', ''feb'', ''mar'', ''apr'', ''may'', ''jun'', ''jul'', ''aug'', ''sep'', ''oct'', ''nov'', ''dec'']"

definition month_name_part :: re where
  "month_name_part = foldr (\<lambda>m r. Alt (lit_ci m) r) MONTH_NAMES (Class (\<lambda>_. False))"

definition month_number :: "string \<Rightarrow> int" where
  "month_number s = int (length (takeWhile (\<lambda>m. m \<noteq> lower s) MONTH_NAMES)) + 1"

definition zone_part :: re where "zone_part = Alt (lit_ci ''utc'') (lit_ci ''gmt'')"

section \<open>Dates\<close>

text \<open>\<open>datetime.strptime(s, "%Y%m%d").date()\<close>.\<close>

definition parse_compact_date :: "string \<Rightarrow> date result" where
  "parse_compact_date s =
     try_bind (strptime_parts [year_part, month_part, day_part] s) (\<lambda>gs.
       mk_date (digits_int (gs ! 0)) (digits_int (gs ! 1)) (digits_int (gs ! 2)))"

text \<open>\<open>datetime.strptime(s, "%b %d %H:%M:%S %Y %Z")\<close> taken as UTC; the second 60 is no second of a \<open>datetime\<close>.\<close>

definition parse_cert_date :: "string \<Rightarrow> datetime result" where
  "parse_cert_date s =
    (let gap = plus (Class is_space); colon = lit '':''
     in try_bind (strptime_parts [month_name_part, gap, day_part, gap, hour_part, colon, minute_part, colon, second_part,
         gap, year_part, gap, zone_part] s) (\<lambda>gs.
       try_bind (mk_date (digits_int (gs ! 10)) (month_number (gs ! 0)) (digits_int (gs ! 2))) (\<lambda>d.
         if 59 < digits_int (gs ! 8) then Inl ValueError
         else Inr (midnight d + hours (digits_int (gs ! 4)) + minutes (digits_int (gs ! 6)) + seconds (digits_int (gs ! 8))))))"

section \<open>date.fromisoformat\<close>

text \<open>A number of \<open>n\<close> digits at the head, with the rest.\<close>

definition read_digits :: "nat \<Rightarrow> string \<Rightarrow> (int \<times> string) result" where
  "read_digits n s =
    (if n \<le> length s \<and> list_all is_digit (take n s) then Inr (digits_int (take n s), drop n s) else Inl ValueError)"

definition read_dash :: "bool \<Rightarrow> string \<Rightarrow> string result" where
  "read_dash expected s =
    (if \<not> expected then Inr s else case s of c # cs \<Rightarrow> if c = CHR ''-'' then Inr cs else Inl ValueError | [] \<Rightarrow> Inl ValueError)"

text \<open>The Monday of the first week of a year, and the day of a week date.\<close>

definition week1_monday :: "int \<Rightarrow> date" where
  "week1_monday y = (let first = ymd2ord y 1 1; monday = first - weekday first
     in if 3 < weekday first then monday + 7 else monday)"

definition long_iso_year :: "int \<Rightarrow> bool" where
  "long_iso_year y = (let w = weekday (ymd2ord y 1 1) in w = 3 \<or> w = 2 \<and> is_leap y)"

definition iso_week_date :: "int \<Rightarrow> int \<Rightarrow> int \<Rightarrow> date result" where
  "iso_week_date y w d =
    (if y < 1 \<or> w < 1 \<or> 53 < w \<or> (w = 53 \<and> \<not> long_iso_year y) \<or> d < 1 \<or> 7 < d then Inl ValueError
     else let day = week1_monday y + (w - 1) * 7 + d - 1 in if valid_date day then Inr day else Inl ValueError)"

text \<open>Without dashes the last two of ten characters are not read.\<close>

definition parse_iso_date :: "string \<Rightarrow> date result" where
  "parse_iso_date s =
    (if length s \<notin> {7, 8, 10} then Inl ValueError
     else try_bind (read_digits 4 s) (\<lambda>(y, r1).
       (let dashed = (take 1 r1 = ''-''); r2 = (if dashed then drop 1 r1 else r1)
        in if take 1 r2 = ''W''
           then try_bind (read_digits 2 (drop 1 r2)) (\<lambda>(w, r3).
             if r3 = [] then iso_week_date y w 1
             else try_bind (read_dash dashed r3) (\<lambda>r4. try_bind (read_digits 1 r4) (\<lambda>(d, _). iso_week_date y w d)))
           else try_bind (read_digits 2 r2) (\<lambda>(m, r3).
             try_bind (read_dash dashed r3) (\<lambda>r4. try_bind (read_digits 2 r4) (\<lambda>(d, _). mk_date y m d))))))"

section \<open>Texts at the boundaries\<close>

text \<open>
  A month or a day takes one character when two do not make one; a first match that leaves a rest is not
  tried again shorter; a week 53 exists in the long years only.
\<close>

lemma compact_date_examples:
  "parse_compact_date ''20240105'' = mk_date 2024 1 5" "parse_compact_date ''2024111'' = mk_date 2024 11 1"
  "parse_compact_date ''20241 5'' = mk_date 2024 1 5" "parse_compact_date ''202401050'' = Inl ValueError"
  by code_simp+

lemma cert_date_examples:
  "parse_cert_date ''Aug  5 11:40:21 2026 GMT'' = Inr (midnight (ymd2ord 2026 8 5) + hours 11 + minutes 40 + seconds 21)"
  "parse_cert_date ''Feb 30 11:40:21 2026 GMT'' = Inl ValueError"
  by code_simp+

lemma iso_date_examples:
  "parse_iso_date ''2024-01-05'' = mk_date 2024 1 5" "parse_iso_date ''2020-W53-7'' = mk_date 2021 1 3"
  "parse_iso_date ''2024W01'' = mk_date 2024 1 1" "parse_iso_date ''2024-W53'' = Inl ValueError"
  "parse_iso_date ''2024-0105'' = Inl ValueError"
  by code_simp+

end
