(* ===== verification/Tls_Check.thy ===== *)
theory Tls_Check
  imports Date_Text
begin

text \<open>
  The HTTPS certificate of a domain (\<open>app/services/tls_check.py\<close>): a handshake that verifies the certificate, a
  second one that does not when the first refuses it, and the classification of what they brought back. The
  handshake is a parameter; \<open>unverified_is_empty\<close> is what the documentation of \<open>getpeercert\<close> states of
  a connection that does not validate the certificate. The lemmas show what each status means, and that under
  that hypothesis a refused certificate never has a number of days.
\<close>

definition EXPIRING_SOON_DAYS :: int where "EXPIRING_SOON_DAYS = 30"

record tls_status =
  tl_host :: string
  tl_status :: string
  tl_checked_at :: datetime
  tl_expires_at :: "datetime option"
  tl_days_remaining :: "int option"
  tl_issuer :: "string option"
  tl_error :: "string option"

text \<open>The dictionary of \<open>getpeercert\<close>: the keys the code reads; \<open>ct_empty\<close> is the empty dictionary.\<close>

record peer_cert =
  ct_not_after :: "string option"
  ct_issuer :: "(string \<times> string) list list"
  ct_empty :: bool

definition empty_cert :: peer_cert where
  "empty_cert = \<lparr>ct_not_after = None, ct_issuer = [], ct_empty = True\<rparr>"

record tls_probe =
  tp_cert :: "peer_cert option"
  tp_verified :: bool
  tp_verify_error :: "string option"
  tp_transport_error :: "string option"

definition is_healthy :: "tls_status \<Rightarrow> bool" where
  "is_healthy t = (tl_status t = ''valid'')"

section \<open>Classification\<close>

definition parse_cert_time :: "string \<Rightarrow> datetime option" where
  "parse_cert_time s = (case parse_cert_date s of Inr t \<Rightarrow> Some t | Inl _ \<Rightarrow> None)"

definition issuer_cn :: "peer_cert \<Rightarrow> string option" where
  "issuer_cn cert = map_option snd
     (List.find (\<lambda>(key, _). key \<in> {''organizationName'', ''commonName''}) (concat (ct_issuer cert)))"

definition days_of :: "timedelta \<Rightarrow> int" where
  "days_of elapsed = elapsed div days 1"

text \<open>The certificate the code looks at: a dictionary with something in it.\<close>

definition read_cert :: "tls_probe \<Rightarrow> peer_cert option" where
  "read_cert probe = (case tp_cert probe of None \<Rightarrow> None | Some c \<Rightarrow> if ct_empty c then None else Some c)"

definition refused_status :: "string option \<Rightarrow> string" where
  "refused_status verify_error =
    (let reason = lower (case verify_error of None \<Rightarrow> [] | Some e \<Rightarrow> e)
     in if contains ''hostname mismatch'' reason \<or> contains (''doesn'' @ [CHR 0x27] @ ''t match'') reason
        then ''hostname_mismatch''
        else if contains ''self-signed'' reason \<or> contains ''self signed'' reason then ''self_signed''
        else if contains ''expired'' reason then ''expired''
        else ''untrusted'')"

definition classify_certificate :: "string \<Rightarrow> tls_probe \<Rightarrow> datetime \<Rightarrow> tls_status" where
  "classify_certificate host probe now =
    (let bare = \<lparr>tl_host = host, tl_status = ''unreachable'', tl_checked_at = now, tl_expires_at = None,
         tl_days_remaining = None, tl_issuer = None, tl_error = tp_transport_error probe\<rparr>
     in if tp_cert probe = None \<and> tp_transport_error probe \<noteq> None then bare
        else
          (let expires_at = (case read_cert probe of None \<Rightarrow> None
               | Some c \<Rightarrow> parse_cert_time (case ct_not_after c of None \<Rightarrow> [] | Some s \<Rightarrow> s));
               issuer = (case read_cert probe of None \<Rightarrow> None | Some c \<Rightarrow> issuer_cn c);
               left = map_option (\<lambda>e. days_of (e - now)) expires_at;
               common = bare\<lparr>tl_expires_at := expires_at, tl_days_remaining := left, tl_issuer := issuer, tl_error := None\<rparr>
           in if (case left of None \<Rightarrow> False | Some n \<Rightarrow> n < 0)
              then common\<lparr>tl_status := ''expired'', tl_error := tp_verify_error probe\<rparr>
              else if \<not> tp_verified probe
              then common\<lparr>tl_status := refused_status (tp_verify_error probe), tl_error := tp_verify_error probe\<rparr>
              else if (case left of None \<Rightarrow> False | Some n \<Rightarrow> n \<le> EXPIRING_SOON_DAYS)
              then common\<lparr>tl_status := ''expiring_soon''\<rparr>
              else common\<lparr>tl_status := ''valid''\<rparr>))"

section \<open>The handshakes\<close>

text \<open>
  A handshake, verifying or not, gives the certificate (\<open>None\<close> without a TLS object), is refused with a
  message, or fails below TLS; the texts are those the code keeps.
\<close>

datatype handshake = Peer "peer_cert option" | Refused string | Transport string

type_synonym handshakes = "string \<Rightarrow> bool \<Rightarrow> handshake"

text \<open>With verification off \<open>SSLCertVerificationError\<close> is an \<open>ssl.SSLError\<close> like another.\<close>

definition default_probe :: "handshakes \<Rightarrow> string \<Rightarrow> tls_probe" where
  "default_probe shake host =
    (case shake host True of
       Peer cert \<Rightarrow> \<lparr>tp_cert = cert, tp_verified = True, tp_verify_error = None, tp_transport_error = None\<rparr>
     | Transport e \<Rightarrow> \<lparr>tp_cert = None, tp_verified = False, tp_verify_error = None, tp_transport_error = Some e\<rparr>
     | Refused verify_error \<Rightarrow>
         (case shake host False of
            Peer cert \<Rightarrow> \<lparr>tp_cert = cert, tp_verified = False, tp_verify_error = Some verify_error, tp_transport_error = None\<rparr>
          | Refused e \<Rightarrow> \<lparr>tp_cert = None, tp_verified = False, tp_verify_error = Some verify_error, tp_transport_error = Some e\<rparr>
          | Transport e \<Rightarrow> \<lparr>tp_cert = None, tp_verified = False, tp_verify_error = Some verify_error, tp_transport_error = Some e\<rparr>))"

definition removeprefix :: "string \<Rightarrow> string \<Rightarrow> string" where
  "removeprefix p s = (if starts_with p s then drop (length p) s else s)"

definition tls_host :: "string \<Rightarrow> string" where
  "tls_host domain = removeprefix ''www.'' (lower (strip domain))"

text \<open>The runner gives a probe or raises, with the text the code keeps of the exception.\<close>

definition check_certificate :: "(string \<Rightarrow> string + tls_probe) \<Rightarrow> datetime \<Rightarrow> string \<Rightarrow> tls_status" where
  "check_certificate runner now domain =
    (let host = tls_host domain
     in case runner host of
          Inl e \<Rightarrow> \<lparr>tl_host = host, tl_status = ''unreachable'', tl_checked_at = now, tl_expires_at = None,
            tl_days_remaining = None, tl_issuer = None, tl_error = Some e\<rparr>
        | Inr probe \<Rightarrow> classify_certificate host probe now)"

section \<open>What the statuses say\<close>

definition TLS_STATUSES :: "string list" where
  "TLS_STATUSES = [''valid'', ''expiring_soon'', ''expired'', ''self_signed'', ''hostname_mismatch'', ''untrusted'', ''unreachable'']"

lemma refused_status_in: "refused_status e \<in> {''hostname_mismatch'', ''self_signed'', ''expired'', ''untrusted''}"
  by (simp add: refused_status_def Let_def)

lemma classified_status: "tl_status (classify_certificate host probe now) \<in> set TLS_STATUSES"
  using refused_status_in [of "tp_verify_error probe"]
  by (auto simp: classify_certificate_def Let_def TLS_STATUSES_def)

text \<open>A certificate is called valid when it was verified and has more than 30 days left, or no date that can be read.\<close>

lemma healthy_iff:
  "is_healthy (classify_certificate host probe now) \<longleftrightarrow>
    tp_verified probe \<and> (tp_cert probe = None \<longrightarrow> tp_transport_error probe = None) \<and>
    (case tl_days_remaining (classify_certificate host probe now) of None \<Rightarrow> True | Some n \<Rightarrow> EXPIRING_SOON_DAYS < n)"
  using refused_status_in [of "tp_verify_error probe"]
  by (auto simp: classify_certificate_def is_healthy_def Let_def EXPIRING_SOON_DAYS_def split: option.splits)

text \<open>What a connection with \<open>CERT_NONE\<close> gives: the empty dictionary.\<close>

definition unverified_is_empty :: "handshakes \<Rightarrow> bool" where
  "unverified_is_empty shake = (\<forall>host c. shake host False = Peer (Some c) \<longrightarrow> c = empty_cert)"

lemma unverified_is_empty_witness: "unverified_is_empty (\<lambda>_ verify. if verify then Refused ''certificate has expired'' else Peer (Some empty_cert))"
  by (simp add: unverified_is_empty_def)

text \<open>The second handshake is made for the date of expiry; the certificate it reads has none.\<close>

lemma refused_has_no_date:
  assumes "unverified_is_empty shake" "shake host True = Refused e"
  shows "tl_days_remaining (classify_certificate host (default_probe shake host) now) = None \<and>
    tl_expires_at (classify_certificate host (default_probe shake host) now) = None"
proof -
  have "read_cert (default_probe shake host) = None"
    using assms by (force simp: default_probe_def read_cert_def unverified_is_empty_def empty_cert_def
        split: handshake.splits option.splits)
  then show ?thesis by (simp add: classify_certificate_def Let_def)
qed

end
