(* ===== verification/Measurement_Plan.thy ===== *)
theory Measurement_Plan
  imports Measurement_Checks Site_Types Event_Snippets Metric_Partitions Tls_Check
begin

text \<open>
  The measurement plan of a site (\<open>app/services/measurement/service.py\<close>): collecting the facts, evaluating the
  catalogue, keeping the current state of each item with the history of its changes
  (\<open>app/models/measurement_item_status.py\<close>, \<open>measurement_item_event.py\<close>, \<open>website_profile.py\<close>), and the view the API
  serves. The page fetcher, the Google reader, the browser and the certificate check are parameters.
  A refresh runs in one transaction under the site's lock: it is one step, and an exception leaves the tables as they were.
\<close>

section \<open>Tables\<close>

record website_profile =
  pf_website_id :: uuid
  pf_detected_types :: "type_guess list"
  pf_confirmed_types :: "string list option"
  pf_params :: json_dict
  pf_headless_result :: "headless_json option"
  pf_headless_checked_at :: "datetime option"

record item_status =
  st_website_id :: uuid
  st_item_id :: string
  st_state :: item_state
  st_evidence :: json_dict
  st_reason :: "string option"
  st_checked_at :: datetime
  st_dismissed_at :: "datetime option"

record item_event =
  ev_website_id :: uuid
  ev_item_id :: string
  ev_from_state :: "item_state option"
  ev_to_state :: item_state
  ev_at :: datetime
  ev_evidence :: json_dict

datatype resource_type = Ga4_property | Gtm_container | Gsc_site

datatype connection_status = Conn_active | Conn_needs_reauth | Conn_revoked

record google_connection =
  gn_id :: uuid
  gn_workspace_id :: uuid
  gn_email :: string
  gn_sub :: string
  gn_scopes :: "string list"
  gn_token :: string
  gn_key_version :: int
  gn_status :: connection_status
  gn_last_refreshed_at :: "datetime option"

record google_link =
  gl_website_id :: uuid
  gl_connection_id :: uuid
  gl_resource_type :: resource_type
  gl_resource_id :: string
  gl_display_name :: "string option"

record plan_db = storage_db +
  profiles :: "website_profile list"
  item_statuses :: "item_status list"
  item_events :: "item_event list"
  google_links :: "google_link list"
  google_connections :: "google_connection list"

definition st_key :: "item_status \<Rightarrow> uuid \<times> string" where
  "st_key r = (st_website_id r, st_item_id r)"

definition status_of :: "'a plan_db_scheme \<Rightarrow> uuid \<Rightarrow> string \<Rightarrow> item_status option" where
  "status_of db w i = find_row (\<lambda>r. st_key r = (w, i)) (item_statuses db)"

definition profile_of :: "'a plan_db_scheme \<Rightarrow> uuid \<Rightarrow> website_profile option" where
  "profile_of db w = find_row (\<lambda>p. pf_website_id p = w) (profiles db)"

section \<open>Small steps\<close>

definition COOLDOWN :: timedelta where "COOLDOWN = minutes 5"
definition HEADLESS_MAX_AGE :: timedelta where "HEADLESS_MAX_AGE = hours 24"
definition HEADLESS_ERROR_CODE :: string where "HEADLESS_ERROR_CODE = ''headless_failed''"
definition DEAD_TOKEN_REASONS :: "string list" where
  "DEAD_TOKEN_REASONS = [''ga4_not_connected'', ''token_unavailable'']"

record refresh_result =
  rf_headless_ran :: bool
  rf_headless_skipped :: bool
  rf_headless_error :: "string option"

definition clean_confirmed_types :: "string list option \<Rightarrow> string list option" where
  "clean_confirmed_types confirmed =
    (case confirmed of None \<Rightarrow> None
     | Some types \<Rightarrow>
       (let cleaned = filter (\<lambda>t. t \<in> set SITE_TYPES) (from_keys types)
        in if cleaned = [] then None else Some cleaned))"

definition new_profile :: "uuid \<Rightarrow> website_profile" where
  "new_profile w = \<lparr>pf_website_id = w, pf_detected_types = [], pf_confirmed_types = None, pf_params = [],
     pf_headless_result = None, pf_headless_checked_at = None\<rparr>"

definition get_or_create_profile :: "uuid \<Rightarrow> 'a plan_db_scheme \<Rightarrow> website_profile \<times> 'a plan_db_scheme" where
  "get_or_create_profile w db =
    (case profile_of db w of
       Some p \<Rightarrow> (p, db)
     | None \<Rightarrow> (new_profile w, db\<lparr>profiles := profiles db @ [new_profile w]\<rparr>))"

definition record_state_change ::
  "uuid \<Rightarrow> string \<Rightarrow> item_state option \<Rightarrow> item_state \<Rightarrow> json_dict \<Rightarrow> datetime \<Rightarrow> item_event list \<Rightarrow> item_event list" where
  "record_state_change w item_id previous current evidence moment events =
    (if previous = Some current then events
     else if previous = None \<and> current = S_not_applicable then events
     else events @ [\<lparr>ev_website_id = w, ev_item_id = item_id, ev_from_state = previous, ev_to_state = current,
       ev_at = moment, ev_evidence = evidence\<rparr>])"

definition safe_read :: "'a reading \<Rightarrow> ('a option \<times> string option) result" where
  "safe_read r = (case r of
       Inr x \<Rightarrow> Inr (Some x, None)
     | Inl (Read_reason reason) \<Rightarrow> Inr (None, Some reason)
     | Inl (Crash e) \<Rightarrow> Inl e)"

definition robots_ok_of :: "page_snapshot option \<Rightarrow> bool option" where
  "robots_ok_of robots =
    (case robots of None \<Rightarrow> None
     | Some r \<Rightarrow>
       if pg_status r = 200 then (if html_response r then None else Some True)
       else if pg_status r \<in> {404, 410} then Some False
       else None)"

definition page_facts :: "page_snapshot option \<Rightarrow> string option \<times> string option" where
  "page_facts page =
    (case page of None \<Rightarrow> (None, Some ''fetch_error'')
     | Some p \<Rightarrow>
       if 400 \<le> pg_status p then (None, Some ''http_error'')
       else if \<not> html_response p then (None, Some ''non_html'')
       else (Some (pg_html p), None))"

section \<open>Collecting\<close>

record google_reader =
  gr_gsc_state :: string
  gr_event_stats :: "event_stats reading"
  gr_key_events :: "json list reading"
  gr_ads_links_count :: "int reading"
  gr_sitemaps_count :: "int reading"

definition http_google_reader :: "http_client \<Rightarrow> http_reader \<Rightarrow> google_reader" where
  "http_google_reader http rd = \<lparr>gr_gsc_state = rd_gsc_state rd, gr_event_stats = read_event_stats http rd,
     gr_key_events = read_key_events http rd, gr_ads_links_count = read_ads_links_count http rd,
     gr_sitemaps_count = read_sitemaps_count http rd\<rparr>"

record google_answers =
  ga_stats :: "event_stats option \<times> string option"
  ga_key_events :: "json list option \<times> string option"
  ga_ads :: "int option \<times> string option"
  ga_sitemaps :: "int option \<times> string option"

definition dead_token :: "string option \<Rightarrow> bool" where
  "dead_token reason = (case reason of None \<Rightarrow> False | Some r \<Rightarrow> r \<in> set DEAD_TOKEN_REASONS)"

definition read_google :: "google_reader \<Rightarrow> google_answers result" where
  "read_google reader =
     try_bind (safe_read (gr_event_stats reader)) (\<lambda>stats.
     try_bind (if dead_token (snd stats) then Inr (None, snd stats) else safe_read (gr_key_events reader)) (\<lambda>keys.
     try_bind (if dead_token (snd stats) then Inr (None, snd stats) else safe_read (gr_ads_links_count reader)) (\<lambda>ads.
     try_bind (safe_read (gr_sitemaps_count reader)) (\<lambda>sitemaps.
       Inr \<lparr>ga_stats = stats, ga_key_events = keys, ga_ads = ads, ga_sitemaps = sitemaps\<rparr>))))"

text \<open>The browser: an explicit action, once in five minutes; a result older than a day is no observation.\<close>

definition kept_headless :: "datetime \<Rightarrow> website_profile \<Rightarrow> headless_facts option" where
  "kept_headless now p =
    (case facts_from_dict (pf_headless_result p) of None \<Rightarrow> None
     | Some h \<Rightarrow> (case pf_headless_checked_at p of None \<Rightarrow> None
         | Some kept_at \<Rightarrow> if HEADLESS_MAX_AGE < now - kept_at then None else Some h))"

definition cooling_down :: "datetime \<Rightarrow> website_profile \<Rightarrow> bool" where
  "cooling_down now p = (case pf_headless_checked_at p of None \<Rightarrow> False | Some previous \<Rightarrow> now - previous < COOLDOWN)"

definition run_browser ::
  "(string \<Rightarrow> headless_result) \<Rightarrow> string \<Rightarrow> bool \<Rightarrow> datetime \<Rightarrow> website_profile \<Rightarrow>
   headless_facts option \<times> website_profile \<times> refresh_result" where
  "run_browser verifier base_url run_headless now p =
    (let quiet = \<lparr>rf_headless_ran = False, rf_headless_skipped = False, rf_headless_error = None\<rparr>
     in if \<not> run_headless then (kept_headless now p, p, quiet)
        else if cooling_down now p then (kept_headless now p, p, quiet\<lparr>rf_headless_skipped := True\<rparr>)
        else case facts_from_result (verifier base_url) of
            Some h \<Rightarrow> (Some h, p\<lparr>pf_headless_result := Some (facts_to_dict h), pf_headless_checked_at := Some now\<rparr>,
              quiet\<lparr>rf_headless_ran := True\<rparr>)
          | None \<Rightarrow> (kept_headless now p, p, quiet\<lparr>rf_headless_error := Some HEADLESS_ERROR_CODE\<rparr>))"

definition apply_tls_status :: "tls_status \<Rightarrow> website \<Rightarrow> website" where
  "apply_tls_status t w = w\<lparr>ws_ssl_status := Some (tl_status t), ws_ssl_expires_at := tl_expires_at t,
     ws_ssl_checked_at := Some (tl_checked_at t)\<rparr>"

definition check_tls_of :: "(string \<Rightarrow> tls_status) option \<Rightarrow> website \<Rightarrow> website" where
  "check_tls_of checker w = (case checker of None \<Rightarrow> w | Some check \<Rightarrow> apply_tls_status (check (ws_domain w)) w)"

definition uses_google_ads :: "website_profile \<Rightarrow> bool option" where
  "uses_google_ads p = (case jget (pf_params p) ''uses_google_ads'' of JNum (PyBool b) \<Rightarrow> Some b | _ \<Rightarrow> None)"

definition marked_done :: "item_status \<Rightarrow> bool" where
  "marked_done r = (jget (st_evidence r) ''manual_done'' = JBool True)"

definition manual_done_ids :: "uuid \<Rightarrow> item_status list \<Rightarrow> string list" where
  "manual_done_ids w rows = map st_item_id (filter (\<lambda>r. st_website_id r = w \<and> marked_done r) rows)"

section \<open>Recording\<close>

text \<open>The outcome of one item, then its row and the history.\<close>

definition item_outcome :: "facts \<Rightarrow> bool option \<Rightarrow> measurement_item \<Rightarrow> item_status option \<Rightarrow> outcome result" where
  "item_outcome f uses_ads item row =
    (if \<not> is_applicable item (fa_effective_types f) uses_ads
     then Inr (Outcome S_not_applicable (if mi_id item \<in> set (fa_manual_done f) then [(''manual_done'', JBool True)] else []) None)
     else case row of
         Some r \<Rightarrow> (if st_dismissed_at r \<noteq> None then Inr (Outcome S_dismissed (st_evidence r) None) else evaluate item f)
       | None \<Rightarrow> evaluate item f)"

definition status_row :: "uuid \<Rightarrow> string \<Rightarrow> outcome \<Rightarrow> datetime \<Rightarrow> datetime option \<Rightarrow> item_status" where
  "status_row w item_id out now dismissed = \<lparr>st_website_id = w, st_item_id = item_id, st_state = oc_state out,
     st_evidence = oc_evidence out, st_reason = oc_reason out, st_checked_at = now, st_dismissed_at = dismissed\<rparr>"

definition kept_dismissal :: "item_status option \<Rightarrow> datetime option" where
  "kept_dismissal row = (case row of None \<Rightarrow> None | Some r \<Rightarrow> st_dismissed_at r)"

text \<open>Adding a row to the session, or flushing the new columns of the row that was loaded.\<close>

definition put_status :: "item_status \<Rightarrow> item_status list \<Rightarrow> item_status list" where
  "put_status r rows =
    (if st_key r \<in> st_key ` set rows then update_rows (\<lambda>x. st_key x = st_key r) (\<lambda>_. r) rows else rows @ [r])"

definition refresh_item :: "uuid \<Rightarrow> datetime \<Rightarrow> facts \<Rightarrow> bool option \<Rightarrow> measurement_item \<Rightarrow>
    item_status list \<times> item_event list \<Rightarrow> (item_status list \<times> item_event list) result" where
  "refresh_item w now f uses_ads item st =
    (case st of (statuses, events) \<Rightarrow>
      let row = find_row (\<lambda>r. st_key r = (w, mi_id item)) statuses
      in try_bind (item_outcome f uses_ads item row) (\<lambda>out.
        Inr (put_status (status_row w (mi_id item) out now (kept_dismissal row)) statuses,
          record_state_change w (mi_id item) (map_option st_state row) (oc_state out) (oc_evidence out) now events)))"

fun refresh_items :: "uuid \<Rightarrow> datetime \<Rightarrow> facts \<Rightarrow> bool option \<Rightarrow> measurement_item list \<Rightarrow>
    item_status list \<times> item_event list \<Rightarrow> (item_status list \<times> item_event list) result" where
  "refresh_items w now f uses_ads [] st = Inr st"
| "refresh_items w now f uses_ads (item # items) st =
     try_bind (refresh_item w now f uses_ads item st) (refresh_items w now f uses_ads items)"

definition save_profile :: "website_profile \<Rightarrow> website_profile list \<Rightarrow> website_profile list" where
  "save_profile p ps = update_rows (\<lambda>x. pf_website_id x = pf_website_id p) (\<lambda>_. p) ps"

definition save_website :: "website \<Rightarrow> website list \<Rightarrow> website list" where
  "save_website w ws = update_rows (\<lambda>x. ws_id x = ws_id w) (\<lambda>_. w) ws"

text \<open>What the code asks the network, and the profile, the site and the facts it has after that.\<close>

record plan_services =
  pl_fetcher :: "string \<Rightarrow> bool \<Rightarrow> page_snapshot option"
  pl_reader :: google_reader
  pl_verifier :: "string \<Rightarrow> headless_result"
  pl_tls_checker :: "(string \<Rightarrow> tls_status) option"

definition detect_profile :: "string option \<Rightarrow> string list option \<Rightarrow> website \<Rightarrow> website_profile \<Rightarrow> website_profile" where
  "detect_profile html confirmed site p =
    (case (html, confirmed) of
       (Some h, None) \<Rightarrow> p\<lparr>pf_detected_types := detect_site_types h (ws_detected_stack site)\<rparr>
     | _ \<Rightarrow> p)"

definition base_url :: "website \<Rightarrow> string" where
  "base_url site = ''https://'' @ ws_domain site"

definition collect_facts :: "plan_services \<Rightarrow> website \<Rightarrow> website_profile \<Rightarrow> bool \<Rightarrow> datetime \<Rightarrow> string list \<Rightarrow>
    (facts \<times> website_profile \<times> website \<times> refresh_result) result" where
  "collect_facts sv site p0 run_headless now manual =
    (let confirmed = clean_confirmed_types (pf_confirmed_types p0);
         page = pl_fetcher sv (base_url site) (ws_allow_insecure_probe site);
         (html, page_error) = page_facts page;
         gtm = (if html \<noteq> None then map_option analyze_gtm page else None);
         p1 = detect_profile html confirmed site p0;
         robots = robots_ok_of (pl_fetcher sv (base_url site @ ''/robots.txt'') (ws_allow_insecure_probe site));
         (headless, p2, result) = run_browser (pl_verifier sv) (base_url site) run_headless now p1;
         site' = check_tls_of (pl_tls_checker sv) site
     in try_bind (read_google (pl_reader sv)) (\<lambda>g.
       Inr (\<lparr>fa_page_html = html, fa_page_error = page_error, fa_gtm = gtm, fa_headless = headless,
           fa_ga4_stats = fst (ga_stats g), fa_ga4_reason = snd (ga_stats g),
           fa_key_events = fst (ga_key_events g), fa_key_events_reason = snd (ga_key_events g),
           fa_ads_links_count = fst (ga_ads g), fa_ads_links_reason = snd (ga_ads g),
           fa_gsc_state = gr_gsc_state (pl_reader sv),
           fa_sitemaps_count = fst (ga_sitemaps g), fa_sitemaps_reason = snd (ga_sitemaps g),
           fa_robots_ok = robots, fa_robots_reason = (if robots = None then Some ''robots_unreadable'' else None),
           fa_ssl_status = ws_ssl_status site', fa_ssl_checked_at = map_option iso_datetime (ws_ssl_checked_at site'),
           fa_effective_types = resolve_effective_types (pf_detected_types p1) confirmed,
           fa_manual_done = manual\<rparr>, p2, site', result)))"

definition refresh_plan :: "plan_services \<Rightarrow> website \<Rightarrow> bool \<Rightarrow> datetime \<Rightarrow> 'a plan_db_scheme \<Rightarrow>
    ('a plan_db_scheme \<times> refresh_result) result" where
  "refresh_plan sv site run_headless now db0 =
    (let (p0, db) = get_or_create_profile (ws_id site) db0
     in try_bind (collect_facts sv site p0 run_headless now (manual_done_ids (ws_id site) (item_statuses db)))
       (\<lambda>(f, p, site', result).
     try_bind (refresh_items (ws_id site) now f (uses_google_ads p) ITEMS (item_statuses db, item_events db))
       (\<lambda>(statuses, events).
     Inr (db\<lparr>profiles := save_profile p (profiles db), websites := save_website site' (websites db),
         item_statuses := statuses, item_events := events\<rparr>, result))))"

end
