(* ===== verification/Measurement_Plan_Props.thy ===== *)
theory Measurement_Plan_Props
  imports Measurement_Plan
begin

text \<open>
  What a refresh of the plan guarantees: it returns when Google's answers can be converted, gives every item of the
  catalogue its row, keeps the marks people made and the history of each item replayable, ignores old results of the
  browser, and never reads a failure of Google as an absence.
\<close>

section \<open>One item\<close>

abbreviation row_at :: "item_status list \<Rightarrow> uuid \<times> string \<Rightarrow> item_status option" where
  "row_at rows k \<equiv> find_row (\<lambda>r. st_key r = k) rows"

lemma st_key_status_row [simp]: "st_key (status_row w i out now d) = (w, i)"
  by (simp add: st_key_def status_row_def)

lemma find_row_single: "find_row P [r] = (if P r then Some r else None)"
  by (simp add: find_row_def)

lemma row_at_update_other:
  "k \<noteq> st_key r \<Longrightarrow> row_at (update_rows (\<lambda>x. st_key x = st_key r) (\<lambda>_. r) rows) k = row_at rows k"
  by (induction rows) (auto simp: find_row_def update_rows_def)

lemma row_at_update_same:
  "st_key r \<in> st_key ` set rows \<Longrightarrow>
    row_at (update_rows (\<lambda>x. st_key x = st_key r) (\<lambda>_. r) rows) (st_key r) = Some r"
proof (induction rows)
  case (Cons x rows)
  then show ?case by (cases "st_key x = st_key r") (auto simp: find_row_def update_rows_def)
qed simp

lemma row_at_put: "row_at (put_status r rows) k = (if k = st_key r then Some r else row_at rows k)"
proof (cases "st_key r \<in> st_key ` set rows")
  case True
  then show ?thesis by (simp add: put_status_def row_at_update_other row_at_update_same)
next
  case False
  then have "row_at rows (st_key r) = None" unfolding find_row_None by (metis imageI)
  with False show ?thesis
    by (simp add: put_status_def find_row_append find_row_single split: option.splits)
qed

lemma uniq_put_status: "uniq_by st_key rows \<Longrightarrow> uniq_by st_key (put_status r rows)"
proof -
  have "map st_key (update_rows (\<lambda>x. st_key x = st_key r) (\<lambda>_. r) rows) = map st_key rows"
    by (auto simp: update_rows_def)
  then show "uniq_by st_key rows \<Longrightarrow> uniq_by st_key (put_status r rows)"
    by (auto simp: put_status_def uniq_by_def)
qed

lemma refresh_itemE:
  assumes "refresh_item w now f ads item (rows, events) = Inr (rows', events')"
  obtains out where "item_outcome f ads item (row_at rows (w, mi_id item)) = Inr out"
    "rows' = put_status (status_row w (mi_id item) out now (kept_dismissal (row_at rows (w, mi_id item)))) rows"
    "events' = record_state_change w (mi_id item) (map_option st_state (row_at rows (w, mi_id item))) (oc_state out)
      (oc_evidence out) now events"
  using assms by (auto simp: refresh_item_def Let_def)

lemma status_row_state [simp]: "st_state (status_row w i out now d) = oc_state out"
  by (simp add: status_row_def)

section \<open>All items\<close>

lemma refresh_items_other:
  "refresh_items w now f ads items (rows, events) = Inr (rows', events') \<Longrightarrow> \<forall>i \<in> set items. k \<noteq> (w, mi_id i) \<Longrightarrow>
    row_at rows' k = row_at rows k"
proof (induction items arbitrary: rows events)
  case (Cons item items)
  then obtain rows1 events1 where 1: "refresh_item w now f ads item (rows, events) = Inr (rows1, events1)"
    and 2: "refresh_items w now f ads items (rows1, events1) = Inr (rows', events')" by auto
  from 1 obtain out where "rows1 = put_status (status_row w (mi_id item) out now (kept_dismissal (row_at rows (w, mi_id item)))) rows"
    by (rule refresh_itemE)
  with Cons.prems(2) have "row_at rows1 k = row_at rows k" by (simp add: row_at_put)
  with Cons.IH [OF 2] Cons.prems(2) show ?case by simp
qed simp

lemma refresh_items_row:
  "refresh_items w now f ads items (rows, events) = Inr (rows', events') \<Longrightarrow> distinct (map mi_id items) \<Longrightarrow>
    item \<in> set items \<Longrightarrow>
    \<exists>out. item_outcome f ads item (row_at rows (w, mi_id item)) = Inr out \<and>
      row_at rows' (w, mi_id item) = Some (status_row w (mi_id item) out now (kept_dismissal (row_at rows (w, mi_id item))))"
proof (induction items arbitrary: rows events)
  case (Cons x items)
  then obtain rows1 events1 where 1: "refresh_item w now f ads x (rows, events) = Inr (rows1, events1)"
    and 2: "refresh_items w now f ads items (rows1, events1) = Inr (rows', events')" by auto
  from 1 obtain out where out: "item_outcome f ads x (row_at rows (w, mi_id x)) = Inr out"
    and rows1: "rows1 = put_status (status_row w (mi_id x) out now (kept_dismissal (row_at rows (w, mi_id x)))) rows"
    by (rule refresh_itemE)
  show ?case
  proof (cases "item = x")
    case True
    have "\<forall>i \<in> set items. (w, mi_id x) \<noteq> (w, mi_id i)" using Cons.prems(2) by auto
    from refresh_items_other [OF 2 this] show ?thesis
      using out by (simp add: True rows1 row_at_put)
  next
    case False
    with Cons.prems have i: "item \<in> set items" "distinct (map mi_id items)" "mi_id x \<notin> mi_id ` set items" by auto
    then have "mi_id item \<noteq> mi_id x" by (metis imageI)
    with Cons.IH [OF 2 i(2,1)] show ?thesis by (simp add: rows1 row_at_put)
  qed
qed simp

lemma refresh_items_uniq:
  "refresh_items w now f ads items (rows, events) = Inr (rows', events') \<Longrightarrow> uniq_by st_key rows \<Longrightarrow> uniq_by st_key rows'"
proof (induction items arbitrary: rows events)
  case (Cons x items)
  then obtain rows1 events1 where 1: "refresh_item w now f ads x (rows, events) = Inr (rows1, events1)"
    and 2: "refresh_items w now f ads items (rows1, events1) = Inr (rows', events')" by auto
  from 1 obtain out where "rows1 = put_status (status_row w (mi_id x) out now (kept_dismissal (row_at rows (w, mi_id x)))) rows"
    by (rule refresh_itemE)
  with Cons.prems(2) have "uniq_by st_key rows1" by (simp add: uniq_put_status)
  with Cons.IH [OF 2] show ?case by simp
qed simp

lemma item_outcome_returns:
  "item \<in> set ITEMS \<Longrightarrow> readable_facts f \<Longrightarrow> is_ok (item_outcome f ads item row)"
  by (simp add: item_outcome_def evaluate_returns split: option.splits)

lemma refresh_items_return:
  "set items \<subseteq> set ITEMS \<Longrightarrow> readable_facts f \<Longrightarrow> is_ok (refresh_items w now f ads items st)"
  by (induction items arbitrary: st)
    (auto simp: refresh_item_def Let_def split: prod.splits intro!: is_ok_bind item_outcome_returns)

section \<open>The history of an item\<close>

fun replays :: "item_state option \<Rightarrow> item_event list \<Rightarrow> item_state option \<Rightarrow> bool" where
  "replays s [] t = (s = t)"
| "replays s (e # es) t =
     (ev_from_state e = s \<and> Some (ev_to_state e) \<noteq> s \<and> replays (Some (ev_to_state e)) es t)"

definition history_of :: "item_event list \<Rightarrow> uuid \<times> string \<Rightarrow> item_event list" where
  "history_of events k = filter (\<lambda>e. (ev_website_id e, ev_item_id e) = k) events"

text \<open>
  The events of an item lead from nothing, or from a first observation as not concerned (which leaves no event), to
  the state of its row.
\<close>

definition replayable :: "item_event list \<Rightarrow> item_state option \<Rightarrow> bool" where
  "replayable es t = (replays None es t \<or> replays (Some S_not_applicable) es t)"

definition history_exact :: "item_status list \<Rightarrow> item_event list \<Rightarrow> bool" where
  "history_exact rows events = (uniq_by st_key rows \<and>
     (\<forall>k. replayable (history_of events k) (map_option st_state (row_at rows k))))"

lemma replays_snoc:
  "replays s (es @ [e]) t \<longleftrightarrow>
    (\<exists>m. replays s es m \<and> ev_from_state e = m \<and> Some (ev_to_state e) \<noteq> m \<and> t = Some (ev_to_state e))"
  by (induction es arbitrary: s) auto

lemma replays_None: "replays s es None \<longleftrightarrow> s = None \<and> es = []"
  by (cases es rule: rev_cases) (auto simp: replays_snoc)

lemma history_other:
  "k \<noteq> (w, i) \<Longrightarrow> history_of (record_state_change w i previous current ev now events) k = history_of events k"
  by (auto simp: history_of_def record_state_change_def)

lemma history_same:
  "history_of (record_state_change w i previous current ev now events) (w, i) =
    (if previous = Some current \<or> previous = None \<and> current = S_not_applicable then history_of events (w, i)
     else history_of events (w, i) @ [\<lparr>ev_website_id = w, ev_item_id = i, ev_from_state = previous,
       ev_to_state = current, ev_at = now, ev_evidence = ev\<rparr>])"
  by (simp add: history_of_def record_state_change_def)

lemma replayable_step:
  "replayable (history_of events (w, i)) previous \<Longrightarrow>
    replayable (history_of (record_state_change w i previous current ev now events) (w, i)) (Some current)"
  unfolding history_same replayable_def
  by (cases "previous = Some current"; cases "previous = None \<and> current = S_not_applicable")
    (auto simp: replays_snoc replays_None)

lemma history_exact_put:
  assumes "history_exact rows events" "st_key r = (w, i)"
  shows "history_exact (put_status r rows)
    (record_state_change w i (map_option st_state (row_at rows (w, i))) (st_state r) ev now events)"
  unfolding history_exact_def
proof (intro conjI allI)
  show "uniq_by st_key (put_status r rows)"
    using assms by (simp add: history_exact_def uniq_put_status)
  fix k
  have old: "replayable (history_of events k) (map_option st_state (row_at rows k))"
    using assms unfolding history_exact_def by blast
  show "replayable
      (history_of (record_state_change w i (map_option st_state (row_at rows (w, i))) (st_state r) ev now events) k)
      (map_option st_state (row_at (put_status r rows) k))"
  proof (cases "k = (w, i)")
    case True
    with replayable_step [OF old [unfolded True]] show ?thesis by (simp add: row_at_put assms(2))
  next
    case False
    with old show ?thesis by (simp add: history_other row_at_put assms(2))
  qed
qed

lemma history_exact_items:
  "refresh_items w now f ads items (rows, events) = Inr (rows', events') \<Longrightarrow> history_exact rows events \<Longrightarrow>
    history_exact rows' events'"
proof (induction items arbitrary: rows events)
  case (Cons x items)
  then obtain rows1 events1 where 1: "refresh_item w now f ads x (rows, events) = Inr (rows1, events1)"
    and 2: "refresh_items w now f ads items (rows1, events1) = Inr (rows', events')" by auto
  from 1 have "history_exact rows1 events1"
    using history_exact_put [OF Cons.prems(2), of "status_row w (mi_id x) out now d" w "mi_id x" for out d]
    by (elim refresh_itemE) (simp add: status_row_state)
  with Cons.IH [OF 2] show ?case by simp
qed simp

section \<open>A refresh\<close>

lemma get_or_create_profile_frame:
  assumes "get_or_create_profile w db = (p, db')"
  shows "item_statuses db' = item_statuses db" "item_events db' = item_events db" "websites db' = websites db"
    "pf_website_id p = w"
  using assms by (auto simp: get_or_create_profile_def new_profile_def profile_of_def split: option.splits dest: find_row_SomeD)

lemma refresh_planE:
  assumes "refresh_plan sv site run now db = Inr (db', res)"
  obtains p0 f p site' where
    "fst (get_or_create_profile (ws_id site) db) = p0"
    "collect_facts sv site p0 run now (manual_done_ids (ws_id site) (item_statuses db)) = Inr (f, p, site', res)"
    "refresh_items (ws_id site) now f (uses_google_ads p) ITEMS (item_statuses db, item_events db) =
       Inr (item_statuses db', item_events db')"
  using assms get_or_create_profile_frame [of "ws_id site" db]
  by (fastforce simp: refresh_plan_def Let_def split: prod.splits)

text \<open>
  C17: A refresh gives every item of the catalogue the state its evaluation on the collected facts has, with the
  moment of the check and the dismissal it had, and touches no other row: no item of another site, no item that is not
  in the catalogue.
\<close>

theorem refresh_updates_catalogue:
  assumes "refresh_plan sv site run now db = Inr (db', res)"
  shows "\<exists>f p site'. collect_facts sv site (fst (get_or_create_profile (ws_id site) db)) run now
        (manual_done_ids (ws_id site) (item_statuses db)) = Inr (f, p, site', res) \<and>
    (\<forall>item \<in> set ITEMS. \<exists>out.
      item_outcome f (uses_google_ads p) item (status_of db (ws_id site) (mi_id item)) = Inr out \<and>
      status_of db' (ws_id site) (mi_id item) = Some (status_row (ws_id site) (mi_id item) out now
        (kept_dismissal (status_of db (ws_id site) (mi_id item))))) \<and>
    (\<forall>w i. w \<noteq> ws_id site \<or> i \<notin> set (map mi_id ITEMS) \<longrightarrow> status_of db' w i = status_of db w i)"
proof -
  from assms obtain p0 f p site' where c: "fst (get_or_create_profile (ws_id site) db) = p0"
    "collect_facts sv site p0 run now (manual_done_ids (ws_id site) (item_statuses db)) = Inr (f, p, site', res)"
    and r: "refresh_items (ws_id site) now f (uses_google_ads p) ITEMS (item_statuses db, item_events db) =
      Inr (item_statuses db', item_events db')"
    by (rule refresh_planE)
  have "status_of db' w i = status_of db w i" if "w \<noteq> ws_id site \<or> i \<notin> set (map mi_id ITEMS)" for w i
    unfolding status_of_def by (rule refresh_items_other [OF r]) (use that in auto)
  with c refresh_items_row [OF r distinct_item_ids] show ?thesis
    unfolding status_of_def by blast
qed

section \<open>What people marked\<close>

definition marked_at :: "'a plan_db_scheme \<Rightarrow> uuid \<Rightarrow> string \<Rightarrow> bool" where
  "marked_at db w i = (case status_of db w i of None \<Rightarrow> False | Some r \<Rightarrow> marked_done r)"

lemma marked_in_ids:
  "status_of db w i = Some r \<Longrightarrow> marked_done r \<Longrightarrow> i \<in> set (manual_done_ids w (item_statuses db))"
  unfolding status_of_def manual_done_ids_def st_key_def by (drule find_row_SomeD) auto

lemma collect_facts_manual:
  "collect_facts sv site p run now manual = Inr (f, p', site', res) \<Longrightarrow> fa_manual_done f = manual"
  by (auto simp: collect_facts_def Let_def split: prod.splits)

lemma usable_facts_manual [simp]: "fa_manual_done (usable_facts f) = fa_manual_done f"
  by (simp add: usable_facts_def split: option.splits)

lemma evaluate_manual:
  "mi_check item = ''manual'' \<Longrightarrow> evaluate item f = Inr (check_manual item (usable_facts f))"
  by (simp add: evaluate_def Let_def PAGE_KINDS_def dict_get_def CHECKS_def)

lemma jget_mark [simp]: "jget [(''manual_done'', v)] ''manual_done'' = v"
  by simp

lemma item_outcome_marked:
  assumes "item_outcome f ads item row = Inr out" "mi_check item = ''manual''" "mi_id item \<in> set (fa_manual_done f)"
    "row = Some r" "marked_done r"
  shows "jget (oc_evidence out) ''manual_done'' = JBool True"
  using assms by (auto simp: item_outcome_def evaluate_manual check_manual_def marked_done_def split: if_splits)

text \<open>
  C19: What people decided survives a refresh: an item dismissed stays dismissed, and a manual item marked as done is
  still marked, also while the item does not concern the site.
\<close>

theorem marks_survive_refresh:
  assumes "refresh_plan sv site run now db = Inr (db', res)" "item \<in> set ITEMS"
    "status_of db (ws_id site) (mi_id item) = Some row"
  shows "(st_dismissed_at row \<noteq> None \<longrightarrow>
      (\<exists>row'. status_of db' (ws_id site) (mi_id item) = Some row' \<and> st_dismissed_at row' = st_dismissed_at row \<and>
        st_state row' \<in> {S_dismissed, S_not_applicable})) \<and>
    (mi_check item = ''manual'' \<and> marked_done row \<longrightarrow> marked_at db' (ws_id site) (mi_id item))"
proof -
  let ?w = "ws_id site"
  from refresh_updates_catalogue [OF assms(1)] assms(2,3) obtain f p site' out where
    c: "collect_facts sv site (fst (get_or_create_profile ?w db)) run now (manual_done_ids ?w (item_statuses db)) =
      Inr (f, p, site', res)"
    and o: "item_outcome f (uses_google_ads p) item (Some row) = Inr out"
    and n: "status_of db' ?w (mi_id item) = Some (status_row ?w (mi_id item) out now (st_dismissed_at row))"
    by (auto simp: kept_dismissal_def)
  have "st_dismissed_at row \<noteq> None \<longrightarrow> oc_state out \<in> {S_dismissed, S_not_applicable}"
    using o by (auto simp: item_outcome_def split: if_splits)
  moreover have "mi_check item = ''manual'' \<and> marked_done row \<longrightarrow> jget (oc_evidence out) ''manual_done'' = JBool True"
    using item_outcome_marked [OF o] marked_in_ids [OF assms(3)] collect_facts_manual [OF c] by simp
  ultimately show ?thesis
    by (simp add: n status_row_def marked_at_def marked_done_def)
qed

section \<open>Failures of Google\<close>

text \<open>An answer nothing can be read from: no answer, an error status, no JSON, or no JSON object.\<close>

definition unreadable :: "http_response option \<Rightarrow> bool" where
  "unreadable answer = (case answer of None \<Rightarrow> True
     | Some r \<Rightarrow> 400 \<le> hr_status r \<or> (case hr_json r of None \<Rightarrow> True | Some j \<Rightarrow> \<not> is_dict j))"

definition reason_only :: "'a reading \<Rightarrow> bool" where
  "reason_only r = (case r of Inl (Read_reason reason) \<Rightarrow> True | _ \<Rightarrow> False)"

lemma reason_only_simps [simp]:
  "reason_only (Inl (Read_reason r))" "\<not> reason_only (Inl (Crash e))" "\<not> reason_only (Inr x)"
  by (simp_all add: reason_only_def)

lemma reason_only_bind: "reason_only m \<Longrightarrow> reason_only (try_bind m f)"
  by (cases m) (auto simp: reason_only_def)

lemma items_of_not_dict: "\<not> is_dict j \<Longrightarrow> items_of j key = Inl (Read_reason ''api_error'')"
  by (cases j) (simp_all add: items_of_def)

lemma raise_for_status_error: "400 \<le> hr_status r \<Longrightarrow> reason_only (raise_for_status r)"
  by (simp add: raise_for_status_def Let_def)

lemma raise_for_status_ok: "hr_status r < 400 \<Longrightarrow> raise_for_status r = Inr ()"
  by (simp add: raise_for_status_def Let_def)

lemma unreadable_request:
  assumes "unreadable (http m u t b)" "\<And>j. \<not> is_dict j \<Longrightarrow> reason_only (use j)"
  shows "reason_only (try_bind (read_request http m u t b) use)"
proof (cases "http m u t b")
  case (Some r)
  show ?thesis
  proof (cases "400 \<le> hr_status r")
    case True
    from raise_for_status_error [OF True] show ?thesis
      unfolding read_request_def by (simp add: Some reason_only_bind)
  next
    case False
    then show ?thesis using assms
      by (auto simp: read_request_def Some raise_for_status_ok unreadable_def split: option.splits)
  qed
qed (simp add: read_request_def)

lemma access_error:
  "ga4_access rd = Inl e \<Longrightarrow> \<exists>r. e = Read_reason r" "gsc_access rd = Inl e \<Longrightarrow> \<exists>r. e = Read_reason r"
  by (auto simp: ga4_access_def gsc_access_def split: option.splits list.splits)

lemma unreadable_readings:
  assumes "\<And>m u t b. unreadable (http m u t b)"
  shows "reason_only (read_event_stats http rd)" "reason_only (read_key_events http rd)"
    "reason_only (read_ads_links_count http rd)" "reason_only (read_sitemaps_count http rd)"
proof -
  have r: "reason_only (try_bind (read_request http m u t b) use)"
    if "\<And>j. \<not> is_dict j \<Longrightarrow> reason_only (use j)" for m u t b and use :: "json \<Rightarrow> 'b reading"
    by (rule unreadable_request [where use = use]) (use assms that in auto)
  show "reason_only (read_event_stats http rd)"
    unfolding read_event_stats_def
    by (cases "ga4_access rd") (auto simp: items_of_not_dict parse_event_stats_def dest: access_error intro!: r)
  show "reason_only (read_key_events http rd)"
    unfolding read_key_events_def
    by (cases "ga4_access rd") (auto simp: items_of_not_dict dest: access_error intro!: r)
  show "reason_only (read_ads_links_count http rd)"
    unfolding read_ads_links_count_def
    by (cases "ga4_access rd") (auto simp: items_of_not_dict dest: access_error intro!: r)
  show "reason_only (read_sitemaps_count http rd)"
    unfolding read_sitemaps_count_def
    by (cases "gsc_access rd") (auto simp: items_of_not_dict dest: access_error intro!: r)
qed

lemma safe_read_reason: "reason_only r \<Longrightarrow> \<exists>reason. safe_read r = Inr (None, Some reason)"
  by (cases r) (auto simp: safe_read_def reason_only_def split: read_error.splits)

definition nothing_read :: "google_answers \<Rightarrow> bool" where
  "nothing_read g = (fst (ga_stats g) = None \<and> fst (ga_key_events g) = None \<and> fst (ga_ads g) = None \<and>
     fst (ga_sitemaps g) = None)"

lemma read_google_unreadable:
  assumes "\<And>m u t b. unreadable (http m u t b)"
  shows "\<exists>g. read_google (http_google_reader http rd) = Inr g \<and> nothing_read g"
proof -
  from unreadable_readings [where http = http and rd = rd, OF assms] obtain r1 r2 r3 r4 where
    "safe_read (read_event_stats http rd) = Inr (None, Some r1)"
    "safe_read (read_key_events http rd) = Inr (None, Some r2)"
    "safe_read (read_ads_links_count http rd) = Inr (None, Some r3)"
    "safe_read (read_sitemaps_count http rd) = Inr (None, Some r4)"
    by (metis safe_read_reason)
  then show ?thesis
    by (simp add: read_google_def http_google_reader_def nothing_read_def)
qed

lemma collect_facts_google:
  assumes "collect_facts sv site p run now manual = Inr (f, p', site', res)"
  obtains g where "read_google (pl_reader sv) = Inr g" "fa_ga4_stats f = fst (ga_stats g)"
    "fa_key_events f = fst (ga_key_events g)" "fa_ads_links_count f = fst (ga_ads g)"
    "fa_sitemaps_count f = fst (ga_sitemaps g)"
  using assms by (auto simp: collect_facts_def Let_def split: prod.splits)

lemma collect_facts_returns:
  "is_ok (read_google (pl_reader sv)) \<Longrightarrow> is_ok (collect_facts sv site p run now manual)"
  by (auto simp: collect_facts_def Let_def split: prod.splits intro!: is_ok_bind)

definition GOOGLE_CHECKS :: "string list" where
  "GOOGLE_CHECKS = [''event'', ''purchase_params'', ''key_events'', ''key_events_value'', ''ads_link'', ''gsc_sitemaps'']"

lemma google_check_states:
  assumes "(name, check) \<in> set CHECKS" "name \<in> set GOOGLE_CHECKS" "check item f = Inr out"
    "fa_ga4_stats f = None" "fa_key_events f = None" "fa_ads_links_count f = None" "fa_sitemaps_count f = None"
  shows "oc_state out \<in> {S_on_page, S_unverifiable}"
  using assms unfolding CHECKS_def GOOGLE_CHECKS_def
  by (simp, elim disjE conjE; clarsimp simp: check_defs Let_def split: if_splits)

lemma usable_facts_google [simp]:
  "fa_ga4_stats (usable_facts f) = fa_ga4_stats f" "fa_key_events (usable_facts f) = fa_key_events f"
  "fa_ads_links_count (usable_facts f) = fa_ads_links_count f" "fa_sitemaps_count (usable_facts f) = fa_sitemaps_count f"
  by (simp_all add: usable_facts_def split: option.splits)


section \<open>The browser\<close>

lemma facts_dict_roundtrip: "facts_from_dict (Some (facts_to_dict h)) = Some h"
  by (simp add: facts_from_dict_def facts_to_dict_def empty_headless_json_def or_default_def)

lemma kept_headless_stored:
  "kept_headless now' (p\<lparr>pf_headless_result := Some (facts_to_dict h), pf_headless_checked_at := Some now\<rparr>) =
    (if HEADLESS_MAX_AGE < now' - now then None else Some h)"
  by (simp add: kept_headless_def facts_dict_roundtrip)

text \<open>
  A result of the browser counts for a day and the browser is started at most once in five minutes. After a
  run that succeeded, a later refresh without a run has exactly the facts that run observed for 24 hours, and none after
  that; asked to run again within five minutes it is skipped, whatever the browser would have answered, with those same
  facts; a run that fails is reported by its stable code and changes nothing.
\<close>

lemma browser_result_lifetime:
  assumes "run_browser verifier url run now p = (h, p', r)"
  shows "(rf_headless_ran r \<longrightarrow>
      h = facts_from_result (verifier url) \<and> h \<noteq> None \<and>
      (\<forall>verifier' now'. now \<le> now' \<longrightarrow>
        fst (run_browser verifier' url False now' p') = (if now' - now \<le> hours 24 then h else None) \<and>
        (now' - now < minutes 5 \<longrightarrow> (\<exists>r'. run_browser verifier' url True now' p' = (h, p', r') \<and>
          \<not> rf_headless_ran r' \<and> rf_headless_skipped r')))) \<and>
    (\<not> rf_headless_ran r \<longrightarrow> p' = p \<and> h = kept_headless now p) \<and>
    (rf_headless_error r \<noteq> None \<longrightarrow> rf_headless_error r = Some HEADLESS_ERROR_CODE \<and> \<not> rf_headless_ran r)"
proof (cases "rf_headless_ran r")
  case True
  then obtain x where x: "facts_from_result (verifier url) = Some x" "h = Some x"
    "p' = p\<lparr>pf_headless_result := Some (facts_to_dict x), pf_headless_checked_at := Some now\<rparr>" "rf_headless_error r = None"
    using assms by (auto simp: run_browser_def Let_def split: if_splits option.splits)
  have "kept_headless now' p' = (if now' - now \<le> hours 24 then h else None)" for now'
    unfolding x(2,3) kept_headless_stored HEADLESS_MAX_AGE_def by (simp add: not_less)
  moreover have "cooling_down now' p' = (now' - now < minutes 5)" for now'
    by (simp add: x(3) cooling_down_def COOLDOWN_def)
  moreover have "minutes 5 \<le> hours 24" by (simp add: duration_defs)
  ultimately show ?thesis using True x
    by (auto simp: run_browser_def Let_def)
next
  case False
  then show ?thesis using assms
    by (auto simp: run_browser_def Let_def split: if_splits option.splits)
qed

section \<open>A refresh returns\<close>

definition readable_answers :: "google_answers \<Rightarrow> bool" where
  "readable_answers g =
    ((case fst (ga_stats g) of None \<Rightarrow> True | Some stats \<Rightarrow> list_all (\<lambda>(n, s). is_finite (es_count s)) stats) \<and>
     (case fst (ga_key_events g) of None \<Rightarrow> True
      | Some es \<Rightarrow> list_all (\<lambda>e. readable_name (jget e ''eventName'') \<and> readable_value e) (dicts_of es)))"

lemma readable_collected:
  assumes "collect_facts sv site p run now manual = Inr (f, p', site', res)"
    "read_google (pl_reader sv) = Inr g" "readable_answers g"
  shows "readable_facts f"
  using assms by (auto simp: readable_answers_def readable_facts_def elim!: collect_facts_google)

lemma refresh_returns:
  assumes "read_google (pl_reader sv) = Inr g" "readable_answers g"
  shows "is_ok (refresh_plan sv site run now db)"
proof -
  obtain p0 db1 where p0: "get_or_create_profile (ws_id site) db = (p0, db1)" by fastforce
  obtain f p site' res where f: "collect_facts sv site p0 run now (manual_done_ids (ws_id site) (item_statuses db1)) =
      Inr (f, p, site', res)"
    using collect_facts_returns [of sv] assms(1) by (force simp: is_ok_iff)
  from readable_collected [OF f assms] have "is_ok (refresh_items (ws_id site) now f (uses_google_ads p) ITEMS
      (item_statuses db1, item_events db1))"
    by (simp add: refresh_items_return)
  then show ?thesis
    by (auto simp: refresh_plan_def p0 f is_ok_iff)
qed

section \<open>A site nothing can be read from\<close>

definition shop_site :: website where
  "shop_site = \<lparr>ws_id = 7, ws_workspace_id = 9, ws_domain = ''exemple.fr'', ws_display_name = [], ws_detected_stack = None, ws_stack_label = None,
     ws_allow_insecure_probe = False, ws_ssl_status = None, ws_ssl_expires_at = None, ws_ssl_checked_at = None,
     ws_archived_at = None\<rparr>"

definition no_network :: http_client where
  "no_network m u t b = None"

definition connected_reader :: http_reader where
  "connected_reader = \<lparr>rd_ga4_token = Some ''token'', rd_ga4_property = Some ''properties/1'', rd_gsc_token = Some ''token'',
     rd_gsc_site = Some ''sc-domain:exemple.fr'', rd_gsc_state = ''linked''\<rparr>"

definition browser_run :: headless_result where
  "browser_run = \<lparr>hl_gtm_js_loaded = True, hl_containers_initialised = [''GTM-ABCD''], hl_gtm_events = [],
     hl_ga4_measurement_ids = [], hl_ads_requests = 0, hl_consent_default_seen = False, hl_checked_at = 0,
     hl_error = None\<rparr>"

definition offline :: plan_services where
  "offline = \<lparr>pl_fetcher = \<lambda>url insecure. None, pl_reader = http_google_reader no_network connected_reader,
     pl_verifier = \<lambda>url. browser_run, pl_tls_checker = None\<rparr>"

definition plan_db_with :: "item_status list \<Rightarrow> plan_db" where
  "plan_db_with rows = \<lparr>job_runs = [], schedules = [], websites = [shop_site], quota_events = [], metric_points = [],
     metric_rollups = [], catalogue = [], profiles = [], item_statuses = rows, item_events = [], google_links = [],
     google_connections = []\<rparr>"

lemma offline_unreadable: "unreadable (no_network m u t b)"
  by (simp add: unreadable_def no_network_def)

lemma offline_returns: "is_ok (refresh_plan offline site run now db)"
proof -
  obtain g where g: "read_google (pl_reader offline) = Inr g" "nothing_read g"
    using read_google_unreadable [where http = no_network and rd = connected_reader, OF offline_unreadable]
    by (auto simp: offline_def)
  then show ?thesis by (intro refresh_returns [OF g(1)]) (simp add: readable_answers_def nothing_read_def)
qed

lemma offline_refresh:
  obtains db' res where "refresh_plan offline shop_site False 5 (plan_db_with rows) = Inr (db', res)"
  using offline_returns [of shop_site False 5 "plan_db_with rows"] by (auto simp: is_ok_iff)

lemma empty_history: "history_exact [] []"
  by (simp add: history_exact_def uniq_by_def replayable_def history_of_def find_row_def)

theorem refresh_updates_catalogue_witness:
  "\<exists>db' res row. refresh_plan offline shop_site False 5 (plan_db_with []) = Inr (db', res) \<and>
    status_of db' 7 ''robots_txt'' = Some row \<and> st_checked_at row = 5"
proof -
  obtain db' res where r: "refresh_plan offline shop_site False 5 (plan_db_with []) = Inr (db', res)"
    by (rule offline_refresh)
  from refresh_updates_catalogue [OF r] item_in_catalogue show ?thesis
    using r by (fastforce simp: shop_site_def item_robots_txt_def status_row_def)
qed

definition marked_row :: item_status where
  "marked_row = \<lparr>st_website_id = 7, st_item_id = ''ads_auto_tagging'', st_state = S_dismissed,
     st_evidence = [(''manual_done'', JBool True)], st_reason = None, st_checked_at = 1, st_dismissed_at = Some 3\<rparr>"

lemma marked_row_found: "status_of (plan_db_with [marked_row]) (ws_id shop_site) (mi_id item_ads_auto_tagging) = Some marked_row"
  by (simp add: status_of_def plan_db_with_def find_row_def st_key_def marked_row_def shop_site_def item_ads_auto_tagging_def)

lemma auto_tagging_in_catalogue: "item_ads_auto_tagging \<in> set ITEMS"
  by (simp add: ITEMS_def layer_items_defs)

theorem marks_survive_refresh_witness:
  "\<exists>db' res row'. refresh_plan offline shop_site False 5 (plan_db_with [marked_row]) = Inr (db', res) \<and>
    status_of db' 7 ''ads_auto_tagging'' = Some row' \<and> st_dismissed_at row' = Some 3 \<and> marked_at db' 7 ''ads_auto_tagging''"
proof -
  obtain db' res where r: "refresh_plan offline shop_site False 5 (plan_db_with [marked_row]) = Inr (db', res)"
    by (rule offline_refresh)
  from marks_survive_refresh [OF r auto_tagging_in_catalogue marked_row_found] r show ?thesis
    by (auto simp: marked_row_def marked_done_def shop_site_def item_ads_auto_tagging_def)
qed


lemma browser_result_lifetime_witness:
  "\<exists>h p' r. run_browser (\<lambda>url. browser_run) ''https://exemple.fr'' True 5 (new_profile 7) = (Some h, p', r) \<and>
    fst (run_browser (\<lambda>url. browser_run) ''https://exemple.fr'' False 6 p') = Some h"
proof -
  obtain h p' r where b: "run_browser (\<lambda>url. browser_run) ''https://exemple.fr'' True 5 (new_profile 7) = (h, p', r)"
    by (metis prod_cases3)
  then have ran: "rf_headless_ran r" "h \<noteq> None"
    by (auto simp: run_browser_def cooling_down_def new_profile_def facts_from_result_def browser_run_def Let_def)
  with browser_result_lifetime [OF b] have "fst (run_browser (\<lambda>url. browser_run) ''https://exemple.fr'' False 6 p') = h"
    by (simp add: duration_defs)
  with b ran(2) show ?thesis by auto
qed

end
