(* ===== verification/Measurement_View.thy ===== *)
theory Measurement_View
  imports Measurement_Plan_Props
begin

text \<open>
  The view of the plan the API serves (\<open>build_plan_view\<close> of \<open>app/services/measurement/service.py\<close>): the items in the
  order of their layers, how far each layer is, and what to do next. The lemmas say that every item of the
  catalogue is shown once, that the totals count the items shown, and that the next actions are the most useful ones.
\<close>

section \<open>Items shown\<close>

definition is_done :: "measurement_item \<Rightarrow> item_state \<Rightarrow> bool" where
  "is_done item state = (state = S_received \<or> (state = S_on_page \<and> mi_max_level item = L_on_page))"

definition snippet_dict :: "measurement_item \<Rightarrow> website \<Rightarrow> item_snippet option result" where
  "snippet_dict item site =
    (if A_snippet \<notin> set (mi_actions item) then Inr None
     else case mi_snippet_event item of
         Some (c # cs) \<Rightarrow> snippet_for_event (c # cs) (ws_detected_stack site)
       | _ \<Rightarrow> Inr None)"

record item_view =
  iv_id :: string
  iv_layer :: layer
  iv_title :: string
  iv_why :: string
  iv_weight :: int
  iv_quick_win :: bool
  iv_max_level :: level
  iv_state :: item_state
  iv_done :: bool
  iv_partial :: bool
  iv_reason :: "string option"
  iv_evidence :: json_dict
  iv_checked_at :: "datetime option"
  iv_guide :: "string list"
  iv_actions :: "action_kind list"
  iv_snippet :: "item_snippet option"

definition state_shown :: "item_status option \<Rightarrow> item_state" where
  "state_shown row = (case row of None \<Rightarrow> S_unknown | Some r \<Rightarrow> st_state r)"

definition item_view_of :: "website \<Rightarrow> measurement_item \<Rightarrow> item_status option \<Rightarrow> item_view result" where
  "item_view_of site item row =
    (let state = state_shown row
     in try_bind (snippet_dict item site) (\<lambda>s.
       Inr \<lparr>iv_id = mi_id item, iv_layer = mi_layer item, iv_title = mi_title item, iv_why = mi_why item,
         iv_weight = mi_weight item, iv_quick_win = mi_quick_win item, iv_max_level = mi_max_level item,
         iv_state = state, iv_done = is_done item state,
         iv_partial = (state = S_on_page \<and> mi_max_level item = L_received),
         iv_reason = (case row of None \<Rightarrow> None | Some r \<Rightarrow> st_reason r),
         iv_evidence = (case row of None \<Rightarrow> [] | Some r \<Rightarrow> st_evidence r),
         iv_checked_at = map_option st_checked_at row,
         iv_guide = mi_guide item, iv_actions = mi_actions item, iv_snippet = s\<rparr>))"

definition counted :: "item_state \<Rightarrow> bool" where
  "counted state = (state \<notin> {S_not_applicable, S_dismissed})"

section \<open>Next actions\<close>

definition open_action :: "item_view \<Rightarrow> bool" where
  "open_action v = (\<not> iv_done v \<and> counted (iv_state v))"

definition action_rank :: "item_view \<Rightarrow> int \<times> int \<times> int" where
  "action_rank v = (if iv_state v \<in> {S_missing, S_unknown} then 0 else 1,
     - (iv_weight v + (if iv_quick_win v then 25 else 0)), layer_index (iv_layer v))"

definition next_action_ids :: "nat \<Rightarrow> item_view list \<Rightarrow> string list" where
  "next_action_ids limit items = map iv_id (take limit (sort_key action_rank (filter open_action items)))"

section \<open>The plan\<close>

text \<open>The totals of the layers as the loop updates them, and the latest check seen.\<close>

type_synonym layer_totals = "(layer \<times> int \<times> int) list"

definition no_totals :: layer_totals where
  "no_totals = map (\<lambda>l. (l, 0, 0)) LAYER_ORDER"

definition add_total :: "item_view \<Rightarrow> layer_totals \<Rightarrow> layer_totals" where
  "add_total v totals =
    (if counted (iv_state v)
     then map (\<lambda>(l, t, d). if l = iv_layer v then (l, t + 1, d + (if iv_done v then 1 else 0)) else (l, t, d)) totals
     else totals)"

definition later_check :: "item_view \<Rightarrow> datetime option \<Rightarrow> datetime option" where
  "later_check v last_checked =
    (case (iv_checked_at v, last_checked) of
       (None, _) \<Rightarrow> last_checked
     | (Some t, None) \<Rightarrow> Some t
     | (Some t, Some u) \<Rightarrow> if u < t then Some t else Some u)"

fun view_items :: "website \<Rightarrow> (string \<Rightarrow> item_status option) \<Rightarrow> measurement_item list \<Rightarrow> item_view list result" where
  "view_items site row [] = Inr []"
| "view_items site row (item # items) =
     try_bind (item_view_of site item (row (mi_id item))) (\<lambda>v.
     try_bind (view_items site row items) (\<lambda>vs. Inr (v # vs)))"

definition ordered_items :: "measurement_item list" where
  "ordered_items = sort_key (\<lambda>i. (layer_index (mi_layer i), - mi_weight i)) ITEMS"

record plan_view =
  pv_website_id :: uuid
  pv_detected_types :: "type_guess list"
  pv_confirmed_types :: "string list option"
  pv_effective_types :: "string list"
  pv_needs_confirmation :: bool
  pv_params :: json_dict
  pv_ga4_connected :: bool
  pv_gsc_linked :: bool
  pv_google_connection :: string
  pv_next_actions :: "string list"
  pv_last_checked_at :: "datetime option"
  pv_headless_checked_at :: "datetime option"
  pv_overall_done :: int
  pv_overall_total :: int
  pv_overall_percent :: int
  pv_layers :: layer_totals
  pv_items :: "item_view list"

definition linked_types :: "'a plan_db_scheme \<Rightarrow> uuid \<Rightarrow> resource_type list" where
  "linked_types db w = map gl_resource_type (filter (\<lambda>l. gl_website_id l = w) (google_links db))"

definition connection_shown :: "'a plan_db_scheme \<Rightarrow> uuid \<Rightarrow> string" where
  "connection_shown db ws =
    (let statuses = map gn_status (filter (\<lambda>c. gn_workspace_id c = ws) (google_connections db))
     in if Conn_active \<in> set statuses then ''active''
        else if Conn_needs_reauth \<in> set statuses then ''needs_reauth'' else ''none'')"

definition shown_params :: "json_dict \<Rightarrow> json_dict" where
  "shown_params params = map (\<lambda>k. (k, jget params k))
     [''ads_conversion_id'', ''ads_conversion_label'', ''uses_google_ads'', ''ga4_measurement_id'']"

definition build_plan_view :: "'a plan_db_scheme \<Rightarrow> website \<Rightarrow> plan_view result" where
  "build_plan_view db site =
    (let profile = profile_of db (ws_id site);
         detected = (case profile of None \<Rightarrow> [] | Some p \<Rightarrow> pf_detected_types p);
         confirmed = (case profile of None \<Rightarrow> None | Some p \<Rightarrow> clean_confirmed_types (pf_confirmed_types p));
         params = (case profile of None \<Rightarrow> [] | Some p \<Rightarrow> pf_params p)
     in try_bind (view_items site (status_of db (ws_id site)) ordered_items) (\<lambda>items.
       let totals = fold add_total items no_totals;
           last_checked = fold later_check items None;
           overall_total = sum_list (map (\<lambda>(l, t, d). t) totals);
           overall_done = sum_list (map (\<lambda>(l, t, d). d) totals)
       in Inr \<lparr>pv_website_id = ws_id site, pv_detected_types = detected, pv_confirmed_types = confirmed,
         pv_effective_types = resolve_effective_types detected confirmed,
         pv_needs_confirmation = (confirmed = None), pv_params = shown_params params,
         pv_ga4_connected = (Ga4_property \<in> set (linked_types db (ws_id site))),
         pv_gsc_linked = (Gsc_site \<in> set (linked_types db (ws_id site))),
         pv_google_connection = connection_shown db (ws_workspace_id site),
         pv_next_actions = (if last_checked = None then [] else next_action_ids 3 items),
         pv_last_checked_at = last_checked,
         pv_headless_checked_at = (case profile of None \<Rightarrow> None | Some p \<Rightarrow> pf_headless_checked_at p),
         pv_overall_done = overall_done, pv_overall_total = overall_total,
         pv_overall_percent = (if overall_total = 0 then 0 else py_round (of_int (100 * overall_done) / of_int overall_total)),
         pv_layers = totals, pv_items = items\<rparr>))"

section \<open>The view returns, with every item\<close>

lemma item_view_ok: "is_ok (item_view_of site item row)"
  by (auto simp: item_view_of_def Let_def snippet_dict_def snippet_for_event_ok
    split: option.splits list.splits intro!: is_ok_bind)

lemma view_items_ok: "is_ok (view_items site row items)"
  by (induction items) (auto intro!: is_ok_bind item_view_ok)

lemma item_viewD:
  assumes "item_view_of site item row = Inr v"
  shows "iv_id v = mi_id item" "iv_layer v = mi_layer item" "iv_state v = state_shown row"
    "iv_done v = is_done item (state_shown row)"
  using assms by (auto simp: item_view_of_def Let_def)

lemma view_items_ids: "view_items site row items = Inr vs \<Longrightarrow> map iv_id vs = map mi_id items"
  by (induction items arbitrary: vs) (auto dest: item_viewD)

lemma length_view_items: "view_items site row items = Inr vs \<Longrightarrow> length vs = length items"
  by (drule view_items_ids) (metis length_map)

lemma build_plan_viewE:
  assumes "build_plan_view db site = Inr v"
  obtains "view_items site (status_of db (ws_id site)) ordered_items = Inr (pv_items v)"
    "pv_layers v = fold add_total (pv_items v) no_totals"
    "pv_overall_total v = sum_list (map (\<lambda>(l, t, d). t) (pv_layers v))"
    "pv_overall_done v = sum_list (map (\<lambda>(l, t, d). d) (pv_layers v))"
    "pv_overall_percent v = (if pv_overall_total v = 0 then 0
       else py_round (of_int (100 * pv_overall_done v) / of_int (pv_overall_total v)))"
    "pv_next_actions v = [] \<or> pv_next_actions v = next_action_ids 3 (pv_items v)"
  using assms by (auto simp: build_plan_view_def Let_def)

section \<open>Totals\<close>

definition layer_counts :: "item_view list \<Rightarrow> layer \<Rightarrow> int \<times> int" where
  "layer_counts vs l =
    (int (length (filter (\<lambda>v. iv_layer v = l \<and> counted (iv_state v)) vs)),
     int (length (filter (\<lambda>v. iv_layer v = l \<and> counted (iv_state v) \<and> iv_done v) vs)))"

lemma fold_add_total: "fold add_total vs no_totals = map (\<lambda>l. (l, layer_counts vs l)) LAYER_ORDER"
  by (induction vs rule: rev_induct) (auto simp: no_totals_def layer_counts_def add_total_def)

lemma LAYER_ORDER_all: "set LAYER_ORDER = UNIV" "distinct LAYER_ORDER"
  by (auto simp: LAYER_ORDER_def) (metis layer.exhaust)

lemma sum_over_layers:
  "sum_list (map (\<lambda>l. int (length (filter (\<lambda>v. iv_layer v = l \<and> P v) vs))) LAYER_ORDER) = int (length (filter P vs))"
proof (induction vs)
  case (Cons v vs)
  have "sum_list (map (\<lambda>l. int (if iv_layer v = l \<and> P v then 1 else 0)) LAYER_ORDER) = (if P v then 1 else 0)"
    by (cases "iv_layer v") (simp_all add: LAYER_ORDER_def)
  moreover have "int (length (filter (\<lambda>v. iv_layer v = l \<and> P v) (v # vs))) =
      int (if iv_layer v = l \<and> P v then 1 else 0) + int (length (filter (\<lambda>v. iv_layer v = l \<and> P v) vs))" for l
    by simp
  ultimately show ?case using Cons by (simp only: sum_list_addf) simp
qed (simp add: LAYER_ORDER_def)

lemma layer_counts_sum:
  "sum_list (map (\<lambda>(l, t, d). t) (map (\<lambda>l. (l, layer_counts vs l)) LAYER_ORDER)) =
    int (length (filter (\<lambda>v. counted (iv_state v)) vs))"
  "sum_list (map (\<lambda>(l, t, d). d) (map (\<lambda>l. (l, layer_counts vs l)) LAYER_ORDER)) =
    int (length (filter (\<lambda>v. counted (iv_state v) \<and> iv_done v) vs))"
  using sum_over_layers [where P = "\<lambda>v. counted (iv_state v)" and vs = vs]
    sum_over_layers [where P = "\<lambda>v. counted (iv_state v) \<and> iv_done v" and vs = vs]
  by (simp_all add: layer_counts_def comp_def)

lemma length_ITEMS: "length ITEMS = 36"
  using arg_cong [OF item_ids, of length] by simp

lemma percent_bounds:
  assumes "0 \<le> d" "d \<le> t" "0 < t" "t \<le> 36"
  shows "0 \<le> py_round (of_int (100 * d) / of_int t)" "py_round (of_int (100 * d) / of_int t) \<le> 100"
    "(py_round (of_int (100 * d) / of_int t) = 100) = (d = t)"
proof -
  define q :: rat where "q = of_int (100 * d) / of_int t"
  have t: "(0 :: rat) < of_int t" "of_int t \<le> (36 :: rat)" using assms by simp_all
  have q: "0 \<le> q" "q \<le> 100" unfolding q_def using assms t by (simp_all add: field_simps)
  show "0 \<le> py_round (of_int (100 * d) / of_int t)" "py_round (of_int (100 * d) / of_int t) \<le> 100"
    using py_round_close [of q] q unfolding q_def by linarith+
  show "(py_round (of_int (100 * d) / of_int t) = 100) = (d = t)"
  proof
    assume "d = t"
    then have "q = 100" unfolding q_def using t by simp
    then show "py_round (of_int (100 * d) / of_int t) = 100"
      unfolding q_def [symmetric] by (simp add: py_round_def)
  next
    assume r: "py_round (of_int (100 * d) / of_int t) = 100"
    show "d = t"
    proof (rule ccontr)
      assume "d \<noteq> t"
      with assms have "100 * d \<le> 100 * t - 100" by simp
      then have "(of_int (100 * d) :: rat) \<le> of_int (100 * t - 100)" by (simp only: of_int_le_iff)
      then have "of_int (100 * d) * 36 \<le> (100 * of_int t - 100) * (36 :: rat)" by simp
      then have "q < 99 + 1 / 2" unfolding q_def using t by (simp add: field_simps)
      with py_round_close(1) [of q] r show False unfolding q_def by simp
    qed
  qed
qed

lemma mset_ordered: "mset ordered_items = mset ITEMS"
  by (simp add: ordered_items_def)

text \<open>
  C21: The view of a plan adds up. It is always built; it shows every item of the catalogue exactly once; the totals of
  each layer and of the whole plan count the items shown that concern the site and are not dismissed, and those of them
  that are done; the percentage lies between 0 and 100 and is 100 exactly when there is something to do and all of it is done.
\<close>

theorem plan_view_adds_up:
  "\<exists>v. build_plan_view db site = Inr v \<and>
    mset (map iv_id (pv_items v)) = mset (map mi_id ITEMS) \<and>
    pv_layers v = map (\<lambda>l. (l, layer_counts (pv_items v) l)) LAYER_ORDER \<and>
    pv_overall_total v = int (length (filter (\<lambda>i. counted (iv_state i)) (pv_items v))) \<and>
    pv_overall_done v = int (length (filter (\<lambda>i. counted (iv_state i) \<and> iv_done i) (pv_items v))) \<and>
    pv_overall_percent v \<in> {0..100} \<and>
    (pv_overall_percent v = 100) = (pv_overall_total v \<noteq> 0 \<and> pv_overall_done v = pv_overall_total v)"
proof -
  have "is_ok (build_plan_view db site)"
    by (auto simp: build_plan_view_def Let_def intro!: is_ok_bind view_items_ok)
  then obtain v where v: "build_plan_view db site = Inr v" by (auto simp: is_ok_iff)
  then have i: "view_items site (status_of db (ws_id site)) ordered_items = Inr (pv_items v)"
    and l: "pv_layers v = fold add_total (pv_items v) no_totals"
    and t: "pv_overall_total v = sum_list (map (\<lambda>(l, t, d). t) (pv_layers v))"
    and d: "pv_overall_done v = sum_list (map (\<lambda>(l, t, d). d) (pv_layers v))"
    and p: "pv_overall_percent v = (if pv_overall_total v = 0 then 0
       else py_round (of_int (100 * pv_overall_done v) / of_int (pv_overall_total v)))"
    by (auto elim!: build_plan_viewE)
  have ids: "mset (map iv_id (pv_items v)) = mset (map mi_id ITEMS)"
    unfolding view_items_ids [OF i] by (simp add: mset_ordered)
  have tot: "pv_overall_total v = int (length (filter (\<lambda>i. counted (iv_state i)) (pv_items v)))"
    and don: "pv_overall_done v = int (length (filter (\<lambda>i. counted (iv_state i) \<and> iv_done i) (pv_items v)))"
    unfolding t d l fold_add_total by (rule layer_counts_sum)+
  from mset_eq_length [OF ids] have "length (pv_items v) = 36" by (simp add: length_ITEMS)
  then have "pv_overall_total v \<le> 36"
    unfolding tot using length_filter_le [of "\<lambda>i. counted (iv_state i)" "pv_items v"] by simp
  moreover have "length (filter (\<lambda>i. counted (iv_state i) \<and> iv_done i) (pv_items v)) \<le>
      length (filter (\<lambda>i. counted (iv_state i)) (pv_items v))"
    using length_filter_le [of iv_done "filter (\<lambda>i. counted (iv_state i)) (pv_items v)"] by (simp add: conj_commute)
  then have "0 \<le> pv_overall_done v" "pv_overall_done v \<le> pv_overall_total v" by (simp_all add: tot don)
  ultimately have "pv_overall_percent v \<in> {0..100}"
    "(pv_overall_percent v = 100) = (pv_overall_total v \<noteq> 0 \<and> pv_overall_done v = pv_overall_total v)"
    using percent_bounds [of "pv_overall_done v" "pv_overall_total v"] by (auto simp: p)
  with v ids tot don l show ?thesis by (auto simp: fold_add_total)
qed

section \<open>The most useful actions\<close>

lemma take_sort_key_le:
  assumes "x \<in> set (take n (sort_key k xs))" "y \<in> set xs" "y \<notin> set (take n (sort_key k xs))"
  shows "k x \<le> k y"
proof -
  have "y \<in> set (drop n (sort_key k xs))"
    using assms(2,3) by (metis append_take_drop_id set_append set_sort Un_iff)
  moreover have "sorted (map k (take n (sort_key k xs) @ drop n (sort_key k xs)))" by simp
  ultimately show ?thesis using assms(1) by (auto simp: sorted_append simp del: append_take_drop_id)
qed

text \<open>What "at least as useful" means, apart from the sort key: the tier, then the weight, then the layer.\<close>

definition more_useful :: "item_view \<Rightarrow> item_view \<Rightarrow> bool" where
  "more_useful x y =
    (let to_check = (\<lambda>v. iv_state v \<in> {S_missing, S_unknown});
         gain = (\<lambda>v. iv_weight v + (if iv_quick_win v then 25 else 0))
     in (to_check x \<and> \<not> to_check y) \<or>
       (to_check x = to_check y \<and> (gain y < gain x \<or>
         (gain x = gain y \<and> layer_index (iv_layer x) \<le> layer_index (iv_layer y)))))"

lemma more_useful_rank: "action_rank x \<le> action_rank y \<Longrightarrow> more_useful x y"
  by (auto simp: more_useful_def action_rank_def Let_def split: if_splits)

text \<open>
  The next actions of a plan are at most three items that are neither done, dismissed nor irrelevant; there
  are three whenever three such items exist; and an item left out is never more useful than one proposed: what is proved
  missing or was never checked comes before what is only to be confirmed, then the heavier item, quick wins counting 25 more.
\<close>

lemma next_actions_most_useful:
  assumes "build_plan_view db site = Inr v"
  shows "length (pv_next_actions v) \<le> 3 \<and>
    (pv_last_checked_at v \<noteq> None \<longrightarrow> length (pv_next_actions v) = min 3 (length (filter open_action (pv_items v)))) \<and>
    (\<forall>i \<in> set (pv_next_actions v). \<exists>x \<in> set (pv_items v). iv_id x = i \<and>
      \<not> iv_done x \<and> iv_state x \<notin> {S_not_applicable, S_dismissed} \<and>
      (\<forall>y \<in> set (pv_items v). open_action y \<and> iv_id y \<notin> set (pv_next_actions v) \<longrightarrow> more_useful x y))"
proof (cases "pv_last_checked_at v = None")
  case True
  then have "pv_next_actions v = []" using assms by (auto simp: build_plan_view_def Let_def)
  then show ?thesis using True by simp
next
  case False
  let ?open = "filter open_action (pv_items v)"
  have n: "pv_next_actions v = map iv_id (take 3 (sort_key action_rank ?open))"
    using assms False by (auto simp: build_plan_view_def Let_def next_action_ids_def)
  have "\<exists>x \<in> set (pv_items v). iv_id x = i \<and>
      \<not> iv_done x \<and> iv_state x \<notin> {S_not_applicable, S_dismissed} \<and>
      (\<forall>y \<in> set (pv_items v). open_action y \<and> iv_id y \<notin> set (pv_next_actions v) \<longrightarrow> more_useful x y)"
    if "i \<in> set (pv_next_actions v)" for i
  proof -
    from that obtain x where x: "x \<in> set (take 3 (sort_key action_rank ?open))" "iv_id x = i" by (auto simp: n)
    then have "x \<in> set ?open" by (metis in_set_takeD set_sort)
    moreover have "more_useful x y" if "y \<in> set ?open" "iv_id y \<notin> set (pv_next_actions v)" for y
      using take_sort_key_le [OF x(1) that(1)] that(2) by (intro more_useful_rank) (auto simp: n)
    ultimately show ?thesis using x(2) by (intro bexI [of _ x]) (auto simp: open_action_def counted_def)
  qed
  then show ?thesis using False by (simp add: n)
qed

lemma next_actions_most_useful_witness:
  "\<exists>v. build_plan_view (plan_db_with [marked_row]) shop_site = Inr v \<and> length (pv_next_actions v) \<le> 3"
proof -
  obtain v where v: "build_plan_view (plan_db_with [marked_row]) shop_site = Inr v"
    using plan_view_adds_up by blast
  with next_actions_most_useful [OF v] show ?thesis by blast
qed

end
