(* ===== verification/Measurement_Edits.thy ===== *)
theory Measurement_Edits
  imports Measurement_View
begin

text \<open>
  The edits of a plan through the API (\<open>app/api/v1/endpoints/measurement.py\<close>): marking or dismissing an item, changing
  the profile of a site, refreshing. The checks that the user may see and change the site come before and are not part of
  these steps; the rate limit is the parameter \<open>allowed\<close>. The last section composes the steps: the history of the
  plan can be replayed in every state they reach.
\<close>

datatype edit_result =
    Edited
  | Refused int string
  | Crashed py_error

section \<open>Marking and dismissing items\<close>

record item_patch =
  ip_dismissed :: "bool option"
  ip_manual_done :: "bool option"

text \<open>The model validator of \<open>ItemPatch\<close>.\<close>

definition coherent_patch :: "item_patch \<Rightarrow> bool" where
  "coherent_patch b = (\<not> (ip_dismissed b = None \<and> ip_manual_done b = None) \<and>
     \<not> (ip_dismissed b = Some True \<and> ip_manual_done b \<noteq> None))"

definition unknown_row :: "uuid \<Rightarrow> string \<Rightarrow> datetime \<Rightarrow> item_status" where
  "unknown_row w item_id now = \<lparr>st_website_id = w, st_item_id = item_id, st_state = S_unknown, st_evidence = [],
     st_reason = None, st_checked_at = now, st_dismissed_at = None\<rparr>"

definition patch_dismissal :: "bool option \<Rightarrow> datetime \<Rightarrow> item_status \<Rightarrow> item_status" where
  "patch_dismissal dismissed now row =
    (case dismissed of
       Some True \<Rightarrow> row\<lparr>st_dismissed_at := (if st_dismissed_at row = None then Some now else st_dismissed_at row),
         st_state := (if st_state row \<noteq> S_not_applicable then S_dismissed else st_state row)\<rparr>
     | Some False \<Rightarrow>
         if st_dismissed_at row \<noteq> None
         then row\<lparr>st_dismissed_at := None,
           st_state := (if st_state row \<noteq> S_not_applicable then S_unknown else st_state row)\<rparr>
         else row
     | None \<Rightarrow> row)"

definition patch_mark :: "bool option \<Rightarrow> datetime \<Rightarrow> item_status \<Rightarrow> item_status" where
  "patch_mark manual_done now row =
    (case manual_done of
       None \<Rightarrow> row
     | Some b \<Rightarrow>
       (let row' = row\<lparr>st_evidence := dict_set ''manual_done'' (JBool b) (st_evidence row)\<rparr>
        in if st_state row \<in> {S_not_applicable, S_dismissed} then row'
           else row'\<lparr>st_state := (if b then S_on_page else S_unverifiable),
             st_reason := (if b then None else Some ''manual_check''), st_checked_at := now\<rparr>))"

definition patched_row :: "uuid \<Rightarrow> string \<Rightarrow> item_patch \<Rightarrow> datetime \<Rightarrow> item_status option \<Rightarrow> item_status option" where
  "patched_row w item_id b now row =
    map_option (\<lambda>r. patch_mark (ip_manual_done b) now (patch_dismissal (ip_dismissed b) now r))
      (if row = None \<and> ip_dismissed b \<noteq> Some False then Some (unknown_row w item_id now) else row)"

definition patch_item :: "website \<Rightarrow> string \<Rightarrow> item_patch \<Rightarrow> datetime \<Rightarrow> 'a plan_db_scheme \<Rightarrow>
    'a plan_db_scheme \<times> edit_result" where
  "patch_item site item_id b now db =
    (if \<not> coherent_patch b then (db, Refused 422 ''ItemPatch'')
     else case map_of ITEMS_BY_ID item_id of
         None \<Rightarrow> (db, Refused 404 ''item inconnu'')
       | Some item \<Rightarrow>
         if ip_manual_done b \<noteq> None \<and> mi_check item \<noteq> ''manual'' then (db, Refused 400 ''item automatique'')
         else (let row = status_of db (ws_id site) item_id
           in case patched_row (ws_id site) item_id b now row of
               None \<Rightarrow> (db, Edited)
             | Some r \<Rightarrow> (db\<lparr>item_statuses := put_status r (item_statuses db),
                 item_events := record_state_change (ws_id site) item_id (map_option st_state row) (st_state r)
                   (st_evidence r) now (item_events db)\<rparr>, Edited)))"

section \<open>Changing the profile\<close>

text \<open>
  A field of the body is absent (\<open>None\<close>), null or a value. The patterns are matched from the start with a final
  dollar sign, which also accepts one trailing line feed.
\<close>

record profile_patch =
  pp_confirmed_types :: "string list option option"
  pp_uses_google_ads :: "bool option option"
  pp_ads_conversion_id :: "string option option"
  pp_ads_conversion_label :: "string option option"
  pp_ga4_measurement_id :: "string option option"

definition to_end :: "re \<Rightarrow> string \<Rightarrow> bool" where
  "to_end r s = list_ex (\<lambda>rest. rest = [] \<or> rest = [CHR 0x0A]) (ends r s)"

definition ADS_ID :: re where "ADS_ID = Cat (lit ''AW-'') (at_least 6 (Class is_digit))"
definition ADS_LABEL :: re where
  "ADS_LABEL = at_least 6 (Class (\<lambda>c. is_alpha c \<or> is_digit c \<or> c = CHR ''_'' \<or> c = CHR ''-''))"
definition GA4_MEASUREMENT_ID :: re where "GA4_MEASUREMENT_ID = Cat (lit ''G-'') (at_least 6 (Class upper_or_digit))"

definition field_ok :: "re \<Rightarrow> string option option \<Rightarrow> bool" where
  "field_ok r x = (case x of Some (Some s) \<Rightarrow> to_end r s | _ \<Rightarrow> True)"

definition valid_profile_patch :: "profile_patch \<Rightarrow> bool" where
  "valid_profile_patch b =
    ((case pp_confirmed_types b of Some (Some ts) \<Rightarrow> list_all (\<lambda>t. t \<in> set SITE_TYPES) ts | _ \<Rightarrow> True) \<and>
     field_ok ADS_ID (pp_ads_conversion_id b) \<and> field_ok ADS_LABEL (pp_ads_conversion_label b) \<and>
     field_ok GA4_MEASUREMENT_ID (pp_ga4_measurement_id b))"

definition patched_types :: "string list option option \<Rightarrow> string list option \<Rightarrow> string list option" where
  "patched_types provided old =
    (case provided of None \<Rightarrow> old
     | Some (Some (t # ts)) \<Rightarrow> Some (from_keys (t # ts))
     | _ \<Rightarrow> None)"

definition patch_param :: "string \<Rightarrow> json option option \<Rightarrow> json_dict \<Rightarrow> json_dict" where
  "patch_param key provided params =
    (case provided of None \<Rightarrow> params
     | Some None \<Rightarrow> filter (\<lambda>(k, v). k \<noteq> key) params
     | Some (Some v) \<Rightarrow> dict_set key v params)"

definition patched_params :: "profile_patch \<Rightarrow> json_dict \<Rightarrow> json_dict" where
  "patched_params b params =
     patch_param ''ga4_measurement_id'' (map_option (map_option JStr) (pp_ga4_measurement_id b))
     (patch_param ''ads_conversion_label'' (map_option (map_option JStr) (pp_ads_conversion_label b))
     (patch_param ''ads_conversion_id'' (map_option (map_option JStr) (pp_ads_conversion_id b))
     (patch_param ''uses_google_ads'' (map_option (map_option JBool) (pp_uses_google_ads b)) params)))"

definition patched_profile :: "profile_patch \<Rightarrow> website_profile \<Rightarrow> website_profile" where
  "patched_profile b p = p\<lparr>pf_confirmed_types := patched_types (pp_confirmed_types b) (pf_confirmed_types p),
     pf_params := patched_params b (pf_params p)\<rparr>"

definition decides :: "website_profile \<Rightarrow> string list \<times> json" where
  "decides p = ((case pf_confirmed_types p of None \<Rightarrow> [] | Some ts \<Rightarrow> ts), jget (pf_params p) ''uses_google_ads'')"

text \<open>
  A change of what decides which items apply counts in the limit of refreshes, before anything is written, and is
  followed by a refresh without the browser in a transaction of its own.
\<close>

definition patch_profile :: "plan_services \<Rightarrow> bool \<Rightarrow> website \<Rightarrow> profile_patch \<Rightarrow> datetime \<Rightarrow> 'a plan_db_scheme \<Rightarrow>
    'a plan_db_scheme \<times> edit_result" where
  "patch_profile sv allowed site b now db0 =
    (if \<not> valid_profile_patch b then (db0, Refused 422 ''ProfilePatch'')
     else
       let (p0, db1) = get_or_create_profile (ws_id site) db0;
           p = patched_profile b p0;
           db = db1\<lparr>profiles := save_profile p (profiles db1)\<rparr>
       in if decides p = decides p0 then (db, Edited)
          else if \<not> allowed then (db0, Refused 429 ''limite'')
          else case refresh_plan sv site False now db of
              Inr (db', res) \<Rightarrow> (db', Edited)
            | Inl e \<Rightarrow> (db, Crashed e))"

section \<open>Refreshing\<close>

definition post_refresh :: "plan_services \<Rightarrow> bool \<Rightarrow> website \<Rightarrow> bool \<Rightarrow> datetime \<Rightarrow> 'a plan_db_scheme \<Rightarrow>
    'a plan_db_scheme \<times> edit_result" where
  "post_refresh sv allowed site headless now db =
    (if headless \<and> \<not> allowed then (db, Refused 429 ''limite'')
     else case refresh_plan sv site headless now db of
         Inr (db', res) \<Rightarrow> (db', Edited)
       | Inl e \<Rightarrow> (db, Crashed e))"

section \<open>Every state of the plan\<close>

text \<open>The steps that write a plan: the three endpoints, and the scheduled check, which is a refresh without browser.\<close>

inductive plan_step :: "plan_db \<Rightarrow> plan_db \<Rightarrow> bool" where
  Patch_item: "plan_step db (fst (patch_item site item_id b now db))"
| Patch_profile: "plan_step db (fst (patch_profile sv allowed site b now db))"
| Refresh: "plan_step db (fst (post_refresh sv allowed site headless now db))"

definition exact_db :: "'a plan_db_scheme \<Rightarrow> bool" where
  "exact_db db = history_exact (item_statuses db) (item_events db)"

lemma key_kept:
  "st_key (patch_mark m now r) = st_key r" "st_key (patch_dismissal d now r) = st_key r"
  by (auto simp: patch_mark_def patch_dismissal_def st_key_def Let_def split: option.splits bool.splits)

lemma patched_row_key:
  assumes "patched_row w item_id b now (row_at rows (w, item_id)) = Some r"
  shows "st_key r = (w, item_id)"
proof -
  have "st_key (unknown_row w item_id now) = (w, item_id)" by (simp add: st_key_def unknown_row_def)
  with assms show ?thesis
    by (auto simp: patched_row_def key_kept split: if_splits dest: find_row_SomeD)
qed

lemma exact_patch_item: "exact_db db \<Longrightarrow> exact_db (fst (patch_item site item_id b now db))"
  unfolding exact_db_def patch_item_def Let_def
  by (auto simp: status_of_def split: option.splits intro!: history_exact_put dest: patched_row_key)

lemma exact_refresh: "refresh_plan sv site run now db = Inr (db', res) \<Longrightarrow> exact_db db \<Longrightarrow> exact_db db'"
  unfolding exact_db_def by (erule refresh_planE) (rule history_exact_items)

lemma exact_patch_profile: "exact_db db \<Longrightarrow> exact_db (fst (patch_profile sv allowed site b now db))"
proof -
  assume e: "exact_db db"
  obtain p0 db1 where g: "get_or_create_profile (ws_id site) db = (p0, db1)" by fastforce
  from get_or_create_profile_frame [OF g] e have "exact_db (db1\<lparr>profiles := ps\<rparr>)" for ps
    by (simp add: exact_db_def)
  then show ?thesis
    using e by (auto simp: patch_profile_def g Let_def split: sum.splits intro: exact_refresh)
qed

lemma exact_step: "plan_step db db' \<Longrightarrow> exact_db db \<Longrightarrow> exact_db db'"
  by (induction rule: plan_step.induct)
    (auto simp: exact_patch_item exact_patch_profile post_refresh_def split: sum.splits intro: exact_refresh)

text \<open>
  C18: The history of a plan can always be replayed. In every state that edits of items, changes of profiles and
  refreshes reach from one whose history is exact, each item has one row per site, and the events of the item lead,
  each from the state the one before it left, to the state the row shows; an event always changes the state.
\<close>

theorem reachable_history_exact:
  assumes "plan_step\<^sup>*\<^sup>* db db'" "history_exact (item_statuses db) (item_events db)"
  shows "history_exact (item_statuses db') (item_events db')"
  using assms(1)
proof (induction rule: rtranclp_induct)
  case base
  then show ?case by (rule assms(2))
next
  case (step y z)
  then show ?case using exact_step [of y z] by (simp add: exact_db_def)
qed

definition dismiss_patch :: item_patch where
  "dismiss_patch = \<lparr>ip_dismissed = Some True, ip_manual_done = None\<rparr>"

theorem reachable_history_exact_witness:
  "history_exact (item_statuses (fst (patch_item shop_site ''robots_txt'' dismiss_patch 5 (plan_db_with []))))
    (item_events (fst (patch_item shop_site ''robots_txt'' dismiss_patch 5 (plan_db_with []))))"
  by (rule reachable_history_exact [where db = "plan_db_with []"])
    (auto intro: r_into_rtranclp plan_step.Patch_item simp: plan_db_with_def empty_history)

section \<open>Corner cases of the edits\<close>

text \<open>
  Marking an item as done together with \<open>dismissed: false\<close> is lost without an error when the item has no row yet.
\<close>

lemma mark_lost_without_row:
  "coherent_patch \<lparr>ip_dismissed = Some False, ip_manual_done = Some True\<rparr>"
  "patched_row w i \<lparr>ip_dismissed = Some False, ip_manual_done = Some True\<rparr> now None = None"
  by (simp_all add: coherent_patch_def patched_row_def)

text \<open>The identifier of a conversion is accepted with a line feed at its end.\<close>

lemma ads_id_newline_accepted: "field_ok ADS_ID (Some (Some (''AW-123456'' @ newline)))"
  by (simp add: field_ok_def to_end_def ADS_ID_def at_least_def ends_lit starts_with_def is_digit_def ends.simps(5)
    eval_nat_numeral)

end
