(* ===== verification/Google_Access.thy ===== *)
theory Google_Access
  imports Measurement_Plan
begin

text \<open>
  The Google tokens of a site (\<open>app/services/measurement/google_access.py\<close>,
  \<open>app/services/metrics/sources/credentials.py\<close>): the connections behind the links of the site are refreshed, each
  once; a revoked one is marked for reauthorisation, a failure that may pass leaves it active. Decrypting and
  refreshing a token is the parameter \<open>refresher\<close>. The lemmas: a connection only ever goes from
  active to needing reauthorisation, no revoked one is called, and the reason given for a missing token
  tells the two failures apart.
\<close>

section \<open>Tokens\<close>

text \<open>
  \<open>Invalid_grant\<close> is \<open>InvalidGrantError\<close>, \<open>Refresh_failed\<close> the other errors of OAuth, of the cipher and of httpx.
\<close>

datatype refresh_answer = Access_token string | Invalid_grant | Refresh_failed

type_synonym refresher = "google_connection \<Rightarrow> refresh_answer"

type_synonym token_cache = "(uuid \<times> string option) list"

definition mark_reauth :: "uuid \<Rightarrow> google_connection list \<Rightarrow> google_connection list" where
  "mark_reauth i conns = update_rows (\<lambda>c. gn_id c = i) (\<lambda>c. c\<lparr>gn_status := Conn_needs_reauth\<rparr>) conns"

definition access_token_for :: "refresher \<Rightarrow> google_connection \<Rightarrow> token_cache \<times> google_connection list \<Rightarrow>
    string option \<times> token_cache \<times> google_connection list" where
  "access_token_for refresh connection = (\<lambda>(cache, conns).
    (case map_of cache (gn_id connection) of
       Some token \<Rightarrow> (token, cache, conns)
     | None \<Rightarrow>
         (let (token, conns') =
            (if gn_status connection = Conn_active
             then (case refresh connection of
                 Access_token t \<Rightarrow> (Some t, conns)
               | Invalid_grant \<Rightarrow> (None, mark_reauth (gn_id connection) conns)
               | Refresh_failed \<Rightarrow> (None, conns))
             else (None, conns))
          in (token, (gn_id connection, token) # cache, conns'))))"

section \<open>The reader of a site\<close>

definition reading_link :: "uuid \<Rightarrow> google_link \<Rightarrow> bool" where
  "reading_link site l = (gl_website_id l = site \<and> gl_resource_type l \<in> {Ga4_property, Gsc_site})"

definition connection_of :: "google_connection list \<Rightarrow> uuid \<Rightarrow> google_connection option" where
  "connection_of conns i = find_row (\<lambda>c. gn_id c = i) conns"

text \<open>The links joined with their connections.\<close>

definition linked :: "uuid \<Rightarrow> google_link list \<Rightarrow> google_connection list \<Rightarrow> (google_link \<times> google_connection) list" where
  "linked site links conns = List.map_filter (\<lambda>l. map_option (Pair l) (connection_of conns (gl_connection_id l)))
     (filter (reading_link site) links)"

definition no_access :: http_reader where
  "no_access = \<lparr>rd_ga4_token = None, rd_ga4_property = None, rd_gsc_token = None, rd_gsc_site = None, rd_gsc_state = ''not_linked''\<rparr>"

definition take_link :: "google_link \<Rightarrow> string option \<Rightarrow> http_reader \<Rightarrow> http_reader" where
  "take_link link token rd =
    (if gl_resource_type link = Ga4_property
     then rd\<lparr>rd_ga4_property := Some (gl_resource_id link), rd_ga4_token := token\<rparr>
     else rd\<lparr>rd_gsc_site := Some (gl_resource_id link), rd_gsc_token := token,
       rd_gsc_state := (if token \<noteq> None \<and> token \<noteq> Some [] then ''linked'' else ''needs_reauth'')\<rparr>)"

fun read_links :: "refresher \<Rightarrow> (google_link \<times> google_connection) list \<Rightarrow>
    http_reader \<times> token_cache \<times> google_connection list \<Rightarrow> http_reader \<times> token_cache \<times> google_connection list" where
  "read_links refresh [] st = st"
| "read_links refresh ((link, connection) # rows) (rd, st) =
    (let (token, st') = access_token_for refresh connection st
     in read_links refresh rows (take_link link token rd, st'))"

definition build_reader :: "refresher \<Rightarrow> uuid \<Rightarrow> google_link list \<Rightarrow> google_connection list \<Rightarrow>
    google_connection list \<times> http_reader" where
  "build_reader refresh site links conns =
    (let (rd, _, conns') = read_links refresh (linked site links conns) (no_access, [], conns) in (conns', rd))"

section \<open>Credentials\<close>

definition TOKEN_UNAVAILABLE :: string where "TOKEN_UNAVAILABLE = ''token_unavailable''"
definition TOKEN_REFRESH_FAILED :: string where "TOKEN_REFRESH_FAILED = ''token_refresh_failed''"

record google_credentials =
  cr_ga4_property :: "string option"
  cr_ga4_token :: "string option"
  cr_gsc_site :: "string option"
  cr_gsc_token :: "string option"
  cr_ga4_problem :: "string option"
  cr_gsc_problem :: "string option"

definition token_problem :: "string option \<Rightarrow> string option \<Rightarrow>
    ((resource_type \<times> string) \<times> connection_status) list \<Rightarrow> resource_type \<Rightarrow> string option" where
  "token_problem resource_id token statuses kind =
    (case resource_id of
       None \<Rightarrow> None
     | Some r \<Rightarrow>
         if token \<noteq> None then None
         else if map_of statuses (kind, r) = Some Conn_active then Some TOKEN_REFRESH_FAILED
         else Some TOKEN_UNAVAILABLE)"

definition link_statuses :: "uuid \<Rightarrow> google_link list \<Rightarrow> google_connection list \<Rightarrow>
    ((resource_type \<times> string) \<times> connection_status) list" where
  "link_statuses site links conns =
     fold (\<lambda>(l, c). dict_set (gl_resource_type l, gl_resource_id l) (gn_status c)) (linked site links conns) []"

definition resolve_google_credentials :: "refresher \<Rightarrow> uuid \<Rightarrow> google_link list \<Rightarrow> google_connection list \<Rightarrow>
    google_connection list \<times> google_credentials" where
  "resolve_google_credentials refresh site links conns =
    (let (conns', rd) = build_reader refresh site links conns;
         statuses = link_statuses site links conns'
     in (conns', \<lparr>cr_ga4_property = rd_ga4_property rd, cr_ga4_token = rd_ga4_token rd,
          cr_gsc_site = rd_gsc_site rd, cr_gsc_token = rd_gsc_token rd,
          cr_ga4_problem = token_problem (rd_ga4_property rd) (rd_ga4_token rd) statuses Ga4_property,
          cr_gsc_problem = token_problem (rd_gsc_site rd) (rd_gsc_token rd) statuses Gsc_site\<rparr>))"

section \<open>What happens to the connections\<close>

text \<open>The token of a row that is read for the first time.\<close>

definition fresh_token :: "refresher \<Rightarrow> google_connection \<Rightarrow> string option" where
  "fresh_token refresh c = (if gn_status c = Conn_active
     then (case refresh c of Access_token t \<Rightarrow> Some t | _ \<Rightarrow> None) else None)"

definition revoked_by :: "refresher \<Rightarrow> google_connection \<Rightarrow> bool" where
  "revoked_by refresh c = (gn_status c = Conn_active \<and> refresh c = Invalid_grant)"

definition after_reading :: "refresher \<Rightarrow> uuid set \<Rightarrow> google_connection list \<Rightarrow> google_connection list" where
  "after_reading refresh ids conns =
     map (\<lambda>c. if gn_id c \<in> ids \<and> revoked_by refresh c then c\<lparr>gn_status := Conn_needs_reauth\<rparr> else c) conns"

text \<open>The state of the loop: the cache holds the token of every connection seen, and only those.\<close>

definition seen :: "refresher \<Rightarrow> google_connection list \<Rightarrow> uuid set \<Rightarrow> token_cache \<times> google_connection list \<Rightarrow> bool" where
  "seen refresh conns0 ids = (\<lambda>(cache, conns). conns = after_reading refresh ids conns0 \<and> fst ` set cache = ids \<and>
     (\<forall>c \<in> set conns0. gn_id c \<in> ids \<longrightarrow> map_of cache (gn_id c) = Some (fresh_token refresh c)))"

lemma after_reading_insert:
  assumes "uniq_by gn_id conns0" "c \<in> set conns0" "gn_id c \<notin> ids"
  shows "after_reading refresh (insert (gn_id c) ids) conns0 =
    (if revoked_by refresh c then mark_reauth (gn_id c) (after_reading refresh ids conns0) else after_reading refresh ids conns0)"
proof -
  have "x = c" if "x \<in> set conns0" "gn_id x = gn_id c" for x
    using uniq_by_inj [OF assms(1) that(1) assms(2) that(2)] .
  with assms(3) show ?thesis by (auto simp: after_reading_def mark_reauth_def update_rows_def)
qed

lemma seen_step:
  assumes "uniq_by gn_id conns0" "c \<in> set conns0" "seen refresh conns0 ids st"
  shows "fst (access_token_for refresh c st) = fresh_token refresh c \<and>
    seen refresh conns0 (insert (gn_id c) ids) (snd (access_token_for refresh c st))"
proof -
  obtain cache conns where st: "st = (cache, conns)" by fastforce
  show ?thesis
  proof (cases "gn_id c \<in> ids")
    case True
    then have "map_of cache (gn_id c) = Some (fresh_token refresh c)" using assms(2,3) by (auto simp: seen_def st)
    with True assms(3) show ?thesis by (simp add: access_token_for_def st insert_absorb)
  next
    case False
    then have none: "map_of cache (gn_id c) = None" using assms(3) by (auto simp: seen_def st map_of_eq_None_iff)
    have run: "access_token_for refresh c st = (fresh_token refresh c, (gn_id c, fresh_token refresh c) # cache,
        if revoked_by refresh c then mark_reauth (gn_id c) conns else conns)"
      by (simp add: access_token_for_def st none fresh_token_def revoked_by_def Let_def split: refresh_answer.splits)
    have one: "c' = c" if "c' \<in> set conns0" "gn_id c' = gn_id c" for c'
      using uniq_by_inj [OF assms(1) that(1) assms(2) that(2)] .
    have "conns = after_reading refresh ids conns0" using assms(3) by (simp add: seen_def st)
    with after_reading_insert [OF assms(1,2) False, of refresh]
    have "(if revoked_by refresh c then mark_reauth (gn_id c) conns else conns) =
        after_reading refresh (insert (gn_id c) ids) conns0" by simp
    with assms(3) one show ?thesis unfolding run by (auto simp: seen_def st)
  qed
qed

text \<open>What the reader holds: the last link of each kind, with the token of its connection.\<close>

definition reader_after :: "refresher \<Rightarrow> (google_link \<times> google_connection) list \<Rightarrow> http_reader \<Rightarrow> http_reader" where
  "reader_after refresh rows rd = fold (\<lambda>(l, c). take_link l (fresh_token refresh c)) rows rd"

lemma read_links_eq:
  assumes "uniq_by gn_id conns0" "\<forall>(l, c) \<in> set rows. c \<in> set conns0" "seen refresh conns0 ids st"
  shows "fst (read_links refresh rows (rd, st)) = reader_after refresh rows rd \<and>
    seen refresh conns0 (ids \<union> (gn_id \<circ> snd) ` set rows) (snd (read_links refresh rows (rd, st)))"
  using assms(2,3)
proof (induction rows arbitrary: rd st ids)
  case Nil
  then show ?case by (simp add: reader_after_def)
next
  case (Cons row rows)
  obtain l c where row: "row = (l, c)" by fastforce
  obtain token st' where tok: "access_token_for refresh c st = (token, st')" by (metis prod.collapse)
  have "c \<in> set conns0" using Cons.prems(1) row by simp
  from seen_step [OF assms(1) this Cons.prems(2)] tok
  have st': "token = fresh_token refresh c" "seen refresh conns0 (insert (gn_id c) ids) st'" by simp_all
  have rest: "\<forall>(l, c) \<in> set rows. c \<in> set conns0" using Cons.prems(1) by simp
  from Cons.IH [OF rest st'(2), of "take_link l token rd"] show ?case
    by (simp add: row tok st'(1) reader_after_def)
qed

lemma linked_source: "(l, c) \<in> set (linked site links conns) \<Longrightarrow> l \<in> set links \<and> reading_link site l \<and>
    connection_of conns (gl_connection_id l) = Some c \<and> c \<in> set conns"
  by (auto simp: linked_def set_map_filter connection_of_def dest: find_row_SomeD)

text \<open>
  A resolution calls each connection of the site at most once and marks exactly the active ones that
  answered \<open>invalid_grant\<close>; the reader holds the last link of each kind.
\<close>

lemma build_reader_eq:
  assumes "uniq_by gn_id conns"
  shows "build_reader refresh site links conns =
    (after_reading refresh ((gn_id \<circ> snd) ` set (linked site links conns)) conns,
     reader_after refresh (linked site links conns) no_access)"
proof -
  have rows: "\<forall>(l, c) \<in> set (linked site links conns). c \<in> set conns" by (auto dest: linked_source)
  have start: "seen refresh conns {} ([], conns)" by (simp add: seen_def after_reading_def)
  obtain rd cache conns' where run: "read_links refresh (linked site links conns) (no_access, [], conns) = (rd, cache, conns')"
    by (metis prod_cases3)
  from read_links_eq [OF assms rows start, of no_access] run show ?thesis
    by (simp add: build_reader_def seen_def)
qed

lemma access_token_ids: "access_token_for refresh c (cache, conns) = (token, cache', conns') \<Longrightarrow> map gn_id conns' = map gn_id conns"
  by (auto simp: access_token_for_def mark_reauth_def map_update_rows Let_def
      split: option.splits refresh_answer.splits if_splits)

lemma read_links_ids: "read_links refresh rows (rd, cache, conns) = (rd', cache', conns') \<Longrightarrow> map gn_id conns' = map gn_id conns"
proof (induction rows arbitrary: rd cache conns)
  case (Cons row rows)
  obtain l c where row: "row = (l, c)" by fastforce
  obtain token cache1 conns1 where tok: "access_token_for refresh c (cache, conns) = (token, cache1, conns1)" by (metis prod_cases3)
  from Cons.prems row tok have "read_links refresh rows (take_link l token rd, cache1, conns1) = (rd', cache', conns')" by simp
  from Cons.IH [OF this] access_token_ids [OF tok] show ?case by simp
qed simp

lemma build_reader_ids: "map gn_id (fst (build_reader refresh site links conns)) = map gn_id conns"
proof -
  obtain rd cache conns' where run: "read_links refresh (linked site links conns) (no_access, [], conns) = (rd, cache, conns')"
    by (metis prod_cases3)
  from read_links_ids [OF this] run show ?thesis by (simp add: build_reader_def)
qed

section \<open>What the problem tells\<close>

definition after_one :: "refresher \<Rightarrow> uuid set \<Rightarrow> google_connection \<Rightarrow> google_connection" where
  "after_one refresh ids c = (if gn_id c \<in> ids \<and> revoked_by refresh c then c\<lparr>gn_status := Conn_needs_reauth\<rparr> else c)"

lemma connection_after_reading:
  "connection_of (after_reading refresh ids conns) i = map_option (after_one refresh ids) (connection_of conns i)"
  unfolding connection_of_def find_row_def after_reading_def after_one_def by (induction conns) auto

lemma linked_after_reading:
  "linked site links (after_reading refresh ids conns) = map (\<lambda>(l, c). (l, after_one refresh ids c)) (linked site links conns)"
proof -
  have "List.map_filter (\<lambda>l. map_option (Pair l) (map_option f (h l))) xs =
      map (\<lambda>(l, c). (l, f c)) (List.map_filter (\<lambda>l. map_option (Pair l) (h l)) xs)"
    for f :: "google_connection \<Rightarrow> google_connection" and h and xs :: "google_link list"
    by (induction xs) (auto split: option.splits)
  then show ?thesis by (simp add: linked_def connection_after_reading)
qed

definition of_kind :: "resource_type \<Rightarrow> (google_link \<times> google_connection) list \<Rightarrow> (google_link \<times> google_connection) list" where
  "of_kind kind rows = filter (\<lambda>(l, _). gl_resource_type l = kind) rows"

lemma reader_after_ga4:
  "rd_ga4_property (reader_after refresh rows rd) =
    (if of_kind Ga4_property rows = [] then rd_ga4_property rd else Some (gl_resource_id (fst (last (of_kind Ga4_property rows)))))"
  "rd_ga4_token (reader_after refresh rows rd) =
    (if of_kind Ga4_property rows = [] then rd_ga4_token rd else fresh_token refresh (snd (last (of_kind Ga4_property rows))))"
  by (induction rows rule: rev_induct) (auto simp: reader_after_def of_kind_def take_link_def)

lemma statuses_of_kind:
  "map_of (fold (\<lambda>(l, c). dict_set (gl_resource_type l, gl_resource_id l) (gn_status c)) rows d) (kind, r) =
    map_of (fold (\<lambda>(l, c). dict_set (gl_resource_type l, gl_resource_id l) (gn_status c)) (of_kind kind rows) d) (kind, r)"
  by (induction rows rule: rev_induct) (auto simp: of_kind_def)

text \<open>
  For a site with one Analytics link: no problem when its connection gave a token, a passing one when the
  connection is still active afterwards, a final one when it was revoked, now or before.
\<close>

lemma ga4_problem_tells:
  assumes "uniq_by gn_id conns" "of_kind Ga4_property (linked site links conns) = [(l, c)]"
  shows "cr_ga4_problem (snd (resolve_google_credentials refresh site links conns)) =
    (if fresh_token refresh c \<noteq> None then None
     else if gn_status c = Conn_active \<and> refresh c = Refresh_failed then Some TOKEN_REFRESH_FAILED
     else Some TOKEN_UNAVAILABLE)"
proof -
  define rows where "rows = linked site links conns"
  define ids where "ids = (gn_id \<circ> snd) ` set rows"
  have kind: "of_kind Ga4_property rows = [(l, c)]" using assms(2) by (simp add: rows_def)
  then have "(l, c) \<in> set (of_kind Ga4_property rows)" by simp
  then have mem: "(l, c) \<in> set rows" "gl_resource_type l = Ga4_property" by (auto simp: of_kind_def)
  then have id: "gn_id c \<in> ids" by (force simp: ids_def)
  have run: "build_reader refresh site links conns = (after_reading refresh ids conns, reader_after refresh rows no_access)"
    using build_reader_eq [OF assms(1)] by (simp add: rows_def ids_def)
  have "of_kind Ga4_property (map (\<lambda>(l, c). (l, after_one refresh ids c)) rows) = [(l, after_one refresh ids c)]"
    using kind by (simp add: of_kind_def filter_map o_def case_prod_unfold)
  then have status: "map_of (link_statuses site links (after_reading refresh ids conns)) (Ga4_property, gl_resource_id l) =
      Some (gn_status (after_one refresh ids c))"
    using mem(2) by (simp add: link_statuses_def linked_after_reading rows_def [symmetric] statuses_of_kind)
  have "gn_status (after_one refresh ids c) = Conn_active \<longleftrightarrow> gn_status c = Conn_active \<and> refresh c \<noteq> Invalid_grant"
    using id by (auto simp: after_one_def revoked_by_def)
  then show ?thesis
    using kind status by (auto simp: resolve_google_credentials_def run reader_after_ga4 token_problem_def fresh_token_def
        split: refresh_answer.splits)
qed

end
