(* ===== verification/Google_Sources.thy ===== *)
theory Google_Sources
  imports Google_Access Job_Runner
begin

text \<open>
  The two sources read from Google's reports (\<open>app/services/metrics/sources/google_http.py\<close>, \<open>ga4.py\<close>,
  \<open>gsc.py\<close>): the authenticated call with its typed failures, the parsers of the answers, and the loops that
  read a report page by page, with the page limit as fuel. Numbers are exact rationals. The lemmas: against a
  service that holds a list of rows and honours offset and limit, a report is all the rows or the failure
  \<open>truncated\<close>, never a part; an answer is parsed to one group of observations a day.
\<close>

section \<open>Failures\<close>

type_synonym 'a sourced = "raised + 'a"

definition fail_with :: "string \<Rightarrow> bool \<Rightarrow> 'a sourced" where
  "fail_with reason recoverable = Inl (RaisedSource (mk_source_error reason recoverable False))"

definition api_error :: "'a sourced" where
  "api_error = fail_with ''api_error'' True"

text \<open>An exception that is no \<open>SourceError\<close>, by its type; the database's refusals come from the driver.\<close>

definition other_error :: "string \<Rightarrow> raised" where
  "other_error name = RaisedOther \<lparr>ex_type = name, ex_dbapi = False, ex_sqlstate = None, ex_message = []\<rparr>"

fun raised_error :: "py_error \<Rightarrow> raised" where
  "raised_error ValueError = other_error ''ValueError''"
| "raised_error KeyError = other_error ''KeyError''"
| "raised_error OverflowError = other_error ''OverflowError''"
| "raised_error ZeroDivisionError = other_error ''ZeroDivisionError''"
| "raised_error TypeError = other_error ''TypeError''"
| "raised_error AttributeError = other_error ''AttributeError''"
| "raised_error IndexError = other_error ''IndexError''"
| "raised_error IntegrityError = RaisedOther \<lparr>ex_type = ''IntegrityError'', ex_dbapi = True, ex_sqlstate = None, ex_message = []\<rparr>"
| "raised_error CardinalityViolation = RaisedOther \<lparr>ex_type = ''ProgrammingError'', ex_dbapi = True, ex_sqlstate = None, ex_message = []\<rparr>"

definition escaping :: "'a result \<Rightarrow> 'a sourced" where
  "escaping r = (case r of Inl e \<Rightarrow> Inl (raised_error e) | Inr x \<Rightarrow> Inr x)"

definition or_api_error :: "'a result \<Rightarrow> 'a sourced" where
  "or_api_error r = (case r of Inl _ \<Rightarrow> api_error | Inr x \<Rightarrow> Inr x)"

section \<open>Authenticated calls\<close>

definition RECOVERABLE_REASONS :: "(string \<times> bool) list" where
  "RECOVERABLE_REASONS = [
    (''token_unavailable'', False), (''permission_or_api_disabled'', False), (''not_found'', False),
    (''bad_request'', False), (''token_refresh_failed'', True), (''truncated'', True), (''quota'', True),
    (''network'', True), (''api_error'', True)]"

definition google_json :: "http_client \<Rightarrow> string \<Rightarrow> string \<Rightarrow> string \<Rightarrow> json \<Rightarrow> json sourced" where
  "google_json http http_method url token body =
    (case http http_method url token body of
       None \<Rightarrow> fail_with ''network'' True
     | Some response \<Rightarrow>
         if hr_status response = 400 then fail_with ''bad_request'' False
         else (case raise_for_status response of
             Inl (Read_reason reason) \<Rightarrow> fail_with reason (get_default True RECOVERABLE_REASONS reason)
           | Inl (Crash e) \<Rightarrow> Inl (raised_error e)
           | Inr _ \<Rightarrow> (case hr_json response of None \<Rightarrow> api_error | Some j \<Rightarrow> Inr j)))"

section \<open>Shapes of an answer\<close>

fun entries :: "json \<Rightarrow> json_dict" where
  "entries (JDict d) = d"
| "entries _ = []"

definition rows_of :: "json \<Rightarrow> json_dict list sourced" where
  "rows_of payload = (case payload of
       JDict d \<Rightarrow> (case get_default (JList []) d ''rows'' of
           JList xs \<Rightarrow> if list_all is_dict xs then Inr (map entries xs) else api_error
         | _ \<Rightarrow> api_error)
     | _ \<Rightarrow> api_error)"

fun str_value :: "json \<Rightarrow> string option" where
  "str_value (JStr s) = Some s"
| "str_value _ = None"

text \<open>A group of values by day, in the order of the days: the first of a day, which the others must repeat.\<close>

definition put_same :: "'k \<Rightarrow> 'v \<Rightarrow> ('k \<times> 'v) list \<Rightarrow> ('k \<times> 'v) list sourced" where
  "put_same k v d = (case map_of d k of
       None \<Rightarrow> Inr (d @ [(k, v)])
     | Some v' \<Rightarrow> if v' \<noteq> v then api_error else Inr d)"

fun gather :: "('r \<Rightarrow> ('k \<times> 'v) sourced) \<Rightarrow> 'r list \<Rightarrow> ('k \<times> 'v) list \<Rightarrow> ('k \<times> 'v) list sourced" where
  "gather f [] d = Inr d"
| "gather f (r # rs) d = try_bind (f r) (\<lambda>(k, v). try_bind (put_same k v d) (gather f rs))"

definition by_sorted_day :: "(date \<times> 'v) list \<Rightarrow> (date \<times> 'v) list" where
  "by_sorted_day d = sort_key fst d"

definition observe :: "string \<Rightarrow> date \<Rightarrow> rat \<Rightarrow> dims \<Rightarrow> observation" where
  "observe metric day q dms = \<lparr>ob_metric = metric, ob_day = day, ob_value = PyFloat q, ob_dims = dms\<rparr>"

definition in_chunk :: "day_range \<Rightarrow> observation list \<Rightarrow> observation list" where
  "in_chunk chunk xs = filter (\<lambda>o'. dr_contains chunk (ob_day o')) xs"

section \<open>Analytics\<close>

definition TOTALS :: "(string \<times> string) list" where
  "TOTALS = [(''sessions'', ''sessions''), (''screen_page_views'', ''screenPageViews''),
     (''engaged_sessions'', ''engagedSessions''), (''key_events'', ''keyEvents''), (''total_revenue'', ''totalRevenue'')]"

definition TOTALS_LIMIT :: nat where "TOTALS_LIMIT = 1000"
definition EVENTS_LIMIT :: nat where "EVENTS_LIMIT = 25000"
definition MAX_PAGES :: nat where "MAX_PAGES = 20"

definition top_n_of :: "string \<Rightarrow> string \<Rightarrow> nat" where
  "top_n_of source name = (case metric_def_of source name of Some m \<Rightarrow> md_top_n m | None \<Rightarrow> 0)"

fun header_index :: "json list \<Rightarrow> nat \<Rightarrow> (string \<times> nat) list \<Rightarrow> (string \<times> nat) list sourced" where
  "header_index [] position index = Inr index"
| "header_index (h # hs) position index =
    (case h of
       JDict d \<Rightarrow> (case jget d ''name'' of
           JStr name \<Rightarrow> header_index hs (position + 1) (dict_set name position index)
         | _ \<Rightarrow> api_error)
     | _ \<Rightarrow> api_error)"

definition metric_index :: "json_dict \<Rightarrow> (string \<times> nat) list sourced" where
  "metric_index payload = (case jget payload ''metricHeaders'' of
     JList hs \<Rightarrow> header_index hs 0 [] | _ \<Rightarrow> api_error)"

definition cell_value :: "json \<Rightarrow> string option" where
  "cell_value cell = (case cell of JDict d \<Rightarrow> str_value (jget d ''value'') | _ \<Rightarrow> None)"

definition cells :: "json_dict \<Rightarrow> string \<Rightarrow> nat \<Rightarrow> string list sourced" where
  "cells row key n = (case jget row key of
       JList xs \<Rightarrow> if length xs < n \<or> \<not> list_all (\<lambda>x. cell_value x \<noteq> None) xs then api_error
         else Inr (List.map_filter cell_value xs)
     | _ \<Rightarrow> api_error)"

definition ga4_day :: "string \<Rightarrow> date sourced" where
  "ga4_day raw = or_api_error (parse_compact_date raw)"

definition ga4_number :: "string \<Rightarrow> rat sourced" where
  "ga4_number raw = (case float_of_text raw of Inr (PyFloat q) \<Rightarrow> Inr q | _ \<Rightarrow> api_error)"

text \<open>\<open>metrics[i]\<close> raises \<open>IndexError\<close> when a header repeated made the index shorter than the row.\<close>

definition cell_at :: "string list \<Rightarrow> nat \<Rightarrow> string sourced" where
  "cell_at xs i = (if i < length xs then Inr (xs ! i) else Inl (other_error ''IndexError''))"

fun total_values :: "(string \<times> nat) list \<Rightarrow> string list \<Rightarrow> date \<Rightarrow> (string \<times> string) list \<Rightarrow> observation list sourced" where
  "total_values index metrics day [] = Inr []"
| "total_values index metrics day ((name, api_name) # rest) =
     try_bind (cell_at metrics (get_default 0 index api_name)) (\<lambda>raw.
     try_bind (ga4_number raw) (\<lambda>q.
     try_bind (total_values index metrics day rest) (\<lambda>xs. Inr (observe name day q [] # xs))))"

definition ga4_total_row :: "(string \<times> nat) list \<Rightarrow> json_dict \<Rightarrow> (date \<times> observation list) sourced" where
  "ga4_total_row index row =
     try_bind (cells row ''dimensionValues'' 1) (\<lambda>dm.
     try_bind (ga4_day (dm ! 0)) (\<lambda>day.
     try_bind (cells row ''metricValues'' (length index)) (\<lambda>metrics.
     try_bind (total_values index metrics day TOTALS) (\<lambda>xs. Inr (day, xs)))))"

definition ga4_parse_totals :: "json \<Rightarrow> observation list sourced" where
  "ga4_parse_totals payload =
     try_bind (rows_of payload) (\<lambda>rows.
     try_bind (metric_index (entries payload)) (\<lambda>index.
       if rows = [] then Inr []
       else if list_ex (\<lambda>(_, api_name). api_name \<notin> fst ` set index) TOTALS then api_error
       else try_bind (gather (ga4_total_row index) rows []) (\<lambda>by_day. Inr (concat (map snd (by_sorted_day by_day))))))"

definition event_row_count :: "(string \<times> nat) list \<Rightarrow> json_dict \<Rightarrow> ((date \<times> string) \<times> rat) sourced" where
  "event_row_count index row =
     try_bind (cells row ''dimensionValues'' 2) (\<lambda>dm.
     try_bind (ga4_day (dm ! 0)) (\<lambda>day.
     try_bind (cells row ''metricValues'' (length index)) (\<lambda>metrics.
     try_bind (cell_at metrics (get_default 0 index ''eventCount'')) (\<lambda>raw.
     try_bind (ga4_number raw) (\<lambda>q. Inr ((day, dm ! 1), q))))))"

text \<open>Counts under the cleaned name: \<open>per_day[day][name] += count\<close>.\<close>

definition add_count :: "(date \<times> string) \<times> rat \<Rightarrow> (date \<times> (string \<times> rat) list) list \<Rightarrow> (date \<times> (string \<times> rat) list) list" where
  "add_count = (\<lambda>((day, raw), q) per_day.
    (case clean_event raw of
       None \<Rightarrow> per_day
     | Some name \<Rightarrow> dict_update day (\<lambda>d. dict_update name (\<lambda>n. (case n of None \<Rightarrow> 0 | Some n \<Rightarrow> n) + q)
         (case d of None \<Rightarrow> [] | Some d \<Rightarrow> d)) per_day))"

definition ranked_events :: "nat \<Rightarrow> (string \<times> rat) list \<Rightarrow> (string \<times> rat) list" where
  "ranked_events top_n d = take top_n (sort_key (\<lambda>(name, q). (- q, code_points name)) d)"

definition ga4_parse_events :: "nat \<Rightarrow> json \<Rightarrow> observation list sourced" where
  "ga4_parse_events top_n payload =
     try_bind (rows_of payload) (\<lambda>rows.
     try_bind (metric_index (entries payload)) (\<lambda>index.
       if rows = [] then Inr []
       else if ''eventCount'' \<notin> fst ` set index then api_error
       else try_bind (gather (event_row_count index) rows []) (\<lambda>raw_counts.
         (let per_day = fold add_count raw_counts []
          in Inr (concat (map (\<lambda>(day, d). map (\<lambda>(name, q). observe ''event_count'' day q [(''event_name'', name)])
               (ranked_events top_n d)) (by_sorted_day per_day)))))))"

text \<open>The pages of a report; the fuel is the number of pages left.\<close>

definition page_body :: "json_dict \<Rightarrow> nat \<Rightarrow> nat \<Rightarrow> json" where
  "page_body body limit offset = JDict (dict_set ''offset'' (JInt (int offset)) (dict_set ''limit'' (JInt (int limit)) body))"

fun report_pages :: "http_client \<Rightarrow> string \<Rightarrow> string \<Rightarrow> json_dict \<Rightarrow> nat \<Rightarrow> nat \<Rightarrow> json_dict option \<Rightarrow> json_dict list \<Rightarrow>
    json sourced" where
  "report_pages http url token body limit 0 first rows = fail_with ''truncated'' True"
| "report_pages http url token body limit (Suc pages) first rows =
     try_bind (google_json http ''POST'' url token (page_body body limit (length rows))) (\<lambda>payload.
     try_bind (rows_of payload) (\<lambda>page.
       (let head = (case first of None \<Rightarrow> entries payload | Some d \<Rightarrow> d);
            all = rows @ page;
            answer = JDict (dict_set ''rows'' (JList (map JDict all)) head)
        in case jget (entries payload) ''rowCount'' of
             JNum (PyInt announced) \<Rightarrow>
               if announced \<le> int (length all) then Inr answer
               else if page = [] then fail_with ''truncated'' True
               else report_pages http url token body limit pages (Some head) all
           | _ \<Rightarrow>
               if length page < limit then Inr answer
               else report_pages http url token body limit pages (Some head) all)))"

definition ga4_report :: "http_client \<Rightarrow> string \<Rightarrow> string \<Rightarrow> json_dict \<Rightarrow> nat \<Rightarrow> json sourced" where
  "ga4_report http url token body limit = report_pages http url token body limit MAX_PAGES None []"

definition named :: "string \<Rightarrow> json" where "named s = JDict [(''name'', JStr s)]"

definition report_body :: "day_range \<Rightarrow> string list \<Rightarrow> string list \<Rightarrow> json_dict" where
  "report_body chunk dimensions metrics = [
     (''dateRanges'', JList [JDict [(''startDate'', JStr (iso_date (dr_start chunk))), (''endDate'', JStr (iso_date (dr_end chunk)))]]),
     (''dimensions'', JList (map named dimensions)),
     (''metrics'', JList (map named metrics))]"

text \<open>The loop over the chunks of a window, shared by the two sources.\<close>

fun collect_chunks :: "(day_range \<Rightarrow> observation list sourced) \<Rightarrow> day_range list \<Rightarrow> observation list sourced" where
  "collect_chunks f [] = Inr []"
| "collect_chunks f (chunk # rest) =
     try_bind (f chunk) (\<lambda>xs. try_bind (collect_chunks f rest) (\<lambda>ys. Inr (xs @ ys)))"

definition ga4_chunk :: "http_client \<Rightarrow> string \<Rightarrow> string \<Rightarrow> day_range \<Rightarrow> observation list sourced" where
  "ga4_chunk http url token chunk =
     try_bind (ga4_report http url token (report_body chunk [''date''] (map snd TOTALS)) TOTALS_LIMIT) (\<lambda>totals.
     try_bind (ga4_parse_totals totals) (\<lambda>xs.
     try_bind (ga4_report http url token (report_body chunk [''date'', ''eventName''] [''eventCount'']) EVENTS_LIMIT) (\<lambda>events.
     try_bind (ga4_parse_events (top_n_of ''ga4'' ''event_count'') events) (\<lambda>ys.
       Inr (in_chunk chunk xs @ in_chunk chunk ys)))))"

text \<open>What both sources check first, and a window cut as the source wants it.\<close>

definition missing_token :: "string option \<Rightarrow> 'a sourced" where
  "missing_token problem =
    (let reason = (case problem of Some (c # cs) \<Rightarrow> c # cs | _ \<Rightarrow> ''token_unavailable'')
     in fail_with reason (get_default False RECOVERABLE_REASONS reason))"

definition not_linked :: "string \<Rightarrow> 'a sourced" where
  "not_linked reason = Inl (RaisedSource (mk_source_error reason False True))"

definition spec_of :: "string \<Rightarrow> source_spec" where
  "spec_of name = (case map_of SOURCE_SPECS name of Some s \<Rightarrow> s | None \<Rightarrow> snd (hd SOURCE_SPECS))"

definition ga4_collect :: "http_client \<Rightarrow> string option \<Rightarrow> string option \<Rightarrow> string option \<Rightarrow> day_range \<Rightarrow> observation list sourced" where
  "ga4_collect http property_id token problem day_range =
    (case property_id of
       Some (p # ps) \<Rightarrow>
         (case token of
            Some (t # ts) \<Rightarrow>
              try_bind (escaping (dr_chunks day_range (max_days_per_call (spec_of ''ga4'')))) (\<lambda>chunks.
                collect_chunks (ga4_chunk http (report_url (property_number (p # ps))) (t # ts)) chunks)
          | _ \<Rightarrow> missing_token problem)
     | _ \<Rightarrow> not_linked ''ga4_not_connected'')"

section \<open>Search Console\<close>

definition ROW_LIMIT :: nat where "ROW_LIMIT = 25000"

definition TOTAL_FIELDS :: "string list" where
  "TOTAL_FIELDS = [''clicks'', ''impressions'', ''ctr'', ''position'']"

definition gsc_keys :: "json_dict \<Rightarrow> nat \<Rightarrow> string list sourced" where
  "gsc_keys row n = (case jget row ''keys'' of
       JList xs \<Rightarrow> if length xs < n \<or> \<not> list_all (\<lambda>x. str_value x \<noteq> None) xs then api_error
         else Inr (List.map_filter str_value xs)
     | _ \<Rightarrow> api_error)"

definition gsc_day :: "string \<Rightarrow> date sourced" where
  "gsc_day raw = or_api_error (parse_iso_date raw)"

text \<open>\<open>math.isfinite\<close> of an integer too large for a float raises \<open>OverflowError\<close>.\<close>

definition gsc_number :: "json_dict \<Rightarrow> string \<Rightarrow> rat sourced" where
  "gsc_number row field = (case jget row field of
       JNum (PyInt n) \<Rightarrow> if OVERFLOW \<le> \<bar>n\<bar> then Inl (other_error ''OverflowError'') else Inr (of_int n)
     | JNum (PyFloat q) \<Rightarrow> Inr q
     | _ \<Rightarrow> api_error)"

fun field_values :: "json_dict \<Rightarrow> date \<Rightarrow> string list \<Rightarrow> observation list sourced" where
  "field_values row day [] = Inr []"
| "field_values row day (name # names) =
     try_bind (gsc_number row name) (\<lambda>q.
     try_bind (field_values row day names) (\<lambda>xs. Inr (observe name day q [] # xs)))"

definition gsc_total_row :: "json_dict \<Rightarrow> (date \<times> observation list) sourced" where
  "gsc_total_row row =
     try_bind (gsc_keys row 1) (\<lambda>keys.
     try_bind (gsc_day (keys ! 0)) (\<lambda>day.
     try_bind (field_values row day TOTAL_FIELDS) (\<lambda>xs. Inr (day, xs))))"

definition gsc_parse_totals :: "json \<Rightarrow> observation list sourced" where
  "gsc_parse_totals payload =
     try_bind (rows_of payload) (\<lambda>rows.
     try_bind (gather gsc_total_row rows []) (\<lambda>by_day. Inr (concat (map snd (by_sorted_day by_day)))))"

definition gsc_dimension_row :: "json_dict \<Rightarrow> ((date \<times> string) \<times> rat \<times> rat) sourced" where
  "gsc_dimension_row row =
     try_bind (gsc_keys row 2) (\<lambda>keys.
     try_bind (gsc_number row ''clicks'') (\<lambda>n.
     try_bind (gsc_number row ''impressions'') (\<lambda>m.
     try_bind (gsc_day (keys ! 0)) (\<lambda>day. Inr ((day, keys ! 1), n, m)))))"

definition add_pair :: "rat \<times> rat \<Rightarrow> (rat \<times> rat) option \<Rightarrow> rat \<times> rat" where
  "add_pair x y = (case y of None \<Rightarrow> x | Some z \<Rightarrow> (fst z + fst x, snd z + snd x))"

definition merge_row :: "(string \<Rightarrow> string option) \<Rightarrow> (date \<times> string) \<times> rat \<times> rat \<Rightarrow>
    (date \<times> (string \<times> rat \<times> rat) list) list \<Rightarrow> (date \<times> (string \<times> rat \<times> rat) list) list" where
  "merge_row cleaner = (\<lambda>((day, raw), x) merged.
    (case cleaner raw of
       None \<Rightarrow> merged
     | Some v \<Rightarrow> dict_update day (\<lambda>d. dict_update v (add_pair x) (case d of None \<Rightarrow> [] | Some d \<Rightarrow> d)) merged))"

definition ranked_rows :: "nat \<Rightarrow> (string \<times> rat \<times> rat) list \<Rightarrow> (string \<times> rat \<times> rat) list" where
  "ranked_rows top_n d = take top_n (sort_key (\<lambda>(v, n, m). (- n, - m, code_points v)) d)"

definition gsc_parse_dimension :: "(string \<Rightarrow> bool) \<Rightarrow> string \<Rightarrow> nat \<Rightarrow> json \<Rightarrow> observation list sourced" where
  "gsc_parse_dimension host_ok dimension top_n payload =
     try_bind (escaping (dict_get (CLEANERS host_ok) dimension)) (\<lambda>cleaner.
     try_bind (rows_of payload) (\<lambda>rows.
     try_bind (gather gsc_dimension_row rows []) (\<lambda>raw_rows.
       (let merged = fold (merge_row cleaner) raw_rows []
        in Inr (concat (map (\<lambda>(day, d). concat (map (\<lambda>(v, n, m).
             [observe ''clicks'' day n [(dimension, v)], observe ''impressions'' day m [(dimension, v)]])
             (ranked_rows top_n d))) (by_sorted_day merged)))))))"

definition search_url :: "string \<Rightarrow> string" where
  "search_url site = ''https://www.googleapis.com/webmasters/v3/sites/'' @ url_quote site @ ''/searchAnalytics/query''"

definition query_body :: "day_range \<Rightarrow> string list \<Rightarrow> nat \<Rightarrow> json" where
  "query_body chunk dimensions start_row = JDict [
     (''startDate'', JStr (iso_date (dr_start chunk))), (''endDate'', JStr (iso_date (dr_end chunk))),
     (''dimensions'', texts dimensions), (''rowLimit'', JInt (int ROW_LIMIT)), (''startRow'', JInt (int start_row)),
     (''dataState'', JStr ''final'')]"

fun query_pages :: "http_client \<Rightarrow> string \<Rightarrow> string \<Rightarrow> day_range \<Rightarrow> string list \<Rightarrow> nat \<Rightarrow> json_dict list \<Rightarrow> json sourced" where
  "query_pages http url token chunk dimensions 0 rows = fail_with ''truncated'' True"
| "query_pages http url token chunk dimensions (Suc pages) rows =
     try_bind (google_json http ''POST'' url token (query_body chunk dimensions (length rows))) (\<lambda>payload.
     try_bind (rows_of payload) (\<lambda>page.
       (let all = rows @ page
        in if length page < ROW_LIMIT then Inr (JDict [(''rows'', JList (map JDict all))])
           else query_pages http url token chunk dimensions pages all)))"

definition gsc_query :: "http_client \<Rightarrow> string \<Rightarrow> string \<Rightarrow> day_range \<Rightarrow> string list \<Rightarrow> json sourced" where
  "gsc_query http url token chunk dimensions = query_pages http url token chunk dimensions MAX_PAGES []"

fun dimension_rows :: "(string \<Rightarrow> bool) \<Rightarrow> http_client \<Rightarrow> string \<Rightarrow> string \<Rightarrow> day_range \<Rightarrow> string list \<Rightarrow> observation list sourced" where
  "dimension_rows host_ok http url token chunk [] = Inr []"
| "dimension_rows host_ok http url token chunk (dimension # rest) =
     try_bind (gsc_query http url token chunk [''date'', dimension]) (\<lambda>payload.
     try_bind (gsc_parse_dimension host_ok dimension (top_n_of ''gsc'' ''clicks'') payload) (\<lambda>xs.
     try_bind (dimension_rows host_ok http url token chunk rest) (\<lambda>ys. Inr (xs @ ys))))"

definition gsc_chunk :: "(string \<Rightarrow> bool) \<Rightarrow> http_client \<Rightarrow> string \<Rightarrow> string \<Rightarrow> day_range \<Rightarrow> observation list sourced" where
  "gsc_chunk host_ok http url token chunk =
     try_bind (gsc_query http url token chunk [''date'']) (\<lambda>payload.
     try_bind (gsc_parse_totals payload) (\<lambda>xs.
     try_bind (dimension_rows host_ok http url token chunk [''page'', ''query'']) (\<lambda>ys.
       Inr (in_chunk chunk (xs @ ys)))))"

definition gsc_collect :: "(string \<Rightarrow> bool) \<Rightarrow> http_client \<Rightarrow> string option \<Rightarrow> string option \<Rightarrow> string option \<Rightarrow> day_range \<Rightarrow>
    observation list sourced" where
  "gsc_collect host_ok http site_url token problem day_range =
    (case site_url of
       Some (p # ps) \<Rightarrow>
         (case token of
            Some (t # ts) \<Rightarrow>
              try_bind (escaping (dr_chunks day_range (max_days_per_call (spec_of ''gsc'')))) (\<lambda>chunks.
                collect_chunks (gsc_chunk host_ok http (search_url (p # ps)) (t # ts)) chunks)
          | _ \<Rightarrow> missing_token problem)
     | _ \<Rightarrow> not_linked ''gsc_not_connected'')"

section \<open>Whole reports\<close>

definition truncated :: raised where
  "truncated = RaisedSource (mk_source_error ''truncated'' True False)"

definition answers :: "http_response option \<Rightarrow> json_dict list \<Rightarrow> json \<Rightarrow> bool" where
  "answers response rows row_count = (\<exists>d. response = Some \<lparr>hr_status = 200, hr_json = Some (JDict d)\<rparr> \<and>
     get_default (JList []) d ''rows'' = JList (map JDict rows) \<and> jget d ''rowCount'' = row_count)"

text \<open>A service that holds the rows \<open>all\<close>, with or without their number in its answers.\<close>

definition serves_report :: "http_client \<Rightarrow> string \<Rightarrow> string \<Rightarrow> json_dict \<Rightarrow> nat \<Rightarrow> json_dict list \<Rightarrow> bool" where
  "serves_report http url token body limit rows = (\<forall>offset. \<exists>row_count \<in> {JNull, JInt (int (length rows))}.
     answers (http ''POST'' url token (page_body body limit offset)) (take limit (drop offset rows)) row_count)"

definition serves_query :: "http_client \<Rightarrow> string \<Rightarrow> string \<Rightarrow> day_range \<Rightarrow> string list \<Rightarrow> json_dict list \<Rightarrow> bool" where
  "serves_query http url token chunk dimensions rows = (\<forall>start.
     answers (http ''POST'' url token (query_body chunk dimensions start)) (take ROW_LIMIT (drop start rows)) JNull)"

lemma entries_JDict [simp]: "entries \<circ> JDict = id"
  by (simp add: fun_eq_iff)

lemma all_dicts [simp]: "list_all is_dict (map JDict rows)"
  by (induction rows) simp_all

lemma rows_of_dict: "get_default (JList []) d ''rows'' = JList (map JDict rows) \<Longrightarrow> rows_of (JDict d) = Inr rows"
  by (simp add: rows_of_def)

lemma rows_of_answer: "rows_of (JDict (dict_set ''rows'' (JList (map JDict rows)) d)) = Inr rows"
  by (rule rows_of_dict) (simp add: get_default_def)

lemma answered:
  assumes "answers (http ''POST'' url token body) rows row_count"
  obtains d where "google_json http ''POST'' url token body = Inr (JDict d)" "rows_of (JDict d) = Inr rows"
    "jget d ''rowCount'' = row_count"
proof -
  obtain d where d: "http ''POST'' url token body = Some \<lparr>hr_status = 200, hr_json = Some (JDict d)\<rparr>"
    "get_default (JList []) d ''rows'' = JList (map JDict rows)" "jget d ''rowCount'' = row_count"
    using assms by (auto simp: answers_def)
  then have "google_json http ''POST'' url token body = Inr (JDict d)"
    by (simp add: google_json_def raise_for_status_def)
  with that d rows_of_dict show ?thesis by blast
qed

text \<open>The outcome of reading a list of rows: the rows, or the failure when there are too many.\<close>

definition whole_or_truncated :: "json sourced \<Rightarrow> json_dict list \<Rightarrow> nat \<Rightarrow> bool" where
  "whole_or_truncated res rows limit = (case res of
     Inr answer \<Rightarrow> rows_of answer = Inr rows | Inl e \<Rightarrow> e = truncated \<and> limit \<le> length rows)"

lemma next_page:
  assumes "rows = take (length rows) all"
  shows "rows @ take limit (drop (length rows) all) = take (length rows + limit) all"
  by (subst (1) assms) (simp add: take_add)

lemma take_own: "take n xs = take (length (take n xs)) xs"
  by (cases "n \<le> length xs") simp_all

lemma last_page:
  assumes "length (take limit (drop n all)) < limit"
  shows "take (n + limit) all = all"
  using assms by simp

lemma report_pages_whole:
  assumes "serves_report http url token body limit all" "0 < limit" "rows = take (length rows) all"
  shows "whole_or_truncated (report_pages http url token body limit pages first rows) all (length rows + pages * limit)"
  using assms(3)
proof (induction pages arbitrary: first rows)
  case 0
  then have "length rows \<le> length all" by (metis length_take min.cobounded1)
  then show ?case by (simp add: whole_or_truncated_def fail_with_def truncated_def)
next
  case (Suc pages)
  define page where "page = take limit (drop (length rows) all)"
  obtain row_count where a: "answers (http ''POST'' url token (page_body body limit (length rows))) page row_count"
    and n: "row_count \<in> {JNull, JInt (int (length all))}"
    using assms(1) unfolding serves_report_def page_def by blast
  obtain d where d: "google_json http ''POST'' url token (page_body body limit (length rows)) = Inr (JDict d)"
    "rows_of (JDict d) = Inr page" "jget d ''rowCount'' = row_count"
    using answered [of http url token "page_body body limit (length rows)" page row_count] a by blast
  define head where "head = (case first of None \<Rightarrow> entries (JDict d) | Some d \<Rightarrow> d)"
  define ans where "ans = JDict (dict_set ''rows'' (JList (map JDict (rows @ page))) head)"
  define rest where "rest = report_pages http url token body limit pages (Some head) (rows @ page)"
  have step: "report_pages http url token body limit (Suc pages) first rows =
    (case row_count of
       JNum (PyInt announced) \<Rightarrow> if announced \<le> int (length (rows @ page)) then Inr ans
         else if page = [] then fail_with ''truncated'' True else rest
     | _ \<Rightarrow> if length page < limit then Inr ans else rest)"
    by (simp only: report_pages.simps d try_bind.simps Let_def entries.simps d(3) head_def ans_def rest_def)
  have more: "rows @ page = take (length rows + limit) all" unfolding page_def by (rule next_page [OF Suc.prems])
  have whole: "rows @ page = all" if "length all \<le> length (rows @ page)" using that by (simp add: more)
  have fin: "whole_or_truncated (Inr ans) all lim" if "rows @ page = all" for lim
    unfolding whole_or_truncated_def ans_def by (simp add: that rows_of_answer del: map_append)
  have "rows @ page = take (length (rows @ page)) all" unfolding more by (rule take_own)
  note IH = Suc.IH [OF this, of "Some head"]
  have again: "whole_or_truncated rest all (length rows + Suc pages * limit)" if "length page = limit"
    using IH that by (simp add: rest_def algebra_simps)
  have short: "rows @ page = all" if "length page < limit"
    unfolding more using that by (intro last_page) (simp add: page_def)
  have full: "length page = limit" if "\<not> length page < limit" using that by (simp add: page_def)
  show ?case
  proof (cases "row_count = JNull")
    case True
    with fin [OF short] again [OF full] show ?thesis unfolding step by simp
  next
    case False
    with n have count: "row_count = JInt (int (length all))" by blast
    show ?thesis
    proof (cases "length all \<le> length (rows @ page)")
      case True
      with fin [OF whole] show ?thesis unfolding step count by simp
    next
      case False
      then have "\<not> length page < limit" using short by force
      moreover from this have "page \<noteq> []" using assms(2) by auto
      ultimately show ?thesis using False again [OF full] unfolding step count by simp
    qed
  qed
qed

text \<open>
  C25: The paged reading of an Analytics report implements reading it whole: against a service that holds a
  list of rows and honours offset and limit, announcing their number or not, the report is exactly these rows, or
  the failure truncated when they fill every permitted page; a part of the rows is never returned.
\<close>

theorem report_whole_or_truncated:
  assumes "serves_report http url token body limit rows" "0 < limit"
  shows "whole_or_truncated (ga4_report http url token body limit) rows (MAX_PAGES * limit)"
  using report_pages_whole [OF assms, of "[]" MAX_PAGES None] by (simp add: ga4_report_def)

theorem report_whole_or_truncated_witness:
  "let rows = [[(''a'', JNull)], [(''b'', JNull)], [(''c'', JNull)]];
       http = (\<lambda>_ _ _ body. case body of
         JDict b \<Rightarrow> (case jget b ''offset'' of
             JNum (PyInt n) \<Rightarrow> Some \<lparr>hr_status = 200, hr_json = Some (JDict [(''rows'', JList (map JDict (take 2 (drop (nat n) rows))))])\<rparr>
           | _ \<Rightarrow> None)
       | _ \<Rightarrow> None)
   in whole_or_truncated (ga4_report http ''u'' ''t'' [] 2) rows 40"
proof -
  define rows :: "json_dict list" where "rows = [[(''a'', JNull)], [(''b'', JNull)], [(''c'', JNull)]]"
  define http :: http_client where "http = (\<lambda>_ _ _ body. case body of
         JDict b \<Rightarrow> (case jget b ''offset'' of
             JNum (PyInt n) \<Rightarrow> Some \<lparr>hr_status = 200, hr_json = Some (JDict [(''rows'', JList (map JDict (take 2 (drop (nat n) rows))))])\<rparr>
           | _ \<Rightarrow> None)
       | _ \<Rightarrow> None)"
  have "http ''POST'' ''u'' ''t'' (page_body [] 2 offset) =
      Some \<lparr>hr_status = 200, hr_json = Some (JDict [(''rows'', JList (map JDict (take 2 (drop offset rows))))])\<rparr>" for offset
    by (simp add: http_def page_body_def dict_set_def)
  then have "serves_report http ''u'' ''t'' [] 2 rows"
    by (simp add: serves_report_def answers_def get_default_def)
  from report_whole_or_truncated [OF this] show ?thesis
    by (simp add: rows_def [symmetric] http_def [symmetric] Let_def MAX_PAGES_def)
qed

lemma query_pages_whole:
  assumes "serves_query http url token chunk dimensions all" "rows = take (length rows) all"
  shows "whole_or_truncated (query_pages http url token chunk dimensions pages rows) all (length rows + pages * ROW_LIMIT)"
  using assms(2)
proof (induction pages arbitrary: rows)
  case 0
  then have "length rows \<le> length all" by (metis length_take min.cobounded1)
  then show ?case by (simp add: whole_or_truncated_def fail_with_def truncated_def)
next
  case (Suc pages)
  define page where "page = take ROW_LIMIT (drop (length rows) all)"
  have a: "answers (http ''POST'' url token (query_body chunk dimensions (length rows))) page JNull"
    using assms(1) unfolding serves_query_def page_def by blast
  obtain d where d: "google_json http ''POST'' url token (query_body chunk dimensions (length rows)) = Inr (JDict d)"
    "rows_of (JDict d) = Inr page"
    using answered [of http url token "query_body chunk dimensions (length rows)" page JNull] a by blast
  have more: "rows @ page = take (length rows + ROW_LIMIT) all" unfolding page_def by (rule next_page [OF Suc.prems])
  show ?case
  proof (cases "length page < ROW_LIMIT")
    case True
    have "rows @ page = all" unfolding more using True by (intro last_page) (simp add: page_def)
    moreover have "rows_of (JDict [(''rows'', JList (map JDict all))]) = Inr all" by (rule rows_of_dict) (simp add: get_default_def)
    ultimately show ?thesis using d True by (simp add: whole_or_truncated_def del: map_append)
  next
    case False
    then have "length page = ROW_LIMIT" by (simp add: page_def)
    moreover have "rows @ page = take (length (rows @ page)) all" unfolding more by (rule take_own)
    note Suc.IH [OF this]
    ultimately show ?thesis using d False by (simp add: Let_def algebra_simps)
  qed
qed

lemma query_whole_or_truncated:
  assumes "serves_query http url token chunk dimensions rows"
  shows "whole_or_truncated (gsc_query http url token chunk dimensions) rows (MAX_PAGES * ROW_LIMIT)"
  using query_pages_whole [OF assms, of "[]" MAX_PAGES] by (simp add: gsc_query_def)

section \<open>Groups\<close>

text \<open>
  Gathering succeeds exactly when every row can be read and the rows of a key agree; the result has each key
  once, with the value its rows give.
\<close>

lemma put_same_Inr: "put_same k v d = Inr d' \<longleftrightarrow>
    (case map_of d k of None \<Rightarrow> d' = d @ [(k, v)] | Some v' \<Rightarrow> v' = v \<and> d' = d)"
  by (auto simp: put_same_def api_error_def fail_with_def split: option.splits)

lemma gatherD:
  "gather f rows d = Inr d' \<Longrightarrow> distinct (map fst d) \<Longrightarrow>
    distinct (map fst d') \<and> (\<forall>k v. map_of d k = Some v \<longrightarrow> map_of d' k = Some v) \<and>
    (\<forall>r \<in> set rows. \<exists>k v. f r = Inr (k, v) \<and> map_of d' k = Some v) \<and>
    (\<forall>k \<in> fst ` set d'. k \<in> fst ` set d \<or> (\<exists>r \<in> set rows. \<exists>v. f r = Inr (k, v)))"
proof (induction rows arbitrary: d)
  case (Cons r rows)
  obtain k v d1 where r: "f r = Inr (k, v)" "put_same k v d = Inr d1" "gather f rows d1 = Inr d'"
    using Cons.prems(1) by auto
  have d1: "distinct (map fst d1)" "map_of d1 k = Some v" "\<forall>k' v'. map_of d k' = Some v' \<longrightarrow> map_of d1 k' = Some v'"
    "fst ` set d1 = insert k (fst ` set d)"
    using r(2) Cons.prems(2)
    by (auto simp: put_same_Inr map_of_append map_add_def map_of_eq_None_iff split: option.splits
        dest: map_of_SomeD intro: rev_image_eqI)
  from Cons.IH [OF r(3) d1(1)] d1(2-4) r(1) show ?case by auto
qed auto

lemma gather_again: "gather f rows d = Inr d' \<Longrightarrow> distinct (map fst d) \<Longrightarrow> gather f rows d' = Inr d'"
proof -
  have "gather f rows' d' = Inr d'" if "\<forall>r \<in> set rows'. \<exists>k v. f r = Inr (k, v) \<and> map_of d' k = Some v" for rows'
    using that by (induction rows') (auto simp: put_same_def)
  then show "gather f rows d = Inr d' \<Longrightarrow> distinct (map fst d) \<Longrightarrow> gather f rows d' = Inr d'"
    using gatherD by blast
qed

lemma gather_append: "gather f (xs @ ys) d = try_bind (gather f xs d) (gather f ys)"
proof (induction xs arbitrary: d)
  case (Cons x xs)
  show ?case
  proof (cases "f x")
    case (Inr kv)
    then show ?thesis by (cases kv; cases "put_same (fst kv) (snd kv) d") (simp_all add: Cons.IH)
  qed simp
qed simp

text \<open>A page repeated by the service changes nothing.\<close>

lemma repeated_rows: "gather f rows [] = Inr d \<Longrightarrow> gather f (rows @ rows) [] = Inr d"
  by (simp add: gather_append gather_again)

section \<open>Shapes that escape\<close>

text \<open>A header named twice makes the index shorter than the row: the reading of a cell raises \<open>IndexError\<close>.\<close>

lemma repeated_header_escapes:
  "ga4_parse_events 25 (JDict [
     (''metricHeaders'', JList [JDict [(''name'', JStr ''x'')], JDict [(''name'', JStr ''x'')], JDict [(''name'', JStr ''eventCount'')]]),
     (''rows'', JList [JDict [(''dimensionValues'', JList [JDict [(''value'', JStr ''20240105'')], JDict [(''value'', JStr ''a'')]]),
        (''metricValues'', JList [JDict [(''value'', JStr ''1'')], JDict [(''value'', JStr ''2'')]])]])]) =
   Inl (other_error ''IndexError'')"
proof -
  have "is_ok (parse_compact_date ''20240105'')" by code_simp
  then obtain d where "ga4_day ''20240105'' = Inr d" by (auto simp: ga4_day_def or_api_error_def is_ok_iff)
  then show ?thesis
    by (simp add: ga4_parse_events_def rows_of_def get_default_def metric_index_def dict_set_def event_row_count_def
        cells_def cell_value_def cell_at_def)
qed

lemma huge_clicks_escape:
  "gsc_number [(''clicks'', JInt (10 ^ 400))] ''clicks'' = Inl (other_error ''OverflowError'')"
  by (simp add: gsc_number_def OVERFLOW_def)

end
