(* ===== verification/Site_Sources.thy ===== *)
theory Site_Sources
  imports Google_Sources
begin

text \<open>
  The sources that look at the site itself, and the choice of a source by its name
  (\<open>app/services/metrics/sources/cwv.py\<close>, \<open>probes.py\<close>, \<open>factory.py\<close>). PageSpeed, the page fetcher and the
  certificate check are parameters. The lemmas: field values never come from the laboratory, a laboratory
  failure never hides them; a probe that answers at all gives an observation of its own, a refused certificate
  gives no number of days.
\<close>

section \<open>Core Web Vitals\<close>

definition FIELD_METRICS :: "(string \<times> string list) list" where
  "FIELD_METRICS = [(''lcp_p75_ms'', [''LARGEST_CONTENTFUL_PAINT_MS'']),
     (''inp_p75_ms'', [''INTERACTION_TO_NEXT_PAINT'', ''EXPERIMENTAL_INTERACTION_TO_NEXT_PAINT'']),
     (''cls_p75'', [''CUMULATIVE_LAYOUT_SHIFT_SCORE''])]"

text \<open>A key that is absent is an empty object, one that holds something else is an error.\<close>

definition subsection_of :: "json_dict \<Rightarrow> string \<Rightarrow> json_dict sourced" where
  "subsection_of value key = (case map_of value key of
       None \<Rightarrow> Inr []
     | Some (JDict d) \<Rightarrow> Inr d
     | Some _ \<Rightarrow> api_error)"

definition finite_number :: "json \<Rightarrow> rat option" where
  "finite_number value = (case value of
       JNum (PyBool b) \<Rightarrow> None
     | JNum n \<Rightarrow> (case py_float (JNum n) of Inr (PyFloat q) \<Rightarrow> Some q | _ \<Rightarrow> None)
     | _ \<Rightarrow> None)"

fun percentile :: "json_dict \<Rightarrow> string list \<Rightarrow> rat option sourced" where
  "percentile metrics [] = Inr None"
| "percentile metrics (key # keys) =
    (case map_of metrics key of
       None \<Rightarrow> percentile metrics keys
     | Some (JDict entry) \<Rightarrow> (case finite_number (jget entry ''percentile'') of
           None \<Rightarrow> api_error
         | Some q \<Rightarrow> if q < 0 then api_error else Inr (Some q))
     | Some _ \<Rightarrow> api_error)"

text \<open>The layout shift is given multiplied by a hundred.\<close>

definition field_value :: "string \<Rightarrow> rat \<Rightarrow> rat" where
  "field_value name q = (if name = ''cls_p75'' then q / 100 else q)"

fun field_observations :: "json_dict \<Rightarrow> date \<Rightarrow> (string \<times> string list) list \<Rightarrow> observation list sourced" where
  "field_observations metrics day [] = Inr []"
| "field_observations metrics day ((name, keys) # rest) =
     try_bind (percentile metrics keys) (\<lambda>p.
     try_bind (field_observations metrics day rest) (\<lambda>xs.
       Inr ((case p of None \<Rightarrow> [] | Some q \<Rightarrow> [observe name day (field_value name q) []]) @ xs)))"

text \<open>\<open>round(x, 1)\<close>: to the nearest tenth, a tie to the even one.\<close>

definition round_tenth :: "rat \<Rightarrow> rat" where
  "round_tenth q = of_int (py_round (q * 10)) / 10"

definition lab_failed :: "json_dict \<Rightarrow> bool sourced" where
  "lab_failed lighthouse = (case jget lighthouse ''runtimeError'' of
       JNull \<Rightarrow> Inr False
     | JDict d \<Rightarrow> (case jget d ''code'' of
           JStr code \<Rightarrow> Inr (code \<noteq> [] \<and> code \<noteq> ''NO_ERROR'') | _ \<Rightarrow> Inr False)
     | _ \<Rightarrow> api_error)"

definition lab_score :: "json_dict \<Rightarrow> date \<Rightarrow> observation list sourced" where
  "lab_score lighthouse day =
     try_bind (subsection_of lighthouse ''categories'') (\<lambda>categories.
     try_bind (subsection_of categories ''performance'') (\<lambda>performance.
       (let score = jget performance ''score''
        in if score = JNull then Inr []
           else case finite_number score of
               None \<Rightarrow> api_error
             | Some q \<Rightarrow> if 0 \<le> q \<and> q \<le> 1 then Inr [observe ''performance_score'' day (round_tenth (q * 100)) []]
                 else api_error)))"

definition parse_cwv :: "json \<Rightarrow> date \<Rightarrow> observation list sourced" where
  "parse_cwv payload day =
    (case payload of
       JDict d \<Rightarrow> (case jget d ''lighthouseResult'' of
           JDict lighthouse \<Rightarrow>
             try_bind (lab_failed lighthouse) (\<lambda>failed.
             try_bind (subsection_of d ''originLoadingExperience'') (\<lambda>experience.
             try_bind (subsection_of experience ''metrics'') (\<lambda>metrics.
             try_bind (field_observations metrics day FIELD_METRICS) (\<lambda>observations.
               if failed then (if observations = [] then fail_with ''site_unreachable'' False else Inr observations)
               else try_bind (lab_score lighthouse day) (\<lambda>score. Inr (observations @ score))))))
         | _ \<Rightarrow> api_error)
     | _ \<Rightarrow> api_error)"

definition KEY_REJECTED_REASONS :: "string list" where
  "KEY_REJECTED_REASONS = [''API_KEY_INVALID'', ''keyInvalid'', ''SERVICE_DISABLED'', ''accessNotConfigured'',
     ''API_KEY_SERVICE_BLOCKED'', ''API_KEY_HTTP_REFERRER_BLOCKED'', ''API_KEY_IP_ADDRESS_BLOCKED'',
     ''API_KEY_ANDROID_APP_BLOCKED'', ''API_KEY_IOS_APP_BLOCKED'', ''PERMISSION_DENIED'', ''UNAUTHENTICATED'']"

definition PAGESPEED_QUOTA_REASONS :: "string list" where
  "PAGESPEED_QUOTA_REASONS = [''RESOURCE_EXHAUSTED'', ''rateLimitExceeded'', ''dailyLimitExceeded'', ''quotaExceeded'']"

definition SITE_UNREACHABLE_MARKERS :: "string list" where
  "SITE_UNREACHABLE_MARKERS = [''FAILED_DOCUMENT_REQUEST'', ''ERRORED_DOCUMENT_REQUEST'', ''DNS_FAILURE'']"

definition error_facts :: "http_response \<Rightarrow> string list \<times> bool" where
  "error_facts response =
    (case hr_json response of
       Some (JDict body) \<Rightarrow> (case jget body ''error'' of
           JDict error \<Rightarrow>
             (let reasons = (case jget error ''status'' of JStr s \<Rightarrow> [s] | _ \<Rightarrow> []) @
                  reasons_in (jget error ''details'') @ reasons_in (jget error ''errors'');
                  unreachable = (case jget error ''message'' of
                      JStr m \<Rightarrow> list_ex (\<lambda>marker. contains marker m) SITE_UNREACHABLE_MARKERS | _ \<Rightarrow> False)
              in (reasons, unreachable \<or> ''FAILED_DOCUMENT_REQUEST'' \<in> set reasons))
         | _ \<Rightarrow> ([], False))
     | _ \<Rightarrow> ([], False))"

definition raise_for_pagespeed :: "http_response \<Rightarrow> unit sourced" where
  "raise_for_pagespeed response =
    (let status = hr_status response; (reasons, page_unreachable) = error_facts response
     in if status < 400 then Inr ()
        else if status = 429 \<or> list_ex (\<lambda>r. r \<in> set PAGESPEED_QUOTA_REASONS) reasons then fail_with ''quota'' True
        else if status \<in> {401, 403} \<or> list_ex (\<lambda>r. r \<in> set KEY_REJECTED_REASONS) reasons
        then fail_with ''api_key_rejected'' False
        else if page_unreachable then fail_with ''site_unreachable'' False
        else if status = 400 then fail_with ''bad_request'' False
        else if status \<in> {408, 425} \<or> 500 \<le> status then api_error
        else fail_with ''api_error'' False)"

datatype pagespeed_answer = Invalid_url | Http_error | Answered http_response

text \<open>The client: the query parameters and the headers of the request.\<close>

type_synonym pagespeed_client = "(string \<times> string) list \<Rightarrow> (string \<times> string) list \<Rightarrow> pagespeed_answer"

definition printable :: "char \<Rightarrow> bool" where
  "printable c = (32 \<le> (of_char c :: nat) \<and> (of_char c :: nat) \<le> 126)"

definition api_key_headers :: "string option \<Rightarrow> (string \<times> string) list sourced" where
  "api_key_headers api_key = (case api_key of
       Some (c # cs) \<Rightarrow> if list_all printable (c # cs) then Inr [(''X-Goog-Api-Key'', c # cs)]
         else fail_with ''api_key_rejected'' False
     | _ \<Rightarrow> Inr [])"

definition cwv_collect :: "pagespeed_client \<Rightarrow> string option \<Rightarrow> date \<Rightarrow> website \<Rightarrow> day_range \<Rightarrow> observation list sourced" where
  "cwv_collect client api_key today site day_range =
    (if \<not> dr_contains day_range today then Inr []
     else try_bind (api_key_headers api_key) (\<lambda>headers.
       case client [(''url'', base_url site), (''strategy'', ''mobile''), (''category'', ''performance'')] headers of
         Invalid_url \<Rightarrow> fail_with ''bad_request'' False
       | Http_error \<Rightarrow> fail_with ''network'' True
       | Answered response \<Rightarrow>
           try_bind (raise_for_pagespeed response) (\<lambda>_.
             case hr_json response of None \<Rightarrow> api_error | Some payload \<Rightarrow> parse_cwv payload today)))"

section \<open>Probes\<close>

definition page_up :: "int \<Rightarrow> rat option" where
  "page_up status = (if 500 \<le> status \<or> status \<in> {404, 410} then Some 0 else if status < 400 then Some 1 else None)"

text \<open>The checks may raise anything: \<open>Inl\<close>, read as no observation.\<close>

type_synonym tls_checker = "string \<Rightarrow> py_exception + tls_status"
type_synonym page_fetcher = "string \<Rightarrow> bool \<Rightarrow> py_exception + page_snapshot option"

definition tls_observation :: "date \<Rightarrow> py_exception + tls_status \<Rightarrow> observation list" where
  "tls_observation day answer = (case answer of
       Inl _ \<Rightarrow> []
     | Inr tls \<Rightarrow> (case tl_days_remaining tls of
           None \<Rightarrow> []
         | Some n \<Rightarrow> if tl_status tls \<noteq> ''unreachable'' then [observe ''tls_days_remaining'' day (of_int n) []] else []))"

definition page_observation :: "date \<Rightarrow> py_exception + page_snapshot option \<Rightarrow> observation list" where
  "page_observation day answer = (case answer of
       Inr (Some page) \<Rightarrow> (case page_up (pg_status page) of
           None \<Rightarrow> [] | Some q \<Rightarrow> [observe ''page_up'' day q []])
     | _ \<Rightarrow> [])"

definition probe_collect :: "tls_checker \<Rightarrow> page_fetcher \<Rightarrow> date \<Rightarrow> website \<Rightarrow> day_range \<Rightarrow> observation list sourced" where
  "probe_collect checker fetcher today site day_range =
    (if \<not> dr_contains day_range today then Inr []
     else (let observations = tls_observation today (checker (ws_domain site)) @
             page_observation today (fetcher (base_url site) (ws_allow_insecure_probe site))
           in if observations = [] then fail_with ''unreachable'' True else Inr observations))"

section \<open>The choice of a source\<close>

record metric_source =
  ms_spec :: source_spec
  ms_collect :: "website \<Rightarrow> day_range \<Rightarrow> observation list sourced"

text \<open>A factory may change the connections of the site while it resolves its tokens.\<close>

type_synonym source_factory = "website \<Rightarrow> string \<Rightarrow> google_link list \<Rightarrow> google_connection list \<Rightarrow>
  google_connection list \<times> metric_source sourced"

record outside =
  ou_refresh :: refresher
  ou_http :: http_client
  ou_pagespeed :: pagespeed_client
  ou_api_key :: "string option"
  ou_tls :: tls_checker
  ou_fetch :: page_fetcher
  ou_host_ok :: "string \<Rightarrow> bool"

definition default_source_factory :: "outside \<Rightarrow> date \<Rightarrow> source_factory" where
  "default_source_factory ou today site name links conns =
    (if name \<in> {''ga4'', ''gsc''}
     then (let (conns', cr) = resolve_google_credentials (ou_refresh ou) (ws_id site) links conns
       in (conns', Inr (if name = ''ga4''
            then \<lparr>ms_spec = spec_of ''ga4'',
              ms_collect = (\<lambda>_. ga4_collect (ou_http ou) (cr_ga4_property cr) (cr_ga4_token cr) (cr_ga4_problem cr))\<rparr>
            else \<lparr>ms_spec = spec_of ''gsc'',
              ms_collect = (\<lambda>_. gsc_collect (ou_host_ok ou) (ou_http ou) (cr_gsc_site cr) (cr_gsc_token cr) (cr_gsc_problem cr))\<rparr>)))
     else if name = ''cwv''
     then (conns, Inr \<lparr>ms_spec = spec_of ''cwv'', ms_collect = cwv_collect (ou_pagespeed ou) (ou_api_key ou) today\<rparr>)
     else if name = ''probe''
     then (conns, Inr \<lparr>ms_spec = spec_of ''probe'', ms_collect = probe_collect (ou_tls ou) (ou_fetch ou) today\<rparr>)
     else (conns, fail_with ''unknown_source'' False))"

section \<open>Field and laboratory\<close>

lemma field_observationsD:
  "field_observations metrics day specs = Inr xs \<Longrightarrow> o' \<in> set xs \<Longrightarrow>
    \<exists>keys q. (ob_metric o', keys) \<in> set specs \<and> percentile metrics keys = Inr (Some q) \<and>
      o' = observe (ob_metric o') day (field_value (ob_metric o') q) []"
proof (induction metrics day specs arbitrary: xs rule: field_observations.induct)
  case (2 metrics day name keys rest)
  then show ?case by (auto simp: observe_def split: option.splits) blast+
qed simp

lemma lab_scoreD: "lab_score lighthouse day = Inr xs \<Longrightarrow> o' \<in> set xs \<Longrightarrow> ob_metric o' = ''performance_score''"
  by (auto simp: lab_score_def observe_def api_error_def fail_with_def Let_def split: option.splits if_splits)

text \<open>
  Whatever the laboratory said, the field values of an answer are those of the visitors: one observation for
  each percentile present, nothing else; a failed laboratory takes away its score only.
\<close>

lemma parse_cwv_field:
  assumes "parse_cwv payload day = Inr xs"
  shows "\<exists>d experience metrics field. payload = JDict d \<and> subsection_of d ''originLoadingExperience'' = Inr experience \<and>
    subsection_of experience ''metrics'' = Inr metrics \<and> field_observations metrics day FIELD_METRICS = Inr field \<and>
    filter (\<lambda>o'. ob_metric o' \<noteq> ''performance_score'') xs = field"
proof -
  obtain d lighthouse failed experience metrics field where p: "payload = JDict d"
    "lab_failed lighthouse = Inr failed" "subsection_of d ''originLoadingExperience'' = Inr experience"
    "subsection_of experience ''metrics'' = Inr metrics" "field_observations metrics day FIELD_METRICS = Inr field"
    "(if failed then (if field = [] then fail_with ''site_unreachable'' False else Inr field)
      else try_bind (lab_score lighthouse day) (\<lambda>score. Inr (field @ score))) = Inr xs"
    using assms by (auto simp: parse_cwv_def api_error_def fail_with_def [of "''api_error''"] split: json.splits)
  have "ob_metric o' \<noteq> ''performance_score''" if "o' \<in> set field" for o'
    using field_observationsD [OF p(5) that] by (auto simp: FIELD_METRICS_def)
  then have "filter (\<lambda>o'. ob_metric o' \<noteq> ''performance_score'') field = field" by (simp add: filter_id_conv)
  moreover have "filter (\<lambda>o'. ob_metric o' \<noteq> ''performance_score'') score = []"
    if "lab_score lighthouse day = Inr score" for score using lab_scoreD [OF that] by (auto simp: filter_empty_conv)
  ultimately have "filter (\<lambda>o'. ob_metric o' \<noteq> ''performance_score'') xs = field"
    using p(6) by (auto simp: fail_with_def split: if_splits)
  with p show ?thesis by blast
qed

section \<open>Expired certificates\<close>

text \<open>
  With the certificate check of this program, whose second handshake does not verify, no refused certificate
  has its days observed.
\<close>

lemma refused_certificate_unobserved:
  assumes "unverified_is_empty shake" "shake (tls_host domain) True = Refused e"
  shows "tls_observation day (Inr (check_certificate (\<lambda>host. Inr (default_probe shake host)) now domain)) = []"
  using refused_has_no_date [OF assms, of now] by (simp add: check_certificate_def tls_observation_def Let_def)

lemma probe_kinds:
  "probe_collect checker fetcher today site day_range = Inr xs \<Longrightarrow> dr_contains day_range today \<Longrightarrow>
    xs \<noteq> [] \<and> length xs \<le> 2 \<and> (\<forall>o' \<in> set xs. ob_day o' = today \<and> ob_metric o' \<in> {''tls_days_remaining'', ''page_up''})"
  by (auto simp: probe_collect_def tls_observation_def page_observation_def observe_def fail_with_def Let_def
      split: sum.splits option.splits if_splits)

end
