(* ===== verification/Job_Handlers.thy ===== *)
theory Job_Handlers
  imports Site_Sources Measurement_Plan_Props Job_Tick
begin

text \<open>
  The work of each kind of task (\<open>app/services/jobs/handlers.py\<close>): collecting a source, reading its history back
  chunk by chunk, checking the measurement plan, maintaining the partitions. A handler is a function on the
  database that keeps what it commits apart from what it leaves pending; the sources, the reader and the page
  fetcher come from the services. The clock is read once for a delivery. The lemmas discharge the contract of
  the runner for these handlers.
\<close>

section \<open>Services\<close>

text \<open>
  \<open>JobServices\<close>, with what the handlers take from their surroundings: the host test of the page cleaner, the
  coverage of partition bounds, and whether the check of a site ends within its two minutes.
\<close>

record job_services =
  js_source_factory :: source_factory
  js_page_fetcher :: "string \<Rightarrow> bool \<Rightarrow> page_snapshot option"
  js_reader_factory :: "website \<Rightarrow> google_link list \<Rightarrow> google_connection list \<Rightarrow>
    google_connection list \<times> google_reader sourced"
  js_today :: date
  js_now :: datetime
  js_host_ok :: "string \<Rightarrow> bool"
  js_covers :: coverage
  js_check_in_time :: "website \<Rightarrow> bool"

definition BREAKER_WINDOW :: timedelta where "BREAKER_WINDOW = minutes 30"
definition BREAKER_THRESHOLD :: nat where "BREAKER_THRESHOLD = 3"
definition QUOTA_EVENTS_RETENTION :: timedelta where "QUOTA_EVENTS_RETENTION = days 2"
definition PROBE_METRICS :: "string list" where "PROBE_METRICS = [''tls_days_remaining'', ''page_up'']"
definition PROBE_PARTIAL :: string where "PROBE_PARTIAL = ''probe_partial''"

text \<open>A handler that raises: its pending writes are lost with the rollback.\<close>

definition stopped :: "'db \<Rightarrow> raised \<Rightarrow> 'db handler_run" where
  "stopped db e = \<lparr>hr_committed = db, hr_pending = db, hr_result = Inl e\<rparr>"

definition or_stop :: "'db \<Rightarrow> 'x sourced \<Rightarrow> ('x \<Rightarrow> 'db handler_run) \<Rightarrow> 'db handler_run" where
  "or_stop db r f = (case r of Inl e \<Rightarrow> stopped db e | Inr x \<Rightarrow> f x)"

definition succeeded :: "int \<Rightarrow> string option \<Rightarrow> handler_outcome" where
  "succeeded n note = \<lparr>ho_status = Succeeded, ho_observations = n, ho_note = note\<rparr>"

section \<open>Steps\<close>

definition active_website :: "job_run \<Rightarrow> 'a jobs_db_scheme \<Rightarrow> website sourced" where
  "active_website run db =
    (case (case jr_website_id run of None \<Rightarrow> None | Some i \<Rightarrow> website_by_id db i) of
       None \<Rightarrow> not_linked ''website_inactive''
     | Some w \<Rightarrow> if ws_archived_at w \<noteq> None then not_linked ''website_inactive'' else Inr w)"

definition quota_breaker_open :: "uuid \<Rightarrow> string \<Rightarrow> datetime \<Rightarrow> 'a jobs_db_scheme \<Rightarrow> bool" where
  "quota_breaker_open workspace source now db =
    (BREAKER_THRESHOLD \<le> count_rows (\<lambda>e. qe_workspace_id e = workspace \<and> qe_source e = source \<and>
       now - BREAKER_WINDOW \<le> qe_at e) (quota_events db))"

definition record_quota_event :: "datetime \<Rightarrow> job_run \<Rightarrow> string \<Rightarrow> 'a jobs_db_scheme \<Rightarrow> 'a jobs_db_scheme" where
  "record_quota_event now run name db = (case jr_workspace_id run of
       None \<Rightarrow> db
     | Some ws \<Rightarrow> db\<lparr>quota_events := quota_events db @ [\<lparr>qe_workspace_id = ws, qe_source = name, qe_at = now\<rparr>]\<rparr>)"

text \<open>The database as committed with the source: the connections changed before an error survive it.\<close>

definition open_source :: "job_services \<Rightarrow> website \<Rightarrow> string \<Rightarrow> job_run \<Rightarrow> 'a plan_db_scheme \<Rightarrow>
    'a plan_db_scheme \<times> metric_source sourced" where
  "open_source sv site name run db =
    (if name \<in> set BACKFILL_SOURCES \<and> (case jr_workspace_id run of None \<Rightarrow> False
          | Some ws \<Rightarrow> quota_breaker_open ws name (js_now sv) db)
     then (db, fail_with ''circuit_open'' True)
     else (let (conns, source) = js_source_factory sv site name (google_links db) (google_connections db);
               db' = db\<lparr>google_connections := conns\<rparr>
           in case source of
                Inl (RaisedOther e) \<Rightarrow> (db, source)
              | _ \<Rightarrow> (db', source)))"

definition fetch_window :: "job_services \<Rightarrow> job_run \<Rightarrow> metric_source \<Rightarrow> string \<Rightarrow> website \<Rightarrow> day_range \<Rightarrow>
    'a plan_db_scheme \<Rightarrow> 'a plan_db_scheme \<times> observation list sourced" where
  "fetch_window sv run source name site window db =
    (let res = ms_collect source site window
     in case res of
          Inl (RaisedSource e) \<Rightarrow>
            (if se_reason e = ''quota'' then record_quota_event (js_now sv) run name db else db, res)
        | _ \<Rightarrow> (db, res))"

definition store_fetched :: "job_services \<Rightarrow> job_run \<Rightarrow> string \<Rightarrow> website \<Rightarrow> observation list \<Rightarrow> 'a plan_db_scheme \<Rightarrow>
    ('a plan_db_scheme \<times> store_result) sourced" where
  "store_fetched sv run name site observations db =
     escaping (store_observations (js_host_ok sv) (ws_id site) name observations (Some (jr_id run)) (js_now sv) db)"

section \<open>Handlers\<close>

definition collect_stored :: "job_services \<Rightarrow> string \<Rightarrow> job_run \<Rightarrow> website \<Rightarrow> observation list \<Rightarrow> 'a plan_db_scheme \<Rightarrow>
    'a plan_db_scheme handler_run" where
  "collect_stored sv name run site observations db =
    (if name \<in> {''probe'', ''cwv''} \<and> observations = [] then stopped db (RaisedSource (mk_source_error ''no_observation'' True False))
     else or_stop db (store_fetched sv run name site observations db) (\<lambda>(db', res).
       \<lparr>hr_committed = db, hr_pending = db',
        hr_result = Inr (succeeded (int (st_written res))
          (if name = ''probe'' \<and> \<not> set PROBE_METRICS \<subseteq> ob_metric ` set observations then Some PROBE_PARTIAL else None))\<rparr>))"

definition collect :: "job_services \<Rightarrow> string \<Rightarrow> 'a plan_db_scheme handler" where
  "collect sv name run db =
     or_stop db (active_website run db) (\<lambda>site.
       (let (db1, opened) = open_source sv site name run db
        in or_stop db1 opened (\<lambda>source.
           or_stop db1 (escaping (regular_window (ms_spec source) (js_today sv))) (\<lambda>window.
             (let (db2, fetched) = fetch_window sv run source name site window db1
              in or_stop db2 fetched (\<lambda>observations. collect_stored sv name run site observations db2))))))"

text \<open>The chunks of a history: each is committed before the next is fetched.\<close>

fun backfill_chunks :: "job_services \<Rightarrow> job_run \<Rightarrow> string \<Rightarrow> website \<Rightarrow> metric_source \<Rightarrow> day_range list \<Rightarrow> nat \<Rightarrow>
    'a plan_db_scheme \<Rightarrow> 'a plan_db_scheme handler_run" where
  "backfill_chunks sv run name site source [] written db =
     \<lparr>hr_committed = db, hr_pending = db, hr_result = Inr (succeeded (int written) None)\<rparr>"
| "backfill_chunks sv run name site source (chunk # rest) written db =
    (let (db1, fetched) = fetch_window sv run source name site chunk db
     in or_stop db1 fetched (\<lambda>observations.
        or_stop db1 (store_fetched sv run name site observations db1) (\<lambda>(db2, res).
          backfill_chunks sv run name site source rest (written + st_written res) db2)))"

definition bad_params :: raised where
  "bad_params = RaisedSource (mk_source_error ''bad_params'' False False)"

definition backfill :: "job_services \<Rightarrow> 'a plan_db_scheme handler" where
  "backfill sv run db =
    (let name = get_default [] (jr_params run) ''source''
     in if name \<notin> set BACKFILL_SOURCES then stopped db bad_params
        else or_stop db (active_website run db) (\<lambda>site.
          (let (db1, opened) = open_source sv site name run db
           in or_stop db1 opened (\<lambda>source.
              or_stop db1 (escaping (backfill_window (ms_spec source) (js_today sv))) (\<lambda>window.
                case window of
                  None \<Rightarrow> stopped db1 bad_params
                | Some w \<Rightarrow> or_stop db1 (escaping (dr_chunks w (max_days_per_call (ms_spec source)))) (\<lambda>chunks.
                    backfill_chunks sv run name site source chunks 0 db1))))))"

text \<open>
  The check never opens a browser: the verifier it passes raises, and a refresh without a browser does not call
  it (\<open>browser_unused\<close>); its value stands for the raise. A check that takes too long is cancelled and
  leaves nothing.
\<close>

definition timed_out :: raised where "timed_out = other_error ''TimeoutError''"

definition no_browser :: "string \<Rightarrow> headless_result" where
  "no_browser url = \<lparr>hl_gtm_js_loaded = False, hl_containers_initialised = [], hl_gtm_events = [], hl_ga4_measurement_ids = [],
     hl_ads_requests = 0, hl_consent_default_seen = False, hl_checked_at = 0, hl_error = Some ''RuntimeError''\<rparr>"

definition measurement_check :: "job_services \<Rightarrow> 'a plan_db_scheme handler" where
  "measurement_check sv run db =
     or_stop db (active_website run db) (\<lambda>site.
       (let (conns, built) = js_reader_factory sv site (google_links db) (google_connections db)
        in or_stop db built (\<lambda>reader.
          (let db1 = db\<lparr>google_connections := conns\<rparr>
           in if \<not> js_check_in_time sv site then stopped db1 timed_out
              else or_stop db1 (escaping (refresh_plan
                  \<lparr>pl_fetcher = js_page_fetcher sv, pl_reader = reader, pl_verifier = no_browser, pl_tls_checker = None\<rparr>
                  site False (js_now sv) db1)) (\<lambda>(db2, _).
                \<lparr>hr_committed = db1, hr_pending = db2, hr_result = Inr (succeeded 0 None)\<rparr>)))))"

definition purge_old_quota_events :: "datetime \<Rightarrow> timedelta \<Rightarrow> 'a jobs_db_scheme \<Rightarrow> 'a jobs_db_scheme \<times> nat" where
  "purge_old_quota_events now keep db =
    (db\<lparr>quota_events := delete_rows (\<lambda>e. qe_at e < now - keep) (quota_events db)\<rparr>,
     count_rows (\<lambda>e. qe_at e < now - keep) (quota_events db))"

text \<open>Two transactions: the months to come, then everything that is past its retention.\<close>

definition partition_maintenance :: "job_services \<Rightarrow> 'a plan_db_scheme handler" where
  "partition_maintenance sv run db =
     or_stop db (escaping (ensure_partitions (js_covers sv) (js_today sv) 4 3 db)) (\<lambda>(db1, created).
     or_stop db1 (escaping (purge_expired (js_covers sv) (js_today sv) RETENTION_MONTHS db1)) (\<lambda>(db2, purged).
       (let db3 = fst (purge_old_job_runs (js_now sv) JOB_RUNS_RETENTION db2);
            db4 = fst (purge_old_quota_events (js_now sv) QUOTA_EVENTS_RETENTION db3)
        in if pr_unexpected purged \<noteq> []
           then stopped db4 (RaisedSource (mk_source_error ''unexpected_partitions'' False False))
           else \<lparr>hr_committed = db4, hr_pending = db4, hr_result = Inr (succeeded 0 None)\<rparr>)))"

definition build_handlers :: "job_services \<Rightarrow> (string \<times> 'a plan_db_scheme handler) list" where
  "build_handlers sv =
     fold (\<lambda>(source, kind). dict_set kind (collect sv source)) COLLECT_KIND_BY_SOURCE
       [(''backfill'', backfill sv), (''measurement_check'', measurement_check sv),
        (''partition_maintenance'', partition_maintenance sv)]"

text \<open>The services of the worker: one clock for the dates of the sources, the certificate check and the handlers.\<close>

definition default_job_services :: "outside \<Rightarrow> datetime \<Rightarrow> coverage \<Rightarrow> (website \<Rightarrow> bool) \<Rightarrow>
    (string \<Rightarrow> bool \<Rightarrow> page_snapshot option) \<Rightarrow> (string \<Rightarrow> string + tls_probe) \<Rightarrow> job_services" where
  "default_job_services ou now covers in_time fetch probe =
    (let world = ou\<lparr>ou_tls := (\<lambda>domain. Inr (check_certificate probe now domain)), ou_fetch := (\<lambda>url insecure. Inr (fetch url insecure))\<rparr>
     in \<lparr>js_source_factory = default_source_factory world (date_of now),
         js_page_fetcher = fetch,
         js_reader_factory = (\<lambda>site links conns.
           (let (conns', rd) = build_reader (ou_refresh ou) (ws_id site) links conns
            in (conns', Inr (http_google_reader (ou_http ou) rd)))),
         js_today = date_of now, js_now = now, js_host_ok = ou_host_ok ou, js_covers = covers,
         js_check_in_time = in_time\<rparr>)"

section \<open>What the steps leave alone\<close>

text \<open>The rows of the runs, those of the schedules and the identity of the sites.\<close>

definition framed :: "'a jobs_db_scheme \<Rightarrow> 'a jobs_db_scheme \<Rightarrow> bool" where
  "framed db db' = (job_runs db' = job_runs db \<and> schedules db' = schedules db \<and>
     map ws_id (websites db') = map ws_id (websites db))"

named_theorems framing \<open>steps that keep the tables of the jobs\<close>

lemma framed_refl [framing]: "framed db db"
  by (simp add: framed_def)

lemma framed_trans: "framed db db1 \<Longrightarrow> framed db1 db2 \<Longrightarrow> framed db db2"
  by (simp add: framed_def)

lemma runs_inv_framed: "runs_inv L (t, db) \<Longrightarrow> framed db db' \<Longrightarrow> runs_inv L (t, db')"
  by (simp add: runs_inv_def framed_def jobs_wf_def runs_ok_def within_limit_def uniq_by_def)

lemma run_by_id_framed: "framed db db' \<Longrightarrow> run_by_id db' i = run_by_id db i"
  by (simp add: framed_def run_by_id_def)

lemma framed_quota_event [framing]: "framed db (record_quota_event now run name db)"
  by (simp add: framed_def record_quota_event_def split: option.splits)

lemma framed_open_source [framing]: "framed db (fst (open_source sv site name run db))"
  by (simp add: open_source_def framed_def Let_def split: prod.splits sum.splits raised.splits)

lemma framed_fetch [framing]: "framed db (fst (fetch_window sv run source name site window db))"
  by (simp add: fetch_window_def Let_def framing split: sum.splits raised.splits)

lemma refresh_grain_frame:
  "refresh_grain site source wanted now g (db, n) = Inr (db', n') \<Longrightarrow> \<exists>r. db' = db\<lparr>metric_rollups := r\<rparr>"
  by (auto simp: refresh_grain_def Let_def)

lemma refresh_rollups_frame:
  "refresh_rollups site source wanted now db = Inr (db', n) \<Longrightarrow> \<exists>r. db' = db\<lparr>metric_rollups := r\<rparr>"
  by (auto simp: refresh_rollups_def split: if_splits dest!: refresh_grain_frame)
    (metis metrics_db.surjective metrics_db.update_convs(2))

lemma store_observations_frame:
  "store_observations host_ok site source obs run_id now db = Inr (db', res) \<Longrightarrow>
    \<exists>p r. db' = db\<lparr>metric_points := p, metric_rollups := r\<rparr>"
  by (auto simp: store_observations_def Let_def split: prod.splits if_splits dest!: refresh_rollups_frame)
    (metis metrics_db.surjective metrics_db.update_convs)

lemma escaping_Inr [simp]: "(escaping r = Inr x) = (r = Inr x)"
  by (simp add: escaping_def split: sum.splits)

lemma framed_stored:
  "store_fetched sv run name site observations db = Inr (db', res) \<Longrightarrow> framed db db'"
  by (auto simp: store_fetched_def framed_def dest!: store_observations_frame)

lemma framed_ensured:
  assumes "ensure_partitions covers today back ahead db = Inr (db', created)"
  shows "framed db db'"
proof -
  obtain existing where "ensure_loop covers (month_start today) existing [- back..ahead] (db, []) = Inr (db', created)"
    using assms by (auto simp: ensure_partitions_def Let_def split: if_splits)
  from ensure_loopD [OF this] show ?thesis by (auto simp: framed_def)
qed

lemma framed_purge_step:
  assumes "purge_step covers cutoff part (db, dropped, unexpected) = (db', dropped', unexpected')"
  shows "framed db db'"
  using assms by (auto simp: purge_step_cases framed_def drop_partition_def simp del: purge_step.simps split: if_splits)

lemma framed_purge_fold:
  "fold (purge_step covers cutoff) parts (db, dropped, unexpected) = (db', dropped', unexpected') \<Longrightarrow> framed db db'"
proof (induction parts arbitrary: db dropped unexpected)
  case Nil
  then show ?case by (simp add: framed_refl)
next
  case (Cons part parts)
  obtain db1 dropped1 unexpected1 where step: "purge_step covers cutoff part (db, dropped, unexpected) = (db1, dropped1, unexpected1)"
    by (metis prod_cases3)
  with Cons.prems have "fold (purge_step covers cutoff) parts (db1, dropped1, unexpected1) = (db', dropped', unexpected')" by simp
  from framed_trans [OF framed_purge_step [OF step] Cons.IH [OF this]] show ?case .
qed

lemma framed_purged:
  assumes "purge_expired covers today months db = Inr (db', res)"
  shows "framed db db'"
proof -
  obtain cutoff parts where p: "add_months (month_start today) (- months) = Inr cutoff" "list_partitions db = Inr parts" "1 \<le> months"
    using assms by (auto simp: purge_expired_def split: if_splits)
  obtain db1 dropped unexpected where f: "fold (purge_step covers cutoff) parts (db, [], []) = (db1, dropped, unexpected)"
    by (metis prod_cases3)
  have "framed db1 db'" using assms p f by (auto simp: purge_expired_def Let_def framed_def)
  with framed_purge_fold [OF f] show ?thesis by (rule framed_trans)
qed

lemma framed_refreshed:
  assumes "refresh_plan sv site run_headless now db = Inr (db', res)"
  shows "framed db db'"
proof -
  have ids: "map ws_id (save_website w ws) = map ws_id ws" for w ws
    by (simp add: save_website_def update_rows_def)
  have profile: "job_runs (snd (get_or_create_profile w db)) = job_runs db" "schedules (snd (get_or_create_profile w db)) = schedules db"
    "websites (snd (get_or_create_profile w db)) = websites db" for w
    by (simp_all add: get_or_create_profile_def split: option.splits)
  obtain p db0 where gp: "get_or_create_profile (ws_id site) db = (p, db0)" by fastforce
  with profile [of "ws_id site"] have "framed db db0" by (simp add: framed_def)
  moreover have "framed db0 db'"
    using assms gp by (auto simp: refresh_plan_def framed_def ids split: prod.splits)
  ultimately show ?thesis by (rule framed_trans)
qed

text \<open>A refresh without a browser is the same whatever the verifier does.\<close>

lemma browser_unused:
  "refresh_plan (sv\<lparr>pl_verifier := verifier\<rparr>) site False now db = refresh_plan sv site False now db"
  by (simp add: refresh_plan_def collect_facts_def run_browser_def Let_def)

section \<open>The contract of the runner\<close>

text \<open>A handler that leaves the tables of the jobs alone and succeeds when it returns.\<close>

definition quiet :: "'a jobs_db_scheme \<Rightarrow> 'a jobs_db_scheme handler_run \<Rightarrow> bool" where
  "quiet db h = (framed db (hr_committed h) \<and> framed db (hr_pending h) \<and>
     (\<forall>out. hr_result h = Inr out \<longrightarrow> ho_status out = Succeeded))"

lemma quiet_stopped [framing]: "framed db db' \<Longrightarrow> quiet db (stopped db' e)"
  by (simp add: quiet_def stopped_def)

lemma quiet_or_stop [framing]:
  "framed db db' \<Longrightarrow> (\<And>x. r = Inr x \<Longrightarrow> quiet db (f x)) \<Longrightarrow> quiet db (or_stop db' r f)"
  by (simp add: or_stop_def framing split: sum.splits)

lemma quiet_done [framing]:
  "framed db db1 \<Longrightarrow> framed db db2 \<Longrightarrow> quiet db \<lparr>hr_committed = db1, hr_pending = db2, hr_result = Inr (succeeded n note)\<rparr>"
  by (simp add: quiet_def succeeded_def)

lemma quiet_collect_stored:
  "framed db db1 \<Longrightarrow> quiet db (collect_stored sv name run site observations db1)"
  unfolding collect_stored_def
  by (auto intro!: quiet_stopped quiet_or_stop quiet_done intro: framed_trans dest: framed_stored)

lemma quiet_collect: "quiet db (collect sv name run db)"
proof -
  have "quiet db (case open_source sv site name run db of (db1, opened) \<Rightarrow> or_stop db1 opened (\<lambda>source.
      or_stop db1 (escaping (regular_window (ms_spec source) (js_today sv))) (\<lambda>window.
        case fetch_window sv run source name site window db1 of (db2, fetched) \<Rightarrow>
          or_stop db2 fetched (\<lambda>observations. collect_stored sv name run site observations db2))))" for site
  proof (cases "open_source sv site name run db")
    case (Pair db1 opened)
    then have db1: "framed db db1" using framed_open_source [of db sv site name run] by simp
    have "quiet db (case fetch_window sv run source name site window db1 of (db2, fetched) \<Rightarrow>
        or_stop db2 fetched (\<lambda>observations. collect_stored sv name run site observations db2))" for source window
      using framed_trans [OF db1 framed_fetch [of db1 sv run source name site window]]
      by (auto intro!: quiet_or_stop quiet_collect_stored split: prod.splits)
    with Pair db1 show ?thesis by (auto intro!: quiet_or_stop)
  qed
  then show ?thesis unfolding collect_def Let_def by (intro quiet_or_stop framed_refl)
qed

lemma quiet_backfill_chunks: "framed db db1 \<Longrightarrow> quiet db (backfill_chunks sv run name site source chunks written db1)"
proof (induction chunks arbitrary: written db1)
  case Nil
  then show ?case by (simp add: quiet_done)
next
  case (Cons chunk rest)
  obtain db2 fetched where f: "fetch_window sv run source name site chunk db1 = (db2, fetched)" by fastforce
  then have db2: "framed db db2" using framed_trans [OF Cons.prems framed_fetch] by (metis fst_conv)
  have "quiet db (case x of (db3, res) \<Rightarrow> backfill_chunks sv run name site source rest (written + st_written res) db3)"
    if "store_fetched sv run name site observations db2 = Inr x" for observations x
    using that framed_trans [OF db2 framed_stored] Cons.IH by (cases x) simp
  with f db2 show ?case by (auto intro!: quiet_or_stop)
qed

lemma quiet_backfill: "quiet db (backfill sv run db)"
proof -
  have "quiet db (case open_source sv site name run db of (db1, opened) \<Rightarrow> or_stop db1 opened (\<lambda>source.
      or_stop db1 (escaping (backfill_window (ms_spec source) (js_today sv))) (\<lambda>window.
        case window of None \<Rightarrow> stopped db1 bad_params
        | Some w \<Rightarrow> or_stop db1 (escaping (dr_chunks w (max_days_per_call (ms_spec source)))) (\<lambda>chunks.
            backfill_chunks sv run name site source chunks 0 db1))))" for site name
  proof (cases "open_source sv site name run db")
    case (Pair db1 opened)
    then have "framed db db1" using framed_open_source [of db sv site name run] by simp
    with Pair show ?thesis by (auto intro!: quiet_or_stop quiet_stopped quiet_backfill_chunks split: option.splits)
  qed
  then show ?thesis unfolding backfill_def Let_def by (auto intro!: quiet_or_stop quiet_stopped framed_refl)
qed

lemma quiet_measurement_check: "quiet db (measurement_check sv run db)"
proof -
  have conns: "framed db (db\<lparr>google_connections := conns\<rparr>)" for conns by (simp add: framed_def)
  have "framed db db2" if "refresh_plan ps site False now (db\<lparr>google_connections := conns\<rparr>) = Inr (db2, res)"
    for ps site now conns db2 res using framed_trans [OF conns framed_refreshed [OF that]] .
  then show ?thesis unfolding measurement_check_def Let_def
    by (auto intro!: quiet_or_stop quiet_stopped quiet_done framed_refl conns split: prod.splits)
qed

lemma find_row_keep: "find_row Q rows = Some r \<Longrightarrow> \<not> P r \<Longrightarrow> find_row Q (delete_rows P rows) = Some r"
  by (induction rows) (auto simp: find_row_def delete_rows_def split: if_splits)

lemma run_by_id_purge:
  "run_by_id db i = Some r \<Longrightarrow> jr_finished_at r = None \<Longrightarrow> run_by_id (fst (purge_old_job_runs now keep db)) i = Some r"
  by (simp add: run_by_id_def purge_old_job_runs_def find_row_keep purgeable_def)

lemma framed_purge_events: "framed db (fst (purge_old_quota_events now keep db))"
  by (simp add: framed_def purge_old_quota_events_def)

text \<open>The maintenance removes old runs as well, never one that has not ended.\<close>

lemma partition_maintenance_cases:
  obtains (early) "quiet db (partition_maintenance sv run db)"
  | (purged) db2 where "framed db db2"
      "framed (fst (purge_old_job_runs (js_now sv) JOB_RUNS_RETENTION db2)) (hr_committed (partition_maintenance sv run db))"
      "hr_pending (partition_maintenance sv run db) = hr_committed (partition_maintenance sv run db)"
      "\<forall>out. hr_result (partition_maintenance sv run db) = Inr out \<longrightarrow> ho_status out = Succeeded"
proof (cases "ensure_partitions (js_covers sv) (js_today sv) 4 3 db")
  case (Inl e)
  then have "quiet db (partition_maintenance sv run db)"
    by (simp add: partition_maintenance_def escaping_def or_stop_def quiet_stopped framed_refl)
  with early show ?thesis .
next
  case (Inr x)
  obtain db1 created where x: "x = (db1, created)" by fastforce
  with Inr have db1: "framed db db1" by (simp add: framed_ensured)
  show ?thesis
  proof (cases "purge_expired (js_covers sv) (js_today sv) RETENTION_MONTHS db1")
    case (Inl e)
    with Inr x db1 have "quiet db (partition_maintenance sv run db)"
      by (simp add: partition_maintenance_def escaping_def or_stop_def quiet_stopped)
    with early show ?thesis .
  next
    case (Inr y)
    obtain db2 res where y: "y = (db2, res)" by fastforce
    with Inr db1 have db2: "framed db db2" using framed_trans framed_purged by blast
    define db3 where "db3 = fst (purge_old_job_runs (js_now sv) JOB_RUNS_RETENTION db2)"
    have "partition_maintenance sv run db =
        (if pr_unexpected res \<noteq> [] then stopped (fst (purge_old_quota_events (js_now sv) QUOTA_EVENTS_RETENTION db3))
           (RaisedSource (mk_source_error ''unexpected_partitions'' False False))
         else \<lparr>hr_committed = fst (purge_old_quota_events (js_now sv) QUOTA_EVENTS_RETENTION db3),
           hr_pending = fst (purge_old_quota_events (js_now sv) QUOTA_EVENTS_RETENTION db3), hr_result = Inr (succeeded 0 None)\<rparr>)"
      using \<open>ensure_partitions _ _ _ _ _ = Inr x\<close> Inr
      by (simp add: partition_maintenance_def escaping_def or_stop_def x y db3_def Let_def)
    with db2 show ?thesis
      by (intro purged [of db2]) (simp_all add: db3_def stopped_def succeeded_def framed_purge_events)
  qed
qed

text \<open>The handler of each kind.\<close>

lemma collect_kinds: "COLLECT_KIND_BY_SOURCE = [(''ga4'', ''collect_ga4''), (''gsc'', ''collect_gsc''), (''cwv'', ''collect_cwv''),
    (''probe'', ''collect_probes'')]"
  by code_simp

lemma build_handlers_eq: "build_handlers sv = [(''backfill'', backfill sv), (''measurement_check'', measurement_check sv),
    (''partition_maintenance'', partition_maintenance sv), (''collect_ga4'', collect sv ''ga4''), (''collect_gsc'', collect sv ''gsc''),
    (''collect_cwv'', collect sv ''cwv''), (''collect_probes'', collect sv ''probe'')]"
  by (simp add: build_handlers_def collect_kinds dict_set_def)

lemma handler_cases:
  assumes "(k, h) \<in> set (build_handlers sv)"
  obtains "h = backfill sv" | "h = measurement_check sv" | "k = ''partition_maintenance''" "h = partition_maintenance sv"
    | name where "h = collect sv name"
  using assms by (auto simp: build_handlers_eq)

lemma handler_contract:
  assumes "(k, h) \<in> set (build_handlers sv)"
  shows "runs_inv L (t, db) \<Longrightarrow> runs_inv L (t, hr_committed (h run db)) \<and> runs_inv L (t, hr_pending (h run db))"
    and "run_by_id db i = Some r \<Longrightarrow> jr_finished_at r = None \<Longrightarrow>
      run_by_id (hr_committed (h run db)) i = Some r \<and> run_by_id (hr_pending (h run db)) i = Some r"
    and "hr_result (h run db) = Inr out \<Longrightarrow> ho_status out = Succeeded"
proof -
  consider (calm) "quiet db (h run db)" | (maintenance) "h = partition_maintenance sv"
    using assms by (rule handler_cases) (auto intro: quiet_backfill quiet_measurement_check quiet_collect)
  note cases = this
  show "runs_inv L (t, hr_committed (h run db)) \<and> runs_inv L (t, hr_pending (h run db))" if "runs_inv L (t, db)"
    using cases
  proof cases
    case calm
    with that show ?thesis by (auto simp: quiet_def intro: runs_inv_framed)
  next
    case maintenance
    show ?thesis
    proof (cases rule: partition_maintenance_cases [of db sv run])
      case early
      with that maintenance show ?thesis by (auto simp: quiet_def intro: runs_inv_framed)
    next
      case (purged db2)
      have "runs_inv L (t, fst (purge_old_job_runs (js_now sv) JOB_RUNS_RETENTION db2))"
        by (rule runs_inv_purge) (rule runs_inv_framed [OF that purged(1)])
      with purged(2,3) maintenance show ?thesis by (auto intro: runs_inv_framed)
    qed
  qed
  show "run_by_id (hr_committed (h run db)) i = Some r \<and> run_by_id (hr_pending (h run db)) i = Some r"
    if "run_by_id db i = Some r" "jr_finished_at r = None"
    using cases
  proof cases
    case calm
    then have "framed db (hr_committed (h run db))" "framed db (hr_pending (h run db))" by (simp_all add: quiet_def)
    with that show ?thesis by (simp add: run_by_id_framed)
  next
    case maintenance
    show ?thesis
    proof (cases rule: partition_maintenance_cases [of db sv run])
      case early
      then have "framed db (hr_committed (h run db))" "framed db (hr_pending (h run db))"
        using maintenance by (simp_all add: quiet_def)
      with that show ?thesis by (simp add: run_by_id_framed)
    next
      case (purged db2)
      from run_by_id_purge [of db2 i r] that purged(1)
      have "run_by_id (fst (purge_old_job_runs (js_now sv) JOB_RUNS_RETENTION db2)) i = Some r" by (simp add: run_by_id_framed)
      with purged(2,3) maintenance show ?thesis by (simp add: run_by_id_framed)
    qed
  qed
  show "ho_status out = Succeeded" if "hr_result (h run db) = Inr out"
    using cases
  proof cases
    case calm
    with that show ?thesis by (simp add: quiet_def)
  next
    case maintenance
    show ?thesis
      by (cases rule: partition_maintenance_cases [of db sv run]) (use that maintenance in \<open>auto simp: quiet_def\<close>)
  qed
qed

interpretation job_work: run_handlers "build_handlers sv" for sv
proof unfold_locales
  show "runs_inv L (t, hr_committed (h run db)) \<and> runs_inv L (t, hr_pending (h run db))"
    if "(k, h) \<in> set (build_handlers sv)" "runs_inv L (t, db)" for k h L t db run
    using handler_contract(1) [OF that] .
  show "run_by_id (hr_committed (h run db)) i = Some r \<and> run_by_id (hr_pending (h run db)) i = Some r"
    if "(k, h) \<in> set (build_handlers sv)" "run_by_id db i = Some r" "jr_finished_at r = None" for k h db i r run
    using handler_contract(2) [OF that] .
  show "ho_status out \<in> {Succeeded, Skipped}" if "(k, h) \<in> set (build_handlers sv)" "hr_result (h run db) = Inr out"
    for k h run db out using handler_contract(3) [OF that] by simp
qed

end
