(* ===== verification/Job_Work.thy ===== *)
theory Job_Work
  imports Job_Handlers
begin

text \<open>
  What the runner promises, of the handlers the worker has: when a redelivery is asked for, what an interrupted
  collection leaves of the stored measures, and the circuit breaker of Google's quotas.
\<close>

section \<open>Measures\<close>

definition measured :: "'a metrics_db_scheme \<Rightarrow> bool" where
  "measured db = (metrics_wf db \<and> rollups_exact db)"

text \<open>A step that leaves the tables of the measures as they are.\<close>

definition same_measures :: "'a metrics_db_scheme \<Rightarrow> 'a metrics_db_scheme \<Rightarrow> bool" where
  "same_measures db db' = (metric_points db' = metric_points db \<and> metric_rollups db' = metric_rollups db)"

lemma measured_same: "measured db \<Longrightarrow> same_measures db db' \<Longrightarrow> measured db'"
  by (simp add: measured_def same_measures_def metrics_wf_def rollups_exact_def rollup_at_def)

lemma same_measures_trans: "same_measures db db1 \<Longrightarrow> same_measures db1 db2 \<Longrightarrow> same_measures db db2"
  by (simp add: same_measures_def)

lemma same_open_source: "same_measures db (fst (open_source sv site name run db))"
  by (simp add: open_source_def same_measures_def Let_def split: prod.splits sum.splits raised.splits)

lemma same_fetch: "same_measures db (fst (fetch_window sv run source name site window db))"
  by (simp add: fetch_window_def same_measures_def record_quota_event_def Let_def split: sum.splits raised.splits option.splits)

lemma measured_stored:
  "store_fetched sv run name site observations db = Inr (db', res) \<Longrightarrow> measured db \<Longrightarrow> measured db'"
  unfolding store_fetched_def escaping_Inr measured_def by (auto dest: store_exact)

lemma same_refreshed:
  assumes "refresh_plan sv site run_headless now db = Inr (db', res)"
  shows "same_measures db db'"
proof -
  obtain p db0 where gp: "get_or_create_profile (ws_id site) db = (p, db0)" by fastforce
  then have "same_measures db db0" by (auto simp: get_or_create_profile_def same_measures_def split: option.splits)
  moreover have "same_measures db0 db'" using assms gp by (auto simp: refresh_plan_def same_measures_def split: prod.splits)
  ultimately show ?thesis by (rule same_measures_trans)
qed

text \<open>Both databases of a handler: what it committed and what it left pending.\<close>

definition leaves_measured :: "'a metrics_db_scheme handler_run \<Rightarrow> bool" where
  "leaves_measured h = (measured (hr_committed h) \<and> measured (hr_pending h))"

lemma measured_stopped: "measured db \<Longrightarrow> leaves_measured (stopped db e)"
  by (simp add: leaves_measured_def stopped_def)

lemma measured_or_stop:
  "measured db \<Longrightarrow> (\<And>x. r = Inr x \<Longrightarrow> leaves_measured (f x)) \<Longrightarrow> leaves_measured (or_stop db r f)"
  by (simp add: or_stop_def measured_stopped split: sum.splits)

lemma measured_done:
  "measured db1 \<Longrightarrow> measured db2 \<Longrightarrow> leaves_measured \<lparr>hr_committed = db1, hr_pending = db2, hr_result = res\<rparr>"
  by (simp add: leaves_measured_def)

lemma measured_collect_stored: "measured db \<Longrightarrow> leaves_measured (collect_stored sv name run site observations db)"
proof -
  assume m: "measured db"
  have "leaves_measured (case x of (db', res) \<Rightarrow> \<lparr>hr_committed = db, hr_pending = db', hr_result = f res\<rparr>)"
    if "store_fetched sv run name site observations db = Inr x" for x and f
  proof -
    obtain db' res where x: "x = (db', res)" by fastforce
    have "measured db'" by (rule measured_stored [OF that [unfolded x] m])
    with m show ?thesis by (simp add: x measured_done)
  qed
  with m show ?thesis unfolding collect_stored_def by (simp add: measured_stopped measured_or_stop)
qed

lemma measured_collect: "measured db \<Longrightarrow> leaves_measured (collect sv name run db)"
proof -
  assume m: "measured db"
  have "leaves_measured (case open_source sv site name run db of (db1, opened) \<Rightarrow> or_stop db1 opened (\<lambda>source.
      or_stop db1 (escaping (regular_window (ms_spec source) (js_today sv))) (\<lambda>window.
        case fetch_window sv run source name site window db1 of (db2, fetched) \<Rightarrow>
          or_stop db2 fetched (\<lambda>observations. collect_stored sv name run site observations db2))))" for site
  proof (cases "open_source sv site name run db")
    case (Pair db1 opened)
    then have db1: "measured db1" using measured_same [OF m same_open_source] by (metis fst_conv)
    have "leaves_measured (case fetch_window sv run source name site window db1 of (db2, fetched) \<Rightarrow>
        or_stop db2 fetched (\<lambda>observations. collect_stored sv name run site observations db2))" for source window
    proof -
      obtain db2 fetched where f: "fetch_window sv run source name site window db1 = (db2, fetched)" by fastforce
      then have "measured db2" using measured_same [OF db1 same_fetch] by (metis fst_conv)
      with f show ?thesis by (simp add: measured_or_stop measured_collect_stored)
    qed
    with Pair db1 show ?thesis by (auto intro!: measured_or_stop)
  qed
  then show ?thesis unfolding collect_def Let_def by (intro measured_or_stop m)
qed

lemma measured_backfill_chunks:
  "measured db \<Longrightarrow> leaves_measured (backfill_chunks sv run name site source chunks written db)"
proof (induction chunks arbitrary: written db)
  case Nil
  then show ?case by (simp add: measured_done)
next
  case (Cons chunk rest)
  obtain db2 fetched where f: "fetch_window sv run source name site chunk db = (db2, fetched)" by fastforce
  then have db2: "measured db2" using measured_same [OF Cons.prems same_fetch] by (metis fst_conv)
  have "leaves_measured (case x of (db3, res) \<Rightarrow> backfill_chunks sv run name site source rest (written + st_written res) db3)"
    if "store_fetched sv run name site observations db2 = Inr x" for observations x
  proof -
    obtain db3 res where x: "x = (db3, res)" by fastforce
    have "measured db3" by (rule measured_stored [OF that [unfolded x] db2])
    with Cons.IH show ?thesis by (simp add: x)
  qed
  with f db2 show ?case by (auto intro!: measured_or_stop)
qed

lemma measured_backfill: "measured db \<Longrightarrow> leaves_measured (backfill sv run db)"
proof -
  assume m: "measured db"
  have "leaves_measured (case open_source sv site name run db of (db1, opened) \<Rightarrow> or_stop db1 opened (\<lambda>source.
      or_stop db1 (escaping (backfill_window (ms_spec source) (js_today sv))) (\<lambda>window.
        case window of None \<Rightarrow> stopped db1 bad_params
        | Some w \<Rightarrow> or_stop db1 (escaping (dr_chunks w (max_days_per_call (ms_spec source)))) (\<lambda>chunks.
            backfill_chunks sv run name site source chunks 0 db1))))" for site name
  proof (cases "open_source sv site name run db")
    case (Pair db1 opened)
    then have "measured db1" using measured_same [OF m same_open_source] by (metis fst_conv)
    with Pair show ?thesis by (auto intro!: measured_or_stop measured_stopped measured_backfill_chunks split: option.splits)
  qed
  with m show ?thesis unfolding backfill_def Let_def by (auto intro!: measured_or_stop measured_stopped)
qed

lemma measured_measurement_check: "measured db \<Longrightarrow> leaves_measured (measurement_check sv run db)"
proof -
  assume m: "measured db"
  have conns: "measured (db\<lparr>google_connections := conns\<rparr>)" for conns
    by (rule measured_same [OF m]) (simp add: same_measures_def)
  have "measured db2" if "refresh_plan ps site False now (db\<lparr>google_connections := conns\<rparr>) = Inr (db2, res)"
    for ps site now conns db2 res using measured_same [OF conns same_refreshed [OF that]] .
  with m conns show ?thesis unfolding measurement_check_def Let_def
    by (auto intro!: measured_or_stop measured_stopped measured_done split: prod.splits)
qed

section \<open>The breaker\<close>

lemma breaker_append:
  "count_rows P (quota_events (record_quota_event now run name db)) =
    count_rows P (quota_events db) +
    (case jr_workspace_id run of None \<Rightarrow> 0 | Some ws \<Rightarrow> if P \<lparr>qe_workspace_id = ws, qe_source = name, qe_at = now\<rparr> then 1 else 0)"
  by (simp add: record_quota_event_def table_simps split: option.splits)

definition quota_failed :: "'db handler_run \<Rightarrow> bool" where
  "quota_failed h = (case hr_result h of Inl (RaisedSource e) \<Rightarrow> se_reason e = ''quota'' | _ \<Rightarrow> False)"

lemma reason_mk [simp]: "se_reason (mk_source_error r c n) = r"
  by (simp add: mk_source_error_def)

lemma quota_failed_stopped: "quota_failed (stopped db e) \<longleftrightarrow> (\<exists>s. e = RaisedSource s \<and> se_reason s = ''quota'')"
  by (auto simp: quota_failed_def stopped_def split: raised.splits)

lemma quota_not_done [simp]: "\<not> quota_failed \<lparr>hr_committed = db, hr_pending = db', hr_result = Inr out\<rparr>"
  by (simp add: quota_failed_def)

lemma raised_error_other: "raised_error e \<noteq> RaisedSource s"
  by (cases e) (simp_all add: other_error_def)

lemma no_quota_escaping: "escaping r = Inl e \<Longrightarrow> \<not> quota_failed (stopped db e)"
  using raised_error_other by (auto simp: escaping_def quota_failed_stopped split: sum.splits)

lemma no_quota_stored: "\<not> quota_failed (collect_stored sv name run site observations db)"
  by (auto simp: collect_stored_def or_stop_def quota_failed_stopped store_fetched_def escaping_def raised_error_other
      split: sum.splits prod.splits)

text \<open>A collection that ends on a quota has recorded it, once, when the source could be opened.\<close>

definition opens :: "job_services \<Rightarrow> string \<Rightarrow> bool" where
  "opens sv name = (\<forall>site links conns. is_ok (snd (js_source_factory sv site name links conns)))"

lemma default_opens: "name \<in> {''ga4'', ''gsc'', ''cwv'', ''probe''} \<Longrightarrow>
    opens (default_job_services ou now covers in_time fetch probe) name"
  by (auto simp: opens_def default_job_services_def default_source_factory_def Let_def split: prod.splits)

lemma quota_recorded:
  assumes "opens sv name" "quota_failed (collect sv name run db)" "jr_workspace_id run = Some ws"
  shows "quota_events (hr_committed (collect sv name run db)) =
    quota_events db @ [\<lparr>qe_workspace_id = ws, qe_source = name, qe_at = js_now sv\<rparr>]"
proof -
  obtain site where site: "active_website run db = Inr site"
    using assms(2) by (cases "active_website run db")
      (auto simp: collect_def or_stop_def quota_failed_stopped active_website_def not_linked_def split: option.splits if_splits)
  obtain db1 opened where o: "open_source sv site name run db = (db1, opened)" by fastforce
  have "opened = Inl (RaisedSource (mk_source_error ''circuit_open'' True False)) \<or> is_ok opened"
    using o assms(1) unfolding opens_def open_source_def fail_with_def Let_def
    by (auto split: if_splits prod.splits sum.splits raised.splits) (metis is_ok.simps snd_conv)+
  then obtain source where source: "opened = Inr source"
    using assms(2) site o by (auto simp: collect_def or_stop_def quota_failed_stopped is_ok_iff)
  have db1: "quota_events db1 = quota_events db"
    using o by (auto simp: open_source_def Let_def split: if_splits prod.splits sum.splits raised.splits)
  obtain window where window: "regular_window (ms_spec source) (js_today sv) = Inr window"
    using assms(2) site o source no_quota_escaping
    by (cases "regular_window (ms_spec source) (js_today sv)")
      (auto simp: collect_def or_stop_def escaping_def quota_failed_stopped raised_error_other)
  obtain db2 fetched where f: "fetch_window sv run source name site window db1 = (db2, fetched)" by fastforce
  have run: "collect sv name run db = or_stop db2 fetched (\<lambda>observations. collect_stored sv name run site observations db2)"
    by (simp add: collect_def site o source window f or_stop_def escaping_def)
  with assms(2) obtain e where "fetched = Inl (RaisedSource e)" "se_reason e = ''quota''"
    by (cases fetched) (auto simp: or_stop_def quota_failed_stopped no_quota_stored)
  with f have "db2 = record_quota_event (js_now sv) run name db1" "fetched = Inl (RaisedSource e)"
    by (auto simp: fetch_window_def Let_def split: sum.splits raised.splits if_splits)
  then show ?thesis by (simp add: run or_stop_def stopped_def record_quota_event_def assms(3) db1)
qed

text \<open>Deliveries of collections that end on a quota one after the other, none older than the window.\<close>

fun quota_failures :: "string \<Rightarrow> uuid \<Rightarrow> datetime \<Rightarrow> (job_services \<times> job_run) list \<Rightarrow> 'a plan_db_scheme \<Rightarrow> 'a plan_db_scheme \<Rightarrow> bool" where
  "quota_failures name ws now [] db db' = (db' = db)"
| "quota_failures name ws now ((sv, run) # rest) db db' =
    (opens sv name \<and> jr_workspace_id run = Some ws \<and> now - BREAKER_WINDOW \<le> js_now sv \<and>
     quota_failed (collect sv name run db) \<and> quota_failures name ws now rest (hr_committed (collect sv name run db)) db')"

lemma quota_failures_counted:
  "quota_failures name ws now ds db db' \<Longrightarrow>
    count_rows (\<lambda>e. qe_workspace_id e = ws \<and> qe_source e = name \<and> now - BREAKER_WINDOW \<le> qe_at e) (quota_events db') =
    count_rows (\<lambda>e. qe_workspace_id e = ws \<and> qe_source e = name \<and> now - BREAKER_WINDOW \<le> qe_at e) (quota_events db) + length ds"
proof (induction ds arbitrary: db)
  case (Cons d ds)
  obtain sv run where d: "d = (sv, run)" by fastforce
  with Cons.prems have "opens sv name" "quota_failed (collect sv name run db)" "jr_workspace_id run = Some ws"
    "now - BREAKER_WINDOW \<le> js_now sv" "quota_failures name ws now ds (hr_committed (collect sv name run db)) db'" by simp_all
  with Cons.IH [of "hr_committed (collect sv name run db)"] quota_recorded [of sv name run db ws] show ?case
    by (simp add: table_simps)
qed simp

section \<open>Properties\<close>

text \<open>For the witnesses: a site whose source always ends on its quota.\<close>

definition quota_services :: job_services where
  "quota_services = \<lparr>
     js_source_factory = (\<lambda>_ _ _ conns. (conns, Inr \<lparr>ms_spec = spec_of ''gsc'', ms_collect = (\<lambda>_ _. fail_with ''quota'' True)\<rparr>)),
     js_page_fetcher = (\<lambda>_ _. None),
     js_reader_factory = (\<lambda>_ _ conns. (conns, fail_with ''quota'' True)),
     js_today = 739000, js_now = 0, js_host_ok = (\<lambda>_. True), js_covers = range_covers, js_check_in_time = (\<lambda>_. True)\<rparr>"

definition quota_site :: website where
  "quota_site = \<lparr>ws_id = 7, ws_workspace_id = 9, ws_domain = ''example.org'', ws_display_name = [], ws_detected_stack = None, ws_stack_label = None,
     ws_allow_insecure_probe = False, ws_ssl_status = None, ws_ssl_expires_at = None, ws_ssl_checked_at = None, ws_archived_at = None\<rparr>"

definition quota_db :: plan_db where
  "quota_db = \<lparr>job_runs = [], schedules = [], websites = [quota_site], quota_events = [], metric_points = [], metric_rollups = [],
     catalogue = [], profiles = [], item_statuses = [], item_events = [], google_links = [], google_connections = []\<rparr>"

definition quota_spec :: run_spec where
  "quota_spec = \<lparr>rs_kind = ''collect_gsc'', rs_website_id = Some 7, rs_workspace_id = Some 9,
     rs_window = ''20260101T0000'', rs_params = []\<rparr>"

definition quota_run :: job_run where
  "quota_run = start_run sample_limits 0 (queued_row 1 quota_spec 0 3)"

lemma quota_run_sel [simp]: "jr_website_id quota_run = Some 7" "jr_workspace_id quota_run = Some 9"
  by (simp_all add: quota_run_def start_run_def queued_row_def quota_spec_def)

lemma quota_db_measured: "metrics_wf quota_db" "rollups_exact quota_db"
  by (simp_all add: quota_db_def metrics_wf_def uniq_by_def rollups_exact_def rollup_at_def rollup_view_def
      period_values_def find_row_def)

lemma quota_db_runs: "runs_inv sample_limits (0, quota_db)"
  by (simp add: runs_inv_def jobs_wf_def runs_ok_def within_limit_def quota_db_def uniq_by_def count_rows_def sample_limits_def)

lemma quota_delivery:
  assumes "websites db = [quota_site]" "\<not> quota_breaker_open 9 ''gsc'' 0 db"
  shows "active_website quota_run db = Inr quota_site"
    "collect quota_services ''gsc'' quota_run db =
      stopped (record_quota_event 0 quota_run ''gsc'' db) (RaisedSource (mk_source_error ''quota'' True False))"
proof -
  show site: "active_website quota_run db = Inr quota_site"
    by (simp add: active_website_def website_by_id_def find_row_def assms(1)) (simp add: quota_site_def)
  have "is_ok (regular_window (spec_of ''gsc'') 739000)" by code_simp
  then obtain w where "regular_window (spec_of ''gsc'') 739000 = Inr w" by (auto simp: is_ok_iff)
  with assms(2) show "collect quota_services ''gsc'' quota_run db =
      stopped (record_quota_event 0 quota_run ''gsc'' db) (RaisedSource (mk_source_error ''quota'' True False))"
    by (simp add: collect_def site or_stop_def open_source_def fetch_window_def quota_services_def escaping_def fail_with_def Let_def)
qed

text \<open>
  C23: Whatever the sources answer and wherever a collection, a backfill or a check stops, what it committed
  and what it leaves to commit keep the stored weeks and months exact: every rollup is the aggregate of the
  points of its period.
\<close>

theorem interrupted_work_keeps_rollups:
  assumes "metrics_wf db" "rollups_exact db" "(k, h) \<in> set (build_handlers sv)" "k \<noteq> ''partition_maintenance''"
  shows "metrics_wf (hr_committed (h run db)) \<and> rollups_exact (hr_committed (h run db)) \<and>
    metrics_wf (hr_pending (h run db)) \<and> rollups_exact (hr_pending (h run db))"
proof -
  have "measured db" using assms(1,2) by (simp add: measured_def)
  with assms(3,4) have "leaves_measured (h run db)"
    by (elim handler_cases) (simp_all add: measured_backfill measured_measurement_check measured_collect)
  then show ?thesis by (simp add: leaves_measured_def measured_def)
qed

theorem interrupted_work_keeps_rollups_witness:
  "rollups_exact (hr_committed (collect quota_services ''gsc'' quota_run quota_db))"
  using interrupted_work_keeps_rollups [OF quota_db_measured, of "''collect_gsc''" "collect quota_services ''gsc''" quota_services quota_run]
  by (simp add: build_handlers_eq)

text \<open>
  C22: With the handlers of the worker, a delivery that claimed its run asks the queue for another one exactly
  when that one could be executed: a redelivery would claim the run, or be throttled and come back.
\<close>

theorem worker_retry_exact:
  assumes "limits_ok L" "runs_inv L (t0, db)" "new_id \<notin> jr_id ` set (job_runs db)"
    and "execute_run new_id spec (build_handlers sv) L t0 t1 db = (db', res)" "rr_claim res = Claimed"
  shows "rr_retry res = (cl_status (snd (claim_run id2 spec t2 L db')) \<in> {Claimed, Throttled})"
  by (rule job_work.retry_iff_redelivery_can_run [OF assms])

theorem worker_retry_exact_witness:
  "\<exists>db' res. execute_run 1 quota_spec (build_handlers quota_services) sample_limits 0 5 quota_db = (db', res) \<and>
    rr_retry res = (cl_status (snd (claim_run 2 quota_spec 60000000 sample_limits db')) \<in> {Claimed, Throttled})"
proof -
  obtain db' res where e: "execute_run 1 quota_spec (build_handlers quota_services) sample_limits 0 5 quota_db = (db', res)" by fastforce
  have claim: "cl_status (snd (claim_run 1 quota_spec 0 sample_limits quota_db)) = Claimed"
    by (simp add: claim_run_eq row_for_def run_by_key_def find_row_def quota_db_def claim_row_def Let_def queued_row_def
        quota_spec_def sample_limits_def insert_run_def insert_new_def count_rows_def running_in_def live_def)
  have "rr_claim (snd (close_execution i a t h)) = Claimed" for i a t and h :: "plan_db handler_run"
    by (simp add: close_execution_def finish_def Let_def split: sum.splits raised.splits option.splits)
  with e claim have "rr_claim res = Claimed"
    by (auto simp: execute_run_def Let_def split: prod.splits if_splits) (metis snd_conv)+
  from worker_retry_exact [OF sample_limits_ok quota_db_runs _ e this] e show ?thesis
    by (simp add: quota_db_def)
qed

text \<open>
  C24: Three collections of a Google source that end on its quota within half an hour open the breaker of the
  workspace: the next collection calls nothing, changes nothing and ends on a failure that may be retried. The
  breaker is closed again half an hour after the last of them, since a refused collection records nothing.
\<close>

theorem breaker_opens_and_closes:
  assumes "name \<in> set BACKFILL_SOURCES" "quota_failures name ws (js_now sv) ds db db'" "BREAKER_THRESHOLD \<le> length ds"
    and "jr_workspace_id run = Some ws" "active_website run db' = Inr site"
  shows "collect sv name run db' = stopped db' (RaisedSource (mk_source_error ''circuit_open'' True False)) \<and>
    ((\<forall>e \<in> set (quota_events db'). qe_at e < later - BREAKER_WINDOW) \<longrightarrow>
      \<not> quota_breaker_open ws name later (hr_committed (collect sv name run db')))"
proof -
  have "quota_breaker_open ws name (js_now sv) db'"
    using quota_failures_counted [OF assms(2)] assms(3) by (simp add: quota_breaker_open_def)
  then have "open_source sv site name run db' = (db', fail_with ''circuit_open'' True)"
    using assms(1,4) by (simp add: open_source_def)
  then have c: "collect sv name run db' = stopped db' (RaisedSource (mk_source_error ''circuit_open'' True False))"
    by (simp add: collect_def assms(5) or_stop_def fail_with_def)
  have "\<not> quota_breaker_open ws name later db'" if "\<forall>e \<in> set (quota_events db'). qe_at e < later - BREAKER_WINDOW"
  proof -
    have "count_rows (\<lambda>e. qe_workspace_id e = ws \<and> qe_source e = name \<and> later - BREAKER_WINDOW \<le> qe_at e) (quota_events db') = 0"
      using that by (auto simp: count_rows_0)
    then show ?thesis by (simp add: quota_breaker_open_def BREAKER_THRESHOLD_def)
  qed
  with c show ?thesis by (simp add: stopped_def)
qed

theorem breaker_opens_and_closes_witness:
  "\<exists>db' :: plan_db. length (quota_events db') = 3 \<and> collect quota_services ''gsc'' quota_run db' =
    stopped db' (RaisedSource (mk_source_error ''circuit_open'' True False))"
proof -
  define ds where "ds = replicate 3 (quota_services, quota_run)"
  define next_db where "next_db = (\<lambda>db :: plan_db. record_quota_event 0 quota_run ''gsc'' db)"
  have closed: "\<not> quota_breaker_open 9 ''gsc'' 0 quota_db" "\<not> quota_breaker_open 9 ''gsc'' 0 (next_db quota_db)"
    "\<not> quota_breaker_open 9 ''gsc'' 0 (next_db (next_db quota_db))"
    by (simp_all add: quota_breaker_open_def next_db_def record_quota_event_def quota_db_def table_simps BREAKER_THRESHOLD_def)
  have sites: "websites quota_db = [quota_site]" "websites (next_db db) = websites db" for db
    by (simp_all add: quota_db_def next_db_def record_quota_event_def)
  note runs = quota_delivery(2) [OF sites(1) closed(1)] quota_delivery(2) [OF _ closed(2)] quota_delivery(2) [OF _ closed(3)]
  have "quota_failures ''gsc'' 9 (js_now quota_services) ds quota_db (next_db (next_db (next_db quota_db)))"
    using runs by (simp add: ds_def numeral_3_eq_3 next_db_def [symmetric] sites stopped_def quota_failed_def opens_def)
      (simp add: quota_services_def BREAKER_WINDOW_def duration_defs)
  moreover have "active_website quota_run (next_db (next_db (next_db quota_db))) = Inr quota_site"
    by (simp add: active_website_def website_by_id_def find_row_def sites) (simp add: quota_site_def)
  ultimately have "collect quota_services ''gsc'' quota_run (next_db (next_db (next_db quota_db))) =
      stopped (next_db (next_db (next_db quota_db))) (RaisedSource (mk_source_error ''circuit_open'' True False))"
    using breaker_opens_and_closes [of "''gsc''" 9 quota_services ds quota_db "next_db (next_db (next_db quota_db))" quota_run quota_site]
    by (simp add: BACKFILL_SOURCES_def ds_def BREAKER_THRESHOLD_def)
  moreover have "length (quota_events (next_db (next_db (next_db quota_db)))) = 3"
    by (simp add: next_db_def record_quota_event_def quota_db_def)
  ultimately show ?thesis by blast
qed

end
