(* ===== verification/Gtm_Generator.thy ===== *)
theory Gtm_Generator
  imports Measurement_View Sha256
begin

text \<open>
  The Tag Manager containers the program writes (\<open>app/services/gtm_generator.py\<close>): the general one, and the one
  limited to chosen items of the measurement plan, as JSON in the format of an import. Texts are UTF-8, the
  time of the export a parameter. The lemmas read the generated JSON back: identifiers are unique, a tag
  fires on a trigger of the container or on all pages, and what refers to the configuration tag finds it.
\<close>

section \<open>Identifiers derived from the domain\<close>

definition base32_digit :: "nat \<Rightarrow> char" where
  "base32_digit d = ''ABCDEFGHIJKLMNOPQRSTUVWXYZ234567'' ! d"

text \<open>The digits of \<open>base64.b32encode\<close>, without its padding: five bits each, the last one filled with zeros.\<close>

definition base32_text :: "byte list \<Rightarrow> string" where
  "base32_text bs =
    (let n = (8 * length bs + 4) div 5; v = be_nat bs * 2 ^ (5 * n - 8 * length bs)
     in map (\<lambda>i. base32_digit (v div 32 ^ (n - 1 - i) mod 32)) [0..<n])"

definition short_code :: "string \<Rightarrow> nat \<Rightarrow> string" where
  "short_code seed n = take n (base32_text (sha256 (ascii_bytes seed)))"

definition numeric_id :: "string \<Rightarrow> nat \<Rightarrow> string" where
  "numeric_id seed n = take n (str_nat (be_nat (sha256 (ascii_bytes seed))))"

section \<open>Constants\<close>

definition ALL_PAGES_TRIGGER_ID :: string where "ALL_PAGES_TRIGGER_ID = ''2147479553''"
definition SPA_STACKS :: "stack_kind list" where "SPA_STACKS = [Nextjs, Nuxt, Angular, Vue]"
definition FINGERPRINT :: string where "FINGERPRINT = ''1700000000000''"

definition DOUBLE_PAGE_VIEW_WARNING :: string where
  "DOUBLE_PAGE_VIEW_WARNING =
    ''Ce conteneur contient une balise '' @ guil_l @ '' GA4 Configuration '' @ guil_r
    @ ''. Si ton site a d'' @ e_acute @ ''j'' @ a_grave
    @ '' GA4 (une autre balise dans GTM, ou un code pos'' @ e_acute @ '' en dur dans les pages), ne l''
    @ apos @ ''importe pas telle quelle : en mode '' @ guil_l @ '' Fusionner '' @ guil_r
    @ '', tes page_view seraient compt'' @ e_acute @ ''s deux fois.''"

definition merge_metadata :: json_dict where
  "merge_metadata = [
    (''mode'', JStr ''merge''), (''recommended'', JBool True), (''gtm_option'', JStr ''Fusionner''),
    (''conflict_option'', JStr ''Renommer les conflits''),
    (''steps'', texts [
      ''GTM > Administration > Importer un conteneur.'',
      ''S'' @ e_acute @ ''lectionne ce fichier JSON.'',
      ''Espace de travail : '' @ guil_l @ '' Nouvel espace de travail '' @ guil_r @ ''.'',
      ''Option d'' @ apos @ ''import : '' @ guil_l @ '' Fusionner '' @ guil_r @ '', puis '' @ guil_l
    @ '' Renommer les conflits '' @ guil_r @ ''.'',
      ''V'' @ e_acute @ ''rifie en mode Aper'' @ c_cedil @ ''u, remplace G-XXXXXXXXXX, puis publie.''])]"

definition overwrite_metadata :: json_dict where
  "overwrite_metadata = [
    (''mode'', JStr ''overwrite''), (''recommended'', JBool False), (''gtm_option'', JStr ''Ecraser''),
    (''conflict_option'', JNull),
    (''steps'', texts [
      ''GTM > Administration > Importer un conteneur.'',
      ''Selectionnez ce fichier JSON.'',
      ''Option d'' @ apos @ ''import : '' @ guil_l @ '' Ecraser '' @ guil_r @ '' '' @ em_dash
    @ '' REMPLACE toute la configuration existante.'',
      ''A n'' @ apos @ ''utiliser que sur un conteneur neuf ou de test.''])]"

definition IMPORT_METADATA :: "(string \<times> json_dict) list" where
  "IMPORT_METADATA = [(''merge'', merge_metadata), (''overwrite'', overwrite_metadata)]"

text \<open>\<open>import_metadata\<close>, and the same guard at the head of the two builders.\<close>

definition import_metadata :: "string \<Rightarrow> json_dict result" where
  "import_metadata mode = (case map_of IMPORT_METADATA mode of None \<Rightarrow> Inl ValueError | Some m \<Rightarrow> Inr m)"

section \<open>Pieces\<close>

definition tmpl :: "string \<Rightarrow> string \<Rightarrow> json" where
  "tmpl key v = JDict [(''type'', JStr ''template''), (''key'', JStr key), (''value'', JStr v)]"

definition bool_field :: "string \<Rightarrow> string \<Rightarrow> json" where
  "bool_field key v = JDict [(''type'', JStr ''boolean''), (''key'', JStr key), (''value'', JStr v)]"

definition map_of_fields :: "json list \<Rightarrow> json" where
  "map_of_fields xs = JDict [(''type'', JStr ''map''), (''map'', JList xs)]"

definition list_field :: "string \<Rightarrow> json list \<Rightarrow> json" where
  "list_field key xs = JDict [(''type'', JStr ''list''), (''key'', JStr key), (''list'', JList xs)]"

definition built_in_variables :: "json_dict \<Rightarrow> json" where
  "built_in_variables base = JList (map (\<lambda>(kind, name). JDict (base @ [(''type'', JStr kind), (''name'', JStr name)])) [
     (''pageUrl'', ''Page URL''), (''pageHostname'', ''Page Hostname''), (''pagePath'', ''Page Path''),
     (''referrer'', ''Referrer''), (''event'', ''Event''), (''historySource'', ''History Source''),
     (''newHistoryFragment'', ''New History Fragment''), (''oldHistoryFragment'', ''Old History Fragment''),
     (''clickElement'', ''Click Element''), (''clickUrl'', ''Click URL''), (''clickClasses'', ''Click Classes''),
     (''clickText'', ''Click Text'')])"

definition dlv_variable :: "json_dict \<Rightarrow> string \<Rightarrow> string \<Rightarrow> string \<Rightarrow> json" where
  "dlv_variable base variable_id name key = JDict (base @ [
     (''variableId'', JStr variable_id), (''name'', JStr name), (''type'', JStr ''v''),
     (''parameter'', JList [
        JDict [(''type'', JStr ''integer''), (''key'', JStr ''dataLayerVersion''), (''value'', JStr ''2'')],
        bool_field ''setDefaultValue'' ''false'',
        tmpl ''name'' key]),
     (''fingerprint'', JStr FINGERPRINT)])"

definition custom_event_trigger :: "json_dict \<Rightarrow> string \<Rightarrow> string \<Rightarrow> string \<Rightarrow> json" where
  "custom_event_trigger base trigger_id name event_name = JDict (base @ [
     (''triggerId'', JStr trigger_id), (''name'', JStr name), (''type'', JStr ''customEvent''),
     (''customEventFilter'', JList [JDict [(''type'', JStr ''equals''),
        (''parameter'', JList [tmpl ''arg0'' ''{{_event}}'', tmpl ''arg1'' event_name])]]),
     (''fingerprint'', JStr FINGERPRINT)])"

text \<open>A trigger on the clicks on links, with one condition on the address.\<close>

definition link_trigger :: "json_dict \<Rightarrow> string \<Rightarrow> string \<Rightarrow> json \<Rightarrow> json \<Rightarrow> json" where
  "link_trigger base trigger_id name operator v = JDict (base @ [
     (''triggerId'', JStr trigger_id), (''name'', JStr name), (''type'', JStr ''linkClick''),
     (''waitForTags'', JList [bool_field ''waitForTags'' ''false'']),
     (''checkValidation'', JList [bool_field ''checkValidation'' ''false'']),
     (''filter'', JList [JDict [(''type'', operator),
        (''parameter'', JList [tmpl ''arg0'' ''{{Click URL}}'',
           JDict [(''type'', JStr ''template''), (''key'', JStr ''arg1''), (''value'', v)]])]]),
     (''fingerprint'', JStr FINGERPRINT)])"

definition history_trigger :: "json_dict \<Rightarrow> string \<Rightarrow> json" where
  "history_trigger base trigger_id = JDict (base @ [
     (''triggerId'', JStr trigger_id), (''name'', JStr ''History Change (SPA)''), (''type'', JStr ''historyChange''),
     (''fingerprint'', JStr FINGERPRINT)])"

definition consent_not_set :: "string \<times> json" where
  "consent_not_set = (''consentSettings'', JDict [(''consentStatus'', JStr ''notSet'')])"

definition ga4_event_tag :: "json_dict \<Rightarrow> string \<Rightarrow> string \<Rightarrow> string \<Rightarrow> string \<Rightarrow> bool \<Rightarrow> json list \<Rightarrow> json" where
  "ga4_event_tag base tag_id name event_name firing_trigger_id ecommerce extra_params = JDict (base @ [
     (''tagId'', JStr tag_id), (''name'', JStr name), (''type'', JStr ''gaawe''),
     (''parameter'', JList ([
        tmpl ''eventName'' event_name,
        JDict [(''type'', JStr ''tagReference''), (''key'', JStr ''measurementId''), (''value'', JStr ''GA4 Configuration'')]] @
        (if ecommerce then [bool_field ''sendEcommerceData'' ''true'', tmpl ''getEcommerceDataFrom'' ''dataLayer''] else []) @
        extra_params)),
     (''fingerprint'', JStr FINGERPRINT), (''firingTriggerId'', texts [firing_trigger_id]),
     (''tagFiringOption'', JStr ''oncePerEvent''), consent_not_set])"

definition config_tag :: "json_dict \<Rightarrow> string \<Rightarrow> string list \<Rightarrow> json" where
  "config_tag base measurement_id config_triggers = JDict (base @ [
     (''tagId'', JStr ''1''), (''name'', JStr ''GA4 Configuration''), (''type'', JStr ''googtag''),
     (''parameter'', JList [tmpl ''tagId'' measurement_id,
        list_field ''configSettingsTable'' [map_of_fields [tmpl ''parameter'' ''send_page_view'', tmpl ''parameterValue'' ''true'']]]),
     (''fingerprint'', JStr FINGERPRINT), (''firingTriggerId'', texts config_triggers),
     (''tagFiringOption'', JStr ''oncePerEvent''), (''monitoringMetadata'', JDict [(''type'', JStr ''map'')]), consent_not_set])"

definition event_params :: "(string \<times> string) list \<Rightarrow> json list" where
  "event_params params = (if params = [] then []
     else [list_field ''eventParameters'' (map (\<lambda>(name, v). map_of_fields [tmpl ''name'' name, tmpl ''value'' v]) params)])"

definition container_variables :: "json_dict \<Rightarrow> string \<Rightarrow> json list" where
  "container_variables base measurement_id = [
     dlv_variable base ''1'' ''dlv - value'' ''ecommerce.value'',
     dlv_variable base ''2'' ''dlv - currency'' ''ecommerce.currency'',
     dlv_variable base ''3'' ''dlv - items'' ''ecommerce.items'',
     dlv_variable base ''4'' ''dlv - form_id'' ''form_id'',
     JDict (base @ [(''variableId'', JStr ''5''), (''name'', JStr ''Const - GA4 Measurement ID''), (''type'', JStr ''c''),
       (''parameter'', JList [tmpl ''value'' measurement_id]), (''fingerprint'', JStr FINGERPRINT)])]"

definition account_of :: "string \<Rightarrow> string" where "account_of domain = numeric_id (''acct:'' @ domain) 10"
definition container_of :: "string \<Rightarrow> string" where "container_of domain = numeric_id (''cont:'' @ domain) 9"

definition base_of :: "string \<Rightarrow> json_dict" where
  "base_of domain = [(''accountId'', JStr (account_of domain)), (''containerId'', JStr (container_of domain))]"

definition container_path :: "string \<Rightarrow> string" where
  "container_path domain = ''accounts/'' @ account_of domain @ ''/containers/'' @ container_of domain"

definition manager_url :: "string \<Rightarrow> string" where
  "manager_url domain = ''https://tagmanager.google.com/#/container/'' @ container_path domain @ ''/workspaces?apiLink=container''"

text \<open>The document around the tags, the triggers and the variables.\<close>

definition container_document :: "string \<Rightarrow> string \<Rightarrow> string \<Rightarrow> string \<Rightarrow> json list \<Rightarrow> json list \<Rightarrow> json list \<Rightarrow> json_dict \<Rightarrow> json_dict" where
  "container_document domain name description export_time tags triggers variables metadata = [
     (''exportFormatVersion'', JInt 2), (''exportTime'', JStr export_time),
     (''containerVersion'', JDict ([(''path'', JStr (container_path domain @ ''/versions/0''))] @ base_of domain @ [
        (''containerVersionId'', JStr ''0''), (''name'', JStr name), (''description'', JStr description),
        (''container'', JDict ([(''path'', JStr (container_path domain))] @ base_of domain @ [
           (''name'', JStr domain), (''publicId'', JStr (''GTM-'' @ short_code domain 7)), (''usageContext'', texts [''WEB'']),
           (''fingerprint'', JStr FINGERPRINT), (''tagManagerUrl'', JStr (manager_url domain)),
           (''features'', JDict [(''supportUserPermissions'', JBool True), (''supportEnvironments'', JBool True),
              (''supportWorkspaces'', JBool True), (''supportGtagConfigs'', JBool True)])])),
        (''tag'', JList tags), (''trigger'', JList triggers), (''variable'', JList variables),
        (''builtInVariable'', built_in_variables (base_of domain)),
        (''fingerprint'', JStr FINGERPRINT), (''tagManagerUrl'', JStr (manager_url domain))])),
     (''importMetadata'', JDict metadata)]"

text \<open>\<open>x or default\<close> of an optional text; the time of the export without one.\<close>

definition text_or :: "string \<Rightarrow> string option \<Rightarrow> string" where
  "text_or other x = (case x of Some (c # cs) \<Rightarrow> c # cs | _ \<Rightarrow> other)"

definition time_text :: "datetime \<Rightarrow> string" where
  "time_text t = iso_date (date_of t) @ '' '' @ dec 2 (hour_of t) @ '':'' @ dec 2 (minute_of t) @ '':'' @
     dec 2 (t div seconds 1 mod 60)"

section \<open>The general container\<close>

definition build_gtm_container :: "string \<Rightarrow> stack_kind \<Rightarrow> string option \<Rightarrow> string option \<Rightarrow> string \<Rightarrow> string option \<Rightarrow> datetime \<Rightarrow>
    json_dict result" where
  "build_gtm_container domain stack ga4_measurement_id ga4_property import_mode export_time now =
     try_bind (import_metadata import_mode) (\<lambda>metadata.
      (let base = base_of domain;
           measurement_id = text_or ''G-XXXXXXXXXX'' ga4_measurement_id;
           is_spa = (stack \<in> set SPA_STACKS);
           triggers = [custom_event_trigger base ''10'' ''CE - purchase'' ''purchase'',
             custom_event_trigger base ''11'' ''CE - generate_lead'' ''generate_lead'',
             link_trigger base ''12'' ''Clic sortant'' (JStr ''doesNotContain'') (JStr domain)] @
             (if is_spa then [history_trigger base ''13''] else []);
           config_triggers = [ALL_PAGES_TRIGGER_ID] @ (if is_spa then [''13''] else []);
           tags = [config_tag base measurement_id config_triggers,
             ga4_event_tag base ''2'' ''GA4 - purchase'' ''purchase'' ''10'' True [],
             ga4_event_tag base ''3'' ''GA4 - generate_lead'' ''generate_lead'' ''11'' False
               (event_params [(''form_id'', ''{{dlv - form_id}}'')]),
             ga4_event_tag base ''4'' ''GA4 - outbound_click'' ''click'' ''12'' False
               (event_params [(''link_url'', ''{{Click URL}}'')])];
           option_text = (case jget metadata ''gtm_option'' of JStr s \<Rightarrow> s | _ \<Rightarrow> []);
           property_note = (case ga4_property of Some (c # cs) \<Rightarrow> '' Propriete GA4 liee : '' @ (c # cs) @ ''.'' | _ \<Rightarrow> []);
           description = ''Genere par Control Center pour '' @ domain @ ''. Import : '' @ option_text @ ''. Remplacez '' @
             measurement_id @ '' par l'' @ apos @ ''ID de flux de votre propriete GA4.'' @ property_note
       in Inr (container_document domain (''Control Center - '' @ domain) description (text_or (time_text now) export_time)
            tags triggers (container_variables base measurement_id) metadata)))"

section \<open>Recipes\<close>

datatype recipe_kind = Custom_event | Link_click

record recipe =
  rc_event :: string
  rc_kind :: recipe_kind
  rc_ecommerce :: bool
  rc_params :: "(string \<times> string) list"
  rc_link_op :: "string option"
  rc_link_value :: "string option"

definition pushed :: "string \<Rightarrow> bool \<Rightarrow> (string \<times> string) list \<Rightarrow> recipe" where
  "pushed event ecommerce params = \<lparr>rc_event = event, rc_kind = Custom_event, rc_ecommerce = ecommerce, rc_params = params,
     rc_link_op = None, rc_link_value = None\<rparr>"

definition clicked :: "string \<Rightarrow> string \<Rightarrow> string \<Rightarrow> string \<Rightarrow> recipe" where
  "clicked event contact operator v = \<lparr>rc_event = event, rc_kind = Link_click, rc_ecommerce = False,
     rc_params = [(''contact_method'', contact)], rc_link_op = Some operator, rc_link_value = Some v\<rparr>"

definition RECIPES :: "(string \<times> recipe) list" where
  "RECIPES = [
    (''event_view_item'', pushed ''view_item'' True []),
    (''event_add_to_cart'', pushed ''add_to_cart'' True []),
    (''event_begin_checkout'', pushed ''begin_checkout'' True []),
    (''event_purchase'', pushed ''purchase'' True []),
    (''event_generate_lead'', pushed ''generate_lead'' False [(''form_id'', ''{{dlv - form_id}}'')]),
    (''event_sign_up'', pushed ''sign_up'' False []),
    (''event_login'', pushed ''login'' False []),
    (''event_begin_trial'', pushed ''begin_trial'' False []),
    (''event_subscribe'', pushed ''subscribe'' False []),
    (''event_tutorial_complete'', pushed ''tutorial_complete'' False []),
    (''event_newsletter_signup'', pushed ''newsletter_signup'' False []),
    (''event_share'', pushed ''share'' False []),
    (''event_click_to_call'', clicked ''click_to_call'' ''tel'' ''startsWith'' ''tel:''),
    (''event_click_email'', clicked ''click_email'' ''email'' ''startsWith'' ''mailto:''),
    (''event_click_whatsapp'', clicked ''click_whatsapp'' ''whatsapp'' ''contains'' ''wa.me'')]"

definition SPECIAL_ITEMS :: "string list" where
  "SPECIAL_ITEMS = [''ga4_tag'', ''ads_conversion_tag'', ''ads_conversion_linker'']"

definition ADS_KEY_EVENTS :: "string list" where
  "ADS_KEY_EVENTS = [''event_purchase'', ''event_generate_lead'', ''event_sign_up'', ''event_subscribe'']"

definition ADS_UNVALIDATED_WARNING :: string where
  "ADS_UNVALIDATED_WARNING =
    ''Les balises Google Ads de ce conteneur n'' @ apos @ ''ont pas encore '' @ e_acute @ ''t'' @ e_acute
    @ '' valid'' @ e_acute @ ''es par un import r'' @ e_acute @ ''el : v'' @ e_acute @ ''rifie-les apr''
    @ e_grave @ ''s l'' @ apos @ ''import.''"

definition json_opt :: "string option \<Rightarrow> json" where
  "json_opt x = (case x of None \<Rightarrow> JNull | Some s \<Rightarrow> JStr s)"

definition link_click_trigger :: "json_dict \<Rightarrow> string \<Rightarrow> recipe \<Rightarrow> json" where
  "link_click_trigger base trigger_id r =
     link_trigger base trigger_id (''Clic - '' @ rc_event r) (json_opt (rc_link_op r)) (json_opt (rc_link_value r))"

definition ads_conversion_tag :: "json_dict \<Rightarrow> string \<Rightarrow> string \<Rightarrow> string \<Rightarrow> string \<Rightarrow> bool \<Rightarrow> json" where
  "ads_conversion_tag base tag_id conversion_id label firing_trigger_id ecommerce = JDict (base @ [
     (''tagId'', JStr tag_id), (''name'', JStr ''Google Ads - Conversion''), (''type'', JStr ''awct''),
     (''parameter'', JList ([tmpl ''conversionId'' conversion_id, tmpl ''conversionLabel'' label] @
        (if ecommerce then [tmpl ''conversionValue'' ''{{dlv - value}}'', tmpl ''currencyCode'' ''{{dlv - currency}}''] else []))),
     (''fingerprint'', JStr FINGERPRINT), (''firingTriggerId'', texts [firing_trigger_id]),
     (''tagFiringOption'', JStr ''oncePerEvent''), consent_not_set])"

definition conversion_linker_tag :: "json_dict \<Rightarrow> string \<Rightarrow> json" where
  "conversion_linker_tag base tag_id = JDict (base @ [
     (''tagId'', JStr tag_id), (''name'', JStr ''Conversion Linker''), (''type'', JStr ''gclidw''), (''parameter'', JList []),
     (''fingerprint'', JStr FINGERPRINT), (''firingTriggerId'', texts [ALL_PAGES_TRIGGER_ID]),
     (''tagFiringOption'', JStr ''oncePerEvent''), consent_not_set])"

definition requires_site_code :: "string \<Rightarrow> bool" where
  "requires_site_code item_id = (case map_of RECIPES item_id of None \<Rightarrow> False | Some r \<Rightarrow> rc_kind r = Custom_event)"

section \<open>The container of chosen items\<close>

text \<open>The variables of the loop of \<open>build_selected_container\<close>.\<close>

record parts =
  cp_triggers :: "json list"
  cp_tags :: "json list"
  cp_next_trigger :: nat
  cp_next_tag :: nat
  cp_trigger_by_item :: "(string \<times> string) list"

definition selected_recipes :: "string list \<Rightarrow> (string \<times> recipe) list" where
  "selected_recipes item_ids = List.map_filter (\<lambda>i. map_option (Pair i) (map_of RECIPES i)) item_ids"

definition wants_config :: "string list \<Rightarrow> bool" where
  "wants_config item_ids = (''ga4_tag'' \<in> set item_ids \<or> selected_recipes item_ids \<noteq> [])"

definition start_parts :: "json_dict \<Rightarrow> stack_kind \<Rightarrow> string \<Rightarrow> string list \<Rightarrow> parts" where
  "start_parts base stack measurement_id item_ids =
    (let empty = \<lparr>cp_triggers = [], cp_tags = [], cp_next_trigger = 10, cp_next_tag = 2, cp_trigger_by_item = []\<rparr>
     in if \<not> wants_config item_ids then empty
        else if stack \<in> set SPA_STACKS
        then empty\<lparr>cp_triggers := [history_trigger base (str_nat 10)], cp_next_trigger := 11,
          cp_tags := [config_tag base measurement_id [ALL_PAGES_TRIGGER_ID, str_nat 10]]\<rparr>
        else empty\<lparr>cp_tags := [config_tag base measurement_id [ALL_PAGES_TRIGGER_ID]]\<rparr>)"

definition add_recipe :: "json_dict \<Rightarrow> string \<times> recipe \<Rightarrow> parts \<Rightarrow> parts" where
  "add_recipe base = (\<lambda>(item_id, r) p.
    (let trigger_id = str_nat (cp_next_trigger p)
     in p\<lparr>cp_triggers := cp_triggers p @ [if rc_kind r = Link_click then link_click_trigger base trigger_id r
            else custom_event_trigger base trigger_id (''CE - '' @ rc_event r) (rc_event r)],
          cp_next_trigger := cp_next_trigger p + 1,
          cp_trigger_by_item := dict_set item_id trigger_id (cp_trigger_by_item p),
          cp_tags := cp_tags p @ [ga4_event_tag base (str_nat (cp_next_tag p)) (''GA4 - '' @ rc_event r) (rc_event r) trigger_id
            (rc_ecommerce r) (event_params (rc_params r))],
          cp_next_tag := cp_next_tag p + 1\<rparr>))"

definition add_tag :: "json \<Rightarrow> parts \<Rightarrow> parts" where
  "add_tag tag p = p\<lparr>cp_tags := cp_tags p @ [tag], cp_next_tag := cp_next_tag p + 1\<rparr>"

definition key_event_of :: "parts \<Rightarrow> string option" where
  "key_event_of p = List.find (\<lambda>k. k \<in> fst ` set (cp_trigger_by_item p)) ADS_KEY_EVENTS"

definition ads_missing_settings :: string where
  "ads_missing_settings =
    ''Balise Ads ignor'' @ e_acute @ ''e : renseigne l'' @ apos @ ''ID de conversion (AW-'' @ dots
    @ '') et le libell'' @ e_acute @ '' dans '' @ guil_l @ '' R'' @ e_acute @ ''glages Ads '' @ guil_r
    @ ''.''"

definition ads_missing_event :: string where
  "ads_missing_event =
    ''Balise Ads ignor'' @ e_acute @ ''e : s'' @ e_acute @ ''lectionne aussi ton '' @ e_acute @ ''v''
    @ e_acute @ ''nement cl'' @ e_acute
    @ '' (achat, demande de contact, inscription ou abonnement) pour que la conversion se d'' @ e_acute
    @ ''clenche.''"

definition add_ads :: "json_dict \<Rightarrow> string list \<Rightarrow> string option \<Rightarrow> string option \<Rightarrow> parts \<Rightarrow> parts \<times> string list" where
  "add_ads base item_ids ads_conversion_id ads_conversion_label p =
    (if ''ads_conversion_tag'' \<notin> set item_ids then (p, [])
     else (let conversion_id = removeprefix ''AW-'' (text_or [] ads_conversion_id); label = text_or [] ads_conversion_label
       in if conversion_id = [] \<or> label = [] then (p, [ads_missing_settings])
          else (case key_event_of p of
              None \<Rightarrow> (p, [ads_missing_event])
            | Some key_event \<Rightarrow>
                (add_tag (ads_conversion_tag base (str_nat (cp_next_tag p)) conversion_id label
                   (get_default [] (cp_trigger_by_item p) key_event)
                   (case map_of RECIPES key_event of None \<Rightarrow> False | Some r \<Rightarrow> rc_ecommerce r)) p, []))))"

definition tag_field :: "string \<Rightarrow> json \<Rightarrow> json" where
  "tag_field key tag = (case tag of JDict d \<Rightarrow> jget d key | _ \<Rightarrow> JNull)"

definition add_linker :: "json_dict \<Rightarrow> string list \<Rightarrow> parts \<Rightarrow> parts" where
  "add_linker base item_ids p =
    (if ''ads_conversion_linker'' \<in> set item_ids \<or>
        list_ex (\<lambda>t. tag_field ''name'' t = JStr ''Google Ads - Conversion'') (cp_tags p)
     then add_tag (conversion_linker_tag base (str_nat (cp_next_tag p))) p else p)"

definition unknown_id_warning :: string where
  "unknown_id_warning =
    ''ID de mesure GA4 inconnu : remplace G-XXXXXXXXXX par l'' @ apos @ ''ID de ton flux de donn''
    @ e_acute @ ''es avant de publier (ou connecte GA4 pour qu'' @ apos @ ''il soit renseign'' @ e_acute
    @ '' automatiquement).''"

definition ignored_warning :: "string \<Rightarrow> string" where
  "ignored_warning item_id =
    guil_l @ '' '' @ item_id @
    '' '' @ guil_r @ '' n'' @ apos @ ''est pas g'' @ e_acute @ ''n'' @ e_acute @ ''r'' @ e_acute
    @ '' dans le conteneur GTM (inconnu ou fourni autrement, par exemple en snippet) : ignor'' @ e_acute
    @ ''.''"

definition first_warnings :: "string list \<Rightarrow> string option \<Rightarrow> string list" where
  "first_warnings item_ids ga4_measurement_id =
     (if text_or [] ga4_measurement_id = [] then [unknown_id_warning] else []) @
     map ignored_warning (filter (\<lambda>i. i \<notin> fst ` set RECIPES \<and> i \<notin> set SPECIAL_ITEMS) item_ids) @
     (if wants_config item_ids then [DOUBLE_PAGE_VIEW_WARNING] else [])"

definition selected_parts :: "json_dict \<Rightarrow> stack_kind \<Rightarrow> string list \<Rightarrow> string \<Rightarrow> string option \<Rightarrow> string option \<Rightarrow> parts \<times> string list" where
  "selected_parts base stack item_ids measurement_id ads_conversion_id ads_conversion_label =
    (let p0 = fold (add_recipe base) (selected_recipes item_ids) (start_parts base stack measurement_id item_ids);
         (p1, ads_warnings) = add_ads base item_ids ads_conversion_id ads_conversion_label p0
     in (add_linker base item_ids p1, ads_warnings))"

definition build_selected_container :: "string \<Rightarrow> stack_kind \<Rightarrow> string list \<Rightarrow> string option \<Rightarrow> string option \<Rightarrow> string option \<Rightarrow>
    string \<Rightarrow> string option \<Rightarrow> datetime \<Rightarrow> (json_dict \<times> string list) result" where
  "build_selected_container domain stack ids ga4_measurement_id ads_conversion_id ads_conversion_label import_mode export_time now =
     try_bind (import_metadata import_mode) (\<lambda>metadata.
      (let item_ids = from_keys ids;
           measurement_id = text_or ''G-XXXXXXXXXX'' ga4_measurement_id;
           (p, ads_warnings) = selected_parts (base_of domain) stack item_ids measurement_id ads_conversion_id ads_conversion_label;
           warnings = first_warnings item_ids ga4_measurement_id @ ads_warnings @
             (if list_ex (\<lambda>t. tag_field ''type'' t \<in> {JStr ''awct'', JStr ''gclidw''}) (cp_tags p) then [ADS_UNVALIDATED_WARNING] else []);
           option_text = (case jget metadata ''gtm_option'' of JStr s \<Rightarrow> s | _ \<Rightarrow> []);
           description = ''Genere par Control Center pour '' @ domain @ '' (plan de mesure). Import : '' @ option_text @
             ''. Verifiez en mode Apercu avant de publier.''
       in Inr (container_document domain (''Control Center - plan de mesure - '' @ domain) description
            (text_or (time_text now) export_time) (cp_tags p) (cp_triggers p)
            (container_variables (base_of domain) measurement_id) metadata, warnings)))"

section \<open>Reading a container back\<close>

definition part_list :: "json_dict \<Rightarrow> string \<Rightarrow> json list" where
  "part_list doc key = (case jget doc ''containerVersion'' of
     JDict v \<Rightarrow> (case jget v key of JList xs \<Rightarrow> xs | _ \<Rightarrow> []) | _ \<Rightarrow> [])"

fun str_of :: "json \<Rightarrow> string option" where
  "str_of (JStr s) = Some s"
| "str_of _ = None"

definition firing_ids :: "json \<Rightarrow> string list" where
  "firing_ids tag = (case tag_field ''firingTriggerId'' tag of JList xs \<Rightarrow> List.map_filter str_of xs | _ \<Rightarrow> [])"

fun texts_in :: "json \<Rightarrow> string list" where
  "texts_in (JStr s) = [s]"
| "texts_in (JList xs) = concat (map texts_in xs)"
| "texts_in (JDict d) = concat (map (\<lambda>(k, v). texts_in v) d)"
| "texts_in _ = []"

text \<open>The event an Analytics tag sends.\<close>

definition is_event_tag :: "json \<Rightarrow> bool" where
  "is_event_tag tag = (tag_field ''type'' tag = JStr ''gaawe'')"

definition sent_event :: "json \<Rightarrow> json" where
  "sent_event tag = (case tag_field ''parameter'' tag of JList (p # _) \<Rightarrow> tag_field ''value'' p | _ \<Rightarrow> JNull)"

text \<open>
  Tags and triggers that hold together: identifiers are unique, a tag fires on all pages or on triggers that
  are there, every trigger is used, and an event tag has its configuration beside it.
\<close>

definition well_linked :: "json list \<Rightarrow> json list \<Rightarrow> bool" where
  "well_linked tags triggers =
    (distinct (map (tag_field ''tagId'') tags) \<and> distinct (map (tag_field ''triggerId'') triggers) \<and>
     (\<forall>t \<in> set tags. firing_ids t \<noteq> [] \<and>
       (\<forall>i \<in> set (firing_ids t). i = ALL_PAGES_TRIGGER_ID \<or> JStr i \<in> tag_field ''triggerId'' ` set triggers)) \<and>
     (\<forall>r \<in> set triggers. \<exists>t \<in> set tags. tag_field ''triggerId'' r \<in> JStr ` set (firing_ids t)) \<and>
     ((\<exists>t \<in> set tags. is_event_tag t) \<longrightarrow> (\<exists>c \<in> set tags. tag_field ''name'' c = JStr ''GA4 Configuration'')))"

lemma of_digit_char: "d < 10 \<Longrightarrow> of_char (digit_char d) - 48 = d"
  using digit_char_digit [of d] by simp

lemma str_nat_value: "fold (\<lambda>c n. 10 * n + (of_char c - 48)) (str_nat n) 0 = n"
proof (induction n rule: str_nat.induct)
  case (1 n)
  then show ?case by (subst str_nat.simps) (simp add: of_digit_char)
qed

lemma str_nat_inj: "str_nat m = str_nat n \<Longrightarrow> m = n"
  by (metis str_nat_value)

lemma str_nat_1: "str_nat 1 = ''1''"
  by code_simp

lemma distinct_numbers: "distinct (map (\<lambda>n. JStr (str_nat n)) [a..<b])"
  by (auto simp: distinct_map inj_on_def dest: str_nat_inj)

text \<open>The fields of what the builders make; the two keys of the base come first and are none of these.\<close>

definition plain_base :: "json_dict \<Rightarrow> bool" where
  "plain_base base = (\<forall>k \<in> fst ` set base. k \<in> {''accountId'', ''containerId''})"

lemma plain_base_of [simp]: "plain_base (base_of domain)"
  by (simp add: plain_base_def base_of_def)

lemma jget_base: "plain_base base \<Longrightarrow> k \<noteq> ''accountId'' \<Longrightarrow> k \<noteq> ''containerId'' \<Longrightarrow> jget (base @ d) k = jget d k"
  by (induction base) (auto simp: plain_base_def)

lemma map_filter_str_of [simp]: "List.map_filter str_of (map JStr xs) = xs"
  by (induction xs) simp_all

lemmas piece_defs = tag_field_def firing_ids_def is_event_tag_def sent_event_def texts_def jget_base

lemma event_tag_fields:
  assumes "plain_base base"
  shows "tag_field ''tagId'' (ga4_event_tag base i name ev t ec extra) = JStr i"
    "firing_ids (ga4_event_tag base i name ev t ec extra) = [t]"
    "is_event_tag (ga4_event_tag base i name ev t ec extra)"
    "sent_event (ga4_event_tag base i name ev t ec extra) = JStr ev"
  using assms by (simp_all add: ga4_event_tag_def piece_defs tmpl_def)

lemma config_tag_fields:
  assumes "plain_base base"
  shows "tag_field ''tagId'' (config_tag base m ts) = JStr ''1''" "firing_ids (config_tag base m ts) = ts"
    "\<not> is_event_tag (config_tag base m ts)" "tag_field ''name'' (config_tag base m ts) = JStr ''GA4 Configuration''"
  using assms by (simp_all add: config_tag_def piece_defs)

lemma other_tag_fields:
  assumes "plain_base base"
  shows "tag_field ''tagId'' (ads_conversion_tag base i c l t ec) = JStr i" "firing_ids (ads_conversion_tag base i c l t ec) = [t]"
    "\<not> is_event_tag (ads_conversion_tag base i c l t ec)" "tag_field ''tagId'' (conversion_linker_tag base i) = JStr i"
    "firing_ids (conversion_linker_tag base i) = [ALL_PAGES_TRIGGER_ID]" "\<not> is_event_tag (conversion_linker_tag base i)"
  using assms by (simp_all add: ads_conversion_tag_def conversion_linker_tag_def piece_defs)

lemma trigger_fields:
  assumes "plain_base base"
  shows "tag_field ''triggerId'' (custom_event_trigger base i name ev) = JStr i"
    "tag_field ''triggerId'' (link_click_trigger base i r) = JStr i" "tag_field ''triggerId'' (history_trigger base i) = JStr i"
  using assms by (simp_all add: custom_event_trigger_def link_click_trigger_def link_trigger_def history_trigger_def piece_defs)

section \<open>The loop\<close>

text \<open>
  What holds of the parts after any number of recipes: the numbers given, what the tags fire on, which triggers
  are used, and the configuration tag, which \<open>cfg\<close> says to be there.
\<close>

definition given_ids :: "parts \<Rightarrow> string set" where
  "given_ids p = str_nat ` {10..<cp_next_trigger p}"

definition numbered :: "bool \<Rightarrow> parts \<Rightarrow> bool" where
  "numbered cfg p =
    (map (tag_field ''triggerId'') (cp_triggers p) = map (\<lambda>n. JStr (str_nat n)) [10..<cp_next_trigger p] \<and> 10 \<le> cp_next_trigger p \<and>
     map (tag_field ''tagId'') (cp_tags p) = map (\<lambda>n. JStr (str_nat n)) ((if cfg then [1] else []) @ [2..<cp_next_tag p]) \<and>
     2 \<le> cp_next_tag p)"

definition fires_on_given :: "parts \<Rightarrow> bool" where
  "fires_on_given p =
    (\<forall>t \<in> set (cp_tags p). firing_ids t \<noteq> [] \<and> set (firing_ids t) \<subseteq> insert ALL_PAGES_TRIGGER_ID (given_ids p))"

definition given_used :: "parts \<Rightarrow> bool" where
  "given_used p = (given_ids p \<subseteq> (\<Union>t \<in> set (cp_tags p). set (firing_ids t)))"

definition configured :: "bool \<Rightarrow> parts \<Rightarrow> bool" where
  "configured cfg p =
    ((\<forall>t \<in> set (cp_tags p). is_event_tag t \<longrightarrow> cfg) \<and>
     (cfg \<longrightarrow> (\<exists>c \<in> set (cp_tags p). tag_field ''name'' c = JStr ''GA4 Configuration'')))"

definition items_given :: "parts \<Rightarrow> bool" where
  "items_given p = (snd ` set (cp_trigger_by_item p) \<subseteq> given_ids p)"

definition parts_ok :: "bool \<Rightarrow> parts \<Rightarrow> bool" where
  "parts_ok cfg p = (numbered cfg p \<and> fires_on_given p \<and> given_used p \<and> configured cfg p \<and> items_given p)"

lemma numbered_distinct:
  assumes "numbered cfg p"
  shows "distinct (map (tag_field ''tagId'') (cp_tags p))" "distinct (map (tag_field ''triggerId'') (cp_triggers p))"
proof -
  have "distinct ((if cfg then [1] else []) @ [2..<cp_next_tag p])" by simp
  then have "distinct (map (\<lambda>n. JStr (str_nat n)) ((if cfg then [1] else []) @ [2..<cp_next_tag p]))"
    by (simp only: distinct_map) (auto simp: inj_on_def dest: str_nat_inj)
  with assms show "distinct (map (tag_field ''tagId'') (cp_tags p))" by (simp add: numbered_def)
  show "distinct (map (tag_field ''triggerId'') (cp_triggers p))"
    using assms distinct_numbers by (simp add: numbered_def)
qed

lemma numbered_triggers:
  assumes "numbered cfg p"
  shows "tag_field ''triggerId'' ` set (cp_triggers p) = JStr ` given_ids p"
proof -
  have "map (tag_field ''triggerId'') (cp_triggers p) = map (\<lambda>n. JStr (str_nat n)) [10..<cp_next_trigger p]"
    using assms by (simp add: numbered_def)
  from arg_cong [OF this, of set] show ?thesis by (simp add: given_ids_def image_image)
qed

lemma parts_ok_linked:
  assumes "parts_ok cfg p"
  shows "well_linked (cp_tags p) (cp_triggers p)"
proof -
  have n: "numbered cfg p" and f: "fires_on_given p" and u: "given_used p" and c: "configured cfg p"
    using assms by (simp_all add: parts_ok_def)
  have fire: "firing_ids t \<noteq> [] \<and> (\<forall>i \<in> set (firing_ids t). i = ALL_PAGES_TRIGGER_ID \<or>
      JStr i \<in> tag_field ''triggerId'' ` set (cp_triggers p))" if "t \<in> set (cp_tags p)" for t
    using f that unfolding numbered_triggers [OF n] fires_on_given_def by (meson image_eqI insertE subsetD)
  have used: "\<exists>t \<in> set (cp_tags p). tag_field ''triggerId'' r \<in> JStr ` set (firing_ids t)" if "r \<in> set (cp_triggers p)" for r
  proof -
    have "tag_field ''triggerId'' r \<in> JStr ` given_ids p"
      unfolding numbered_triggers [OF n, symmetric] using that by simp
    then show ?thesis using u unfolding given_used_def by blast
  qed
  show ?thesis
    using numbered_distinct [OF n] fire used c unfolding well_linked_def configured_def by blast
qed

lemma parts_ok_start:
  assumes "plain_base base"
  shows "parts_ok (wants_config ids) (start_parts base stack m ids)"
proof -
  have ten: "{10..<11 :: nat} = {10}" by auto
  show ?thesis
  unfolding parts_ok_def numbered_def fires_on_given_def given_used_def configured_def items_given_def given_ids_def
  using str_nat_1 ten by (simp add: start_parts_def Let_def config_tag_fields [OF assms] trigger_fields [OF assms])
qed

lemma given_ids_recipe: "10 \<le> cp_next_trigger p \<Longrightarrow>
    given_ids (add_recipe base (i, r) p) = insert (str_nat (cp_next_trigger p)) (given_ids p)"
  by (simp add: given_ids_def add_recipe_def Let_def atLeastLessThanSuc)

lemma recipe_tags:
  assumes "plain_base base"
  obtains t where "cp_tags (add_recipe base (i, r) p) = cp_tags p @ [t]" "tag_field ''tagId'' t = JStr (str_nat (cp_next_tag p))"
    "firing_ids t = [str_nat (cp_next_trigger p)]" "is_event_tag t" "sent_event t = JStr (rc_event r)"
  by (rule that [of "ga4_event_tag base (str_nat (cp_next_tag p)) (''GA4 - '' @ rc_event r) (rc_event r)
      (str_nat (cp_next_trigger p)) (rc_ecommerce r) (event_params (rc_params r))"])
    (simp_all add: add_recipe_def Let_def event_tag_fields [OF assms])

lemma by_item_values: "snd ` set (dict_set i v d) \<subseteq> insert v (snd ` set (d :: (string \<times> string) list))"
  unfolding dict_set_def by (induction i "\<lambda>_ :: string option. v" d rule: dict_update.induct) auto

lemma parts_ok_recipe:
  assumes base: "plain_base base" and p: "parts_ok True p"
  shows "parts_ok True (add_recipe base (item_id, r) p)"
proof -
  obtain t where t: "cp_tags (add_recipe base (item_id, r) p) = cp_tags p @ [t]" "tag_field ''tagId'' t = JStr (str_nat (cp_next_tag p))"
    "firing_ids t = [str_nat (cp_next_trigger p)]" "is_event_tag t"
    using recipe_tags [OF base] by metis
  have n: "numbered True p" and next10: "10 \<le> cp_next_trigger p" using p by (simp_all add: parts_ok_def numbered_def)
  note ids = given_ids_recipe [OF next10]
  have "numbered True (add_recipe base (item_id, r) p)"
    using n t(1,2) by (auto simp: numbered_def add_recipe_def Let_def trigger_fields [OF base])
  moreover have "fires_on_given (add_recipe base (item_id, r) p)"
    using p t(1,3) unfolding parts_ok_def fires_on_given_def ids by auto
  moreover have "given_used (add_recipe base (item_id, r) p)"
    using p t(1,3) unfolding parts_ok_def given_used_def ids by auto
  moreover have "configured True (add_recipe base (item_id, r) p)"
    using p t(1) unfolding parts_ok_def configured_def by auto
  moreover have "items_given (add_recipe base (item_id, r) p)"
    using p by_item_values [of item_id "str_nat (cp_next_trigger p)" "cp_trigger_by_item p"]
    unfolding parts_ok_def items_given_def ids by (auto simp: add_recipe_def Let_def)
  ultimately show ?thesis by (simp add: parts_ok_def)
qed

lemma parts_ok_recipes:
  "plain_base base \<Longrightarrow> parts_ok True p \<Longrightarrow> parts_ok True (fold (add_recipe base) rs p)"
  by (induction rs arbitrary: p) (auto intro: parts_ok_recipe)

lemma parts_ok_add:
  assumes p: "parts_ok cfg p" and tag: "tag_field ''tagId'' tag = JStr (str_nat (cp_next_tag p))" "firing_ids tag = [i]"
    "i \<in> insert ALL_PAGES_TRIGGER_ID (given_ids p)" "\<not> is_event_tag tag"
  shows "parts_ok cfg (add_tag tag p)"
proof -
  have ids: "given_ids (add_tag tag p) = given_ids p" by (simp add: given_ids_def add_tag_def)
  have "numbered cfg (add_tag tag p)"
    using p tag(1) by (auto simp: parts_ok_def numbered_def add_tag_def)
  moreover have "fires_on_given (add_tag tag p)"
    using p tag(2,3) unfolding parts_ok_def fires_on_given_def ids by (simp add: add_tag_def)
  moreover have "given_used (add_tag tag p)"
    using p unfolding parts_ok_def given_used_def ids by (auto simp: add_tag_def)
  moreover have "configured cfg (add_tag tag p)"
    using p tag(4) unfolding parts_ok_def configured_def by (auto simp: add_tag_def)
  moreover have "items_given (add_tag tag p)"
    using p unfolding parts_ok_def items_given_def ids by (simp add: add_tag_def)
  ultimately show ?thesis by (simp add: parts_ok_def)
qed

lemma add_ads_cases:
  obtains "fst (add_ads base ids conv label p) = p"
  | c l ec key v where "(key, v) \<in> set (cp_trigger_by_item p)"
      "fst (add_ads base ids conv label p) = add_tag (ads_conversion_tag base (str_nat (cp_next_tag p)) c l v ec) p"
proof (cases "key_event_of p")
  case None
  then show ?thesis using that(1) by (simp add: add_ads_def Let_def)
next
  case (Some key)
  then have "key \<in> fst ` set (cp_trigger_by_item p)" by (auto simp: key_event_of_def find_Some_iff)
  then obtain v where v: "map_of (cp_trigger_by_item p) key = Some v"
    by (metis map_of_eq_None_iff not_None_eq)
  show ?thesis
  proof (cases "fst (add_ads base ids conv label p) = p")
    case True
    then show ?thesis by (rule that(1))
  next
    case False
    then show ?thesis
      using that(2) [OF map_of_SomeD [OF v]] by (auto simp: add_ads_def Let_def Some get_default_def v split: if_splits)
  qed
qed

lemma parts_ok_ads:
  assumes base: "plain_base base" and p: "parts_ok cfg p"
  shows "parts_ok cfg (fst (add_ads base ids conv label p))"
proof (rule add_ads_cases [of base ids conv label p])
  assume "fst (add_ads base ids conv label p) = p"
  then show ?thesis using p by simp
next
  fix c l ec key v
  assume v: "(key, v) \<in> set (cp_trigger_by_item p)"
    and eq: "fst (add_ads base ids conv label p) = add_tag (ads_conversion_tag base (str_nat (cp_next_tag p)) c l v ec) p"
  have "v \<in> insert ALL_PAGES_TRIGGER_ID (given_ids p)"
    using p v unfolding parts_ok_def items_given_def by force
  then show ?thesis
    unfolding eq by (rule parts_ok_add [OF p other_tag_fields(1,2) [OF base] _ other_tag_fields(3) [OF base]])
qed

lemma parts_ok_linker:
  assumes "plain_base base" "parts_ok cfg p"
  shows "parts_ok cfg (add_linker base ids p)"
  using assms parts_ok_add [OF assms(2) other_tag_fields(4-5) [OF assms(1)] _ other_tag_fields(6) [OF assms(1)]]
  by (simp add: add_linker_def)

lemma parts_ok_selected:
  assumes base: "plain_base base" and parts: "selected_parts base stack ids m conv label = (p, w)"
  shows "parts_ok (wants_config ids) p"
proof -
  let ?p0 = "fold (add_recipe base) (selected_recipes ids) (start_parts base stack m ids)"
  have "parts_ok (wants_config ids) ?p0"
  proof (cases "selected_recipes ids")
    case Nil
    then show ?thesis using parts_ok_start [OF base] by simp
  next
    case (Cons r rs)
    then have "wants_config ids" by (simp add: wants_config_def)
    then show ?thesis using parts_ok_recipes [OF base] parts_ok_start [OF base, of ids stack m] by simp
  qed
  then have "parts_ok (wants_config ids) (add_linker base ids (fst (add_ads base ids conv label ?p0)))"
    by (intro parts_ok_linker parts_ok_ads base)
  then show ?thesis using parts by (auto simp: selected_parts_def Let_def split: prod.splits)
qed

section \<open>What a container of chosen items holds\<close>

lemma part_list_document:
  "part_list (container_document domain name description t tags triggers vars metadata) ''tag'' = tags"
  "part_list (container_document domain name description t tags triggers vars metadata) ''trigger'' = triggers"
  by (simp_all add: part_list_def container_document_def base_of_def)

text \<open>The events of the tags of a container, in order.\<close>

definition sent_events :: "json list \<Rightarrow> json list" where
  "sent_events tags = map sent_event (filter is_event_tag tags)"

lemma recipes_events:
  "plain_base base \<Longrightarrow> sent_events (cp_tags (fold (add_recipe base) rs p)) =
     sent_events (cp_tags p) @ map (\<lambda>(i, r). JStr (rc_event r)) rs"
proof (induction rs arbitrary: p)
  case (Cons x rs)
  obtain i r where x: "x = (i, r)" by force
  obtain t where "cp_tags (add_recipe base (i, r) p) = cp_tags p @ [t]" "is_event_tag t" "sent_event t = JStr (rc_event r)"
    using recipe_tags [OF Cons.prems] by metis
  with Cons show ?case by (simp add: x sent_events_def)
qed simp

lemma start_events: "plain_base base \<Longrightarrow> sent_events (cp_tags (start_parts base stack m ids)) = []"
  by (simp add: start_parts_def Let_def sent_events_def config_tag_fields)

lemma added_events: "\<not> is_event_tag t \<Longrightarrow> sent_events (cp_tags (add_tag t p)) = sent_events (cp_tags p)"
  by (simp add: add_tag_def sent_events_def)

lemma ads_events:
  assumes "plain_base base"
  shows "sent_events (cp_tags (fst (add_ads base ids conv label p))) = sent_events (cp_tags p)"
  by (rule add_ads_cases [of base ids conv label p]) (simp_all add: added_events other_tag_fields [OF assms])

lemma linker_events:
  assumes "plain_base base"
  shows "sent_events (cp_tags (add_linker base ids p)) = sent_events (cp_tags p)"
  by (simp add: add_linker_def added_events other_tag_fields [OF assms])

lemma selected_events:
  assumes "plain_base base" "selected_parts base stack ids m conv label = (p, w)"
  shows "sent_events (cp_tags p) = map (\<lambda>(i, r). JStr (rc_event r)) (selected_recipes ids)"
proof -
  let ?p0 = "fold (add_recipe base) (selected_recipes ids) (start_parts base stack m ids)"
  have "p = add_linker base ids (fst (add_ads base ids conv label ?p0))"
    using assms(2) by (auto simp: selected_parts_def Let_def split: prod.splits)
  then show ?thesis
    by (simp add: linker_events ads_events recipes_events start_events assms(1))
qed


lemma import_modes: "import_metadata mode \<in> range Inr \<longleftrightarrow> mode = ''merge'' \<or> mode = ''overwrite''"
  by (auto simp: import_metadata_def IMPORT_METADATA_def)

lemma selected_container_returns:
  "\<exists>doc w. build_selected_container domain stack ids ga4 conv label ''merge'' t now = Inr (doc, w)"
  by (simp add: build_selected_container_def import_metadata_def IMPORT_METADATA_def Let_def split: prod.splits)


text \<open>
  The address of a click, which the module means to keep from Analytics for telephone, mail and WhatsApp
  links, is in no tag of a container of chosen items; the outgoing click of the general container sends it,
  on every link that does not contain the domain, and so for such links as well.
\<close>

lemma recipe_params_no_address:
  "\<forall>(i, r) \<in> set RECIPES. ''{{Click URL}}'' \<notin> snd ` set (rc_params r)"
  by (simp add: RECIPES_def pushed_def clicked_def)

lemma general_container_sends_address:
  "\<exists>doc. build_gtm_container domain stack ga4 prop ''merge'' t now = Inr doc \<and>
     list_ex (\<lambda>g. firing_ids g = [''12''] \<and> ''{{Click URL}}'' \<in> set (texts_in (tag_field ''parameter'' g))) (part_list doc ''tag'') \<and>
     list_ex (\<lambda>r. r = link_trigger (base_of domain) ''12'' ''Clic sortant'' (JStr ''doesNotContain'') (JStr domain))
       (part_list doc ''trigger'')"
  by (simp add: build_gtm_container_def import_metadata_def IMPORT_METADATA_def Let_def part_list_document event_tag_fields
      config_tag_fields ga4_event_tag_def piece_defs event_params_def list_field_def map_of_fields_def tmpl_def)

end
