(* ===== verification/Audit_Signals.thy ===== *)
theory Audit_Signals
  imports Google_Sources French_Text
begin

text \<open>
  The signals an audit is made of (\<open>app/services/audit_signals.py\<close>) and the two read from Google's reports
  (\<open>app/services/ga4.py\<close>, \<open>app/services/gsc.py\<close>). A call that fails gives degraded signals; an answer of another shape
  is read as far as it can be, and what still raises is a value of the model. The HTTP client is a parameter,
  \<open>None\<close> for an \<open>httpx.HTTPError\<close>, and so are the path \<open>httpx.URL\<close> reads in an address and \<open>quote\<close>.
\<close>

section \<open>Signals\<close>

record ga4_signals =
  ag_score :: int
  ag_purchase_missing_params :: "string list"
  ag_missing_events :: "string list"
  ag_login_missing_user_id :: bool
  ag_degraded :: bool

record url_sample =
  us_path :: string
  us_status :: string
  us_clicks :: int
  us_impressions :: int

record gsc_signals =
  gs_score :: int
  gs_valid_pages :: int
  gs_excluded_pages :: int
  gs_noindex_pages :: int
  gs_noindex_on_products :: bool
  gs_stale_days :: int
  gs_sample_urls :: "url_sample list"
  gs_degraded :: bool

record costly_entity =
  ce_name :: string
  ce_category :: string
  ce_main_thread_ms :: int
  ce_blocking_ms :: int

record heavy_asset =
  ha_name :: string
  ha_current_format :: string
  ha_size_kb :: int
  ha_saving_kb :: int

record shift_element =
  sh_selector :: string
  sh_impact :: py_number
  sh_note :: string

record cwv_signals =
  cw_score :: int
  cw_lcp_ms :: int
  cw_inp_ms :: int
  cw_cls :: py_number
  cw_heavy_assets :: "string list"
  cw_blocking_scripts :: "string list"
  cw_third_party_scripts :: "string list"
  cw_js_execution_ms :: int
  cw_total_blocking_time_ms :: int
  cw_lcp_element :: "string option"
  cw_field_data :: bool
  cw_costly_entities :: "costly_entity list"
  cw_lcp_assets :: "heavy_asset list"
  cw_shift_elements :: "shift_element list"

record probe_data =
  pd_ga4 :: ga4_signals
  pd_gsc :: gsc_signals
  pd_cwv :: cwv_signals

text \<open>The defaults of the dataclasses.\<close>

definition ga4_score :: "int \<Rightarrow> ga4_signals" where
  "ga4_score n = \<lparr>ag_score = n, ag_purchase_missing_params = [], ag_missing_events = [],
     ag_login_missing_user_id = False, ag_degraded = False\<rparr>"

definition gsc_score :: "int \<Rightarrow> gsc_signals" where
  "gsc_score n = \<lparr>gs_score = n, gs_valid_pages = 0, gs_excluded_pages = 0, gs_noindex_pages = 0,
     gs_noindex_on_products = False, gs_stale_days = 0, gs_sample_urls = [], gs_degraded = False\<rparr>"

definition cwv_score :: "int \<Rightarrow> cwv_signals" where
  "cwv_score n = \<lparr>cw_score = n, cw_lcp_ms = 0, cw_inp_ms = 0, cw_cls = PyFloat 0, cw_heavy_assets = [],
     cw_blocking_scripts = [], cw_third_party_scripts = [], cw_js_execution_ms = 0, cw_total_blocking_time_ms = 0,
     cw_lcp_element = None, cw_field_data = False, cw_costly_entities = [], cw_lcp_assets = [], cw_shift_elements = []\<rparr>"

section \<open>Reading JSON\<close>

text \<open>\<open>x.get(key, default)\<close>, \<open>x or []\<close>, \<open>x[0]\<close> of a value that is not empty, and the items of \<open>for x in value\<close>.\<close>

definition attr_get :: "json \<Rightarrow> string \<Rightarrow> json \<Rightarrow> json result" where
  "attr_get j key other = (case j of JDict d \<Rightarrow> Inr (get_default other d key) | _ \<Rightarrow> Inl AttributeError)"

definition or_empty :: "json \<Rightarrow> json" where
  "or_empty j = (if truthy j then j else JList [])"

fun first_of :: "json \<Rightarrow> json result" where
  "first_of (JList (x # xs)) = Inr x"
| "first_of (JList []) = Inl IndexError"
| "first_of (JStr (c # cs)) = Inr (JStr [c])"
| "first_of (JStr []) = Inl IndexError"
| "first_of (JDict d) = Inl KeyError"
| "first_of _ = Inl TypeError"

fun iterated :: "json \<Rightarrow> json list result" where
  "iterated (JList xs) = Inr xs"
| "iterated (JDict d) = Inr (map (JStr \<circ> fst) d)"
| "iterated (JStr s) = Inr (map (\<lambda>c. JStr [c]) s)"
| "iterated _ = Inl TypeError"

text \<open>The rows of a report, or none when the answer is no object.\<close>

definition report_rows :: "json \<Rightarrow> json list result" where
  "report_rows payload = (case payload of JDict d \<Rightarrow> iterated (get_default (JList []) d ''rows'') | _ \<Rightarrow> Inr [])"

definition success :: "http_response \<Rightarrow> bool" where
  "success response = (200 \<le> hr_status response \<and> hr_status response < 300)"

section \<open>Events of Analytics\<close>

text \<open>\<open>_metric\<close>: a dictionary in the place of the list raises \<open>KeyError\<close>, what is no list is worth nothing.\<close>

definition metric_at :: "json \<Rightarrow> nat \<Rightarrow> py_number result" where
  "metric_at metrics i = (case metrics of JList xs \<Rightarrow> metric_value xs i | JDict d \<Rightarrow> Inl KeyError | _ \<Rightarrow> Inr (PyFloat 0))"

definition stat_at :: "json \<Rightarrow> event_stat result" where
  "stat_at metrics =
     try_bind (metric_at metrics 0) (\<lambda>n. try_bind (metric_at metrics 1) (\<lambda>r. try_bind (metric_at metrics 2) (\<lambda>v.
       Inr \<lparr>es_count = n, es_revenue = r, es_value = v\<rparr>)))"

definition audit_event_row :: "json \<Rightarrow> event_stats \<Rightarrow> event_stats result" where
  "audit_event_row row events =
    (case row of
       JDict d \<Rightarrow>
         (let dims = or_empty (jget d ''dimensionValues''); metrics = or_empty (jget d ''metricValues'')
          in if dims = JList [] then Inr events
             else try_bind (first_of dims) (\<lambda>dim. case dim of
                 JDict v \<Rightarrow> (case jget v ''value'' of
                     JStr (c # cs) \<Rightarrow> try_bind (stat_at metrics) (\<lambda>s. Inr (dict_set (c # cs) s events))
                   | _ \<Rightarrow> Inr events)
               | _ \<Rightarrow> Inr events))
     | _ \<Rightarrow> Inr events)"

fun audit_event_rows :: "json list \<Rightarrow> event_stats \<Rightarrow> event_stats result" where
  "audit_event_rows [] events = Inr events"
| "audit_event_rows (row # rows) events = try_bind (audit_event_row row events) (audit_event_rows rows)"

definition count_of :: "event_stats \<Rightarrow> string \<Rightarrow> py_number" where
  "count_of events name = (case map_of events name of None \<Rightarrow> PyFloat 0 | Some s \<Rightarrow> es_count s)"

definition is_zero :: "py_number \<Rightarrow> bool" where
  "is_zero x = (\<not> number_true x)"

definition ga4_rules :: "event_stats \<Rightarrow> ga4_signals" where
  "ga4_rules events =
    (let page_views = count_of events ''page_view'';
         lead = count_of events ''generate_lead'';
         missing_params = (case map_of events ''purchase'' of None \<Rightarrow> []
           | Some p \<Rightarrow> if positive (es_count p) \<and> is_zero (es_revenue p) \<and> is_zero (es_value p) then [''value'', ''currency''] else []);
         missing = (if positive page_views \<and> is_zero lead then [''generate_lead''] else []);
         score = (if is_zero page_views then 15 else if missing_params \<noteq> [] \<or> missing \<noteq> [] then 60 else 90)
     in (ga4_score score)\<lparr>ag_purchase_missing_params := missing_params, ag_missing_events := missing\<rparr>)"

definition parse_run_report :: "json \<Rightarrow> ga4_signals result" where
  "parse_run_report payload =
     try_bind (report_rows payload) (\<lambda>rows. try_bind (audit_event_rows rows []) (\<lambda>events. Inr (ga4_rules events)))"

definition run_report_url :: "string \<Rightarrow> string" where
  "run_report_url pid = ''https://analyticsdata.googleapis.com/v1beta/properties/'' @ property_number pid @ '':runReport''"

definition run_report_body :: "nat \<Rightarrow> json" where
  "run_report_body n = JDict [
     (''dateRanges'', JList [JDict [(''startDate'', JStr (str_nat n @ ''daysAgo'')), (''endDate'', JStr ''today'')]]),
     (''dimensions'', JList [JDict [(''name'', JStr ''eventName'')]]),
     (''metrics'', JList [JDict [(''name'', JStr ''eventCount'')], JDict [(''name'', JStr ''totalRevenue'')],
        JDict [(''name'', JStr ''eventValue'')]])]"

definition degraded_ga4 :: ga4_signals where
  "degraded_ga4 = (ga4_score 0)\<lparr>ag_degraded := True\<rparr>"

definition fetch_event_metrics :: "http_client \<Rightarrow> string \<Rightarrow> string \<Rightarrow> nat \<Rightarrow> ga4_signals result" where
  "fetch_event_metrics http token property_id n =
    (case http ''POST'' (run_report_url property_id) token (run_report_body n) of
       None \<Rightarrow> Inr degraded_ga4
     | Some response \<Rightarrow> if \<not> success response then Inr degraded_ga4
         else (case hr_json response of None \<Rightarrow> Inr degraded_ga4 | Some payload \<Rightarrow> parse_run_report payload))"

section \<open>Pages of Search Console\<close>

definition STALE_DAYS_ON_FAILURE :: int where "STALE_DAYS_ON_FAILURE = 30"
definition TOP_URLS :: nat where "TOP_URLS = 10"

definition degraded_gsc :: gsc_signals where
  "degraded_gsc = (gsc_score 0)\<lparr>gs_stale_days := STALE_DAYS_ON_FAILURE, gs_degraded := True\<rparr>"

text \<open>\<open>httpx.URL(url).path\<close>, \<open>None\<close> when the address is invalid.\<close>

type_synonym path_reader = "string \<Rightarrow> string option"

definition relative_path :: "path_reader \<Rightarrow> string \<Rightarrow> string" where
  "relative_path path_of url = (case path_of url of None \<Rightarrow> take 80 url | Some [] \<Rightarrow> ''/'' | Some p \<Rightarrow> p)"

definition as_int :: "json \<Rightarrow> int result" where
  "as_int v = (case v of JNum x \<Rightarrow> round_number x | _ \<Rightarrow> Inr 0)"

type_synonym page_row = "string \<times> int \<times> int"

definition audit_page_row :: "json \<Rightarrow> page_row list \<Rightarrow> page_row list result" where
  "audit_page_row row parsed =
    (case row of
       JDict d \<Rightarrow>
         (let keys = or_empty (jget d ''keys'')
          in if keys = JList [] then Inr parsed
             else try_bind (first_of keys) (\<lambda>key. case key of
                 JStr url \<Rightarrow> try_bind (as_int (jget d ''clicks'')) (\<lambda>hits. try_bind (as_int (jget d ''impressions'')) (\<lambda>views.
                   Inr (parsed @ [(url, hits, views)])))
               | _ \<Rightarrow> Inr parsed))
     | _ \<Rightarrow> Inr parsed)"

fun audit_page_rows :: "json list \<Rightarrow> page_row list \<Rightarrow> page_row list result" where
  "audit_page_rows [] parsed = Inr parsed"
| "audit_page_rows (row # rows) parsed = try_bind (audit_page_row row parsed) (audit_page_rows rows)"

definition search_score :: "int \<Rightarrow> int \<Rightarrow> int" where
  "search_score hits views =
    (let ctr = (if views \<noteq> 0 then of_int hits / of_int views * 100 else 0)
     in max 20 (min 100 (py_round (45 + ctr * 12))))"

definition search_signals :: "path_reader \<Rightarrow> page_row list \<Rightarrow> gsc_signals" where
  "search_signals path_of rows =
    (let parsed = sort_key (\<lambda>(url, hits, views). - hits) rows
     in if parsed = [] then gsc_score 0
        else (gsc_score (search_score (sum_list (map (fst \<circ> snd) parsed)) (sum_list (map (snd \<circ> snd) parsed))))
          \<lparr>gs_valid_pages := int (length parsed),
           gs_sample_urls := map (\<lambda>(url, hits, views). \<lparr>us_path = relative_path path_of url,
             us_status = ''Index'' @ e_acute @ ''e'', us_clicks = hits, us_impressions = views\<rparr>) (take TOP_URLS parsed)\<rparr>)"

definition parse_search_analytics :: "path_reader \<Rightarrow> json \<Rightarrow> gsc_signals result" where
  "parse_search_analytics path_of payload =
     try_bind (report_rows payload) (\<lambda>rows. try_bind (audit_page_rows rows []) (\<lambda>parsed. Inr (search_signals path_of parsed)))"

definition search_query_body :: "date \<Rightarrow> int \<Rightarrow> json" where
  "search_query_body today n = JDict [
     (''startDate'', JStr (iso_date (today - n))), (''endDate'', JStr (iso_date today)),
     (''dimensions'', texts [''page'']), (''rowLimit'', JInt 25)]"

definition fetch_search_analytics :: "http_client \<Rightarrow> path_reader \<Rightarrow> date \<Rightarrow> string \<Rightarrow> string \<Rightarrow> int \<Rightarrow> gsc_signals result" where
  "fetch_search_analytics http path_of today token site_url n =
    (case http ''POST'' (search_url site_url) token (search_query_body today n) of
       None \<Rightarrow> Inr degraded_gsc
     | Some response \<Rightarrow> if \<not> success response then Inr degraded_gsc
         else (case hr_json response of None \<Rightarrow> Inr degraded_gsc | Some payload \<Rightarrow> parse_search_analytics path_of payload))"

end
