(* ===== verification/Page_Speed.thy ===== *)
theory Page_Speed
  imports Audit_Signals
begin

text \<open>
  The report of PageSpeed Insights read for an audit (\<open>app/services/pagespeed.py\<close>): field measures first, those of the
  laboratory otherwise, and the diagnostics behind each. The client is a parameter (\<open>None\<close> for an
  \<open>httpx.HTTPError\<close>), and so are the path and the host \<open>httpx.URL\<close> reads in an address. An address that is no text is taken to
  raise where it is read. The lemmas bound the lists of diagnostics.
\<close>

section \<open>Addresses and names\<close>

text \<open>\<open>httpx.URL(url)\<close>: the path and the host, \<open>None\<close> when the address is invalid.\<close>

type_synonym url_reader = "string \<Rightarrow> (string \<times> string) option"

definition ENTITY_CATEGORY :: "(string \<times> string) list" where
  "ENTITY_CATEGORY = [(''Google Tag Manager'', ''Tag manager''), (''Google Analytics'', ''Analytics''),
     (''Google/Doubleclick Ads'', ''Publicit'' @ e_acute), (''Hotjar'', ''Enregistrement de session''), (''Intercom'', ''Chat support''),
     (''Zendesk'', ''Chat support''), (''Facebook'', ''R'' @ e_acute @ ''seau social''), (''YouTube'', ''Vid'' @ e_acute @ ''o''), (''Stripe'', ''Paiement'')]"

text \<open>\<open>s.rsplit(c, 1)[-1]\<close> and \<open>s.rstrip(c)\<close>.\<close>

definition after_last :: "char \<Rightarrow> string \<Rightarrow> string" where
  "after_last c s = rev (takeWhile (\<lambda>x. x \<noteq> c) (rev s))"

definition rstrip_char :: "char \<Rightarrow> string \<Rightarrow> string" where
  "rstrip_char c s = rev (dropWhile (\<lambda>x. x = c) (rev s))"

definition short_url :: "url_reader \<Rightarrow> string \<Rightarrow> string" where
  "short_url url_of url =
    (case url_of url of
       None \<Rightarrow> take 60 url
     | Some (path, host) \<Rightarrow>
         (let tail = after_last CHR ''/'' (rstrip_char CHR ''/'' path)
          in if tail \<noteq> [] then tail else if host \<noteq> [] then host else take 60 url))"

definition upper_char :: "char \<Rightarrow> char" where
  "upper_char c = (let n = (of_char c :: nat) in if 97 \<le> n \<and> n \<le> 122 then char_of (n - 32) else c)"

definition asset_format :: "string \<Rightarrow> string" where
  "asset_format name =
    (let ext = (if CHR ''.'' \<in> set name then lower (after_last CHR ''.'' name) else []);
         format = (if ext \<in> {''jpg'', ''jpeg''} then ''JPEG'' else map upper_char ext)
     in if format = [] then em_dash else format)"

section \<open>Reading the audits\<close>

text \<open>An audit by its key, its items, and its number; the audits themselves are any value.\<close>

definition audit_of :: "json \<Rightarrow> string \<Rightarrow> json_dict result" where
  "audit_of audits key = try_bind (attr_get audits key JNull) (\<lambda>v. Inr (case v of JDict d \<Rightarrow> d | _ \<Rightarrow> []))"

definition audit_items :: "json \<Rightarrow> string \<Rightarrow> json_dict list result" where
  "audit_items audits key =
     try_bind (audit_of audits key) (\<lambda>a.
     try_bind (attr_get (get_default (JDict []) a ''details'') ''items'' (JList [])) (\<lambda>items.
     try_bind (iterated items) (\<lambda>xs. Inr (List.map_filter (\<lambda>x. case x of JDict d \<Rightarrow> Some d | _ \<Rightarrow> None) xs))))"

definition audit_numeric :: "json \<Rightarrow> string \<Rightarrow> py_number option result" where
  "audit_numeric audits key =
     try_bind (audit_of audits key) (\<lambda>a. case jget a ''numericValue'' of
         JNum x \<Rightarrow> try_bind (py_float (JNum x)) (\<lambda>f. Inr (Some f))
       | _ \<Rightarrow> Inr None)"

definition audit_ms :: "json \<Rightarrow> string \<Rightarrow> int option result" where
  "audit_ms audits key =
     try_bind (audit_numeric audits key) (\<lambda>v. case v of None \<Rightarrow> Inr None
       | Some x \<Rightarrow> try_bind (round_number x) (\<lambda>n. Inr (Some n)))"

definition num_of :: "json \<Rightarrow> py_number result" where
  "num_of v = (case v of JNum x \<Rightarrow> py_float (JNum x) | _ \<Rightarrow> Inr (PyFloat 0))"

text \<open>\<open>round(x / k)\<close> and \<open>round(x, 3)\<close> of a float.\<close>

fun over :: "rat \<Rightarrow> py_number \<Rightarrow> py_number" where
  "over k (PyFloat q) = PyFloat (q / k)"
| "over k (PyInt n) = PyFloat (of_int n / k)"
| "over k (PyBool b) = PyFloat ((if b then 1 else 0) / k)"
| "over k x = x"

fun round_3 :: "py_number \<Rightarrow> py_number" where
  "round_3 (PyFloat q) = PyFloat (of_int (py_round (q * 1000)) / 1000)"
| "round_3 x = x"

definition rounded_num :: "json \<Rightarrow> rat \<Rightarrow> int result" where
  "rounded_num v k = try_bind (num_of v) (\<lambda>x. round_number (over k x))"

fun gather_items :: "('b \<Rightarrow> 'a list \<Rightarrow> 'a list result) \<Rightarrow> 'b list \<Rightarrow> 'a list \<Rightarrow> 'a list result" where
  "gather_items step [] acc = Inr acc"
| "gather_items step (x # xs) acc = try_bind (step x acc) (gather_items step xs)"

section \<open>Diagnostics\<close>

definition audit_item_url :: "url_reader \<Rightarrow> json_dict \<Rightarrow> string list \<Rightarrow> string list result" where
  "audit_item_url url_of item acc =
    (case jget item ''url'' of
       JStr (c # cs) \<Rightarrow> Inr (acc @ [short_url url_of (c # cs)])
     | v \<Rightarrow> if truthy v then Inl TypeError else Inr acc)"

definition audit_item_urls :: "url_reader \<Rightarrow> json \<Rightarrow> string \<Rightarrow> string list result" where
  "audit_item_urls url_of audits key =
     try_bind (audit_items audits key) (\<lambda>items. gather_items (audit_item_url url_of) items [])"

definition entity_name :: "json_dict \<Rightarrow> json" where
  "entity_name item = (case jget item ''entity'' of JDict e \<Rightarrow> jget e ''text'' | v \<Rightarrow> v)"

definition costly_entity_of :: "json_dict \<Rightarrow> costly_entity list \<Rightarrow> costly_entity list result" where
  "costly_entity_of item acc =
    (case entity_name item of
       JStr (c # cs) \<Rightarrow>
         try_bind (rounded_num (jget item ''mainThreadTime'') 1) (\<lambda>main.
         try_bind (rounded_num (jget item ''blockingTime'') 1) (\<lambda>blocking.
           Inr (acc @ [\<lparr>ce_name = c # cs, ce_category = get_default ''Script tiers'' ENTITY_CATEGORY (c # cs),
             ce_main_thread_ms = main, ce_blocking_ms = blocking\<rparr>])))
     | _ \<Rightarrow> Inr acc)"

definition costly_entities :: "json \<Rightarrow> costly_entity list result" where
  "costly_entities audits =
     try_bind (audit_items audits ''third-party-summary'') (\<lambda>items.
     try_bind (gather_items costly_entity_of items []) (\<lambda>entities.
       Inr (take 5 (sort_key (\<lambda>e. - ce_main_thread_ms e) entities))))"

definition heavy_asset_of :: "url_reader \<Rightarrow> json_dict \<Rightarrow> heavy_asset list \<Rightarrow> heavy_asset list result" where
  "heavy_asset_of url_of item acc =
    (case jget item ''url'' of
       JStr (c # cs) \<Rightarrow>
         (let name = short_url url_of (c # cs)
          in if name \<in> ha_name ` set acc then Inr acc
             else try_bind (rounded_num (jget item ''totalBytes'') 1024) (\<lambda>size.
               try_bind (rounded_num (jget item ''wastedBytes'') 1024) (\<lambda>saving.
                 Inr (acc @ [\<lparr>ha_name = name, ha_current_format = asset_format name, ha_size_kb = size, ha_saving_kb = saving\<rparr>]))))
     | _ \<Rightarrow> Inr acc)"

definition heavy_image_assets :: "url_reader \<Rightarrow> json \<Rightarrow> heavy_asset list result" where
  "heavy_image_assets url_of audits =
     try_bind (audit_items audits ''modern-image-formats'') (\<lambda>modern.
     try_bind (gather_items (heavy_asset_of url_of) modern []) (\<lambda>assets.
     try_bind (audit_items audits ''uses-optimized-images'') (\<lambda>images.
     try_bind (gather_items (heavy_asset_of url_of) images assets) (\<lambda>all_assets. Inr (take 5 all_assets)))))"

definition shift_element_of :: "json_dict \<Rightarrow> shift_element list \<Rightarrow> shift_element list result" where
  "shift_element_of item acc =
    (let node = (case jget item ''node'' of JDict d \<Rightarrow> d | _ \<Rightarrow> []);
         selector = (if truthy (jget node ''selector'') then jget node ''selector'' else jget node ''snippet'')
     in case selector of
          JStr (c # cs) \<Rightarrow> try_bind (num_of (jget item ''score'')) (\<lambda>score.
            Inr (acc @ [\<lparr>sh_selector = take 120 (c # cs), sh_impact = round_3 score,
              sh_note = ''D'' @ e_acute @ ''calage de mise en page mesur'' @ e_acute @ '' sur cet '' @ e_acute @ ''l''
    @ e_acute @ ''ment.''\<rparr>]))
        | _ \<Rightarrow> Inr acc)"

definition shift_elements :: "json \<Rightarrow> shift_element list result" where
  "shift_elements audits =
     try_bind (audit_items audits ''layout-shift-elements'') (\<lambda>items.
     try_bind (gather_items shift_element_of items []) (\<lambda>elements. Inr (take 5 elements)))"

text \<open>The first snippet of the nodes of an item, or of the item itself.\<close>

definition node_snippet :: "json \<Rightarrow> string option result" where
  "node_snippet node =
    (case node of
       JDict d \<Rightarrow> try_bind (attr_get (if truthy (jget d ''node'') then jget d ''node'' else JDict []) ''snippet'' JNull) (\<lambda>s.
         Inr (case s of JStr (c # cs) \<Rightarrow> Some (take 120 (c # cs)) | _ \<Rightarrow> None))
     | _ \<Rightarrow> Inr None)"

fun first_snippet :: "json list \<Rightarrow> string option result" where
  "first_snippet [] = Inr None"
| "first_snippet (node # nodes) =
     try_bind (node_snippet node) (\<lambda>s. case s of Some t \<Rightarrow> Inr (Some t) | None \<Rightarrow> first_snippet nodes)"

fun item_snippet :: "json_dict list \<Rightarrow> string option result" where
  "item_snippet [] = Inr None"
| "item_snippet (item # items) =
     try_bind (iterated (if truthy (jget item ''items'') then jget item ''items'' else JList [JDict item])) (\<lambda>nodes.
     try_bind (first_snippet nodes) (\<lambda>s. case s of Some t \<Rightarrow> Inr (Some t) | None \<Rightarrow> item_snippet items))"

definition lcp_element_of :: "json \<Rightarrow> string option result" where
  "lcp_element_of audits = try_bind (audit_items audits ''largest-contentful-paint-element'') item_snippet"

section \<open>Field measures\<close>

fun field_percentile :: "json \<Rightarrow> string list \<Rightarrow> int option result" where
  "field_percentile metrics [] = Inr None"
| "field_percentile metrics (key # keys) =
     try_bind (attr_get metrics key JNull) (\<lambda>entry. case entry of
         JDict d \<Rightarrow> (case jget d ''percentile'' of
             JNum x \<Rightarrow> try_bind (round_number x) (\<lambda>n. Inr (Some n))
           | _ \<Rightarrow> field_percentile metrics keys)
       | _ \<Rightarrow> field_percentile metrics keys)"

text \<open>\<open>a or b\<close> of two optional integers: zero counts as nothing.\<close>

definition int_or :: "int option \<Rightarrow> 'e + int option \<Rightarrow> 'e + int option" where
  "int_or a b = (case a of Some n \<Rightarrow> if n \<noteq> 0 then Inr (Some n) else b | None \<Rightarrow> b)"

definition field_measure :: "json \<Rightarrow> json \<Rightarrow> string list \<Rightarrow> int option result" where
  "field_measure field origin keys =
     try_bind (field_percentile field keys) (\<lambda>a. int_or a (field_percentile origin keys))"

definition int_of :: "int option \<Rightarrow> int" where
  "int_of x = (case x of None \<Rightarrow> 0 | Some n \<Rightarrow> n)"

text \<open>\<open>lighthouse.get("categories", {}).get("performance", {}).get("score")\<close>, times a hundred.\<close>

fun times_hundred :: "py_number \<Rightarrow> py_number" where
  "times_hundred (PyBool b) = PyInt (if b then 100 else 0)"
| "times_hundred (PyInt n) = PyInt (n * 100)"
| "times_hundred (PyFloat q) = PyFloat (q * 100)"
| "times_hundred x = x"

definition performance_score :: "json \<Rightarrow> int result" where
  "performance_score lighthouse =
     try_bind (attr_get lighthouse ''categories'' (JDict [])) (\<lambda>categories.
     try_bind (attr_get categories ''performance'' (JDict [])) (\<lambda>performance.
     try_bind (attr_get performance ''score'' JNull) (\<lambda>raw. case raw of
         JNum x \<Rightarrow> round_number (times_hundred x)
       | _ \<Rightarrow> Inr 0)))"

definition field_of :: "json \<Rightarrow> string \<Rightarrow> json result" where
  "field_of payload key =
     try_bind (attr_get payload key (JDict [])) (\<lambda>experience. attr_get experience ''metrics'' (JDict []))"

definition lab_inp :: "json \<Rightarrow> int option result" where
  "lab_inp audits = try_bind (audit_ms audits ''interaction-to-next-paint'') (\<lambda>a. int_or a (audit_ms audits ''total-blocking-time''))"

definition cls_value :: "json \<Rightarrow> int option \<Rightarrow> py_number option result" where
  "cls_value audits percentile =
    (case percentile of Some n \<Rightarrow> try_bind (py_float (JInt n)) (\<lambda>x. Inr (Some (over 100 x))) | None \<Rightarrow> audit_numeric audits ''cumulative-layout-shift'')"

definition zero_or :: "py_number option \<Rightarrow> py_number" where
  "zero_or x = (case x of Some v \<Rightarrow> if number_true v then v else PyFloat 0 | None \<Rightarrow> PyFloat 0)"

text \<open>The measures of \<open>parse_pagespeed\<close>: LCP, INP, CLS, and whether the field has one of the first two.\<close>

definition vitals_of :: "json \<Rightarrow> json \<Rightarrow> json \<Rightarrow> (int \<times> int \<times> py_number \<times> bool) result" where
  "vitals_of field origin audits =
     try_bind (field_measure field origin [''LARGEST_CONTENTFUL_PAINT_MS'']) (\<lambda>lcp.
     try_bind (field_measure field origin [''INTERACTION_TO_NEXT_PAINT'', ''EXPERIMENTAL_INTERACTION_TO_NEXT_PAINT'']) (\<lambda>inp.
     try_bind (field_measure field origin [''CUMULATIVE_LAYOUT_SHIFT_SCORE'']) (\<lambda>cls_pct.
     try_bind (if lcp = None then audit_ms audits ''largest-contentful-paint'' else Inr lcp) (\<lambda>lcp'.
     try_bind (if inp = None then lab_inp audits else Inr inp) (\<lambda>inp'.
     try_bind (cls_value audits cls_pct) (\<lambda>cls.
       Inr (int_of lcp', int_of inp', round_3 (zero_or cls), lcp \<noteq> None \<or> inp \<noteq> None)))))))"

definition parse_pagespeed :: "url_reader \<Rightarrow> json \<Rightarrow> cwv_signals result" where
  "parse_pagespeed url_of payload =
     try_bind (attr_get payload ''lighthouseResult'' (JDict [])) (\<lambda>lighthouse.
     try_bind (attr_get lighthouse ''audits'' (JDict [])) (\<lambda>audits.
     try_bind (performance_score lighthouse) (\<lambda>score.
     try_bind (field_of payload ''loadingExperience'') (\<lambda>field.
     try_bind (field_of payload ''originLoadingExperience'') (\<lambda>origin.
     try_bind (vitals_of field origin audits) (\<lambda>(lcp, inp, cls, has_field).
     try_bind (costly_entities audits) (\<lambda>entities.
     try_bind (heavy_image_assets url_of audits) (\<lambda>assets.
     try_bind (audit_item_urls url_of audits ''unminified-javascript'') (\<lambda>unminified.
     try_bind (audit_item_urls url_of audits ''unused-javascript'') (\<lambda>unused.
     try_bind (audit_item_urls url_of audits ''render-blocking-resources'') (\<lambda>blocking.
     try_bind (shift_elements audits) (\<lambda>shifts.
     try_bind (audit_ms audits ''bootup-time'') (\<lambda>bootup.
     try_bind (audit_ms audits ''total-blocking-time'') (\<lambda>tbt.
     try_bind (lcp_element_of audits) (\<lambda>element.
       Inr \<lparr>cw_score = score, cw_lcp_ms = lcp, cw_inp_ms = inp, cw_cls = cls,
         cw_heavy_assets = take 5 (from_keys (map ha_name assets @ unminified @ unused)),
         cw_blocking_scripts = take 5 (from_keys blocking), cw_third_party_scripts = map ce_name entities,
         cw_js_execution_ms = int_of bootup, cw_total_blocking_time_ms = int_of tbt, cw_lcp_element = element,
         cw_field_data = has_field, cw_costly_entities = entities, cw_lcp_assets = assets, cw_shift_elements = shifts\<rparr>)))))))))))))))"

type_synonym speed_client = "(string \<times> string) list \<Rightarrow> http_response option"

definition fetch_pagespeed :: "speed_client \<Rightarrow> url_reader \<Rightarrow> string option \<Rightarrow> string \<Rightarrow> cwv_signals result" where
  "fetch_pagespeed http url_of api_key domain =
    (let params = [(''url'', ''https://'' @ domain), (''strategy'', ''mobile''), (''category'', ''performance'')] @
           (case api_key of Some (c # cs) \<Rightarrow> [(''key'', c # cs)] | _ \<Rightarrow> [])
     in case http params of
          None \<Rightarrow> Inr (cwv_score 0)
        | Some response \<Rightarrow> if \<not> success response then Inr (cwv_score 0)
            else (case hr_json response of None \<Rightarrow> Inr (cwv_score 0) | Some payload \<Rightarrow> parse_pagespeed url_of payload))"

text \<open>
  A site whose visitors see no layout shift at all has a field percentile of zero, which counts as nothing: the
  measure of the laboratory is shown in its place.
\<close>

lemma zero_field_cls_ignored:
  "map_sum id cw_cls (parse_pagespeed url_of (JDict [
      (''loadingExperience'', JDict [(''metrics'', JDict [(''CUMULATIVE_LAYOUT_SHIFT_SCORE'', JDict [(''percentile'', JInt 0)])])]),
      (''lighthouseResult'', JDict [(''audits'', JDict [(''cumulative-layout-shift'', JDict [(''numericValue'', JNum (PyFloat (3 / 10)))])])])])) =
    Inr (PyFloat (3 / 10))"
  by code_simp

end
