(* ===== verification/Audit_Probe.thy ===== *)
theory Audit_Probe
  imports Page_Speed
begin

text \<open>
  Where the signals of an audit come from (\<open>app/services/audit_probe.py\<close>): the fixtures of the demonstration sites, or
  the real probe, which reads PageSpeed and, for the links of the site, Analytics and Search Console. The services
  and the refresh of a token are parameters. The lemmas: each connection is refreshed once and only ever goes from active to
  needing reauthorisation, and a network failure while refreshing escapes the probe.
\<close>

section \<open>Demonstration sites\<close>

definition sample :: "string \<Rightarrow> string \<Rightarrow> int \<Rightarrow> int \<Rightarrow> url_sample" where
  "sample path status n_clicks n_seen = \<lparr>us_path = path, us_status = status, us_clicks = n_clicks, us_impressions = n_seen\<rparr>"

definition entity :: "string \<Rightarrow> string \<Rightarrow> int \<Rightarrow> int \<Rightarrow> costly_entity" where
  "entity name category main blocking = \<lparr>ce_name = name, ce_category = category, ce_main_thread_ms = main, ce_blocking_ms = blocking\<rparr>"

definition asset :: "string \<Rightarrow> string \<Rightarrow> int \<Rightarrow> int \<Rightarrow> heavy_asset" where
  "asset name form kb saving = \<lparr>ha_name = name, ha_current_format = form, ha_size_kb = kb, ha_saving_kb = saving\<rparr>"

definition shift :: "string \<Rightarrow> py_number \<Rightarrow> string \<Rightarrow> shift_element" where
  "shift selector impact note = \<lparr>sh_selector = selector, sh_impact = impact, sh_note = note\<rparr>"

definition fixture_boutique_verte :: probe_data where
  "fixture_boutique_verte = \<lparr>
   pd_ga4 = (ga4_score 92)\<lparr>ag_purchase_missing_params := [''value'', ''currency'']\<rparr>,
   pd_gsc = (gsc_score 78)\<lparr>gs_valid_pages := 214, gs_excluded_pages := 37, gs_noindex_pages := 12, gs_noindex_on_products := True, 
     gs_sample_urls := [
       sample ''/collections/vetements-homme'' (''Index'' @ e_acute @ ''e'') 320 8400,
       sample ''/collections/accessoires'' (''Index'' @ e_acute @ ''e'') 45 6200,
       sample ''/produits/edition-limitee'' (''Index'' @ e_acute @ ''e'') 5 5200,
       sample ''/blog/guide-coton-bio'' (''Index'' @ e_acute @ ''e'') 210 3100,
       sample ''/produits/pull-marin'' (''Index'' @ e_acute @ ''e'') 88 1900,
       sample ''/blog/entretien-laine'' (''Index'' @ e_acute @ ''e'') 12 240,
       sample ''/collections/soldes-ete'' (''D'' @ e_acute @ ''couverte non index'' @ e_acute @ ''e'') 0 30,
       sample ''/produits/vieux-modele-2024'' ''Redirection 301'' 0 0,
       sample ''/panier'' ''Exclue noindex'' 0 0]\<rparr>,
   pd_cwv = (cwv_score 61)\<lparr>cw_lcp_ms := 3400, cw_inp_ms := 184, cw_cls := PyFloat (2 / 25), cw_field_data := True, 
     cw_heavy_assets := [''hero-banner.jpg'', ''collection-2026-large.png''], 
     cw_blocking_scripts := [''theme.css'', ''fonts.googleapis.com''], 
     cw_third_party_scripts := [''Google Tag Manager'', ''Hotjar''], cw_js_execution_ms := 2100, cw_total_blocking_time_ms := 640, 
     cw_lcp_element := Some ((''<img class='' @ dquote @ ''hero-image'' @ dquote @ '' src='' @ dquote @ ''/img/hero-banner.jpg''       @ dquote @ ''>'')), 
     cw_costly_entities := [
       entity ''Google Tag Manager'' ''Tag manager'' 480 210,
       entity ''Hotjar'' ''Enregistrement de session'' 260 140], 
     cw_lcp_assets := [
       asset ''hero-banner.jpg'' ''JPEG'' 1801 1367,
       asset ''collection-2026-large.png'' ''PNG'' 898 586], 
     cw_shift_elements := [
       shift ''section.hero > img.hero-image'' (PyFloat (1 / 20))
         (''Visuel d'' @ apos @ ''accueil sans width/height : l'' @ apos       @ ''espace se reserve apres chargement.''),
       shift ''div.promo-bar'' (PyFloat (3 / 100))
         (''Bandeau promo injecte apres l'' @ apos @ ''hydratation, pousse le contenu.'')]\<rparr>\<rparr>"

definition fixture_atelier_nord :: probe_data where
  "fixture_atelier_nord = \<lparr>
   pd_ga4 = (ga4_score 64)\<lparr>ag_missing_events := [''generate_lead'']\<rparr>,
   pd_gsc = (gsc_score 0)\<lparr>gs_stale_days := 6, 
     gs_sample_urls := [
       sample ''/realisations/cuisine-chene'' (''Index'' @ e_acute @ ''e'') 64 1500,
       sample ''/realisations/bibliotheque-sur-mesure'' (''Index'' @ e_acute @ ''e'') 40 980,
       sample ''/blog/choisir-son-bois'' (''Index'' @ e_acute @ ''e'') 18 620,
       sample ''/services/pose'' (''D'' @ e_acute @ ''couverte non index'' @ e_acute @ ''e'') 0 45,
       sample ''/realisations/ancienne-galerie'' ''Redirection 301'' 0 0,
       sample ''/devis'' ''Exclue noindex'' 0 0]\<rparr>,
   pd_cwv = (cwv_score 73)\<lparr>cw_lcp_ms := 2100, cw_inp_ms := 212, cw_cls := PyFloat (9 / 50), cw_field_data := True, 
     cw_heavy_assets := [''banner-workshop.jpg''], 
     cw_blocking_scripts := [''app.css''], 
     cw_third_party_scripts := [''Filtres produit (bundle interne)'', ''Google Tag Manager''], cw_js_execution_ms := 1450, cw_total_blocking_time_ms := 410, 
     cw_lcp_element := Some ((''<h1 class='' @ dquote @ ''page-title'' @ dquote @ ''>Atelier Nord</h1>'')), 
     cw_costly_entities := [
       entity ''Filtres produit (bundle interne)'' ''Script applicatif'' 320 180,
       entity ''Google Tag Manager'' ''Tag manager'' 190 90], 
     cw_lcp_assets := [
       asset ''banner-workshop.jpg'' ''JPEG'' 540 360], 
     cw_shift_elements := [
       shift ''div.consent-banner'' (PyFloat (3 / 25))
         (''Banniere de consentement sans reserve d'' @ apos @ ''espace, inseree en haut de page.''),
       shift ''img.product-thumb'' (PyFloat (1 / 25))
         ''Vignettes produit sans dimensions explicites.'']\<rparr>\<rparr>"

definition fixture_studio_lumen :: probe_data where
  "fixture_studio_lumen = \<lparr>
   pd_ga4 = ga4_score 88,
   pd_gsc = (gsc_score 95)\<lparr>gs_valid_pages := 142, gs_excluded_pages := 7, 
     gs_sample_urls := [
       sample ''/blog/design-system-2026'' (''Index'' @ e_acute @ ''e'') 340 4200,
       sample ''/fonctionnalites'' (''Index'' @ e_acute @ ''e'') 260 5400,
       sample ''/tarifs'' (''Index'' @ e_acute @ ''e'') 95 7800,
       sample ''/docs/demarrage'' (''Index'' @ e_acute @ ''e'') 70 1100,
       sample ''/demo'' (''D'' @ e_acute @ ''couverte non index'' @ e_acute @ ''e'') 0 60,
       sample ''/old-pricing'' ''Redirection 301'' 0 0,
       sample ''/legal/cgu'' ''Exclue noindex'' 0 0]\<rparr>,
   pd_cwv = (cwv_score 79)\<lparr>cw_lcp_ms := 1900, cw_inp_ms := 260, cw_cls := PyFloat (1 / 25), cw_field_data := True, 
     cw_third_party_scripts := [''Table de prix (hydratation React)'', ''Intercom''], cw_js_execution_ms := 1980, cw_total_blocking_time_ms := 520, 
     cw_lcp_element := Some ((''<img class='' @ dquote @ ''case-study-cover'' @ dquote @ '' src='' @ dquote       @ ''/media/lumen-cover.avif'' @ dquote @ ''>'')), 
     cw_costly_entities := [
       entity ''Table de prix (hydratation React)'' ''Script applicatif'' 610 280,
       entity ''Intercom'' ''Chat support'' 240 110], 
     cw_shift_elements := [
       shift ''table.pricing-grid'' (PyFloat (3 / 100))
         (''La table de prix se redimensionne a l'' @ apos @ ''hydratation sur /tarifs.'')]\<rparr>\<rparr>"

definition fixture_cap_horizon :: probe_data where
  "fixture_cap_horizon = \<lparr>
   pd_ga4 = (ga4_score 71)\<lparr>ag_login_missing_user_id := True\<rparr>,
   pd_gsc = (gsc_score 84)\<lparr>gs_valid_pages := 168, gs_excluded_pages := 32, 
     gs_sample_urls := [
       sample ''/destinations/islande'' (''Index'' @ e_acute @ ''e'') 180 4900,
       sample ''/blog/preparer-trek-hiver'' (''Index'' @ e_acute @ ''e'') 140 2600,
       sample ''/destinations/patagonie'' (''Index'' @ e_acute @ ''e'') 30 5100,
       sample ''/a-propos'' (''Index'' @ e_acute @ ''e'') 8 190,
       sample ''/offres/derniere-minute'' (''D'' @ e_acute @ ''couverte non index'' @ e_acute @ ''e'') 0 80,
       sample ''/destinations/norvege-2024'' ''Redirection 301'' 0 0,
       sample ''/reserver'' ''Exclue noindex'' 0 0]\<rparr>,
   pd_cwv = (cwv_score 58)\<lparr>cw_lcp_ms := 4100, cw_inp_ms := 240, cw_cls := PyFloat (3 / 50), cw_field_data := True, 
     cw_heavy_assets := [''app-main.js'', ''slide-01.jpg''], 
     cw_blocking_scripts := [''app-main.js''], 
     cw_third_party_scripts := [''Bundle applicatif (montage des vues)'', ''Google Tag Manager''], cw_js_execution_ms := 2450, cw_total_blocking_time_ms := 700, 
     cw_lcp_element := Some ((''<div class='' @ dquote @ ''hero-carousel'' @ dquote @ '' data-slide='' @ dquote @ ''1'' @ dquote       @ ''></div>'')), 
     cw_costly_entities := [
       entity ''Bundle applicatif (montage des vues)'' ''Script applicatif'' 890 360,
       entity ''Google Tag Manager'' ''Tag manager'' 210 95], 
     cw_lcp_assets := [
       asset ''app-main.js'' ''JS'' 1904 0,
       asset ''slide-01.jpg'' ''JPEG'' 720 470], 
     cw_shift_elements := [
       shift ''div.hero-carousel'' (PyFloat (1 / 25))
         (''Le carrousel n'' @ apos @ ''a pas de hauteur reservee avant initialisation JS.'')]\<rparr>\<rparr>"

definition FIXTURES :: "(string list \<times> probe_data) list" where
  "FIXTURES = [([''boutique-verte.fr''], fixture_boutique_verte), ([''atelier-nord.com''], fixture_atelier_nord), ([''studiolumen.io''], fixture_studio_lumen), ([''cap-horizon.co''], fixture_cap_horizon)]"

definition NEUTRAL :: probe_data where
  "NEUTRAL = \<lparr>
   pd_ga4 = ga4_score 55,
   pd_gsc = (gsc_score 60)\<lparr>gs_valid_pages := 40, gs_excluded_pages := 6, 
     gs_sample_urls := [
       sample ''/'' (''Index'' @ e_acute @ ''e'') 120 3200,
       sample ''/services'' (''Index'' @ e_acute @ ''e'') 24 900,
       sample ''/blog/premier-article'' (''Index'' @ e_acute @ ''e'') 6 210,
       sample ''/mentions-legales'' ''Exclue noindex'' 0 0]\<rparr>,
   pd_cwv = (cwv_score 70)\<lparr>cw_lcp_ms := 2300, cw_inp_ms := 180, cw_cls := PyFloat (1 / 20)\<rparr>\<rparr>"

definition mock_collect :: "website \<Rightarrow> probe_data" where
  "mock_collect site =
    (let key = removeprefix ''www.'' (lower (ws_domain site))
     in case List.find (\<lambda>(domains, data). key \<in> set domains) FIXTURES of Some (domains, data) \<Rightarrow> data | None \<Rightarrow> NEUTRAL)"

section \<open>The real probe\<close>

text \<open>
  What the refresh of a connection's token gives: \<open>InvalidGrantError\<close>, another error of OAuth or of the cipher, or an
  \<open>httpx.HTTPError\<close>, which the OAuth client lets through.
\<close>

datatype audit_refresh = Refreshed string | Grant_revoked | Oauth_failure | Network_failure

datatype audit_error = Http_failure | Runtime py_error

type_synonym 'a audited = "audit_error + 'a"

definition runtime :: "'a result \<Rightarrow> 'a audited" where
  "runtime r = (case r of Inl e \<Rightarrow> Inl (Runtime e) | Inr x \<Rightarrow> Inr x)"

record probe_services =
  ps_speed :: speed_client
  ps_url :: url_reader
  ps_api_key :: "string option"
  ps_http :: http_client
  ps_refresh :: "(google_connection \<Rightarrow> audit_refresh) option"

definition audit_token :: "(google_connection \<Rightarrow> audit_refresh) \<Rightarrow> google_connection \<Rightarrow> token_cache \<times> google_connection list \<Rightarrow>
    (string option \<times> token_cache \<times> google_connection list) audited" where
  "audit_token refresh connection = (\<lambda>(cache, conns).
    (case map_of cache (gn_id connection) of
       Some token \<Rightarrow> Inr (token, cache, conns)
     | None \<Rightarrow>
         if gn_status connection = Conn_active
         then (case refresh connection of
             Refreshed t \<Rightarrow> Inr (Some t, (gn_id connection, Some t) # cache, conns)
           | Grant_revoked \<Rightarrow> Inr (None, (gn_id connection, None) # cache, mark_reauth (gn_id connection) conns)
           | Oauth_failure \<Rightarrow> Inr (None, (gn_id connection, None) # cache, conns)
           | Network_failure \<Rightarrow> Inl Http_failure)
         else Inr (None, (gn_id connection, None) # cache, conns)))"

definition PROBE_DAYS :: nat where "PROBE_DAYS = 30"

definition read_signals :: "probe_services \<Rightarrow> date \<Rightarrow> google_link \<Rightarrow> string option \<Rightarrow> ga4_signals \<times> gsc_signals \<Rightarrow>
    (ga4_signals \<times> gsc_signals) audited" where
  "read_signals sv today link token = (\<lambda>(ga4, gsc).
    (case token of
       None \<Rightarrow> Inr (if gl_resource_type link = Gsc_site then (ga4, degraded_gsc) else (degraded_ga4, gsc))
     | Some t \<Rightarrow>
         if gl_resource_type link = Ga4_property
         then try_bind (runtime (fetch_event_metrics (ps_http sv) t (gl_resource_id link) PROBE_DAYS)) (\<lambda>g. Inr (g, gsc))
         else try_bind (runtime (fetch_search_analytics (ps_http sv) (map_option fst \<circ> ps_url sv) today t (gl_resource_id link)
             (int PROBE_DAYS))) (\<lambda>g. Inr (ga4, g))))"

fun signals_of_links :: "probe_services \<Rightarrow> date \<Rightarrow> (google_connection \<Rightarrow> audit_refresh) \<Rightarrow> (google_link \<times> google_connection) list \<Rightarrow>
    (ga4_signals \<times> gsc_signals) \<times> token_cache \<times> google_connection list \<Rightarrow>
    ((ga4_signals \<times> gsc_signals) \<times> token_cache \<times> google_connection list) audited" where
  "signals_of_links sv today refresh [] st = Inr st"
| "signals_of_links sv today refresh ((link, connection) # rows) (signals, st) =
     try_bind (audit_token refresh connection st) (\<lambda>(token, st').
     try_bind (read_signals sv today link token signals) (\<lambda>signals'.
       signals_of_links sv today refresh rows (signals', st')))"

definition google_signals :: "probe_services \<Rightarrow> date \<Rightarrow> (google_connection \<Rightarrow> audit_refresh) \<Rightarrow> uuid \<Rightarrow> google_link list \<Rightarrow>
    google_connection list \<Rightarrow> ((ga4_signals \<times> gsc_signals) \<times> google_connection list) audited" where
  "google_signals sv today refresh site links conns =
     try_bind (signals_of_links sv today refresh (linked site links conns) ((ga4_score 0, gsc_score 0), [], conns))
       (\<lambda>(signals, cache, conns'). Inr (signals, conns'))"

definition real_collect :: "probe_services \<Rightarrow> date \<Rightarrow> website \<Rightarrow> google_link list \<Rightarrow> google_connection list \<Rightarrow>
    (probe_data \<times> google_connection list) audited" where
  "real_collect sv today site links conns =
     try_bind (runtime (fetch_pagespeed (ps_speed sv) (ps_url sv) (ps_api_key sv) (ws_domain site))) (\<lambda>cwv.
     try_bind (case ps_refresh sv of None \<Rightarrow> Inr ((ga4_score 0, gsc_score 0), conns)
         | Some refresh \<Rightarrow> google_signals sv today refresh (ws_id site) links conns) (\<lambda>((ga4, gsc), conns').
       Inr (\<lparr>pd_ga4 = ga4, pd_gsc = gsc, pd_cwv = cwv\<rparr>, conns')))"

section \<open>What a probe does to the connections\<close>

definition only_revoked :: "google_connection list \<Rightarrow> google_connection list \<Rightarrow> bool" where
  "only_revoked conns conns' = list_all2 (\<lambda>c c'. c' = c \<or> c' = c\<lparr>gn_status := Conn_needs_reauth\<rparr>) conns conns'"

lemma only_revoked_refl: "only_revoked conns conns"
  by (simp add: only_revoked_def list_all2_same)

lemma only_revoked_trans:
  assumes "only_revoked a b" "only_revoked b c"
  shows "only_revoked a c"
  unfolding only_revoked_def
  by (rule list_all2_trans [OF _ assms [unfolded only_revoked_def]]) auto

lemma only_revoked_mark: "only_revoked conns (mark_reauth i conns)"
  by (simp add: only_revoked_def mark_reauth_def update_rows_def list_all2_map2 list_all2_same)

lemma audit_token_revoked:
  assumes "audit_token refresh c (cache, conns) = Inr (token, cache', conns')"
  shows "only_revoked conns conns'"
  using assms only_revoked_mark only_revoked_refl
  by (auto simp: audit_token_def split: option.splits if_splits audit_refresh.splits)

lemma signals_revoked:
  "signals_of_links sv today refresh rows (signals, cache, conns) = Inr (signals', cache', conns') \<Longrightarrow> only_revoked conns conns'"
proof (induction rows arbitrary: signals cache conns)
  case (Cons row rows)
  obtain link c where row: "row = (link, c)" by force
  from Cons.prems obtain token cache1 conns1 signals1 where "audit_token refresh c (cache, conns) = Inr (token, cache1, conns1)"
      "signals_of_links sv today refresh rows (signals1, cache1, conns1) = Inr (signals', cache', conns')"
    by (auto simp: row try_bind_eq_Inr)
  then show ?case using audit_token_revoked Cons.IH only_revoked_trans by blast
qed (simp add: only_revoked_refl)

lemma real_collect_revoked: "real_collect sv today site links conns = Inr (data, conns') \<Longrightarrow> only_revoked conns conns'"
  by (auto simp: real_collect_def google_signals_def try_bind_eq_Inr only_revoked_refl dest!: signals_revoked split: option.splits)

text \<open>
  The probe means to degrade on every failure of Google. A network failure while a token is refreshed is
  neither an error of OAuth nor of the cipher: it escapes, and no audit is made.
\<close>

definition one_link :: google_link where
  "one_link = \<lparr>gl_website_id = 1, gl_connection_id = 2, gl_resource_type = Ga4_property, gl_resource_id = ''properties/1'', gl_display_name = None\<rparr>"

definition one_connection :: google_connection where
  "one_connection = \<lparr>gn_id = 2, gn_workspace_id = 3, gn_email = ''a@b.fr'', gn_sub = ''1'', gn_scopes = [], gn_token = [],
    gn_key_version = 1, gn_status = Conn_active, gn_last_refreshed_at = None\<rparr>"

lemma network_failure_escapes:
  "google_signals sv today (\<lambda>_. Network_failure) 1 [one_link] [one_connection] = Inl Http_failure"
  by (simp add: google_signals_def linked_def reading_link_def connection_of_def find_row_def one_link_def one_connection_def audit_token_def)

end
