(* ===== verification/Stack_Detector.thy ===== *)
theory Stack_Detector
  imports French_Text Regex Py_Dict Job_Store
begin

text \<open>
  Guessing the technology of a site from its home page (\<open>app/services/stack_detector.py\<close>): response headers
  first, then markers of the page by priority, the generator tag, signs of PHP, and hypotheses when nothing is
  recognised. The answer of the site is a parameter: \<open>httpx.Response\<close> with its headers in lower case, or the chain
  of an \<open>httpx.HTTPError\<close> and its causes. Texts are ASCII; a confidence is an exact rational. The lemmas bound what a
  detection claims and say when hypotheses are offered.
\<close>

section \<open>Detections\<close>

record stack_guess =
  sg_label :: string
  sg_reason :: string

record stack_detection =
  sd_stack :: stack_kind
  sd_signals :: "string list"
  sd_confidence :: rat
  sd_candidates :: "stack_guess list"
  sd_error :: "string option"

definition detection :: "stack_kind \<Rightarrow> string list \<Rightarrow> rat \<Rightarrow> stack_detection" where
  "detection stack signals confidence = \<lparr>sd_stack = stack, sd_signals = signals, sd_confidence = confidence,
     sd_candidates = [], sd_error = None\<rparr>"

section \<open>Markers\<close>

definition HTML_MARKERS :: "(stack_kind \<times> (string \<times> string) list) list" where
  "HTML_MARKERS = [
    (Woocommerce, [(''woocommerce-class'', ''woocommerce-page''), (''wc-ajax'', ''wc-ajax=''),
       (''wc-plugin'', ''/wp-content/plugins/woocommerce/''), (''wc-blocks'', ''wc-blocks'')]),
    (Wordpress, [(''wp-content'', ''/wp-content/''), (''wp-includes'', ''/wp-includes/''), (''wp-json'', ''/wp-json/''),
       (''wp-emoji'', ''wp-emoji-release'')]),
    (Nextjs, [(''next-data'', ''id='' @ dquote @ ''__next_data__'' @ dquote), (''next-static'', ''/_next/static/''), (''next-image'', ''/_next/image?'')]),
    (Nuxt, [(''nuxt-state'', ''window.__nuxt__''), (''nuxt-id'', ''id='' @ dquote @ ''__nuxt__'' @ dquote), (''nuxt-assets'', ''/_nuxt/'')]),
    (Angular, [(''ng-version'', ''ng-version=''), (''app-root'', ''<app-root''), (''ng-hydration'', ''ngh='')]),
    (Vue, [(''vue-ssr'', ''data-server-rendered''), (''vue-scoped'', ''data-v-''), (''vue-global'', ''window.vue'')]),
    (Vite, [(''vite-client'', ''/@vite/client''), (''vite-assets'', ''type='' @ dquote @ ''module'' @ dquote @ '' src='' @ dquote @ ''/assets/index-''),
       (''vite-react-refresh'', ''/@react-refresh'')]),
    (React, [(''react-root-static'', ''id='' @ dquote @ ''root'' @ dquote), (''react-dom-marker'', ''data-reactroot''),
       (''react-devtools'', ''__react_devtools_global_hook__'')])]"

definition HEADER_MARKERS :: "(stack_kind \<times> (string \<times> string \<times> string) list) list" where
  "HEADER_MARKERS = [
    (Wordpress, [(''hdr-x-powered-wp'', ''x-powered-by'', ''wordpress'')]),
    (Wordpress, [(''hdr-link-wp-json'', ''link'', ''wp-json'')]),
    (Nextjs, [(''hdr-x-powered-next'', ''x-powered-by'', ''next.js'')]),
    (Nextjs, [(''hdr-x-nextjs'', ''x-nextjs-cache'', [])])]"

definition GENERATOR_MAP :: "(string \<times> stack_kind) list" where
  "GENERATOR_MAP = [(''woocommerce'', Woocommerce), (''wordpress'', Wordpress), (''wix'', Generic), (''shopify'', Generic),
     (''drupal'', Php), (''joomla'', Php), (''hugo'', Generic), (''gatsby'', Generic)]"

definition RESOLUTION_ORDER :: "stack_kind list" where
  "RESOLUTION_ORDER = [Woocommerce, Wordpress, Nextjs, Nuxt, Angular, Vue, Vite, React]"

definition NEEDS_BUNDLE :: "stack_kind list" where "NEEDS_BUNDLE = [React]"

definition BUNDLE_HINTS :: "string list" where
  "BUNDLE_HINTS = [''/static/js/'', ''/assets/'', ''react-dom'', ''/@vite/'', ''type='' @ dquote @ ''module'' @ dquote]"

definition SPA_SCRIPT_HINT :: nat where "SPA_SCRIPT_HINT = 2"

section \<open>Patterns\<close>

text \<open>\<open>_GENERATOR_RE\<close>, before its group, the group, and after it.\<close>

definition tag_text :: re where "tag_text = plus (Class (\<lambda>c. c \<noteq> CHR ''>''))"

definition GENERATOR_PRE :: re where
  "GENERATOR_PRE = sequence [lit_ci ''<meta'', tag_text, lit_ci ''name='', quote_mark, lit_ci ''generator'', quote_mark, tag_text,
     lit_ci ''content='', quote_mark]"

definition GENERATOR_NAME :: re where "GENERATOR_NAME = plus (Class (\<lambda>c. \<not> quote_char c))"

definition generator_of :: "string \<Rightarrow> string option" where
  "generator_of html = search_group GENERATOR_PRE GENERATOR_NAME quote_mark html"

definition link_attribute :: re where
  "link_attribute = sequence [Alt (lit ''href'') (Alt (lit ''src'') (lit ''action'')), lit ''='', quote_mark,
     Star (Class (\<lambda>c. \<not> quote_char c))]"

text \<open>Any character before the start of a search; a match that ends the text, or that only a line feed follows.\<close>

definition anywhere :: "char option \<Rightarrow> bool" where "anywhere prev = True"

fun search_to_end :: "re \<Rightarrow> string \<Rightarrow> bool" where
  "search_to_end r s = (list_ex (\<lambda>t. t = [] \<or> t = newline) (ends r s) \<or> (case s of [] \<Rightarrow> False | c # cs \<Rightarrow> search_to_end r cs))"

declare search_to_end.simps [simp del]

definition php_link :: "string \<Rightarrow> bool" where
  "php_link body =
    (let r = Cat link_attribute (lit ''.php'')
     in search anywhere (Cat r (Class (\<lambda>c. quote_char c \<or> c \<in> set ''?#/''))) body \<or> search_to_end r body)"

fun occurrences :: "string \<Rightarrow> string \<Rightarrow> nat" where
  "occurrences p [] = 0"
| "occurrences p (c # cs) =
     (if p \<noteq> [] \<and> starts_with p (c # cs) then Suc (occurrences p (drop (length p) (c # cs))) else occurrences p cs)"

section \<open>Reading a page\<close>

definition cookie_names :: "string list \<Rightarrow> string list" where
  "cookie_names cookies = filter (\<lambda>n. n \<noteq> []) (map (\<lambda>raw. lower (strip (takeWhile (\<lambda>c. c \<noteq> CHR ''='') raw))) cookies)"

definition php_signal :: "(string \<times> string) list \<Rightarrow> string list \<Rightarrow> string \<Rightarrow> string option" where
  "php_signal headers names body =
    (if contains ''php'' (get_default [] headers ''x-powered-by'') then Some ''hdr-x-powered-php''
     else if ''phpsessid'' \<in> set names then Some ''cookie-phpsessid''
     else if ''laravel_session'' \<in> set names \<or> ''xsrf-token'' \<in> set names then Some ''cookie-laravel''
     else if php_link body then Some ''links-dot-php''
     else None)"

definition add_guess :: "bool \<Rightarrow> string \<Rightarrow> string \<Rightarrow> stack_guess list \<Rightarrow> stack_guess list" where
  "add_guess seen label reason guesses =
    (if \<not> seen \<or> label \<in> sg_label ` set guesses then guesses
     else guesses @ [\<lparr>sg_label = label, sg_reason = reason\<rparr>])"

definition html_text :: "string \<Rightarrow> bool" where
  "html_text body = (contains ''<html'' body \<or> contains ''<!doctype html'' body)"

definition page_guesses :: "string \<Rightarrow> string list \<Rightarrow> stack_guess list \<Rightarrow> stack_guess list" where
  "page_guesses body names gs0 =
    (let mount = contains (''id='' @ dquote @ ''root'' @ dquote) body \<or> contains (''id='' @ dquote @ ''app'' @ dquote) body;
         gs1 = add_guess (contains ''cdn.tailwindcss.com'' body) ''Tailwind CSS (CDN)''
           (''script cdn.tailwindcss.com '' @ em_dash @ '' build maison ou page statique'') gs0;
         gs2 = add_guess (mount \<and> SPA_SCRIPT_HINT \<le> occurrences ''<script'' body) ''SPA JavaScript (React / Vue)''
           ''conteneur de montage #root/#app + bundles JS, sans marqueur de framework'' gs1;
         gs3 = add_guess (contains ''jquery'' body \<and> (contains ''bootstrap'' body \<or> contains ''getbootstrap.com'' body))
           ''Site rendu cote serveur (PHP / Rails / Django)'' ''jQuery + Bootstrap, HTML complet renvoye par le serveur'' gs2;
         gs4 = add_guess (''phpsessid'' \<in> set names) ''PHP'' ''cookie de session PHPSESSID'' gs3;
         gs5 = add_guess (''laravel_session'' \<in> set names \<or> ''xsrf-token'' \<in> set names) ''Laravel''
           ''cookies laravel_session / XSRF-TOKEN'' gs4;
         gs6 = add_guess (''symfony'' \<in> set names) ''Symfony'' ''cookie de session symfony'' gs5;
         gs7 = add_guess (search anywhere (Cat link_attribute (lit ''.php'')) body) ''PHP'' ''liens vers des fichiers .php'' gs6
     in add_guess (search anywhere (Cat link_attribute (lit ''.asp'')) body \<or> contains ''asp.net'' body) ''ASP.NET''
          ''liens .aspx / mention asp.net'' gs7)"

definition server_guesses :: "string \<Rightarrow> (string \<times> string) list \<Rightarrow> stack_guess list \<Rightarrow> stack_guess list" where
  "server_guesses body headers gs0 =
    (let server = get_default [] headers ''server'';
         gs1 = add_guess (contains ''cloudflare'' server) ''Cloudflare (proxy / CDN)'' (''en-tete Server: cloudflare'') gs0;
         gs2 = add_guess (contains ''vercel'' server \<or> map_of headers ''x-vercel-id'' \<noteq> None) ''Vercel (hebergement)''
           (''en-tetes Vercel '' @ em_dash @ '' souvent Next.js / SvelteKit'') gs1;
         gs3 = add_guess (contains ''netlify'' server \<or> map_of headers ''x-nf-request-id'' \<noteq> None) ''Netlify (hebergement)''
           (''en-tetes Netlify '' @ em_dash @ '' site statique / Jamstack'') gs2
     in add_guess (contains ''github.io'' body \<or> server = ''github.com'') ''GitHub Pages''
          (''hebergement GitHub Pages '' @ em_dash @ '' site statique'') gs3)"

definition speculate :: "string \<Rightarrow> (string \<times> string) list \<Rightarrow> string list \<Rightarrow> stack_guess list" where
  "speculate body headers names =
    (let gs1 = server_guesses body headers (page_guesses body names []);
         gs2 = (case generator_of body of None \<Rightarrow> gs1
           | Some g \<Rightarrow> add_guess True (strip g) ''balise <meta name=generator>'' gs1);
         gs3 = add_guess (gs2 = [] \<and> html_text body) ''HTML rendu cote serveur''
           ''page HTML complete, aucune empreinte technique reconnue'' gs2
     in take 6 gs3)"

text \<open>The first header marker present, as the nested loops find it.\<close>

definition header_match :: "(string \<times> string) list \<Rightarrow> (stack_kind \<times> string) option" where
  "header_match headers =
    map_option (\<lambda>(stack, name, header, needle). (stack, name))
      (List.find (\<lambda>(stack, name, header, needle). (let v = get_default [] headers header in
          v \<noteq> [] \<and> (needle = [] \<or> contains needle v)))
        (concat (map (\<lambda>(stack, checks). map (Pair stack) checks) HEADER_MARKERS)))"

type_synonym matches = "(stack_kind \<times> string list) list"

definition marker_matches :: "string \<Rightarrow> matches" where
  "marker_matches body =
    filter (\<lambda>(stack, names). names \<noteq> [])
      (map (\<lambda>(stack, markers). (stack, map fst (filter (\<lambda>(name, needle). contains needle body) markers))) HTML_MARKERS)"

definition generator_match :: "string \<Rightarrow> (string \<times> stack_kind) option" where
  "generator_match html = (case generator_of html of None \<Rightarrow> None
     | Some g \<Rightarrow> List.find (\<lambda>(needle, stack). contains needle (lower g)) GENERATOR_MAP)"

definition with_generator :: "(string \<times> stack_kind) option \<Rightarrow> matches \<Rightarrow> matches" where
  "with_generator found matches = (case found of None \<Rightarrow> matches
     | Some (needle, stack) \<Rightarrow>
         dict_update stack (\<lambda>names. (case names of None \<Rightarrow> [] | Some ns \<Rightarrow> ns) @ [''generator:'' @ needle]) matches)"

definition resolved :: "string \<Rightarrow> matches \<Rightarrow> stack_kind option" where
  "resolved body matches =
    List.find (\<lambda>stack. map_of matches stack \<noteq> None \<and>
      \<not> (stack \<in> set NEEDS_BUNDLE \<and> \<not> list_ex (\<lambda>hint. contains hint body) BUNDLE_HINTS)) RESOLUTION_ORDER"

definition lower_headers :: "(string \<times> string) list \<Rightarrow> (string \<times> string) list" where
  "lower_headers headers = fold (\<lambda>(k, v). dict_set (lower k) (lower v)) headers []"

text \<open>The markers of the page and of its generator tag; the confidence of so many signals.\<close>

definition page_matches :: "string \<Rightarrow> matches" where
  "page_matches html = with_generator (generator_match html) (marker_matches (lower html))"

definition marker_confidence :: "nat \<Rightarrow> rat" where
  "marker_confidence n = min (95 / 100) (55 / 100 + 15 / 100 * of_nat n)"

definition analyze_response :: "string \<Rightarrow> (string \<times> string) list \<Rightarrow> string list \<Rightarrow> stack_detection" where
  "analyze_response html headers cookies =
    (let body = lower html; hs = lower_headers headers; names = cookie_names cookies
     in case header_match hs of Some (stack, name) \<Rightarrow> detection stack [name] (9 / 10)
      | None \<Rightarrow>
        (let found = generator_match html;
             matched = page_matches html;
             speculation = speculate body hs names
         in case resolved body matched of
              Some stack \<Rightarrow>
                (let signals = get_default [] matched stack
                 in detection stack signals (marker_confidence (length signals)))
            | None \<Rightarrow> (case found of
                Some (needle, stack) \<Rightarrow> detection stack (get_default [] matched stack) (9 / 10)
              | None \<Rightarrow> (case php_signal hs names body of
                  Some php \<Rightarrow> (detection Php [php] (7 / 10))\<lparr>sd_candidates := speculation\<rparr>
                | None \<Rightarrow> if html_text body then (detection Generic [] (3 / 10))\<lparr>sd_candidates := speculation\<rparr>
                    else (detection Unknown [] 0)\<lparr>sd_candidates := speculation\<rparr>))))"

section \<open>Asking the site\<close>

definition DEMO_STACKS :: "(string \<times> stack_kind) list" where
  "DEMO_STACKS = [(''boutique-verte.fr'', Nextjs), (''atelier-nord.com'', Wordpress), (''studiolumen.io'', Vue),
     (''cap-horizon.co'', Angular)]"

text \<open>\<open>demo_detector\<close>; \<open>url_host\<close> is \<open>httpx.URL(url).host\<close>.\<close>

definition demo_detector :: "(string \<Rightarrow> string) \<Rightarrow> string \<Rightarrow> stack_detection" where
  "demo_detector url_host url =
    (let stack = get_default Unknown DEMO_STACKS (url_host url)
     in detection stack [''demo''] (if stack \<noteq> Unknown then 1 else 0))"

text \<open>An exception and its causes, each with whether it is an \<open>ssl.SSLError\<close> and its text.\<close>

type_synonym failure_chain = "(bool \<times> string) list"

definition is_ssl_error :: "failure_chain \<Rightarrow> bool" where
  "is_ssl_error chain = list_ex (\<lambda>(ssl, shown). ssl \<or>
     (let low = lower shown in contains ''certificate'' low \<or> contains ''ssl'' low \<or> contains ''tls'' low)) chain"

record site_response =
  sr_status :: nat
  sr_text :: string
  sr_headers :: "(string \<times> string) list"
  sr_cookies :: "string list"

definition MAX_BYTES :: nat where "MAX_BYTES = 400000"

definition failed_detection :: "string \<Rightarrow> string \<Rightarrow> stack_detection" where
  "failed_detection signal error = (detection Unknown [signal] 0)\<lparr>sd_error := Some error\<rparr>"

definition detect_stack :: "(string \<Rightarrow> failure_chain + site_response) \<Rightarrow> bool \<Rightarrow> string \<Rightarrow> stack_detection" where
  "detect_stack fetch allow_insecure url =
    (case fetch url of
       Inl chain \<Rightarrow>
         if \<not> allow_insecure \<and> is_ssl_error chain then failed_detection ''ssl-verify-failed'' ''ssl_verification_failed''
         else failed_detection ''fetch-error'' ''fetch_error''
     | Inr response \<Rightarrow>
         if 400 \<le> sr_status response then failed_detection (''http-'' @ str_nat (sr_status response)) ''http_error''
         else (let body = take MAX_BYTES (sr_text response);
                   content_type = lower (get_default [] (sr_headers response) ''content-type'')
               in if \<not> contains ''html'' content_type \<and> \<not> contains ''<html'' (lower body) then failed_detection ''non-html'' ''non_html''
                  else analyze_response body (sr_headers response) (sr_cookies response)))"

section \<open>What a detection rests on\<close>

text \<open>
  What a signal stands for: a header with the text of a marker, a marker of the stack in the page, the
  name of the stack in the generator tag, or a sign of PHP.
\<close>

definition header_evidence :: "(string \<times> string) list \<Rightarrow> stack_kind \<Rightarrow> string \<Rightarrow> bool" where
  "header_evidence headers stack signal =
    (\<exists>(s, checks) \<in> set HEADER_MARKERS. s = stack \<and> (\<exists>(name, header, needle) \<in> set checks. name = signal \<and>
       (let v = get_default [] headers header in v \<noteq> [] \<and> (needle = [] \<or> contains needle v))))"

definition page_evidence :: "string \<Rightarrow> stack_kind \<Rightarrow> string \<Rightarrow> bool" where
  "page_evidence html stack signal =
    ((\<exists>(s, markers) \<in> set HTML_MARKERS. s = stack \<and> (\<exists>(name, needle) \<in> set markers. name = signal \<and> contains needle (lower html))) \<or>
     (\<exists>g (needle :: string). generator_of html = Some g \<and> (needle, stack) \<in> set GENERATOR_MAP \<and> contains needle (lower g) \<and>
        signal = ''generator:'' @ needle))"

lemma header_match_evidence:
  assumes "header_match headers = Some (stack, name)"
  shows "header_evidence headers stack name"
proof -
  obtain header needle where "(stack, name, header, needle) \<in> set (concat (map (\<lambda>(stack, checks). map (Pair stack) checks) HEADER_MARKERS))"
    "let v = get_default [] headers header in v \<noteq> [] \<and> (needle = [] \<or> contains needle v)"
    using assms unfolding header_match_def by (auto dest!: find_row_SomeD [unfolded find_row_def])
  then show ?thesis unfolding header_evidence_def by fastforce
qed

lemma marker_matches_evidence:
  assumes "(stack, names) \<in> set (marker_matches (lower html))"
  shows "names \<noteq> [] \<and> (\<forall>n \<in> set names. page_evidence html stack n)"
  using assms unfolding marker_matches_def page_evidence_def by fastforce

lemma generator_match_evidence:
  assumes "generator_match html = Some (needle, stack)"
  shows "page_evidence html stack (''generator:'' @ needle)"
proof -
  obtain g where g: "generator_of html = Some g" "List.find (\<lambda>(needle, stack). contains needle (lower g)) GENERATOR_MAP = Some (needle, stack)"
    using assms by (auto simp: generator_match_def split: option.splits)
  then have "(needle, stack) \<in> set GENERATOR_MAP" "contains needle (lower g)"
    by (auto dest!: find_row_SomeD [unfolded find_row_def])
  then show ?thesis using g(1) unfolding page_evidence_def by blast
qed

definition evidenced :: "string \<Rightarrow> matches \<Rightarrow> bool" where
  "evidenced html matches = (\<forall>stack names. map_of matches stack = Some names \<longrightarrow>
     names \<noteq> [] \<and> (\<forall>n \<in> set names. page_evidence html stack n))"

lemma evidenced_markers: "evidenced html (marker_matches (lower html))"
  using marker_matches_evidence map_of_SomeD unfolding evidenced_def by metis

lemma evidenced_generator:
  assumes "evidenced html matches" "generator_match html = found"
  shows "evidenced html (with_generator found matches)"
proof (cases found)
  case None
  then show ?thesis using assms(1) by (simp add: with_generator_def)
next
  case (Some p)
  obtain needle stack where p: "p = (needle, stack)" by force
  have "page_evidence html stack (''generator:'' @ needle)"
    using generator_match_evidence assms(2) Some p by simp
  then show ?thesis
    unfolding evidenced_def
    using assms(1) [unfolded evidenced_def]
    by (cases "map_of matches stack") (auto simp: Some p with_generator_def)
qed

lemma markers_kept: "map_of matches stack \<noteq> None \<Longrightarrow> map_of (with_generator found matches) stack \<noteq> None"
  by (auto simp: with_generator_def split: option.splits)

lemma distinct_stacks: "distinct (map fst HTML_MARKERS)"
  by (simp add: HTML_MARKERS_def)

lemma marker_matches_complete:
  assumes "(stack, markers) \<in> set HTML_MARKERS" "(name, needle) \<in> set markers" "contains needle body"
  shows "map_of (marker_matches body) stack \<noteq> None"
proof -
  have "(stack, map fst (filter (\<lambda>(name, needle). contains needle body) markers)) \<in> set (marker_matches body)"
    unfolding marker_matches_def using assms
    by (force simp: filter_empty_conv intro: image_eqI [where x = "(stack, markers)"])
  then show ?thesis by (metis map_of_eq_None_iff fst_conv image_eqI)
qed

lemma find_priority:
  "x \<in> set xs \<Longrightarrow> P x \<Longrightarrow> \<exists>y. List.find P xs = Some y \<and> y \<in> set (takeWhile (\<lambda>z. z \<noteq> x) xs @ [x])"
proof (induction xs)
  case (Cons a xs)
  then show ?case by (cases "P a"; cases "a = x") auto
qed simp

definition labelled :: "stack_guess list \<Rightarrow> bool" where
  "labelled gs = distinct (map sg_label gs)"

lemma labelled_add: "labelled gs \<Longrightarrow> labelled (add_guess seen label reason gs)"
  by (auto simp: labelled_def add_guess_def)

lemma labelled_take: "labelled gs \<Longrightarrow> labelled (take n gs)"
  by (simp add: labelled_def take_map [symmetric] distinct_take)

lemma labelled_generator: "labelled gs \<Longrightarrow> labelled (case g of None \<Rightarrow> gs | Some n \<Rightarrow> add_guess True (strip n) reason gs)"
  by (simp add: labelled_add split: option.split)

lemma labelled_page: "labelled gs \<Longrightarrow> labelled (page_guesses body names gs)"
  unfolding page_guesses_def Let_def by (intro labelled_add)

lemma labelled_server: "labelled gs \<Longrightarrow> labelled (server_guesses body headers gs)"
  unfolding server_guesses_def Let_def by (intro labelled_add)

lemma speculate_labelled: "labelled (speculate body headers names)"
  unfolding speculate_def Let_def
  by (intro labelled_take labelled_add labelled_generator labelled_server labelled_page) (simp add: labelled_def)

lemma speculate_six: "length (speculate body headers names) \<le> 6"
  by (simp add: speculate_def Let_def)

lemma analysis_cases:
  fixes html headers cookies
  defines "d \<equiv> analyze_response html headers cookies" and "hs \<equiv> lower_headers headers"
  obtains (header) stack name where "header_match hs = Some (stack, name)" "d = detection stack [name] (9 / 10)"
  | (marker) stack where "header_match hs = None" "resolved (lower html) (page_matches html) = Some stack"
      "d = detection stack (get_default [] (page_matches html) stack)
         (marker_confidence (length (get_default [] (page_matches html) stack)))"
  | (generator) needle stack where "header_match hs = None" "resolved (lower html) (page_matches html) = None"
      "generator_match html = Some (needle, stack)" "d = detection stack (get_default [] (page_matches html) stack) (9 / 10)"
  | (php) signal where "header_match hs = None" "resolved (lower html) (page_matches html) = None"
      "php_signal hs (cookie_names cookies) (lower html) = Some signal"
      "d = (detection Php [signal] (7 / 10))\<lparr>sd_candidates := speculate (lower html) hs (cookie_names cookies)\<rparr>"
  | (silent) stack confidence where "header_match hs = None" "resolved (lower html) (page_matches html) = None"
      "stack \<in> {Generic, Unknown}" "0 \<le> confidence" "confidence \<le> 95 / 100"
      "d = (detection stack [] confidence)\<lparr>sd_candidates := speculate (lower html) hs (cookie_names cookies)\<rparr>"
proof (cases "header_match hs")
  case (Some p)
  then show thesis using header by (cases p) (simp add: d_def hs_def [symmetric] analyze_response_def Let_def)
next
  case none: None
  note d = d_def [unfolded analyze_response_def Let_def, folded hs_def, folded matched_def]
  show thesis
  proof (cases "resolved (lower html) (page_matches html)")
    case (Some stack)
    then show thesis using marker none by (simp add: d)
  next
    case res: None
    show thesis
    proof (cases "generator_match html")
      case (Some p)
      then show thesis using generator none res by (cases p) (simp add: d)
    next
      case gen: None
      show thesis
      proof (cases "php_signal hs (cookie_names cookies) (lower html)")
        case (Some signal)
        then show thesis using php none res gen by (simp add: d)
      next
        case None
        show thesis
        proof (cases "html_text (lower html)")
          case True
          then show thesis using silent [OF none res, of Generic "3 / 10"] none res gen None by (simp add: d)
        next
          case False
          then show thesis using silent [OF none res, of Unknown 0] none res gen None by (simp add: d)
        qed
      qed
    qed
  qed
qed

lemma marker_confidence_bounds: "0 \<le> marker_confidence n \<and> marker_confidence n \<le> 95 / 100"
  by (simp add: marker_confidence_def min_def)

lemma confidence_bounds: "0 \<le> sd_confidence (analyze_response html headers cookies) \<and> sd_confidence (analyze_response html headers cookies) \<le> 95 / 100"
  by (cases rule: analysis_cases [of headers html cookies]) (use marker_confidence_bounds in \<open>simp_all add: detection_def\<close>)

lemma candidates_bounds:
  "length (sd_candidates (analyze_response html headers cookies)) \<le> 6 \<and> labelled (sd_candidates (analyze_response html headers cookies))"
  by (cases rule: analysis_cases [of headers html cookies])
    (simp_all add: detection_def speculate_six speculate_labelled labelled_def [of "[]"])

lemma matched_evidence:
  assumes "map_of (page_matches html) stack \<noteq> None"
  shows "get_default [] (page_matches html) stack \<noteq> []" "\<forall>s \<in> set (get_default [] (page_matches html) stack). page_evidence html stack s"
proof -
  obtain names where names: "map_of (page_matches html) stack = Some names" using assms by blast
  have "evidenced html (page_matches html)"
    unfolding page_matches_def by (rule evidenced_generator [OF evidenced_markers refl])
  then show "get_default [] (page_matches html) stack \<noteq> []" "\<forall>s \<in> set (get_default [] (page_matches html) stack). page_evidence html stack s"
    using names by (simp_all add: evidenced_def get_default_def)
qed

lemma resolved_matched: "resolved body matches = Some stack \<Longrightarrow> map_of matches stack \<noteq> None"
  by (auto simp: resolved_def dest!: find_row_SomeD [unfolded find_row_def])

lemma generator_matched: "generator_match html = Some (needle, stack) \<Longrightarrow> map_of (page_matches html) stack \<noteq> None"
  by (simp add: page_matches_def with_generator_def)

lemma detection_evidence:
  fixes html headers cookies
  defines "d \<equiv> analyze_response html headers cookies" and "hs \<equiv> lower_headers headers"
  shows "\<forall>s \<in> set (sd_signals d). header_evidence hs (sd_stack d) s \<or> page_evidence html (sd_stack d) s \<or>
    sd_stack d = Php \<and> php_signal hs (cookie_names cookies) (lower html) = Some s"
  unfolding d_def hs_def
proof (cases rule: analysis_cases [of headers html cookies])
  case (marker stack)
  then show "\<forall>s \<in> set (sd_signals (analyze_response html headers cookies)).
      header_evidence (lower_headers headers) (sd_stack (analyze_response html headers cookies)) s \<or>
      page_evidence html (sd_stack (analyze_response html headers cookies)) s \<or>
      sd_stack (analyze_response html headers cookies) = Php \<and>
      php_signal (lower_headers headers) (cookie_names cookies) (lower html) = Some s"
    using matched_evidence(2) [OF resolved_matched [OF marker(2)]] by (simp add: detection_def)
next
  case (generator needle stack)
  then show "\<forall>s \<in> set (sd_signals (analyze_response html headers cookies)).
      header_evidence (lower_headers headers) (sd_stack (analyze_response html headers cookies)) s \<or>
      page_evidence html (sd_stack (analyze_response html headers cookies)) s \<or>
      sd_stack (analyze_response html headers cookies) = Php \<and>
      php_signal (lower_headers headers) (cookie_names cookies) (lower html) = Some s"
    using matched_evidence(2) [OF generator_matched [OF generator(3)]] by (simp add: detection_def)
qed (auto simp: detection_def header_match_evidence)

lemma silent_detection:
  assumes "sd_signals (analyze_response html headers cookies) = []"
  shows "sd_stack (analyze_response html headers cookies) \<in> {Generic, Unknown}"
proof (cases rule: analysis_cases [of headers html cookies])
  case (marker stack)
  then show ?thesis
    using assms matched_evidence(1) [OF resolved_matched [OF marker(2)]] by (simp add: detection_def)
next
  case (generator needle stack)
  then show ?thesis
    using assms matched_evidence(1) [OF generator_matched [OF generator(3)]] by (simp add: detection_def)
qed (use assms in \<open>auto simp: detection_def\<close>)

lemma priority_detection:
  assumes "header_match (lower_headers headers) = None" "(stack, markers) \<in> set HTML_MARKERS" "stack \<noteq> React"
    "(name, needle) \<in> set markers" "contains needle (lower html)"
  shows "sd_stack (analyze_response html headers cookies) \<in> set (takeWhile (\<lambda>s. s \<noteq> stack) RESOLUTION_ORDER @ [stack])"
proof -
  have "map_of (page_matches html) stack \<noteq> None"
    unfolding page_matches_def using marker_matches_complete [OF assms(2,4,5)] by (rule markers_kept)
  moreover have "stack \<in> set RESOLUTION_ORDER"
    using assms(2) by (auto simp: HTML_MARKERS_def RESOLUTION_ORDER_def)
  ultimately have "\<exists>y. resolved (lower html) (page_matches html) = Some y \<and>
      y \<in> set (takeWhile (\<lambda>s. s \<noteq> stack) RESOLUTION_ORDER @ [stack])"
    unfolding resolved_def using assms(3) by (intro find_priority) (simp_all add: NEEDS_BUNDLE_def)
  then obtain y where "resolved (lower html) (page_matches html) = Some y"
      "y \<in> set (takeWhile (\<lambda>s. s \<noteq> stack) RESOLUTION_ORDER @ [stack])"
    by blast
  then show ?thesis using assms(1)
    by (cases rule: analysis_cases [of headers html cookies]) (simp_all add: detection_def matched_def)
qed

text \<open>
  A technology is only named on evidence. Every signal of a detection is a header, a marker of the page, a
  generator tag or a sign of PHP that is there and stands for the technology answered; without a signal the
  answer is generic or unknown. Unless a header decides, a page with a marker of a technology is answered by this one or by
  one before it in the order of priority (a bare React page needs a bundle as well). The confidence is at most
  0.95 and there are at most six hypotheses, with distinct labels.
\<close>
lemma stack_named_on_evidence:
  fixes html headers cookies
  defines "d \<equiv> analyze_response html headers cookies" and "hs \<equiv> lower_headers headers"
  shows "(\<forall>s \<in> set (sd_signals d). header_evidence hs (sd_stack d) s \<or> page_evidence html (sd_stack d) s \<or>
      sd_stack d = Php \<and> php_signal hs (cookie_names cookies) (lower html) = Some s) \<and>
    (sd_signals d = [] \<longrightarrow> sd_stack d \<in> {Generic, Unknown}) \<and>
    (header_match hs = None \<longrightarrow> (\<forall>stack markers name needle. (stack, markers) \<in> set HTML_MARKERS \<longrightarrow> stack \<noteq> React \<longrightarrow>
      (name, needle) \<in> set markers \<longrightarrow> contains needle (lower html) \<longrightarrow>
      sd_stack d \<in> set (takeWhile (\<lambda>s. s \<noteq> stack) RESOLUTION_ORDER @ [stack]))) \<and>
    0 \<le> sd_confidence d \<and> sd_confidence d \<le> 95 / 100 \<and> length (sd_candidates d) \<le> 6 \<and> labelled (sd_candidates d)"
  unfolding d_def hs_def
  using detection_evidence silent_detection priority_detection confidence_bounds candidates_bounds by (intro conjI allI impI) blast+

text \<open>A shop page of a WordPress site, which both technologies mark: the first of the order is answered.\<close>

definition shop_page :: string where
  "shop_page = ''<html><link href=/wp-content/x.css><body class=woocommerce-page>''"

lemma stack_named_on_evidence_witness:
  "sd_stack (analyze_response shop_page [] []) = Woocommerce \<and> sd_signals (analyze_response shop_page [] []) \<noteq> [] \<and>
    sd_confidence (analyze_response shop_page [] []) \<le> 95 / 100"
proof -
  have h: "header_match (lower_headers []) = None" by code_simp
  have m: "(Woocommerce, [(''woocommerce-class'', ''woocommerce-page''), (''wc-ajax'', ''wc-ajax=''),
      (''wc-plugin'', ''/wp-content/plugins/woocommerce/''), (''wc-blocks'', ''wc-blocks'')]) \<in> set HTML_MARKERS"
    by (simp add: HTML_MARKERS_def)
  have c: "contains ''woocommerce-page'' (lower shop_page)" by code_simp
  have "sd_stack (analyze_response shop_page [] []) \<in> set (takeWhile (\<lambda>s. s \<noteq> Woocommerce) RESOLUTION_ORDER @ [Woocommerce])"
    by (rule stack_named_on_evidence [of shop_page "[]" "[]", THEN conjunct2, THEN conjunct2, THEN conjunct1, rule_format,
        OF h m _ _ c]) simp_all
  then have "sd_stack (analyze_response shop_page [] []) = Woocommerce" by (simp add: RESOLUTION_ORDER_def)
  then show ?thesis using stack_named_on_evidence [of shop_page "[]" "[]"] by force
qed

text \<open>
  The header that every WordPress site with its programming interface sends decides before the page is read: the
  same shop with it is answered WordPress.
\<close>

lemma shop_with_header: "sd_stack (analyze_response shop_page [(''Link'', ''<https://shop.example/wp-json/>; rel=x'')] []) = Wordpress"
  by code_simp

end
