(* ===== verification/Audit_Engine.thy ===== *)
theory Audit_Engine
  imports Audit_Probe Stack_Detector Measurement_Plan_Props
begin

text \<open>
  The audit of a site (\<open>app/services/audit_engine.py\<close>): rules turn the signals into anomalies, a scan stores a snapshot and
  brings the issues of the site up to date, one for each fingerprint. The detector, the checks of the certificate and
  of the page, the probe and the identifiers drawn are parameters; the rows are those of
  \<open>app/models/issue_item.py\<close>, \<open>audit_snapshot.py\<close> and \<open>audit_log.py\<close>.
\<close>

section \<open>Anomalies\<close>

datatype issue_category = Seo_issue | Analytics_issue | Cwv_issue | Tracking_issue | Other_issue
datatype issue_severity = Low_issue | Medium_issue | High_issue | Critical_issue
datatype issue_status = Todo | In_progress | Fixed | Dismissed_issue

record anomaly =
  da_rule_id :: string
  da_subject :: string
  da_category :: issue_category
  da_severity :: issue_severity
  da_title :: string
  da_description :: string

definition mk_anomaly :: "string \<Rightarrow> string \<Rightarrow> issue_category \<Rightarrow> issue_severity \<Rightarrow> string \<Rightarrow> string \<Rightarrow> anomaly" where
  "mk_anomaly rule subject category severity title description = \<lparr>da_rule_id = rule, da_subject = subject,
     da_category = category, da_severity = severity, da_title = title, da_description = description\<rparr>"

definition score_status :: "int \<Rightarrow> string" where
  "score_status score = (if 85 \<le> score then ''good'' else if 65 \<le> score then ''warn'' else ''bad'')"

definition cwv_anomaly :: "string \<Rightarrow> string \<Rightarrow> issue_severity \<Rightarrow> string \<Rightarrow> string \<Rightarrow> string \<Rightarrow> anomaly" where
  "cwv_anomaly rule subject severity label v target =
     mk_anomaly rule subject Cwv_issue severity (label @ '' au-dessus du seuil ('' @ v @ '')'')
       (label @ '' mesure a '' @ v @ '' sur le terrain, cible < '' @ target @ ''. Signal Core Web Vitals hors zone '' @ guil_l @ '' bon '' @ guil_r @ ''.'')"

definition TLS_CRITICAL_DAYS :: int where "TLS_CRITICAL_DAYS = 7"
definition TLS_HIGH_DAYS :: int where "TLS_HIGH_DAYS = 14"

fun gtm_issue_severity :: "severity \<Rightarrow> issue_severity option" where
  "gtm_issue_severity Sev_high = Some High_issue"
| "gtm_issue_severity Sev_medium = Some Medium_issue"
| "gtm_issue_severity Sev_low = None"

definition gtm_anomalies :: "gtm_check \<Rightarrow> anomaly list" where
  "gtm_anomalies gtm = List.map_filter (\<lambda>f. map_option (\<lambda>severity.
       mk_anomaly (gf_code f) ''gtm'' Tracking_issue severity (gf_title f) (gf_detail f)) (gtm_issue_severity (gf_severity f)))
     (gc_findings gtm)"

definition opt_int_text :: "int option \<Rightarrow> string" where
  "opt_int_text n = (case n of None \<Rightarrow> ''None'' | Some k \<Rightarrow> str_int k)"

definition within_days :: "int option \<Rightarrow> int \<Rightarrow> bool" where
  "within_days n limit = (case n of None \<Rightarrow> False | Some k \<Rightarrow> k \<le> limit)"

definition tls_anomaly :: "tls_status \<Rightarrow> anomaly option" where
  "tls_anomaly tls =
    (if tl_status tls \<in> {''valid'', ''unreachable''} then None
     else (let n = tl_days_remaining tls;
               (severity, detail) =
                 (if tl_status tls = ''expired''
                  then (Critical_issue, ''Le certificat HTTPS est expire : les navigateurs bloquent l'' @ apos @ ''acces au site.'')
                  else if tl_status tls = ''expiring_soon''
                  then (if within_days n TLS_CRITICAL_DAYS then Critical_issue
                        else if within_days n TLS_HIGH_DAYS then High_issue else Medium_issue,
                        ''Le certificat HTTPS expire dans '' @ opt_int_text n @ '' jour(s). Planifier le renouvellement.'')
                  else (High_issue, ''Le certificat HTTPS n'' @ apos @ ''est pas fiable ('' @ replace_all ''_'' '' '' (tl_status tls) @
                        '') : avertissement navigateur a chaque visite.''));
               expiry = (case tl_expires_at tls of None \<Rightarrow> [] | Some t \<Rightarrow> '' Expiration : '' @ iso_date (date_of t) @ ''.'')
           in Some (mk_anomaly ''ssl_certificate'' ''certificate'' Seo_issue severity ''Certificat HTTPS a renouveler''
                (detail @ expiry))))"

definition purchase_anomaly :: "ga4_signals \<Rightarrow> anomaly list" where
  "purchase_anomaly ga4 = (if ag_purchase_missing_params ga4 = [] then []
     else [mk_anomaly ''ga4_purchase_params'' ''purchase'' Analytics_issue Critical_issue
       (''L'' @ apos @ ''evenement purchase GA4 ne transmet pas tous les parametres'')
       (''Parametres manquants sur l'' @ apos @ ''evenement purchase : '' @ join '', '' (ag_purchase_missing_params ga4) @
        ''. Les revenus GA4 sont nuls sur les ventes.'')])"

definition missing_event_anomaly :: "string \<Rightarrow> anomaly" where
  "missing_event_anomaly event = mk_anomaly ''ga4_event_missing'' event Analytics_issue High_issue
     (''L'' @ apos @ ''evenement '' @ event @ '' n'' @ apos @ ''est jamais recu'')
     (''Aucun hit GA4 pour '' @ event @ '' : l'' @ apos @ ''action correspondante n'' @ apos @ ''est pas instrumentee.'')"

definition ga4_anomalies :: "ga4_signals \<Rightarrow> anomaly list" where
  "ga4_anomalies ga4 = purchase_anomaly ga4 @ map missing_event_anomaly (ag_missing_events ga4) @
     (if ag_login_missing_user_id ga4
      then [mk_anomaly ''ga4_user_id'' ''login'' Analytics_issue High_issue
        (''L'' @ apos @ ''identifiant utilisateur n'' @ apos @ ''est pas transmis a GA4'')
        (''Apres connexion, aucun user_id n'' @ apos
    @ ''est pousse : le rapprochement cross-device est inoperant.'')]
      else [])"

definition gsc_anomalies :: "gsc_signals \<Rightarrow> anomaly list" where
  "gsc_anomalies gsc =
    (let total_pages = gs_valid_pages gsc + gs_excluded_pages gsc
     in if 3 \<le> gs_stale_days gsc
        then [mk_anomaly ''gsc_stale'' ''connection'' Seo_issue High_issue
          ''La connexion Search Console ne renvoie plus de donnees''
          (''Aucune donnee d'' @ apos @ ''indexation depuis '' @ str_int (gs_stale_days gsc) @ '' jours : le diagnostic SEO tourne en aveugle.'')]
        else if 0 < gs_noindex_pages gsc
        then [mk_anomaly ''gsc_noindex'' ''noindex'' Seo_issue (if gs_noindex_on_products gsc then High_issue else Medium_issue)
          (str_int (gs_noindex_pages gsc) @ '' pages exclues de l'' @ apos @ ''index par une balise noindex'')
          (''Une balise noindex empeche l'' @ apos @ ''indexation de '' @ str_int (gs_noindex_pages gsc) @ '' page(s)'' @
           (if gs_noindex_on_products gsc then '', dont des fiches produit.'' else ''.''))]
        else if 0 < total_pages \<and> (of_int (gs_valid_pages gsc) / of_int total_pages :: rat) < 85 / 100
        then [mk_anomaly ''gsc_coverage'' ''coverage'' Seo_issue Medium_issue
          (''Couverture d'' @ apos @ ''indexation sous le seuil'')
          (str_int (gs_valid_pages gsc) @ '' pages indexees sur '' @ str_int total_pages @ '' connues.'')]
        else [])"

definition lcp_anomaly :: "string \<Rightarrow> cwv_signals \<Rightarrow> anomaly list" where
  "lcp_anomaly source cwv =
    (if cw_lcp_ms cwv \<le> 2500 then []
     else (let assets = (if cw_heavy_assets cwv \<noteq> [] then cw_heavy_assets cwv else cw_blocking_scripts cwv);
               detail = ''LCP mesure a '' @ str_int (cw_lcp_ms cwv) @ '' ms ('' @ source @
                 ''), cible < 2500 ms. Signal Core Web Vitals hors zone '' @ guil_l @ '' bon '' @ guil_r @ ''.'' @
                 (case cw_lcp_element cwv of Some (c # cs) \<Rightarrow> '' Element LCP : '' @ (c # cs) @ ''.'' | _ \<Rightarrow> []) @
                 (if assets \<noteq> [] then '' Assets lourds a optimiser : '' @ join '', '' assets @ ''.'' else [])
           in [mk_anomaly ''cwv_lcp'' ''lcp'' Cwv_issue (if 4000 < cw_lcp_ms cwv then Critical_issue else High_issue)
             (''LCP au-dessus du seuil ('' @ str_int (cw_lcp_ms cwv) @ '' ms)'') detail]))"

definition inp_anomaly :: "string \<Rightarrow> cwv_signals \<Rightarrow> anomaly list" where
  "inp_anomaly source cwv =
    (if cw_inp_ms cwv \<le> 200 then []
     else (let detail = ''INP mesure a '' @ str_int (cw_inp_ms cwv) @ '' ms ('' @ source @
                 ''), cible < 200 ms. Les interactions repondent trop lentement.'' @
                 (if cw_third_party_scripts cwv \<noteq> [] then '' Scripts tiers couteux : '' @ join '', '' (cw_third_party_scripts cwv) @ ''.''
                  else if cw_blocking_scripts cwv \<noteq> [] then '' Scripts bloquants : '' @ join '', '' (cw_blocking_scripts cwv) @ ''.''
                  else []) @
                 (if cw_js_execution_ms cwv \<noteq> 0 then '' Execution JS totale : '' @ str_int (cw_js_execution_ms cwv) @ '' ms.'' else [])
           in [mk_anomaly ''cwv_inp'' ''inp'' Cwv_issue Medium_issue
             (''INP au-dessus du seuil ('' @ str_int (cw_inp_ms cwv) @ '' ms)'') detail]))"

text \<open>\<open>x > 0.1\<close> of a float.\<close>

definition over_tenth :: "py_number \<Rightarrow> bool" where
  "over_tenth x = (case x of PyFloat q \<Rightarrow> 1 / 10 < q | PyInt n \<Rightarrow> 0 < n | PyBool b \<Rightarrow> b | PyInf \<Rightarrow> True | _ \<Rightarrow> False)"

definition cls_anomaly :: "cwv_signals \<Rightarrow> anomaly list" where
  "cls_anomaly cwv = (if over_tenth (cw_cls cwv)
     then [cwv_anomaly ''cwv_cls'' ''cls'' Medium_issue ''CLS'' (fixed_number 2 (cw_cls cwv)) ''0.1''] else [])"

definition detect_anomalies :: "probe_data \<Rightarrow> tls_status option \<Rightarrow> gtm_check option \<Rightarrow> anomaly list" where
  "detect_anomalies data tls gtm =
    (let source = (if cw_field_data (pd_cwv data) then ''terrain'' else ''labo'')
     in (case tls of None \<Rightarrow> [] | Some t \<Rightarrow> (case tls_anomaly t of None \<Rightarrow> [] | Some a \<Rightarrow> [a])) @
        (case gtm of None \<Rightarrow> [] | Some g \<Rightarrow> gtm_anomalies g) @
        ga4_anomalies (pd_ga4 data) @ gsc_anomalies (pd_gsc data) @
        lcp_anomaly source (pd_cwv data) @ inp_anomaly source (pd_cwv data) @ cls_anomaly (pd_cwv data))"

definition sha256_hex :: "string \<Rightarrow> string" where
  "sha256_hex s = Metric_Dimensions.hexdigest (sha256 (ascii_bytes s))"

definition fingerprint_of :: "uuid \<Rightarrow> anomaly \<Rightarrow> string" where
  "fingerprint_of website_id a = sha256_hex (str_uuid website_id @ ''|'' @ da_rule_id a @ ''|'' @ da_subject a)"

section \<open>The metrics of a snapshot\<close>

fun stack_text :: "stack_kind \<Rightarrow> string" where
  "stack_text Nextjs = ''nextjs''"
| "stack_text Wordpress = ''wordpress''"
| "stack_text Woocommerce = ''woocommerce''"
| "stack_text Nuxt = ''nuxt''"
| "stack_text Vue = ''vue''"
| "stack_text Angular = ''angular''"
| "stack_text React = ''react''"
| "stack_text Vite = ''vite''"
| "stack_text Php = ''php''"
| "stack_text Generic = ''generic''"
| "stack_text Unknown = ''unknown''"

fun severity_text :: "severity \<Rightarrow> string" where
  "severity_text Sev_low = ''low''"
| "severity_text Sev_medium = ''medium''"
| "severity_text Sev_high = ''high''"

definition opt_text :: "string option \<Rightarrow> json" where "opt_text x = (case x of None \<Rightarrow> JNull | Some s \<Rightarrow> JStr s)"
definition opt_bool :: "bool option \<Rightarrow> json" where "opt_bool x = (case x of None \<Rightarrow> JNull | Some b \<Rightarrow> JBool b)"
definition opt_instant :: "datetime option \<Rightarrow> json" where
  "opt_instant x = (case x of None \<Rightarrow> JNull | Some t \<Rightarrow> JStr (iso_datetime t))"

definition stack_block :: "stack_detection \<Rightarrow> json" where
  "stack_block d = JDict [(''stack'', JStr (stack_text (sd_stack d))), (''confidence'', JNum (PyFloat (sd_confidence d))),
     (''signals'', texts (sd_signals d)),
     (''candidates'', JList (map (\<lambda>g. JDict [(''label'', JStr (sg_label g)), (''reason'', JStr (sg_reason g))]) (sd_candidates d))),
     (''error'', opt_text (sd_error d))]"

definition tls_block :: "tls_status option \<Rightarrow> json" where
  "tls_block tls = (case tls of None \<Rightarrow> JNull
     | Some t \<Rightarrow> JDict [(''status'', JStr (tl_status t)), (''expires_at'', opt_instant (tl_expires_at t)),
         (''checked_at'', JStr (iso_datetime (tl_checked_at t))),
         (''days_remaining'', case tl_days_remaining t of None \<Rightarrow> JNull | Some n \<Rightarrow> JInt n), (''issuer'', opt_text (tl_issuer t))])"

definition finding_block :: "gtm_finding \<Rightarrow> json" where
  "finding_block f = JDict [(''code'', JStr (gf_code f)), (''severity'', JStr (severity_text (gf_severity f))),
     (''title'', JStr (gf_title f)), (''detail'', JStr (gf_detail f))]"

definition gtm_block :: "gtm_check option \<Rightarrow> json" where
  "gtm_block gtm = (case gtm of None \<Rightarrow> JNull
     | Some g \<Rightarrow> JDict [(''containers'', texts (gc_containers g)), (''ga4_tags'', texts (gc_ga4_tags g)),
         (''snippet_in_head'', opt_bool (gc_snippet_in_head g)), (''snippet_form'', JStr (form_text (gc_snippet_form g))),
         (''data_layer_name'', JStr (gc_data_layer_name g)), (''consent_platform'', opt_text (gc_consent_platform g)),
         (''gtm_consent_gated'', JBool (gc_consent_gated g)), (''csp_present'', JBool (gc_csp_present g)),
         (''csp_allows_gtm'', opt_bool (gc_csp_allows_gtm g)), (''csp_blocks_preview'', opt_bool (gc_csp_blocks_preview g)),
         (''server_side'', JBool (gc_server_side g)), (''query_stripped_on_redirect'', JBool (gc_query_stripped g)),
         (''findings'', JList (map finding_block (gc_findings g))), (''checked_at'', opt_instant (gc_checked_at g)),
         (''error'', opt_text (gc_error g))])"

definition ga4_block :: "ga4_signals \<Rightarrow> json" where
  "ga4_block g = JDict [(''score'', JInt (ag_score g)), (''status'', JStr (score_status (ag_score g))),
     (''purchase_missing_params'', texts (ag_purchase_missing_params g)), (''missing_events'', texts (ag_missing_events g)),
     (''login_missing_user_id'', JBool (ag_login_missing_user_id g)), (''degraded'', JBool (ag_degraded g))]"

definition sample_block :: "url_sample \<Rightarrow> json" where
  "sample_block u = JDict [(''path'', JStr (us_path u)), (''status'', JStr (us_status u)), (''clicks'', JInt (us_clicks u)),
     (''impressions'', JInt (us_impressions u))]"

definition gsc_block :: "gsc_signals \<Rightarrow> json" where
  "gsc_block g = JDict [(''score'', JInt (gs_score g)), (''status'', JStr (score_status (gs_score g))),
     (''valid_pages'', JInt (gs_valid_pages g)), (''excluded_pages'', JInt (gs_excluded_pages g)),
     (''noindex_pages'', JInt (gs_noindex_pages g)), (''noindex_on_products'', JBool (gs_noindex_on_products g)),
     (''connection_stale_days'', JInt (gs_stale_days g)), (''sample_urls'', JList (map sample_block (gs_sample_urls g))),
     (''degraded'', JBool (gs_degraded g))]"

definition entity_block :: "costly_entity \<Rightarrow> json" where
  "entity_block e = JDict [(''name'', JStr (ce_name e)), (''category'', JStr (ce_category e)),
     (''main_thread_ms'', JInt (ce_main_thread_ms e)), (''blocking_ms'', JInt (ce_blocking_ms e))]"

definition asset_block :: "heavy_asset \<Rightarrow> json" where
  "asset_block a = JDict [(''name'', JStr (ha_name a)), (''current_format'', JStr (ha_current_format a)),
     (''size_kb'', JInt (ha_size_kb a)), (''estimated_saving_kb'', JInt (ha_saving_kb a))]"

definition shift_block :: "shift_element \<Rightarrow> json" where
  "shift_block e = JDict [(''selector'', JStr (sh_selector e)), (''impact'', JNum (sh_impact e)), (''note'', JStr (sh_note e))]"

definition cwv_block :: "cwv_signals \<Rightarrow> json" where
  "cwv_block c = JDict [(''score'', JInt (cw_score c)), (''status'', JStr (score_status (cw_score c))),
     (''lcp_ms'', JInt (cw_lcp_ms c)), (''inp_ms'', JInt (cw_inp_ms c)), (''cls'', JNum (cw_cls c)),
     (''field_data'', JBool (cw_field_data c)), (''js_execution_ms'', JInt (cw_js_execution_ms c)),
     (''total_blocking_time_ms'', JInt (cw_total_blocking_time_ms c)), (''lcp_element'', opt_text (cw_lcp_element c)),
     (''blocking_scripts'', texts (cw_blocking_scripts c)), (''costly_entities'', JList (map entity_block (cw_costly_entities c))),
     (''lcp_assets'', JList (map asset_block (cw_lcp_assets c))), (''shift_elements'', JList (map shift_block (cw_shift_elements c)))]"

definition build_metrics :: "stack_detection \<Rightarrow> probe_data \<Rightarrow> tls_status option \<Rightarrow> gtm_check option \<Rightarrow> json_dict" where
  "build_metrics detected data tls gtm = [(''stack'', JStr (stack_text (sd_stack detected))), (''stack_detection'', stack_block detected),
     (''ssl'', tls_block tls), (''gtm'', gtm_block gtm), (''ga4'', ga4_block (pd_ga4 data)), (''gsc'', gsc_block (pd_gsc data)),
     (''cwv'', cwv_block (pd_cwv data))]"

section \<open>Tables\<close>

record issue_item =
  ii_id :: uuid
  ii_website_id :: uuid
  ii_title :: string
  ii_description :: string
  ii_category :: issue_category
  ii_severity :: issue_severity
  ii_status :: issue_status
  ii_fingerprint :: string
  ii_detected_at :: datetime
  ii_resolved_at :: "datetime option"
  ii_snapshot_id :: "uuid option"

record audit_snapshot =
  as_id :: uuid
  as_website_id :: uuid
  as_captured_at :: datetime
  as_source :: string
  as_metrics :: json_dict

record audit_log =
  al_user_id :: "uuid option"
  al_action :: string
  al_resource_type :: string
  al_resource_id :: string
  al_payload_hash :: string
  al_result :: string
  al_ip_address :: "string option"
  al_created_at :: datetime

record audit_db = plan_db +
  issue_items :: "issue_item list"
  audit_snapshots :: "audit_snapshot list"
  audit_logs :: "audit_log list"

definition issue_key :: "issue_item \<Rightarrow> uuid \<times> string" where
  "issue_key i = (ii_website_id i, ii_fingerprint i)"

section \<open>A scan\<close>

record audit_services =
  au_detector :: "string \<Rightarrow> stack_detection"
  au_tls :: "(string \<Rightarrow> tls_status) option"
  au_gtm :: "(string \<Rightarrow> gtm_check option) option"
  au_probe :: "website \<Rightarrow> google_link list \<Rightarrow> google_connection list \<Rightarrow> (probe_data \<times> google_connection list) audited"

record audit_run =
  ar_snapshot_id :: uuid
  ar_detected_stack :: stack_kind
  ar_metrics :: json_dict
  ar_created :: "uuid list"
  ar_updated :: "uuid list"
  ar_resolved :: "uuid list"

text \<open>A row for a new anomaly, and a row brought up to date.\<close>

definition new_issue :: "uuid \<Rightarrow> uuid \<Rightarrow> uuid \<Rightarrow> datetime \<Rightarrow> anomaly \<Rightarrow> issue_item" where
  "new_issue i site snapshot now a = \<lparr>ii_id = i, ii_website_id = site, ii_title = da_title a, ii_description = da_description a,
     ii_category = da_category a, ii_severity = da_severity a, ii_status = Todo, ii_fingerprint = fingerprint_of site a,
     ii_detected_at = now, ii_resolved_at = None, ii_snapshot_id = Some snapshot\<rparr>"

definition seen_again :: "uuid \<Rightarrow> datetime \<Rightarrow> anomaly \<Rightarrow> issue_item \<Rightarrow> issue_item" where
  "seen_again snapshot now a i =
    (let i' = i\<lparr>ii_title := da_title a, ii_description := da_description a, ii_category := da_category a,
           ii_severity := da_severity a, ii_detected_at := now, ii_snapshot_id := Some snapshot\<rparr>
     in if ii_status i = Fixed then i'\<lparr>ii_status := Todo, ii_resolved_at := None\<rparr> else i')"

record scan_state =
  ss_issues :: "issue_item list"
  ss_seen :: "string list"
  ss_created :: "uuid list"
  ss_updated :: "uuid list"

definition take_anomaly :: "(string \<Rightarrow> uuid) \<Rightarrow> uuid \<Rightarrow> uuid \<Rightarrow> datetime \<Rightarrow> anomaly \<Rightarrow> scan_state \<Rightarrow> scan_state" where
  "take_anomaly draw site snapshot now a s =
    (let fp = fingerprint_of site a; s' = s\<lparr>ss_seen := ss_seen s @ [fp]\<rparr>
     in case find_row (\<lambda>i. issue_key i = (site, fp)) (ss_issues s) of
          None \<Rightarrow> s'\<lparr>ss_issues := ss_issues s @ [new_issue (draw fp) site snapshot now a], ss_created := ss_created s @ [draw fp]\<rparr>
        | Some i \<Rightarrow> s'\<lparr>ss_issues := update_rows (\<lambda>i. issue_key i = (site, fp)) (seen_again snapshot now a) (ss_issues s),
            ss_updated := ss_updated s @ [ii_id i]\<rparr>)"

text \<open>An open issue of the site that a scan has found, and whose anomaly is no longer seen.\<close>

definition stale_issue :: "uuid \<Rightarrow> string list \<Rightarrow> issue_item \<Rightarrow> bool" where
  "stale_issue site fps i = (ii_website_id i = site \<and> ii_snapshot_id i \<noteq> None \<and> ii_status i \<in> {Todo, In_progress} \<and>
     ii_fingerprint i \<notin> set fps)"

definition resolve_issue :: "datetime \<Rightarrow> issue_item \<Rightarrow> issue_item" where
  "resolve_issue now i = i\<lparr>ii_status := Fixed, ii_resolved_at := Some now\<rparr>"

text \<open>The columns of the log a scan fills; the clock of the database, which dates the row, is taken for the one of the program.\<close>

definition scan_log :: "datetime \<Rightarrow> website \<Rightarrow> uuid option \<Rightarrow> string option \<Rightarrow> audit_log" where
  "scan_log now site user ip = \<lparr>al_user_id = user, al_action = ''website.scan'', al_resource_type = ''website'',
     al_resource_id = str_uuid (ws_id site),
     al_payload_hash = sha256_hex (''{'' @ json_string ''domain'' @ '': '' @ json_string (ws_domain site) @ '', '' @
       json_string ''website_id'' @ '': '' @ json_string (str_uuid (ws_id site)) @ ''}''),
     al_result = ''success'', al_ip_address = ip, al_created_at = now\<rparr>"

definition settle_issues :: "(string \<Rightarrow> uuid) \<Rightarrow> uuid \<Rightarrow> uuid \<Rightarrow> datetime \<Rightarrow> anomaly list \<Rightarrow> issue_item list \<Rightarrow>
    scan_state \<times> uuid list" where
  "settle_issues draw site snapshot now anomalies issues =
    (let s = fold (take_anomaly draw site snapshot now) anomalies \<lparr>ss_issues = issues, ss_seen = [], ss_created = [], ss_updated = []\<rparr>;
         resolved = map ii_id (filter (stale_issue site (ss_seen s)) (ss_issues s))
     in (s\<lparr>ss_issues := update_rows (stale_issue site (ss_seen s)) (resolve_issue now) (ss_issues s)\<rparr>, resolved))"

text \<open>What the checks of a scan see, and the site with what they found.\<close>

definition tls_seen :: "audit_services \<Rightarrow> website \<Rightarrow> tls_status option" where
  "tls_seen sv site = map_option (\<lambda>check. check (ws_domain site)) (au_tls sv)"

definition gtm_seen :: "audit_services \<Rightarrow> website \<Rightarrow> gtm_check option" where
  "gtm_seen sv site = (case au_gtm sv of None \<Rightarrow> None | Some check \<Rightarrow> check (ws_domain site))"

definition stack_seen :: "audit_services \<Rightarrow> website \<Rightarrow> stack_detection" where
  "stack_seen sv site = au_detector sv (''https://'' @ ws_domain site)"

definition scanned_site :: "audit_services \<Rightarrow> website \<Rightarrow> website" where
  "scanned_site sv site =
    (let site' = site\<lparr>ws_detected_stack := Some (sd_stack (stack_seen sv site))\<rparr>
     in case tls_seen sv site of None \<Rightarrow> site' | Some t \<Rightarrow> apply_tls_status t site')"

definition run_audit :: "audit_services \<Rightarrow> (string \<Rightarrow> uuid) \<Rightarrow> uuid \<Rightarrow> datetime \<Rightarrow> website \<Rightarrow> uuid option \<Rightarrow> string option \<Rightarrow>
    'a audit_db_scheme \<Rightarrow> ('a audit_db_scheme \<times> audit_run) audited" where
  "run_audit sv draw snapshot now site user ip db =
     try_bind (au_probe sv (scanned_site sv site) (google_links db) (google_connections db)) (\<lambda>(data, conns).
       (let metrics = build_metrics (stack_seen sv site) data (tls_seen sv site) (gtm_seen sv site);
            outcome = settle_issues draw (ws_id site) snapshot now (detect_anomalies data (tls_seen sv site) (gtm_seen sv site)) (issue_items db);
            s = fst outcome
        in Inr (db\<lparr>websites := update_rows (\<lambda>w. ws_id w = ws_id site) (\<lambda>_. scanned_site sv site) (websites db),
               google_connections := conns,
               audit_snapshots := audit_snapshots db @ [\<lparr>as_id = snapshot, as_website_id = ws_id site, as_captured_at = now,
                 as_source = ''composite'', as_metrics = metrics\<rparr>],
               issue_items := ss_issues s, audit_logs := audit_logs db @ [scan_log now site user ip]\<rparr>,
             \<lparr>ar_snapshot_id = snapshot, ar_detected_stack = sd_stack (stack_seen sv site), ar_metrics = metrics,
               ar_created = ss_created s, ar_updated = ss_updated s, ar_resolved = snd outcome\<rparr>)))"

section \<open>Changing an issue by hand\<close>

text \<open>\<open>patch_website_issue\<close> of \<open>app/api/v1/endpoints/audit.py\<close>; a refusal is its HTTP status.\<close>

definition PATCH_MAP :: "(string \<times> issue_status) list" where
  "PATCH_MAP = [(''todo'', Todo), (''in_progress'', In_progress), (''resolved'', Fixed), (''fixed'', Fixed),
     (''dismissed'', Dismissed_issue)]"

definition settled :: "issue_status \<Rightarrow> bool" where
  "settled s = (s \<in> {Fixed, Dismissed_issue})"

definition patch_issue :: "datetime \<Rightarrow> uuid \<Rightarrow> uuid \<Rightarrow> string \<Rightarrow> issue_item list \<Rightarrow> nat + issue_item list" where
  "patch_issue now site issue_id status issues =
    (case find_row (\<lambda>i. ii_id i = issue_id) issues of
       None \<Rightarrow> Inl 404
     | Some i \<Rightarrow> if ii_website_id i \<noteq> site then Inl 404
         else (case map_of PATCH_MAP (lower status) of
             None \<Rightarrow> Inl 422
           | Some target \<Rightarrow> Inr (update_rows (\<lambda>i. ii_id i = issue_id)
               (\<lambda>i. i\<lparr>ii_status := target, ii_resolved_at := (if settled target then Some now else None)\<rparr>) issues)))"

end
