(* ===== verification/Audit_Issues.thy ===== *)
theory Audit_Issues
  imports Audit_Engine
begin

text \<open>
  What a scan does to the issues of a site: each anomaly has its one issue, open unless someone dismissed it, what is no
  longer seen is closed, and the other sites are not touched. Scans and changes by hand keep the key of the issues
  unique and the date of resolution exact. The last section is about what a scan could not see.
\<close>

definition issue_at :: "issue_item list \<Rightarrow> uuid \<times> string \<Rightarrow> issue_item option" where
  "issue_at issues k = find_row (\<lambda>i. issue_key i = k) issues"

definition touched :: "(string \<Rightarrow> uuid) \<Rightarrow> uuid \<Rightarrow> uuid \<Rightarrow> datetime \<Rightarrow> anomaly \<Rightarrow> issue_item option \<Rightarrow> issue_item" where
  "touched draw site snapshot now a prev = (case prev of
     None \<Rightarrow> new_issue (draw (fingerprint_of site a)) site snapshot now a | Some i \<Rightarrow> seen_again snapshot now a i)"

lemma seen_again_sel [simp]:
  "issue_key (seen_again snapshot now a i) = issue_key i" "ii_id (seen_again snapshot now a i) = ii_id i"
  "ii_title (seen_again snapshot now a i) = da_title a" "ii_severity (seen_again snapshot now a i) = da_severity a"
  "ii_detected_at (seen_again snapshot now a i) = now" "ii_snapshot_id (seen_again snapshot now a i) = Some snapshot"
  "ii_status (seen_again snapshot now a i) = (if ii_status i = Fixed then Todo else ii_status i)"
  "ii_resolved_at (seen_again snapshot now a i) = (if ii_status i = Fixed then None else ii_resolved_at i)"
  by (simp_all add: seen_again_def Let_def issue_key_def)

lemma new_issue_sel [simp]:
  "issue_key (new_issue i site snapshot now a) = (site, fingerprint_of site a)" "ii_title (new_issue i site snapshot now a) = da_title a"
  "ii_severity (new_issue i site snapshot now a) = da_severity a" "ii_status (new_issue i site snapshot now a) = Todo"
  "ii_detected_at (new_issue i site snapshot now a) = now" "ii_snapshot_id (new_issue i site snapshot now a) = Some snapshot"
  "ii_resolved_at (new_issue i site snapshot now a) = None"
  by (simp_all add: new_issue_def issue_key_def)

lemma resolve_issue_sel [simp]:
  "issue_key (resolve_issue now i) = issue_key i" "ii_status (resolve_issue now i) = Fixed" "ii_resolved_at (resolve_issue now i) = Some now"
  by (simp_all add: resolve_issue_def issue_key_def)

lemma issue_at_snoc: "issue_at (issues @ [i]) k = (case issue_at issues k of None \<Rightarrow> if issue_key i = k then Some i else None | Some j \<Rightarrow> Some j)"
  by (induction issues) (auto simp: issue_at_def find_row_def)

lemma issue_at_key: "issue_at issues k = Some i \<Longrightarrow> issue_key i = k"
  by (auto simp: issue_at_def dest: find_row_SomeD)

section \<open>One anomaly\<close>

lemma take_anomaly_at:
  "issue_at (ss_issues (take_anomaly draw site snapshot now a s)) k =
    (if k = (site, fingerprint_of site a) then Some (touched draw site snapshot now a (issue_at (ss_issues s) k)) else issue_at (ss_issues s) k)"
proof (cases "issue_at (ss_issues s) (site, fingerprint_of site a)")
  case None
  then have "find_row (\<lambda>i. issue_key i = (site, fingerprint_of site a)) (ss_issues s) = None" by (simp add: issue_at_def)
  then show ?thesis using None by (auto simp: take_anomaly_def Let_def issue_at_snoc touched_def split: option.splits)
next
  case (Some i)
  then have found: "find_row (\<lambda>i. issue_key i = (site, fingerprint_of site a)) (ss_issues s) = Some i" by (simp add: issue_at_def)
  have key: "issue_key (seen_again snapshot now a r) = issue_key r" for r by simp
  show ?thesis
  proof (cases "k = (site, fingerprint_of site a)")
    case True
    then show ?thesis using found find_row_update_same [where key = issue_key and f = "seen_again snapshot now a", OF key]
      by (simp add: take_anomaly_def Let_def issue_at_def touched_def)
  next
    case False
    then show ?thesis using found find_row_update_other [where key = issue_key and f = "seen_again snapshot now a", OF key]
      by (simp add: take_anomaly_def Let_def issue_at_def)
  qed
qed

lemma take_anomaly_seen: "ss_seen (take_anomaly draw site snapshot now a s) = ss_seen s @ [fingerprint_of site a]"
  by (simp add: take_anomaly_def Let_def split: option.split)

lemma take_anomaly_uniq:
  assumes "uniq_by issue_key (ss_issues s)"
  shows "uniq_by issue_key (ss_issues (take_anomaly draw site snapshot now a s))"
proof (cases "find_row (\<lambda>i. issue_key i = (site, fingerprint_of site a)) (ss_issues s)")
  case None
  then have "(site, fingerprint_of site a) \<notin> issue_key ` set (ss_issues s)" by (auto simp: find_row_None)
  with None assms show ?thesis by (simp add: take_anomaly_def Let_def uniq_by_snoc)
next
  case (Some i)
  with assms show ?thesis by (simp add: take_anomaly_def Let_def uniq_by_update_rows)
qed

section \<open>All anomalies of a scan\<close>

text \<open>The status of an issue whose anomaly is seen.\<close>

definition reopened :: "issue_item option \<Rightarrow> issue_status" where
  "reopened prev = (case prev of None \<Rightarrow> Todo | Some i \<Rightarrow> if ii_status i = Fixed then Todo else ii_status i)"

lemma reopened_not_fixed: "reopened prev \<noteq> Fixed"
  by (simp add: reopened_def split: option.split)

lemma touched_status: "ii_status (touched draw site snapshot now a prev) = reopened prev"
  by (simp add: touched_def reopened_def split: option.split)

abbreviation scan_from :: "(string \<Rightarrow> uuid) \<Rightarrow> uuid \<Rightarrow> uuid \<Rightarrow> datetime \<Rightarrow> anomaly list \<Rightarrow> issue_item list \<Rightarrow> scan_state" where
  "scan_from draw site snapshot now as issues \<equiv>
     fold (take_anomaly draw site snapshot now) as \<lparr>ss_issues = issues, ss_seen = [], ss_created = [], ss_updated = []\<rparr>"

lemma scan_seen: "ss_seen (scan_from draw site snapshot now as issues) = map (fingerprint_of site) as"
  by (induction as rule: rev_induct) (simp_all add: take_anomaly_seen)

lemma scan_uniq: "uniq_by issue_key issues \<Longrightarrow> uniq_by issue_key (ss_issues (scan_from draw site snapshot now as issues))"
  by (induction as rule: rev_induct) (simp_all add: take_anomaly_uniq)

lemma scan_other:
  "k \<notin> (\<lambda>a. (site, fingerprint_of site a)) ` set as \<Longrightarrow>
    issue_at (ss_issues (scan_from draw site snapshot now as issues)) k = issue_at issues k"
  by (induction as rule: rev_induct) (auto simp: take_anomaly_at)

text \<open>What the issue of a seen anomaly holds.\<close>

definition up_to_date :: "uuid \<Rightarrow> uuid \<Rightarrow> datetime \<Rightarrow> anomaly list \<Rightarrow> issue_item option \<Rightarrow> issue_item \<Rightarrow> bool" where
  "up_to_date site snapshot now as prev i =
    (ii_status i = reopened prev \<and> ii_detected_at i = now \<and> ii_snapshot_id i = Some snapshot \<and>
     (\<exists>a \<in> set as. fingerprint_of site a = ii_fingerprint i \<and> ii_title i = da_title a \<and> ii_severity i = da_severity a))"

lemma scan_seen_issue:
  "a \<in> set as \<Longrightarrow> \<exists>i. issue_at (ss_issues (scan_from draw site snapshot now as issues)) (site, fingerprint_of site a) = Some i \<and>
     up_to_date site snapshot now as (issue_at issues (site, fingerprint_of site a)) i"
proof (induction as arbitrary: a rule: rev_induct)
  case (snoc b as)
  let ?k = "(site, fingerprint_of site a)"
  let ?before = "issue_at (ss_issues (scan_from draw site snapshot now as issues)) ?k"
  show ?case
  proof (cases "fingerprint_of site a = fingerprint_of site b")
    case True
    let ?i = "touched draw site snapshot now b ?before"
    have at: "issue_at (ss_issues (scan_from draw site snapshot now (as @ [b]) issues)) ?k = Some ?i"
      by (simp add: take_anomaly_at True)
    have prev: "reopened ?before = reopened (issue_at issues ?k)"
    proof (cases "\<exists>c \<in> set as. fingerprint_of site c = fingerprint_of site a")
      case True
      then obtain c where c: "c \<in> set as" "fingerprint_of site c = fingerprint_of site a" by blast
      then show ?thesis using snoc.IH [OF c(1)] reopened_not_fixed [of "issue_at issues ?k"]
        by (auto simp: up_to_date_def reopened_def)
    next
      case False
      then have "?before = issue_at issues ?k" by (intro scan_other) auto
      then show ?thesis by simp
    qed
    have key: "issue_key ?i = ?k" using issue_at_key [OF at] .
    have "up_to_date site snapshot now (as @ [b]) (issue_at issues ?k) ?i"
      using prev key True unfolding up_to_date_def touched_status
      by (auto simp: touched_def issue_key_def split: option.split)
    then show ?thesis using at by blast
  next
    case False
    then have "a \<in> set as" using snoc.prems by auto
    with snoc.IH [OF this] False show ?thesis
      by (auto simp: take_anomaly_at up_to_date_def)
  qed
qed simp

section \<open>A whole scan\<close>

lemma issue_at_resolve:
  "issue_at (update_rows (stale_issue site fps) (resolve_issue now) issues) k =
    map_option (\<lambda>i. if stale_issue site fps i then resolve_issue now i else i) (issue_at issues k)"
  by (induction issues) (auto simp: issue_at_def find_row_def update_rows_def)

definition settled_for :: "uuid \<Rightarrow> uuid \<Rightarrow> datetime \<Rightarrow> anomaly list \<Rightarrow> issue_item list \<Rightarrow> issue_item list \<Rightarrow> bool" where
  "settled_for site snapshot now as issues issues' =
    (uniq_by issue_key issues' \<and>
     (\<forall>w fp. w \<noteq> site \<longrightarrow> issue_at issues' (w, fp) = issue_at issues (w, fp)) \<and>
     (\<forall>a \<in> set as. \<exists>i. issue_at issues' (site, fingerprint_of site a) = Some i \<and>
        up_to_date site snapshot now as (issue_at issues (site, fingerprint_of site a)) i) \<and>
     (\<forall>fp. fp \<notin> fingerprint_of site ` set as \<longrightarrow> issue_at issues' (site, fp) = map_option (\<lambda>i.
        if ii_snapshot_id i \<noteq> None \<and> ii_status i \<in> {Todo, In_progress} then resolve_issue now i else i) (issue_at issues (site, fp))))"

lemma settle_issues_settled:
  assumes uniq: "uniq_by issue_key issues"
  shows "settled_for site snapshot now as issues (ss_issues (fst (settle_issues draw site snapshot now as issues)))"
proof -
  let ?s = "scan_from draw site snapshot now as issues"
  let ?fps = "map (fingerprint_of site) as"
  have res: "ss_issues (fst (settle_issues draw site snapshot now as issues)) =
      update_rows (stale_issue site ?fps) (resolve_issue now) (ss_issues ?s)"
    by (simp add: settle_issues_def Let_def scan_seen)
  have other: "issue_at (ss_issues ?s) (w, fp) = issue_at issues (w, fp)" if "w \<noteq> site \<or> fp \<notin> fingerprint_of site ` set as" for w fp
    using that by (intro scan_other) auto
  have foreign: "\<not> stale_issue site ?fps i" if "issue_at xs (w, fp) = Some i" "w \<noteq> site" for xs w fp i
    using issue_at_key [OF that(1)] that(2) by (auto simp: stale_issue_def issue_key_def)
  have current: "\<not> stale_issue site ?fps i" if "issue_at xs (site, fingerprint_of site a) = Some i" "a \<in> set as" for xs a i
    using issue_at_key [OF that(1)] that(2) by (auto simp: stale_issue_def issue_key_def)
  have gone: "stale_issue site ?fps i = (ii_snapshot_id i \<noteq> None \<and> ii_status i \<in> {Todo, In_progress})"
    if "issue_at xs (site, fp) = Some i" "fp \<notin> fingerprint_of site ` set as" for xs fp i
    using issue_at_key [OF that(1)] that(2) by (auto simp: stale_issue_def issue_key_def)
  have uniq': "uniq_by issue_key (update_rows (stale_issue site ?fps) (resolve_issue now) (ss_issues ?s))"
    by (intro uniq_by_update_rows scan_uniq uniq) simp
  have c2: "\<forall>w fp. w \<noteq> site \<longrightarrow> issue_at (update_rows (stale_issue site ?fps) (resolve_issue now) (ss_issues ?s)) (w, fp) = issue_at issues (w, fp)"
  proof (intro allI impI)
    fix w fp assume w: "w \<noteq> site"
    show "issue_at (update_rows (stale_issue site ?fps) (resolve_issue now) (ss_issues ?s)) (w, fp) = issue_at issues (w, fp)"
      unfolding issue_at_resolve other [OF disjI1, OF w]
      using foreign [OF _ w] by (cases "issue_at issues (w, fp)") auto
  qed
  have c3: "\<forall>a \<in> set as. \<exists>i. issue_at (update_rows (stale_issue site ?fps) (resolve_issue now) (ss_issues ?s)) (site, fingerprint_of site a) = Some i \<and>
        up_to_date site snapshot now as (issue_at issues (site, fingerprint_of site a)) i"
  proof
    fix a assume a: "a \<in> set as"
    obtain i where i: "issue_at (ss_issues ?s) (site, fingerprint_of site a) = Some i"
        "up_to_date site snapshot now as (issue_at issues (site, fingerprint_of site a)) i"
      using scan_seen_issue [OF a] by blast
    then show "\<exists>i. issue_at (update_rows (stale_issue site ?fps) (resolve_issue now) (ss_issues ?s)) (site, fingerprint_of site a) = Some i \<and>
        up_to_date site snapshot now as (issue_at issues (site, fingerprint_of site a)) i"
      using current [OF i(1) a] by (simp add: issue_at_resolve)
  qed
  have c4: "\<forall>fp. fp \<notin> fingerprint_of site ` set as \<longrightarrow>
      issue_at (update_rows (stale_issue site ?fps) (resolve_issue now) (ss_issues ?s)) (site, fp) = map_option (\<lambda>i.
        if ii_snapshot_id i \<noteq> None \<and> ii_status i \<in> {Todo, In_progress} then resolve_issue now i else i) (issue_at issues (site, fp))"
  proof (intro allI impI)
    fix fp assume fp: "fp \<notin> fingerprint_of site ` set as"
    show "issue_at (update_rows (stale_issue site ?fps) (resolve_issue now) (ss_issues ?s)) (site, fp) = map_option (\<lambda>i.
        if ii_snapshot_id i \<noteq> None \<and> ii_status i \<in> {Todo, In_progress} then resolve_issue now i else i) (issue_at issues (site, fp))"
      unfolding issue_at_resolve other [OF disjI2, OF fp]
      using gone [OF _ fp] by (cases "issue_at issues (site, fp)") auto
  qed
  show ?thesis unfolding settled_for_def res using uniq' c2 c3 c4 by blast
qed

lemma run_audit_result:
  assumes "run_audit sv draw snapshot now site user ip db = Inr (db', run)"
  shows "\<exists>data conns. au_probe sv (scanned_site sv site) (google_links db) (google_connections db) = Inr (data, conns) \<and>
    issue_items db' = ss_issues (fst (settle_issues draw (ws_id site) snapshot now
      (detect_anomalies data (tls_seen sv site) (gtm_seen sv site)) (issue_items db)))"
  using assms unfolding run_audit_def Let_def by (auto simp: try_bind_eq_Inr)


text \<open>A scan of a site without a fault, which has an open issue of an earlier scan.\<close>

definition old_issue :: issue_item where
  "old_issue = \<lparr>ii_id = 7, ii_website_id = 1, ii_title = ''old'', ii_description = [], ii_category = Seo_issue, ii_severity = Low_issue,
     ii_status = Todo, ii_fingerprint = ''old'', ii_detected_at = 0, ii_resolved_at = None, ii_snapshot_id = Some 5\<rparr>"

definition one_site :: website where
  "one_site = \<lparr>ws_id = 1, ws_workspace_id = 3, ws_domain = ''example.org'', ws_display_name = [], ws_detected_stack = None, ws_stack_label = None, ws_allow_insecure_probe = False,
     ws_ssl_status = None, ws_ssl_expires_at = None, ws_ssl_checked_at = None, ws_archived_at = None\<rparr>"

definition old_db :: audit_db where
  "old_db = \<lparr>job_runs = [], schedules = [], websites = [one_site], quota_events = [], metric_points = [], metric_rollups = [],
     catalogue = [],
     profiles = [], item_statuses = [], item_events = [], google_links = [], google_connections = [], issue_items = [old_issue],
     audit_snapshots = [], audit_logs = []\<rparr>"

definition quiet_services :: audit_services where
  "quiet_services = \<lparr>au_detector = (\<lambda>_. detection Unknown [] 0), au_tls = None, au_gtm = None,
     au_probe = (\<lambda>_ _ conns. Inr (NEUTRAL, conns))\<rparr>"

lemma neutral_has_no_anomaly: "detect_anomalies NEUTRAL None None = []"
  by code_simp


section \<open>Scans and changes by hand\<close>

text \<open>An issue has a date of resolution exactly when it is fixed or dismissed.\<close>

definition dated :: "issue_item \<Rightarrow> bool" where
  "dated i = ((ii_resolved_at i \<noteq> None) = settled (ii_status i))"

lemma dated_pieces [simp]:
  "dated (new_issue n site snapshot now a)" "dated i \<Longrightarrow> dated (seen_again snapshot now a i)" "dated (resolve_issue now i)"
  by (auto simp: dated_def settled_def)

lemma dated_update: "\<forall>i \<in> set issues. dated i \<Longrightarrow> (\<And>i. dated i \<Longrightarrow> dated (f i)) \<Longrightarrow> \<forall>i \<in> set (update_rows P f issues). dated i"
  by (auto simp: table_simps)

lemma dated_take:
  assumes "\<forall>i \<in> set (ss_issues s). dated i"
  shows "\<forall>i \<in> set (ss_issues (take_anomaly draw site snapshot now a s)). dated i"
proof (cases "find_row (\<lambda>i. issue_key i = (site, fingerprint_of site a)) (ss_issues s)")
  case None
  then show ?thesis using assms by (simp add: take_anomaly_def Let_def)
next
  case (Some i)
  then show ?thesis using dated_update [OF assms, of "seen_again snapshot now a"] by (simp add: take_anomaly_def Let_def)
qed

lemma dated_scan:
  "\<forall>i \<in> set issues. dated i \<Longrightarrow> \<forall>i \<in> set (ss_issues (scan_from draw site snapshot now as issues)). dated i"
  by (induction as rule: rev_induct) (simp_all add: dated_take)

definition issues_ok :: "issue_item list \<Rightarrow> bool" where
  "issues_ok issues = (uniq_by issue_key issues \<and> (\<forall>i \<in> set issues. dated i))"

lemma settle_issues_ok:
  assumes "issues_ok issues"
  shows "issues_ok (ss_issues (fst (settle_issues draw site snapshot now as issues)))"
proof -
  have "uniq_by issue_key (ss_issues (fst (settle_issues draw site snapshot now as issues)))"
    using settle_issues_settled [of issues site snapshot now as draw] assms by (simp add: issues_ok_def settled_for_def)
  moreover have "\<forall>i \<in> set (ss_issues (fst (settle_issues draw site snapshot now as issues))). dated i"
    using dated_update [OF dated_scan, of issues "resolve_issue now"] assms by (simp add: settle_issues_def Let_def issues_ok_def)
  ultimately show ?thesis by (simp add: issues_ok_def)
qed

lemma patch_issue_ok:
  assumes "issues_ok issues" "patch_issue now site i status issues = Inr issues'"
  shows "issues_ok issues'"
proof -
  obtain r target where "find_row (\<lambda>r. ii_id r = i) issues = Some r" "ii_website_id r = site"
      "map_of PATCH_MAP (lower status) = Some target"
    using assms(2) by (auto simp: patch_issue_def split: option.splits if_splits)
  with assms(2) have issues': "issues' = update_rows (\<lambda>r. ii_id r = i)
      (\<lambda>r. r\<lparr>ii_status := target, ii_resolved_at := (if settled target then Some now else None)\<rparr>) issues"
    by (simp add: patch_issue_def)
  have "uniq_by issue_key issues'"
    unfolding issues' using assms(1) by (intro uniq_by_update_rows) (simp_all add: issues_ok_def issue_key_def)
  moreover have "\<forall>r \<in> set issues'. dated r"
    unfolding issues' using assms(1) by (intro dated_update) (simp_all add: issues_ok_def dated_def)
  ultimately show ?thesis by (simp add: issues_ok_def)
qed

text \<open>The database through the scans of the sites and the changes of issues; nobody else writes the table.\<close>

inductive audit_step :: "audit_db \<Rightarrow> audit_db \<Rightarrow> bool" where
  scan: "run_audit sv draw snapshot now site user ip db = Inr (db', run) \<Longrightarrow> audit_step db db'"
| patch: "patch_issue now site i status (issue_items db) = Inr issues' \<Longrightarrow> audit_step db (db\<lparr>issue_items := issues'\<rparr>)"

inductive_cases audit_stepE: "audit_step db db'"

inductive audit_reachable :: "audit_db \<Rightarrow> audit_db \<Rightarrow> bool" for db0 :: audit_db where
  start: "audit_reachable db0 db0"
| step: "audit_reachable db0 db \<Longrightarrow> audit_step db db' \<Longrightarrow> audit_reachable db0 db'"

lemma scan_ok:
  "run_audit sv draw snapshot now site user ip db = Inr (db', run) \<Longrightarrow> issues_ok (issue_items db) \<Longrightarrow> issues_ok (issue_items db')"
  using run_audit_result settle_issues_ok by metis

lemma audit_step_ok: "audit_step db db' \<Longrightarrow> issues_ok (issue_items db) \<Longrightarrow> issues_ok (issue_items db')"
  by (elim audit_stepE) (auto intro: scan_ok patch_issue_ok)

text \<open>
  C28: The table of issues stays sound. Through any sequence of scans of any sites and of changes by hand, a site has at
  most one issue for each fingerprint, and an issue has a date of resolution exactly when it is fixed or dismissed.
\<close>
theorem issues_stay_sound:
  assumes "audit_reachable db0 db" "issues_ok (issue_items db0)"
  shows "issues_ok (issue_items db)"
  using assms by (induction rule: audit_reachable.induct) (auto intro: audit_step_ok)

theorem issues_stay_sound_witness:
  "\<exists>db. audit_reachable old_db db \<and> db \<noteq> old_db \<and> issues_ok (issue_items db)"
proof -
  let ?db = "old_db\<lparr>issue_items := [old_issue\<lparr>ii_status := Dismissed_issue, ii_resolved_at := Some 50\<rparr>]\<rparr>"
  have "patch_issue 50 1 7 ''Dismissed'' (issue_items old_db) = Inr (issue_items ?db)" by code_simp
  then have "audit_step old_db (old_db\<lparr>issue_items := issue_items ?db\<rparr>)" by (rule audit_step.patch)
  then have reach: "audit_reachable old_db ?db"
    using audit_reachable.step [OF audit_reachable.start] by simp
  moreover have "issues_ok (issue_items old_db)"
    by (simp add: issues_ok_def uniq_by_def old_db_def old_issue_def dated_def settled_def)
  ultimately have "issues_ok (issue_items ?db)" by (rule issues_stay_sound)
  moreover have "?db \<noteq> old_db" by (simp add: old_db_def old_issue_def)
  ultimately show ?thesis using reach by blast
qed

section \<open>What a scan could not see\<close>

text \<open>
  Signals that could not be read look like signals without a fault. When Analytics does not answer, or the site cannot be
  reached for its certificate, no anomaly is found there: the next scan closes the open issues as fixed.
\<close>

lemma outage_has_no_anomaly:
  "ga4_anomalies degraded_ga4 = []" "tl_status t = ''unreachable'' \<Longrightarrow> tls_anomaly t = None"
  by (simp_all add: ga4_anomalies_def purchase_anomaly_def degraded_ga4_def ga4_score_def tls_anomaly_def)

lemma outage_closes_issue:
  assumes "uniq_by issue_key issues" "issue_at issues (site, fp) = Some i" "ii_snapshot_id i \<noteq> None" "ii_status i = Todo"
    and unseen: "fp \<notin> fingerprint_of site ` set (gsc_anomalies (pd_gsc data) @ lcp_anomaly source (pd_cwv data) @
      inp_anomaly source (pd_cwv data) @ cls_anomaly (pd_cwv data))"
    and source: "source = (if cw_field_data (pd_cwv data) then ''terrain'' else ''labo'')"
    and outage: "pd_ga4 data = degraded_ga4"
  shows "\<exists>i'. issue_at (ss_issues (fst (settle_issues draw site snapshot now (detect_anomalies data None None) issues))) (site, fp) = Some i' \<and>
    ii_status i' = Fixed"
proof -
  have "fp \<notin> fingerprint_of site ` set (detect_anomalies data None None)"
    using unseen by (simp add: detect_anomalies_def Let_def outage outage_has_no_anomaly source)
  then show ?thesis
    using settle_issues_settled [OF assms(1), of site snapshot now "detect_anomalies data None None" draw] assms(2-4)
    by (auto simp: settled_for_def)
qed

end
