(* ===== verification/Site_Links.thy ===== *)
theory Site_Links
  imports Google_Access
begin

text \<open>
  The automatic linking of a site to its Google properties (\<open>app/services/measurement/autolink.py\<close>, with
  \<open>web_stream_hosts\<close> of \<open>google_reader.py\<close>): the property of Analytics and the site of Search Console that
  match the domain are linked when the choice is unique and everything could be read; a link that exists is
  never changed. Text is ASCII. The parameters are the refresh of a token, the discovery of the resources of an
  account and the reading of the hosts of a property; what other transactions do before the lock of the site
  is taken is the parameter \<open>meanwhile\<close>.
\<close>

section \<open>Addresses\<close>

text \<open>\<open>urlsplit(url)\<close>: scheme, network location, path and query; \<open>None\<close> is its \<open>ValueError\<close>.\<close>

record url_pieces =
  ue_scheme :: string
  ue_netloc :: string
  ue_path :: string
  ue_query :: string

definition url_split :: "(string \<Rightarrow> bool) \<Rightarrow> string \<Rightarrow> url_pieces option" where
  "url_split host_ok url0 =
    (let url1 = filter (\<lambda>c. of_char c \<notin> {9, 10, 13 :: nat}) (dropWhile (\<lambda>c. (of_char c :: nat) \<le> 32) url0);
         url = after_scheme url1;
         has_netloc = (take 2 url = ''//'');
         netloc = (if has_netloc then takeWhile (\<lambda>c. c \<notin> set ''/?#'') (drop 2 url) else []);
         rest = takeWhile (\<lambda>c. c \<noteq> CHR ''#'') (if has_netloc then drop (length netloc) (drop 2 url) else url);
         path = takeWhile (\<lambda>c. c \<noteq> CHR ''?'') rest
     in if bad_brackets host_ok netloc then None
        else Some \<lparr>ue_scheme = lower (take (length url1 - length url - 1) url1), ue_netloc = netloc, ue_path = path, ue_query = drop (length path + 1) rest\<rparr>)"

text \<open>\<open>parts.hostname\<close>, with the empty text for \<open>None\<close>.\<close>

definition host_name :: "url_pieces \<Rightarrow> string" where
  "host_name parts =
    (let info = rev (takeWhile (\<lambda>c. c \<noteq> CHR ''@'') (rev (ue_netloc parts)));
         host = (if CHR ''['' \<in> set info
                 then takeWhile (\<lambda>c. c \<noteq> CHR '']'') (drop 1 (dropWhile (\<lambda>c. c \<noteq> CHR ''['') info))
                 else takeWhile (\<lambda>c. c \<noteq> CHR '':'') info);
         name = takeWhile (\<lambda>c. c \<noteq> CHR ''%'') host
     in lower name @ drop (length name) host)"

definition split_site :: "(string \<Rightarrow> bool) \<Rightarrow> string \<Rightarrow> url_pieces option" where
  "split_site host_ok v =
    (let t = remove_prefix ''sc-domain:'' (lower (strip v))
     in url_split host_ok (if contains ''//'' t then t else ''//'' @ t))"

definition raw_host :: "(string \<Rightarrow> bool) \<Rightarrow> string \<Rightarrow> string" where
  "raw_host host_ok v = (case split_site host_ok v of None \<Rightarrow> [] | Some parts \<Rightarrow> host_name parts)"

definition is_whole_site :: "(string \<Rightarrow> bool) \<Rightarrow> string \<Rightarrow> bool" where
  "is_whole_site host_ok resource_id =
    (case split_site host_ok resource_id of None \<Rightarrow> False | Some parts \<Rightarrow> ue_path parts \<in> {[], ''/''})"

definition normalize_host :: "(string \<Rightarrow> bool) \<Rightarrow> string \<Rightarrow> string" where
  "normalize_host host_ok v = remove_prefix ''www.'' (raw_host host_ok v)"

definition gsc_kind :: "string \<Rightarrow> nat" where
  "gsc_kind resource_id =
    (if starts_with ''sc-domain:'' resource_id then 0
     else if starts_with ''https://'' resource_id then 1
     else if starts_with ''http://'' resource_id then 2
     else 3)"

section \<open>Outcomes\<close>

datatype link_status = Made_link | Already_linked | Ambiguous_link | No_match | Skipped_link | Incomplete_view

record link_outcome =
  lo_status :: link_status
  lo_resource_id :: "string option"
  lo_display_name :: "string option"
  lo_connection_id :: "uuid option"
  lo_candidates :: "string list"
  lo_reason :: "string option"

definition plain_outcome :: "link_status \<Rightarrow> string list \<Rightarrow> string option \<Rightarrow> link_outcome" where
  "plain_outcome status candidates reason = \<lparr>lo_status = status, lo_resource_id = None, lo_display_name = None,
     lo_connection_id = None, lo_candidates = candidates, lo_reason = reason\<rparr>"

definition link_found :: "string \<Rightarrow> string option \<Rightarrow> uuid \<Rightarrow> link_outcome" where
  "link_found resource_id name connection_id = \<lparr>lo_status = Made_link, lo_resource_id = Some resource_id,
     lo_display_name = name, lo_connection_id = Some connection_id, lo_candidates = [], lo_reason = None\<rparr>"

definition MESSAGES :: "((link_status \<times> string option) \<times> string) list" where
  "MESSAGES = [
     ((Made_link, None), ''Liaison faite automatiquement.''),
     ((Already_linked, None), ''D'' @ e_acute @ ''j'' @ a_grave @ '' li'' @ e_acute @ '' : ton choix est conserv'' @ e_acute
    @ ''.''),
     ((Ambiguous_link, None), ''Plusieurs correspondances : choisis celle '' @ a_grave @ '' lier.''),
     ((Ambiguous_link, Some ''incomplete''), ''V'' @ e_acute @ ''rification incompl'' @ e_grave @ ''te : rien n'' @ apos @ ''a '' @ e_acute
    @ ''t'' @ e_acute @ '' li'' @ e_acute @ ''. R'' @ e_acute @ ''essaie, ou choisis '' @ a_grave
    @ '' la main.''),
     ((No_match, None), ''Aucune correspondance pour ce domaine dans le compte connect'' @ e_acute @ ''.''),
     ((No_match, Some ''unverified''), ''Le site n'' @ apos @ ''appara'' @ i_circ @ ''t que comme propri'' @ e_acute @ ''t'' @ e_acute
    @ '' non valid'' @ e_acute @ ''e dans Search Console : valide-le, ou lie-le '' @ a_grave
    @ '' la main.''),
     ((No_match, Some ''path_only''), ''Seul un pr'' @ e_acute @ ''fixe de chemin (sous-dossier) existe dans Search Console : ce n'' @ apos
    @ ''est pas le site entier, rien n'' @ apos @ ''a '' @ e_acute @ ''t'' @ e_acute @ '' li'' @ e_acute
    @ ''.''),
     ((Skipped_link, None), ''Aucune connexion Google utilisable : reconnecte ton compte.''),
     ((Incomplete_view, None), ''V'' @ e_acute @ ''rification incompl'' @ e_grave @ ''te : r'' @ e_acute @ ''essaie, ou lie ''
    @ a_grave @ '' la main.'')]"

definition outcome_message :: "link_outcome \<Rightarrow> string" where
  "outcome_message out =
    (case map_of MESSAGES (lo_status out, lo_reason out) of
       Some text \<Rightarrow> text
     | None \<Rightarrow> get_default [] MESSAGES (lo_status out, None))"

section \<open>The choice\<close>

text \<open>\<open>d.setdefault(k, v)\<close>.\<close>

definition set_default :: "'k \<Rightarrow> 'v \<Rightarrow> ('k \<times> 'v) list \<Rightarrow> ('k \<times> 'v) list" where
  "set_default k v d = dict_update k (\<lambda>old. case old of None \<Rightarrow> v | Some w \<Rightarrow> w) d"

definition site_matches :: "(string \<Rightarrow> bool) \<Rightarrow> string \<Rightarrow> (uuid \<times> string) list \<Rightarrow> (string \<times> uuid) list" where
  "site_matches host_ok domain sites =
     fold (\<lambda>(c, r). if normalize_host host_ok r = normalize_host host_ok domain \<and> is_whole_site host_ok r then set_default r c else id)
       sites []"

definition has_path_only :: "(string \<Rightarrow> bool) \<Rightarrow> string \<Rightarrow> (uuid \<times> string) list \<Rightarrow> bool" where
  "has_path_only host_ok domain sites =
     list_ex (\<lambda>(_, r). normalize_host host_ok r = normalize_host host_ok domain \<and> \<not> is_whole_site host_ok r) sites"

definition best_sites :: "(string \<Rightarrow> bool) \<Rightarrow> string \<Rightarrow> string list \<Rightarrow> string list" where
  "best_sites host_ok domain ids =
    (let top = filter (\<lambda>r. gsc_kind r = Min (gsc_kind ` set ids)) ids;
         exact = filter (\<lambda>r. raw_host host_ok r = raw_host host_ok domain) top
     in if 1 < length top \<and> length exact = 1 then exact else top)"

definition pick_gsc_site :: "(string \<Rightarrow> bool) \<Rightarrow> string \<Rightarrow> (uuid \<times> string) list \<Rightarrow> link_outcome" where
  "pick_gsc_site host_ok domain sites =
    (let found = site_matches host_ok domain sites; top = best_sites host_ok domain (map fst found)
     in if found = [] then plain_outcome No_match [] (if has_path_only host_ok domain sites then Some ''path_only'' else None)
        else if length top = 1 then link_found (hd top) None (the (map_of found (hd top)))
        else plain_outcome Ambiguous_link (sort top) None)"

type_synonym ga4_candidate = "uuid \<times> string \<times> string option \<times> string list"

definition property_hits :: "(string \<Rightarrow> bool) \<Rightarrow> string \<Rightarrow> ga4_candidate list \<Rightarrow> (string \<times> uuid \<times> string option) list" where
  "property_hits host_ok domain candidates =
     fold (\<lambda>(c, r, name, hosts). if normalize_host host_ok domain \<in> normalize_host host_ok ` set hosts
       then set_default r (c, name) else id) candidates []"

definition pick_ga4_property :: "(string \<Rightarrow> bool) \<Rightarrow> string \<Rightarrow> ga4_candidate list \<Rightarrow> link_outcome" where
  "pick_ga4_property host_ok domain candidates =
    (case property_hits host_ok domain candidates of
       [] \<Rightarrow> plain_outcome No_match [] None
     | [(r, c, name)] \<Rightarrow> link_found r name c
     | hits \<Rightarrow> plain_outcome Ambiguous_link (sort (map fst hits)) None)"

definition VERIFIED_PERMISSIONS :: "string list" where
  "VERIFIED_PERMISSIONS = [''siteOwner'', ''siteFullUser'', ''siteRestrictedUser'']"

definition gsc_outcome :: "(string \<Rightarrow> bool) \<Rightarrow> string \<Rightarrow> (uuid \<times> string) list \<Rightarrow> string list \<Rightarrow> link_outcome" where
  "gsc_outcome host_ok domain verified unverified =
    (let out = pick_gsc_site host_ok domain verified
     in if lo_status out = No_match \<and> lo_reason out = None \<and>
           list_ex (\<lambda>r. normalize_host host_ok r = normalize_host host_ok domain) unverified
        then plain_outcome No_match [] (Some ''unverified'') else out)"

definition settle_link :: "link_outcome \<Rightarrow> bool \<Rightarrow> link_outcome" where
  "settle_link out whole =
    (if whole then out
     else case (lo_status out, lo_resource_id out) of
         (Made_link, Some r) \<Rightarrow> plain_outcome Ambiguous_link [r] (Some ''incomplete'')
       | (Ambiguous_link, _) \<Rightarrow> plain_outcome Ambiguous_link (lo_candidates out) (Some ''incomplete'')
       | (No_match, _) \<Rightarrow> plain_outcome Incomplete_view [] None
       | _ \<Rightarrow> out)"

section \<open>Reading the accounts\<close>

text \<open>
  \<open>web_stream_hosts\<close>: the hosts of the web streams of a property; an address that is no URL raises
  \<open>ValueError\<close>.
\<close>

definition stream_host :: "(string \<Rightarrow> bool) \<Rightarrow> json_dict \<Rightarrow> string list reading" where
  "stream_host host_ok web =
    (case jget web ''defaultUri'' of
       JStr (x # xs) \<Rightarrow>
         (let uri = x # xs
          in case url_split host_ok (if contains ''//'' uri then uri else ''//'' @ uri) of
               None \<Rightarrow> Inl (Crash ValueError)
             | Some parts \<Rightarrow> Inr (if host_name parts = [] then [] else [lower (host_name parts)]))
     | _ \<Rightarrow> Inr [])"

fun stream_hosts_of :: "(string \<Rightarrow> bool) \<Rightarrow> json_dict list \<Rightarrow> string list reading" where
  "stream_hosts_of host_ok [] = Inr []"
| "stream_hosts_of host_ok (web # rest) =
     try_bind (stream_host host_ok web) (\<lambda>hs. try_bind (stream_hosts_of host_ok rest) (\<lambda>more. Inr (hs @ more)))"

definition web_stream_hosts :: "(string \<Rightarrow> bool) \<Rightarrow> http_client \<Rightarrow> string \<Rightarrow> string \<Rightarrow> string list reading" where
  "web_stream_hosts host_ok http token property_id =
     try_bind (read_web_streams http (no_access\<lparr>rd_ga4_token := Some token, rd_ga4_property := Some property_id\<rparr>))
       (stream_hosts_of host_ok)"

record discovered_resources =
  dr_ga4_properties :: "(string \<times> string) list"
  dr_gsc_sites :: "(string \<times> string) list"

text \<open>The outside world; \<open>None\<close> is an error of OAuth or of the network.\<close>

record link_services =
  ls_host_ok :: "string \<Rightarrow> bool"
  ls_refresh :: refresher
  ls_discover :: "string \<Rightarrow> discovered_resources option"
  ls_stream_hosts :: "string \<Rightarrow> string \<Rightarrow> string list reading"

definition MAX_PROPERTIES :: nat where "MAX_PROPERTIES = 20"

text \<open>What the reading of the accounts has found.\<close>

record account_view =
  av_gsc_sites :: "(uuid \<times> string) list"
  av_unverified :: "string list"
  av_properties :: "(string \<times> uuid \<times> string \<times> string) list"
  av_usable :: bool
  av_complete :: bool

definition no_view :: account_view where
  "no_view = \<lparr>av_gsc_sites = [], av_unverified = [], av_properties = [], av_usable = False, av_complete = True\<rparr>"

lemma no_view_sel [simp]:
  "av_gsc_sites no_view = []" "av_properties no_view = []"
  by (simp_all add: no_view_def)

definition add_discovered :: "bool \<Rightarrow> bool \<Rightarrow> uuid \<Rightarrow> string \<Rightarrow> discovered_resources \<Rightarrow> account_view \<Rightarrow> account_view" where
  "add_discovered want_ga4 want_gsc c token d v =
    (let ok = filter (\<lambda>(_, p). p \<in> set VERIFIED_PERMISSIONS) (dr_gsc_sites d);
         bad = filter (\<lambda>(_, p). p \<notin> set VERIFIED_PERMISSIONS) (dr_gsc_sites d)
     in v\<lparr>av_usable := True,
          av_gsc_sites := av_gsc_sites v @ (if want_gsc then map (\<lambda>(r, _). (c, r)) ok else []),
          av_unverified := av_unverified v @ (if want_gsc then map fst bad else []),
          av_properties := (if want_ga4 then fold (\<lambda>(r, name). set_default r (c, token, name)) (dr_ga4_properties d) (av_properties v)
            else av_properties v)\<rparr>)"

definition read_account :: "link_services \<Rightarrow> bool \<Rightarrow> bool \<Rightarrow> google_connection \<Rightarrow> string option \<Rightarrow> account_view \<Rightarrow> account_view" where
  "read_account sv want_ga4 want_gsc connection token v =
    (case token of
       None \<Rightarrow> v\<lparr>av_complete := False\<rparr>
     | Some t \<Rightarrow>
         (case ls_discover sv t of
            None \<Rightarrow> v\<lparr>av_complete := False\<rparr>
          | Some d \<Rightarrow> add_discovered want_ga4 want_gsc (gn_id connection) t d v))"

fun read_accounts :: "link_services \<Rightarrow> bool \<Rightarrow> bool \<Rightarrow> google_connection list \<Rightarrow>
    account_view \<times> token_cache \<times> google_connection list \<Rightarrow> account_view \<times> token_cache \<times> google_connection list" where
  "read_accounts sv want_ga4 want_gsc [] st = st"
| "read_accounts sv want_ga4 want_gsc (connection # rest) (v, st) =
    (let (token, st') = access_token_for (ls_refresh sv) connection st
     in read_accounts sv want_ga4 want_gsc rest (read_account sv want_ga4 want_gsc connection token v, st'))"

text \<open>The hosts of each property; a property that cannot be read is left out, and this is known.\<close>

fun read_hosts :: "link_services \<Rightarrow> (string \<times> uuid \<times> string \<times> string) list \<Rightarrow> (ga4_candidate list \<times> bool) result" where
  "read_hosts sv [] = Inr ([], True)"
| "read_hosts sv ((r, c, token, name) # rest) =
    (case ls_stream_hosts sv token r of
       Inl (Crash e) \<Rightarrow> Inl e
     | Inl (Read_reason _) \<Rightarrow> try_bind (read_hosts sv rest) (\<lambda>(found, _). Inr (found, False))
     | Inr hosts \<Rightarrow> try_bind (read_hosts sv rest) (\<lambda>(found, whole). Inr ((c, r, Some name, hosts) # found, whole)))"

section \<open>Linking a site\<close>

definition existing_link :: "'a plan_db_scheme \<Rightarrow> uuid \<Rightarrow> resource_type \<Rightarrow> google_link option" where
  "existing_link db site kind =
    (case filter (\<lambda>l. gl_website_id l = site \<and> gl_resource_type l = kind) (google_links db) of
       [] \<Rightarrow> None | ls \<Rightarrow> Some (last ls))"

definition already_outcome :: "google_link \<Rightarrow> link_outcome" where
  "already_outcome l = \<lparr>lo_status = Already_linked, lo_resource_id = Some (gl_resource_id l), lo_display_name = None,
     lo_connection_id = None, lo_candidates = [], lo_reason = None\<rparr>"

text \<open>The active connections of the workspace of the site, by identifier.\<close>

definition usable_connections :: "website \<Rightarrow> google_connection list \<Rightarrow> google_connection list" where
  "usable_connections site conns =
     sort_key (\<lambda>c. unat (gn_id c)) (filter (\<lambda>c. gn_workspace_id c = ws_workspace_id site \<and> gn_status c = Conn_active) conns)"

definition add_link :: "uuid \<Rightarrow> resource_type \<Rightarrow> link_outcome \<Rightarrow> 'a plan_db_scheme \<Rightarrow> 'a plan_db_scheme" where
  "add_link site kind out db =
    (if lo_status out = Made_link
     then db\<lparr>google_links := google_links db @ [\<lparr>gl_website_id = site, gl_connection_id = the (lo_connection_id out),
       gl_resource_type = kind, gl_resource_id = the (lo_resource_id out), gl_display_name = lo_display_name out\<rparr>]\<rparr>
     else db)"

definition outcome_of :: "bool \<Rightarrow> bool \<Rightarrow> link_outcome \<Rightarrow> link_outcome" where
  "outcome_of usable whole picked = (if usable then settle_link picked whole else plain_outcome Skipped_link [] None)"

text \<open>
  The choice for one kind of resource once the lock is held: a link that is there now, the one that was
  there before, or the choice among what was read.
\<close>

definition final_outcome :: "google_link option \<Rightarrow> google_link option \<Rightarrow> link_outcome \<Rightarrow> link_outcome" where
  "final_outcome now_there before picked =
    (case now_there of
       Some l \<Rightarrow> already_outcome l
     | None \<Rightarrow> (case before of Some l \<Rightarrow> already_outcome l | None \<Rightarrow> picked))"

text \<open>What is done under the lock of the site, and the whole call.\<close>

definition settle_site :: "link_services \<Rightarrow> nat \<Rightarrow> website \<Rightarrow> (resource_type \<Rightarrow> google_link option) \<Rightarrow> account_view \<Rightarrow> ga4_candidate list \<Rightarrow> bool \<Rightarrow>
    'a plan_db_scheme \<Rightarrow> 'a plan_db_scheme \<times> link_outcome \<times> link_outcome" where
  "settle_site sv max_properties site old v candidates all_read db =
    (let ga4 = final_outcome (existing_link db (ws_id site) Ga4_property) (old Ga4_property)
           (outcome_of (av_usable v) (av_complete v \<and> length (av_properties v) \<le> max_properties \<and> all_read)
             (pick_ga4_property (ls_host_ok sv) (ws_domain site) candidates));
         gsc = final_outcome (existing_link db (ws_id site) Gsc_site) (old Gsc_site)
           (outcome_of (av_usable v) (av_complete v)
             (gsc_outcome (ls_host_ok sv) (ws_domain site) (av_gsc_sites v) (av_unverified v)))
     in (add_link (ws_id site) Gsc_site gsc (add_link (ws_id site) Ga4_property ga4 db), ga4, gsc))"

definition autolink_website :: "link_services \<Rightarrow> nat \<Rightarrow> website \<Rightarrow> ('a plan_db_scheme \<Rightarrow> 'a plan_db_scheme) \<Rightarrow>
    'a plan_db_scheme \<Rightarrow> ('a plan_db_scheme \<times> link_outcome \<times> link_outcome) result" where
  "autolink_website sv max_properties site meanwhile db =
    (let old = existing_link db (ws_id site); a = (old Ga4_property = None); b = (old Gsc_site = None)
     in if \<not> a \<and> \<not> b then Inr (db, already_outcome (the (old Ga4_property)), already_outcome (the (old Gsc_site)))
        else (let acc = read_accounts sv a b (usable_connections site (google_connections db)) (no_view, [], google_connections db);
                  v = fst acc
              in try_bind (if a then read_hosts sv (take max_properties (av_properties v)) else Inr ([], True)) (\<lambda>found.
                   Inr (settle_site sv max_properties site old v (fst found) (snd found)
                     (meanwhile (db\<lparr>google_connections := snd (snd acc)\<rparr>))))))"

section \<open>What the choice guarantees\<close>

lemma fold_set_default:
  fixes k :: "'x \<Rightarrow> 'k" and v :: "'x \<Rightarrow> 'v"
  defines "run \<equiv> \<lambda>P xs d. fold (\<lambda>x. if P x then set_default (k x) (v x) else id) xs d"
  shows fold_set_default_keys: "fst ` set (run P xs d) = fst ` set d \<union> k ` {x \<in> set xs. P x}"
    and fold_set_default_distinct: "distinct (map fst d) \<Longrightarrow> distinct (map fst (run P xs d))"
    and fold_set_default_entry: "map_of (run P xs d) r = Some y \<Longrightarrow>
      map_of d r = Some y \<or> (\<exists>x \<in> set xs. P x \<and> k x = r \<and> v x = y)"
proof -
  show "fst ` set (run P xs d) = fst ` set d \<union> k ` {x \<in> set xs. P x}"
    unfolding run_def by (induction xs arbitrary: d) (auto simp: set_default_def)
  show "distinct (map fst d) \<Longrightarrow> distinct (map fst (run P xs d))"
    unfolding run_def by (induction xs arbitrary: d) (auto simp: set_default_def)
  show "map_of (run P xs d) r = Some y \<Longrightarrow> map_of d r = Some y \<or> (\<exists>x \<in> set xs. P x \<and> k x = r \<and> v x = y)"
    unfolding run_def
  proof (induction xs arbitrary: d)
    case (Cons x xs)
    from Cons.prems Cons.IH [of "if P x then set_default (k x) (v x) d else d"] show ?case
      by (auto simp: set_default_def split: if_splits option.splits)
  qed simp
qed

definition site_wanted :: "(string \<Rightarrow> bool) \<Rightarrow> string \<Rightarrow> string \<Rightarrow> bool" where
  "site_wanted host_ok domain r = (normalize_host host_ok r = normalize_host host_ok domain \<and> is_whole_site host_ok r)"

lemma site_matches_fold: "site_matches host_ok domain sites =
    fold (\<lambda>x. if site_wanted host_ok domain (snd x) then set_default (snd x) (fst x) else id) sites []"
  by (simp add: site_matches_def site_wanted_def case_prod_unfold)

lemma site_matches_keys: "set (map fst (site_matches host_ok domain sites)) = {r \<in> snd ` set sites. site_wanted host_ok domain r}"
  unfolding site_matches_fold set_map fold_set_default_keys by auto

lemma site_matches_distinct: "distinct (map fst (site_matches host_ok domain sites))"
  unfolding site_matches_fold by (rule fold_set_default_distinct) simp

lemma site_matches_entry: "map_of (site_matches host_ok domain sites) r = Some c \<Longrightarrow> (c, r) \<in> set sites"
  unfolding site_matches_fold by (drule fold_set_default_entry) auto

text \<open>One of the properties is better than another: a wider kind, or the very host of the domain.\<close>

definition better_site :: "(string \<Rightarrow> bool) \<Rightarrow> string \<Rightarrow> string \<Rightarrow> string \<Rightarrow> bool" where
  "better_site host_ok domain r r' = (gsc_kind r < gsc_kind r' \<or>
     gsc_kind r = gsc_kind r' \<and> raw_host host_ok r = raw_host host_ok domain \<and> raw_host host_ok r' \<noteq> raw_host host_ok domain)"

lemma only_member: "length xs = 1 \<Longrightarrow> x \<in> set xs \<Longrightarrow> x = hd xs"
  by (cases xs) auto

lemma best_sites_unique:
  assumes "length (best_sites host_ok domain ids) = 1" "hd (best_sites host_ok domain ids) = r"
  shows "r \<in> set ids \<and> (\<forall>r' \<in> set ids. r' \<noteq> r \<longrightarrow> better_site host_ok domain r r')"
proof -
  define top where "top = filter (\<lambda>r. gsc_kind r = Min (gsc_kind ` set ids)) ids"
  define exact where "exact = filter (\<lambda>r. raw_host host_ok r = raw_host host_ok domain) top"
  have best: "best_sites host_ok domain ids = (if 1 < length top \<and> length exact = 1 then exact else top)"
    by (simp add: best_sites_def top_def exact_def Let_def)
  have "r \<in> set (best_sites host_ok domain ids)" using assms by (cases "best_sites host_ok domain ids") auto
  then have r: "r \<in> set top" unfolding best exact_def by (auto split: if_splits)
  have low: "gsc_kind r \<le> gsc_kind r'" if "r' \<in> set ids" for r'
    using r that by (auto simp: top_def)
  have tie: "r' \<in> set top" if "r' \<in> set ids" "\<not> gsc_kind r < gsc_kind r'" for r'
  proof -
    have "gsc_kind r' = gsc_kind r" using low [OF that(1)] that(2) by simp
    then show ?thesis using r that(1) by (simp add: top_def)
  qed
  show ?thesis
  proof (intro conjI ballI impI)
    show "r \<in> set ids" using r by (simp add: top_def)
    fix r' assume r': "r' \<in> set ids" "r' \<noteq> r"
    show "better_site host_ok domain r r'"
    proof (cases "gsc_kind r < gsc_kind r'")
      case False
      then have in_top: "r' \<in> set top" using tie r' by blast
      then have "\<not> length top = 1" using only_member [of top] r r'(2) by metis
      then have "best_sites host_ok domain ids = exact" "length exact = 1" using assms(1) best by (auto split: if_splits)
      then have "r \<in> set exact" "r' \<notin> set exact" using assms(2) only_member [of exact] r' by (cases exact; force)+
      then show ?thesis using False low [OF r'(1)] in_top by (auto simp: exact_def better_site_def)
    qed (simp add: better_site_def)
  qed
qed

lemma pick_gsc_made:
  assumes "pick_gsc_site host_ok domain sites = out" "lo_status out = Made_link"
  shows "\<exists>r c. out = link_found r None c \<and> (c, r) \<in> set sites \<and> site_wanted host_ok domain r \<and>
    (\<forall>r' \<in> snd ` set sites. site_wanted host_ok domain r' \<longrightarrow> r' \<noteq> r \<longrightarrow> better_site host_ok domain r r')"
proof -
  define found where "found = site_matches host_ok domain sites"
  define top where "top = best_sites host_ok domain (map fst found)"
  have top: "length top = 1" and out: "out = link_found (hd top) None (the (map_of found (hd top)))"
    using assms by (auto simp: pick_gsc_site_def found_def top_def Let_def plain_outcome_def link_found_def split: if_splits)
  from best_sites_unique [of host_ok domain "map fst found" "hd top"] top
  have best: "hd top \<in> set (map fst found)" "\<forall>r' \<in> set (map fst found). r' \<noteq> hd top \<longrightarrow> better_site host_ok domain (hd top) r'"
    by (simp_all add: top_def)
  then obtain c where "map_of found (hd top) = Some c" by (metis list.set_map map_of_eq_None_iff not_Some_eq)
  with best out show ?thesis
    using site_matches_entry [of host_ok domain sites "hd top" c] unfolding found_def site_matches_keys by auto
qed

lemma gsc_outcome_made: "lo_status (gsc_outcome host_ok domain verified unverified) = Made_link \<Longrightarrow>
    gsc_outcome host_ok domain verified unverified = pick_gsc_site host_ok domain verified"
  by (auto simp: gsc_outcome_def Let_def plain_outcome_def split: if_splits)

definition host_wanted :: "(string \<Rightarrow> bool) \<Rightarrow> string \<Rightarrow> string list \<Rightarrow> bool" where
  "host_wanted host_ok domain hosts = (normalize_host host_ok domain \<in> normalize_host host_ok ` set hosts)"

lemma property_hits_fold: "property_hits host_ok domain candidates =
    fold (\<lambda>x. if host_wanted host_ok domain (snd (snd (snd x))) then set_default (fst (snd x)) (fst x, fst (snd (snd x))) else id)
      candidates []"
  by (simp add: property_hits_def host_wanted_def case_prod_unfold)

lemma property_hits_keys: "fst ` set (property_hits host_ok domain candidates) =
    (\<lambda>x. fst (snd x)) ` {x \<in> set candidates. host_wanted host_ok domain (snd (snd (snd x)))}"
  unfolding property_hits_fold fold_set_default_keys by simp

lemma pick_ga4_made:
  assumes "pick_ga4_property host_ok domain candidates = out" "lo_status out = Made_link"
  shows "\<exists>r c name hosts. out = link_found r name c \<and> (c, r, name, hosts) \<in> set candidates \<and> host_wanted host_ok domain hosts \<and>
    (\<forall>(c', r', name', hosts') \<in> set candidates. r' \<noteq> r \<longrightarrow> \<not> host_wanted host_ok domain hosts')"
proof -
  obtain r c name where hits: "property_hits host_ok domain candidates = [(r, c, name)]" and out: "out = link_found r name c"
    using assms by (auto simp: pick_ga4_property_def plain_outcome_def link_found_def split: list.splits prod.splits)
  have "map_of (property_hits host_ok domain candidates) r = Some (c, name)" by (simp add: hits)
  then obtain x where "x \<in> set candidates" "host_wanted host_ok domain (snd (snd (snd x)))" "fst (snd x) = r"
      "(fst x, fst (snd (snd x))) = (c, name)"
    unfolding property_hits_fold by (auto dest!: fold_set_default_entry)
  then have "(c, r, name, snd (snd (snd x))) \<in> set candidates \<and> host_wanted host_ok domain (snd (snd (snd x)))"
    by (cases x) auto
  moreover have keys: "(\<lambda>x. fst (snd x)) ` {x \<in> set candidates. host_wanted host_ok domain (snd (snd (snd x)))} = {r}"
    using property_hits_keys [of host_ok domain candidates] hits by simp
  moreover have "r' = r" if "(c', r', name', hosts') \<in> set candidates" "host_wanted host_ok domain hosts'" for c' r' name' hosts'
    using that keys by (auto simp: image_iff set_eq_iff)
  ultimately show ?thesis using out by blast
qed

section \<open>What was read\<close>

text \<open>The resources an account answers with; \<open>None\<close> when it could not be read.\<close>

definition account_seen :: "link_services \<Rightarrow> google_connection \<Rightarrow> discovered_resources option" where
  "account_seen sv c = (case fresh_token (ls_refresh sv) c of None \<Rightarrow> None | Some t \<Rightarrow> ls_discover sv t)"

definition has_site :: "link_services \<Rightarrow> google_connection \<Rightarrow> string \<Rightarrow> bool" where
  "has_site sv c r = (\<exists>d p. account_seen sv c = Some d \<and> (r, p) \<in> set (dr_gsc_sites d) \<and> p \<in> set VERIFIED_PERMISSIONS)"

definition has_property :: "link_services \<Rightarrow> google_connection \<Rightarrow> string \<Rightarrow> bool" where
  "has_property sv c r = (\<exists>d. account_seen sv c = Some d \<and> r \<in> fst ` set (dr_ga4_properties d))"

definition read_fresh :: "link_services \<Rightarrow> bool \<Rightarrow> bool \<Rightarrow> google_connection list \<Rightarrow> account_view \<Rightarrow> account_view" where
  "read_fresh sv want_ga4 want_gsc rows v =
     fold (\<lambda>c. read_account sv want_ga4 want_gsc c (fresh_token (ls_refresh sv) c)) rows v"

lemma read_accounts_eq:
  assumes "uniq_by gn_id conns0" "set rows \<subseteq> set conns0" "Google_Access.seen (ls_refresh sv) conns0 ids st"
  shows "fst (read_accounts sv want_ga4 want_gsc rows (v, st)) = read_fresh sv want_ga4 want_gsc rows v \<and>
    Google_Access.seen (ls_refresh sv) conns0 (ids \<union> gn_id ` set rows) (snd (read_accounts sv want_ga4 want_gsc rows (v, st)))"
  using assms(2,3)
proof (induction rows arbitrary: v st ids)
  case (Cons c rows)
  obtain token st' where tok: "access_token_for (ls_refresh sv) c st = (token, st')" by (metis prod.collapse)
  have "c \<in> set conns0" using Cons.prems(1) by simp
  from seen_step [OF assms(1) this Cons.prems(2)] tok
  have st': "token = fresh_token (ls_refresh sv) c" "Google_Access.seen (ls_refresh sv) conns0 (insert (gn_id c) ids) st'" by simp_all
  from Cons.IH [OF _ st'(2), of "read_account sv want_ga4 want_gsc c token v"] Cons.prems(1) show ?case
    by (simp add: tok st'(1) read_fresh_def)
qed (simp add: read_fresh_def)

lemma read_account_eq:
  "read_account sv a b c (fresh_token (ls_refresh sv) c) v = (case account_seen sv c of
     None \<Rightarrow> v\<lparr>av_complete := False\<rparr>
   | Some d \<Rightarrow> add_discovered a b (gn_id c) (the (fresh_token (ls_refresh sv) c)) d v)"
  by (simp add: read_account_def account_seen_def split: option.splits)

lemma read_fresh_Cons: "read_fresh sv a b (c # rows) v = read_fresh sv a b rows (case account_seen sv c of
     None \<Rightarrow> v\<lparr>av_complete := False\<rparr>
   | Some d \<Rightarrow> add_discovered a b (gn_id c) (the (fresh_token (ls_refresh sv) c)) d v)"
  by (simp add: read_fresh_def read_account_eq)

lemma read_fresh_complete: "av_complete (read_fresh sv a b rows v) \<Longrightarrow> av_complete v \<and> (\<forall>c \<in> set rows. account_seen sv c \<noteq> None)"
proof (induction rows arbitrary: v)
  case (Cons c rows)
  from Cons.IH [OF Cons.prems [unfolded read_fresh_Cons]] show ?case
    by (auto simp: add_discovered_def Let_def split: option.splits)
qed (simp add: read_fresh_def)

lemma read_fresh_sites:
  "(i, r) \<in> set (av_gsc_sites (read_fresh sv a True rows v)) \<longleftrightarrow>
    (i, r) \<in> set (av_gsc_sites v) \<or> (\<exists>c \<in> set rows. gn_id c = i \<and> has_site sv c r)"
proof (induction rows arbitrary: v)
  case (Cons c rows)
  show ?case unfolding read_fresh_Cons Cons.IH
    by (cases "account_seen sv c") (auto simp: add_discovered_def Let_def has_site_def image_iff)
qed (simp add: read_fresh_def)

lemma fold_properties:
  "fst ` set (fold (\<lambda>(r, name). set_default r (c, token, name)) ps d) = fst ` set d \<union> fst ` set ps"
  "(r, x) \<in> set (fold (\<lambda>(r, name). set_default r (c, token, name)) ps d) \<Longrightarrow> distinct (map fst d) \<Longrightarrow>
    (r, x) \<in> set d \<or> fst x = c \<and> fst (snd x) = token \<and> r \<in> fst ` set ps"
  "distinct (map fst d) \<Longrightarrow> distinct (map fst (fold (\<lambda>(r, name). set_default r (c, token, name)) ps d))"
proof -
  have eq: "fold (\<lambda>(r, name). set_default r (c, token, name)) ps d =
      fold (\<lambda>p. if True then set_default (fst p) (c, token, snd p) else id) ps d"
    by (simp add: case_prod_unfold)
  show keys: "fst ` set (fold (\<lambda>(r, name). set_default r (c, token, name)) ps d) = fst ` set d \<union> fst ` set ps"
    unfolding eq fold_set_default_keys by simp
  show dist: "distinct (map fst d) \<Longrightarrow> distinct (map fst (fold (\<lambda>(r, name). set_default r (c, token, name)) ps d))"
    unfolding eq by (rule fold_set_default_distinct)
  assume "(r, x) \<in> set (fold (\<lambda>(r, name). set_default r (c, token, name)) ps d)" "distinct (map fst d)"
  then have "map_of (fold (\<lambda>(r, name). set_default r (c, token, name)) ps d) r = Some x" using dist by simp
  then have "map_of d r = Some x \<or> (\<exists>p \<in> set ps. True \<and> fst p = r \<and> (c, token, snd p) = x)"
    unfolding eq by (rule fold_set_default_entry)
  then show "(r, x) \<in> set d \<or> fst x = c \<and> fst (snd x) = token \<and> r \<in> fst ` set ps"
    by (auto dest: map_of_SomeD)
qed

lemma read_fresh_properties:
  assumes "distinct (map fst (av_properties v))"
  shows "fst ` set (av_properties (read_fresh sv True b rows v)) =
      fst ` set (av_properties v) \<union> {r. \<exists>c \<in> set rows. has_property sv c r} \<and>
    (\<forall>r i token name. (r, i, token, name) \<in> set (av_properties (read_fresh sv True b rows v)) \<longrightarrow>
      (r, i, token, name) \<in> set (av_properties v) \<or>
      (\<exists>c \<in> set rows. gn_id c = i \<and> has_property sv c r \<and> fresh_token (ls_refresh sv) c = Some token))"
  using assms
proof (induction rows arbitrary: v)
  case (Cons c rows)
  define v' where "v' = (case account_seen sv c of None \<Rightarrow> v\<lparr>av_complete := False\<rparr>
    | Some d \<Rightarrow> add_discovered True b (gn_id c) (the (fresh_token (ls_refresh sv) c)) d v)"
  have d: "distinct (map fst (av_properties v'))"
    using Cons.prems by (auto simp: v'_def add_discovered_def Let_def fold_properties(3) split: option.splits)
  have keys: "fst ` set (av_properties v') = fst ` set (av_properties v) \<union> {r. has_property sv c r}"
    by (auto simp: v'_def add_discovered_def Let_def fold_properties(1) has_property_def split: option.splits)
  have entry: "(r, i, token, name) \<in> set (av_properties v') \<Longrightarrow> (r, i, token, name) \<in> set (av_properties v) \<or>
      gn_id c = i \<and> has_property sv c r \<and> fresh_token (ls_refresh sv) c = Some token" for r i token name
    using Cons.prems fold_properties(2) [of r "(i, token, name)"]
    by (fastforce simp: v'_def add_discovered_def Let_def has_property_def account_seen_def split: option.splits)
  show ?case unfolding read_fresh_Cons v'_def [symmetric]
  proof (intro conjI allI impI)
    show "fst ` set (av_properties (read_fresh sv True b rows v')) =
        fst ` set (av_properties v) \<union> {r. \<exists>c \<in> set (c # rows). has_property sv c r}"
      using Cons.IH [OF d, THEN conjunct1] keys by auto
    fix r i token name assume "(r, i, token, name) \<in> set (av_properties (read_fresh sv True b rows v'))"
    with Cons.IH [OF d, THEN conjunct2] have "(r, i, token, name) \<in> set (av_properties v') \<or>
        (\<exists>c \<in> set rows. gn_id c = i \<and> has_property sv c r \<and> fresh_token (ls_refresh sv) c = Some token)"
      by blast
    then show "(r, i, token, name) \<in> set (av_properties v) \<or>
        (\<exists>c \<in> set (c # rows). gn_id c = i \<and> has_property sv c r \<and> fresh_token (ls_refresh sv) c = Some token)"
      using entry by auto
  qed
qed (simp add: read_fresh_def)

lemma read_hosts_all:
  "read_hosts sv props = Inr (found, True) \<Longrightarrow>
    (\<forall>(c, r, name, hosts) \<in> set found. \<exists>token n. (r, c, token, n) \<in> set props \<and> ls_stream_hosts sv token r = Inr hosts) \<and>
    (\<forall>(r, c, token, name) \<in> set props. \<exists>hosts. ls_stream_hosts sv token r = Inr hosts \<and> (c, r, Some name, hosts) \<in> set found)"
proof (induction sv props arbitrary: found rule: read_hosts.induct)
  case (2 sv r c token name rest)
  from "2.prems" obtain hosts found' where hosts: "ls_stream_hosts sv token r = Inr hosts"
      "read_hosts sv rest = Inr (found', True)" "found = (c, r, Some name, hosts) # found'"
    by (auto split: sum.splits read_error.splits)
  note rest = "2.IH"(2) [OF hosts(1,2)]
  show ?case unfolding hosts(3) using rest [THEN conjunct1] rest [THEN conjunct2] hosts(1) by (intro conjI) fastforce+
qed simp

section \<open>Links are only made when they are certain\<close>

lemma settle_link_made: "lo_status (settle_link out whole) = Made_link \<Longrightarrow> lo_resource_id out \<noteq> None \<Longrightarrow> whole \<and> settle_link out whole = out"
  by (auto simp: settle_link_def plain_outcome_def split: if_splits link_status.splits option.splits)

lemma settle_link_status: "lo_status (settle_link out whole) = Made_link \<Longrightarrow> lo_status out = Made_link"
  by (auto simp: settle_link_def plain_outcome_def split: if_splits link_status.splits option.splits)

lemma final_outcome_made: "lo_status (final_outcome there before picked) = Made_link \<Longrightarrow>
    there = None \<and> before = None \<and> final_outcome there before picked = picked"
  by (auto simp: final_outcome_def already_outcome_def split: option.splits)

lemma outcome_of_made: "lo_status (outcome_of usable whole picked) = Made_link \<Longrightarrow>
    outcome_of usable whole picked = settle_link picked whole"
  by (auto simp: outcome_of_def plain_outcome_def split: if_splits)

lemma usable_connections_set: "set (usable_connections site conns) =
    {c \<in> set conns. gn_workspace_id c = ws_workspace_id site \<and> gn_status c = Conn_active}"
  by (simp add: usable_connections_def)

text \<open>
  A site of Search Console is certain: an account of the workspace holds it with a verified permission, it
  covers the whole site of the domain, every account was read, and every other such property is less good.
\<close>

definition gsc_certain :: "link_services \<Rightarrow> website \<Rightarrow> google_connection list \<Rightarrow> google_link \<Rightarrow> bool" where
  "gsc_certain sv site conns l =
    ((\<exists>c \<in> set conns. gn_id c = gl_connection_id l \<and> has_site sv c (gl_resource_id l)) \<and>
     site_wanted (ls_host_ok sv) (ws_domain site) (gl_resource_id l) \<and>
     (\<forall>c \<in> set conns. account_seen sv c \<noteq> None) \<and>
     (\<forall>c \<in> set conns. \<forall>r. has_site sv c r \<longrightarrow> site_wanted (ls_host_ok sv) (ws_domain site) r \<longrightarrow> r \<noteq> gl_resource_id l \<longrightarrow>
        better_site (ls_host_ok sv) (ws_domain site) (gl_resource_id l) r))"

text \<open>
  A property of Analytics is certain: an account of the workspace holds it, every account was read, the hosts of every
  property of every account were read, and they match the domain for this property and for no other.
\<close>

definition ga4_certain :: "link_services \<Rightarrow> website \<Rightarrow> google_connection list \<Rightarrow> google_link \<Rightarrow> bool" where
  "ga4_certain sv site conns l =
    ((\<exists>c \<in> set conns. gn_id c = gl_connection_id l \<and> has_property sv c (gl_resource_id l)) \<and>
     (\<forall>c \<in> set conns. account_seen sv c \<noteq> None) \<and>
     (\<forall>c \<in> set conns. \<forall>r. has_property sv c r \<longrightarrow>
        (\<exists>c' \<in> set conns. \<exists>token hosts. fresh_token (ls_refresh sv) c' = Some token \<and> ls_stream_hosts sv token r = Inr hosts \<and>
          (host_wanted (ls_host_ok sv) (ws_domain site) hosts \<longleftrightarrow> r = gl_resource_id l))))"

lemma gsc_made_certain:
  assumes made: "lo_status (outcome_of usable (av_complete v) (gsc_outcome (ls_host_ok sv) (ws_domain site) (av_gsc_sites v) bad)) = Made_link"
    and v: "v = read_fresh sv a True conns no_view"
  shows "\<exists>l. gsc_certain sv site conns l \<and> (\<forall>db :: 'a plan_db_scheme.
    add_link (ws_id site) Gsc_site (outcome_of usable (av_complete v) (gsc_outcome (ls_host_ok sv) (ws_domain site) (av_gsc_sites v) bad)) db =
      db\<lparr>google_links := google_links db @ [l]\<rparr>) \<and> gl_website_id l = ws_id site \<and> gl_resource_type l = Gsc_site"
proof -
  let ?h = "ls_host_ok sv" and ?d = "ws_domain site"
  define picked where "picked = gsc_outcome ?h ?d (av_gsc_sites v) bad"
  note out = outcome_of_made [OF made, folded picked_def]
  have status: "lo_status picked = Made_link" using made out settle_link_status by (metis picked_def)
  then have "picked = pick_gsc_site ?h ?d (av_gsc_sites v)" unfolding picked_def by (rule gsc_outcome_made)
  with pick_gsc_made [of ?h ?d "av_gsc_sites v" picked] status obtain r c where
    found: "picked = link_found r None c" "(c, r) \<in> set (av_gsc_sites v)" "site_wanted ?h ?d r"
      "\<forall>r' \<in> snd ` set (av_gsc_sites v). site_wanted ?h ?d r' \<longrightarrow> r' \<noteq> r \<longrightarrow> better_site ?h ?d r r'"
    by auto
  have whole: "av_complete v" "settle_link picked (av_complete v) = picked"
    using settle_link_made [of picked "av_complete v"] made out found(1) by (auto simp: picked_def link_found_def)
  define l where "l = \<lparr>gl_website_id = ws_id site, gl_connection_id = c, gl_resource_type = Gsc_site, gl_resource_id = r,
    gl_display_name = None\<rparr>"
  have sites: "(i, r') \<in> set (av_gsc_sites v) \<longleftrightarrow> (\<exists>c \<in> set conns. gn_id c = i \<and> has_site sv c r')" for i r'
    unfolding v read_fresh_sites by simp
  have "gsc_certain sv site conns l"
    unfolding gsc_certain_def l_def
    using read_fresh_complete [OF whole(1) [unfolded v]] found(2-4) sites by (auto simp: image_iff) (metis snd_conv)
  moreover have "add_link (ws_id site) Gsc_site picked db = db\<lparr>google_links := google_links db @ [l]\<rparr>" for db :: "'a plan_db_scheme"
    by (simp add: add_link_def found(1) link_found_def l_def)
  ultimately show ?thesis using out whole(2) by (auto simp: picked_def l_def)
qed

lemma ga4_made_certain:
  assumes made: "lo_status (outcome_of usable (av_complete v \<and> n \<le> m \<and> all_read) (pick_ga4_property (ls_host_ok sv) (ws_domain site) cands)) = Made_link"
    and v: "v = read_fresh sv True b conns no_view" and n: "n = length (av_properties v)"
    and read: "read_hosts sv (take m (av_properties v)) = Inr (cands, all_read)"
  shows "\<exists>l. ga4_certain sv site conns l \<and> (\<forall>db :: 'a plan_db_scheme.
    add_link (ws_id site) Ga4_property (outcome_of usable (av_complete v \<and> n \<le> m \<and> all_read)
        (pick_ga4_property (ls_host_ok sv) (ws_domain site) cands)) db =
      db\<lparr>google_links := google_links db @ [l]\<rparr>) \<and> gl_website_id l = ws_id site \<and> gl_resource_type l = Ga4_property"
proof -
  let ?h = "ls_host_ok sv" and ?d = "ws_domain site"
  define picked where "picked = pick_ga4_property ?h ?d cands"
  define whole where "whole = (av_complete v \<and> n \<le> m \<and> all_read)"
  note out = outcome_of_made [OF made, folded picked_def whole_def]
  have status: "lo_status picked = Made_link" using made [folded picked_def whole_def] unfolding out by (rule settle_link_status)
  from pick_ga4_made [OF picked_def [symmetric] status] obtain r c name hosts where
    found: "picked = link_found r name c" "(c, r, name, hosts) \<in> set cands" "host_wanted ?h ?d hosts"
      "\<forall>(c', r', name', hosts') \<in> set cands. r' \<noteq> r \<longrightarrow> \<not> host_wanted ?h ?d hosts'"
    by blast
  have w: "whole" "settle_link picked whole = picked"
    using settle_link_made [of picked whole] made [folded picked_def whole_def] out found(1) by (auto simp: link_found_def)
  then have all: "read_hosts sv (av_properties v) = Inr (cands, True)" "av_complete v"
    using read n by (auto simp: whole_def)
  note hosts = read_hosts_all [OF all(1)]
  have props: "fst ` set (av_properties v) = {r. \<exists>c \<in> set conns. has_property sv c r}"
      "(r, i, token, nm) \<in> set (av_properties v) \<Longrightarrow>
        \<exists>c \<in> set conns. gn_id c = i \<and> has_property sv c r \<and> fresh_token (ls_refresh sv) c = Some token" for r i token nm
    using read_fresh_properties [of no_view sv b conns] unfolding v by (simp, simp) blast
  define l where "l = \<lparr>gl_website_id = ws_id site, gl_connection_id = c, gl_resource_type = Ga4_property, gl_resource_id = r,
    gl_display_name = name\<rparr>"
  obtain token nm where entry: "(r, c, token, nm) \<in> set (av_properties v)" "ls_stream_hosts sv token r = Inr hosts"
    using hosts [THEN conjunct1] found(2) by blast
  have unique: "\<exists>c' \<in> set conns. \<exists>token hosts. fresh_token (ls_refresh sv) c' = Some token \<and> ls_stream_hosts sv token r' = Inr hosts \<and>
      (host_wanted ?h ?d hosts \<longleftrightarrow> r' = r)" if "has_property sv c' r'" "c' \<in> set conns" for c' r'
  proof (cases "r' = r")
    case True
    then show ?thesis using props(2) [OF entry(1)] entry(2) found(3) by blast
  next
    case False
    have "r' \<in> fst ` set (av_properties v)" using props(1) that by blast
    then obtain i token' nm' where e: "(r', i, token', nm') \<in> set (av_properties v)" by auto
    with hosts [THEN conjunct2] obtain hosts' where "ls_stream_hosts sv token' r' = Inr hosts'" "(i, r', Some nm', hosts') \<in> set cands"
      by blast
    then show ?thesis using props(2) [OF e] found(4) False by blast
  qed
  have "ga4_certain sv site conns l"
    unfolding ga4_certain_def l_def
    using read_fresh_complete [OF all(2) [unfolded v]] props(2) [OF entry(1)] unique by auto
  moreover have "add_link (ws_id site) Ga4_property picked db = db\<lparr>google_links := google_links db @ [l]\<rparr>" for db :: "'a plan_db_scheme"
    by (simp add: add_link_def found(1) link_found_def l_def)
  ultimately show ?thesis using out w(2) by (auto simp: picked_def whole_def l_def)
qed

text \<open>What an automatic linking may add to a state of the database.\<close>

definition certain_link :: "link_services \<Rightarrow> website \<Rightarrow> google_connection list \<Rightarrow> (resource_type \<Rightarrow> google_link option) \<Rightarrow>
    'a plan_db_scheme \<Rightarrow> google_link \<Rightarrow> bool" where
  "certain_link sv site conns old db l =
    (gl_website_id l = ws_id site \<and> old (gl_resource_type l) = None \<and> existing_link db (ws_id site) (gl_resource_type l) = None \<and>
     (gl_resource_type l = Ga4_property \<and> ga4_certain sv site conns l \<or> gl_resource_type l = Gsc_site \<and> gsc_certain sv site conns l))"

lemma settle_site_certain:
  assumes v: "v = read_fresh sv (old Ga4_property = None) (old Gsc_site = None) conns no_view"
    and read: "(if old Ga4_property = None then read_hosts sv (take m (av_properties v)) else Inr ([], True)) = Inr (cands, all_read)"
    and settle: "settle_site sv m site old v cands all_read db = (db', ga4, gsc)"
  shows "\<exists>added. db' = db\<lparr>google_links := google_links db @ added\<rparr> \<and> distinct (map gl_resource_type added) \<and>
    (\<forall>l \<in> set added. certain_link sv site conns old db l)"
proof -
  define picked where "picked = outcome_of (av_usable v) (av_complete v \<and> length (av_properties v) \<le> m \<and> all_read)
    (pick_ga4_property (ls_host_ok sv) (ws_domain site) cands)"
  define chosen where "chosen = outcome_of (av_usable v) (av_complete v)
    (gsc_outcome (ls_host_ok sv) (ws_domain site) (av_gsc_sites v) (av_unverified v))"
  have ga4: "ga4 = final_outcome (existing_link db (ws_id site) Ga4_property) (old Ga4_property) picked"
    and gsc: "gsc = final_outcome (existing_link db (ws_id site) Gsc_site) (old Gsc_site) chosen"
    and db': "db' = add_link (ws_id site) Gsc_site gsc (add_link (ws_id site) Ga4_property ga4 db)"
    using settle by (auto simp: settle_site_def Let_def picked_def chosen_def)
  have one: "\<exists>ls. add_link (ws_id site) Ga4_property ga4 db = db\<lparr>google_links := google_links db @ ls\<rparr> \<and>
      (ls = [] \<or> (\<exists>l. ls = [l] \<and> gl_resource_type l = Ga4_property \<and> certain_link sv site conns old db l))"
  proof (cases "lo_status ga4 = Made_link")
    case True
    note final = final_outcome_made [OF True [unfolded ga4], folded ga4]
    with read have "read_hosts sv (take m (av_properties v)) = Inr (cands, all_read)"
        "v = read_fresh sv True (old Gsc_site = None) conns no_view"
      by (simp_all add: v)
    from ga4_made_certain [OF _ this(2) refl this(1), of "av_usable v" site] True final show ?thesis
      by (fastforce simp: picked_def certain_link_def)
  qed (intro exI [of _ "[]"], simp add: add_link_def)
  have two: "\<exists>ls. (\<forall>d :: 'a plan_db_scheme. add_link (ws_id site) Gsc_site gsc d = d\<lparr>google_links := google_links d @ ls\<rparr>) \<and>
      (ls = [] \<or> (\<exists>l. ls = [l] \<and> gl_resource_type l = Gsc_site \<and> certain_link sv site conns old db l))"
  proof (cases "lo_status gsc = Made_link")
    case True
    note final = final_outcome_made [OF True [unfolded gsc], folded gsc]
    then have "v = read_fresh sv (old Ga4_property = None) True conns no_view" by (simp add: v)
    from gsc_made_certain [OF _ this, of "av_usable v" site "av_unverified v"] True final show ?thesis
      by (fastforce simp: chosen_def certain_link_def)
  qed (intro exI [of _ "[]"], simp add: add_link_def)
  from one obtain ls where ls: "add_link (ws_id site) Ga4_property ga4 db = db\<lparr>google_links := google_links db @ ls\<rparr>"
    "ls = [] \<or> (\<exists>l. ls = [l] \<and> gl_resource_type l = Ga4_property \<and> certain_link sv site conns old db l)"
    by blast
  from two obtain ls' where ls': "\<And>d :: 'a plan_db_scheme. add_link (ws_id site) Gsc_site gsc d = d\<lparr>google_links := google_links d @ ls'\<rparr>"
    "ls' = [] \<or> (\<exists>l. ls' = [l] \<and> gl_resource_type l = Gsc_site \<and> certain_link sv site conns old db l)"
    by blast
  have "db' = db\<lparr>google_links := google_links db @ (ls @ ls')\<rparr>" unfolding db' ls(1) ls'(1) by simp
  then show ?thesis using ls(2) ls'(2) by (intro exI [of _ "ls @ ls'"]) auto
qed

lemma read_accounts_start:
  fixes site :: website and sv a b
  assumes "uniq_by gn_id (google_connections db)"
  defines "conns \<equiv> usable_connections site (google_connections db)"
  defines "acc \<equiv> read_accounts sv a b conns (no_view, [], google_connections db)"
  shows "fst acc = read_fresh sv a b conns no_view \<and>
    snd (snd acc) = after_reading (ls_refresh sv) (gn_id ` set conns) (google_connections db)"
proof -
  have "set conns \<subseteq> set (google_connections db)" by (auto simp: conns_def usable_connections_set)
  moreover have "Google_Access.seen (ls_refresh sv) (google_connections db) {} ([], google_connections db)"
    by (simp add: Google_Access.seen_def after_reading_def)
  ultimately show ?thesis
    using read_accounts_eq [OF assms(1), of conns sv "{}" "([], google_connections db)" a b no_view]
    unfolding acc_def by (auto simp: Google_Access.seen_def case_prod_unfold)
qed


text \<open>A site without links whose account holds one matching property and two sites of Search Console.\<close>

definition demo_site :: website where
  "demo_site = \<lparr>ws_id = 1, ws_workspace_id = 3, ws_domain = ''www.exemple.fr'', ws_display_name = [], ws_detected_stack = None,
     ws_stack_label = None, ws_allow_insecure_probe = False, ws_ssl_status = None, ws_ssl_expires_at = None,
     ws_ssl_checked_at = None, ws_archived_at = None\<rparr>"

definition demo_account :: google_connection where
  "demo_account = \<lparr>gn_id = 2, gn_workspace_id = 3, gn_email = ''a@exemple.fr'', gn_sub = ''1'', gn_scopes = [], gn_token = [],
     gn_key_version = 1, gn_status = Conn_active, gn_last_refreshed_at = None\<rparr>"

definition demo_services :: link_services where
  "demo_services = \<lparr>ls_host_ok = (\<lambda>_. False), ls_refresh = (\<lambda>_. Access_token ''t''),
     ls_discover = (\<lambda>_. Some \<lparr>dr_ga4_properties = [(''properties/7'', ''Boutique''), (''properties/8'', ''Blog'')],
       dr_gsc_sites = [(''https://exemple.fr/'', ''siteOwner''), (''sc-domain:exemple.fr'', ''siteFullUser'')]\<rparr>),
     ls_stream_hosts = (\<lambda>_ r. Inr (if r = ''properties/7'' then [''exemple.fr''] else [''autre.fr'']))\<rparr>"

definition demo_db :: plan_db where
  "demo_db = \<lparr>job_runs = [], schedules = [], websites = [demo_site], quota_events = [], metric_points = [], metric_rollups = [],
     catalogue = [], profiles = [], item_statuses = [], item_events = [], google_links = [], google_connections = [demo_account]\<rparr>"

definition demo_links :: "google_link list" where
  "demo_links =
    [\<lparr>gl_website_id = 1, gl_connection_id = 2, gl_resource_type = Ga4_property, gl_resource_id = ''properties/7'',
       gl_display_name = Some ''Boutique''\<rparr>,
     \<lparr>gl_website_id = 1, gl_connection_id = 2, gl_resource_type = Gsc_site, gl_resource_id = ''sc-domain:exemple.fr'',
       gl_display_name = None\<rparr>]"

lemma demo_text:
  "normalize_host h ''sc-domain:exemple.fr'' = ''exemple.fr''" "normalize_host h ''www.exemple.fr'' = ''exemple.fr''"
  "normalize_host h ''exemple.fr'' = ''exemple.fr''" "normalize_host h ''https://exemple.fr/'' = ''exemple.fr''"
  "normalize_host h ''autre.fr'' = ''autre.fr''" "is_whole_site h ''sc-domain:exemple.fr''" "is_whole_site h ''https://exemple.fr/''"
  "gsc_kind ''sc-domain:exemple.fr'' = 0" "gsc_kind ''https://exemple.fr/'' = 1"
  by code_simp+

lemma demo_gsc: "gsc_outcome h ''www.exemple.fr'' [(2, ''https://exemple.fr/''), (2, ''sc-domain:exemple.fr'')] [] =
    link_found ''sc-domain:exemple.fr'' None 2"
  by (simp add: gsc_outcome_def pick_gsc_site_def Let_def site_matches_def demo_text best_sites_def set_default_def)

lemma demo_ga4: "pick_ga4_property h ''www.exemple.fr''
    [(2, ''properties/7'', Some ''Boutique'', [''exemple.fr'']), (2, ''properties/8'', Some ''Blog'', [''autre.fr''])] =
    link_found ''properties/7'' (Some ''Boutique'') 2"
  by (simp add: pick_ga4_property_def property_hits_def demo_text set_default_def)

definition demo_view :: account_view where
  "demo_view = \<lparr>av_gsc_sites = [(2, ''https://exemple.fr/''), (2, ''sc-domain:exemple.fr'')], av_unverified = [],
     av_properties = [(''properties/7'', 2, ''t'', ''Boutique''), (''properties/8'', 2, ''t'', ''Blog'')], av_usable = True,
     av_complete = True\<rparr>"

lemma demo_read: "read_accounts demo_services True True [demo_account] (no_view, [], [demo_account]) =
    (demo_view, [(2, Some ''t'')], [demo_account])"
  by (simp add: access_token_for_def read_account_def add_discovered_def VERIFIED_PERMISSIONS_def set_default_def
      demo_services_def demo_account_def demo_view_def no_view_def)

lemma demo_hosts: "read_hosts demo_services (av_properties demo_view) =
    Inr ([(2, ''properties/7'', Some ''Boutique'', [''exemple.fr'']), (2, ''properties/8'', Some ''Blog'', [''autre.fr''])], True)"
  by (simp add: demo_view_def demo_services_def)

lemma demo_sel: "ws_id demo_site = 1" "ws_domain demo_site = ''www.exemple.fr''" "google_links demo_db = []"
    "google_connections demo_db = [demo_account]" "usable_connections demo_site [demo_account] = [demo_account]"
    "av_complete demo_view" "av_usable demo_view" "av_gsc_sites demo_view = [(2, ''https://exemple.fr/''), (2, ''sc-domain:exemple.fr'')]"
    "av_unverified demo_view = []" "length (av_properties demo_view) = 2"
  by (simp_all add: demo_site_def demo_db_def demo_account_def usable_connections_def demo_view_def)

lemma demo_run: "map_sum id (google_links \<circ> fst) (autolink_website demo_services 20 demo_site id demo_db) = Inr demo_links"
  by (simp add: autolink_website_def existing_link_def demo_sel demo_read demo_hosts Let_def settle_site_def final_outcome_def
      outcome_of_def settle_link_def demo_gsc demo_ga4 add_link_def demo_links_def link_found_def del: read_accounts.simps)


text \<open>
  A stream whose address is no URL stops the whole call with \<open>ValueError\<close>: only a failed reading is
  caught.
\<close>

lemma bad_stream_address_escapes:
  assumes "jget web ''defaultUri'' = JStr ''https://[exemple.fr''"
  shows "stream_hosts_of host_ok (web # rest) = Inl (Crash ValueError) \<and>
    (ls_stream_hosts sv token r = stream_hosts_of host_ok (web # rest) \<longrightarrow> read_hosts sv ((r, c, token, name) # props) = Inl ValueError)"
proof -
  have "url_split host_ok ''https://[exemple.fr'' = None"
    by code_simp
  then show ?thesis using assms by (simp add: stream_host_def contains_def)
qed

end
