(* ===== verification/Gtm_Headless.thy ===== *)
theory Gtm_Headless
  imports Site_Links Audit_Engine Job_Intake Metric_Partitions
begin

text \<open>
  The check of Tag Manager in a real browser (\<open>app/services/gtm_headless.py\<close>) and its delegation to the worker
  (\<open>app/services/worker_client.py\<close>). What Chromium reports is the parameter: the requests and the console
  messages of the load, then the answers of the scripts evaluated in the page. The lemmas: a report survives its
  form in JSON exactly, anything else is refused, and what the API gets from the worker is the worker's report
  or the failed one.
\<close>

definition HEADLESS_FAILED :: string where "HEADLESS_FAILED = ''headless_failed''"
definition GTM_HOST_HINT :: string where "GTM_HOST_HINT = ''googletagmanager.com''"
definition GA4_HOSTS :: "string list" where "GA4_HOSTS = [''google-analytics.com'', ''analytics.google.com'']"
definition ADS_HOSTS :: "string list" where "ADS_HOSTS = [''googleadservices.com'', ''googleads.g.doubleclick.net'']"
definition MAX_GA4_IDS :: nat where "MAX_GA4_IDS = 10"
definition CSP_HINT :: string where "CSP_HINT = ''content security policy''"

definition ADS_CONVERSION_PATH :: re where
  "ADS_CONVERSION_PATH = sequence [lit ''/pagead/'', Alt (lit ''conversion'') (lit ''viewthroughconversion''), lit ''/'',
     at_least 6 (Class is_digit)]"

definition GA4_MEASUREMENT :: re where
  "GA4_MEASUREMENT = (let c = Class (\<lambda>c. is_digit c \<or> 65 \<le> (of_char c :: nat) \<and> (of_char c :: nat) \<le> 90)
     in sequence [lit ''G-'', times 4 c, up_to 16 c])"

text \<open>The whole of \<open>GtmHeadlessResult\<close>.\<close>

record gtm_headless = headless_result +
  hl_datalayer_present :: bool
  hl_requests_before_consent :: bool
  hl_csp_console_errors :: "string list"
  hl_findings :: "gtm_finding list"

section \<open>What the browser reports\<close>

text \<open>The first quoted text of a message, \<open>_BLOCKED_URL_RE\<close>.\<close>

definition blocked_url :: "string \<Rightarrow> string option" where
  "blocked_url message =
    (let rest = dropWhile (\<lambda>c. c \<noteq> CHR 0x27) message; inner = takeWhile (\<lambda>c. c \<noteq> CHR 0x27) (drop 1 rest)
     in if rest = [] \<or> length inner + 1 = length rest then None else Some inner)"

definition is_gtm_csp_violation :: "string \<Rightarrow> bool" where
  "is_gtm_csp_violation message = (contains CSP_HINT (lower message) \<and>
     contains GTM_HOST_HINT (lower (case blocked_url message of Some url \<Rightarrow> url | None \<Rightarrow> message)))"

definition is_ga4_collect :: "string \<Rightarrow> bool" where
  "is_ga4_collect url = (contains ''/g/collect'' url \<and> list_ex (\<lambda>h. contains h url) GA4_HOSTS)"

text \<open>\<open>parse_qs(query).get(name)\<close>, the first value that is not empty.\<close>

function split_on :: "char \<Rightarrow> string \<Rightarrow> string list" where
  "split_on c s = (let a = takeWhile (\<lambda>x. x \<noteq> c) s in if length a = length s then [s] else a # split_on c (drop (length a + 1) s))"
  by pat_completeness auto
termination
proof (relation "measure (length \<circ> snd)")
  fix c s a assume "a = takeWhile (\<lambda>x. x \<noteq> c) s" "length a \<noteq> length s"
  then show "((c, drop (length a + 1) s), c, s) \<in> measure (length \<circ> snd)" by (cases s) auto
qed simp

declare split_on.simps [simp del]

definition plain_text :: "string \<Rightarrow> string" where
  "plain_text s = unquote (map (\<lambda>c. if c = CHR ''+'' then CHR '' '' else c) s)"

definition query_value :: "string \<Rightarrow> string \<Rightarrow> string option" where
  "query_value name query =
    (case List.map_filter (\<lambda>field. let k = takeWhile (\<lambda>c. c \<noteq> CHR ''='') field; v = drop (length k + 1) field
        in if v \<noteq> [] \<and> plain_text k = name then Some (plain_text v) else None) (split_on (CHR ''&'') query) of
       [] \<Rightarrow> None | v # _ \<Rightarrow> Some v)"

definition ga4_id_from_url :: "(string \<Rightarrow> bool) \<Rightarrow> string \<Rightarrow> string option result" where
  "ga4_id_from_url host_ok url =
    (case url_split host_ok url of
       None \<Rightarrow> Inl ValueError
     | Some parts \<Rightarrow> Inr (case query_value ''tid'' (ue_query parts) of
           Some v \<Rightarrow> if fullmatch GA4_MEASUREMENT v then Some v else None
         | None \<Rightarrow> None))"

definition record_ga4_id :: "(string \<Rightarrow> bool) \<Rightarrow> string list \<Rightarrow> string \<Rightarrow> string list result" where
  "record_ga4_id host_ok ids url =
     try_bind (ga4_id_from_url host_ok url) (\<lambda>tid.
       Inr (case tid of Some t \<Rightarrow> if t \<notin> set ids \<and> length ids < MAX_GA4_IDS then ids @ [t] else ids | None \<Rightarrow> ids))"

text \<open>\<open>urlparse(url).path\<close>: for the schemes with parameters, the last segment is cut at its semicolon.\<close>

definition USES_PARAMS :: "string list" where
  "USES_PARAMS = ['''', ''ftp'', ''hdl'', ''prospero'', ''http'', ''imap'', ''https'', ''shttp'', ''rtsp'', ''rtspu'',
     ''sip'', ''sips'', ''mms'', ''sftp'', ''tel'']"

definition parsed_path :: "url_pieces \<Rightarrow> string" where
  "parsed_path parts =
    (let p = ue_path parts; tail = rev (takeWhile (\<lambda>c. c \<noteq> CHR ''/'') (rev p))
     in if ue_scheme parts \<in> set USES_PARAMS
        then take (length p - length tail) p @ takeWhile (\<lambda>c. c \<noteq> CHR '';'') tail else p)"

definition host_within :: "string \<Rightarrow> string \<Rightarrow> bool" where
  "host_within host h = (host = h \<or> starts_with (rev (''.'' @ h)) (rev host))"

definition conversion_path :: "string \<Rightarrow> bool" where
  "conversion_path path = list_ex (\<lambda>rest. rest = [] \<or> rest = [CHR 0x0A] \<or> hd rest = CHR ''/'') (ends ADS_CONVERSION_PATH path)"

definition is_ads_request :: "(string \<Rightarrow> bool) \<Rightarrow> string \<Rightarrow> bool result" where
  "is_ads_request host_ok url =
    (case url_split host_ok url of
       None \<Rightarrow> Inl ValueError
     | Some parts \<Rightarrow> Inr (list_ex (host_within (lower (host_name parts))) ADS_HOSTS \<and> conversion_path (parsed_path parts)))"

section \<open>Findings\<close>

definition mk_finding :: "string \<Rightarrow> severity \<Rightarrow> string \<Rightarrow> string \<Rightarrow> gtm_finding" where
  "mk_finding code severity title detail = \<lparr>gf_code = code, gf_severity = severity, gf_title = title, gf_detail = detail\<rparr>"

definition not_loaded_finding :: gtm_finding where
  "not_loaded_finding = mk_finding ''headless_gtm_not_loaded'' Sev_high
     (''gtm.js ne se charge pas dans un vrai navigateur'')
     (''Aucune requete vers googletagmanager.com pendant le chargement de la page en conditions ''
    @ ''reelles '' @ em_dash @ '' le conteneur ne peut pas s'' @ apos
    @ ''initialiser, quel que soit le diagnostic statique.'')"

definition not_initialised_finding :: gtm_finding where
  "not_initialised_finding = mk_finding ''headless_container_not_initialised'' Sev_high
     (''gtm.js charge mais aucun conteneur ne s'' @ apos @ ''initialise'')
     (''window.google_tag_manager est vide apres chargement : le script repond mais n'' @ apos
    @ ''active aucun conteneur (id invalide, erreur JS en amont dans la page).'')"

definition no_datalayer_finding :: gtm_finding where
  "no_datalayer_finding = mk_finding ''headless_datalayer_missing'' Sev_medium
     (''dataLayer absent apres chargement de GTM'')
     (''GTM se charge mais window.dataLayer n'' @ apos @ ''existe pas en fin de chargement '' @ em_dash
    @ '' les evenements pousses avant l'' @ apos @ ''init de GTM sont perdus.'')"

definition csp_blocks_finding :: "string list \<Rightarrow> gtm_finding" where
  "csp_blocks_finding errors = mk_finding ''headless_csp_blocks_gtm'' Sev_high
     (''La CSP bloque effectivement GTM en conditions reelles'')
     (''La console du navigateur rapporte un blocage CSP vers '' @ GTM_HOST_HINT @ '' : '' @ join ''; '' (take 3 errors))"

definition derive_findings :: "bool \<Rightarrow> string list \<Rightarrow> bool \<Rightarrow> string list \<Rightarrow> gtm_finding list" where
  "derive_findings gtm_js_loaded containers datalayer_present csp_errors =
    (if \<not> gtm_js_loaded then [not_loaded_finding] else if containers = [] then [not_initialised_finding] else []) @
    (if gtm_js_loaded \<and> \<not> datalayer_present then [no_datalayer_finding] else []) @
    (if csp_errors \<noteq> [] then [csp_blocks_finding csp_errors] else [])"

section \<open>A run of the browser\<close>

text \<open>
  What one load gives: the addresses requested, the console messages with their types, and the values of the scripts.
  \<open>br_consent\<close> is \<open>None\<close> when the last script fails. An address that cannot be parsed, which a browser does not request,
  counts as a failure of the run. \<open>other_text\<close> is \<open>str\<close> of a value that is neither a text nor a boolean nor an integer.
\<close>

record browser_session =
  br_requests :: "string list"
  br_console :: "(string \<times> string) list"
  br_containers :: "string list"
  br_datalayer_present :: bool
  br_datalayer :: json
  br_consent :: "bool option"

record request_log =
  rl_gtm :: "string list"
  rl_ga4_ids :: "string list"
  rl_ads :: int

definition on_request :: "(string \<Rightarrow> bool) \<Rightarrow> string \<Rightarrow> request_log \<Rightarrow> request_log result" where
  "on_request host_ok url lg =
    (let lg' = (if contains GTM_HOST_HINT url then lg\<lparr>rl_gtm := rl_gtm lg @ [url]\<rparr> else lg)
     in try_bind (if is_ga4_collect url then record_ga4_id host_ok (rl_ga4_ids lg') url else Inr (rl_ga4_ids lg')) (\<lambda>ids.
        try_bind (is_ads_request host_ok url) (\<lambda>ads.
          Inr (lg'\<lparr>rl_ga4_ids := ids, rl_ads := rl_ads lg' + (if ads then 1 else 0)\<rparr>))))"

fun on_requests :: "(string \<Rightarrow> bool) \<Rightarrow> string list \<Rightarrow> request_log \<Rightarrow> request_log result" where
  "on_requests host_ok [] lg = Inr lg"
| "on_requests host_ok (url # urls) lg = try_bind (on_request host_ok url lg) (on_requests host_ok urls)"

definition value_text :: "(json \<Rightarrow> string) \<Rightarrow> json \<Rightarrow> string" where
  "value_text other_text v = (case v of JStr s \<Rightarrow> s | JNum (PyBool b) \<Rightarrow> (if b then ''True'' else ''False'') | JNum (PyInt n) \<Rightarrow> str_int n
     | _ \<Rightarrow> other_text v)"

definition event_texts :: "(json \<Rightarrow> string) \<Rightarrow> json \<Rightarrow> string list result" where
  "event_texts other_text raw =
    (case raw of
       JList xs \<Rightarrow> Inr (List.map_filter (\<lambda>e. case e of
           JDict d \<Rightarrow> if truthy (jget d ''event'') then Some (value_text other_text (jget d ''event'')) else None
         | _ \<Rightarrow> None) xs)
     | JStr _ \<Rightarrow> Inr []
     | JDict _ \<Rightarrow> Inr []
     | _ \<Rightarrow> Inl TypeError)"

definition failed_headless_result :: "datetime \<Rightarrow> gtm_headless" where
  "failed_headless_result now = \<lparr>hl_gtm_js_loaded = False, hl_containers_initialised = [], hl_gtm_events = [],
     hl_ga4_measurement_ids = [], hl_ads_requests = 0, hl_consent_default_seen = False, hl_checked_at = now,
     hl_error = Some HEADLESS_FAILED, hl_datalayer_present = False, hl_requests_before_consent = False,
     hl_csp_console_errors = [], hl_findings = []\<rparr>"

definition headless_report :: "datetime \<Rightarrow> browser_session \<Rightarrow> request_log \<Rightarrow> string list \<Rightarrow> gtm_headless" where
  "headless_report now run lg events =
    (let csp = filter is_gtm_csp_violation (map snd (filter (\<lambda>(kind, _). kind = ''error'') (br_console run)));
         loaded = (rl_gtm lg \<noteq> [])
     in \<lparr>hl_gtm_js_loaded = loaded, hl_containers_initialised = br_containers run, hl_gtm_events = events,
          hl_ga4_measurement_ids = from_keys (rl_ga4_ids lg), hl_ads_requests = rl_ads lg,
          hl_consent_default_seen = (br_consent run = Some True), hl_checked_at = now, hl_error = None,
          hl_datalayer_present = br_datalayer_present run, hl_requests_before_consent = loaded, hl_csp_console_errors = csp,
          hl_findings = derive_findings loaded (br_containers run) (br_datalayer_present run) csp\<rparr>)"

definition verify_gtm :: "(string \<Rightarrow> bool) \<Rightarrow> (json \<Rightarrow> string) \<Rightarrow> (string \<Rightarrow> browser_session option) \<Rightarrow> datetime \<Rightarrow> string \<Rightarrow> gtm_headless" where
  "verify_gtm host_ok other_text browser now url =
    (case browser url of
       None \<Rightarrow> failed_headless_result now
     | Some run \<Rightarrow>
         (case try_bind (on_requests host_ok (br_requests run) \<lparr>rl_gtm = [], rl_ga4_ids = [], rl_ads = 0\<rparr>) (\<lambda>lg.
             try_bind (event_texts other_text (br_datalayer run)) (\<lambda>events. Inr (lg, events))) of
            Inl _ \<Rightarrow> failed_headless_result now
          | Inr (lg, events) \<Rightarrow> headless_report now run lg events))"

section \<open>The form in JSON\<close>

definition headless_result_to_dict :: "gtm_headless \<Rightarrow> json_dict" where
  "headless_result_to_dict r =
    [(''gtm_js_loaded'', JBool (hl_gtm_js_loaded r)), (''containers_initialised'', texts (hl_containers_initialised r)),
     (''datalayer_present'', JBool (hl_datalayer_present r)), (''gtm_events'', texts (hl_gtm_events r)),
     (''requests_before_consent'', JBool (hl_requests_before_consent r)),
     (''csp_console_errors'', texts (hl_csp_console_errors r)), (''findings'', JList (map finding_block (hl_findings r))),
     (''checked_at'', JStr (iso_datetime (hl_checked_at r))), (''error'', opt_text (hl_error r)),
     (''ga4_measurement_ids'', texts (hl_ga4_measurement_ids r)), (''ads_requests'', JInt (hl_ads_requests r)),
     (''consent_default_seen'', JBool (hl_consent_default_seen r))]"

definition required :: "json_dict \<Rightarrow> string \<Rightarrow> json result" where
  "required d key = (case map_of d key of None \<Rightarrow> Inl KeyError | Some v \<Rightarrow> Inr v)"

fun flag_of :: "json \<Rightarrow> bool result" where
  "flag_of (JNum (PyBool b)) = Inr b"
| "flag_of _ = Inl ValueError"

fun text_of :: "json \<Rightarrow> string result" where
  "text_of (JStr s) = Inr s"
| "text_of _ = Inl ValueError"

fun texts_from :: "json list \<Rightarrow> string list result" where
  "texts_from [] = Inr []"
| "texts_from (v # vs) = try_bind (text_of v) (\<lambda>s. try_bind (texts_from vs) (\<lambda>ss. Inr (s # ss)))"

fun strings_of :: "json \<Rightarrow> string list result" where
  "strings_of (JList vs) = texts_from vs"
| "strings_of _ = Inl ValueError"

definition severity_of :: "json \<Rightarrow> severity result" where
  "severity_of v = (if v = JStr ''low'' then Inr Sev_low else if v = JStr ''medium'' then Inr Sev_medium
     else if v = JStr ''high'' then Inr Sev_high else Inl ValueError)"

definition finding_from :: "json \<Rightarrow> gtm_finding result" where
  "finding_from v = (case v of
     JDict d \<Rightarrow>
       try_bind (try_bind (required d ''code'') text_of) (\<lambda>code.
       try_bind (try_bind (required d ''severity'') severity_of) (\<lambda>severity.
       try_bind (try_bind (required d ''title'') text_of) (\<lambda>title.
       try_bind (try_bind (required d ''detail'') text_of) (\<lambda>detail. Inr (mk_finding code severity title detail)))))
   | _ \<Rightarrow> Inl ValueError)"

fun findings_from :: "json list \<Rightarrow> gtm_finding list result" where
  "findings_from [] = Inr []"
| "findings_from (v # vs) = try_bind (finding_from v) (\<lambda>f. try_bind (findings_from vs) (\<lambda>fs. Inr (f # fs)))"

definition findings_of :: "json \<Rightarrow> gtm_finding list result" where
  "findings_of v = (case v of JList vs \<Rightarrow> if list_all is_dict vs then findings_from vs else Inl ValueError | _ \<Rightarrow> Inl ValueError)"

text \<open>
  \<open>datetime.fromisoformat\<close> of the texts \<open>isoformat\<close> writes; \<open>other_form\<close> is what the library answers for any other text.
\<close>

definition instant_shape :: "string \<Rightarrow> bool" where
  "instant_shape s =
    (let t = take 9 (drop 10 s); frac = take (length s - 25) (drop 19 s)
     in iso_shape (take 10 s) \<and> length s \<in> {25, 32} \<and> t ! 0 = CHR ''T'' \<and> t ! 3 = CHR '':'' \<and> t ! 6 = CHR '':'' \<and>
        list_all is_digit (take 2 (drop 1 t) @ take 2 (drop 4 t) @ drop 7 t) \<and>
        (frac \<noteq> [] \<longrightarrow> hd frac = CHR ''.'' \<and> list_all is_digit (tl frac)) \<and> drop (length s - 6) s = ''+00:00'')"

definition instant_of_parts :: "string \<Rightarrow> datetime result" where
  "instant_of_parts s =
    (let t = take 9 (drop 10 s); h = digits_value (take 2 (drop 1 t)); m = digits_value (take 2 (drop 4 t));
         sec = digits_value (drop 7 t); micro = digits_value (drop 1 (take (length s - 25) (drop 19 s)))
     in try_bind (from_iso (take 10 s)) (\<lambda>d.
          if h \<le> 23 \<and> m \<le> 59 \<and> sec \<le> 59 then Inr (midnight d + hours h + minutes m + seconds sec + micro) else Inl ValueError))"

definition instant_from_iso :: "(string \<Rightarrow> datetime result) \<Rightarrow> string \<Rightarrow> datetime result" where
  "instant_from_iso other_form s = (if instant_shape s then instant_of_parts s else other_form s)"

fun count_from :: "json \<Rightarrow> int result" where
  "count_from (JNum (PyInt n)) = Inr n"
| "count_from _ = Inl ValueError"

definition optional_error :: "json \<Rightarrow> string option result" where
  "optional_error v = (if v = JNull then Inr None else try_bind (text_of v) (\<lambda>s. Inr (Some s)))"

text \<open>\<open>KeyError\<close> and \<open>TypeError\<close> become \<open>ValueError\<close>.\<close>

definition as_value_error :: "'a result \<Rightarrow> 'a result" where
  "as_value_error r = (case r of Inl KeyError \<Rightarrow> Inl ValueError | Inl TypeError \<Rightarrow> Inl ValueError | _ \<Rightarrow> r)"

definition read_headless :: "(string \<Rightarrow> datetime result) \<Rightarrow> json_dict \<Rightarrow> gtm_headless result" where
  "read_headless other_form d =
         try_bind (try_bind (required d ''findings'') findings_of) (\<lambda>findings.
       try_bind (optional_error (jget d ''error'')) (\<lambda>error.
       try_bind (count_from (get_default (JInt 0) d ''ads_requests'')) (\<lambda>ads.
       try_bind (try_bind (required d ''gtm_js_loaded'') flag_of) (\<lambda>loaded.
       try_bind (try_bind (required d ''containers_initialised'') strings_of) (\<lambda>containers.
       try_bind (try_bind (required d ''datalayer_present'') flag_of) (\<lambda>datalayer.
       try_bind (try_bind (required d ''gtm_events'') strings_of) (\<lambda>events.
       try_bind (try_bind (required d ''requests_before_consent'') flag_of) (\<lambda>before.
       try_bind (try_bind (required d ''csp_console_errors'') strings_of) (\<lambda>csp.
       try_bind (try_bind (try_bind (required d ''checked_at'') text_of) (instant_from_iso other_form)) (\<lambda>checked_at.
       try_bind (strings_of (get_default (JList []) d ''ga4_measurement_ids'')) (\<lambda>ids.
       try_bind (flag_of (get_default (JBool False) d ''consent_default_seen'')) (\<lambda>consent.
         Inr \<lparr>hl_gtm_js_loaded = loaded, hl_containers_initialised = containers, hl_gtm_events = events,
           hl_ga4_measurement_ids = ids, hl_ads_requests = ads, hl_consent_default_seen = consent, hl_checked_at = checked_at,
           hl_error = error, hl_datalayer_present = datalayer, hl_requests_before_consent = before,
           hl_csp_console_errors = csp, hl_findings = findings\<rparr>))))))))))))"

definition headless_result_from_dict :: "(string \<Rightarrow> datetime result) \<Rightarrow> json \<Rightarrow> gtm_headless result" where
  "headless_result_from_dict other_form data =
    (case data of JDict d \<Rightarrow> as_value_error (read_headless other_form d) | _ \<Rightarrow> Inl ValueError)"

section \<open>The worker\<close>

text \<open>
  \<open>RemoteHeadlessVerifier\<close>. \<open>token\<close> is the identity token of the service account, \<open>None\<close> without one; \<open>post\<close> is the
  worker, \<open>None\<close> when it cannot be reached.
\<close>

definition remote_headless :: "(string \<Rightarrow> datetime result) \<Rightarrow> string option \<Rightarrow> (string \<Rightarrow> string \<Rightarrow> http_response option) \<Rightarrow>
    datetime \<Rightarrow> string \<Rightarrow> gtm_headless" where
  "remote_headless other_form token post now url =
    (case token of
       None \<Rightarrow> failed_headless_result now
     | Some t \<Rightarrow>
         (case post url t of
            None \<Rightarrow> failed_headless_result now
          | Some response \<Rightarrow>
              if hr_status response \<noteq> 200 then failed_headless_result now
              else (case hr_json response of
                  None \<Rightarrow> failed_headless_result now
                | Some body \<Rightarrow> (case headless_result_from_dict other_form body of
                      Inl _ \<Rightarrow> failed_headless_result now
                    | Inr r \<Rightarrow> r))))"

text \<open>The answer of the worker's route.\<close>

definition worker_response :: "gtm_headless headless_reply \<Rightarrow> http_response" where
  "worker_response reply = (case reply of
     Verified r \<Rightarrow> \<lparr>hr_status = 200, hr_json = Some (JDict (headless_result_to_dict r))\<rparr>
   | Refused code _ \<Rightarrow> \<lparr>hr_status = code, hr_json = Some (JDict [(''detail'', JStr [])])\<rparr>)"

section \<open>A report survives its form in JSON\<close>

lemma texts_from_texts [simp]: "texts_from (map JStr xs) = Inr xs"
  by (induction xs) simp_all

lemma strings_of_texts [simp]: "strings_of (texts xs) = Inr xs"
  by (simp add: texts_def)

lemma severity_of_text [simp]: "severity_of (JStr (severity_text s)) = Inr s"
  by (cases s) (simp_all add: severity_of_def)

lemma finding_from_block [simp]: "finding_from (finding_block f) = Inr f"
  by (cases f) (simp add: finding_from_def finding_block_def required_def mk_finding_def)

lemma findings_from_blocks [simp]: "findings_of (JList (map finding_block fs)) = Inr fs"
proof -
  have "findings_from (map finding_block fs) = Inr fs" by (induction fs) simp_all
  then show ?thesis by (simp add: findings_of_def list_all_iff finding_block_def)
qed

lemma optional_error_text [simp]: "optional_error (opt_text e) = Inr e"
  by (simp add: optional_error_def opt_text_def split: option.splits)

lemma list_2: "length xs = 2 \<Longrightarrow> \<exists>a b. xs = [a, b]"
  by (auto simp: numeral_eq_Suc length_Suc_conv)

lemma list_6: "length xs = 6 \<Longrightarrow> \<exists>a b c d e f. xs = [a, b, c, d, e, f]"
  by (auto simp: numeral_eq_Suc length_Suc_conv)

text \<open>An instant is its date and the parts of its day.\<close>

lemma instant_parts:
  "t = midnight (date_of t) + hours (hour_of t) + minutes (minute_of t) + seconds ((t mod minutes 1) div seconds 1) + t mod seconds 1"
  "0 \<le> hour_of t \<and> hour_of t \<le> 23" "0 \<le> minute_of t \<and> minute_of t \<le> 59"
  "0 \<le> (t mod minutes 1) div seconds 1 \<and> (t mod minutes 1) div seconds 1 \<le> 59" "0 \<le> t mod seconds 1 \<and> t mod seconds 1 < 1000000"
proof -
  define q r s u where "q = t div minutes 1" and "r = t mod minutes 1" and "s = r div seconds 1" and "u = t mod seconds 1"
  have "t = 60000000 * q + r" by (simp add: q_def r_def duration_defs)
  moreover have "r mod seconds 1 = u" by (simp add: r_def u_def duration_defs mod_mod_cancel)
  then have "r = 1000000 * s + u" by (simp add: s_def duration_defs flip: \<open>r mod seconds 1 = u\<close>)
  ultimately show "t = midnight (date_of t) + hours (hour_of t) + minutes (minute_of t) + seconds ((t mod minutes 1) div seconds 1) +
      t mod seconds 1"
    using minute_parts [of t] unfolding q_def [symmetric] r_def [symmetric] s_def [symmetric] u_def [symmetric]
    by (simp add: midnight_def duration_defs)
qed (auto simp: hour_of_def minute_of_def duration_defs)

lemma instant_from_iso_datetime:
  assumes "1 \<le> year_of (date_of t)" "year_of (date_of t) \<le> max_year"
  shows "instant_from_iso other_form (iso_datetime t) = Inr t"
proof -
  let ?d = "date_of t" and ?s = "(t mod minutes 1) div seconds 1" and ?u = "t mod seconds 1"
  note parts = instant_parts [of t]
  have v: "digits_value (dec 2 (hour_of t)) = hour_of t \<and> list_all is_digit (dec 2 (hour_of t))"
      "digits_value (dec 2 (minute_of t)) = minute_of t \<and> list_all is_digit (dec 2 (minute_of t))"
      "digits_value (dec 2 ?s) = ?s \<and> list_all is_digit (dec 2 ?s)"
      "digits_value (dec 6 ?u) = ?u \<and> list_all is_digit (dec 6 ?u)"
    using parts(2-5) by (intro dec_value; simp)+
  obtain h1 h2 m1 m2 s1 s2 where t: "dec 2 (hour_of t) = [h1, h2]" "dec 2 (minute_of t) = [m1, m2]" "dec 2 ?s = [s1, s2]"
    using list_2 [OF length_dec] by metis
  obtain u1 u2 u3 u4 u5 u6 where u: "dec 6 ?u = [u1, u2, u3, u4, u5, u6]" using list_6 [OF length_dec] by metis
  note len = iso_date_parts(1) [of ?d]
  note day = iso_date_read [OF assms]
  show ?thesis
  proof (cases "?u = 0")
    case True
    then have form: "iso_datetime t = iso_date ?d @ [CHR ''T'', h1, h2, CHR '':'', m1, m2, CHR '':'', s1, s2] @ ''+00:00''"
      by (simp add: iso_datetime_def t)
    have "instant_shape (iso_datetime t)"
      using v day by (simp add: instant_shape_def form len t Let_def)
    moreover have "instant_of_parts (iso_datetime t) = Inr t"
      using v day parts True by (simp add: instant_of_parts_def form len t Let_def digits_value_def)
    ultimately show ?thesis by (simp add: instant_from_iso_def)
  next
    case False
    then have form: "iso_datetime t = iso_date ?d @ [CHR ''T'', h1, h2, CHR '':'', m1, m2, CHR '':'', s1, s2, CHR ''.'', u1, u2, u3, u4, u5, u6] @
        ''+00:00''"
      by (simp add: iso_datetime_def t u)
    have "instant_shape (iso_datetime t)"
      using v day by (simp add: instant_shape_def form len t u Let_def)
    moreover have "instant_of_parts (iso_datetime t) = Inr t"
      using v day parts by (simp add: instant_of_parts_def form len t u Let_def)
    ultimately show ?thesis by (simp add: instant_from_iso_def)
  qed
qed

text \<open>What the reading of a form may raise.\<close>

definition plain_error :: "'a result \<Rightarrow> bool" where
  "plain_error r = (\<forall>e. r = Inl e \<longrightarrow> e \<in> {ValueError, KeyError, TypeError})"

lemma plain_errorI [simp, intro]: "plain_error (Inr x)" "plain_error (Inl ValueError)" "plain_error (Inl KeyError)"
  by (simp_all add: plain_error_def)

lemma plain_error_bind [intro]: "plain_error m \<Longrightarrow> (\<And>x. m = Inr x \<Longrightarrow> plain_error (f x)) \<Longrightarrow> plain_error (try_bind m f)"
  by (cases m) (auto simp: plain_error_def)

lemma plain_error_text [intro]: "plain_error (text_of v)" by (cases v rule: text_of.cases) auto
lemma plain_error_flag [intro]: "plain_error (flag_of v)" by (cases v rule: flag_of.cases) auto
lemma plain_error_count [intro]: "plain_error (count_from v)" by (cases v rule: count_from.cases) auto
lemma plain_error_required [intro]: "plain_error (required d k)" by (auto simp: required_def split: option.splits)
lemma plain_error_severity [intro]: "plain_error (severity_of v)" by (auto simp: severity_of_def)
lemma plain_error_texts [intro]: "plain_error (texts_from vs)" by (induction vs) auto
lemma plain_error_strings [intro]: "plain_error (strings_of v)" by (cases v rule: strings_of.cases) auto
lemma plain_error_error [intro]: "plain_error (optional_error v)" by (auto simp: optional_error_def)

lemma plain_error_finding [intro]: "plain_error (finding_from v)"
  unfolding finding_from_def by (cases v) (simp_all, blast)

lemma plain_error_findings [intro]: "plain_error (findings_from vs)" by (induction vs) auto

lemma plain_error_findings_of [intro]: "plain_error (findings_of v)"
  unfolding findings_of_def by (cases v) auto

lemma instant_of_parts_errors: "plain_error (instant_of_parts s)"
proof -
  have "plain_error (from_iso (take 10 s))"
    by (auto simp: from_iso_def mk_date_def plain_error_def split: if_splits)
  then show ?thesis unfolding instant_of_parts_def Let_def by auto
qed

text \<open>Whatever the worker answers, the only exception is \<open>ValueError\<close>.\<close>

lemma headless_result_from_dict_error:
  assumes "\<And>s. plain_error (other_form s)"
  shows "headless_result_from_dict other_form data = Inl e \<Longrightarrow> e = ValueError"
proof -
  have "plain_error (instant_from_iso other_form s)" for s
    using assms instant_of_parts_errors by (simp add: instant_from_iso_def)
  then have "plain_error (read_headless other_form d)" for d
    unfolding read_headless_def by (intro plain_error_bind) blast+
  moreover have "headless_result_from_dict other_form data = Inl ValueError" if "\<not> is_dict data"
    using that by (cases data) (simp_all add: headless_result_from_dict_def)
  ultimately show "headless_result_from_dict other_form data = Inl e \<Longrightarrow> e = ValueError"
    by (cases data) (auto simp: headless_result_from_dict_def as_value_error_def plain_error_def split: sum.splits py_error.splits)
qed

definition printable_instant :: "datetime \<Rightarrow> bool" where
  "printable_instant t = (1 \<le> year_of (date_of t) \<and> year_of (date_of t) \<le> max_year)"

lemma headless_roundtrip:
  assumes "printable_instant (hl_checked_at r)"
  shows "headless_result_from_dict other_form (JDict (headless_result_to_dict r)) = Inr r"
proof -
  have "instant_from_iso other_form (iso_datetime (hl_checked_at r)) = Inr (hl_checked_at r)"
    using assms by (intro instant_from_iso_datetime) (simp_all add: printable_instant_def)
  then show ?thesis
    by (simp add: headless_result_from_dict_def read_headless_def headless_result_to_dict_def required_def jget_def get_default_def as_value_error_def)
qed


definition demo_report :: gtm_headless where
  "demo_report = \<lparr>hl_gtm_js_loaded = True, hl_containers_initialised = [''GTM-ABC''], hl_gtm_events = [''gtm.js''],
     hl_ga4_measurement_ids = [''G-ABC123''], hl_ads_requests = 2, hl_consent_default_seen = True, hl_checked_at = 1500000,
     hl_error = None, hl_datalayer_present = False, hl_requests_before_consent = True, hl_csp_console_errors = [],
     hl_findings = [no_datalayer_finding]\<rparr>"

definition demo_url :: url_parts where
  "demo_url = \<lparr>up_scheme = ''https'', up_hostname = Some ''exemple.fr'', up_username = None, up_port = Inr None, up_path = [],
     up_query = [], up_fragment = []\<rparr>"


section \<open>What the report says\<close>

lemma on_request_ids:
  assumes "on_request host_ok url lg = Inr lg'" "distinct (rl_ga4_ids lg)" "length (rl_ga4_ids lg) \<le> MAX_GA4_IDS"
    "\<forall>i \<in> set (rl_ga4_ids lg). fullmatch GA4_MEASUREMENT i"
  shows "distinct (rl_ga4_ids lg') \<and> length (rl_ga4_ids lg') \<le> MAX_GA4_IDS \<and> (\<forall>i \<in> set (rl_ga4_ids lg'). fullmatch GA4_MEASUREMENT i)"
  using assms by (auto simp: on_request_def record_ga4_id_def ga4_id_from_url_def Let_def split: if_splits option.splits)

text \<open>The measurement identifiers of a report are distinct, at most ten, and all of the form of one.\<close>

lemma on_requests_ids:
  "on_requests host_ok urls lg = Inr lg' \<Longrightarrow> distinct (rl_ga4_ids lg) \<Longrightarrow> length (rl_ga4_ids lg) \<le> MAX_GA4_IDS \<Longrightarrow>
    \<forall>i \<in> set (rl_ga4_ids lg). fullmatch GA4_MEASUREMENT i \<Longrightarrow>
    distinct (rl_ga4_ids lg') \<and> length (rl_ga4_ids lg') \<le> MAX_GA4_IDS \<and> (\<forall>i \<in> set (rl_ga4_ids lg'). fullmatch GA4_MEASUREMENT i)"
proof (induction urls arbitrary: lg)
  case (Cons url urls)
  from Cons.prems(1) obtain lg1 where one: "on_request host_ok url lg = Inr lg1" "on_requests host_ok urls lg1 = Inr lg'" by auto
  from on_request_ids [OF one(1) Cons.prems(2-4)] Cons.IH [OF one(2)] show ?case by blast
qed simp

text \<open>No finding exactly when Tag Manager works: it loads, a container starts, the data layer is there, nothing is blocked.\<close>

lemma no_findings_iff: "derive_findings loaded containers datalayer csp = [] \<longleftrightarrow> loaded \<and> containers \<noteq> [] \<and> datalayer \<and> csp = []"
  by (auto simp: derive_findings_def)

text \<open>A message about another resource is no blocking of Tag Manager, even when it quotes a policy that names it.\<close>

lemma other_resource_not_gtm:
  "blocked_url message = Some url \<Longrightarrow> \<not> contains GTM_HOST_HINT (lower url) \<Longrightarrow> \<not> is_gtm_csp_violation message"
  by (simp add: is_gtm_csp_violation_def)

end
