(* ===== verification/Session_Cookie.thy ===== *)
theory Session_Cookie
  imports Text_Format Sha256 Page_Speed
begin

text \<open>
  The session cookie (\<open>app/security/session.py\<close>) and the PKCE pair of an authorisation (\<open>app/services/pkce.py\<close>): base64 for
  addresses, HMAC on SHA-256, the signed payload. A cookie that was issued is read back until its age is over; a cookie
  that is read carries the signature of its payload.
\<close>

section \<open>Base64\<close>

definition bytes_of :: "string \<Rightarrow> byte list" where "bytes_of s = map of_char s"
definition chars_of :: "byte list \<Rightarrow> string" where "chars_of bs = map (\<lambda>b. char_of (unat b)) bs"

definition B64 :: string where "B64 = ''ABCDEFGHIJKLMNOPQRSTUVWXYZabcdefghijklmnopqrstuvwxyz0123456789-_''"

definition b64_char :: "nat \<Rightarrow> char" where "b64_char n = B64 ! n"

fun b64_groups :: "nat list \<Rightarrow> string" where
  "b64_groups [] = []"
| "b64_groups [a] = [b64_char (a div 4), b64_char ((a mod 4) * 16), CHR ''='', CHR ''='']"
| "b64_groups [a, b] = [b64_char (a div 4), b64_char ((a mod 4) * 16 + b div 16), b64_char ((b mod 16) * 4), CHR ''='']"
| "b64_groups (a # b # c # rest) = [b64_char (a div 4), b64_char ((a mod 4) * 16 + b div 16),
     b64_char ((b mod 16) * 4 + c div 64), b64_char (c mod 64)] @ b64_groups rest"

definition b64e :: "byte list \<Rightarrow> string" where
  "b64e raw = rstrip_char CHR ''='' (b64_groups (map unat raw))"

text \<open>
  \<open>base64.urlsafe_b64decode\<close>: characters outside of the alphabet are skipped, a complete padding ends the text, an incomplete
  group is an error.
\<close>

definition b64_value :: "char \<Rightarrow> nat option" where
  "b64_value c = (if c = CHR ''+'' then Some 62 else if c = CHR ''/'' then Some 63 else
     (case List.find (\<lambda>(_, x). x = c) (enumerate 0 B64) of Some (n, _) \<Rightarrow> Some n | None \<Rightarrow> None))"

fun b64_loop :: "string \<Rightarrow> nat \<Rightarrow> nat \<Rightarrow> nat \<Rightarrow> nat list \<Rightarrow> nat list option" where
  "b64_loop [] quad left pads out = (if quad = 0 then Some out else None)"
| "b64_loop (c # cs) quad left pads out =
    (if c = CHR ''='' then
       (if 2 \<le> quad \<and> 4 \<le> quad + (pads + 1) then Some out
        else b64_loop cs quad left (if 2 \<le> quad then pads + 1 else pads) out)
     else (case b64_value c of
         None \<Rightarrow> b64_loop cs quad left pads out
       | Some v \<Rightarrow>
           if quad = 0 then b64_loop cs 1 v 0 out
           else if quad = 1 then b64_loop cs 2 (v mod 16) 0 (out @ [left * 4 + v div 16])
           else if quad = 2 then b64_loop cs 3 (v mod 4) 0 (out @ [left * 16 + v div 4])
           else b64_loop cs 0 0 0 (out @ [left * 64 + v])))"

definition is_ascii :: "string \<Rightarrow> bool" where "is_ascii s = list_all (\<lambda>c. (of_char c :: nat) < 128) s"

definition b64d :: "string \<Rightarrow> byte list result" where
  "b64d s =
    (let padded = s @ replicate (nat ((- int (length s)) mod 4)) CHR ''=''
     in if \<not> is_ascii s then Inl ValueError
        else (case b64_loop padded 0 0 0 [] of Some out \<Rightarrow> Inr (map of_nat out) | None \<Rightarrow> Inl ValueError))"

section \<open>Signature\<close>

definition hmac_sha256 :: "byte list \<Rightarrow> byte list \<Rightarrow> byte list" where
  "hmac_sha256 key msg =
    (let k0 = (if 64 < length key then sha256 key else key); k = k0 @ replicate (64 - length k0) 0
     in sha256 (map (\<lambda>b. b XOR 0x5C) k @ sha256 (map (\<lambda>b. b XOR 0x36) k @ msg)))"

definition sign :: "string \<Rightarrow> string \<Rightarrow> string" where
  "sign payload secret = b64e (hmac_sha256 (bytes_of secret) (bytes_of payload))"

text \<open>\<open>compare_digest\<close> of two texts: \<open>TypeError\<close> unless both are ASCII.\<close>

definition compare_digest :: "string \<Rightarrow> string \<Rightarrow> bool result" where
  "compare_digest a b = (if is_ascii a \<and> is_ascii b then Inr (a = b) else Inl TypeError)"

section \<open>The session\<close>

definition SEP :: char where "SEP = CHR ''.''"
definition SESSION_MAX_AGE :: int where "SESSION_MAX_AGE = 2592000"

text \<open>\<open>int(time.time())\<close>.\<close>

definition epoch_seconds :: "datetime \<Rightarrow> int" where "epoch_seconds now = now div seconds 1"

definition session_payload :: "uuid \<Rightarrow> datetime \<Rightarrow> string" where
  "session_payload user now = str_uuid user @ '':'' @ str_int (epoch_seconds now)"

definition issue_session :: "string \<Rightarrow> uuid \<Rightarrow> datetime \<Rightarrow> string" where
  "issue_session secret user now =
    (let payload = b64e (bytes_of (session_payload user now)) in payload @ [SEP] @ sign payload secret)"

text \<open>\<open>int(text)\<close> of ASCII text: blanks around, a sign, digits with single underscores between them.\<close>

fun digit_groups :: "bool \<Rightarrow> string \<Rightarrow> int \<Rightarrow> int option" where
  "digit_groups after [] n = (if after then Some n else None)"
| "digit_groups after (c # cs) n =
    (if is_digit c then digit_groups True cs (10 * n + int (of_char c - 48))
     else if c = CHR ''_'' \<and> after then digit_groups False cs n
     else None)"

definition int_from :: "string \<Rightarrow> int option" where
  "int_from text =
    (case strip text of
       [] \<Rightarrow> None
     | c # cs \<Rightarrow> if c = CHR ''-'' then map_option uminus (digit_groups False cs 0)
         else if c = CHR ''+'' then digit_groups False cs 0 else digit_groups False (c # cs) 0)"

text \<open>
  \<open>UUID(text)\<close> of the form that \<open>str\<close> prints; \<open>other_uuid\<close> is what the library answers for any other text.
\<close>

definition uuid_number :: "string \<Rightarrow> nat" where
  "uuid_number s = fold (\<lambda>c n. 16 * n + (if is_digit c then of_char c - 48 else of_char c - 87)) s 0"

definition uuid_shape :: "string \<Rightarrow> bool" where
  "uuid_shape s = (length s = 36 \<and> s ! 8 = CHR ''-'' \<and> s ! 13 = CHR ''-'' \<and> s ! 18 = CHR ''-'' \<and> s ! 23 = CHR ''-'' \<and>
     list_all (\<lambda>c. c \<in> set ''0123456789abcdef'') (take 8 s @ take 4 (drop 9 s) @ take 4 (drop 14 s) @ take 4 (drop 19 s) @ drop 24 s))"

definition uuid_from :: "(string \<Rightarrow> uuid option) \<Rightarrow> string \<Rightarrow> uuid option" where
  "uuid_from other_uuid s =
    (if uuid_shape s
     then Some (of_nat (uuid_number (take 8 s @ take 4 (drop 9 s) @ take 4 (drop 14 s) @ take 4 (drop 19 s) @ drop 24 s)))
     else other_uuid s)"

text \<open>The user of a payload that is still valid; a payload that is not ASCII is not read.\<close>

definition payload_user :: "(string \<Rightarrow> uuid option) \<Rightarrow> int \<Rightarrow> datetime \<Rightarrow> string \<Rightarrow> uuid option" where
  "payload_user other_uuid max_age now payload =
    (case b64d payload of
       Inl _ \<Rightarrow> None
     | Inr raw \<Rightarrow>
         (let t = chars_of raw; user_raw = takeWhile (\<lambda>c. c \<noteq> CHR '':'') t; issued_raw = drop (length user_raw + 1) t
          in if \<not> is_ascii t \<or> length user_raw = length t then None
             else (case (int_from issued_raw, uuid_from other_uuid user_raw) of
                 (Some issued_at, Some user) \<Rightarrow> if issued_at + max_age < epoch_seconds now then None else Some user
               | _ \<Rightarrow> None)))"

definition read_session :: "(string \<Rightarrow> uuid option) \<Rightarrow> string \<Rightarrow> int \<Rightarrow> datetime \<Rightarrow> string option \<Rightarrow> uuid option result" where
  "read_session other_uuid secret max_age now cookie =
    (case cookie of
       None \<Rightarrow> Inr None
     | Some c \<Rightarrow>
         if length (filter (\<lambda>x. x = SEP) c) \<noteq> 1 then Inr None
         else (let payload = takeWhile (\<lambda>x. x \<noteq> SEP) c; sig = drop (length payload + 1) c
           in try_bind (compare_digest sig (sign payload secret)) (\<lambda>same.
                Inr (if same then payload_user other_uuid max_age now payload else None))))"

section \<open>PKCE\<close>

definition pkce_challenge :: "string \<Rightarrow> string" where
  "pkce_challenge verifier = b64e (sha256 (bytes_of verifier))"

definition verify_pkce :: "string \<Rightarrow> string \<Rightarrow> bool result" where
  "verify_pkce verifier challenge = compare_digest (pkce_challenge verifier) challenge"

section \<open>What is encoded is decoded\<close>

lemma b64_value_char: "n < 64 \<Longrightarrow> b64_value (b64_char n) = Some n \<and> b64_char n \<noteq> CHR ''='' \<and> b64_char n \<noteq> SEP \<and> (of_char (b64_char n) :: nat) < 128"
proof -
  have "\<forall>n \<in> set [0..<64]. b64_value (b64_char n) = Some n \<and> b64_char n \<noteq> CHR ''='' \<and> b64_char n \<noteq> SEP \<and> (of_char (b64_char n) :: nat) < 128"
    by code_simp
  then show "n < 64 \<Longrightarrow> ?thesis" by simp
qed

definition unpadded :: "nat list \<Rightarrow> string" where
  "unpadded ns = rstrip_char CHR ''='' (b64_groups ns)"

lemma rstrip_char_append: "rstrip_char c (xs @ ys) = (if rstrip_char c ys = [] then rstrip_char c xs else xs @ rstrip_char c ys)"
  by (simp add: rstrip_char_def dropWhile_append dropWhile_eq_Nil_conv)

lemma rstrip_char_self: "xs \<noteq> [] \<Longrightarrow> last xs \<noteq> c \<Longrightarrow> rstrip_char c xs = xs"
  by (cases xs rule: rev_cases) (auto simp: rstrip_char_def)

lemma groups_bound: "a < 256 \<Longrightarrow> a div 4 < (64 :: nat)" "(a mod 4) * 16 < (64 :: nat)" "b < 256 \<Longrightarrow> (a mod 4) * 16 + b div 16 < (64 :: nat)"
  "(b mod 16) * 4 < (64 :: nat)" "c < 256 \<Longrightarrow> (b mod 16) * 4 + c div 64 < (64 :: nat)" "c mod 64 < (64 :: nat)"
proof -
  have m: "a mod 4 < 4" "b mod 16 < 16" by simp_all
  show "a < 256 \<Longrightarrow> a div 4 < 64" by (simp add: less_mult_imp_div_less)
  show "(a mod 4) * 16 < 64" "(b mod 16) * 4 < 64" "c mod 64 < 64" using m by simp_all
  have "b < 256 \<Longrightarrow> b div 16 < 16" "c < 256 \<Longrightarrow> c div 64 < 4" by (simp_all add: less_mult_imp_div_less)
  then show "b < 256 \<Longrightarrow> (a mod 4) * 16 + b div 16 < 64" "c < 256 \<Longrightarrow> (b mod 16) * 4 + c div 64 < 64" using m by linarith+
qed

lemma split_div: "y < m \<Longrightarrow> (x * m + y) div m = (x :: nat)" "y < m \<Longrightarrow> (x * m + y) mod m = y"
  by simp_all

lemma groups_join: "(a div 4) * 4 + ((a mod 4) * 16 + b div 16) div 16 = (a :: nat)" if "b < 256" for a b
  using split_div(1) [of "b div 16" 16 "a mod 4"] that by (simp add: less_mult_imp_div_less)

lemma groups_join': "b div 16 * 16 + ((b mod 16) * 4 + c div 64) div 4 = (b :: nat)" "((b mod 16) * 4 + c div 64) mod 4 * 64 + c mod 64 = c"
  if "c < 256" for b c
  using split_div [of "c div 64" 4 "b mod 16"] that by (simp_all add: less_mult_imp_div_less)

lemma unpadded_simps [simp]:
  "unpadded [] = []"
  "a < 256 \<Longrightarrow> unpadded [a] = [b64_char (a div 4), b64_char ((a mod 4) * 16)]"
  "a < 256 \<Longrightarrow> b < 256 \<Longrightarrow> unpadded [a, b] = [b64_char (a div 4), b64_char ((a mod 4) * 16 + b div 16), b64_char ((b mod 16) * 4)]"
  "a < 256 \<Longrightarrow> b < 256 \<Longrightarrow> c < 256 \<Longrightarrow> unpadded (a # b # c # rest) = [b64_char (a div 4), b64_char ((a mod 4) * 16 + b div 16),
     b64_char ((b mod 16) * 4 + c div 64), b64_char (c mod 64)] @ unpadded rest"
proof -
  have ne: "b64_char n \<noteq> CHR ''=''" if "n < 64" for n using b64_value_char [OF that] by blast
  show "unpadded [] = []" by (simp add: unpadded_def rstrip_char_def)
  show "unpadded [a] = [b64_char (a div 4), b64_char ((a mod 4) * 16)]" if "a < 256"
    using ne [OF groups_bound(2), of a] by (simp add: unpadded_def rstrip_char_def)
  show "unpadded [a, b] = [b64_char (a div 4), b64_char ((a mod 4) * 16 + b div 16), b64_char ((b mod 16) * 4)]" if "a < 256" "b < 256"
    using ne [OF groups_bound(4), of b] by (simp add: unpadded_def rstrip_char_def)
  show "unpadded (a # b # c # rest) = [b64_char (a div 4), b64_char ((a mod 4) * 16 + b div 16),
     b64_char ((b mod 16) * 4 + c div 64), b64_char (c mod 64)] @ unpadded rest" if "a < 256" "b < 256" "c < 256"
  proof -
    let ?four = "[b64_char (a div 4), b64_char ((a mod 4) * 16 + b div 16), b64_char ((b mod 16) * 4 + c div 64), b64_char (c mod 64)]"
    have "rstrip_char CHR ''='' ?four = ?four" by (rule rstrip_char_self) (simp_all add: ne [OF groups_bound(6)])
    then show ?thesis unfolding unpadded_def b64_groups.simps rstrip_char_append by simp
  qed
qed

definition padding :: "string \<Rightarrow> string" where
  "padding s = replicate (nat ((- int (length s)) mod 4)) CHR ''=''"

lemma padding_four: "padding ([x1, x2, x3, x4] @ s) = padding s"
proof -
  have "(- int (length ([x1, x2, x3, x4] @ s))) mod 4 = (- int (length s)) mod 4" by (simp, presburger)
  then show ?thesis by (simp only: padding_def)
qed

lemma b64_step:
  assumes "v < 64"
  shows "b64_loop (b64_char v # cs) quad left pads out =
    (if quad = 0 then b64_loop cs 1 v 0 out
     else if quad = 1 then b64_loop cs 2 (v mod 16) 0 (out @ [left * 4 + v div 16])
     else if quad = 2 then b64_loop cs 3 (v mod 4) 0 (out @ [left * 16 + v div 4])
     else b64_loop cs 0 0 0 (out @ [left * 64 + v]))"
  using b64_value_char [OF assms] by simp

lemma b64_loop_unpadded:
  "\<forall>n \<in> set ns. n < 256 \<Longrightarrow> b64_loop (unpadded ns @ padding (unpadded ns)) 0 0 0 out = Some (out @ ns)"
proof (induction ns arbitrary: out rule: b64_groups.induct)
  case (2 a)
  then show ?case using groups_bound(1) [of a] groups_bound(2) [of a] by (simp add: padding_def b64_step numeral_2_eq_2 del: b64_loop.simps(2)) simp
next
  case (3 a b)
  then show ?case using groups_bound(1) [of a] groups_bound(3) [of b a] groups_bound(4) [of b] groups_join [of b a]
    by (simp add: padding_def b64_step del: b64_loop.simps(2)) simp
next
  case (4 a b c rest)
  then have "a < 256" "b < 256" "c < 256" by simp_all
  with 4 show ?case
    using groups_bound(1) [of a] groups_bound(3) [of b a] groups_bound(5) [of c b] groups_bound(6) [of c] groups_join [of b a]
      groups_join' [of c b]
    by (simp add: padding_four [simplified] b64_step del: b64_loop.simps(2))
qed (simp add: padding_def)

lemma unpadded_chars: "\<forall>n \<in> set ns. n < 256 \<Longrightarrow> x \<in> set (unpadded ns) \<Longrightarrow> \<exists>n < 64. x = b64_char n"
proof (induction ns rule: b64_groups.induct)
  case (4 a b c rest)
  then have "\<forall>n \<in> set rest. n < 256" "a < 256" "b < 256" "c < 256" by simp_all
  then show ?case
    using 4(1) 4(3) groups_bound(1) [of a] groups_bound(3) [of b a] groups_bound(5) [of c b] groups_bound(6) [of c]
    by (simp only: unpadded_simps set_append set_simps Un_iff insert_iff empty_iff simp_thms) metis
next
  case (3 a b)
  then show ?case using groups_bound(1) [of a] groups_bound(3) [of b a] groups_bound(4) [of b] by simp (metis groups_bound(4))
next
  case (2 a)
  then show ?case using groups_bound(1) [of a] groups_bound(2) [of a] by simp (metis groups_bound(2))
qed simp

lemma b64e_unpadded: "b64e raw = unpadded (map unat raw)"
  by (simp add: b64e_def unpadded_def)

lemma byte_range: "\<forall>n \<in> set (map unat (raw :: byte list)). n < 256"
  using unsigned_less [where ?'b = 8] by fastforce

lemma b64e_chars: "c \<in> set (b64e raw) \<Longrightarrow> c \<noteq> SEP \<and> (of_char c :: nat) < 128"
  using unpadded_chars [OF byte_range] b64_value_char unfolding b64e_unpadded by metis

lemma b64e_ascii [simp]: "is_ascii (b64e raw)"
  using b64e_chars by (auto simp: is_ascii_def list_all_iff)

lemma b64d_b64e [simp]: "b64d (b64e raw) = Inr raw"
  using b64_loop_unpadded [OF byte_range, of raw "[]"]
  by (simp add: b64d_def b64e_unpadded [symmetric] padding_def Let_def map_idI)

section \<open>The payload is read back\<close>

lemma chars_of_bytes_of [simp]: "chars_of (bytes_of s) = s"
proof -
  have "char_of (unat (of_char c :: byte)) = c" for c
  proof -
    have "(of_char c :: byte) = of_nat (of_char c)" by (rule of_nat_of_char [symmetric])
    then have "unat (of_char c :: byte) = of_char c mod 2 ^ LENGTH(8)" by (simp only: unat_of_nat)
    also have "\<dots> = of_char c" using nat_of_char_less_256 [of c] by simp
    finally show ?thesis by (simp only: char_of_char)
  qed
  then show ?thesis by (simp add: chars_of_def bytes_of_def map_idI)
qed

lemma digit_char_of: "d < 10 \<Longrightarrow> is_digit (digit_char d) \<and> (of_char (digit_char d) :: nat) = 48 + d"
proof -
  have "\<forall>d \<in> set [0..<10]. is_digit (digit_char d) \<and> (of_char (digit_char d) :: nat) = 48 + d" by code_simp
  then show "d < 10 \<Longrightarrow> ?thesis" by simp
qed

lemma digit_groups_all:
  "list_all is_digit xs \<Longrightarrow> digit_groups after xs n = (if xs = [] \<and> \<not> after then None else Some (fold (\<lambda>c n. 10 * n + int (of_char c - 48)) xs n))"
  by (induction after xs n rule: digit_groups.induct) simp_all

lemma str_nat_digits: "str_nat n \<noteq> [] \<and> list_all is_digit (str_nat n) \<and> fold (\<lambda>c n. 10 * n + int (of_char c - 48)) (str_nat n) 0 = int n"
proof (induction n rule: str_nat.induct)
  case (1 n)
  have "10 * int (n div 10) + int (n mod 10) = int (10 * (n div 10) + n mod 10)" by (simp only: of_nat_add of_nat_mult of_nat_numeral)
  then have "10 * int (n div 10) + int (n mod 10) = int n" by simp
  with 1 show ?case using digit_char_of [of n] digit_char_of [of "n mod 10"] by (subst (1 2 3) str_nat.simps) auto
qed

lemma strip_digits: "xs \<noteq> [] \<Longrightarrow> list_all is_digit (tl xs) \<Longrightarrow> \<not> is_space (hd xs) \<Longrightarrow> strip xs = xs"
proof -
  assume xs: "xs \<noteq> []" "list_all is_digit (tl xs)" "\<not> is_space (hd xs)"
  have digit: "\<not> is_space c" if "is_digit c" for c using that by (auto simp: is_digit_def is_space_def)
  have "\<not> is_space (last xs)"
    using xs digit by (cases xs) (auto simp: list_all_iff)
  then have "dropWhile is_space (rev xs) = rev xs" using xs(1) by (cases xs rule: rev_cases) auto
  then show "strip xs = xs" using xs(1,3) by (cases xs) (auto simp: strip_def)
qed

lemma int_from_str_int [simp]: "int_from (str_int n) = Some n"
proof -
  have pos: "strip (str_nat k) = str_nat k \<and> hd (str_nat k) \<noteq> CHR ''-'' \<and> hd (str_nat k) \<noteq> CHR ''+'' \<and> digit_groups False (str_nat k) 0 = Some (int k)" for k
  proof -
    obtain c cs where c: "str_nat k = c # cs" "is_digit c" "list_all is_digit cs"
      using str_nat_digits [of k] by (cases "str_nat k") auto
    have "\<not> is_space c" "c \<noteq> CHR ''-''" "c \<noteq> CHR ''+''" using c(2) by (auto simp: is_digit_def is_space_def)
    then show ?thesis using strip_digits [of "c # cs"] digit_groups_all [of "str_nat k" False 0] str_nat_digits [of k] c by auto
  qed
  show ?thesis
  proof (cases "n < 0")
    case True
    have "strip (CHR ''-'' # str_nat (nat (- n))) = CHR ''-'' # str_nat (nat (- n))"
      using str_nat_digits [of "nat (- n)"] by (intro strip_digits) (auto simp: is_space_def)
    then show ?thesis using True pos [of "nat (- n)"] by (simp add: int_from_def str_int_def)
  next
    case False
    then show ?thesis using pos [of "nat n"] by (cases "str_nat (nat n)") (auto simp: int_from_def str_int_def)
  qed
qed

lemma uuid_number_to_base: "uuid_number (to_base 16 w n) = n mod 16 ^ w"
proof -
  have digit: "(if is_digit (digit_char d) then of_char (digit_char d) - 48 else of_char (digit_char d) - 87) = d" if "d < 16" for d :: nat
  proof -
    have "\<forall>d \<in> set [0..<16]. (if is_digit (digit_char d) then of_char (digit_char d) - 48 else of_char (digit_char d) - 87) = d" by code_simp
    then show ?thesis using that by simp
  qed
  show ?thesis
  proof (induction w arbitrary: n)
    case (Suc w)
    have "uuid_number (to_base 16 (Suc w) n) = 16 * uuid_number (to_base 16 w (n div 16)) + n mod 16"
      using digit [of "n mod 16"] by (simp add: uuid_number_def)
    then show ?case using Suc mod_mult2_eq [of n 16 "16 ^ w"] by simp
  qed (simp add: uuid_number_def)
qed

lemma uuid_from_str_uuid [simp]: "uuid_from other_uuid (str_uuid u) = Some u"
proof -
  define h where "h = hex 32 (unat u)"
  define a b c d e where "a = take 8 h" and "b = take 4 (drop 8 h)" and "c = take 4 (drop 12 h)" and "d = take 4 (drop 16 h)" and "e = drop 20 h"
  have len: "length a = 8" "length b = 4" "length c = 4" "length d = 4" "length e = 12"
    by (simp_all add: a_def b_def c_def d_def e_def h_def)
  have h: "h = a @ b @ c @ d @ e" unfolding a_def b_def c_def d_def e_def by (rule split_32)
  have s: "str_uuid u = a @ ''-'' @ b @ ''-'' @ c @ ''-'' @ d @ ''-'' @ e"
    by (simp add: str_uuid_def h_def a_def b_def c_def d_def e_def Let_def)
  have parts: "take 8 (str_uuid u) @ take 4 (drop 9 (str_uuid u)) @ take 4 (drop 14 (str_uuid u)) @ take 4 (drop 19 (str_uuid u)) @
      drop 24 (str_uuid u) = h"
    unfolding s h by (simp add: len)
  have dashes: "str_uuid u ! 8 = CHR ''-'' \<and> str_uuid u ! 13 = CHR ''-'' \<and> str_uuid u ! 18 = CHR ''-'' \<and> str_uuid u ! 23 = CHR ''-''"
    unfolding s by (simp add: len nth_append)
  have "list_all (\<lambda>c. c \<in> set ''0123456789abcdef'') h" using hex_chars [of 32 "unat u"] unfolding h_def list_all_iff by blast
  then have "uuid_shape (str_uuid u)" unfolding uuid_shape_def parts using dashes by simp
  moreover have "unat u < 16 ^ 32" using unsigned_less [of u] by simp
  then have "uuid_number h = unat u" by (simp add: h_def hex_def uuid_number_to_base)
  ultimately show ?thesis unfolding uuid_from_def parts by simp
qed

lemma payload_ascii: "is_ascii (session_payload user now)"
proof -
  have "c < 128" if "c \<in> of_char ` set ''0123456789abcdef''" for c :: nat using that by auto
  moreover have "set (str_uuid user) \<subseteq> insert CHR ''-'' (set ''0123456789abcdef'')"
    using hex_chars [of 32 "unat user"] by (fastforce simp: str_uuid_def Let_def dest: in_set_takeD in_set_dropD)
  moreover have "(of_char c :: nat) < 128" if "is_digit c" for c using that by (simp add: is_digit_def)
  ultimately show ?thesis
    using str_nat_digits by (fastforce simp: is_ascii_def session_payload_def list_all_iff str_int_def)
qed

lemma payload_user_issued:
  "payload_user other_uuid max_age later (b64e (bytes_of (session_payload user now))) =
    (if epoch_seconds now + max_age < epoch_seconds later then None else Some user)"
proof -
  have "takeWhile (\<lambda>c. c \<noteq> CHR '':'') (session_payload user now) = str_uuid user"
    unfolding session_payload_def using str_uuid_no_colon [of user] by (subst takeWhile_append2) auto
  moreover have "drop (length (str_uuid user) + 1) (session_payload user now) = str_int (epoch_seconds now)"
    "length (session_payload user now) \<noteq> length (str_uuid user)"
    by (simp_all add: session_payload_def)
  ultimately show ?thesis by (simp add: payload_user_def payload_ascii Let_def)
qed

lemma cookie_parts:
  assumes "\<forall>x \<in> set p. x \<noteq> SEP" "\<forall>x \<in> set q. x \<noteq> SEP"
  shows "length (filter (\<lambda>x. x = SEP) (p @ [SEP] @ q)) = 1" "takeWhile (\<lambda>x. x \<noteq> SEP) (p @ [SEP] @ q) = p"
    "drop (length p + 1) (p @ [SEP] @ q) = q"
  using assms by (auto simp: filter_empty_conv)

lemma read_issued:
  "read_session other_uuid secret max_age later (Some (issue_session secret user now)) =
    Inr (if epoch_seconds now + max_age < epoch_seconds later then None else Some user)"
proof -
  let ?p = "b64e (bytes_of (session_payload user now))"
  have no_sep: "\<forall>x \<in> set (b64e raw). x \<noteq> SEP" for raw using b64e_chars by blast
  have "issue_session secret user now = ?p @ [SEP] @ sign ?p secret" by (simp add: issue_session_def Let_def)
  then show ?thesis
    using cookie_parts [OF no_sep no_sep, of "bytes_of (session_payload user now)"] payload_user_issued [of other_uuid max_age later user now]
    by (simp add: read_session_def sign_def compare_digest_def Let_def)
qed

text \<open>A cookie that is read is signed; no other payload goes with its signature unless the digests agree.\<close>

lemma read_signed:
  assumes "read_session other_uuid secret max_age now (Some c) = Inr (Some user)"
  shows "\<exists>payload. c = payload @ [SEP] @ sign payload secret \<and> payload_user other_uuid max_age now payload = Some user"
proof -
  define payload where "payload = takeWhile (\<lambda>x. x \<noteq> SEP) c"
  have "length (filter (\<lambda>x. x = SEP) c) = 1" and sig: "drop (length payload + 1) c = sign payload secret"
    and user: "payload_user other_uuid max_age now payload = Some user"
    using assms by (auto simp: read_session_def payload_def compare_digest_def Let_def split: if_splits)
  then have "SEP \<in> set c" using filter_empty_conv [of "\<lambda>x. x = SEP" c] by auto
  then obtain ys rest where ys: "c = ys @ SEP # rest" "SEP \<notin> set ys" by (meson split_list_first)
  then have "payload = ys" unfolding payload_def by (subst ys(1), subst takeWhile_append2) auto
  then have whole: "c = payload @ SEP # rest" using ys(1) by simp
  then have "drop (length payload + 1) c = rest" by simp
  then have "rest = sign payload secret" using sig by simp
  then show ?thesis using whole user by auto
qed

text \<open>
  C32: A session that was issued is read back as its user until its age is over, under the same secret; and whatever the
  cookie, a user is only read from a payload that carries its own signature, so a payload that was changed is
  refused unless the digests of the two agree.
\<close>

theorem session_exact:
  "read_session other_uuid secret max_age later (Some (issue_session secret user now)) =
      Inr (if epoch_seconds now + max_age < epoch_seconds later then None else Some user) \<and>
   (read_session other_uuid secret max_age later (Some c) = Inr (Some u) \<longrightarrow>
      (\<exists>payload. c = payload @ [SEP] @ sign payload secret \<and> payload_user other_uuid max_age later payload = Some u)) \<and>
   (read_session other_uuid secret max_age later (Some (changed @ [SEP] @ sign payload secret)) = Inr (Some u) \<and>
      (\<forall>x \<in> set changed. x \<noteq> SEP) \<longrightarrow>
      hmac_sha256 (bytes_of secret) (bytes_of changed) = hmac_sha256 (bytes_of secret) (bytes_of payload))"
proof (intro conjI impI)
  show "hmac_sha256 (bytes_of secret) (bytes_of changed) = hmac_sha256 (bytes_of secret) (bytes_of payload)"
    if read: "read_session other_uuid secret max_age later (Some (changed @ [SEP] @ sign payload secret)) = Inr (Some u) \<and>
      (\<forall>x \<in> set changed. x \<noteq> SEP)"
  proof -
    obtain p where p: "changed @ [SEP] @ sign payload secret = p @ [SEP] @ sign p secret"
      using read_signed [OF conjunct1 [OF read]] by blast
    have no_sep: "\<forall>x \<in> set (sign q secret). x \<noteq> SEP" for q using b64e_chars unfolding sign_def by blast
    have "length (filter (\<lambda>x. x = SEP) (p @ [SEP] @ sign p secret)) = 1"
      using cookie_parts(1) [OF _ no_sep, of changed] read p by metis
    then have "\<forall>x \<in> set p. x \<noteq> SEP" by (auto simp: filter_empty_conv)
    then have "changed = p" using cookie_parts(2) [OF _ no_sep] read p by metis
    then have "sign payload secret = sign changed secret" using p by simp
    then have "b64d (sign payload secret) = b64d (sign changed secret)" by simp
    then show ?thesis unfolding sign_def b64d_b64e by simp
  qed
  show "\<exists>payload. c = payload @ [SEP] @ sign payload secret \<and> payload_user other_uuid max_age later payload = Some u"
    if "read_session other_uuid secret max_age later (Some c) = Inr (Some u)"
    using that by (rule read_signed)
qed (rule read_issued)

theorem session_exact_witness:
  "\<exists>payload. issue_session ''secret'' 7 0 = payload @ [SEP] @ sign payload ''secret'' \<and>
    payload_user (\<lambda>_. None) 60 0 payload = Some 7"
  using session_exact [of "\<lambda>_. None" "''secret''" 60 0 7 0 "issue_session ''secret'' 7 0" 7 "[]" "[]"] by (simp add: epoch_seconds_def)

text \<open>The pair of an authorisation verifies.\<close>

lemma pkce_pair_verifies: "verify_pkce verifier (pkce_challenge verifier) = Inr True"
  by (simp add: verify_pkce_def compare_digest_def pkce_challenge_def)

text \<open>A signature that is not ASCII raises \<open>TypeError\<close> instead of being refused.\<close>

lemma foreign_signature_raises:
  "read_session other_uuid secret max_age now (Some (CHR ''a'' # SEP # [CHR 0xE9])) = Inl TypeError"
  by (simp add: read_session_def SEP_def compare_digest_def is_ascii_def)

end
