(* ===== verification/Workspaces.thy ===== *)
theory Workspaces
  imports Audit_Engine Session_Cookie
begin

text \<open>
  Users and their workspaces: the tables (\<open>app/models\<close>), membership (\<open>app/services/workspaces.py\<close>), invitations
  (\<open>workspace_invites.py\<close>), the transactions of OAuth (\<open>oauth_state.py\<close>) and the Google connections of a workspace
  (\<open>connections.py\<close>). An insertion that a unique key refuses is an \<open>IntegrityError\<close>. Identifiers and secrets are drawn by the
  caller; the cipher is a parameter.
\<close>

section \<open>Tables\<close>

record user =
  us_id :: uuid
  us_email :: string
  us_google_sub :: "string option"
  us_password_hash :: "string option"
  us_display_name :: "string option"

record workspace =
  wk_id :: uuid
  wk_name :: string
  wk_owner_user_id :: uuid
  wk_created_at :: datetime

record workspace_member =
  wm_workspace_id :: uuid
  wm_user_id :: uuid
  wm_role :: string

record workspace_invitation =
  wi_id :: uuid
  wi_workspace_id :: uuid
  wi_invited_email :: string
  wi_token :: string
  wi_invited_by_user_id :: uuid
  wi_status :: string
  wi_expires_at :: datetime
  wi_accepted_at :: "datetime option"

record oauth_state =
  os_state :: string
  os_code_verifier :: string
  os_user_id :: "uuid option"
  os_workspace_id :: "uuid option"
  os_redirect_to :: "string option"
  os_expires_at :: datetime

record password_reset_token =
  rt_user_id :: uuid
  rt_token :: string
  rt_expires_at :: datetime
  rt_used_at :: "datetime option"

record access_db = audit_db +
  users :: "user list"
  workspaces :: "workspace list"
  workspace_members :: "workspace_member list"
  invitations :: "workspace_invitation list"
  oauth_states :: "oauth_state list"
  reset_tokens :: "password_reset_token list"

text \<open>What a request raises: an HTTP status with its message, an error of Python, two rows where one was asked for, a row that is no longer there, a failure of Google that nothing catches.\<close>

datatype fault = Http int string | Crashed py_error | Multiple_rows | Row_gone | Google_failed

type_synonym 'a answer = "fault + 'a"

text \<open>\<open>flush\<close> of a new row; rows without a key never collide.\<close>

definition insert_row :: "('r \<Rightarrow> 'k option) \<Rightarrow> 'r \<Rightarrow> 'r list \<Rightarrow> 'r list answer" where
  "insert_row key r rows =
    (if key r \<noteq> None \<and> key r \<in> key ` set rows then Inl (Crashed IntegrityError) else Inr (rows @ [r]))"

text \<open>\<open>scalar_one_or_none()\<close>.\<close>

definition one_or_none :: "('r \<Rightarrow> bool) \<Rightarrow> 'r list \<Rightarrow> 'r option answer" where
  "one_or_none P rows = (case filter P rows of [] \<Rightarrow> Inr None | [r] \<Rightarrow> Inr (Some r) | _ \<Rightarrow> Inl Multiple_rows)"

definition insert_user :: "user \<Rightarrow> 'a access_db_scheme \<Rightarrow> 'a access_db_scheme answer" where
  "insert_user u db =
     try_bind (insert_row (\<lambda>x. Some (us_id x)) u (users db)) (\<lambda>_.
     try_bind (insert_row (\<lambda>x. Some (us_email x)) u (users db)) (\<lambda>_.
     try_bind (insert_row us_google_sub u (users db)) (\<lambda>rows. Inr (db\<lparr>users := rows\<rparr>))))"

definition member_key :: "workspace_member \<Rightarrow> (uuid \<times> uuid) option" where
  "member_key m = Some (wm_workspace_id m, wm_user_id m)"

section \<open>Workspaces\<close>

definition user_workspace_ids :: "'a access_db_scheme \<Rightarrow> uuid \<Rightarrow> uuid list" where
  "user_workspace_ids db u = map wm_workspace_id (filter (\<lambda>m. wm_user_id m = u) (workspace_members db))"

definition membership :: "'a access_db_scheme \<Rightarrow> uuid \<Rightarrow> uuid \<Rightarrow> workspace_member option" where
  "membership db w u = find_row (\<lambda>m. wm_workspace_id m = w \<and> wm_user_id m = u) (workspace_members db)"

definition is_member :: "'a access_db_scheme \<Rightarrow> uuid \<Rightarrow> uuid \<Rightarrow> bool" where
  "is_member db w u = (membership db w u \<noteq> None)"

definition owned_website :: "'a access_db_scheme \<Rightarrow> uuid \<Rightarrow> uuid \<Rightarrow> website answer" where
  "owned_website db site u =
    (case website_by_id db site of
       None \<Rightarrow> Inl (Http 404 (''site introuvable''))
     | Some w \<Rightarrow> if is_member db (ws_workspace_id w) u then Inr w else Inl (Http 404 (''site introuvable'')))"

definition require_owner :: "'a access_db_scheme \<Rightarrow> uuid \<Rightarrow> uuid \<Rightarrow> unit answer" where
  "require_owner db w u =
    (case membership db w u of
       None \<Rightarrow> Inl (Http 404 (''workspace introuvable''))
     | Some m \<Rightarrow> if wm_role m = ''owner'' then Inr () else Inl (Http 403 (''reserve au proprietaire'')))"

text \<open>\<open>a or b\<close> on an optional text.\<close>

definition first_text :: "string option \<Rightarrow> string \<Rightarrow> string" where
  "first_text a b = (case a of Some (c # cs) \<Rightarrow> c # cs | _ \<Rightarrow> b)"

definition create_workspace_for_user :: "uuid \<Rightarrow> datetime \<Rightarrow> user \<Rightarrow> string option \<Rightarrow> 'a access_db_scheme \<Rightarrow> 'a access_db_scheme answer" where
  "create_workspace_for_user w now u name db =
     try_bind (insert_row (\<lambda>x. Some (wk_id x)) \<lparr>wk_id = w, wk_name = first_text name (first_text (us_display_name u) (us_email u)),
       wk_owner_user_id = us_id u, wk_created_at = now\<rparr> (workspaces db)) (\<lambda>rows.
     try_bind (insert_row member_key \<lparr>wm_workspace_id = w, wm_user_id = us_id u, wm_role = ''owner''\<rparr> (workspace_members db)) (\<lambda>ms.
       Inr (db\<lparr>workspaces := rows, workspace_members := ms\<rparr>)))"

section \<open>Invitations\<close>

definition INVITATION_TTL :: timedelta where "INVITATION_TTL = days 7"

datatype invite_error = Invitation_invalid string | Invitation_email_mismatch string | Invitation_fault fault

definition create_invitation :: "uuid \<Rightarrow> string \<Rightarrow> datetime \<Rightarrow> uuid \<Rightarrow> string \<Rightarrow> uuid \<Rightarrow> 'a access_db_scheme \<Rightarrow>
    ('a access_db_scheme \<times> workspace_invitation) answer" where
  "create_invitation i token now w email by db =
    (let invitation = \<lparr>wi_id = i, wi_workspace_id = w, wi_invited_email = email, wi_token = token, wi_invited_by_user_id = by,
       wi_status = ''pending'', wi_expires_at = now + INVITATION_TTL, wi_accepted_at = None\<rparr>
     in try_bind (insert_row (\<lambda>x. Some (wi_id x)) invitation (invitations db)) (\<lambda>_.
        try_bind (insert_row (\<lambda>x. Some (wi_token x)) invitation (invitations db)) (\<lambda>rows.
          Inr (db\<lparr>invitations := rows\<rparr>, invitation))))"

definition get_invitation :: "'a access_db_scheme \<Rightarrow> string \<Rightarrow> workspace_invitation option" where
  "get_invitation db token = find_row (\<lambda>i. wi_token i = token) (invitations db)"

definition mark_accepted :: "datetime \<Rightarrow> string \<Rightarrow> workspace_invitation list \<Rightarrow> workspace_invitation list" where
  "mark_accepted now token = update_rows (\<lambda>i. wi_token i = token) (\<lambda>i. i\<lparr>wi_status := ''accepted'', wi_accepted_at := Some now\<rparr>)"

definition accept_invitation :: "datetime \<Rightarrow> datetime \<Rightarrow> string \<Rightarrow> user \<Rightarrow> 'a access_db_scheme \<Rightarrow> invite_error + 'a access_db_scheme" where
  "accept_invitation now now' token u db =
    (case get_invitation db token of
       None \<Rightarrow> Inl (Invitation_invalid (''invitation introuvable ou deja utilisee''))
     | Some i \<Rightarrow>
         if wi_status i \<noteq> ''pending'' then Inl (Invitation_invalid (''invitation introuvable ou deja utilisee''))
         else if wi_expires_at i < now then Inl (Invitation_invalid (''invitation expiree''))
         else if lower (wi_invited_email i) \<noteq> lower (us_email u) then Inl (Invitation_email_mismatch (''cette invitation est nominative''))
         else if is_member db (wi_workspace_id i) (us_id u) then Inr (db\<lparr>invitations := mark_accepted now' token (invitations db)\<rparr>)
         else (case insert_row member_key \<lparr>wm_workspace_id = wi_workspace_id i, wm_user_id = us_id u, wm_role = ''member''\<rparr> (workspace_members db) of
             Inl e \<Rightarrow> Inl (Invitation_fault e)
           | Inr ms \<Rightarrow> Inr (db\<lparr>workspace_members := ms, invitations := mark_accepted now' token (invitations db)\<rparr>)))"

section \<open>Transactions of OAuth\<close>

text \<open>The state and the challenge that go to Google.\<close>

definition create_oauth_transaction :: "string \<Rightarrow> string \<Rightarrow> datetime \<Rightarrow> uuid option \<Rightarrow> uuid option \<Rightarrow> string option \<Rightarrow> int \<Rightarrow>
    'a access_db_scheme \<Rightarrow> ('a access_db_scheme \<times> string \<times> string) answer" where
  "create_oauth_transaction state verifier now user w redirect_to ttl db =
     try_bind (insert_row (\<lambda>x. Some (os_state x)) \<lparr>os_state = state, os_code_verifier = verifier, os_user_id = user,
       os_workspace_id = w, os_redirect_to = redirect_to, os_expires_at = now + seconds ttl\<rparr> (oauth_states db)) (\<lambda>rows.
       Inr (db\<lparr>oauth_states := rows\<rparr>, state, pkce_challenge verifier))"

definition consume_oauth_state :: "datetime \<Rightarrow> string \<Rightarrow> 'a access_db_scheme \<Rightarrow> 'a access_db_scheme \<times> oauth_state option" where
  "consume_oauth_state now state db =
    (case find_row (\<lambda>x. os_state x = state) (oauth_states db) of
       None \<Rightarrow> (db, None)
     | Some row \<Rightarrow> (db\<lparr>oauth_states := delete_rows (\<lambda>x. os_state x = state) (oauth_states db)\<rparr>,
         if os_expires_at row < now then None else Some row))"

section \<open>Google connections\<close>

record google_userinfo =
  gu_sub :: string
  gu_email :: string
  gu_email_verified :: bool
  gu_name :: "string option"

record google_token_response =
  gt_access_token :: string
  gt_refresh_token :: "string option"
  gt_scopes :: "string list"

definition connection_aad :: "uuid \<Rightarrow> string \<Rightarrow> string" where
  "connection_aad w sub = ''gconn|user:'' @ str_uuid w @ ''|sub:'' @ sub"

text \<open>\<open>encrypt\<close> gives the packed token and the version of the key, for a text and its associated data.\<close>

type_synonym encrypter = "string \<Rightarrow> string \<Rightarrow> string \<times> int"

definition refreshed_connection :: "encrypter \<Rightarrow> datetime \<Rightarrow> google_userinfo \<Rightarrow> google_token_response \<Rightarrow> string \<Rightarrow>
    google_connection \<Rightarrow> google_connection" where
  "refreshed_connection encrypt now info token refresh c =
    (let (blob, version) = encrypt refresh (connection_aad (gn_workspace_id c) (gn_sub c))
     in c\<lparr>gn_email := gu_email info, gn_scopes := gt_scopes token, gn_token := blob, gn_key_version := version,
          gn_status := Conn_active, gn_last_refreshed_at := Some now\<rparr>)"

definition upsert_google_connection :: "encrypter \<Rightarrow> uuid \<Rightarrow> datetime \<Rightarrow> uuid \<Rightarrow> google_userinfo \<Rightarrow> google_token_response \<Rightarrow>
    'a access_db_scheme \<Rightarrow> 'a access_db_scheme answer" where
  "upsert_google_connection encrypt i now w info token db =
    (case gt_refresh_token token of
       None \<Rightarrow> Inl (Crashed ValueError)
     | Some refresh \<Rightarrow>
         if list_ex (\<lambda>c. gn_workspace_id c = w \<and> gn_sub c = gu_sub info) (google_connections db)
         then Inr (db\<lparr>google_connections := update_rows (\<lambda>c. gn_workspace_id c = w \<and> gn_sub c = gu_sub info)
           (refreshed_connection encrypt now info token refresh) (google_connections db)\<rparr>)
         else try_bind (insert_row (\<lambda>c. Some (gn_id c)) (refreshed_connection encrypt now info token refresh
             \<lparr>gn_id = i, gn_workspace_id = w, gn_email = gu_email info, gn_sub = gu_sub info, gn_scopes = [], gn_token = [],
              gn_key_version = 0, gn_status = Conn_active, gn_last_refreshed_at = None\<rparr>) (google_connections db)) (\<lambda>rows.
           Inr (db\<lparr>google_connections := rows\<rparr>)))"

section \<open>Lemmas\<close>

lemma insert_row_Inr [simp]: "insert_row key r rows = Inr rows' \<longleftrightarrow> (key r = None \<or> key r \<notin> key ` set rows) \<and> rows' = rows @ [r]"
  by (auto simp: insert_row_def)

lemma membership_Some: "membership db w u = Some m \<Longrightarrow> m \<in> set (workspace_members db) \<and> wm_workspace_id m = w \<and> wm_user_id m = u"
  unfolding membership_def by (drule find_row_SomeD) simp

lemma is_member_iff: "is_member db w u \<longleftrightarrow> (\<exists>m \<in> set (workspace_members db). wm_workspace_id m = w \<and> wm_user_id m = u)"
  by (auto simp: is_member_def membership_def find_row_None dest: membership_Some)

lemma is_member_ids: "is_member db w u \<longleftrightarrow> w \<in> set (user_workspace_ids db u)"
  by (auto simp: is_member_iff user_workspace_ids_def)

lemma owned_website_Inr [simp]:
  "owned_website db site u = Inr w \<longleftrightarrow> website_by_id db site = Some w \<and> is_member db (ws_workspace_id w) u"
  by (auto simp: owned_website_def split: option.splits)

lemma require_owner_Inr: "require_owner db w u = Inr x \<longleftrightarrow> (\<exists>m. membership db w u = Some m \<and> wm_role m = ''owner'')"
  by (auto simp: require_owner_def split: option.splits)

end
