(* ===== verification/Rate_Limit.thy ===== *)
theory Rate_Limit
  imports Text_Format Regex Py_Dict
begin

text \<open>
  The sliding-window limiter (\<open>app/security/rate_limit.py\<close>) and the two dependencies of the routes
  (\<open>app/api/rate_limit.py\<close>). Times are rationals, the readings of \<open>time.monotonic\<close>; a call that reads the clock
  several times takes its readings as arguments. The lemmas show that what is let through in any window is
  within the limit, that a refusal is deserved and tells when the next request will pass.
\<close>

record limiter =
  li_max_keys :: nat
  li_max_window :: rat
  li_hits :: "(string \<times> rat list) list"

definition new_limiter :: "nat \<Rightarrow> limiter" where
  "new_limiter max_keys = \<lparr>li_max_keys = max_keys, li_max_window = 0, li_hits = []\<rparr>"

definition MAX_KEYS :: nat where "MAX_KEYS = 50000"

definition hits_of :: "limiter \<Rightarrow> string \<Rightarrow> rat list" where
  "hits_of st key = get_default [] (li_hits st) key"

definition prune :: "rat \<Rightarrow> rat \<Rightarrow> rat list \<Rightarrow> rat list" where
  "prune now window hits = dropWhile (\<lambda>h. h \<le> now - window) hits"

text \<open>The new state (the deque of a known key is pruned in place) and the seconds to wait.\<close>

definition retry_after :: "rat \<Rightarrow> string \<Rightarrow> int \<Rightarrow> rat \<Rightarrow> limiter \<Rightarrow> limiter \<times> rat" where
  "retry_after now key limit window st =
    (if hits_of st key = [] then (st, 0)
     else (let hits = prune now window (hits_of st key); st' = st\<lparr>li_hits := dict_set key hits (li_hits st)\<rparr>
           in if int (length hits) < limit then (st', 0)
              else (st', max (hd hits + window - now) (1 / 1000))))"

definition live_entry :: "rat \<Rightarrow> rat list \<Rightarrow> bool" where
  "live_entry cutoff hits = (hits \<noteq> [] \<and> cutoff < last hits)"

definition collect_garbage :: "rat \<Rightarrow> limiter \<Rightarrow> limiter" where
  "collect_garbage now st =
    (if length (li_hits st) \<le> li_max_keys st then st
     else (let kept = filter (\<lambda>(_, hits). live_entry (now - li_max_window st) hits) (li_hits st)
           in if li_max_keys st < length kept then st\<lparr>li_hits := []\<rparr> else st\<lparr>li_hits := kept\<rparr>))"

definition record_hit :: "rat \<Rightarrow> rat \<Rightarrow> string \<Rightarrow> limiter \<Rightarrow> limiter" where
  "record_hit now now' key st =
     collect_garbage now' (st\<lparr>li_hits := dict_update key (\<lambda>old. (case old of None \<Rightarrow> [] | Some hits \<Rightarrow> hits) @ [now]) (li_hits st)\<rparr>)"

text \<open>The readings of the clock of one call: for the control, for the record, for the collection.\<close>

record limit_call =
  lc_key :: string
  lc_limit :: int
  lc_window :: rat
  lc_checked :: rat
  lc_recorded :: rat
  lc_collected :: rat

definition check :: "limit_call \<Rightarrow> limiter \<Rightarrow> limiter \<times> rat" where
  "check c st =
    (let (st1, wait) = retry_after (lc_checked c) (lc_key c) (lc_limit c) (lc_window c)
           (st\<lparr>li_max_window := max (li_max_window st) (lc_window c)\<rparr>)
     in if wait = 0 then (record_hit (lc_recorded c) (lc_collected c) (lc_key c) st1, wait) else (st1, wait))"

definition reset :: "limiter \<Rightarrow> limiter" where "reset st = st\<lparr>li_hits := []\<rparr>"

section \<open>The routes\<close>

text \<open>\<open>_too_many\<close>: status 429 with the seconds of the header \<open>Retry-After\<close>.\<close>

definition too_many :: "rat \<Rightarrow> int \<times> int" where
  "too_many wait = (429, max 1 \<lceil>wait\<rceil>)"

definition enforce :: "bool \<Rightarrow> limit_call \<Rightarrow> limiter \<Rightarrow> limiter \<times> (int \<times> int) option" where
  "enforce enabled c st =
    (if \<not> enabled then (st, None)
     else (let (st', wait) = check c st in (st', if 0 < wait then Some (too_many wait) else None)))"

definition enforce_not_blocked :: "bool \<Rightarrow> rat \<Rightarrow> string \<Rightarrow> int \<Rightarrow> rat \<Rightarrow> limiter \<Rightarrow> limiter \<times> (int \<times> int) option" where
  "enforce_not_blocked enabled now key limit window st =
    (if \<not> enabled then (st, None)
     else (let (st', wait) = retry_after now key limit window st in (st', if 0 < wait then Some (too_many wait) else None)))"

definition client_ip :: "(string \<times> string) list \<Rightarrow> string option \<Rightarrow> string" where
  "client_ip headers host =
    (let first = strip (takeWhile (\<lambda>c. c \<noteq> CHR '','') (get_default [] headers ''x-forwarded-for''))
     in if first \<noteq> [] then first
        else (case host of Some (x # xs) \<Rightarrow> x # xs | _ \<Rightarrow> ''unknown''))"

definition ip_key :: "string \<Rightarrow> (string \<times> string) list \<Rightarrow> string option \<Rightarrow> string" where
  "ip_key name headers host = name @ '':ip:'' @ client_ip headers host"

definition user_key :: "string \<Rightarrow> uuid \<Rightarrow> string" where
  "user_key name user = name @ '':user:'' @ str_uuid user"

section \<open>A sequence of calls\<close>

text \<open>The calls in order; \<open>passed\<close> lists the calls let through, each with the time it was recorded at.\<close>

fun run_calls :: "limit_call list \<Rightarrow> limiter \<Rightarrow> limiter \<times> limit_call list" where
  "run_calls [] st = (st, [])"
| "run_calls (c # cs) st =
    (let (st1, wait) = check c st; (st2, passed) = run_calls cs st1
     in (st2, (if wait = 0 then [c] else []) @ passed))"

text \<open>The clock never goes back, and windows are positive.\<close>

fun clock_from :: "rat \<Rightarrow> limit_call list \<Rightarrow> bool" where
  "clock_from now [] = True"
| "clock_from now (c # cs) = (now \<le> lc_checked c \<and> lc_checked c \<le> lc_recorded c \<and> lc_recorded c \<le> lc_collected c \<and>
     0 < lc_window c \<and> clock_from (lc_collected c) cs)"

text \<open>The limiter is not saturated by a call: after the collection the live keys fit.\<close>

definition unsaturated :: "limit_call \<Rightarrow> limiter \<Rightarrow> bool" where
  "unsaturated c st = (length (filter (\<lambda>(_, hits). live_entry (lc_collected c - max (li_max_window st) (lc_window c)) hits) (li_hits st))
     < li_max_keys st)"

fun never_saturated :: "limit_call list \<Rightarrow> limiter \<Rightarrow> bool" where
  "never_saturated [] st = True"
| "never_saturated (c # cs) st = (unsaturated c st \<and> never_saturated cs (fst (check c st)))"

section \<open>One key\<close>

abbreviation times_of :: "string \<Rightarrow> limit_call list \<Rightarrow> rat list" where
  "times_of k passed \<equiv> map lc_recorded (filter (\<lambda>c. lc_key c = k) passed)"

definition live :: "rat \<Rightarrow> rat \<Rightarrow> rat list \<Rightarrow> rat list" where
  "live w now hits = filter (\<lambda>h. now - w < h) hits"

text \<open>
  What holds between the calls: whatever the later time, the deque of the key agrees with the whole history on what is in
  the window; its window is known to the collection; no window holds more than the limit.
\<close>

definition key_inv :: "string \<Rightarrow> int \<Rightarrow> rat \<Rightarrow> rat \<Rightarrow> rat list \<Rightarrow> limiter \<Rightarrow> bool" where
  "key_inv k n w now past st =
    (sorted past \<and> (\<forall>h \<in> set past. h \<le> now) \<and> sorted (hits_of st k) \<and> (\<forall>h \<in> set (hits_of st k). h \<le> now) \<and>
     (\<forall>c \<ge> now. live w c (hits_of st k) = live w c past) \<and> (hits_of st k \<noteq> [] \<longrightarrow> w \<le> li_max_window st) \<and>
     (\<forall>t. int (length (filter (\<lambda>h. t - w < h \<and> h \<le> t) past)) \<le> n) \<and> distinct (map fst (li_hits st)))"

lemma prune_live: "sorted hits \<Longrightarrow> prune now w hits = live w now hits"
proof (induction hits)
  case (Cons h hits)
  then have "live w now (h # hits) = h # hits" if "now - w < h" using that by (auto simp: live_def filter_id_conv)
  with Cons show ?case by (auto simp: prune_def live_def)
qed (simp add: prune_def live_def)

lemma live_live: "now \<le> c \<Longrightarrow> live w c (live w now hits) = live w c hits"
  unfolding live_def filter_filter by (rule filter_cong) auto

lemma hits_of_dict [simp]:
  "hits_of (st\<lparr>li_hits := dict_set key hits d\<rparr>) k = (if k = key then hits else hits_of (st\<lparr>li_hits := d\<rparr>) k)"
  "hits_of (st\<lparr>li_hits := dict_update key f d\<rparr>) k = (if k = key then f (map_of d key) else hits_of (st\<lparr>li_hits := d\<rparr>) k)"
  "hits_of (st\<lparr>li_max_window := w\<rparr>) k = hits_of st k"
  by (auto simp: hits_of_def get_default_def)

lemma hits_of_self [simp]: "hits_of (st\<lparr>li_hits := li_hits st\<rparr>) k = hits_of st k" by simp

text \<open>A call that looks at the key sees exactly the history of the window.\<close>

lemma retry_after_wait:
  assumes "key_inv k n w now past st" "now \<le> t" "0 < n"
  shows "snd (retry_after t k n w st) = 0 \<longleftrightarrow> int (length (live w t past)) < n"
    and "0 \<le> snd (retry_after t k n w st)"
    and "snd (retry_after t k n w st) \<noteq> 0 \<Longrightarrow> live w t past \<noteq> [] \<and> hd (live w t past) + w - t \<le> snd (retry_after t k n w st)"
proof -
  have hits: "prune t w (hits_of st k) = live w t past" using assms(1,2) by (simp add: key_inv_def prune_live)
  have empty: "live w t past = []" if "hits_of st k = []" using hits that by (simp add: prune_def)
  have pos: "0 < max (x :: rat) (1 / 1000)" for x by (simp add: less_max_iff_disj)
  show "snd (retry_after t k n w st) = 0 \<longleftrightarrow> int (length (live w t past)) < n"
    using hits empty assms(3) pos [THEN less_imp_neq] by (auto simp: retry_after_def Let_def)
  show "0 \<le> snd (retry_after t k n w st)"
    using pos [THEN less_imp_le] by (auto simp: retry_after_def Let_def)
  show "snd (retry_after t k n w st) \<noteq> 0 \<Longrightarrow> live w t past \<noteq> [] \<and> hd (live w t past) + w - t \<le> snd (retry_after t k n w st)"
    using hits assms(3) by (auto simp: retry_after_def Let_def split: if_splits)
qed

lemma key_inv_retry:
  assumes "key_inv k n w now past st" "now \<le> t" "key = k \<longrightarrow> limit = n \<and> window = w"
  shows "key_inv k n w t past (fst (retry_after t key limit window st))"
proof -
  have later: "key_inv k n w t past st" using assms(1,2) by (force simp: key_inv_def)
  show ?thesis
  proof (cases "hits_of st key = [] \<or> key \<noteq> k")
    case True
    then show ?thesis using later by (auto simp: retry_after_def Let_def key_inv_def)
  next
    case False
    then have k: "key = k" "window = w" using assms(3) by auto
    have hits: "prune t w (hits_of st k) = live w t (hits_of st k)" using assms(1) by (simp add: key_inv_def prune_live)
    have "live w c (live w t (hits_of st k)) = live w c past" if "t \<le> c" for c
      using live_live [OF that] assms(1,2) that by (simp add: key_inv_def)
    moreover have "sorted (live w t (hits_of st k))" "\<forall>h \<in> set (live w t (hits_of st k)). h \<le> t"
      using later by (auto simp: key_inv_def live_def sorted_wrt_filter)
    ultimately show ?thesis
      using later False k hits by (auto simp: retry_after_def Let_def key_inv_def)
  qed
qed

lemma sorted_last: "sorted xs \<Longrightarrow> h \<in> set xs \<Longrightarrow> h \<le> last xs"
  by (induction xs) auto

lemma key_inv_collect:
  assumes inv: "key_inv k n w now past st" and "now \<le> t"
    and fits: "length (filter (\<lambda>(_, hits). live_entry (t - li_max_window st) hits) (li_hits st)) \<le> li_max_keys st"
  shows "key_inv k n w t past (collect_garbage t st)"
proof -
  have later: "key_inv k n w t past st" using assms(1,2) by (force simp: key_inv_def)
  define kept where "kept = filter (\<lambda>(_, hits). live_entry (t - li_max_window st) hits) (li_hits st)"
  have dist: "distinct (map fst (li_hits st))" using inv by (simp add: key_inv_def)
  have kept_dist: "distinct (map fst kept)" using dist by (simp add: kept_def distinct_map_filter)
  have kept_hits: "hits_of (st\<lparr>li_hits := kept\<rparr>) k = (if live_entry (t - li_max_window st) (hits_of st k) then hits_of st k else [])"
  proof (cases "map_of (li_hits st) k")
    case None
    then have "map_of kept k = None" by (auto simp: kept_def map_of_eq_None_iff)
    then show ?thesis using None by (simp add: hits_of_def get_default_def live_entry_def)
  next
    case (Some hits)
    then have "map_of kept k = (if live_entry (t - li_max_window st) hits then Some hits else None)"
      using dist kept_dist by (auto simp: kept_def map_of_eq_None_iff dest: map_of_SomeD intro: map_of_is_SomeI
        dest: eq_key_imp_eq_value)
    then show ?thesis using Some by (simp add: hits_of_def get_default_def)
  qed
  have gone: "live w c past = []" if "\<not> live_entry (t - li_max_window st) (hits_of st k)" "t \<le> c" for c
  proof -
    have "live w c (hits_of st k) = []"
    proof (cases "hits_of st k = []")
      case False
      then have "last (hits_of st k) \<le> t - w" "sorted (hits_of st k)"
        using that(1) later by (auto simp: live_entry_def key_inv_def)
      moreover have "h \<le> last (hits_of st k)" if "h \<in> set (hits_of st k)" for h
        using that \<open>sorted (hits_of st k)\<close> by (rule sorted_last [rotated])
      ultimately show ?thesis using that(2) by (force simp: live_def filter_empty_conv)
    qed (simp add: live_def)
    then show ?thesis using later that(2) by (simp add: key_inv_def)
  qed
  show ?thesis
  proof (cases "length (li_hits st) \<le> li_max_keys st")
    case True
    then show ?thesis using later by (simp add: collect_garbage_def)
  next
    case False
    then have "collect_garbage t st = st\<lparr>li_hits := kept\<rparr>" using fits by (simp add: collect_garbage_def kept_def Let_def)
    then show ?thesis using later kept_hits kept_dist gone by (auto simp: key_inv_def live_def)
  qed
qed

text \<open>A call adds at most one live entry.\<close>

lemma filter_dict_update:
  "length (filter P (dict_update k f d)) \<le> Suc (length (filter P d))"
  by (induction k f d rule: dict_update.induct) auto

lemma dict_update_set: "dict_update k f (dict_set k x d) = dict_update k (\<lambda>_. f (Some x)) d"
  unfolding dict_set_def by (induction k "\<lambda>_ :: 'b option. x" d rule: dict_update.induct) auto

lemma max_window_retry [simp]:
  "li_max_window (fst (retry_after t key limit w st)) = li_max_window st"
  "li_max_keys (fst (retry_after t key limit w st)) = li_max_keys st"
  by (simp_all add: retry_after_def Let_def)

lemma retry_entries:
  "\<exists>g. dict_update key f (li_hits (fst (retry_after t key limit w st))) = dict_update key g (li_hits st)"
  by (auto simp: retry_after_def Let_def dict_update_set)

lemma fits_after_record:
  assumes "unsaturated c st" "st1 = fst (retry_after t (lc_key c) limit w (st\<lparr>li_max_window := max (li_max_window st) (lc_window c)\<rparr>))"
  shows "length (filter (\<lambda>(_, hits). live_entry (lc_collected c - li_max_window st1) hits) (dict_update (lc_key c) f (li_hits st1)))
    \<le> li_max_keys st1"
proof -
  obtain g where "dict_update (lc_key c) f (li_hits st1) = dict_update (lc_key c) g (li_hits st)"
    using retry_entries [of "lc_key c" f t limit w "st\<lparr>li_max_window := max (li_max_window st) (lc_window c)\<rparr>"] assms(2) by auto
  then show ?thesis
    using assms filter_dict_update [of "\<lambda>(_, hits). live_entry (lc_collected c - li_max_window st1) hits" "lc_key c" g "li_hits st"]
    by (simp add: unsaturated_def)
qed

lemma key_inv_window: "key_inv k n w now past st \<Longrightarrow> key_inv k n w now past (st\<lparr>li_max_window := max (li_max_window st) v\<rparr>)"
  by (auto simp: key_inv_def le_max_iff_disj)

lemma key_inv_add_other:
  "key_inv k n w now past st \<Longrightarrow> key \<noteq> k \<Longrightarrow> key_inv k n w now past (st\<lparr>li_hits := dict_update key f (li_hits st)\<rparr>)"
  by (simp add: key_inv_def)

lemma key_inv_add:
  assumes inv: "key_inv k n w now past st" and room: "int (length (live w now past)) < n"
    and r: "now \<le> r" and window: "w \<le> li_max_window st"
  shows "key_inv k n w r (past @ [r])
    (st\<lparr>li_hits := dict_update k (\<lambda>old. (case old of None \<Rightarrow> [] | Some hits \<Rightarrow> hits) @ [r]) (li_hits st)\<rparr>)"
    (is "key_inv k n w r ?past ?st")
proof -
  have hits: "hits_of ?st k = hits_of st k @ [r]" by (simp add: hits_of_def get_default_def)
  have past: "sorted past" "\<forall>h \<in> set past. h \<le> now" "sorted (hits_of st k)" "\<forall>h \<in> set (hits_of st k). h \<le> now"
    using inv by (auto simp: key_inv_def)
  have bound: "int (length (filter (\<lambda>h. t - w < h \<and> h \<le> t) ?past)) \<le> n" for t
  proof (cases "r \<le> t")
    case True
    have "length (filter (\<lambda>h. t - w < h \<and> h \<le> t) past) = length (filter (\<lambda>h. t - w < h \<and> h \<le> t) (live w now past))"
      using True r by (auto simp: live_def intro!: arg_cong [where f = length] filter_cong)
    also have "\<dots> \<le> length (live w now past)" by (rule length_filter_le)
    finally show ?thesis using room by auto
  next
    case False
    then show ?thesis using inv by (auto simp: key_inv_def)
  qed
  show ?thesis unfolding key_inv_def hits
  proof (intro conjI allI impI)
    show "sorted ?past" "sorted (hits_of st k @ [r])" using past r by (force simp: sorted_append)+
    show "\<forall>h \<in> set ?past. h \<le> r" "\<forall>h \<in> set (hits_of st k @ [r]). h \<le> r" using past r by force+
    show "live w c (hits_of st k @ [r]) = live w c ?past" if "r \<le> c" for c
      using inv r that by (simp add: key_inv_def live_def)
    show "int (length (filter (\<lambda>h. t - w < h \<and> h \<le> t) ?past)) \<le> n" for t by (rule bound)
    show "w \<le> li_max_window ?st" using window by simp
    show "distinct (map fst (li_hits ?st))" using inv by (simp add: key_inv_def)
  qed
qed

lemma key_inv_check:
  assumes inv: "key_inv k n w now past st" and clock: "clock_from now (c # cs)" and "unsaturated c st" and n: "0 < n"
    and rule: "lc_key c = k \<longrightarrow> lc_limit c = n \<and> lc_window c = w"
  shows "key_inv k n w (lc_collected c)
    (past @ (if lc_key c = k \<and> snd (check c st) = 0 then [lc_recorded c] else [])) (fst (check c st))"
proof -
  define st0 where "st0 = st\<lparr>li_max_window := max (li_max_window st) (lc_window c)\<rparr>"
  define st1 where "st1 = fst (retry_after (lc_checked c) (lc_key c) (lc_limit c) (lc_window c) st0)"
  define wait where "wait = snd (retry_after (lc_checked c) (lc_key c) (lc_limit c) (lc_window c) st0)"
  define st2 where "st2 = st1\<lparr>li_hits := dict_update (lc_key c) (\<lambda>old. (case old of None \<Rightarrow> [] | Some hits \<Rightarrow> hits) @ [lc_recorded c]) (li_hits st1)\<rparr>"
  have check: "check c st = (if wait = 0 then collect_garbage (lc_collected c) st2 else st1, wait)"
    by (simp add: check_def st1_def wait_def st0_def st2_def record_hit_def case_prod_beta)
  have times: "now \<le> lc_checked c" "lc_checked c \<le> lc_recorded c" "lc_recorded c \<le> lc_collected c" using clock by auto
  have inv0: "key_inv k n w now past st0" unfolding st0_def by (rule key_inv_window [OF inv])
  have inv1: "key_inv k n w (lc_checked c) past st1"
    unfolding st1_def by (rule key_inv_retry [OF inv0 times(1) rule])
  have later: "key_inv k n w t past st'" if "key_inv k n w u past st'" "u \<le> t" for u t st' using that by (force simp: key_inv_def)
  show ?thesis
  proof (cases "wait = 0")
    case False
    then show ?thesis using later [OF inv1] times by (simp add: check)
  next
    case True
    have "key_inv k n w (lc_recorded c) (past @ (if lc_key c = k then [lc_recorded c] else [])) st2"
    proof (cases "lc_key c = k")
      case True
      have "int (length (live w (lc_checked c) past)) < n"
        using retry_after_wait(1) [OF inv0 times(1) n] rule True \<open>wait = 0\<close> by (simp add: wait_def)
      moreover have "w \<le> li_max_window st1" using rule True by (simp add: st1_def st0_def)
      ultimately show ?thesis unfolding st2_def using key_inv_add [OF inv1 _ times(2)] True by simp
    next
      case False
      then show ?thesis unfolding st2_def using key_inv_add_other [OF later [OF inv1 times(2)]] by simp
    qed
    moreover have "length (filter (\<lambda>(_, hits). live_entry (lc_collected c - li_max_window st2) hits) (li_hits st2)) \<le> li_max_keys st2"
      using fits_after_record [OF assms(3), of st1] by (simp add: st1_def st0_def st2_def)
    ultimately show ?thesis using key_inv_collect [OF _ times(3)] True by (auto simp: check)
  qed
qed

fun clock_after :: "rat \<Rightarrow> limit_call list \<Rightarrow> rat" where
  "clock_after now [] = now"
| "clock_after now (c # cs) = clock_after (lc_collected c) cs"

lemma clock_from_append [simp]: "clock_from now (cs @ ds) \<longleftrightarrow> clock_from now cs \<and> clock_from (clock_after now cs) ds"
  by (induction now cs rule: clock_from.induct) auto

lemma key_inv_new: "key_inv k n w now [] (new_limiter m)" if "0 < n"
  using that by (simp add: key_inv_def new_limiter_def hits_of_def get_default_def live_def)

lemma key_inv_run:
  assumes "key_inv k n w now past st" "clock_from now cs" "never_saturated cs st" "0 < n"
    and "\<forall>c \<in> set cs. lc_key c = k \<longrightarrow> lc_limit c = n \<and> lc_window c = w"
  shows "key_inv k n w (clock_after now cs) (past @ times_of k (snd (run_calls cs st))) (fst (run_calls cs st))"
  using assms
proof (induction cs arbitrary: now past st)
  case (Cons c cs)
  let ?added = "if lc_key c = k \<and> snd (check c st) = 0 then [lc_recorded c] else []"
  have rules: "lc_key c = k \<longrightarrow> lc_limit c = n \<and> lc_window c = w"
    "\<forall>c \<in> set cs. lc_key c = k \<longrightarrow> lc_limit c = n \<and> lc_window c = w" using Cons.prems(5) by simp_all
  have room: "unsaturated c st" "never_saturated cs (fst (check c st))" using Cons.prems(3) by simp_all
  have clock: "clock_from (lc_collected c) cs" using Cons.prems(2) by simp
  have "key_inv k n w (lc_collected c) (past @ ?added) (fst (check c st))"
    by (rule key_inv_check [OF Cons.prems(1,2) room(1) Cons.prems(4) rules(1)])
  then have "key_inv k n w (clock_after (lc_collected c) cs)
      ((past @ ?added) @ times_of k (snd (run_calls cs (fst (check c st))))) (fst (run_calls cs (fst (check c st))))"
    by (rule Cons.IH [OF _ clock room(2) Cons.prems(4) rules(2)])
  moreover have "run_calls (c # cs) st = (fst (run_calls cs (fst (check c st))),
      (if snd (check c st) = 0 then [c] else []) @ snd (run_calls cs (fst (check c st))))"
    by (simp add: case_prod_beta)
  ultimately show ?case by (cases "lc_key c = k"; cases "snd (check c st) = 0") (simp_all del: run_calls.simps)
qed simp

text \<open>After the announced delay the oldest request has left the window.\<close>

lemma window_frees:
  assumes "sorted past" "int (length (live w t past)) \<le> n" "live w t past \<noteq> []" "hd (live w t past) + w \<le> u" "t \<le> u"
  shows "int (length (live w u past)) < n"
proof -
  obtain h hs where hs: "live w t past = h # hs" using assms(3) by (cases "live w t past") auto
  have "live w u past = live w u (live w t past)" using live_live [OF assms(5)] by simp
  also have "\<dots> = live w u hs" using assms(4) hs by (simp add: live_def)
  finally have "length (live w u past) \<le> length hs" by (simp add: live_def)
  then show ?thesis using assms(2) hs by simp
qed

section \<open>The promise of the limiter\<close>

text \<open>
  C31: After any sequence of calls with a clock that does not go back, on a store that was never saturated by keys: no window
  of any instant holds more passed requests of a key than its limit; the next request passes exactly when fewer than
  the limit were passed in the window before it; a refused one is told a delay of at least the time the oldest of them has left,
  and when that delay is over, with nothing passed meanwhile, the window has room again.
\<close>

theorem limiter_exact:
  fixes cs :: "limit_call list" and st :: limiter and passed :: "limit_call list" and n :: int and w wait :: rat
  assumes run: "run_calls cs (new_limiter m) = (st, passed)" and clock: "clock_from now (cs @ [c])"
    and room: "never_saturated cs (new_limiter m)" and n: "0 < n"
    and rule: "\<forall>d \<in> set (cs @ [c]). lc_key d = lc_key c \<longrightarrow> lc_limit d = n \<and> lc_window d = w"
    and wait: "snd (check c st) = wait"
  shows "(\<forall>t. int (length (filter (\<lambda>h. t - w < h \<and> h \<le> t) (times_of (lc_key c) passed))) \<le> n) \<and>
    (wait = 0 \<longleftrightarrow> int (length (live w (lc_checked c) (times_of (lc_key c) passed))) < n) \<and>
    (wait \<noteq> 0 \<longrightarrow> 0 < wait \<and> (\<forall>t \<ge> lc_checked c + wait. int (length (live w t (times_of (lc_key c) passed))) < n))"
proof -
  let ?past = "times_of (lc_key c) passed"
  have inv: "key_inv (lc_key c) n w (clock_after now cs) ?past st"
  proof -
    have "clock_from now cs" "\<forall>d \<in> set cs. lc_key d = lc_key c \<longrightarrow> lc_limit d = n \<and> lc_window d = w"
      using clock rule by simp_all
    then show ?thesis using key_inv_run [OF key_inv_new [OF n] _ room n] unfolding run by force
  qed
  have later: "clock_after now cs \<le> lc_checked c" using clock by simp
  define st0 where "st0 = st\<lparr>li_max_window := max (li_max_window st) (lc_window c)\<rparr>"
  have inv0: "key_inv (lc_key c) n w (clock_after now cs) ?past st0" unfolding st0_def by (rule key_inv_window [OF inv])
  have waits: "wait = snd (retry_after (lc_checked c) (lc_key c) n w st0)"
    using wait rule by (simp add: check_def st0_def case_prod_beta Let_def split: if_splits)
  note answer = retry_after_wait [OF inv0 later n, folded waits]
  have sorted: "sorted ?past" and bound: "\<forall>t. int (length (filter (\<lambda>h. t - w < h \<and> h \<le> t) ?past)) \<le> n"
    and past: "\<forall>h \<in> set ?past. h \<le> clock_after now cs"
    using inv by (simp_all add: key_inv_def)
  have "live w (lc_checked c) ?past = filter (\<lambda>h. lc_checked c - w < h \<and> h \<le> lc_checked c) ?past"
    unfolding live_def by (rule filter_cong) (use past later in force)+
  then have full: "int (length (live w (lc_checked c) ?past)) \<le> n" using bound by simp
  have frees: "int (length (live w t ?past)) < n" if "wait \<noteq> 0" "lc_checked c + wait \<le> t" for t
    using window_frees [OF sorted full, of t] answer(2,3) that by fastforce
  have positive: "0 < wait" if "wait \<noteq> 0" using answer(2) that by simp
  show ?thesis
    using bound answer(1) frees positive by blast
qed

definition call_at :: "string \<Rightarrow> rat \<Rightarrow> limit_call" where
  "call_at key t = \<lparr>lc_key = key, lc_limit = 2, lc_window = 10, lc_checked = t, lc_recorded = t, lc_collected = t\<rparr>"

lemma two_calls:
  "run_calls [call_at ''a'' 0, call_at ''b'' 0, call_at ''a'' 1] (new_limiter 5) =
    (\<lparr>li_max_keys = 5, li_max_window = 10, li_hits = [(''a'', [0, 1]), (''b'', [0])]\<rparr>, [call_at ''a'' 0, call_at ''b'' 0, call_at ''a'' 1])"
  "never_saturated [call_at ''a'' 0, call_at ''b'' 0, call_at ''a'' 1] (new_limiter 5)"
  by (simp_all add: call_at_def new_limiter_def check_def retry_after_def record_hit_def collect_garbage_def hits_of_def
      get_default_def dict_set_def prune_def unsaturated_def Let_def)

lemma third_call:
  "snd (check (call_at ''a'' 3) \<lparr>li_max_keys = 5, li_max_window = 10, li_hits = [(''a'', [0, 1]), (''b'', [0])]\<rparr>) = 7"
  by (simp add: call_at_def check_def retry_after_def hits_of_def get_default_def dict_set_def prune_def Let_def)

theorem limiter_exact_witness:
  "length (filter (\<lambda>h. 3 - 10 < h \<and> h \<le> (3 :: rat)) [0, 1]) \<le> 2 \<and> (7 :: rat) \<noteq> 0 \<and> \<not> int (length (live 10 3 [0, 1])) < 2 \<and>
    int (length (live 10 10 [0, 1])) < 2"
  using limiter_exact [OF two_calls(1), of 0 "call_at ''a'' 3" 2 10 7] two_calls(2) third_call
  by (simp add: call_at_def live_def)

text \<open>
  A failed login is recorded by \<open>record\<close> and controlled by \<open>retry_after\<close> with a window of 900 seconds; only \<open>check\<close>
  tells the collection how long a window is. A collection therefore drops a lock that is still in its window.
\<close>

lemma lock_collected_early:
  fixes st :: limiter
  defines "st \<equiv> fst (check \<lparr>lc_key = ''advisor'', lc_limit = 1, lc_window = 60, lc_checked = 1, lc_recorded = 1, lc_collected = 1\<rparr>
    (record_hit 0 0 ''login:a'' (new_limiter 2)))"
  shows "snd (enforce_not_blocked True 100 ''login:a'' 1 900 st) = Some (429, 800)"
    and "snd (enforce_not_blocked True 100 ''login:a'' 1 900 (record_hit 100 100 ''login:b'' st)) = None"
  by (simp_all add: st_def new_limiter_def check_def retry_after_def record_hit_def collect_garbage_def hits_of_def live_entry_def
      get_default_def dict_set_def prune_def enforce_not_blocked_def too_many_def Let_def)

end
