(* ===== verification/Accounts.thy ===== *)
theory Accounts
  imports Workspaces Rate_Limit
begin

text \<open>
  The routes of accounts and workspaces (\<open>app/api/v1/endpoints/auth.py\<close>, \<open>workspaces.py\<close>, \<open>connections.py\<close>): sign-in with Google or a
  password, reset of a password, invitations, members, Google connections. A route that commits before it
  raises gives the committed tables with the fault; an error nothing catches rolls back. The client of Google, the hash
  of passwords and the cipher are parameters; a mail is what is handed to the sender.
\<close>

record app_settings =
  se_frontend_base_url :: string
  se_secret :: string
  se_oauth_state_ttl :: int
  se_rate_limit_enabled :: bool
  se_data_redirect_uri :: string

definition GOOGLE_LOGIN_SCOPES :: "string list" where
  "GOOGLE_LOGIN_SCOPES = [''openid'', ''email'', ''profile'']"

definition GOOGLE_DATA_SCOPES :: "string list" where
  "GOOGLE_DATA_SCOPES = [''openid'', ''email'', ''https://www.googleapis.com/auth/analytics.readonly'',
     ''https://www.googleapis.com/auth/webmasters.readonly'']"

datatype exchange = Exchanged google_token_response | Exchange_refused | Exchange_failed

record google_client =
  gc_url :: "string \<Rightarrow> string \<Rightarrow> string list \<Rightarrow> string option \<Rightarrow> string"
  gc_exchange :: "string \<Rightarrow> string \<Rightarrow> string option \<Rightarrow> exchange"
  gc_userinfo :: "string \<Rightarrow> google_userinfo option"

section \<open>The user of a request\<close>

definition current_user :: "(string \<Rightarrow> uuid option) \<Rightarrow> app_settings \<Rightarrow> datetime \<Rightarrow> string option \<Rightarrow> 'a access_db_scheme \<Rightarrow> user answer" where
  "current_user other_uuid se now cookie db =
    (case read_session other_uuid (se_secret se) SESSION_MAX_AGE now cookie of
       Inl e \<Rightarrow> Inl (Crashed e)
     | Inr None \<Rightarrow> Inl (Http 401 (''authentification requise''))
     | Inr (Some i) \<Rightarrow> (case find_row (\<lambda>u. us_id u = i) (users db) of
           None \<Rightarrow> Inl (Http 401 (''session invalide'')) | Some u \<Rightarrow> Inr u))"

section \<open>Sign-in\<close>

definition google_start :: "app_settings \<Rightarrow> google_client \<Rightarrow> string \<Rightarrow> string \<Rightarrow> datetime \<Rightarrow> string option \<Rightarrow> 'a access_db_scheme \<Rightarrow>
    ('a access_db_scheme \<times> string) answer" where
  "google_start se gc state verifier now redirect_to db =
     try_bind (create_oauth_transaction state verifier now None None redirect_to (se_oauth_state_ttl se) db) (\<lambda>(db', s, challenge).
       Inr (db', gc_url gc s challenge GOOGLE_LOGIN_SCOPES None))"

text \<open>The user of a Google identity, created with a workspace of their own at the first sign-in.\<close>

definition google_user :: "uuid \<Rightarrow> uuid \<Rightarrow> datetime \<Rightarrow> google_userinfo \<Rightarrow> 'a access_db_scheme \<Rightarrow> ('a access_db_scheme \<times> user) answer" where
  "google_user new_user new_workspace now info db =
    (case find_row (\<lambda>u. us_google_sub u = Some (gu_sub info)) (users db) of
       Some u \<Rightarrow> Inr (db, u)
     | None \<Rightarrow>
         if list_ex (\<lambda>u. us_email u = gu_email info \<and> us_password_hash u \<noteq> None) (users db)
         then Inl (Http 400 (''ce compte utilise deja un mot de passe, connecte-toi avec ton mot de passe''))
         else (let u = \<lparr>us_id = new_user, us_email = gu_email info, us_google_sub = Some (gu_sub info), us_password_hash = None,
                 us_display_name = gu_name info\<rparr>
           in try_bind (insert_user u db) (\<lambda>db1.
              try_bind (create_workspace_for_user new_workspace now u None db1) (\<lambda>db2. Inr (db2, u)))))"

definition refused :: "int \<Rightarrow> string \<Rightarrow> 'a answer" where "refused code detail = Inl (Http code detail)"

definition is_given :: "string option \<Rightarrow> bool" where "is_given s = (s \<noteq> None \<and> s \<noteq> Some [])"

text \<open>The address the browser is sent to, and the session cookie.\<close>

definition google_callback :: "app_settings \<Rightarrow> google_client \<Rightarrow> uuid \<Rightarrow> uuid \<Rightarrow> datetime \<Rightarrow> string option \<Rightarrow> string option \<Rightarrow> string option \<Rightarrow>
    'a access_db_scheme \<Rightarrow> 'a access_db_scheme \<times> (string \<times> string) answer" where
  "google_callback se gc new_user new_workspace now code state error db =
    (if is_given error then (db, refused 400 (''consentement Google refuse : '' @ the error))
     else if \<not> is_given code \<or> \<not> is_given state then (db, refused 400 (''code ou state manquant''))
     else (case consume_oauth_state now (the state) db of
         (db1, None) \<Rightarrow> (db1, refused 400 (''state OAuth invalide, expire ou deja utilise''))
       | (db1, Some row) \<Rightarrow>
           if os_workspace_id row \<noteq> None then (db1, refused 400 (''transaction OAuth invalide pour un login''))
           else (case gc_exchange gc (the code) (os_code_verifier row) None of
               Exchange_refused \<Rightarrow> (db1, refused 400 (''code d'' @ apos @ ''autorisation invalide''))
             | Exchange_failed \<Rightarrow> (db, Inl Google_failed)
             | Exchanged token \<Rightarrow> (case gc_userinfo gc (gt_access_token token) of
                 None \<Rightarrow> (db, Inl Google_failed)
               | Some info \<Rightarrow>
                   if gt_refresh_token token = None
                   then (db1, refused 400 (''Google n'' @ apos @ ''a pas fourni de refresh token '' @ em_dash @ '' reconsentement requis''))
                   else (case google_user new_user new_workspace now info db1 of
                       Inl (Http code detail) \<Rightarrow> (db1, Inl (Http code detail))
                     | Inl e \<Rightarrow> (db, Inl e)
                     | Inr (db2, u) \<Rightarrow> (db2, Inr (first_text (os_redirect_to row) (se_frontend_base_url se),
                         issue_session (se_secret se) (us_id u) now)))))))"

definition register :: "app_settings \<Rightarrow> (string \<Rightarrow> string) \<Rightarrow> uuid \<Rightarrow> uuid \<Rightarrow> datetime \<Rightarrow> string \<Rightarrow> string \<Rightarrow> string option \<Rightarrow>
    'a access_db_scheme \<Rightarrow> ('a access_db_scheme \<times> string) answer" where
  "register se hash_password new_user new_workspace now email password name db =
     try_bind (one_or_none (\<lambda>u. us_email u = email) (users db)) (\<lambda>existing.
       case existing of
         Some x \<Rightarrow> refused 409 (if us_google_sub x \<noteq> None then (''ce compte utilise deja Google, connecte-toi avec Google'') else (''email deja utilise''))
       | None \<Rightarrow>
           (let u = \<lparr>us_id = new_user, us_email = email, us_google_sub = None, us_password_hash = Some (hash_password password),
              us_display_name = name\<rparr>
            in try_bind (insert_user u db) (\<lambda>db1.
               try_bind (create_workspace_for_user new_workspace now u None db1) (\<lambda>db2.
                 Inr (db2, issue_session (se_secret se) new_user now)))))"

definition LOGIN_LIMIT :: int where "LOGIN_LIMIT = 10"
definition LOGIN_WINDOW :: rat where "LOGIN_WINDOW = 900"

definition login_key :: "string \<Rightarrow> string" where "login_key email = ''login_failures:email:'' @ lower email"

text \<open>\<open>clock\<close> holds the readings of the monotonic clock: at the control, at the record of a failure, at the collection.\<close>

definition note_failure :: "app_settings \<Rightarrow> rat \<times> rat \<times> rat \<Rightarrow> string \<Rightarrow> limiter \<Rightarrow> limiter" where
  "note_failure se clock email li = (if se_rate_limit_enabled se then record_hit (fst (snd clock)) (snd (snd clock)) (login_key email) li else li)"

definition login :: "app_settings \<Rightarrow> (string \<Rightarrow> string \<Rightarrow> bool) \<Rightarrow> rat \<times> rat \<times> rat \<Rightarrow> datetime \<Rightarrow> string \<Rightarrow> string \<Rightarrow>
    'a access_db_scheme \<Rightarrow> limiter \<Rightarrow> limiter \<times> string answer" where
  "login se verify clock now email password db li =
    (case enforce_not_blocked (se_rate_limit_enabled se) (fst clock) (login_key email) LOGIN_LIMIT LOGIN_WINDOW li of
       (li1, Some (code, _)) \<Rightarrow> (li1, refused code (''trop de tentatives, r'' @ e_acute @ ''essaie dans quelques instants''))
     | (li1, None) \<Rightarrow>
         (case one_or_none (\<lambda>u. us_email u = email) (users db) of
            Inl e \<Rightarrow> (li1, Inl e)
          | Inr None \<Rightarrow> (note_failure se clock email li1, refused 400 (''email ou mot de passe incorrect''))
          | Inr (Some u) \<Rightarrow>
              (case us_password_hash u of
                 None \<Rightarrow> (note_failure se clock email li1, refused 400 (''ce compte utilise Google, pas de mot de passe''))
               | Some h \<Rightarrow>
                   if \<not> verify password h then (note_failure se clock email li1, refused 400 (''email ou mot de passe incorrect''))
                   else (li1, Inr (issue_session (se_secret se) (us_id u) now)))))"

definition me :: "user \<Rightarrow> uuid \<times> string \<times> string option" where "me u = (us_id u, us_email u, us_display_name u)"

section \<open>Reset of a password\<close>

definition RESET_TTL :: timedelta where "RESET_TTL = hours 1"

definition reset_call :: "string \<Rightarrow> rat \<times> rat \<times> rat \<Rightarrow> limit_call" where
  "reset_call email clock = \<lparr>lc_key = ''password_reset:email:'' @ lower email, lc_limit = 5, lc_window = 3600,
     lc_checked = fst clock, lc_recorded = fst (snd clock), lc_collected = snd (snd clock)\<rparr>"

text \<open>The mail to send, with the link: the address and the secret of the link.\<close>

definition password_reset_request :: "app_settings \<Rightarrow> string \<Rightarrow> rat \<times> rat \<times> rat \<Rightarrow> datetime \<Rightarrow> string \<Rightarrow> 'a access_db_scheme \<Rightarrow> limiter \<Rightarrow>
    limiter \<times> ('a access_db_scheme \<times> (string \<times> string) option) answer" where
  "password_reset_request se token clock now email db li =
    (case enforce (se_rate_limit_enabled se) (reset_call email clock) li of
       (li1, Some (code, _)) \<Rightarrow> (li1, refused code (''trop de tentatives, r'' @ e_acute @ ''essaie dans quelques instants''))
     | (li1, None) \<Rightarrow>
         (li1, try_bind (one_or_none (\<lambda>u. us_email u = email \<and> us_password_hash u \<noteq> None) (users db)) (\<lambda>found.
           case found of
             None \<Rightarrow> Inr (db, None)
           | Some u \<Rightarrow>
               try_bind (insert_row (\<lambda>r. Some (rt_token r)) \<lparr>rt_user_id = us_id u, rt_token = token, rt_expires_at = now + RESET_TTL,
                   rt_used_at = None\<rparr> (reset_tokens db)) (\<lambda>rows.
                 Inr (db\<lparr>reset_tokens := rows\<rparr>,
                   Some (us_email u, se_frontend_base_url se @ ''/reset-password?token='' @ token))))))"

definition password_reset_confirm :: "(string \<Rightarrow> string) \<Rightarrow> datetime \<Rightarrow> datetime \<Rightarrow> string \<Rightarrow> string \<Rightarrow> 'a access_db_scheme \<Rightarrow> 'a access_db_scheme answer" where
  "password_reset_confirm hash_password now now' token new_password db =
    (case find_row (\<lambda>r. rt_token r = token) (reset_tokens db) of
       None \<Rightarrow> refused 400 (''lien invalide ou expire'')
     | Some row \<Rightarrow>
         if rt_used_at row \<noteq> None \<or> rt_expires_at row < now then refused 400 (''lien invalide ou expire'')
         else if \<not> list_ex (\<lambda>u. us_id u = rt_user_id row) (users db) then Inl (Crashed AttributeError)
         else Inr (db\<lparr>users := update_rows (\<lambda>u. us_id u = rt_user_id row) (us_password_hash_update (\<lambda>_. Some (hash_password new_password))) (users db),
           reset_tokens := update_rows (\<lambda>r. rt_token r = token) (rt_used_at_update (\<lambda>_. Some now')) (reset_tokens db)\<rparr>))"

section \<open>Workspaces\<close>

definition list_my_workspaces :: "'a access_db_scheme \<Rightarrow> uuid \<Rightarrow> (uuid \<times> string \<times> string) list" where
  "list_my_workspaces db u = concat (map (\<lambda>w. map (\<lambda>m. (wk_id w, wk_name w, wm_role m))
     (filter (\<lambda>m. wm_workspace_id m = wk_id w \<and> wm_user_id m = u) (workspace_members db))) (workspaces db))"

definition invite_to_workspace :: "app_settings \<Rightarrow> uuid \<Rightarrow> string \<Rightarrow> datetime \<Rightarrow> uuid \<Rightarrow> string \<Rightarrow> uuid \<Rightarrow> 'a access_db_scheme \<Rightarrow>
    ('a access_db_scheme \<times> workspace_invitation \<times> string) answer" where
  "invite_to_workspace se i token now w email u db =
     try_bind (require_owner db w u) (\<lambda>_.
     try_bind (create_invitation i token now w email u db) (\<lambda>(db', invitation).
       Inr (db', invitation, se_frontend_base_url se @ ''/invitations/'' @ wi_token invitation)))"

definition get_invitation_endpoint :: "string \<Rightarrow> 'a access_db_scheme \<Rightarrow> workspace_invitation answer" where
  "get_invitation_endpoint token db =
    (case get_invitation db token of None \<Rightarrow> refused 404 (''invitation introuvable'') | Some i \<Rightarrow> Inr i)"

definition accept_invitation_endpoint :: "datetime \<Rightarrow> datetime \<Rightarrow> string \<Rightarrow> user \<Rightarrow> 'a access_db_scheme \<Rightarrow> 'a access_db_scheme answer" where
  "accept_invitation_endpoint now now' token u db =
    (case accept_invitation now now' token u db of
       Inl (Invitation_email_mismatch detail) \<Rightarrow> refused 403 detail
     | Inl (Invitation_invalid detail) \<Rightarrow> refused 400 detail
     | Inl (Invitation_fault e) \<Rightarrow> Inl e
     | Inr db' \<Rightarrow> Inr db')"

definition remove_member :: "uuid \<Rightarrow> uuid \<Rightarrow> uuid \<Rightarrow> 'a access_db_scheme \<Rightarrow> 'a access_db_scheme answer" where
  "remove_member w member_user u db =
     try_bind (require_owner db w u) (\<lambda>_.
       if member_user = u then refused 400 (''le proprietaire ne peut pas se retirer'')
       else if \<not> is_member db w member_user then refused 404 (''membre introuvable'')
       else Inr (db\<lparr>workspace_members :=
         delete_rows (\<lambda>m. wm_workspace_id m = w \<and> wm_user_id m = member_user) (workspace_members db)\<rparr>))"

section \<open>Google connections\<close>

definition connections_google_start :: "app_settings \<Rightarrow> google_client \<Rightarrow> string \<Rightarrow> string \<Rightarrow> datetime \<Rightarrow> uuid \<Rightarrow> uuid \<Rightarrow> 'a access_db_scheme \<Rightarrow>
    ('a access_db_scheme \<times> string) answer" where
  "connections_google_start se gc state verifier now w u db =
     try_bind (require_owner db w u) (\<lambda>_.
     try_bind (create_oauth_transaction state verifier now (Some u) (Some w) (Some (se_frontend_base_url se @ ''/connections''))
       (se_oauth_state_ttl se) db) (\<lambda>(db', s, challenge).
       Inr (db', gc_url gc s challenge GOOGLE_DATA_SCOPES (Some (se_data_redirect_uri se)))))"

definition connections_google_callback :: "app_settings \<Rightarrow> google_client \<Rightarrow> encrypter \<Rightarrow> uuid \<Rightarrow> datetime \<Rightarrow> string option \<Rightarrow> string option \<Rightarrow>
    string option \<Rightarrow> 'a access_db_scheme \<Rightarrow> 'a access_db_scheme \<times> string answer" where
  "connections_google_callback se gc encrypt i now code state error db =
    (if is_given error then (db, refused 400 (''consentement Google refuse : '' @ the error))
     else if \<not> is_given code \<or> \<not> is_given state then (db, refused 400 (''code ou state manquant''))
     else (case consume_oauth_state now (the state) db of
         (db1, None) \<Rightarrow> (db1, refused 400 (''state OAuth invalide, expire ou deja utilise''))
       | (db1, Some row) \<Rightarrow> (case os_workspace_id row of
           None \<Rightarrow> (db1, refused 400 (''transaction OAuth invalide pour une connexion de donnees''))
         | Some w \<Rightarrow> (case gc_exchange gc (the code) (os_code_verifier row) (Some (se_data_redirect_uri se)) of
               Exchange_refused \<Rightarrow> (db1, refused 400 (''code d'' @ apos @ ''autorisation invalide''))
             | Exchange_failed \<Rightarrow> (db, Inl Google_failed)
             | Exchanged token \<Rightarrow>
                 if gt_refresh_token token = None
                 then (db1, refused 400 (''Google n'' @ apos @ ''a pas fourni de refresh token '' @ em_dash @ '' reconsentement requis''))
                 else (case gc_userinfo gc (gt_access_token token) of
                     None \<Rightarrow> (db, Inl Google_failed)
                   | Some info \<Rightarrow> (case upsert_google_connection encrypt i now w info token db1 of
                       Inl e \<Rightarrow> (db, Inl e)
                     | Inr db2 \<Rightarrow> (db2, Inr (first_text (os_redirect_to row) (se_frontend_base_url se)))))))))"

text \<open>Revoking the token at Google is tried and never blocks.\<close>

definition disconnect_connection :: "uuid \<Rightarrow> uuid \<Rightarrow> 'a access_db_scheme \<Rightarrow> 'a access_db_scheme answer" where
  "disconnect_connection i u db =
    (case find_row (\<lambda>c. gn_id c = i) (google_connections db) of
       None \<Rightarrow> refused 404 (''connexion introuvable'')
     | Some c \<Rightarrow> try_bind (require_owner db (gn_workspace_id c) u) (\<lambda>_.
         Inr (db\<lparr>google_connections := update_rows (\<lambda>c. gn_id c = i) (gn_status_update (\<lambda>_. Conn_revoked)) (google_connections db)\<rparr>)))"

end
