(* ===== verification/Websites.thy ===== *)
theory Websites
  imports Accounts Gtm_Headless
begin

text \<open>
  The routes of the tracked sites (\<open>app/api/v1/endpoints/websites.py\<close>) and of their Google resources (\<open>google.py\<close>): creation with
  its first scan, stack, certificate, archive and purge, manual links. Detection, handshakes, the scan's probe and Google are
  parameters. Tables are in the order of creation of their rows. Text is ASCII.
\<close>

section \<open>Domains\<close>

definition between :: "nat \<Rightarrow> nat \<Rightarrow> char \<Rightarrow> bool" where
  "between a b c = (a \<le> (of_char c :: nat) \<and> (of_char c :: nat) \<le> b)"

definition url_scheme_char :: "char \<Rightarrow> bool" where
  "url_scheme_char c = (between 97 122 c \<or> is_digit c \<or> c \<in> set ''+.-'')"

definition drop_scheme :: "string \<Rightarrow> string" where
  "drop_scheme s =
    (let k = takeWhile url_scheme_char s; rest = drop (length k) s
     in if k \<noteq> [] \<and> between 97 122 (hd k) \<and> starts_with ''://'' rest then drop 3 rest else s)"

definition strip_dots :: "string \<Rightarrow> string" where
  "strip_dots s = rev (dropWhile (\<lambda>c. c = CHR ''.'') (rev (dropWhile (\<lambda>c. c = CHR ''.'') s)))"

definition normalize_domain :: "string \<Rightarrow> string" where
  "normalize_domain raw =
    (let v1 = drop_scheme (lower (strip raw));
         v2 = takeWhile (\<lambda>c. c \<noteq> CHR ''/'') v1;
         v3 = (if CHR ''@'' \<in> set v2 then drop 1 (dropWhile (\<lambda>c. c \<noteq> CHR ''@'') v2) else v2);
         v4 = takeWhile (\<lambda>c. c \<noteq> CHR '':'') v3
     in strip_dots (remove_prefix ''www.'' v4))"

definition label_char :: "char \<Rightarrow> bool" where
  "label_char c = (between 97 122 c \<or> is_digit c \<or> c = CHR ''-'')"

definition label_ok :: "string \<Rightarrow> bool" where
  "label_ok l = (l \<noteq> [] \<and> length l \<le> 63 \<and> list_all label_char l \<and> hd l \<noteq> CHR ''-'' \<and> last l \<noteq> CHR ''-'')"

text \<open>\<open>_HOSTNAME_RE.match\<close>; the dollar sign also accepts one trailing line feed.\<close>

definition hostname_ok :: "string \<Rightarrow> bool" where
  "hostname_ok s =
    (let t = (if s \<noteq> [] \<and> last s = CHR 0x0A then butlast s else s); labels = split_on CHR ''.'' t
     in length t \<le> 253 \<and> 2 \<le> length labels \<and> list_all label_ok labels)"

section \<open>Requests\<close>

record create_request =
  cr_name :: string
  cr_domain :: string
  cr_allow_insecure :: bool

text \<open>\<open>None\<close> is a validation error.\<close>

definition clean_name :: "nat \<Rightarrow> string \<Rightarrow> string option" where
  "clean_name bound s = (if strip s = [] then None else Some (take bound (strip s)))"

definition clean_domain :: "string \<Rightarrow> string option" where
  "clean_domain s = (if hostname_ok (normalize_domain s) then Some (normalize_domain s) else None)"

definition read_create_request :: "string \<Rightarrow> string \<Rightarrow> bool \<Rightarrow> create_request option" where
  "read_create_request name domain insecure =
    (case (clean_name 255 name, clean_domain domain) of
       (Some n, Some d) \<Rightarrow> Some \<lparr>cr_name = n, cr_domain = d, cr_allow_insecure = insecure\<rparr>
     | _ \<Rightarrow> None)"

section \<open>Sites\<close>

definition list_websites :: "uuid \<Rightarrow> bool \<Rightarrow> 'a access_db_scheme \<Rightarrow> website list" where
  "list_websites u include_archived db =
     filter (\<lambda>s. ws_workspace_id s \<in> set (user_workspace_ids db u) \<and> (include_archived \<or> ws_archived_at s = None)) (websites db)"

text \<open>The workspace a new site goes to: owned workspaces first, then the oldest.\<close>

definition home_workspaces :: "uuid \<Rightarrow> 'a access_db_scheme \<Rightarrow> (workspace \<times> workspace_member) list" where
  "home_workspaces u db =
     sort_key (\<lambda>(_, m). if wm_role m = ''owner'' then 0 else 1 :: nat) (sort_key (\<lambda>(w, _). wk_created_at w)
       (concat (map (\<lambda>w. map (Pair w) (filter (\<lambda>m. wm_workspace_id m = wk_id w \<and> wm_user_id m = u) (workspace_members db))) (workspaces db))))"

definition home_workspace :: "uuid \<Rightarrow> datetime \<Rightarrow> user \<Rightarrow> 'a access_db_scheme \<Rightarrow> ('a access_db_scheme \<times> uuid) answer" where
  "home_workspace new_workspace now u db =
    (case home_workspaces (us_id u) db of
       (w, _) # _ \<Rightarrow> Inr (db, wk_id w)
     | [] \<Rightarrow> try_bind (create_workspace_for_user new_workspace now u None db) (\<lambda>db'. Inr (db', new_workspace)))"

definition site_key :: "website \<Rightarrow> (uuid \<times> string) option" where
  "site_key s = Some (ws_workspace_id s, ws_domain s)"

definition new_site :: "uuid \<Rightarrow> uuid \<Rightarrow> create_request \<Rightarrow> website" where
  "new_site i w body = \<lparr>ws_id = i, ws_workspace_id = w, ws_domain = cr_domain body, ws_display_name = cr_name body,
     ws_detected_stack = None, ws_stack_label = None, ws_allow_insecure_probe = cr_allow_insecure body, ws_ssl_status = None,
     ws_ssl_expires_at = None, ws_ssl_checked_at = None, ws_archived_at = None\<rparr>"

definition insert_site :: "website \<Rightarrow> 'a access_db_scheme \<Rightarrow> 'a access_db_scheme answer" where
  "insert_site s db =
     try_bind (insert_row (\<lambda>x. Some (ws_id x)) s (websites db)) (\<lambda>_.
     try_bind (insert_row site_key s (websites db)) (\<lambda>rows. Inr (db\<lparr>websites := rows\<rparr>)))"

text \<open>An error of the scan is not caught.\<close>

definition scan_fault :: "audit_error \<Rightarrow> fault" where
  "scan_fault e = (case e of Http_failure \<Rightarrow> Google_failed | Runtime p \<Rightarrow> Crashed p)"

definition scan_answer :: "('b audited) \<Rightarrow> 'b answer" where
  "scan_answer r = (case r of Inl e \<Rightarrow> Inl (scan_fault e) | Inr x \<Rightarrow> Inr x)"

type_synonym live_detector = "string \<Rightarrow> bool \<Rightarrow> stack_detection"

record created_site =
  ct_site :: uuid
  ct_workspace :: uuid
  ct_detection :: stack_detection
  ct_run :: audit_run

text \<open>The identifiers drawn for the request, in the order of their use.\<close>

record draws =
  dw_workspace :: uuid
  dw_site :: uuid
  dw_snapshot :: uuid
  dw_issue :: "string \<Rightarrow> uuid"

definition create_website :: "live_detector \<Rightarrow> audit_services \<Rightarrow> draws \<Rightarrow> datetime \<Rightarrow> string option \<Rightarrow> create_request \<Rightarrow> user \<Rightarrow>
    'a access_db_scheme \<Rightarrow> ('a access_db_scheme \<times> created_site) answer" where
  "create_website detector sv dw now ip body u db =
     try_bind (one_or_none (\<lambda>s. ws_workspace_id s \<in> set (user_workspace_ids db (us_id u)) \<and> ws_domain s = cr_domain body) (websites db))
       (\<lambda>existing.
       if existing \<noteq> None then refused 409 (''le domaine '' @ guil_l @ '' '' @ cr_domain body @ '' '' @ guil_r @ '' est d'' @ e_acute @ ''j'' @ a_grave @ '' suivi'')
       else try_bind (home_workspace (dw_workspace dw) now u db) (\<lambda>(db1, w).
         (let site = new_site (dw_site dw) w body; seen = detector (''https://'' @ cr_domain body) (cr_allow_insecure body)
          in try_bind (insert_site site db1) (\<lambda>db2.
             try_bind (scan_answer (run_audit (sv\<lparr>au_detector := (\<lambda>_. seen)\<rparr>) (dw_issue dw) (dw_snapshot dw) now site (Some (us_id u)) ip db2))
               (\<lambda>(db3, run). Inr (db3, \<lparr>ct_site = ws_id site, ct_workspace = w, ct_detection = seen, ct_run = run\<rparr>))))))"

definition put_site :: "uuid \<Rightarrow> (website \<Rightarrow> website) \<Rightarrow> 'a jobs_db_scheme \<Rightarrow> 'a jobs_db_scheme" where
  "put_site i f db = db\<lparr>websites := update_rows (\<lambda>s. ws_id s = i) f (websites db)\<rparr>"

text \<open>\<open>stack_label\<close> is the validated body.\<close>

definition set_website_stack :: "uuid \<Rightarrow> string \<Rightarrow> uuid \<Rightarrow> 'a access_db_scheme \<Rightarrow> ('a access_db_scheme \<times> website) answer" where
  "set_website_stack i stack_label u db =
     try_bind (owned_website db i u) (\<lambda>s. Inr (put_site i (ws_stack_label_update (\<lambda>_. Some stack_label)) db, s\<lparr>ws_stack_label := Some stack_label\<rparr>))"

definition redetected :: "stack_detection \<Rightarrow> bool \<Rightarrow> website \<Rightarrow> website" where
  "redetected d insecure s = s\<lparr>ws_detected_stack := Some (sd_stack d), ws_allow_insecure_probe := insecure\<rparr>"

definition redetect_website_stack :: "live_detector \<Rightarrow> uuid \<Rightarrow> bool \<Rightarrow> uuid \<Rightarrow> 'a access_db_scheme \<Rightarrow>
    ('a access_db_scheme \<times> stack_detection) answer" where
  "redetect_website_stack detector i insecure u db =
     try_bind (owned_website db i u) (\<lambda>s.
       (let d = detector (''https://'' @ ws_domain s) insecure in Inr (put_site i (redetected d insecure) db, d)))"

definition website_ssl :: "(string \<Rightarrow> tls_status) \<Rightarrow> uuid \<Rightarrow> uuid \<Rightarrow> 'a access_db_scheme \<Rightarrow> ('a access_db_scheme \<times> tls_status) answer" where
  "website_ssl checker i u db =
     try_bind (owned_website db i u) (\<lambda>s. Inr (put_site i (apply_tls_status (checker (ws_domain s))) db, checker (ws_domain s)))"

text \<open>A purge takes everything that refers to the site with it; the log stays.\<close>

definition purge_site :: "uuid \<Rightarrow> 'a access_db_scheme \<Rightarrow> 'a access_db_scheme" where
  "purge_site i db = db\<lparr>
     job_runs := delete_rows (\<lambda>r. jr_website_id r = Some i) (job_runs db),
     schedules := delete_rows (\<lambda>r. sc_website_id r = i) (schedules db),
     websites := delete_rows (\<lambda>s. ws_id s = i) (websites db),
     metric_points := delete_rows (\<lambda>p. mp_website_id p = i) (metric_points db),
     metric_rollups := delete_rows (\<lambda>r. mr_website_id r = i) (metric_rollups db),
     profiles := delete_rows (\<lambda>p. pf_website_id p = i) (profiles db),
     item_statuses := delete_rows (\<lambda>r. st_website_id r = i) (item_statuses db),
     item_events := delete_rows (\<lambda>e. ev_website_id e = i) (item_events db),
     google_links := delete_rows (\<lambda>l. gl_website_id l = i) (google_links db),
     issue_items := delete_rows (\<lambda>x. ii_website_id x = i) (issue_items db),
     audit_snapshots := delete_rows (\<lambda>x. as_website_id x = i) (audit_snapshots db)\<rparr>"

definition delete_website :: "datetime \<Rightarrow> uuid \<Rightarrow> bool \<Rightarrow> uuid \<Rightarrow> 'a access_db_scheme \<Rightarrow> 'a access_db_scheme answer" where
  "delete_website now i purge u db =
     try_bind (owned_website db i u) (\<lambda>_.
       Inr (if purge then purge_site i db else put_site i (ws_archived_at_update (\<lambda>_. Some now)) db))"

section \<open>The hint on the stack\<close>

definition latest_snapshot :: "uuid \<Rightarrow> 'a access_db_scheme \<Rightarrow> audit_snapshot option" where
  "latest_snapshot i db =
    (case sort_key (\<lambda>x. - as_captured_at x) (filter (\<lambda>x. as_website_id x = i) (audit_snapshots db)) of [] \<Rightarrow> None | x # _ \<Rightarrow> Some x)"

definition guess_from :: "json \<Rightarrow> stack_guess result" where
  "guess_from item = (case item of
     JDict d \<Rightarrow> try_bind (try_bind (required d ''label'') text_of) (\<lambda>l.
       try_bind (try_bind (required d ''reason'') text_of) (\<lambda>r. Inr \<lparr>sg_label = l, sg_reason = r\<rparr>))
   | _ \<Rightarrow> Inl TypeError)"

fun guesses_from :: "json list \<Rightarrow> stack_guess list result" where
  "guesses_from [] = Inr []"
| "guesses_from (x # xs) = try_bind (guess_from x) (\<lambda>g. try_bind (guesses_from xs) (\<lambda>gs. Inr (g # gs)))"

text \<open>Iterating over the candidates of a block: a list, or a text or a dictionary without elements.\<close>

definition block_guesses :: "json \<Rightarrow> stack_guess list result" where
  "block_guesses v = (case v of
     JList xs \<Rightarrow> guesses_from xs
   | JStr [] \<Rightarrow> Inr [] | JDict [] \<Rightarrow> Inr []
   | _ \<Rightarrow> Inl TypeError)"

definition stored_block :: "audit_snapshot option \<Rightarrow> json_dict result" where
  "stored_block snapshot =
    (case snapshot of None \<Rightarrow> Inr []
     | Some x \<Rightarrow> (let v = jget (as_metrics x) ''stack_detection''
         in if \<not> truthy v then Inr [] else case v of JDict d \<Rightarrow> Inr d | _ \<Rightarrow> Inl AttributeError))"

record hint_facts =
  hf_confidence :: py_number
  hf_error :: json
  hf_candidates :: "stack_guess list"

definition stored_hint :: "audit_snapshot option \<Rightarrow> hint_facts result" where
  "stored_hint snapshot =
     try_bind (stored_block snapshot) (\<lambda>d.
     try_bind (py_float (get_default (JNum (PyFloat 0)) d ''confidence'')) (\<lambda>confidence.
     try_bind (block_guesses (get_default (JList []) d ''candidates'')) (\<lambda>candidates.
       Inr \<lparr>hf_confidence = confidence, hf_error = jget d ''error'', hf_candidates = candidates\<rparr>)))"

fun low_confidence :: "py_number \<Rightarrow> bool" where
  "low_confidence (PyBool b) = False"
| "low_confidence (PyInt n) = (n < 0)"
| "low_confidence (PyFloat q) = (q \<noteq> 0 \<and> q < 3 / 5)"
| "low_confidence PyNegInf = True"
| "low_confidence _ = False"

record stack_hint =
  sh_stack :: "stack_kind option"
  sh_stack_label :: "string option"
  sh_facts :: hint_facts
  sh_needs_confirmation :: bool

definition hint_of :: "website \<Rightarrow> hint_facts \<Rightarrow> stack_hint" where
  "hint_of s facts = \<lparr>sh_stack = ws_detected_stack s, sh_stack_label = ws_stack_label s, sh_facts = facts,
     sh_needs_confirmation = (ws_stack_label s = None \<and>
       (ws_detected_stack s \<in> {None, Some Generic, Some Unknown} \<or> low_confidence (hf_confidence facts)))\<rparr>"

definition website_stack_hint :: "live_detector \<Rightarrow> uuid \<Rightarrow> uuid \<Rightarrow> 'a access_db_scheme \<Rightarrow> ('a access_db_scheme \<times> stack_hint) answer" where
  "website_stack_hint detector i u db =
     try_bind (owned_website db i u) (\<lambda>s.
       (case stored_hint (latest_snapshot i db) of
          Inl e \<Rightarrow> Inl (Crashed e)
        | Inr facts \<Rightarrow>
            if hf_candidates facts \<noteq> [] then Inr (db, hint_of s facts)
            else (let live = detector (''https://'' @ ws_domain s) (ws_allow_insecure_probe s); f = (ws_detected_stack_update (\<lambda>_. Some (sd_stack live)))
              in Inr (put_site i f db, hint_of (f s) \<lparr>hf_confidence = PyFloat (sd_confidence live), hf_error = opt_text (sd_error live),
                hf_candidates = sd_candidates live\<rparr>))))"

section \<open>Google resources\<close>

text \<open>
  \<open>list_google_resources\<close>: \<open>discover\<close> gives the properties, the containers and the sites of an account; each is answered with
  its connection and the account's address. \<open>None\<close> is an error that nothing catches.
\<close>

record ('p, 'g, 's) google_resources =
  gr_connections :: "google_connection list"
  gr_properties :: "('p \<times> uuid \<times> string) list"
  gr_containers :: "('g \<times> uuid \<times> string) list"
  gr_sites :: "('s \<times> uuid \<times> string) list"

definition no_resources :: "('p, 'g, 's) google_resources" where
  "no_resources = \<lparr>gr_connections = [], gr_properties = [], gr_containers = [], gr_sites = []\<rparr>"

definition found_in :: "google_connection \<Rightarrow> 'x list \<Rightarrow> ('x \<times> uuid \<times> string) list" where
  "found_in c xs = map (\<lambda>x. (x, gn_id c, gn_email c)) xs"

fun read_resources :: "refresher \<Rightarrow> (string \<Rightarrow> ('p list \<times> 'g list \<times> 's list) option) \<Rightarrow> google_connection list \<Rightarrow>
    ('p, 'g, 's) google_resources \<times> google_connection list \<Rightarrow> (('p, 'g, 's) google_resources \<times> google_connection list) option" where
  "read_resources refresh discover [] st = Some st"
| "read_resources refresh discover (c # rest) (r, conns) =
    (if gn_status c \<noteq> Conn_active
     then read_resources refresh discover rest (r\<lparr>gr_connections := gr_connections r @ [c]\<rparr>, conns)
     else (case refresh c of
         Refresh_failed \<Rightarrow> None
       | Invalid_grant \<Rightarrow>
           read_resources refresh discover rest
             (r\<lparr>gr_connections := gr_connections r @ [c\<lparr>gn_status := Conn_needs_reauth\<rparr>]\<rparr>, mark_reauth (gn_id c) conns)
       | Access_token token \<Rightarrow> (case discover token of
             None \<Rightarrow> None
           | Some (ps, gs, ss) \<Rightarrow> read_resources refresh discover rest
               (\<lparr>gr_connections = gr_connections r @ [c], gr_properties = gr_properties r @ found_in c ps,
                 gr_containers = gr_containers r @ found_in c gs, gr_sites = gr_sites r @ found_in c ss\<rparr>, conns))))"

definition list_google_resources :: "refresher \<Rightarrow> (string \<Rightarrow> ('p list \<times> 'g list \<times> 's list) option) \<Rightarrow> uuid \<Rightarrow> 'a access_db_scheme \<Rightarrow>
    ('a access_db_scheme \<times> ('p, 'g, 's) google_resources) answer" where
  "list_google_resources refresh discover u db =
    (case read_resources refresh discover
         (filter (\<lambda>c. gn_workspace_id c \<in> set (user_workspace_ids db u)) (google_connections db)) (no_resources, google_connections db) of
       None \<Rightarrow> Inl Google_failed
     | Some (r, conns) \<Rightarrow> Inr (db\<lparr>google_connections := conns\<rparr>, r))"

definition link_resource :: "uuid \<Rightarrow> google_link \<Rightarrow> uuid \<Rightarrow> 'a access_db_scheme \<Rightarrow> 'a access_db_scheme answer" where
  "link_resource i body u db =
     try_bind (owned_website db i u) (\<lambda>_.
       (case connection_of (google_connections db) (gl_connection_id body) of
          None \<Rightarrow> refused 400 (''connexion Google invalide pour cet utilisateur'')
        | Some c \<Rightarrow>
            if gn_workspace_id c \<notin> set (user_workspace_ids db u) then refused 400 (''connexion Google invalide pour cet utilisateur'')
            else Inr (db\<lparr>google_links :=
              delete_rows (\<lambda>l. gl_website_id l = i \<and> gl_resource_type l = gl_resource_type body) (google_links db) @
              [body\<lparr>gl_website_id := i\<rparr>]\<rparr>)))"

definition list_website_google_links :: "uuid \<Rightarrow> uuid \<Rightarrow> 'a access_db_scheme \<Rightarrow> google_link list answer" where
  "list_website_google_links i u db =
     try_bind (owned_website db i u) (\<lambda>_. Inr (filter (\<lambda>l. gl_website_id l = i) (google_links db)))"

end
