(* ===== verification/Access.thy ===== *)
theory Access
  imports Websites
begin

text \<open>
  Who may reach what. \<open>access_step\<close> collects the requests that change users, workspaces, members, invitations and
  transactions of OAuth; its invariant, by rule induction, says that every membership is legitimate. \<open>user_request\<close>
  collects the requests of a signed-in user on sites, links and connections: they leave alone every workspace
  the user is not a member of.
\<close>

section \<open>The requests on accounts\<close>

inductive access_step :: "'a access_db_scheme \<Rightarrow> 'a access_db_scheme \<Rightarrow> bool" where
  start: "google_start se gc state verifier now redirect_to db = Inr (db', url) \<Longrightarrow> access_step db db'"
| sign_in: "google_callback se gc new_user new_workspace now code state error db = (db', reply) \<Longrightarrow> access_step db db'"
| register: "register se hash new_user new_workspace now email password name db = Inr (db', cookie) \<Longrightarrow> access_step db db'"
| reset: "password_reset_confirm hash now now' token password db = Inr db' \<Longrightarrow> access_step db db'"
| invite: "invite_to_workspace se i token now w email u db = Inr (db', invitation, link) \<Longrightarrow> access_step db db'"
| accept: "u \<in> set (users db) \<Longrightarrow> accept_invitation_endpoint now now' token u db = Inr db' \<Longrightarrow> access_step db db'"
| remove: "remove_member w member_user u db = Inr db' \<Longrightarrow> access_step db db'"
| connect: "connections_google_start se gc state verifier now w u db = Inr (db', url) \<Longrightarrow> access_step db db'"
| connected: "connections_google_callback se gc encrypt i now code state error db = (db', reply') \<Longrightarrow> access_step db db'"
| create: "u \<in> set (users db) \<Longrightarrow> create_website detector sv dw now ip body u db = Inr (db', created) \<Longrightarrow> access_step db db'"
| other: "users db' = users db \<Longrightarrow> workspaces db' = workspaces db \<Longrightarrow> workspace_members db' = workspace_members db \<Longrightarrow>
    invitations db' = invitations db \<Longrightarrow> oauth_states db' = oauth_states db \<Longrightarrow> access_step db db'"

definition owner_row :: "workspace \<Rightarrow> workspace_member" where
  "owner_row w = \<lparr>wm_workspace_id = wk_id w, wm_user_id = wk_owner_user_id w, wm_role = ''owner''\<rparr>"

definition invited :: "'a access_db_scheme \<Rightarrow> workspace \<Rightarrow> user \<Rightarrow> bool" where
  "invited db w u = (\<exists>i \<in> set (invitations db). wi_workspace_id i = wk_id w \<and> wi_status i = ''accepted'' \<and>
     lower (wi_invited_email i) = lower (us_email u) \<and> wi_invited_by_user_id i = wk_owner_user_id w)"

definition legitimate :: "'a access_db_scheme \<Rightarrow> workspace_member \<Rightarrow> bool" where
  "legitimate db m = (\<exists>w \<in> set (workspaces db). wk_id w = wm_workspace_id m \<and>
     (m = owner_row w \<or> wm_role m = ''member'' \<and> (\<exists>u \<in> set (users db). us_id u = wm_user_id m \<and> invited db w u)))"

definition invitation_ok :: "'a access_db_scheme \<Rightarrow> workspace_invitation \<Rightarrow> bool" where
  "invitation_ok db i = (\<exists>w \<in> set (workspaces db). wk_id w = wi_workspace_id i \<and> wi_invited_by_user_id i = wk_owner_user_id w)"

definition state_ok :: "'a access_db_scheme \<Rightarrow> oauth_state \<Rightarrow> bool" where
  "state_ok db s = (case os_workspace_id s of None \<Rightarrow> os_user_id s = None
     | Some k \<Rightarrow> (\<exists>w \<in> set (workspaces db). wk_id w = k \<and> os_user_id s = Some (wk_owner_user_id w)))"

definition access_core :: "'a access_db_scheme \<Rightarrow> bool" where
  "access_core db = (uniq_by wk_id (workspaces db) \<and> uniq_by us_id (users db) \<and> uniq_by member_key (workspace_members db) \<and>
     (\<forall>m \<in> set (workspace_members db). legitimate db m) \<and>
     (\<forall>w \<in> set (workspaces db). owner_row w \<in> set (workspace_members db)) \<and>
     (\<forall>i \<in> set (invitations db). invitation_ok db i) \<and> (\<forall>s \<in> set (oauth_states db). state_ok db s))"

definition owns_workspace :: "'a access_db_scheme \<Rightarrow> uuid \<Rightarrow> bool" where
  "owns_workspace db u = (\<exists>w \<in> set (workspaces db). wk_owner_user_id w = u)"

definition access_inv :: "'a access_db_scheme \<Rightarrow> bool" where
  "access_inv db = (access_core db \<and> (\<forall>u \<in> set (users db). owns_workspace db (us_id u)))"

subsection \<open>What each operation does to the tables\<close>

lemma insert_user_Inr:
  "insert_user u db = Inr db' \<Longrightarrow> us_id u \<notin> us_id ` set (users db) \<and> db' = db\<lparr>users := users db @ [u]\<rparr>"
  by (auto simp: insert_user_def image_iff)

lemma create_workspace_Inr:
  assumes "create_workspace_for_user w now u name db = Inr db'"
  shows "\<exists>k. wk_id k = w \<and> wk_owner_user_id k = us_id u \<and> w \<notin> wk_id ` set (workspaces db) \<and>
    member_key (owner_row k) \<notin> member_key ` set (workspace_members db) \<and>
    db' = db\<lparr>workspaces := workspaces db @ [k], workspace_members := workspace_members db @ [owner_row k]\<rparr>"
proof -
  define k where "k = \<lparr>wk_id = w, wk_name = first_text name (first_text (us_display_name u) (us_email u)), wk_owner_user_id = us_id u, wk_created_at = now\<rparr>"
  have "wk_id k = w \<and> wk_owner_user_id k = us_id u" by (simp add: k_def)
  moreover have "w \<notin> wk_id ` set (workspaces db) \<and> member_key (owner_row k) \<notin> member_key ` set (workspace_members db) \<and>
      db' = db\<lparr>workspaces := workspaces db @ [k], workspace_members := workspace_members db @ [owner_row k]\<rparr>"
    using assms unfolding create_workspace_for_user_def k_def [symmetric]
    by (simp add: owner_row_def k_def member_key_def) (simp add: image_iff)
  ultimately show ?thesis by blast
qed

lemma legitimate_mono:
  assumes "legitimate db m" "set (workspaces db) \<subseteq> set (workspaces db')" 
    "\<forall>i \<in> set (invitations db). wi_status i = ''accepted'' \<longrightarrow> (\<exists>j \<in> set (invitations db'). wi_status j = ''accepted'' \<and>
       wi_workspace_id j = wi_workspace_id i \<and> wi_invited_email j = wi_invited_email i \<and> wi_invited_by_user_id j = wi_invited_by_user_id i)"
    and "\<forall>u \<in> set (users db). \<exists>v \<in> set (users db'). us_id v = us_id u \<and> us_email v = us_email u"
  shows "legitimate db' m"
proof -
  obtain w where w: "w \<in> set (workspaces db)" "wk_id w = wm_workspace_id m"
    and kind: "m = owner_row w \<or> wm_role m = ''member'' \<and> (\<exists>u \<in> set (users db). us_id u = wm_user_id m \<and> invited db w u)"
    using assms(1) unfolding legitimate_def by (elim bexE conjE)
  have later: "\<exists>v \<in> set (users db'). us_id v = wm_user_id m \<and> invited db' w v"
    if u: "u \<in> set (users db)" "us_id u = wm_user_id m" "invited db w u" for u
  proof -
    from bspec [OF assms(4) u(1)] obtain v where v: "v \<in> set (users db')" "us_id v = us_id u" "us_email v = us_email u" by (elim bexE conjE)
    obtain i where i: "i \<in> set (invitations db)" "wi_workspace_id i = wk_id w" "wi_status i = ''accepted''"
        "lower (wi_invited_email i) = lower (us_email u)" "wi_invited_by_user_id i = wk_owner_user_id w"
      using u(3) unfolding invited_def by (elim bexE conjE)
    from bspec [OF assms(3) i(1)] i(3) obtain j where "j \<in> set (invitations db')" "wi_status j = ''accepted''"
        "wi_workspace_id j = wi_workspace_id i" "wi_invited_email j = wi_invited_email i" "wi_invited_by_user_id j = wi_invited_by_user_id i"
      by (elim impE bexE conjE) simp_all
    then have "invited db' w v" using i v(3) unfolding invited_def by (intro bexI [of _ j]) simp_all
    then show ?thesis using v(1,2) u(2) by (intro bexI [of _ v]) simp_all
  qed
  have "m = owner_row w \<or> wm_role m = ''member'' \<and> (\<exists>v \<in> set (users db'). us_id v = wm_user_id m \<and> invited db' w v)"
    using kind later by blast
  moreover have "w \<in> set (workspaces db')" using w(1) assms(2) by blast
  ultimately show ?thesis using w(2) unfolding legitimate_def by (intro bexI [of _ w] conjI)
qed

lemma access_core_cong:
  assumes "users db' = users db" "workspaces db' = workspaces db" "workspace_members db' = workspace_members db"
    "invitations db' = invitations db" "oauth_states db' = oauth_states db"
  shows "access_core db' = access_core db" "owns_workspace db' u = owns_workspace db u"
  using assms by (simp_all add: access_core_def legitimate_def invited_def invitation_ok_def state_ok_def owns_workspace_def cong: option.case_cong)

lemma ok_cong:
  assumes "workspaces db' = workspaces db"
  shows "invitation_ok db' i = invitation_ok db i" "state_ok db' s = state_ok db s"
  using assms by (simp_all add: invitation_ok_def state_ok_def cong: option.case_cong)

lemma update_rows_keeps: "r \<in> set rows \<Longrightarrow> Q r \<Longrightarrow> (P r \<Longrightarrow> Q (f r)) \<Longrightarrow> \<exists>j \<in> set (update_rows P f rows). Q j"
  by (cases "P r") (force simp: update_rows_def)+

lemma same_users: "\<forall>u \<in> set (users db). \<exists>v \<in> set (users db @ us). us_id v = us_id u \<and> us_email v = us_email u"
  by auto

lemma same_invitations: "\<forall>i \<in> set is. wi_status i = ''accepted'' \<longrightarrow> (\<exists>j \<in> set (is @ js). wi_status j = ''accepted'' \<and>
   wi_workspace_id j = wi_workspace_id i \<and> wi_invited_email j = wi_invited_email i \<and> wi_invited_by_user_id j = wi_invited_by_user_id i)"
  by auto

lemma legitimate_more:
  assumes "legitimate db m" "users db' = users db @ us" "workspaces db' = workspaces db @ ws" "invitations db' = invitations db @ is"
  shows "legitimate db' m"
  by (rule legitimate_mono [OF assms(1)]) (use assms(2-4) same_users [of db us] same_invitations [of "invitations db" "is"] in simp_all)

lemma invitation_more: "invitation_ok db i \<Longrightarrow> workspaces db' = workspaces db @ ws \<Longrightarrow> invitation_ok db' i"
  by (auto simp: invitation_ok_def)

lemma state_more: "state_ok db s \<Longrightarrow> workspaces db' = workspaces db @ ws \<Longrightarrow> state_ok db' s"
  by (auto simp: state_ok_def split: option.splits)

lemma core_users:
  assumes "access_core db" "us_id u \<notin> us_id ` set (users db)"
  shows "access_core (db\<lparr>users := users db @ [u]\<rparr>)" (is "access_core ?db")
proof -
  have "legitimate ?db m" if "legitimate db m" for m
    by (rule legitimate_more [OF that, of _ "[u]" "[]" "[]"]) simp_all
  then show ?thesis using assms ok_cong [of ?db db] by (simp add: access_core_def uniq_by_snoc)
qed

lemma core_workspace:
  assumes "access_core db" "wk_id k \<notin> wk_id ` set (workspaces db)" "member_key (owner_row k) \<notin> member_key ` set (workspace_members db)"
  shows "access_core (db\<lparr>workspaces := workspaces db @ [k], workspace_members := workspace_members db @ [owner_row k]\<rparr>)" (is "access_core ?db")
proof -
  have legit: "legitimate ?db m" if "legitimate db m" for m
    by (rule legitimate_more [OF that, of _ "[]" "[k]" "[]"]) simp_all
  have inv: "invitation_ok ?db i" if "invitation_ok db i" for i by (rule invitation_more [OF that, of _ "[k]"]) simp
  have st: "state_ok ?db s" if "state_ok db s" for s by (rule state_more [OF that, of _ "[k]"]) simp
  have own: "legitimate ?db (owner_row k)" by (simp add: legitimate_def owner_row_def)
  show ?thesis using assms legit inv st own by (simp add: access_core_def uniq_by_snoc)
qed

lemma core_states: "access_core db \<Longrightarrow> \<forall>s \<in> set ss. state_ok db s \<Longrightarrow> access_core (db\<lparr>oauth_states := ss\<rparr>)"
  by (simp add: access_core_def legitimate_def invited_def invitation_ok_def state_ok_def cong: option.case_cong)

lemma core_invite:
  assumes "access_core db" "invitation_ok db i"
  shows "access_core (db\<lparr>invitations := invitations db @ [i]\<rparr>)" (is "access_core ?db")
proof -
  have "legitimate ?db m" if "legitimate db m" for m
    by (rule legitimate_more [OF that, of _ "[]" "[]" "[i]"]) simp_all
  moreover have "invitation_ok ?db j = invitation_ok db j" "state_ok ?db s = state_ok db s" for j s
    by (simp_all add: ok_cong [of ?db db])
  ultimately show ?thesis using assms by (simp add: access_core_def)
qed

lemma core_accept:
  assumes "access_core db"
  shows "access_core (db\<lparr>invitations := mark_accepted now token (invitations db)\<rparr>)" (is "access_core ?db")
proof -
  have "legitimate ?db m" if "legitimate db m" for m
    by (rule legitimate_mono [OF that]) (auto simp: mark_accepted_def intro!: update_rows_keeps)
  moreover have "invitation_ok ?db j = invitation_ok db j" "state_ok ?db s = state_ok db s" for j s
    by (simp_all add: ok_cong [of ?db db])
  moreover have "\<forall>i \<in> set (mark_accepted now token (invitations db)). invitation_ok db i"
    using assms by (auto simp: access_core_def mark_accepted_def update_rows_def invitation_ok_def)
  ultimately show ?thesis using assms by (simp add: access_core_def)
qed

lemma legitimate_cong: "legitimate (db\<lparr>workspace_members := ms\<rparr>) m = legitimate db m"
  by (simp add: legitimate_def invited_def)

lemma core_member:
  "access_core db \<Longrightarrow> legitimate db m \<Longrightarrow> member_key m \<notin> member_key ` set (workspace_members db) \<Longrightarrow>
    access_core (db\<lparr>workspace_members := workspace_members db @ [m]\<rparr>)"
  by (simp add: access_core_def legitimate_cong uniq_by_snoc invitation_ok_def state_ok_def cong: option.case_cong)

lemma core_remove:
  "access_core db \<Longrightarrow> \<forall>w \<in> set (workspaces db). \<not> P (owner_row w) \<Longrightarrow>
    access_core (db\<lparr>workspace_members := delete_rows P (workspace_members db)\<rparr>)"
  by (simp add: access_core_def legitimate_cong uniq_by_delete_rows table_simps invitation_ok_def state_ok_def cong: option.case_cong)

lemma core_passwords:
  assumes "access_core db"
  shows "access_core (db\<lparr>users := update_rows P (us_password_hash_update f) (users db)\<rparr>)" (is "access_core ?db")
proof -
  have "legitimate ?db m" if "legitimate db m" for m
    by (rule legitimate_mono [OF that]) (auto intro!: update_rows_keeps)
  moreover have "uniq_by us_id (users ?db)" using assms by (simp add: access_core_def uniq_by_update_rows)
  ultimately show ?thesis using assms ok_cong [of ?db db] by (simp add: access_core_def)
qed

subsection \<open>The invariant\<close>

lemma inv_frame:
  assumes "access_inv db" "users db' = users db" "workspaces db' = workspaces db" "workspace_members db' = workspace_members db"
    "invitations db' = invitations db" "oauth_states db' = oauth_states db"
  shows "access_inv db'"
  using assms access_core_cong [of db' db] by (simp add: access_inv_def)

lemma inv_states: "access_inv db \<Longrightarrow> \<forall>s \<in> set ss. state_ok db s \<Longrightarrow> access_inv (db\<lparr>oauth_states := ss\<rparr>)"
  by (simp add: access_inv_def core_states owns_workspace_def)

lemma inv_states_ok: "access_inv db \<Longrightarrow> \<forall>s \<in> set (oauth_states db). state_ok db s"
  by (simp add: access_inv_def access_core_def)

lemma inv_consume: "access_inv db \<Longrightarrow> consume_oauth_state now state db = (db1, row) \<Longrightarrow> access_inv db1"
  using inv_states [of db "delete_rows (\<lambda>x. os_state x = state) (oauth_states db)"] inv_states_ok [of db]
  by (auto simp: consume_oauth_state_def table_simps split: option.splits)

lemma inv_transaction:
  assumes "access_inv db" "create_oauth_transaction state verifier now user w redirect_to ttl db = Inr (db', a, b)"
    and "case w of None \<Rightarrow> user = None | Some k \<Rightarrow> \<exists>x \<in> set (workspaces db). wk_id x = k \<and> user = Some (wk_owner_user_id x)"
  shows "access_inv db'"
proof -
  define s where "s = \<lparr>os_state = state, os_code_verifier = verifier, os_user_id = user, os_workspace_id = w,
    os_redirect_to = redirect_to, os_expires_at = now + seconds ttl\<rparr>"
  have "db' = db\<lparr>oauth_states := oauth_states db @ [s]\<rparr>" using assms(2) by (auto simp: create_oauth_transaction_def s_def)
  moreover have "state_ok db s" using assms(3) by (cases w) (simp_all add: state_ok_def s_def)
  ultimately show ?thesis using inv_states [OF assms(1), of "oauth_states db @ [s]"] inv_states_ok [OF assms(1)] by simp
qed

lemma inv_workspace:
  assumes "access_inv db" "create_workspace_for_user w now u name db = Inr db'"
  shows "access_inv db'" "owns_workspace db' (us_id u)" "users db' = users db"
proof -
  obtain k where k: "wk_owner_user_id k = us_id u" "w = wk_id k" "w \<notin> wk_id ` set (workspaces db)"
      "member_key (owner_row k) \<notin> member_key ` set (workspace_members db)"
      "db' = db\<lparr>workspaces := workspaces db @ [k], workspace_members := workspace_members db @ [owner_row k]\<rparr>"
    using create_workspace_Inr [OF assms(2)] by blast
  then show "access_inv db'" "owns_workspace db' (us_id u)" "users db' = users db"
    using assms(1) core_workspace [of db k] by (auto simp: access_inv_def owns_workspace_def)
qed

lemma inv_new_user:
  assumes "access_inv db" "insert_user u db = Inr db1" "create_workspace_for_user w now u name db1 = Inr db2"
  shows "access_inv db2"
proof -
  have db1: "us_id u \<notin> us_id ` set (users db)" "db1 = db\<lparr>users := users db @ [u]\<rparr>" using insert_user_Inr [OF assms(2)] by simp_all
  then have core1: "access_core db1" using assms(1) core_users [of db u] by (simp add: access_inv_def)
  obtain k where k: "wk_owner_user_id k = us_id u" "w = wk_id k" "w \<notin> wk_id ` set (workspaces db1)"
      "member_key (owner_row k) \<notin> member_key ` set (workspace_members db1)"
      "db2 = db1\<lparr>workspaces := workspaces db1 @ [k], workspace_members := workspace_members db1 @ [owner_row k]\<rparr>"
    using create_workspace_Inr [OF assms(3)] by blast
  then have "access_core db2" using core_workspace [OF core1, of k] by simp
  moreover have "owns_workspace db2 (us_id x)" if "x \<in> set (users db2)" for x
    using that assms(1) k db1(2) by (auto simp: access_inv_def owns_workspace_def)
  ultimately show ?thesis by (simp add: access_inv_def)
qed

lemma inv_google_user: "access_inv db \<Longrightarrow> google_user new_user new_workspace now info db = Inr (db', u) \<Longrightarrow> access_inv db'"
  by (auto simp: google_user_def Let_def split: option.splits if_splits intro: inv_new_user)

lemma inv_google_callback:
  assumes "access_inv db" "google_callback se gc new_user new_workspace now code state error db = (db', reply)"
  shows "access_inv db'"
proof -
  obtain db1 row where consumed: "consume_oauth_state now (the state) db = (db1, row)" by fastforce
  have "access_inv db1" using inv_consume [OF assms(1) consumed] .
  moreover have "db' = db \<or> db' = db1 \<or> (\<exists>info u. google_user new_user new_workspace now info db1 = Inr (db', u))"
    using assms(2) consumed
    by (auto simp: google_callback_def split: option.splits if_splits exchange.splits sum.splits fault.splits)
  ultimately show ?thesis using assms(1) inv_google_user by blast
qed

lemma upsert_frame:
  "upsert_google_connection encrypt i now w info token db = Inr db' \<Longrightarrow> \<exists>conns. db' = db\<lparr>google_connections := conns\<rparr>"
  by (auto simp: upsert_google_connection_def split: option.splits if_splits)

lemma inv_connections_callback:
  assumes "access_inv db" "connections_google_callback se gc encrypt i now code state error db = (db', reply)"
  shows "access_inv db'"
proof -
  obtain db1 row where consumed: "consume_oauth_state now (the state) db = (db1, row)" by fastforce
  have inv: "access_inv db1" using inv_consume [OF assms(1) consumed] .
  have "db' = db \<or> db' = db1 \<or> (\<exists>w info token. upsert_google_connection encrypt i now w info token db1 = Inr db')"
    using assms(2) consumed
    by (auto simp: connections_google_callback_def split: option.splits if_splits exchange.splits sum.splits)
  moreover have "access_inv db'" if "upsert_google_connection encrypt i now w info token db1 = Inr db'" for w info token
    using upsert_frame [OF that] by (auto intro: inv_frame [OF inv])
  ultimately show ?thesis using assms(1) inv by blast
qed

lemma owner_found:
  assumes "access_inv db" "require_owner db w u = Inr x"
  shows "\<exists>k \<in> set (workspaces db). wk_id k = w \<and> wk_owner_user_id k = u"
proof -
  obtain m where m: "m \<in> set (workspace_members db)" "wm_workspace_id m = w" "wm_user_id m = u" "wm_role m = ''owner''"
    using assms(2) membership_Some unfolding require_owner_Inr by metis
  then have "legitimate db m" using assms(1) by (simp add: access_inv_def access_core_def)
  then show ?thesis using m by (auto simp: legitimate_def owner_row_def)
qed

lemma inv_register: "access_inv db \<Longrightarrow> register se hash new_user new_workspace now email password name db = Inr (db', cookie) \<Longrightarrow> access_inv db'"
  by (auto simp: register_def refused_def Let_def split: option.splits intro: inv_new_user)

lemma inv_reset:
  assumes "access_inv db" "password_reset_confirm hash now now' token password db = Inr db'"
  shows "access_inv db'"
proof -
  define f where "f = (\<lambda>_ :: string option. Some (hash password))"
  obtain P ts where db': "db' = db\<lparr>users := update_rows P (us_password_hash_update f) (users db), reset_tokens := ts\<rparr>"
    using assms(2) by (auto simp: password_reset_confirm_def refused_def f_def split: option.splits if_splits)
  define db1 where "db1 = db\<lparr>users := update_rows P (us_password_hash_update f) (users db)\<rparr>"
  have "access_core db1" using assms(1) by (simp add: db1_def access_inv_def core_passwords)
  moreover have "owns_workspace db1 (us_id u)" if "u \<in> set (users db1)" for u
    using that assms(1) by (auto simp: db1_def access_inv_def owns_workspace_def update_rows_def)
  ultimately have "access_inv db1" by (simp add: access_inv_def)
  then show ?thesis by (rule inv_frame) (simp_all add: db' db1_def)
qed

lemma inv_invite:
  assumes "access_inv db" "invite_to_workspace se i token now w email u db = Inr (db', invitation, link)"
  shows "access_inv db'"
proof -
  have owner: "\<exists>k \<in> set (workspaces db). wk_id k = w \<and> wk_owner_user_id k = u"
    using assms(2) owner_found [OF assms(1), of w u "()"] by (auto simp: invite_to_workspace_def)
  have "db' = db\<lparr>invitations := invitations db @ [invitation]\<rparr>" "wi_workspace_id invitation = w" "wi_invited_by_user_id invitation = u"
    using assms(2) by (auto simp: invite_to_workspace_def create_invitation_def Let_def)
  moreover from this(2,3) have "invitation_ok db invitation" using owner by (auto simp: invitation_ok_def)
  ultimately show ?thesis using assms(1) core_invite [of db invitation] by (simp add: access_inv_def owns_workspace_def)
qed

lemma mark_accepted_keeps: "i \<in> set rows \<Longrightarrow> wi_token i = token \<Longrightarrow> i\<lparr>wi_status := ''accepted'', wi_accepted_at := Some now\<rparr> \<in> set (mark_accepted now token rows)"
  by (auto simp: mark_accepted_def update_rows_def)

lemma inv_accept:
  assumes "access_inv db" "u \<in> set (users db)" "accept_invitation_endpoint now now' token u db = Inr db'"
  shows "access_inv db'"
proof -
  define db1 where "db1 = db\<lparr>invitations := mark_accepted now' token (invitations db)\<rparr>"
  have inv1: "access_inv db1"
    using assms(1) by (simp add: db1_def access_inv_def core_accept owns_workspace_def)
  obtain i where i: "get_invitation db token = Some i" "lower (wi_invited_email i) = lower (us_email u)"
    and or: "db' = db1 \<or> (\<not> is_member db (wi_workspace_id i) (us_id u) \<and>
      db' = db1\<lparr>workspace_members := workspace_members db1 @ [\<lparr>wm_workspace_id = wi_workspace_id i, wm_user_id = us_id u, wm_role = ''member''\<rparr>]\<rparr>)"
    using assms(3) by (auto simp: accept_invitation_endpoint_def accept_invitation_def refused_def db1_def
        split: option.splits if_splits sum.splits invite_error.splits)
  let ?m = "\<lparr>wm_workspace_id = wi_workspace_id i, wm_user_id = us_id u, wm_role = ''member''\<rparr>"
  have mem: "i \<in> set (invitations db)" "wi_token i = token" using i(1) find_row_SomeD [of _ "invitations db" i] by (auto simp: get_invitation_def)
  then have "invitation_ok db i" using assms(1) by (simp add: access_inv_def access_core_def)
  then obtain k where k: "k \<in> set (workspaces db)" "wk_id k = wi_workspace_id i" "wi_invited_by_user_id i = wk_owner_user_id k"
    by (auto simp: invitation_ok_def)
  have "invited db1 k u"
    unfolding invited_def db1_def using mark_accepted_keeps [OF mem, of now'] k i(2)
    by (intro bexI [of _ "i\<lparr>wi_status := ''accepted'', wi_accepted_at := Some now'\<rparr>"]) simp_all
  then have "legitimate db1 ?m" using k assms(2) unfolding legitimate_def by (intro bexI [of _ k]) (auto simp: db1_def)
  moreover have "member_key ?m \<notin> member_key ` set (workspace_members db1)" if "\<not> is_member db (wi_workspace_id i) (us_id u)"
    using that by (auto simp: is_member_iff member_key_def db1_def)
  ultimately show ?thesis using or inv1 core_member [of db1 ?m] by (auto simp: access_inv_def owns_workspace_def)
qed

lemma inv_remove:
  assumes "access_inv db" "remove_member w member_user u db = Inr db'"
  shows "access_inv db'"
proof -
  have own: "\<exists>k \<in> set (workspaces db). wk_id k = w \<and> wk_owner_user_id k = u" and other: "member_user \<noteq> u"
    and db': "db' = db\<lparr>workspace_members := delete_rows (\<lambda>m. wm_workspace_id m = w \<and> wm_user_id m = member_user) (workspace_members db)\<rparr>"
    using assms(2) owner_found [OF assms(1), of w u "()"] by (auto simp: remove_member_def refused_def split: if_splits)
  have "wk_owner_user_id k = u" if "k \<in> set (workspaces db)" "wk_id k = w" for k
    using own that assms(1) uniq_by_inj [of wk_id "workspaces db"] unfolding access_inv_def access_core_def by metis
  then have "\<forall>k \<in> set (workspaces db). \<not> (wm_workspace_id (owner_row k) = w \<and> wm_user_id (owner_row k) = member_user)"
    using other by (auto simp: owner_row_def)
  then show ?thesis using assms(1) core_remove [of db "\<lambda>m. wm_workspace_id m = w \<and> wm_user_id m = member_user"]
    by (simp add: db' access_inv_def owns_workspace_def)
qed

lemma run_audit_frame:
  fixes db :: "'a access_db_scheme"
  assumes "run_audit sv draw snapshot now site user ip db = Inr (db', run)"
  shows "users db' = users db" "workspaces db' = workspaces db" "workspace_members db' = workspace_members db"
    "invitations db' = invitations db" "oauth_states db' = oauth_states db"
    "websites db' = update_rows (\<lambda>w. ws_id w = ws_id site) (\<lambda>_. scanned_site sv site) (websites db)"
  using assms by (auto simp: run_audit_def Let_def)

lemma insert_site_Inr:
  "insert_site s db = Inr db' \<Longrightarrow> db' = db\<lparr>websites := websites db @ [s]\<rparr> \<and> ws_id s \<notin> ws_id ` set (websites db)"
  by (auto simp: insert_site_def image_iff)

lemma scan_answer_Inr [simp]: "scan_answer r = Inr x \<longleftrightarrow> r = Inr x"
  by (simp add: scan_answer_def split: sum.splits)

text \<open>What a creation has gone through.\<close>

lemma create_website_Inr:
  assumes "create_website detector sv dw now ip body u db = Inr (db', created)"
  obtains db1 sv' where "home_workspace (dw_workspace dw) now u db = Inr (db1, ct_workspace created)"
    and "\<forall>s \<in> set (websites db). ws_workspace_id s \<in> set (user_workspace_ids db (us_id u)) \<longrightarrow> ws_domain s \<noteq> cr_domain body"
    and "dw_site dw \<notin> ws_id ` set (websites db1)" and "ct_site created = dw_site dw"
    and "run_audit sv' (dw_issue dw) (dw_snapshot dw) now (new_site (dw_site dw) (ct_workspace created) body) (Some (us_id u)) ip
      (db1\<lparr>websites := websites db1 @ [new_site (dw_site dw) (ct_workspace created) body]\<rparr>) = Inr (db', ct_run created)"
proof -
  define P where "P = (\<lambda>s :: website. ws_workspace_id s \<in> set (user_workspace_ids db (us_id u)) \<and> ws_domain s = cr_domain body)"
  define sv' where "sv' = sv\<lparr>au_detector := (\<lambda>_. detector (''https://'' @ cr_domain body) (cr_allow_insecure body))\<rparr>"
  obtain db1 w db2 run where steps: "one_or_none P (websites db) = Inr None" "home_workspace (dw_workspace dw) now u db = Inr (db1, w)"
      "insert_site (new_site (dw_site dw) w body) db1 = Inr db2"
      "run_audit sv' (dw_issue dw) (dw_snapshot dw) now (new_site (dw_site dw) w body) (Some (us_id u)) ip db2 = Inr (db', run)"
      "ct_workspace created = w" "ct_site created = dw_site dw" "ct_run created = run"
    using assms by (auto simp: create_website_def P_def sv'_def refused_def Let_def new_site_def split: if_splits)
  have "filter P (websites db) = []" using steps(1) by (simp add: one_or_none_def split: list.splits)
  then have none: "\<forall>s \<in> set (websites db). \<not> P s" by (simp add: filter_empty_conv)
  have site: "db2 = db1\<lparr>websites := websites db1 @ [new_site (dw_site dw) w body]\<rparr>" "dw_site dw \<notin> ws_id ` set (websites db1)"
    using insert_site_Inr [OF steps(3)] by (simp_all add: new_site_def)
  show ?thesis
  proof (rule that)
    show "home_workspace (dw_workspace dw) now u db = Inr (db1, ct_workspace created)" using steps by simp
    show "\<forall>s \<in> set (websites db). ws_workspace_id s \<in> set (user_workspace_ids db (us_id u)) \<longrightarrow> ws_domain s \<noteq> cr_domain body"
      using none by (simp add: P_def)
    show "dw_site dw \<notin> ws_id ` set (websites db1)" "ct_site created = dw_site dw" using site(2) steps(6) by simp_all
    show "run_audit sv' (dw_issue dw) (dw_snapshot dw) now (new_site (dw_site dw) (ct_workspace created) body) (Some (us_id u)) ip
      (db1\<lparr>websites := websites db1 @ [new_site (dw_site dw) (ct_workspace created) body]\<rparr>) = Inr (db', ct_run created)"
      using steps(4-7) site(1) by simp
  qed
qed

lemma inv_create:
  assumes "access_inv db" "create_website detector sv dw now ip body u db = Inr (db', created)"
  shows "access_inv db'"
proof -
  obtain db1 sv' where home: "home_workspace (dw_workspace dw) now u db = Inr (db1, ct_workspace created)"
    and scan: "run_audit sv' (dw_issue dw) (dw_snapshot dw) now (new_site (dw_site dw) (ct_workspace created) body) (Some (us_id u)) ip
      (db1\<lparr>websites := websites db1 @ [new_site (dw_site dw) (ct_workspace created) body]\<rparr>) = Inr (db', ct_run created)"
    using create_website_Inr [OF assms(2)] by metis
  have "access_inv db1" using home assms(1) inv_workspace(1) by (auto simp: home_workspace_def split: list.splits)
  then show ?thesis by (rule inv_frame) (simp_all add: run_audit_frame [OF scan])
qed

lemma inv_step: "access_step db db' \<Longrightarrow> access_inv db \<Longrightarrow> access_inv db'"
proof (induction rule: access_step.induct)
  case (start se gc state verifier now redirect_to db db' url)
  then obtain a b where "create_oauth_transaction state verifier now None None redirect_to (se_oauth_state_ttl se) db = Inr (db', a, b)"
    by (auto simp: google_start_def)
  then show ?case by (rule inv_transaction [OF start.prems]) simp
next
  case (connect se gc state verifier now w u db db' url)
  have "\<exists>k \<in> set (workspaces db). wk_id k = w \<and> wk_owner_user_id k = u"
    using connect owner_found [of db w u "()"] by (auto simp: connections_google_start_def)
  moreover obtain a b where "create_oauth_transaction state verifier now (Some u) (Some w) (Some (se_frontend_base_url se @ ''/connections''))
      (se_oauth_state_ttl se) db = Inr (db', a, b)"
    using connect by (auto simp: connections_google_start_def)
  ultimately show ?case by (intro inv_transaction [OF connect.prems, of state verifier now "Some u" "Some w"]) auto
qed (auto intro: inv_google_callback inv_register inv_reset inv_invite inv_accept inv_remove inv_connections_callback inv_create inv_frame)

definition no_accounts :: "'a access_db_scheme \<Rightarrow> bool" where
  "no_accounts db = (users db = [] \<and> workspaces db = [] \<and> workspace_members db = [] \<and> invitations db = [] \<and> oauth_states db = [])"

lemma reachable_inv: "access_step\<^sup>*\<^sup>* db0 db \<Longrightarrow> no_accounts db0 \<Longrightarrow> access_inv db"
proof (induction rule: rtranclp_induct)
  case base
  then show ?case by (simp add: no_accounts_def access_inv_def access_core_def uniq_by_def)
qed (blast intro: inv_step)

section \<open>Every membership is legitimate\<close>

text \<open>
  C33: Whatever requests have been served, in any order, starting from no account: every member of a workspace is its owner or
  holds an invitation to it that its owner sent to their address and that was accepted; no one is a member twice; every
  workspace has its owner among its members and every user owns a workspace; a pending connection of Google data was
  asked for by the owner of the workspace it goes to.
\<close>

theorem memberships_legitimate:
  assumes "access_step\<^sup>*\<^sup>* db0 db" and "no_accounts db0"
  shows "(\<forall>m \<in> set (workspace_members db). legitimate db m) \<and> uniq_by member_key (workspace_members db) \<and>
    (\<forall>w \<in> set (workspaces db). owner_row w \<in> set (workspace_members db)) \<and>
    (\<forall>u \<in> set (users db). owns_workspace db (us_id u)) \<and> (\<forall>s \<in> set (oauth_states db). state_ok db s)"
  using reachable_inv [OF assms] by (simp add: access_inv_def access_core_def)

definition empty_db :: access_db where
  "empty_db = \<lparr>job_runs = [], schedules = [], websites = [], quota_events = [], metric_points = [], metric_rollups = [], catalogue = [],
     profiles = [], item_statuses = [], item_events = [], google_links = [], google_connections = [], issue_items = [],
     audit_snapshots = [], audit_logs = [], users = [], workspaces = [], workspace_members = [], invitations = [], oauth_states = [],
     reset_tokens = []\<rparr>"

definition demo_settings :: app_settings where
  "demo_settings = \<lparr>se_frontend_base_url = ''https://app'', se_secret = ''k'', se_oauth_state_ttl = 600, se_rate_limit_enabled = True,
     se_data_redirect_uri = ''https://api/cb''\<rparr>"

definition ana :: user where
  "ana = \<lparr>us_id = 1, us_email = ''ana@x.fr'', us_google_sub = None, us_password_hash = Some ''h'', us_display_name = Some ''Ana''\<rparr>"
definition bob :: user where
  "bob = \<lparr>us_id = 2, us_email = ''bob@x.fr'', us_google_sub = None, us_password_hash = Some ''h'', us_display_name = None\<rparr>"

definition ana_space :: workspace where "ana_space = \<lparr>wk_id = 11, wk_name = ''Ana'', wk_owner_user_id = 1, wk_created_at = 0\<rparr>"
definition bob_space :: workspace where "bob_space = \<lparr>wk_id = 12, wk_name = ''bob@x.fr'', wk_owner_user_id = 2, wk_created_at = 0\<rparr>"

definition to_bob :: workspace_invitation where
  "to_bob = \<lparr>wi_id = 21, wi_workspace_id = 11, wi_invited_email = ''Bob@x.fr'', wi_token = ''t'', wi_invited_by_user_id = 1,
     wi_status = ''pending'', wi_expires_at = days 7, wi_accepted_at = None\<rparr>"

definition bob_joins :: workspace_member where "bob_joins = \<lparr>wm_workspace_id = 11, wm_user_id = 2, wm_role = ''member''\<rparr>"

lemmas demo_defs = empty_db_def demo_settings_def ana_def bob_def ana_space_def bob_space_def to_bob_def bob_joins_def owner_row_def
  insert_row_def one_or_none_def member_key_def membership_def find_row_def first_text_def

definition ana_db :: access_db where
  "ana_db = empty_db\<lparr>users := [ana], workspaces := [ana_space], workspace_members := [owner_row ana_space]\<rparr>"

lemma ana_registered: "access_step empty_db ana_db"
proof -
  have "register demo_settings (\<lambda>_. ''h'') 1 11 0 ''ana@x.fr'' ''p'' (Some ''Ana'') empty_db = Inr (ana_db, issue_session ''k'' 1 0)"
    by (simp add: register_def insert_user_def create_workspace_for_user_def ana_db_def demo_defs Let_def)
  then show ?thesis by (rule access_step.register)
qed

lemma ana_run:
  defines "db2 \<equiv> empty_db\<lparr>users := [ana, bob], workspaces := [ana_space, bob_space], workspace_members := [owner_row ana_space, owner_row bob_space]\<rparr>"
  defines "db3 \<equiv> db2\<lparr>invitations := [to_bob]\<rparr>"
  defines "db4 \<equiv> db2\<lparr>invitations := [to_bob\<lparr>wi_status := ''accepted'', wi_accepted_at := Some 5\<rparr>],
    workspace_members := [owner_row ana_space, owner_row bob_space, bob_joins]\<rparr>"
  shows "access_step\<^sup>*\<^sup>* empty_db db4" "bob_joins \<in> set (workspace_members db4)"
proof -
  have one: "access_step empty_db ana_db" by (rule ana_registered)
  have "register demo_settings (\<lambda>_. ''h'') 2 12 0 ''bob@x.fr'' ''p'' None ana_db = Inr (db2, issue_session ''k'' 2 0)"
    by (simp add: register_def insert_user_def create_workspace_for_user_def ana_db_def db2_def demo_defs Let_def)
  then have two: "access_step ana_db db2" by (rule access_step.register)
  have "invite_to_workspace demo_settings 21 ''t'' 0 11 ''Bob@x.fr'' 1 db2 = Inr (db3, to_bob, ''https://app/invitations/t'')"
    by (simp add: invite_to_workspace_def require_owner_def create_invitation_def INVITATION_TTL_def db2_def db3_def demo_defs Let_def)
  then have three: "access_step db2 db3" by (rule access_step.invite)
  have "lower ''Bob@x.fr'' = lower ''bob@x.fr''" by code_simp
  then have "accept_invitation_endpoint 5 5 ''t'' bob db3 = Inr db4"
    by (simp add: accept_invitation_endpoint_def accept_invitation_def get_invitation_def is_member_def mark_accepted_def update_rows_def
        db2_def db3_def db4_def demo_defs duration_defs Let_def)
  then have "access_step db3 db4" by (rule access_step.accept [rotated]) (simp add: db3_def db2_def)
  with one two three show "access_step\<^sup>*\<^sup>* empty_db db4" by (meson converse_rtranclp_into_rtranclp rtranclp.rtrancl_refl)
  show "bob_joins \<in> set (workspace_members db4)" by (simp add: db4_def)
qed

theorem memberships_legitimate_witness:
  "\<exists>db :: access_db. bob_joins \<in> set (workspace_members db) \<and> legitimate db bob_joins"
proof -
  obtain db :: access_db where run: "access_step\<^sup>*\<^sup>* empty_db db" "bob_joins \<in> set (workspace_members db)" using ana_run by blast
  have "no_accounts empty_db" by (simp add: no_accounts_def empty_db_def)
  then show ?thesis using memberships_legitimate [OF run(1)] run(2) by blast
qed

section \<open>Other workspaces are left alone\<close>

text \<open>The requests of the user \<open>u\<close> on sites, links, connections and members.\<close>

inductive user_request :: "uuid \<Rightarrow> 'a access_db_scheme \<Rightarrow> 'a access_db_scheme \<Rightarrow> bool" for u where
  "set_website_stack i stack_label u db = Inr (db', s) \<Longrightarrow> user_request u db db'"
| "redetect_website_stack detector i insecure u db = Inr (db', d) \<Longrightarrow> user_request u db db'"
| "website_stack_hint detector i u db = Inr (db', hint) \<Longrightarrow> user_request u db db'"
| "website_ssl checker i u db = Inr (db', t) \<Longrightarrow> user_request u db db'"
| "delete_website now i purge u db = Inr db' \<Longrightarrow> user_request u db db'"
| "link_resource i body u db = Inr db' \<Longrightarrow> user_request u db db'"
| "list_google_resources refresh (discover :: string \<Rightarrow> (json list \<times> json list \<times> json list) option) u db = Inr (db', resources) \<Longrightarrow> user_request u db db'"
| "disconnect_connection i u db = Inr db' \<Longrightarrow> user_request u db db'"
| "connections_google_start se gc state verifier now w u db = Inr (db', url) \<Longrightarrow> user_request u db db'"
| "invite_to_workspace se i token now w email u db = Inr (db', invitation, link) \<Longrightarrow> user_request u db db'"
| "remove_member w member_user u db = Inr db' \<Longrightarrow> user_request u db db'"

text \<open>The rows of a workspace: its sites, connections, members and invitations, and all that its sites hold.\<close>

definition site_ids :: "uuid \<Rightarrow> 'a jobs_db_scheme \<Rightarrow> uuid set" where
  "site_ids w db = ws_id ` {s \<in> set (websites db). ws_workspace_id s = w}"

record workspace_rows =
  wr_sites :: "website list"
  wr_connections :: "google_connection list"
  wr_members :: "workspace_member list"
  wr_invitations :: "workspace_invitation list"
  wr_links :: "google_link list"
  wr_issues :: "issue_item list"
  wr_snapshots :: "audit_snapshot list"
  wr_profiles :: "website_profile list"
  wr_statuses :: "item_status list"
  wr_points :: "metric_point list"
  wr_schedules :: "schedule list"

definition workspace_rows_of :: "uuid \<Rightarrow> 'a access_db_scheme \<Rightarrow> workspace_rows" where
  "workspace_rows_of w db = \<lparr>wr_sites = filter (\<lambda>s. ws_workspace_id s = w) (websites db),
     wr_connections = filter (\<lambda>c. gn_workspace_id c = w) (google_connections db),
     wr_members = filter (\<lambda>m. wm_workspace_id m = w) (workspace_members db),
     wr_invitations = filter (\<lambda>i. wi_workspace_id i = w) (invitations db),
     wr_links = filter (\<lambda>l. gl_website_id l \<in> site_ids w db) (google_links db),
     wr_issues = filter (\<lambda>i. ii_website_id i \<in> site_ids w db) (issue_items db),
     wr_snapshots = filter (\<lambda>x. as_website_id x \<in> site_ids w db) (audit_snapshots db),
     wr_profiles = filter (\<lambda>p. pf_website_id p \<in> site_ids w db) (profiles db),
     wr_statuses = filter (\<lambda>r. st_website_id r \<in> site_ids w db) (item_statuses db),
     wr_points = filter (\<lambda>p. mp_website_id p \<in> site_ids w db) (metric_points db),
     wr_schedules = filter (\<lambda>r. sc_website_id r \<in> site_ids w db) (schedules db)\<rparr>"

lemma filter_delete: "(\<And>r. r \<in> set rows \<Longrightarrow> P r \<Longrightarrow> \<not> Q r) \<Longrightarrow> filter P (delete_rows Q rows) = filter P rows"
  by (auto simp: delete_rows_def intro: filter_cong)

lemma filter_update: "(\<And>r. r \<in> set rows \<Longrightarrow> Q r \<Longrightarrow> \<not> P r \<and> \<not> P (f r)) \<Longrightarrow> filter P (update_rows Q f rows) = filter P rows"
  by (induction rows) (auto simp: update_rows_def)

lemma filter_outside: "i \<notin> S \<Longrightarrow> filter (\<lambda>r. key r \<in> S) (delete_rows (\<lambda>r. key r = i) rows) = filter (\<lambda>r. key r \<in> S) rows"
  by (rule filter_delete) auto

lemma site_ids_filter: "site_ids w db = ws_id ` set (filter (\<lambda>s. ws_workspace_id s = w) (websites db))"
  by (auto simp: site_ids_def)

lemma foreign_site:
  assumes "uniq_by ws_id (websites db)" "website_by_id db i = Some s" "is_member db (ws_workspace_id s) u" "\<not> is_member db w u"
  shows "i \<notin> site_ids w db" "x \<in> set (websites db) \<Longrightarrow> ws_id x = i \<Longrightarrow> ws_workspace_id x \<noteq> w"
proof -
  have s: "s \<in> set (websites db)" "ws_id s = i" using assms(2) find_row_SomeD by (fastforce simp: website_by_id_def)+
  show other: "x \<in> set (websites db) \<Longrightarrow> ws_id x = i \<Longrightarrow> ws_workspace_id x \<noteq> w" for x
    using uniq_by_inj [OF assms(1) s(1), of x] s(2) assms(3,4) by auto
  show "i \<notin> site_ids w db" using other by (auto simp: site_ids_def)
qed

lemma put_site_rows:
  assumes "\<And>x. x \<in> set (websites db) \<Longrightarrow> ws_id x = i \<Longrightarrow> ws_workspace_id x \<noteq> w" "\<And>x. ws_workspace_id (f x) = ws_workspace_id x"
  shows "workspace_rows_of w (put_site i f db) = workspace_rows_of w db"
proof -
  have "filter (\<lambda>s. ws_workspace_id s = w) (websites (put_site i f db)) = filter (\<lambda>s. ws_workspace_id s = w) (websites db)"
    unfolding put_site_def using assms by (simp add: filter_update)
  then show ?thesis by (simp add: workspace_rows_of_def site_ids_filter) (simp add: put_site_def)
qed

lemma purge_site_rows:
  assumes "i \<notin> site_ids w db" "\<And>x. x \<in> set (websites db) \<Longrightarrow> ws_id x = i \<Longrightarrow> ws_workspace_id x \<noteq> w"
  shows "workspace_rows_of w (purge_site i db) = workspace_rows_of w db"
proof -
  have sites: "filter (\<lambda>s. ws_workspace_id s = w) (websites (purge_site i db)) = filter (\<lambda>s. ws_workspace_id s = w) (websites db)"
    unfolding purge_site_def by simp (rule filter_delete, use assms(2) in blast)
  then have ids: "site_ids w (purge_site i db) = site_ids w db" by (simp add: site_ids_filter)
  show ?thesis using sites unfolding workspace_rows_of_def ids by (simp add: purge_site_def filter_outside [OF assms(1)])
qed

lemma rows_frame:
  "websites db' = websites db \<Longrightarrow> google_connections db' = google_connections db \<Longrightarrow> workspace_members db' = workspace_members db \<Longrightarrow>
    invitations db' = invitations db \<Longrightarrow> google_links db' = google_links db \<Longrightarrow> issue_items db' = issue_items db \<Longrightarrow>
    audit_snapshots db' = audit_snapshots db \<Longrightarrow> profiles db' = profiles db \<Longrightarrow> item_statuses db' = item_statuses db \<Longrightarrow>
    metric_points db' = metric_points db \<Longrightarrow> schedules db' = schedules db \<Longrightarrow> workspace_rows_of w db' = workspace_rows_of w db"
  by (simp add: workspace_rows_of_def site_ids_def)

text \<open>The connections a listing marks are those of the user's workspaces.\<close>

lemma read_resources_conns:
  assumes "read_resources refresh discover cs (r, conns) = Some (r', conns')"
    and "\<forall>c \<in> set cs. gn_workspace_id c \<noteq> w" and "uniq_by gn_id all" and "set cs \<subseteq> set all"
    and "\<forall>c \<in> set conns. \<exists>d \<in> set all. gn_id d = gn_id c \<and> gn_workspace_id d = gn_workspace_id c"
  shows "filter (\<lambda>c. gn_workspace_id c = w) conns' = filter (\<lambda>c. gn_workspace_id c = w) conns"
  using assms(1,2,4,5)
proof (induction cs arbitrary: r conns)
  case (Cons c cs)
  have marked: "filter (\<lambda>c. gn_workspace_id c = w) (mark_reauth (gn_id c) conns) = filter (\<lambda>c. gn_workspace_id c = w) conns"
    unfolding mark_reauth_def
  proof (rule filter_update)
    fix x assume x: "x \<in> set conns" "gn_id x = gn_id c"
    then obtain d where d: "d \<in> set all" "gn_id d = gn_id x" "gn_workspace_id d = gn_workspace_id x" using Cons.prems(4) by blast
    then have "d = c" using uniq_by_inj [OF assms(3), of d c] x Cons.prems(3) by simp
    then show "\<not> gn_workspace_id x = w \<and> \<not> gn_workspace_id (x\<lparr>gn_status := Conn_needs_reauth\<rparr>) = w"
      using d Cons.prems(2) by simp
  qed
  have keeps: "\<forall>x \<in> set (mark_reauth (gn_id c) conns). \<exists>d \<in> set all. gn_id d = gn_id x \<and> gn_workspace_id d = gn_workspace_id x"
  proof
    fix x assume "x \<in> set (mark_reauth (gn_id c) conns)"
    then obtain y where "y \<in> set conns" "gn_id y = gn_id x" "gn_workspace_id y = gn_workspace_id x"
      by (auto simp: mark_reauth_def update_rows_def)
    then show "\<exists>d \<in> set all. gn_id d = gn_id x \<and> gn_workspace_id d = gn_workspace_id x" using Cons.prems(4) by metis
  qed
  show ?case
    using Cons.prems Cons.IH [of _ conns] Cons.IH [OF _ _ _ keeps] marked
    by (auto split: if_splits refresh_answer.splits option.splits prod.splits)
qed simp

lemma listing_rows:
  assumes "list_google_resources refresh discover u db = Inr (db', resources)" "\<not> is_member db w u" "uniq_by gn_id (google_connections db)"
  shows "workspace_rows_of w db' = workspace_rows_of w db"
proof -
  obtain conns where read: "read_resources refresh discover (filter (\<lambda>c. gn_workspace_id c \<in> set (user_workspace_ids db u)) (google_connections db))
      (no_resources, google_connections db) = Some (resources, conns)" and db': "db' = db\<lparr>google_connections := conns\<rparr>"
    using assms(1) by (auto simp: list_google_resources_def split: option.splits)
  have "filter (\<lambda>c. gn_workspace_id c = w) conns = filter (\<lambda>c. gn_workspace_id c = w) (google_connections db)"
    by (rule read_resources_conns [OF read _ assms(3)]) (use assms(2) in \<open>auto simp: is_member_ids\<close>)
  then show ?thesis by (simp add: db' workspace_rows_of_def site_ids_def)
qed

lemma owner_is_member: "require_owner db w u = Inr x \<Longrightarrow> is_member db w u"
  by (auto simp: require_owner_Inr is_member_def)

lemma link_rows:
  assumes "link_resource i body u db = Inr db'" "i \<notin> site_ids w db"
  shows "workspace_rows_of w db' = workspace_rows_of w db"
proof -
  obtain ls where ls: "db' = db\<lparr>google_links := delete_rows (\<lambda>l. gl_website_id l = i \<and> gl_resource_type l = gl_resource_type body) (google_links db) @
      [body\<lparr>gl_website_id := i\<rparr>]\<rparr>"
    using assms(1) by (auto simp: link_resource_def refused_def split: option.splits if_splits)
  have "filter (\<lambda>l. gl_website_id l \<in> site_ids w db) (delete_rows (\<lambda>l. gl_website_id l = i \<and> gl_resource_type l = gl_resource_type body) (google_links db)) =
      filter (\<lambda>l. gl_website_id l \<in> site_ids w db) (google_links db)"
    by (rule filter_delete) (use assms(2) in auto)
  moreover have "site_ids w db' = site_ids w db" by (simp add: ls site_ids_def)
  ultimately show ?thesis using assms(2) unfolding workspace_rows_of_def by (simp add: ls site_ids_def)
qed

lemma hint_effect:
  assumes "website_stack_hint detector i u db = Inr (db', hint)"
  shows "\<exists>s. owned_website db i u = Inr s" and "db' = db \<or> (\<exists>k. db' = put_site i (ws_detected_stack_update (\<lambda>_. k)) db)"
proof -
  obtain s where s: "owned_website db i u = Inr s" using assms by (auto simp: website_stack_hint_def)
  then show "\<exists>s. owned_website db i u = Inr s" by blast
  show "db' = db \<or> (\<exists>k. db' = put_site i (ws_detected_stack_update (\<lambda>_. k)) db)"
    using assms unfolding website_stack_hint_def s try_bind.simps by (cases "stored_hint (latest_snapshot i db)") (auto simp: Let_def split: if_splits)
qed


definition shop :: website where
  "shop = \<lparr>ws_id = 31, ws_workspace_id = 11, ws_domain = ''boutique.fr'', ws_display_name = ''Boutique'', ws_detected_stack = None,
     ws_stack_label = None, ws_allow_insecure_probe = False, ws_ssl_status = None, ws_ssl_expires_at = None,
     ws_ssl_checked_at = None, ws_archived_at = None\<rparr>"

definition two_sites :: access_db where
  "two_sites = empty_db\<lparr>users := [ana, bob], workspaces := [ana_space, bob_space],
     workspace_members := [owner_row ana_space, owner_row bob_space], websites := [shop, shop\<lparr>ws_id := 32, ws_workspace_id := 12\<rparr>]\<rparr>"

lemma bob_purges: "delete_website 9 32 True 2 two_sites = Inr (purge_site 32 two_sites)"
  by (simp add: delete_website_def owned_website_def website_by_id_def is_member_def two_sites_def shop_def demo_defs)


text \<open>
  A link by hand accepts a connection of any workspace of the user: the data of one workspace can be read in another one, whose
  members need not belong to the first.
\<close>

lemma foreign_connection_linked:
  fixes db :: access_db and c :: google_connection and l :: google_link
  assumes "owned_website db i u = Inr s" "connection_of (google_connections db) (gl_connection_id l) = Some c"
    "is_member db (gn_workspace_id c) u" "gn_workspace_id c \<noteq> ws_workspace_id s"
  shows "\<exists>db'. link_resource i l u db = Inr db' \<and> l\<lparr>gl_website_id := i\<rparr> \<in> set (google_links db')"
  using assms by (auto simp: link_resource_def is_member_ids)

section \<open>Where a new site goes\<close>

lemma set_home_workspaces:
  "set (home_workspaces u db) = {(w, m). w \<in> set (workspaces db) \<and> m \<in> set (workspace_members db) \<and> wm_workspace_id m = wk_id w \<and> wm_user_id m = u}"
  by (auto simp: home_workspaces_def)

lemma home_workspaces_owner:
  assumes "home_workspaces u db = (w, m) # rest" "\<exists>x \<in> set (home_workspaces u db). wm_role (snd x) = ''owner''"
  shows "wm_role m = ''owner''"
proof (rule ccontr)
  assume no: "wm_role m \<noteq> ''owner''"
  define key :: "workspace \<times> workspace_member \<Rightarrow> nat" where "key = (\<lambda>(_, m). if wm_role m = ''owner'' then 0 else 1)"
  obtain xs where xs: "home_workspaces u db = sort_key key xs" by (simp add: home_workspaces_def key_def)
  have "sorted (map key (home_workspaces u db))" unfolding xs by (rule sorted_sort_key)
  then have "\<forall>x \<in> set (home_workspaces u db). key (w, m) \<le> key x" using assms(1) by auto
  then show False using assms(2) no by (force simp: key_def)
qed

text \<open>
  In every reachable state, a site that a user creates goes to a workspace the user owns, never to one they were only
  invited to, and no workspace is made for it; its domain was tracked in none of the user's workspaces; it is the only new
  site, with the name and the choice asked for; and the sites that were there are unchanged.
\<close>

lemma new_site_goes_home:
  assumes "access_step\<^sup>*\<^sup>* db0 db" and "no_accounts db0" and "u \<in> set (users db)"
    and "create_website detector sv dw now ip body u db = Inr (db', created)"
  shows "(\<exists>w \<in> set (workspaces db). wk_id w = ct_workspace created \<and> wk_owner_user_id w = us_id u) \<and> workspaces db' = workspaces db \<and>
    (\<forall>s \<in> set (websites db). is_member db (ws_workspace_id s) (us_id u) \<longrightarrow> ws_domain s \<noteq> cr_domain body) \<and>
    (\<exists>s. websites db' = websites db @ [s] \<and> ws_id s = ct_site created \<and> ws_workspace_id s = ct_workspace created \<and>
      ws_domain s = cr_domain body \<and> ws_display_name s = cr_name body \<and> ws_allow_insecure_probe s = cr_allow_insecure body)"
proof -
  have inv: "access_inv db" using reachable_inv [OF assms(1,2)] .
  then obtain k where k: "k \<in> set (workspaces db)" "wk_owner_user_id k = us_id u"
    using assms(3) by (auto simp: access_inv_def owns_workspace_def)
  then have row: "owner_row k \<in> set (workspace_members db)" using inv by (simp add: access_inv_def access_core_def)
  then have mine: "(k, owner_row k) \<in> set (home_workspaces (us_id u) db)" using k by (simp add: set_home_workspaces owner_row_def)
  then obtain w m rest where first: "home_workspaces (us_id u) db = (w, m) # rest"
    by (cases "home_workspaces (us_id u) db") auto
  have "wm_role m = ''owner''" using home_workspaces_owner [OF first] mine by (force simp: owner_row_def)
  moreover have wm: "w \<in> set (workspaces db)" "m \<in> set (workspace_members db)" "wm_workspace_id m = wk_id w" "wm_user_id m = us_id u"
    using set_home_workspaces [of "us_id u" db] first by (auto simp: set_eq_iff)
  moreover have "legitimate db m" using inv wm(2) by (simp add: access_inv_def access_core_def)
  ultimately have own: "\<exists>x \<in> set (workspaces db). wk_id x = wk_id w \<and> wk_owner_user_id x = us_id u"
    by (auto simp: legitimate_def owner_row_def)
  obtain db1 sv' where home: "home_workspace (dw_workspace dw) now u db = Inr (db1, ct_workspace created)"
    and fresh: "\<forall>s \<in> set (websites db). ws_workspace_id s \<in> set (user_workspace_ids db (us_id u)) \<longrightarrow> ws_domain s \<noteq> cr_domain body"
    and site: "dw_site dw \<notin> ws_id ` set (websites db1)" "ct_site created = dw_site dw"
    and scan: "run_audit sv' (dw_issue dw) (dw_snapshot dw) now (new_site (dw_site dw) (ct_workspace created) body) (Some (us_id u)) ip
      (db1\<lparr>websites := websites db1 @ [new_site (dw_site dw) (ct_workspace created) body]\<rparr>) = Inr (db', ct_run created)"
    using create_website_Inr [OF assms(4)] by metis
  have db1: "db1 = db" "ct_workspace created = wk_id w" using home first by (simp_all add: home_workspace_def)
  let ?s = "new_site (dw_site dw) (ct_workspace created) body"
  have "websites db' = update_rows (\<lambda>x. ws_id x = ws_id ?s) (\<lambda>_. scanned_site sv' ?s) (websites db @ [?s])"
    using run_audit_frame(6) [OF scan] db1(1) by simp
  moreover have "ws_id ?s \<notin> ws_id ` set (websites db)" using site(1) db1(1) by (simp add: new_site_def)
  then have "update_rows (\<lambda>x. ws_id x = ws_id ?s) (\<lambda>_. scanned_site sv' ?s) (websites db) = websites db"
    by (intro update_rows_none) (metis image_eqI)
  ultimately have "websites db' = websites db @ [scanned_site sv' ?s]" by (simp add: update_rows_def)
  moreover have "ws_id (scanned_site sv' ?s) = ct_site created \<and> ws_workspace_id (scanned_site sv' ?s) = ct_workspace created \<and>
      ws_domain (scanned_site sv' ?s) = cr_domain body \<and> ws_display_name (scanned_site sv' ?s) = cr_name body \<and>
      ws_allow_insecure_probe (scanned_site sv' ?s) = cr_allow_insecure body"
    using site(2) by (simp add: scanned_site_def apply_tls_status_def new_site_def Let_def split: option.splits)
  moreover have "workspaces db' = workspaces db" using run_audit_frame(2) [OF scan] db1(1) by simp
  ultimately show ?thesis using own db1(2) fresh by (auto simp: is_member_ids)
qed

definition demo_audit :: "probe_data \<Rightarrow> audit_services" where
  "demo_audit d = \<lparr>au_detector = (\<lambda>_. detection Nextjs [] 1), au_tls = None, au_gtm = None, au_probe = (\<lambda>_ _ _. Inr (d, []))\<rparr>"

definition demo_draws :: draws where
  "demo_draws = \<lparr>dw_workspace = 91, dw_site = 92, dw_snapshot = 93, dw_issue = (\<lambda>_. 94)\<rparr>"

definition demo_body :: create_request where
  "demo_body = \<lparr>cr_name = ''Boutique'', cr_domain = ''boutique.fr'', cr_allow_insecure = False\<rparr>"

lemma ana_creates: "\<exists>db' created. create_website (\<lambda>_ _. detection Nextjs [] 1) (demo_audit d) demo_draws 0 None demo_body ana ana_db = Inr (db', created)"
  by (simp add: create_website_def user_workspace_ids_def home_workspace_def home_workspaces_def insert_site_def new_site_def site_key_def
      run_audit_def demo_audit_def demo_draws_def demo_body_def ana_db_def demo_defs Let_def case_prod_beta)

lemma new_site_goes_home_witness:
  "\<exists>(db' :: access_db) s. websites db' = [s] \<and> ws_domain s = ''boutique.fr'' \<and> ws_workspace_id s = 11"
proof -
  obtain db' created where run: "create_website (\<lambda>_ _. detection Nextjs [] 1) (demo_audit undefined) demo_draws 0 None demo_body ana ana_db = Inr (db', created)"
    using ana_creates by blast
  have run0: "access_step\<^sup>*\<^sup>* empty_db ana_db" using ana_registered by (rule r_into_rtranclp)
  have "no_accounts empty_db" by (simp add: no_accounts_def empty_db_def)
  moreover have "ana \<in> set (users ana_db)" by (simp add: ana_db_def)
  ultimately obtain w s where "w \<in> set (workspaces ana_db)" "wk_id w = ct_workspace created" "websites db' = websites ana_db @ [s]"
      "ws_workspace_id s = ct_workspace created" "ws_domain s = cr_domain demo_body"
    using new_site_goes_home [OF run0 _ _ run] by blast
  then show ?thesis by (auto simp: ana_db_def empty_db_def ana_space_def demo_body_def)
qed

section \<open>Secrets are used once\<close>

definition handled :: "'a answer \<Rightarrow> bool" where
  "handled r = (case r of Inr _ \<Rightarrow> True | Inl (Http _ _) \<Rightarrow> True | _ \<Rightarrow> False)"

definition spent :: "string \<Rightarrow> 'a access_db_scheme \<Rightarrow> bool" where
  "spent state db = (\<forall>s \<in> set (oauth_states db). os_state s \<noteq> state)"

lemma spent_consume: "spent state db \<Longrightarrow> consume_oauth_state now state db = (db, None)"
proof -
  assume "spent state db"
  then have "find_row (\<lambda>x. os_state x = state) (oauth_states db) = None" by (simp add: spent_def find_row_None)
  then show ?thesis by (simp add: consume_oauth_state_def)
qed

lemma consume_spends: "consume_oauth_state now state db = (db1, row) \<Longrightarrow> spent state db1"
  by (auto simp: consume_oauth_state_def spent_def table_simps find_row_None split: option.splits)

lemma upsert_no_refusal: "upsert_google_connection encrypt i now w info token db \<noteq> Inl (Http code detail)"
  by (auto simp: upsert_google_connection_def insert_row_def split: option.splits if_splits)

lemma users_keep_states:
  "google_user new_user new_workspace now info db = Inr (db', u) \<Longrightarrow> oauth_states db' = oauth_states db"
  by (auto simp: google_user_def insert_user_def create_workspace_for_user_def Let_def split: option.splits if_splits)


definition demo_state :: oauth_state where
  "demo_state = \<lparr>os_state = ''s'', os_code_verifier = ''v'', os_user_id = None, os_workspace_id = None, os_redirect_to = None,
     os_expires_at = 600\<rparr>"

definition refusing :: google_client where
  "refusing = \<lparr>gc_url = (\<lambda>_ _ _ _. []), gc_exchange = (\<lambda>_ _ _. Exchange_refused), gc_userinfo = (\<lambda>_. None)\<rparr>"

lemma demo_callback: "google_callback demo_settings refusing 1 2 5 (Some ''c'') (Some ''s'') None (empty_db\<lparr>oauth_states := [demo_state]\<rparr>) =
    (empty_db, refused 400 (''code d'' @ apos @ ''autorisation invalide''))"
  by (simp add: google_callback_def is_given_def consume_oauth_state_def find_row_def delete_rows_def demo_state_def refusing_def empty_db_def)


section \<open>What modelling showed\<close>

text \<open>An exchange that fails otherwise than by a refusal rolls the consumption back: the state can be tried again.\<close>

lemma state_survives_failure:
  assumes "consume_oauth_state now state db = (db1, Some row)" "os_workspace_id row = None" "gc_exchange gc code (os_code_verifier row) None = Exchange_failed"
    and "is_given (Some state)" "is_given (Some code)"
  shows "google_callback se gc a b now (Some code) (Some state) None db = (db, Inl Google_failed)"
  using assms by (simp add: google_callback_def is_given_def)

text \<open>The address given to the start of a sign-in, which anyone can call, is where the callback sends the browser.\<close>

lemma redirect_anywhere:
  assumes "google_start se gc state verifier now (Some (c # cs)) db = Inr (db', url)" "uniq_by os_state (oauth_states db')"
    and "google_callback se gc a b later code (Some state) error db' = (db'', Inr (location, cookie))"
  shows "location = c # cs"
proof -
  define row where "row = \<lparr>os_state = state, os_code_verifier = verifier, os_user_id = None, os_workspace_id = None, os_redirect_to = Some (c # cs),
    os_expires_at = now + seconds (se_oauth_state_ttl se)\<rparr>"
  have "oauth_states db' = oauth_states db @ [row]"
    using assms(1) by (auto simp: google_start_def create_oauth_transaction_def row_def)
  then have "find_row (\<lambda>x. os_state x = state) (oauth_states db') = Some row"
    using find_row_key [OF assms(2), of row state] by (simp add: row_def)
  then have "\<exists>db1. consume_oauth_state later state db' = (db1, None) \<or> consume_oauth_state later state db' = (db1, Some row)"
    by (simp add: consume_oauth_state_def)
  then show ?thesis
    using assms(3) by (auto simp: google_callback_def refused_def row_def first_text_def split: if_splits exchange.splits option.splits sum.splits fault.splits)
qed

text \<open>The domain pattern lets addresses of machines, final labels of one letter and a trailing line feed through.\<close>

lemma odd_domains_accepted:
  "hostname_ok ''127.0.0.1''" "hostname_ok ''a.b''" "clean_domain (''boutique.fr'' @ [CHR 0x0A] @ ''/x'') = Some (''boutique.fr'' @ [CHR 0x0A])"
  by code_simp+

text \<open>Two workspaces of a user may track one domain; a creation then fails on two rows instead of refusing.\<close>

lemma twice_tracked_crashes:
  "create_website detector sv dw now ip demo_body bob (two_sites\<lparr>workspace_members := [bob_joins, owner_row bob_space]\<rparr>) = Inl Multiple_rows"
  by (simp add: create_website_def user_workspace_ids_def two_sites_def shop_def demo_body_def demo_defs)

end
