(* ===== verification/Metric_Routes.thy ===== *)
theory Metric_Routes
  imports Access Job_Health Metric_Partitions Date_Text
begin

text \<open>
  The routes of a site's measures and of its schedules (\<open>app/api/v1/endpoints/metrics.py\<close>): the parameters of a series and
  their bounds, the series with its comparison, the schedules as the members see them and the owner's change. The lemmas show
  that no request for a series ends in an error of the server and what an accepted one covers.
\<close>

definition raised :: "'a result \<Rightarrow> 'a answer" where
  "raised r = (case r of Inl e \<Rightarrow> Inl (Crashed e) | Inr x \<Rightarrow> Inr x)"

definition invalid :: "string \<Rightarrow> 'a answer" where "invalid detail = Inl (Http 422 detail)"

section \<open>The parameters of a series\<close>

definition GRANULARITIES :: "string list" where "GRANULARITIES = [''day'', ''week'', ''month'']"
definition COMPARES :: "string list" where "COMPARES = [''none'', ''previous_period'', ''previous_year'']"

record series_params =
  pa_metric :: "string option"
  pa_start :: "string option"
  pa_end :: "string option"
  pa_granularity :: string
  pa_compare :: string
  pa_dimension :: "string option"

record series_query =
  sq_defn :: metric_def
  sq_start :: date
  sq_end :: date
  sq_granularity :: string
  sq_compare :: string

definition OUT_OF_BOUNDS :: string where "OUT_OF_BOUNDS = ''date hors limites''"
definition MIN_DAY :: date where "MIN_DAY = ymd2ord 2000 1 1"

definition check_bounds :: "date \<Rightarrow> date \<Rightarrow> unit answer" where
  "check_bounds day today =
    (if day < MIN_DAY then invalid OUT_OF_BOUNDS
     else try_bind (raised (date_add today 366)) (\<lambda>latest. if latest < day then invalid OUT_OF_BOUNDS else Inr ()))"

text \<open>The two \<open>except\<close> clauses around the dates; a refusal passes through.\<close>

definition date_faults :: "'a answer \<Rightarrow> 'a answer" where
  "date_faults r = (case r of
     Inl (Crashed OverflowError) \<Rightarrow> invalid OUT_OF_BOUNDS
   | Inl (Crashed ValueError) \<Rightarrow> invalid (''date invalide (format AAAA-MM-JJ)'')
   | _ \<Rightarrow> r)"

definition parse_days :: "string option \<Rightarrow> string option \<Rightarrow> date \<Rightarrow> (date \<times> date) answer" where
  "parse_days start end today = date_faults (
     try_bind (raised (if is_given end then parse_iso_date (the end) else date_add today (- 1))) (\<lambda>end_day.
     try_bind (check_bounds end_day today) (\<lambda>_.
     try_bind (raised (if is_given start then parse_iso_date (the start) else date_add end_day (- (DEFAULT_RANGE_DAYS - 1)))) (\<lambda>start_day.
     try_bind (check_bounds start_day today) (\<lambda>_. Inr (start_day, end_day))))))"

definition parse_series_query :: "series_params \<Rightarrow> date \<Rightarrow> series_query answer" where
  "parse_series_query pa today =
    (if \<not> is_given (pa_metric pa) then invalid (''param'' @ e_grave @ ''tre '' @ guil_l @ '' metric '' @ guil_r
    @ '' requis (par exemple ga4.sessions)'')
     else (case metric_by_key (the (pa_metric pa)) of
       None \<Rightarrow> invalid (''m'' @ e_acute @ ''trique inconnue : '' @ the (pa_metric pa))
     | Some defn \<Rightarrow>
         if is_given (pa_dimension pa) then invalid (''dimension non prise en charge (totaux du site uniquement)'')
         else if pa_granularity pa \<notin> set GRANULARITIES then invalid (''granularit'' @ e_acute @ '' invalide (day, week ou month)'')
         else if pa_compare pa \<notin> set COMPARES then invalid (''comparaison invalide (none, previous_period ou previous_year)'')
         else try_bind (parse_days (pa_start pa) (pa_end pa) today) (\<lambda>(start_day, end_day).
           if end_day < start_day then invalid (''la date de d'' @ e_acute @ ''but doit pr'' @ e_acute @ ''c'' @ e_acute @ ''der la date de fin'')
           else if MAX_RANGE_DAYS < end_day - start_day + 1
             then invalid (''p'' @ e_acute @ ''riode trop longue (au plus '' @ str_int MAX_RANGE_DAYS @ '' jours)'')
           else try_bind (raised (retention_floor today)) (\<lambda>limit.
             if start_day < limit then invalid (''p'' @ e_acute @ ''riode ant'' @ e_acute @ ''rieure '' @ a_grave @ '' la r'' @ e_acute
    @ ''tention des donn'' @ e_acute @ ''es ('' @ str_int RETENTION_MONTHS @ '' mois)'')
             else Inr \<lparr>sq_defn = defn, sq_start = start_day, sq_end = end_day, sq_granularity = pa_granularity pa,
               sq_compare = pa_compare pa\<rparr>))))"

section \<open>A series\<close>

text \<open>The blocks of the answer carry the fields of a series; \<open>None\<close> is the granularity of days.\<close>

record series_out =
  so_metric :: string
  so_label :: string
  so_source :: string
  so_unit :: metric_unit
  so_direction :: direction
  so_granularity :: string
  so_current :: series_view
  so_comparison :: "series_view option"
  so_comparison_unavailable :: "string option"
  so_last_collected_at :: "datetime option"
  so_data_until :: "date option"

definition grain_of :: "string \<Rightarrow> grain option" where
  "grain_of s = (if s = ''day'' then None else if s = ''week'' then Some Week else Some Month)"

definition compare_of :: "string \<Rightarrow> comparison" where
  "compare_of s = (if s = ''previous_period'' then C_previous_period else if s = ''previous_year'' then C_previous_year else C_none)"

definition too_far :: "'a answer \<Rightarrow> 'a answer" where
  "too_far r = (case r of Inl (Crashed OverflowError) \<Rightarrow> invalid OUT_OF_BOUNDS | _ \<Rightarrow> r)"

text \<open>The comparison block, or the reason it is missing.\<close>

definition compared :: "uuid \<Rightarrow> date \<Rightarrow> series_query \<Rightarrow> 'a metrics_db_scheme \<Rightarrow> (series_view option \<times> string option) answer" where
  "compared site today q db =
    (if sq_compare q = ''none'' then Inr (None, None)
     else (case comparison_range (sq_start q) (sq_end q) (compare_of (sq_compare q)) of
       None \<Rightarrow> Inr (None, Some ''hors_retention'')
     | Some (a, b) \<Rightarrow> try_bind (raised (retention_floor today)) (\<lambda>limit.
         if a < limit then Inr (None, Some ''hors_retention'')
         else try_bind (raised (build_series site (sq_defn q) a b (grain_of (sq_granularity q)) db)) (\<lambda>v. Inr (Some v, None)))))"

definition get_metric_series :: "uuid \<Rightarrow> uuid \<Rightarrow> date \<Rightarrow> series_params \<Rightarrow> 'a access_db_scheme \<Rightarrow> series_out answer" where
  "get_metric_series i u today pa db =
     try_bind (owned_website db i u) (\<lambda>site.
     try_bind (parse_series_query pa today) (\<lambda>q.
     try_bind (too_far (raised (build_series (ws_id site) (sq_defn q) (sq_start q) (sq_end q) (grain_of (sq_granularity q)) db))) (\<lambda>current.
     try_bind (compared (ws_id site) today q db) (\<lambda>(comparison, unavailable).
       (let defn = sq_defn q; fresh = freshness (ws_id site) (md_source defn) db
        in Inr \<lparr>so_metric = md_key defn, so_label = md_label defn, so_source = md_source defn, so_unit = md_unit defn,
             so_direction = md_direction defn, so_granularity = sq_granularity q, so_current = current, so_comparison = comparison,
             so_comparison_unavailable = unavailable, so_last_collected_at = fst fresh, so_data_until = snd fresh\<rparr>)))))"

section \<open>Schedules\<close>

definition FREQUENCY_LABELS :: "(string \<times> string) list" where
  "FREQUENCY_LABELS = [(''hourly'', ''Toutes les heures''), (''three_daily'', ''3 fois par jour''), (''daily'', ''Tous les jours''),
     (''every_3_days'', ''Tous les 3 jours''), (''weekly'', ''Toutes les semaines'')]"

record schedule_put =
  pu_kind :: task_kind
  pu_frequency :: string
  pu_enabled :: bool

text \<open>The validator of the body; a message is a refusal before the route runs.\<close>

definition read_schedule_put :: "string \<Rightarrow> string \<Rightarrow> bool \<Rightarrow> string + schedule_put" where
  "read_schedule_put kind frequency enabled =
    (case map_of KINDS kind of
       None \<Rightarrow> Inl (''type de suivi inconnu'')
     | Some k \<Rightarrow>
         if \<not> schedulable k then Inl (''type de suivi inconnu'')
         else if frequency \<notin> fst ` set FREQUENCY_INTERVALS then Inl (''fr'' @ e_acute @ ''quence inconnue'')
         else if frequency \<notin> set (allowed_frequencies k)
           then Inl (''fr'' @ e_acute @ ''quence trop '' @ e_acute @ ''lev'' @ e_acute @ ''e pour '' @ guil_l @ '' '' @ tk_label k @ '' '' @ guil_r @ '' : au plus une fois toutes les '' @ str_int (tk_floor k div hours 1) @ '' h'')
         else Inr \<lparr>pu_kind = k, pu_frequency = frequency, pu_enabled = enabled\<rparr>)"

record schedules_out =
  sg_website_id :: uuid
  sg_can_edit :: bool
  sg_frequency_labels :: "(string \<times> string) list"
  sg_schedules :: "schedule_view list"

definition schedules_of :: "website \<Rightarrow> uuid \<Rightarrow> 'a access_db_scheme \<Rightarrow> schedules_out" where
  "schedules_of site u db = \<lparr>sg_website_id = ws_id site,
     sg_can_edit = (map_option wm_role (membership db (ws_workspace_id site) u) = Some ''owner''),
     sg_frequency_labels = FREQUENCY_LABELS, sg_schedules = schedule_views db (ws_id site)\<rparr>"

definition get_schedules :: "uuid \<Rightarrow> uuid \<Rightarrow> 'a access_db_scheme \<Rightarrow> schedules_out answer" where
  "get_schedules i u db = try_bind (owned_website db i u) (\<lambda>site. Inr (schedules_of site u db))"

definition put_schedule :: "uuid \<Rightarrow> datetime \<Rightarrow> uuid \<Rightarrow> schedule_put \<Rightarrow> uuid \<Rightarrow> 'a access_db_scheme \<Rightarrow>
    ('a access_db_scheme \<times> schedules_out) answer" where
  "put_schedule new_id now i body u db =
     try_bind (owned_website db i u) (\<lambda>site.
     try_bind (require_owner db (ws_workspace_id site) u) (\<lambda>_.
     try_bind (raised (upsert_schedule new_id (ws_id site) (pu_kind body) (pu_frequency body) (pu_enabled body) now db)) (\<lambda>(db', _).
       Inr (db', schedules_of site u db'))))"


section \<open>No request ends in an error of the server\<close>

lemma raised_sel [simp]:
  "(raised r = Inr x) = (r = Inr x)" "(raised r = Inl f) = (\<exists>e. r = Inl e \<and> f = Crashed e)"
  by (auto simp: raised_def split: sum.splits)

lemma raised_Inr_eq [simp]: "raised (Inr x) = Inr x" by (simp add: raised_def)

lemma invalid_sel [simp]: "invalid detail \<noteq> Inr x" "(invalid detail = Inl f) = (f = Http 422 detail)"
  by (auto simp: invalid_def)

lemma mk_date_error: "mk_date y m d = Inl e \<Longrightarrow> e = ValueError"
  by (simp add: mk_date_def split: if_splits)

lemma read_digits_error: "read_digits n s = Inl e \<Longrightarrow> e = ValueError"
  by (simp add: read_digits_def split: if_splits)

lemma read_dash_error: "read_dash b s = Inl e \<Longrightarrow> e = ValueError"
  by (simp add: read_dash_def split: if_splits list.splits)

lemma iso_week_error: "iso_week_date y w d = Inl e \<Longrightarrow> e = ValueError"
  by (simp add: iso_week_date_def Let_def split: if_splits)

lemmas date_errors = mk_date_error read_digits_error read_dash_error iso_week_error

lemma parse_iso_date_error: "parse_iso_date s = Inl e \<Longrightarrow> e = ValueError"
  by (auto simp: parse_iso_date_def Let_def try_bind_eq_Inl split: if_splits prod.splits dest: date_errors)

lemma date_add_error: "date_add d n = Inl e \<Longrightarrow> e = OverflowError"
  by (simp add: date_add_def split: if_splits)

text \<open>The faults the two \<open>except\<close> clauses turn into refusals.\<close>

definition dated_fault :: "fault \<Rightarrow> bool" where
  "dated_fault f = (f = Crashed OverflowError \<or> f = Crashed ValueError \<or> (\<exists>detail. f = Http 422 detail))"

lemma check_bounds_error: "check_bounds day today = Inl f \<Longrightarrow> dated_fault f"
  by (auto simp: check_bounds_def dated_fault_def try_bind_eq_Inl dest: date_add_error split: if_splits)

lemma check_bounds_Inr: "check_bounds day today = Inr x \<Longrightarrow> MIN_DAY \<le> day \<and> day \<le> today + 366"
  by (auto simp: check_bounds_def date_add_def split: if_splits)

lemma date_faults_sel:
  "(date_faults r = Inr x) = (r = Inr x)" "date_faults r = Inl f \<Longrightarrow> (\<And>g. r = Inl g \<Longrightarrow> dated_fault g) \<Longrightarrow> \<exists>detail. f = Http 422 detail"
  by (cases r; force simp: date_faults_def dated_fault_def invalid_def split: fault.splits py_error.splits)+

lemma parse_days_error:
  assumes "parse_days start end today = Inl f"
  shows "\<exists>detail. f = Http 422 detail"
proof (rule date_faults_sel(2) [OF assms [unfolded parse_days_def]])
  fix g
  have read: "dated_fault (Crashed e)" if "(if b then parse_iso_date s else date_add d n) = Inl e" for b s d n e
    using that by (auto simp: dated_fault_def split: if_splits dest: parse_iso_date_error date_add_error)
  assume "try_bind (raised (if is_given end then parse_iso_date (the end) else date_add today (- 1))) (\<lambda>end_day.
     try_bind (check_bounds end_day today) (\<lambda>_.
     try_bind (raised (if is_given start then parse_iso_date (the start) else date_add end_day (- (DEFAULT_RANGE_DAYS - 1)))) (\<lambda>start_day.
     try_bind (check_bounds start_day today) (\<lambda>_. Inr (start_day, end_day))))) = Inl g"
  then show "dated_fault g"
    by (auto simp: try_bind_eq_Inl simp del: if_split dest!: read check_bounds_error)
qed

lemma parse_days_Inr:
  "parse_days start end today = Inr (a, b) \<Longrightarrow> MIN_DAY \<le> a \<and> MIN_DAY \<le> b \<and> a \<le> today + 366 \<and> b \<le> today + 366"
  by (auto simp: parse_days_def date_faults_sel(1) dest!: check_bounds_Inr)

section \<open>The retention of two years and a month\<close>

definition FIRST_DAY :: date where "FIRST_DAY = ymd2ord 2003 1 1"

lemma retention_floor_eq:
  assumes "FIRST_DAY \<le> today" "today \<le> max_ordinal"
  shows "retention_floor today = Inr (month_first (month_index today - 25)) \<and> MIN_DAY \<le> month_first (month_index today - 25)"
proof -
  have "month_index FIRST_DAY = 24036" "month_index max_ordinal = 119999" by code_simp+
  with month_index_mono [OF assms(1)] month_index_mono [OF assms(2)]
  have i: "24036 \<le> month_index today" "month_index today \<le> 119999" by simp_all
  define j where "j = month_index today - 25"
  have j: "24011 \<le> j" "j \<le> 119974" using i by (simp_all add: j_def)
  then have "1 \<le> j div 12" "j div 12 \<le> max_year" by (simp_all add: max_year_def)
  moreover have "28 \<le> days_in_month (j div 12) (j mod 12 + 1)" using days_in_month_range [OF month_range] by blast
  ultimately have "retention_floor today = Inr (month_first j)"
    using month_range [of j] by (simp add: retention_floor_def RETENTION_MONTHS_def add_months_start mk_date_def month_first_def j_def [symmetric])
  moreover have "MIN_DAY \<le> month_first 24011" by code_simp
  with month_first_mono [OF j(1)] have "MIN_DAY \<le> month_first j" by linarith
  ultimately show ?thesis by (simp add: j_def)
qed

lemma two_years: "month_first i - month_first (i - 24) \<le> 731"
proof -
  define y m where "y = i div 12 - 2" and "m = i mod 12 + 1"
  have m: "1 \<le> m" "m \<le> 12" using month_range [of i] by (simp_all add: m_def)
  define y1 y2 where "y1 = y + 1" and "y2 = y1 + 1"
  have leap: "\<not> (is_leap a \<and> is_leap (a + 1))" for a by (simp add: is_leap_def) presburger
  have years: "days_before_year y2 - days_before_year y = 730 + (if is_leap y then 1 else 0) + (if is_leap y1 then 1 else 0)"
    using days_before_year_Suc [of y] days_before_year_Suc [of y1] unfolding y1_def [symmetric] y2_def [symmetric] by linarith
  have no_leap: "\<not> (is_leap y \<and> is_leap y1)" "\<not> (is_leap y1 \<and> is_leap y2)" unfolding y2_def y1_def by (rule leap)+
  have d: "(i - 24) div 12 = y" "(i - 24) mod 12 = i mod 12" "i div 12 = y + 1 + 1"
    by (simp_all add: y_def) presburger
  have months: "days_before_month y2 m - days_before_month y m = (if m \<le> 2 then 0 else (if is_leap y2 then 1 else 0) - (if is_leap y then 1 else 0))"
    using m by (simp add: days_before_month_def Let_def)
  have "month_first i - month_first (i - 24) = (days_before_year y2 - days_before_year y) + (days_before_month y2 m - days_before_month y m)"
    by (simp only: month_first_def d m_def [symmetric] ymd2ord_def y1_def [symmetric] y2_def [symmetric])
  with no_leap show ?thesis unfolding years months by (auto split: if_splits)
qed

lemma retention_length:
  "today - month_first (month_index today - 25) \<le> 792"
proof -
  define i where "i = month_index today"
  have len: "month_first (k + 1) - month_first k \<le> 31" for k
    using days_in_month_range [OF month_range, of "k div 12" k] by (simp add: month_first_Suc)
  have "today < month_first (i + 1)" using month_bounds [of today] by (simp add: i_def)
  with len [of i] two_years [of i] len [of "i - 25"] show ?thesis by (simp add: i_def)
qed

section \<open>The comparison window\<close>

lemma shift_year_Inr:
  assumes "shift_year d = Inr x"
  shows "x = month_first (month_index d - 12) + (if month_of d = 2 \<and> day_of d = 29 then 28 else day_of d) - 1 \<and>
    month_index x = month_index d - 12"
proof -
  define y m where "y = year_of d" and "m = month_of d"
  have m: "1 \<le> m" "m \<le> 12" using month_of_bounds [of d] by (simp_all add: m_def)
  have first: "month_first (month_index d - 12) = ymd2ord (y - 1) m 1"
  proof -
    have "(month_index d - 12) div 12 = y - 1" "(month_index d - 12) mod 12 + 1 = m"
      using month_index_parts [of d] by (simp_all add: y_def m_def)
    then show ?thesis by (simp add: month_first_def)
  qed
  have leap: "\<not> (is_leap y \<and> is_leap (y - 1))" by (simp add: is_leap_def) presburger
  have day: "1 \<le> day_of d" "day_of d \<le> days_in_month y m" using day_of_range [of d] by (simp_all add: y_def m_def)
  have feb: "days_in_month (y - 1) m = 28" if "m = 2" "day_of d = 29"
    using that day leap by (simp add: days_in_month_def days_before_month_def Let_def split: if_splits)
  define k where "k = (if m = 2 \<and> day_of d = 29 then 28 else day_of d)"
  have "x = ymd2ord (y - 1) m k \<and> 1 \<le> k \<and> k \<le> days_in_month (y - 1) m"
    using assms feb by (auto simp: shift_year_def k_def y_def [symmetric] m_def [symmetric] mk_date_def split: if_splits sum.splits)
  moreover from this have "year_of x = y - 1 \<and> month_of x = m" using ymd_ord_ymd [OF m] by blast
  ultimately show ?thesis
    by (simp add: first [unfolded month_index_def y_def m_def, simplified] k_def m_def y_def month_index_def ymd2ord_def)
qed

lemma month_index_less: "month_index a < month_index b \<Longrightarrow> a < b"
  using month_index_mono [of b a] by linarith

lemma shift_year_before: "shift_year d = Inr x \<Longrightarrow> x < d"
  by (drule conjunct2 [OF shift_year_Inr]) (rule month_index_less, simp)

lemma shift_year_mono:
  assumes "shift_year d = Inr x" "shift_year e = Inr y" "d \<le> e"
  shows "x \<le> y"
proof (cases "month_index d = month_index e")
  case True
  then have "year_of d = year_of e" "month_of d = month_of e"
    using month_index_parts [of d] month_index_parts [of e] by simp_all
  moreover from this have "day_of d \<le> day_of e" using ord_ymd_ord [of d] ord_ymd_ord [of e] assms(3) by (simp add: ymd2ord_def)
  moreover have "day_of e \<le> 29" if "month_of e = 2"
    using day_of_range [of e] that by (simp add: days_in_month_def days_before_month_def Let_def split: if_splits)
  ultimately show ?thesis using shift_year_Inr [OF assms(1)] shift_year_Inr [OF assms(2)] True by auto
next
  case False
  with month_index_mono [OF assms(3)] have "month_index x < month_index y"
    using conjunct2 [OF shift_year_Inr [OF assms(1)]] conjunct2 [OF shift_year_Inr [OF assms(2)]] False by linarith
  from month_index_less [OF this] show ?thesis by simp
qed

lemma comparison_range_before:
  assumes "comparison_range start end c = Some (a, b)" "start \<le> end"
  shows "a \<le> b \<and> a < start \<and> b \<le> end"
  using assms shift_year_mono [of start a "end" b] shift_year_before [of start a] shift_year_before [of "end" b]
  by (cases c) (auto simp: comparison_range_def date_add_def split: sum.splits if_splits)

section \<open>Series of an accepted window\<close>

lemma try_map_all: "(\<And>x. x \<in> set xs \<Longrightarrow> f x = Inr (g x)) \<Longrightarrow> try_map f xs = Inr (map g xs)"
  by (induction xs) simp_all

lemma periods_days:
  "periods_from c end g = Inr ps \<Longrightarrow> c \<le> end \<Longrightarrow> sum_list (map (\<lambda>s. min (period_last g s) end - s + 1) ps) = end - c + 1"
proof (induction c "end" g arbitrary: ps rule: periods_from.induct)
  case (1 c "end" g)
  from 1(2,3) obtain l c' qs where step: "period_end c g = Inr l" "date_add l 1 = Inr c'"
    "periods_from c' end g = Inr qs" "ps = c # qs"
    by (auto simp: periods_from.simps [of c] split: sum.splits)
  have c': "l = period_last g c" "c' = l + 1"
    using step by (auto dest!: period_end_Inr simp: date_add_def split: if_splits)
  show ?case
  proof (cases "c' \<le> end")
    case True
    from 1(1) [OF 1(3) step(1-3) True] True show ?thesis by (simp add: step(4) c')
  next
    case False
    then have "qs = []" using step(3) by (simp add: periods_from.simps)
    with False show ?thesis by (simp add: step(4) c')
  qed
qed

lemma window_days:
  assumes "periods_between start end g = Inr ps" "start \<le> end"
  shows "sum_list (map (\<lambda>s. min (period_last g s) end - max s start + 1) ps) = end - start + 1"
proof -
  define c where "c = period_start start g"
  have c: "c \<le> start" "start \<le> period_last g c" using periods.start_le [of start g] periods.le_last [of start g] by (simp_all add: c_def)
  have run: "periods_from c end g = Inr ps" using assms by (simp add: periods_between_def c_def)
  note sum = periods_days [OF run] and spec = periods_from_spec [OF run, unfolded c_def, OF periods.start_start, folded c_def]
  have "c \<in> set ps" using spec c assms(2) by (simp add: c_def)
  then obtain q qs where ps: "ps = q # qs" by (cases ps) auto
  have "c \<le> q" using spec by (auto simp: ps)
  moreover have "c = q \<or> q < c" using spec \<open>c \<in> set ps\<close> by (auto simp: ps)
  ultimately have "q = c" by linarith
  have "start \<le> s" if "s \<in> set qs" for s
  proof (rule ccontr)
    assume "\<not> start \<le> s"
    moreover have "c < s" "period_start s g = s" using spec that by (auto simp: ps \<open>q = c\<close>)
    ultimately have "period_start s g = c"
      using periods.same_period [of "start" g s] c by (simp add: c_def)
    with \<open>period_start s g = s\<close> \<open>c < s\<close> show False by simp
  qed
  then have "map (\<lambda>s. min (period_last g s) end - max s start + 1) qs = map (\<lambda>s. min (period_last g s) end - s + 1) qs"
    by (intro map_cong) auto
  with sum c assms(2) show ?thesis by (simp add: ps \<open>q = c\<close> del: map_eq_conv)
qed

text \<open>A window of the calendar that ends a month before its last day is read without an error, day for day.\<close>

lemma build_series_total:
  assumes "1 \<le> start" "start \<le> end" "end + 31 \<le> max_ordinal"
  shows "\<exists>v. build_series site defn start end granularity db = Inr v \<and> sv_first v = start \<and> sv_last v = end \<and>
    sum_list (map se_expected (sv_points v)) = end - start + 1"
proof (cases granularity)
  case None
  have r: "mk_day_range start end = Inr \<lparr>dr_start = start, dr_end = end\<rparr>" using assms(2) by (simp add: mk_day_range_def)
  have "length (dr_days \<lparr>dr_start = start, dr_end = end\<rparr>) = nat (end - start + 1)"
    by (simp add: dr_days_def dr_length_def)
  with assms(2) show ?thesis
    by (simp add: build_series_def None r Let_def comp_def day_point_def sum_list_triv)
next
  case (Some g)
  obtain ps where ps: "periods_between start end g = Inr ps" "set ps = (\<lambda>d. period_start d g) ` {start..end}"
    using periods_cover_window [OF assms(1,3)] by blast
  have "period_end s g = Inr (period_last g s)" if s: "s \<in> set ps" for s
  proof -
    obtain d where "s = period_start d g" "start \<le> d" "d \<le> end" using s ps(2) by auto
    with period_start_ge_1 [of d g] periods.start_le [of d g] assms show ?thesis
      by (intro period_end_ok) (simp add: valid_date_def min_ordinal_def)
  qed
  then have "try_map (\<lambda>s. try_bind (period_end s g) (\<lambda>l. Inr (s, l))) ps = Inr (map (\<lambda>s. (s, period_last g s)) ps)"
    by (intro try_map_all) simp
  moreover have "se_expected (period_point defn vs siblings stored start end s l) = min l end - max s start + 1"
    for vs siblings stored s l by (simp add: period_point_def Let_def split: option.splits prod.splits)
  ultimately show ?thesis
    using window_days [OF ps(1) assms(2)] by (simp add: build_series_def Some ps(1) Let_def comp_def)
qed

section \<open>The contract of the series\<close>

lemma parse_query_error:
  assumes "FIRST_DAY \<le> today" "today \<le> max_ordinal" "parse_series_query pa today = Inl f"
  shows "\<exists>detail. f = Http 422 detail"
  using assms(3) retention_floor_eq [OF assms(1,2)] parse_days_error [of "pa_start pa" "pa_end pa" today f]
  by (auto simp: parse_series_query_def try_bind_eq_Inl split: if_splits option.splits)

lemma parse_query_Inr:
  assumes "parse_series_query pa today = Inr q"
  shows "\<exists>limit. retention_floor today = Inr limit \<and> limit \<le> sq_start q \<and> sq_start q \<le> sq_end q \<and>
    sq_end q - sq_start q + 1 \<le> MAX_RANGE_DAYS \<and> sq_end q \<le> today + 366 \<and> MIN_DAY \<le> sq_start q \<and>
    metric_by_key (the (pa_metric pa)) = Some (sq_defn q) \<and> sq_compare q = pa_compare pa \<and> sq_compare q \<in> set COMPARES"
  using assms parse_days_Inr [of "pa_start pa" "pa_end pa" today "sq_start q" "sq_end q"]
  by (auto simp: parse_series_query_def split: if_splits option.splits)

lemma MIN_DAY_pos: "1 \<le> MIN_DAY" by code_simp

definition kept_block :: "date \<Rightarrow> series_view \<Rightarrow> bool" where
  "kept_block limit v = (limit \<le> sv_first v \<and> sv_first v \<le> sv_last v \<and>
     sum_list (map se_expected (sv_points v)) = sv_last v - sv_first v + 1)"

lemma compared_total:
  assumes "retention_floor today = Inr limit" "1 \<le> limit" "sq_start q \<le> sq_end q" "sq_end q + 31 \<le> max_ordinal"
    "sq_compare q \<in> set COMPARES"
  shows "\<exists>c un. compared site today q db = Inr (c, un) \<and> (sq_compare q = ''none'' \<longrightarrow> c = None \<and> un = None) \<and>
    (sq_compare q \<noteq> ''none'' \<longrightarrow> (c = None) = (un \<noteq> None)) \<and> (\<forall>v. c = Some v \<longrightarrow> kept_block limit v \<and> sv_first v < sq_start q)"
proof (cases "comparison_range (sq_start q) (sq_end q) (compare_of (sq_compare q))")
  case None
  then show ?thesis by (simp add: compared_def)
next
  case (Some w)
  obtain a b where w: "w = (a, b)" by (cases w)
  have ab: "a \<le> b" "a < sq_start q" "b \<le> sq_end q" using comparison_range_before [OF Some [unfolded w] assms(3)] by auto
  show ?thesis
  proof (cases "a < limit")
    case True
    then show ?thesis by (simp add: compared_def Some w assms(1))
  next
    case False
    with assms(2,4) ab obtain v where "build_series site (sq_defn q) a b (grain_of (sq_granularity q)) db = Inr v"
      "sv_first v = a" "sv_last v = b" "sum_list (map se_expected (sv_points v)) = b - a + 1"
      using build_series_total [of a b site "sq_defn q" "grain_of (sq_granularity q)" db] by auto
    with False ab show ?thesis by (simp add: compared_def Some w assms(1) kept_block_def)
  qed
qed

lemma accepted_series:
  assumes "FIRST_DAY \<le> today" "today + 400 \<le> max_ordinal" "owned_website db i u = Inr site" "parse_series_query pa today = Inr q"
  shows "\<exists>out limit. get_metric_series i u today pa db = Inr out \<and> retention_floor today = Inr limit \<and>
      kept_block limit (so_current out) \<and> sv_last (so_current out) - sv_first (so_current out) + 1 \<le> MAX_RANGE_DAYS \<and>
      (so_comparison out = None) = (pa_compare pa = ''none'' \<or> so_comparison_unavailable out \<noteq> None) \<and>
      (\<forall>v. so_comparison out = Some v \<longrightarrow> kept_block limit v \<and> sv_first v < sv_first (so_current out))"
proof -
  from parse_query_Inr [OF assms(4)] obtain limit where limit: "retention_floor today = Inr limit" "limit \<le> sq_start q"
    "sq_start q \<le> sq_end q" "sq_end q - sq_start q + 1 \<le> MAX_RANGE_DAYS" "sq_end q \<le> today + 366" "MIN_DAY \<le> sq_start q"
    "sq_compare q = pa_compare pa" "sq_compare q \<in> set COMPARES" by blast
  have pos: "1 \<le> limit" using retention_floor_eq [OF assms(1)] assms(2) limit(1) MIN_DAY_pos by simp
  obtain v where v: "build_series (ws_id site) (sq_defn q) (sq_start q) (sq_end q) (grain_of (sq_granularity q)) db = Inr v"
    "sv_first v = sq_start q" "sv_last v = sq_end q" "sum_list (map se_expected (sv_points v)) = sq_end q - sq_start q + 1"
    using build_series_total [of "sq_start q" "sq_end q" "ws_id site" "sq_defn q" "grain_of (sq_granularity q)" db]
      limit(2,3,5) pos assms(2) by auto
  obtain c un where c: "compared (ws_id site) today q db = Inr (c, un)" "sq_compare q = ''none'' \<longrightarrow> c = None \<and> un = None"
    "sq_compare q \<noteq> ''none'' \<longrightarrow> (c = None) = (un \<noteq> None)" "\<forall>v. c = Some v \<longrightarrow> kept_block limit v \<and> sv_first v < sq_start q"
    using compared_total [OF limit(1) pos limit(3) _ limit(8), of "ws_id site" db] limit(5) assms(2) by auto
  show ?thesis
    using v(2-4) c(2-4) limit
    by (simp add: get_metric_series_def assms(3,4) v(1) c(1) too_far_def Let_def kept_block_def) blast
qed

text \<open>
  C36: No request for a series ends in an error of the server. Whatever the parameters, who is not a member of the site's
  workspace gets 404 and nobody else does; a member gets a refusal 422 or a series. The window of a series holds between one and
  \<open>MAX_RANGE_DAYS\<close> days, none older than the retention, and its points share out exactly its days; a comparison
  that was asked for is such a block too, starting earlier, or is missing with a reason.
\<close>

theorem series_requests_answered:
  assumes "FIRST_DAY \<le> today" "today + 400 \<le> max_ordinal"
  shows "((\<exists>detail. get_metric_series i u today pa db = Inl (Http 404 detail)) \<longleftrightarrow>
      (\<forall>s. website_by_id db i = Some s \<longrightarrow> \<not> is_member db (ws_workspace_id s) u)) \<and>
    (\<forall>f. get_metric_series i u today pa db = Inl f \<longrightarrow> (\<exists>detail. f = Http 404 detail \<or> f = Http 422 detail)) \<and>
    (\<forall>out. get_metric_series i u today pa db = Inr out \<longrightarrow> (\<exists>limit. retention_floor today = Inr limit \<and>
      kept_block limit (so_current out) \<and> sv_last (so_current out) - sv_first (so_current out) + 1 \<le> MAX_RANGE_DAYS \<and>
      (so_comparison out = None) = (pa_compare pa = ''none'' \<or> so_comparison_unavailable out \<noteq> None) \<and>
      (\<forall>v. so_comparison out = Some v \<longrightarrow> kept_block limit v \<and> sv_first v < sv_first (so_current out))))"
proof (cases "owned_website db i u")
  case (Inl f)
  then have "f = Http 404 (''site introuvable'') \<and> (\<forall>s. website_by_id db i = Some s \<longrightarrow> \<not> is_member db (ws_workspace_id s) u)"
    by (auto simp: owned_website_def split: option.splits if_splits)
  then show ?thesis by (simp add: get_metric_series_def Inl)
next
  case (Inr site)
  then have member: "website_by_id db i = Some site" "is_member db (ws_workspace_id site) u"
    by (auto simp: owned_website_def split: option.splits if_splits)
  show ?thesis
  proof (cases "parse_series_query pa today")
    case (Inl f)
    with parse_query_error [OF assms(1) _ Inl] assms(2) show ?thesis by (auto simp: get_metric_series_def Inr member)
  next
    case q: (Inr q)
    from accepted_series [OF assms Inr q] show ?thesis using member by auto
  qed
qed

definition demo_day :: date where "demo_day = ymd2ord 2026 8 1"

definition demo_params :: series_params where
  "demo_params = \<lparr>pa_metric = Some ''ga4.sessions'', pa_start = Some ''2024-07-01'', pa_end = None, pa_granularity = ''month'',
     pa_compare = ''previous_period'', pa_dimension = None\<rparr>"

definition tracked_db :: access_db where
  "tracked_db = empty_db\<lparr>websites := [new_site 7 3 \<lparr>cr_name = ''Shop'', cr_domain = ''shop.fr'', cr_allow_insecure = False\<rparr>],
     workspace_members := [\<lparr>wm_workspace_id = 3, wm_user_id = 9, wm_role = ''owner''\<rparr>]\<rparr>"

lemma demo_days: "FIRST_DAY \<le> demo_day" "demo_day + 400 \<le> max_ordinal" "retention_floor demo_day = Inr (ymd2ord 2024 7 1)"
  "parse_iso_date ''2024-07-01'' = Inr (ymd2ord 2024 7 1)" "ymd2ord 2024 7 1 < demo_day"
  by code_simp+

lemma demo_metric: "metric_by_key ''ga4.sessions'' = Some (hd METRICS)"
  by (simp add: metric_by_key_def METRICS_def mk_metric_def find_row_def)

lemma demo_query: "is_ok (parse_series_query demo_params demo_day)"
proof -
  have "is_ok (parse_days (Some ''2024-07-01'') None demo_day)" by code_simp
  then obtain a b where days: "parse_days (Some ''2024-07-01'') None demo_day = Inr (a, b)" by (auto simp: is_ok_iff)
  moreover have "parse_days (Some ''2024-07-01'') None demo_day = Inr (ymd2ord 2024 7 1, demo_day - 1)" by code_simp
  moreover have "demo_day - 1 - ymd2ord 2024 7 1 + 1 \<le> MAX_RANGE_DAYS" "ymd2ord 2024 7 1 \<le> demo_day - 1" by code_simp+
  ultimately show ?thesis
    by (simp add: parse_series_query_def demo_params_def demo_metric is_given_def GRANULARITIES_def COMPARES_def demo_days(3))
qed

lemma demo_member: "owned_website tracked_db 7 9 = Inr (hd (websites tracked_db))"
  by (simp add: owned_website_def website_by_id_def find_row_def tracked_db_def new_site_def is_member_def membership_def)

lemma series_requests_answered_witness:
  "\<exists>out limit. get_metric_series 7 9 demo_day demo_params tracked_db = Inr out \<and> kept_block limit (so_current out) \<and>
    sv_last (so_current out) - sv_first (so_current out) + 1 \<le> MAX_RANGE_DAYS"
proof -
  obtain out where "get_metric_series 7 9 demo_day demo_params tracked_db = Inr out"
    using demo_query accepted_series [OF demo_days(1,2) demo_member, of demo_params] unfolding is_ok_iff by meson
  with series_requests_answered [OF demo_days(1,2), of 7 9 demo_params tracked_db] show ?thesis by blast
qed

text \<open>
  C37: Every day the retention keeps can be read. For a known metric and valid choices, a request from any day between the retention
  floor and yesterday, without an end, is accepted as it is: the longest such window fits the bound on the number of days.
\<close>

theorem retention_readable:
  assumes "FIRST_DAY \<le> today" "today + 400 \<le> max_ordinal" "retention_floor today = Inr limit"
    and "metric_by_key m = Some defn" "m \<noteq> []" "parse_iso_date text = Inr day" "limit \<le> day" "day < today"
    and "g \<in> set GRANULARITIES" "c \<in> set COMPARES"
  shows "parse_series_query \<lparr>pa_metric = Some m, pa_start = Some text, pa_end = None, pa_granularity = g, pa_compare = c,
      pa_dimension = None\<rparr> today =
    Inr \<lparr>sq_defn = defn, sq_start = day, sq_end = today - 1, sq_granularity = g, sq_compare = c\<rparr>"
proof -
  have limit: "limit = month_first (month_index today - 25)" "MIN_DAY \<le> limit"
    using retention_floor_eq [OF assms(1)] assms(2,3) by auto
  have "text \<noteq> []" using assms(6) by (auto simp: parse_iso_date_def)
  moreover have "today - day \<le> 792" using retention_length [of today] assms(7) limit(1) by simp
  moreover have "date_add today (- 1) = Inr (today - 1)" "date_add today 366 = Inr (today + 366)"
    using assms(2,7,8) limit(2) MIN_DAY_pos by (simp_all add: date_add_def valid_date_def min_ordinal_def)
  ultimately have days: "parse_days (Some text) None today = Inr (day, today - 1)" "today - day \<le> MAX_RANGE_DAYS"
    using assms(6-8) limit(2) by (simp_all add: parse_days_def is_given_def check_bounds_def date_faults_def MAX_RANGE_DAYS_def)
  then show ?thesis
    using assms(3-5,7-10) by (simp add: parse_series_query_def is_given_def)
qed

lemma retention_readable_witness:
  "parse_series_query demo_params demo_day = Inr \<lparr>sq_defn = hd METRICS, sq_start = ymd2ord 2024 7 1, sq_end = demo_day - 1,
     sq_granularity = ''month'', sq_compare = ''previous_period''\<rparr>"
  using retention_readable [OF demo_days(1-3) demo_metric _ demo_days(4) order_refl demo_days(5), of "''month''" "''previous_period''"]
  by (simp add: demo_params_def GRANULARITIES_def COMPARES_def)

section \<open>The owner's change of a schedule\<close>

lemma keyed_pair: "(k, x) \<in> set (map (\<lambda>a. (f a, a)) xs) \<Longrightarrow> f x = k" by auto

lemma kind_pair: "(k, kd) \<in> set KINDS \<Longrightarrow> tk_name kd = k"
  unfolding KINDS_def by (rule keyed_pair)

lemma read_put_Inr:
  assumes "read_schedule_put k f e = Inr body"
  shows "map_of KINDS k = Some (pu_kind body)" "tk_name (pu_kind body) = k" "pu_kind body \<in> set SCHEDULABLE_KINDS"
    "pu_frequency body = f" "pu_enabled body = e"
    "\<exists>interval. map_of FREQUENCY_INTERVALS f = Some interval \<and> tk_floor (pu_kind body) \<le> interval"
proof -
  from assms obtain kd where kd: "map_of KINDS k = Some kd" "schedulable kd" "f \<in> set (allowed_frequencies kd)"
    "body = \<lparr>pu_kind = kd, pu_frequency = f, pu_enabled = e\<rparr>"
    by (auto simp: read_schedule_put_def split: option.splits if_splits)
  have mem: "(k, kd) \<in> set KINDS" using map_of_SomeD [OF kd(1)] .
  obtain interval where i: "(f, interval) \<in> set FREQUENCY_INTERVALS" "tk_floor kd \<le> interval"
    using kd(3) by (auto simp: allowed_frequencies_def)
  then have "map_of FREQUENCY_INTERVALS f = Some interval" by (auto simp: FREQUENCY_INTERVALS_def)
  with i(2) show "\<exists>interval. map_of FREQUENCY_INTERVALS f = Some interval \<and> tk_floor (pu_kind body) \<le> interval" by (simp add: kd(4))
  show "pu_kind body \<in> set SCHEDULABLE_KINDS" using mem kd(2) by (force simp: kd(4) SCHEDULABLE_KINDS_def)
qed (use assms kind_pair in \<open>auto simp: read_schedule_put_def split: option.splits if_splits dest: map_of_SomeD\<close>)

definition other_schedules :: "uuid \<Rightarrow> string \<Rightarrow> 'a jobs_db_scheme \<Rightarrow> schedule list" where
  "other_schedules i k db = filter (\<lambda>s. sc_site_kind s \<noteq> (i, k)) (schedules db)"

lemma save_own_schedule:
  assumes "jobs_wf db" "s \<in> set (schedules db)" "sc_id s' = sc_id s" "sc_site_kind s' = (i, k)" "sc_site_kind s = (i, k)"
  shows "other_schedules i k (save_schedule s' db) = other_schedules i k db" "jobs_wf (save_schedule s' db)"
    "s' \<in> set (schedules (save_schedule s' db))"
proof -
  have "r = s" if "r \<in> set (schedules db)" "sc_id r = sc_id s" for r
    using assms(1,2) that uniq_by_inj by (fastforce simp: jobs_wf_def)
  with assms(3-5) show "other_schedules i k (save_schedule s' db) = other_schedules i k db"
    by (auto simp: other_schedules_def save_schedule_def intro!: filter_update)
  show "jobs_wf (save_schedule s' db)" by (rule jobs_wf_save_schedule [OF assms(1-3)]) (simp add: assms(4,5))
  show "s' \<in> set (schedules (save_schedule s' db))"
    using assms(2,3) by (auto simp: save_schedule_def update_rows_def image_iff)
qed

lemma jobs_wf_insert_schedule:
  assumes "jobs_wf db" "sc_id s \<notin> sc_id ` set (schedules db)"
  shows "jobs_wf (insert_schedule s db)"
  using assms by (auto simp: jobs_wf_def insert_schedule_def insert_new_def uniq_by_snoc)

lemma upsert_schedule_frame:
  assumes "jobs_wf db" "new_id \<notin> sc_id ` set (schedules db)"
    and "upsert_schedule new_id i kind f e now db = Inr (db', row)"
  shows "jobs_wf db' \<and> other_schedules i (tk_name kind) db' = other_schedules i (tk_name kind) db \<and> db' = db\<lparr>schedules := schedules db'\<rparr>"
proof -
  define k where "k = tk_name kind"
  define db1 where "db1 = (case schedule_of db i k of
       None \<Rightarrow> insert_schedule \<lparr>sc_id = new_id, sc_website_id = i, sc_kind = k, sc_frequency = f, sc_enabled = e, sc_next_due_at = now,
         sc_last_run_at = None, sc_last_status = None, sc_last_success_at = None,
         sc_failing_since = None, sc_last_error_code = None, sc_backfill_done_at = None\<rparr> db
     | Some old \<Rightarrow> save_schedule (old\<lparr>sc_frequency := f, sc_enabled := e\<rparr>) db)"
  have one: "jobs_wf db1 \<and> other_schedules i k db1 = other_schedules i k db \<and> db1 = db\<lparr>schedules := schedules db1\<rparr>"
  proof (cases "schedule_of db i k")
    case None
    with assms(1,2) show ?thesis
      unfolding db1_def by (auto intro!: jobs_wf_insert_schedule)
        (auto simp: insert_schedule_def insert_new_def other_schedules_def sc_site_kind_def)
  next
    case (Some old)
    note old = schedule_ofD [OF Some]
    have "sc_site_kind (old\<lparr>sc_frequency := f, sc_enabled := e\<rparr>) = (i, k)" using old by (simp add: sc_site_kind_def)
    with save_own_schedule [OF assms(1), of old "old\<lparr>sc_frequency := f, sc_enabled := e\<rparr>" i k] old show ?thesis
      by (simp add: db1_def Some) (simp add: save_schedule_def)
  qed
  obtain s where s: "db' = db1 \<or> schedule_of db1 i k = Some s \<and> (\<exists>due. db' = save_schedule (s\<lparr>sc_next_due_at := due\<rparr>) db1)"
    using assms(3) unfolding upsert_schedule_def Let_def k_def [symmetric] db1_def [symmetric]
    by (auto split: option.splits)
  then show ?thesis
  proof
    assume "schedule_of db1 i k = Some s \<and> (\<exists>due. db' = save_schedule (s\<lparr>sc_next_due_at := due\<rparr>) db1)"
    then obtain due where s: "schedule_of db1 i k = Some s" "db' = save_schedule (s\<lparr>sc_next_due_at := due\<rparr>) db1" by blast
    note row = schedule_ofD [OF s(1)]
    have "sc_site_kind (s\<lparr>sc_next_due_at := due\<rparr>) = (i, k)" using row by (simp add: sc_site_kind_def)
    with save_own_schedule [of db1 s "s\<lparr>sc_next_due_at := due\<rparr>" i k] one row have "jobs_wf db'" "other_schedules i k db' = other_schedules i k db" by (simp_all add: s(2))
    moreover have "db' = db\<lparr>schedules := schedules db'\<rparr>"
      unfolding s(2) by (subst conjunct2 [OF conjunct2 [OF one]]) (simp add: save_schedule_def)
    ultimately show ?thesis by (simp add: k_def)
  qed (use one in \<open>simp add: k_def\<close>)
qed

definition site_owner :: "uuid \<Rightarrow> uuid \<Rightarrow> 'a access_db_scheme \<Rightarrow> bool" where
  "site_owner i u db = (case website_by_id db i of None \<Rightarrow> False
     | Some s \<Rightarrow> map_option wm_role (membership db (ws_workspace_id s) u) = Some ''owner'')"

lemma owner_routes:
  "site_owner i u db \<Longrightarrow> \<exists>s. owned_website db i u = Inr s \<and> require_owner db (ws_workspace_id s) u = Inr () \<and> ws_id s = i \<and>
    map_option wm_role (membership db (ws_workspace_id s) u) = Some ''owner''"
  by (auto simp: site_owner_def owned_website_def require_owner_def is_member_def website_by_id_def split: option.splits dest: find_row_SomeD)

lemma other_routes:
  "\<not> site_owner i u db \<Longrightarrow> \<exists>code detail. try_bind (owned_website db i u) (\<lambda>s. try_bind (require_owner db (ws_workspace_id s) u) (f s)) =
    Inl (Http code detail) \<and> code \<in> {403, 404}"
  by (auto simp: site_owner_def owned_website_def require_owner_def is_member_def split: option.splits if_splits)

text \<open>
  C38: Only the owner of a site's workspace changes a schedule of it, and the change is the one asked for. An accepted body always succeeds for
  the owner and for nobody else (403 or 404); the row of that kind then has the frequency and the switch asked for and the answer shows it;
  the interval between two runs is the frequency's own, never stretched to the floor; no other schedule and no other table changes.
\<close>

theorem schedule_change_exact:
  assumes "jobs_wf db" "new_id \<notin> sc_id ` set (schedules db)" "read_schedule_put k f e = Inr body"
  shows "if site_owner i u db
    then \<exists>db' out row. put_schedule new_id now i body u db = Inr (db', out) \<and> schedule_of db' i k = Some row \<and> sc_frequency row = f \<and>
      sc_enabled row = e \<and> effective_interval (pu_kind body) f = dict_get FREQUENCY_INTERVALS f \<and> sg_can_edit out \<and>
      view_of (pu_kind body) (Some row) \<in> set (sg_schedules out) \<and>
      other_schedules i k db' = other_schedules i k db \<and> db' = db\<lparr>schedules := schedules db'\<rparr>
    else \<exists>code detail. put_schedule new_id now i body u db = Inl (Http code detail) \<and> code \<in> {403, 404}"
proof (cases "site_owner i u db")
  case False
  then show ?thesis using other_routes [OF False] by (simp add: put_schedule_def)
next
  case owner: True
  note body = read_put_Inr [OF assms(3)]
  obtain s where s: "owned_website db i u = Inr s" "require_owner db (ws_workspace_id s) u = Inr ()" "ws_id s = i"
    "map_option wm_role (membership db (ws_workspace_id s) u) = Some ''owner''" using owner_routes [OF owner] by blast
  obtain interval where i: "map_of FREQUENCY_INTERVALS f = Some interval" "tk_floor (pu_kind body) \<le> interval" using body(6) by blast
  then have eff: "effective_interval (pu_kind body) f = Inr interval" "dict_get FREQUENCY_INTERVALS f = Inr interval"
    by (simp_all add: effective_interval_def dict_get_def)
  obtain db' row where up: "upsert_schedule new_id i (pu_kind body) f e now db = Inr (db', row)" using upsert_total [OF eff(1)] by blast
  note row = upsert_schedule_due [OF assms(1) eff(1) up, unfolded body(2)] and frame = upsert_schedule_frame [OF assms(1,2) up, unfolded body(2)]
  have "view_of (pu_kind body) (Some row) \<in> set (schedule_views db' i)"
    using schedule_views_complete [of db' i] frame row body(2,3) by metis
  moreover have "put_schedule new_id now i body u db = Inr (db', schedules_of s u db')"
    using s up body(4,5) by (simp add: put_schedule_def)
  moreover have "workspace_members db' = workspace_members db"
    by (subst conjunct2 [OF conjunct2 [OF frame]]) simp
  ultimately show ?thesis using owner row frame eff s(3,4) by (auto simp: schedules_of_def membership_def)
qed

lemma schedule_change_exact_witness:
  "\<exists>db' out row. put_schedule 5 60 7 \<lparr>pu_kind = cwv_kind, pu_frequency = ''weekly'', pu_enabled = False\<rparr> 9 tracked_db = Inr (db', out) \<and>
    schedule_of db' 7 ''collect_cwv'' = Some row \<and> sc_frequency row = ''weekly'' \<and> sg_can_edit out"
proof -
  have "jobs_wf tracked_db" by (simp add: jobs_wf_def tracked_db_def empty_db_def uniq_by_def)
  moreover have "5 \<notin> sc_id ` set (schedules tracked_db)" by (simp add: tracked_db_def empty_db_def)
  moreover have "read_schedule_put ''collect_cwv'' ''weekly'' False = Inr \<lparr>pu_kind = cwv_kind, pu_frequency = ''weekly'', pu_enabled = False\<rparr>"
    by (simp add: read_schedule_put_def cwv_kind_def KINDS_def allowed_frequencies_def FREQUENCY_INTERVALS_def source_floor_def SOURCE_SPECS_def
        duration_defs)
  moreover have "site_owner 7 9 tracked_db"
    by (simp add: site_owner_def website_by_id_def find_row_def tracked_db_def new_site_def membership_def)
  ultimately show ?thesis using schedule_change_exact [of tracked_db 5 "''collect_cwv''" "''weekly''" False _ 7 9 60] by (simp only: if_True) blast
qed

end
