(* ===== verification/Audit_View.thy ===== *)
theory Audit_View
  imports Metric_Routes Audit_Issues
begin

text \<open>
  The routes of the audits (\<open>app/api/v1/endpoints/audit.py\<close>): the scan, the overview of a site, the page of its latest audit, the
  verification of Tag Manager in a browser, the issues. What is read back from the JSON of a snapshot is converted as the code and the
  response models convert it; an error is the one the first failing conversion raises. A text is not read as a number by a response
  model. \<open>show\<close> is \<open>str\<close> of a value that is neither a text nor an integer.
\<close>

section \<open>Reading a stored block\<close>

text \<open>\<open>d[key]\<close>, \<open>x or 0\<close>, \<open>int(x)\<close>, and the fields of a response model.\<close>

definition item_at :: "json \<Rightarrow> string \<Rightarrow> json result" where
  "item_at j key = (case j of JDict d \<Rightarrow> required d key | _ \<Rightarrow> Inl TypeError)"

definition or_zero :: "json \<Rightarrow> json" where "or_zero j = (if truthy j then j else JInt 0)"

definition json_int :: "json \<Rightarrow> int result" where
  "json_int j = (case j of
     JNum n \<Rightarrow> py_int n
   | JStr s \<Rightarrow> (case int_from s of None \<Rightarrow> Inl ValueError | Some n \<Rightarrow> Inr n)
   | _ \<Rightarrow> Inl TypeError)"

fun int_field :: "json \<Rightarrow> int result" where
  "int_field (JNum (PyBool b)) = Inr (if b then 1 else 0)"
| "int_field (JNum (PyInt n)) = Inr n"
| "int_field (JNum (PyFloat q)) = (if of_int (Json.truncate q) = q then Inr (Json.truncate q) else Inl ValueError)"
| "int_field _ = Inl ValueError"

definition float_field :: "json \<Rightarrow> py_number result" where
  "float_field j = (case j of JNum n \<Rightarrow> py_float j | _ \<Rightarrow> Inl ValueError)"

fun flag_field :: "json \<Rightarrow> bool option result" where
  "flag_field JNull = Inr None"
| "flag_field (JNum (PyBool b)) = Inr (Some b)"
| "flag_field (JNum (PyInt n)) = (if n = 0 then Inr (Some False) else if n = 1 then Inr (Some True) else Inl ValueError)"
| "flag_field (JNum (PyFloat q)) = (if q = 0 then Inr (Some False) else if q = 1 then Inr (Some True) else Inl ValueError)"
| "flag_field _ = Inl ValueError"

definition text_field :: "json \<Rightarrow> string option result" where
  "text_field j = (if j = JNull then Inr None else try_bind (text_of j) (\<lambda>s. Inr (Some s)))"

text \<open>\<open>[f(x) for x in block.get(key, [])]\<close> and \<open>int(block.get(key, 0))\<close>.\<close>

definition each_in :: "(json \<Rightarrow> 'x result) \<Rightarrow> json \<Rightarrow> string \<Rightarrow> 'x list result" where
  "each_in f block key = try_bind (attr_get block key (JList [])) (\<lambda>v. try_bind (iterated v) (try_map f))"

definition count_at :: "json \<Rightarrow> string \<Rightarrow> int result" where
  "count_at block key = try_bind (attr_get block key (JInt 0)) json_int"

definition block_at :: "json_dict \<Rightarrow> string \<Rightarrow> json" where
  "block_at metrics key = get_default (JDict []) metrics key"

section \<open>Scan\<close>

record scan_response =
  sr_snapshot_id :: uuid
  sr_detected_stack :: stack_kind
  sr_metrics :: json_dict
  sr_created :: nat
  sr_updated :: nat
  sr_resolved :: nat

definition scan_website :: "audit_services \<Rightarrow> (string \<Rightarrow> uuid) \<Rightarrow> uuid \<Rightarrow> datetime \<Rightarrow> string option \<Rightarrow> uuid \<Rightarrow> uuid \<Rightarrow> 'a access_db_scheme \<Rightarrow>
    ('a access_db_scheme \<times> scan_response) answer" where
  "scan_website sv draw snapshot now ip i u db =
     try_bind (owned_website db i u) (\<lambda>site.
     try_bind (scan_answer (run_audit sv draw snapshot now site (Some u) ip db)) (\<lambda>(db', run).
       Inr (db', \<lparr>sr_snapshot_id = ar_snapshot_id run, sr_detected_stack = ar_detected_stack run, sr_metrics = ar_metrics run,
         sr_created = length (ar_created run), sr_updated = length (ar_updated run), sr_resolved = length (ar_resolved run)\<rparr>)))"

section \<open>Overview\<close>

definition METRIC_LABEL :: "(string \<times> string) list" where
  "METRIC_LABEL = [(''ga4'', ''Sant'' @ e_acute @ '' GA4''), (''gsc'', ''Indexation GSC''), (''cwv'', ''Core Web Vitals'')]"

fun severity_rank :: "issue_severity \<Rightarrow> int" where
  "severity_rank Critical_issue = 3"
| "severity_rank High_issue = 2"
| "severity_rank Medium_issue = 1"
| "severity_rank Low_issue = 0"

record overview_metric =
  om_id :: string
  om_label :: string
  om_value :: string
  om_score :: int
  om_status :: string

record overview_recommendation =
  or_severity :: string
  or_title :: string
  or_detail :: string
  or_cta_kind :: string

record overview_event =
  oe_kind :: string
  oe_action :: string
  oe_target :: string
  oe_result :: string
  oe_hours_ago :: int

record overview_response =
  ov_site_name :: string
  ov_domain :: string
  ov_stack :: "stack_kind option"
  ov_last_scan_hours_ago :: "int option"
  ov_metrics :: "overview_metric list"
  ov_recommendation :: "overview_recommendation option"
  ov_events :: "overview_event list"

definition hours_since :: "datetime \<Rightarrow> datetime \<Rightarrow> int" where
  "hours_since now moment = max 0 ((now - moment) div hours 1)"

definition overview_metric_of :: "(json \<Rightarrow> string) \<Rightarrow> json_dict \<Rightarrow> string \<times> string \<Rightarrow> overview_metric result" where
  "overview_metric_of show metrics m =
    (let block = block_at metrics (fst m)
     in try_bind (count_at block ''score'') (\<lambda>score.
        try_bind (attr_get block ''status'' (JStr ''bad'')) (\<lambda>status.
          Inr \<lparr>om_id = fst m, om_label = snd m, om_value = (if score = 0 then em_dash else str_int score), om_score = score,
            om_status = value_text show status\<rparr>)))"

definition open_issue :: "uuid \<Rightarrow> issue_item \<Rightarrow> bool" where
  "open_issue i x = (ii_website_id x = i \<and> ii_status x \<in> {Todo, In_progress})"

text \<open>The first of the greatest, as \<open>max\<close> with a key.\<close>

definition worse :: "issue_item \<Rightarrow> issue_item \<Rightarrow> bool" where
  "worse x y = (severity_rank (ii_severity x) < severity_rank (ii_severity y) \<or>
     severity_rank (ii_severity x) = severity_rank (ii_severity y) \<and> ii_detected_at x < ii_detected_at y)"

definition top_issue :: "issue_item list \<Rightarrow> issue_item option" where
  "top_issue xs = (case xs of [] \<Rightarrow> None | x # rest \<Rightarrow> Some (fold (\<lambda>y best. if worse best y then y else best) rest x))"

definition recommended :: "issue_item \<Rightarrow> overview_recommendation" where
  "recommended x = \<lparr>or_severity = (if ii_severity x \<in> {Critical_issue, High_issue} then ''high'' else ''medium''),
     or_title = ii_title x, or_detail = ii_description x,
     or_cta_kind = (if ii_category x \<in> {Analytics_issue, Tracking_issue} then ''gtm'' else ''snippet'')\<rparr>"

definition event_of_log :: "datetime \<Rightarrow> website \<Rightarrow> audit_log \<Rightarrow> overview_event" where
  "event_of_log now site l = \<lparr>oe_kind = ''scan'', oe_action = ''Diagnostic complet ex'' @ e_acute @ ''cut'' @ e_acute, oe_target = ws_domain site,
     oe_result = al_result l, oe_hours_ago = hours_since now (al_created_at l)\<rparr>"

definition latest_logs :: "uuid \<Rightarrow> 'a access_db_scheme \<Rightarrow> audit_log list" where
  "latest_logs i db = take 5 (sort_key (\<lambda>l. - al_created_at l) (filter (\<lambda>l. al_resource_id l = str_uuid i) (audit_logs db)))"

definition website_overview :: "(json \<Rightarrow> string) \<Rightarrow> datetime \<Rightarrow> uuid \<Rightarrow> uuid \<Rightarrow> 'a access_db_scheme \<Rightarrow> overview_response answer" where
  "website_overview show now i u db =
     try_bind (owned_website db i u) (\<lambda>site.
       (let snapshot = latest_snapshot i db
        in try_bind (raised (case snapshot of None \<Rightarrow> Inr []
             | Some x \<Rightarrow> try_map (overview_metric_of show (as_metrics x)) METRIC_LABEL)) (\<lambda>metrics.
           Inr \<lparr>ov_site_name = ws_display_name site, ov_domain = ws_domain site, ov_stack = ws_detected_stack site,
             ov_last_scan_hours_ago = map_option (\<lambda>x. hours_since now (as_captured_at x)) snapshot, ov_metrics = metrics,
             ov_recommendation = map_option recommended (top_issue (filter (open_issue i) (issue_items db))),
             ov_events = map (event_of_log now site) (latest_logs i db)\<rparr>)))"

section \<open>Core Web Vitals\<close>

record vital_meta =
  vm_label :: string
  vm_target :: string
  vm_good :: rat
  vm_poor :: rat
  vm_unit :: string

definition VITAL_META :: "(string \<times> vital_meta) list" where
  "VITAL_META = [
     (''lcp'', \<lparr>vm_label = ''Largest Contentful Paint'', vm_target = ''< 2,5 s'', vm_good = 2500, vm_poor = 4000, vm_unit = ''s''\<rparr>),
     (''inp'', \<lparr>vm_label = ''Interaction to Next Paint'', vm_target = ''< 200 ms'', vm_good = 200, vm_poor = 500, vm_unit = ''ms''\<rparr>),
     (''cls'', \<lparr>vm_label = ''Cumulative Layout Shift'', vm_target = ''< 0,1'', vm_good = 1 / 10, vm_poor = 1 / 4, vm_unit = []\<rparr>)]"

definition INP_RECS :: "string list" where
  "INP_RECS = [
     ''Differer le chargement des balises tierces (GTM, chat, replay) apres le premier rendu.'',
     ''Decouper les longues taches JavaScript (> 50 ms) et deplacer les calculs lourds dans un ''
    @ ''web worker.'',
     ''Charger les scripts non critiques sur interaction plutot qu'' @ apos @ ''au chargement.'']"

definition LCP_RECS :: "string list" where
  "LCP_RECS = [
     ''Servir l'' @ apos @ ''image LCP en AVIF (repli WebP) et la dimensionner a la taille d'' @ apos
    @ ''affichage reelle.'',
     ''Precharger l'' @ apos @ ''element LCP avec <link rel='' @ dquote @ ''preload'' @ dquote
    @ '' ... fetchpriority='' @ dquote @ ''high'' @ dquote @ ''>.'',
     ''Reduire la chaine de requetes critiques (police + CSS) qui retarde l'' @ apos @ ''affichage.'']"

definition CLS_RECS :: "string list" where
  "CLS_RECS = [
     ''Fixer width / height (ou aspect-ratio) sur les images et media au-dessus de la ligne de ''
    @ ''flottaison.'',
     ''Reserver l'' @ apos @ ''espace des bannieres et encarts injectes apres le chargement.'']"

definition at_most :: "py_number \<Rightarrow> rat \<Rightarrow> bool" where
  "at_most x q = (case x of PyFloat r \<Rightarrow> r \<le> q | PyInt n \<Rightarrow> of_int n \<le> q | PyBool b \<Rightarrow> (if b then 1 else 0) \<le> q | PyNegInf \<Rightarrow> True | _ \<Rightarrow> False)"

definition rating :: "py_number \<Rightarrow> vital_meta \<Rightarrow> string" where
  "rating raw m = (if at_most raw (vm_good m) then ''good'' else if at_most raw (vm_poor m) then ''warn'' else ''bad'')"

definition with_comma :: "string \<Rightarrow> string" where
  "with_comma s = map (\<lambda>c. if c = CHR ''.'' then CHR '','' else c) s"

definition in_thousands :: "py_number \<Rightarrow> py_number" where
  "in_thousands x = (case x of PyFloat q \<Rightarrow> PyFloat (q / 1000) | _ \<Rightarrow> x)"

definition format_vital :: "py_number \<Rightarrow> string \<Rightarrow> string result" where
  "format_vital raw u =
    (if u = ''s'' then Inr (with_comma (fixed_number 1 (in_thousands raw)) @ '' s'')
     else if u = ''ms'' then try_bind (round_number raw) (\<lambda>n. Inr (str_int n @ '' ms''))
     else Inr (with_comma (fixed_number 2 raw)))"

definition RATING_HINT :: "(string \<times> string) list" where
  "RATING_HINT = [(''good'', ''Signal dans la zone '' @ guil_l @ '' bon '' @ guil_r @ ''.''), (''warn'', ''Signal a ameliorer, proche du seuil.''),
     (''bad'', ''Signal hors seuil, impact utilisateur mesurable.'')]"

text \<open>\<open>re.search\<close> of \<open>src="([^"]+)"\<close>.\<close>

fun src_of :: "string \<Rightarrow> string option" where
  "src_of [] = None"
| "src_of (c # cs) =
    (let rest = drop 5 (c # cs); url = takeWhile (\<lambda>x. [x] \<noteq> dquote) rest
     in if starts_with (''src='' @ dquote) (c # cs) \<and> url \<noteq> [] \<and> length url < length rest then Some url else src_of cs)"

definition preload_hint :: "string \<Rightarrow> string option" where
  "preload_hint element =
    (if \<not> contains ''<img'' element then None
     else map_option (\<lambda>url. ''<link rel='' @ dquote @ ''preload'' @ dquote @ '' as='' @ dquote @ ''image'' @ dquote @ '' href=''
    @ dquote @ url @ dquote @ '' fetchpriority='' @ dquote @ ''high'' @ dquote @ ''>'') (src_of element))"

record cwv_diagnostic =
  cd_metric :: string
  cd_source :: string
  cd_total_blocking_time_ms :: "int option"
  cd_js_execution_ms :: "int option"
  cd_entities :: "costly_entity list option"
  cd_element_snippet :: "string option"
  cd_assets :: "heavy_asset list option"
  cd_preload_hint :: "string option"
  cd_shift_elements :: "shift_element list option"
  cd_recommendations :: "string list"

definition no_diagnostic :: "string \<Rightarrow> string \<Rightarrow> string list \<Rightarrow> cwv_diagnostic" where
  "no_diagnostic metric source recs = \<lparr>cd_metric = metric, cd_source = source, cd_total_blocking_time_ms = None,
     cd_js_execution_ms = None, cd_entities = None, cd_element_snippet = None, cd_assets = None, cd_preload_hint = None,
     cd_shift_elements = None, cd_recommendations = recs\<rparr>"

definition read_entity :: "json \<Rightarrow> costly_entity result" where
  "read_entity item =
     try_bind (item_at item ''name'') (\<lambda>name. try_bind (item_at item ''category'') (\<lambda>category.
     try_bind (item_at item ''main_thread_ms'') (\<lambda>main. try_bind (item_at item ''blocking_ms'') (\<lambda>blocking.
     try_bind (text_of name) (\<lambda>n. try_bind (text_of category) (\<lambda>c.
     try_bind (int_field main) (\<lambda>m. try_bind (int_field blocking) (\<lambda>b.
       Inr \<lparr>ce_name = n, ce_category = c, ce_main_thread_ms = m, ce_blocking_ms = b\<rparr>))))))))"

definition read_asset :: "json \<Rightarrow> heavy_asset result" where
  "read_asset item =
     try_bind (item_at item ''name'') (\<lambda>name. try_bind (item_at item ''current_format'') (\<lambda>form.
     try_bind (item_at item ''size_kb'') (\<lambda>size. try_bind (item_at item ''estimated_saving_kb'') (\<lambda>saving.
     try_bind (text_of name) (\<lambda>n. try_bind (text_of form) (\<lambda>f.
     try_bind (int_field size) (\<lambda>k. try_bind (int_field saving) (\<lambda>s.
       Inr \<lparr>ha_name = n, ha_current_format = f, ha_size_kb = k, ha_saving_kb = s\<rparr>))))))))"

definition read_shift :: "json \<Rightarrow> shift_element result" where
  "read_shift item =
     try_bind (item_at item ''selector'') (\<lambda>selector. try_bind (item_at item ''impact'') (\<lambda>impact. try_bind (item_at item ''note'') (\<lambda>note.
     try_bind (text_of selector) (\<lambda>s. try_bind (float_field impact) (\<lambda>x. try_bind (text_of note) (\<lambda>n.
       Inr \<lparr>sh_selector = s, sh_impact = x, sh_note = n\<rparr>))))))"

text \<open>\<open>xs or None\<close>.\<close>

definition some_items :: "'x list \<Rightarrow> 'x list option" where "some_items xs = (if xs = [] then None else Some xs)"

definition inp_diagnostic :: "string \<Rightarrow> json \<Rightarrow> cwv_diagnostic result" where
  "inp_diagnostic source cwv =
     try_bind (each_in read_entity cwv ''costly_entities'') (\<lambda>entities.
     try_bind (try_bind (attr_get cwv ''total_blocking_time_ms'' (JInt 0)) (json_int \<circ> or_zero)) (\<lambda>blocking.
     try_bind (try_bind (attr_get cwv ''js_execution_ms'' (JInt 0)) (json_int \<circ> or_zero)) (\<lambda>js.
       Inr ((no_diagnostic ''inp'' source INP_RECS)\<lparr>cd_total_blocking_time_ms := Some blocking, cd_js_execution_ms := Some js,
         cd_entities := some_items entities\<rparr>))))"

definition read_snippet :: "json \<Rightarrow> (string option \<times> string option) result" where
  "read_snippet j = (case j of
     JNull \<Rightarrow> Inr (None, None)
   | JStr s \<Rightarrow> Inr (Some s, preload_hint s)
   | JNum n \<Rightarrow> Inl (if number_true n then TypeError else ValueError)
   | _ \<Rightarrow> Inl ValueError)"

definition lcp_diagnostic :: "string \<Rightarrow> json \<Rightarrow> cwv_diagnostic result" where
  "lcp_diagnostic source cwv =
     try_bind (each_in read_asset cwv ''lcp_assets'') (\<lambda>assets.
     try_bind (try_bind (attr_get cwv ''lcp_element'' JNull) read_snippet) (\<lambda>(element, hint).
       Inr ((no_diagnostic ''lcp'' source LCP_RECS)\<lparr>cd_element_snippet := element, cd_assets := some_items assets,
         cd_preload_hint := hint\<rparr>)))"

definition cls_diagnostic :: "string \<Rightarrow> json \<Rightarrow> cwv_diagnostic result" where
  "cls_diagnostic source cwv =
     try_bind (each_in read_shift cwv ''shift_elements'') (\<lambda>elements.
       Inr ((no_diagnostic ''cls'' source CLS_RECS)\<lparr>cd_shift_elements := some_items elements\<rparr>))"

definition build_diagnostic :: "string \<Rightarrow> string \<Rightarrow> json \<Rightarrow> cwv_diagnostic result" where
  "build_diagnostic metric source cwv =
    (if metric = ''inp'' then inp_diagnostic source cwv else if metric = ''lcp'' then lcp_diagnostic source cwv else cls_diagnostic source cwv)"

record audit_vital =
  av_id :: string
  av_label :: string
  av_value :: string
  av_raw :: py_number
  av_rating :: string
  av_target :: string
  av_thresholds :: "rat list"
  av_hint :: string
  av_diagnostic :: "cwv_diagnostic option"

definition vital_of :: "string \<Rightarrow> json \<Rightarrow> string \<times> py_number \<Rightarrow> audit_vital result" where
  "vital_of source cwv x =
    (let metric = fst x; raw = snd x
     in try_bind (dict_get VITAL_META metric) (\<lambda>m.
        try_bind (if positive raw then try_bind (build_diagnostic metric source cwv) (\<lambda>d. Inr (Some d)) else Inr None) (\<lambda>diagnostic.
        try_bind (format_vital raw (vm_unit m)) (\<lambda>v.
        try_bind (dict_get RATING_HINT (rating raw m)) (\<lambda>hint.
          Inr \<lparr>av_id = metric, av_label = vm_label m, av_value = v, av_raw = raw, av_rating = rating raw m, av_target = vm_target m,
            av_thresholds = [vm_good m, vm_poor m], av_hint = hint, av_diagnostic = diagnostic\<rparr>)))))"

definition raw_value :: "json \<Rightarrow> string \<Rightarrow> py_number result" where
  "raw_value cwv key = try_bind (attr_get cwv key (JInt 0)) (py_float \<circ> or_zero)"

definition build_vitals :: "json \<Rightarrow> audit_vital list result" where
  "build_vitals cwv =
     try_bind (attr_get cwv ''field_data'' JNull) (\<lambda>field.
     try_bind (raw_value cwv ''lcp_ms'') (\<lambda>lcp. try_bind (raw_value cwv ''inp_ms'') (\<lambda>inp. try_bind (raw_value cwv ''cls'') (\<lambda>cls.
       try_map (vital_of (if truthy field then ''field'' else ''lab'') cwv) [(''lcp'', lcp), (''inp'', inp), (''cls'', cls)]))))"

section \<open>Analytics, Search Console, Tag Manager\<close>

record audit_ga4_event =
  ae_name :: string
  ae_conformity :: string
  ae_note :: string
  ae_volume :: int

definition ga4_event :: "string \<Rightarrow> string \<Rightarrow> string \<Rightarrow> audit_ga4_event" where
  "ga4_event name conformity note = \<lparr>ae_name = name, ae_conformity = conformity, ae_note = note, ae_volume = 0\<rparr>"

record audit_ga4 =
  ga_score :: int
  ga_status :: string
  ga_status_line :: string
  ga_events :: "audit_ga4_event list"

fun is_text :: "json \<Rightarrow> bool" where
  "is_text (JStr s) = True"
| "is_text _ = False"

definition purchase_event :: "json \<Rightarrow> audit_ga4_event list result" where
  "purchase_event missing =
    (if \<not> truthy missing then Inr []
     else try_bind (iterated missing) (\<lambda>vs.
       try_bind (if list_all is_text vs then texts_from vs else Inl TypeError) (\<lambda>names.
         Inr [ga4_event ''purchase'' ''missing'' (''Parametres manquants : '' @ join '', '' names)])))"

definition missing_events :: "json \<Rightarrow> audit_ga4_event list result" where
  "missing_events v = try_bind (iterated (or_empty v)) (try_map (\<lambda>name. try_bind (text_of name) (\<lambda>n.
     Inr (ga4_event n ''missing'' (''Evenement jamais recu '' @ em_dash @ '' action non instrumentee.'')))))"

definition login_event :: "json \<Rightarrow> audit_ga4_event list" where
  "login_event v = (if truthy v then [ga4_event ''login'' ''partial'' (''Parametre manquant : user_id (rapprochement cross-device inoperant).'')] else [])"

definition build_ga4 :: "(json \<Rightarrow> string) \<Rightarrow> json \<Rightarrow> audit_ga4 result" where
  "build_ga4 show ga4 =
     try_bind (count_at ga4 ''score'') (\<lambda>score.
     try_bind (try_bind (attr_get ga4 ''purchase_missing_params'' JNull) purchase_event) (\<lambda>purchase.
     try_bind (try_bind (attr_get ga4 ''missing_events'' JNull) missing_events) (\<lambda>missing.
     try_bind (attr_get ga4 ''login_missing_user_id'' JNull) (\<lambda>login.
     try_bind (attr_get ga4 ''status'' (JStr ''bad'')) (\<lambda>status.
       Inr \<lparr>ga_score = score, ga_status = value_text show status,
         ga_status_line = (if 0 < score then ''Flux actif'' else ''Flux GA4 non relie (integration P3)''),
         ga_events = purchase @ missing @ login_event login\<rparr>)))))"

record audit_url =
  au_url :: string
  au_status :: string
  au_clicks :: int
  au_impressions :: int
  au_ctr :: rat
  au_action :: string

definition LOW_CTR :: rat where "LOW_CTR = 3 / 2"

definition url_marketing_action :: "string \<Rightarrow> int \<Rightarrow> int \<Rightarrow> rat \<Rightarrow> string" where
  "url_marketing_action status clicked displayed ctr =
    (if status = ''Exclue noindex''
     then ''Retirer la balise noindex si la page doit ranker, sinon la sortir du sitemap pour ne ''
    @ ''plus gaspiller de budget de crawl.''
     else if status = ''Redirection 301''
     then ''Mettre a jour les liens internes et externes pointant vers l'' @ apos
    @ ''ancienne URL pour transmettre le signal directement a la cible.''
     else if status = ''D'' @ e_acute @ ''couverte non index'' @ e_acute @ ''e''
     then ''Ajouter 3 a 5 liens internes depuis des pages fortes (accueil, articles phares) et ''
    @ ''soumettre l'' @ apos @ ''URL a l'' @ apos @ ''inspection pour declencher l'' @ apos
    @ ''indexation.''
     else if 500 \<le> displayed \<and> ctr < LOW_CTR
     then ''Reecrire le Title et la meta-description autour du mot-cle principal : CTR '' @ fixed_rat 1 ctr @
       '' % tres en dessous du potentiel (< '' @ fixed_rat 1 LOW_CTR @ '' %).''
     else if clicked < 20 \<and> displayed < 300
     then ''Renforcer le maillage interne : viser au moins 3 liens contextualises depuis les ''
    @ ''articles a fort trafic pour faire remonter la page.''
     else ''Page performante : construire un cluster de contenu autour du sujet et lier cette page ''
    @ ''en pilier pour capter les requetes voisines.'')"

text \<open>\<open>round(clicks / impressions * 100, 1)\<close>.\<close>

definition ctr_of :: "int \<Rightarrow> int \<Rightarrow> rat" where
  "ctr_of clicked displayed =
    (if displayed = 0 then 0 else of_int (py_round (of_int clicked / of_int displayed * 1000)) / 10)"

definition url_of :: "(json \<Rightarrow> string) \<Rightarrow> json \<Rightarrow> audit_url result" where
  "url_of show row =
     try_bind (count_at row ''clicks'') (\<lambda>clicks.
     try_bind (count_at row ''impressions'') (\<lambda>impressions.
     try_bind (attr_get row ''status'' (JStr (''Index'' @ e_acute @ ''e''))) (\<lambda>st.
     try_bind (attr_get row ''path'' (JStr ''/'')) (\<lambda>path.
       (let ctr = ctr_of clicks impressions; status = value_text show st
        in Inr \<lparr>au_url = value_text show path, au_status = status, au_clicks = clicks, au_impressions = impressions, au_ctr = ctr,
             au_action = url_marketing_action status clicks impressions ctr\<rparr>)))))"

definition build_urls :: "(json \<Rightarrow> string) \<Rightarrow> json \<Rightarrow> audit_url list result" where
  "build_urls show gsc = each_in (url_of show) gsc ''sample_urls''"

record audit_gtm_finding =
  af_code :: string
  af_severity :: string
  af_title :: string
  af_detail :: string

record audit_gtm =
  at_containers :: "string list"
  at_snippet_form :: string
  at_snippet_in_head :: "bool option"
  at_data_layer_name :: string
  at_consent_platform :: "string option"
  at_server_side :: bool
  at_csp_blocks_preview :: "bool option"
  at_findings :: "audit_gtm_finding list"
  at_checked :: bool
  at_headless_checked_at :: "datetime option"

definition field_at :: "json_dict \<Rightarrow> string \<Rightarrow> string result" where
  "field_at d key = (case map_of d key of None \<Rightarrow> Inl ValueError | Some v \<Rightarrow> text_of v)"

definition finding_out :: "json \<Rightarrow> audit_gtm_finding result" where
  "finding_out v = (case v of
     JDict d \<Rightarrow> try_bind (field_at d ''code'') (\<lambda>code. try_bind (field_at d ''severity'') (\<lambda>severity.
       try_bind (field_at d ''title'') (\<lambda>title. try_bind (field_at d ''detail'') (\<lambda>detail.
         Inr \<lparr>af_code = code, af_severity = severity, af_title = title, af_detail = detail\<rparr>))))
   | _ \<Rightarrow> Inl TypeError)"

definition instant_field :: "(string \<Rightarrow> datetime result) \<Rightarrow> json \<Rightarrow> datetime option result" where
  "instant_field other_form v = (case v of
     JNull \<Rightarrow> Inr None
   | JStr s \<Rightarrow> try_bind (instant_from_iso other_form s) (\<lambda>t. Inr (Some t))
   | _ \<Rightarrow> Inl ValueError)"

definition build_gtm :: "(json \<Rightarrow> string) \<Rightarrow> (string \<Rightarrow> datetime result) \<Rightarrow> json \<Rightarrow> audit_gtm option result" where
  "build_gtm show other_form gtm =
    (if \<not> truthy gtm then Inr None
     else try_bind (attr_get gtm ''headless'' JNull) (\<lambda>h.
       (let headless = (if truthy h then h else JDict [])
        in try_bind (each_in finding_out gtm ''findings'') (\<lambda>static. try_bind (each_in finding_out headless ''findings'') (\<lambda>browser.
           try_bind (each_in text_of gtm ''containers'') (\<lambda>containers.
           try_bind (attr_get gtm ''snippet_form'' (JStr ''absent'')) (\<lambda>form.
           try_bind (try_bind (attr_get gtm ''snippet_in_head'' JNull) flag_field) (\<lambda>in_head.
           try_bind (attr_get gtm ''data_layer_name'' (JStr ''dataLayer'')) (\<lambda>layer.
           try_bind (try_bind (attr_get gtm ''consent_platform'' JNull) text_field) (\<lambda>consent.
           try_bind (attr_get gtm ''server_side'' (JBool False)) (\<lambda>server.
           try_bind (try_bind (attr_get gtm ''csp_blocks_preview'' JNull) flag_field) (\<lambda>blocks.
           try_bind (attr_get gtm ''checked_at'' JNull) (\<lambda>checked. try_bind (attr_get gtm ''error'' JNull) (\<lambda>error.
           try_bind (try_bind (attr_get headless ''checked_at'' JNull) (instant_field other_form)) (\<lambda>seen.
             Inr (Some \<lparr>at_containers = containers, at_snippet_form = value_text show form, at_snippet_in_head = in_head,
               at_data_layer_name = value_text show layer, at_consent_platform = consent, at_server_side = truthy server,
               at_csp_blocks_preview = blocks, at_findings = static @ browser, at_checked = (truthy checked \<and> \<not> truthy error),
               at_headless_checked_at = seen\<rparr>))))))))))))))))"

record audit_index_reason =
  ax_label :: string
  ax_urls :: int

record audit_index =
  ax_valid :: int
  ax_excluded :: int
  ax_reasons :: "audit_index_reason list"

definition index_reasons :: "bool \<Rightarrow> int \<Rightarrow> int \<Rightarrow> int \<Rightarrow> audit_index_reason list" where
  "index_reasons on_products excluded noindex stale =
    (if 0 < noindex then [\<lparr>ax_label = ''Exclue par la balise '' @ guil_l @ '' noindex '' @ guil_r @ (if on_products then '', dont des fiches produit'' else []),
        ax_urls = noindex\<rparr>] else []) @
    (if 0 < max 0 (excluded - noindex)
     then [\<lparr>ax_label = ''Exploree, actuellement non indexee'', ax_urls = max 0 (excluded - noindex)\<rparr>] else []) @
    (if 3 \<le> stale then [\<lparr>ax_label = ''Donnees d'' @ apos @ ''indexation absentes depuis '' @ str_int stale @ '' jours'', ax_urls = 0\<rparr>] else [])"

definition build_index :: "json \<Rightarrow> audit_index result" where
  "build_index gsc =
     try_bind (count_at gsc ''valid_pages'') (\<lambda>valid. try_bind (count_at gsc ''excluded_pages'') (\<lambda>excluded.
     try_bind (count_at gsc ''noindex_pages'') (\<lambda>noindex. try_bind (attr_get gsc ''noindex_on_products'' JNull) (\<lambda>products.
     try_bind (count_at gsc ''connection_stale_days'') (\<lambda>stale.
       Inr \<lparr>ax_valid = valid, ax_excluded = excluded, ax_reasons = index_reasons (truthy products) excluded noindex stale\<rparr>)))))"

section \<open>The page of the latest audit\<close>

record audit_response =
  ap_site_name :: string
  ap_domain :: string
  ap_captured_at :: datetime
  ap_ga4 :: audit_ga4
  ap_index :: audit_index
  ap_urls :: "audit_url list"
  ap_vitals :: "audit_vital list"
  ap_gtm :: "audit_gtm option"

definition read_page :: "(json \<Rightarrow> string) \<Rightarrow> (string \<Rightarrow> datetime result) \<Rightarrow> website \<Rightarrow> audit_snapshot \<Rightarrow> audit_response result" where
  "read_page show other_form site x =
    (let metrics = as_metrics x
     in try_bind (build_ga4 show (block_at metrics ''ga4'')) (\<lambda>ga4. try_bind (build_index (block_at metrics ''gsc'')) (\<lambda>index.
        try_bind (build_urls show (block_at metrics ''gsc'')) (\<lambda>urls. try_bind (build_vitals (block_at metrics ''cwv'')) (\<lambda>vitals.
        try_bind (build_gtm show other_form (jget metrics ''gtm'')) (\<lambda>gtm.
          Inr \<lparr>ap_site_name = ws_display_name site, ap_domain = ws_domain site, ap_captured_at = as_captured_at x, ap_ga4 = ga4,
            ap_index = index, ap_urls = urls, ap_vitals = vitals, ap_gtm = gtm\<rparr>))))))"

definition NO_AUDIT :: string where "NO_AUDIT = ''aucun audit disponible''"

definition website_audit :: "(json \<Rightarrow> string) \<Rightarrow> (string \<Rightarrow> datetime result) \<Rightarrow> uuid \<Rightarrow> uuid \<Rightarrow> 'a access_db_scheme \<Rightarrow> audit_response answer" where
  "website_audit show other_form i u db =
     try_bind (owned_website db i u) (\<lambda>site.
       (case latest_snapshot i db of
          None \<Rightarrow> Inl (Http 404 NO_AUDIT)
        | Some x \<Rightarrow> raised (read_page show other_form site x)))"

section \<open>Tag Manager in a browser\<close>

record headless_out =
  ho_report :: gtm_headless
  ho_findings :: "audit_gtm_finding list"

definition merge_headless :: "json_dict \<Rightarrow> audit_snapshot \<Rightarrow> audit_snapshot result" where
  "merge_headless block x =
     try_bind (required (as_metrics x) ''gtm'') (\<lambda>gtm. case gtm of
       JDict g \<Rightarrow> Inr (x\<lparr>as_metrics := dict_set ''gtm'' (JDict (dict_set ''headless'' (JDict block) g)) (as_metrics x)\<rparr>)
     | _ \<Rightarrow> Inl TypeError)"

text \<open>The row of the snapshot is read again after the browser: \<open>wait\<close> is what others commit meanwhile.\<close>

definition store_headless :: "uuid \<Rightarrow> json_dict \<Rightarrow> 'a access_db_scheme \<Rightarrow> 'a access_db_scheme answer" where
  "store_headless snapshot block db =
    (case find_row (\<lambda>x. as_id x = snapshot) (audit_snapshots db) of
       None \<Rightarrow> Inl Row_gone
     | Some x \<Rightarrow> try_bind (raised (merge_headless block x)) (\<lambda>x'.
         Inr (db\<lparr>audit_snapshots := update_rows (\<lambda>x. as_id x = snapshot) (\<lambda>_. x') (audit_snapshots db)\<rparr>)))"

definition verify_gtm_headless_endpoint :: "(string \<Rightarrow> gtm_headless) \<Rightarrow> ('a access_db_scheme \<Rightarrow> 'a access_db_scheme) \<Rightarrow> uuid \<Rightarrow> uuid \<Rightarrow>
    'a access_db_scheme \<Rightarrow> ('a access_db_scheme \<times> headless_out) answer" where
  "verify_gtm_headless_endpoint verifier wait i u db =
     try_bind (owned_website db i u) (\<lambda>site.
       (case latest_snapshot i db of
          None \<Rightarrow> Inl (Http 404 NO_AUDIT)
        | Some x \<Rightarrow>
            if \<not> truthy (jget (as_metrics x) ''gtm'')
            then Inl (Http 409 (''lance d'' @ apos @ ''abord un diagnostic complet (check GTM statique requis)''))
            else (let result = verifier (''https://'' @ ws_domain site); block = headless_result_to_dict result
              in try_bind (if hl_error result = None then store_headless (as_id x) block (wait db) else Inr (wait db)) (\<lambda>db'.
                 try_bind (raised (try_bind (required block ''findings'') (\<lambda>v. try_bind (iterated v) (try_map finding_out)))) (\<lambda>findings.
                   Inr (db', \<lparr>ho_report = result, ho_findings = findings\<rparr>))))))"

section \<open>Issues\<close>

definition list_website_issues :: "issue_status option \<Rightarrow> issue_severity option \<Rightarrow> uuid \<Rightarrow> uuid \<Rightarrow> 'a access_db_scheme \<Rightarrow>
    issue_item list answer" where
  "list_website_issues status_filter severity i u db =
     try_bind (owned_website db i u) (\<lambda>_. Inr (sort_key (\<lambda>x. - ii_detected_at x) (filter (\<lambda>x. ii_website_id x = i \<and>
       (case status_filter of None \<Rightarrow> True | Some s \<Rightarrow> ii_status x = s) \<and>
       (case severity of None \<Rightarrow> True | Some s \<Rightarrow> ii_severity x = s)) (issue_items db))))"

definition patch_website_issue :: "datetime \<Rightarrow> uuid \<Rightarrow> uuid \<Rightarrow> string \<Rightarrow> uuid \<Rightarrow> 'a access_db_scheme \<Rightarrow> 'a access_db_scheme answer" where
  "patch_website_issue now i issue_id status u db =
     try_bind (owned_website db i u) (\<lambda>_.
       (case patch_issue now i issue_id status (issue_items db) of
          Inl code \<Rightarrow> Inl (Http (int code) (if code = 404 then ''anomalie introuvable'' else ''statut inconnu : '' @ status))
        | Inr issues \<Rightarrow> Inr (db\<lparr>issue_items := issues\<rparr>)))"

end
