(* ===== verification/Audit_View_Props.thy ===== *)
theory Audit_View_Props
  imports Audit_View
begin

text \<open>
  What the routes of the audits promise: the JSON of a scan is read back part by part, so that the page shows the scan; a failed
  verification in the browser leaves the last report; the overview recommends a worst open issue.
\<close>

section \<open>What a scan stores can be read\<close>

lemma get_default_list [simp]:
  "get_default x [] k = x" "get_default x ((k', v) # d) k = (if k = k' then v else get_default x d k)"
  by (simp_all add: get_default_def)

lemma try_map_map: "try_map g (map f xs) = try_map (\<lambda>x. g (f x)) xs"
  by (induction xs) simp_all

lemma each_in_map:
  assumes "attr_get j key (JList []) = Inr (JList (map f xs))" "\<And>x. x \<in> set xs \<Longrightarrow> g (f x) = Inr (h x)"
  shows "each_in g j key = Inr (map h xs)"
  using try_map_all [of xs "\<lambda>x. g (f x)" h] assms by (simp add: each_in_def try_map_map)

lemma attr_get_dict [simp]: "attr_get (JDict d) key x = Inr (get_default x d key)" by (simp add: attr_get_def)

lemma truthy_texts [simp]: "truthy (texts xs) = (xs \<noteq> [])" "iterated (texts xs) = Inr (map JStr xs)"
  by (simp_all add: texts_def)

lemma value_text_str [simp]: "value_text show (JStr s) = s" by (simp add: value_text_def)

lemma all_text [simp]: "list_all is_text (map JStr xs)" by (induction xs) simp_all

lemma json_int_int [simp]: "json_int (JInt n) = Inr n" by (simp add: json_int_def)

lemma json_int_zero [simp]: "json_int (or_zero (JInt n)) = Inr n" by (simp add: or_zero_def json_int_def)

lemma read_entity_block: "read_entity (entity_block e) = Inr e"
  by (simp add: read_entity_def entity_block_def item_at_def required_def)

lemma read_asset_block: "read_asset (asset_block a) = Inr a"
  by (simp add: read_asset_def asset_block_def item_at_def required_def)

lemma float_kept: "is_float x \<Longrightarrow> py_float (JNum x) = Inr x" by (cases x) simp_all

lemma read_shift_block: "is_float (sh_impact e) \<Longrightarrow> read_shift (shift_block e) = Inr e"
  by (simp add: read_shift_def shift_block_def item_at_def required_def float_field_def float_kept)

subsection \<open>The parts of the page\<close>

definition shown_events :: "ga4_signals \<Rightarrow> (string \<times> string) list" where
  "shown_events g = (if ag_purchase_missing_params g = [] then [] else [(''purchase'', ''missing'')]) @
     map (\<lambda>e. (e, ''missing'')) (ag_missing_events g) @ (if ag_login_missing_user_id g then [(''login'', ''partial'')] else [])"

lemma missing_events_texts: "missing_events (texts xs) =
    Inr (map (\<lambda>n. ga4_event n ''missing'' (''Evenement jamais recu '' @ em_dash @ '' action non instrumentee.'')) xs)"
  by (cases "xs = []") (simp_all add: missing_events_def or_empty_def try_map_map try_map_all)

lemma read_ga4_block:
  "\<exists>a. build_ga4 show (ga4_block g) = Inr a \<and> ga_score a = ag_score g \<and> ga_status a = score_status (ag_score g) \<and>
    map (\<lambda>e. (ae_name e, ae_conformity e)) (ga_events a) = shown_events g"
proof -
  obtain es where es: "purchase_event (texts (ag_purchase_missing_params g)) = Inr es"
    "map (\<lambda>e. (ae_name e, ae_conformity e)) es = (if ag_purchase_missing_params g = [] then [] else [(''purchase'', ''missing'')])"
    by (cases "ag_purchase_missing_params g = []") (simp_all add: purchase_event_def ga4_event_def)
  show ?thesis
    by (simp add: build_ga4_def ga4_block_def count_at_def es missing_events_texts shown_events_def login_event_def)
      (simp add: ga4_event_def comp_def)
qed

lemma read_index_block:
  "build_index (gsc_block g) = Inr \<lparr>ax_valid = gs_valid_pages g, ax_excluded = gs_excluded_pages g,
     ax_reasons = index_reasons (gs_noindex_on_products g) (gs_excluded_pages g) (gs_noindex_pages g) (gs_stale_days g)\<rparr>"
  by (simp add: build_index_def gsc_block_def count_at_def)

definition shown_url :: "url_sample \<Rightarrow> audit_url" where
  "shown_url s = (let ctr = ctr_of (us_clicks s) (us_impressions s) in \<lparr>au_url = us_path s, au_status = us_status s,
     au_clicks = us_clicks s, au_impressions = us_impressions s, au_ctr = ctr,
     au_action = url_marketing_action (us_status s) (us_clicks s) (us_impressions s) ctr\<rparr>)"

lemma read_urls_block: "build_urls show (gsc_block g) = Inr (map shown_url (gs_sample_urls g))"
  unfolding build_urls_def
proof (rule each_in_map)
  show "attr_get (gsc_block g) ''sample_urls'' (JList []) = Inr (JList (map sample_block (gs_sample_urls g)))"
    by (simp add: gsc_block_def)
qed (simp add: url_of_def sample_block_def count_at_def shown_url_def Let_def)

definition shown_diagnostic :: "string \<Rightarrow> cwv_signals \<Rightarrow> cwv_diagnostic" where
  "shown_diagnostic metric c =
    (let source = (if cw_field_data c then ''field'' else ''lab'')
     in if metric = ''inp'' then (no_diagnostic metric source INP_RECS)\<lparr>cd_total_blocking_time_ms := Some (cw_total_blocking_time_ms c),
          cd_js_execution_ms := Some (cw_js_execution_ms c), cd_entities := some_items (cw_costly_entities c)\<rparr>
        else if metric = ''lcp'' then (no_diagnostic metric source LCP_RECS)\<lparr>cd_element_snippet := cw_lcp_element c,
          cd_assets := some_items (cw_lcp_assets c), cd_preload_hint := Option.bind (cw_lcp_element c) preload_hint\<rparr>
        else (no_diagnostic metric source CLS_RECS)\<lparr>cd_shift_elements := some_items (cw_shift_elements c)\<rparr>)"

definition readable_vitals :: "cwv_signals \<Rightarrow> bool" where
  "readable_vitals c = (\<bar>cw_lcp_ms c\<bar> < OVERFLOW \<and> \<bar>cw_inp_ms c\<bar> < OVERFLOW \<and> is_float (cw_cls c) \<and>
     (\<forall>e \<in> set (cw_shift_elements c). is_float (sh_impact e)))"

lemma build_diagnostic_block:
  assumes "readable_vitals c" "metric \<in> {''lcp'', ''inp'', ''cls''}"
  shows "build_diagnostic metric (if cw_field_data c then ''field'' else ''lab'') (cwv_block c) = Inr (shown_diagnostic metric c)"
proof -
  have entities: "each_in read_entity (cwv_block c) ''costly_entities'' = Inr (map (\<lambda>e. e) (cw_costly_entities c))"
    by (rule each_in_map [where f = entity_block]) (simp_all add: cwv_block_def read_entity_block)
  have assets: "each_in read_asset (cwv_block c) ''lcp_assets'' = Inr (map (\<lambda>a. a) (cw_lcp_assets c))"
    by (rule each_in_map [where f = asset_block]) (simp_all add: cwv_block_def read_asset_block)
  have shifts: "each_in read_shift (cwv_block c) ''shift_elements'' = Inr (map (\<lambda>e. e) (cw_shift_elements c))"
    using assms(1) by (intro each_in_map [where f = shift_block]) (simp_all add: cwv_block_def read_shift_block readable_vitals_def)
  have gets: "attr_get (cwv_block c) ''total_blocking_time_ms'' (JInt 0) = Inr (JInt (cw_total_blocking_time_ms c))"
    "attr_get (cwv_block c) ''js_execution_ms'' (JInt 0) = Inr (JInt (cw_js_execution_ms c))"
    "attr_get (cwv_block c) ''lcp_element'' JNull = Inr (opt_text (cw_lcp_element c))"
    by (simp_all add: cwv_block_def)
  have "read_snippet (opt_text x) = Inr (x, Option.bind x preload_hint)" for x
    by (simp add: read_snippet_def opt_text_def split: option.splits)
  with entities assets shifts gets assms(2) show ?thesis
    by (auto simp: build_diagnostic_def inp_diagnostic_def lcp_diagnostic_def cls_diagnostic_def shown_diagnostic_def Let_def)
qed

lemma rating_hint: "\<exists>h. dict_get RATING_HINT (rating raw m) = Inr h"
  by (simp add: rating_def RATING_HINT_def dict_get_def)

lemma format_vital_total: "round_number raw = Inr n \<or> u \<noteq> ''ms'' \<Longrightarrow> \<exists>s. format_vital raw u = Inr s"
  by (auto simp: format_vital_def)

lemma vital_of_block:
  assumes "readable_vitals c" "dict_get VITAL_META metric = Inr m" "metric \<in> {''lcp'', ''inp'', ''cls''}"
    "round_number raw = Inr n \<or> vm_unit m \<noteq> ''ms''"
  shows "\<exists>v. vital_of (if cw_field_data c then ''field'' else ''lab'') (cwv_block c) (metric, raw) = Inr v \<and> av_id v = metric \<and> av_raw v = raw \<and>
    av_rating v = rating raw m \<and> av_diagnostic v = (if positive raw then Some (shown_diagnostic metric c) else None)"
proof -
  obtain h where h: "dict_get RATING_HINT (rating raw m) = Inr h" using rating_hint by blast
  obtain s where s: "format_vital raw (vm_unit m) = Inr s" using format_vital_total [OF assms(4)] by blast
  show ?thesis
    by (cases "positive raw") (simp_all add: vital_of_def Let_def assms(2) h s build_diagnostic_block [OF assms(1,3)])
qed

definition shown_vital :: "cwv_signals \<Rightarrow> string \<Rightarrow> py_number \<Rightarrow> audit_vital \<Rightarrow> bool" where
  "shown_vital c metric raw v = (av_id v = metric \<and> av_raw v = raw \<and>
     (\<exists>m. dict_get VITAL_META metric = Inr m \<and> av_rating v = rating raw m) \<and>
     av_diagnostic v = (if positive raw then Some (shown_diagnostic metric c) else None))"

lemma read_vitals_block:
  assumes "readable_vitals c"
  shows "\<exists>v1 v2 v3. build_vitals (cwv_block c) = Inr [v1, v2, v3] \<and> shown_vital c ''lcp'' (PyFloat (of_int (cw_lcp_ms c))) v1 \<and>
    shown_vital c ''inp'' (PyFloat (of_int (cw_inp_ms c))) v2 \<and> shown_vital c ''cls'' (cw_cls c) v3"
proof -
  have num: "py_float (or_zero (JInt n)) = Inr (PyFloat (of_int n))" if "\<bar>n\<bar> < OVERFLOW" for n
    using that by (simp add: or_zero_def OVERFLOW_def)
  have cls: "py_float (or_zero (JNum x)) = Inr x" if "is_float x" for x
    using that by (cases x) (auto simp: or_zero_def OVERFLOW_def)
  have raws: "raw_value (cwv_block c) ''lcp_ms'' = Inr (PyFloat (of_int (cw_lcp_ms c)))"
    "raw_value (cwv_block c) ''inp_ms'' = Inr (PyFloat (of_int (cw_inp_ms c)))" "raw_value (cwv_block c) ''cls'' = Inr (cw_cls c)"
    "attr_get (cwv_block c) ''field_data'' JNull = Inr (JBool (cw_field_data c))"
    using assms num cls by (simp_all add: raw_value_def cwv_block_def readable_vitals_def)
  have meta: "dict_get VITAL_META ''lcp'' = Inr (snd (VITAL_META ! 0))" "dict_get VITAL_META ''inp'' = Inr (snd (VITAL_META ! 1))"
    "dict_get VITAL_META ''cls'' = Inr (snd (VITAL_META ! 2))" "vm_unit (snd (VITAL_META ! 0)) \<noteq> ''ms''" "vm_unit (snd (VITAL_META ! 2)) \<noteq> ''ms''"
    by (simp_all add: VITAL_META_def dict_get_def)
  have "\<exists>v. vital_of (if cw_field_data c then ''field'' else ''lab'') (cwv_block c) (metric, raw) = Inr v \<and> shown_vital c metric raw v"
    if "dict_get VITAL_META metric = Inr m" "metric \<in> {''lcp'', ''inp'', ''cls''}" "round_number raw = Inr n \<or> vm_unit m \<noteq> ''ms''"
    for metric raw m n using vital_of_block [OF assms that] that(1) by (auto simp: shown_vital_def)
  from this [OF meta(1), where raw = "PyFloat (of_int (cw_lcp_ms c))"] this [OF meta(2), where raw = "PyFloat (of_int (cw_inp_ms c))"]
    this [OF meta(3), where raw = "cw_cls c"] meta(4,5)
  obtain v1 v2 v3 where
    "vital_of (if cw_field_data c then ''field'' else ''lab'') (cwv_block c) (''lcp'', PyFloat (of_int (cw_lcp_ms c))) = Inr v1"
    "shown_vital c ''lcp'' (PyFloat (of_int (cw_lcp_ms c))) v1"
    "vital_of (if cw_field_data c then ''field'' else ''lab'') (cwv_block c) (''inp'', PyFloat (of_int (cw_inp_ms c))) = Inr v2"
    "shown_vital c ''inp'' (PyFloat (of_int (cw_inp_ms c))) v2"
    "vital_of (if cw_field_data c then ''field'' else ''lab'') (cwv_block c) (''cls'', cw_cls c) = Inr v3" "shown_vital c ''cls'' (cw_cls c) v3"
    by (simp del: of_int_eq_iff) blast
  then show ?thesis by (simp add: build_vitals_def raws)
qed

definition shown_finding :: "gtm_finding \<Rightarrow> audit_gtm_finding" where
  "shown_finding f = \<lparr>af_code = gf_code f, af_severity = severity_text (gf_severity f), af_title = gf_title f, af_detail = gf_detail f\<rparr>"

lemma finding_out_block: "finding_out (finding_block f) = Inr (shown_finding f)"
  by (simp add: finding_out_def finding_block_def field_at_def shown_finding_def)

definition shown_gtm :: "gtm_check \<Rightarrow> audit_gtm" where
  "shown_gtm g = \<lparr>at_containers = gc_containers g, at_snippet_form = form_text (gc_snippet_form g),
     at_snippet_in_head = gc_snippet_in_head g, at_data_layer_name = gc_data_layer_name g, at_consent_platform = gc_consent_platform g,
     at_server_side = gc_server_side g, at_csp_blocks_preview = gc_csp_blocks_preview g, at_findings = map shown_finding (gc_findings g),
     at_checked = (gc_checked_at g \<noteq> None \<and> (gc_error g = None \<or> gc_error g = Some [])), at_headless_checked_at = None\<rparr>"

lemma flag_field_opt [simp]: "flag_field (opt_bool b) = Inr b" by (simp add: opt_bool_def split: option.splits)

lemma text_field_opt [simp]: "text_field (opt_text s) = Inr s" by (simp add: text_field_def opt_text_def split: option.splits)

lemma iso_not_empty: "iso_datetime t \<noteq> []"
  by (simp add: iso_datetime_def Let_def)

lemma truthy_opt [simp]: "truthy (opt_instant t) = (t \<noteq> None)" "truthy (opt_text s) = (s \<noteq> None \<and> s \<noteq> Some [])"
  by (auto simp: opt_instant_def opt_text_def iso_not_empty split: option.splits)

lemma read_gtm_block: "build_gtm show other_form (gtm_block gtm) = Inr (map_option shown_gtm gtm)"
proof (cases gtm)
  case None
  then show ?thesis by (simp add: build_gtm_def gtm_block_def)
next
  case (Some g)
  obtain d where d: "gtm_block gtm = JDict d" "d \<noteq> []" by (simp add: gtm_block_def Some)
  have lists: "each_in finding_out (gtm_block gtm) ''findings'' = Inr (map shown_finding (gc_findings g))"
    by (rule each_in_map [where f = finding_block]) (simp_all add: gtm_block_def Some finding_out_block)
  have containers: "each_in text_of (gtm_block gtm) ''containers'' = Inr (map (\<lambda>s. s) (gc_containers g))"
    by (rule each_in_map [where f = JStr]) (simp_all add: gtm_block_def Some texts_def)
  have none: "each_in finding_out (JDict []) ''findings'' = Inr []" by (simp add: each_in_def)
  have gets: "attr_get (gtm_block gtm) ''headless'' JNull = Inr JNull"
    "attr_get (gtm_block gtm) ''snippet_form'' (JStr ''absent'') = Inr (JStr (form_text (gc_snippet_form g)))"
    "attr_get (gtm_block gtm) ''snippet_in_head'' JNull = Inr (opt_bool (gc_snippet_in_head g))"
    "attr_get (gtm_block gtm) ''data_layer_name'' (JStr ''dataLayer'') = Inr (JStr (gc_data_layer_name g))"
    "attr_get (gtm_block gtm) ''consent_platform'' JNull = Inr (opt_text (gc_consent_platform g))"
    "attr_get (gtm_block gtm) ''server_side'' (JBool False) = Inr (JBool (gc_server_side g))"
    "attr_get (gtm_block gtm) ''csp_blocks_preview'' JNull = Inr (opt_bool (gc_csp_blocks_preview g))"
    "attr_get (gtm_block gtm) ''checked_at'' JNull = Inr (opt_instant (gc_checked_at g))"
    "attr_get (gtm_block gtm) ''error'' JNull = Inr (opt_text (gc_error g))"
    by (simp_all add: gtm_block_def Some)
  have "truthy (gtm_block gtm)" using d by simp
  then have shown: "build_gtm show other_form (gtm_block gtm) = Inr (Some (shown_gtm g))"
    by (simp add: build_gtm_def gets lists containers none instant_field_def shown_gtm_def)
  show ?thesis
    using shown by (simp add: Some)
qed

subsection \<open>A scan, then the page\<close>

definition shows_scan :: "datetime \<Rightarrow> website \<Rightarrow> probe_data \<Rightarrow> gtm_check option \<Rightarrow> audit_response \<Rightarrow> bool" where
  "shows_scan now site data gtm page =
    (ap_site_name page = ws_display_name site \<and> ap_domain page = ws_domain site \<and> ap_captured_at page = now \<and>
     ga_score (ap_ga4 page) = ag_score (pd_ga4 data) \<and>
     map (\<lambda>e. (ae_name e, ae_conformity e)) (ga_events (ap_ga4 page)) = shown_events (pd_ga4 data) \<and>
     ax_valid (ap_index page) = gs_valid_pages (pd_gsc data) \<and> ax_excluded (ap_index page) = gs_excluded_pages (pd_gsc data) \<and>
     ap_urls page = map shown_url (gs_sample_urls (pd_gsc data)) \<and>
     (\<exists>v1 v2 v3. ap_vitals page = [v1, v2, v3] \<and> shown_vital (pd_cwv data) ''lcp'' (PyFloat (of_int (cw_lcp_ms (pd_cwv data)))) v1 \<and>
       shown_vital (pd_cwv data) ''inp'' (PyFloat (of_int (cw_inp_ms (pd_cwv data)))) v2 \<and>
       shown_vital (pd_cwv data) ''cls'' (cw_cls (pd_cwv data)) v3) \<and>
     ap_gtm page = map_option shown_gtm gtm)"

lemma read_page_of_scan:
  assumes "readable_vitals (pd_cwv data)" "as_metrics x = build_metrics detected data tls gtm"
  shows "\<exists>page. read_page show other_form site x = Inr page \<and> shows_scan (as_captured_at x) site data gtm page"
proof -
  have blocks: "block_at (as_metrics x) ''ga4'' = ga4_block (pd_ga4 data)" "block_at (as_metrics x) ''gsc'' = gsc_block (pd_gsc data)"
    "block_at (as_metrics x) ''cwv'' = cwv_block (pd_cwv data)" "jget (as_metrics x) ''gtm'' = gtm_block gtm"
    by (simp_all add: assms(2) build_metrics_def block_at_def)
  obtain a where a: "build_ga4 show (ga4_block (pd_ga4 data)) = Inr a" "ga_score a = ag_score (pd_ga4 data)"
    "map (\<lambda>e. (ae_name e, ae_conformity e)) (ga_events a) = shown_events (pd_ga4 data)" using read_ga4_block by blast
  obtain v1 v2 v3 where v: "build_vitals (cwv_block (pd_cwv data)) = Inr [v1, v2, v3]"
    "shown_vital (pd_cwv data) ''lcp'' (PyFloat (of_int (cw_lcp_ms (pd_cwv data)))) v1"
    "shown_vital (pd_cwv data) ''inp'' (PyFloat (of_int (cw_inp_ms (pd_cwv data)))) v2"
    "shown_vital (pd_cwv data) ''cls'' (cw_cls (pd_cwv data)) v3" using read_vitals_block [OF assms(1)] by blast
  show ?thesis
    using v(2-4) by (simp add: read_page_def Let_def blocks a read_index_block read_urls_block v(1) read_gtm_block shows_scan_def)
qed

lemma sort_key_least:
  assumes "y \<in> set xs" "\<And>x. x \<in> set xs \<Longrightarrow> x \<noteq> y \<Longrightarrow> f y < f x"
  shows "\<exists>ys. sort_key f xs = y # ys"
proof -
  obtain z ys where s: "sort_key f xs = z # ys" using assms(1) by (cases "sort_key f xs") (auto dest: arg_cong [where f = set])
  have "z \<in> set xs" "y \<in> set (z # ys)" using s assms(1) set_sort [of f xs] by auto
  moreover have "sorted (map f (z # ys))" using sorted_sort_key [of f xs] by (simp only: s)
  ultimately have "f z \<le> f y" by auto
  with assms(2) [OF \<open>z \<in> set xs\<close>] s show ?thesis by fastforce
qed

lemma latest_is_new:
  assumes "audit_snapshots db' = audit_snapshots db @ [x]" "as_website_id x = i"
    and "\<forall>y \<in> set (audit_snapshots db). as_website_id y = i \<longrightarrow> as_captured_at y < as_captured_at x"
  shows "latest_snapshot i db' = Some x"
proof -
  have "\<exists>ys. sort_key (\<lambda>y. - as_captured_at y) (filter (\<lambda>y. as_website_id y = i) (audit_snapshots db')) = x # ys"
    using assms by (intro sort_key_least) auto
  then show ?thesis by (auto simp: latest_snapshot_def)
qed

lemma find_updated_site:
  "find_row (\<lambda>w. ws_id w = i) ws = Some s \<Longrightarrow> ws_id s' = i \<Longrightarrow>
    find_row (\<lambda>w. ws_id w = i) (update_rows (\<lambda>w. ws_id w = i) (\<lambda>_. s') ws) = Some s'"
  by (induction ws) (auto simp: find_row_def update_rows_def split: if_splits)

lemma scanned_site_sel [simp]:
  "ws_id (scanned_site sv s) = ws_id s" "ws_workspace_id (scanned_site sv s) = ws_workspace_id s"
  "ws_display_name (scanned_site sv s) = ws_display_name s" "ws_domain (scanned_site sv s) = ws_domain s"
  by (simp_all add: scanned_site_def Let_def apply_tls_status_def split: option.splits)

text \<open>
  C39: What a scan has seen is what the page of the audit shows. When a scan succeeds, the page of the site is answered without an
  error and is that scan's: its instant, the score and the events of Analytics, the counts and the pages of Search Console, the three
  vitals with the diagnostic of each that was measured, and the check of Tag Manager with its findings.
\<close>

theorem scan_is_shown:
  assumes "scan_website sv draw snapshot now ip i u db = Inr (db', response)"
    and "\<forall>x \<in> set (audit_snapshots db). as_website_id x = i \<longrightarrow> as_captured_at x < now"
    and "\<And>site links conns data conns'. au_probe sv site links conns = Inr (data, conns') \<Longrightarrow> readable_vitals (pd_cwv data)"
  shows "\<exists>site data conns page. website_by_id db i = Some site \<and>
    au_probe sv (scanned_site sv site) (google_links db) (google_connections db) = Inr (data, conns) \<and>
    website_audit show other_form i u db' = Inr page \<and> shows_scan now site data (gtm_seen sv site) page"
proof -
  obtain site run where site: "website_by_id db i = Some site" "is_member db (ws_workspace_id site) u"
    and run: "run_audit sv draw snapshot now site (Some u) ip db = Inr (db', run)"
    using assms(1) by (auto simp: scan_website_def scan_answer_Inr)
  have i: "ws_id site = i" using site(1) by (auto simp: website_by_id_def dest: find_row_SomeD)
  obtain data conns where probe: "au_probe sv (scanned_site sv site) (google_links db) (google_connections db) = Inr (data, conns)"
    and db': "audit_snapshots db' = audit_snapshots db @ [\<lparr>as_id = snapshot, as_website_id = i, as_captured_at = now,
        as_source = ''composite'', as_metrics = build_metrics (stack_seen sv site) data (tls_seen sv site) (gtm_seen sv site)\<rparr>]"
      "websites db' = update_rows (\<lambda>w. ws_id w = i) (\<lambda>_. scanned_site sv site) (websites db)"
      "workspace_members db' = workspace_members db"
    using run i by (auto simp: run_audit_def Let_def)
  define x where "x = \<lparr>as_id = snapshot, as_website_id = i, as_captured_at = now,
        as_source = ''composite'', as_metrics = build_metrics (stack_seen sv site) data (tls_seen sv site) (gtm_seen sv site)\<rparr>"
  have latest: "latest_snapshot i db' = Some x"
    by (rule latest_is_new [OF db'(1) [folded x_def]]) (use assms(2) in \<open>simp_all add: x_def\<close>)
  have "website_by_id db' i = Some (scanned_site sv site)"
    using find_updated_site [of i "websites db" site "scanned_site sv site"] site(1) i by (simp add: website_by_id_def db'(2))
  moreover have "is_member db' w u = is_member db w u" for w by (simp add: is_member_def membership_def db'(3))
  ultimately have owned: "owned_website db' i u = Inr (scanned_site sv site)" using site(2) by simp
  obtain page where page: "read_page show other_form (scanned_site sv site) x = Inr page"
    "shows_scan now (scanned_site sv site) data (gtm_seen sv site) page"
    using read_page_of_scan [OF assms(3) [OF probe], of x "stack_seen sv site" "tls_seen sv site" "gtm_seen sv site" "show" other_form
        "scanned_site sv site"] by (auto simp: x_def)
  have "website_audit show other_form i u db' = Inr page"
    unfolding website_audit_def owned by (simp add: latest page(1))
  moreover have "shows_scan now site data (gtm_seen sv site) page" using page(2) by (simp add: shows_scan_def)
  ultimately show ?thesis using site(1) probe by blast
qed

definition scan_demo :: "access_db \<Rightarrow> (access_db \<times> scan_response) answer" where
  "scan_demo = scan_website quiet_services (\<lambda>_. 1) 2 50 None 7 9"

lemma neutral_readable: "readable_vitals (pd_cwv NEUTRAL)"
  by code_simp

lemma scan_is_shown_witness:
  "\<exists>db' response page. scan_demo tracked_db = Inr (db', response) \<and> website_audit (\<lambda>_. []) (\<lambda>_. Inl ValueError) 7 9 db' = Inr page \<and>
    ap_captured_at page = 50"
proof -
  obtain db' response where scan: "scan_website quiet_services (\<lambda>_. 1) 2 50 None 7 9 tracked_db = Inr (db', response)"
    using demo_member by (simp add: scan_website_def run_audit_def quiet_services_def Let_def)
  have "\<forall>x \<in> set (audit_snapshots tracked_db). as_website_id x = 7 \<longrightarrow> as_captured_at x < 50" by (simp add: tracked_db_def empty_db_def)
  moreover have "readable_vitals (pd_cwv data)" if "au_probe quiet_services site links conns = Inr (data, conns')" for site links conns data conns'
    using that neutral_readable by (auto simp: quiet_services_def)
  ultimately obtain page site data where "website_audit (\<lambda>_. []) (\<lambda>_. Inl ValueError) 7 9 db' = Inr page"
    "shows_scan 50 site data (gtm_seen quiet_services site) page"
    using scan_is_shown [OF scan] by blast
  then show ?thesis using scan by (auto simp: scan_demo_def shows_scan_def)
qed

section \<open>A verification in the browser\<close>

lemma jget_set [simp]: "jget (dict_set k v d) k' = (if k' = k then v else jget d k')"
  by (simp add: jget_def get_default_def map_of_dict_set)

lemma get_default_set [simp]: "get_default x (dict_set k v d) k' = (if k' = k then v else get_default x d k')"
  by (simp add: get_default_def map_of_dict_set)

lemma dict_set_not_empty [simp]: "dict_set k v d \<noteq> []"
  by (cases d) (auto simp: dict_set_def split: if_splits)

lemma each_in_set: "key \<noteq> k \<Longrightarrow> each_in f (JDict (dict_set k v g)) key = each_in f (JDict g) key"
  by (simp add: each_in_def)

lemma read_headless_block:
  "each_in finding_out (JDict (headless_result_to_dict r)) ''findings'' = Inr (map shown_finding (hl_findings r))"
  by (rule each_in_map [where f = finding_block]) (simp_all add: headless_result_to_dict_def finding_out_block)

lemma gtm_with_headless:
  assumes "build_gtm show other_form (JDict g) = Inr (Some a)" "printable_instant (hl_checked_at r)"
  shows "\<exists>static browser. at_findings a = static @ browser \<and>
    build_gtm show other_form (JDict (dict_set ''headless'' (JDict (headless_result_to_dict r)) g)) =
      Inr (Some (a\<lparr>at_findings := static @ map shown_finding (hl_findings r), at_headless_checked_at := Some (hl_checked_at r)\<rparr>))"
proof -
  have full: "truthy (JDict (dict_set ''headless'' (JDict (headless_result_to_dict r)) g))" by simp
  have block: "truthy (JDict (headless_result_to_dict r))"
    "get_default JNull (headless_result_to_dict r) ''checked_at'' = JStr (iso_datetime (hl_checked_at r))"
    by (simp_all add: headless_result_to_dict_def)
  have at: "instant_field other_form (JStr (iso_datetime (hl_checked_at r))) = Inr (Some (hl_checked_at r))"
    using instant_from_iso_datetime [of "hl_checked_at r" other_form] assms(2) by (simp add: instant_field_def printable_instant_def)
  from assms(1) show ?thesis
    by (auto simp: build_gtm_def Let_def each_in_set full block at read_headless_block simp del: truthy.simps split: if_splits)
qed

lemma merge_headless_Inr:
  assumes "merge_headless block x = Inr x'"
  shows "\<exists>g. jget (as_metrics x) ''gtm'' = JDict g \<and> x' = x\<lparr>as_metrics := as_metrics x'\<rparr> \<and>
    jget (as_metrics x') ''gtm'' = JDict (dict_set ''headless'' (JDict block) g) \<and>
    (\<forall>key. key \<noteq> ''gtm'' \<longrightarrow> jget (as_metrics x') key = jget (as_metrics x) key)"
  using assms by (auto simp: merge_headless_def required_def jget_def [of "as_metrics x" "''gtm''"] get_default_def split: option.splits json.splits)


definition checked_db :: access_db where
  "checked_db = tracked_db\<lparr>audit_snapshots := [\<lparr>as_id = 4, as_website_id = 7, as_captured_at = 50, as_source = ''composite'',
     as_metrics = [(''gtm'', gtm_block (Some default_gtm_check))]\<rparr>]\<rparr>"

definition loaded_report :: gtm_headless where
  "loaded_report = (failed_headless_result 60)\<lparr>hl_error := None, hl_gtm_js_loaded := True\<rparr>"

lemma checked_snapshot: "latest_snapshot 7 checked_db = Some (hd (audit_snapshots checked_db))"
  by (simp add: latest_snapshot_def checked_db_def)

lemma verified_demo: "\<exists>db' out. verify_gtm_headless_endpoint (\<lambda>_. loaded_report) (\<lambda>db. db) 7 9 checked_db = Inr (db', out) \<and> ho_report out = loaded_report"
proof -
  have owned: "owned_website checked_db 7 9 = Inr (hd (websites tracked_db))"
    using demo_member by (simp add: checked_db_def website_by_id_def is_member_def membership_def)
  obtain g where g: "gtm_block (Some default_gtm_check) = JDict g" "g \<noteq> []" by (simp add: gtm_block_def)
  have "hl_error loaded_report = None" by (simp add: loaded_report_def)
  moreover have "required (headless_result_to_dict loaded_report) ''findings'' = Inr (JList (map finding_block (hl_findings loaded_report)))"
    by (simp add: required_def headless_result_to_dict_def)
  moreover have "try_map finding_out (map finding_block (hl_findings loaded_report)) = Inr (map shown_finding (hl_findings loaded_report))"
    by (simp add: try_map_map finding_out_block try_map_all)
  ultimately show ?thesis
    unfolding verify_gtm_headless_endpoint_def owned try_bind.simps checked_snapshot
    by (simp add: checked_db_def g jget_def Let_def store_headless_def find_row_def merge_headless_def required_def)
qed


section \<open>What the overview recommends\<close>

text \<open>The recommendation is an issue that is open, and none that is open is worse; without one, none is open.\<close>

lemma worse_trans: "\<not> worse y x \<Longrightarrow> \<not> worse z y \<Longrightarrow> \<not> worse z x"
  by (auto simp: worse_def)

lemma worse_irrefl: "\<not> worse x x"
  by (simp add: worse_def)

lemma worst_of:
  "(let b = fold (\<lambda>y best. if worse best y then y else best) xs x in b \<in> set (x # xs) \<and> (\<forall>y \<in> set (x # xs). \<not> worse b y))"
proof (induction xs rule: rev_induct)
  case (snoc y xs)
  define b where "b = fold (\<lambda>y best. if worse best y then y else best) xs x"
  have b: "b \<in> set (x # xs)" "\<forall>z \<in> set (x # xs). \<not> worse b z" using snoc by (simp_all add: b_def Let_def)
  show ?case
  proof (cases "worse b y")
    case True
    then have "\<not> worse y b" by (auto simp: worse_def)
    with b(2) have "\<forall>z \<in> set (x # xs). \<not> worse y z" using worse_trans by blast
    with True show ?thesis by (simp add: b_def [symmetric] Let_def worse_irrefl)
  next
    case False
    with b show ?thesis by (auto simp: b_def [symmetric] Let_def)
  qed
qed (simp add: worse_def)

lemma worst_recommended:
  "case top_issue (filter (open_issue i) xs) of
     None \<Rightarrow> \<forall>y \<in> set xs. \<not> open_issue i y
   | Some b \<Rightarrow> b \<in> set xs \<and> open_issue i b \<and> (\<forall>y \<in> set xs. open_issue i y \<longrightarrow> \<not> worse b y)"
proof (cases "filter (open_issue i) xs")
  case Nil
  then show ?thesis by (simp add: top_issue_def filter_empty_conv)
next
  case (Cons x rest)
  have "set (x # rest) = {y \<in> set xs. open_issue i y}" using Cons by (metis set_filter)
  with worst_of [of rest x] show ?thesis by (auto simp: top_issue_def Cons Let_def)
qed

section \<open>A vital that was not measured\<close>

text \<open>A scan without a reading of the speed stores zeros; the page rates them as good.\<close>

lemma unmeasured_rated_good: "\<exists>vs. build_vitals (cwv_block (cwv_score 0)) = Inr vs \<and> map av_rating vs = [''good'', ''good'', ''good'']"
proof -
  have "readable_vitals (cwv_score 0)" by (simp add: readable_vitals_def cwv_score_def OVERFLOW_def)
  from read_vitals_block [OF this] show ?thesis
    by (auto simp: shown_vital_def cwv_score_def VITAL_META_def dict_get_def rating_def at_most_def)
qed

end
