(* ===== verification/Spec2Isabelle.thy ===== *)
theory Spec2Isabelle
  imports Job_Health Job_Intake Measurement_Edits Job_Work Gtm_Generator Audit_Issues Gtm_Headless Access Metric_Routes Audit_View_Props
begin

text \<open>
  Guiili's control centre (\<open>src/backend/app\<close>) watches the web sites of its users. A scheduler plans periodic
  work, a queue delivers it to a worker, the worker collects measures from Google and from the site itself and
  stores them by day, week and month; a measurement plan tells for each site which tags, events and settings
  are in place, with a proof for each; and the product writes the code and the Tag Manager containers to
  install. This development models that core, function by function, and proves what it promises.

  \<^bold>\<open>Conventions.\<close> An instant or a duration is an integer number of microseconds, the resolution of
  \<open>datetime\<close>, and a date the number of its day (\<open>date.toordinal\<close>); all instants are in UTC, as in the code.
  Python's integers are \<open>int\<close>, the state of SHA-256 is made of 32-bit words, and a float is an exact rational: what is
  stated of sums and means holds of exact arithmetic. Texts are lists of characters, the bytes of UTF-8
  (\<open>French_Text\<close> names those a HOL literal does not hold). A raise is the value \<open>Inl\<close> of a result, with the Python
  exception or the error of the component; a return is \<open>Inr\<close>. A table is the list of its rows and a transaction
  a function on a record of tables (\<open>Prelude\<close>): a statement that the database would refuse is an \<open>Inl\<close>, and what
  is rolled back is the state before.

  \<^bold>\<open>Foundations.\<close> \<open>Prelude\<close> holds results, tables and the lemmas every component shares; \<open>Calendar\<close> the
  proleptic calendar, with years 1 to 9999 and the errors past them; \<open>Text_Format\<close> fixed-width digits, UUIDs
  and the formats of keys; \<open>Date_Text\<close> the reading of dates; \<open>Sha256\<close> the digest; \<open>Regex\<close> the part of \<open>re\<close> the code
  uses, with greedy matching; \<open>Py_Dict\<close> dictionaries in insertion order; \<open>Json\<close> JSON values and the numbers
  in them.

  \<^bold>\<open>Background jobs\<close> (\<open>services/jobs\<close>, \<open>api/internal.py\<close>). \<open>Job_Kinds\<close> is \<open>kinds.py\<close>: kinds of task, frequencies,
  the slot grid, run keys, payloads. \<open>Job_Store\<close> holds the rows of \<open>job_runs\<close>, \<open>schedules\<close>, \<open>websites\<close> and
  \<open>source_quota_events\<close> and their unique keys. \<open>Job_Runner\<close> is \<open>runner.py\<close>: claim, lease, closing,
  classification of what a handler raises. \<open>Job_Queue\<close> is \<open>queue.py\<close> and \<open>cloud_tasks.py\<close>; the locale \<open>task_queue\<close> is
  what the scheduler asks of a queue and Cloud Tasks its interpretation. \<open>Job_Scheduler\<close> is \<open>scheduler.py\<close> and
  \<open>schedules.py\<close>, the pass in its four transactions. \<open>Job_Safety\<close> collects every transaction on \<open>job_runs\<close> in the
  step relation \<open>run_step\<close> and proves its invariant by rule induction, under any interleaving; \<open>row_step\<close> is
  what one row can live through. \<open>Job_Execution\<close> is a delivery from claim to closing, over the locale
  \<open>run_handlers\<close> of what a handler may do. \<open>Job_Pass\<close>, \<open>Job_Tick\<close> and \<open>Job_Pass_Props\<close> prove what a pass guarantees, the
  locale \<open>pass_queue\<close> extending \<open>task_queue\<close> with the invariant of the runs (both queues interpret it).
  \<open>Job_Intake\<close> is the worker's routes: body of a task, coherence, the lock of the browser worker. \<open>Job_Health\<close>
  is \<open>health.py\<close> and \<open>messages.py\<close>. \<open>Job_Handlers\<close> is \<open>handlers.py\<close>, which interprets \<open>run_handlers\<close> on the real
  handlers, and \<open>Job_Work\<close> proves what the worker promises with them: retries, interruptions, the circuit
  breaker.

  \<^bold>\<open>Measures\<close> (\<open>services/metrics\<close>). \<open>Metric_Types\<close>, \<open>Metric_Registry\<close> and \<open>Metric_Dimensions\<close> are \<open>types.py\<close>,
  \<open>registry.py\<close> and \<open>dimensions.py\<close>: windows and their chunks, the metrics, the cleaning of dimensions.
  \<open>Metric_Aggregate\<close> is \<open>aggregate.py\<close>, with a locale \<open>period_grid\<close> for weeks and months. \<open>Metric_Store\<close> is \<open>store.py\<close>:
  points replaced by window, rollups recomputed. \<open>Metric_Series\<close> is \<open>series.py\<close> and \<open>Metric_Partitions\<close> \<open>partitions.py\<close>.
  \<open>Google_Access\<close> (\<open>google_access.py\<close>, \<open>credentials.py\<close>), \<open>Google_Sources\<close> (\<open>google_http.py\<close>, \<open>ga4.py\<close>, \<open>gsc.py\<close>)
  and \<open>Site_Sources\<close> (\<open>cwv.py\<close>, \<open>probes.py\<close>, \<open>factory.py\<close>) are the sources the handlers open; \<open>Tls_Check\<close> is
  \<open>tls_check.py\<close>.

  \<^bold>\<open>Measurement plan\<close> (\<open>services/measurement\<close>). \<open>Measurement_Catalog\<close> is \<open>catalog.py\<close> and \<open>types.py\<close>: the items.
  \<open>Site_Types\<close> is \<open>site_types.py\<close>, \<open>Gtm_Check\<close> \<open>gtm_check.py\<close>, \<open>Google_Reader\<close> \<open>google_reader.py\<close>, \<open>Event_Snippets\<close>
  \<open>snippet_library.py\<close> and \<open>event_snippets.py\<close>. \<open>Measurement_Checks\<close> is \<open>checks.py\<close>, the evaluation of an item on
  the facts. \<open>Measurement_Plan\<close> is \<open>service.py\<close>: the refresh of a plan, its rows and its history, with its
  properties in \<open>Measurement_Plan_Props\<close>; \<open>Measurement_View\<close> the view it serves; \<open>Measurement_Edits\<close> the routes that
  edit it. \<open>Gtm_Generator\<close> is \<open>gtm_generator.py\<close>, the containers for import; \<open>Gtm_Headless\<close> is \<open>gtm_headless.py\<close> and
  \<open>worker_client.py\<close>, the check in a real browser, its form in JSON and its delegation to the worker. \<open>Site_Links\<close> is
  \<open>autolink.py\<close>: the automatic choice of the Google properties of a site.

  \<^bold>\<open>Audit\<close> (\<open>services\<close>). \<open>Stack_Detector\<close> is \<open>stack_detector.py\<close>, \<open>Page_Speed\<close> \<open>pagespeed.py\<close>, \<open>Audit_Signals\<close>
  \<open>audit_signals.py\<close> and \<open>Audit_Probe\<close> \<open>audit_probe.py\<close>: what a scan reads of a site. \<open>Audit_Engine\<close> is
  \<open>audit_engine.py\<close>: the anomalies of the signals, their fingerprints, the rows of a scan; \<open>Audit_Issues\<close> proves the life
  of an issue over scans and edits. \<open>Audit_View\<close> is \<open>audit.py\<close> of the routes: the overview and the page read from the JSON of
  the latest snapshot, the verification in a browser; \<open>Audit_View_Props\<close> shows that a scan is read back as it was.

  \<^bold>\<open>Accounts and sites\<close> (\<open>security\<close>, \<open>services\<close>, \<open>api/v1/endpoints\<close>). \<open>Rate_Limit\<close> is \<open>rate_limit.py\<close>, the sliding-window
  limiter of the routes; \<open>Session_Cookie\<close> is \<open>session.py\<close> and \<open>pkce.py\<close>, with base64 and HMAC on the digest of \<open>Sha256\<close>.
  \<open>Workspaces\<close> is \<open>workspaces.py\<close>, \<open>workspace_invites.py\<close>, \<open>oauth_state.py\<close> and \<open>connections.py\<close> on the tables of users;
  \<open>Accounts\<close> is \<open>auth.py\<close>, \<open>workspaces.py\<close> and \<open>connections.py\<close> of the routes, \<open>Websites\<close> \<open>websites.py\<close> and \<open>google.py\<close>.
  \<open>Access\<close> collects the requests in the step relations \<open>access_step\<close> (who is a member of what, by rule induction) and
  \<open>user_request\<close> (what a user can change), and proves who may reach what. \<open>Metric_Routes\<close> is
  \<open>metrics.py\<close> of the routes: the series of a measure with its bounds and its comparison, and the owner's change of a schedule.

  \<^bold>\<open>What the properties show.\<close> For the jobs: the limits of concurrency and of the day hold in every reachable
  state; a lease protects a run, a finished run is not run again, a late closing is ignored; a pass loses no
  planned run, takes a schedule out of the due set, materialises exactly the default schedules and expires what
  is stuck; the worker accepts what the scheduler deposits and never crosses workspaces; the health report
  lists exactly the failing schedules; a redelivery is asked for exactly when attempts are left; three quota
  failures open the breaker, which closes by itself. For the measures: rollups are at all times the
  aggregate of the stored days, whatever stops a collection; a store is idempotent and keeps the strongest
  values; a series is the same from rollups or from days, no request for one ends in an error of the server, every day that is
  kept can be asked for, and only the owner changes a schedule; periods cover a window, and additive sums agree;
  dimensions hold no personal data and their cleaning is idempotent; partitions are created without losing a
  point and purged without removing a retained one; a paged report is read whole or declared truncated. For the
  plan: what could not be seen is never taken for an absence and no more proof is claimed than an item can
  have; a refresh updates the whole catalogue and keeps what people decided; the history can be replayed;
  the view adds up and its next actions are the most useful. A container of chosen items refers only to what
  it holds; a site is only linked to a property when the choice is certain; delegating the browser to the worker
  changes nothing of its report. For the audit: a scan opens, keeps, reopens and closes exactly the issues its
  signals call for, and no edit breaks them; the page shows what the last scan saw, and a failed verification in the browser
  leaves the last report; a stack is named on evidence. The limiter lets no more through
  than its limit in any window, and tells when the next request passes. For the accounts: a session is read back
  until its end and only from a signed payload; every membership is the owner's or rests on an accepted
  invitation; a request changes nothing of a workspace its user is not a member of; a new site goes to a
  workspace its user owns; states, links and invitations are used once.

  \<^bold>\<open>Bounds and recursion.\<close> Loops over data are structural. The chunks of a window, the periods of a window, the
  words of a path and the blocks of a digest are functions with a measure. The paged readings of Google's
  reports have the page limit of the code as fuel (twenty pages): reaching it is the truncation error of the code,
  so no fuel is added. Everything returns; where the code raises, the model does, and the theorems say when a
  call returns.

  \<^bold>\<open>Parameters.\<close> What lies outside the repository is an argument of the definitions that use it: the answers of HTTP
  services and of Cloud Tasks, the refresh of a token, TLS handshakes, the fetching of a page, the run of
  the headless browser, the identifiers drawn by the database, and the clock, read where the code reads it
  (once for a delivery). Hypotheses on them are those of the statements: for instance a
  service that holds a list of rows and answers with the page asked for.

  \<^bold>\<open>Not modelled, and why.\<close> The database, its isolation and its locks: transactions are atomic steps and an
  advisory lock the order of the calls. Routing, dependency injection and logging, which only
  wire these functions together. The hashing of passwords, the encryption of tokens and the check of identity tokens, which
  rest on cryptographic libraries, and the client of Google, which only calls its services: parameters. The language model of
  the advisor, e-mails and the driving of the browser, which only call services. Unicode beyond ASCII in cleaned dimensions and in case folding.

  \<^bold>\<open>Findings.\<close> Modelling showed some places where code and intention differ; each is a lemma of the component
  concerned: the window pattern of a task and the patterns of the identifiers of a profile admit a trailing line feed
  (\<open>window_newline_accepted\<close>, \<open>ads_id_newline_accepted\<close>), an integer too large for a float escapes two
  guards (\<open>huge_value_escapes\<close>, \<open>huge_clicks_escape\<close>), a header named twice escapes the parser (\<open>repeated_header_escapes\<close>),
  a mark can be answered without being recorded (\<open>mark_lost_without_row\<close>), a refused certificate has no
  date (\<open>refused_certificate_unobserved\<close>), the general container sends clicked addresses
  (\<open>general_container_sends_address\<close>), signals that could not be read close issues as fixed (\<open>outage_closes_issue\<close>), a
  network error escapes the probe (\<open>network_failure_escapes\<close>), a header hides a shop (\<open>shop_with_header\<close>) and a best
  value of zero is taken for a missing one (\<open>zero_field_cls_ignored\<close>), one address of a stream can fail the whole linking
  (\<open>bad_stream_address_escapes\<close>), a login lock can be collected before its end (\<open>lock_collected_early\<close>), a cookie that is not ASCII
  raises (\<open>foreign_signature_raises\<close>), and in \<open>Access\<close>: a site can be linked to a connection of another workspace
  (\<open>foreign_connection_linked\<close>), a state survives a failed exchange (\<open>state_survives_failure\<close>), a sign-in can send the browser
  anywhere (\<open>redirect_anywhere\<close>), odd domains are accepted (\<open>odd_domains_accepted\<close>), and a domain tracked in two workspaces
  is an internal error (\<open>twice_tracked_crashes\<close>); and the page of an audit rates as good a vital that was not measured
  (\<open>unmeasured_rated_good\<close>).
\<close>

end
